(* ===== verification/Go_Prelude.thy ===== *)
theory Go_Prelude
  imports Main "HOL-Library.List_Lexorder" "HOL-Library.Char_ord" "HOL-Library.AList"
    "HOL-Library.Multiset"
begin

text \<open>
  The part of Go every component uses: strings as byte lists with \<open>strings.TrimSpace\<close> and
  \<open>strings.ToLower\<close>, 64-bit integers, error values with wrapping and \<open>errors.Is\<close>, maps as
  association lists, and \<open>sort.Slice\<close>. Two \<^verbatim>\<open>named_theorems\<close> collections carry the
  component proofs: \<open>go_str\<close> (string normalisation) and \<open>go_map\<close> (map lookups).
\<close>

named_theorems go_str
named_theorems go_map

section \<open>Strings\<close>

text \<open>
  A Go string is a sequence of bytes, and \<open>string\<close> is one too. \<open>strings.TrimSpace\<close> strips
  every code point with the Unicode property White Space; in UTF-8 these are six single bytes,
  two two-byte and the three-byte sequences of \<open>space3\<close>. A trailing (leading) match of such a
  sequence is exactly what Go's last-rune (first-rune) decoding finds.
\<close>

definition space1 :: "char \<Rightarrow> bool" where
  "space1 c \<longleftrightarrow> c \<in> set [CHR 0x09, CHR 0x0A, CHR 0x0B, CHR 0x0C, CHR 0x0D, CHR 0x20]"

definition space2 :: "char \<Rightarrow> char \<Rightarrow> bool" where
  "space2 a b \<longleftrightarrow> a = CHR 0xC2 \<and> (b = CHR 0x85 \<or> b = CHR 0xA0)"

definition space3 :: "char \<Rightarrow> char \<Rightarrow> char \<Rightarrow> bool" where
  "space3 a b c \<longleftrightarrow>
     a = CHR 0xE1 \<and> b = CHR 0x9A \<and> c = CHR 0x80 \<or>
     a = CHR 0xE2 \<and> b = CHR 0x80 \<and>
       c \<in> set [CHR 0x80, CHR 0x81, CHR 0x82, CHR 0x83, CHR 0x84, CHR 0x85, CHR 0x86, CHR 0x87,
               CHR 0x88, CHR 0x89, CHR 0x8A, CHR 0xA8, CHR 0xA9, CHR 0xAF] \<or>
     a = CHR 0xE2 \<and> b = CHR 0x81 \<and> c = CHR 0x9F \<or>
     a = CHR 0xE3 \<and> b = CHR 0x80 \<and> c = CHR 0x80"

fun trim_with ::
  "(char \<Rightarrow> bool) \<Rightarrow> (char \<Rightarrow> char \<Rightarrow> bool) \<Rightarrow> (char \<Rightarrow> char \<Rightarrow> char \<Rightarrow> bool) \<Rightarrow> string \<Rightarrow> string" where
  "trim_with p q r [] = []"
| "trim_with p q r [a] = (if p a then [] else [a])"
| "trim_with p q r [a, b] =
     (if p a then trim_with p q r [b] else if q a b then [] else [a, b])"
| "trim_with p q r (a # b # c # s) =
     (if p a then trim_with p q r (b # c # s)
      else if q a b then trim_with p q r (c # s)
      else if r a b c then trim_with p q r s
      else a # b # c # s)"

definition trim_left :: "string \<Rightarrow> string" where
  "trim_left = trim_with space1 space2 space3"

definition trim_right :: "string \<Rightarrow> string" where
  "trim_right s = rev (trim_with space1 (\<lambda>a b. space2 b a) (\<lambda>a b c. space3 c b a) (rev s))"

definition trim_space :: "string \<Rightarrow> string" where
  "trim_space s = trim_right (trim_left s)"

text \<open>
  \<open>strings.ToLower\<close> on ASCII letters. Letters outside ASCII, which Go lowers by the Unicode
  tables, are left as they are: the code lowers e-mail addresses, account names and modes.
\<close>

definition lower_char :: "char \<Rightarrow> char" where
  "lower_char c = (let n = (of_char c :: nat) in if 65 \<le> n \<and> n \<le> 90 then char_of (n + 32) else c)"

definition to_lower :: "string \<Rightarrow> string" where
  "to_lower s = map lower_char s"

definition norm_name :: "string \<Rightarrow> string" where
  "norm_name s = to_lower (trim_space s)"

definition has_prefix :: "string \<Rightarrow> string \<Rightarrow> bool" where
  "has_prefix p s \<longleftrightarrow> take (length p) s = p"

definition has_suffix :: "string \<Rightarrow> string \<Rightarrow> bool" where
  "has_suffix p s \<longleftrightarrow> has_prefix (rev p) (rev s)"

text \<open>Decimal output of \<open>strconv.Itoa\<close> and \<open>%d\<close>.\<close>

fun nat_digits :: "nat \<Rightarrow> string" where
  "nat_digits n =
     (if n < 10 then [char_of (48 + n)] else nat_digits (n div 10) @ [char_of (48 + n mod 10)])"

declare nat_digits.simps [simp del]

definition itoa :: "int \<Rightarrow> string" where
  "itoa i = (if i < 0 then CHR ''-'' # nat_digits (nat (- i)) else nat_digits (nat i))"

fun join_with :: "string \<Rightarrow> string list \<Rightarrow> string" where
  "join_with sep [] = []"
| "join_with sep [x] = x"
| "join_with sep (x # xs) = x @ sep @ join_with sep xs"

text \<open>\<open>strings.Split\<close> on a single byte: \<open>n\<close> separators give \<open>n + 1\<close> pieces.\<close>

fun split_on :: "char \<Rightarrow> string \<Rightarrow> string list" where
  "split_on d [] = [[]]"
| "split_on d (c # s) =
     (if c = d then [] # split_on d s
      else (case split_on d s of [] \<Rightarrow> [[c]] | w # ws \<Rightarrow> (c # w) # ws))"

lemma split_on_nonempty [simp]: "split_on d s \<noteq> []"
  by (induction s) (auto split: list.splits)

subsection \<open>Laws of trimming and lowering\<close>

lemma length_trim_with: "length (trim_with p q r s) \<le> length s"
  by (induction p q r s rule: trim_with.induct) auto

lemma trim_with_idem [simp]: "trim_with p q r (trim_with p q r s) = trim_with p q r s"
  by (induction p q r s rule: trim_with.induct) auto

fun space_head ::
  "(char \<Rightarrow> bool) \<Rightarrow> (char \<Rightarrow> char \<Rightarrow> bool) \<Rightarrow> (char \<Rightarrow> char \<Rightarrow> char \<Rightarrow> bool) \<Rightarrow> string \<Rightarrow> bool" where
  "space_head p q r [] = False"
| "space_head p q r [a] = p a"
| "space_head p q r [a, b] = (p a \<or> q a b)"
| "space_head p q r (a # b # c # s) = (p a \<or> q a b \<or> r a b c)"

lemma trim_with_shorter: "trim_with p q r s \<noteq> a # s" "trim_with p q r s \<noteq> a # b # s"
  "trim_with p q r s \<noteq> a # b # c # s"
  using length_trim_with [of p q r s] by (auto dest: arg_cong [where f = length])

lemma trim_with_fixed_iff: "trim_with p q r s = s \<longleftrightarrow> \<not> space_head p q r s"
  using trim_with_shorter [of p q r]
  by (cases "(p, q, r, s)" rule: trim_with.cases) (auto split: if_splits)

lemma space_head_append: "space_head p q r xs \<Longrightarrow> space_head p q r (xs @ ys)"
proof (induction p q r xs rule: space_head.induct)
  case (2 p q r a)
  then show ?case by (cases "(p, q, r, [a] @ ys)" rule: space_head.cases) auto
next
  case (3 p q r a b)
  then show ?case by (cases ys) auto
qed auto

lemma trim_with_fixed_prefix:
  "trim_with p q r (xs @ ys) = xs @ ys \<Longrightarrow> trim_with p q r xs = xs"
  using space_head_append by (auto simp: trim_with_fixed_iff)

lemma trim_with_suffix: "\<exists>zs. s = zs @ trim_with p q r s"
proof (induction p q r s rule: trim_with.induct)
  case (4 p q r a b c s)
  have cons: "\<exists>zs. x # u = zs @ v" if "\<exists>zs. u = zs @ v" for u v :: string and x
    using that by (metis append_Cons)
  show ?case
  proof (cases "p a"; cases "q a b"; cases "r a b c")
  qed (use 4 in \<open>simp_all add: cons\<close>)
qed (auto intro: exI [where x = "[_]"])

lemma trim_right_prefix: "\<exists>zs. s = trim_right s @ zs"
proof -
  obtain zs where "rev s = zs @ trim_with space1 (\<lambda>a b. space2 b a) (\<lambda>a b c. space3 c b a) (rev s)"
    using trim_with_suffix by blast
  then have "s = trim_right s @ rev zs"
    unfolding trim_right_def by (metis rev_append rev_rev_ident)
  then show ?thesis by blast
qed

lemma trim_left_idem [simp]: "trim_left (trim_left s) = trim_left s"
  by (simp add: trim_left_def)

lemma trim_right_idem [simp]: "trim_right (trim_right s) = trim_right s"
  by (simp add: trim_right_def)

lemma trim_space_idem [simp, go_str]: "trim_space (trim_space s) = trim_space s"
proof -
  let ?l = "trim_left s"
  obtain zs where "?l = trim_right ?l @ zs"
    using trim_right_prefix by blast
  then have "trim_left (trim_right ?l) = trim_right ?l"
    using trim_with_fixed_prefix [of space1 space2 space3 "trim_right ?l" zs]
    by (metis trim_left_def trim_left_idem)
  then show ?thesis by (simp add: trim_space_def)
qed

lemma trim_space_Nil [simp]: "trim_space [] = []"
  by (simp add: trim_space_def trim_left_def trim_right_def)

lemma lower_char_idem [simp]: "lower_char (lower_char c) = lower_char c"
proof -
  have "(of_char (char_of (n + 32) :: char) :: nat) = n + 32" if "n \<le> 90" for n
    using that by simp
  then show ?thesis by (auto simp: lower_char_def Let_def)
qed

lemma to_lower_idem [simp, go_str]: "to_lower (to_lower s) = to_lower s"
  by (simp add: to_lower_def)

lemma length_to_lower [simp]: "length (to_lower s) = length s"
  by (simp add: to_lower_def)

lemma to_lower_Nil_iff [simp]: "to_lower s = [] \<longleftrightarrow> s = []"
  by (simp add: to_lower_def)

text \<open>
  Lowering changes only the bytes of \<open>A\<close> to \<open>Z\<close>, into bytes of \<open>a\<close> to \<open>z\<close>; neither occurs in
  the encoding of a white-space code point.
\<close>

lemma lower_char_cases: "lower_char c = c \<or>
   (65 \<le> (of_char c :: nat) \<and> (of_char c :: nat) \<le> 90 \<and> (of_char (lower_char c) :: nat) = of_char c + 32)"
  by (auto simp: lower_char_def Let_def)

lemma lower_char_neutral:
  assumes "(of_char d :: nat) < 65 \<or> 122 < (of_char d :: nat)"
  shows "lower_char c = d \<longleftrightarrow> c = d"
proof (cases "lower_char c = c")
  case False
  with lower_char_cases [of c] have
    "65 \<le> (of_char c :: nat)" "(of_char c :: nat) \<le> 90"
    "(of_char (lower_char c) :: nat) = of_char c + 32" by auto
  with assms show ?thesis by auto
qed simp

lemma space_lower [simp]:
  "space1 (lower_char a) = space1 a"
  "space2 (lower_char a) (lower_char b) = space2 a b"
  "space3 (lower_char a) (lower_char b) (lower_char c) = space3 a b c"
  by (simp_all add: space1_def space2_def space3_def lower_char_neutral)

lemma trim_with_to_lower:
  assumes "\<And>a. p (lower_char a) = p a" "\<And>a b. q (lower_char a) (lower_char b) = q a b"
    "\<And>a b c. r (lower_char a) (lower_char b) (lower_char c) = r a b c"
  shows "trim_with p q r (map lower_char s) = map lower_char (trim_with p q r s)"
  using assms by (induction p q r s rule: trim_with.induct) simp_all

lemma trim_space_to_lower [go_str]: "trim_space (to_lower s) = to_lower (trim_space s)"
  by (simp add: trim_space_def trim_left_def trim_right_def to_lower_def rev_map
      trim_with_to_lower)

lemma norm_name_idem [simp, go_str]: "norm_name (norm_name s) = norm_name s"
  by (simp add: norm_name_def trim_space_to_lower)

section \<open>64-bit integers\<close>

text \<open>
  Go's \<open>int64\<close> (and \<open>int\<close> on the deployed platforms) wraps in two's complement. Values are
  \<open>int\<close>; \<open>wrap64\<close> is applied at every addition and subtraction of values that come from outside
  (clocks, snapshots, stored state). Counters that only count elements of a list in memory are
  plain \<open>int\<close>. Integer division of Go truncates towards zero.
\<close>

definition wrap64 :: "int \<Rightarrow> int" where
  "wrap64 x = (x + 2 ^ 63) mod 2 ^ 64 - 2 ^ 63"

definition in64 :: "int \<Rightarrow> bool" where
  "in64 x \<longleftrightarrow> - (2 ^ 63) \<le> x \<and> x < 2 ^ 63"

definition add64 :: "int \<Rightarrow> int \<Rightarrow> int" where "add64 a b = wrap64 (a + b)"

definition sub64 :: "int \<Rightarrow> int \<Rightarrow> int" where "sub64 a b = wrap64 (a - b)"

definition max_int64 :: int where "max_int64 = 2 ^ 63 - 1"

definition go_div :: "int \<Rightarrow> int \<Rightarrow> int" where
  "go_div a b = sgn a * sgn b * (\<bar>a\<bar> div \<bar>b\<bar>)"

lemma wrap64_in64 [simp]: "in64 x \<Longrightarrow> wrap64 x = x"
  by (simp add: wrap64_def in64_def)

lemma in64_wrap64 [simp]: "in64 (wrap64 x)"
  using pos_mod_bound [of "2 ^ 64" "x + 2 ^ 63"] pos_mod_sign [of "2 ^ 64" "x + 2 ^ 63"]
  by (simp add: wrap64_def in64_def)

lemma sub64_nonneg [simp]: "in64 a \<Longrightarrow> in64 b \<Longrightarrow> 0 \<le> a \<Longrightarrow> 0 \<le> b \<Longrightarrow> sub64 a b = a - b"
  by (simp add: sub64_def in64_def wrap64_in64)

lemma add64_small [simp]: "in64 (a + b) \<Longrightarrow> add64 a b = a + b"
  by (simp add: add64_def)

text \<open>\<open>time.Time\<close> is an instant in nanoseconds since 1970; \<open>Unix()\<close> rounds down to seconds.
  \<open>time.Duration\<close> is a count of nanoseconds.\<close>

definition second :: int where "second = 1000000000"

definition unix_of :: "int \<Rightarrow> int" where "unix_of t = t div second"

definition seconds_of :: "int \<Rightarrow> int" where "seconds_of d = go_div d second"

lemma seconds_of_nonneg: "0 \<le> d \<Longrightarrow> seconds_of d = d div second"
  by (simp add: seconds_of_def go_div_def second_def sgn_if)

lemma seconds_of_mult [simp]: "0 \<le> n \<Longrightarrow> seconds_of (n * 1000000000) = n"
  by (simp add: seconds_of_def go_div_def second_def sgn_if)

section \<open>Errors\<close>

text \<open>
  A package-level \<open>errors.New\<close> variable is a \<open>Sentinel\<close>, compared by identity (its text is unique);
  any other \<open>errors.New\<close> or \<open>fmt.Errorf\<close> without \<open>%w\<close> is \<open>ErrNew\<close>; \<open>fmt.Errorf\<close> with \<open>%w\<close> is
  \<open>ErrWrap\<close> with the text before and after the wrapped error; \<open>errors.Join\<close> is \<open>ErrJoin\<close>.
\<close>

datatype gerr = Sentinel string | ErrNew string | ErrWrap string gerr string | ErrJoin "gerr list"

fun err_text :: "gerr \<Rightarrow> string" where
  "err_text (Sentinel s) = s"
| "err_text (ErrNew s) = s"
| "err_text (ErrWrap a e b) = a @ err_text e @ b"
| "err_text (ErrJoin es) = join_with [CHR 0x0A] (map err_text es)"

fun errors_is :: "gerr \<Rightarrow> gerr \<Rightarrow> bool" where
  "errors_is (ErrWrap a e b) t = (ErrWrap a e b = t \<or> errors_is e t)"
| "errors_is (ErrJoin es) t = (ErrJoin es = t \<or> (\<exists>e \<in> set es. errors_is e t))"
| "errors_is e t = (e = t)"

text \<open>\<open>errors.Join\<close> drops nil errors and is nil when all are.\<close>

definition errors_join :: "gerr option list \<Rightarrow> gerr option" where
  "errors_join es = (case List.map_filter id es of [] \<Rightarrow> None | xs \<Rightarrow> Some (ErrJoin xs))"

text \<open>\<open>if err != nil { return err }\<close> and the same with the error wrapped in a text.\<close>

definition and_then :: "gerr + 'a \<Rightarrow> ('a \<Rightarrow> gerr + 'b) \<Rightarrow> gerr + 'b" where
  "and_then r f = (case r of Inl e \<Rightarrow> Inl e | Inr x \<Rightarrow> f x)"

definition wrapping :: "string \<Rightarrow> gerr + 'a \<Rightarrow> gerr + 'a" where
  "wrapping text r = (case r of Inl e \<Rightarrow> Inl (ErrWrap text e []) | Inr x \<Rightarrow> Inr x)"

lemma and_then_Inr_iff: "and_then r f = Inr y \<longleftrightarrow> (\<exists>x. r = Inr x \<and> f x = Inr y)"
  by (cases r) (auto simp: and_then_def)

lemma wrapping_Inr_iff [simp]: "wrapping t r = Inr x \<longleftrightarrow> r = Inr x"
  by (cases r) (auto simp: wrapping_def)

lemma and_then_simps [simp]: "and_then (Inr x) f = f x" "and_then (Inl e) f = Inl e"
  by (simp_all add: and_then_def)

lemma errors_is_refl [simp]: "errors_is e e"
  by (cases e) auto

section \<open>Maps and sets\<close>

text \<open>
  A Go map is an association list with distinct keys, looked up with \<open>map_of\<close> and written with
  \<open>AList.update\<close>; its list order stands for the unspecified iteration order of Go, and the theorems
  on iteration show that the order does not matter. A \<open>map[string]struct{}\<close> is a distinct list.
  \<open>mget\<close> is \<open>m[k]\<close> with the zero value of the type for a missing key.
\<close>

type_synonym 'v gomap = "(string \<times> 'v) list"
type_synonym strset = "string list"

definition mget :: "'v \<Rightarrow> 'v gomap \<Rightarrow> string \<Rightarrow> 'v" where
  "mget z m k = (case map_of m k of None \<Rightarrow> z | Some v \<Rightarrow> v)"

abbreviation mput :: "string \<Rightarrow> 'v \<Rightarrow> 'v gomap \<Rightarrow> 'v gomap" where
  "mput \<equiv> AList.update"

abbreviation mincr :: "string \<Rightarrow> int gomap \<Rightarrow> int gomap" where
  "mincr k m \<equiv> mput k (mget 0 m k + 1) m"

abbreviation wf_map :: "'v gomap \<Rightarrow> bool" where
  "wf_map m \<equiv> distinct (map fst m)"

definition set_add :: "string \<Rightarrow> strset \<Rightarrow> strset" where
  "set_add x xs = (if x \<in> set xs then xs else xs @ [x])"

lemma mget_mput [simp, go_map]: "mget z (mput k v m) k' = (if k' = k then v else mget z m k')"
  by (simp add: mget_def update_conv')

lemma mget_Nil [simp, go_map]: "mget z [] k = z"
  by (simp add: mget_def)

lemma map_of_mput [simp, go_map]: "map_of (mput k v m) k' = (if k' = k then Some v else map_of m k')"
  by (simp add: update_conv')

lemma wf_mput [simp, go_map]: "wf_map m \<Longrightarrow> wf_map (mput k v m)"
  by (rule distinct_update)

lemma keys_mput [simp, go_map]: "fst ` set (mput k v m) = insert k (fst ` set m)"
  using dom_update [of k v m] by (simp add: dom_map_of_conv_image_fst)

lemma set_set_add [simp]: "set (set_add x xs) = insert x (set xs)"
  by (auto simp: set_add_def)

lemma distinct_set_add [simp]: "distinct (set_add x xs) = distinct xs"
  by (auto simp: set_add_def)

lemma length_mput_new: "map_of m k = None \<Longrightarrow> length (mput k v m) = length m + 1"
  by (induction m) (auto split: if_splits)

lemma mput_new: "map_of m k = None \<Longrightarrow> mput k v m = m @ [(k, v)]"
  by (induction m) (auto split: if_splits)

lemma set_map_filter [simp]: "set (List.map_filter f xs) = {y. \<exists>x \<in> set xs. f x = Some y}"
  by (force simp: map_filter_def image_iff)

text \<open>A map filled from a list in a loop.\<close>

lemma map_of_foldl_mput: "distinct (map k rs) \<Longrightarrow>
    map_of (foldl (\<lambda>m r. mput (k r) (v r) m) m0 rs) d =
      (case map_of (map (\<lambda>r. (k r, v r)) rs) d of None \<Rightarrow> map_of m0 d | Some x \<Rightarrow> Some x)"
proof (induction rs arbitrary: m0)
  case (Cons r rs)
  then have "map_of (map (\<lambda>r. (k r, v r)) rs) (k r) = None" by (auto simp: map_of_eq_None_iff)
  with Cons show ?case by (auto split: option.split)
qed simp

lemma map_of_filled_iff: "distinct (map k rs) \<Longrightarrow>
    map_of (foldl (\<lambda>m r. mput (k r) (v r) m) [] rs) d = Some x \<longleftrightarrow> (\<exists>r \<in> set rs. k r = d \<and> x = v r)"
proof -
  assume k: "distinct (map k rs)"
  have "map_of (map (\<lambda>r. (k r, v r)) rs) d = Some x \<longleftrightarrow> (d, x) \<in> set (map (\<lambda>r. (k r, v r)) rs)"
    using k by (intro map_of_eq_Some_iff) (simp add: comp_def)
  with map_of_foldl_mput [OF k, of v "[]" d] show ?thesis by (auto split: option.splits)
qed

text \<open>Two association lists of one Go map, in different iteration orders.\<close>

definition same_map :: "'v gomap \<Rightarrow> 'v gomap \<Rightarrow> bool" where
  "same_map m m' \<longleftrightarrow> wf_map m \<and> wf_map m' \<and> map_of m = map_of m'"

lemma same_map_set:
  assumes "same_map m m'"
  shows "set m = set m'"
proof -
  have "(k, v) \<in> set m \<longleftrightarrow> (k, v) \<in> set m'" for k v
    using assms by (metis same_map_def map_of_eq_Some_iff)
  then show ?thesis by auto
qed

lemma same_map_mset:
  assumes "same_map m m'"
  shows "mset m = mset m'"
proof -
  have "distinct m" "distinct m'" using assms by (simp_all add: same_map_def distinct_map)
  with same_map_set [OF assms] show ?thesis by (simp add: set_eq_iff_mset_eq_distinct)
qed

lemma same_map_mget [go_map]: "same_map m m' \<Longrightarrow> mget z m = mget z m'"
  by (auto simp: same_map_def mget_def fun_eq_iff)

section \<open>Sorting\<close>

text \<open>
  \<open>sort.Strings\<close> sorts by bytes, which is the lexicographic order \<open>\<le>\<close> on \<open>string\<close>. \<open>sort.Slice\<close>
  sorts by a comparison function; it is modelled by insertion. Where the comparison is a strict
  total order on the elements, the result is the only sorted permutation, so any sorting algorithm
  computes it; that is what the locale \<open>go_less\<close> provides.
\<close>

fun insert_by :: "('a \<Rightarrow> 'a \<Rightarrow> bool) \<Rightarrow> 'a \<Rightarrow> 'a list \<Rightarrow> 'a list" where
  "insert_by lt x [] = [x]"
| "insert_by lt x (y # ys) = (if lt x y then x # y # ys else y # insert_by lt x ys)"

definition sort_slice :: "('a \<Rightarrow> 'a \<Rightarrow> bool) \<Rightarrow> 'a list \<Rightarrow> 'a list" where
  "sort_slice lt xs = foldr (insert_by lt) xs []"

text \<open>The scan for the least element: \<open>best := xs[0]; for x in xs[1:] if lt x best then best = x\<close>.\<close>

fun scan_best :: "('a \<Rightarrow> 'a \<Rightarrow> bool) \<Rightarrow> 'a \<Rightarrow> 'a list \<Rightarrow> 'a" where
  "scan_best lt b [] = b"
| "scan_best lt b (x # xs) = scan_best lt (if lt x b then x else b) xs"

lemma mset_insert_by [simp]: "mset (insert_by lt x xs) = add_mset x (mset xs)"
  by (induction xs) auto

lemma mset_sort_slice [simp]: "mset (sort_slice lt xs) = mset xs"
  by (induction xs) (auto simp: sort_slice_def)

lemma set_sort_slice [simp]: "set (sort_slice lt xs) = set xs"
  by (metis mset_sort_slice set_mset_mset)

lemma length_sort_slice [simp]: "length (sort_slice lt xs) = length xs"
  by (metis mset_sort_slice size_mset)

lemma scan_best_mem: "scan_best lt b xs \<in> insert b (set xs)"
proof (induction xs arbitrary: b)
  case (Cons x xs)
  have "scan_best lt (if lt x b then x else b) xs \<in> insert (if lt x b then x else b) (set xs)"
    by (rule Cons.IH)
  then show ?case by (auto split: if_splits)
qed simp

locale go_less =
  fixes lt :: "'a \<Rightarrow> 'a \<Rightarrow> bool" and ok :: "'a \<Rightarrow> bool"
  assumes irrefl: "ok x \<Longrightarrow> \<not> lt x x"
    and trans: "ok x \<Longrightarrow> ok y \<Longrightarrow> ok z \<Longrightarrow> lt x y \<Longrightarrow> lt y z \<Longrightarrow> lt x z"
    and total: "ok x \<Longrightarrow> ok y \<Longrightarrow> x \<noteq> y \<Longrightarrow> lt x y \<or> lt y x"
begin

lemma asym: "ok x \<Longrightarrow> ok y \<Longrightarrow> lt x y \<Longrightarrow> \<not> lt y x"
  using irrefl trans by blast

lemma insert_by_sorted:
  "ok x \<Longrightarrow> (\<forall>y \<in> set xs. ok y) \<Longrightarrow> sorted_wrt (\<lambda>a b. \<not> lt b a) xs \<Longrightarrow>
     sorted_wrt (\<lambda>a b. \<not> lt b a) (insert_by lt x xs)"
proof (induction xs)
  case (Cons y ys)
  have set_ins: "set (insert_by lt x ys) = insert x (set ys)"
    by (metis mset_insert_by set_mset_add_mset_insert set_mset_mset)
  show ?case
  proof (cases "lt x y")
    case True
    have "\<not> lt z x" if z: "z \<in> set (y # ys)" for z
    proof
      assume zx: "lt z x"
      have "ok x" "ok y" "ok z" using Cons.prems(1,2) z by auto
      with zx True have zy: "lt z y" by (blast intro: trans)
      show False
      proof (cases "z = y")
        case True
        with zy \<open>ok y\<close> irrefl show False by blast
      next
        case False
        with z Cons.prems(3) zy show False by auto
      qed
    qed
    with True Cons.prems(3) show ?thesis by simp
  next
    case False
    with Cons show ?thesis by (auto simp: set_ins)
  qed
qed simp

lemma sort_slice_sorted:
  "\<forall>y \<in> set xs. ok y \<Longrightarrow> sorted_wrt (\<lambda>a b. \<not> lt b a) (sort_slice lt xs)"
proof (induction xs)
  case (Cons x xs)
  have "set (foldr (insert_by lt) xs []) = set xs"
    using set_sort_slice [of lt xs] by (simp add: sort_slice_def)
  with Cons show ?case
    by (simp add: sort_slice_def insert_by_sorted)
qed (simp add: sort_slice_def)

lemma scan_best_least:
  "ok b \<Longrightarrow> (\<forall>y \<in> set xs. ok y) \<Longrightarrow> y \<in> insert b (set xs) \<Longrightarrow> \<not> lt y (scan_best lt b xs)"
proof (induction xs arbitrary: b y)
  case Nil
  then show ?case using irrefl by simp
next
  case (Cons x xs)
  let ?b = "if lt x b then x else b"
  have ok: "ok ?b" "\<forall>y \<in> set xs. ok y" using Cons.prems by auto
  have okr: "ok (scan_best lt ?b xs)"
    using scan_best_mem [of lt ?b xs] ok by (metis insertE)
  have least: "\<not> lt ?b (scan_best lt ?b xs)"
    by (rule Cons.IH [OF ok]) simp
  show ?case
  proof (cases "y \<in> insert ?b (set xs)")
    case True
    then show ?thesis using Cons.IH [OF ok] by simp
  next
    case False
    with Cons.prems(3) have y: "y = x \<and> \<not> lt x b \<or> y = b \<and> lt x b" by (auto split: if_splits)
    have "ok y" "ok x" "ok b" using Cons.prems y by auto
    moreover have "\<not> lt y ?b" using y Cons.prems irrefl asym by auto
    moreover have "lt ?b y" using calculation y total False
      by (metis insertI1)
    ultimately have "lt ?b (scan_best lt ?b xs)" if "lt y (scan_best lt ?b xs)"
      using that trans okr ok(1) by blast
    with least show ?thesis by auto
  qed
qed

lemma sorted_unique:
  assumes "mset xs = mset ys" "\<forall>y \<in> set xs. ok y"
    "sorted_wrt (\<lambda>a b. \<not> lt b a) xs" "sorted_wrt (\<lambda>a b. \<not> lt b a) ys"
  shows "xs = ys"
  using assms
proof (induction xs arbitrary: ys)
  case (Cons x xs)
  then obtain y ys' where ys: "ys = y # ys'" by (cases ys) auto
  have "set (x # xs) = set ys" by (metis Cons.prems(1) set_mset_mset)
  then have "x = y"
    using Cons.prems ys total irrefl
    by (metis (no_types, lifting) insertE list.set_intros(1) list.simps(15) sorted_wrt.simps(2))
  with Cons ys show ?case by simp
qed simp

lemma sort_slice_unique:
  assumes "mset xs = mset ys" "\<forall>y \<in> set xs. ok y"
  shows "sort_slice lt xs = sort_slice lt ys"
proof -
  have "\<forall>y \<in> set ys. ok y" using assms by (metis set_mset_mset)
  with assms show ?thesis
    by (intro sorted_unique) (auto simp: sort_slice_sorted)
qed

end

lemma sort_eqI: "mset (xs :: string list) = mset ys \<Longrightarrow> sort xs = sort ys"
  by (metis properties_for_sort mset_sort sorted_sort)

text \<open>A map listed in the order of its keys.\<close>

lemma map_of_marshal: "wf_map m \<Longrightarrow> map_of (sort_key fst m) = map_of m"
proof -
  assume "wf_map m"
  moreover have "mset (map fst (sort_key fst m)) = mset (map fst m)" by simp
  then have "wf_map (sort_key fst m) \<longleftrightarrow> wf_map m" by (metis mset_eq_imp_distinct_iff)
  ultimately show ?thesis by (subst map_of_inject_set) auto
qed

lemma wf_marshal [simp]: "wf_map (sort_key fst m) \<longleftrightarrow> wf_map m"
proof -
  have "mset (map fst (sort_key fst m)) = mset (map fst m)" by simp
  then show ?thesis by (metis mset_eq_imp_distinct_iff)
qed

section \<open>Hexadecimal text\<close>

text \<open>\<open>hex.EncodeToString\<close>: two lower-case digits per byte.\<close>

definition hex_digit :: "nat \<Rightarrow> char" where
  "hex_digit n = (if n < 10 then char_of (48 + n) else char_of (87 + n))"

definition hex_encode :: "string \<Rightarrow> string" where
  "hex_encode s = concat (map (\<lambda>c. [hex_digit (of_char c div 16), hex_digit (of_char c mod 16)]) s)"

definition lower_hex :: "char \<Rightarrow> bool" where
  "lower_hex c \<longleftrightarrow> (48 \<le> (of_char c :: nat) \<and> (of_char c :: nat) \<le> 57) \<or>
     (97 \<le> (of_char c :: nat) \<and> (of_char c :: nat) \<le> 102)"

lemma length_hex_encode [simp]: "length (hex_encode bs) = 2 * length bs"
  by (induction bs) (simp_all add: hex_encode_def)

lemma hex_digit_lower: "n < 16 \<Longrightarrow> lower_hex (hex_digit n)"
  by (simp add: lower_hex_def hex_digit_def)

lemma of_char_bound: "(of_char c :: nat) < 256"
  by (cases c) (simp add: of_char_def)

lemma hex_encode_lower [simp]: "list_all lower_hex (hex_encode bs)"
proof (induction bs)
  case (Cons c bs)
  have "(of_char c :: nat) div 16 < 16" by (rule less_mult_imp_div_less) (use of_char_bound [of c] in simp)
  with Cons show ?case by (simp add: hex_encode_def hex_digit_lower)
qed (simp add: hex_encode_def)

end
