(* ===== verification/Go_Float.thy ===== *)
theory Go_Float
  imports Go_Prelude Complex_Main
begin

text \<open>
  Go's \<open>float64\<close>: a finite value is the rational it denotes, beside the infinities and NaN.
  Arithmetic rounds the exact result to the nearest 53-bit significand, ties to even, with the
  smallest exponent of subnormal numbers; a magnitude of \<open>2 ^ 1024\<close> or more overflows. The sign of
  zero is not kept: the code divides by a float only after it has tested that it is positive.
\<close>

datatype f64 = Fin rat | PInf | NInf | NaN

text \<open>\<open>ilog2 n\<close> is the index of the highest set bit of \<open>n > 0\<close>.\<close>

fun ilog2 :: "nat \<Rightarrow> int" where
  "ilog2 n = (if n < 2 then 0 else 1 + ilog2 (n div 2))"

declare ilog2.simps [simp del]

definition pow2r :: "int \<Rightarrow> rat" where
  "pow2r e = (if 0 \<le> e then 2 ^ nat e else 1 / 2 ^ nat (- e))"

text \<open>The binary exponent of a non-zero rational: \<open>2^e \<le> \<bar>q\<bar> < 2^(e+1)\<close>.\<close>

definition exponent_of :: "rat \<Rightarrow> int" where
  "exponent_of q =
     (case quotient_of \<bar>q\<bar> of (n, d) \<Rightarrow>
       let k = ilog2 (nat n) - ilog2 (nat d)
       in if pow2r k * of_int d \<le> of_int n then k else k - 1)"

definition round_half_even :: "rat \<Rightarrow> int" where
  "round_half_even x =
     (let f = \<lfloor>x\<rfloor>; r = x - of_int f
      in if r < 1 / 2 then f else if 1 / 2 < r then f + 1 else if even f then f else f + 1)"

definition round53 :: "rat \<Rightarrow> rat" where
  "round53 q =
     (if q = 0 then 0
      else let e = max (exponent_of q - 52) (- 1074)
           in of_int (round_half_even (q / pow2r e)) * pow2r e)"

definition round64 :: "rat \<Rightarrow> f64" where
  "round64 q =
     (let v = round53 q
      in if 2 ^ 1024 \<le> v then PInf else if v \<le> - (2 ^ 1024) then NInf else Fin v)"

text \<open>\<open>float64(i)\<close> for an \<open>int64\<close>: rounded, never infinite.\<close>

definition f_of_int :: "int \<Rightarrow> f64" where
  "f_of_int i = Fin (round53 (of_int i))"

fun f_lt :: "f64 \<Rightarrow> f64 \<Rightarrow> bool" where
  "f_lt (Fin a) (Fin b) = (a < b)"
| "f_lt NaN _ = False"
| "f_lt _ NaN = False"
| "f_lt NInf NInf = False"
| "f_lt NInf _ = True"
| "f_lt _ NInf = False"
| "f_lt PInf _ = False"
| "f_lt (Fin _) PInf = True"

definition f_eq :: "f64 \<Rightarrow> f64 \<Rightarrow> bool" where
  "f_eq a b \<longleftrightarrow> a = b \<and> a \<noteq> NaN"

definition f_le :: "f64 \<Rightarrow> f64 \<Rightarrow> bool" where
  "f_le a b \<longleftrightarrow> f_lt a b \<or> f_eq a b"

fun finite64 :: "f64 \<Rightarrow> bool" where
  "finite64 (Fin _) = True"
| "finite64 _ = False"

fun f_neg :: "f64 \<Rightarrow> f64" where
  "f_neg (Fin a) = Fin (- a)"
| "f_neg PInf = NInf"
| "f_neg NInf = PInf"
| "f_neg NaN = NaN"

fun f_add :: "f64 \<Rightarrow> f64 \<Rightarrow> f64" where
  "f_add (Fin a) (Fin b) = round64 (a + b)"
| "f_add NaN _ = NaN"
| "f_add _ NaN = NaN"
| "f_add PInf NInf = NaN"
| "f_add NInf PInf = NaN"
| "f_add PInf _ = PInf"
| "f_add _ PInf = PInf"
| "f_add NInf _ = NInf"
| "f_add _ NInf = NInf"

definition f_sub :: "f64 \<Rightarrow> f64 \<Rightarrow> f64" where
  "f_sub a b = f_add a (f_neg b)"

definition f_sgn :: "f64 \<Rightarrow> int" where
  "f_sgn a = (if f_lt (Fin 0) a then 1 else if f_lt a (Fin 0) then - 1 else 0)"

definition f_inf :: "int \<Rightarrow> f64" where
  "f_inf s = (if 0 < s then PInf else if s < 0 then NInf else NaN)"

fun f_mul :: "f64 \<Rightarrow> f64 \<Rightarrow> f64" where
  "f_mul (Fin a) (Fin b) = round64 (a * b)"
| "f_mul NaN _ = NaN"
| "f_mul _ NaN = NaN"
| "f_mul a b = f_inf (f_sgn a * f_sgn b)"

fun f_div :: "f64 \<Rightarrow> f64 \<Rightarrow> f64" where
  "f_div (Fin a) (Fin b) = (if b = 0 then f_inf (f_sgn (Fin a)) else round64 (a / b))"
| "f_div NaN _ = NaN"
| "f_div _ NaN = NaN"
| "f_div (Fin _) _ = Fin 0"
| "f_div a (Fin b) = f_inf (f_sgn a * (if 0 \<le> b then 1 else - 1))"
| "f_div _ _ = NaN"

text \<open>\<open>math.Max\<close> and \<open>math.Min\<close>: an infinity of the right sign wins even over NaN.\<close>

definition f_max :: "f64 \<Rightarrow> f64 \<Rightarrow> f64" where
  "f_max a b =
     (if a = PInf \<or> b = PInf then PInf else if a = NaN \<or> b = NaN then NaN
      else if f_lt b a then a else b)"

definition f_min :: "f64 \<Rightarrow> f64 \<Rightarrow> f64" where
  "f_min a b =
     (if a = NInf \<or> b = NInf then NInf else if a = NaN \<or> b = NaN then NaN
      else if f_lt a b then a else b)"

text \<open>\<open>math.Round\<close> rounds halves away from zero; \<open>math.Floor\<close> rounds down.\<close>

fun f_round :: "f64 \<Rightarrow> f64" where
  "f_round (Fin a) = Fin (of_int (if a < 0 then - \<lfloor>- a + 1 / 2\<rfloor> else \<lfloor>a + 1 / 2\<rfloor>))"
| "f_round x = x"

fun trunc_rat :: "rat \<Rightarrow> int" where
  "trunc_rat a = (if a < 0 then \<lceil>a\<rceil> else \<lfloor>a\<rfloor>)"

section \<open>Order laws\<close>

lemma f_lt_irrefl [simp]: "\<not> f_lt a a"
  by (cases a) auto

lemma f_lt_trans: "f_lt a b \<Longrightarrow> f_lt b c \<Longrightarrow> f_lt a c"
  by (cases a; cases b; cases c) auto

lemma f_lt_total: "a \<noteq> NaN \<Longrightarrow> b \<noteq> NaN \<Longrightarrow> a \<noteq> b \<Longrightarrow> f_lt a b \<or> f_lt b a"
  by (cases a; cases b) auto

lemma f_lt_NaN [simp]: "\<not> f_lt NaN a" "\<not> f_lt a NaN"
  by (cases a; simp)+

lemma f_le_Fin [simp]: "f_le (Fin a) (Fin b) \<longleftrightarrow> a \<le> b"
  by (auto simp: f_le_def f_eq_def)

lemma finite64_iff: "finite64 a \<longleftrightarrow> (\<exists>q. a = Fin q)"
  by (cases a) auto

lemma round64_not_NaN [simp]: "round64 q \<noteq> NaN"
  by (simp add: round64_def Let_def)

lemma f_lt_zero_cases: "f_lt (Fin 0) a \<longleftrightarrow> a = PInf \<or> (\<exists>q > 0. a = Fin q)"
  by (cases a) auto

text \<open>A quotient of an integer by a positive float is a number: the score of the planner.\<close>

lemma f_div_positive_not_NaN [simp]: "f_lt (Fin 0) h \<Longrightarrow> f_div (f_of_int i) h \<noteq> NaN"
  by (cases h) (auto simp: f_of_int_def)

text \<open>Exact cases: integers below \<open>2 ^ 53\<close> are unchanged by the conversion.\<close>

lemma round_half_even_int [simp]: "round_half_even (of_int i) = i"
  by (simp add: round_half_even_def Let_def)

lemma pow2r_pos [simp]: "0 < pow2r e"
  by (simp add: pow2r_def)

lemma ilog2_le: "n < 2 ^ Suc m \<Longrightarrow> ilog2 n \<le> int m"
proof (induction n arbitrary: m rule: ilog2.induct)
  case (1 n)
  show ?case
  proof (cases "n < 2")
    case True
    then show ?thesis by (simp add: ilog2.simps)
  next
    case False
    with "1.prems" obtain k where m: "m = Suc k" by (cases m) auto
    with "1.prems" have "n div 2 < 2 ^ Suc k" by auto
    with "1.IH" [OF False] m False show ?thesis by (subst ilog2.simps) simp
  qed
qed

lemma exponent_of_int_le: "i \<noteq> 0 \<Longrightarrow> \<bar>i\<bar> < 2 ^ 53 \<Longrightarrow> exponent_of (of_int i) \<le> 52"
proof -
  assume i: "\<bar>i\<bar> < 2 ^ 53"
  have "quotient_of \<bar>of_int i\<bar> = (\<bar>i\<bar>, 1)"
    by (metis of_int_abs quotient_of_int Rat.of_int_def)
  moreover have "nat \<bar>i\<bar> < 2 ^ Suc 52" using i by simp
  then have "ilog2 (nat \<bar>i\<bar>) \<le> int 52" by (rule ilog2_le)
  ultimately show ?thesis by (simp add: exponent_of_def Let_def ilog2.simps [of "Suc 0"])
qed

lemma round53_of_int: "\<bar>i\<bar> < 2 ^ 53 \<Longrightarrow> round53 (of_int i) = of_int i"
proof (cases "i = 0")
  case False
  assume "\<bar>i\<bar> < 2 ^ 53"
  define e where "e = max (exponent_of (of_int i) - 52) (- 1074)"
  have "e \<le> 0" using exponent_of_int_le [OF False \<open>\<bar>i\<bar> < 2 ^ 53\<close>] by (simp add: e_def)
  then have "(of_int i :: rat) / pow2r e = of_int (i * 2 ^ nat (- e))"
    by (auto simp: pow2r_def)
  then have "round_half_even (of_int i / pow2r e) = i * 2 ^ nat (- e)"
    by (metis round_half_even_int)
  with False \<open>e \<le> 0\<close> show ?thesis
    by (auto simp: round53_def Let_def e_def [symmetric] pow2r_def)
qed (simp add: round53_def)

lemma f_of_int_small: "\<bar>i\<bar> < 2 ^ 53 \<Longrightarrow> f_of_int i = Fin (of_int i)"
  by (simp add: f_of_int_def round53_of_int)

lemma round64_of_int: "\<bar>i\<bar> < 2 ^ 53 \<Longrightarrow> round64 (of_int i) = Fin (of_int i)"
proof -
  assume i: "\<bar>i\<bar> < 2 ^ 53"
  have "\<bar>of_int i :: rat\<bar> < of_int (2 ^ 53)"
    using i by (metis of_int_abs of_int_less_iff)
  moreover have "(of_int (2 ^ 53) :: rat) < 2 ^ 1024" by simp
  ultimately have "\<bar>of_int i :: rat\<bar> < 2 ^ 1024" by (rule less_trans)
  with i show ?thesis by (simp add: round64_def Let_def round53_of_int abs_less_iff)
qed

lemma round64_numeral:
  "numeral n < (2 ^ 53 :: int) \<Longrightarrow> round64 (numeral n) = Fin (numeral n)"
  using round64_of_int [of "numeral n"] by simp

lemma round64_one_zero [simp]: "round64 1 = Fin 1" "round64 0 = Fin 0"
  using round64_of_int [of 1] round64_of_int [of 0] by simp_all

lemmas float_eval = round64_numeral f_of_int_small f_sub_def

section \<open>Rounding error\<close>

text \<open>The exponent is a lower bound of the magnitude, so a bounded value is rounded by little.\<close>

lemma ilog2_lower: "0 < n \<Longrightarrow> 0 \<le> ilog2 n \<and> 2 ^ nat (ilog2 n) \<le> n"
proof (induction n rule: ilog2.induct)
  case (1 n)
  show ?case
  proof (cases "n < 2")
    case True
    with "1.prems" show ?thesis by (simp add: ilog2.simps)
  next
    case False
    then have pos: "0 < n div 2" by simp
    from "1.IH" [OF False pos] have "0 \<le> ilog2 (n div 2)" "2 ^ nat (ilog2 (n div 2)) \<le> n div 2" by auto
    then have "2 * 2 ^ nat (ilog2 (n div 2)) \<le> n" by linarith
    moreover have "nat (1 + ilog2 (n div 2)) = Suc (nat (ilog2 (n div 2)))"
      using \<open>0 \<le> ilog2 (n div 2)\<close> by simp
    moreover have "ilog2 n = 1 + ilog2 (n div 2)" using False by (simp add: ilog2.simps [of n])
    ultimately show ?thesis by simp
  qed
qed

lemma ilog2_upper: "n < 2 ^ Suc (nat (ilog2 n))"
proof (induction n rule: ilog2.induct)
  case (1 n)
  show ?case
  proof (cases "n < 2")
    case True
    then show ?thesis by (simp add: ilog2.simps)
  next
    case False
    then have "0 \<le> ilog2 (n div 2)" using ilog2_lower [of "n div 2"] by simp
    then have "nat (1 + ilog2 (n div 2)) = Suc (nat (ilog2 (n div 2)))" by simp
    moreover have "n div 2 < 2 ^ Suc (nat (ilog2 (n div 2)))" by (rule "1.IH" [OF False])
    then have "n < 2 * 2 ^ Suc (nat (ilog2 (n div 2)))" by simp
    ultimately show ?thesis using False by (subst ilog2.simps) simp
  qed
qed

lemma pow2r_mono: "a \<le> b \<Longrightarrow> pow2r a \<le> pow2r b"
proof -
  assume ab: "a \<le> b"
  consider "0 \<le> a" | "a < 0" "0 \<le> b" | "b < 0" by linarith
  then show ?thesis
  proof cases
    case 1
    with ab show ?thesis by (simp add: pow2r_def nat_mono power_increasing)
  next
    case 2
    have "(1 :: rat) / 2 ^ n \<le> 1" for n by (simp add: divide_le_eq_1)
    moreover have "(1 :: rat) \<le> 2 ^ m" for m by simp
    ultimately have "(1 :: rat) / 2 ^ n \<le> 2 ^ m" for n m by (rule order_trans)
    with 2 show ?thesis by (simp add: pow2r_def)
  next
    case 3
    with ab show ?thesis by (simp add: pow2r_def frac_le nat_mono power_increasing)
  qed
qed

lemma pow2r_diff: "0 \<le> a \<Longrightarrow> 0 \<le> b \<Longrightarrow> pow2r (a - b) = 2 ^ nat a / 2 ^ nat b"
proof (cases "b \<le> a")
  case True
  assume "0 \<le> a" "0 \<le> b"
  with True have "nat a = nat (a - b) + nat b" by simp
  then have "(2 :: rat) ^ nat a = 2 ^ nat (a - b) * 2 ^ nat b" by (simp only: power_add)
  with True show ?thesis by (simp add: pow2r_def)
next
  case False
  assume "0 \<le> a" "0 \<le> b"
  with False have "nat b = nat (b - a) + nat a" by simp
  then have "(2 :: rat) ^ nat b = 2 ^ nat (b - a) * 2 ^ nat a" by (simp only: power_add)
  with False show ?thesis by (simp add: pow2r_def)
qed

lemma exponent_of_lower:
  assumes "q \<noteq> 0"
  shows "pow2r (exponent_of q) \<le> \<bar>q\<bar>"
proof -
  obtain n d where nd: "quotient_of \<bar>q\<bar> = (n, d)" by fastforce
  then have d: "0 < d" and q: "\<bar>q\<bar> = of_int n / of_int d"
    by (simp_all add: quotient_of_denom_pos quotient_of_div)
  have "0 < \<bar>q\<bar>" using assms by simp
  then have n: "0 < n" using d by (simp add: q zero_less_divide_iff)
  define a b where "a = ilog2 (nat n)" and "b = ilog2 (nat d)"
  have ab: "0 \<le> a" "0 \<le> b" using n d ilog2_lower by (simp_all add: a_def b_def)
  have "2 ^ nat a \<le> nat n" using ilog2_lower [of "nat n"] n by (simp add: a_def)
  then have "2 ^ nat a \<le> n" using n by (simp add: le_nat_iff)
  then have "(of_int (2 ^ nat a) :: rat) \<le> of_int n" by (simp only: of_int_le_iff)
  then have nl: "(2 :: rat) ^ nat a \<le> of_int n" by simp
  have "nat d < 2 ^ Suc (nat b)" using ilog2_upper [of "nat d"] by (simp add: b_def)
  then have "d < 2 ^ Suc (nat b)" using d by (simp add: nat_less_iff)
  then have "(of_int d :: rat) < of_int (2 ^ Suc (nat b))" by (simp only: of_int_less_iff)
  then have du: "of_int d < (2 :: rat) ^ Suc (nat b)" by simp
  show ?thesis
  proof (cases "pow2r (a - b) * of_int d \<le> of_int n")
    case True
    then have "exponent_of q = a - b"
      by (simp add: exponent_of_def nd Let_def a_def b_def)
    with True d show ?thesis by (simp add: q pos_le_divide_eq)
  next
    case False
    then have "exponent_of q = a - (b + 1)"
      by (simp add: exponent_of_def nd Let_def a_def b_def)
    then have "pow2r (exponent_of q) = 2 ^ nat a / 2 ^ Suc (nat b)"
      using ab pow2r_diff [of a "b + 1"] by (simp add: nat_add_distrib)
    also have "\<dots> \<le> of_int n / of_int d"
      using nl du d n by (intro frac_le) simp_all
    finally show ?thesis by (simp add: q)
  qed
qed

lemma round_half_even_error: "\<bar>of_int (round_half_even x) - x\<bar> \<le> 1 / 2"
proof -
  have "of_int \<lfloor>x\<rfloor> \<le> x" "x < of_int \<lfloor>x\<rfloor> + 1" by linarith+
  then show ?thesis by (auto simp: round_half_even_def Let_def abs_le_iff)
qed

lemma round53_error:
  assumes "\<bar>q\<bar> < 2 ^ m" "m \<le> 53"
  shows "\<bar>round53 q - q\<bar> \<le> pow2r (int m - 53) / 2"
proof (cases "q = 0")
  case False
  define e where "e = max (exponent_of q - 52) (- 1074)"
  have "pow2r (exponent_of q) < pow2r (int m)"
    using exponent_of_lower [OF False] assms(1) by (simp add: pow2r_def)
  then have "exponent_of q < int m" using pow2r_mono by (metis not_le)
  then have e: "e \<le> int m - 53" by (simp add: e_def)
  have "\<bar>of_int (round_half_even (q / pow2r e)) - q / pow2r e\<bar> * pow2r e \<le> 1 / 2 * pow2r e"
    by (intro mult_right_mono round_half_even_error) (simp add: less_imp_le)
  moreover have "\<bar>of_int (round_half_even (q / pow2r e)) - q / pow2r e\<bar> * pow2r e =
      \<bar>(of_int (round_half_even (q / pow2r e)) - q / pow2r e) * pow2r e\<bar>"
    using pow2r_pos [of e] by (simp only: abs_mult abs_of_pos)
  moreover have "q / pow2r e * pow2r e = q"
    by (metis nonzero_eq_divide_eq pow2r_pos less_irrefl)
  ultimately have "\<bar>round53 q - q\<bar> \<le> pow2r e / 2"
    using False by (simp add: round53_def Let_def e_def [symmetric] left_diff_distrib)
  also have "\<dots> \<le> pow2r (int m - 53) / 2" using pow2r_mono [OF e] by simp
  finally show ?thesis .
qed (simp add: round53_def less_imp_le)

lemma round64_bounded:
  assumes "\<bar>q\<bar> < 2 ^ m" "m \<le> 53"
  obtains r where "round64 q = Fin r" "\<bar>r - q\<bar> \<le> pow2r (int m - 53) / 2"
proof -
  have err: "\<bar>round53 q - q\<bar> \<le> pow2r (int m - 53) / 2" by (rule round53_error [OF assms])
  have "pow2r (int m - 53) \<le> pow2r 0" using assms(2) by (intro pow2r_mono) simp
  then have "\<bar>round53 q - q\<bar> \<le> 1 / 2" using err by (simp add: pow2r_def)
  moreover have "\<bar>q\<bar> < 2 ^ 53"
    using assms by (meson less_le_trans power_increasing one_le_numeral)
  moreover have "\<bar>round53 q\<bar> \<le> \<bar>round53 q - q\<bar> + \<bar>q\<bar>" by linarith
  ultimately have "\<bar>round53 q\<bar> < 1 / 2 + 2 ^ 53" by linarith
  also have "(1 / 2 + 2 ^ 53 :: rat) < 2 ^ 54" by simp
  finally have "\<bar>round53 q\<bar> < 2 ^ 54" .
  moreover have "(2 :: rat) ^ 54 < 2 ^ 1024" by simp
  ultimately have "\<bar>round53 q\<bar> < 2 ^ 1024" by (rule less_trans)
  then have "round64 q = Fin (round53 q)" by (auto simp: round64_def Let_def abs_less_iff)
  with err that show thesis by blast
qed

end
