(* ===== verification/Go_Json.thy ===== *)
theory Go_Json
  imports Go_Float
begin

text \<open>
  Decoded JSON values (Go's \<open>any\<close>) and the conversions the code applies to them:
  \<open>strconv.ParseFloat\<close>, the conversion of a float to \<open>int64\<close>, type switches. Decoding bytes into
  such a value is \<open>encoding/json\<close>, which the components take as a parameter.
\<close>

text \<open>
  \<open>ANumber\<close> is a \<open>json.Number\<close>, its literal text; \<open>AFloat\<close> a \<open>float64\<close>; the integer constructors
  are values put into a settings map by Go code.
\<close>

datatype goany = ANil | ABool bool | AFloat f64 | AFloat32 f64 | AInt int | AInt64 int
  | ANumber string | AString string | AList "goany list" | AObject "(string \<times> goany) list"

definition as_object :: "goany \<Rightarrow> goany gomap option" where
  "as_object v = (case v of AObject m \<Rightarrow> Some m | _ \<Rightarrow> None)"

text \<open>Reading a key of a nil map, or a missing key, yields nil.\<close>

definition field_of :: "goany gomap option \<Rightarrow> string \<Rightarrow> goany" where
  "field_of m k = (case m of None \<Rightarrow> ANil | Some m \<Rightarrow> mget ANil m k)"

definition as_list :: "goany \<Rightarrow> goany list" where
  "as_list v = (case v of AList xs \<Rightarrow> xs | _ \<Rightarrow> [])"

definition as_bool :: "goany \<Rightarrow> bool option" where
  "as_bool v = (case v of ABool b \<Rightarrow> Some b | _ \<Rightarrow> None)"

definition as_string :: "goany \<Rightarrow> string" where
  "as_string v = (case v of AString s \<Rightarrow> s | _ \<Rightarrow> [])"

text \<open>
  \<open>strconv.ParseFloat(s, 64)\<close> for decimal text and the special names: an optional sign, digits with
  at most one point, an optional decimal exponent; rounded once from the exact value; overflow is an
  error. (Hexadecimal floats, which JSON numbers cannot contain, are rejected here.)
\<close>

definition is_digit :: "char \<Rightarrow> bool" where
  "is_digit c \<longleftrightarrow> 48 \<le> (of_char c :: nat) \<and> (of_char c :: nat) \<le> 57"

definition digits_value :: "string \<Rightarrow> nat" where
  "digits_value ds = foldl (\<lambda>n c. 10 * n + (of_char c - 48)) 0 ds"

fun parse_sign :: "string \<Rightarrow> bool \<times> string" where
  "parse_sign [] = (False, [])"
| "parse_sign (c # s) =
     (if c = CHR ''-'' then (True, s) else if c = CHR ''+'' then (False, s) else (False, c # s))"

fun parse_exponent :: "string \<Rightarrow> int option" where
  "parse_exponent [] = Some 0"
| "parse_exponent (c # s) =
     (if c = CHR ''e'' \<or> c = CHR ''E''
      then (case parse_sign s of (neg, ds) \<Rightarrow>
              if ds \<noteq> [] \<and> list_all is_digit ds
              then Some (if neg then - int (digits_value ds) else int (digits_value ds)) else None)
      else None)"

definition pow10r :: "int \<Rightarrow> rat" where
  "pow10r e = (if 0 \<le> e then 10 ^ nat e else 1 / 10 ^ nat (- e))"

definition ParseFloat :: "string \<Rightarrow> f64 option" where
  "ParseFloat s =
     (case parse_sign s of (neg, r) \<Rightarrow>
       if to_lower r = ''inf'' \<or> to_lower r = ''infinity'' then Some (if neg then NInf else PInf)
       else if to_lower s = ''nan'' then Some NaN
       else let ip = takeWhile is_digit r; r1 = dropWhile is_digit r;
                point = (r1 \<noteq> [] \<and> hd r1 = CHR ''.'');
                fp = (if point then takeWhile is_digit (tl r1) else []);
                r2 = (if point then dropWhile is_digit (tl r1) else r1)
            in if ip = [] \<and> fp = [] then None
               else (case parse_exponent r2 of None \<Rightarrow> None
                 | Some e \<Rightarrow>
                   (let q = of_nat (digits_value (ip @ fp)) * pow10r (e - int (length fp))
                    in case round64 (if neg then - q else q) of
                         Fin v \<Rightarrow> Some (Fin v) | _ \<Rightarrow> None)))"

text \<open>\<open>int64(f)\<close> truncates; out of range it yields the smallest integer, as on amd64.\<close>

definition f_to_int64 :: "f64 \<Rightarrow> int" where
  "f_to_int64 x = (case x of Fin a \<Rightarrow> if in64 (trunc_rat a) then trunc_rat a else - (2 ^ 63)
                   | _ \<Rightarrow> - (2 ^ 63))"

text \<open>The numbers of a settings map: the type switch over \<open>float64\<close>, \<open>int\<close> and \<open>int64\<close>.\<close>

definition setting_number :: "goany \<Rightarrow> f64 option" where
  "setting_number v = (case v of AFloat f \<Rightarrow> Some f | AInt i \<Rightarrow> Some (f_of_int i)
                       | AInt64 i \<Rightarrow> Some (f_of_int i) | _ \<Rightarrow> None)"

lemma in64_f_to_int64 [simp]: "in64 (f_to_int64 x)"
  by (simp add: f_to_int64_def in64_def split: f64.split)

section \<open>Encoded documents\<close>

text \<open>
  A JSON column or file that the program both writes and reads is represented by its value tree:
  \<open>None\<close> is text that is not JSON; an integral number literal is \<open>AInt64\<close>, any other number
  \<open>AFloat\<close>. \<open>json.Marshal\<close> refuses a value with a non-finite float. \<open>json.Unmarshal\<close> into a struct
  takes a missing key or a null as "leave the field", refuses a value of another type, and refuses
  an integer outside \<open>int64\<close>. (Go also matches keys up to case; the encoder never needs that.)
\<close>

type_synonym json = "goany option"

fun json_finite :: "goany \<Rightarrow> bool" where
  "json_finite (AFloat f) = finite64 f"
| "json_finite (AFloat32 f) = finite64 f"
| "json_finite (AList xs) = list_all json_finite xs"
| "json_finite (AObject m) = list_all (\<lambda>(k, v). json_finite v) m"
| "json_finite _ = True"

text \<open>A float with an integral value below \<open>1e21\<close> is written as an integral literal.\<close>

definition json_norm_float :: "f64 \<Rightarrow> goany" where
  "json_norm_float f = (case f of Fin q \<Rightarrow>
       if of_int \<lfloor>q\<rfloor> = q \<and> \<bar>q\<bar> < 10 ^ 21 then AInt64 \<lfloor>q\<rfloor> else AFloat f
     | _ \<Rightarrow> AFloat f)"

fun json_norm :: "goany \<Rightarrow> goany" where
  "json_norm (AFloat f) = json_norm_float f"
| "json_norm (AFloat32 f) = json_norm_float f"
| "json_norm (AInt i) = AInt64 i"
| "json_norm (AList xs) = AList (map json_norm xs)"
| "json_norm (AObject m) = AObject (map (\<lambda>(k, v). (k, json_norm v)) m)"
| "json_norm v = v"

definition json_marshal :: "goany \<Rightarrow> gerr + json" where
  "json_marshal v = (if json_finite v then Inr (Some (json_norm v))
                     else Inl (ErrNew ''json: unsupported value''))"

text \<open>The fields of an object being decoded: \<open>Inr\<close> of the zero value when absent.\<close>

definition dec_int :: "goany gomap \<Rightarrow> string \<Rightarrow> int option" where
  "dec_int m k = (case mget ANil m k of ANil \<Rightarrow> Some 0 | AInt64 i \<Rightarrow> if in64 i then Some i else None
                  | _ \<Rightarrow> None)"

definition dec_string :: "goany gomap \<Rightarrow> string \<Rightarrow> string option" where
  "dec_string m k = (case mget ANil m k of ANil \<Rightarrow> Some [] | AString s \<Rightarrow> Some s | _ \<Rightarrow> None)"

definition dec_bool :: "goany gomap \<Rightarrow> string \<Rightarrow> bool option" where
  "dec_bool m k = (case mget ANil m k of ANil \<Rightarrow> Some False | ABool b \<Rightarrow> Some b | _ \<Rightarrow> None)"

definition dec_int_ptr :: "goany gomap \<Rightarrow> string \<Rightarrow> int option option" where
  "dec_int_ptr m k = (case mget ANil m k of ANil \<Rightarrow> Some None
     | AInt64 i \<Rightarrow> if in64 i then Some (Some i) else None | _ \<Rightarrow> None)"

text \<open>\<open>json.Unmarshal\<close> into \<open>any\<close>: every number becomes a \<open>float64\<close>.\<close>

fun json_any :: "goany \<Rightarrow> goany" where
  "json_any (AInt64 i) = AFloat (round64 (of_int i))"
| "json_any (AList xs) = AList (map json_any xs)"
| "json_any (AObject m) = AObject (map (\<lambda>(k, v). (k, json_any v)) m)"
| "json_any v = v"

text \<open>
  Floats, lists, maps and nested structs. A number is parsed into the closest \<open>float64\<close>; a null map
  value or list element decodes to the zero value \<open>z\<close>; a struct decoder \<open>f\<close> is applied to objects.
\<close>

definition dec_float_of :: "goany \<Rightarrow> f64 option" where
  "dec_float_of v = (case v of AFloat f \<Rightarrow> if finite64 f then Some f else None
     | AInt64 i \<Rightarrow> (case round64 (of_int i) of Fin q \<Rightarrow> Some (Fin q) | _ \<Rightarrow> None) | _ \<Rightarrow> None)"

definition dec_float :: "goany gomap \<Rightarrow> string \<Rightarrow> f64 option" where
  "dec_float m k = (if mget ANil m k = ANil then Some (Fin 0) else dec_float_of (mget ANil m k))"

definition dec_float_ptr :: "goany gomap \<Rightarrow> string \<Rightarrow> f64 option option" where
  "dec_float_ptr m k = (if mget ANil m k = ANil then Some None
                        else map_option Some (dec_float_of (mget ANil m k)))"

definition dec_int_of :: "goany \<Rightarrow> int option" where
  "dec_int_of v = (case v of ANil \<Rightarrow> Some 0 | AInt64 i \<Rightarrow> if in64 i then Some i else None | _ \<Rightarrow> None)"

definition dec_string_of :: "goany \<Rightarrow> string option" where
  "dec_string_of v = (case v of ANil \<Rightarrow> Some [] | AString s \<Rightarrow> Some s | _ \<Rightarrow> None)"

definition dec_struct_of :: "'a \<Rightarrow> (goany gomap \<Rightarrow> 'a option) \<Rightarrow> goany \<Rightarrow> 'a option" where
  "dec_struct_of z f v = (case v of ANil \<Rightarrow> Some z | AObject m \<Rightarrow> f m | _ \<Rightarrow> None)"

fun dec_all :: "(goany \<Rightarrow> 'a option) \<Rightarrow> goany list \<Rightarrow> 'a list option" where
  "dec_all f [] = Some []"
| "dec_all f (v # vs) = (case (f v, dec_all f vs) of (Some a, Some xs) \<Rightarrow> Some (a # xs) | _ \<Rightarrow> None)"

fun dec_entries :: "(goany \<Rightarrow> 'a option) \<Rightarrow> (string \<times> goany) list \<Rightarrow> 'a gomap option" where
  "dec_entries f [] = Some []"
| "dec_entries f ((k, v) # m) =
     (case (f v, dec_entries f m) of (Some a, Some xs) \<Rightarrow> Some ((k, a) # xs) | _ \<Rightarrow> None)"

definition dec_map :: "(goany \<Rightarrow> 'a option) \<Rightarrow> goany gomap \<Rightarrow> string \<Rightarrow> 'a gomap option" where
  "dec_map f m k = (case mget ANil m k of ANil \<Rightarrow> Some [] | AObject o' \<Rightarrow> dec_entries f o' | _ \<Rightarrow> None)"

definition dec_list :: "(goany \<Rightarrow> 'a option) \<Rightarrow> goany gomap \<Rightarrow> string \<Rightarrow> 'a list option" where
  "dec_list f m k = (case mget ANil m k of ANil \<Rightarrow> Some [] | AList vs \<Rightarrow> dec_all f vs | _ \<Rightarrow> None)"

text \<open>A slice that is nil when absent; an \<open>any\<close>, refused when a number overflows \<open>float64\<close>.\<close>

definition dec_slice :: "(goany \<Rightarrow> 'a option) \<Rightarrow> goany gomap \<Rightarrow> string \<Rightarrow> 'a list option option" where
  "dec_slice f m k = (case mget ANil m k of ANil \<Rightarrow> Some None | AList vs \<Rightarrow> map_option Some (dec_all f vs)
                      | _ \<Rightarrow> None)"

definition dec_any :: "goany gomap \<Rightarrow> string \<Rightarrow> goany option" where
  "dec_any m k = (if json_finite (json_any (mget ANil m k)) then Some (json_any (mget ANil m k)) else None)"

definition dec_string_ptr :: "goany gomap \<Rightarrow> string \<Rightarrow> string option option" where
  "dec_string_ptr m k = (case mget ANil m k of ANil \<Rightarrow> Some None | AString s \<Rightarrow> Some (Some s) | _ \<Rightarrow> None)"

definition dec_bool_ptr :: "goany gomap \<Rightarrow> string \<Rightarrow> bool option option" where
  "dec_bool_ptr m k = (case mget ANil m k of ANil \<Rightarrow> Some None | ABool b \<Rightarrow> Some (Some b) | _ \<Rightarrow> None)"

text \<open>\<open>json.Unmarshal\<close> of a whole document into a struct; a null document leaves the struct alone.\<close>

definition dec_document :: "'a \<Rightarrow> (goany gomap \<Rightarrow> 'a option) \<Rightarrow> json \<Rightarrow> gerr + 'a" where
  "dec_document z f doc =
     (case doc of
        None \<Rightarrow> Inl (ErrNew ''invalid JSON text'')
      | Some v \<Rightarrow> (case dec_struct_of z f v of
                     None \<Rightarrow> Inl (ErrNew ''json: cannot unmarshal value'') | Some r \<Rightarrow> Inr r))"

definition dec_ptr :: "(goany gomap \<Rightarrow> 'a option) \<Rightarrow> goany gomap \<Rightarrow> string \<Rightarrow> 'a option option" where
  "dec_ptr f m k = (case mget ANil m k of ANil \<Rightarrow> Some None | AObject o' \<Rightarrow> map_option Some (f o')
                    | _ \<Rightarrow> None)"

text \<open>Encoders of the same shapes.\<close>

definition enc_int_ptr :: "int option \<Rightarrow> goany" where
  "enc_int_ptr p = (case p of None \<Rightarrow> ANil | Some i \<Rightarrow> AInt64 i)"

definition enc_string_ptr :: "string option \<Rightarrow> goany" where
  "enc_string_ptr p = (case p of None \<Rightarrow> ANil | Some s \<Rightarrow> AString s)"

definition enc_bool_ptr :: "bool option \<Rightarrow> goany" where
  "enc_bool_ptr p = (case p of None \<Rightarrow> ANil | Some b \<Rightarrow> ABool b)"

definition enc_float_ptr :: "f64 option \<Rightarrow> goany" where
  "enc_float_ptr p = (case p of None \<Rightarrow> ANil | Some f \<Rightarrow> AFloat f)"

definition enc_map :: "('a \<Rightarrow> goany) \<Rightarrow> 'a gomap \<Rightarrow> goany" where
  "enc_map f m = AObject (map (\<lambda>(k, v). (k, f v)) m)"

definition enc_ptr :: "('a \<Rightarrow> goany) \<Rightarrow> 'a option \<Rightarrow> goany" where
  "enc_ptr f p = (case p of None \<Rightarrow> ANil | Some v \<Rightarrow> f v)"

text \<open>A float the machine can hold, and the decoding of what the encoder writes for it.\<close>

definition f64_value :: "f64 \<Rightarrow> bool" where
  "f64_value f \<longleftrightarrow> (\<exists>q. f = Fin q \<and> round64 q = Fin q)"

lemma dec_float_roundtrip: "f64_value f \<Longrightarrow> dec_float_of (json_norm (AFloat f)) = Some f"
  by (auto simp: f64_value_def json_norm_float_def dec_float_of_def)

lemma f64_value_finite: "f64_value f \<Longrightarrow> finite64 f"
  by (auto simp: f64_value_def)

lemma json_norm_float_not_nil [simp]: "json_norm_float f \<noteq> ANil"
  by (simp add: json_norm_float_def split: f64.split)

end
