(* ===== verification/Reasoning_Policy.thy ===== *)
theory Reasoning_Policy
  imports Go_Json
begin

text \<open>
  The operator's ceiling on the requested reasoning effort (\<open>internal/reasoningpolicy/policy.go\<close>).
  A request body is its value tree, \<open>None\<close> for bytes that are not JSON; an object keeps its fields in
  order and repeated, which \<open>decodeObject\<close> refuses. An unchanged body is forwarded as it is, a changed
  one is written by \<open>json.Marshal\<close>, which sorts the keys.
\<close>

section \<open>Levels\<close>

definition SettingKey :: string where
  "SettingKey = ''gateway.max_reasoning_effort''"

definition levels :: "string list" where
  "levels = [''none'', ''minimal'', ''low'', ''medium'', ''high'', ''xhigh'', ''max'', ''ultra'']"

fun rank_from :: "int \<Rightarrow> string list \<Rightarrow> string \<Rightarrow> int" where
  "rank_from i [] value = - 1"
| "rank_from i (level # ls) value = (if value = level then i else rank_from (i + 1) ls value)"

definition rank :: "string \<Rightarrow> int" where
  "rank value = rank_from 0 levels value"

definition ValidLimit :: "string \<Rightarrow> bool" where
  "ValidLimit value \<longleftrightarrow> value = [] \<or> 0 \<le> rank value"

definition limit_error :: gerr where
  "limit_error = ErrNew ''invalid maximum reasoning effort''"

definition FromSettings :: "goany gomap \<Rightarrow> gerr + string" where
  "FromSettings settings =
     (case map_of settings SettingKey of
        None \<Rightarrow> Inr []
      | Some (AString limit) \<Rightarrow>
          if limit = ''unlimited'' then Inr []
          else if limit = [] \<or> \<not> ValidLimit limit then Inl limit_error else Inr limit
      | Some _ \<Rightarrow> Inl limit_error)"

definition clamp :: "string \<Rightarrow> string \<Rightarrow> string" where
  "clamp value limit = (if limit \<noteq> [] \<and> rank limit < rank (norm_name value) then limit else value)"

section \<open>Rewriting a request\<close>

definition decodeObject :: "json \<Rightarrow> gerr + goany gomap" where
  "decodeObject raw =
     (case raw of
        None \<Rightarrow> Inl (ErrNew ''request must be a valid JSON object'')
      | Some (AObject m) \<Rightarrow> if wf_map m then Inr m else Inl (ErrNew ''duplicate request field'')
      | Some _ \<Rightarrow> Inl (ErrNew ''request must be a JSON object''))"

text \<open>\<open>json.Unmarshal\<close> of a raw field into a string; a missing field is empty input, an error.\<close>

definition unmarshal_string :: "goany option \<Rightarrow> string option" where
  "unmarshal_string raw = (case raw of Some (AString s) \<Rightarrow> Some s | Some ANil \<Rightarrow> Some [] | _ \<Rightarrow> None)"

definition clampField :: "goany gomap \<Rightarrow> string \<Rightarrow> string \<Rightarrow> goany gomap \<times> bool" where
  "clampField object field limit =
     (case unmarshal_string (map_of object field) of
        None \<Rightarrow> (object, False)
      | Some value \<Rightarrow>
          let mapped = clamp value limit
          in if mapped = value then (object, False) else (mput field (AString mapped) object, True))"

definition marshal_map :: "goany gomap \<Rightarrow> goany" where
  "marshal_map m = AObject (sort_key fst m)"

definition clamp_reasoning :: "goany gomap \<Rightarrow> string \<Rightarrow> gerr + goany gomap \<times> bool" where
  "clamp_reasoning object limit =
     (case map_of object ''reasoning'' of
        Some (AObject raw) \<Rightarrow>
          (case decodeObject (Some (AObject raw)) of
             Inl e \<Rightarrow> Inl e
           | Inr reasoning \<Rightarrow>
               (case clampField reasoning ''effort'' limit of
                  (reasoning', True) \<Rightarrow> Inr (mput ''reasoning'' (marshal_map reasoning') object, True)
                | (_, False) \<Rightarrow> Inr (object, False)))
      | _ \<Rightarrow> Inr (object, False))"

text \<open>\<open>strings.LastIndexByte\<close>, and the model name cut at its last opening parenthesis.\<close>

definition last_index :: "char \<Rightarrow> string \<Rightarrow> nat option" where
  "last_index c s = (if c \<in> set s then Some (length s - 1 - length (takeWhile (\<lambda>d. d \<noteq> c) (rev s)))
                     else None)"

definition effort_suffix :: "string \<Rightarrow> (string \<times> string) option" where
  "effort_suffix model =
     (if has_suffix '')'' model
      then (case last_index (CHR ''('') model of
              None \<Rightarrow> None
            | Some start \<Rightarrow>
                if 0 < start
                then Some (take (start + 1) model, take (length model - 1 - (start + 1)) (drop (start + 1) model))
                else None)
      else None)"

definition clamp_model :: "goany gomap \<Rightarrow> string \<Rightarrow> goany gomap \<times> bool" where
  "clamp_model object limit =
     (case unmarshal_string (map_of object ''model'') of
        None \<Rightarrow> (object, False)
      | Some model \<Rightarrow>
          (case effort_suffix model of
             None \<Rightarrow> (object, False)
           | Some (front, effort) \<Rightarrow>
               let mapped = clamp effort limit
               in if mapped = effort then (object, False)
                  else (mput ''model'' (AString (front @ mapped @ '')'')) object, True)))"

definition Rewrite :: "json \<Rightarrow> string \<Rightarrow> gerr + json" where
  "Rewrite body limit =
     (if limit = [] then Inr body
      else if \<not> ValidLimit limit then Inl limit_error
      else case decodeObject body of
        Inl e \<Rightarrow> Inl e
      | Inr object \<Rightarrow>
          (case clampField object ''reasoning_effort'' limit of (object1, changed1) \<Rightarrow>
           case clamp_reasoning object1 limit of
             Inl e \<Rightarrow> Inl e
           | Inr (object2, changed2) \<Rightarrow>
               (case clamp_model object2 limit of (object3, changed3) \<Rightarrow>
                  if changed1 \<or> changed2 \<or> changed3 then Inr (Some (marshal_map object3))
                  else Inr body)))"

text \<open>An absent type is empty input of \<open>json.Unmarshal\<close>, an error.\<close>

definition MessageType :: "json \<Rightarrow> gerr + string" where
  "MessageType body =
     (case decodeObject body of
        Inl e \<Rightarrow> Inl e
      | Inr object \<Rightarrow>
          (case unmarshal_string (map_of object ''type'') of
             None \<Rightarrow> Inl (ErrNew ''json: cannot unmarshal type'')
           | Some kind \<Rightarrow> Inr kind))"

section \<open>What rewriting does\<close>

text \<open>The efforts a request names: the two selector fields and the suffix of the model.\<close>

definition requested_efforts :: "goany gomap \<Rightarrow> string list" where
  "requested_efforts m =
     List.map_filter id
       [unmarshal_string (map_of m ''reasoning_effort''),
        (case map_of m ''reasoning'' of Some (AObject r) \<Rightarrow> unmarshal_string (map_of r ''effort'') | _ \<Rightarrow> None),
        (case unmarshal_string (map_of m ''model'') of None \<Rightarrow> None
         | Some model \<Rightarrow> map_option snd (effort_suffix model))]"

definition effort_within :: "string \<Rightarrow> string \<Rightarrow> bool" where
  "effort_within limit e \<longleftrightarrow> rank (norm_name e) \<le> rank limit"

lemma levels_normal: "list_all (\<lambda>l. norm_name l = l \<and> CHR ''('' \<notin> set l) levels"
  by code_simp

lemma rank_from_found: "i \<le> rank_from i ls v \<or> rank_from i ls v = - 1"
  by (induction i ls v rule: rank_from.induct) force+

lemma rank_from_member: "0 \<le> i \<Longrightarrow> 0 \<le> rank_from i ls v \<longleftrightarrow> v \<in> set ls"
  by (induction i ls v rule: rank_from.induct) auto

lemma limit_is_level: "ValidLimit limit \<Longrightarrow> limit \<noteq> [] \<Longrightarrow> limit \<in> set levels"
  by (simp add: ValidLimit_def rank_def rank_from_member)

lemma limit_normal: "ValidLimit limit \<Longrightarrow> limit \<noteq> [] \<Longrightarrow> norm_name limit = limit \<and> CHR ''('' \<notin> set limit"
  using limit_is_level levels_normal by (auto simp: list_all_iff)

lemma clamp_within: "ValidLimit limit \<Longrightarrow> limit \<noteq> [] \<Longrightarrow> effort_within limit (clamp e limit)"
  using limit_normal by (auto simp: clamp_def effort_within_def)

lemma clamp_fixed: "limit \<noteq> [] \<Longrightarrow> effort_within limit e \<Longrightarrow> clamp e limit = e"
  by (simp add: clamp_def effort_within_def)

lemma clamp_cases: "clamp e limit = e \<or> clamp e limit = limit"
  by (simp add: clamp_def)

text \<open>The suffix of a model after its effort was replaced.\<close>

lemma last_index_append:
  assumes "c \<notin> set t"
  shows "last_index c (s @ c # t) = Some (length s)"
proof -
  have "takeWhile (\<lambda>d. d \<noteq> c) (rev t @ c # rev s) = rev t"
    using assms by (subst takeWhile_append2) auto
  then show ?thesis by (simp add: last_index_def)
qed

lemma last_index_split: "last_index c s = Some i \<Longrightarrow> i < length s \<and> s ! i = c"
proof -
  assume i: "last_index c s = Some i"
  then have "c \<in> set s" by (auto simp: last_index_def split: if_splits)
  then obtain xs ys where "s = xs @ c # ys" "c \<notin> set ys" by (metis split_list_last)
  then show ?thesis using i last_index_append by auto
qed

lemma effort_suffix_parts:
  assumes "effort_suffix model = Some (front, effort)"
  obtains s where "front = s @ ''(''" "s \<noteq> []"
proof -
  obtain i where i: "last_index (CHR ''('') model = Some i" "0 < i" "front = take (i + 1) model"
    using assms by (auto simp: effort_suffix_def split: if_splits option.splits)
  then have "front = take i model @ ''(''" using last_index_split by (simp add: take_Suc_conv_app_nth)
  moreover have "take i model \<noteq> []" using i last_index_split [OF i(1)] by auto
  ultimately show ?thesis using that by blast
qed

lemma effort_suffix_replaced:
  assumes "effort_suffix model = Some (front, effort)" "CHR ''('' \<notin> set e"
  shows "effort_suffix (front @ e @ '')'') = Some (front, e)"
proof -
  obtain s where s: "front = s @ ''(''" "s \<noteq> []" using effort_suffix_parts [OF assms(1)] .
  have "last_index (CHR ''('') (s @ CHR ''('' # (e @ '')'')) = Some (length s)"
    using assms(2) by (intro last_index_append) auto
  then show ?thesis using s by (simp add: effort_suffix_def has_suffix_def has_prefix_def)
qed


text \<open>Each of the three steps clamps its effort and leaves the other fields.\<close>

definition reasoning_effort :: "goany gomap \<Rightarrow> string option" where
  "reasoning_effort m =
     (case map_of m ''reasoning'' of Some (AObject r) \<Rightarrow> unmarshal_string (map_of r ''effort'') | _ \<Rightarrow> None)"

definition model_effort :: "goany gomap \<Rightarrow> string option" where
  "model_effort m = (case unmarshal_string (map_of m ''model'') of None \<Rightarrow> None
                     | Some model \<Rightarrow> map_option snd (effort_suffix model))"

lemma requested_efforts_alt: "requested_efforts m =
    List.map_filter id [unmarshal_string (map_of m ''reasoning_effort''), reasoning_effort m, model_effort m]"
  by (simp add: requested_efforts_def reasoning_effort_def model_effort_def)

lemma clampField_effect:
  assumes "clampField m f limit = (m', c)"
  shows "unmarshal_string (map_of m' f) = map_option (\<lambda>e. clamp e limit) (unmarshal_string (map_of m f))"
    and "k \<noteq> f \<Longrightarrow> map_of m' k = map_of m k" and "wf_map m \<Longrightarrow> wf_map m'" and "\<not> c \<Longrightarrow> m' = m"
    and "limit \<noteq> [] \<Longrightarrow> pred_option (effort_within limit) (unmarshal_string (map_of m f)) \<Longrightarrow> \<not> c"
proof -
  have "unmarshal_string (map_of m' f) = map_option (\<lambda>e. clamp e limit) (unmarshal_string (map_of m f)) \<and>
    (\<forall>k. k \<noteq> f \<longrightarrow> map_of m' k = map_of m k) \<and> (wf_map m \<longrightarrow> wf_map m') \<and> (\<not> c \<longrightarrow> m' = m) \<and>
    (limit \<noteq> [] \<longrightarrow> pred_option (effort_within limit) (unmarshal_string (map_of m f)) \<longrightarrow> \<not> c)"
  proof (cases "unmarshal_string (map_of m f)")
    case None
    then show ?thesis using assms by (simp add: clampField_def)
  next
    case (Some e)
    then have step: "m' = (if clamp e limit = e then m else mput f (AString (clamp e limit)) m)"
      "c \<longleftrightarrow> clamp e limit \<noteq> e"
      using assms by (auto simp: clampField_def Let_def split: if_splits)
    have "unmarshal_string (Some (AString s)) = Some s" for s by (simp add: unmarshal_string_def)
    then show ?thesis using Some step clamp_fixed by simp
  qed
  note main = this
  show "unmarshal_string (map_of m' f) = map_option (\<lambda>e. clamp e limit) (unmarshal_string (map_of m f))" using main by meson
  show "k \<noteq> f \<Longrightarrow> map_of m' k = map_of m k" using main by meson
  show "wf_map m \<Longrightarrow> wf_map m'" using main by meson
  show "\<not> c \<Longrightarrow> m' = m" using main by meson
  show "limit \<noteq> [] \<Longrightarrow> pred_option (effort_within limit) (unmarshal_string (map_of m f)) \<Longrightarrow> \<not> c" using main by meson
qed

lemma clamp_reasoning_effect:
  assumes "clamp_reasoning m limit = Inr (m', c)"
  shows "reasoning_effort m' = map_option (\<lambda>e. clamp e limit) (reasoning_effort m)"
    and "k \<noteq> ''reasoning'' \<Longrightarrow> map_of m' k = map_of m k" and "wf_map m \<Longrightarrow> wf_map m'" and "\<not> c \<Longrightarrow> m' = m"
    and "limit \<noteq> [] \<Longrightarrow> pred_option (effort_within limit) (reasoning_effort m) \<Longrightarrow> \<not> c"
    and "map_of m ''reasoning'' = Some (AObject r) \<Longrightarrow>
      \<exists>r'. map_of m' ''reasoning'' = Some (AObject r') \<and> wf_map r' \<and> (\<forall>k. k \<noteq> ''effort'' \<longrightarrow> map_of r' k = map_of r k)"
proof -
  consider (obj) r where "map_of m ''reasoning'' = Some (AObject r)"
    | (other) "\<And>r. map_of m ''reasoning'' \<noteq> Some (AObject r)" by blast
  then have "reasoning_effort m' = map_option (\<lambda>e. clamp e limit) (reasoning_effort m) \<and>
    (\<forall>k. k \<noteq> ''reasoning'' \<longrightarrow> map_of m' k = map_of m k) \<and> (wf_map m \<longrightarrow> wf_map m') \<and> (\<not> c \<longrightarrow> m' = m) \<and>
    (limit \<noteq> [] \<longrightarrow> pred_option (effort_within limit) (reasoning_effort m) \<longrightarrow> \<not> c) \<and>
    (\<forall>r. map_of m ''reasoning'' = Some (AObject r) \<longrightarrow>
      (\<exists>r'. map_of m' ''reasoning'' = Some (AObject r') \<and> wf_map r' \<and> (\<forall>k. k \<noteq> ''effort'' \<longrightarrow> map_of r' k = map_of r k)))"
  proof cases
    case obj
    then have wf: "wf_map r" using assms by (simp add: clamp_reasoning_def decodeObject_def split: if_splits)
    obtain r' d where step: "clampField r ''effort'' limit = (r', d)" by force
    note eff = clampField_effect [OF step]
    have result: "m' = (if d then mput ''reasoning'' (marshal_map r') m else m)" "c = d"
      using assms obj wf step by (auto simp: clamp_reasoning_def decodeObject_def split: bool.splits)
    show ?thesis
    proof (cases d)
      case True
      with result obj wf eff show ?thesis
        by (auto simp: reasoning_effort_def marshal_map_def map_of_marshal)
    next
      case False
      with result obj wf eff show ?thesis by (auto simp: reasoning_effort_def)
    qed
  next
    case other
    then have "clamp_reasoning m limit = Inr (m, False)"
      by (auto simp: clamp_reasoning_def split: option.split goany.split)
    then have m': "m' = m" "c = False" using assms by auto
    have "reasoning_effort m = None" using other by (auto simp: reasoning_effort_def split: option.split goany.split)
    then show ?thesis using m' other by auto
  qed
  note main = this
  show "reasoning_effort m' = map_option (\<lambda>e. clamp e limit) (reasoning_effort m)" using main by meson
  show "k \<noteq> ''reasoning'' \<Longrightarrow> map_of m' k = map_of m k" using main by meson
  show "wf_map m \<Longrightarrow> wf_map m'" using main by meson
  show "\<not> c \<Longrightarrow> m' = m" using main by meson
  show "limit \<noteq> [] \<Longrightarrow> pred_option (effort_within limit) (reasoning_effort m) \<Longrightarrow> \<not> c" using main by meson
  show "map_of m ''reasoning'' = Some (AObject r) \<Longrightarrow>
      \<exists>r'. map_of m' ''reasoning'' = Some (AObject r') \<and> wf_map r' \<and> (\<forall>k. k \<noteq> ''effort'' \<longrightarrow> map_of r' k = map_of r k)" using main by meson
qed

lemma clamp_model_effect:
  assumes "ValidLimit limit" "limit \<noteq> []" "clamp_model m limit = (m', c)"
  shows "model_effort m' = map_option (\<lambda>e. clamp e limit) (model_effort m)"
    and "k \<noteq> ''model'' \<Longrightarrow> map_of m' k = map_of m k" and "wf_map m \<Longrightarrow> wf_map m'" and "\<not> c \<Longrightarrow> m' = m"
    and "pred_option (effort_within limit) (model_effort m) \<Longrightarrow> \<not> c"
proof -
  have "model_effort m' = map_option (\<lambda>e. clamp e limit) (model_effort m) \<and>
    (\<forall>k. k \<noteq> ''model'' \<longrightarrow> map_of m' k = map_of m k) \<and> (wf_map m \<longrightarrow> wf_map m') \<and> (\<not> c \<longrightarrow> m' = m) \<and>
    (pred_option (effort_within limit) (model_effort m) \<longrightarrow> \<not> c)"
  proof (cases "unmarshal_string (map_of m ''model'')")
    case None
    then show ?thesis using assms(3) by (simp add: clamp_model_def model_effort_def)
  next
    case model: (Some model)
    show ?thesis
    proof (cases "effort_suffix model")
      case None
      then show ?thesis using assms(3) model by (simp add: clamp_model_def model_effort_def)
    next
      case (Some fe)
      then obtain front e where fe: "effort_suffix model = Some (front, e)" by (cases fe) auto
      show ?thesis
      proof (cases "clamp e limit = e")
        case True
        then show ?thesis using assms(3) model fe by (simp add: clamp_model_def model_effort_def)
      next
        case False
        then have lim: "clamp e limit = limit" using clamp_cases by metis
        have m': "m' = mput ''model'' (AString (front @ limit @ '')'')) m" "c"
          using assms(3) model fe False lim by (auto simp: clamp_model_def)
        have "effort_suffix (front @ limit @ '')'') = Some (front, limit)"
          using effort_suffix_replaced [OF fe] limit_normal [OF assms(1,2)] by blast
        moreover have "\<not> effort_within limit e" using False clamp_fixed [OF assms(2)] by blast
        ultimately show ?thesis
          using m' model fe lim by (auto simp: model_effort_def unmarshal_string_def)
      qed
    qed
  qed
  note main = this
  show "model_effort m' = map_option (\<lambda>e. clamp e limit) (model_effort m)" using main by meson
  show "k \<noteq> ''model'' \<Longrightarrow> map_of m' k = map_of m k" using main by meson
  show "wf_map m \<Longrightarrow> wf_map m'" using main by meson
  show "\<not> c \<Longrightarrow> m' = m" using main by meson
  show "pred_option (effort_within limit) (model_effort m) \<Longrightarrow> \<not> c" using main by meson
qed


lemma map_filter_map_option: "List.map_filter id (map (map_option f) xs) = map f (List.map_filter id xs)"
  by (induction xs) (auto simp: map_filter_simps split: option.split)

lemma requested_within_iff:
  "list_all (effort_within limit) (requested_efforts m) \<longleftrightarrow>
     pred_option (effort_within limit) (unmarshal_string (map_of m ''reasoning_effort'')) \<and>
     pred_option (effort_within limit) (reasoning_effort m) \<and> pred_option (effort_within limit) (model_effort m)"
  by (simp add: requested_efforts_alt map_filter_simps split: option.split)

text \<open>A successful rewrite ran the three steps on an object without repeated keys.\<close>

lemma Rewrite_steps:
  assumes "Rewrite body limit = Inr out" "limit \<noteq> []"
  obtains m m1 c1 m2 c2 m3 c3 where "ValidLimit limit" "body = Some (AObject m)" "wf_map m"
    "clampField m ''reasoning_effort'' limit = (m1, c1)" "clamp_reasoning m1 limit = Inr (m2, c2)"
    "clamp_model m2 limit = (m3, c3)" "out = (if c1 \<or> c2 \<or> c3 then Some (marshal_map m3) else body)"
proof -
  have valid: "ValidLimit limit" using assms by (auto simp: Rewrite_def split: if_splits)
  obtain m where m: "body = Some (AObject m)" "wf_map m"
    using assms valid by (auto simp: Rewrite_def decodeObject_def split: option.splits goany.splits if_splits)
  obtain m1 c1 where 1: "clampField m ''reasoning_effort'' limit = (m1, c1)" by force
  obtain m2 c2 where 2: "clamp_reasoning m1 limit = Inr (m2, c2)"
    using assms valid m 1 by (auto simp: Rewrite_def decodeObject_def split: sum.splits)
  obtain m3 c3 where 3: "clamp_model m2 limit = (m3, c3)" by force
  have "out = (if c1 \<or> c2 \<or> c3 then Some (marshal_map m3) else body)"
    using assms valid m 1 2 3 by (auto simp: Rewrite_def decodeObject_def split: if_splits)
  then show ?thesis using that valid m 1 2 3 by blast
qed

lemma Rewrite_fixed:
  assumes "ValidLimit limit" "limit \<noteq> []" "wf_map m" "list_all (effort_within limit) (requested_efforts m)"
    "\<And>r. map_of m ''reasoning'' = Some (AObject r) \<Longrightarrow> wf_map r"
  shows "Rewrite (Some (AObject m)) limit = Inr (Some (AObject m))"
proof -
  note ok = assms(4) [unfolded requested_within_iff]
  obtain m1 c1 where 1: "clampField m ''reasoning_effort'' limit = (m1, c1)" by force
  have f1: "\<not> c1" "m1 = m" using clampField_effect(4,5) [OF 1] ok assms(2) by auto
  obtain m2 c2 where 2: "clamp_reasoning m limit = Inr (m2, c2)"
  proof (cases "\<exists>r. map_of m ''reasoning'' = Some (AObject r)")
    case True
    then obtain r where "map_of m ''reasoning'' = Some (AObject r)" by blast
    moreover from assms(5) [OF this] have "decodeObject (Some (AObject r)) = Inr r" by (simp add: decodeObject_def)
    ultimately show ?thesis
      using that by (cases "clampField r ''effort'' limit"; cases "snd (clampField r ''effort'' limit)")
        (auto simp: clamp_reasoning_def split: bool.splits)
  next
    case False
    then have "clamp_reasoning m limit = Inr (m, False)"
      by (auto simp: clamp_reasoning_def split: option.split goany.split)
    then show ?thesis using that by blast
  qed
  have f2: "\<not> c2" "m2 = m" using clamp_reasoning_effect(4,5) [OF 2] ok assms(2) by auto
  obtain m3 c3 where 3: "clamp_model m limit = (m3, c3)" by force
  have f3: "\<not> c3" using clamp_model_effect(5) [OF assms(1,2) 3] ok by auto
  show ?thesis
    using assms(1-3) 1 2 3 f1 f2 f3 by (simp add: Rewrite_def decodeObject_def)
qed

lemma Rewrite_effect:
  assumes "Rewrite body limit = Inr out" "limit \<noteq> []"
  obtains m m' where "ValidLimit limit" "body = Some (AObject m)" "out = Some (AObject m')" "wf_map m'"
    "requested_efforts m' = map (\<lambda>e. clamp e limit) (requested_efforts m)"
    "\<forall>k. k \<notin> {''reasoning_effort'', ''reasoning'', ''model''} \<longrightarrow> map_of m' k = map_of m k"
    "\<forall>r. map_of m ''reasoning'' = Some (AObject r) \<longrightarrow>
      (\<exists>r'. map_of m' ''reasoning'' = Some (AObject r') \<and> wf_map r' \<and> (\<forall>k. k \<noteq> ''effort'' \<longrightarrow> map_of r' k = map_of r k))"
    "\<forall>r'. map_of m' ''reasoning'' = Some (AObject r') \<longrightarrow> wf_map r'"
proof -
  obtain m m1 c1 m2 c2 m3 c3 where valid: "ValidLimit limit" and m: "body = Some (AObject m)" "wf_map m"
    and 1: "clampField m ''reasoning_effort'' limit = (m1, c1)" and 2: "clamp_reasoning m1 limit = Inr (m2, c2)"
    and 3: "clamp_model m2 limit = (m3, c3)" and out: "out = (if c1 \<or> c2 \<or> c3 then Some (marshal_map m3) else body)"
    using Rewrite_steps [OF assms] .
  define m' where "m' = (if c1 \<or> c2 \<or> c3 then sort_key fst m3 else m)"
  have wf: "wf_map m1" "wf_map m2" "wf_map m3"
    using m(2) clampField_effect(3) [OF 1] clamp_reasoning_effect(3) [OF 2] clamp_model_effect(3) [OF valid assms(2) 3]
    by auto
  have same: "map_of m' = map_of m3"
    using clampField_effect(4) [OF 1] clamp_reasoning_effect(4) [OF 2] clamp_model_effect(4) [OF valid assms(2) 3] wf
    by (auto simp: m'_def map_of_marshal)
  note look1 = clampField_effect(1,2) [OF 1] and look2 = clamp_reasoning_effect(1,2) [OF 2]
    and look3 = clamp_model_effect(1,2) [OF valid assms(2) 3]
  have cong: "reasoning_effort a = reasoning_effort b" if "map_of a ''reasoning'' = map_of b ''reasoning''" for a b
    using that by (simp add: reasoning_effort_def)
  have cong': "model_effort a = model_effort b" if "map_of a ''model'' = map_of b ''model''" for a b
    using that by (simp add: model_effort_def)
  have e1: "unmarshal_string (map_of m' ''reasoning_effort'') =
      map_option (\<lambda>e. clamp e limit) (unmarshal_string (map_of m ''reasoning_effort''))"
    using look1 look2(2) look3(2) same by simp
  have e2: "reasoning_effort m' = map_option (\<lambda>e. clamp e limit) (reasoning_effort m)"
    using look2(1) cong [of m1 m] cong [of m' m2] look1(2) look3(2) same by simp
  have e3: "model_effort m' = map_option (\<lambda>e. clamp e limit) (model_effort m)"
    using look3(1) cong' [of m2 m] cong' [of m' m3] look1(2) look2(2) same by simp
  have efforts: "requested_efforts m' = map (\<lambda>e. clamp e limit) (requested_efforts m)"
    unfolding requested_efforts_alt e1 e2 e3
    by (simp only: map_filter_map_option [symmetric] list.map)
  have nested: "\<exists>r'. map_of m' ''reasoning'' = Some (AObject r') \<and> wf_map r' \<and> (\<forall>k. k \<noteq> ''effort'' \<longrightarrow> map_of r' k = map_of r k)"
    if "map_of m ''reasoning'' = Some (AObject r)" for r
    using that clamp_reasoning_effect(6) [OF 2, of r] look1(2) look3(2) same by simp
  have nested_wf: "wf_map r'" if "map_of m' ''reasoning'' = Some (AObject r')" for r'
  proof (cases "\<exists>r. map_of m ''reasoning'' = Some (AObject r)")
    case True
    then show ?thesis using nested that by fastforce
  next
    case False
    have "map_of m1 ''reasoning'' = map_of m ''reasoning''" using look1(2) by simp
    then have "m2 = m1" using 2 False by (auto simp: clamp_reasoning_def split: option.splits goany.splits)
    then show ?thesis using False that look1(2) look3(2) same by auto
  qed
  have rest: "map_of m' k = map_of m k" if "k \<notin> {''reasoning_effort'', ''reasoning'', ''model''}" for k
    using that same look1(2) look2(2) look3(2) by simp
  have "out = Some (AObject m')" using out m(1) by (simp add: m'_def marshal_map_def)
  moreover have "wf_map m'" using m(2) wf(3) by (simp add: m'_def)
  ultimately show ?thesis using that [OF valid m(1), of m'] efforts nested nested_wf rest by blast
qed


section \<open>An instance\<close>

definition ex_request :: json where
  "ex_request = Some (AObject
     [(''model'', AString ''gpt(xhigh)''), (''reasoning'', AObject [(''effort'', AString ''High''), (''summary'', AString ''auto'')]),
      (''input'', AString ''hi'')])"

definition ex_rewritten :: json where
  "ex_rewritten = Some (AObject
     [(''input'', AString ''hi''), (''model'', AString ''gpt(low)''),
      (''reasoning'', AObject [(''effort'', AString ''low''), (''summary'', AString ''auto'')])])"

lemma ex_rewrite: "Rewrite ex_request ''low'' = Inr ex_rewritten"
  by code_simp


end
