(* ===== verification/Gateway_Snapshot.thy ===== *)
theory Gateway_Snapshot
  imports Reasoning_Policy Go_Sha256
begin

text \<open>
  What the gateway reads: request paths and bearer keys (\<open>internal/gateway/path.go\<close>), and the
  authentication snapshot, the quota snapshot and the collector heartbeat (\<open>internal/gateway/snapshot.go\<close>).
\<close>

section \<open>Paths and keys\<close>

definition publicPathPrefixes :: "string list" where
  "publicPathPrefixes = [''/v1'', ''/v1beta'', ''/backend-api/codex'', ''/api/provider'']"

text \<open>
  \<open>path.Clean\<close> of a rooted path: empty and \<open>.\<close> segments vanish, \<open>..\<close> removes the segment before it and
  vanishes at the root. \<open>clean_segments\<close> keeps the segments read so far, the last one first.
\<close>

fun clean_segments :: "string list \<Rightarrow> string list \<Rightarrow> string list" where
  "clean_segments acc [] = rev acc"
| "clean_segments acc (s # ss) =
     (if s = [] \<or> s = ''.'' then clean_segments acc ss
      else if s = ''..'' then clean_segments (tl acc) ss
      else clean_segments (s # acc) ss)"

definition clean_rooted :: "string \<Rightarrow> string" where
  "clean_rooted path = CHR ''/'' # join_with ''/'' (clean_segments [] (split_on (CHR ''/'') path))"

definition public_path :: "string \<Rightarrow> bool" where
  "public_path p \<longleftrightarrow> p = ''/v1internal:method'' \<or>
     (\<exists>prefix \<in> set publicPathPrefixes. p = prefix \<or> has_prefix (prefix @ ''/'') p)"

definition NormalizePublicPath :: "string \<Rightarrow> string \<times> bool" where
  "NormalizePublicPath path =
     (if path = [] \<or> hd path \<noteq> CHR ''/'' then ([], False)
      else let normalized = clean_rooted path
           in if public_path normalized then (normalized, True) else ([], False))"

definition AllowedPublicPath :: "string \<Rightarrow> bool" where
  "AllowedPublicPath path = snd (NormalizePublicPath path)"

text \<open>
  The pattern \<open>(?i)^bearer[[:space:]]+([^[:space:]]+)[[:space:]]*$\<close>, matched from left to right. The
  class holds six ASCII bytes, and the letters of the scheme have no case variants outside ASCII.
\<close>

definition posix_space :: "char \<Rightarrow> bool" where
  "posix_space c = space1 c"

definition ExtractBearer :: "string \<Rightarrow> string \<times> bool" where
  "ExtractBearer header =
     (let scheme = take 6 header; rest = drop 6 header;
          key = takeWhile (\<lambda>c. \<not> posix_space c) (dropWhile posix_space rest);
          tail = dropWhile (\<lambda>c. \<not> posix_space c) (dropWhile posix_space rest)
      in if to_lower scheme = ''bearer'' \<and> rest \<noteq> [] \<and> posix_space (hd rest) \<and> key \<noteq> [] \<and> list_all posix_space tail
         then (key, True) else ([], False))"

section \<open>Snapshots\<close>

definition MaxSnapshotBytes :: nat where
  "MaxSnapshotBytes = 16 * 1024 * 1024"

text \<open>
  What a reader delivers: nothing, an error, or bytes, given by their number, whether they are all
  white space, and the JSON document they encode.
\<close>

datatype content = NoReader | ReadFails gerr | Content nat bool json

definition readSnapshot :: "content \<Rightarrow> gerr + json" where
  "readSnapshot reader =
     (case reader of
        NoReader \<Rightarrow> Inl (ErrNew ''snapshot reader is nil'')
      | ReadFails e \<Rightarrow> Inl (ErrWrap ''read snapshot: '' e [])
      | Content n blank doc \<Rightarrow>
          if n = 0 \<or> blank then Inl (ErrNew ''empty snapshot'')
          else if MaxSnapshotBytes < n then Inl (ErrNew ''snapshot too large'')
          else Inr doc)"

definition account_char :: "char \<Rightarrow> bool" where
  "account_char c \<longleftrightarrow> (97 \<le> (of_char c :: nat) \<and> (of_char c :: nat) \<le> 122) \<or> is_digit c \<or> c = CHR ''-''"

text \<open>\<open>^[a-z][a-z0-9-]+$\<close> and \<open>^cliproxy-[a-z][a-z0-9-]+:8317$\<close>.\<close>

definition accountNamePattern :: "string \<Rightarrow> bool" where
  "accountNamePattern s \<longleftrightarrow> 2 \<le> length s \<and> list_all account_char s \<and>
     97 \<le> (of_char (hd s) :: nat) \<and> (of_char (hd s) :: nat) \<le> 122"

definition backendPattern :: "string \<Rightarrow> bool" where
  "backendPattern s \<longleftrightarrow> has_prefix ''cliproxy-'' s \<and> has_suffix '':8317'' s \<and>
     accountNamePattern (take (length s - 14) (drop 9 s))"

definition validLowerHex :: "string \<Rightarrow> nat \<Rightarrow> bool" where
  "validLowerHex value n \<longleftrightarrow> length value = n \<and> list_all lower_hex value"

text \<open>\<open>int64(math.Floor(value))\<close> inside the range of \<open>int64\<close>.\<close>

definition floorInt64 :: "f64 \<Rightarrow> gerr + int" where
  "floorInt64 value = (case value of
       Fin q \<Rightarrow> if q < - (2 ^ 63) \<or> 2 ^ 63 \<le> q then Inl (ErrNew ''number is outside int64 range'') else Inr \<lfloor>q\<rfloor>
     | _ \<Rightarrow> Inl (ErrNew ''number is outside int64 range''))"

definition snapshotNumber :: "goany \<Rightarrow> f64 option" where
  "snapshotNumber value =
     (case (case value of AFloat f \<Rightarrow> Some f | AString s \<Rightarrow> ParseFloat (trim_space s) | _ \<Rightarrow> None) of
        Some f \<Rightarrow> if finite64 f then Some f else None
      | None \<Rightarrow> None)"

definition optionalSnapshotFloor :: "goany \<Rightarrow> int \<Rightarrow> gerr + int" where
  "optionalSnapshotFloor value fallback =
     (case snapshotNumber value of None \<Rightarrow> Inr fallback | Some f \<Rightarrow> floorInt64 f)"

definition snapshotNumberOrFallback :: "goany \<Rightarrow> f64 \<Rightarrow> f64" where
  "snapshotNumberOrFallback value fallback =
     (case snapshotNumber value of None \<Rightarrow> fallback | Some f \<Rightarrow> f)"

subsection \<open>The authentication snapshot\<close>

record auth_record =
  gr_ExternalKeySHA256 :: string
  gr_UserEmail :: string
  gr_Account :: string
  gr_Backend :: string
  gr_InternalKey :: string
  gr_Label :: string

record auth_snapshot =
  gs_Version :: int
  gs_Generation :: string
  gs_GeneratedAt :: f64
  gs_Records :: "auth_record list"
  gs_MaxReasoningEffort :: string

record raw_auth_snapshot =
  rg_Version :: int
  rg_Generation :: string
  rg_GeneratedAt :: goany
  rg_Records :: "auth_record list option"
  rg_MaxReasoningEffort :: string

definition zero_auth_record :: auth_record where
  "zero_auth_record = \<lparr>gr_ExternalKeySHA256 = [], gr_UserEmail = [], gr_Account = [], gr_Backend = [],
     gr_InternalKey = [], gr_Label = []\<rparr>"

definition auth_record_of :: "goany gomap \<Rightarrow> auth_record option" where
  "auth_record_of m =
     (case (dec_string m ''external_key_sha256'', dec_string m ''user_email'', dec_string m ''account'',
            dec_string m ''backend'', dec_string m ''internal_key'', dec_string m ''label'') of
        (Some d, Some u, Some a, Some b, Some k, Some l) \<Rightarrow>
          Some \<lparr>gr_ExternalKeySHA256 = d, gr_UserEmail = u, gr_Account = a, gr_Backend = b,
                gr_InternalKey = k, gr_Label = l\<rparr>
      | _ \<Rightarrow> None)"

definition auth_record_json :: "auth_record \<Rightarrow> goany" where
  "auth_record_json r = AObject
     [(''external_key_sha256'', AString (gr_ExternalKeySHA256 r)), (''user_email'', AString (gr_UserEmail r)),
      (''account'', AString (gr_Account r)), (''backend'', AString (gr_Backend r)),
      (''internal_key'', AString (gr_InternalKey r)), (''label'', AString (gr_Label r))]"

definition zero_raw_auth :: raw_auth_snapshot where
  "zero_raw_auth = \<lparr>rg_Version = 0, rg_Generation = [], rg_GeneratedAt = ANil, rg_Records = None,
     rg_MaxReasoningEffort = []\<rparr>"

definition raw_auth_of :: "goany gomap \<Rightarrow> raw_auth_snapshot option" where
  "raw_auth_of m =
     (case (dec_int m ''version'', dec_string m ''generation'', dec_any m ''generated_at'',
            dec_slice (dec_struct_of zero_auth_record auth_record_of) m ''records'',
            dec_string m ''max_reasoning_effort'') of
        (Some v, Some g, Some t, Some rs, Some e) \<Rightarrow>
          Some \<lparr>rg_Version = v, rg_Generation = g, rg_GeneratedAt = t, rg_Records = rs, rg_MaxReasoningEffort = e\<rparr>
      | _ \<Rightarrow> None)"

text \<open>An empty effort is omitted from the encoding.\<close>

definition auth_snapshot_json :: "auth_snapshot \<Rightarrow> goany" where
  "auth_snapshot_json s = AObject
     ([(''version'', AInt64 (gs_Version s)), (''generation'', AString (gs_Generation s)),
       (''generated_at'', AFloat (gs_GeneratedAt s)), (''records'', AList (map auth_record_json (gs_Records s)))] @
      (if gs_MaxReasoningEffort s = [] then [] else [(''max_reasoning_effort'', AString (gs_MaxReasoningEffort s))]))"

definition auth_record_valid :: "strset \<Rightarrow> auth_record \<Rightarrow> bool" where
  "auth_record_valid seen r \<longleftrightarrow>
     validLowerHex (gr_ExternalKeySHA256 r) 64 \<and> gr_UserEmail r \<noteq> [] \<and> accountNamePattern (gr_Account r) \<and>
     backendPattern (gr_Backend r) \<and> gr_InternalKey r \<noteq> [] \<and> gr_Label r \<noteq> [] \<and>
     gr_ExternalKeySHA256 r \<notin> set seen"

fun check_auth_records :: "int \<Rightarrow> strset \<Rightarrow> auth_record list \<Rightarrow> gerr option" where
  "check_auth_records index seen [] = None"
| "check_auth_records index seen (r # rs) =
     (if auth_record_valid seen r
      then check_auth_records (index + 1) (set_add (gr_ExternalKeySHA256 r) seen) rs
      else Some (ErrNew (''invalid auth snapshot record at index '' @ itoa index)))"

definition auth_of_raw :: "raw_auth_snapshot \<Rightarrow> gerr + auth_snapshot" where
  "auth_of_raw input =
     (case rg_Records input of
        None \<Rightarrow> Inl (ErrNew ''invalid auth snapshot envelope'')
      | Some records \<Rightarrow>
          if rg_Version input \<noteq> 1 \<or> \<not> validLowerHex (rg_Generation input) 32 \<or>
             \<not> ValidLimit (rg_MaxReasoningEffort input)
          then Inl (ErrNew ''invalid auth snapshot envelope'')
          else (case check_auth_records 0 [] records of
                  Some e \<Rightarrow> Inl e
                | None \<Rightarrow> Inr \<lparr>gs_Version = rg_Version input, gs_Generation = rg_Generation input,
                    gs_GeneratedAt = snapshotNumberOrFallback (rg_GeneratedAt input) (Fin 0),
                    gs_Records = records, gs_MaxReasoningEffort = rg_MaxReasoningEffort input\<rparr>))"

definition ParseAuthSnapshot :: "content \<Rightarrow> gerr + auth_snapshot" where
  "ParseAuthSnapshot reader =
     and_then (readSnapshot reader) (\<lambda>raw.
     and_then (wrapping ''decode auth snapshot: '' (dec_document zero_raw_auth raw_auth_of raw)) auth_of_raw)"

subsection \<open>The quota snapshot\<close>

record quota_record =
  qr_UserEmail :: string
  qr_WeekStartAt :: int
  qr_WeekEndAt :: int
  qr_LimitTokens :: int
  qr_UsedTokens :: int
  qr_RawUsedTokens :: int
  qr_WeightedRawUsedTokens :: int
  qr_QuotaUnit :: string

record quota_snapshot =
  qs_Version :: int
  qs_Generation :: string
  qs_GeneratedAt :: f64
  qs_ContentSHA256 :: string
  qs_Records :: "quota_record list"

record raw_quota_record =
  rq_UserEmail :: string
  rq_WeekStartAt :: "f64 option"
  rq_WeekEndAt :: "f64 option"
  rq_LimitTokens :: "f64 option"
  rq_UsedTokens :: "f64 option"
  rq_RawUsedTokens :: goany
  rq_WeightedRawUsedTokens :: goany

definition zero_raw_quota_record :: raw_quota_record where
  "zero_raw_quota_record = \<lparr>rq_UserEmail = [], rq_WeekStartAt = None, rq_WeekEndAt = None, rq_LimitTokens = None,
     rq_UsedTokens = None, rq_RawUsedTokens = ANil, rq_WeightedRawUsedTokens = ANil\<rparr>"

definition raw_quota_record_of :: "goany gomap \<Rightarrow> raw_quota_record option" where
  "raw_quota_record_of m =
     (case (dec_string m ''user_email'', dec_float_ptr m ''week_start_at'', dec_float_ptr m ''week_end_at'',
            dec_float_ptr m ''limit_tokens'', dec_float_ptr m ''used_tokens'', dec_any m ''raw_used_tokens'',
            dec_any m ''weighted_raw_used_tokens'') of
        (Some u, Some s, Some e, Some l, Some t, Some r, Some w) \<Rightarrow>
          Some \<lparr>rq_UserEmail = u, rq_WeekStartAt = s, rq_WeekEndAt = e, rq_LimitTokens = l, rq_UsedTokens = t,
                rq_RawUsedTokens = r, rq_WeightedRawUsedTokens = w\<rparr>
      | _ \<Rightarrow> None)"

record raw_quota_snapshot =
  rs_Version :: int
  rs_Generation :: string
  rs_GeneratedAt :: goany
  rs_ContentSHA256 :: string
  rs_Records :: "raw_quota_record list option"

definition zero_raw_quota :: raw_quota_snapshot where
  "zero_raw_quota = \<lparr>rs_Version = 0, rs_Generation = [], rs_GeneratedAt = ANil, rs_ContentSHA256 = [], rs_Records = None\<rparr>"

definition raw_quota_of :: "goany gomap \<Rightarrow> raw_quota_snapshot option" where
  "raw_quota_of m =
     (case (dec_int m ''version'', dec_string m ''generation'', dec_any m ''generated_at'',
            dec_string m ''content_sha256'',
            dec_slice (dec_struct_of zero_raw_quota_record raw_quota_record_of) m ''records'') of
        (Some v, Some g, Some t, Some c, Some rs) \<Rightarrow>
          Some \<lparr>rs_Version = v, rs_Generation = g, rs_GeneratedAt = t, rs_ContentSHA256 = c, rs_Records = rs\<rparr>
      | _ \<Rightarrow> None)"

text \<open>\<open>*float64\<close> fields are read only after the nil test.\<close>

definition invalid_quota_record :: "int \<Rightarrow> gerr + 'a" where
  "invalid_quota_record index = Inl (ErrNew (''invalid quota snapshot record at index '' @ itoa index))"

definition floor_field :: "string \<Rightarrow> int \<Rightarrow> gerr + int \<Rightarrow> gerr + int" where
  "floor_field name index r = wrapping (''invalid quota '' @ name @ '' at index '' @ itoa index @ '': '') r"

definition quota_floats_ok :: "f64 \<Rightarrow> f64 \<Rightarrow> f64 \<Rightarrow> f64 \<Rightarrow> bool" where
  "quota_floats_ok start end_at limit used \<longleftrightarrow>
     finite64 start \<and> finite64 end_at \<and> finite64 limit \<and> finite64 used \<and>
     \<not> f_le end_at start \<and> \<not> f_lt limit (Fin (- 1)) \<and> \<not> f_lt used (Fin 0)"

definition quota_record_of_raw :: "int \<Rightarrow> strset \<Rightarrow> raw_quota_record \<Rightarrow> gerr + quota_record" where
  "quota_record_of_raw index seen r =
     (case (rq_WeekStartAt r, rq_WeekEndAt r, rq_LimitTokens r, rq_UsedTokens r) of
        (Some start, Some end_at, Some limit, Some used) \<Rightarrow>
          if rq_UserEmail r = [] \<or> rq_UserEmail r \<in> set seen \<or> \<not> quota_floats_ok start end_at limit used
          then invalid_quota_record index
          else
            and_then (floor_field ''week_start_at'' index (floorInt64 start)) (\<lambda>weekStart.
            and_then (floor_field ''week_end_at'' index (floorInt64 end_at)) (\<lambda>weekEnd.
            and_then (floor_field ''limit_tokens'' index (floorInt64 limit)) (\<lambda>limit'.
            and_then (floor_field ''used_tokens'' index (floorInt64 used)) (\<lambda>used'.
            and_then (floor_field ''raw_used_tokens'' index
                        (optionalSnapshotFloor (rq_RawUsedTokens r) used')) (\<lambda>rawUsed.
            and_then (floor_field ''weighted_raw_used_tokens'' index
                        (optionalSnapshotFloor (rq_WeightedRawUsedTokens r) used')) (\<lambda>weighted.
              Inr \<lparr>qr_UserEmail = rq_UserEmail r, qr_WeekStartAt = weekStart, qr_WeekEndAt = weekEnd,
                   qr_LimitTokens = limit', qr_UsedTokens = used', qr_RawUsedTokens = rawUsed,
                   qr_WeightedRawUsedTokens = weighted, qr_QuotaUnit = ''weighted_tokens''\<rparr>))))))
      | _ \<Rightarrow> invalid_quota_record index)"

fun quota_records_of_raw :: "int \<Rightarrow> strset \<Rightarrow> raw_quota_record list \<Rightarrow> gerr + quota_record list" where
  "quota_records_of_raw index seen [] = Inr []"
| "quota_records_of_raw index seen (r # rs) =
     and_then (quota_record_of_raw index seen r) (\<lambda>record.
       and_then (quota_records_of_raw (index + 1) (set_add (rq_UserEmail r) seen) rs) (\<lambda>records.
         Inr (record # records)))"

definition quota_of_raw :: "raw_quota_snapshot \<Rightarrow> gerr + quota_snapshot" where
  "quota_of_raw input =
     (case rs_Records input of
        None \<Rightarrow> Inl (ErrNew ''invalid quota snapshot envelope'')
      | Some raw_records \<Rightarrow>
          if rs_Version input \<noteq> 1 \<or> \<not> validLowerHex (rs_Generation input) 32
          then Inl (ErrNew ''invalid quota snapshot envelope'')
          else and_then (quota_records_of_raw 0 [] raw_records) (\<lambda>records.
            Inr \<lparr>qs_Version = rs_Version input, qs_Generation = rs_Generation input,
                 qs_GeneratedAt = snapshotNumberOrFallback (rs_GeneratedAt input) (Fin 0),
                 qs_ContentSHA256 = rs_ContentSHA256 input, qs_Records = records\<rparr>))"

definition ParseQuotaSnapshot :: "content \<Rightarrow> gerr + quota_snapshot" where
  "ParseQuotaSnapshot reader =
     and_then (readSnapshot reader) (\<lambda>raw.
     and_then (wrapping ''decode quota snapshot: '' (dec_document zero_raw_quota raw_quota_of raw)) quota_of_raw)"

subsection \<open>The collector heartbeat\<close>

record quota_heartbeat =
  hb_Version :: int
  hb_UpdatedAt :: int
  hb_OK :: bool
  hb_Error :: string
  hb_StaleAfterSeconds :: int
  hb_LastSuccessAt :: int
  hb_FailOpenAfterSeconds :: int

record raw_quota_heartbeat =
  rh_Version :: int
  rh_UpdatedAt :: "f64 option"
  rh_OK :: "bool option"
  rh_Error :: string
  rh_StaleAfterSeconds :: goany
  rh_LastSuccessAt :: "f64 option"
  rh_FailOpenAfterSeconds :: "f64 option"

definition zero_raw_heartbeat :: raw_quota_heartbeat where
  "zero_raw_heartbeat = \<lparr>rh_Version = 0, rh_UpdatedAt = None, rh_OK = None, rh_Error = [], rh_StaleAfterSeconds = ANil,
     rh_LastSuccessAt = None, rh_FailOpenAfterSeconds = None\<rparr>"

definition raw_heartbeat_of :: "goany gomap \<Rightarrow> raw_quota_heartbeat option" where
  "raw_heartbeat_of m =
     (case (dec_int m ''version'', dec_float_ptr m ''updated_at'', dec_bool_ptr m ''ok'', dec_string m ''error'',
            dec_any m ''stale_after_seconds'', dec_float_ptr m ''last_success_at'',
            dec_float_ptr m ''fail_open_after_seconds'') of
        (Some v, Some u, Some k, Some e, Some s, Some l, Some f) \<Rightarrow>
          Some \<lparr>rh_Version = v, rh_UpdatedAt = u, rh_OK = k, rh_Error = e, rh_StaleAfterSeconds = s,
                rh_LastSuccessAt = l, rh_FailOpenAfterSeconds = f\<rparr>
      | _ \<Rightarrow> None)"

definition heartbeat_of_raw :: "raw_quota_heartbeat \<Rightarrow> gerr + quota_heartbeat" where
  "heartbeat_of_raw input =
     (case (rh_UpdatedAt input, rh_OK input, rh_LastSuccessAt input, rh_FailOpenAfterSeconds input) of
        (Some updated, Some isOK, Some lastSuccess, Some failOpen) \<Rightarrow>
          if rh_Version input \<noteq> 1 then Inl (ErrNew ''invalid quota heartbeat'')
          else
            and_then (wrapping ''invalid quota heartbeat updated_at: '' (floorInt64 updated)) (\<lambda>updatedAt.
            and_then (wrapping ''invalid quota heartbeat last_success_at: '' (floorInt64 lastSuccess)) (\<lambda>lastSuccessAt.
            and_then (wrapping ''invalid quota heartbeat fail_open_after_seconds: '' (floorInt64 failOpen)) (\<lambda>failOpenAfter.
            and_then (wrapping ''invalid quota heartbeat stale_after_seconds: ''
                        (optionalSnapshotFloor (rh_StaleAfterSeconds input) 15)) (\<lambda>staleAfter.
              Inr \<lparr>hb_Version = rh_Version input, hb_UpdatedAt = updatedAt, hb_OK = isOK, hb_Error = rh_Error input,
                   hb_StaleAfterSeconds = max 5 staleAfter, hb_LastSuccessAt = max 0 lastSuccessAt,
                   hb_FailOpenAfterSeconds = max 30 failOpenAfter\<rparr>))))
      | _ \<Rightarrow> Inl (ErrNew ''invalid quota heartbeat''))"

definition ParseQuotaHeartbeat :: "content \<Rightarrow> gerr + quota_heartbeat" where
  "ParseQuotaHeartbeat reader =
     and_then (readSnapshot reader) (\<lambda>raw.
     and_then (wrapping ''decode quota heartbeat: '' (dec_document zero_raw_heartbeat raw_heartbeat_of raw)) heartbeat_of_raw)"

end
