(* ===== verification/Gateway_Engine.thy ===== *)
theory Gateway_Engine
  imports Gateway_Snapshot
begin

text \<open>
  The gateway's decision on a request (\<open>internal/gateway/authorize.go\<close>), its status
  (\<open>internal/gateway/status.go\<close>) and the refresh of its snapshots (\<open>internal/gateway/loader.go\<close>).
\<close>

section \<open>State\<close>

text \<open>\<open>AuthSnapshotMaxAge\<close> is 5 seconds, a duration.\<close>

definition AuthSnapshotMaxAge :: int where
  "AuthSnapshotMaxAge = 5 * second"

record identity =
  id_UserEmail :: string
  id_Account :: string
  id_Backend :: string
  id_InternalKey :: string
  id_Label :: string

record api_error =
  ae_Message :: string
  ae_Type :: string
  ae_Code :: string

record weekly_quota =
  wq_UsedTokens :: int
  wq_WeightedUsedTokens :: int
  wq_RawUsedTokens :: int
  wq_LimitTokens :: int
  wq_WeekEndAt :: int
  wq_QuotaUnit :: string

record error_response =
  re_Error :: api_error
  re_UserWeeklyQuota :: "weekly_quota option"

record decision =
  dc_Allowed :: bool
  dc_Status :: int
  dc_Identity :: "identity option"
  dc_Response :: "error_response option"
  dc_RetryAfterSeconds :: int
  dc_MaxReasoningEffort :: string
  dc_Warning :: string

definition UpstreamAuthorization :: "decision \<Rightarrow> string" where
  "UpstreamAuthorization d = (case dc_Identity d of
       None \<Rightarrow> [] | Some i \<Rightarrow> if id_InternalKey i = [] then [] else ''Bearer '' @ id_InternalKey i)"

record auth_state =
  au_maxReasoningEffort :: string
  au_generation :: string
  au_previousGeneration :: string
  au_generatedAt :: f64
  au_loadedAt :: int
  au_recordCount :: int
  au_byDigest :: "identity gomap"

record quota_state =
  qt_generation :: string
  qt_previousGeneration :: string
  qt_generatedAt :: f64
  qt_loadedAt :: int
  qt_recordCount :: int
  qt_byUser :: "quota_record gomap"

record engine =
  en_auth :: "auth_state option"
  en_quota :: "quota_state option"
  en_heartbeat :: "quota_heartbeat option"

definition NewEngine :: engine where
  "NewEngine = \<lparr>en_auth = None, en_quota = None, en_heartbeat = None\<rparr>"

section \<open>Loading\<close>

definition identity_of :: "auth_record \<Rightarrow> identity" where
  "identity_of r = \<lparr>id_UserEmail = gr_UserEmail r, id_Account = gr_Account r, id_Backend = gr_Backend r,
     id_InternalKey = gr_InternalKey r, id_Label = gr_Label r\<rparr>"

definition by_digest :: "auth_record list \<Rightarrow> identity gomap" where
  "by_digest records = foldl (\<lambda>m r. mput (gr_ExternalKeySHA256 r) (identity_of r) m) [] records"

definition by_user :: "quota_record list \<Rightarrow> quota_record gomap" where
  "by_user records = foldl (\<lambda>m r. mput (qr_UserEmail r) r m) [] records"

text \<open>The generation before the active one: kept when the same generation is loaded again.\<close>

definition previous_generation :: "(string \<times> string) option \<Rightarrow> string \<Rightarrow> string" where
  "previous_generation previous generation =
     (case previous of None \<Rightarrow> []
      | Some (active, before) \<Rightarrow> if active \<noteq> generation then active else before)"

definition LoadAuthSnapshot :: "content \<Rightarrow> int \<Rightarrow> engine \<Rightarrow> gerr option \<times> engine" where
  "LoadAuthSnapshot reader loadedAt en =
     (case ParseAuthSnapshot reader of
        Inl e \<Rightarrow> (Some e, en)
      | Inr s \<Rightarrow>
          (None, en\<lparr>en_auth := Some
             \<lparr>au_maxReasoningEffort = gs_MaxReasoningEffort s, au_generation = gs_Generation s,
              au_previousGeneration = previous_generation
                (map_option (\<lambda>p. (au_generation p, au_previousGeneration p)) (en_auth en)) (gs_Generation s),
              au_generatedAt = gs_GeneratedAt s, au_loadedAt = unix_of loadedAt,
              au_recordCount = int (length (gs_Records s)), au_byDigest = by_digest (gs_Records s)\<rparr>\<rparr>))"

definition LoadQuotaSnapshot :: "content \<Rightarrow> int \<Rightarrow> engine \<Rightarrow> gerr option \<times> engine" where
  "LoadQuotaSnapshot reader loadedAt en =
     (case ParseQuotaSnapshot reader of
        Inl e \<Rightarrow> (Some e, en)
      | Inr s \<Rightarrow>
          (None, en\<lparr>en_quota := Some
             \<lparr>qt_generation = qs_Generation s,
              qt_previousGeneration = previous_generation
                (map_option (\<lambda>p. (qt_generation p, qt_previousGeneration p)) (en_quota en)) (qs_Generation s),
              qt_generatedAt = qs_GeneratedAt s, qt_loadedAt = unix_of loadedAt,
              qt_recordCount = int (length (qs_Records s)), qt_byUser = by_user (qs_Records s)\<rparr>\<rparr>))"

definition LoadQuotaHeartbeat :: "content \<Rightarrow> engine \<Rightarrow> gerr option \<times> engine" where
  "LoadQuotaHeartbeat reader en =
     (case ParseQuotaHeartbeat reader of
        Inl e \<Rightarrow> (Some e, en)
      | Inr h \<Rightarrow> (None, en\<lparr>en_heartbeat := Some h\<rparr>))"

section \<open>Authorization\<close>

definition no_decision :: decision where
  "no_decision = \<lparr>dc_Allowed = False, dc_Status = 0, dc_Identity = None, dc_Response = None,
     dc_RetryAfterSeconds = 0, dc_MaxReasoningEffort = [], dc_Warning = []\<rparr>"

definition unavailableAuthDecision :: "string \<Rightarrow> decision" where
  "unavailableAuthDecision code = no_decision\<lparr>dc_Status := 503, dc_RetryAfterSeconds := 1,
     dc_Response := Some \<lparr>re_Error = \<lparr>ae_Message = ''API authentication is temporarily unavailable'',
       ae_Type = ''server_error'', ae_Code = code\<rparr>, re_UserWeeklyQuota = None\<rparr>\<rparr>"

definition invalidKeyDecision :: decision where
  "invalidKeyDecision = no_decision\<lparr>dc_Status := 401,
     dc_Response := Some \<lparr>re_Error = \<lparr>ae_Message = ''Invalid API key'', ae_Type = ''invalid_request_error'', ae_Code = []\<rparr>,
       re_UserWeeklyQuota = None\<rparr>\<rparr>"

definition allow :: "auth_state \<Rightarrow> identity \<Rightarrow> decision" where
  "allow auth i = no_decision\<lparr>dc_Allowed := True, dc_Identity := Some i,
     dc_MaxReasoningEffort := au_maxReasoningEffort auth\<rparr>"

definition quota_exceeded :: "int \<Rightarrow> quota_record \<Rightarrow> decision \<Rightarrow> decision" where
  "quota_exceeded nowUnix q d = d\<lparr>dc_Allowed := False, dc_Status := 429,
     dc_RetryAfterSeconds := (if sub64 (qr_WeekEndAt q) nowUnix < 1 then 1 else sub64 (qr_WeekEndAt q) nowUnix),
     dc_Response := Some \<lparr>re_Error = \<lparr>ae_Message = ''Weekly user token quota exceeded'', ae_Type = ''tokens'',
         ae_Code = ''weekly_user_token_quota_exceeded''\<rparr>,
       re_UserWeeklyQuota = Some \<lparr>wq_UsedTokens = qr_UsedTokens q, wq_WeightedUsedTokens = qr_UsedTokens q,
         wq_RawUsedTokens = qr_RawUsedTokens q, wq_LimitTokens = qr_LimitTokens q, wq_WeekEndAt = qr_WeekEndAt q,
         wq_QuotaUnit = ''weighted_tokens''\<rparr>\<rparr>\<rparr>"

definition apply_user_quota :: "int \<Rightarrow> quota_state \<Rightarrow> identity \<Rightarrow> decision \<Rightarrow> decision" where
  "apply_user_quota nowUnix quota i d =
     (case map_of (qt_byUser quota) (id_UserEmail i) of
        None \<Rightarrow> d\<lparr>dc_Warning := ''user_record_missing''\<rparr>
      | Some q \<Rightarrow>
          if qr_WeekEndAt q \<le> nowUnix then d\<lparr>dc_Warning := ''snapshot_period_expired''\<rparr>
          else if qr_LimitTokens q < 0 \<or> qr_UsedTokens q < qr_LimitTokens q then d
          else quota_exceeded nowUnix q d)"

definition apply_quota :: "int \<Rightarrow> engine \<Rightarrow> identity \<Rightarrow> decision \<Rightarrow> decision" where
  "apply_quota nowUnix en i d =
     (case en_heartbeat en of
        None \<Rightarrow> d\<lparr>dc_Warning := ''collector_last_success''\<rparr>
      | Some heartbeat \<Rightarrow>
          if hb_LastSuccessAt heartbeat \<le> 0 \<or>
             hb_FailOpenAfterSeconds heartbeat < sub64 nowUnix (hb_LastSuccessAt heartbeat)
          then d\<lparr>dc_Warning := ''collector_last_success''\<rparr>
          else (case en_quota en of
              None \<Rightarrow> d\<lparr>dc_Warning := ''snapshot_loader''\<rparr>
            | Some quota \<Rightarrow>
                if qt_loadedAt quota \<le> 0 \<or> hb_FailOpenAfterSeconds heartbeat < sub64 nowUnix (qt_loadedAt quota)
                then d\<lparr>dc_Warning := ''snapshot_loader''\<rparr>
                else if qt_generation quota = [] then d\<lparr>dc_Warning := ''snapshot_missing''\<rparr>
                else apply_user_quota nowUnix quota i d))"

definition Authorize :: "engine \<Rightarrow> int \<Rightarrow> string \<Rightarrow> bool \<Rightarrow> decision" where
  "Authorize en now authorization enforceQuota =
     (case en_auth en of
        None \<Rightarrow> unavailableAuthDecision ''authentication_snapshot_unavailable''
      | Some auth \<Rightarrow>
          if au_generation auth = [] \<or> au_loadedAt auth \<le> 0 \<or>
             seconds_of AuthSnapshotMaxAge < sub64 (unix_of now) (au_loadedAt auth)
          then unavailableAuthDecision ''authentication_snapshot_unavailable''
          else (case ExtractBearer authorization of
              (_, False) \<Rightarrow> invalidKeyDecision
            | (externalKey, True) \<Rightarrow>
                (case map_of (au_byDigest auth) (sha256_hex externalKey) of
                   None \<Rightarrow> invalidKeyDecision
                 | Some i \<Rightarrow>
                     if \<not> enforceQuota then allow auth i
                     else apply_quota (unix_of now) en i (allow auth i))))"

definition MaxReasoningEffort :: "engine \<Rightarrow> string" where
  "MaxReasoningEffort en = (case en_auth en of None \<Rightarrow> [] | Some auth \<Rightarrow> au_maxReasoningEffort auth)"

text \<open>\<open>rewriteWebSocketRequest\<close>, applied to each message of a client on an established WebSocket.\<close>

definition errInvalidWebSocketRequest :: gerr where
  "errInvalidWebSocketRequest = Sentinel ''invalid response.create request''"

definition rewriteWebSocketRequest :: "json \<Rightarrow> string \<Rightarrow> gerr + json" where
  "rewriteWebSocketRequest data limit =
     (if limit = [] then Inr data
      else (case MessageType data of
          Inl _ \<Rightarrow> Inl errInvalidWebSocketRequest
        | Inr kind \<Rightarrow>
            if kind \<noteq> ''response.create'' then Inr data
            else (case Rewrite data limit of Inl _ \<Rightarrow> Inl errInvalidWebSocketRequest | Inr mapped \<Rightarrow> Inr mapped)))"

section \<open>Status\<close>

record kind_status =
  ks_ActiveGeneration :: string
  ks_PreviousGeneration :: string
  ks_GeneratedAt :: f64
  ks_RecordCount :: int
  ks_SnapshotLoaderSuccessAt :: int

record quota_status = kind_status +
  ks_HeartbeatAt :: int
  ks_HeartbeatOK :: bool
  ks_HeartbeatStaleAfter :: int
  ks_LastSuccessAt :: int
  ks_FailOpenAfter :: int

record status =
  st_Auth :: kind_status
  st_Quota :: quota_status

definition AuthenticationReady :: "engine \<Rightarrow> int \<Rightarrow> bool" where
  "AuthenticationReady en now =
     (case en_auth en of
        None \<Rightarrow> False
      | Some auth \<Rightarrow>
          if au_generation auth = [] \<or> au_loadedAt auth \<le> 0 then False
          else let age = sub64 (unix_of now) (au_loadedAt auth)
               in 0 \<le> age \<and> age \<le> seconds_of AuthSnapshotMaxAge)"

definition Status :: "engine \<Rightarrow> status" where
  "Status en =
     \<lparr>st_Auth = (case en_auth en of
          None \<Rightarrow> \<lparr>ks_ActiveGeneration = [], ks_PreviousGeneration = [], ks_GeneratedAt = Fin 0, ks_RecordCount = 0,
                   ks_SnapshotLoaderSuccessAt = 0\<rparr>
        | Some a \<Rightarrow> \<lparr>ks_ActiveGeneration = au_generation a, ks_PreviousGeneration = au_previousGeneration a,
                   ks_GeneratedAt = au_generatedAt a, ks_RecordCount = au_recordCount a,
                   ks_SnapshotLoaderSuccessAt = au_loadedAt a\<rparr>),
      st_Quota =
        \<lparr>ks_ActiveGeneration = (case en_quota en of None \<Rightarrow> [] | Some q \<Rightarrow> qt_generation q),
         ks_PreviousGeneration = (case en_quota en of None \<Rightarrow> [] | Some q \<Rightarrow> qt_previousGeneration q),
         ks_GeneratedAt = (case en_quota en of None \<Rightarrow> Fin 0 | Some q \<Rightarrow> qt_generatedAt q),
         ks_RecordCount = (case en_quota en of None \<Rightarrow> 0 | Some q \<Rightarrow> qt_recordCount q),
         ks_SnapshotLoaderSuccessAt = (case en_quota en of None \<Rightarrow> 0 | Some q \<Rightarrow> qt_loadedAt q),
         ks_HeartbeatAt = (case en_heartbeat en of None \<Rightarrow> 0 | Some h \<Rightarrow> hb_UpdatedAt h),
         ks_HeartbeatOK = (case en_heartbeat en of None \<Rightarrow> False | Some h \<Rightarrow> hb_OK h),
         ks_HeartbeatStaleAfter = (case en_heartbeat en of None \<Rightarrow> 0 | Some h \<Rightarrow> hb_StaleAfterSeconds h),
         ks_LastSuccessAt = (case en_heartbeat en of None \<Rightarrow> 0 | Some h \<Rightarrow> hb_LastSuccessAt h),
         ks_FailOpenAfter = (case en_heartbeat en of None \<Rightarrow> 0 | Some h \<Rightarrow> hb_FailOpenAfterSeconds h)\<rparr>\<rparr>"

section \<open>The loader\<close>

text \<open>
  A snapshot file either cannot be opened, or delivers its content and then the result of closing it.
  A refresh loads the three files one after the other and remembers, per kind, the text of the last
  error, so that it is logged once; \<open>log_event\<close>s are what it writes to the log.
\<close>

datatype snapshot_file = OpenFails gerr | File content "gerr option"

datatype log_event = RefreshFailed string string | RefreshRecovered string

record loader =
  ld_engine :: engine
  ld_lastError :: "string gomap"

definition recordError :: "string \<Rightarrow> gerr \<Rightarrow> loader \<Rightarrow> loader \<times> log_event list" where
  "recordError kind err l =
     (let message = err_text err
      in if mget [] (ld_lastError l) kind = message then (l, [])
         else (l\<lparr>ld_lastError := mput kind message (ld_lastError l)\<rparr>, [RefreshFailed kind message]))"

definition recordRecovery :: "string \<Rightarrow> loader \<Rightarrow> loader \<times> log_event list" where
  "recordRecovery kind l =
     (l\<lparr>ld_lastError := AList.delete kind (ld_lastError l)\<rparr>,
      if map_of (ld_lastError l) kind = None then [] else [RefreshRecovered kind])"

definition load_kind ::
  "string \<Rightarrow> snapshot_file \<Rightarrow> (content \<Rightarrow> engine \<Rightarrow> gerr option \<times> engine) \<Rightarrow> loader \<Rightarrow> loader \<times> log_event list" where
  "load_kind kind file load l =
     (let (err, en) = (case file of
            OpenFails e \<Rightarrow> (Some e, ld_engine l)
          | File c closeError \<Rightarrow>
              (case load c (ld_engine l) of (err, en) \<Rightarrow> (if err = None then closeError else err, en)))
      in case err of
           Some e \<Rightarrow> recordError kind (ErrWrap (''load '' @ kind @ '' snapshot: '') e []) (l\<lparr>ld_engine := en\<rparr>)
         | None \<Rightarrow> recordRecovery kind (l\<lparr>ld_engine := en\<rparr>))"

definition Refresh :: "snapshot_file \<Rightarrow> snapshot_file \<Rightarrow> snapshot_file \<Rightarrow> int \<Rightarrow> loader \<Rightarrow> loader \<times> log_event list" where
  "Refresh auth_file quota_file heartbeat_file now l =
     (case load_kind ''auth'' auth_file (\<lambda>c. LoadAuthSnapshot c now) l of (l1, e1) \<Rightarrow>
      case load_kind ''quota'' quota_file (\<lambda>c. LoadQuotaSnapshot c now) l1 of (l2, e2) \<Rightarrow>
      case load_kind ''heartbeat'' heartbeat_file LoadQuotaHeartbeat l2 of (l3, e3) \<Rightarrow>
        (l3, e1 @ e2 @ e3))"

end
