(* ===== verification/Gateway_Proofs.thy ===== *)
theory Gateway_Proofs
  imports Gateway_Engine
begin

text \<open>
  What the gateway forwards, whom it lets in and when it refuses for the weekly quota. The state of the
  engine is described by the history of its load attempts.
\<close>

section \<open>Paths\<close>

definition clean_segment :: "string \<Rightarrow> bool" where
  "clean_segment s \<longleftrightarrow> s \<noteq> [] \<and> s \<noteq> ''.'' \<and> s \<noteq> ''..'' \<and> CHR ''/'' \<notin> set s"

lemma split_on_no_sep: "s \<in> set (split_on d p) \<Longrightarrow> d \<notin> set s"
  by (induction d p arbitrary: s rule: split_on.induct) (auto split: if_splits list.splits)

lemma split_on_sep: "split_on d (x @ d # r) = split_on d x @ split_on d r"
proof (induction x)
  case (Cons c x)
  then show ?case by (cases "split_on d x") auto
qed simp

lemma split_on_plain: "d \<notin> set s \<Longrightarrow> split_on d s = [s]"
  by (induction s) auto

lemma split_on_join: "list_all (\<lambda>s. d \<notin> set s) ss \<Longrightarrow> ss \<noteq> [] \<Longrightarrow> split_on d (join_with [d] ss) = ss"
  by (induction "[d]" ss rule: join_with.induct) (simp_all add: split_on_plain split_on_sep)

lemma clean_segments_clean:
  "list_all clean_segment acc \<Longrightarrow> list_all (\<lambda>s. CHR ''/'' \<notin> set s) ss \<Longrightarrow> list_all clean_segment (clean_segments acc ss)"
proof (induction acc ss rule: clean_segments.induct)
  case (2 acc s ss)
  have "list_all clean_segment (tl acc)" using 2(4) by (cases acc) auto
  moreover have "s \<noteq> [] \<Longrightarrow> s \<noteq> ''.'' \<Longrightarrow> s \<noteq> ''..'' \<Longrightarrow> clean_segment s"
    using 2(5) by (simp add: clean_segment_def)
  ultimately show ?case using 2 by simp
qed (simp add: list_all_iff)

lemma clean_segments_fixed: "list_all clean_segment ss \<Longrightarrow> clean_segments acc ss = rev acc @ ss"
  by (induction acc ss rule: clean_segments.induct) (auto simp: clean_segment_def)

lemma clean_rooted_segments:
  obtains segs where "clean_rooted p = ''/'' @ join_with ''/'' segs" "list_all clean_segment segs"
proof -
  have "list_all clean_segment (clean_segments [] (split_on (CHR ''/'') p))"
    using split_on_no_sep by (intro clean_segments_clean) (auto simp: list_all_iff)
  then show ?thesis using that by (simp add: clean_rooted_def)
qed

lemma split_rooted: "list_all clean_segment segs \<Longrightarrow> segs \<noteq> [] \<Longrightarrow>
    split_on (CHR ''/'') (''/'' @ join_with ''/'' segs) = [] # segs"
  using split_on_join [of "CHR ''/''" segs] by (simp add: clean_segment_def list_all_iff)

lemma clean_rooted_fixed: "list_all clean_segment segs \<Longrightarrow>
    clean_rooted (''/'' @ join_with ''/'' segs) = ''/'' @ join_with ''/'' segs"
proof (cases segs)
  case Nil
  then show ?thesis by (simp add: clean_rooted_def)
next
  case (Cons s ss)
  assume clean: "list_all clean_segment segs"
  show ?thesis
    unfolding clean_rooted_def split_rooted [OF clean, unfolded Cons, simplified, folded Cons]
    using clean Cons clean_segments_fixed [OF clean, of "[]"] split_rooted [OF clean] by simp
qed

definition allowed_segments :: "string list list" where
  "allowed_segments = [[''v1''], [''v1beta''], [''backend-api'', ''codex''], [''api'', ''provider'']]"

lemma prefixes_are_segments: "publicPathPrefixes = map (\<lambda>p. ''/'' @ join_with ''/'' p) allowed_segments"
  by code_simp

lemma allowed_clean: "list_all (\<lambda>p. list_all clean_segment p \<and> p \<noteq> []) allowed_segments"
  by code_simp

lemma public_path_segments:
  assumes clean: "list_all clean_segment segs" and public: "public_path (''/'' @ join_with ''/'' segs)"
  shows "segs = [''v1internal:method''] \<or> list_ex (\<lambda>p. take (length p) segs = p) allowed_segments"
proof -
  let ?p = "''/'' @ join_with ''/'' segs"
  have split: "split_on (CHR ''/'') ?p = (if segs = [] then [[], []] else [] # segs)"
    using split_rooted [OF clean] by simp
  from public consider (internal) "?p = ''/v1internal:method''"
    | (whole) q where "q \<in> set allowed_segments" "?p = ''/'' @ join_with ''/'' q"
    | (below) q where "q \<in> set allowed_segments" "has_prefix ((''/'' @ join_with ''/'' q) @ ''/'') ?p"
    by (auto simp: public_path_def prefixes_are_segments)
  then show ?thesis
  proof cases
    case internal
    have "split_on (CHR ''/'') ''/v1internal:method'' = [[], ''v1internal:method'']" by code_simp
    with split internal have "segs = [''v1internal:method'']" by (auto split: if_splits)
    then show ?thesis by simp
  next
    case whole
    have q: "list_all clean_segment q" "q \<noteq> []" using allowed_clean whole(1) by (auto simp: list_all_iff)
    have eq: "split_on (CHR ''/'') ?p = [] # q" unfolding whole(2) by (rule split_rooted [OF q])
    have "\<not> clean_segment []" by (simp add: clean_segment_def)
    then have "q \<noteq> [[]]" using q(1) by auto
    with split eq have "segs = q" by (cases "segs = []") simp_all
    then show ?thesis using whole(1) by (auto simp: list_ex_iff intro!: bexI [of _ q])
  next
    case below
    then obtain rest where p: "?p = (''/'' @ join_with ''/'' q) @ CHR ''/'' # rest"
      unfolding has_prefix_def by (metis append.assoc append_Cons append_Nil append_take_drop_id)
    have q: "list_all clean_segment q" "q \<noteq> []" using allowed_clean below(1) by (auto simp: list_all_iff)
    have "split_on (CHR ''/'') ?p = split_on (CHR ''/'') (''/'' @ join_with ''/'' q) @ split_on (CHR ''/'') rest"
      unfolding p by (rule split_on_sep)
    then have eq: "split_on (CHR ''/'') ?p = [] # q @ split_on (CHR ''/'') rest"
      unfolding split_rooted [OF q] by simp
    have "segs \<noteq> []"
    proof
      assume "segs = []"
      with split eq have "q @ split_on (CHR ''/'') rest = [[]]" by simp
      then show False using q(2) by (cases q) auto
    qed
    with split eq have "segs = q @ split_on (CHR ''/'') rest" by simp
    then show ?thesis using below(1) by (auto simp: list_ex_iff intro!: bexI [of _ q])
  qed
qed

text \<open>
  The gateway forwards only below its public prefixes. A path \<open>NormalizePublicPath\<close> accepts is
  returned in canonical form: segments without empty, \<open>.\<close> and \<open>..\<close> ones, joined by single slashes; it is
  the internal method path, or its first whole segments are one of the public prefixes. Normalizing it
  again gives the same path, so what was checked is what is forwarded.
\<close>

theorem public_path_confined:
  assumes "NormalizePublicPath path = (p, True)"
  shows "\<exists>segs. p = ''/'' @ join_with ''/'' segs \<and> list_all clean_segment segs \<and>
    (segs = [''v1internal:method''] \<or> list_ex (\<lambda>prefix. take (length prefix) segs = prefix) allowed_segments) \<and>
    NormalizePublicPath p = (p, True)"
proof -
  have p: "p = clean_rooted path" "public_path p"
    using assms by (auto simp: NormalizePublicPath_def Let_def split: if_splits)
  obtain segs where segs: "p = ''/'' @ join_with ''/'' segs" "list_all clean_segment segs"
    using clean_rooted_segments p(1) by metis
  have "NormalizePublicPath p = (p, True)"
    using p(2) segs(1) clean_rooted_fixed [OF segs(2)] by (simp add: NormalizePublicPath_def Let_def)
  then show ?thesis using segs public_path_segments [OF segs(2)] p(2) by blast
qed

theorem public_path_confined_witness:
  "NormalizePublicPath ''/v1/responses/compact'' = (''/v1/responses/compact'', True)"
proof -
  have "NormalizePublicPath ''/x/..//v1/./responses/compact'' = (''/v1/responses/compact'', True)" by code_simp
  from public_path_confined [OF this] show ?thesis by blast
qed

section \<open>Keys\<close>

text \<open>
  \<open>ExtractBearer\<close> accepts exactly the headers of the pattern: the scheme in any case, white space, a key
  without white space, white space; and it returns that key.
\<close>

theorem extract_bearer_iff:
  "ExtractBearer header = (key, True) \<longleftrightarrow>
    (\<exists>scheme gap trailer. header = scheme @ gap @ key @ trailer \<and> to_lower scheme = ''bearer'' \<and> gap \<noteq> [] \<and>
      list_all posix_space gap \<and> key \<noteq> [] \<and> list_all (\<lambda>c. \<not> posix_space c) key \<and> list_all posix_space trailer)"
proof
  let ?P = "\<lambda>c. \<not> posix_space c"
  assume ok: "ExtractBearer header = (key, True)"
  let ?rest = "drop 6 header"
  have "header = take 6 header @ takeWhile posix_space ?rest @ key @ dropWhile ?P (dropWhile posix_space ?rest)"
    using ok by (auto simp: ExtractBearer_def Let_def split: if_splits)
  moreover have "takeWhile posix_space ?rest \<noteq> []"
    using ok by (cases ?rest) (auto simp: ExtractBearer_def Let_def split: if_splits)
  moreover have "to_lower (take 6 header) = ''bearer''" "key \<noteq> []"
    "key = takeWhile ?P (dropWhile posix_space ?rest)"
    "list_all posix_space (dropWhile ?P (dropWhile posix_space ?rest))"
    using ok by (auto simp: ExtractBearer_def Let_def split: if_splits)
  moreover have "list_all posix_space (takeWhile posix_space ?rest)" "list_all ?P (takeWhile ?P (dropWhile posix_space ?rest))"
    by (auto simp: list_all_iff dest: set_takeWhileD)
  ultimately show "\<exists>scheme gap trailer. header = scheme @ gap @ key @ trailer \<and> to_lower scheme = ''bearer'' \<and>
      gap \<noteq> [] \<and> list_all posix_space gap \<and> key \<noteq> [] \<and> list_all ?P key \<and> list_all posix_space trailer"
    by metis
next
  let ?P = "\<lambda>c. \<not> posix_space c"
  assume "\<exists>scheme gap trailer. header = scheme @ gap @ key @ trailer \<and> to_lower scheme = ''bearer'' \<and>
      gap \<noteq> [] \<and> list_all posix_space gap \<and> key \<noteq> [] \<and> list_all ?P key \<and> list_all posix_space trailer"
  then obtain scheme gap trailer where h: "header = scheme @ gap @ key @ trailer" "to_lower scheme = ''bearer''"
    and gap: "gap \<noteq> []" "list_all posix_space gap" and key: "key \<noteq> []" "list_all ?P key"
    and trailer: "list_all posix_space trailer" by blast
  have six: "length scheme = 6" using arg_cong [OF h(2), of length] by simp
  have kt: "dropWhile posix_space (key @ trailer) = key @ trailer"
    using key by (cases key) auto
  have strip: "dropWhile posix_space (gap @ key @ trailer) = key @ trailer"
    using gap(2) kt by (simp add: dropWhile_append list_all_iff)
  have t: "takeWhile ?P trailer = []" "dropWhile ?P trailer = trailer" using trailer by (cases trailer; simp)+
  have "takeWhile ?P (key @ trailer) = key" "dropWhile ?P (key @ trailer) = trailer"
    using key(2) t by (simp_all add: takeWhile_append dropWhile_append list_all_iff)
  moreover have "posix_space (hd (gap @ key @ trailer))" using gap by (cases gap) auto
  ultimately show "ExtractBearer header = (key, True)"
    using h six gap key trailer strip by (simp add: ExtractBearer_def Let_def)
qed

section \<open>Loads and the state they leave\<close>

datatype load = LoadsAuth content int | LoadsQuota content int | LoadsHeartbeat content

definition do_load :: "load \<Rightarrow> engine \<Rightarrow> engine" where
  "do_load l en = (case l of
       LoadsAuth c t \<Rightarrow> snd (LoadAuthSnapshot c t en)
     | LoadsQuota c t \<Rightarrow> snd (LoadQuotaSnapshot c t en)
     | LoadsHeartbeat c \<Rightarrow> snd (LoadQuotaHeartbeat c en))"

definition run_loads :: "load list \<Rightarrow> engine" where
  "run_loads ls = foldl (\<lambda>en l. do_load l en) NewEngine ls"

text \<open>The loads that succeeded, with the parsed snapshots.\<close>

definition auth_loads :: "load list \<Rightarrow> (auth_snapshot \<times> int) list" where
  "auth_loads ls = List.map_filter (\<lambda>l. case l of
     LoadsAuth c t \<Rightarrow> (case ParseAuthSnapshot c of Inr s \<Rightarrow> Some (s, t) | Inl _ \<Rightarrow> None) | _ \<Rightarrow> None) ls"

definition quota_loads :: "load list \<Rightarrow> (quota_snapshot \<times> int) list" where
  "quota_loads ls = List.map_filter (\<lambda>l. case l of
     LoadsQuota c t \<Rightarrow> (case ParseQuotaSnapshot c of Inr s \<Rightarrow> Some (s, t) | Inl _ \<Rightarrow> None) | _ \<Rightarrow> None) ls"

definition heartbeat_loads :: "load list \<Rightarrow> quota_heartbeat list" where
  "heartbeat_loads ls = List.map_filter (\<lambda>l. case l of
     LoadsHeartbeat c \<Rightarrow> (case ParseQuotaHeartbeat c of Inr h \<Rightarrow> Some h | Inl _ \<Rightarrow> None) | _ \<Rightarrow> None) ls"

definition latest :: "'a list \<Rightarrow> 'a option" where
  "latest xs = (if xs = [] then None else Some (last xs))"

text \<open>The generation before the current one, counting repeated loads of a generation once.\<close>

definition generation_before :: "string list \<Rightarrow> string" where
  "generation_before gs = (let ds = remdups_adj gs in if length ds < 2 then [] else ds ! (length ds - 2))"

lemma generation_before_snoc:
  "generation_before (gs @ [g]) =
     previous_generation (if gs = [] then None else Some (last gs, generation_before gs)) g"
proof (cases gs rule: rev_cases)
  case Nil
  then show ?thesis by (simp add: generation_before_def previous_generation_def)
next
  case (snoc hs h)
  have two: "remdups_adj (hs @ [h, g]) = remdups_adj (hs @ [h]) @ (if h = g then [] else [g])"
    by (rule remdups_adj_append_two)
  have ne: "remdups_adj (hs @ [h]) \<noteq> []" by simp
  have "last (remdups_adj (hs @ [h])) = h" by simp
  then have "remdups_adj (hs @ [h]) ! (length (remdups_adj (hs @ [h])) - 1) = h" using last_conv_nth [OF ne] by simp
  then show ?thesis
    using snoc two ne by (auto simp: generation_before_def previous_generation_def Let_def nth_append
        Suc_le_eq numeral_2_eq_2)
qed

lemma map_filter_snoc: "List.map_filter f (xs @ [x]) = List.map_filter f xs @ (case f x of None \<Rightarrow> [] | Some y \<Rightarrow> [y])"
  by (induction xs) (auto simp: map_filter_simps split: option.split)

definition auth_state_of :: "(auth_snapshot \<times> int) list \<Rightarrow> auth_state" where
  "auth_state_of gs = (case last gs of (s, t) \<Rightarrow>
     \<lparr>au_maxReasoningEffort = gs_MaxReasoningEffort s, au_generation = gs_Generation s,
      au_previousGeneration = generation_before (map (gs_Generation \<circ> fst) gs), au_generatedAt = gs_GeneratedAt s,
      au_loadedAt = unix_of t, au_recordCount = int (length (gs_Records s)), au_byDigest = by_digest (gs_Records s)\<rparr>)"

definition quota_state_of :: "(quota_snapshot \<times> int) list \<Rightarrow> quota_state" where
  "quota_state_of gs = (case last gs of (s, t) \<Rightarrow>
     \<lparr>qt_generation = qs_Generation s,
      qt_previousGeneration = generation_before (map (qs_Generation \<circ> fst) gs), qt_generatedAt = qs_GeneratedAt s,
      qt_loadedAt = unix_of t, qt_recordCount = int (length (qs_Records s)), qt_byUser = by_user (qs_Records s)\<rparr>)"

lemma last_generation: "gs \<noteq> [] \<Longrightarrow> last (map (gs_Generation \<circ> fst) gs) = au_generation (auth_state_of gs)"
  "qs \<noteq> [] \<Longrightarrow> last (map (qs_Generation \<circ> fst) qs) = qt_generation (quota_state_of qs)"
  by (simp_all add: last_map auth_state_of_def quota_state_of_def split: prod.split)

lemma generation_before_state: "au_previousGeneration (auth_state_of gs) = generation_before (map (gs_Generation \<circ> fst) gs)"
  "qt_previousGeneration (quota_state_of qs) = generation_before (map (qs_Generation \<circ> fst) qs)"
  by (simp_all add: auth_state_of_def quota_state_of_def split: prod.split)

text \<open>A failed load leaves the engine as it was; a successful one replaces its own part only.\<close>

lemma run_loads_state:
  "run_loads ls = \<lparr>en_auth = map_option (\<lambda>_. auth_state_of (auth_loads ls)) (latest (auth_loads ls)),
     en_quota = map_option (\<lambda>_. quota_state_of (quota_loads ls)) (latest (quota_loads ls)),
     en_heartbeat = latest (heartbeat_loads ls)\<rparr>"
proof (induction ls rule: rev_induct)
  case Nil
  then show ?case
    by (simp add: run_loads_def NewEngine_def latest_def auth_loads_def quota_loads_def heartbeat_loads_def map_filter_simps)
next
  case (snoc l ls)
  have step: "run_loads (ls @ [l]) = do_load l (run_loads ls)" by (simp add: run_loads_def)
  note loads = auth_loads_def quota_loads_def heartbeat_loads_def
  show ?case
  proof (cases l)
    case (LoadsAuth c t)
    show ?thesis
    proof (cases "ParseAuthSnapshot c")
      case (Inl e)
      then show ?thesis unfolding step snoc
        by (simp add: LoadsAuth do_load_def LoadAuthSnapshot_def loads map_filter_snoc)
    next
      case (Inr s)
      let ?gs = "auth_loads ls"
      have "auth_loads (ls @ [l]) = ?gs @ [(s, t)]" "quota_loads (ls @ [l]) = quota_loads ls"
        "heartbeat_loads (ls @ [l]) = heartbeat_loads ls"
        by (simp_all add: LoadsAuth Inr loads map_filter_snoc)
      moreover have "previous_generation (map_option (\<lambda>p. (au_generation p, au_previousGeneration p))
          (map_option (\<lambda>_. auth_state_of ?gs) (latest ?gs))) (gs_Generation s) =
          generation_before (map (gs_Generation \<circ> fst) (?gs @ [(s, t)]))"
        by (simp add: generation_before_snoc latest_def last_generation generation_before_state)
      ultimately show ?thesis unfolding step snoc
        by (simp add: LoadsAuth Inr do_load_def LoadAuthSnapshot_def auth_state_of_def) (simp add: latest_def)
    qed
  next
    case (LoadsQuota c t)
    show ?thesis
    proof (cases "ParseQuotaSnapshot c")
      case (Inl e)
      then show ?thesis unfolding step snoc
        by (simp add: LoadsQuota do_load_def LoadQuotaSnapshot_def loads map_filter_snoc)
    next
      case (Inr s)
      let ?gs = "quota_loads ls"
      have "quota_loads (ls @ [l]) = ?gs @ [(s, t)]" "auth_loads (ls @ [l]) = auth_loads ls"
        "heartbeat_loads (ls @ [l]) = heartbeat_loads ls"
        by (simp_all add: LoadsQuota Inr loads map_filter_snoc)
      moreover have "previous_generation (map_option (\<lambda>p. (qt_generation p, qt_previousGeneration p))
          (map_option (\<lambda>_. quota_state_of ?gs) (latest ?gs))) (qs_Generation s) =
          generation_before (map (qs_Generation \<circ> fst) (?gs @ [(s, t)]))"
        by (simp add: generation_before_snoc latest_def last_generation generation_before_state)
      ultimately show ?thesis unfolding step snoc
        by (simp add: LoadsQuota Inr do_load_def LoadQuotaSnapshot_def quota_state_of_def) (simp add: latest_def)
    qed
  next
    case (LoadsHeartbeat c)
    show ?thesis unfolding step snoc
      by (cases "ParseQuotaHeartbeat c")
        (simp_all add: LoadsHeartbeat do_load_def LoadQuotaHeartbeat_def loads map_filter_snoc latest_def)
  qed
qed

section \<open>What parsing guarantees\<close>

lemma check_auth_records_None: "check_auth_records index seen rs = None \<longleftrightarrow>
    list_all (auth_record_valid seen) rs \<and> distinct (map gr_ExternalKeySHA256 rs)"
proof (induction index seen rs rule: check_auth_records.induct)
  case (2 index seen r rs)
  have "auth_record_valid (set_add (gr_ExternalKeySHA256 r) seen) x \<longleftrightarrow>
      auth_record_valid seen x \<and> gr_ExternalKeySHA256 x \<noteq> gr_ExternalKeySHA256 r" for x
    by (auto simp: auth_record_valid_def)
  with 2 show ?case by (auto simp: list_all_iff image_iff)
qed simp

lemma ParseAuthSnapshot_sound:
  assumes "ParseAuthSnapshot c = Inr s"
  shows "list_all (auth_record_valid []) (gs_Records s)" "distinct (map gr_ExternalKeySHA256 (gs_Records s))"
    "validLowerHex (gs_Generation s) 32" "ValidLimit (gs_MaxReasoningEffort s)"
proof -
  obtain input where raw: "auth_of_raw input = Inr s" using assms by (auto simp: ParseAuthSnapshot_def and_then_Inr_iff)
  then obtain rs where rs: "rg_Records input = Some rs" by (cases "rg_Records input") (simp_all add: auth_of_raw_def)
  with raw have "check_auth_records 0 [] rs = None" "gs_Records s = rs"
    and env: "validLowerHex (gs_Generation s) 32" "ValidLimit (gs_MaxReasoningEffort s)"
    by (auto simp: auth_of_raw_def split: if_splits option.splits)
  with env show "list_all (auth_record_valid []) (gs_Records s)" "distinct (map gr_ExternalKeySHA256 (gs_Records s))"
    "validLowerHex (gs_Generation s) 32" "ValidLimit (gs_MaxReasoningEffort s)"
    by (auto simp: check_auth_records_None)
qed

lemma floor_int64_bounds: "floorInt64 f = Inr n \<Longrightarrow> in64 n"
proof -
  assume "floorInt64 f = Inr n"
  then obtain q :: rat where q: "n = \<lfloor>q\<rfloor>" "- (2 ^ 63) \<le> q" "q < 2 ^ 63"
    by (auto simp: floorInt64_def not_less not_le split: f64.splits if_splits)
  then show ?thesis by (simp add: in64_def le_floor_iff floor_less_iff)
qed

lemma floor_int64_mono: "floorInt64 f = Inr m \<Longrightarrow> floorInt64 g = Inr n \<Longrightarrow> \<not> f_le g f \<Longrightarrow> m \<le> n"
  by (auto simp: floorInt64_def floor_mono split: f64.splits if_splits)

lemma floor_int64_lower: "floorInt64 f = Inr n \<Longrightarrow> \<not> f_lt f (Fin (of_int k)) \<Longrightarrow> k \<le> n"
  by (auto simp: floorInt64_def le_floor_iff split: f64.splits if_splits)

definition quota_record_valid :: "quota_record \<Rightarrow> bool" where
  "quota_record_valid q \<longleftrightarrow> qr_UserEmail q \<noteq> [] \<and> qr_WeekStartAt q \<le> qr_WeekEndAt q \<and> - 1 \<le> qr_LimitTokens q \<and>
     0 \<le> qr_UsedTokens q \<and> list_all in64 [qr_WeekStartAt q, qr_WeekEndAt q, qr_LimitTokens q, qr_UsedTokens q,
       qr_RawUsedTokens q, qr_WeightedRawUsedTokens q]"

lemma optionalSnapshotFloor_bounds: "optionalSnapshotFloor v d = Inr n \<Longrightarrow> in64 d \<Longrightarrow> in64 n"
  by (auto simp: optionalSnapshotFloor_def floor_int64_bounds split: option.splits)

lemma quota_record_of_raw_sound:
  assumes "quota_record_of_raw index seen r = Inr q"
  shows "quota_record_valid q" "qr_UserEmail q = rq_UserEmail r" "rq_UserEmail r \<notin> set seen"
proof -
  obtain s e l u where raw: "rq_WeekStartAt r = Some s" "rq_WeekEndAt r = Some e" "rq_LimitTokens r = Some l"
    "rq_UsedTokens r = Some u"
    using assms by (auto simp: quota_record_of_raw_def invalid_quota_record_def split: option.splits)
  have ok: "rq_UserEmail r \<noteq> []" "rq_UserEmail r \<notin> set seen" "quota_floats_ok s e l u"
    using assms raw by (auto simp: quota_record_of_raw_def invalid_quota_record_def split: if_splits)
  then have parts: "floorInt64 s = Inr (qr_WeekStartAt q)" "floorInt64 e = Inr (qr_WeekEndAt q)"
    "floorInt64 l = Inr (qr_LimitTokens q)" "floorInt64 u = Inr (qr_UsedTokens q)"
    "optionalSnapshotFloor (rq_RawUsedTokens r) (qr_UsedTokens q) = Inr (qr_RawUsedTokens q)"
    "optionalSnapshotFloor (rq_WeightedRawUsedTokens r) (qr_UsedTokens q) = Inr (qr_WeightedRawUsedTokens q)"
    "qr_UserEmail q = rq_UserEmail r"
    using assms raw by (auto simp: quota_record_of_raw_def floor_field_def and_then_Inr_iff split: if_splits)
  then show "qr_UserEmail q = rq_UserEmail r" "rq_UserEmail r \<notin> set seen" using ok by auto
  have "in64 (qr_WeekStartAt q)" "in64 (qr_WeekEndAt q)" "in64 (qr_LimitTokens q)" and used: "in64 (qr_UsedTokens q)"
    using parts floor_int64_bounds by blast+
  moreover have "in64 (qr_RawUsedTokens q)" "in64 (qr_WeightedRawUsedTokens q)"
    using optionalSnapshotFloor_bounds [OF parts(5) used] optionalSnapshotFloor_bounds [OF parts(6) used] by auto
  moreover have "qr_WeekStartAt q \<le> qr_WeekEndAt q"
    using floor_int64_mono [OF parts(1,2)] ok(3) by (simp add: quota_floats_ok_def)
  moreover have "- 1 \<le> qr_LimitTokens q" "0 \<le> qr_UsedTokens q"
    using floor_int64_lower [OF parts(3), of "- 1"] floor_int64_lower [OF parts(4), of 0] ok(3)
    by (auto simp: quota_floats_ok_def)
  ultimately show "quota_record_valid q" using ok(1) parts(7) by (simp add: quota_record_valid_def)
qed

lemma quota_records_of_raw_sound:
  "quota_records_of_raw index seen rs = Inr qs \<Longrightarrow>
    list_all quota_record_valid qs \<and> distinct (map qr_UserEmail qs) \<and>
    list_all (\<lambda>q. qr_UserEmail q \<notin> set seen) qs"
proof (induction index seen rs arbitrary: qs rule: quota_records_of_raw.induct)
  case (2 index seen r rs)
  then obtain q qs' where q: "quota_record_of_raw index seen r = Inr q"
    and qs': "quota_records_of_raw (index + 1) (set_add (rq_UserEmail r) seen) rs = Inr qs'" "qs = q # qs'"
    by (auto simp: and_then_Inr_iff)
  from 2(1) [OF qs'(1)] quota_record_of_raw_sound [OF q] qs'(2) show ?case
    by (auto simp: list_all_iff)
qed simp

lemma ParseQuotaSnapshot_aux:
  assumes "ParseQuotaSnapshot c = Inr s"
  shows "list_all quota_record_valid (qs_Records s)" "distinct (map qr_UserEmail (qs_Records s))"
    "validLowerHex (qs_Generation s) 32"
proof -
  obtain raw where "quota_records_of_raw 0 [] raw = Inr (qs_Records s)" and gen: "validLowerHex (qs_Generation s) 32"
    using assms by (auto simp: ParseQuotaSnapshot_def and_then_Inr_iff quota_of_raw_def split: option.splits if_splits)
  from quota_records_of_raw_sound [OF this(1)] gen
  show "list_all quota_record_valid (qs_Records s)" "distinct (map qr_UserEmail (qs_Records s))"
    "validLowerHex (qs_Generation s) 32" by auto
qed

lemma ParseQuotaHeartbeat_aux:
  assumes "ParseQuotaHeartbeat c = Inr h"
  shows "5 \<le> hb_StaleAfterSeconds h" "0 \<le> hb_LastSuccessAt h" "30 \<le> hb_FailOpenAfterSeconds h"
proof -
  obtain input where raw: "heartbeat_of_raw input = Inr h" using assms by (auto simp: ParseQuotaHeartbeat_def and_then_Inr_iff)
  then obtain u k l f where "rh_UpdatedAt input = Some u" "rh_OK input = Some k" "rh_LastSuccessAt input = Some l"
    "rh_FailOpenAfterSeconds input = Some f"
    by (cases "rh_UpdatedAt input"; cases "rh_OK input"; cases "rh_LastSuccessAt input";
        cases "rh_FailOpenAfterSeconds input") (simp_all add: heartbeat_of_raw_def)
  with raw show "5 \<le> hb_StaleAfterSeconds h" "0 \<le> hb_LastSuccessAt h" "30 \<le> hb_FailOpenAfterSeconds h"
    by (auto simp: heartbeat_of_raw_def and_then_Inr_iff split: if_splits)
qed

text \<open>Hence the loaded states are keyed by the records of the last snapshot.\<close>

lemma auth_loads_parsed: "(s, t) \<in> set (auth_loads ls) \<Longrightarrow> \<exists>c. ParseAuthSnapshot c = Inr s"
proof -
  assume "(s, t) \<in> set (auth_loads ls)"
  then obtain l where "(case l of LoadsAuth c t \<Rightarrow> (case ParseAuthSnapshot c of Inr s \<Rightarrow> Some (s, t) | Inl _ \<Rightarrow> None)
      | _ \<Rightarrow> None) = Some (s, t)" by (auto simp: auth_loads_def)
  then show ?thesis by (cases l) (auto split: sum.splits)
qed

lemma quota_loads_parsed: "(s, t) \<in> set (quota_loads ls) \<Longrightarrow> \<exists>c. ParseQuotaSnapshot c = Inr s"
proof -
  assume "(s, t) \<in> set (quota_loads ls)"
  then obtain l where "(case l of LoadsQuota c t \<Rightarrow> (case ParseQuotaSnapshot c of Inr s \<Rightarrow> Some (s, t) | Inl _ \<Rightarrow> None)
      | _ \<Rightarrow> None) = Some (s, t)" by (auto simp: quota_loads_def)
  then show ?thesis by (cases l) (auto split: sum.splits)
qed

lemma latest_in: "latest xs = Some x \<Longrightarrow> x \<in> set xs"
  by (auto simp: latest_def split: if_splits)

lemma validLowerHex_nonempty: "validLowerHex g 32 \<Longrightarrow> g \<noteq> []"
  by (auto simp: validLowerHex_def)

lemma loaded_auth:
  assumes "latest (auth_loads ls) = Some (s, t)"
  shows "en_auth (run_loads ls) = Some (auth_state_of (auth_loads ls))"
    and "au_generation (auth_state_of (auth_loads ls)) = gs_Generation s"
    and "au_generation (auth_state_of (auth_loads ls)) \<noteq> []"
    and "au_loadedAt (auth_state_of (auth_loads ls)) = unix_of t"
    and "au_maxReasoningEffort (auth_state_of (auth_loads ls)) = gs_MaxReasoningEffort s"
    and "map_of (au_byDigest (auth_state_of (auth_loads ls))) d = Some i \<longleftrightarrow>
       (\<exists>r \<in> set (gs_Records s). gr_ExternalKeySHA256 r = d \<and> i = identity_of r)"
proof -
  have last: "last (auth_loads ls) = (s, t)" using assms by (simp add: latest_def split: if_splits)
  obtain c where c: "ParseAuthSnapshot c = Inr s" using auth_loads_parsed latest_in [OF assms] by blast
  note sound = ParseAuthSnapshot_sound [OF c]
  show "en_auth (run_loads ls) = Some (auth_state_of (auth_loads ls))" using assms by (simp add: run_loads_state)
  show "au_generation (auth_state_of (auth_loads ls)) = gs_Generation s"
    and "au_generation (auth_state_of (auth_loads ls)) \<noteq> []"
    and "au_loadedAt (auth_state_of (auth_loads ls)) = unix_of t"
    and "au_maxReasoningEffort (auth_state_of (auth_loads ls)) = gs_MaxReasoningEffort s"
    and "map_of (au_byDigest (auth_state_of (auth_loads ls))) d = Some i \<longleftrightarrow>
       (\<exists>r \<in> set (gs_Records s). gr_ExternalKeySHA256 r = d \<and> i = identity_of r)"
    using last sound(3) map_of_filled_iff [OF sound(2), of identity_of]
    by (simp_all add: auth_state_of_def by_digest_def validLowerHex_nonempty)
qed

lemma loaded_quota:
  assumes "latest (quota_loads ls) = Some (s, t)"
  shows "en_quota (run_loads ls) = Some (quota_state_of (quota_loads ls))"
    and "qt_generation (quota_state_of (quota_loads ls)) \<noteq> []"
    and "qt_loadedAt (quota_state_of (quota_loads ls)) = unix_of t"
    and "map_of (qt_byUser (quota_state_of (quota_loads ls))) u = Some q \<longleftrightarrow>
       q \<in> set (qs_Records s) \<and> qr_UserEmail q = u"
proof -
  have last: "last (quota_loads ls) = (s, t)" using assms by (simp add: latest_def split: if_splits)
  obtain c where c: "ParseQuotaSnapshot c = Inr s" using quota_loads_parsed latest_in [OF assms] by blast
  note sound = ParseQuotaSnapshot_aux [OF c]
  show "en_quota (run_loads ls) = Some (quota_state_of (quota_loads ls))" using assms by (simp add: run_loads_state)
  show "qt_generation (quota_state_of (quota_loads ls)) \<noteq> []"
    and "qt_loadedAt (quota_state_of (quota_loads ls)) = unix_of t"
    using last sound(3) by (simp_all add: quota_state_of_def validLowerHex_nonempty)
  show "map_of (qt_byUser (quota_state_of (quota_loads ls))) u = Some q \<longleftrightarrow>
       q \<in> set (qs_Records s) \<and> qr_UserEmail q = u"
    using last map_of_filled_iff [OF sound(2), of "\<lambda>q. q"] by (auto simp: quota_state_of_def by_user_def)
qed

section \<open>Decisions\<close>

lemma apply_quota_keeps [simp]: "dc_Identity (apply_quota n en i d) = dc_Identity d"
  "dc_MaxReasoningEffort (apply_quota n en i d) = dc_MaxReasoningEffort d"
  by (simp_all add: apply_quota_def apply_user_quota_def quota_exceeded_def split: option.split)

lemma quota_refusal_iff:
  assumes "dc_Status d = 0"
  shows "dc_Status (apply_quota n en i d) = 429 \<longleftrightarrow>
    (\<exists>h quota q. en_heartbeat en = Some h \<and> 0 < hb_LastSuccessAt h \<and>
       sub64 n (hb_LastSuccessAt h) \<le> hb_FailOpenAfterSeconds h \<and>
       en_quota en = Some quota \<and> 0 < qt_loadedAt quota \<and> sub64 n (qt_loadedAt quota) \<le> hb_FailOpenAfterSeconds h \<and>
       qt_generation quota \<noteq> [] \<and> map_of (qt_byUser quota) (id_UserEmail i) = Some q \<and>
       n < qr_WeekEndAt q \<and> 0 \<le> qr_LimitTokens q \<and> qr_LimitTokens q \<le> qr_UsedTokens q \<and>
       apply_quota n en i d = quota_exceeded n q d)"
  using assms
  by (auto simp: apply_quota_def apply_user_quota_def quota_exceeded_def not_less not_le split: option.splits)

lemma apply_quota_status: "dc_Status d = 0 \<Longrightarrow> dc_Allowed d \<Longrightarrow>
    (dc_Allowed (apply_quota n en i d) \<and> dc_Status (apply_quota n en i d) = 0) \<or>
    (\<not> dc_Allowed (apply_quota n en i d) \<and> dc_Status (apply_quota n en i d) = 429)"
  by (simp add: apply_quota_def apply_user_quota_def quota_exceeded_def split: option.split)

text \<open>The identity a request is given, and the two kinds of refusal without one.\<close>

definition auth_usable :: "auth_state \<Rightarrow> int \<Rightarrow> bool" where
  "auth_usable auth now \<longleftrightarrow> au_generation auth \<noteq> [] \<and> 0 < au_loadedAt auth \<and>
     sub64 (unix_of now) (au_loadedAt auth) \<le> 5"

lemma max_age_seconds [simp]: "seconds_of AuthSnapshotMaxAge = 5"
  by (simp add: AuthSnapshotMaxAge_def seconds_of_def go_div_def second_def)

lemma Authorize_cases:
  obtains (unavailable) "Authorize en now hdr enforce = unavailableAuthDecision ''authentication_snapshot_unavailable''"
      "\<And>auth. en_auth en = Some auth \<Longrightarrow> \<not> auth_usable auth now"
  | (invalid) auth where "en_auth en = Some auth" "auth_usable auth now" "Authorize en now hdr enforce = invalidKeyDecision"
      "\<And>key. ExtractBearer hdr = (key, True) \<Longrightarrow> map_of (au_byDigest auth) (sha256_hex key) = None"
  | (known) auth key i where "en_auth en = Some auth" "auth_usable auth now" "ExtractBearer hdr = (key, True)"
      "map_of (au_byDigest auth) (sha256_hex key) = Some i"
      "Authorize en now hdr enforce = (if enforce then apply_quota (unix_of now) en i (allow auth i) else allow auth i)"
proof (cases "en_auth en")
  case None
  then show ?thesis by (intro unavailable) (simp_all add: Authorize_def)
next
  case auth: (Some auth)
  show ?thesis
  proof (cases "auth_usable auth now")
    case False
    with auth show ?thesis by (intro unavailable) (auto simp: Authorize_def auth_usable_def)
  next
    case usable: True
    then have fresh: "\<not> (au_generation auth = [] \<or> au_loadedAt auth \<le> 0 \<or> 5 < sub64 (unix_of now) (au_loadedAt auth))"
      by (simp add: auth_usable_def)
    obtain key found where ext: "ExtractBearer hdr = (key, found)" by force
    show ?thesis
    proof (cases "found \<and> map_of (au_byDigest auth) (sha256_hex key) \<noteq> None")
      case True
      then obtain i where "map_of (au_byDigest auth) (sha256_hex key) = Some i" by blast
      moreover from True ext have "ExtractBearer hdr = (key, True)" by simp
      moreover have "Authorize en now hdr enforce = (if enforce then apply_quota (unix_of now) en i (allow auth i) else allow auth i)"
        using calculation auth fresh by (simp add: Authorize_def)
      ultimately show ?thesis using known [OF auth usable] by blast
    next
      case False
      with auth usable fresh ext show ?thesis
        by (intro invalid) (auto simp: Authorize_def split: bool.split option.split)
    qed
  qed
qed

lemma allow_fields [simp]: "dc_Allowed (allow auth i)" "dc_Status (allow auth i) = 0" "dc_Identity (allow auth i) = Some i"
  "dc_MaxReasoningEffort (allow auth i) = au_maxReasoningEffort auth"
  by (simp_all add: allow_def no_decision_def)

lemma refusal_fields [simp]:
  "\<not> dc_Allowed (unavailableAuthDecision c)" "dc_Status (unavailableAuthDecision c) = 503"
  "dc_Identity (unavailableAuthDecision c) = None" "\<not> dc_Allowed invalidKeyDecision"
  "dc_Status invalidKeyDecision = 401" "dc_Identity invalidKeyDecision = None"
  by (simp_all add: unavailableAuthDecision_def invalidKeyDecision_def no_decision_def)

lemma identity_aux: "dc_Identity (Authorize en now hdr enforce) = Some i \<longleftrightarrow>
    (\<exists>auth key. en_auth en = Some auth \<and> auth_usable auth now \<and> ExtractBearer hdr = (key, True) \<and>
       map_of (au_byDigest auth) (sha256_hex key) = Some i)"
  by (rule Authorize_cases [of en now hdr enforce]) auto

text \<open>
  C37: Authentication is exact. After any history of load attempts, succeeded or failed, a request gets an
  identity exactly when the last successfully loaded authentication snapshot was loaded at most 5
  seconds ago (at a positive time), the header carries a bearer key, and the snapshot has a record
  whose digest is the SHA-256 of that key; and it gets the identity of that record.
\<close>

theorem authenticated_iff:
  "dc_Identity (Authorize (run_loads ls) now hdr enforce) = Some i \<longleftrightarrow>
    (\<exists>s t key r. latest (auth_loads ls) = Some (s, t) \<and> 0 < unix_of t \<and> sub64 (unix_of now) (unix_of t) \<le> 5 \<and>
       ExtractBearer hdr = (key, True) \<and> r \<in> set (gs_Records s) \<and> gr_ExternalKeySHA256 r = sha256_hex key \<and>
       i = identity_of r)"
proof (cases "latest (auth_loads ls)")
  case None
  then show ?thesis by (simp add: identity_aux run_loads_state)
next
  case (Some st)
  then obtain s t where st: "latest (auth_loads ls) = Some (s, t)" by (cases st) auto
  have "dc_Identity (Authorize (run_loads ls) now hdr enforce) = Some i \<longleftrightarrow>
      0 < unix_of t \<and> sub64 (unix_of now) (unix_of t) \<le> 5 \<and>
      (\<exists>key. ExtractBearer hdr = (key, True) \<and>
        (\<exists>r \<in> set (gs_Records s). gr_ExternalKeySHA256 r = sha256_hex key \<and> i = identity_of r))"
    unfolding identity_aux by (simp add: auth_usable_def loaded_auth(1,3,4,6) [OF st])
  then show ?thesis using st by auto
qed

lemma quota_refusal_history:
  "dc_Status (apply_quota n (run_loads ls) i (allow auth i)) = 429 \<longleftrightarrow>
    (\<exists>h s t q. latest (heartbeat_loads ls) = Some h \<and> 0 < hb_LastSuccessAt h \<and>
       sub64 n (hb_LastSuccessAt h) \<le> hb_FailOpenAfterSeconds h \<and>
       latest (quota_loads ls) = Some (s, t) \<and> 0 < unix_of t \<and> sub64 n (unix_of t) \<le> hb_FailOpenAfterSeconds h \<and>
       q \<in> set (qs_Records s) \<and> qr_UserEmail q = id_UserEmail i \<and> n < qr_WeekEndAt q \<and>
       0 \<le> qr_LimitTokens q \<and> qr_LimitTokens q \<le> qr_UsedTokens q \<and>
       dc_RetryAfterSeconds (apply_quota n (run_loads ls) i (allow auth i)) = max 1 (sub64 (qr_WeekEndAt q) n))"
  (is "dc_Status ?d = 429 \<longleftrightarrow> ?R")
proof -
  let ?en = "run_loads ls"
  have retry: "?d = quota_exceeded n q (allow auth i) \<Longrightarrow>
      dc_RetryAfterSeconds ?d = max 1 (sub64 (qr_WeekEndAt q) n)" for q
    by (simp add: quota_exceeded_def max_def)
  have users: "(\<exists>quota. en_quota ?en = Some quota \<and> 0 < qt_loadedAt quota \<and> sub64 n (qt_loadedAt quota) \<le> b \<and>
      qt_generation quota \<noteq> [] \<and> map_of (qt_byUser quota) u = Some q) \<longleftrightarrow>
     (\<exists>s t. latest (quota_loads ls) = Some (s, t) \<and> 0 < unix_of t \<and> sub64 n (unix_of t) \<le> b \<and>
      q \<in> set (qs_Records s) \<and> qr_UserEmail q = u)" for u q b
  proof (cases "latest (quota_loads ls)")
    case None
    then show ?thesis by (simp add: run_loads_state)
  next
    case (Some st)
    then obtain s t where st: "latest (quota_loads ls) = Some (s, t)" by (cases st) auto
    show ?thesis by (simp add: loaded_quota [OF st] st)
  qed
  have heart: "en_heartbeat ?en = latest (heartbeat_loads ls)" by (simp add: run_loads_state)
  show ?thesis
  proof
    assume "dc_Status ?d = 429"
    then obtain h quota q where "en_heartbeat ?en = Some h" "0 < hb_LastSuccessAt h"
      "sub64 n (hb_LastSuccessAt h) \<le> hb_FailOpenAfterSeconds h" "en_quota ?en = Some quota" "0 < qt_loadedAt quota"
      "sub64 n (qt_loadedAt quota) \<le> hb_FailOpenAfterSeconds h" "qt_generation quota \<noteq> []"
      "map_of (qt_byUser quota) (id_UserEmail i) = Some q" "n < qr_WeekEndAt q" "0 \<le> qr_LimitTokens q"
      "qr_LimitTokens q \<le> qr_UsedTokens q" "?d = quota_exceeded n q (allow auth i)"
      unfolding quota_refusal_iff [of "allow auth i", simplified] by blast
    then show ?R using users [of "hb_FailOpenAfterSeconds h" "id_UserEmail i" q] heart retry by auto
  next
    assume ?R
    then obtain h s t q where R: "latest (heartbeat_loads ls) = Some h" "0 < hb_LastSuccessAt h"
      "sub64 n (hb_LastSuccessAt h) \<le> hb_FailOpenAfterSeconds h" "n < qr_WeekEndAt q" "0 \<le> qr_LimitTokens q"
      "qr_LimitTokens q \<le> qr_UsedTokens q" and "latest (quota_loads ls) = Some (s, t)" "0 < unix_of t"
      "sub64 n (unix_of t) \<le> hb_FailOpenAfterSeconds h" "q \<in> set (qs_Records s)" "qr_UserEmail q = id_UserEmail i"
      by (elim exE conjE)
    then have "\<exists>quota. en_quota ?en = Some quota \<and> 0 < qt_loadedAt quota \<and>
        sub64 n (qt_loadedAt quota) \<le> hb_FailOpenAfterSeconds h \<and> qt_generation quota \<noteq> [] \<and>
        map_of (qt_byUser quota) (id_UserEmail i) = Some q"
      unfolding users by (intro exI conjI)
    with R heart show "dc_Status ?d = 429"
      by (auto simp: apply_quota_def apply_user_quota_def quota_exceeded_def)
  qed
qed

text \<open>
  C38: The quota refusal is exact, and everything else is open or fails closed on authentication. After
  any history of load attempts: a request is answered 429 exactly when quotas are enforced, it is
  authenticated as \<open>i\<close>, the last heartbeat and the last quota snapshot are both within the fail-open time
  of the heartbeat, the snapshot has a record of the user, its week has not ended and its limit is set and
  reached; the retry time is then the rest of the week, at least 1. A request is let through exactly when
  it is authenticated and not answered 429; without identity the answer is 401 or 503.
\<close>

theorem quota_refusal_exact:
  "(dc_Status (Authorize (run_loads ls) now hdr enforce) = 429 \<longleftrightarrow>
     enforce \<and> (\<exists>i h s t q. dc_Identity (Authorize (run_loads ls) now hdr enforce) = Some i \<and>
       latest (heartbeat_loads ls) = Some h \<and> 0 < hb_LastSuccessAt h \<and>
       sub64 (unix_of now) (hb_LastSuccessAt h) \<le> hb_FailOpenAfterSeconds h \<and>
       latest (quota_loads ls) = Some (s, t) \<and> 0 < unix_of t \<and>
       sub64 (unix_of now) (unix_of t) \<le> hb_FailOpenAfterSeconds h \<and>
       q \<in> set (qs_Records s) \<and> qr_UserEmail q = id_UserEmail i \<and> unix_of now < qr_WeekEndAt q \<and>
       0 \<le> qr_LimitTokens q \<and> qr_LimitTokens q \<le> qr_UsedTokens q \<and>
       dc_RetryAfterSeconds (Authorize (run_loads ls) now hdr enforce) =
         max 1 (sub64 (qr_WeekEndAt q) (unix_of now)))) \<and>
   (dc_Allowed (Authorize (run_loads ls) now hdr enforce) \<longleftrightarrow>
     dc_Identity (Authorize (run_loads ls) now hdr enforce) \<noteq> None \<and>
     dc_Status (Authorize (run_loads ls) now hdr enforce) \<noteq> 429) \<and>
   (dc_Identity (Authorize (run_loads ls) now hdr enforce) = None \<longleftrightarrow>
     dc_Status (Authorize (run_loads ls) now hdr enforce) \<in> {401, 503})"
proof (rule Authorize_cases [of "run_loads ls" now hdr enforce])
  fix auth key i
  let ?en = "run_loads ls" and ?n = "unix_of now"
  let ?d = "apply_quota ?n ?en i (allow auth i)"
  assume known: "Authorize ?en now hdr enforce = (if enforce then ?d else allow auth i)"
  show ?thesis
  proof (cases enforce)
    case False
    with known show ?thesis by simp
  next
    case True
    have status: "(dc_Allowed ?d \<and> dc_Status ?d = 0) \<or> (\<not> dc_Allowed ?d \<and> dc_Status ?d = 429)"
      by (rule apply_quota_status) simp_all
    note refused = quota_refusal_history [of ?n ls i auth]
    have ident: "dc_Identity ?d = Some i" by simp
    have d: "Authorize ?en now hdr enforce = ?d" using known True by simp
    have "(dc_Status ?d = 429) = (enforce \<and> (\<exists>i' h s t q. dc_Identity ?d = Some i' \<and>
       latest (heartbeat_loads ls) = Some h \<and> 0 < hb_LastSuccessAt h \<and>
       sub64 ?n (hb_LastSuccessAt h) \<le> hb_FailOpenAfterSeconds h \<and>
       latest (quota_loads ls) = Some (s, t) \<and> 0 < unix_of t \<and> sub64 ?n (unix_of t) \<le> hb_FailOpenAfterSeconds h \<and>
       q \<in> set (qs_Records s) \<and> qr_UserEmail q = id_UserEmail i' \<and> ?n < qr_WeekEndAt q \<and>
       0 \<le> qr_LimitTokens q \<and> qr_LimitTokens q \<le> qr_UsedTokens q \<and>
       dc_RetryAfterSeconds ?d = max 1 (sub64 (qr_WeekEndAt q) ?n)))"
      unfolding refused ident using True by simp
    moreover have "dc_Allowed ?d \<longleftrightarrow> dc_Identity ?d \<noteq> None \<and> dc_Status ?d \<noteq> 429" using status ident by auto
    moreover have "dc_Identity ?d = None \<longleftrightarrow> dc_Status ?d \<in> {401, 503}" using status ident by auto
    ultimately show ?thesis unfolding d by (intro conjI)
  qed
qed simp_all

section \<open>Status and refresh\<close>

lemma generations_nonempty: "g \<in> set (map (gs_Generation \<circ> fst) (auth_loads ls)) \<Longrightarrow> g \<noteq> []"
  "g \<in> set (map (qs_Generation \<circ> fst) (quota_loads ls)) \<Longrightarrow> g \<noteq> []"
  using auth_loads_parsed ParseAuthSnapshot_sound(3) quota_loads_parsed ParseQuotaSnapshot_aux(3)
  by (fastforce simp: validLowerHex_def)+

lemma generation_before_differs:
  "(\<And>g. g \<in> set gs \<Longrightarrow> g \<noteq> []) \<Longrightarrow> gs \<noteq> [] \<Longrightarrow> generation_before gs \<noteq> last gs"
proof (induction gs rule: rev_induct)
  case (snoc g gs)
  then show ?case by (auto simp: generation_before_snoc previous_generation_def)
qed simp

text \<open>
  The published status follows the successful loads. After any history of load attempts, the active
  generation of each snapshot is the one of its last successful load and the previous one is the
  latest different generation before it, however often a generation was reloaded and whatever loads
  failed in between; the two agree only before the first successful load.
\<close>

theorem status_tracks_generations:
  "ks_ActiveGeneration (st_Auth (Status (run_loads ls))) =
     (case latest (auth_loads ls) of None \<Rightarrow> [] | Some (s, t) \<Rightarrow> gs_Generation s) \<and>
   ks_PreviousGeneration (st_Auth (Status (run_loads ls))) = generation_before (map (gs_Generation \<circ> fst) (auth_loads ls)) \<and>
   (ks_PreviousGeneration (st_Auth (Status (run_loads ls))) = ks_ActiveGeneration (st_Auth (Status (run_loads ls)))
     \<longleftrightarrow> auth_loads ls = []) \<and>
   ks_ActiveGeneration (st_Quota (Status (run_loads ls))) =
     (case latest (quota_loads ls) of None \<Rightarrow> [] | Some (s, t) \<Rightarrow> qs_Generation s) \<and>
   ks_PreviousGeneration (st_Quota (Status (run_loads ls))) = generation_before (map (qs_Generation \<circ> fst) (quota_loads ls)) \<and>
   (ks_PreviousGeneration (st_Quota (Status (run_loads ls))) = ks_ActiveGeneration (st_Quota (Status (run_loads ls)))
     \<longleftrightarrow> quota_loads ls = [])"
proof -
  let ?A = "map (gs_Generation \<circ> fst) (auth_loads ls)" and ?Q = "map (qs_Generation \<circ> fst) (quota_loads ls)"
  have a: "auth_loads ls \<noteq> [] \<Longrightarrow> generation_before ?A \<noteq> gs_Generation (fst (last (auth_loads ls)))"
    using generation_before_differs [of ?A] generations_nonempty(1) by (auto simp: last_map)
  have q: "quota_loads ls \<noteq> [] \<Longrightarrow> generation_before ?Q \<noteq> qs_Generation (fst (last (quota_loads ls)))"
    using generation_before_differs [of ?Q] generations_nonempty(2) by (auto simp: last_map)
  have "generation_before [] = []" by (simp add: generation_before_def)
  with a q show ?thesis
    by (cases "auth_loads ls = []"; cases "quota_loads ls = []")
      (simp_all add: Status_def run_loads_state latest_def auth_state_of_def quota_state_of_def case_prod_beta)
qed

text \<open>The load attempts a refresh makes.\<close>

definition refresh_loads :: "snapshot_file \<Rightarrow> snapshot_file \<Rightarrow> snapshot_file \<Rightarrow> int \<Rightarrow> load list" where
  "refresh_loads a q h now =
     (case a of File c e \<Rightarrow> [LoadsAuth c now] | OpenFails e \<Rightarrow> []) @
     (case q of File c e \<Rightarrow> [LoadsQuota c now] | OpenFails e \<Rightarrow> []) @
     (case h of File c e \<Rightarrow> [LoadsHeartbeat c] | OpenFails e \<Rightarrow> [])"

lemma load_kind_engine: "ld_engine (fst (load_kind kind file load l)) =
    (case file of OpenFails e \<Rightarrow> ld_engine l | File c e \<Rightarrow> snd (load c (ld_engine l)))"
  by (auto simp: load_kind_def recordError_def recordRecovery_def Let_def split: snapshot_file.split prod.split option.split)

text \<open>
  A refresh never loses a valid snapshot. The engine after \<open>Refresh\<close> is the one after the load
  attempts of the files that could be opened, in order; so the state after any refreshes of a new
  loader is the state of a history of load attempts, to which the results above apply.
\<close>

theorem refresh_is_loads:
  "ld_engine (foldl (\<lambda>l (a, q, h, now). fst (Refresh a q h now l)) \<lparr>ld_engine = NewEngine, ld_lastError = []\<rparr> rounds) =
   run_loads (concat (map (\<lambda>(a, q, h, now). refresh_loads a q h now) rounds))"
proof (induction rounds rule: rev_induct)
  case Nil
  then show ?case by (simp add: run_loads_def)
next
  case (snoc r rounds)
  obtain a q h now where r: "r = (a, q, h, now)" by (cases r) auto
  have step: "ld_engine (fst (Refresh a q h now l)) = foldl (\<lambda>en x. do_load x en) (ld_engine l) (refresh_loads a q h now)" for l
    by (cases a; cases q; cases h)
      (simp_all add: Refresh_def case_prod_beta load_kind_engine refresh_loads_def do_load_def)
  show ?case using snoc by (simp add: r step run_loads_def)
qed

section \<open>Parsed quota data\<close>

text \<open>
  What the quota parsers accept is usable without further checks. Every record of a parsed quota
  snapshot belongs to a different, non-empty user, its week does not end before it starts, its limit is
  \<open>-1\<close> (none) or more, its usage not negative, and every number is in the range of \<open>int64\<close>, although
  the document holds floats. A document with a record that violates this is refused as a whole.
\<close>

theorem parsed_quota_is_sound:
  assumes "ParseQuotaSnapshot c = Inr s"
  shows "list_all quota_record_valid (qs_Records s) \<and> distinct (map qr_UserEmail (qs_Records s)) \<and>
    validLowerHex (qs_Generation s) 32"
  using ParseQuotaSnapshot_aux [OF assms] by blast

definition ex_generation :: string where
  "ex_generation = replicate 32 (CHR ''b'')"

definition ex_quota_json :: json where
  "ex_quota_json = Some (AObject [(''version'', AInt64 1), (''generation'', AString ex_generation),
     (''generated_at'', AInt64 995), (''content_sha256'', AString ''cc''),
     (''records'', AList [AObject [(''user_email'', AString ''fixture@example.com''), (''week_start_at'', AInt64 900),
        (''week_end_at'', AFloat (Fin (4001 / 2))), (''limit_tokens'', AInt64 1000), (''used_tokens'', AInt64 1000),
        (''raw_used_tokens'', AInt64 600), (''weighted_raw_used_tokens'', AInt64 1100)]])])"

definition ex_quota_record :: quota_record where
  "ex_quota_record = \<lparr>qr_UserEmail = ''fixture@example.com'', qr_WeekStartAt = 900, qr_WeekEndAt = 2000,
     qr_LimitTokens = 1000, qr_UsedTokens = 1000, qr_RawUsedTokens = 600, qr_WeightedRawUsedTokens = 1100,
     qr_QuotaUnit = ''weighted_tokens''\<rparr>"

definition ex_raw_quota :: raw_quota_record where
  "ex_raw_quota = \<lparr>rq_UserEmail = ''fixture@example.com'', rq_WeekStartAt = Some (Fin 900),
     rq_WeekEndAt = Some (Fin (4001 / 2)), rq_LimitTokens = Some (Fin 1000), rq_UsedTokens = Some (Fin 1000),
     rq_RawUsedTokens = AFloat (Fin 600), rq_WeightedRawUsedTokens = AFloat (Fin 1100)\<rparr>"

lemma ex_generation_hex: "validLowerHex ex_generation 32"
  by code_simp

lemma ex_quota_of_raw: "quota_record_of_raw 0 [] ex_raw_quota = Inr ex_quota_record"
  by (simp add: quota_record_of_raw_def ex_raw_quota_def quota_floats_ok_def floorInt64_def floor_field_def wrapping_def
      optionalSnapshotFloor_def snapshotNumber_def ex_quota_record_def floor_eq_iff)

lemma ex_decode_quota: "dec_document zero_raw_quota raw_quota_of ex_quota_json =
    Inr \<lparr>rs_Version = 1, rs_Generation = ex_generation, rs_GeneratedAt = AFloat (Fin 995), rs_ContentSHA256 = ''cc'',
      rs_Records = Some [ex_raw_quota]\<rparr>"
  by (simp add: dec_document_def ex_quota_json_def dec_struct_of_def raw_quota_of_def raw_quota_record_of_def dec_int_def
      dec_string_def dec_any_def dec_slice_def dec_float_ptr_def dec_float_of_def mget_def in64_def float_eval ex_raw_quota_def)

lemma ex_parse_quota: "ParseQuotaSnapshot (Content 400 False ex_quota_json) =
    Inr \<lparr>qs_Version = 1, qs_Generation = ex_generation, qs_GeneratedAt = Fin 995, qs_ContentSHA256 = ''cc'',
      qs_Records = [ex_quota_record]\<rparr>"
  by (simp add: ParseQuotaSnapshot_def readSnapshot_def MaxSnapshotBytes_def ex_decode_quota quota_of_raw_def wrapping_def
      ex_generation_hex ex_quota_of_raw snapshotNumberOrFallback_def snapshotNumber_def)

theorem parsed_quota_is_sound_witness: "quota_record_valid ex_quota_record \<and> validLowerHex ex_generation 32"
  using parsed_quota_is_sound [OF ex_parse_quota] by simp

end
