(* ===== verification/Control_Store.thy ===== *)
theory Control_Store
  imports Go_Json
begin

text \<open>
  \<open>internal/controlplane\<close>: the SQLite store (\<open>models.go\<close>, \<open>schema.go\<close>, the transaction and
  runtime-state parts of \<open>store.go\<close>) and the ownership leases (\<open>lease.go\<close>).

  A \<open>db\<close> is the content of the tables. A database operation runs in an environment \<open>env\<close> that says
  which system or SQL call fails and with what error, what the clock shows and which random bytes
  are drawn, so every error branch of the code is a branch of the definitions. A write transaction
  holds the cross-process file lock from before \<open>BEGIN\<close> to after \<open>COMMIT\<close>; interleavings of
  processes are therefore sequences of whole transactions.
\<close>

section \<open>Rows and tables\<close>

record account =
  ac_ID :: string
  ac_Email :: string
  ac_Port :: int
  ac_ProxyMode :: string
  ac_CreatedAt :: int
  ac_GroupEnabled :: bool
  ac_DefaultGroup :: bool

record key_record =
  kr_Label :: string
  kr_Account :: string
  kr_AccountEmail :: string
  kr_User :: string
  kr_Status :: string
  kr_Key :: string
  kr_CreatedAt :: int
  kr_UpdatedAt :: int

record internal_key =
  ik_Key :: string
  ik_CreatedAt :: int
  ik_Status :: string

record account_row =
  ar_id :: string
  ar_email :: string
  ar_port :: int
  ar_proxy_mode :: string
  ar_created_at :: int
  ar_group_enabled :: int
  ar_default_group :: int
  ar_position :: int

text \<open>
  Tables with a text primary key are maps; \<open>key_records\<close>, whose primary key is \<open>sequence\<close>, is the list
  of its rows with their sequence numbers, in ascending order. \<open>db_memberships\<close> has the team of a user,
  \<open>db_user_tags\<close> the time at which a tag was given to a user.
\<close>

record membership =
  ms_TeamID :: "string option"
  ms_Version :: int
  ms_UpdatedAt :: int

record db =
  db_settings :: "json gomap"
  db_accounts :: "account_row list"
  db_user_routes :: "string gomap"
  db_key_rows :: "(int \<times> key_record) list"
  db_internal_keys :: "internal_key gomap"
  db_runtime_state :: "json gomap"
  db_teams :: strset
  db_memberships :: "membership gomap"
  db_tags :: strset
  db_user_tags :: "((string \<times> string) \<times> int) list"

definition db_key_records :: "db \<Rightarrow> key_record list" where
  "db_key_records d = map snd (db_key_rows d)"

lemma db_key_records_update [simp]:
  "db_key_records (d\<lparr>db_settings := s\<rparr>) = db_key_records d"
  "db_key_records (d\<lparr>db_accounts := a\<rparr>) = db_key_records d"
  "db_key_records (d\<lparr>db_user_routes := r\<rparr>) = db_key_records d"
  "db_key_records (d\<lparr>db_internal_keys := i\<rparr>) = db_key_records d"
  "db_key_records (d\<lparr>db_runtime_state := t\<rparr>) = db_key_records d"
  "db_key_records (d\<lparr>db_memberships := m\<rparr>) = db_key_records d"
  "db_key_records (d\<lparr>db_user_tags := g\<rparr>) = db_key_records d"
  "db_key_records (d\<lparr>db_key_rows := k\<rparr>) = map snd k"
  by (simp_all add: db_key_records_def)

text \<open>The calls that can fail: the lock file, the transaction control, one statement per table and key.\<close>

datatype sql_call = LockOpen | LockSecure | LockFlock | TxBegin | TxRollback | TxCommit
  | SqlRead string string | SqlWrite string string

record env =
  ev_fault :: "sql_call \<Rightarrow> gerr option"
  ev_fenceNow :: int
  ev_now :: int
  ev_random :: "gerr + string"

definition wrapf :: "string \<Rightarrow> gerr \<Rightarrow> gerr" where
  "wrapf text e = ErrWrap text e []"

text \<open>A statement that can fail: its error wrapped, or its value.\<close>

definition attempt :: "env \<Rightarrow> sql_call \<Rightarrow> string \<Rightarrow> 'a \<Rightarrow> gerr + 'a" where
  "attempt env call text v =
     (case ev_fault env call of Some e \<Rightarrow> Inl (wrapf text e) | None \<Rightarrow> Inr v)"

definition calm :: "env \<Rightarrow> bool" where
  "calm env \<longleftrightarrow> (\<forall>c. ev_fault env c = None)"

lemma attempt_calm [simp]: "calm env \<Longrightarrow> attempt env call text v = Inr v"
  by (simp add: attempt_def calm_def)

lemma attempt_Inr_iff: "attempt env call text v = Inr w \<longleftrightarrow> ev_fault env call = None \<and> w = v"
  by (auto simp: attempt_def split: option.split)

lemma map_sum_Inr_iff [simp]: "map_sum id (Pair ()) x = Inr (u, d) \<longleftrightarrow> x = Inr d"
  by (cases x) auto

definition ErrInvalidCatalogInput :: gerr where
  "ErrInvalidCatalogInput = Sentinel ''invalid catalog input''"

section \<open>Leases\<close>

definition leaseStateVersion :: int where "leaseStateVersion = 1"

definition leaseStatePrefix :: string where "leaseStatePrefix = ''ownership_lease:''"

definition minLeaseTTL :: int where "minLeaseTTL = 5 * second"

definition maxLeaseTTL :: int where "maxLeaseTTL = 300 * second"

definition ErrLeaseHeld :: gerr where "ErrLeaseHeld = Sentinel ''ownership lease is held''"
definition ErrLeaseMissing :: gerr where "ErrLeaseMissing = Sentinel ''ownership lease is missing''"
definition ErrLeaseLost :: gerr where "ErrLeaseLost = Sentinel ''ownership lease was lost''"
definition ErrLeaseStateInvalid :: gerr where
  "ErrLeaseStateInvalid = Sentinel ''ownership lease state is invalid''"

record lease =
  le_Version :: int
  le_Scope :: string
  le_Owner :: string
  le_Generation :: int
  le_Token :: string
  le_AcquiredAt :: int
  le_RenewedAt :: int
  le_ExpiresAt :: int
  le_ReleasedAt :: "int option"

definition zero_lease :: lease where
  "zero_lease = \<lparr>le_Version = 0, le_Scope = [], le_Owner = [], le_Generation = 0, le_Token = [],
     le_AcquiredAt = 0, le_RenewedAt = 0, le_ExpiresAt = 0, le_ReleasedAt = None\<rparr>"

text \<open>The JSON form by the struct tags; \<open>omitempty\<close> drops an empty token and a nil release time.\<close>

definition lease_json :: "lease \<Rightarrow> goany" where
  "lease_json l = AObject (
     [(''version'', AInt64 (le_Version l)), (''scope'', AString (le_Scope l)),
      (''owner'', AString (le_Owner l)), (''generation'', AInt64 (le_Generation l))] @
     (if le_Token l = [] then [] else [(''token'', AString (le_Token l))]) @
     [(''acquired_at'', AInt64 (le_AcquiredAt l)), (''renewed_at'', AInt64 (le_RenewedAt l)),
      (''expires_at'', AInt64 (le_ExpiresAt l))] @
     (case le_ReleasedAt l of None \<Rightarrow> [] | Some t \<Rightarrow> [(''released_at'', AInt64 t)]))"

definition lease_of_object :: "goany gomap \<Rightarrow> lease option" where
  "lease_of_object m =
     (case (dec_int m ''version'', dec_string m ''scope'', dec_string m ''owner'',
            dec_int m ''generation'', dec_string m ''token'', dec_int m ''acquired_at'',
            dec_int m ''renewed_at'', dec_int m ''expires_at'', dec_int_ptr m ''released_at'') of
        (Some v, Some s, Some w, Some g, Some t, Some a, Some r, Some e, Some rel) \<Rightarrow>
          Some \<lparr>le_Version = v, le_Scope = s, le_Owner = w, le_Generation = g, le_Token = t,
                le_AcquiredAt = a, le_RenewedAt = r, le_ExpiresAt = e, le_ReleasedAt = rel\<rparr>
      | _ \<Rightarrow> None)"

definition lease_of_json :: "json \<Rightarrow> lease option" where
  "lease_of_json raw = (case raw of Some (AObject m) \<Rightarrow> lease_of_object m
                         | Some ANil \<Rightarrow> Some zero_lease | _ \<Rightarrow> None)"

text \<open>The validity test of \<open>readLease\<close>.\<close>

definition lease_valid :: "string \<Rightarrow> lease \<Rightarrow> bool" where
  "lease_valid scope l \<longleftrightarrow>
     \<not> (le_Version l \<noteq> leaseStateVersion \<or> le_Scope l \<noteq> scope \<or> le_Owner l = [] \<or>
        le_Generation l < 1 \<or> le_AcquiredAt l < 1 \<or> le_RenewedAt l < le_AcquiredAt l \<or>
        le_ExpiresAt l < le_RenewedAt l)"

definition readLease :: "env \<Rightarrow> string \<Rightarrow> db \<Rightarrow> gerr + lease option" where
  "readLease env scope d =
     (let name = leaseStatePrefix @ scope
      in case attempt env (SqlRead ''runtime_state'' name) (''read ownership lease '' @ scope @ '': '')
                (map_of (db_runtime_state d) name) of
           Inl e \<Rightarrow> Inl e
         | Inr None \<Rightarrow> Inr None
         | Inr (Some raw) \<Rightarrow>
             (case lease_of_json raw of
                None \<Rightarrow> Inl (ErrWrap [] ErrLeaseStateInvalid ('': decode scope '' @ scope))
              | Some l \<Rightarrow> if \<not> lease_valid scope l
                          then Inl (ErrWrap [] ErrLeaseStateInvalid ('': malformed scope '' @ scope))
                          else Inr (Some l)))"

text \<open>\<open>json.Marshal\<close> of a lease, a struct of strings and integers, never fails.\<close>

definition writeLease :: "env \<Rightarrow> lease \<Rightarrow> db \<Rightarrow> gerr + db" where
  "writeLease env l d =
     attempt env (SqlWrite ''runtime_state'' (leaseStatePrefix @ le_Scope l))
       (''write ownership lease '' @ le_Scope l @ '': '')
       (d\<lparr>db_runtime_state :=
            mput (leaseStatePrefix @ le_Scope l) (Some (lease_json l)) (db_runtime_state d)\<rparr>)"

section \<open>The write fence and the write transaction\<close>

text \<open>The installed fence is part of one process's store handle.\<close>

type_synonym fence = "lease list"

definition fence_lease_ok :: "lease \<Rightarrow> bool" where
  "fence_lease_ok l \<longleftrightarrow> \<not> (le_Scope l = [] \<or> le_Owner l = [] \<or> le_Generation l < 1 \<or> le_Token l = [])"

definition InstallWriteFence :: "lease \<Rightarrow> lease \<Rightarrow> fence \<Rightarrow> gerr option \<times> fence" where
  "InstallWriteFence runtimeLease workerLease fence =
     (if \<not> (fence_lease_ok runtimeLease \<and> fence_lease_ok workerLease)
      then (Some (ErrNew ''ownership write fence requires active lease tokens and generations''), fence)
      else if le_Scope runtimeLease = le_Scope workerLease
      then (Some (ErrNew ''ownership write fence requires distinct runtime and worker scopes''), fence)
      else if fence \<noteq> []
      then (Some (ErrNew ''ownership write fence is already installed''), fence)
      else (None, [runtimeLease, workerLease]))"

definition holds_lease :: "int \<Rightarrow> lease \<Rightarrow> lease option \<Rightarrow> bool" where
  "holds_lease now expected found =
     (case found of None \<Rightarrow> False
      | Some current \<Rightarrow>
          \<not> (le_ExpiresAt current \<le> now \<or> le_Token current = [] \<or>
             le_Owner current \<noteq> le_Owner expected \<or>
             le_Generation current \<noteq> le_Generation expected \<or>
             le_Token current \<noteq> le_Token expected))"

fun validateWriteFence :: "fence \<Rightarrow> env \<Rightarrow> db \<Rightarrow> gerr option" where
  "validateWriteFence [] env d = None"
| "validateWriteFence (expected # leases) env d =
     (case readLease env (le_Scope expected) d of
        Inl e \<Rightarrow> Some (wrapf (''validate ownership write fence '' @ le_Scope expected @ '': '') e)
      | Inr found \<Rightarrow>
          if \<not> holds_lease (unix_of (ev_fenceNow env)) expected found
          then Some (ErrWrap [] ErrLeaseLost ('': control-plane write fence scope '' @
                 le_Scope expected @ '' generation '' @ itoa (le_Generation expected)))
          else validateWriteFence leases env d)"

definition exclusive :: "env \<Rightarrow> (db \<Rightarrow> (gerr + 'a) \<times> db) \<Rightarrow> db \<Rightarrow> (gerr + 'a) \<times> db" where
  "exclusive env operation d =
     (case attempt env LockOpen ''open control-plane lock: '' () of Inl e \<Rightarrow> (Inl e, d)
      | Inr _ \<Rightarrow>
     (case attempt env LockSecure ''secure control-plane lock: '' () of Inl e \<Rightarrow> (Inl e, d)
      | Inr _ \<Rightarrow>
     (case attempt env LockFlock ''lock control-plane state: '' () of Inl e \<Rightarrow> (Inl e, d)
      | Inr _ \<Rightarrow> operation d)))"

text \<open>
  The operation works on the transaction's view; an error of the operation or of \<open>COMMIT\<close> runs the
  deferred rollback, so the database is the one before.
\<close>

definition run_transaction ::
  "fence \<Rightarrow> env \<Rightarrow> (db \<Rightarrow> gerr + 'a \<times> db) \<Rightarrow> db \<Rightarrow> (gerr + 'a) \<times> db" where
  "run_transaction fence env operation d =
     (case attempt env TxBegin ''begin control-plane transaction: '' () of Inl e \<Rightarrow> (Inl e, d)
      | Inr _ \<Rightarrow>
     (case validateWriteFence fence env d of Some e \<Rightarrow> (Inl e, d)
      | None \<Rightarrow>
     (case operation d of Inl e \<Rightarrow> (Inl e, d)
      | Inr (v, d') \<Rightarrow>
     (case attempt env TxCommit ''commit control-plane transaction: '' () of Inl e \<Rightarrow> (Inl e, d)
      | Inr _ \<Rightarrow> (Inr v, d')))))"

definition writeTransaction ::
  "fence \<Rightarrow> env \<Rightarrow> (db \<Rightarrow> gerr + 'a \<times> db) \<Rightarrow> db \<Rightarrow> (gerr + 'a) \<times> db" where
  "writeTransaction fence env operation = exclusive env (run_transaction fence env operation)"

text \<open>
  \<open>WithWriteFence\<close> runs a mutation of another store (state \<open>'s\<close>) under the lock after checking the
  fence in a read-only transaction that is closed first; the control plane itself is not changed.
\<close>

definition WithWriteFence ::
  "fence \<Rightarrow> env \<Rightarrow> ('s \<Rightarrow> gerr option \<times> 's) option \<Rightarrow> db \<Rightarrow> 's \<Rightarrow> gerr option \<times> 's" where
  "WithWriteFence fence env operation d s =
     (case operation of None \<Rightarrow> (Some (ErrNew ''fenced write operation is required''), s)
      | Some oper \<Rightarrow>
        if fence = [] then (Some (ErrNew ''ownership write fence is not installed''), s)
        else (case fst (exclusive env (\<lambda>d.
                 (case attempt env TxBegin ''begin ownership write-fence transaction: '' () of
                    Inl e \<Rightarrow> (Inl e, d)
                  | Inr _ \<Rightarrow> (case validateWriteFence fence env d of Some e \<Rightarrow> (Inl e, d)
                  | None \<Rightarrow> (attempt env TxRollback ''close ownership write-fence transaction: '' (), d)))) d) of
                Inl e \<Rightarrow> (Some e, s)
              | Inr _ \<Rightarrow> oper s))"

section \<open>Lease operations\<close>

definition scope_char :: "char \<Rightarrow> bool" where
  "scope_char c \<longleftrightarrow> (let n = of_char c :: nat in 97 \<le> n \<and> n \<le> 122 \<or> 48 \<le> n \<and> n \<le> 57)"

text \<open>The pattern \<^verbatim>\<open>^[a-z0-9][a-z0-9._-]{0,63}$\<close>.\<close>

definition leaseScopePattern :: "string \<Rightarrow> bool" where
  "leaseScopePattern s \<longleftrightarrow>
     (case s of [] \<Rightarrow> False | c # cs \<Rightarrow> scope_char c \<and> length cs \<le> 63 \<and>
        list_all (\<lambda>c. scope_char c \<or> c = CHR ''.'' \<or> c = CHR ''_'' \<or> c = CHR ''-'') cs)"

text \<open>\<open>unicode.IsControl\<close> of a rune of UTF-8 text: a byte below 32, the byte 127, or 0xC2 0x80-0x9F.\<close>

fun has_control :: "string \<Rightarrow> bool" where
  "has_control [] = False"
| "has_control (c # s) = (let n = of_char c :: nat in n < 32 \<or> n = 127 \<or>
     n = 194 \<and> s \<noteq> [] \<and> 128 \<le> (of_char (hd s) :: nat) \<and> (of_char (hd s) :: nat) \<le> 159 \<or>
     has_control s)"

definition validateLeaseInput ::
  "string \<Rightarrow> string \<Rightarrow> int \<Rightarrow> gerr + string \<times> string \<times> int" where
  "validateLeaseInput rawScope rawOwner ttl =
     (let scope = trim_space rawScope; owner = trim_space rawOwner
      in if \<not> leaseScopePattern scope then Inl (ErrNew ''ownership lease scope is invalid'')
         else if owner = [] \<or> 128 < length owner
         then Inl (ErrNew ''ownership lease owner must contain 1 to 128 characters'')
         else if has_control owner
         then Inl (ErrNew ''ownership lease owner contains a control character'')
         else if ttl < minLeaseTTL \<or> maxLeaseTTL < ttl
         then Inl (ErrNew ''ownership lease TTL must be between 5s and 5m0s'')
         else Inr (scope, owner, go_div (ttl + second - 1) second))"

definition newLeaseToken :: "env \<Rightarrow> gerr + string" where
  "newLeaseToken env = (case ev_random env of Inl e \<Rightarrow> Inl (wrapf ''generate ownership lease token: '' e)
     | Inr raw \<Rightarrow> Inr (hex_encode raw))"

text \<open>\<open>LeaseHeldError\<close> unwraps to \<open>ErrLeaseHeld\<close> and prints it first.\<close>

definition heldLeaseError :: "lease \<Rightarrow> gerr" where
  "heldLeaseError l = ErrWrap [] ErrLeaseHeld ('': scope '' @ le_Scope l @ '' is owned by '' @ le_Owner l @
     '' at generation '' @ itoa (le_Generation l) @ '' until '' @ itoa (le_ExpiresAt l))"

definition lease_lost_error :: "string \<Rightarrow> int \<Rightarrow> gerr" where
  "lease_lost_error scope generation =
     ErrWrap [] ErrLeaseLost ('': scope '' @ scope @ '' generation '' @ itoa generation)"

definition take_in_tx ::
  "env \<Rightarrow> string \<Rightarrow> string \<Rightarrow> int \<Rightarrow> string \<Rightarrow> db \<Rightarrow> gerr + lease \<times> db" where
  "take_in_tx env scope owner ttlSeconds token d =
     (case readLease env scope d of Inl e \<Rightarrow> Inl e
      | Inr found \<Rightarrow>
        let now = unix_of (ev_now env)
        in if (case found of Some current \<Rightarrow> now < le_ExpiresAt current | None \<Rightarrow> False)
           then Inl (heldLeaseError (the found))
           else let generation = (case found of None \<Rightarrow> 1 | Some current \<Rightarrow> add64 (le_Generation current) 1);
                    result = \<lparr>le_Version = leaseStateVersion, le_Scope = scope, le_Owner = owner,
                       le_Generation = generation, le_Token = token, le_AcquiredAt = now,
                       le_RenewedAt = now, le_ExpiresAt = add64 now ttlSeconds, le_ReleasedAt = None\<rparr>
                in (case writeLease env result d of Inl e \<Rightarrow> Inl e | Inr d' \<Rightarrow> Inr (result, d')))"

definition TakeLease ::
  "fence \<Rightarrow> env \<Rightarrow> string \<Rightarrow> string \<Rightarrow> int \<Rightarrow> db \<Rightarrow> (gerr + lease) \<times> db" where
  "TakeLease fence env rawScope rawOwner ttl d =
     (case validateLeaseInput rawScope rawOwner ttl of Inl e \<Rightarrow> (Inl e, d)
      | Inr (scope, owner, ttlSeconds) \<Rightarrow>
     (case newLeaseToken env of Inl e \<Rightarrow> (Inl e, d)
      | Inr token \<Rightarrow> writeTransaction fence env (take_in_tx env scope owner ttlSeconds token) d))"

text \<open>The renewal written by \<open>JoinLease\<close> and \<open>RenewLease\<close>.\<close>

definition renewed :: "int \<Rightarrow> int \<Rightarrow> lease \<Rightarrow> lease" where
  "renewed now ttlSeconds current = current\<lparr>le_RenewedAt := now,
     le_ExpiresAt := add64 now ttlSeconds, le_ReleasedAt := None\<rparr>"

definition join_in_tx :: "env \<Rightarrow> string \<Rightarrow> string \<Rightarrow> int \<Rightarrow> db \<Rightarrow> gerr + lease \<times> db" where
  "join_in_tx env scope owner ttlSeconds d =
     (case readLease env scope d of Inl e \<Rightarrow> Inl e
      | Inr found \<Rightarrow>
        let now = unix_of (ev_now env);
            missing = ErrWrap [] ErrLeaseMissing
              ('': active scope '' @ scope @ '' must be transferred explicitly'')
        in case found of None \<Rightarrow> Inl missing
           | Some current \<Rightarrow>
               if le_ExpiresAt current \<le> now \<or> le_Token current = [] then Inl missing
               else if le_Owner current \<noteq> owner then Inl (heldLeaseError current)
               else let current = renewed now ttlSeconds current
                    in (case writeLease env current d of Inl e \<Rightarrow> Inl e | Inr d' \<Rightarrow> Inr (current, d')))"

definition JoinLease ::
  "fence \<Rightarrow> env \<Rightarrow> string \<Rightarrow> string \<Rightarrow> int \<Rightarrow> db \<Rightarrow> (gerr + lease) \<times> db" where
  "JoinLease fence env rawScope rawOwner ttl d =
     (case validateLeaseInput rawScope rawOwner ttl of Inl e \<Rightarrow> (Inl e, d)
      | Inr (scope, owner, ttlSeconds) \<Rightarrow>
          writeTransaction fence env (join_in_tx env scope owner ttlSeconds) d)"

definition renew_in_tx ::
  "env \<Rightarrow> string \<Rightarrow> string \<Rightarrow> lease \<Rightarrow> int \<Rightarrow> db \<Rightarrow> gerr + lease \<times> db" where
  "renew_in_tx env scope owner lease ttlSeconds d =
     (case readLease env scope d of Inl e \<Rightarrow> Inl e
      | Inr found \<Rightarrow>
        let now = unix_of (ev_now env)
        in case found of None \<Rightarrow> Inl (lease_lost_error scope (le_Generation lease))
           | Some current \<Rightarrow>
               if le_ExpiresAt current \<le> now \<or> le_Token current \<noteq> le_Token lease \<or>
                  le_Generation current \<noteq> le_Generation lease \<or> le_Owner current \<noteq> owner
               then Inl (lease_lost_error scope (le_Generation lease))
               else let current = renewed now ttlSeconds current
                    in (case writeLease env current d of Inl e \<Rightarrow> Inl e | Inr d' \<Rightarrow> Inr (current, d')))"

definition token_missing :: "lease \<Rightarrow> bool" where
  "token_missing lease \<longleftrightarrow> le_Token lease = [] \<or> le_Generation lease < 1"

definition token_required_error :: gerr where
  "token_required_error = ErrWrap [] ErrLeaseLost '': token and generation are required''"

definition RenewLease :: "fence \<Rightarrow> env \<Rightarrow> lease \<Rightarrow> int \<Rightarrow> db \<Rightarrow> (gerr + lease) \<times> db" where
  "RenewLease fence env lease ttl d =
     (case validateLeaseInput (le_Scope lease) (le_Owner lease) ttl of Inl e \<Rightarrow> (Inl e, d)
      | Inr (scope, owner, ttlSeconds) \<Rightarrow>
          if token_missing lease then (Inl token_required_error, d)
          else writeTransaction fence env (renew_in_tx env scope owner lease ttlSeconds) d)"

definition release_in_tx :: "env \<Rightarrow> string \<Rightarrow> string \<Rightarrow> lease \<Rightarrow> db \<Rightarrow> gerr + unit \<times> db" where
  "release_in_tx env scope owner lease d =
     (case readLease env scope d of Inl e \<Rightarrow> Inl e
      | Inr found \<Rightarrow>
        case found of None \<Rightarrow> Inl (lease_lost_error scope (le_Generation lease))
           | Some current \<Rightarrow>
               if le_Token current \<noteq> le_Token lease \<or> le_Generation current \<noteq> le_Generation lease \<or>
                  le_Owner current \<noteq> owner
               then Inl (lease_lost_error scope (le_Generation lease))
               else let now = unix_of (ev_now env)
                    in (case writeLease env (current\<lparr>le_Token := [], le_RenewedAt := now,
                               le_ExpiresAt := now, le_ReleasedAt := Some now\<rparr>) d of
                          Inl e \<Rightarrow> Inl e | Inr d' \<Rightarrow> Inr ((), d')))"

definition ReleaseLease :: "fence \<Rightarrow> env \<Rightarrow> lease \<Rightarrow> db \<Rightarrow> (gerr + unit) \<times> db" where
  "ReleaseLease fence env lease d =
     (case validateLeaseInput (le_Scope lease) (le_Owner lease) minLeaseTTL of Inl e \<Rightarrow> (Inl e, d)
      | Inr (scope, owner, _) \<Rightarrow>
          if token_missing lease then (Inl token_required_error, d)
          else writeTransaction fence env (release_in_tx env scope owner lease) d)"

definition ReadLease :: "env \<Rightarrow> string \<Rightarrow> db \<Rightarrow> gerr + lease option" where
  "ReadLease env scope d =
     (if \<not> leaseScopePattern (trim_space scope) then Inl (ErrNew ''ownership lease scope is invalid'')
      else readLease env (trim_space scope) d)"

section \<open>Runtime state\<close>

definition ReadRuntimeState :: "env \<Rightarrow> string \<Rightarrow> db \<Rightarrow> gerr + json option" where
  "ReadRuntimeState env name d =
     attempt env (SqlRead ''runtime_state'' name) (''read control-plane runtime state '' @ name @ '': '')
       (map_of (db_runtime_state d) name)"

definition WriteRuntimeState ::
  "fence \<Rightarrow> env \<Rightarrow> string \<Rightarrow> goany \<Rightarrow> db \<Rightarrow> (gerr + unit) \<times> db" where
  "WriteRuntimeState fence env name payload d =
     (case json_marshal payload of
        Inl e \<Rightarrow> (Inl (wrapf (''encode control-plane runtime state '' @ name @ '': '') e), d)
      | Inr raw \<Rightarrow> writeTransaction fence env (\<lambda>d.
          map_sum id (Pair ()) (attempt env (SqlWrite ''runtime_state'' name)
            (''write control-plane runtime state '' @ name @ '': '')
            (d\<lparr>db_runtime_state := mput name raw (db_runtime_state d)\<rparr>))) d)"

definition DeleteRuntimeState :: "fence \<Rightarrow> env \<Rightarrow> string \<Rightarrow> db \<Rightarrow> (gerr + unit) \<times> db" where
  "DeleteRuntimeState fence env name =
     writeTransaction fence env (\<lambda>d.
       map_sum id (Pair ()) (attempt env (SqlWrite ''runtime_state'' name)
         (''delete control-plane runtime state '' @ name @ '': '')
         (d\<lparr>db_runtime_state := AList.delete name (db_runtime_state d)\<rparr>)))"

text \<open>
  The stored document decoded into \<open>map[string]any\<close>; a JSON null makes the map nil (\<open>None\<close>), and
  assigning to a nil map panics. The deferred rollback still runs, so the panic is an error without
  effect.
\<close>

definition decode_payload :: "string \<Rightarrow> json option \<Rightarrow> gerr + goany gomap option" where
  "decode_payload name raw =
     (case raw of None \<Rightarrow> Inr (Some [])
      | Some (Some (AObject m)) \<Rightarrow> Inr (Some (map (\<lambda>(k, v). (k, json_any v)) m))
      | Some (Some ANil) \<Rightarrow> Inr None
      | _ \<Rightarrow> Inl (ErrNew (''decode control-plane runtime state '' @ name)))"

fun patch_fields :: "(string \<times> goany) list \<Rightarrow> goany gomap option \<Rightarrow> gerr + goany gomap option" where
  "patch_fields [] payload = Inr payload"
| "patch_fields ((k, v) # changes) payload =
     (if trim_space k = [] then Inl (ErrNew ''control-plane runtime state field is required'')
      else case payload of None \<Rightarrow> Inl (ErrNew ''panic: assignment to entry in nil map'')
           | Some m \<Rightarrow> patch_fields changes (Some (mput (trim_space k) v m)))"

definition patch_in_tx :: "env \<Rightarrow> string \<Rightarrow> (string \<times> goany) list \<Rightarrow> db \<Rightarrow> gerr + unit \<times> db" where
  "patch_in_tx env name changes d =
     (case attempt env (SqlRead ''runtime_state'' name)
             (''read control-plane runtime state '' @ name @ '' for patch: '')
             (map_of (db_runtime_state d) name) of
        Inl e \<Rightarrow> Inl e
      | Inr raw \<Rightarrow>
     (case decode_payload name raw of Inl e \<Rightarrow> Inl e
      | Inr payload \<Rightarrow>
     (case patch_fields changes payload of Inl e \<Rightarrow> Inl e
      | Inr payload \<Rightarrow>
     (case json_marshal (case payload of None \<Rightarrow> ANil | Some m \<Rightarrow> AObject m) of
        Inl e \<Rightarrow> Inl (wrapf (''encode control-plane runtime state '' @ name @ '': '') e)
      | Inr encoded \<Rightarrow>
          map_sum id (Pair ()) (attempt env (SqlWrite ''runtime_state'' name)
            (''patch control-plane runtime state '' @ name @ '': '')
            (d\<lparr>db_runtime_state := mput name encoded (db_runtime_state d)\<rparr>))))))"

definition PatchRuntimeState ::
  "fence \<Rightarrow> env \<Rightarrow> string \<Rightarrow> (string \<times> goany) list \<Rightarrow> db \<Rightarrow> (gerr + unit) \<times> db" where
  "PatchRuntimeState fence env rawName changes d =
     (let name = trim_space rawName
      in if name = [] then (Inl (ErrNew ''control-plane runtime state name is required''), d)
         else writeTransaction fence env (patch_in_tx env name changes) d)"

section \<open>Laws of transactions\<close>

lemma exclusive_Inr:
  "exclusive env operation d = (Inr v, d') \<Longrightarrow> operation d = (Inr v, d')"
  by (auto simp: exclusive_def split: sum.splits)

lemma exclusive_disj:
  "(\<exists>e. exclusive env operation d = (Inl e, d)) \<or> exclusive env operation d = operation d"
  by (auto simp: exclusive_def split: sum.split)

lemma exclusive_cases:
  obtains e where "exclusive env operation d = (Inl e, d)"
  | "exclusive env operation d = operation d"
  using exclusive_disj by blast

lemma exclusive_calm [simp]: "calm env \<Longrightarrow> exclusive env operation d = operation d"
  by (simp add: exclusive_def)

lemma writeTransaction_Inr:
  assumes "writeTransaction fence env operation d = (Inr v, d')"
  shows "validateWriteFence fence env d = None" "operation d = Inr (v, d')"
  using exclusive_Inr [OF assms [unfolded writeTransaction_def]]
  by (auto simp: run_transaction_def split: sum.splits option.splits)

lemma run_transaction_Inl: "run_transaction fence env operation d = (Inl e, d') \<Longrightarrow> d' = d"
  by (auto simp: run_transaction_def split: sum.splits option.splits)

lemma writeTransaction_Inl:
  assumes "writeTransaction fence env operation d = (Inl e, d')"
  shows "d' = d"
  using exclusive_cases [of env "run_transaction fence env operation" d] assms run_transaction_Inl
  by (metis Pair_inject writeTransaction_def)

lemma writeTransaction_unfenced:
  assumes "validateWriteFence fence env d \<noteq> None"
  shows "\<exists>e. writeTransaction fence env operation d = (Inl e, d)"
proof -
  obtain e where "validateWriteFence fence env d = Some e" using assms by auto
  then have "\<exists>e. run_transaction fence env operation d = (Inl e, d)"
    by (auto simp: run_transaction_def split: sum.split)
  then show ?thesis
    using exclusive_cases [of env "run_transaction fence env operation" d]
    by (metis writeTransaction_def)
qed

lemma writeTransaction_calm:
  assumes "calm env" "validateWriteFence fence env d = None"
  shows "writeTransaction fence env operation d =
    (case operation d of Inl e \<Rightarrow> (Inl e, d) | Inr (v, d') \<Rightarrow> (Inr v, d'))"
  using assms by (simp add: writeTransaction_def run_transaction_def split: sum.split)

text \<open>Whatever a write transaction does, it ends in the old state or in one the operation made.\<close>

lemma writeTransaction_outcome:
  obtains e where "writeTransaction fence env operation d = (Inl e, d)"
  | v d' where "writeTransaction fence env operation d = (Inr v, d')" "operation d = Inr (v, d')"
      "validateWriteFence fence env d = None"
  by (metis old.sum.exhaust surj_pair writeTransaction_Inl writeTransaction_Inr)

text \<open>A store without rows, and an environment without faults.\<close>

definition empty_db :: db where
  "empty_db = \<lparr>db_settings = [], db_accounts = [], db_user_routes = [], db_key_rows = [],
     db_internal_keys = [], db_runtime_state = [], db_teams = [], db_memberships = [], db_tags = [],
     db_user_tags = []\<rparr>"

definition env_at :: "int \<Rightarrow> string \<Rightarrow> env" where
  "env_at t raw = \<lparr>ev_fault = (\<lambda>_. None), ev_fenceNow = t * second, ev_now = t * second, ev_random = Inr raw\<rparr>"

lemma calm_env_at [simp]: "calm (env_at t raw)"
  by (simp add: calm_def env_at_def)

end
