(* ===== verification/Control_Settings.thy ===== *)
theory Control_Settings
  imports Control_Store
begin

text \<open>
  The settings table of \<open>internal/controlplane/store.go\<close>: reading all settings, replacing them and
  changing some of them. A value is stored as its JSON text and read back into \<open>any\<close>.
\<close>

fun decode_settings :: "(string \<times> json) list \<Rightarrow> goany gomap \<Rightarrow> gerr + goany gomap" where
  "decode_settings [] result = Inr result"
| "decode_settings ((key, raw) # rows) result =
     (case raw of
        None \<Rightarrow> Inl (wrapf (''decode control-plane setting '' @ key @ '': '') (ErrNew ''invalid JSON text''))
      | Some v \<Rightarrow>
          if \<not> json_finite (json_any v)
          then Inl (wrapf (''decode control-plane setting '' @ key @ '': '') (ErrNew ''json: cannot unmarshal number''))
          else decode_settings rows (mput key (json_any v) result))"

definition ReadSettings :: "env \<Rightarrow> db \<Rightarrow> gerr + goany gomap" where
  "ReadSettings env d =
     (case attempt env (SqlRead ''settings'' []) ''read control-plane settings: '' (sort_key fst (db_settings d)) of
        Inl e \<Rightarrow> Inl e
      | Inr rows \<Rightarrow> decode_settings rows [])"

text \<open>The first loop of a write: trimmed keys in the order of the map, and the encoded values.\<close>

fun encode_settings :: "(string \<times> goany) list \<Rightarrow> string list \<times> json gomap \<Rightarrow> gerr + string list \<times> json gomap" where
  "encode_settings [] acc = Inr acc"
| "encode_settings ((rawKey, value) # vals) (keys, encoded) =
     (let key = trim_space rawKey
      in if key = [] then Inl (ErrNew ''control-plane setting key is required'')
         else case json_marshal value of
             Inl e \<Rightarrow> Inl (wrapf (''encode control-plane setting '' @ key @ '': '') e)
           | Inr raw \<Rightarrow> encode_settings vals (keys @ [key], mput key raw encoded))"

text \<open>\<open>INSERT\<close> of a key that is present violates the primary key; the upsert replaces it.\<close>

fun insert_settings :: "env \<Rightarrow> string list \<Rightarrow> json gomap \<Rightarrow> db \<Rightarrow> gerr + db" where
  "insert_settings env [] encoded d = Inr d"
| "insert_settings env (key # keys) encoded d =
     (case ev_fault env (SqlWrite ''settings'' key) of
        Some e \<Rightarrow> Inl (wrapf (''write control-plane setting '' @ key @ '': '') e)
      | None \<Rightarrow>
          if map_of (db_settings d) key \<noteq> None
          then Inl (wrapf (''write control-plane setting '' @ key @ '': '') (ErrNew ''UNIQUE constraint failed: settings.key''))
          else insert_settings env keys encoded
                 (d\<lparr>db_settings := mput key (mget None encoded key) (db_settings d)\<rparr>))"

fun upsert_settings :: "env \<Rightarrow> string list \<Rightarrow> json gomap \<Rightarrow> db \<Rightarrow> gerr + db" where
  "upsert_settings env [] encoded d = Inr d"
| "upsert_settings env (key # keys) encoded d =
     (case attempt env (SqlWrite ''settings'' key) (''update control-plane setting '' @ key @ '': '') () of
        Inl e \<Rightarrow> Inl e
      | Inr _ \<Rightarrow> upsert_settings env keys encoded
                  (d\<lparr>db_settings := mput key (mget None encoded key) (db_settings d)\<rparr>))"

definition WriteSettings :: "fence \<Rightarrow> env \<Rightarrow> goany gomap \<Rightarrow> db \<Rightarrow> (gerr + unit) \<times> db" where
  "WriteSettings fence env vals d =
     (case encode_settings vals ([], []) of
        Inl e \<Rightarrow> (Inl e, d)
      | Inr (keys, encoded) \<Rightarrow>
          writeTransaction fence env (\<lambda>d.
            (case attempt env (SqlWrite ''settings'' []) ''clear control-plane settings: '' (d\<lparr>db_settings := []\<rparr>) of
               Inl e \<Rightarrow> Inl e
             | Inr d \<Rightarrow> map_sum id (Pair ()) (insert_settings env (sort keys) encoded d))) d)"

definition UpdateSettings :: "fence \<Rightarrow> env \<Rightarrow> goany gomap \<Rightarrow> db \<Rightarrow> (gerr + unit) \<times> db" where
  "UpdateSettings fence env changes d =
     (case encode_settings changes ([], []) of
        Inl e \<Rightarrow> (Inl e, d)
      | Inr (keys, encoded) \<Rightarrow>
          writeTransaction fence env (\<lambda>d. map_sum id (Pair ()) (upsert_settings env (sort keys) encoded d)) d)"

section \<open>What a change of settings does\<close>

lemma encode_settings_Inr:
  "encode_settings vals (keys, encoded) = Inr (keys', encoded') \<Longrightarrow>
    keys' = keys @ map (\<lambda>(k, v). trim_space k) vals \<and>
    encoded' = foldl (\<lambda>m (k, v). mput (trim_space k) (Some (json_norm v)) m) encoded vals \<and>
    list_all (\<lambda>(k, v). trim_space k \<noteq> [] \<and> json_finite v) vals"
proof (induction vals arbitrary: keys encoded)
  case (Cons kv vals)
  obtain k v where kv: "kv = (k, v)" by (cases kv) auto
  from Cons.prems have ok: "trim_space k \<noteq> []" "json_finite v"
    and rest: "encode_settings vals (keys @ [trim_space k], mput (trim_space k) (Some (json_norm v)) encoded) = Inr (keys', encoded')"
    by (auto simp: kv Let_def json_marshal_def split: if_splits)
  from Cons.IH[OF rest] ok show ?case by (simp add: kv)
qed simp

lemma upsert_settings_Inr:
  "upsert_settings env keys encoded d = Inr d' \<Longrightarrow>
    d' = d\<lparr>db_settings := db_settings d'\<rparr> \<and>
    map_of (db_settings d') k = (if k \<in> set keys then Some (mget None encoded k) else map_of (db_settings d) k)"
proof (induction env keys encoded d rule: upsert_settings.induct)
  case (2 env key keys encoded d)
  then have "upsert_settings env keys encoded (d\<lparr>db_settings := mput key (mget None encoded key) (db_settings d)\<rparr>) = Inr d'"
    and "attempt env (SqlWrite ''settings'' key) (''update control-plane setting '' @ key @ '': '') () = Inr ()"
    by (auto split: sum.splits)
  from 2(1) [OF this(2,1)] show ?case by auto
qed simp

lemma insert_settings_Inr:
  "insert_settings env keys encoded d = Inr d' \<Longrightarrow>
    d' = d\<lparr>db_settings := db_settings d'\<rparr> \<and>
    map_of (db_settings d') k = (if k \<in> set keys then Some (mget None encoded k) else map_of (db_settings d) k)"
proof (induction env keys encoded d rule: insert_settings.induct)
  case (2 env key keys encoded d)
  then have "insert_settings env keys encoded (d\<lparr>db_settings := mput key (mget None encoded key) (db_settings d)\<rparr>) = Inr d'"
    and "ev_fault env (SqlWrite ''settings'' key) = None" and "\<not> map_of (db_settings d) key \<noteq> None"
    by (auto split: option.splits if_splits)
  from 2(1) [OF this(2,3,1)] show ?case by auto
qed simp

text \<open>The settings given as a map with normal keys.\<close>

definition setting_keys_ok :: "goany gomap \<Rightarrow> bool" where
  "setting_keys_ok m \<longleftrightarrow> wf_map m \<and> list_all (\<lambda>(k, v). trim_space k = k) m"

lemma encoded_lookup:
  assumes "setting_keys_ok m"
  shows "map_of (foldl (\<lambda>m (k, v). mput (trim_space k) (Some (json_norm v)) m) [] m) k =
    map_option (\<lambda>v. Some (json_norm v)) (map_of m k)"
proof -
  have "map fst m = map (\<lambda>(k, v). trim_space k) m" using assms by (auto simp: setting_keys_ok_def list_all_iff)
  then have "foldl (\<lambda>m (k, v). mput (trim_space k) (Some (json_norm v)) m) [] m =
      foldl (\<lambda>m r. mput (fst r) (Some (json_norm (snd r))) m) [] m"
    using assms by (intro foldl_cong) (auto simp: setting_keys_ok_def list_all_iff)
  moreover have "map_of (map (\<lambda>r. (fst r, Some (json_norm (snd r)))) m) k = map_option (\<lambda>v. Some (json_norm v)) (map_of m k)"
    by (induction m) auto
  ultimately show ?thesis
    using assms map_of_foldl_mput [of fst m "\<lambda>r. Some (json_norm (snd r))" "[]" k]
    by (simp add: setting_keys_ok_def split: option.split)
qed

lemma decode_settings_Inr:
  "decode_settings rows result = Inr m \<Longrightarrow> wf_map rows \<Longrightarrow>
    map_of m k = (case map_of rows k of Some raw \<Rightarrow> Some (json_any (the raw)) | None \<Rightarrow> map_of result k)"
proof (induction rows result rule: decode_settings.induct)
  case (2 key raw rows result)
  then obtain v where v: "raw = Some v" "json_finite (json_any v)" "decode_settings rows (mput key (json_any v) result) = Inr m"
    by (auto split: option.splits if_splits)
  have fresh: "map_of rows key = None" using 2(3) by (simp add: map_of_eq_None_iff)
  have "\<not> \<not> json_finite (json_any v)" using v(2) by simp
  from 2(1) [OF v(1) this v(3)] 2(3) fresh v(1) show ?case by (auto split: option.split)
qed simp

lemma ReadSettings_Inr: "ReadSettings env d = Inr m \<Longrightarrow> wf_map (db_settings d) \<Longrightarrow>
    map_of m k = map_option (\<lambda>raw. json_any (the raw)) (map_of (db_settings d) k)"
proof -
  assume read: "ReadSettings env d = Inr m" and wf: "wf_map (db_settings d)"
  have rows: "wf_map (sort_key fst (db_settings d))"
    using wf mset_eq_imp_distinct_iff [of "map fst (sort_key fst (db_settings d))" "map fst (db_settings d)"] by simp
  moreover have "map_of (sort_key fst (db_settings d)) = map_of (db_settings d)"
    using rows wf by (subst map_of_inject_set) auto
  moreover have "decode_settings (sort_key fst (db_settings d)) [] = Inr m"
    using read by (auto simp: ReadSettings_def attempt_def split: option.splits)
  ultimately show ?thesis using decode_settings_Inr by (auto split: option.split)
qed

lemma upsert_settings_wf: "upsert_settings env keys encoded d = Inr d' \<Longrightarrow> wf_map (db_settings d) \<Longrightarrow> wf_map (db_settings d')"
  by (induction env keys encoded d rule: upsert_settings.induct) (auto split: sum.splits)

text \<open>
  A change of settings is atomic and local. \<open>UpdateSettings\<close> with normal keys that reports an error
  changed nothing. If it succeeds, no other table changed, and the settings read afterwards are those
  read before with exactly the given keys replaced, by the JSON form of the given values.
\<close>

theorem settings_update_is_local:
  assumes "setting_keys_ok changes" and "wf_map (db_settings d)" and "UpdateSettings fence env changes d = (r, d')"
  shows "(case r of Inl e \<Rightarrow> d' = d
    | Inr u \<Rightarrow> d' = d\<lparr>db_settings := db_settings d'\<rparr> \<and>
        (\<forall>env1 env2 m m' k. ReadSettings env1 d = Inr m \<longrightarrow> ReadSettings env2 d' = Inr m' \<longrightarrow>
          map_of m' k = (case map_of changes k of None \<Rightarrow> map_of m k | Some v \<Rightarrow> Some (json_any (json_norm v)))))"
proof (cases r)
  case (Inl e)
  then show ?thesis using assms(3) writeTransaction_Inl by (auto simp: UpdateSettings_def split: sum.splits prod.splits)
next
  case (Inr u)
  then obtain keys encoded where enc: "encode_settings changes ([], []) = Inr (keys, encoded)"
    and tx: "writeTransaction fence env (\<lambda>d. map_sum id (Pair ()) (upsert_settings env (sort keys) encoded d)) d = (Inr u, d')"
    using assms(3) by (auto simp: UpdateSettings_def split: sum.splits prod.splits)
  have up: "upsert_settings env (sort keys) encoded d = Inr d'" using writeTransaction_Inr(2) [OF tx] by simp
  note shape = encode_settings_Inr [OF enc]
  have keys: "set keys = fst ` set changes"
    using shape assms(1) by (force simp: setting_keys_ok_def list_all_iff)
  have look: "mget None encoded k = Some (json_norm v)" if "map_of changes k = Some v" for k v
    using shape encoded_lookup [OF assms(1), of k] that by (simp add: mget_def)
  have new: "map_of (db_settings d') k =
      (case map_of changes k of Some v \<Rightarrow> Some (Some (json_norm v)) | None \<Rightarrow> map_of (db_settings d) k)" for k
  proof (cases "map_of changes k")
    case None
    then have "k \<notin> set keys" using keys by (simp add: map_of_eq_None_iff)
    with None show ?thesis using upsert_settings_Inr [OF up, of k] by simp
  next
    case (Some v)
    then have "k \<in> set keys" using keys by (metis map_of_eq_None_iff option.distinct(1))
    with Some look show ?thesis using upsert_settings_Inr [OF up, of k] by simp
  qed
  have "map_of m' k = (case map_of changes k of None \<Rightarrow> map_of m k | Some v \<Rightarrow> Some (json_any (json_norm v)))"
    if "ReadSettings env1 d = Inr m" "ReadSettings env2 d' = Inr m'" for env1 env2 m m' k
    using ReadSettings_Inr [OF that(1) assms(2), of k] ReadSettings_Inr [OF that(2) upsert_settings_wf [OF up assms(2)], of k] new [of k]
    by (auto split: option.split)
  then show ?thesis using Inr upsert_settings_Inr [OF up, of "[]"] by auto
qed

definition ex_settings_db :: db where
  "ex_settings_db = empty_db\<lparr>db_settings := [(''a'', Some (AInt64 1)), (''b'', Some (ABool True))]\<rparr>"

theorem settings_update_is_local_witness:
  "\<exists>d' m m'. UpdateSettings [] (env_at 1 []) [(''b'', AString ''x''), (''c'', ABool False)] ex_settings_db = (Inr (), d') \<and>
    ReadSettings (env_at 1 []) ex_settings_db = Inr m \<and> ReadSettings (env_at 2 []) d' = Inr m' \<and>
    map_of m' ''a'' = map_of m ''a'' \<and> map_of m' ''b'' = Some (AString ''x'') \<and> map_of m' ''c'' = Some (ABool False)"
proof -
  let ?changes = "[(''b'', AString ''x''), (''c'', ABool False)]"
  let ?d = "ex_settings_db\<lparr>db_settings := [(''a'', Some (AInt64 1)), (''b'', Some (AString ''x'')), (''c'', Some (ABool False))]\<rparr>"
  let ?m = "[(''a'', AFloat (Fin 1)), (''b'', ABool True)]"
  let ?m' = "[(''a'', AFloat (Fin 1)), (''b'', AString ''x''), (''c'', ABool False)]"
  have keys: "setting_keys_ok ?changes" "wf_map (db_settings ex_settings_db)" by code_simp+
  have update: "UpdateSettings [] (env_at 1 []) ?changes ex_settings_db = (Inr (), ?d)" by code_simp
  have read: "ReadSettings (env_at 1 []) ex_settings_db = Inr ?m"
    by (simp add: ReadSettings_def ex_settings_db_def float_eval)
  have read': "ReadSettings (env_at 2 []) ?d = Inr ?m'"
    by (simp add: ReadSettings_def ex_settings_db_def float_eval)
  have "\<forall>env1 env2 m m' k. ReadSettings env1 ex_settings_db = Inr m \<longrightarrow> ReadSettings env2 ?d = Inr m' \<longrightarrow>
      map_of m' k = (case map_of ?changes k of None \<Rightarrow> map_of m k | Some v \<Rightarrow> Some (json_any (json_norm v)))"
    using settings_update_is_local [OF keys update] by simp
  then have "map_of ?m' k = (case map_of ?changes k of None \<Rightarrow> map_of ?m k | Some v \<Rightarrow> Some (json_any (json_norm v)))" for k
    using read read' by blast
  from this [of "''a''"] show ?thesis
    by (intro exI [of _ ?d] exI [of _ ?m] exI [of _ ?m']) (use update read read' in simp)
qed

end
