(* ===== verification/Failover_Planner.thy ===== *)
theory Failover_Planner
  imports Go_Json
begin

text \<open>
  \<^verbatim>\<open>internal/failover/planner.go\<close>: the planner of account failover. \<open>PlanEvacuation\<close> moves the
  users of exhausted (or one given) source accounts, \<open>PlanGlobalRebalance\<close> spreads all active users
  over the eligible accounts in proportion to their head-room. Both are pure functions of maps read
  from the control plane. The lemmas show what a plan may contain, that its counters add up, that a
  rebalance reaches its target counts exactly, and that Go's map iteration order does not matter.
\<close>

section \<open>Types\<close>

type_synonym mode = string

abbreviation ModeOff :: mode where "ModeOff \<equiv> ''off''"
abbreviation ModeActive :: mode where "ModeActive \<equiv> ''active''"

definition ErrInvalidMode :: gerr where
  "ErrInvalidMode = Sentinel ''invalid account failover mode''"

text \<open>\<open>%q\<close>: the Go-quoted string (exact on ASCII text).\<close>

definition go_quote_char :: "char \<Rightarrow> string" where
  "go_quote_char c =
     (let n = (of_char c :: nat); hex = (\<lambda>k. if k < 10 then char_of (48 + k) else char_of (87 + k))
      in if c = CHR 0x22 \<or> c = CHR 0x5C then [CHR 0x5C, c]
         else if c = CHR 0x0A then [CHR 0x5C, CHR ''n'']
         else if c = CHR 0x0D then [CHR 0x5C, CHR ''r'']
         else if c = CHR 0x09 then [CHR 0x5C, CHR ''t'']
         else if c = CHR 0x07 then [CHR 0x5C, CHR ''a'']
         else if c = CHR 0x08 then [CHR 0x5C, CHR ''b'']
         else if c = CHR 0x0C then [CHR 0x5C, CHR ''f'']
         else if c = CHR 0x0B then [CHR 0x5C, CHR ''v'']
         else if n < 32 \<or> n = 127 then [CHR 0x5C, CHR ''x'', hex (n div 16), hex (n mod 16)]
         else [c])"

definition go_quote :: "string \<Rightarrow> string" where
  "go_quote s = [CHR 0x22] @ concat (map go_quote_char s) @ [CHR 0x22]"

definition ParseMode :: "string \<Rightarrow> gerr + mode" where
  "ParseMode value =
     (let m = to_lower (trim_space value)
      in if m = ModeOff \<or> m = ModeActive then Inr m
         else Inl (ErrWrap [] ErrInvalidMode
                (''; '' @ go_quote value @ ''; supported modes are off and active'')))"

record account_state =
  as_Account :: string
  as_Eligible :: bool
  as_Exhausted :: bool
  as_Reason :: string
  as_UsedPercent :: "f64 option"
  as_RemainingPercent :: "f64 option"
  as_Headroom :: f64
  as_ResetAt :: int
  as_ObservedAt :: int

definition zero_account_state :: account_state where
  "zero_account_state = \<lparr>as_Account = [], as_Eligible = False, as_Exhausted = False, as_Reason = [],
     as_UsedPercent = None, as_RemainingPercent = None, as_Headroom = Fin 0, as_ResetAt = 0,
     as_ObservedAt = 0\<rparr>"

record plan =
  pl_Assignments :: "string gomap"
  pl_ExpectedRoutes :: "string gomap"
  pl_Sources :: "int gomap"
  pl_Destinations :: "int gomap"
  pl_CandidateAccounts :: "string list"
  pl_AffectedUsers :: int
  pl_PlannedUsers :: int
  pl_SkippedUsers :: int
  pl_UnassignedUsers :: int
  pl_TargetCounts :: "int gomap"

text \<open>\<open>routeEntry\<close>, ordered by user and then account as \<open>sortRouteEntries\<close> compares.\<close>

datatype route_entry = RouteEntry (re_User: string) (re_Account: string)

instantiation route_entry :: linorder
begin

definition less_eq_route_entry :: "route_entry \<Rightarrow> route_entry \<Rightarrow> bool" where
  "less_eq_route_entry a b \<longleftrightarrow>
     (if re_User a \<noteq> re_User b then re_User a < re_User b else re_Account a \<le> re_Account b)"

definition less_route_entry :: "route_entry \<Rightarrow> route_entry \<Rightarrow> bool" where
  "less_route_entry a b \<longleftrightarrow>
     (if re_User a \<noteq> re_User b then re_User a < re_User b else re_Account a < re_Account b)"

instance
  by standard
    (auto simp: less_eq_route_entry_def less_route_entry_def route_entry.expand split: if_splits)

end

definition sortRouteEntries :: "route_entry list \<Rightarrow> route_entry list" where
  "sortRouteEntries entries =
     sort_slice (\<lambda>l r. if re_User l \<noteq> re_User r then re_User l < re_User r
                       else re_Account l < re_Account r) entries"

section \<open>Selection\<close>

definition newPlan :: "string list \<Rightarrow> int \<Rightarrow> plan" where
  "newPlan candidates affected = \<lparr>pl_Assignments = [], pl_ExpectedRoutes = [], pl_Sources = [],
     pl_Destinations = [], pl_CandidateAccounts = candidates, pl_AffectedUsers = affected,
     pl_PlannedUsers = 0, pl_SkippedUsers = 0, pl_UnassignedUsers = 0, pl_TargetCounts = []\<rparr>"

definition state_of :: "account_state gomap \<Rightarrow> string \<Rightarrow> account_state" where
  "state_of states a = mget zero_account_state states a"

definition eligibleCandidates :: "account_state gomap \<Rightarrow> strset \<Rightarrow> string list" where
  "eligibleCandidates states excluded =
     sort (map fst (filter (\<lambda>(account, state).
       as_Eligible state \<and> f_lt (Fin 0) (as_Headroom state) \<and> account \<notin> set excluded) states))"

definition used_or_101 :: "account_state \<Rightarrow> f64" where
  "used_or_101 s = (case as_UsedPercent s of Some u \<Rightarrow> u | None \<Rightarrow> Fin 101)"

definition score :: "int gomap \<Rightarrow> account_state gomap \<Rightarrow> string \<Rightarrow> f64" where
  "score counts states a = f_div (f_of_int (mget 0 counts a + 1)) (as_Headroom (state_of states a))"

definition weightedLess ::
  "string \<Rightarrow> string \<Rightarrow> int gomap \<Rightarrow> account_state gomap \<Rightarrow> bool" where
  "weightedLess left right counts states =
     (let leftScore = score counts states left; rightScore = score counts states right
      in if \<not> f_eq leftScore rightScore then f_lt leftScore rightScore
         else let leftUsed = used_or_101 (state_of states left);
                  rightUsed = used_or_101 (state_of states right)
              in if \<not> f_eq leftUsed rightUsed then f_lt leftUsed rightUsed else left < right)"

definition leastWeightedAccount ::
  "string list \<Rightarrow> int gomap \<Rightarrow> account_state gomap \<Rightarrow> string option" where
  "leastWeightedAccount candidates counts states =
     (case candidates of [] \<Rightarrow> None
      | c # cs \<Rightarrow> Some (scan_best (\<lambda>a b. weightedLess a b counts states) c cs))"

text \<open>One iteration of \<open>for range total\<close>; the zero value \<open>""\<close> is used when nothing is found.\<close>

definition target_step :: "string list \<Rightarrow> account_state gomap \<Rightarrow> int gomap \<Rightarrow> int gomap" where
  "target_step candidates states counts =
     (case leastWeightedAccount candidates counts states of
        None \<Rightarrow> mincr [] counts | Some t \<Rightarrow> mincr t counts)"

definition zero_counts :: "string list \<Rightarrow> int gomap" where
  "zero_counts candidates = foldl (\<lambda>m a. mput a 0 m) [] candidates"

definition weightedTargetCounts ::
  "nat \<Rightarrow> string list \<Rightarrow> account_state gomap \<Rightarrow> int gomap" where
  "weightedTargetCounts n candidates states =
     (target_step candidates states ^^ n) (zero_counts candidates)"

fun firstDeficit :: "string list \<Rightarrow> int gomap \<Rightarrow> string" where
  "firstDeficit [] deficits = []"
| "firstDeficit (a # as) deficits = (if 0 < mget 0 deficits a then a else firstDeficit as deficits)"

definition pct_ok :: "f64 option \<Rightarrow> bool" where
  "pct_ok p = (case p of None \<Rightarrow> False
     | Some v \<Rightarrow> finite64 v \<and> \<not> f_lt v (Fin 0) \<and> \<not> f_lt (Fin 100) v)"

definition least_used_usable :: "account_state gomap \<Rightarrow> string \<Rightarrow> bool" where
  "least_used_usable states account =
     (case map_of states account of None \<Rightarrow> False
      | Some s \<Rightarrow> trim_space (as_Account s) = account \<and> as_Eligible s \<and> \<not> as_Exhausted s \<and>
          as_Reason s = ''available'' \<and> \<not> f_le (as_Headroom s) (Fin 0) \<and>
          pct_ok (as_UsedPercent s) \<and> pct_ok (as_RemainingPercent s))"

fun collect_usable ::
  "account_state gomap \<Rightarrow> strset \<Rightarrow> string list \<Rightarrow> string list" where
  "collect_usable states seen [] = []"
| "collect_usable states seen (raw # cs) =
     (let account = trim_space raw
      in if account = [] \<or> account \<in> set seen then collect_usable states seen cs
         else if least_used_usable states account
              then account # collect_usable states (set_add account seen) cs
              else collect_usable states (set_add account seen) cs)"

definition used_of :: "account_state gomap \<Rightarrow> string \<Rightarrow> f64" where
  "used_of states a = (case as_UsedPercent (state_of states a) of Some u \<Rightarrow> u | None \<Rightarrow> NaN)"

definition used_less :: "account_state gomap \<Rightarrow> string \<Rightarrow> string \<Rightarrow> bool" where
  "used_less states l r =
     (if \<not> f_eq (used_of states l) (used_of states r) then f_lt (used_of states l) (used_of states r)
      else l < r)"

definition LeastUsedEligibleAccount ::
  "string list \<Rightarrow> account_state gomap \<Rightarrow> string option" where
  "LeastUsedEligibleAccount candidates states =
     (case sort_slice (used_less states) (collect_usable states [] candidates) of
        [] \<Rightarrow> None | a # _ \<Rightarrow> Some a)"

section \<open>The two planners\<close>

definition exhausted_accounts :: "account_state gomap \<Rightarrow> strset" where
  "exhausted_accounts states = map fst (filter (\<lambda>(a, s). as_Exhausted s) states)"

definition affected_entries ::
  "string gomap \<Rightarrow> strset \<Rightarrow> strset \<Rightarrow> route_entry list" where
  "affected_entries routes activeUsers sources =
     map (\<lambda>(u, a). RouteEntry u a)
       (filter (\<lambda>(u, a). u \<in> set activeUsers \<and> a \<in> set sources) routes)"

definition count_route :: "strset \<Rightarrow> int gomap \<Rightarrow> string \<times> string \<Rightarrow> int gomap" where
  "count_route activeUsers counts ua =
     (if fst ua \<in> set activeUsers \<and> map_of counts (snd ua) \<noteq> None
      then mincr (snd ua) counts else counts)"

definition evacuate_entry ::
  "strset \<Rightarrow> string list \<Rightarrow> account_state gomap \<Rightarrow> plan \<times> int gomap \<Rightarrow> route_entry \<Rightarrow> plan \<times> int gomap" where
  "evacuate_entry routable candidates states pc entry =
     (let (p, counts) = pc; p = p\<lparr>pl_Sources := mincr (re_Account entry) (pl_Sources p)\<rparr>
      in if re_User entry \<notin> set routable
         then (p\<lparr>pl_SkippedUsers := pl_SkippedUsers p + 1\<rparr>, counts)
         else (case leastWeightedAccount candidates counts states of
             None \<Rightarrow> (p, counts)
           | Some target \<Rightarrow>
               (p\<lparr>pl_Assignments := mput (re_User entry) target (pl_Assignments p),
                  pl_ExpectedRoutes := mput (re_User entry) (re_Account entry) (pl_ExpectedRoutes p),
                  pl_Destinations := mincr target (pl_Destinations p)\<rparr>,
                mincr target counts)))"

definition finish_evacuation :: "plan \<Rightarrow> plan" where
  "finish_evacuation p =
     (let planned = int (length (pl_Assignments p))
      in p\<lparr>pl_PlannedUsers := planned, pl_UnassignedUsers := pl_AffectedUsers p - planned\<rparr>)"

definition PlanEvacuation ::
  "string gomap \<Rightarrow> strset \<Rightarrow> strset \<Rightarrow> account_state gomap \<Rightarrow> strset option \<Rightarrow> plan" where
  "PlanEvacuation routes activeUsers routableUsers states sourceAccounts =
     (let sources = (case sourceAccounts of None \<Rightarrow> exhausted_accounts states | Some s \<Rightarrow> s);
          candidates = eligibleCandidates states sources;
          affected = sortRouteEntries (affected_entries routes activeUsers sources);
          counts = foldl (count_route activeUsers) (zero_counts candidates) routes
      in finish_evacuation (fst (foldl (evacuate_entry routableUsers candidates states)
           (newPlan candidates (int (length affected)), counts) affected)))"

definition route_or_empty :: "string gomap \<Rightarrow> string \<Rightarrow> string" where
  "route_or_empty routes u = mget [] routes u"

definition current_users :: "string gomap \<Rightarrow> string list \<Rightarrow> string \<Rightarrow> string list" where
  "current_users routes users account = sort (filter (\<lambda>u. route_or_empty routes u = account) users)"

definition keep_count :: "string gomap \<Rightarrow> string list \<Rightarrow> int gomap \<Rightarrow> string \<Rightarrow> int" where
  "keep_count routes users targets account =
     min (int (length (current_users routes users account))) (mget 0 targets account)"

definition retained_users ::
  "string gomap \<Rightarrow> string list \<Rightarrow> int gomap \<Rightarrow> string list \<Rightarrow> strset" where
  "retained_users routes users targets candidates =
     concat (map (\<lambda>a. take (nat (keep_count routes users targets a)) (current_users routes users a))
       candidates)"

definition initial_deficits ::
  "string gomap \<Rightarrow> string list \<Rightarrow> int gomap \<Rightarrow> string list \<Rightarrow> int gomap" where
  "initial_deficits routes users targets candidates =
     foldl (\<lambda>m a. mput a (mget 0 targets a - keep_count routes users targets a) m) [] candidates"

definition move_entry :: "route_entry \<Rightarrow> string \<Rightarrow> plan \<Rightarrow> plan" where
  "move_entry entry target p =
     p\<lparr>pl_Assignments := mput (re_User entry) target (pl_Assignments p),
       pl_ExpectedRoutes := mput (re_User entry) (re_Account entry) (pl_ExpectedRoutes p),
       pl_Sources := mincr (re_Account entry) (pl_Sources p),
       pl_Destinations := mincr target (pl_Destinations p)\<rparr>"

fun place_remaining :: "string list \<Rightarrow> route_entry list \<Rightarrow> int gomap \<Rightarrow> plan \<Rightarrow> plan" where
  "place_remaining candidates [] deficits p = p"
| "place_remaining candidates (entry # rest) deficits p =
     (let target = firstDeficit candidates deficits
      in if target = [] then p
         else place_remaining candidates rest (mput target (mget 0 deficits target - 1) deficits)
                (if re_Account entry = target then p else move_entry entry target p))"

definition PlanGlobalRebalance ::
  "string gomap \<Rightarrow> strset \<Rightarrow> strset \<Rightarrow> account_state gomap \<Rightarrow> plan" where
  "PlanGlobalRebalance routes activeUsers routableUsers states =
     (let candidates = eligibleCandidates states [];
          users = sort activeUsers;
          p = newPlan candidates (int (length users))
      in if candidates = [] then p\<lparr>pl_UnassignedUsers := int (length users)\<rparr>
         else let routable = filter (\<lambda>u. u \<in> set routableUsers) users;
                  skipped = int (length users) - int (length routable);
                  p = p\<lparr>pl_SkippedUsers := skipped\<rparr>
              in if 0 < skipped then p\<lparr>pl_UnassignedUsers := pl_AffectedUsers p\<rparr>
                 else let targets = weightedTargetCounts (length routable) candidates states;
                          retained = retained_users routes routable targets candidates;
                          remaining = sortRouteEntries
                            (map (\<lambda>u. RouteEntry u (route_or_empty routes u))
                              (filter (\<lambda>u. u \<notin> set retained) routable));
                          deficits = initial_deficits routes routable targets candidates;
                          p = place_remaining candidates remaining deficits
                                (p\<lparr>pl_TargetCounts := targets\<rparr>)
                      in p\<lparr>pl_PlannedUsers := int (length (pl_Assignments p)),
                           pl_UnassignedUsers := 0\<rparr>)"

section \<open>Order of the selection\<close>

text \<open>
  Both comparison functions order accounts by float keys and then by name. They are strict total
  orders wherever the keys are numbers.
\<close>

lemma key_less_total:
  fixes k1 k2 :: "string \<Rightarrow> f64"
  defines "lt \<equiv> \<lambda>a b. if \<not> f_eq (k1 a) (k1 b) then f_lt (k1 a) (k1 b)
                    else if \<not> f_eq (k2 a) (k2 b) then f_lt (k2 a) (k2 b) else a < b"
  shows "go_less lt (\<lambda>a. k1 a \<noteq> NaN \<and> k2 a \<noteq> NaN)"
proof
  fix x y z
  assume ok: "k1 x \<noteq> NaN \<and> k2 x \<noteq> NaN" "k1 y \<noteq> NaN \<and> k2 y \<noteq> NaN" "k1 z \<noteq> NaN \<and> k2 z \<noteq> NaN"
  show "\<not> lt x x" using ok(1) by (simp add: lt_def f_eq_def)
  show "lt x z" if "lt x y" "lt y z"
    using that ok by (auto simp: lt_def f_eq_def split: if_splits dest: f_lt_trans)
  show "lt x y \<or> lt y x" if "x \<noteq> y"
    using that ok f_lt_total [of "k1 x" "k1 y"] f_lt_total [of "k2 x" "k2 y"]
    by (auto simp: lt_def f_eq_def)
qed

definition score_ok :: "int gomap \<Rightarrow> account_state gomap \<Rightarrow> string \<Rightarrow> bool" where
  "score_ok counts states a \<longleftrightarrow>
     score counts states a \<noteq> NaN \<and> used_or_101 (state_of states a) \<noteq> NaN"

interpretation weighted: go_less "\<lambda>a b. weightedLess a b counts states" "score_ok counts states"
  for counts states
proof -
  have "(\<lambda>a b. weightedLess a b counts states) =
    (\<lambda>a b. if \<not> f_eq (score counts states a) (score counts states b)
       then f_lt (score counts states a) (score counts states b)
       else if \<not> f_eq (used_or_101 (state_of states a)) (used_or_101 (state_of states b))
            then f_lt (used_or_101 (state_of states a)) (used_or_101 (state_of states b))
            else a < b)"
    by (intro ext) (simp only: weightedLess_def Let_def)
  moreover have "score_ok counts states = (\<lambda>a. score counts states a \<noteq> NaN \<and>
      used_or_101 (state_of states a) \<noteq> NaN)"
    by (intro ext) (simp only: score_ok_def)
  ultimately show "go_less (\<lambda>a b. weightedLess a b counts states) (score_ok counts states)"
    by (simp only: key_less_total)
qed

interpretation used: go_less "used_less states" "\<lambda>a. used_of states a \<noteq> NaN" for states
proof -
  have "used_less states = (\<lambda>a b. if \<not> f_eq (used_of states a) (used_of states b)
      then f_lt (used_of states a) (used_of states b)
      else if \<not> f_eq (Fin 0) (Fin 0) then f_lt (Fin 0) (Fin 0) else a < b)"
    by (intro ext) (simp add: used_less_def f_eq_def)
  with key_less_total [of "used_of states" "\<lambda>a. Fin 0"]
  show "go_less (used_less states) (\<lambda>a. used_of states a \<noteq> NaN)" by simp
qed

interpretation entries: go_less "\<lambda>l r. if re_User l \<noteq> re_User r then re_User l < re_User r
    else re_Account l < re_Account r" "\<lambda>_. True"
proof
  show "(if re_User x \<noteq> re_User y then re_User x < re_User y else re_Account x < re_Account y) \<or>
      (if re_User y \<noteq> re_User x then re_User y < re_User x else re_Account y < re_Account x)"
    if "x \<noteq> y" for x y
    using that by (cases x; cases y) (auto simp: neq_iff)
qed (auto split: if_splits)

lemma headroom_score_ok:
  "f_lt (Fin 0) (as_Headroom (state_of states a)) \<Longrightarrow> used_or_101 (state_of states a) \<noteq> NaN \<Longrightarrow>
     score_ok counts states a"
  by (simp add: score_ok_def score_def)

section \<open>Candidates and target counts\<close>

definition candidate :: "account_state gomap \<Rightarrow> strset \<Rightarrow> string \<Rightarrow> bool" where
  "candidate states excluded a \<longleftrightarrow> (\<exists>s. (a, s) \<in> set states \<and> as_Eligible s \<and>
     f_lt (Fin 0) (as_Headroom s) \<and> a \<notin> set excluded)"

lemma set_eligibleCandidates [simp]:
  "a \<in> set (eligibleCandidates states excluded) \<longleftrightarrow> candidate states excluded a"
  by (force simp: eligibleCandidates_def candidate_def)

lemma distinct_eligibleCandidates [simp]:
  "wf_map states \<Longrightarrow> distinct (eligibleCandidates states excluded)"
  unfolding eligibleCandidates_def distinct_sort by (rule distinct_map_filter)

lemma eligibleCandidates_order:
  "same_map states states' \<Longrightarrow> set excluded = set excluded' \<Longrightarrow>
     eligibleCandidates states excluded = eligibleCandidates states' excluded'"
  unfolding eligibleCandidates_def
  by (rule sort_eqI) (simp add: same_map_mset mset_map mset_filter)

lemma leastWeightedAccount_mem:
  "leastWeightedAccount candidates counts states = Some t \<Longrightarrow> t \<in> set candidates"
  using scan_best_mem by (fastforce simp: leastWeightedAccount_def split: list.splits)

lemma leastWeightedAccount_None [simp]:
  "leastWeightedAccount candidates counts states = None \<longleftrightarrow> candidates = []"
  by (simp add: leastWeightedAccount_def split: list.splits)

lemma leastWeightedAccount_least:
  assumes "leastWeightedAccount candidates counts states = Some t"
    and "\<forall>a \<in> set candidates. score_ok counts states a" and "a \<in> set candidates"
  shows "\<not> weightedLess a t counts states"
  using assms weighted.scan_best_least
  by (auto simp: leastWeightedAccount_def split: list.splits)

definition msum :: "int gomap \<Rightarrow> int" where
  "msum m = sum_list (map snd m)"

lemma msum_mput: "wf_map m \<Longrightarrow> msum (mput k v m) = msum m - mget 0 m k + v"
  by (induction m) (auto simp: msum_def mget_def split: option.splits dest: map_of_SomeD
      simp: weak_map_of_SomeI rev_image_eqI)

lemma msum_mincr [simp]: "wf_map m \<Longrightarrow> msum (mincr k m) = msum m + 1"
  by (simp add: msum_mput)

lemma mincr_existing:
  "wf_map m \<Longrightarrow> k \<in> fst ` set m \<Longrightarrow>
     mincr k m = map (\<lambda>(k', v). (k', if k' = k then v + 1 else v)) m"
proof (induction m)
  case (Cons a m)
  obtain k' v where a: "a = (k', v)" by fastforce
  show ?case
  proof (cases "k' = k")
    case True
    then have "k \<notin> fst ` set m" using Cons.prems a by simp
    then have "map (\<lambda>(k', v). (k', if k' = k then v + 1 else v)) m = m"
      by (intro map_idI) (force simp: image_iff)
    with True a show ?thesis by (simp add: mget_def)
  next
    case False
    then have "mget 0 (a # m) k = mget 0 m k" using a by (simp add: mget_def)
    with False a Cons show ?thesis by simp
  qed
qed simp

lemma zero_counts_eq: "distinct cs \<Longrightarrow> zero_counts cs = map (\<lambda>a. (a, 0)) cs"
proof -
  have "distinct (map fst m @ cs) \<Longrightarrow>
      foldl (\<lambda>m a. mput a 0 m) m cs = m @ map (\<lambda>a. (a, 0)) cs" for m :: "int gomap"
    by (induction cs arbitrary: m) (auto simp: mput_new map_of_eq_None_iff)
  from this [of "[]"] show "distinct cs \<Longrightarrow> ?thesis" by (simp add: zero_counts_def)
qed

lemma keys_mincr_existing: "wf_map m \<Longrightarrow> k \<in> fst ` set m \<Longrightarrow> map fst (mincr k m) = map fst m"
  by (simp add: mincr_existing case_prod_unfold)

definition count_map :: "string list \<Rightarrow> int gomap \<Rightarrow> bool" where
  "count_map cs m \<longleftrightarrow> map fst m = cs \<and> distinct cs \<and> (\<forall>v \<in> snd ` set m. 0 \<le> v)"

lemma count_map_mincr: "count_map cs m \<Longrightarrow> k \<in> set cs \<Longrightarrow> count_map cs (mincr k m)"
  by (fastforce simp: count_map_def mincr_existing case_prod_unfold)

lemma count_map_target_step:
  "count_map cs m \<Longrightarrow> cs \<noteq> [] \<Longrightarrow> count_map cs (target_step cs states m) \<and>
     msum (target_step cs states m) = msum m + 1"
  using leastWeightedAccount_mem [of cs m states]
  by (auto simp: target_step_def count_map_mincr split: option.splits)
    (auto simp: count_map_def)

lemma weightedTargetCounts_sum:
  assumes "distinct cs" "cs \<noteq> []"
  shows "count_map cs (weightedTargetCounts n cs states) \<and>
     msum (weightedTargetCounts n cs states) = int n"
proof (induction n)
  case 0
  show ?case using assms
    by (auto simp: weightedTargetCounts_def zero_counts_eq count_map_def msum_def comp_def
        sum_list_0)
next
  case (Suc n)
  then show ?case
    using count_map_target_step [OF _ assms(2)] by (simp add: weightedTargetCounts_def)
qed

section \<open>Evacuation\<close>

abbreviation evac_fold where
  "evac_fold R cs states pc es \<equiv> foldl (evacuate_entry R cs states) pc es"

definition moved_entries :: "strset \<Rightarrow> string list \<Rightarrow> route_entry list \<Rightarrow> route_entry list" where
  "moved_entries R cs es = (if cs = [] then [] else filter (\<lambda>e. re_User e \<in> set R) es)"

lemma moved_entries_Cons: "moved_entries R cs (e # es) =
   (if cs \<noteq> [] \<and> re_User e \<in> set R then [e] else []) @ moved_entries R cs es"
  by (simp add: moved_entries_def)

lemma evacuate_entry_cases:
  obtains (skip) "re_User e \<notin> set R"
      "evacuate_entry R cs states (p, c) e = (p\<lparr>pl_Sources := mincr (re_Account e) (pl_Sources p),
         pl_SkippedUsers := pl_SkippedUsers p + 1\<rparr>, c)"
  | (none) "re_User e \<in> set R" "cs = []"
      "evacuate_entry R cs states (p, c) e = (p\<lparr>pl_Sources := mincr (re_Account e) (pl_Sources p)\<rparr>, c)"
  | (move) t where "re_User e \<in> set R" "cs \<noteq> []" "t \<in> set cs"
      "leastWeightedAccount cs c states = Some t"
      "evacuate_entry R cs states (p, c) e = (p\<lparr>pl_Sources := mincr (re_Account e) (pl_Sources p),
         pl_Assignments := mput (re_User e) t (pl_Assignments p),
         pl_ExpectedRoutes := mput (re_User e) (re_Account e) (pl_ExpectedRoutes p),
         pl_Destinations := mincr t (pl_Destinations p)\<rparr>, mincr t c)"
proof (cases "re_User e \<in> set R")
  case False
  then show thesis by (intro skip) (simp_all add: evacuate_entry_def Let_def)
next
  case R: True
  show thesis
  proof (cases "leastWeightedAccount cs c states")
    case None
    then have "cs = []" by simp
    with R show thesis
      by (intro none) (simp_all add: evacuate_entry_def Let_def leastWeightedAccount_def)
  next
    case (Some t)
    with R leastWeightedAccount_mem [OF Some] show thesis
      by (intro move [of t]) (auto simp: evacuate_entry_def Let_def)
  qed
qed

lemma evac_fold_frame:
  "pl_AffectedUsers (fst (evac_fold R cs states pc es)) = pl_AffectedUsers (fst pc)"
  "pl_CandidateAccounts (fst (evac_fold R cs states pc es)) = pl_CandidateAccounts (fst pc)"
proof (induction es arbitrary: pc)
  case (Cons e es)
  { case 1 show ?case
      using Cons by (cases pc) (cases rule: evacuate_entry_cases [of e R cs states "fst pc" "snd pc"], auto) }
  { case 2 show ?case
      using Cons by (cases pc) (cases rule: evacuate_entry_cases [of e R cs states "fst pc" "snd pc"], auto) }
qed simp_all

lemma evac_fold_expected:
  "distinct (map fst (pl_ExpectedRoutes (fst pc)) @ map re_User es) \<Longrightarrow>
   pl_ExpectedRoutes (fst (evac_fold R cs states pc es)) =
     pl_ExpectedRoutes (fst pc) @ map (\<lambda>e. (re_User e, re_Account e)) (moved_entries R cs es)"
proof (induction es arbitrary: pc)
  case (Cons e es)
  have "map_of (pl_ExpectedRoutes (fst pc)) (re_User e) = None"
    using Cons.prems by (auto simp: map_of_eq_None_iff)
  with Cons show ?case
    by (cases pc) (cases rule: evacuate_entry_cases [of e R cs states "fst pc" "snd pc"];
        auto simp: moved_entries_Cons mput_new)
qed (simp add: moved_entries_def)

lemma evac_fold_assigned:
  "distinct (map fst (pl_Assignments (fst pc)) @ map re_User es) \<Longrightarrow>
   map fst (pl_Assignments (fst (evac_fold R cs states pc es))) =
     map fst (pl_Assignments (fst pc)) @ map re_User (moved_entries R cs es)"
proof (induction es arbitrary: pc)
  case (Cons e es)
  have "map_of (pl_Assignments (fst pc)) (re_User e) = None"
    using Cons.prems by (auto simp: map_of_eq_None_iff)
  with Cons show ?case
    by (cases pc) (cases rule: evacuate_entry_cases [of e R cs states "fst pc" "snd pc"];
        auto simp: moved_entries_Cons mput_new)
qed (simp add: moved_entries_def)

lemma evac_fold_targets:
  "snd ` set (pl_Assignments (fst pc)) \<subseteq> set cs \<Longrightarrow>
   snd ` set (pl_Assignments (fst (evac_fold R cs states pc es))) \<subseteq> set cs"
proof (induction es arbitrary: pc)
  case (Cons e es)
  have sub: "snd ` set (mput k v m) \<subseteq> insert v (snd ` set m)" for k v and m :: "string gomap"
    by (induction m) auto
  have "snd ` set (pl_Assignments (fst (evacuate_entry R cs states pc e))) \<subseteq> set cs"
  proof (cases rule: evacuate_entry_cases [of e R cs states "fst pc" "snd pc"])
    case (move t)
    have "snd ` set (mput (re_User e) t (pl_Assignments (fst pc))) \<subseteq> set cs"
      using move(3) Cons.prems sub [of "re_User e" t "pl_Assignments (fst pc)"] by blast
    with move show ?thesis by simp
  qed (use Cons.prems in auto)
  then show ?case by (simp add: Cons.IH)
qed simp

lemma evac_fold_counters:
  "wf_map (pl_Destinations (fst pc)) \<Longrightarrow> wf_map (pl_Sources (fst pc)) \<Longrightarrow>
   wf_map (pl_Destinations (fst (evac_fold R cs states pc es))) \<and>
   wf_map (pl_Sources (fst (evac_fold R cs states pc es))) \<and>
   msum (pl_Destinations (fst (evac_fold R cs states pc es))) =
     msum (pl_Destinations (fst pc)) + int (length (moved_entries R cs es)) \<and>
   msum (pl_Sources (fst (evac_fold R cs states pc es))) =
     msum (pl_Sources (fst pc)) + int (length es) \<and>
   pl_SkippedUsers (fst (evac_fold R cs states pc es)) =
     pl_SkippedUsers (fst pc) + int (length (filter (\<lambda>e. re_User e \<notin> set R) es))"
proof (induction es arbitrary: pc)
  case (Cons e es)
  then show ?case
    by (cases pc) (cases rule: evacuate_entry_cases [of e R cs states "fst pc" "snd pc"];
        simp add: moved_entries_Cons)
qed (simp add: moved_entries_def)

lemma affected_entries_users:
  "wf_map routes \<Longrightarrow> distinct (map re_User (affected_entries routes A S))"
proof -
  have "map re_User (affected_entries routes A S) =
      map fst (filter (\<lambda>(u, a). u \<in> set A \<and> a \<in> set S) routes)"
    by (simp add: affected_entries_def comp_def case_prod_unfold)
  then show "wf_map routes \<Longrightarrow> ?thesis" by (simp add: distinct_map_filter)
qed

lemma mset_sortRouteEntries [simp]: "mset (sortRouteEntries es) = mset es"
  by (simp add: sortRouteEntries_def)

lemma set_sortRouteEntries [simp]: "set (sortRouteEntries es) = set es"
  by (metis mset_sortRouteEntries set_mset_mset)

lemma length_sortRouteEntries [simp]: "length (sortRouteEntries es) = length es"
  by (metis mset_sortRouteEntries size_mset)

lemma length_filter_sorted: "length (filter P (sortRouteEntries es)) = length (filter P es)"
proof -
  have "mset (filter P (sortRouteEntries es)) = mset (filter P es)" by simp
  then show ?thesis by (metis size_mset)
qed

lemma distinct_users_sorted [simp]:
  "distinct (map re_User (sortRouteEntries es)) = distinct (map re_User es)"
  by (metis mset_sortRouteEntries mset_map mset_eq_imp_distinct_iff)

lemma sortRouteEntries_order: "mset es = mset es' \<Longrightarrow> sortRouteEntries es = sortRouteEntries es'"
  unfolding sortRouteEntries_def by (rule entries.sort_slice_unique) simp_all

definition evac_sources :: "account_state gomap \<Rightarrow> strset option \<Rightarrow> strset" where
  "evac_sources states src = (case src of None \<Rightarrow> exhausted_accounts states | Some s \<Rightarrow> s)"

definition evac_affected ::
  "string gomap \<Rightarrow> strset \<Rightarrow> account_state gomap \<Rightarrow> strset option \<Rightarrow> route_entry list" where
  "evac_affected routes active states src =
     sortRouteEntries (affected_entries routes active (evac_sources states src))"

lemma set_evac_affected:
  "RouteEntry u a \<in> set (evac_affected routes active states src) \<longleftrightarrow>
     (u, a) \<in> set routes \<and> u \<in> set active \<and> a \<in> set (evac_sources states src)"
  by (auto simp: evac_affected_def affected_entries_def)

lemma PlanEvacuation_fields:
  fixes routes active routable states src
  defines "P \<equiv> PlanEvacuation routes active routable states src"
    and "es \<equiv> evac_affected routes active states src"
    and "cs \<equiv> eligibleCandidates states (evac_sources states src)"
  assumes wf: "wf_map routes"
  shows "map fst (pl_Assignments P) = map re_User (moved_entries routable cs es)"
    and "pl_ExpectedRoutes P = map (\<lambda>e. (re_User e, re_Account e)) (moved_entries routable cs es)"
    and "snd ` set (pl_Assignments P) \<subseteq> set cs"
    and "pl_CandidateAccounts P = cs"
    and "pl_AffectedUsers P = int (length es)"
    and "pl_SkippedUsers P = int (length (filter (\<lambda>e. re_User e \<notin> set routable) es))"
    and "msum (pl_Destinations P) = int (length (moved_entries routable cs es))"
    and "msum (pl_Sources P) = int (length es)"
    and "pl_PlannedUsers P = int (length (moved_entries routable cs es))"
    and "pl_UnassignedUsers P = int (length es) - int (length (moved_entries routable cs es))"
proof -
  define c where "c = foldl (count_route active) (zero_counts cs) routes"
  define q where "q = fst (evac_fold routable cs states (newPlan cs (int (length es)), c) es)"
  have P: "P = finish_evacuation q"
    by (simp add: P_def PlanEvacuation_def Let_def q_def c_def cs_def es_def evac_affected_def
        evac_sources_def)
  have dist: "distinct (map re_User es)"
    using wf by (simp add: es_def evac_affected_def affected_entries_users)
  have asg: "map fst (pl_Assignments q) = map re_User (moved_entries routable cs es)"
    using evac_fold_assigned [of "(newPlan cs (int (length es)), c)" es] dist
    by (simp add: q_def newPlan_def)
  then have len: "length (pl_Assignments q) = length (moved_entries routable cs es)"
    by (metis length_map)
  show "map fst (pl_Assignments P) = map re_User (moved_entries routable cs es)"
    using asg by (simp add: P finish_evacuation_def Let_def)
  show "pl_ExpectedRoutes P = map (\<lambda>e. (re_User e, re_Account e)) (moved_entries routable cs es)"
    using evac_fold_expected [of "(newPlan cs (int (length es)), c)" es] dist
    by (simp add: P finish_evacuation_def Let_def q_def newPlan_def)
  show "snd ` set (pl_Assignments P) \<subseteq> set cs"
    using evac_fold_targets [of "(newPlan cs (int (length es)), c)" cs routable states es]
    by (simp add: P finish_evacuation_def Let_def q_def newPlan_def)
  show "pl_CandidateAccounts P = cs" "pl_AffectedUsers P = int (length es)"
    "pl_PlannedUsers P = int (length (moved_entries routable cs es))"
    "pl_UnassignedUsers P = int (length es) - int (length (moved_entries routable cs es))"
    using evac_fold_frame [of routable cs states "(newPlan cs (int (length es)), c)" es] len
    by (simp_all add: P finish_evacuation_def Let_def q_def newPlan_def)
  show "pl_SkippedUsers P = int (length (filter (\<lambda>e. re_User e \<notin> set routable) es))"
    "msum (pl_Destinations P) = int (length (moved_entries routable cs es))"
    "msum (pl_Sources P) = int (length es)"
    using evac_fold_counters [of "(newPlan cs (int (length es)), c)" routable cs states es]
    by (simp_all add: P finish_evacuation_def Let_def q_def newPlan_def msum_def)
qed

text \<open>The routed counts do not depend on the order in which the routes are visited.\<close>

lemma count_routes_closed:
  "wf_map counts \<Longrightarrow> foldl (count_route active) counts rs =
     map (\<lambda>(k, v). (k, v + int (length (filter (\<lambda>(u, a). u \<in> set active \<and> a = k) rs)))) counts"
proof (induction rs arbitrary: counts)
  case Nil
  then show ?case by (simp add: case_prod_unfold)
next
  case (Cons r rs)
  obtain u a where r: "r = (u, a)" by fastforce
  have wf: "wf_map (count_route active counts r)"
    using Cons.prems by (simp add: count_route_def)
  show ?case
  proof (cases "u \<in> set active \<and> map_of counts a \<noteq> None")
    case True
    then have "count_route active counts r = map (\<lambda>(k, v). (k, if k = a then v + 1 else v)) counts"
      using Cons.prems r by (auto simp: count_route_def mincr_existing map_of_eq_None_iff)
    then show ?thesis
      using True r Cons.IH [OF wf] by (auto simp: case_prod_unfold comp_def)
  next
    case False
    then have "count_route active counts r = counts" using r by (auto simp: count_route_def)
    moreover have "\<not> (u \<in> set active \<and> a = k)" if "(k, v) \<in> set counts" for k v
      using that False by (auto simp: map_of_eq_None_iff image_iff)
    then have "map (\<lambda>(k, v). (k, v + int (length (filter (\<lambda>(u, a). u \<in> set active \<and> a = k) rs)))) counts =
        map (\<lambda>(k, v). (k, v + int (length (filter (\<lambda>(u, a). u \<in> set active \<and> a = k) (r # rs))))) counts"
      using r by (intro map_cong) auto
    ultimately show ?thesis
      using Cons.IH [OF Cons.prems] by simp
  qed
qed

lemma count_routes_order:
  assumes "wf_map counts" "mset rs = mset rs'" "set active = set active'"
  shows "foldl (count_route active) counts rs = foldl (count_route active') counts rs'"
proof -
  have "length (filter P rs) = length (filter P rs')" for P
    using assms(2) by (metis mset_filter size_mset)
  with assms(1,3) show ?thesis by (simp add: count_routes_closed)
qed

lemma state_of_order:
  assumes "same_map states states'"
  shows "state_of states = state_of states'"
  using same_map_mget [OF assms] by (auto simp: state_of_def fun_eq_iff)

lemma weightedLess_order:
  assumes "same_map states states'"
  shows "(\<lambda>l r. weightedLess l r c states) = (\<lambda>l r. weightedLess l r c states')"
  by (intro ext) (simp only: weightedLess_def score_def state_of_order [OF assms])

lemma leastWeightedAccount_order:
  assumes "same_map states states'"
  shows "leastWeightedAccount cs c states = leastWeightedAccount cs c states'"
  by (simp only: leastWeightedAccount_def weightedLess_order [OF assms])

lemma evacuate_entry_order:
  assumes "same_map states states'" "set R = set R'"
  shows "evacuate_entry R cs states = evacuate_entry R' cs states'"
  by (intro ext) (simp only: evacuate_entry_def leastWeightedAccount_order [OF assms(1)] assms(2))

section \<open>Properties of evacuation\<close>

lemma evacuation_sound_aux:
  assumes wf: "wf_map routes"
    and asg: "map_of (pl_Assignments (PlanEvacuation routes active routable states src)) u = Some t"
  shows "\<exists>a s. map_of routes u = Some a \<and> a \<in> set (evac_sources states src) \<and>
     map_of (pl_ExpectedRoutes (PlanEvacuation routes active routable states src)) u = Some a \<and>
     u \<in> set active \<and> u \<in> set routable \<and>
     (t, s) \<in> set states \<and> as_Eligible s \<and> f_lt (Fin 0) (as_Headroom s) \<and>
     t \<notin> set (evac_sources states src)"
proof -
  note fields = PlanEvacuation_fields [OF wf, of active routable states src]
  let ?es = "moved_entries routable (eligibleCandidates states (evac_sources states src))
     (evac_affected routes active states src)"
  have "u \<in> fst ` set (pl_Assignments (PlanEvacuation routes active routable states src))"
    using asg by (metis domI dom_map_of_conv_image_fst)
  then have "u \<in> set (map re_User ?es)" by (metis fields(1) list.set_map)
  then obtain e where e: "e \<in> set ?es" "u = re_User e" by auto
  then have mem: "e \<in> set (evac_affected routes active states src)" "u \<in> set routable"
    by (auto simp: moved_entries_def split: if_splits)
  obtain a where ea: "e = RouteEntry u a" using e(2) by (cases e) simp
  with mem have route: "(u, a) \<in> set routes" "u \<in> set active" "a \<in> set (evac_sources states src)"
    by (simp_all add: set_evac_affected)
  have "distinct (map re_User (evac_affected routes active states src))"
    using wf by (simp add: evac_affected_def affected_entries_users)
  then have "distinct (map re_User ?es)" by (simp add: moved_entries_def distinct_map_filter)
  then have "map_of (pl_ExpectedRoutes (PlanEvacuation routes active routable states src)) u = Some a"
  proof -
    have "map fst (map (\<lambda>e. (re_User e, re_Account e)) ?es) = map re_User ?es" by simp
    moreover have "(u, a) \<in> set (map (\<lambda>e. (re_User e, re_Account e)) ?es)"
      using imageI [OF e(1), of "\<lambda>e. (re_User e, re_Account e)"] ea by simp
    ultimately show ?thesis
      using \<open>distinct (map re_User ?es)\<close> unfolding fields(2) by (metis map_of_is_SomeI)
  qed
  moreover have "t \<in> set (eligibleCandidates states (evac_sources states src))"
    using fields(3) asg by (force dest: map_of_SomeD)
  ultimately show ?thesis
    using route mem wf by (auto simp: candidate_def)
qed

text \<open>C3: a planned evacuation only touches active, safely routable users that are routed to a source
  account, records exactly their current route as the expected one, and moves them to an eligible
  account with positive head-room that is not itself a source.\<close>

theorem evacuation_sound:
  assumes wf: "wf_map routes"
    and asg: "map_of (pl_Assignments (PlanEvacuation routes active routable states src)) u = Some t"
  shows "\<exists>a s. map_of routes u = Some a \<and> a \<in> set (evac_sources states src) \<and>
     map_of (pl_ExpectedRoutes (PlanEvacuation routes active routable states src)) u = Some a \<and>
     u \<in> set active \<and> u \<in> set routable \<and>
     (t, s) \<in> set states \<and> as_Eligible s \<and> f_lt (Fin 0) (as_Headroom s) \<and>
     t \<notin> set (evac_sources states src)"
  using assms by (rule evacuation_sound_aux)

text \<open>The counters of an evacuation plan add up: every affected user is planned or unassigned,
  the source and destination counters sum to the affected and planned users, and with at least one
  candidate exactly the users without safe routing stay unassigned.\<close>

theorem evacuation_accounting:
  fixes routes active routable states src
  defines "P \<equiv> PlanEvacuation routes active routable states src"
  assumes wf: "wf_map routes"
  shows "pl_AffectedUsers P = pl_PlannedUsers P + pl_UnassignedUsers P \<and>
     msum (pl_Destinations P) = pl_PlannedUsers P \<and> msum (pl_Sources P) = pl_AffectedUsers P \<and>
     pl_PlannedUsers P = int (length (pl_Assignments P)) \<and>
     pl_UnassignedUsers P = (if pl_CandidateAccounts P = [] then pl_AffectedUsers P
                             else pl_SkippedUsers P)"
proof -
  note fields = PlanEvacuation_fields [OF wf, of active routable states src, folded P_def]
  have "length (filter (\<lambda>e. re_User e \<notin> set routable) es) +
      length (filter (\<lambda>e. re_User e \<in> set routable) es) = length es" for es
    by (induction es) auto
  then have sum: "int (length es) - int (length (filter (\<lambda>e. re_User e \<in> set routable) es)) =
      int (length (filter (\<lambda>e. re_User e \<notin> set routable) es))" for es
    by (metis add_diff_cancel_right' of_nat_add)
  have "length (pl_Assignments P) = length (moved_entries routable
      (eligibleCandidates states (evac_sources states src)) (evac_affected routes active states src))"
    by (metis fields(1) length_map)
  then show ?thesis
    by (auto simp: fields moved_entries_def sum)
qed

lemma evacuation_complete_aux:
  assumes wf: "wf_map routes"
    and none: "pl_UnassignedUsers (PlanEvacuation routes active routable states src) = 0"
    and act: "u \<in> set active"
    and after: "(map_of routes ++ map_of (pl_Assignments
      (PlanEvacuation routes active routable states src))) u = Some a"
  shows "a \<notin> set (evac_sources states src)"
proof
  assume src: "a \<in> set (evac_sources states src)"
  note fields = PlanEvacuation_fields [OF wf, of active routable states src]
  let ?P = "PlanEvacuation routes active routable states src"
  let ?cs = "eligibleCandidates states (evac_sources states src)"
  let ?es = "evac_affected routes active states src"
  show False
  proof (cases "map_of (pl_Assignments ?P) u")
    case (Some t)
    with after have "a = t" by simp
    with evacuation_sound_aux [OF wf] show False using Some src by blast
  next
    case None
    then have "(u, a) \<in> set routes" using after by (auto simp: map_add_def dest: map_of_SomeD)
    then have e: "RouteEntry u a \<in> set ?es" using src act by (simp add: set_evac_affected)
    have "length (moved_entries routable ?cs ?es) = length ?es" using none by (simp add: fields)
    then have "moved_entries routable ?cs ?es = ?es"
      using e by (auto simp: moved_entries_def split: if_splits)
        (metis filter_id_conv length_filter_less less_irrefl)
    then have "u \<in> fst ` set (pl_Assignments ?P)"
      using e fields(1) by (metis image_eqI list.set_map route_entry.sel(1))
    with None show False by (simp add: map_of_eq_None_iff)
  qed
qed

text \<open>When an evacuation plan leaves nobody unassigned, carrying it out leaves no active user on
  any source account.\<close>

theorem evacuation_complete:
  assumes wf: "wf_map routes"
    and none: "pl_UnassignedUsers (PlanEvacuation routes active routable states src) = 0"
    and act: "u \<in> set active"
    and after: "(map_of routes ++ map_of (pl_Assignments
      (PlanEvacuation routes active routable states src))) u = Some a"
  shows "a \<notin> set (evac_sources states src)"
  using assms by (rule evacuation_complete_aux)

text \<open>The plan does not depend on the iteration order of Go's maps: any two representations of the
  same routes, states, user sets and sources give the same plan.\<close>

theorem evacuation_order_independent:
  assumes "same_map routes routes'" "same_map states states'"
    and "set active = set active'" "set routable = set routable'" "set srcs = set srcs'"
  shows "PlanEvacuation routes active routable states (Some srcs) =
     PlanEvacuation routes' active' routable' states' (Some srcs') \<and>
     PlanEvacuation routes active routable states None =
     PlanEvacuation routes' active' routable' states' None"
proof -
  have ms: "mset routes = mset routes'" "mset states = mset states'"
    using assms(1,2) by (simp_all add: same_map_mset)
  have ex: "set (exhausted_accounts states) = set (exhausted_accounts states')"
    using ms(2) by (auto simp: exhausted_accounts_def dest: mset_eq_setD)
  have plan: "PlanEvacuation routes active routable states (Some S) =
     PlanEvacuation routes' active' routable' states' (Some S')" if S: "set S = set S'" for S S'
  proof -
    let ?cs = "eligibleCandidates states S"
    have cs: "eligibleCandidates states' S' = ?cs"
      using eligibleCandidates_order [OF assms(2) S] by simp
    have "mset (affected_entries routes active S) = mset (affected_entries routes' active' S')"
      using ms(1) S assms(3) by (simp add: affected_entries_def mset_map mset_filter)
    then have aff: "sortRouteEntries (affected_entries routes active S) =
        sortRouteEntries (affected_entries routes' active' S')"
      by (rule sortRouteEntries_order)
    then have len: "length (affected_entries routes active S) = length (affected_entries routes' active' S')"
      by (metis length_sortRouteEntries)
    have "wf_map (zero_counts ?cs)"
      using assms(2) by (simp add: zero_counts_eq same_map_def comp_def)
    then have "foldl (count_route active) (zero_counts ?cs) routes =
        foldl (count_route active') (zero_counts ?cs) routes'"
      using ms(1) assms(3) by (rule count_routes_order)
    then show ?thesis
      by (simp add: PlanEvacuation_def Let_def cs aff len evacuate_entry_order [OF assms(2,4)])
  qed
  have "PlanEvacuation r a b s None = PlanEvacuation r a b s (Some (exhausted_accounts s))"
    for r a b s by (simp add: PlanEvacuation_def)
  with plan [OF assms(5)] plan [OF ex] show ?thesis by simp
qed

section \<open>Properties of the global rebalance\<close>

definition route_after :: "string gomap \<Rightarrow> plan \<Rightarrow> string \<Rightarrow> string" where
  "route_after routes p u =
     (case map_of (pl_Assignments p) u of Some t \<Rightarrow> t | None \<Rightarrow> route_or_empty routes u)"

definition entry_after :: "plan \<Rightarrow> route_entry \<Rightarrow> string" where
  "entry_after p e = (case map_of (pl_Assignments p) (re_User e) of Some t \<Rightarrow> t | None \<Rightarrow> re_Account e)"

lemma mget_eq_value: "wf_map m \<Longrightarrow> (k, v) \<in> set m \<Longrightarrow> mget z m k = v"
  by (simp add: mget_def)

lemma firstDeficit_cases:
  "firstDeficit cs ds = [] \<or> firstDeficit cs ds \<in> set cs \<and> 0 < mget 0 ds (firstDeficit cs ds)"
  by (induction cs) auto

lemma firstDeficit_none: "[] \<notin> set cs \<Longrightarrow> firstDeficit cs ds = [] \<Longrightarrow> a \<in> set cs \<Longrightarrow> mget 0 ds a \<le> 0"
  by (induction cs) (auto split: if_splits)

lemma count_map_mget_nonneg: "count_map cs ds \<Longrightarrow> 0 \<le> mget 0 ds a"
  by (force simp: count_map_def mget_def split: option.splits dest: map_of_SomeD)

lemma count_map_zero:
  assumes "count_map cs ds"
  shows "msum ds = 0 \<longleftrightarrow> (\<forall>a \<in> set cs. mget 0 ds a = 0)"
proof -
  have cs: "cs = map fst ds" and "distinct cs" and nn: "\<forall>v \<in> snd ` set ds. 0 \<le> v"
    using assms unfolding count_map_def by blast+
  then have wf: "wf_map ds" "set cs = fst ` set ds" "\<And>x. x \<in> set (map snd ds) \<Longrightarrow> 0 \<le> x"
    by auto
  have "msum ds = 0 \<longleftrightarrow> (\<forall>x \<in> set (map snd ds). x = 0)"
    unfolding msum_def using wf(3) by (rule sum_list_nonneg_eq_0_iff)
  also have "\<dots> \<longleftrightarrow> (\<forall>a \<in> set cs. mget 0 ds a = 0)"
    using wf(1,2) by (force simp: mget_eq_value)
  finally show ?thesis .
qed

lemma count_map_decr:
  assumes "count_map cs ds" "t \<in> set cs" "0 < mget 0 ds t"
  shows "count_map cs (mput t (mget 0 ds t - 1) ds) \<and>
     msum (mput t (mget 0 ds t - 1) ds) = msum ds - 1"
proof
  have wf: "wf_map ds" and t: "t \<in> fst ` set ds" using assms(1,2) by (auto simp: count_map_def)
  then have "map fst (mput t v ds) = map fst ds" for v
    by (simp add: update_keys)
  moreover have "snd ` set (mput t v ds) \<subseteq> insert v (snd ` set ds)" for v
    by (induction ds) auto
  ultimately show "count_map cs (mput t (mget 0 ds t - 1) ds)"
    using assms(1,3) by (force simp: count_map_def)
  show "msum (mput t (mget 0 ds t - 1) ds) = msum ds - 1" using wf by (simp add: msum_mput)
qed

lemma place_remaining_other:
  "u \<notin> re_User ` set es \<Longrightarrow>
     map_of (pl_Assignments (place_remaining cs es ds p)) u = map_of (pl_Assignments p) u"
  by (induction cs es ds p rule: place_remaining.induct) (auto simp: Let_def move_entry_def)

lemma firstDeficit_positive:
  assumes "count_map cs ds" "[] \<notin> set cs" "0 < msum ds"
  shows "firstDeficit cs ds \<in> set cs \<and> 0 < mget 0 ds (firstDeficit cs ds)"
proof -
  have "\<not> (\<forall>a \<in> set cs. mget 0 ds a = 0)" using assms(1,3) count_map_zero by force
  then have "firstDeficit cs ds \<noteq> []"
    using firstDeficit_none [OF assms(2)] count_map_mget_nonneg [OF assms(1)] by (metis antisym)
  then show ?thesis using firstDeficit_cases by blast
qed

lemma place_remaining_exact:
  assumes "[] \<notin> set cs" "a \<in> set cs" "count_map cs ds" "msum ds = int (length es)"
    and "distinct (map re_User es)" "\<forall>e \<in> set es. map_of (pl_Assignments p) (re_User e) = None"
  shows "int (length (filter (\<lambda>e. entry_after (place_remaining cs es ds p) e = a) es)) = mget 0 ds a"
  using assms(3-)
proof (induction es arbitrary: ds p)
  case Nil
  then show ?case using count_map_zero assms(2) by simp
next
  case (Cons e es)
  define t where "t = firstDeficit cs ds"
  define ds' where "ds' = mput t (mget 0 ds t - 1) ds"
  define p' where "p' = (if re_Account e = t then p else move_entry e t p)"
  have t: "t \<in> set cs" "0 < mget 0 ds t"
    using firstDeficit_positive [OF Cons.prems(1) assms(1)] Cons.prems(2) by (simp_all add: t_def)
  then have "t \<noteq> []" using assms(1) by auto
  then have step: "place_remaining cs (e # es) ds p = place_remaining cs es ds' p'"
    by (simp add: t_def ds'_def p'_def Let_def)
  have e: "re_User e \<notin> re_User ` set es" using Cons.prems(3) by simp
  have IH: "int (length (filter (\<lambda>e. entry_after (place_remaining cs es ds' p') e = a) es)) = mget 0 ds' a"
  proof (rule Cons.IH)
    show "count_map cs ds'" "msum ds' = int (length es)"
      using count_map_decr [OF Cons.prems(1) t] Cons.prems(2) by (simp_all add: ds'_def)
    show "\<forall>x \<in> set es. map_of (pl_Assignments p') (re_User x) = None"
      using Cons.prems(4) e by (auto simp: p'_def move_entry_def image_iff)
  qed (use Cons.prems in simp)
  have "entry_after (place_remaining cs es ds' p') e = t"
    using place_remaining_other [OF e] Cons.prems(4)
    by (auto simp: entry_after_def p'_def move_entry_def)
  with IH show ?case
    by (cases "t = a") (simp_all add: step ds'_def del: place_remaining.simps)
qed

lemma set_current_users [simp]:
  "u \<in> set (current_users routes users a) \<longleftrightarrow> u \<in> set users \<and> route_or_empty routes u = a"
  by (auto simp: current_users_def)

lemma distinct_current_users [simp]: "distinct users \<Longrightarrow> distinct (current_users routes users a)"
  by (simp add: current_users_def)

lemma length_filter_card: "distinct xs \<Longrightarrow> length (filter P xs) = card {x \<in> set xs. P x}"
  by (metis distinct_card distinct_filter set_filter)

lemma length_filter_split: "length (filter P xs) =
   length (filter (\<lambda>x. P x \<and> Q x) xs) + length (filter (\<lambda>x. P x \<and> \<not> Q x) xs)"
  by (induction xs) auto

lemma retained_distinct:
  "distinct cs \<Longrightarrow> distinct users \<Longrightarrow> distinct (retained_users routes users targets cs)"
proof (induction cs)
  case (Cons c cs)
  have "route_or_empty routes u = c" if "u \<in> set (take n (current_users routes users c))" for u n
    using in_set_takeD [OF that] by simp
  moreover have "route_or_empty routes u \<noteq> c" if "u \<in> set (retained_users routes users targets cs)" for u
    using that Cons.prems(1) by (auto simp: retained_users_def dest!: in_set_takeD)
  ultimately have "set (take n (current_users routes users c)) \<inter>
      set (retained_users routes users targets cs) = {}" for n by blast
  with Cons show ?case by (simp add: retained_users_def)
qed (simp add: retained_users_def)

lemma length_retained:
  assumes "\<forall>a \<in> set cs. 0 \<le> mget 0 targets a"
  shows "int (length (retained_users routes users targets cs)) =
     sum_list (map (keep_count routes users targets) cs)"
  using assms
  by (induction cs) (auto simp: retained_users_def keep_count_def min_def nat_le_eq_zle)

lemma retained_on_account:
  assumes "a \<in> set cs" "distinct users" "0 \<le> mget 0 targets a"
  shows "int (length (filter (\<lambda>u. route_or_empty routes u = a \<and>
     u \<in> set (retained_users routes users targets cs)) users)) = keep_count routes users targets a"
proof -
  let ?take = "take (nat (keep_count routes users targets a)) (current_users routes users a)"
  have "{u \<in> set users. route_or_empty routes u = a \<and> u \<in> set (retained_users routes users targets cs)}
      = set ?take" (is "?L = ?R")
  proof
    show "?L \<subseteq> ?R"
      by (auto simp: retained_users_def dest: in_set_takeD)
        (metis in_set_takeD set_current_users)
    show "?R \<subseteq> ?L"
      using assms(1) by (auto simp: retained_users_def dest: in_set_takeD)
  qed
  then have "length (filter (\<lambda>u. route_or_empty routes u = a \<and>
      u \<in> set (retained_users routes users targets cs)) users) = card (set ?take)"
    using length_filter_card [OF assms(2)] by simp
  also have "card (set ?take) = length ?take"
    using assms(2) by (simp add: distinct_card)
  also have "int (length ?take) = keep_count routes users targets a"
    using assms(3) by (auto simp: keep_count_def min_def)
  finally show ?thesis .
qed

lemma initial_deficits_eq:
  "distinct cs \<Longrightarrow> initial_deficits routes users targets cs =
     map (\<lambda>a. (a, mget 0 targets a - keep_count routes users targets a)) cs"
proof -
  have "distinct (map fst m @ cs) \<Longrightarrow>
      foldl (\<lambda>m a. mput a (f a) m) m cs = m @ map (\<lambda>a. (a, f a)) cs"
    for m :: "int gomap" and f
    by (induction cs arbitrary: m) (auto simp: mput_new map_of_eq_None_iff)
  from this [of "[]"] show "distinct cs \<Longrightarrow> ?thesis" by (simp add: initial_deficits_def)
qed

lemma sum_targets: "count_map cs m \<Longrightarrow> sum_list (map (mget 0 m) cs) = msum m"
proof -
  assume "count_map cs m"
  then have "cs = map fst m" "wf_map m" by (auto simp: count_map_def)
  then have "map (mget 0 m) cs = map snd m" by (auto simp: mget_eq_value)
  then show ?thesis by (simp add: msum_def)
qed

text \<open>The plan of a rebalance, once no active user is skipped.\<close>

lemma PlanGlobalRebalance_unfold:
  fixes routes active routable states
  defines "cs \<equiv> eligibleCandidates states []"
  defines "T \<equiv> weightedTargetCounts (length active) cs states"
  defines "rem \<equiv> sortRouteEntries (map (\<lambda>u. RouteEntry u (route_or_empty routes u))
      (filter (\<lambda>u. u \<notin> set (retained_users routes (sort active) T cs)) (sort active)))"
  defines "q \<equiv> place_remaining cs rem (initial_deficits routes (sort active) T cs)
      ((newPlan cs (int (length active)))\<lparr>pl_TargetCounts := T\<rparr>)"
  assumes "cs \<noteq> []" "set active \<subseteq> set routable"
  shows "PlanGlobalRebalance routes active routable states =
     q\<lparr>pl_PlannedUsers := int (length (pl_Assignments q)), pl_UnassignedUsers := 0\<rparr>"
proof -
  have "filter (\<lambda>u. u \<in> set routable) (sort active) = sort active"
    using assms(6) by (intro filter_True) auto
  moreover have "(newPlan cs n)\<lparr>pl_SkippedUsers := 0\<rparr> = newPlan cs n" for n
    by (simp add: newPlan_def)
  ultimately show ?thesis
    using assms(5) by (simp add: PlanGlobalRebalance_def Let_def q_def rem_def T_def cs_def)
qed

lemma place_remaining_targets:
  "pl_TargetCounts (place_remaining cs es ds p) = pl_TargetCounts p"
  by (induction cs es ds p rule: place_remaining.induct) (auto simp: Let_def move_entry_def)

lemma rebalance_deficits:
  fixes routes users cs T
  defines "rem \<equiv> filter (\<lambda>u. u \<notin> set (retained_users routes users T cs)) users"
  assumes "distinct cs" "distinct users" "count_map cs T" "msum T = int (length users)"
  shows "count_map cs (initial_deficits routes users T cs) \<and>
     msum (initial_deficits routes users T cs) = int (length rem)"
proof
  let ?keep = "keep_count routes users T"
  have nn: "\<forall>a \<in> set cs. 0 \<le> mget 0 T a" using count_map_mget_nonneg [OF assms(4)] by simp
  show "count_map cs (initial_deficits routes users T cs)"
    using assms(2) nn by (auto simp: initial_deficits_eq count_map_def comp_def keep_count_def)
  have sub: "set (retained_users routes users T cs) \<subseteq> set users"
    by (auto simp: retained_users_def dest: in_set_takeD)
  have "length (filter (\<lambda>u. u \<in> set (retained_users routes users T cs)) users) =
      length (retained_users routes users T cs)"
  proof -
    have "{u \<in> set users. u \<in> set (retained_users routes users T cs)} = set (retained_users routes users T cs)"
      using sub by auto
    with length_filter_card [OF assms(3)] show ?thesis
      using retained_distinct [OF assms(2,3)] by (simp add: distinct_card)
  qed
  then have "int (length rem) = int (length users) - sum_list (map ?keep cs)"
    using sum_length_filter_compl [of "\<lambda>u. u \<in> set (retained_users routes users T cs)" users]
    by (simp add: rem_def length_retained [OF nn, symmetric])
  moreover have "msum (initial_deficits routes users T cs) =
      sum_list (map (mget 0 T) cs) - sum_list (map ?keep cs)"
    using assms(2) by (simp add: initial_deficits_eq msum_def comp_def sum_list_subtractf)
  ultimately show "msum (initial_deficits routes users T cs) = int (length rem)"
    using assms(4,5) by (simp add: sum_targets)
qed

lemma rebalance_exact_aux:
  fixes routes active routable states
  defines "P \<equiv> PlanGlobalRebalance routes active routable states"
  assumes wf: "wf_map states" "distinct active" "set active \<subseteq> set routable"
    and named: "\<not> candidate states [] []" and a: "candidate states [] a"
  shows "int (length (filter (\<lambda>u. route_after routes P u = a) active)) = mget 0 (pl_TargetCounts P) a"
    and "msum (pl_TargetCounts P) = int (length active)"
proof -
  define cs where "cs = eligibleCandidates states []"
  define U where "U = sort active"
  define T where "T = weightedTargetCounts (length active) cs states"
  define kept where "kept = retained_users routes U T cs"
  define rem where "rem = sortRouteEntries (map (\<lambda>u. RouteEntry u (route_or_empty routes u))
      (filter (\<lambda>u. u \<notin> set kept) U))"
  define ds where "ds = initial_deficits routes U T cs"
  define q where "q = place_remaining cs rem ds ((newPlan cs (int (length active)))\<lparr>pl_TargetCounts := T\<rparr>)"
  have cs: "distinct cs" "a \<in> set cs" "[] \<notin> set cs"
    using wf named a by (simp_all add: cs_def)
  then have ne: "cs \<noteq> []" by auto
  have U: "distinct U" "length U = length active" using wf(2) by (simp_all add: U_def)
  have T: "count_map cs T" "msum T = int (length U)"
    using weightedTargetCounts_sum [OF cs(1) ne] U by (simp_all add: T_def)
  have P: "P = q\<lparr>pl_PlannedUsers := int (length (pl_Assignments q)), pl_UnassignedUsers := 0\<rparr>"
    using PlanGlobalRebalance_unfold [of states active routable routes] ne wf(3)
    by (simp add: P_def cs_def q_def rem_def ds_def kept_def T_def U_def)
  show "msum (pl_TargetCounts P) = int (length active)"
    using T(2) U(2) by (simp add: P q_def place_remaining_targets)
  have users: "map re_User (map (\<lambda>u. RouteEntry u (route_or_empty routes u)) xs) = xs" for xs
    by (simp add: comp_def)
  have rem_users: "distinct (map re_User rem)" "length rem = length (filter (\<lambda>u. u \<notin> set kept) U)"
    using U(1) users by (simp_all add: rem_def)
  have after: "route_after routes P u = (if u \<in> set kept then route_or_empty routes u
      else entry_after q (RouteEntry u (route_or_empty routes u)))" if "u \<in> set U" for u
  proof (cases "u \<in> set kept")
    case True
    then have "u \<notin> re_User ` set rem" by (auto simp: rem_def)
    then show ?thesis
      using True place_remaining_other [of u rem cs ds]
      by (simp add: route_after_def P q_def newPlan_def)
  qed (simp add: route_after_def entry_after_def P split: option.split)
  have "int (length (filter (\<lambda>e. entry_after q e = a) rem)) = mget 0 ds a"
    unfolding q_def
  proof (rule place_remaining_exact [OF cs(3,2) _ _ rem_users(1)])
    show "count_map cs ds" "msum ds = int (length rem)"
      using rebalance_deficits [OF cs(1) U(1) T] by (simp_all add: ds_def rem_users(2) kept_def)
  qed (simp add: newPlan_def)
  moreover have "length (filter (\<lambda>e. entry_after q e = a) rem) =
      length (filter (\<lambda>u. route_after routes P u = a \<and> u \<notin> set kept) U)"
  proof -
    have "length (filter (\<lambda>e. entry_after q e = a) rem) = length (filter (\<lambda>e. entry_after q e = a)
        (map (\<lambda>u. RouteEntry u (route_or_empty routes u)) (filter (\<lambda>u. u \<notin> set kept) U)))"
      unfolding rem_def by (rule length_filter_sorted)
    also have "\<dots> = length (filter (\<lambda>u. route_after routes P u = a \<and> u \<notin> set kept) U)"
      by (auto simp: filter_map comp_def after intro!: arg_cong [where f = length] filter_cong)
    finally show ?thesis .
  qed
  moreover have "int (length (filter (\<lambda>u. route_after routes P u = a \<and> u \<in> set kept) U)) =
      keep_count routes U T a"
  proof -
    have "filter (\<lambda>u. route_after routes P u = a \<and> u \<in> set kept) U =
        filter (\<lambda>u. route_or_empty routes u = a \<and> u \<in> set kept) U"
      by (intro filter_cong) (auto simp: after)
    then show ?thesis
      using retained_on_account [OF cs(2) U(1)] count_map_mget_nonneg [OF T(1)] by (simp add: kept_def)
  qed
  moreover have "mget 0 ds a = mget 0 T a - keep_count routes U T a"
    using cs(1,2) by (simp add: ds_def initial_deficits_eq mget_eq_value comp_def)
  moreover have "mset (filter Q active) = mset (filter Q U)" for Q
    by (simp add: U_def)
  then have "length (filter Q active) = length (filter Q U)" for Q by (metis size_mset)
  ultimately show "int (length (filter (\<lambda>u. route_after routes P u = a) active)) =
      mget 0 (pl_TargetCounts P) a"
    using length_filter_split [of "\<lambda>u. route_after routes P u = a" U "\<lambda>u. u \<in> set kept"]
    by (simp add: P q_def place_remaining_targets)
qed

text \<open>C27: carrying out a global rebalance in which every active user is routable gives every eligible
  account exactly its target number of active users, and the targets sum to all active users.\<close>

theorem rebalance_exact:
  assumes "wf_map states" "distinct active" "set active \<subseteq> set routable"
    and "\<not> candidate states [] []" and "candidate states [] a"
  shows "int (length (filter (\<lambda>u. route_after routes
       (PlanGlobalRebalance routes active routable states) u = a) active)) =
     mget 0 (pl_TargetCounts (PlanGlobalRebalance routes active routable states)) a \<and>
     msum (pl_TargetCounts (PlanGlobalRebalance routes active routable states)) = int (length active)"
  using rebalance_exact_aux [OF assms] by blast

section \<open>Witnesses\<close>

definition ex_state :: "string \<Rightarrow> bool \<Rightarrow> rat \<Rightarrow> account_state" where
  "ex_state a exhausted headroom = \<lparr>as_Account = a, as_Eligible = \<not> exhausted,
     as_Exhausted = exhausted, as_Reason = (if exhausted then ''quota_exhausted'' else ''available''),
     as_UsedPercent = Some (Fin (100 - headroom)), as_RemainingPercent = Some (Fin headroom),
     as_Headroom = Fin headroom, as_ResetAt = 0, as_ObservedAt = 1\<rparr>"

definition ex_states :: "account_state gomap" where
  "ex_states = [(''main'', ex_state ''main'' True 0), (''spare'', ex_state ''spare'' False 40)]"

definition ex_routes :: "string gomap" where
  "ex_routes = [(''bob'', ''main''), (''amy'', ''main''), (''cal'', ''spare'')]"

definition ex_users :: strset where "ex_users = [''bob'', ''cal'', ''amy'']"

lemmas ex_planner_defs = ex_state_def ex_states_def ex_routes_def ex_users_def

lemma ex_planner_wf: "wf_map ex_states" "wf_map ex_routes" "distinct ex_users"
  by (simp_all add: ex_planner_defs)

lemma ex_planner_assigned:
  "map_of (pl_Assignments (PlanEvacuation ex_routes ex_users ex_users ex_states None)) ''amy'' = Some ''spare''"
  "pl_UnassignedUsers (PlanEvacuation ex_routes ex_users ex_users ex_states None) = 0"
  by code_simp+

theorem evacuation_sound_witness:
  "\<exists>a s. map_of ex_routes ''amy'' = Some a \<and> a \<in> set (evac_sources ex_states None) \<and>
     map_of (pl_ExpectedRoutes (PlanEvacuation ex_routes ex_users ex_users ex_states None)) ''amy'' = Some a \<and>
     ''amy'' \<in> set ex_users \<and> ''amy'' \<in> set ex_users \<and>
     (''spare'', s) \<in> set ex_states \<and> as_Eligible s \<and> f_lt (Fin 0) (as_Headroom s) \<and>
     ''spare'' \<notin> set (evac_sources ex_states None)"
  by (rule evacuation_sound [OF ex_planner_wf(2) ex_planner_assigned(1)])

theorem evacuation_accounting_witness:
  "msum (pl_Destinations (PlanEvacuation ex_routes ex_users ex_users ex_states None)) =
     pl_PlannedUsers (PlanEvacuation ex_routes ex_users ex_users ex_states None)"
  using evacuation_accounting [OF ex_planner_wf(2), of ex_users ex_users ex_states None] by blast

theorem evacuation_complete_witness: "''spare'' \<notin> set (evac_sources ex_states None)"
proof (rule evacuation_complete [OF ex_planner_wf(2) ex_planner_assigned(2)])
  show "''amy'' \<in> set ex_users" by (simp add: ex_users_def)
  show "(map_of ex_routes ++ map_of (pl_Assignments
      (PlanEvacuation ex_routes ex_users ex_users ex_states None))) ''amy'' = Some ''spare''"
    using ex_planner_assigned(1) by simp
qed

theorem evacuation_order_independent_witness:
  "PlanEvacuation ex_routes ex_users ex_users ex_states None =
     PlanEvacuation (rev ex_routes) (rev ex_users) (rev ex_users) (rev ex_states) None"
proof -
  have r: "same_map ex_routes (rev ex_routes)"
    by (auto simp: same_map_def ex_routes_def fun_eq_iff)
  have s: "same_map ex_states (rev ex_states)"
    by (auto simp: same_map_def ex_states_def fun_eq_iff)
  have u: "set ex_users = set (rev ex_users)" by simp
  show ?thesis
    by (rule conjunct2 [OF evacuation_order_independent [OF r s u u refl [of "set []"]]])
qed

theorem rebalance_exact_witness:
  "int (length (filter (\<lambda>u. route_after ex_routes
       (PlanGlobalRebalance ex_routes ex_users ex_users ex_states) u = ''spare'') ex_users)) =
     mget 0 (pl_TargetCounts (PlanGlobalRebalance ex_routes ex_users ex_users ex_states)) ''spare'' \<and>
     msum (pl_TargetCounts (PlanGlobalRebalance ex_routes ex_users ex_users ex_states)) =
       int (length ex_users)"
proof (rule rebalance_exact)
  show "candidate ex_states [] ''spare''" by (simp add: candidate_def ex_planner_defs)
  show "\<not> candidate ex_states [] []" by (auto simp: candidate_def ex_planner_defs)
qed (simp_all add: ex_planner_defs)

end
