(* ===== verification/Quota_Normalize.thy ===== *)
theory Quota_Normalize
  imports Go_Json
begin

text \<open>
  \<open>internal/quota/types.go\<close> and \<open>internal/quota/normalize.go\<close>: the quota data types and the
  conversion of one upstream usage payload into an \<open>AccountQuota\<close>. The payload is a decoded JSON
  object, so every value of every type can arrive in every field; the lemmas show what the
  conversion guarantees all the same.
\<close>

section \<open>Data\<close>

definition WeeklyWindowSeconds :: int where "WeeklyWindowSeconds = 604800"

record weekly_window =
  ww_Key :: string
  ww_Label :: string
  ww_MeteredFeature :: "string option"
  ww_WindowSlot :: string
  ww_UsedPercent :: f64
  ww_RemainingPercent :: f64
  ww_ReportedUsedPercent :: f64
  ww_ResetAt :: "int option"
  ww_ResetAfterSeconds :: "int option"
  ww_WindowSeconds :: int
  ww_LimitReached :: bool
  ww_Resettable :: bool

record account_quota =
  aq_oauthAccountID :: string
  aq_recoveryAllowed :: bool
  aq_Account :: string
  aq_Status :: string
  aq_PlanType :: "string option"
  aq_Allowed :: "bool option"
  aq_LimitReached :: "bool option"
  aq_ResetCreditCount :: "int option"
  aq_Weekly :: "weekly_window option"
  aq_WeeklyWindows :: "weekly_window list"

record snapshot =
  sn_GeneratedAt :: int
  sn_CacheTTLSeconds :: int
  sn_Cached :: bool
  sn_Refreshing :: bool
  sn_Accounts :: "account_quota list"

definition unavailableAccount :: "string \<Rightarrow> string \<Rightarrow> account_quota" where
  "unavailableAccount account status =
     \<lparr>aq_oauthAccountID = [], aq_recoveryAllowed = False, aq_Account = account, aq_Status = status,
      aq_PlanType = None, aq_Allowed = None, aq_LimitReached = None, aq_ResetCreditCount = None,
      aq_Weekly = None, aq_WeeklyWindows = []\<rparr>"

text \<open>\<open>quotaSource\<close>: one rate limit of the payload; a nil \<open>rateLimit\<close> map is \<open>None\<close>.\<close>

record quota_source =
  qs_key :: string
  qs_label :: string
  qs_meteredFeature :: "string option"
  qs_rateLimit :: "goany gomap option"
  qs_reachedTypeAlias :: strset

section \<open>Conversions\<close>

definition boolValue :: "goany \<Rightarrow> bool \<Rightarrow> bool" where
  "boolValue v fallback = (case as_bool v of None \<Rightarrow> fallback | Some b \<Rightarrow> b)"

definition clamp_nonneg :: "int \<Rightarrow> int option" where
  "clamp_nonneg i = Some (if i < 0 then 0 else i)"

definition finite_int :: "f64 option \<Rightarrow> int option" where
  "finite_int p = (case p of None \<Rightarrow> None
     | Some f \<Rightarrow> if \<not> finite64 f then None else clamp_nonneg (f_to_int64 f))"

definition nonnegativeInt :: "goany \<Rightarrow> int option" where
  "nonnegativeInt v =
     (case v of
        ANumber s \<Rightarrow> finite_int (ParseFloat s)
      | AFloat f \<Rightarrow> finite_int (Some f)
      | AFloat32 f \<Rightarrow> clamp_nonneg (f_to_int64 f)
      | AInt i \<Rightarrow> clamp_nonneg i
      | AInt64 i \<Rightarrow> clamp_nonneg i
      | AString s \<Rightarrow> finite_int (ParseFloat (trim_space s))
      | _ \<Rightarrow> None)"

definition number_of :: "goany \<Rightarrow> f64 option" where
  "number_of v =
     (case v of
        ANumber s \<Rightarrow> ParseFloat s
      | AFloat f \<Rightarrow> Some f
      | AFloat32 f \<Rightarrow> Some f
      | AInt i \<Rightarrow> Some (f_of_int i)
      | AInt64 i \<Rightarrow> Some (f_of_int i)
      | AString s \<Rightarrow> ParseFloat (trim_space s)
      | _ \<Rightarrow> None)"

definition numberValue :: "goany \<Rightarrow> f64 \<Rightarrow> f64" where
  "numberValue v fallback =
     (case number_of v of None \<Rightarrow> fallback | Some f \<Rightarrow> if finite64 f then f else fallback)"

text \<open>Go's \<open>-0\<close> and \<open>0\<close> are one value of \<open>f64\<close>, so the last test of \<open>round2\<close> is the identity.\<close>

definition round2 :: "f64 \<Rightarrow> f64" where
  "round2 v = f_div (f_round (f_mul v (Fin 100))) (Fin 100)"

definition newQuotaSource ::
  "string \<Rightarrow> string \<Rightarrow> string option \<Rightarrow> goany gomap option \<Rightarrow> string list \<Rightarrow> quota_source" where
  "newQuotaSource key label metered rl aliases =
     \<lparr>qs_key = key, qs_label = label, qs_meteredFeature = metered, qs_rateLimit = rl,
      qs_reachedTypeAlias =
        foldl (\<lambda>s a. if norm_name a \<noteq> [] then set_add (norm_name a) s else s) [] aliases\<rparr>"

section \<open>Normalize\<close>

text \<open>The sources of the payload: the default limit, then every object of the additional ones.\<close>

definition additional_source :: "int \<Rightarrow> goany gomap \<Rightarrow> quota_source" where
  "additional_source index item =
     (let limitName = trim_space (as_string (mget ANil item ''limit_name''));
          metered = trim_space (as_string (mget ANil item ''metered_feature''));
          named = (if metered = [] then limitName else metered);
          label = (if limitName = [] then metered else limitName);
          identifier = (if named = [] then ''additional-'' @ itoa (index + 1) else named);
          label' = (if named = [] then ''Additional weekly limit '' @ itoa (index + 1) else label)
      in newQuotaSource (''additional:'' @ identifier) label'
           (if metered = [] then None else Some metered)
           (as_object (mget ANil item ''rate_limit'')) [identifier, limitName, metered])"

fun additional_sources :: "int \<Rightarrow> goany list \<Rightarrow> quota_source list" where
  "additional_sources index [] = []"
| "additional_sources index (raw # raws) =
     (case as_object raw of
        None \<Rightarrow> additional_sources (index + 1) raws
      | Some item \<Rightarrow> additional_source index item # additional_sources (index + 1) raws)"

text \<open>One slot of one source; \<open>None\<close> is the \<open>continue\<close> of a window that is not weekly.\<close>

definition slot_window ::
  "int option \<Rightarrow> string \<Rightarrow> quota_source \<Rightarrow> goany gomap \<Rightarrow> string \<Rightarrow> weekly_window option" where
  "slot_window applicable reachedDetails source rl slot =
     (let limitReached = boolValue (mget ANil rl ''limit_reached'') False;
          window = as_object (mget ANil rl slot)
      in case nonnegativeInt (field_of window ''limit_window_seconds'') of
           None \<Rightarrow> None
         | Some windowSeconds \<Rightarrow>
             if windowSeconds \<noteq> WeeklyWindowSeconds then None
             else let used = f_max (Fin 0) (f_min (numberValue (field_of window ''used_percent'') (Fin 0)) (Fin 100));
                      reported = round2 used;
                      effective = (if limitReached then Fin 100 else reported);
                      resettable = (f_le (Fin 100) reported \<or>
                        (case applicable of None \<Rightarrow> False | Some n \<Rightarrow>
                           0 < n \<and> limitReached \<and> reachedDetails \<in> set (qs_reachedTypeAlias source)))
                  in Some \<lparr>ww_Key = qs_key source @ '':'' @ slot, ww_Label = qs_label source,
                       ww_MeteredFeature = qs_meteredFeature source, ww_WindowSlot = slot,
                       ww_UsedPercent = effective,
                       ww_RemainingPercent = round2 (f_sub (Fin 100) effective),
                       ww_ReportedUsedPercent = reported,
                       ww_ResetAt = nonnegativeInt (field_of window ''reset_at''),
                       ww_ResetAfterSeconds = nonnegativeInt (field_of window ''reset_after_seconds''),
                       ww_WindowSeconds = windowSeconds, ww_LimitReached = limitReached,
                       ww_Resettable = resettable\<rparr>)"

definition source_windows ::
  "int option \<Rightarrow> string \<Rightarrow> quota_source \<Rightarrow> weekly_window list" where
  "source_windows applicable reachedDetails source =
     (case qs_rateLimit source of None \<Rightarrow> []
      | Some rl \<Rightarrow> List.map_filter (slot_window applicable reachedDetails source rl)
                   [''primary_window'', ''secondary_window''])"

definition payload_windows :: "goany gomap \<Rightarrow> weekly_window list" where
  "payload_windows payload =
     (let applicable = nonnegativeInt (field_of (as_object (mget ANil payload ''rate_limit_reset_credits''))
                                        ''applicable_available_count'');
          reachedDetails = norm_name (as_string
            (field_of (as_object (mget ANil payload ''rate_limit_reached_type'')) ''details''));
          sources = newQuotaSource ''default'' ''Weekly limit'' None
                      (as_object (mget ANil payload ''rate_limit'')) [''default'']
                    # additional_sources 0 (as_list (mget ANil payload ''additional_rate_limits''))
      in concat (map (source_windows applicable reachedDetails) sources))"

definition Normalize :: "string \<Rightarrow> goany gomap \<Rightarrow> account_quota" where
  "Normalize account payload =
     (let result = unavailableAccount account ''weekly_unavailable'';
          planType = trim_space (as_string (mget ANil payload ''plan_type''));
          defaultRateLimit = as_object (mget ANil payload ''rate_limit'');
          resetCredits = as_object (mget ANil payload ''rate_limit_reset_credits'');
          windows = payload_windows payload
      in result\<lparr>aq_PlanType := (if planType = [] then None else Some planType),
                aq_Allowed := as_bool (field_of defaultRateLimit ''allowed''),
                aq_LimitReached := as_bool (field_of defaultRateLimit ''limit_reached''),
                aq_ResetCreditCount := nonnegativeInt (field_of resetCredits ''available_count''),
                aq_WeeklyWindows := windows,
                aq_Status := (if windows = [] then aq_Status result else ''ok''),
                aq_Weekly := (case windows of [] \<Rightarrow> None | w # _ \<Rightarrow> Some w)\<rparr>)"

section \<open>Percentages\<close>

text \<open>Every percentage the code stores is the float closest to a whole number of hundredths.\<close>

definition hundredth :: "int \<Rightarrow> f64" where
  "hundredth k = round64 (of_int k / 100)"

text \<open>At this size a rounding error is below a thousandth, a tenth of what is kept.\<close>

lemma round64_percent:
  assumes "\<bar>q\<bar> \<le> 10001"
  obtains r where "round64 q = Fin r" "\<bar>r - q\<bar> \<le> 1 / 1000"
proof -
  have "\<bar>q\<bar> < 2 ^ 14" using assms by simp
  then obtain r where "round64 q = Fin r" "\<bar>r - q\<bar> \<le> pow2r (int 14 - 53) / 2"
    by (rule round64_bounded) simp
  moreover have "pow2r (int 14 - 53) / 2 \<le> 1 / 1000" by (simp add: pow2r_def)
  ultimately show thesis using that by (meson order_trans)
qed

lemma f_round_near: "\<bar>t - of_int n\<bar> < 1 / 2 \<Longrightarrow> f_round (Fin t) = Fin (of_int n)"
proof -
  assume near: "\<bar>t - of_int n\<bar> < 1 / 2"
  have "\<lfloor>t + 1 / 2\<rfloor> = n" "\<lfloor>- t + 1 / 2\<rfloor> = - n"
    using near unfolding abs_less_iff floor_eq_iff by (linarith | simp; linarith)+
  then show ?thesis by simp
qed

lemma hundredth_val:
  assumes "0 \<le> k" "k \<le> 10000"
  obtains r where "hundredth k = Fin r" "\<bar>r - of_int k / 100\<bar> \<le> 1 / 1000" "0 \<le> r" "r \<le> 100"
proof -
  have "\<bar>of_int k / 100 :: rat\<bar> \<le> 10001" using assms by simp
  then obtain r where r: "round64 (of_int k / 100) = Fin r" and
      near: "\<bar>r - of_int k / 100\<bar> \<le> 1 / 1000"
    by (rule round64_percent)
  have "0 \<le> r \<and> r \<le> 100"
  proof (cases "k = 0 \<or> k = 10000")
    case True
    with r show ?thesis by (auto simp: round64_numeral)
  next
    case False
    with assms have "1 \<le> k" "k \<le> 9999" by auto
    then have "(1 :: rat) \<le> of_int k" "(of_int k :: rat) \<le> 9999" by linarith+
    with near show ?thesis unfolding abs_le_iff by (intro conjI) linarith+
  qed
  with r near that show thesis by (simp add: hundredth_def)
qed

lemma round2_near:
  assumes "\<bar>100 * q - of_int n\<bar> \<le> 1 / 4" "0 \<le> n" "n \<le> 10000"
  shows "round2 (Fin q) = hundredth n"
proof -
  have n: "(0 :: rat) \<le> of_int n" "(of_int n :: rat) \<le> 10000"
    using assms(2,3) by linarith+
  have "\<bar>q * 100\<bar> \<le> 10001" using n assms(1) unfolding abs_less_iff abs_le_iff by linarith
  then obtain t where t: "round64 (q * 100) = Fin t" "\<bar>t - q * 100\<bar> \<le> 1 / 1000"
    by (rule round64_percent)
  have "\<bar>t - of_int n\<bar> < 1 / 2"
    using t(2) assms(1) unfolding abs_le_iff abs_less_iff by linarith
  then show ?thesis by (simp add: round2_def t(1) f_round_near hundredth_def del: f_round.simps)
qed

lemma round2_hundredth:
  assumes "0 \<le> q" "q \<le> 100"
  obtains k where "0 \<le> k" "k \<le> 10000" "round2 (Fin q) = hundredth k"
proof -
  have "\<bar>q * 100\<bar> \<le> 10001" using assms by (simp add: abs_le_iff)
  then obtain t where t: "round64 (q * 100) = Fin t" "\<bar>t - q * 100\<bar> \<le> 1 / 1000"
    by (rule round64_percent)
  define k where "k = (if t < 0 then - \<lfloor>- t + 1 / 2\<rfloor> else \<lfloor>t + 1 / 2\<rfloor>)"
  have t_range: "- (1 / 4) \<le> t" "t \<le> 10000 + 1 / 4"
    using t(2) assms unfolding abs_le_iff by linarith+
  have "0 \<le> k"
  proof (cases "t < 0")
    case True
    with t_range(1) have "\<lfloor>- t + 1 / 2\<rfloor> = 0" by (simp add: floor_eq_iff)
    with True show ?thesis by (simp add: k_def)
  qed (simp add: k_def)
  moreover have "k \<le> 10000"
  proof (cases "t < 0")
    case True
    with t_range(1) have "\<lfloor>- t + 1 / 2\<rfloor> = 0" by (simp add: floor_eq_iff)
    with True show ?thesis by (simp add: k_def)
  next
    case False
    have "\<lfloor>t + 1 / 2\<rfloor> < 10001" using t_range(2) by (simp add: floor_less_iff)
    with False show ?thesis by (simp add: k_def)
  qed
  moreover have "round2 (Fin q) = hundredth k"
    by (simp add: round2_def t(1) k_def [symmetric] hundredth_def)
  ultimately show thesis by (rule that)
qed

text \<open>The complement to 100 is exact: both percentages add up to 10000 hundredths.\<close>

lemma round2_complement:
  assumes "0 \<le> k" "k \<le> 10000"
  shows "round2 (f_sub (Fin 100) (hundredth k)) = hundredth (10000 - k)"
proof -
  obtain r where r: "hundredth k = Fin r" "\<bar>r - of_int k / 100\<bar> \<le> 1 / 1000" "0 \<le> r" "r \<le> 100"
    using assms by (rule hundredth_val)
  have "\<bar>100 - r\<bar> \<le> 10001" using r(3,4) by (simp add: abs_le_iff)
  then obtain s where s: "round64 (100 - r) = Fin s" "\<bar>s - (100 - r)\<bar> \<le> 1 / 1000"
    by (rule round64_percent)
  have "\<bar>100 * s - of_int (10000 - k)\<bar> \<le> 1 / 4"
    using r(2) s(2) unfolding abs_le_iff of_int_diff of_int_numeral by linarith
  then have "round2 (Fin s) = hundredth (10000 - k)"
    by (rule round2_near) (use assms in auto)
  then show ?thesis by (simp add: f_sub_def r(1) s(1))
qed

lemma clamp100_range:
  assumes "finite64 x"
  obtains q where "f_max (Fin 0) (f_min x (Fin 100)) = Fin q" "0 \<le> q" "q \<le> 100"
proof -
  obtain a where a: "x = Fin a" using assms by (auto simp: finite64_iff)
  show thesis
    by (rule that [of "if a < 0 then 0 else if a < 100 then a else 100"])
      (auto simp: a f_max_def f_min_def)
qed

lemma finite_numberValue [simp]: "finite64 d \<Longrightarrow> finite64 (numberValue v d)"
  by (simp add: numberValue_def split: option.split)

lemma nonnegativeInt_nonneg: "nonnegativeInt v = Some i \<Longrightarrow> 0 \<le> i"
  by (auto simp: nonnegativeInt_def finite_int_def clamp_nonneg_def
      split: goany.splits option.splits if_splits)

section \<open>What every window of a normalized account satisfies\<close>

definition percent_ok :: "f64 \<Rightarrow> bool" where
  "percent_ok x \<longleftrightarrow> finite64 x \<and> f_le (Fin 0) x \<and> f_le x (Fin 100)"

definition window_ok :: "weekly_window \<Rightarrow> bool" where
  "window_ok w \<longleftrightarrow>
     (\<exists>k \<in> {0..10000}. ww_ReportedUsedPercent w = hundredth k \<and>
        ww_UsedPercent w = hundredth (if ww_LimitReached w then 10000 else k) \<and>
        ww_RemainingPercent w = hundredth (if ww_LimitReached w then 0 else 10000 - k)) \<and>
     ww_WindowSeconds w = WeeklyWindowSeconds \<and>
     pred_option (\<lambda>i. 0 \<le> i) (ww_ResetAt w) \<and> pred_option (\<lambda>i. 0 \<le> i) (ww_ResetAfterSeconds w)"

lemma percent_ok_hundredth [simp]:
  assumes "0 \<le> k" "k \<le> 10000"
  shows "percent_ok (hundredth k)"
proof -
  obtain r where "hundredth k = Fin r" "0 \<le> r" "r \<le> 100"
    using assms by (rule hundredth_val)
  then show ?thesis by (simp add: percent_ok_def)
qed

lemma hundredth_ends [simp]: "hundredth 0 = Fin 0" "hundredth 10000 = Fin 100"
  by (simp_all add: hundredth_def round64_numeral)

lemma window_ok_percents:
  assumes "window_ok w"
  shows "percent_ok (ww_UsedPercent w)" "percent_ok (ww_RemainingPercent w)"
    "percent_ok (ww_ReportedUsedPercent w)"
proof -
  obtain k where "k \<in> {0..10000}" "ww_ReportedUsedPercent w = hundredth k"
    "ww_UsedPercent w = hundredth (if ww_LimitReached w then 10000 else k)"
    "ww_RemainingPercent w = hundredth (if ww_LimitReached w then 0 else 10000 - k)"
    using assms unfolding window_ok_def by blast
  then show "percent_ok (ww_UsedPercent w)" "percent_ok (ww_RemainingPercent w)"
    "percent_ok (ww_ReportedUsedPercent w)" by (auto simp del: hundredth_ends)
qed

lemma slot_window_ok:
  assumes "slot_window applicable details source rl slot = Some w"
  shows "window_ok w" "ww_Key w = qs_key source @ '':'' @ slot"
proof -
  obtain secs where secs: "nonnegativeInt (field_of (as_object (mget ANil rl slot)) ''limit_window_seconds'') = Some secs"
      "secs = WeeklyWindowSeconds"
    using assms by (auto simp: slot_window_def Let_def split: option.splits if_splits)
  let ?x = "numberValue (field_of (as_object (mget ANil rl slot)) ''used_percent'') (Fin 0)"
  obtain q where q: "f_max (Fin 0) (f_min ?x (Fin 100)) = Fin q" "0 \<le> q" "q \<le> 100"
    by (rule clamp100_range [of ?x]) simp
  obtain k where k: "0 \<le> k" "k \<le> 10000" "round2 (Fin q) = hundredth k"
    using q(2,3) by (rule round2_hundredth)
  have full: "round2 (f_sub (Fin 100) (Fin 100)) = Fin 0"
    using round2_complement [of 10000] by simp
  from assms secs q(1) k full show "window_ok w"
    by (auto simp: slot_window_def Let_def window_ok_def round2_complement option.pred_set
        nonnegativeInt_nonneg intro!: bexI [of _ k])
  from assms secs show "ww_Key w = qs_key source @ '':'' @ slot"
    by (auto simp: slot_window_def Let_def split: option.splits)
qed

lemma source_windows_mem:
  assumes "w \<in> set (source_windows applicable details source)"
  obtains rl slot where "qs_rateLimit source = Some rl"
    "slot = ''primary_window'' \<or> slot = ''secondary_window''"
    "slot_window applicable details source rl slot = Some w"
proof -
  from assms obtain rl where "qs_rateLimit source = Some rl"
      "w \<in> set (List.map_filter (slot_window applicable details source rl)
         [''primary_window'', ''secondary_window''])"
    by (auto simp only: source_windows_def list.set(1) empty_iff split: option.splits)
  with that show thesis by (simp only: set_map_filter list.set) blast
qed

lemma additional_sources_key:
  "source \<in> set (additional_sources i raws) \<Longrightarrow> \<exists>name. qs_key source = ''additional:'' @ name \<and> name \<noteq> []"
  by (induction i raws rule: additional_sources.induct)
    (auto simp: additional_source_def newQuotaSource_def Let_def split: option.splits if_splits)

definition default_source :: "goany gomap \<Rightarrow> quota_source" where
  "default_source payload = newQuotaSource ''default'' ''Weekly limit'' None
     (as_object (mget ANil payload ''rate_limit'')) [''default'']"

lemma payload_windows_split:
  obtains applicable details where "payload_windows payload =
     source_windows applicable details (default_source payload) @
     concat (map (source_windows applicable details)
       (additional_sources 0 (as_list (mget ANil payload ''additional_rate_limits''))))"
  by (simp add: payload_windows_def Let_def default_source_def)

lemma Normalize_simps [simp]:
  "aq_Account (Normalize account payload) = account"
  "aq_WeeklyWindows (Normalize account payload) = payload_windows payload"
  "aq_Status (Normalize account payload) =
     (if payload_windows payload = [] then ''weekly_unavailable'' else ''ok'')"
  "aq_Weekly (Normalize account payload) =
     (case payload_windows payload of [] \<Rightarrow> None | w # _ \<Rightarrow> Some w)"
  by (simp_all add: Normalize_def Let_def unavailableAccount_def)

lemma payload_window_ok:
  assumes "w \<in> set (payload_windows payload)"
  shows "window_ok w"
proof -
  obtain applicable details source where "w \<in> set (source_windows applicable details source)"
    using assms by (rule_tac payload_windows_split [of payload]) auto
  then show ?thesis by (auto elim: source_windows_mem dest: slot_window_ok(1))
qed

text \<open>
  Whatever the upstream payload contains (missing fields, wrong JSON types, negative or huge or
  non-finite numbers), every weekly window \<open>Normalize\<close> produces carries percentages that are whole
  hundredths between 0 and 100, the used and the remaining one adding up to exactly 10000
  hundredths; a window whose limit is reached counts as fully used; the window is a weekly one and
  its reset times are not negative.
\<close>

theorem normalize_percentages:
  "\<forall>w \<in> set (aq_WeeklyWindows (Normalize account payload)). window_ok w \<and>
     percent_ok (ww_UsedPercent w) \<and> percent_ok (ww_RemainingPercent w)"
  by (auto dest: payload_window_ok window_ok_percents)

definition ex_payload :: "goany gomap" where
  "ex_payload =
     [(''rate_limit'', AObject [(''limit_reached'', ABool True),
         (''primary_window'', AObject [(''limit_window_seconds'', AInt 18000)]),
         (''secondary_window'', AObject [(''limit_window_seconds'', AInt 604800),
            (''used_percent'', AFloat (Fin (- 3))), (''reset_at'', AInt (- 5))])])]"

lemmas ex_payload_eval = ex_payload_def payload_windows_def Let_def source_windows_def
  slot_window_def field_of_def as_object_def as_list_def as_string_def mget_def nonnegativeInt_def
  clamp_nonneg_def WeeklyWindowSeconds_def boolValue_def as_bool_def numberValue_def number_of_def
  map_filter_def f_max_def f_min_def

lemma ex_payload_windows:
  "map ww_Key (payload_windows ex_payload) = [''default:secondary_window'']"
  "map ww_UsedPercent (payload_windows ex_payload) = [Fin 100]"
  by (simp_all add: ex_payload_eval newQuotaSource_def round2_def)

theorem normalize_percentages_witness:
  "aq_WeeklyWindows (Normalize ''a'' ex_payload) \<noteq> [] \<and>
   list_all (\<lambda>w. window_ok w \<and> percent_ok (ww_UsedPercent w) \<and> percent_ok (ww_RemainingPercent w))
     (aq_WeeklyWindows (Normalize ''a'' ex_payload))"
  using normalize_percentages [of "''a''" ex_payload] ex_payload_windows(1) by (auto simp: list_all_iff)

end
