(* ===== verification/Account_States.thy ===== *)
theory Account_States
  imports Failover_Planner Quota_Normalize Control_Store
begin

text \<open>
  \<open>internal/failover/quota_states.go\<close>, \<open>internal/failover/providers.go\<close> and the persisted
  \<open>RuntimeState\<close> of \<open>controller.go\<close>: how a quota snapshot becomes the routing capacity of the
  accounts, how that capacity is persisted, and how it is read back, failing closed at every step.
\<close>

section \<open>BuildAccountStates\<close>

definition defaultAccountStateStaleAfter :: int where
  "defaultAccountStateStaleAfter = 120 * second"

definition default_key :: "string \<Rightarrow> bool" where
  "default_key k \<longleftrightarrow> has_prefix ''default:'' k"

definition defaultWeeklyWindow :: "account_quota \<Rightarrow> weekly_window option" where
  "defaultWeeklyWindow q =
     (case aq_Weekly q of
        Some w \<Rightarrow> if ww_Key w = [] \<or> default_key (ww_Key w) then Some w
                  else find (\<lambda>w. default_key (ww_Key w)) (aq_WeeklyWindows q)
      | None \<Rightarrow> find (\<lambda>w. default_key (ww_Key w)) (aq_WeeklyWindows q))"

definition zero_quota :: account_quota where
  "zero_quota = unavailableAccount [] []"

text \<open>The quotas by account name; a later entry of the same account wins.\<close>

definition quota_map :: "account_quota list \<Rightarrow> account_quota gomap" where
  "quota_map qs = foldl (\<lambda>m q. if aq_Account q \<noteq> [] then mput (aq_Account q) q m else m) [] qs"

definition capacity_reason ::
  "bool \<Rightarrow> bool \<Rightarrow> bool \<Rightarrow> bool \<Rightarrow> bool \<Rightarrow> bool \<Rightarrow> bool \<Rightarrow> f64 \<Rightarrow> string" where
  "capacity_reason exhausted enabled running oauthConfigured fresh available allowed headroom =
     (if exhausted then ''quota_exhausted''
      else if \<not> enabled then ''account_disabled''
      else if \<not> running then ''container_not_running''
      else if \<not> oauthConfigured then ''oauth_missing''
      else if \<not> fresh then ''quota_stale''
      else if \<not> available then ''quota_unavailable''
      else if \<not> allowed then ''upstream_disallowed''
      else if f_le headroom (Fin 0) then ''reserve_reached''
      else ''available'')"

definition quota_exhausted :: "bool \<Rightarrow> bool \<Rightarrow> account_quota \<Rightarrow> bool" where
  "quota_exhausted fresh found q \<longleftrightarrow> fresh \<and> found \<and> aq_Status q = ''ok'' \<and>
     (aq_LimitReached q = Some True \<or>
      (case defaultWeeklyWindow q of None \<Rightarrow> False
       | Some w \<Rightarrow> ww_LimitReached w \<or> f_le (Fin 100) (ww_UsedPercent w)))"

definition headroom_of :: "account_quota \<Rightarrow> f64 \<Rightarrow> f64" where
  "headroom_of q reservePercent =
     (case defaultWeeklyWindow q of None \<Rightarrow> Fin 0
      | Some w \<Rightarrow> f_max (Fin 0) (f_sub (ww_RemainingPercent w) reservePercent))"

definition capacity_of ::
  "account \<Rightarrow> account_quota option \<Rightarrow> bool \<Rightarrow> bool \<Rightarrow> f64 \<Rightarrow> int \<Rightarrow> account_state" where
  "capacity_of account accountQuota running fresh reservePercent observedAt =
     (let found = (accountQuota \<noteq> None);
          q = (case accountQuota of Some q \<Rightarrow> q | None \<Rightarrow> zero_quota);
          weekly = defaultWeeklyWindow q;
          used = map_option ww_UsedPercent weekly;
          remaining = map_option ww_RemainingPercent weekly;
          exhausted = quota_exhausted fresh found q;
          headroom = headroom_of q reservePercent;
          oauthConfigured = (found \<and> aq_Status q \<noteq> ''auth_missing'');
          allowed = (aq_Allowed q = None \<or> aq_Allowed q = Some True);
          eligible = (ac_GroupEnabled account \<and> running \<and> oauthConfigured \<and> fresh \<and>
            aq_Status q = ''ok'' \<and> weekly \<noteq> None \<and> allowed \<and> \<not> exhausted \<and> f_lt (Fin 0) headroom)
      in \<lparr>as_Account = ac_ID account, as_Eligible = eligible, as_Exhausted = exhausted,
          as_Reason = capacity_reason exhausted (ac_GroupEnabled account) running oauthConfigured fresh
            (found \<and> aq_Status q = ''ok'' \<and> weekly \<noteq> None) allowed headroom,
          as_UsedPercent = used, as_RemainingPercent = remaining, as_Headroom = headroom,
          as_ResetAt = (case weekly of None \<Rightarrow> 0 | Some w \<Rightarrow> (case ww_ResetAt w of None \<Rightarrow> 0 | Some t \<Rightarrow> t)),
          as_ObservedAt = observedAt\<rparr>)"

definition stale_after_or_default :: "int \<Rightarrow> int" where
  "stale_after_or_default staleAfter =
     (if staleAfter < 5 * second \<or> 86400 * second < staleAfter then defaultAccountStateStaleAfter
      else staleAfter)"

definition reserve_or_default :: "f64 \<Rightarrow> f64" where
  "reserve_or_default r = (if \<not> finite64 r \<or> f_lt r (Fin 0) \<or> f_lt (Fin 50) r then Fin 5 else r)"

definition snapshot_fresh :: "int \<Rightarrow> int \<Rightarrow> int \<Rightarrow> bool" where
  "snapshot_fresh observedAt now staleAfter =
     (let age = sub64 (unix_of now) observedAt
      in 0 < observedAt \<and> - 30 \<le> age \<and> age \<le> seconds_of staleAfter)"

definition BuildAccountStates ::
  "account list \<Rightarrow> snapshot \<Rightarrow> bool gomap \<Rightarrow> int \<Rightarrow> int \<Rightarrow> f64 \<Rightarrow> account_state gomap" where
  "BuildAccountStates accounts snap running now staleAfter reservePercent =
     (let observedAt = sn_GeneratedAt snap;
          fresh = snapshot_fresh observedAt now (stale_after_or_default staleAfter);
          quotas = quota_map (sn_Accounts snap)
      in foldl (\<lambda>m a. mput (ac_ID a)
           (capacity_of a (map_of quotas (ac_ID a)) (mget False running (ac_ID a)) fresh
              (reserve_or_default reservePercent) observedAt) m) [] accounts)"

section \<open>The persisted controller state\<close>

record plan_summary =
  ps_Sources :: "int gomap"
  ps_Destinations :: "int gomap"
  ps_CandidateAccounts :: "string list"
  ps_AffectedUsers :: int
  ps_PlannedUsers :: int
  ps_SkippedUsers :: int
  ps_UnassignedUsers :: int

record action_summary =
  at_At :: int
  at_Trigger :: string
  at_Sources :: "int gomap"
  at_Destinations :: "int gomap"
  at_MovedUsers :: int
  at_SnapshotGeneration :: string

record runtime_state =
  rt_Version :: int
  rt_Mode :: string
  rt_HeartbeatAt :: "int option"
  rt_LastCheckAt :: "int option"
  rt_LastSuccessAt :: "int option"
  rt_NextCheckAt :: "int option"
  rt_QuotaRefreshing :: bool
  rt_LastError :: string
  rt_Accounts :: "account_state gomap"
  rt_LastPlan :: "plan_summary option"
  rt_LastAction :: "action_summary option"

definition RuntimeStateVersion :: int where "RuntimeStateVersion = 1"

definition RuntimeStateName :: string where "RuntimeStateName = ''account_failover''"

definition DefaultRuntimeState :: runtime_state where
  "DefaultRuntimeState = \<lparr>rt_Version = RuntimeStateVersion, rt_Mode = ModeOff, rt_HeartbeatAt = None,
     rt_LastCheckAt = None, rt_LastSuccessAt = None, rt_NextCheckAt = None, rt_QuotaRefreshing = False,
     rt_LastError = [], rt_Accounts = [], rt_LastPlan = None, rt_LastAction = None\<rparr>"

subsection \<open>JSON form\<close>

definition state_json :: "account_state \<Rightarrow> goany" where
  "state_json s = AObject [(''account'', AString (as_Account s)), (''eligible'', ABool (as_Eligible s)),
     (''exhausted'', ABool (as_Exhausted s)), (''reason'', AString (as_Reason s)),
     (''used_percent'', enc_float_ptr (as_UsedPercent s)),
     (''remaining_percent'', enc_float_ptr (as_RemainingPercent s)),
     (''headroom'', AFloat (as_Headroom s)), (''reset_at'', AInt64 (as_ResetAt s)),
     (''observed_at'', AInt64 (as_ObservedAt s))]"

definition state_of_object :: "goany gomap \<Rightarrow> account_state option" where
  "state_of_object m =
     (case (dec_string m ''account'', dec_bool m ''eligible'', dec_bool m ''exhausted'',
            dec_string m ''reason'', dec_float_ptr m ''used_percent'',
            dec_float_ptr m ''remaining_percent'', dec_float m ''headroom'', dec_int m ''reset_at'',
            dec_int m ''observed_at'') of
        (Some a, Some e, Some x, Some r, Some u, Some p, Some h, Some t, Some ob) \<Rightarrow>
          Some \<lparr>as_Account = a, as_Eligible = e, as_Exhausted = x, as_Reason = r, as_UsedPercent = u,
                as_RemainingPercent = p, as_Headroom = h, as_ResetAt = t, as_ObservedAt = ob\<rparr>
      | _ \<Rightarrow> None)"

definition plan_json :: "plan_summary \<Rightarrow> goany" where
  "plan_json p = AObject [(''sources'', enc_map AInt64 (ps_Sources p)),
     (''destinations'', enc_map AInt64 (ps_Destinations p)),
     (''candidate_accounts'', AList (map AString (ps_CandidateAccounts p))),
     (''affected_users'', AInt64 (ps_AffectedUsers p)), (''planned_users'', AInt64 (ps_PlannedUsers p)),
     (''skipped_users'', AInt64 (ps_SkippedUsers p)), (''unassigned_users'', AInt64 (ps_UnassignedUsers p))]"

definition plan_of_object :: "goany gomap \<Rightarrow> plan_summary option" where
  "plan_of_object m =
     (case (dec_map dec_int_of m ''sources'', dec_map dec_int_of m ''destinations'',
            dec_list dec_string_of m ''candidate_accounts'', dec_int m ''affected_users'',
            dec_int m ''planned_users'', dec_int m ''skipped_users'', dec_int m ''unassigned_users'') of
        (Some s, Some t, Some c, Some a, Some p, Some k, Some u) \<Rightarrow>
          Some \<lparr>ps_Sources = s, ps_Destinations = t, ps_CandidateAccounts = c, ps_AffectedUsers = a,
                ps_PlannedUsers = p, ps_SkippedUsers = k, ps_UnassignedUsers = u\<rparr>
      | _ \<Rightarrow> None)"

definition action_json :: "action_summary \<Rightarrow> goany" where
  "action_json a = AObject [(''at'', AInt64 (at_At a)), (''trigger'', AString (at_Trigger a)),
     (''sources'', enc_map AInt64 (at_Sources a)), (''destinations'', enc_map AInt64 (at_Destinations a)),
     (''moved_users'', AInt64 (at_MovedUsers a)),
     (''snapshot_generation'', AString (at_SnapshotGeneration a))]"

definition action_of_object :: "goany gomap \<Rightarrow> action_summary option" where
  "action_of_object m =
     (case (dec_int m ''at'', dec_string m ''trigger'', dec_map dec_int_of m ''sources'',
            dec_map dec_int_of m ''destinations'', dec_int m ''moved_users'',
            dec_string m ''snapshot_generation'') of
        (Some a, Some t, Some s, Some x, Some n, Some g) \<Rightarrow>
          Some \<lparr>at_At = a, at_Trigger = t, at_Sources = s, at_Destinations = x, at_MovedUsers = n,
                at_SnapshotGeneration = g\<rparr>
      | _ \<Rightarrow> None)"

definition runtime_json :: "runtime_state \<Rightarrow> goany" where
  "runtime_json s = AObject [(''version'', AInt64 (rt_Version s)), (''mode'', AString (rt_Mode s)),
     (''heartbeat_at'', enc_int_ptr (rt_HeartbeatAt s)), (''last_check_at'', enc_int_ptr (rt_LastCheckAt s)),
     (''last_success_at'', enc_int_ptr (rt_LastSuccessAt s)), (''next_check_at'', enc_int_ptr (rt_NextCheckAt s)),
     (''quota_refreshing'', ABool (rt_QuotaRefreshing s)), (''last_error'', AString (rt_LastError s)),
     (''accounts'', enc_map state_json (rt_Accounts s)), (''last_plan'', enc_ptr plan_json (rt_LastPlan s)),
     (''last_action'', enc_ptr action_json (rt_LastAction s))]"

definition runtime_of_object :: "goany gomap \<Rightarrow> runtime_state option" where
  "runtime_of_object m =
     (case (dec_int m ''version'', dec_string m ''mode'', dec_int_ptr m ''heartbeat_at'',
            dec_int_ptr m ''last_check_at'', dec_int_ptr m ''last_success_at'',
            dec_int_ptr m ''next_check_at'') of
        (Some v, Some mo, Some h, Some c, Some s, Some n) \<Rightarrow>
          (case (dec_bool m ''quota_refreshing'', dec_string m ''last_error'',
                 dec_map (dec_struct_of zero_account_state state_of_object) m ''accounts'',
                 dec_ptr plan_of_object m ''last_plan'', dec_ptr action_of_object m ''last_action'') of
             (Some q, Some e, Some a, Some p, Some x) \<Rightarrow>
               Some \<lparr>rt_Version = v, rt_Mode = mo, rt_HeartbeatAt = h, rt_LastCheckAt = c,
                     rt_LastSuccessAt = s, rt_NextCheckAt = n, rt_QuotaRefreshing = q, rt_LastError = e,
                     rt_Accounts = a, rt_LastPlan = p, rt_LastAction = x\<rparr>
           | _ \<Rightarrow> None)
      | _ \<Rightarrow> None)"

subsection \<open>ReadRuntimeState\<close>

text \<open>
  The store call is its result: an error, no row, or the document of the row. The function name is
  \<open>ReadRuntimeState\<close> of package \<open>failover\<close>, distinct from the store's method.
\<close>

definition normalize_runtime :: "runtime_state \<Rightarrow> runtime_state" where
  "normalize_runtime s =
     (if rt_Mode s \<noteq> ModeOff \<and> rt_Mode s \<noteq> ModeActive then s\<lparr>rt_Mode := ModeOff\<rparr> else s)"

definition ReadFailoverState :: "gerr + json option \<Rightarrow> gerr + runtime_state \<times> bool" where
  "ReadFailoverState stored =
     (case stored of
        Inl e \<Rightarrow> Inl (wrapf ''read account failover runtime state: '' e)
      | Inr None \<Rightarrow> Inr (DefaultRuntimeState, False)
      | Inr (Some raw) \<Rightarrow>
          (case (case raw of Some (AObject m) \<Rightarrow> runtime_of_object m | _ \<Rightarrow> None) of
             None \<Rightarrow> Inr (DefaultRuntimeState, True)
           | Some persisted \<Rightarrow>
               if rt_Version persisted \<noteq> RuntimeStateVersion then Inr (DefaultRuntimeState, True)
               else Inr (normalize_runtime persisted, True)))"

section \<open>RuntimeStateProvider\<close>

definition unavailableAccountState :: "string \<Rightarrow> string \<Rightarrow> account_state" where
  "unavailableAccountState account reason = zero_account_state\<lparr>as_Account := account, as_Reason := reason\<rparr>"

definition pct_invalid :: "f64 option \<Rightarrow> bool" where
  "pct_invalid p = (case p of None \<Rightarrow> False
     | Some v \<Rightarrow> \<not> finite64 v \<or> f_lt v (Fin 0) \<or> f_lt (Fin 100) v)"

definition validateAccountState :: "account_state \<Rightarrow> gerr option" where
  "validateAccountState s =
     (if f_lt (as_Headroom s) (Fin 0) \<or> \<not> finite64 (as_Headroom s) then Some (ErrNew ''headroom is invalid'')
      else if pct_invalid (as_UsedPercent s) then Some (ErrNew ''used_percent is invalid'')
      else if pct_invalid (as_RemainingPercent s) then Some (ErrNew ''remaining_percent is invalid'')
      else None)"

text \<open>\<open>time.Duration(seconds * float64(time.Second))\<close> truncates.\<close>

definition durationSetting :: "goany \<Rightarrow> int \<Rightarrow> int" where
  "durationSetting value fallback =
     (let seconds = (case setting_number value of None \<Rightarrow> Fin 0 | Some f \<Rightarrow> f)
      in if \<not> finite64 seconds \<or> f_lt seconds (Fin 5) \<or> f_lt (Fin 86400) seconds then fallback
         else f_to_int64 (f_mul seconds (f_of_int second)))"

definition percentageSetting :: "goany \<Rightarrow> f64 \<Rightarrow> f64" where
  "percentageSetting value fallback =
     (case setting_number value of None \<Rightarrow> fallback
      | Some r \<Rightarrow> if \<not> finite64 r \<or> f_lt r (Fin 0) \<or> f_lt (Fin 50) r then fallback else r)"

definition modeSetting :: "goany \<Rightarrow> mode" where
  "modeSetting value =
     (case value of AString raw \<Rightarrow>
        if trim_space raw = [] then ModeActive
        else (case ParseMode raw of Inl _ \<Rightarrow> ModeOff | Inr mode \<Rightarrow> mode)
      | _ \<Rightarrow> ModeActive)"

definition age_guard :: "account \<Rightarrow> int \<Rightarrow> int \<Rightarrow> account_state \<Rightarrow> account_state" where
  "age_guard account now staleAfter s =
     (if \<not> ac_GroupEnabled account
      then s\<lparr>as_Eligible := False, as_Headroom := Fin 0, as_Reason := ''account_disabled''\<rparr>
      else if as_ObservedAt s \<le> 0 \<or> add64 now 30 < as_ObservedAt s \<or>
              seconds_of staleAfter < sub64 now (as_ObservedAt s)
      then s\<lparr>as_Eligible := False, as_Headroom := Fin 0, as_Reason := ''quota_stale''\<rparr>
      else s)"

fun provide_states ::
  "account list \<Rightarrow> runtime_state \<Rightarrow> bool \<Rightarrow> int \<Rightarrow> int \<Rightarrow> account_state gomap \<Rightarrow> gerr + account_state gomap" where
  "provide_states [] persisted found now staleAfter result = Inr result"
| "provide_states (account # accounts) persisted found now staleAfter result =
     (case (if \<not> found \<or> rt_LastError persisted \<noteq> [] then None
            else map_of (rt_Accounts persisted) (ac_ID account)) of
        None \<Rightarrow> provide_states accounts persisted found now staleAfter
                  (mput (ac_ID account) (unavailableAccountState (ac_ID account) ''quota_unavailable'') result)
      | Some s \<Rightarrow>
          (let s = s\<lparr>as_Account := ac_ID account\<rparr>
           in case validateAccountState s of
                Some e \<Rightarrow> Inl (wrapf (''invalid persisted account state for '' @ ac_ID account @ '': '') e)
              | None \<Rightarrow> provide_states accounts persisted found now staleAfter
                          (mput (ac_ID account) (age_guard account now staleAfter s) result)))"

text \<open>\<open>AccountStates\<close>: the reads of the store in order, then the loop over the accounts.\<close>

definition AccountStates ::
  "(gerr + account list) \<Rightarrow> (gerr + goany gomap) \<Rightarrow> (gerr + json option) \<Rightarrow> int \<Rightarrow> gerr + account_state gomap" where
  "AccountStates accountsRead settingsRead stored now =
     (case accountsRead of Inl e \<Rightarrow> Inl (wrapf ''read account state catalog: '' e)
      | Inr accounts \<Rightarrow>
     (case settingsRead of Inl e \<Rightarrow> Inl (wrapf ''read account state settings: '' e)
      | Inr settings \<Rightarrow>
     (case ReadFailoverState stored of Inl e \<Rightarrow> Inl e
      | Inr (persisted, found) \<Rightarrow>
          provide_states accounts persisted found (unix_of now)
            (durationSetting (mget ANil settings ''account_failover.stale_after_seconds'')
               defaultAccountStateStaleAfter) [])))"

end
