(* ===== verification/Control_Routes.thy ===== *)
theory Control_Routes
  imports Control_Store
begin

text \<open>
  \<open>internal/controlplane/routes.go\<close>: applying and restoring user routes in one transaction, and the
  readers of accounts, routes and key records of \<open>records.go\<close>. A route moves only if the user's
  current route is the expected one, the target account exists and the user's one secret is active
  on the target.
\<close>

section \<open>Readers\<close>

definition account_of_row :: "account_row \<Rightarrow> account" where
  "account_of_row r = \<lparr>ac_ID = ar_id r, ac_Email = ar_email r, ac_Port = ar_port r,
     ac_ProxyMode = (if ar_proxy_mode r = [] then ''inherit'' else ar_proxy_mode r),
     ac_CreatedAt = ar_created_at r, ac_GroupEnabled = (ar_group_enabled r \<noteq> 0),
     ac_DefaultGroup = (ar_default_group r \<noteq> 0)\<rparr>"

definition row_less :: "account_row \<Rightarrow> account_row \<Rightarrow> bool" where
  "row_less a b \<longleftrightarrow> ar_position a < ar_position b \<or> ar_position a = ar_position b \<and> ar_id a < ar_id b"

definition ReadAccounts :: "env \<Rightarrow> db \<Rightarrow> gerr + account list" where
  "ReadAccounts env d = attempt env (SqlRead ''accounts'' []) ''read control-plane accounts: ''
     (map account_of_row (sort_slice row_less (db_accounts d)))"

text \<open>The rows arrive ordered by user; a later row of the same user would win.\<close>

definition ReadRoutes :: "env \<Rightarrow> db \<Rightarrow> gerr + string gomap" where
  "ReadRoutes env d = attempt env (SqlRead ''user_routes'' []) ''read control-plane user routes: ''
     (db_user_routes d)"

definition ReadKeyRecords :: "env \<Rightarrow> db \<Rightarrow> gerr + key_record list" where
  "ReadKeyRecords env d = attempt env (SqlRead ''key_records'' []) ''read control-plane key records: ''
     (db_key_records d)"

section \<open>ApplyRoutesExpected\<close>

definition ErrRouteConflict :: gerr where "ErrRouteConflict = Sentinel ''user route conflict''"
definition ErrRouteTargetNotFound :: gerr where
  "ErrRouteTargetNotFound = Sentinel ''route target account not found''"
definition ErrRouteUserNotFound :: gerr where
  "ErrRouteUserNotFound = Sentinel ''route user not found''"
definition ErrRouteUserUnsafe :: gerr where
  "ErrRouteUserUnsafe = Sentinel ''route user is not safe to migrate''"

text \<open>\<open>RouteConflictError\<close> unwraps to \<open>ErrRouteConflict\<close> and prints the users after it.\<close>

definition RouteConflictError :: "string list \<Rightarrow> gerr" where
  "RouteConflictError users = ErrWrap [] ErrRouteConflict ('': '' @ join_with '', '' users)"

record route_update =
  ru_MovedUsers :: int
  ru_Destinations :: "int gomap"

text \<open>The normalized input: users in order of appearance, targets and expected routes by user.\<close>

record route_input =
  ri_users :: "string list"
  ri_assignments :: "string gomap"
  ri_expected :: "string gomap"

definition empty_input :: route_input where
  "empty_input = \<lparr>ri_users = [], ri_assignments = [], ri_expected = []\<rparr>"

definition lookup_raw_or_normal :: "string gomap \<Rightarrow> string \<Rightarrow> string \<Rightarrow> string option" where
  "lookup_raw_or_normal m raw user = (case map_of m raw of None \<Rightarrow> map_of m user | Some v \<Rightarrow> Some v)"

definition add_input :: "string \<Rightarrow> string \<Rightarrow> string \<Rightarrow> route_input \<Rightarrow> route_input" where
  "add_input user target expected i =
     i\<lparr>ri_users := (if map_of (ri_assignments i) user = None then ri_users i @ [user] else ri_users i),
       ri_assignments := mput user target (ri_assignments i),
       ri_expected := mput user (trim_space expected) (ri_expected i)\<rparr>"

fun normalize_apply ::
  "string gomap \<Rightarrow> (string \<times> string) list \<Rightarrow> route_input \<Rightarrow> gerr + route_input" where
  "normalize_apply expectedRoutes [] i = Inr i"
| "normalize_apply expectedRoutes ((rawUser, rawTarget) # rest) i =
     (if norm_name rawUser = [] \<or> trim_space rawTarget = []
      then Inl (ErrWrap [] ErrInvalidCatalogInput '': route user and target are required'')
      else case lookup_raw_or_normal expectedRoutes rawUser (norm_name rawUser) of
             None \<Rightarrow> Inl (ErrWrap [] ErrInvalidCatalogInput
                        ('': expected route is required for '' @ norm_name rawUser))
           | Some expected \<Rightarrow>
               normalize_apply expectedRoutes rest
                 (add_input (norm_name rawUser) (trim_space rawTarget) expected i))"

text \<open>The target accounts of the assignments, each checked once.\<close>

fun check_targets :: "env \<Rightarrow> string list \<Rightarrow> db \<Rightarrow> gerr option" where
  "check_targets env [] d = None"
| "check_targets env (t # ts) d =
     (case attempt env (SqlRead ''accounts'' t) (''validate route target '' @ t @ '': '')
             (t \<in> ar_id ` set (db_accounts d)) of
        Inl e \<Rightarrow> Some e
      | Inr found \<Rightarrow> if \<not> found then Some (ErrWrap [] ErrRouteTargetNotFound ('': '' @ t))
                     else check_targets env ts d)"

definition active_rows :: "string \<Rightarrow> db \<Rightarrow> key_record list" where
  "active_rows user d = filter (\<lambda>r. kr_User r = user \<and> kr_Status r = ''active'') (db_key_records d)"

definition read_current :: "env \<Rightarrow> string \<Rightarrow> string \<Rightarrow> db \<Rightarrow> gerr + string" where
  "read_current env text user d =
     attempt env (SqlRead ''user_routes'' user) (text @ user @ '': '') (mget [] (db_user_routes d) user)"

definition check_user :: "env \<Rightarrow> route_input \<Rightarrow> string \<Rightarrow> db \<Rightarrow> gerr + string" where
  "check_user env i user d =
     (case attempt env (SqlRead ''key_records'' user) (''validate route user '' @ user @ '': '')
             (active_rows user d) of
        Inl e \<Rightarrow> Inl e
      | Inr rows \<Rightarrow>
          if rows = [] then Inl (ErrWrap [] ErrRouteUserNotFound ('': '' @ user))
          else let secrets = foldl (\<lambda>s r. set_add (kr_Key r) s) [] rows;
                   targetAvailable = list_ex (\<lambda>r. kr_Account r = mget [] (ri_assignments i) user) rows
               in if length secrets \<noteq> 1 \<or> \<not> targetAvailable
                  then Inl (ErrWrap [] ErrRouteUserUnsafe ('': '' @ user))
                  else read_current env ''read current route for '' user d)"

fun check_users ::
  "env \<Rightarrow> route_input \<Rightarrow> string list \<Rightarrow> db \<Rightarrow> string list \<times> string gomap \<Rightarrow>
     gerr + string list \<times> string gomap" where
  "check_users env i [] d acc = Inr acc"
| "check_users env i (user # users) d (conflicts, currentRoutes) =
     (case check_user env i user d of
        Inl e \<Rightarrow> Inl e
      | Inr current \<Rightarrow> check_users env i users d
          (if current \<noteq> mget [] (ri_expected i) user then conflicts @ [user] else conflicts,
           mput user current currentRoutes))"

definition upsert_route :: "env \<Rightarrow> string \<Rightarrow> string \<Rightarrow> string \<Rightarrow> db \<Rightarrow> gerr + db" where
  "upsert_route env text user account d =
     attempt env (SqlWrite ''user_routes'' user) (text @ user @ '': '')
       (d\<lparr>db_user_routes := mput user account (db_user_routes d)\<rparr>)"

fun write_routes ::
  "env \<Rightarrow> route_input \<Rightarrow> string gomap \<Rightarrow> string list \<Rightarrow> db \<Rightarrow> route_update \<Rightarrow> gerr + route_update \<times> db" where
  "write_routes env i currentRoutes [] d r = Inr (r, d)"
| "write_routes env i currentRoutes (user # users) d r =
     (let target = mget [] (ri_assignments i) user
      in if mget [] currentRoutes user = target then write_routes env i currentRoutes users d r
         else case upsert_route env ''update route for '' user target d of
                Inl e \<Rightarrow> Inl e
              | Inr d' \<Rightarrow> write_routes env i currentRoutes users d'
                  (r\<lparr>ru_MovedUsers := ru_MovedUsers r + 1,
                     ru_Destinations := mincr target (ru_Destinations r)\<rparr>))"

definition empty_update :: route_update where
  "empty_update = \<lparr>ru_MovedUsers = 0, ru_Destinations = []\<rparr>"

definition apply_in_tx :: "env \<Rightarrow> route_input \<Rightarrow> db \<Rightarrow> gerr + route_update \<times> db" where
  "apply_in_tx env i d =
     (case check_targets env (remdups (map snd (ri_assignments i))) d of Some e \<Rightarrow> Inl e
      | None \<Rightarrow>
     (case check_users env i (sort (ri_users i)) d ([], []) of Inl e \<Rightarrow> Inl e
      | Inr (conflicts, currentRoutes) \<Rightarrow>
          if conflicts \<noteq> [] then Inl (RouteConflictError conflicts)
          else write_routes env i currentRoutes (sort (ri_users i)) d empty_update))"

definition ApplyRoutesExpected ::
  "fence \<Rightarrow> env \<Rightarrow> string gomap \<Rightarrow> string gomap \<Rightarrow> db \<Rightarrow> (gerr + route_update) \<times> db" where
  "ApplyRoutesExpected fence env assignments expectedRoutes d =
     (case normalize_apply expectedRoutes assignments empty_input of Inl e \<Rightarrow> (Inl e, d)
      | Inr i \<Rightarrow> if ri_users i = [] then (Inr empty_update, d)
                 else writeTransaction fence env (apply_in_tx env i) d)"

section \<open>RestoreRoutesExpected\<close>

text \<open>Here \<open>ri_assignments\<close> holds the original routes and \<open>ri_expected\<close> the expected current ones.\<close>

fun normalize_restore ::
  "string gomap \<Rightarrow> (string \<times> string) list \<Rightarrow> route_input \<Rightarrow> gerr + route_input" where
  "normalize_restore expectedCurrent [] i = Inr i"
| "normalize_restore expectedCurrent ((rawUser, original) # rest) i =
     (if norm_name rawUser = []
      then Inl (ErrWrap [] ErrInvalidCatalogInput '': rollback route user is required'')
      else case lookup_raw_or_normal expectedCurrent rawUser (norm_name rawUser) of
             None \<Rightarrow> Inl (ErrWrap [] ErrInvalidCatalogInput
                        ('': rollback expected route is required for '' @ norm_name rawUser))
           | Some expected \<Rightarrow>
               if trim_space expected = []
               then Inl (ErrWrap [] ErrInvalidCatalogInput
                      ('': rollback expected route is required for '' @ norm_name rawUser))
               else normalize_restore expectedCurrent rest
                      (add_input (norm_name rawUser) (trim_space original) expected i))"

fun restore_conflicts ::
  "env \<Rightarrow> route_input \<Rightarrow> string list \<Rightarrow> db \<Rightarrow> string list \<Rightarrow> gerr + string list" where
  "restore_conflicts env i [] d conflicts = Inr conflicts"
| "restore_conflicts env i (user # users) d conflicts =
     (case read_current env ''read rollback route for '' user d of
        Inl e \<Rightarrow> Inl e
      | Inr current \<Rightarrow> restore_conflicts env i users d
          (if current \<noteq> mget [] (ri_expected i) user then conflicts @ [user] else conflicts))"

fun restore_routes :: "env \<Rightarrow> route_input \<Rightarrow> string list \<Rightarrow> db \<Rightarrow> gerr + db" where
  "restore_routes env i [] d = Inr d"
| "restore_routes env i (user # users) d =
     (let original = mget [] (ri_assignments i) user
      in case (if original = []
               then attempt env (SqlWrite ''user_routes'' user) (''delete rollback route for '' @ user @ '': '')
                      (d\<lparr>db_user_routes := AList.delete user (db_user_routes d)\<rparr>)
               else upsert_route env ''restore route for '' user original d) of
           Inl e \<Rightarrow> Inl e
         | Inr d' \<Rightarrow> restore_routes env i users d')"

definition restore_in_tx :: "env \<Rightarrow> route_input \<Rightarrow> db \<Rightarrow> gerr + unit \<times> db" where
  "restore_in_tx env i d =
     (case restore_conflicts env i (sort (ri_users i)) d [] of Inl e \<Rightarrow> Inl e
      | Inr conflicts \<Rightarrow>
          if conflicts \<noteq> [] then Inl (RouteConflictError conflicts)
          else map_sum id (Pair ()) (restore_routes env i (sort (ri_users i)) d))"

definition RestoreRoutesExpected ::
  "fence \<Rightarrow> env \<Rightarrow> string gomap \<Rightarrow> string gomap \<Rightarrow> db \<Rightarrow> (gerr + unit) \<times> db" where
  "RestoreRoutesExpected fence env originalRoutes expectedCurrent d =
     (case normalize_restore expectedCurrent originalRoutes empty_input of Inl e \<Rightarrow> (Inl e, d)
      | Inr i \<Rightarrow> writeTransaction fence env (restore_in_tx env i) d)"

end
