(* ===== verification/Failover_Service.thy ===== *)
theory Failover_Service
  imports Account_States Control_Routes
begin

text \<open>
  \<open>internal/failover/service.go\<close>: moving users. The service plans with \<open>Failover_Planner\<close> and applies
  the plan through three interfaces, given here as records of operations on an abstract world \<open>'w\<close>:
  the route store, the activity reader and the snapshot publisher; a nil interface is \<open>None\<close>. An
  operation may fail and may change the world, so that concurrent writers and partial failures are
  instances. The mutex of the service serialises its calls and has no counterpart in a sequence of
  calls. The three concurrent reads of the inputs are made in the order they are started, and of
  several errors the first is reported.
\<close>

section \<open>Interfaces and results\<close>

type_synonym ('w, 'a) oper = "'w \<Rightarrow> (gerr + 'a) \<times> 'w"

text \<open>Operations in a row.\<close>

definition ok_do :: "'a \<Rightarrow> ('w, 'a) oper" where "ok_do x w = (Inr x, w)"

definition and_do :: "('w, 'a) oper \<Rightarrow> ('a \<Rightarrow> ('w, 'b) oper) \<Rightarrow> ('w, 'b) oper" where
  "and_do m k w = (case m w of (Inl e, w) \<Rightarrow> (Inl e, w) | (Inr x, w) \<Rightarrow> k x w)"

definition wrap_do :: "string \<Rightarrow> ('w, 'a) oper \<Rightarrow> ('w, 'a) oper" where
  "wrap_do text m w = (case m w of (r, w) \<Rightarrow> (wrapping text r, w))"

record 'w route_ops =
  ro_ReadRoutes :: "('w, string gomap) oper"
  ro_ReadKeyRecords :: "('w, key_record list) oper"
  ro_Apply :: "string gomap \<Rightarrow> string gomap \<Rightarrow> ('w, route_update) oper"
  ro_Restore :: "string gomap \<Rightarrow> string gomap \<Rightarrow> ('w, unit) oper"

record 'w activity_ops =
  av_RefreshActiveUsersLastHour :: "('w, int gomap) oper"
  av_RefreshActiveUsers :: "('w, int gomap) oper option"
  av_ActiveUserWindow :: "int option"

record 'w service =
  sv_Routes :: "'w route_ops option"
  sv_States :: "('w, account_state gomap) oper option"
  sv_Activity :: "'w activity_ops option"
  sv_Snapshots :: "('w, string) oper option"

record rebalance_result =
  rr_MovedUsers :: int
  rr_Destinations :: "int gomap"
  rr_TargetCounts :: "int gomap"
  rr_SnapshotGeneration :: string
  rr_ActiveUsers1H :: "int gomap"
  rr_ActivityRefreshed :: bool
  rr_Warning :: string

definition zero_result :: rebalance_result where
  "zero_result = \<lparr>rr_MovedUsers = 0, rr_Destinations = [], rr_TargetCounts = [],
     rr_SnapshotGeneration = [], rr_ActiveUsers1H = [], rr_ActivityRefreshed = False, rr_Warning = []\<rparr>"

definition emptyRebalanceResult :: "plan \<Rightarrow> rebalance_result" where
  "emptyRebalanceResult p = zero_result\<lparr>rr_TargetCounts := pl_TargetCounts p\<rparr>"

definition summarizePlan :: "plan \<Rightarrow> plan_summary" where
  "summarizePlan p = \<lparr>ps_Sources = pl_Sources p, ps_Destinations = pl_Destinations p,
     ps_CandidateAccounts = pl_CandidateAccounts p, ps_AffectedUsers = pl_AffectedUsers p,
     ps_PlannedUsers = pl_PlannedUsers p, ps_SkippedUsers = pl_SkippedUsers p,
     ps_UnassignedUsers = pl_UnassignedUsers p\<rparr>"

definition zero_plan_summary :: plan_summary where
  "zero_plan_summary = \<lparr>ps_Sources = [], ps_Destinations = [], ps_CandidateAccounts = [],
     ps_AffectedUsers = 0, ps_PlannedUsers = 0, ps_SkippedUsers = 0, ps_UnassignedUsers = 0\<rparr>"

definition ErrRebalanceUnsafe :: gerr where
  "ErrRebalanceUnsafe = Sentinel ''account rebalance is unsafe''"
definition ErrRebalanceUnavailable :: gerr where
  "ErrRebalanceUnavailable = Sentinel ''account rebalance has no eligible capacity''"

definition wrapOptionalError :: "string \<Rightarrow> gerr option \<Rightarrow> gerr option" where
  "wrapOptionalError operation err = map_option (wrapf (operation @ '': '')) err"

section \<open>Users\<close>

text \<open>A set of strings is a list without duplicates.\<close>

definition record_user :: "key_record \<Rightarrow> string option" where
  "record_user r = (if kr_Status r \<noteq> ''active'' \<or> norm_name (kr_User r) = [] then None
                    else Some (norm_name (kr_User r)))"

definition activeUsersFromRecords :: "key_record list \<Rightarrow> strset" where
  "activeUsersFromRecords records =
     foldl (\<lambda>s r. case record_user r of None \<Rightarrow> s | Some u \<Rightarrow> set_add u s) [] records"

definition records_of :: "string \<Rightarrow> key_record list \<Rightarrow> key_record list" where
  "records_of user records = filter (\<lambda>r. record_user r = Some user) records"

definition routable :: "string list \<Rightarrow> key_record list \<Rightarrow> bool" where
  "routable accounts userRecords \<longleftrightarrow>
     length (foldl (\<lambda>s r. set_add (kr_Key r) s) [] userRecords) = 1 \<and>
     list_all (\<lambda>a. a \<in> kr_Account ` set userRecords) accounts"

text \<open>\<open>byUser\<close> groups the records by user; a user is kept when one secret covers every account.\<close>

definition routableUsers :: "key_record list \<Rightarrow> account_state gomap \<Rightarrow> strset" where
  "routableUsers records states =
     filter (\<lambda>u. routable (sort (map fst states)) (records_of u records)) (activeUsersFromRecords records)"

section \<open>Applying a plan\<close>

definition go_mod :: "int \<Rightarrow> int \<Rightarrow> int" where
  "go_mod a b = a - b * go_div a b"

definition activityWindowLabel :: "'w activity_ops \<Rightarrow> string" where
  "activityWindowLabel provider =
     (case av_ActiveUserWindow provider of
        None \<Rightarrow> ''one-hour''
      | Some window \<Rightarrow>
          let minutes = go_div window (60 * second)
          in if go_mod minutes 60 = 0 then itoa (go_div minutes 60) @ ''-hour''
             else itoa minutes @ ''-minute'')"

definition refresh_activity :: "'w activity_ops \<Rightarrow> ('w, int gomap) oper" where
  "refresh_activity act = (case av_RefreshActiveUsers act of
     Some refresh \<Rightarrow> refresh | None \<Rightarrow> av_RefreshActiveUsersLastHour act)"

definition finish_refresh ::
  "'w activity_ops \<Rightarrow> rebalance_result \<Rightarrow> gerr + int gomap \<Rightarrow> rebalance_result" where
  "finish_refresh act result refreshed =
     (case refreshed of
        Inl e \<Rightarrow> result\<lparr>rr_Warning := ''routes changed, but the '' @ activityWindowLabel act @
                   '' active-user refresh failed: '' @ err_text e\<rparr>
      | Inr activity \<Rightarrow> result\<lparr>rr_ActiveUsers1H := activity, rr_ActivityRefreshed := True\<rparr>)"

text \<open>The error branch of publishing: restore the routes and, if that worked, publish again.\<close>

definition rollback ::
  "'w route_ops \<Rightarrow> ('w, string) oper \<Rightarrow> plan \<Rightarrow> gerr \<Rightarrow> 'w \<Rightarrow> gerr option \<times> 'w" where
  "rollback routes publish p e w =
     (case ro_Restore routes (pl_ExpectedRoutes p) (pl_Assignments p) w of
        (Inl rollbackError, w) \<Rightarrow>
          (errors_join [Some (wrapf ''publish account rebalance snapshot: '' e),
             wrapOptionalError ''rollback account rebalance routes'' (Some rollbackError), None], w)
      | (Inr _, w) \<Rightarrow>
          (case publish w of (published, w) \<Rightarrow>
             (errors_join [Some (wrapf ''publish account rebalance snapshot: '' e), None,
                wrapOptionalError ''publish rollback auth snapshot''
                  (case published of Inl e' \<Rightarrow> Some e' | Inr _ \<Rightarrow> None)], w)))"

definition applyPlan ::
  "'w route_ops \<Rightarrow> 'w activity_ops \<Rightarrow> ('w, string) oper \<Rightarrow> plan \<Rightarrow> 'w \<Rightarrow> (rebalance_result \<times> gerr option) \<times> 'w" where
  "applyPlan routes act publish p w =
     (let result = emptyRebalanceResult p
      in if pl_Assignments p = [] then ((result, None), w)
         else (case ro_Apply routes (pl_Assignments p) (pl_ExpectedRoutes p) w of
             (Inl e, w) \<Rightarrow> ((zero_result, Some (wrapf ''apply account rebalance routes: '' e)), w)
           | (Inr updated, w) \<Rightarrow>
               (let result = result\<lparr>rr_MovedUsers := ru_MovedUsers updated,
                               rr_Destinations := ru_Destinations updated\<rparr>
                in case publish w of
                     (Inl e, w) \<Rightarrow> (case rollback routes publish p e w of (err, w) \<Rightarrow> ((zero_result, err), w))
                   | (Inr generation, w) \<Rightarrow>
                       (case refresh_activity act w of (refreshed, w) \<Rightarrow>
                          ((finish_refresh act (result\<lparr>rr_SnapshotGeneration := generation\<rparr>) refreshed,
                            None), w)))))"

section \<open>The operations\<close>

definition incomplete :: "string \<Rightarrow> gerr option" where
  "incomplete text = Some (ErrNew text)"

definition move_plan :: "string \<Rightarrow> string \<Rightarrow> string \<Rightarrow> plan" where
  "move_plan user target expectedRoute =
     \<lparr>pl_Assignments = [(user, target)], pl_ExpectedRoutes = [(user, expectedRoute)],
      pl_Sources = [(expectedRoute, 1)], pl_Destinations = [(target, 1)],
      pl_CandidateAccounts = [target], pl_AffectedUsers = 1, pl_PlannedUsers = 1,
      pl_SkippedUsers = 0, pl_UnassignedUsers = 0, pl_TargetCounts = []\<rparr>"

definition MoveUser ::
  "'w service \<Rightarrow> string \<Rightarrow> string \<Rightarrow> string \<Rightarrow> 'w \<Rightarrow> (rebalance_result \<times> gerr option) \<times> 'w" where
  "MoveUser sv rawUser rawTarget rawExpected w =
     (case (sv_Routes sv, sv_Activity sv, sv_Snapshots sv) of
        (Some routes, Some act, Some publish) \<Rightarrow>
          (let user = norm_name rawUser; target = trim_space rawTarget; expectedRoute = trim_space rawExpected
           in if user = [] \<or> target = []
              then ((zero_result, Some (ErrWrap [] ErrInvalidCatalogInput
                       '': self-service route user and target are required'')), w)
              else if target = expectedRoute then ((zero_result, None), w)
              else applyPlan routes act publish (move_plan user target expectedRoute) w)
      | _ \<Rightarrow> ((zero_result, incomplete ''self-service route change dependencies are incomplete''), w))"

text \<open>The inputs of a plan, read through the route store and the state provider.\<close>

definition collect_inputs ::
  "'w route_ops \<Rightarrow> ('w, account_state gomap) oper \<Rightarrow>
     ('w, string gomap \<times> key_record list \<times> account_state gomap) oper" where
  "collect_inputs routes states w =
     (case ro_ReadRoutes routes w of (r, w) \<Rightarrow>
     (case ro_ReadKeyRecords routes w of (k, w) \<Rightarrow>
     (case states w of (s, w) \<Rightarrow>
       (case (r, k, s) of
          (Inr rv, Inr kv, Inr sv) \<Rightarrow> (Inr (rv, kv, sv), w)
        | (Inl e, _, _) \<Rightarrow> (Inl e, w)
        | (_, Inl e, _) \<Rightarrow> (Inl e, w)
        | (_, _, Inl e) \<Rightarrow> (Inl e, w)))))"

definition unsafe_error :: "plan \<Rightarrow> gerr" where
  "unsafe_error p = ErrWrap [] ErrRebalanceUnsafe
     ('': '' @ itoa (max (pl_UnassignedUsers p) (pl_SkippedUsers p)) @ '' of '' @
      itoa (pl_AffectedUsers p) @ '' active users cannot be moved safely'')"

definition RebalanceAll :: "'w service \<Rightarrow> 'w \<Rightarrow> (rebalance_result \<times> gerr option) \<times> 'w" where
  "RebalanceAll sv w =
     (case (sv_Routes sv, sv_States sv, sv_Activity sv, sv_Snapshots sv) of
        (Some routes, Some states, Some act, Some publish) \<Rightarrow>
          (case collect_inputs routes states w of
             (Inl e, w) \<Rightarrow> ((zero_result, Some (wrapf ''collect account rebalance inputs: '' e)), w)
           | (Inr (routeMap, records, stateMap), w) \<Rightarrow>
               (let p = PlanGlobalRebalance routeMap (activeUsersFromRecords records)
                          (routableUsers records stateMap) stateMap
                in if pl_CandidateAccounts p = [] then ((zero_result, Some ErrRebalanceUnavailable), w)
                   else if 0 < pl_UnassignedUsers p \<or> 0 < pl_SkippedUsers p
                   then ((zero_result, Some (unsafe_error p)), w)
                   else applyPlan routes act publish p w))
      | _ \<Rightarrow> ((zero_result, incomplete ''account rebalance dependencies are incomplete''), w))"

record evacuation_result =
  er_Rebalance :: rebalance_result
  er_Plan :: plan_summary

definition zero_evacuation :: evacuation_result where
  "zero_evacuation = \<lparr>er_Rebalance = zero_result, er_Plan = zero_plan_summary\<rparr>"

definition evacuate ::
  "'w service \<Rightarrow> strset option \<Rightarrow> 'w \<Rightarrow> (evacuation_result \<times> gerr option) \<times> 'w" where
  "evacuate sv sourceAccounts w =
     (case (sv_Routes sv, sv_States sv, sv_Activity sv, sv_Snapshots sv) of
        (Some routes, Some states, Some act, Some publish) \<Rightarrow>
          (case collect_inputs routes states w of
             (Inl e, w) \<Rightarrow> ((zero_evacuation, Some (wrapf ''collect account evacuation inputs: '' e)), w)
           | (Inr (routeMap, records, stateMap), w) \<Rightarrow>
               (let p = PlanEvacuation routeMap (activeUsersFromRecords records)
                          (routableUsers records stateMap) stateMap sourceAccounts;
                    result = \<lparr>er_Rebalance = zero_result, er_Plan = summarizePlan p\<rparr>
                in if pl_AffectedUsers p = 0
                   then ((result\<lparr>er_Rebalance := emptyRebalanceResult p\<rparr>, None), w)
                   else if pl_CandidateAccounts p = [] then ((result, Some ErrRebalanceUnavailable), w)
                   else if 0 < pl_UnassignedUsers p \<or> 0 < pl_SkippedUsers p
                   then ((result, Some (unsafe_error p)), w)
                   else (case applyPlan routes act publish p w of ((applied, err), w) \<Rightarrow>
                          ((result\<lparr>er_Rebalance := applied\<rparr>, err), w))))
      | _ \<Rightarrow> ((zero_evacuation, incomplete ''account evacuation dependencies are incomplete''), w))"

definition EvacuateExhausted :: "'w service \<Rightarrow> 'w \<Rightarrow> (evacuation_result \<times> gerr option) \<times> 'w" where
  "EvacuateExhausted sv w = evacuate sv None w"

definition EvacuateAccount ::
  "'w service \<Rightarrow> string \<Rightarrow> 'w \<Rightarrow> (evacuation_result \<times> gerr option) \<times> 'w" where
  "EvacuateAccount sv rawAccount w =
     (let account = norm_name rawAccount
      in if account = []
         then ((zero_evacuation, Some (ErrWrap [] ErrInvalidCatalogInput '': source account is required'')), w)
         else evacuate sv (Some [account]) w)"

section \<open>The contract of the route store\<close>

text \<open>
  What the service relies on. \<open>route\<close> observes the current route of a user (empty for none). A failed
  call of either writer changes no route; a successful \<open>Apply\<close> of a clean plan finds every user on the
  expected route and leaves exactly the users of the plan on their targets; a successful \<open>Restore\<close>
  with swapped arguments finds them on the targets and puts them back. Publishing a snapshot and
  refreshing the activity do not change routes.
\<close>

definition quiet :: "('w \<Rightarrow> string \<Rightarrow> string) \<Rightarrow> ('w, 'a) oper \<Rightarrow> bool" where
  "quiet route f \<longleftrightarrow> (\<forall>w. route (snd (f w)) = route w)"

lemma quietD: "quiet route f \<Longrightarrow> f w = (r, w') \<Longrightarrow> route w' = route w"
  by (metis quiet_def snd_conv)

definition provides ::
  "(string gomap \<Rightarrow> string gomap \<Rightarrow> ('w, route_update) oper) \<Rightarrow>
   (string gomap \<Rightarrow> string gomap \<Rightarrow> ('w, unit) oper) \<Rightarrow> 'w route_ops \<Rightarrow> bool" where
  "provides apply_op restore_op routes \<longleftrightarrow> ro_Apply routes = apply_op \<and> ro_Restore routes = restore_op"

definition rollback_failed :: "gerr option \<Rightarrow> bool" where
  "rollback_failed err \<longleftrightarrow> (\<exists>e re. err = Some (ErrJoin [wrapf ''publish account rebalance snapshot: '' e,
     wrapf ''rollback account rebalance routes: '' re]))"

locale route_contract =
  fixes apply_op :: "string gomap \<Rightarrow> string gomap \<Rightarrow> 'w \<Rightarrow> (gerr + route_update) \<times> 'w"
    and restore_op :: "string gomap \<Rightarrow> string gomap \<Rightarrow> 'w \<Rightarrow> (gerr + unit) \<times> 'w"
    and route :: "'w \<Rightarrow> string \<Rightarrow> string"
    and clean :: "string gomap \<Rightarrow> string gomap \<Rightarrow> bool"
  assumes apply_fail: "apply_op A E w = (Inl e, w') \<Longrightarrow> route w' = route w"
    and apply_done: "clean A E \<Longrightarrow> apply_op A E w = (Inr u, w') \<Longrightarrow>
      (\<forall>x \<in> fst ` set A. route w x = mget [] E x) \<and>
      route w' = (\<lambda>x. if x \<in> fst ` set A then mget [] A x else route w x)"
    and restore_fail: "restore_op E A w = (Inl e, w') \<Longrightarrow> route w' = route w"
    and restore_done: "clean A E \<Longrightarrow> restore_op E A w = (Inr u', w') \<Longrightarrow>
      route w' = (\<lambda>x. if x \<in> fst ` set A then mget [] E x else route w x)"
begin

text \<open>A rollback restores the routes, or its error says that restoring failed.\<close>

lemma rollback_restores:
  assumes "provides apply_op restore_op routes" "quiet route publish" "clean (pl_Assignments p) (pl_ExpectedRoutes p)"
    "\<forall>x \<in> fst ` set (pl_Assignments p). route w0 x = mget [] (pl_ExpectedRoutes p) x"
    "route w = (\<lambda>x. if x \<in> fst ` set (pl_Assignments p) then mget [] (pl_Assignments p) x else route w0 x)"
    "rollback routes publish p e w = (err, w')"
  shows "err \<noteq> None \<and> (route w' = route w0 \<or> rollback_failed err \<and> route w' = route w)"
proof -
  obtain r w1 where r: "restore_op (pl_ExpectedRoutes p) (pl_Assignments p) w = (r, w1)"
    by (cases "restore_op (pl_ExpectedRoutes p) (pl_Assignments p) w")
  show ?thesis
  proof (cases r)
    case (Inl re)
    with r assms(1) restore_fail have "route w1 = route w" by blast
    with r Inl assms(1,6) show ?thesis
      by (auto simp: rollback_failed_def rollback_def provides_def errors_join_def wrapOptionalError_def map_filter_def)
  next
    case (Inr u)
    with restore_done [OF assms(3) r [unfolded Inr]] assms(4,5) have restored: "route w1 = route w0"
      by (auto simp: fun_eq_iff)
    obtain q w2 where q: "publish w1 = (q, w2)" by (cases "publish w1")
    with quietD [OF assms(2)] restored have "route w2 = route w0" by simp
    with Inr r q assms(1,6) show ?thesis
      by (auto simp: rollback_failed_def rollback_def provides_def errors_join_def wrapOptionalError_def map_filter_def
          split: sum.splits option.splits)
  qed
qed

lemma applyPlan_all_or_nothing:
  assumes "provides apply_op restore_op routes" "quiet route publish" "quiet route (refresh_activity act)"
    "clean (pl_Assignments p) (pl_ExpectedRoutes p)"
    "applyPlan routes act publish p w = ((result, err), w')"
  shows "(err = None \<longrightarrow> route w' =
       (\<lambda>x. if x \<in> fst ` set (pl_Assignments p) then mget [] (pl_Assignments p) x else route w x)) \<and>
    (err \<noteq> None \<longrightarrow> route w' = route w \<or> rollback_failed err \<and> route w' =
       (\<lambda>x. if x \<in> fst ` set (pl_Assignments p) then mget [] (pl_Assignments p) x else route w x))"
proof (cases "pl_Assignments p = []")
  case True
  with assms(5) show ?thesis by (auto simp: applyPlan_def Let_def)
next
  case False
  obtain a w1 where a: "apply_op (pl_Assignments p) (pl_ExpectedRoutes p) w = (a, w1)"
    by (cases "apply_op (pl_Assignments p) (pl_ExpectedRoutes p) w")
  show ?thesis
  proof (cases a)
    case (Inl e)
    with False a assms(1,5) apply_fail show ?thesis
      by (auto simp: applyPlan_def Let_def provides_def)
  next
    case (Inr u)
    note moved = apply_done [OF assms(4) a [unfolded Inr]]
    obtain q w2 where q: "publish w1 = (q, w2)" by (cases "publish w1")
    with quietD [OF assms(2)] moved have r2: "route w2 =
        (\<lambda>x. if x \<in> fst ` set (pl_Assignments p) then mget [] (pl_Assignments p) x else route w x)" by simp
    show ?thesis
    proof (cases q)
      case (Inl e)
      obtain err' w3 where rb: "rollback routes publish p e w2 = (err', w3)"
        by (cases "rollback routes publish p e w2")
      with assms(1,5) False a Inr q Inl have "err = err'" "w' = w3"
        by (auto simp: applyPlan_def Let_def provides_def)
      moreover have "err' \<noteq> None \<and> (route w3 = route w \<or> rollback_failed err' \<and> route w3 = route w2)"
        using moved by (intro rollback_restores [OF assms(1,2,4) _ r2 rb]) simp
      ultimately show ?thesis using r2 by auto
    next
      case (Inr g)
      obtain f w3 where f: "refresh_activity act w2 = (f, w3)" by (cases "refresh_activity act w2")
      with quietD [OF assms(3)] r2 assms(1,5) False a \<open>a = Inr u\<close> q Inr show ?thesis
        by (auto simp: applyPlan_def Let_def provides_def)
    qed
  qed
qed

end

end
