(* ===== verification/Go_Utf8.thy ===== *)
theory Go_Utf8
  imports Go_Prelude
begin

text \<open>
  UTF-8 decoding as Go does it in \<open>[]rune(s)\<close>: a valid encoding of one to four bytes is one rune, any
  other byte is the replacement rune; \<open>string(runes)\<close> writes the encodings back. The cut to a maximal
  number of runes is what the stored error texts go through.
\<close>

definition byte_in :: "nat \<Rightarrow> nat \<Rightarrow> char \<Rightarrow> bool" where
  "byte_in a b c \<longleftrightarrow> a \<le> (of_char c :: nat) \<and> (of_char c :: nat) \<le> b"

text \<open>The width of the valid encoding at the front, 0 if there is none.\<close>

definition continues :: "(char \<Rightarrow> bool) list \<Rightarrow> string \<Rightarrow> bool" where
  "continues ps s \<longleftrightarrow> length ps \<le> length s \<and> list_all2 (\<lambda>p c. p c) ps (take (length ps) s)"

definition rune_width :: "char \<Rightarrow> string \<Rightarrow> nat" where
  "rune_width c s =
     (if byte_in 0x00 0x7F c then 1
      else if byte_in 0xC2 0xDF c then (if continues [byte_in 0x80 0xBF] s then 2 else 0)
      else if byte_in 0xE0 0xE0 c then (if continues [byte_in 0xA0 0xBF, byte_in 0x80 0xBF] s then 3 else 0)
      else if byte_in 0xED 0xED c then (if continues [byte_in 0x80 0x9F, byte_in 0x80 0xBF] s then 3 else 0)
      else if byte_in 0xE1 0xEF c then (if continues [byte_in 0x80 0xBF, byte_in 0x80 0xBF] s then 3 else 0)
      else if byte_in 0xF0 0xF0 c
      then (if continues [byte_in 0x90 0xBF, byte_in 0x80 0xBF, byte_in 0x80 0xBF] s then 4 else 0)
      else if byte_in 0xF1 0xF3 c
      then (if continues [byte_in 0x80 0xBF, byte_in 0x80 0xBF, byte_in 0x80 0xBF] s then 4 else 0)
      else if byte_in 0xF4 0xF4 c
      then (if continues [byte_in 0x80 0x8F, byte_in 0x80 0xBF, byte_in 0x80 0xBF] s then 4 else 0)
      else 0)"

definition replacement :: string where
  "replacement = [CHR 0xEF, CHR 0xBF, CHR 0xBD]"

function runes :: "string \<Rightarrow> string list" where
  "runes [] = []"
| "runes (c # s) =
     (let w = rune_width c s
      in if w = 0 then replacement # runes s
         else (c # take (w - 1) s) # runes (drop (w - 1) s))"
  by pat_completeness auto
termination by (relation "measure length") auto

definition valid_utf8 :: "string \<Rightarrow> bool" where
  "valid_utf8 s \<longleftrightarrow> concat (runes s) = s"

definition bounded_runes :: "nat \<Rightarrow> string \<Rightarrow> string" where
  "bounded_runes n s = concat (take n (runes s))"

lemma rune_width_le: "rune_width c s \<le> 4"
  by (simp add: rune_width_def)

lemma runes_short: "r \<in> set (runes s) \<Longrightarrow> length r \<le> 4"
proof (induction s rule: runes.induct)
  case (2 c s)
  then show ?case
    using rune_width_le [of c s] by (auto simp: Let_def replacement_def split: if_splits)
qed simp

lemma concat_length_le: "(\<And>x. x \<in> set xs \<Longrightarrow> length x \<le> k) \<Longrightarrow> length (concat xs) \<le> k * length xs"
  by (induction xs) (auto simp: algebra_simps add_mono)

text \<open>A cut text has at most four bytes per rune, and a short valid text is not changed.\<close>

lemma bounded_runes_length: "length (bounded_runes n s) \<le> 4 * n"
proof -
  have "length (bounded_runes n s) \<le> 4 * length (take n (runes s))"
    unfolding bounded_runes_def
    by (rule concat_length_le) (meson in_set_takeD runes_short)
  also have "\<dots> \<le> 4 * n" by simp
  finally show ?thesis .
qed

lemma bounded_runes_short: "valid_utf8 s \<Longrightarrow> length (runes s) \<le> n \<Longrightarrow> bounded_runes n s = s"
  by (simp add: bounded_runes_def valid_utf8_def)

lemma runes_ascii: "list_all (byte_in 0 0x7F) s \<Longrightarrow> runes s = map (\<lambda>c. [c]) s"
  by (induction s) (simp_all add: rune_width_def)

lemma valid_utf8_ascii: "list_all (byte_in 0 0x7F) s \<Longrightarrow> valid_utf8 s"
  by (simp add: valid_utf8_def runes_ascii)

lemma bounded_runes_Nil [simp]: "bounded_runes n [] = []"
  by (simp add: bounded_runes_def)

end
