(* ===== verification/Quota_State.thy ===== *)
theory Quota_State
  imports Quota_Normalize Control_Routes Control_Settings Go_Utf8
begin

text \<open>
  \<open>internal/quota/refresh.go\<close> and \<open>internal/quota/refresh_request.go\<close>: the persisted quota state, one
  refresh of the official quotas, and the requests by which the administration process asks the
  quota worker for a refresh. Loading credentials, resolving the proxy and calling the upstream service
  (\<open>oauth.go\<close>, \<open>proxy.go\<close>, \<open>client.go\<close>) are arguments of the refresh.
\<close>

section \<open>The persisted state\<close>

record quota_runtime =
  qm_Version :: int
  qm_HeartbeatAt :: int
  qm_LastSuccessAt :: int
  qm_LastError :: string
  qm_Snapshot :: snapshot

definition QuotaStateName :: string where "QuotaStateName = ''official_quota''"

definition quotaStateVersion :: int where "quotaStateVersion = 1"

definition zero_snapshot :: snapshot where
  "zero_snapshot = \<lparr>sn_GeneratedAt = 0, sn_CacheTTLSeconds = 0, sn_Cached = False, sn_Refreshing = False, sn_Accounts = []\<rparr>"

definition zero_quota_runtime :: quota_runtime where
  "zero_quota_runtime = \<lparr>qm_Version = 0, qm_HeartbeatAt = 0, qm_LastSuccessAt = 0, qm_LastError = [],
     qm_Snapshot = zero_snapshot\<rparr>"

subsection \<open>JSON form\<close>

text \<open>The two unexported fields of an account entry are not encoded.\<close>

definition window_json :: "weekly_window \<Rightarrow> goany" where
  "window_json w = AObject
     [(''key'', AString (ww_Key w)), (''label'', AString (ww_Label w)),
      (''metered_feature'', enc_string_ptr (ww_MeteredFeature w)), (''window_slot'', AString (ww_WindowSlot w)),
      (''used_percent'', AFloat (ww_UsedPercent w)), (''remaining_percent'', AFloat (ww_RemainingPercent w)),
      (''reported_used_percent'', AFloat (ww_ReportedUsedPercent w)), (''reset_at'', enc_int_ptr (ww_ResetAt w)),
      (''reset_after_seconds'', enc_int_ptr (ww_ResetAfterSeconds w)), (''window_seconds'', AInt64 (ww_WindowSeconds w)),
      (''limit_reached'', ABool (ww_LimitReached w)), (''resettable'', ABool (ww_Resettable w))]"

definition zero_window :: weekly_window where
  "zero_window = \<lparr>ww_Key = [], ww_Label = [], ww_MeteredFeature = None, ww_WindowSlot = [], ww_UsedPercent = Fin 0,
     ww_RemainingPercent = Fin 0, ww_ReportedUsedPercent = Fin 0, ww_ResetAt = None, ww_ResetAfterSeconds = None,
     ww_WindowSeconds = 0, ww_LimitReached = False, ww_Resettable = False\<rparr>"

definition window_of_object :: "goany gomap \<Rightarrow> weekly_window option" where
  "window_of_object m =
     (case (dec_string m ''key'', dec_string m ''label'', dec_string_ptr m ''metered_feature'', dec_string m ''window_slot'',
            dec_float m ''used_percent'', dec_float m ''remaining_percent'', dec_float m ''reported_used_percent'') of
        (Some k, Some l, Some f, Some sl, Some u, Some r, Some p) \<Rightarrow>
          (case (dec_int_ptr m ''reset_at'', dec_int_ptr m ''reset_after_seconds'', dec_int m ''window_seconds'',
                 dec_bool m ''limit_reached'', dec_bool m ''resettable'') of
             (Some a, Some s, Some n, Some b, Some c) \<Rightarrow>
               Some \<lparr>ww_Key = k, ww_Label = l, ww_MeteredFeature = f, ww_WindowSlot = sl, ww_UsedPercent = u,
                     ww_RemainingPercent = r, ww_ReportedUsedPercent = p, ww_ResetAt = a, ww_ResetAfterSeconds = s,
                     ww_WindowSeconds = n, ww_LimitReached = b, ww_Resettable = c\<rparr>
           | _ \<Rightarrow> None)
      | _ \<Rightarrow> None)"

definition account_quota_json :: "account_quota \<Rightarrow> goany" where
  "account_quota_json q = AObject
     [(''account'', AString (aq_Account q)), (''status'', AString (aq_Status q)),
      (''plan_type'', enc_string_ptr (aq_PlanType q)), (''allowed'', enc_bool_ptr (aq_Allowed q)),
      (''limit_reached'', enc_bool_ptr (aq_LimitReached q)), (''reset_credit_count'', enc_int_ptr (aq_ResetCreditCount q)),
      (''weekly'', enc_ptr window_json (aq_Weekly q)), (''weekly_windows'', AList (map window_json (aq_WeeklyWindows q)))]"

definition account_quota_of_object :: "goany gomap \<Rightarrow> account_quota option" where
  "account_quota_of_object m =
     (case (dec_string m ''account'', dec_string m ''status'', dec_string_ptr m ''plan_type'', dec_bool_ptr m ''allowed'',
            dec_bool_ptr m ''limit_reached'', dec_int_ptr m ''reset_credit_count'', dec_ptr window_of_object m ''weekly'',
            dec_list (dec_struct_of zero_window window_of_object) m ''weekly_windows'') of
        (Some a, Some s, Some p, Some al, Some l, Some r, Some w, Some ws) \<Rightarrow>
          Some \<lparr>aq_oauthAccountID = [], aq_recoveryAllowed = False, aq_Account = a, aq_Status = s, aq_PlanType = p,
                aq_Allowed = al, aq_LimitReached = l, aq_ResetCreditCount = r, aq_Weekly = w, aq_WeeklyWindows = ws\<rparr>
      | _ \<Rightarrow> None)"

definition snapshot_json :: "snapshot \<Rightarrow> goany" where
  "snapshot_json s = AObject
     [(''generated_at'', AInt64 (sn_GeneratedAt s)), (''cache_ttl_seconds'', AInt64 (sn_CacheTTLSeconds s)),
      (''cached'', ABool (sn_Cached s)), (''refreshing'', ABool (sn_Refreshing s)),
      (''accounts'', AList (map account_quota_json (sn_Accounts s)))]"

definition snapshot_of_object :: "goany gomap \<Rightarrow> snapshot option" where
  "snapshot_of_object m =
     (case (dec_int m ''generated_at'', dec_int m ''cache_ttl_seconds'', dec_bool m ''cached'', dec_bool m ''refreshing'',
            dec_list (dec_struct_of (unavailableAccount [] []) account_quota_of_object) m ''accounts'') of
        (Some g, Some c, Some b, Some r, Some a) \<Rightarrow>
          Some \<lparr>sn_GeneratedAt = g, sn_CacheTTLSeconds = c, sn_Cached = b, sn_Refreshing = r, sn_Accounts = a\<rparr>
      | _ \<Rightarrow> None)"

definition quota_runtime_json :: "quota_runtime \<Rightarrow> goany" where
  "quota_runtime_json s = AObject
     [(''version'', AInt64 (qm_Version s)), (''heartbeat_at'', AInt64 (qm_HeartbeatAt s)),
      (''last_success_at'', AInt64 (qm_LastSuccessAt s)), (''last_error'', AString (qm_LastError s)),
      (''snapshot'', snapshot_json (qm_Snapshot s))]"

definition quota_runtime_of_object :: "goany gomap \<Rightarrow> quota_runtime option" where
  "quota_runtime_of_object m =
     (case (dec_int m ''version'', dec_int m ''heartbeat_at'', dec_int m ''last_success_at'', dec_string m ''last_error'',
            dec_struct_of zero_snapshot snapshot_of_object (mget ANil m ''snapshot'')) of
        (Some v, Some h, Some s, Some e, Some n) \<Rightarrow>
          Some \<lparr>qm_Version = v, qm_HeartbeatAt = h, qm_LastSuccessAt = s, qm_LastError = e, qm_Snapshot = n\<rparr>
      | _ \<Rightarrow> None)"

subsection \<open>Reading\<close>

text \<open>\<open>ReadState\<close>: the store call is its result, as in \<open>ReadFailoverState\<close>.\<close>

definition ReadQuotaState :: "gerr + json option \<Rightarrow> gerr + quota_runtime \<times> bool" where
  "ReadQuotaState stored =
     (case stored of
        Inl e \<Rightarrow> Inl (wrapf ''read official quota runtime state: '' e)
      | Inr None \<Rightarrow> Inr (zero_quota_runtime, False)
      | Inr (Some raw) \<Rightarrow>
          (case (case raw of Some (AObject m) \<Rightarrow> quota_runtime_of_object m | _ \<Rightarrow> None) of
             None \<Rightarrow> Inr (zero_quota_runtime, True)
           | Some state \<Rightarrow>
               if qm_Version state \<noteq> quotaStateVersion then Inr (zero_quota_runtime, True) else Inr (state, True)))"

definition QuotaHealthy :: "quota_runtime \<Rightarrow> bool \<Rightarrow> int \<Rightarrow> int \<Rightarrow> bool" where
  "QuotaHealthy state found now maxAge =
     (if \<not> found \<or> qm_Version state \<noteq> quotaStateVersion \<or> qm_HeartbeatAt state \<le> 0 \<or> qm_LastSuccessAt state \<le> 0 \<or>
         qm_LastError state \<noteq> [] \<or> maxAge \<le> 0
      then False
      else let age = sub64 (unix_of now) (qm_HeartbeatAt state)
           in 0 \<le> age \<and> age \<le> seconds_of maxAge)"

definition intSetting :: "goany \<Rightarrow> int \<Rightarrow> int \<Rightarrow> int \<Rightarrow> int" where
  "intSetting value fallback minimum maximum =
     (case setting_number value of
        None \<Rightarrow> fallback
      | Some r \<Rightarrow>
          if \<not> finite64 r \<or> f_lt r (f_of_int minimum) \<or> f_lt (f_of_int maximum) r then fallback else f_to_int64 r)"

definition PollInterval :: "goany gomap \<Rightarrow> int" where
  "PollInterval settings = intSetting (mget ANil settings ''account_failover.poll_seconds'') 60 30 3600 * second"

definition boundedError :: "gerr option \<Rightarrow> nat \<Rightarrow> string" where
  "boundedError err maximum = (case err of None \<Rightarrow> [] | Some e \<Rightarrow> bounded_runes maximum (err_text e))"

section \<open>Refreshing\<close>

record oauth_record =
  oa_AccessToken :: string
  oa_AccountID :: string

text \<open>The calls outside: credentials of an account, its proxy, and one usage request with a timeout.\<close>

record quota_clients =
  qc_Load :: "string \<Rightarrow> gerr + oauth_record"
  qc_Resolve :: "goany gomap \<Rightarrow> account \<Rightarrow> gerr + string"
  qc_Fetch :: "int \<Rightarrow> oauth_record \<Rightarrow> string \<Rightarrow> gerr + goany gomap"

definition ErrOAuthMissing :: gerr where "ErrOAuthMissing = Sentinel ''Codex OAuth auth record is unavailable''"

definition ErrAuthExpired :: gerr where "ErrAuthExpired = Sentinel ''official quota authentication expired''"

definition limit_allows :: "goany \<Rightarrow> bool" where
  "limit_allows v = (case as_object v of None \<Rightarrow> False
     | Some m \<Rightarrow> mget ANil m ''allowed'' = ABool True \<and> mget ANil m ''limit_reached'' = ABool False)"

definition allRateLimitsAllowRecovery :: "goany gomap \<Rightarrow> bool" where
  "allRateLimitsAllowRecovery payload \<longleftrightarrow>
     limit_allows (mget ANil payload ''rate_limit'') \<and>
     (case mget ANil payload ''additional_rate_limits'' of
        ANil \<Rightarrow> True
      | AList items \<Rightarrow> list_all (\<lambda>item. limit_allows (field_of (as_object item) ''rate_limit'')) items
      | _ \<Rightarrow> False)"

definition refresh_account :: "quota_clients \<Rightarrow> goany gomap \<Rightarrow> int \<Rightarrow> account \<Rightarrow> account_quota" where
  "refresh_account clients settings timeout a =
     (case qc_Load clients (ac_ID a) of
        Inl e \<Rightarrow> unavailableAccount (ac_ID a) (if errors_is e ErrOAuthMissing then ''auth_missing'' else ''unavailable'')
      | Inr auth \<Rightarrow>
     (case qc_Resolve clients settings a of
        Inl e \<Rightarrow> unavailableAccount (ac_ID a) ''unavailable''
      | Inr proxyURL \<Rightarrow>
     (case qc_Fetch clients timeout auth proxyURL of
        Inl e \<Rightarrow> unavailableAccount (ac_ID a) (if errors_is e ErrAuthExpired then ''auth_expired'' else ''unavailable'')
      | Inr payload \<Rightarrow> (Normalize (ac_ID a) payload)
          \<lparr>aq_oauthAccountID := oa_AccountID auth, aq_recoveryAllowed := allRateLimitsAllowRecovery payload\<rparr>)))"

text \<open>
  \<open>RunOnce\<close>: the two reads, the entries of all accounts (fetched concurrently, each goroutine writes its
  own index), and the write of the state. The snapshot is also returned when the write fails.
\<close>

definition RunOnce ::
  "fence \<Rightarrow> env \<Rightarrow> (gerr + account list) \<Rightarrow> (gerr + goany gomap) \<Rightarrow> quota_clients \<Rightarrow> int \<Rightarrow> db \<Rightarrow>
     (snapshot \<times> gerr option) \<times> db" where
  "RunOnce fence env accountsRead settingsRead clients now d =
     (case accountsRead of
        Inl e \<Rightarrow> ((zero_snapshot, Some (wrapf ''read official quota accounts: '' e)), d)
      | Inr accounts \<Rightarrow>
     (case settingsRead of
        Inl e \<Rightarrow> ((zero_snapshot, Some (wrapf ''read official quota settings: '' e)), d)
      | Inr settings \<Rightarrow>
          let generatedAt = unix_of now;
              cacheTTL = intSetting (mget ANil settings ''usage.quota_cache_seconds'') 60 30 3600;
              timeout = intSetting (mget ANil settings ''usage.upstream_timeout_seconds'') 20 5 120 * second;
              result = \<lparr>sn_GeneratedAt = generatedAt, sn_CacheTTLSeconds = cacheTTL, sn_Cached = False, sn_Refreshing = False,
                        sn_Accounts = map (refresh_account clients settings timeout) accounts\<rparr>;
              state = \<lparr>qm_Version = quotaStateVersion, qm_HeartbeatAt = generatedAt, qm_LastSuccessAt = generatedAt,
                       qm_LastError = [], qm_Snapshot = result\<rparr>
          in (case WriteRuntimeState fence env QuotaStateName (quota_runtime_json state) d of
                (Inl e, d') \<Rightarrow> ((result, Some (wrapf ''write official quota runtime state: '' e)), d')
              | (Inr _, d') \<Rightarrow> ((result, None), d'))))"

definition RecordError ::
  "fence \<Rightarrow> env \<Rightarrow> (gerr + json option) \<Rightarrow> int \<Rightarrow> gerr option \<Rightarrow> db \<Rightarrow> (gerr + unit) \<times> db" where
  "RecordError fence env stored now runError d =
     (case ReadQuotaState stored of
        Inl e \<Rightarrow> (Inl e, d)
      | Inr (state, _) \<Rightarrow>
          (case WriteRuntimeState fence env QuotaStateName (quota_runtime_json (state\<lparr>qm_Version := quotaStateVersion,
                  qm_HeartbeatAt := unix_of now, qm_LastError := boundedError runError 500\<rparr>)) d of
             (Inl e, d') \<Rightarrow> (Inl (wrapf ''write official quota error state: '' e), d')
           | (Inr _, d') \<Rightarrow> (Inr (), d')))"

section \<open>Refresh requests\<close>

record refresh_request =
  rf_Version :: int
  rf_RequestID :: string
  rf_RequestedAt :: int
  rf_StartedID :: string
  rf_StartedAt :: int
  rf_CompletedID :: string
  rf_CompletedAt :: int
  rf_LastError :: string

definition RefreshRequestStateName :: string where "RefreshRequestStateName = ''official_quota_refresh_request''"

definition refreshRequestVersion :: int where "refreshRequestVersion = 1"

definition ForceRefreshMinimumAge :: int where "ForceRefreshMinimumAge = 15 * second"

definition zero_request :: refresh_request where
  "zero_request = \<lparr>rf_Version = 0, rf_RequestID = [], rf_RequestedAt = 0, rf_StartedID = [], rf_StartedAt = 0,
     rf_CompletedID = [], rf_CompletedAt = 0, rf_LastError = []\<rparr>"

definition request_of_object :: "goany gomap \<Rightarrow> refresh_request option" where
  "request_of_object m =
     (case (dec_int m ''version'', dec_string m ''request_id'', dec_int m ''requested_at'', dec_string m ''started_id'',
            dec_int m ''started_at'', dec_string m ''completed_id'', dec_int m ''completed_at'', dec_string m ''last_error'') of
        (Some v, Some r, Some ra, Some s, Some sa, Some c, Some ca, Some e) \<Rightarrow>
          Some \<lparr>rf_Version = v, rf_RequestID = r, rf_RequestedAt = ra, rf_StartedID = s, rf_StartedAt = sa,
                rf_CompletedID = c, rf_CompletedAt = ca, rf_LastError = e\<rparr>
      | _ \<Rightarrow> None)"

definition ReadRefreshRequest :: "gerr + json option \<Rightarrow> gerr + refresh_request \<times> bool" where
  "ReadRefreshRequest stored =
     (case stored of
        Inl e \<Rightarrow> Inl (wrapf ''read official quota refresh request: '' e)
      | Inr None \<Rightarrow> Inr (zero_request, False)
      | Inr (Some raw) \<Rightarrow>
          (case (case raw of Some (AObject m) \<Rightarrow> request_of_object m | _ \<Rightarrow> None) of
             None \<Rightarrow> Inr (zero_request, True)
           | Some state \<Rightarrow>
               if rf_Version state \<noteq> refreshRequestVersion then Inr (zero_request, True) else Inr (state, True)))"

definition Pending :: "refresh_request \<Rightarrow> bool" where
  "Pending r \<longleftrightarrow> rf_Version r = refreshRequestVersion \<and> rf_RequestID r \<noteq> [] \<and> rf_CompletedID r \<noteq> rf_RequestID r"

text \<open>\<open>base64.RawURLEncoding\<close>: six bits per character, no padding.\<close>

definition base64_digit :: "nat \<Rightarrow> char" where
  "base64_digit n = ''ABCDEFGHIJKLMNOPQRSTUVWXYZabcdefghijklmnopqrstuvwxyz0123456789-_'' ! (n mod 64)"

fun base64_url :: "string \<Rightarrow> string" where
  "base64_url (a # b # c # s) =
     (let n = of_char a * 65536 + of_char b * 256 + of_char c
      in base64_digit (n div 262144) # base64_digit (n div 4096) # base64_digit (n div 64) # base64_digit n # base64_url s)"
| "base64_url [a, b] =
     (let n = of_char a * 65536 + of_char b * 256
      in [base64_digit (n div 262144), base64_digit (n div 4096), base64_digit (n div 64)])"
| "base64_url [a] = (let n = of_char a * 65536 in [base64_digit (n div 262144), base64_digit (n div 4096)])"
| "base64_url [] = []"

definition newRefreshRequestID :: "gerr + string \<Rightarrow> gerr + string" where
  "newRefreshRequestID random =
     (case random of Inl e \<Rightarrow> Inl (wrapf ''create official quota refresh request id: '' e) | Inr raw \<Rightarrow> Inr (base64_url raw))"

text \<open>
  \<open>RequestRefresh\<close> runs under a process-wide mutex: two reads, whose results are arguments, and a patch.
\<close>

definition recent_snapshot :: "quota_runtime \<Rightarrow> bool \<Rightarrow> int \<Rightarrow> bool" where
  "recent_snapshot quotaState quotaFound now \<longleftrightarrow>
     quotaFound \<and> 0 < sn_GeneratedAt (qm_Snapshot quotaState) \<and>
     (let age = sub64 (unix_of now) (sn_GeneratedAt (qm_Snapshot quotaState))
      in 0 \<le> age \<and> age < seconds_of ForceRefreshMinimumAge)"

definition requested_state :: "string \<Rightarrow> int \<Rightarrow> refresh_request \<Rightarrow> refresh_request" where
  "requested_state requestID now request =
     \<lparr>rf_Version = refreshRequestVersion, rf_RequestID = requestID, rf_RequestedAt = unix_of now,
      rf_StartedID = rf_StartedID request, rf_StartedAt = rf_StartedAt request,
      rf_CompletedID = rf_CompletedID request, rf_CompletedAt = rf_CompletedAt request, rf_LastError = []\<rparr>"

definition request_changes :: "string \<Rightarrow> int \<Rightarrow> (string \<times> goany) list" where
  "request_changes requestID now =
     [(''version'', AInt refreshRequestVersion), (''request_id'', AString requestID),
      (''requested_at'', AInt64 (unix_of now)), (''last_error'', AString [])]"

definition RequestRefresh ::
  "fence \<Rightarrow> env \<Rightarrow> (gerr + json option) \<Rightarrow> (gerr + json option) \<Rightarrow> int \<Rightarrow> db \<Rightarrow>
     (gerr + refresh_request \<times> bool) \<times> db" where
  "RequestRefresh fence env requestRead quotaRead now d =
     (case ReadRefreshRequest requestRead of
        Inl e \<Rightarrow> (Inl e, d)
      | Inr (request, _) \<Rightarrow>
          if Pending request then (Inr (request, False), d)
          else (case ReadQuotaState quotaRead of
              Inl e \<Rightarrow> (Inl e, d)
            | Inr (quotaState, quotaFound) \<Rightarrow>
                if recent_snapshot quotaState quotaFound now then (Inr (request, False), d)
                else (case newRefreshRequestID (ev_random env) of
                    Inl e \<Rightarrow> (Inl e, d)
                  | Inr requestID \<Rightarrow>
                      (case PatchRuntimeState fence env RefreshRequestStateName (request_changes requestID now) d of
                         (Inl e, d') \<Rightarrow> (Inl (wrapf ''request official quota refresh: '' e), d')
                       | (Inr _, d') \<Rightarrow> (Inr (requested_state requestID now request, True), d')))))"

definition MarkRefreshStarted :: "fence \<Rightarrow> env \<Rightarrow> string \<Rightarrow> int \<Rightarrow> db \<Rightarrow> (gerr + unit) \<times> db" where
  "MarkRefreshStarted fence env requestID now d =
     (if requestID = [] then (Inr (), d)
      else (case PatchRuntimeState fence env RefreshRequestStateName
                [(''version'', AInt refreshRequestVersion), (''started_id'', AString requestID),
                 (''started_at'', AInt64 (unix_of now)), (''last_error'', AString [])] d of
              (Inl e, d') \<Rightarrow> (Inl (wrapf ''mark official quota refresh started: '' e), d')
            | (Inr _, d') \<Rightarrow> (Inr (), d')))"

definition MarkRefreshCompleted :: "fence \<Rightarrow> env \<Rightarrow> string \<Rightarrow> int \<Rightarrow> gerr option \<Rightarrow> db \<Rightarrow> (gerr + unit) \<times> db" where
  "MarkRefreshCompleted fence env requestID now runError d =
     (if requestID = [] then (Inr (), d)
      else (case PatchRuntimeState fence env RefreshRequestStateName
                [(''version'', AInt refreshRequestVersion), (''completed_id'', AString requestID),
                 (''completed_at'', AInt64 (unix_of now)), (''last_error'', AString (boundedError runError 500))] d of
              (Inl e, d') \<Rightarrow> (Inl (wrapf ''mark official quota refresh completed: '' e), d')
            | (Inr _, d') \<Rightarrow> (Inr (), d')))"

end
