(* ===== verification/Failover_Controller.thy ===== *)
theory Failover_Controller
  imports Failover_Service Quota_State
begin

text \<open>
  \<open>internal/failover/controller.go\<close>: one run of the controller that evacuates exhausted accounts. The
  interfaces of the controller (the store, the probe of the account containers, the activity reader,
  the snapshot publisher and the audit log) are records of operations on an abstract world, as in
  \<open>Failover_Service\<close>; an absent dependency is \<open>None\<close>. The clock is read once per run, so its value is an
  argument. \<open>SetActiveUserWindow\<close>, an optional method of the activity reader, is the reader it leaves.
\<close>

section \<open>Interfaces and results\<close>

record 'w controller_store =
  cs_Routes :: "'w route_ops"
  cs_ReadAccounts :: "('w, account list) oper"
  cs_ReadSettings :: "('w, goany gomap) oper"
  cs_ReadRuntimeState :: "string \<Rightarrow> ('w, json option) oper"
  cs_WriteRuntimeState :: "string \<Rightarrow> goany \<Rightarrow> ('w, unit) oper"

record 'w controller =
  ct_Store :: "'w controller_store option"
  ct_Probe :: "(account list \<Rightarrow> ('w, bool gomap) oper) option"
  ct_Activity :: "'w activity_ops option"
  ct_SetActiveUserWindow :: "(int \<Rightarrow> 'w activity_ops) option"
  ct_Snapshots :: "('w, string) oper option"
  ct_Audit :: "(string \<Rightarrow> string \<Rightarrow> string \<Rightarrow> ('w, unit) oper) option"

record controller_result =
  rc_Mode :: mode
  rc_Checked :: bool
  rc_MovedUsers :: int
  rc_Plan :: "plan_summary option"
  rc_CapacityUnavailable :: bool
  rc_Warning :: string

definition zero_controller_result :: controller_result where
  "zero_controller_result = \<lparr>rc_Mode = [], rc_Checked = False, rc_MovedUsers = 0, rc_Plan = None,
     rc_CapacityUnavailable = False, rc_Warning = []\<rparr>"

definition ErrQuotaStateUnavailable :: gerr where
  "ErrQuotaStateUnavailable = Sentinel ''official quota state is unavailable or stale''"

section \<open>The activity window of the usage store\<close>

definition DefaultActiveUserWindow :: int where "DefaultActiveUserWindow = 15 * 60 * second"

definition ActiveUserWindowFromSettings :: "goany gomap \<Rightarrow> int" where
  "ActiveUserWindowFromSettings settings =
     (let seconds = (case mget ANil settings ''usage.active_user_window_seconds'' of
            AInt i \<Rightarrow> i | AInt64 i \<Rightarrow> i | AFloat f \<Rightarrow> f_to_int64 f | _ \<Rightarrow> 0)
      in if seconds < 60 \<or> 24 * 60 * 60 < seconds then DefaultActiveUserWindow else seconds * second)"

text \<open>The window kept by a usage store, in seconds.\<close>

definition SetActiveUserWindow :: "int \<Rightarrow> int \<Rightarrow> int" where
  "SetActiveUserWindow window windowSeconds =
     (let seconds = seconds_of window
      in if seconds < 60 \<or> 24 * 60 * 60 < seconds then windowSeconds else seconds)"

definition ActiveUserWindow :: "int \<Rightarrow> int" where
  "ActiveUserWindow windowSeconds =
     (if windowSeconds < 60 then DefaultActiveUserWindow else windowSeconds * second)"

text \<open>A window taken from the settings is always accepted and read back.\<close>

lemma active_user_window_is_set:
  "ActiveUserWindow (SetActiveUserWindow (ActiveUserWindowFromSettings settings) windowSeconds) =
     ActiveUserWindowFromSettings settings"
proof -
  have "\<exists>n. (if s < 60 \<or> 24 * 60 * 60 < s then DefaultActiveUserWindow else s * second) = n * second \<and>
      60 \<le> n \<and> n \<le> 24 * 60 * 60" for s
    by (rule exI [of _ "if s < 60 \<or> 24 * 60 * 60 < s then 15 * 60 else s"]) (simp add: DefaultActiveUserWindow_def)
  then have "\<exists>n. ActiveUserWindowFromSettings settings = n * second \<and> 60 \<le> n \<and> n \<le> 24 * 60 * 60"
    unfolding ActiveUserWindowFromSettings_def Let_def .
  then obtain n where n: "ActiveUserWindowFromSettings settings = n * second" "60 \<le> n" "n \<le> 24 * 60 * 60" by blast
  then have "seconds_of (n * second) = n" by (simp add: second_def)
  with n show ?thesis by (simp add: SetActiveUserWindow_def ActiveUserWindow_def Let_def)
qed

section \<open>Health of the persisted state\<close>

definition HealthyRuntimeState :: "runtime_state \<Rightarrow> bool \<Rightarrow> int \<Rightarrow> int \<Rightarrow> bool" where
  "HealthyRuntimeState state found now maxAge =
     (if \<not> found \<or> rt_Version state \<noteq> RuntimeStateVersion \<or> rt_HeartbeatAt state = None \<or>
         the (rt_HeartbeatAt state) \<le> 0 \<or> rt_LastError state \<noteq> [] \<or> maxAge \<le> 0
      then False
      else let age = sub64 (unix_of now) (the (rt_HeartbeatAt state))
           in if age < 0 \<or> seconds_of maxAge < age then False
              else if rt_Mode state = ModeOff then True
              else rt_Mode state = ModeActive \<and>
                   (case rt_LastSuccessAt state of None \<Rightarrow> False | Some t \<Rightarrow> 0 < t))"

section \<open>Helpers\<close>

definition timestampAge :: "int option \<Rightarrow> int \<Rightarrow> int" where
  "timestampAge timestamp now =
     (case timestamp of None \<Rightarrow> 2 ^ 63 - 1 | Some t \<Rightarrow> if now < t then 2 ^ 63 - 1 else sub64 now t)"

definition latestObservedAt :: "account_state gomap \<Rightarrow> int" where
  "latestObservedAt states =
     foldl (\<lambda>latest (_, s). if latest < as_ObservedAt s then as_ObservedAt s else latest) 0 states"

definition boundedControllerError :: "gerr option \<Rightarrow> nat \<Rightarrow> string" where
  "boundedControllerError err maximum = (case err of None \<Rightarrow> [] | Some e \<Rightarrow> bounded_runes maximum (err_text e))"

definition formatCounts :: "int gomap \<Rightarrow> string" where
  "formatCounts vals = join_with '','' (map (\<lambda>key. key @ '':'' @ itoa (mget 0 vals key)) (sort (map fst vals)))"

definition formatMigrationTarget :: "int gomap \<Rightarrow> int gomap \<Rightarrow> string" where
  "formatMigrationTarget sources destinations = formatCounts sources @ '' -> '' @ formatCounts destinations"

definition formatCapacityTarget :: "plan_summary \<Rightarrow> string" where
  "formatCapacityTarget p = formatCounts (ps_Sources p) @ '' unassigned:'' @ itoa (ps_UnassignedUsers p)"

definition joinWarnings :: "string list \<Rightarrow> string" where
  "joinWarnings vals = join_with ''; '' (filter (\<lambda>v. v \<noteq> []) (map trim_space vals))"

text \<open>\<open>reflect.DeepEqual\<close> of two plan summaries: maps are compared as maps.\<close>

definition counts_equal :: "int gomap \<Rightarrow> int gomap \<Rightarrow> bool" where
  "counts_equal m n \<longleftrightarrow> length m = length n \<and> list_all (\<lambda>(k, v). map_of n k = Some v) m"

definition previousPlanChanged :: "plan_summary option \<Rightarrow> plan_summary \<Rightarrow> bool" where
  "previousPlanChanged previous current =
     (case previous of
        None \<Rightarrow> True
      | Some p \<Rightarrow>
          \<not> (counts_equal (ps_Sources p) (ps_Sources current) \<and>
             counts_equal (ps_Destinations p) (ps_Destinations current) \<and>
             ps_CandidateAccounts p = ps_CandidateAccounts current \<and>
             ps_AffectedUsers p = ps_AffectedUsers current \<and> ps_PlannedUsers p = ps_PlannedUsers current \<and>
             ps_SkippedUsers p = ps_SkippedUsers current \<and> ps_UnassignedUsers p = ps_UnassignedUsers current))"

section \<open>Writing the state\<close>

definition written_state :: "runtime_state \<Rightarrow> runtime_state" where
  "written_state state = normalize_runtime (state\<lparr>rt_Version := RuntimeStateVersion\<rparr>)"

definition writeState :: "'w controller_store \<Rightarrow> runtime_state \<Rightarrow> 'w \<Rightarrow> gerr option \<times> 'w" where
  "writeState store state w =
     (case cs_WriteRuntimeState store RuntimeStateName (runtime_json (written_state state)) w of
        (Inl e, w) \<Rightarrow> (Some (wrapf ''write account failover runtime state: '' e), w)
      | (Inr _, w) \<Rightarrow> (None, w))"

definition error_state :: "runtime_state \<Rightarrow> int \<Rightarrow> int \<Rightarrow> gerr \<Rightarrow> runtime_state" where
  "error_state state now pollInterval runError =
     state\<lparr>rt_HeartbeatAt := Some now, rt_LastCheckAt := Some now,
           rt_NextCheckAt := Some (add64 now (seconds_of pollInterval)), rt_QuotaRefreshing := False,
           rt_LastError := boundedControllerError (Some runError) 500\<rparr>"

text \<open>The method \<open>recordError\<close> of the controller.\<close>

definition record_error ::
  "'w controller_store \<Rightarrow> runtime_state \<Rightarrow> int \<Rightarrow> int \<Rightarrow> gerr \<Rightarrow> 'w \<Rightarrow> gerr option \<times> 'w" where
  "record_error store state now pollInterval runError w =
     (case writeState store (error_state state now pollInterval runError) w of
        (Some writeError, w) \<Rightarrow> (errors_join [Some runError, Some writeError], w)
      | (None, w) \<Rightarrow> (Some runError, w))"

definition audit_warning ::
  "'w controller \<Rightarrow> string \<Rightarrow> string \<Rightarrow> string \<Rightarrow> 'w \<Rightarrow> string \<times> 'w" where
  "audit_warning ct action target outcome w =
     (case ct_Audit ct of
        None \<Rightarrow> ([], w)
      | Some rec \<Rightarrow> (case rec action target outcome w of
            (Inl e, w) \<Rightarrow> (''audit write failed: '' @ err_text e, w) | (Inr _, w) \<Rightarrow> ([], w)))"

section \<open>One run\<close>

text \<open>The values a run derives from the settings and the clock.\<close>

record run_config =
  cf_mode :: mode
  cf_poll :: int
  cf_stale :: int
  cf_reserve :: f64
  cf_now :: int
  cf_force :: bool

definition config_of :: "goany gomap \<Rightarrow> int \<Rightarrow> bool \<Rightarrow> run_config" where
  "config_of settings now force =
     \<lparr>cf_mode = modeSetting (mget ANil settings ''account_failover.mode''),
      cf_poll = durationSetting (mget ANil settings ''account_failover.poll_seconds'') (60 * second),
      cf_stale = durationSetting (mget ANil settings ''account_failover.stale_after_seconds'') defaultAccountStateStaleAfter,
      cf_reserve = percentageSetting (mget ANil settings ''account_failover.reserve_percent'') (Fin 5),
      cf_now = now, cf_force = force\<rparr>"

text \<open>The last part of a run: the outcome of the evacuation is recorded, audited and written.\<close>

definition conclude ::
  "'w controller \<Rightarrow> 'w controller_store \<Rightarrow> run_config \<Rightarrow> plan_summary option \<Rightarrow> runtime_state \<Rightarrow> controller_result \<Rightarrow>
     evacuation_result \<times> gerr option \<Rightarrow> 'w \<Rightarrow> (controller_result \<times> gerr option) \<times> 'w" where
  "conclude ct store cf previousPlan state result evacuated w =
     (let (evacuation, evacuationError) = evacuated;
          nowUnix = unix_of (cf_now cf);
          p = er_Plan evacuation;
          result = result\<lparr>rc_Plan := Some p\<rparr>;
          state = state\<lparr>rt_LastPlan := Some p\<rparr>;
          capacityUnavailable = (case evacuationError of None \<Rightarrow> False
            | Some e \<Rightarrow> errors_is e ErrRebalanceUnavailable \<or> errors_is e ErrRebalanceUnsafe)
      in if evacuationError \<noteq> None \<and> \<not> capacityUnavailable
         then (case record_error store state nowUnix (cf_poll cf) (the evacuationError) w of (e, w) \<Rightarrow> ((result, e), w))
         else let state = state\<lparr>rt_LastSuccessAt := Some nowUnix, rt_LastError := []\<rparr>;
                  ((result, state), w) =
                    (if capacityUnavailable
                     then let result = result\<lparr>rc_CapacityUnavailable := True,
                                rc_Warning := ''exhausted accounts have users that cannot be migrated safely''\<rparr>
                          in if previousPlanChanged previousPlan p
                             then (case audit_warning ct ''account.failover.capacity_unavailable'' (formatCapacityTarget p)
                                      ''accepted'' w of
                                     (warning, w) \<Rightarrow>
                                       ((result\<lparr>rc_Warning := joinWarnings [rc_Warning result, warning]\<rparr>, state), w))
                             else ((result, state), w)
                     else let moved = rr_MovedUsers (er_Rebalance evacuation);
                              result = result\<lparr>rc_MovedUsers := moved, rc_Warning := rr_Warning (er_Rebalance evacuation)\<rparr>
                          in if 0 < moved
                             then let state = state\<lparr>rt_LastAction := Some \<lparr>at_At = nowUnix, at_Trigger = ''automatic'',
                                        at_Sources = ps_Sources p, at_Destinations = rr_Destinations (er_Rebalance evacuation),
                                        at_MovedUsers = moved,
                                        at_SnapshotGeneration = rr_SnapshotGeneration (er_Rebalance evacuation)\<rparr>\<rparr>
                                  in (case audit_warning ct ''account.failover.rebalance''
                                        (formatMigrationTarget (ps_Sources p) (rr_Destinations (er_Rebalance evacuation)))
                                        ''accepted'' w of
                                        (warning, w) \<Rightarrow>
                                          ((result\<lparr>rc_Warning := joinWarnings [rc_Warning result, warning]\<rparr>, state), w))
                             else ((result, state), w))
              in (case writeState store state w of (e, w) \<Rightarrow> ((result, e), w)))"

text \<open>The activity reader after the settings were read a second time.\<close>

definition windowed_activity ::
  "'w controller \<Rightarrow> 'w controller_store \<Rightarrow> 'w activity_ops \<Rightarrow> 'w \<Rightarrow> 'w activity_ops \<times> 'w" where
  "windowed_activity ct store act w =
     (case ct_SetActiveUserWindow ct of
        None \<Rightarrow> (act, w)
      | Some set_window \<Rightarrow>
          (case cs_ReadSettings store w of
             (Inl _, w) \<Rightarrow> (act, w)
           | (Inr settings, w) \<Rightarrow> (set_window (ActiveUserWindowFromSettings settings), w)))"

text \<open>The middle part: the inputs are collected, the account states built, and the evacuation made.\<close>

definition check_accounts ::
  "'w controller \<Rightarrow> 'w controller_store \<Rightarrow> run_config \<Rightarrow> gerr + quota_runtime \<times> bool \<Rightarrow> runtime_state \<Rightarrow> controller_result \<Rightarrow>
     'w \<Rightarrow> (controller_result \<times> gerr option) \<times> 'w" where
  "check_accounts ct store cf quotaRead state result w =
     (let nowUnix = unix_of (cf_now cf);
          failed = (\<lambda>state result e w. case record_error store state nowUnix (cf_poll cf) e w of (r, w) \<Rightarrow> ((result, r), w))
      in case (ct_Probe ct, ct_Activity ct, ct_Snapshots ct) of
           (Some probe, Some act, Some publish) \<Rightarrow>
             (case quotaRead of
                Inl e \<Rightarrow> failed state result (wrapf ''collect account failover inputs: '' e) w
              | Inr (quotaState, quotaFound) \<Rightarrow>
             (case cs_ReadAccounts store w of
                (Inl e, w) \<Rightarrow> failed state result (wrapf ''collect account failover inputs: '' e) w
              | (Inr accounts, w) \<Rightarrow>
             (case probe accounts w of
                (Inl e, w) \<Rightarrow> failed state result (wrapf ''probe account runtimes: '' e) w
              | (Inr running, w) \<Rightarrow>
                 (let states = BuildAccountStates accounts (qm_Snapshot quotaState) running (cf_now cf) (cf_stale cf) (cf_reserve cf);
                      previousPlan = rt_LastPlan state;
                      state = state\<lparr>rt_Accounts := states, rt_LastCheckAt := Some nowUnix,
                                    rt_NextCheckAt := Some (add64 nowUnix (seconds_of (cf_poll cf)))\<rparr>;
                      result = result\<lparr>rc_Checked := True\<rparr>
                  in if \<not> QuotaHealthy quotaState quotaFound (cf_now cf) (cf_stale cf)
                     then failed state result ErrQuotaStateUnavailable w
                     else (case windowed_activity ct store act w of (act, w) \<Rightarrow>
                          (case EvacuateExhausted \<lparr>sv_Routes = Some (cs_Routes store), sv_States = Some (\<lambda>w. (Inr states, w)),
                                  sv_Activity = Some act, sv_Snapshots = Some publish\<rparr> w of
                             (evacuated, w) \<Rightarrow> conclude ct store cf previousPlan state result evacuated w))))))
         | _ \<Rightarrow> failed state result (ErrNew ''active account failover dependencies are incomplete'') w)"

text \<open>A state whose heartbeat is at least a minute old is written even when nothing else is due.\<close>

definition controller_run ::
  "'w controller \<Rightarrow> bool \<Rightarrow> int \<Rightarrow> 'w \<Rightarrow> (controller_result \<times> gerr option) \<times> 'w" where
  "controller_run ct force now w =
     (case ct_Store ct of
        None \<Rightarrow> ((zero_controller_result, Some (ErrNew ''account failover controller requires a control-plane store'')), w)
      | Some store \<Rightarrow>
     (case cs_ReadSettings store w of
        (Inl e, w) \<Rightarrow> ((zero_controller_result, Some (wrapf ''read account failover settings: '' e)), w)
      | (Inr settings, w) \<Rightarrow>
     (let cf = config_of settings now force; nowUnix = unix_of now; mode = cf_mode cf
      in case cs_ReadRuntimeState store RuntimeStateName w of (stored, w) \<Rightarrow>
         (case ReadFailoverState stored of
            Inl e \<Rightarrow> ((zero_controller_result, Some e), w)
          | Inr (previous, _) \<Rightarrow>
              (let previousHeartbeatAge = timestampAge (rt_HeartbeatAt previous) nowUnix;
                   state = previous\<lparr>rt_Mode := mode, rt_HeartbeatAt := Some nowUnix, rt_QuotaRefreshing := False\<rparr>;
                   result = zero_controller_result\<lparr>rc_Mode := mode\<rparr>
               in if mode = ModeOff
                  then (if force \<or> rt_Mode previous \<noteq> mode \<or> 60 \<le> previousHeartbeatAge
                        then (case writeState store (state\<lparr>rt_NextCheckAt := None, rt_LastError := []\<rparr>) w of
                                (e, w) \<Rightarrow> ((result, e), w))
                        else ((result, None), w))
                  else (case cs_ReadRuntimeState store QuotaStateName w of (quotaStored, w) \<Rightarrow>
                       (let quotaRead = ReadQuotaState quotaStored;
                            quotaChanged = (case quotaRead of Inl _ \<Rightarrow> False
                              | Inr (quotaState, quotaFound) \<Rightarrow> quotaFound \<and>
                                  latestObservedAt (rt_Accounts previous) < sn_GeneratedAt (qm_Snapshot quotaState))
                        in if \<not> force \<and> rt_Mode previous = mode \<and>
                              (case rt_LastCheckAt previous of None \<Rightarrow> False
                               | Some t \<Rightarrow> nowUnix < add64 t (seconds_of (cf_poll cf))) \<and> \<not> quotaChanged
                           then (if 60 \<le> previousHeartbeatAge
                                 then (case writeState store state w of (e, w) \<Rightarrow> ((result, e), w))
                                 else ((result, None), w))
                           else check_accounts ct store cf quotaRead state result w)))))))"

definition ControllerRunOnce :: "'w controller \<Rightarrow> int \<Rightarrow> 'w \<Rightarrow> (controller_result \<times> gerr option) \<times> 'w" where
  "ControllerRunOnce ct = controller_run ct False"

definition RunForced :: "'w controller \<Rightarrow> int \<Rightarrow> 'w \<Rightarrow> (controller_result \<times> gerr option) \<times> 'w" where
  "RunForced ct = controller_run ct True"

end
