(* ===== verification/Lease_Proofs.thy ===== *)
theory Lease_Proofs
  imports Control_Store
begin

text \<open>
  What the leases and the write fence of \<open>Control_Store\<close> guarantee: the JSON form of a lease is read
  back as written; a transaction either commits as a whole or leaves the database as it was; a lease
  generation that has been superseded never passes the fence again, whatever the clocks of the
  processes show; a held lease is guarded against every other process.
\<close>

section \<open>The stored form\<close>

definition lease_in64 :: "lease \<Rightarrow> bool" where
  "lease_in64 l \<longleftrightarrow> in64 (le_Version l) \<and> in64 (le_Generation l) \<and> in64 (le_AcquiredAt l) \<and>
     in64 (le_RenewedAt l) \<and> in64 (le_ExpiresAt l) \<and> pred_option in64 (le_ReleasedAt l)"

lemma lease_fields:
  assumes "lease_json l = AObject m"
  shows "mget ANil m ''version'' = AInt64 (le_Version l)"
    "mget ANil m ''scope'' = AString (le_Scope l)"
    "mget ANil m ''owner'' = AString (le_Owner l)"
    "mget ANil m ''generation'' = AInt64 (le_Generation l)"
    "mget ANil m ''token'' = (if le_Token l = [] then ANil else AString (le_Token l))"
    "mget ANil m ''acquired_at'' = AInt64 (le_AcquiredAt l)"
    "mget ANil m ''renewed_at'' = AInt64 (le_RenewedAt l)"
    "mget ANil m ''expires_at'' = AInt64 (le_ExpiresAt l)"
    "mget ANil m ''released_at'' = (case le_ReleasedAt l of None \<Rightarrow> ANil | Some t \<Rightarrow> AInt64 t)"
proof -
  have "m = (case lease_json l of AObject m \<Rightarrow> m | _ \<Rightarrow> [])" using assms by simp
  then have m: "m = [(''version'', AInt64 (le_Version l)), (''scope'', AString (le_Scope l)),
      (''owner'', AString (le_Owner l)), (''generation'', AInt64 (le_Generation l))] @
     (if le_Token l = [] then [] else [(''token'', AString (le_Token l))]) @
     [(''acquired_at'', AInt64 (le_AcquiredAt l)), (''renewed_at'', AInt64 (le_RenewedAt l)),
      (''expires_at'', AInt64 (le_ExpiresAt l))] @
     (case le_ReleasedAt l of None \<Rightarrow> [] | Some t \<Rightarrow> [(''released_at'', AInt64 t)])"
    by (simp add: lease_json_def)
  show "mget ANil m ''version'' = AInt64 (le_Version l)"
    "mget ANil m ''scope'' = AString (le_Scope l)"
    "mget ANil m ''owner'' = AString (le_Owner l)"
    "mget ANil m ''generation'' = AInt64 (le_Generation l)"
    "mget ANil m ''token'' = (if le_Token l = [] then ANil else AString (le_Token l))"
    "mget ANil m ''acquired_at'' = AInt64 (le_AcquiredAt l)"
    "mget ANil m ''renewed_at'' = AInt64 (le_RenewedAt l)"
    "mget ANil m ''expires_at'' = AInt64 (le_ExpiresAt l)"
    "mget ANil m ''released_at'' = (case le_ReleasedAt l of None \<Rightarrow> ANil | Some t \<Rightarrow> AInt64 t)"
    unfolding m by (simp_all add: mget_def split: option.split)
qed

lemma lease_json_object: "\<exists>m. lease_json l = AObject m"
  by (simp add: lease_json_def)

lemma lease_roundtrip:
  assumes "lease_in64 l"
  shows "lease_of_json (Some (lease_json l)) = Some l"
proof -
  obtain m where m: "lease_json l = AObject m" using lease_json_object by blast
  show ?thesis
    using assms
    by (simp add: m lease_of_json_def lease_of_object_def dec_int_def dec_string_def
        dec_int_ptr_def lease_fields [OF m] lease_in64_def option.pred_set
        split: option.split)
qed

lemma writeLease_Inr:
  "writeLease env l d = Inr d' \<Longrightarrow>
     d' = d\<lparr>db_runtime_state := mput (leaseStatePrefix @ le_Scope l) (Some (lease_json l)) (db_runtime_state d)\<rparr>"
  by (auto simp: writeLease_def attempt_Inr_iff)

text \<open>The lease row of a scope.\<close>

definition lease_row :: "string \<Rightarrow> db \<Rightarrow> json option" where
  "lease_row scope d = map_of (db_runtime_state d) (leaseStatePrefix @ scope)"

lemma lease_row_writeLease:
  "writeLease env l d = Inr d' \<Longrightarrow>
     lease_row scope d' = (if scope = le_Scope l then Some (Some (lease_json l)) else lease_row scope d)"
  by (auto simp: lease_row_def dest!: writeLease_Inr)

lemma readLease_Inr_Some:
  assumes "readLease env scope d = Inr (Some l)"
  obtains raw where "lease_row scope d = Some raw" "lease_of_json raw = Some l" "lease_valid scope l"
    "le_Scope l = scope"
  using assms
  by (auto simp: readLease_def Let_def lease_row_def attempt_Inr_iff lease_valid_def
      split: sum.splits option.splits if_splits)

lemma readLease_Inr_None: "readLease env scope d = Inr None \<Longrightarrow> lease_row scope d = None"
  by (auto simp: readLease_def Let_def lease_row_def attempt_Inr_iff split: sum.splits option.splits if_splits)

lemma readLease_row:
  assumes "ev_fault env (SqlRead ''runtime_state'' (leaseStatePrefix @ scope)) = None"
    "lease_row scope d = Some raw" "lease_of_json raw = Some l" "lease_valid scope l"
  shows "readLease env scope d = Inr (Some l)"
  using assms by (simp add: readLease_def Let_def lease_row_def attempt_def)

section \<open>Lease operations by outcome\<close>

lemma validateLeaseInput_Inr:
  assumes "validateLeaseInput rawScope rawOwner ttl = Inr (scope, owner, s)"
  shows "scope = trim_space rawScope" "owner = trim_space rawOwner" "owner \<noteq> []"
    "5 \<le> s" "s \<le> 300"
proof -
  have ttl: "5000000000 \<le> ttl" "ttl \<le> 300000000000" and s: "s = go_div (ttl + second - 1) second"
    and others: "scope = trim_space rawScope" "owner = trim_space rawOwner" "owner \<noteq> []"
    using assms
    by (auto simp: validateLeaseInput_def Let_def minLeaseTTL_def maxLeaseTTL_def second_def
        split: if_splits)
  show "scope = trim_space rawScope" "owner = trim_space rawOwner" "owner \<noteq> []"
    by (fact others)+
  have "s = (ttl + 999999999) div 1000000000"
    using s ttl by (simp add: go_div_def second_def)
  then show "5 \<le> s" "s \<le> 300" using ttl by linarith+
qed

lemma take_in_tx_Inr:
  assumes "take_in_tx env scope owner s token d = Inr (l, d')"
  obtains found where "readLease env scope d = Inr found" "writeLease env l d = Inr d'"
    "pred_option (\<lambda>cur. le_ExpiresAt cur \<le> unix_of (ev_now env)) found"
    "le_Scope l = scope" "le_Owner l = owner" "le_Token l = token"
    "le_Generation l = (case found of None \<Rightarrow> 1 | Some cur \<Rightarrow> add64 (le_Generation cur) 1)"
    "le_AcquiredAt l = unix_of (ev_now env)" "le_RenewedAt l = unix_of (ev_now env)"
    "le_ExpiresAt l = add64 (unix_of (ev_now env)) s" "le_Version l = leaseStateVersion"
    "le_ReleasedAt l = None"
  using assms
  by (auto simp: take_in_tx_def Let_def split: sum.splits if_splits option.splits)

lemma join_in_tx_Inr:
  assumes "join_in_tx env scope owner s d = Inr (l, d')"
  obtains cur where "readLease env scope d = Inr (Some cur)" "writeLease env l d = Inr d'"
    "l = renewed (unix_of (ev_now env)) s cur" "unix_of (ev_now env) < le_ExpiresAt cur"
    "le_Owner cur = owner"
  using assms
  by (auto simp: join_in_tx_def Let_def not_le split: sum.splits if_splits option.splits)

lemma renew_in_tx_Inr:
  assumes "renew_in_tx env scope owner lease s d = Inr (l, d')"
  obtains cur where "readLease env scope d = Inr (Some cur)" "writeLease env l d = Inr d'"
    "l = renewed (unix_of (ev_now env)) s cur" "unix_of (ev_now env) < le_ExpiresAt cur"
    "le_Token cur = le_Token lease" "le_Generation cur = le_Generation lease" "le_Owner cur = owner"
  using assms
  by (auto simp: renew_in_tx_def Let_def not_le split: sum.splits if_splits option.splits)

lemma release_in_tx_Inr:
  assumes "release_in_tx env scope owner lease d = Inr (u, d')"
  obtains cur l where "readLease env scope d = Inr (Some cur)" "writeLease env l d = Inr d'"
    "l = cur\<lparr>le_Token := [], le_RenewedAt := unix_of (ev_now env),
       le_ExpiresAt := unix_of (ev_now env), le_ReleasedAt := Some (unix_of (ev_now env))\<rparr>"
    "le_Token cur = le_Token lease" "le_Generation cur = le_Generation lease"
  using assms
  by (auto simp: release_in_tx_def Let_def split: sum.splits if_splits option.splits)

section \<open>Steps of the store\<close>

text \<open>
  One step is one committed or failed operation of some process (its fence, its environment). Steps
  that are not lease operations may do anything to the database except touch lease rows.
\<close>

definition keeps_leases :: "db \<Rightarrow> db \<Rightarrow> bool" where
  "keeps_leases d d' \<longleftrightarrow> (\<forall>scope. lease_row scope d' = lease_row scope d)"

inductive store_step :: "db \<Rightarrow> db \<Rightarrow> bool" where
  take: "TakeLease fence env scope owner ttl d = (r, d') \<Longrightarrow> store_step d d'"
| join: "JoinLease fence env scope owner ttl d = (r, d') \<Longrightarrow> store_step d d'"
| renew: "RenewLease fence env lease ttl d = (r, d') \<Longrightarrow> store_step d d'"
| release: "ReleaseLease fence env lease d = (u, d') \<Longrightarrow> store_step d d'"
| business: "writeTransaction fence env (operation :: db \<Rightarrow> gerr + unit \<times> db) d = (v, d') \<Longrightarrow>
     (\<And>x d''. operation d = Inr (x, d'') \<Longrightarrow> keeps_leases d d'') \<Longrightarrow> store_step d d'"

text \<open>The four lease operations change at most the row of one scope, by a lease derived from a valid one.\<close>

inductive lease_write :: "db \<Rightarrow> lease \<Rightarrow> db \<Rightarrow> bool" where
  "readLease env scope d = Inr found \<Longrightarrow> writeLease env l d = Inr d' \<Longrightarrow> le_Scope l = scope \<Longrightarrow>
   le_Generation l = (case found of None \<Rightarrow> 1 | Some cur \<Rightarrow> add64 (le_Generation cur) 1) \<or>
   (\<exists>cur. found = Some cur \<and> le_Generation l = le_Generation cur) \<Longrightarrow> lease_write d l d'"

lemma take_in_tx_write: "take_in_tx env scope owner s token d = Inr (l, d') \<Longrightarrow> lease_write d l d'"
  by (elim take_in_tx_Inr) (blast intro: lease_write.intros)

lemma join_in_tx_write: "join_in_tx env scope owner s d = Inr (l, d') \<Longrightarrow> lease_write d l d'"
  by (elim join_in_tx_Inr) (rule lease_write.intros, auto elim: readLease_Inr_Some simp: renewed_def)

lemma renew_in_tx_write: "renew_in_tx env scope owner lease s d = Inr (l, d') \<Longrightarrow> lease_write d l d'"
  by (elim renew_in_tx_Inr) (rule lease_write.intros, auto elim: readLease_Inr_Some simp: renewed_def)

lemma release_in_tx_write:
  "release_in_tx env scope owner lease d = Inr (u, d') \<Longrightarrow> \<exists>l. lease_write d l d'"
  by (elim release_in_tx_Inr, rule exI, rule lease_write.intros, assumption, assumption)
    (auto elim: readLease_Inr_Some)

definition step_effect :: "db \<Rightarrow> db \<Rightarrow> bool" where
  "step_effect d d' \<longleftrightarrow> keeps_leases d d' \<or> (\<exists>l. lease_write d l d')"

lemma step_effect_refl [simp]: "step_effect d d"
  by (simp add: step_effect_def keeps_leases_def)

lemma tx_effect:
  assumes "writeTransaction fence env operation d = (r, d')"
    "\<And>x d''. operation d = Inr (x, d'') \<Longrightarrow> step_effect d d''"
  shows "step_effect d d'"
  using assms(2)
  by (rule_tac writeTransaction_outcome [of fence env operation d]) (auto simp: assms(1))

lemma step_effectI: "lease_write d l d' \<Longrightarrow> step_effect d d'"
  by (auto simp: step_effect_def)

lemma lease_tx_effect:
  "writeTransaction fence env (take_in_tx env scope owner s token) d = (r, d') \<Longrightarrow> step_effect d d'"
  "writeTransaction fence env (join_in_tx env scope owner s) d = (r, d') \<Longrightarrow> step_effect d d'"
  "writeTransaction fence env (renew_in_tx env scope owner lease s) d = (r, d') \<Longrightarrow> step_effect d d'"
  "writeTransaction fence env (release_in_tx env scope owner lease) d = (u, d') \<Longrightarrow> step_effect d d'"
  by (erule tx_effect, blast intro: step_effectI
      dest: take_in_tx_write join_in_tx_write renew_in_tx_write release_in_tx_write)+

lemma store_step_cases:
  assumes "store_step d d'"
  obtains "keeps_leases d d'" | l where "lease_write d l d'"
proof -
  from assms have "step_effect d d'"
  proof cases
    case take
    then show ?thesis by (auto simp: TakeLease_def split: sum.splits dest: lease_tx_effect(1))
  next
    case join
    then show ?thesis by (auto simp: JoinLease_def split: sum.splits dest: lease_tx_effect(2))
  next
    case renew
    then show ?thesis
      by (auto simp: RenewLease_def split: sum.splits if_splits dest: lease_tx_effect(3))
  next
    case release
    then show ?thesis
      by (auto simp: ReleaseLease_def split: sum.splits if_splits dest: lease_tx_effect(4))
  next
    case business
    then show ?thesis by (elim tx_effect) (simp add: step_effect_def)
  qed
  then show thesis using that by (auto simp: step_effect_def)
qed

section \<open>Superseded generations\<close>

text \<open>
  The row of the scope is there, and it is unreadable or of a later generation than \<open>g\<close>. Once true,
  it stays true: an unreadable row makes every lease operation on the scope fail, and a readable one
  is only ever replaced by the same generation or the next. At the end of \<open>int64\<close> the next generation
  is negative, which makes the row unreadable.
\<close>

definition superseded :: "string \<Rightarrow> int \<Rightarrow> db \<Rightarrow> bool" where
  "superseded scope g d \<longleftrightarrow>
     (\<exists>raw. lease_row scope d = Some raw \<and>
        (\<forall>l. lease_of_json raw = Some l \<longrightarrow> lease_valid scope l \<longrightarrow> g < le_Generation l))"

lemma lease_of_object_Some:
  assumes "lease_of_object m = Some l"
  shows "dec_int m ''version'' = Some (le_Version l)" "dec_int m ''generation'' = Some (le_Generation l)"
    "dec_int m ''acquired_at'' = Some (le_AcquiredAt l)" "dec_int m ''renewed_at'' = Some (le_RenewedAt l)"
    "dec_int m ''expires_at'' = Some (le_ExpiresAt l)" "dec_int_ptr m ''released_at'' = Some (le_ReleasedAt l)"
  using assms by (auto simp: lease_of_object_def split: option.splits)

lemma lease_decode:
  assumes "lease_of_json (Some (lease_json l)) = Some l'"
  shows "l' = l" "in64 (le_Generation l)"
proof -
  obtain m where m: "lease_json l = AObject m" using lease_json_object by blast
  then have dec: "lease_of_object m = Some l'" using assms by (simp add: lease_of_json_def)
  note decs = lease_of_object_Some [OF dec]
  have ints: "in64 i" if "dec_int m k = Some j" "mget ANil m k = AInt64 i" for i j k
    using that by (auto simp: dec_int_def split: if_splits)
  have "pred_option in64 (le_ReleasedAt l)"
    using decs(6) lease_fields(9) [OF m]
    by (cases "le_ReleasedAt l") (auto simp: dec_int_ptr_def split: if_splits)
  then have "lease_in64 l"
    using ints [OF decs(1) lease_fields(1) [OF m]] ints [OF decs(2) lease_fields(4) [OF m]]
      ints [OF decs(3) lease_fields(6) [OF m]] ints [OF decs(4) lease_fields(7) [OF m]]
      ints [OF decs(5) lease_fields(8) [OF m]] by (simp add: lease_in64_def)
  with assms show "l' = l" "in64 (le_Generation l)"
    by (simp_all add: lease_roundtrip lease_in64_def)
qed

lemma dec_int_in64: "dec_int m k = Some i \<Longrightarrow> in64 i"
  by (auto simp: dec_int_def in64_def split: goany.splits if_splits)

lemma lease_generation_in64:
  assumes "lease_of_json raw = Some l"
  shows "in64 (le_Generation l)"
proof -
  have "(\<exists>m. lease_of_object m = Some l) \<or> l = zero_lease"
    using assms by (auto simp: lease_of_json_def split: option.splits goany.splits)
  then show ?thesis
    using dec_int_in64 [OF lease_of_object_Some(2)] by (auto simp: zero_lease_def in64_def)
qed

lemma next_generation:
  assumes "in64 g" "h < g"
  shows "add64 g 1 < 1 \<or> h < add64 g 1"
  using assms by (cases "g = max_int64") (auto simp: add64_def wrap64_def max_int64_def in64_def)

lemma superseded_after_write:
  assumes "lease_write d l d'"
    "\<And>cur. lease_row (le_Scope l) d = Some cur \<Longrightarrow> superseded (le_Scope l) g d"
    "lease_row (le_Scope l) d = None \<Longrightarrow> g < 1"
  shows "superseded (le_Scope l) g d'"
  using assms(1)
proof cases
  case (1 env scope found)
  have row: "lease_row (le_Scope l) d' = Some (Some (lease_json l))"
    by (simp add: lease_row_writeLease [OF 1(2)])
  have "g < le_Generation l"
    if "lease_of_json (Some (lease_json l)) = Some l'" "lease_valid (le_Scope l) l'" for l'
  proof -
    have l: "l' = l" "1 \<le> le_Generation l"
      using that lease_decode(1) [OF that(1)] by (simp_all add: lease_valid_def)
    show ?thesis
    proof (cases found)
      case None
      with 1 l assms(3) show ?thesis by (auto dest: readLease_Inr_None)
    next
      case (Some cur)
      then obtain raw where raw: "lease_row (le_Scope l) d = Some raw" "lease_of_json raw = Some cur"
          "lease_valid (le_Scope l) cur"
        using 1 by (auto elim: readLease_Inr_Some)
      then have "g < le_Generation cur" using assms(2) by (auto simp: superseded_def)
      with Some 1 l next_generation [OF lease_generation_in64 [OF raw(2)]] show ?thesis by force
    qed
  qed
  with row show ?thesis by (simp add: superseded_def) (use lease_decode(1) in blast)
qed

lemma superseded_step:
  assumes "store_step d d'" "superseded scope g d"
  shows "superseded scope g d'"
  using assms(1)
proof (cases rule: store_step_cases)
  case 1
  with assms(2) show ?thesis by (simp add: superseded_def keeps_leases_def)
next
  case (2 l)
  show ?thesis
  proof (cases "le_Scope l = scope")
    case True
    with superseded_after_write [OF 2] assms(2) show ?thesis by (auto simp: superseded_def)
  next
    case False
    with 2 have "lease_row scope d' = lease_row scope d"
      by (auto elim!: lease_write.cases simp: lease_row_writeLease)
    with assms(2) show ?thesis by (simp add: superseded_def)
  qed
qed

lemma superseded_steps: "store_step\<^sup>*\<^sup>* d d' \<Longrightarrow> superseded scope g d \<Longrightarrow> superseded scope g d'"
  by (induction rule: rtranclp_induct) (auto intro: superseded_step)

lemma superseded_fence:
  "l \<in> set fence \<Longrightarrow> superseded (le_Scope l) (le_Generation l) d \<Longrightarrow> validateWriteFence fence env d \<noteq> None"
proof (induction fence)
  case (Cons x xs)
  show ?case
  proof (cases "l = x")
    case True
    have "\<not> holds_lease now l found" if "readLease env (le_Scope l) d = Inr found" for now found
      using that Cons.prems(2)
      by (cases found) (auto simp: holds_lease_def superseded_def elim!: readLease_Inr_Some)
    with True show ?thesis by (auto split: sum.split)
  qed (use Cons in \<open>auto split: sum.split\<close>)
qed simp

text \<open>A process obtains a lease by taking, joining or renewing it.\<close>

inductive obtains_lease :: "db \<Rightarrow> lease \<Rightarrow> db \<Rightarrow> bool" where
  "TakeLease fence env scope owner ttl d = (Inr l, d') \<Longrightarrow> obtains_lease d l d'"
| "JoinLease fence env scope owner ttl d = (Inr l, d') \<Longrightarrow> obtains_lease d l d'"
| "RenewLease fence env lease ttl d = (Inr l, d') \<Longrightarrow> obtains_lease d l d'"

lemma TakeLease_write: "TakeLease fence env scope owner ttl d = (Inr l, d') \<Longrightarrow> lease_write d l d'"
  by (auto simp: TakeLease_def split: sum.splits dest!: writeTransaction_Inr take_in_tx_write)

lemma obtains_lease_write: "obtains_lease d l d' \<Longrightarrow> lease_write d l d'"
  by (erule obtains_lease.cases)
    (auto simp: JoinLease_def RenewLease_def split: sum.splits if_splits
      dest!: writeTransaction_Inr join_in_tx_write renew_in_tx_write intro: TakeLease_write)

lemma obtained_row:
  assumes "obtains_lease d l d'"
  shows "superseded (le_Scope l) (le_Generation l - 1) d'"
proof -
  have "lease_write d l d'" using assms by (rule obtains_lease_write)
  then have "lease_row (le_Scope l) d' = Some (Some (lease_json l))"
    by (auto elim!: lease_write.cases simp: lease_row_writeLease)
  then show ?thesis by (auto simp: superseded_def dest: lease_decode)
qed

lemma taken_over:
  assumes "TakeLease fence env scope owner ttl d = (Inr l, d')"
    "superseded (le_Scope l) (g - 1) d"
  shows "superseded (le_Scope l) g d'"
  using TakeLease_write [OF assms(1)]
proof cases
  case (1 env' scope' found)
  have "TakeLease fence env scope owner ttl d = (Inr l, d')" by fact
  then obtain s w n token where "take_in_tx env s w n token d = Inr (l, d')"
    by (auto simp: TakeLease_def split: sum.splits dest!: writeTransaction_Inr)
  then obtain found where f: "readLease env (le_Scope l) d = Inr found" "writeLease env l d = Inr d'"
      "le_Generation l = (case found of None \<Rightarrow> 1 | Some cur \<Rightarrow> add64 (le_Generation cur) 1)"
    by (auto elim!: take_in_tx_Inr)
  obtain cur raw where cur: "found = Some cur" "lease_of_json raw = Some cur" "g - 1 < le_Generation cur"
    using f(1) assms(2)
    by (cases found) (auto simp: superseded_def dest: readLease_Inr_None elim!: readLease_Inr_Some)
  have "g < le_Generation l" if "1 \<le> le_Generation l"
    using that f(3) cur lease_generation_in64 [OF cur(2)]
    by (cases "le_Generation cur = max_int64")
      (auto simp: add64_def wrap64_def max_int64_def in64_def)
  with f(2) show ?thesis
    by (auto simp: superseded_def lease_row_writeLease lease_valid_def dest: lease_decode)
qed

section \<open>Properties\<close>

text \<open>A small database and environments for the witnesses.\<close>

definition ex_take :: "int \<Rightarrow> string \<Rightarrow> db \<Rightarrow> (gerr + lease) \<times> db" where
  "ex_take t owner d = TakeLease [] (env_at t owner) ''runtime'' owner (60 * second) d"

lemma taken_over_fence:
  assumes "obtains_lease d0 l1 d1" "store_step\<^sup>*\<^sup>* d1 d2"
    "TakeLease fence2 env2 scope owner ttl d2 = (Inr l2, d3)" "le_Scope l2 = le_Scope l1"
    "store_step\<^sup>*\<^sup>* d3 d4" "l1 \<in> set fence"
  shows "validateWriteFence fence env d4 \<noteq> None"
proof -
  have "superseded (le_Scope l1) (le_Generation l1 - 1) d2"
    using obtained_row [OF assms(1)] superseded_steps [OF assms(2)] by blast
  then have "superseded (le_Scope l1) (le_Generation l1) d3"
    using taken_over [OF assms(3)] assms(4) by simp
  then have "superseded (le_Scope l1) (le_Generation l1) d4"
    using superseded_steps [OF assms(5)] by blast
  then show ?thesis by (rule superseded_fence [OF assms(6)])
qed

text \<open>
  C1: Fencing. A process obtained a lease \<open>l1\<close> by taking, joining or renewing it; later, after any
  steps of any processes, another process takes over the scope. From then on, after any further
  steps and whatever the clocks show, every transaction of a process whose write fence contains
  \<open>l1\<close> fails and changes nothing, and so does every mutation of another store that it runs under the
  fence. (No assumption on clocks, faults or generation numbers.)
\<close>

theorem stale_lease_is_fenced_out:
  assumes "obtains_lease d0 l1 d1" "store_step\<^sup>*\<^sup>* d1 d2"
    "TakeLease fence2 env2 scope owner ttl d2 = (Inr l2, d3)" "le_Scope l2 = le_Scope l1"
    "store_step\<^sup>*\<^sup>* d3 d4" "l1 \<in> set fence"
  shows "(\<exists>e. writeTransaction fence env operation d4 = (Inl e, d4)) \<and>
    (\<exists>e. WithWriteFence fence env (Some mutation) d4 s = (Some e, s))"
proof -
  note rejected = taken_over_fence [OF assms, of env]
  then have "validateWriteFence fence env d4 \<noteq> None" .
  moreover have "\<exists>e. WithWriteFence fence env (Some mutation) d4 s = (Some e, s)"
    using rejected assms(6) by (auto simp: WithWriteFence_def exclusive_def split: sum.split)
  ultimately show ?thesis by (blast intro: writeTransaction_unfenced)
qed

text \<open>
  C34: A lease that is held and has not expired is exclusive. While the stored lease of a scope is
  valid at the current time, \<open>TakeLease\<close> is refused for every caller, also one with the owner's own
  name, and renewing or releasing with another token or generation is refused; the errors unwrap to
  \<open>ErrLeaseHeld\<close> and \<open>ErrLeaseLost\<close>, and the database is unchanged.
\<close>

theorem held_lease_is_exclusive:
  assumes "calm env" "lease_row scope d = Some raw" "lease_of_json raw = Some cur"
    "lease_valid scope cur" "unix_of (ev_now env) < le_ExpiresAt cur"
    "validateLeaseInput rawScope owner ttl = Inr (scope, o', s)" "ev_random env = Inr bytes"
    "validateLeaseInput (le_Scope old) (le_Owner old) ttl = Inr (scope, o', s)"
    "validateLeaseInput (le_Scope old) (le_Owner old) minLeaseTTL = Inr (scope, o', s')"
    "le_Token old \<noteq> le_Token cur \<or> le_Generation old \<noteq> le_Generation cur"
  shows "(\<exists>e. TakeLease [] env rawScope owner ttl d = (Inl e, d) \<and> errors_is e ErrLeaseHeld) \<and>
    (\<exists>e. RenewLease [] env old ttl d = (Inl e, d) \<and> errors_is e ErrLeaseLost) \<and>
    (\<exists>e. ReleaseLease [] env old d = (Inl e, d) \<and> errors_is e ErrLeaseLost)"
proof -
  have read: "readLease env scope d = Inr (Some cur)"
    using assms(1-4) by (intro readLease_row) (auto simp: calm_def)
  show ?thesis
    using assms read
    by (auto simp: TakeLease_def RenewLease_def ReleaseLease_def newLeaseToken_def
        writeTransaction_calm take_in_tx_def renew_in_tx_def release_in_tx_def Let_def heldLeaseError_def lease_lost_error_def token_required_error_def
        split: sum.split)
qed

lemma hex_encode_nonempty [simp]: "hex_encode s = [] \<longleftrightarrow> s = []"
  by (cases s) (simp_all add: hex_encode_def)

lemma TakeLease_Inr:
  assumes "TakeLease fence env rawScope rawOwner ttl d = (Inr l, d')"
  obtains scope owner s token where
    "validateLeaseInput rawScope rawOwner ttl = Inr (scope, owner, s)"
    "newLeaseToken env = Inr token" "take_in_tx env scope owner s token d = Inr (l, d')"
proof -
  from assms obtain scope owner s token where v:
      "validateLeaseInput rawScope rawOwner ttl = Inr (scope, owner, s)" "newLeaseToken env = Inr token"
      "writeTransaction fence env (take_in_tx env scope owner s token) d = (Inr l, d')"
    by (auto simp: TakeLease_def split: sum.splits)
  from v(1,2) writeTransaction_Inr(2) [OF v(3)] show thesis by (rule that)
qed

lemma take_in_tx_valid:
  assumes "take_in_tx env scope owner s token d = Inr (l, d')"
    "owner \<noteq> []" "0 \<le> s" "s \<le> 300"
    "1 \<le> unix_of (ev_now env)" "unix_of (ev_now env) < 2 ^ 62"
    "\<And>raw cur. lease_row scope d = Some raw \<Longrightarrow> lease_of_json raw = Some cur \<Longrightarrow>
       le_Generation cur < max_int64"
  shows "lease_valid scope l" "lease_in64 l"
proof -
  let ?t = "unix_of (ev_now env)"
  from assms(1) obtain found where f: "readLease env scope d = Inr found"
      "le_Scope l = scope" "le_Owner l = owner" "le_Token l = token"
      "le_Generation l = (case found of None \<Rightarrow> 1 | Some cur \<Rightarrow> add64 (le_Generation cur) 1)"
      "le_AcquiredAt l = ?t" "le_RenewedAt l = ?t" "le_ExpiresAt l = add64 ?t s"
      "le_Version l = leaseStateVersion" "le_ReleasedAt l = None"
    by (rule take_in_tx_Inr)
  have expires: "le_ExpiresAt l = ?t + s" using f(8) assms(3-6) by (simp add: in64_def)
  have generation: "1 \<le> le_Generation l \<and> in64 (le_Generation l)"
  proof (cases found)
    case (Some cur)
    then obtain raw where raw: "lease_row scope d = Some raw" "lease_of_json raw = Some cur"
        "lease_valid scope cur" using f(1) by (auto elim: readLease_Inr_Some)
    then have "1 \<le> le_Generation cur" "le_Generation cur < max_int64"
      using assms(7) by (auto simp: lease_valid_def)
    with Some f(5) show ?thesis by (simp add: max_int64_def in64_def)
  qed (use f(5) in \<open>simp add: in64_def\<close>)
  show "lease_valid scope l"
    using generation f expires assms(2,3,5) by (simp add: lease_valid_def)
  show "lease_in64 l"
    using generation f expires assms(3-6)
    by (simp add: lease_in64_def leaseStateVersion_def in64_def)
qed


text \<open>
  C36: A clock that steps back locks the scope. If the holder renews its valid lease at a time before
  the acquisition time of the lease (and before its expiry), the renewal is reported as successful,
  but the row it writes is one \<open>readLease\<close> rejects: from then on taking the lease fails with
  \<open>ErrLeaseStateInvalid\<close>, at every later time.
\<close>

theorem renewal_before_acquisition_locks_scope:
  assumes "calm env" "calm env'" "lease_row (le_Scope cur) d = Some raw" "lease_of_json raw = Some cur"
    "lease_valid (le_Scope cur) cur" "lease_in64 cur" "le_Token cur \<noteq> []"
    "validateLeaseInput (le_Scope cur) (le_Owner cur) ttl = Inr (le_Scope cur, le_Owner cur, s)"
    "0 \<le> unix_of (ev_now env)" "unix_of (ev_now env) < le_AcquiredAt cur"
    "validateLeaseInput (le_Scope cur) owner' ttl' = Inr (le_Scope cur, o', s')" "ev_random env' = Inr bytes"
  shows "\<exists>l' d' e. RenewLease [] env cur ttl d = (Inr l', d') \<and>
    TakeLease [] env' (le_Scope cur) owner' ttl' d' = (Inl e, d') \<and> errors_is e ErrLeaseStateInvalid"
proof -
  let ?t = "unix_of (ev_now env)"
  let ?l = "renewed ?t s cur"
  let ?d = "d\<lparr>db_runtime_state := mput (leaseStatePrefix @ le_Scope cur) (Some (lease_json ?l)) (db_runtime_state d)\<rparr>"
  have valid: "le_AcquiredAt cur \<le> le_RenewedAt cur" "le_RenewedAt cur \<le> le_ExpiresAt cur"
      "1 \<le> le_Generation cur"
    using assms(5) by (auto simp: lease_valid_def)
  have "readLease env (le_Scope cur) d = Inr (Some cur)"
    using assms by (intro readLease_row) (auto simp: calm_def)
  moreover have "writeLease env ?l d = Inr ?d"
    using assms(1) by (simp add: writeLease_def renewed_def)
  ultimately have "renew_in_tx env (le_Scope cur) (le_Owner cur) cur s d = Inr (?l, ?d)"
    using valid assms(10) by (simp add: renew_in_tx_def Let_def)
  then have renew: "RenewLease [] env cur ttl d = (Inr ?l, ?d)"
    using assms(1,7,8) valid by (simp add: RenewLease_def token_missing_def writeTransaction_calm)
  have "in64 ?t" using assms(6,9,10) by (simp add: lease_in64_def in64_def)
  then have "lease_in64 ?l" using assms(6) by (simp add: lease_in64_def renewed_def add64_def)
  moreover have "\<not> lease_valid (le_Scope cur) ?l"
    using assms(10) by (simp add: lease_valid_def renewed_def)
  ultimately have "\<exists>e. readLease env' (le_Scope cur) ?d = Inl e \<and> errors_is e ErrLeaseStateInvalid"
    using assms(2) by (simp add: readLease_def Let_def lease_roundtrip)
  then have "\<exists>e. TakeLease [] env' (le_Scope cur) owner' ttl' ?d = (Inl e, ?d) \<and> errors_is e ErrLeaseStateInvalid"
    using assms(2,11,12)
    by (auto simp: TakeLease_def newLeaseToken_def writeTransaction_calm take_in_tx_def)
  with renew show ?thesis by blast
qed

section \<open>Examples\<close>

definition ex_lease :: "int \<Rightarrow> int \<Rightarrow> string \<Rightarrow> string \<Rightarrow> lease" where
  "ex_lease generation t owner token = \<lparr>le_Version = 1, le_Scope = ''runtime'', le_Owner = owner,
     le_Generation = generation, le_Token = token, le_AcquiredAt = t, le_RenewedAt = t,
     le_ExpiresAt = t + 60, le_ReleasedAt = None\<rparr>"

definition ex_db :: "lease \<Rightarrow> db" where
  "ex_db l = empty_db\<lparr>db_runtime_state := [(''ownership_lease:runtime'', Some (lease_json l))]\<rparr>"

abbreviation ex_first :: lease where "ex_first \<equiv> ex_lease 1 100 ''v1'' ''7631''"
abbreviation ex_second :: lease where "ex_second \<equiv> ex_lease 2 200 ''v2'' ''7632''"

lemma ex_takes:
  "ex_take 100 ''v1'' empty_db = (Inr ex_first, ex_db ex_first)"
  "ex_take 200 ''v2'' (ex_db ex_first) = (Inr ex_second, ex_db ex_second)"
  by code_simp+

lemma ex_input:
  "validateLeaseInput ''runtime'' ''v1'' (60 * second) = Inr (''runtime'', ''v1'', 60)"
  "validateLeaseInput ''runtime'' ''v2'' (60 * second) = Inr (''runtime'', ''v2'', 60)"
  "validateLeaseInput ''runtime'' ''v1'' minLeaseTTL = Inr (''runtime'', ''v1'', 5)"
  by code_simp+

lemma ex_lease_facts:
  "lease_row ''runtime'' (ex_db l) = Some (Some (lease_json l))"
  "lease_in64 (ex_lease 1 100 owner token)" "lease_in64 (ex_lease 2 200 owner token)"
  "owner \<noteq> [] \<Longrightarrow> lease_valid ''runtime'' (ex_lease 1 100 owner token)"
  "owner \<noteq> [] \<Longrightarrow> lease_valid ''runtime'' (ex_lease 2 200 owner token)"
  by (simp_all add: ex_db_def lease_row_def leaseStatePrefix_def ex_lease_def lease_in64_def
      in64_def lease_valid_def leaseStateVersion_def)

lemma ex_times: "unix_of (ev_now (env_at t raw)) = t" "unix_of (ev_fenceNow (env_at t raw)) = t"
  "ev_random (env_at t raw) = Inr raw"
  by (simp_all add: env_at_def unix_of_def second_def)

lemma ex_lease_fields [simp]:
  "le_Scope (ex_lease n t owner token) = ''runtime''" "le_Owner (ex_lease n t owner token) = owner"
  "le_Generation (ex_lease n t owner token) = n" "le_Token (ex_lease n t owner token) = token"
  "le_AcquiredAt (ex_lease n t owner token) = t" "le_ExpiresAt (ex_lease n t owner token) = t + 60"
  by (simp_all add: ex_lease_def)

lemmas ex_take_first = ex_takes(1) [unfolded ex_take_def]
lemmas ex_take_second = ex_takes(2) [unfolded ex_take_def]

theorem stale_lease_is_fenced_out_witness:
  "(\<exists>e. writeTransaction [ex_first] (env_at 250 []) (\<lambda>d. Inr ((), empty_db)) (ex_db ex_second) =
      (Inl e, ex_db ex_second)) \<and>
   (\<exists>e. WithWriteFence [ex_first] (env_at 250 []) (Some (\<lambda>n. (None, Suc n))) (ex_db ex_second) 0 = (Some e, 0))"
  by (rule stale_lease_is_fenced_out [OF obtains_lease.intros(1) [OF ex_take_first]
        rtranclp.rtrancl_refl ex_take_second _ rtranclp.rtrancl_refl]) simp_all

theorem held_lease_is_exclusive_witness:
  "(\<exists>e. TakeLease [] (env_at 220 ''x'') ''runtime'' ''v1'' (60 * second) (ex_db ex_second) =
      (Inl e, ex_db ex_second) \<and> errors_is e ErrLeaseHeld) \<and>
   (\<exists>e. RenewLease [] (env_at 220 ''x'') ex_first (60 * second) (ex_db ex_second) =
      (Inl e, ex_db ex_second) \<and> errors_is e ErrLeaseLost) \<and>
   (\<exists>e. ReleaseLease [] (env_at 220 ''x'') ex_first (ex_db ex_second) =
      (Inl e, ex_db ex_second) \<and> errors_is e ErrLeaseLost)"
  by (rule held_lease_is_exclusive [where scope = "''runtime''" and cur = ex_second])
    (auto simp: ex_lease_facts lease_roundtrip ex_times ex_input)


theorem renewal_before_acquisition_locks_scope_witness:
  "\<exists>l' d' e. RenewLease [] (env_at 190 []) ex_second (60 * second) (ex_db ex_second) = (Inr l', d') \<and>
    TakeLease [] (env_at 5000 ''x'') ''runtime'' ''v1'' (60 * second) d' = (Inl e, d') \<and>
    errors_is e ErrLeaseStateInvalid"
  using renewal_before_acquisition_locks_scope
    [of "env_at 190 []" "env_at 5000 ''x''" ex_second "ex_db ex_second" "Some (lease_json ex_second)"
        "60 * second" 60 "''v1''" "60 * second" "''v1''" 60 "''x''"]
  by (simp add: ex_lease_facts lease_roundtrip ex_times ex_input)

end
