(* ===== verification/Routes_Proofs.thy ===== *)
theory Routes_Proofs
  imports Control_Routes Lease_Proofs
begin

text \<open>
  What \<open>ApplyRoutesExpected\<close> and \<open>RestoreRoutesExpected\<close> do: all or nothing, only safe and expected
  moves, and restoring with the swapped arguments undoes applying.
\<close>

section \<open>The normalized input\<close>

text \<open>The plans of the failover service: distinct normalized users, trimmed non-empty targets.\<close>

definition clean_plan :: "string gomap \<Rightarrow> string gomap \<Rightarrow> bool" where
  "clean_plan A E \<longleftrightarrow> wf_map A \<and> wf_map E \<and> fst ` set A = fst ` set E \<and>
     (\<forall>(u, t) \<in> set A. norm_name u = u \<and> u \<noteq> [] \<and> trim_space t = t \<and> t \<noteq> []) \<and>
     (\<forall>(u, a) \<in> set E. trim_space a = a)"

lemma mget_mem: "wf_map m \<Longrightarrow> (k, v) \<in> set m \<Longrightarrow> mget z m k = v"
  by (simp add: mget_def)

lemma mget_absent: "k \<notin> fst ` set m \<Longrightarrow> mget z m k = z"
  using map_of_eq_None_iff [of m k] by (simp add: mget_def)

lemma norm_name_clean: "norm_name u = u \<Longrightarrow> trim_space u = u"
  by (metis norm_name_def trim_space_idem trim_space_to_lower)

definition input_for :: "string gomap \<Rightarrow> (string \<Rightarrow> string) \<Rightarrow> (string \<Rightarrow> string) \<Rightarrow> route_input \<Rightarrow> route_input" where
  "input_for A f g i = \<lparr>ri_users = ri_users i @ map fst A,
     ri_assignments = ri_assignments i @ map (\<lambda>(u, _). (u, f u)) A,
     ri_expected = ri_expected i @ map (\<lambda>(u, _). (u, g u)) A\<rparr>"

lemma normalize_apply_clean:
  assumes "wf_map A" "\<forall>(u, t) \<in> set A. norm_name u = u \<and> u \<noteq> [] \<and> trim_space t = t \<and> t \<noteq> []"
    "fst ` set A \<subseteq> fst ` set E" "\<forall>(u, a) \<in> set E. trim_space a = a" "wf_map E"
    "\<forall>u \<in> fst ` set A. u \<notin> fst ` set (ri_assignments i) \<and> u \<notin> fst ` set (ri_expected i)"
  shows "normalize_apply E A i = Inr (input_for A (mget [] A) (mget [] E) i)"
  using assms
proof (induction A arbitrary: i)
  case Nil
  show ?case by (simp add: input_for_def)
next
  case (Cons ut A)
  obtain u t where ut: "ut = (u, t)" by (cases ut)
  have fresh: "u \<notin> fst ` set A" using Cons.prems(1) ut by simp
  then have fresh': "\<And>b. (u, b) \<notin> set A" by force
  have u: "norm_name u = u" "u \<noteq> []" "trim_space t = t" "t \<noteq> []"
    using Cons.prems(2) ut by auto
  obtain a where a: "(u, a) \<in> set E" using Cons.prems(3) ut by auto
  have E: "map_of E u = Some a" "trim_space a = a" "mget [] E u = a"
    using a Cons.prems(4,5) by (auto simp: mget_def)
  have absent: "map_of (ri_assignments i) u = None" "map_of (ri_expected i) u = None"
    using Cons.prems(6) ut by (auto simp: map_of_eq_None_iff)
  have "normalize_apply E (ut # A) i = normalize_apply E A (add_input u t a i)"
    using u E by (simp add: ut lookup_raw_or_normal_def)
  also have "\<dots> = Inr (input_for A (mget [] A) (mget [] E) (add_input u t a i))"
    using Cons.prems fresh fresh' ut
    by (intro Cons.IH) (auto simp: add_input_def)
  also have "input_for A (mget [] A) (mget [] E) (add_input u t a i) =
      input_for (ut # A) (mget [] (ut # A)) (mget [] E) i"
  proof -
    have "map (\<lambda>(x, _). (x, mget [] A x)) A = map (\<lambda>(x, _). (x, mget [] (ut # A) x)) A"
      using fresh by (force simp: ut mget_def)
    moreover have "mget [] (ut # A) u = t" by (simp add: ut mget_def)
    ultimately show ?thesis using absent E by (simp add: ut input_for_def add_input_def mput_new)
  qed
  finally show ?case .
qed

lemma normalize_restore_clean:
  assumes "wf_map E" "\<forall>(u, a) \<in> set E. norm_name u = u \<and> u \<noteq> [] \<and> trim_space a = a"
    "fst ` set E \<subseteq> fst ` set A" "\<forall>(u, t) \<in> set A. trim_space t = t \<and> t \<noteq> []" "wf_map A"
    "\<forall>u \<in> fst ` set E. u \<notin> fst ` set (ri_assignments i) \<and> u \<notin> fst ` set (ri_expected i)"
  shows "normalize_restore A E i = Inr (input_for E (mget [] E) (mget [] A) i)"
  using assms
proof (induction E arbitrary: i)
  case Nil
  show ?case by (simp add: input_for_def)
next
  case (Cons ua E)
  obtain u a where ua: "ua = (u, a)" by (cases ua)
  have fresh: "u \<notin> fst ` set E" using Cons.prems(1) ua by simp
  then have fresh': "\<And>b. (u, b) \<notin> set E" by force
  have u: "norm_name u = u" "u \<noteq> []" "trim_space a = a"
    using Cons.prems(2) ua by auto
  obtain t where t: "(u, t) \<in> set A" using Cons.prems(3) ua by auto
  have A: "map_of A u = Some t" "trim_space t = t" "t \<noteq> []" "mget [] A u = t"
    using t Cons.prems(4,5) by (auto simp: mget_def)
  have absent: "map_of (ri_assignments i) u = None" "map_of (ri_expected i) u = None"
    using Cons.prems(6) ua by (auto simp: map_of_eq_None_iff)
  have "normalize_restore A (ua # E) i = normalize_restore A E (add_input u a t i)"
    using u A by (simp add: ua lookup_raw_or_normal_def)
  also have "\<dots> = Inr (input_for E (mget [] E) (mget [] A) (add_input u a t i))"
    using Cons.prems fresh fresh' ua
    by (intro Cons.IH) (auto simp: add_input_def)
  also have "input_for E (mget [] E) (mget [] A) (add_input u a t i) =
      input_for (ua # E) (mget [] (ua # E)) (mget [] A) i"
  proof -
    have "map (\<lambda>(x, _). (x, mget [] E x)) E = map (\<lambda>(x, _). (x, mget [] (ua # E) x)) E"
      using fresh by (force simp: ua mget_def)
    moreover have "mget [] (ua # E) u = a" by (simp add: ua mget_def)
    ultimately show ?thesis using absent A by (simp add: ua input_for_def add_input_def mput_new)
  qed
  finally show ?case .
qed

lemma mget_map_keys: "u \<in> fst ` set A \<Longrightarrow> mget z (map (\<lambda>(u, _). (u, f u)) A) u = f u"
proof -
  assume u: "u \<in> fst ` set A"
  have "map_of (map (\<lambda>(u, _). (u, f u)) A) u = Some (f u)"
    using u by (induction A) auto
  then show ?thesis by (simp add: mget_def)
qed

section \<open>The loops\<close>

definition move_safe :: "db \<Rightarrow> string \<Rightarrow> string \<Rightarrow> bool" where
  "move_safe d user target \<longleftrightarrow>
     (\<exists>secret. (\<forall>r \<in> set (active_rows user d). kr_Key r = secret)) \<and>
     (\<exists>r \<in> set (active_rows user d). kr_Account r = target)"

lemma foldl_set_add: "set (foldl (\<lambda>s r. set_add (f r) s) acc rs) = set acc \<union> f ` set rs"
  "distinct acc \<Longrightarrow> distinct (foldl (\<lambda>s r. set_add (f r) s) acc rs)"
  by (induction rs arbitrary: acc) auto

lemma check_user_Inr:
  assumes "check_user env i user d = Inr current"
  shows "current = mget [] (db_user_routes d) user" "move_safe d user (mget [] (ri_assignments i) user)"
proof -
  let ?s = "foldl (\<lambda>s r. set_add (kr_Key r) s) [] (active_rows user d)"
  have one: "length ?s = 1" and
    target: "list_ex (\<lambda>r. kr_Account r = mget [] (ri_assignments i) user) (active_rows user d)"
    and current: "read_current env ''read current route for '' user d = Inr current"
    using assms by (auto simp: check_user_def attempt_def Let_def split: option.splits if_splits)
  obtain secret where "?s = [secret]" using one by (auto simp: length_Suc_conv)
  then have "kr_Key ` set (active_rows user d) = {secret}"
    using foldl_set_add(1) [of kr_Key "[]" "active_rows user d"] by simp
  with target show "move_safe d user (mget [] (ri_assignments i) user)"
    by (auto simp: move_safe_def list_ex_iff)
  from current show "current = mget [] (db_user_routes d) user"
    by (simp add: read_current_def attempt_Inr_iff)
qed

lemma check_users_Inr:
  assumes "check_users env i users d (conflicts, cr) = Inr (conflicts', cr')"
  shows "conflicts' = conflicts @ filter (\<lambda>u. mget [] (db_user_routes d) u \<noteq> mget [] (ri_expected i) u) users \<and>
    (\<forall>u \<in> set users. move_safe d u (mget [] (ri_assignments i) u)) \<and>
    (\<forall>u. mget [] cr' u = (if u \<in> set users then mget [] (db_user_routes d) u else mget [] cr u))"
  using assms
proof (induction users arbitrary: conflicts cr)
  case (Cons x users)
  then obtain current where c: "check_user env i x d = Inr current"
    "check_users env i users d (if current \<noteq> mget [] (ri_expected i) x then conflicts @ [x] else conflicts,
       mput x current cr) = Inr (conflicts', cr')"
    by (auto split: sum.splits)
  from Cons.IH [OF c(2)] check_user_Inr [OF c(1)] show ?case by auto
qed simp

lemma write_routes_Inr:
  assumes "write_routes env i cr users d r = Inr (r', d')"
    "\<forall>u \<in> set users. mget [] cr u = mget [] (db_user_routes d) u" "distinct users"
  shows "(\<exists>routes. d' = d\<lparr>db_user_routes := routes\<rparr> \<and>
      (\<forall>u. mget [] routes u = (if u \<in> set users then mget [] (ri_assignments i) u
                               else mget [] (db_user_routes d) u))) \<and>
    ru_MovedUsers r' = ru_MovedUsers r +
      int (length (filter (\<lambda>u. mget [] (db_user_routes d) u \<noteq> mget [] (ri_assignments i) u) users)) \<and>
    (\<forall>t. mget 0 (ru_Destinations r') t = mget 0 (ru_Destinations r) t +
      int (length (filter (\<lambda>u. mget [] (db_user_routes d) u \<noteq> mget [] (ri_assignments i) u \<and>
                               mget [] (ri_assignments i) u = t) users)))"
  using assms
proof (induction users arbitrary: d r)
  case Nil
  then show ?case by (auto intro: exI [of _ "db_user_routes d"])
next
  case (Cons x users)
  let ?t = "mget [] (ri_assignments i) x"
  show ?case
  proof (cases "mget [] cr x = ?t")
    case True
    with Cons.prems have "write_routes env i cr users d r = Inr (r', d')" by simp
    from Cons.IH [OF this] Cons.prems True show ?thesis by auto
  next
    case False
    let ?d = "d\<lparr>db_user_routes := mput x ?t (db_user_routes d)\<rparr>"
    let ?r = "r\<lparr>ru_MovedUsers := ru_MovedUsers r + 1, ru_Destinations := mincr ?t (ru_Destinations r)\<rparr>"
    have rest: "write_routes env i cr users ?d ?r = Inr (r', d')"
      using False Cons.prems(1) by (auto simp: Let_def upsert_route_def attempt_Inr_iff split: sum.splits)
    have same: "filter (\<lambda>u. mget [] (db_user_routes ?d) u \<noteq> mget [] (ri_assignments i) u \<and> P u) users =
        filter (\<lambda>u. mget [] (db_user_routes d) u \<noteq> mget [] (ri_assignments i) u \<and> P u) users" for P
      using Cons.prems(3) by (intro filter_cong) auto
    from Cons.IH [OF rest] Cons.prems(2,3) have IH:
      "\<exists>routes. d' = ?d\<lparr>db_user_routes := routes\<rparr> \<and>
        (\<forall>u. mget [] routes u = (if u \<in> set users then mget [] (ri_assignments i) u
                                 else mget [] (db_user_routes ?d) u))"
      "ru_MovedUsers r' = ru_MovedUsers ?r +
        int (length (filter (\<lambda>u. mget [] (db_user_routes ?d) u \<noteq> mget [] (ri_assignments i) u) users))"
      "\<forall>t. mget 0 (ru_Destinations r') t = mget 0 (ru_Destinations ?r) t +
        int (length (filter (\<lambda>u. mget [] (db_user_routes ?d) u \<noteq> mget [] (ri_assignments i) u \<and>
                                 mget [] (ri_assignments i) u = t) users))"
      by auto
    have moved: "mget [] (db_user_routes d) x \<noteq> ?t" using False Cons.prems(2) by simp
    show ?thesis
    proof (intro conjI)
      show "\<exists>routes. d' = d\<lparr>db_user_routes := routes\<rparr> \<and>
        (\<forall>u. mget [] routes u = (if u \<in> set (x # users) then mget [] (ri_assignments i) u
                                 else mget [] (db_user_routes d) u))"
        using IH(1) by auto
      show "ru_MovedUsers r' = ru_MovedUsers r +
        int (length (filter (\<lambda>u. mget [] (db_user_routes d) u \<noteq> mget [] (ri_assignments i) u) (x # users)))"
        using IH(2) moved same [of "\<lambda>_. True"] by simp
      show "\<forall>t. mget 0 (ru_Destinations r') t = mget 0 (ru_Destinations r) t +
        int (length (filter (\<lambda>u. mget [] (db_user_routes d) u \<noteq> mget [] (ri_assignments i) u \<and>
                                 mget [] (ri_assignments i) u = t) (x # users)))"
        using IH(3) moved same by simp
    qed
  qed
qed

lemma restore_conflicts_calm:
  "calm env \<Longrightarrow> restore_conflicts env i users d cs =
     Inr (cs @ filter (\<lambda>u. mget [] (db_user_routes d) u \<noteq> mget [] (ri_expected i) u) users)"
  by (induction users arbitrary: cs) (auto simp: read_current_def)

lemma mget_delete [simp]: "mget z (AList.delete k m) k' = (if k' = k then z else mget z m k')"
  by (simp add: mget_def delete_conv')

lemma restore_routes_calm:
  assumes "calm env" "distinct users"
  shows "\<exists>routes. restore_routes env i users d = Inr (d\<lparr>db_user_routes := routes\<rparr>) \<and>
     (\<forall>u. mget [] routes u = (if u \<in> set users then mget [] (ri_assignments i) u
                              else mget [] (db_user_routes d) u))"
  using assms(2)
proof (induction users arbitrary: d)
  case Nil
  show ?case by (auto intro: exI [of _ "db_user_routes d"])
next
  case (Cons x users)
  let ?o = "mget [] (ri_assignments i) x"
  let ?routes = "if ?o = [] then AList.delete x (db_user_routes d) else mput x ?o (db_user_routes d)"
  have "restore_routes env i (x # users) d = restore_routes env i users (d\<lparr>db_user_routes := ?routes\<rparr>)"
    using assms(1) by (simp add: Let_def upsert_route_def)
  with Cons.IH [of "d\<lparr>db_user_routes := ?routes\<rparr>"] Cons.prems show ?case by auto
qed

section \<open>Properties\<close>

lemma clean_planD:
  assumes "clean_plan A E"
  shows "normalize_apply E A empty_input = Inr (input_for A (mget [] A) (mget [] E) empty_input)"
    "normalize_restore A E empty_input = Inr (input_for E (mget [] E) (mget [] A) empty_input)"
    "distinct (map fst A)" "distinct (map fst E)" "fst ` set E = fst ` set A"
proof -
  have keys: "fst ` set A = fst ` set E" and wf: "wf_map A" "wf_map E"
    and A: "\<And>u t. (u, t) \<in> set A \<Longrightarrow> norm_name u = u \<and> u \<noteq> [] \<and> trim_space t = t \<and> t \<noteq> []"
    and E: "\<And>u a. (u, a) \<in> set E \<Longrightarrow> trim_space a = a"
    using assms by (auto simp: clean_plan_def)
  have "norm_name u = u \<and> u \<noteq> []" if "(u, a) \<in> set E" for u a
  proof -
    have "u \<in> fst ` set A" using that keys by force
    then show ?thesis using A by auto
  qed
  then have E': "\<forall>(u, a) \<in> set E. norm_name u = u \<and> u \<noteq> [] \<and> trim_space a = a" using E by blast
  have A': "\<forall>(u, t) \<in> set A. norm_name u = u \<and> u \<noteq> [] \<and> trim_space t = t \<and> t \<noteq> []" using A by blast
  show "normalize_apply E A empty_input = Inr (input_for A (mget [] A) (mget [] E) empty_input)"
    by (rule normalize_apply_clean [OF wf(1) A' _ _ wf(2)]) (use keys E in \<open>auto simp: empty_input_def\<close>)
  show "normalize_restore A E empty_input = Inr (input_for E (mget [] E) (mget [] A) empty_input)"
    by (rule normalize_restore_clean [OF wf(2) E' _ _ wf(1)]) (use keys A in \<open>auto simp: empty_input_def\<close>)
  show "distinct (map fst A)" "distinct (map fst E)" "fst ` set E = fst ` set A"
    using wf keys by simp_all
qed

lemma input_for_simps [simp]:
  "ri_users (input_for A f g empty_input) = map fst A"
  "u \<in> fst ` set A \<Longrightarrow> mget [] (ri_assignments (input_for A f g empty_input)) u = f u"
  "u \<in> fst ` set A \<Longrightarrow> mget [] (ri_expected (input_for A f g empty_input)) u = g u"
  by (simp_all add: input_for_def empty_input_def mget_map_keys)

lemma check_targets_None:
  "check_targets env ts d = None \<Longrightarrow> set ts \<subseteq> ar_id ` set (db_accounts d)"
  by (induction ts) (auto simp: attempt_def split: sum.splits option.splits if_splits)

definition move_allowed :: "db \<Rightarrow> string \<Rightarrow> string \<Rightarrow> string \<Rightarrow> bool" where
  "move_allowed d user expected target \<longleftrightarrow> mget [] (db_user_routes d) user = expected \<and>
     move_safe d user target \<and> target \<in> ar_id ` set (db_accounts d)"

lemma apply_outcome:
  assumes "ApplyRoutesExpected fence env A E d = (Inr r, d')" "clean_plan A E"
  shows "(\<forall>u \<in> fst ` set A. move_allowed d u (mget [] E u) (mget [] A u)) \<and>
    (\<exists>routes. d' = d\<lparr>db_user_routes := routes\<rparr> \<and>
      (\<forall>u. mget [] routes u = (if u \<in> fst ` set A then mget [] A u else mget [] (db_user_routes d) u))) \<and>
    ru_MovedUsers r = int (length (filter (\<lambda>u. mget [] E u \<noteq> mget [] A u) (map fst A)))"
proof (cases "A = []")
  case True
  with assms(1) show ?thesis
    by (auto simp: ApplyRoutesExpected_def empty_update_def empty_input_def
        intro: exI [of _ "db_user_routes d"])
next
  case False
  let ?i = "input_for A (mget [] A) (mget [] E) empty_input"
  let ?us = "sort (map fst A)"
  note clean = clean_planD [OF assms(2)]
  have users: "set ?us = fst ` set A" "distinct ?us" using clean(3) by auto
  have "apply_in_tx env ?i d = Inr (r, d')"
    using assms(1) False clean(1)
    by (auto simp: ApplyRoutesExpected_def dest: writeTransaction_Inr(2))
  then obtain cr where targets: "check_targets env (remdups (map snd (ri_assignments ?i))) d = None"
    and checked: "check_users env ?i ?us d ([], []) = Inr ([], cr)"
    and written: "write_routes env ?i cr ?us d empty_update = Inr (r, d')"
    by (auto simp: apply_in_tx_def split: option.splits sum.splits if_splits)
  note C = check_users_Inr [OF checked]
  have expected: "\<forall>u \<in> fst ` set A. mget [] (db_user_routes d) u = mget [] E u"
    using C users by (auto simp: empty_filter_conv)
  have "\<forall>u \<in> fst ` set A. mget [] A u \<in> ar_id ` set (db_accounts d)"
    using check_targets_None [OF targets] by (force simp: input_for_def empty_input_def)
  then have safe: "\<forall>u \<in> fst ` set A. move_allowed d u (mget [] E u) (mget [] A u)"
    using C users expected by (auto simp: move_allowed_def)
  have "\<forall>u \<in> set ?us. mget [] cr u = mget [] (db_user_routes d) u" using C by auto
  note W = write_routes_Inr [OF written this users(2)]
  have same: "length (filter P ?us) = length (filter P (map fst A))" for P
    by (metis filter_sort length_sort)
  have moved: "filter (\<lambda>u. mget [] (db_user_routes d) u \<noteq> mget [] (ri_assignments ?i) u) ?us =
      filter (\<lambda>u. mget [] E u \<noteq> mget [] A u) ?us"
    using expected users by (intro filter_cong) auto
  from W obtain routes where routes: "d' = d\<lparr>db_user_routes := routes\<rparr>"
      "\<forall>u. mget [] routes u = (if u \<in> set ?us then mget [] (ri_assignments ?i) u
                               else mget [] (db_user_routes d) u)" by blast
  then have "\<forall>u. mget [] routes u = (if u \<in> fst ` set A then mget [] A u
      else mget [] (db_user_routes d) u)" by (simp add: users)
  moreover have "ru_MovedUsers r = int (length (filter (\<lambda>u. mget [] E u \<noteq> mget [] A u) (map fst A)))"
    using W unfolding moved same by (simp add: empty_update_def)
  ultimately show ?thesis using safe routes(1) by blast
qed

lemma apply_error_keeps:
  "ApplyRoutesExpected fence env A E d = (Inl e, d') \<Longrightarrow> d' = d"
  by (auto simp: ApplyRoutesExpected_def split: sum.splits if_splits dest: writeTransaction_Inl)

lemma restore_conflicts_Inr:
  "restore_conflicts env i users d cs = Inr cs' \<Longrightarrow>
     cs' = cs @ filter (\<lambda>u. mget [] (db_user_routes d) u \<noteq> mget [] (ri_expected i) u) users"
  by (induction users arbitrary: cs)
    (fastforce simp: read_current_def attempt_def split: option.splits sum.splits if_splits)+

lemma restore_routes_Inr:
  assumes "restore_routes env i users d = Inr d'" "distinct users"
  shows "\<exists>routes. d' = d\<lparr>db_user_routes := routes\<rparr> \<and>
     (\<forall>u. mget [] routes u = (if u \<in> set users then mget [] (ri_assignments i) u
                              else mget [] (db_user_routes d) u))"
  using assms
proof (induction users arbitrary: d)
  case Nil
  then show ?case by (auto intro: exI [of _ "db_user_routes d"])
next
  case (Cons x users)
  let ?o = "mget [] (ri_assignments i) x"
  let ?routes = "if ?o = [] then AList.delete x (db_user_routes d) else mput x ?o (db_user_routes d)"
  have "restore_routes env i users (d\<lparr>db_user_routes := ?routes\<rparr>) = Inr d'"
    using Cons.prems(1)
    by (auto simp: Let_def upsert_route_def attempt_Inr_iff split: sum.splits if_splits)
  with Cons.IH [of "d\<lparr>db_user_routes := ?routes\<rparr>"] Cons.prems(2) show ?case by auto
qed

lemma restore_outcome:
  assumes "RestoreRoutesExpected fence env E A d = (Inr u, d')" "clean_plan A E"
  shows "mget [] (db_user_routes d') =
    (\<lambda>x. if x \<in> fst ` set A then mget [] E x else mget [] (db_user_routes d) x)"
proof -
  let ?i = "input_for E (mget [] E) (mget [] A) empty_input"
  let ?us = "sort (map fst E)"
  note clean = clean_planD [OF assms(2)]
  have users: "set ?us = fst ` set A" "distinct ?us" using clean(4,5) by auto
  have "restore_in_tx env ?i d = Inr (u, d')"
    using assms(1) clean(2) by (auto simp: RestoreRoutesExpected_def dest: writeTransaction_Inr(2))
  then have "restore_routes env ?i ?us d = Inr d'"
    by (auto simp: restore_in_tx_def split: sum.splits if_splits)
  from restore_routes_Inr [OF this users(2)] obtain routes where routes:
    "d' = d\<lparr>db_user_routes := routes\<rparr>"
    "\<And>x. mget [] routes x = (if x \<in> fst ` set A then mget [] (ri_assignments ?i) x
                             else mget [] (db_user_routes d) x)"
    unfolding users(1) by blast
  have "mget [] (ri_assignments ?i) x = mget [] E x" if "x \<in> fst ` set A" for x
    using that by (simp only: clean(5) [symmetric] input_for_simps)
  with routes show ?thesis by (simp add: fun_eq_iff)
qed

lemma restore_error_keeps:
  "RestoreRoutesExpected fence env A E d = (Inl e, d') \<Longrightarrow> d' = d"
  by (auto simp: RestoreRoutesExpected_def split: sum.splits dest: writeTransaction_Inl)

text \<open>
  C4: Applying a plan is all or nothing. If \<open>ApplyRoutesExpected\<close> reports success, then every user of
  the plan was on the expected route and safe to move (one secret, with an active key on an existing
  target account); afterwards exactly these users are on their targets and all other routes, and all
  other tables, are as before; the reported number of moves counts the users whose route changed. If
  it reports an error (also a statement failing halfway or at commit), nothing changed.
\<close>

theorem apply_routes_all_or_nothing:
  assumes "clean_plan A E" "ApplyRoutesExpected fence env A E d = (r, d')"
  shows "case r of
      Inl e \<Rightarrow> d' = d
    | Inr u \<Rightarrow>
        (\<forall>x \<in> fst ` set A. move_allowed d x (mget [] E x) (mget [] A x)) \<and>
        (\<exists>routes. d' = d\<lparr>db_user_routes := routes\<rparr> \<and>
          (\<forall>x. mget [] routes x = (if x \<in> fst ` set A then mget [] A x else mget [] (db_user_routes d) x))) \<and>
        ru_MovedUsers u = int (length (filter (\<lambda>x. mget [] E x \<noteq> mget [] A x) (map fst A)))"
proof (cases r)
  case (Inl e)
  with assms(2) apply_error_keeps show ?thesis by auto
next
  case (Inr u)
  with assms show ?thesis using apply_outcome by auto
qed

text \<open>
  Rolling back undoes a migration. After a successful \<open>ApplyRoutesExpected\<close>, the call
  \<open>RestoreRoutesExpected\<close> with the two maps swapped, with no failing statement and a valid fence,
  succeeds and every user has the route he had before; nothing else differs.
\<close>

theorem restore_undoes_apply:
  assumes "clean_plan A E" "ApplyRoutesExpected fence env A E d = (Inr r, d1)"
    "calm env'" "validateWriteFence fence' env' d1 = None"
  shows "\<exists>routes. RestoreRoutesExpected fence' env' E A d1 = (Inr (), d\<lparr>db_user_routes := routes\<rparr>) \<and>
    (\<forall>u. mget [] routes u = mget [] (db_user_routes d) u)"
proof -
  let ?i = "input_for E (mget [] E) (mget [] A) empty_input"
  let ?us = "sort (map fst E)"
  note clean = clean_planD [OF assms(1)]
  note A = apply_outcome [OF assms(2,1)]
  have users: "set ?us = fst ` set E" "distinct ?us" using clean(4) by auto
  obtain routes1 where d1: "d1 = d\<lparr>db_user_routes := routes1\<rparr>"
    and routes1: "\<forall>u. mget [] routes1 u = (if u \<in> fst ` set A then mget [] A u else mget [] (db_user_routes d) u)"
    using A by blast
  have "filter (\<lambda>u. mget [] (db_user_routes d1) u \<noteq> mget [] (ri_expected ?i) u) ?us = []"
    using users clean(5) routes1 by (auto simp: filter_empty_conv d1)
  then have none: "restore_conflicts env' ?i ?us d1 [] = Inr []"
    by (simp add: restore_conflicts_calm [OF assms(3)] filter_empty_conv)
  obtain routes where R: "restore_routes env' ?i ?us d1 = Inr (d1\<lparr>db_user_routes := routes\<rparr>)"
    and routes: "\<forall>u. mget [] routes u = (if u \<in> set ?us then mget [] (ri_assignments ?i) u
                                         else mget [] (db_user_routes d1) u)"
    using restore_routes_calm [OF assms(3) users(2)] by blast
  have "RestoreRoutesExpected fence' env' E A d1 = (Inr (), d\<lparr>db_user_routes := routes\<rparr>)"
    using none R assms(3,4)
    by (simp add: RestoreRoutesExpected_def clean(2) writeTransaction_calm restore_in_tx_def d1)
  moreover have "mget [] routes u = mget [] (db_user_routes d) u" for u
    using routes routes1 A users clean(5) by (auto simp: d1 move_allowed_def)
  ultimately show ?thesis by blast
qed

section \<open>Examples\<close>

definition ex_key :: "string \<Rightarrow> string \<Rightarrow> string \<Rightarrow> key_record" where
  "ex_key user account secret = \<lparr>kr_Label = [], kr_Account = account, kr_AccountEmail = [], kr_User = user,
     kr_Status = ''active'', kr_Key = secret, kr_CreatedAt = 1, kr_UpdatedAt = 1\<rparr>"

definition ex_account_row :: "string \<Rightarrow> int \<Rightarrow> account_row" where
  "ex_account_row name position = \<lparr>ar_id = name, ar_email = name, ar_port = 8000 + position,
     ar_proxy_mode = [], ar_created_at = 1, ar_group_enabled = 1, ar_default_group = 1, ar_position = position\<rparr>"

text \<open>Two accounts; \<open>amy\<close> is routed to \<open>a1\<close>, \<open>bob\<close> has no route yet.\<close>

definition ex_routes_db :: db where
  "ex_routes_db = empty_db\<lparr>db_accounts := [ex_account_row ''a1'' 0, ex_account_row ''a2'' 1],
     db_user_routes := [(''amy'', ''a1'')],
     db_key_rows := [(0, ex_key ''amy'' ''a1'' ''s''), (1, ex_key ''amy'' ''a2'' ''s''), (2, ex_key ''bob'' ''a2'' ''t'')]\<rparr>"

definition ex_moves :: "string gomap" where "ex_moves = [(''bob'', ''a2''), (''amy'', ''a2'')]"
definition ex_before :: "string gomap" where "ex_before = [(''bob'', []), (''amy'', ''a1'')]"

lemma ex_clean_plan: "clean_plan ex_moves ex_before"
  unfolding clean_plan_def by code_simp

lemma ex_apply: "ApplyRoutesExpected [] (env_at 9 []) ex_moves ex_before ex_routes_db =
    (Inr \<lparr>ru_MovedUsers = 2, ru_Destinations = [(''a2'', 2)]\<rparr>,
     ex_routes_db\<lparr>db_user_routes := [(''amy'', ''a2''), (''bob'', ''a2'')]\<rparr>)"
  by code_simp

theorem apply_routes_all_or_nothing_witness:
  "list_all (\<lambda>x. move_allowed ex_routes_db x (mget [] ex_before x) (mget [] ex_moves x)) (map fst ex_moves) \<and>
   (2 :: int) = int (length (filter (\<lambda>x. mget [] ex_before x \<noteq> mget [] ex_moves x) (map fst ex_moves)))"
  using apply_routes_all_or_nothing [OF ex_clean_plan ex_apply] by (simp add: list_all_iff)

theorem restore_undoes_apply_witness:
  "\<exists>routes. RestoreRoutesExpected [] (env_at 10 []) ex_before ex_moves
       (ex_routes_db\<lparr>db_user_routes := [(''amy'', ''a2''), (''bob'', ''a2'')]\<rparr>) =
       (Inr (), ex_routes_db\<lparr>db_user_routes := routes\<rparr>) \<and>
    (\<forall>u. mget [] routes u = mget [] (db_user_routes ex_routes_db) u)"
  by (rule restore_undoes_apply [OF ex_clean_plan ex_apply]) simp_all

end
