(* ===== verification/Failover_Proofs.thy ===== *)
theory Failover_Proofs
  imports Failover_Service Routes_Proofs
begin

text \<open>
  The failover service on the control-plane store: the interpretation of \<open>route_contract\<close> by the
  store model, the plans of the planner as clean plans, and the end-to-end properties of evacuating,
  rebalancing and moving users.
\<close>

section \<open>The control plane as the service's route store\<close>

text \<open>
  The world of one process: the shared database and the number of calls made so far, which selects the
  environment (faults, clock) of the next call.
\<close>

record world =
  wd_db :: db
  wd_tick :: nat

definition on_store :: "(nat \<Rightarrow> env) \<Rightarrow> (env \<Rightarrow> db \<Rightarrow> (gerr + 'a) \<times> db) \<Rightarrow> (world, 'a) oper" where
  "on_store envs f w = (case f (envs (wd_tick w)) (wd_db w) of
     (r, d) \<Rightarrow> (r, \<lparr>wd_db = d, wd_tick = Suc (wd_tick w)\<rparr>))"

definition world_route :: "world \<Rightarrow> string \<Rightarrow> string" where
  "world_route w u = mget [] (db_user_routes (wd_db w)) u"

definition store_apply ::
  "fence \<Rightarrow> (nat \<Rightarrow> env) \<Rightarrow> string gomap \<Rightarrow> string gomap \<Rightarrow> (world, route_update) oper" where
  "store_apply fence envs A E = on_store envs (\<lambda>env. ApplyRoutesExpected fence env A E)"

definition store_restore ::
  "fence \<Rightarrow> (nat \<Rightarrow> env) \<Rightarrow> string gomap \<Rightarrow> string gomap \<Rightarrow> (world, unit) oper" where
  "store_restore fence envs E A = on_store envs (\<lambda>env. RestoreRoutesExpected fence env E A)"

definition store_routes :: "fence \<Rightarrow> (nat \<Rightarrow> env) \<Rightarrow> world route_ops" where
  "store_routes fence envs =
     \<lparr>ro_ReadRoutes = on_store envs (\<lambda>env d. (ReadRoutes env d, d)),
      ro_ReadKeyRecords = on_store envs (\<lambda>env d. (ReadKeyRecords env d, d)),
      ro_Apply = store_apply fence envs, ro_Restore = store_restore fence envs\<rparr>"

lemma on_store_eq:
  assumes "on_store envs f w = (r, w')"
  obtains d where "f (envs (wd_tick w)) (wd_db w) = (r, d)" "wd_db w' = d"
  using assms by (auto simp: on_store_def split: prod.splits)

interpretation store: route_contract "store_apply fence envs" "store_restore fence envs" world_route clean_plan
  for fence envs
proof
  fix A E w e w'
  assume "store_apply fence envs A E w = (Inl e, w')"
  then show "world_route w' = world_route w"
    by (auto simp: store_apply_def world_route_def fun_eq_iff elim!: on_store_eq dest!: apply_error_keeps)
next
  fix A E w u w'
  assume clean: "clean_plan A E" and "store_apply fence envs A E w = (Inr u, w')"
  then have "ApplyRoutesExpected fence (envs (wd_tick w)) A E (wd_db w) = (Inr u, wd_db w')"
    by (auto simp: store_apply_def elim!: on_store_eq)
  note outcome = apply_outcome [OF this clean]
  then obtain routes where "wd_db w' = (wd_db w)\<lparr>db_user_routes := routes\<rparr>"
    "\<forall>u. mget [] routes u = (if u \<in> fst ` set A then mget [] A u else mget [] (db_user_routes (wd_db w)) u)"
    by blast
  then have "world_route w' = (\<lambda>x. if x \<in> fst ` set A then mget [] A x else world_route w x)"
    by (simp add: world_route_def fun_eq_iff)
  with outcome show "(\<forall>x \<in> fst ` set A. world_route w x = mget [] E x) \<and>
      world_route w' = (\<lambda>x. if x \<in> fst ` set A then mget [] A x else world_route w x)"
    by (simp add: world_route_def move_allowed_def)
next
  fix E A w e w'
  assume "store_restore fence envs E A w = (Inl e, w')"
  then show "world_route w' = world_route w"
    by (auto simp: store_restore_def world_route_def fun_eq_iff elim!: on_store_eq dest!: restore_error_keeps)
next
  fix A E w u w'
  assume clean: "clean_plan A E" and "store_restore fence envs E A w = (Inr u, w')"
  then have "RestoreRoutesExpected fence (envs (wd_tick w)) E A (wd_db w) = (Inr u, wd_db w')"
    by (auto simp: store_restore_def elim!: on_store_eq)
  from restore_outcome [OF this clean] show
    "world_route w' = (\<lambda>x. if x \<in> fst ` set A then mget [] E x else world_route w x)"
    by (simp add: world_route_def fun_eq_iff)
qed

lemma store_provides: "provides (store_apply fence envs) (store_restore fence envs) (store_routes fence envs)"
  by (simp add: provides_def store_routes_def)

section \<open>The plans are clean\<close>

lemma activeUsers_mem:
  "u \<in> set (activeUsersFromRecords records) \<longleftrightarrow> (\<exists>r \<in> set records. record_user r = Some u)"
proof -
  have "set (foldl (\<lambda>s r. case record_user r of None \<Rightarrow> s | Some u \<Rightarrow> set_add u s) s0 records) =
      set s0 \<union> {u. \<exists>r \<in> set records. record_user r = Some u}" for s0
    by (induction records arbitrary: s0) (auto split: option.splits)
  then show ?thesis by (simp add: activeUsersFromRecords_def)
qed

lemma distinct_activeUsers [simp]: "distinct (activeUsersFromRecords records)"
proof -
  have "distinct s0 \<Longrightarrow>
      distinct (foldl (\<lambda>s r. case record_user r of None \<Rightarrow> s | Some u \<Rightarrow> set_add u s) s0 records)" for s0
    by (induction records arbitrary: s0) (auto split: option.splits)
  then show ?thesis by (simp add: activeUsersFromRecords_def)
qed

lemma activeUsers_normal:
  "u \<in> set (activeUsersFromRecords records) \<Longrightarrow> norm_name u = u \<and> u \<noteq> []"
  by (auto simp: activeUsers_mem record_user_def split: if_splits)

definition tidy_inputs :: "string gomap \<Rightarrow> account_state gomap \<Rightarrow> bool" where
  "tidy_inputs routes states \<longleftrightarrow> wf_map routes \<and> wf_map states \<and>
     (\<forall>(u, a) \<in> set routes. trim_space a = a) \<and> (\<forall>(a, s) \<in> set states. trim_space a = a \<and> a \<noteq> [])"

lemma evacuation_clean:
  assumes "tidy_inputs routes states"
  shows "clean_plan
    (pl_Assignments (PlanEvacuation routes (activeUsersFromRecords records) R states src))
    (pl_ExpectedRoutes (PlanEvacuation routes (activeUsersFromRecords records) R states src))"
proof -
  let ?U = "activeUsersFromRecords records"
  have wf: "wf_map routes" using assms by (simp add: tidy_inputs_def)
  note fields = PlanEvacuation_fields [OF wf, of ?U R states src]
  let ?cs = "eligibleCandidates states (evac_sources states src)"
  let ?es = "moved_entries R ?cs (evac_affected routes ?U states src)"
  have "distinct (map re_User (evac_affected routes ?U states src))"
    using wf by (simp add: evac_affected_def affected_entries_users)
  then have dist: "distinct (map re_User ?es)" by (simp add: moved_entries_def distinct_map_filter)
  have entry: "re_User e \<in> set ?U \<and> (re_User e, re_Account e) \<in> set routes" if "e \<in> set ?es" for e
    using that set_evac_affected [of "re_User e" "re_Account e"]
    by (auto simp: moved_entries_def split: if_splits)
  have targets: "trim_space t = t \<and> t \<noteq> []"
    if "(u, t) \<in> set (pl_Assignments (PlanEvacuation routes ?U R states src))" for u t
  proof -
    have "t \<in> set ?cs" using fields(3) that by force
    then show ?thesis using assms by (auto simp: candidate_def tidy_inputs_def)
  qed
  have users: "norm_name u = u \<and> u \<noteq> []"
    if "(u, t) \<in> set (pl_Assignments (PlanEvacuation routes ?U R states src))" for u t
  proof -
    have "u \<in> set (map fst (pl_Assignments (PlanEvacuation routes ?U R states src)))"
      using that by force
    then show ?thesis using fields(1) entry activeUsers_normal by auto
  qed
  have "fst ` set (pl_Assignments (PlanEvacuation routes ?U R states src)) =
      fst ` set (pl_ExpectedRoutes (PlanEvacuation routes ?U R states src))"
    using arg_cong [OF fields(1), of set] by (simp add: fields(2) image_image)
  moreover have "\<forall>(u, a) \<in> set (pl_ExpectedRoutes (PlanEvacuation routes ?U R states src)). trim_space a = a"
    using entry assms by (fastforce simp: fields(2) tidy_inputs_def)
  moreover have "wf_map (pl_Assignments (PlanEvacuation routes ?U R states src))"
    using dist by (simp only: fields(1))
  moreover have "wf_map (pl_ExpectedRoutes (PlanEvacuation routes ?U R states src))"
    using dist by (simp add: fields(2) comp_def)
  ultimately show ?thesis
    using targets users by (simp add: clean_plan_def) blast
qed

text \<open>The loop of the global rebalance keeps assignments and expected routes in step.\<close>

definition in_step :: "string gomap \<Rightarrow> strset \<Rightarrow> string list \<Rightarrow> plan \<Rightarrow> bool" where
  "in_step routes users cs p \<longleftrightarrow> wf_map (pl_Assignments p) \<and> wf_map (pl_ExpectedRoutes p) \<and>
     fst ` set (pl_Assignments p) = fst ` set (pl_ExpectedRoutes p) \<and>
     (\<forall>(u, t) \<in> set (pl_Assignments p). u \<in> set users \<and> t \<in> set cs) \<and>
     (\<forall>(u, a) \<in> set (pl_ExpectedRoutes p). a = route_or_empty routes u)"

lemma set_mput_subset: "(k', v') \<in> set (mput k v m) \<Longrightarrow> (k', v') = (k, v) \<or> (k', v') \<in> set m"
  by (induction m) (auto split: if_splits)

lemma place_remaining_in_step:
  assumes "in_step routes users cs p"
    "\<forall>e \<in> set es. re_User e \<in> set users \<and> re_Account e = route_or_empty routes (re_User e)"
  shows "in_step routes users cs (place_remaining cs es ds p)"
  using assms
proof (induction cs es ds p rule: place_remaining.induct)
  case (2 cs e es ds p)
  let ?t = "firstDeficit cs ds"
  show ?case
  proof (cases "?t = []")
    case True
    with 2 show ?thesis by simp
  next
    case False
    then have "?t \<in> set cs" using firstDeficit_cases [of cs ds] by auto
    then have "in_step routes users cs (if re_Account e = ?t then p else move_entry e ?t p)"
      using 2(2,3) by (auto simp: in_step_def move_entry_def dest!: set_mput_subset)
    with 2 False show ?thesis by (simp add: Let_def)
  qed
qed simp

lemma in_step_clean:
  assumes "in_step routes users cs p" "\<forall>u \<in> set users. norm_name u = u \<and> u \<noteq> []"
    "\<forall>t \<in> set cs. trim_space t = t \<and> t \<noteq> []" "\<forall>(u, a) \<in> set routes. trim_space a = a"
  shows "clean_plan (pl_Assignments p) (pl_ExpectedRoutes p)"
proof -
  have "trim_space (route_or_empty routes u) = route_or_empty routes u" for u
    using assms(4) by (auto simp: route_or_empty_def mget_def split: option.split dest!: map_of_SomeD)
  then show ?thesis using assms(1-3) by (fastforce simp: in_step_def clean_plan_def)
qed

lemma in_step_fields [simp]:
  "in_step routes users cs (p\<lparr>pl_UnassignedUsers := n\<rparr>) = in_step routes users cs p"
  "in_step routes users cs (p\<lparr>pl_SkippedUsers := n\<rparr>) = in_step routes users cs p"
  "in_step routes users cs (p\<lparr>pl_PlannedUsers := n\<rparr>) = in_step routes users cs p"
  "in_step routes users cs (p\<lparr>pl_TargetCounts := T\<rparr>) = in_step routes users cs p"
  by (simp_all add: in_step_def)

lemma rebalance_in_step:
  "in_step routes active (eligibleCandidates states []) (PlanGlobalRebalance routes active R states)"
proof -
  have start: "in_step routes active cs (newPlan cs n)" for cs n
    by (simp add: in_step_def newPlan_def)
  have loop: "in_step routes active cs (place_remaining cs (sortRouteEntries
      (map (\<lambda>u. RouteEntry u (route_or_empty routes u)) us)) ds p)"
    if "in_step routes active cs p" "set us \<subseteq> set active" for cs us ds p
    using that by (intro place_remaining_in_step) auto
  show ?thesis
    unfolding PlanGlobalRebalance_def Let_def
    by (split if_split, rule conjI; rule impI)
      (simp add: start, split if_split, auto simp del: place_remaining.simps intro!: start loop)
qed

section \<open>End-to-end properties\<close>

definition store_service ::
  "fence \<Rightarrow> (nat \<Rightarrow> env) \<Rightarrow> (world, account_state gomap) oper \<Rightarrow> world activity_ops \<Rightarrow>
   (world, string) oper \<Rightarrow> world service" where
  "store_service fence envs states act publish = \<lparr>sv_Routes = Some (store_routes fence envs),
     sv_States = Some states, sv_Activity = Some act, sv_Snapshots = Some publish\<rparr>"

definition leaves_routes :: "world activity_ops \<Rightarrow> (world, string) oper \<Rightarrow> bool" where
  "leaves_routes act publish \<longleftrightarrow>
     quiet world_route publish \<and> quiet world_route (refresh_activity act)"

lemma applied_routes:
  assumes "leaves_routes act publish" "clean_plan (pl_Assignments p) (pl_ExpectedRoutes p)"
    "applyPlan (store_routes fence envs) act publish p w = ((result, err), w')"
  shows "err = None \<Longrightarrow> world_route w' =
      (\<lambda>x. if x \<in> fst ` set (pl_Assignments p) then mget [] (pl_Assignments p) x else world_route w x)"
    "err \<noteq> None \<Longrightarrow> world_route w' = world_route w \<or> rollback_failed err"
    "world_route w' = world_route w \<or> world_route w' =
      (\<lambda>x. if x \<in> fst ` set (pl_Assignments p) then mget [] (pl_Assignments p) x else world_route w x)"
  using store.applyPlan_all_or_nothing [OF store_provides _ _ assms(2,3)] assms(1)
  by (auto simp: leaves_routes_def)

lemma PlanEvacuation_unassigned:
  assumes "wf_map routes" "pl_AffectedUsers (PlanEvacuation routes U R states src) = 0 \<or>
    \<not> 0 < pl_UnassignedUsers (PlanEvacuation routes U R states src)"
  shows "pl_UnassignedUsers (PlanEvacuation routes U R states src) = 0"
proof -
  have "length (moved_entries R cs es) \<le> length es" for cs es
    by (simp add: moved_entries_def)
  from this [of "eligibleCandidates states (evac_sources states src)" "evac_affected routes U states src"]
    assms(2) show ?thesis unfolding PlanEvacuation_fields [OF assms(1)] by linarith
qed

lemma evacuated_route:
  assumes "wf_map routes" "pl_UnassignedUsers (PlanEvacuation routes U R states src) = 0" "u \<in> set U"
    "[] \<notin> set (evac_sources states src)"
  shows "(if u \<in> fst ` set (pl_Assignments (PlanEvacuation routes U R states src))
          then mget [] (pl_Assignments (PlanEvacuation routes U R states src)) u
          else mget [] routes u) \<notin> set (evac_sources states src)"
proof -
  let ?A = "pl_Assignments (PlanEvacuation routes U R states src)"
  show ?thesis
  proof (cases "map_of ?A u")
    case (Some t)
    then have "u \<in> fst ` set ?A" by (metis domI dom_map_of_conv_image_fst)
    with Some evacuation_complete_aux [OF assms(1-3), of t] show ?thesis by (simp add: mget_def)
  next
    case None
    then have absent: "u \<notin> fst ` set ?A" by (simp add: map_of_eq_None_iff)
    show ?thesis
    proof (cases "map_of routes u")
      case None
      with absent assms(4) show ?thesis by (simp add: mget_def)
    next
      case (Some a)
      with None absent evacuation_complete_aux [OF assms(1-3), of a] show ?thesis
        by (simp add: mget_def map_add_def)
    qed
  qed
qed

text \<open>
  C2: Evacuation is all or nothing. On the control-plane store, with inputs read as \<open>routes\<close>, \<open>records\<close>
  and \<open>states\<close> and no other route change before the plan is applied: if the evacuation reports no
  error, then no active user is routed to a source account any more; if it reports an error, at any
  stage (planning, applying, publishing), then every route is as it was, unless the error says that
  the rollback itself failed. \<open>states\<close>, the activity reader and the publisher are arbitrary, as long as
  the last two leave the routes alone.
\<close>

theorem evacuation_all_or_nothing:
  assumes "leaves_routes act publish"
    "collect_inputs (store_routes fence envs) statesOf w = (Inr (routes, records, states), w1)"
    "tidy_inputs routes states" "world_route w1 = mget [] routes" "[] \<notin> set (evac_sources states src)"
    "evacuate (store_service fence envs statesOf act publish) src w = ((result, err), w')"
  shows "(err = None \<longrightarrow> (\<forall>u \<in> set (activeUsersFromRecords records).
             world_route w' u \<notin> set (evac_sources states src))) \<and>
         (err \<noteq> None \<longrightarrow> world_route w' = world_route w1 \<or> rollback_failed err)"
proof -
  define U where "U = activeUsersFromRecords records"
  define R where "R = routableUsers records states"
  define P where "P = PlanEvacuation routes U R states src"
  have wf: "wf_map routes" using assms(3) by (simp add: tidy_inputs_def)
  have clean: "clean_plan (pl_Assignments P) (pl_ExpectedRoutes P)"
    unfolding P_def U_def by (rule evacuation_clean [OF assms(3)])
  have run: "(if pl_AffectedUsers P = 0
        then ((\<lparr>er_Rebalance = emptyRebalanceResult P, er_Plan = summarizePlan P\<rparr>, None), w1)
        else if pl_CandidateAccounts P = []
        then ((\<lparr>er_Rebalance = zero_result, er_Plan = summarizePlan P\<rparr>, Some ErrRebalanceUnavailable), w1)
        else if 0 < pl_UnassignedUsers P \<or> 0 < pl_SkippedUsers P
        then ((\<lparr>er_Rebalance = zero_result, er_Plan = summarizePlan P\<rparr>, Some (unsafe_error P)), w1)
        else (case applyPlan (store_routes fence envs) act publish P w1 of ((applied, err), w2) \<Rightarrow>
          ((\<lparr>er_Rebalance = applied, er_Plan = summarizePlan P\<rparr>, err), w2))) = ((result, err), w')"
    using assms(2,6) unfolding P_def U_def R_def
    by (simp add: evacuate_def store_service_def Let_def cong: if_cong)
  show ?thesis
  proof (cases "pl_AffectedUsers P = 0")
    case True
    then have "pl_UnassignedUsers P = 0" using PlanEvacuation_unassigned [OF wf] by (simp add: P_def)
    moreover have "pl_Assignments P = []"
      using True PlanEvacuation_fields(1,5) [OF wf, of U R states src]
      by (simp add: P_def moved_entries_def split: if_splits)
    ultimately have "mget [] routes u \<notin> set (evac_sources states src)" if "u \<in> set U" for u
      using evacuated_route [OF wf _ that assms(5), of R] by (simp add: P_def)
    moreover have "err = None" "w' = w1" using run True by auto
    ultimately show ?thesis using assms(4) by (simp add: U_def)
  next
    case affected: False
    show ?thesis
    proof (cases "pl_CandidateAccounts P = [] \<or> 0 < pl_UnassignedUsers P \<or> 0 < pl_SkippedUsers P")
      case True
      with run affected have "err \<noteq> None" "w' = w1" by (auto split: if_splits)
      then show ?thesis by blast
    next
      case False
      obtain applied where ap: "applyPlan (store_routes fence envs) act publish P w1 = ((applied, err), w')"
        using run affected False by (auto split: prod.splits)
      note outcome = applied_routes [OF assms(1) clean ap]
      have "pl_UnassignedUsers P = 0" using False PlanEvacuation_unassigned [OF wf] by (simp add: P_def)
      then have "world_route w' u \<notin> set (evac_sources states src)" if e: "err = None" and u: "u \<in> set U" for u
        using evacuated_route [OF wf _ u assms(5), of R, folded P_def]
        unfolding outcome(1) [OF e] assms(4) by blast
      with outcome(2) show ?thesis by (auto simp: U_def)
    qed
  qed
qed

lemma assigned_or_routed:
  "(if u \<in> fst ` set A then mget [] A u else mget [] routes u) =
     (case map_of A u of Some t \<Rightarrow> t | None \<Rightarrow> mget [] routes u)"
proof (cases "map_of A u")
  case None
  then have "u \<notin> fst ` set A" by (simp add: map_of_eq_None_iff)
  with None show ?thesis by simp
next
  case (Some t)
  then have "u \<in> fst ` set A" by (metis domI dom_map_of_conv_image_fst)
  with Some show ?thesis by (simp add: mget_def)
qed

lemma skipped_positive:
  assumes "eligibleCandidates states [] \<noteq> []" "\<not> set active \<subseteq> set R"
  shows "0 < pl_SkippedUsers (PlanGlobalRebalance routes active R states)"
proof -
  obtain u where "u \<in> set (sort active)" "u \<notin> set R" using assms(2) by auto
  then have "length (filter (\<lambda>u. u \<in> set R) (sort active)) < length (sort active)"
    by (rule length_filter_less)
  with assms(1) show ?thesis by (simp add: PlanGlobalRebalance_def Let_def newPlan_def)
qed

text \<open>
  Rebalancing is all or nothing and exact. Under the same conditions, if \<open>RebalanceAll\<close> reports no
  error then every eligible account has exactly its target number of active users, as the routes now
  are; if it reports an error, every route is as it was, unless the error says that the rollback
  failed.
\<close>

theorem rebalance_all_or_nothing:
  assumes "leaves_routes act publish"
    "collect_inputs (store_routes fence envs) statesOf w = (Inr (routes, records, states), w1)"
    "tidy_inputs routes states" "world_route w1 = mget [] routes"
    "RebalanceAll (store_service fence envs statesOf act publish) w = ((result, err), w')"
  shows "(err = None \<longrightarrow> (\<forall>a \<in> set (eligibleCandidates states []).
             int (length (filter (\<lambda>u. world_route w' u = a) (activeUsersFromRecords records))) =
             mget 0 (pl_TargetCounts (PlanGlobalRebalance routes (activeUsersFromRecords records)
               (routableUsers records states) states)) a)) \<and>
         (err \<noteq> None \<longrightarrow> world_route w' = world_route w1 \<or> rollback_failed err)"
proof -
  define U where "U = activeUsersFromRecords records"
  define R where "R = routableUsers records states"
  define P where "P = PlanGlobalRebalance routes U R states"
  have tidy: "wf_map states" "\<forall>(a, s) \<in> set states. trim_space a = a \<and> a \<noteq> []"
    "\<forall>(u, a) \<in> set routes. trim_space a = a" using assms(3) by (auto simp: tidy_inputs_def)
  have cand: "\<forall>t \<in> set (eligibleCandidates states []). trim_space t = t \<and> t \<noteq> []"
    using tidy(2) by (auto simp: candidate_def)
  have clean: "clean_plan (pl_Assignments P) (pl_ExpectedRoutes P)"
    unfolding P_def using activeUsers_normal cand tidy(3)
    by (intro in_step_clean [OF rebalance_in_step]) (auto simp: U_def)
  have run: "(if pl_CandidateAccounts P = [] then ((zero_result, Some ErrRebalanceUnavailable), w1)
      else if 0 < pl_UnassignedUsers P \<or> 0 < pl_SkippedUsers P then ((zero_result, Some (unsafe_error P)), w1)
      else applyPlan (store_routes fence envs) act publish P w1) = ((result, err), w')"
    using assms(2,5) unfolding P_def U_def R_def
    by (simp add: RebalanceAll_def store_service_def Let_def)
  show ?thesis
  proof (cases "pl_CandidateAccounts P = [] \<or> 0 < pl_UnassignedUsers P \<or> 0 < pl_SkippedUsers P")
    case True
    with run have "err \<noteq> None" "w' = w1" by (auto split: if_splits)
    then show ?thesis by blast
  next
    case False
    then have ap: "applyPlan (store_routes fence envs) act publish P w1 = ((result, err), w')"
      using run by simp
    note outcome = applied_routes [OF assms(1) clean ap]
    have "int (length (filter (\<lambda>u. world_route w' u = a) U)) = mget 0 (pl_TargetCounts P) a"
      if "err = None" "a \<in> set (eligibleCandidates states [])" for a
    proof -
      have sub: "set U \<subseteq> set R"
      proof (rule ccontr)
        assume "\<not> set U \<subseteq> set R"
        moreover have "eligibleCandidates states [] \<noteq> []" using that(2) by (metis list.set_cases list.simps(3))
        ultimately have "0 < pl_SkippedUsers P" unfolding P_def by (intro skipped_positive)
        with False show False by blast
      qed
      have route: "world_route w' u = route_after routes P u" for u
        unfolding outcome(1) [OF that(1)] assms(4) route_after_def route_or_empty_def
        by (rule assigned_or_routed)
      have "\<not> candidate states [] []" "candidate states [] a"
        using cand that(2) by auto
      then show ?thesis
        using rebalance_exact_aux(1) [OF tidy(1) _ sub, of a routes]
        by (simp add: route P_def U_def)
    qed
    with outcome(2) show ?thesis by (auto simp: U_def R_def P_def)
  qed
qed

text \<open>
  A self-service move is all or nothing. \<open>MoveUser\<close> to a target other than the expected route, if it
  reports no error, has put exactly this user on the target, who before was on the expected route;
  if it reports an error, no route changed, unless the error says that the rollback failed.
\<close>

theorem move_user_all_or_nothing:
  assumes "leaves_routes act publish" "norm_name user \<noteq> []" "trim_space target \<noteq> []"
    "trim_space target \<noteq> trim_space expected"
    "MoveUser (store_service fence envs statesOf act publish) user target expected w = ((result, err), w')"
  shows "(err = None \<longrightarrow> world_route w' = (world_route w)(norm_name user := trim_space target)) \<and>
         (err \<noteq> None \<longrightarrow> world_route w' = world_route w \<or> rollback_failed err)"
proof -
  let ?p = "move_plan (norm_name user) (trim_space target) (trim_space expected)"
  have clean: "clean_plan (pl_Assignments ?p) (pl_ExpectedRoutes ?p)"
    using assms(2,3) by (simp add: move_plan_def clean_plan_def)
  have ap: "applyPlan (store_routes fence envs) act publish ?p w = ((result, err), w')"
    using assms by (simp add: MoveUser_def store_service_def Let_def)
  from applied_routes [OF assms(1) clean ap] show ?thesis
    by (auto simp: move_plan_def fun_eq_iff mget_def)
qed

section \<open>Examples\<close>

definition ex_envs :: "nat \<Rightarrow> env" where "ex_envs n = env_at (int n + 1) []"

definition ex_world :: world where "ex_world = \<lparr>wd_db = ex_routes_db, wd_tick = 0\<rparr>"

definition ex_failover_states :: "account_state gomap" where
  "ex_failover_states =
     [(''a1'', zero_account_state\<lparr>as_Account := ''a1'', as_Exhausted := True\<rparr>),
      (''a2'', zero_account_state\<lparr>as_Account := ''a2'', as_Eligible := True, as_Headroom := Fin 50\<rparr>)]"

definition ex_states_oper :: "(world, account_state gomap) oper" where
  "ex_states_oper w = (Inr ex_failover_states, w)"

definition ex_activity :: "world activity_ops" where
  "ex_activity = \<lparr>av_RefreshActiveUsersLastHour = (\<lambda>w. (Inr [], w)), av_RefreshActiveUsers = None,
     av_ActiveUserWindow = None\<rparr>"

definition ex_publish :: "(world, string) oper" where
  "ex_publish w = (Inr ''g1'', w)"

definition ex_publish_fails :: "(world, string) oper" where
  "ex_publish_fails w = (Inl (ErrNew ''disk full''), w)"

lemma ex_leaves: "leaves_routes ex_activity ex_publish" "leaves_routes ex_activity ex_publish_fails"
  by (simp_all add: leaves_routes_def quiet_def ex_publish_def ex_publish_fails_def ex_activity_def
      refresh_activity_def)

lemma ex_collect: "collect_inputs (store_routes [] ex_envs) ex_states_oper ex_world =
    (Inr (db_user_routes ex_routes_db, db_key_records ex_routes_db, ex_failover_states),
     ex_world\<lparr>wd_tick := 2\<rparr>)"
  by code_simp

lemma ex_tidy: "tidy_inputs (db_user_routes ex_routes_db) ex_failover_states"
  unfolding tidy_inputs_def by code_simp

lemma ex_no_empty_source: "[] \<notin> set (evac_sources ex_failover_states None)"
  by code_simp

definition ex_evacuated :: world where
  "ex_evacuated = \<lparr>wd_db = ex_routes_db\<lparr>db_user_routes := [(''amy'', ''a2'')]\<rparr>, wd_tick = 3\<rparr>"

definition ex_plan :: plan where
  "ex_plan = \<lparr>pl_Assignments = [(''amy'', ''a2'')], pl_ExpectedRoutes = [(''amy'', ''a1'')],
     pl_Sources = [(''a1'', 1)], pl_Destinations = [(''a2'', 1)], pl_CandidateAccounts = [''a2''],
     pl_AffectedUsers = 1, pl_PlannedUsers = 1, pl_SkippedUsers = 0, pl_UnassignedUsers = 0,
     pl_TargetCounts = []\<rparr>"

lemma ex_planned:
  "PlanEvacuation (db_user_routes ex_routes_db) (activeUsersFromRecords (db_key_records ex_routes_db))
     (routableUsers (db_key_records ex_routes_db) ex_failover_states) ex_failover_states None = ex_plan"
proof -
  have "routableUsers (db_key_records ex_routes_db) ex_failover_states = [''amy'']"
    "activeUsersFromRecords (db_key_records ex_routes_db) = [''amy'', ''bob'']"
    "db_user_routes ex_routes_db = [(''amy'', ''a1'')]" by code_simp+
  moreover have "PlanEvacuation [(''amy'', ''a1'')] [''amy'', ''bob''] [''amy''] ex_failover_states None = ex_plan"
    by code_simp
  ultimately show ?thesis by simp
qed

lemma ex_evacuate_step: "evacuate (store_service [] ex_envs ex_states_oper ex_activity publish) None ex_world =
  (case applyPlan (store_routes [] ex_envs) ex_activity publish ex_plan (ex_world\<lparr>wd_tick := 2\<rparr>) of
     ((applied, err), w) \<Rightarrow> ((\<lparr>er_Rebalance = applied, er_Plan = summarizePlan ex_plan\<rparr>, err), w))"
  by (simp add: evacuate_def store_service_def ex_collect ex_planned Let_def) (simp add: ex_plan_def)

lemma ex_evacuate: "\<exists>result. evacuate (store_service [] ex_envs ex_states_oper ex_activity ex_publish) None ex_world =
    ((result, None), ex_evacuated)"
proof -
  have "(case applyPlan (store_routes [] ex_envs) ex_activity ex_publish ex_plan (ex_world\<lparr>wd_tick := 2\<rparr>) of
      ((result, err), w) \<Rightarrow> err = None \<and> w = ex_evacuated)" by code_simp
  then show ?thesis by (auto simp: ex_evacuate_step split: prod.splits)
qed

lemma ex_evacuate_fails: "\<exists>result err w. err \<noteq> None \<and> \<not> rollback_failed err \<and>
    evacuate (store_service [] ex_envs ex_states_oper ex_activity ex_publish_fails) None ex_world = ((result, err), w)"
proof -
  have "(case applyPlan (store_routes [] ex_envs) ex_activity ex_publish_fails ex_plan (ex_world\<lparr>wd_tick := 2\<rparr>) of
      ((result, err), w) \<Rightarrow> err = Some (ErrJoin [wrapf ''publish account rebalance snapshot: '' (ErrNew ''disk full''),
         wrapf ''publish rollback auth snapshot: '' (ErrNew ''disk full'')]))"
    by code_simp
  then show ?thesis by (auto simp: ex_evacuate_step rollback_failed_def wrapf_def split: prod.splits)
qed

lemma ex_world_route: "world_route (ex_world\<lparr>wd_tick := 2\<rparr>) = mget [] (db_user_routes ex_routes_db)"
  by (simp add: world_route_def ex_world_def fun_eq_iff)

theorem evacuation_all_or_nothing_witness:
  "list_all (\<lambda>u. world_route ex_evacuated u \<notin> set (evac_sources ex_failover_states None))
     (activeUsersFromRecords (db_key_records ex_routes_db)) \<and>
   (\<exists>err w. err \<noteq> None \<and> world_route w = world_route (ex_world\<lparr>wd_tick := 2\<rparr>))"
proof -
  obtain result where ok: "evacuate (store_service [] ex_envs ex_states_oper ex_activity ex_publish) None ex_world =
      ((result, None), ex_evacuated)" using ex_evacuate by blast
  obtain result' err w where failed: "err \<noteq> None" "\<not> rollback_failed err"
    "evacuate (store_service [] ex_envs ex_states_oper ex_activity ex_publish_fails) None ex_world = ((result', err), w)"
    using ex_evacuate_fails by blast
  show ?thesis
    using evacuation_all_or_nothing [OF ex_leaves(1) ex_collect ex_tidy ex_world_route ex_no_empty_source ok]
      evacuation_all_or_nothing [OF ex_leaves(2) ex_collect ex_tidy ex_world_route ex_no_empty_source failed(3)]
      failed(1,2) unfolding list_all_iff by blast
qed

theorem move_user_all_or_nothing_witness:
  "\<exists>result w'. MoveUser (store_service [] ex_envs ex_states_oper ex_activity ex_publish) '' Amy'' ''a2'' ''a1'' ex_world =
     ((result, None), w') \<and> world_route w' = (world_route ex_world)(norm_name '' Amy'' := trim_space ''a2'')"
proof -
  have "(case MoveUser (store_service [] ex_envs ex_states_oper ex_activity ex_publish) '' Amy'' ''a2'' ''a1'' ex_world of
      ((result, err), w) \<Rightarrow> err = None)" by code_simp
  then obtain result w' where m: "MoveUser (store_service [] ex_envs ex_states_oper ex_activity ex_publish)
      '' Amy'' ''a2'' ''a1'' ex_world = ((result, None), w')" by (auto split: prod.splits)
  have "norm_name '' Amy'' \<noteq> []" "trim_space ''a2'' \<noteq> []" "trim_space ''a2'' \<noteq> trim_space ''a1''"
    by code_simp+
  from move_user_all_or_nothing [OF ex_leaves(1) this m] m show ?thesis by blast
qed

definition ex_full_world :: world where
  "ex_full_world = \<lparr>wd_db = ex_routes_db\<lparr>db_key_rows := db_key_rows ex_routes_db @ [(3, ex_key ''bob'' ''a1'' ''t'')]\<rparr>,
     wd_tick = 0\<rparr>"

definition ex_full_records :: "key_record list" where
  "ex_full_records = db_key_records ex_routes_db @ [ex_key ''bob'' ''a1'' ''t'']"

definition ex_rebalance :: plan where
  "ex_rebalance = \<lparr>pl_Assignments = [(''amy'', ''a2''), (''bob'', ''a2'')],
     pl_ExpectedRoutes = [(''amy'', ''a1''), (''bob'', [])], pl_Sources = [(''a1'', 1), ([], 1)],
     pl_Destinations = [(''a2'', 2)], pl_CandidateAccounts = [''a2''], pl_AffectedUsers = 2,
     pl_PlannedUsers = 2, pl_SkippedUsers = 0, pl_UnassignedUsers = 0, pl_TargetCounts = [(''a2'', 2)]\<rparr>"

lemma ex_full_users: "activeUsersFromRecords ex_full_records = [''amy'', ''bob'']"
  "routableUsers ex_full_records ex_failover_states = [''amy'', ''bob'']"
  "db_user_routes ex_routes_db = [(''amy'', ''a1'')]"
  by code_simp+

lemma ex_rebalance_plan:
  "PlanGlobalRebalance [(''amy'', ''a1'')] [''amy'', ''bob''] [''amy'', ''bob''] ex_failover_states = ex_rebalance"
  by code_simp

lemma ex_full_collect: "collect_inputs (store_routes [] ex_envs) ex_states_oper ex_full_world =
    (Inr (db_user_routes ex_routes_db, ex_full_records, ex_failover_states), ex_full_world\<lparr>wd_tick := 2\<rparr>)"
  by code_simp

definition ex_rebalanced :: world where
  "ex_rebalanced = \<lparr>wd_db = (wd_db ex_full_world)\<lparr>db_user_routes := [(''amy'', ''a2''), (''bob'', ''a2'')]\<rparr>,
     wd_tick = 3\<rparr>"

lemma ex_rebalance_run:
  "\<exists>result. RebalanceAll (store_service [] ex_envs ex_states_oper ex_activity ex_publish) ex_full_world =
     ((result, None), ex_rebalanced)"
proof -
  have "(case applyPlan (store_routes [] ex_envs) ex_activity ex_publish ex_rebalance (ex_full_world\<lparr>wd_tick := 2\<rparr>) of
      ((result, err), w) \<Rightarrow> err = None \<and> w = ex_rebalanced)" by code_simp
  moreover have "RebalanceAll (store_service [] ex_envs ex_states_oper ex_activity ex_publish) ex_full_world =
      applyPlan (store_routes [] ex_envs) ex_activity ex_publish ex_rebalance (ex_full_world\<lparr>wd_tick := 2\<rparr>)"
    by (simp add: RebalanceAll_def store_service_def ex_full_collect ex_full_users ex_rebalance_plan Let_def)
      (simp add: ex_rebalance_def)
  ultimately show ?thesis by (auto split: prod.splits)
qed

theorem rebalance_all_or_nothing_witness:
  "list_all (\<lambda>a.
     int (length (filter (\<lambda>u. world_route ex_rebalanced u = a) (activeUsersFromRecords ex_full_records))) =
     mget 0 (pl_TargetCounts (PlanGlobalRebalance (db_user_routes ex_routes_db)
       (activeUsersFromRecords ex_full_records) (routableUsers ex_full_records ex_failover_states)
       ex_failover_states)) a) (eligibleCandidates ex_failover_states [])"
proof -
  have route: "world_route (ex_full_world\<lparr>wd_tick := 2\<rparr>) = mget [] (db_user_routes ex_routes_db)"
    by (simp add: world_route_def ex_full_world_def fun_eq_iff)
  obtain result where run: "RebalanceAll (store_service [] ex_envs ex_states_oper ex_activity ex_publish)
      ex_full_world = ((result, None), ex_rebalanced)" using ex_rebalance_run by blast
  show ?thesis
    using rebalance_all_or_nothing [OF ex_leaves(1) ex_full_collect ex_tidy route run] unfolding list_all_iff by blast
qed

end
