(* ===== verification/Account_Proofs.thy ===== *)
theory Account_Proofs
  imports Account_States
begin

text \<open>
  What the account-capacity code guarantees: only fresh, complete, enabled capacity becomes eligible;
  states built from normalized quotas are valid, carry the reason that matches their eligibility, and
  survive persistence; the provider adds no capacity of its own.
\<close>

section \<open>The default window\<close>

lemma default_key_source:
  "default_key (''default'' @ '':'' @ slot)" "\<not> default_key ((''additional:'' @ name) @ rest)"
  by (simp_all add: default_key_def has_prefix_def)

lemma default_key_additional:
  assumes "w \<in> set (concat (map (source_windows applicable details) (additional_sources i raws)))"
  shows "\<not> default_key (ww_Key w)" "ww_Key w \<noteq> []"
proof -
  obtain source where source: "source \<in> set (additional_sources i raws)"
      "w \<in> set (source_windows applicable details source)" using assms by auto
  obtain name where name: "qs_key source = ''additional:'' @ name"
    using additional_sources_key [OF source(1)] by blast
  obtain slot where "ww_Key w = qs_key source @ '':'' @ slot"
    using source(2) by (auto elim!: source_windows_mem dest!: slot_window_ok(2))
  with name show "\<not> default_key (ww_Key w)" "ww_Key w \<noteq> []"
    using default_key_source(2) by auto
qed

lemma default_key_default:
  assumes "w \<in> set (source_windows applicable details (default_source payload))"
  shows "default_key (ww_Key w)"
proof -
  obtain slot where "ww_Key w = qs_key (default_source payload) @ '':'' @ slot"
    using assms by (auto elim!: source_windows_mem dest!: slot_window_ok(2))
  then show ?thesis
    using default_key_source(1) by (simp add: default_source_def newQuotaSource_def)
qed

lemma find_append: "find P (xs @ ys) = (case find P xs of None \<Rightarrow> find P ys | Some x \<Rightarrow> Some x)"
  by (induction xs) auto

lemma find_none: "(\<And>x. x \<in> set xs \<Longrightarrow> \<not> P x) \<Longrightarrow> find P xs = None"
  by (simp add: find_None_iff)

lemma find_all: "(\<And>x. x \<in> set xs \<Longrightarrow> P x) \<Longrightarrow> find P xs = (case xs of [] \<Rightarrow> None | x # _ \<Rightarrow> Some x)"
  by (cases xs) auto

text \<open>
  The capacity of an account is read from its default rate limit only. On a normalized account,
  \<open>defaultWeeklyWindow\<close> is the first weekly window of the payload's default rate limit, and nil when
  the default limit has none, however many additional limits have weekly windows.
\<close>

theorem default_window_of_normalized:
  "\<exists>applicable details. defaultWeeklyWindow (Normalize account payload) =
     (case source_windows applicable details (default_source payload) of
        [] \<Rightarrow> None | w # _ \<Rightarrow> Some w)"
proof -
  obtain applicable details where split: "payload_windows payload =
      source_windows applicable details (default_source payload) @
      concat (map (source_windows applicable details)
        (additional_sources 0 (as_list (mget ANil payload ''additional_rate_limits''))))"
    by (rule payload_windows_split)
  let ?D = "source_windows applicable details (default_source payload)"
  let ?A = "concat (map (source_windows applicable details)
        (additional_sources 0 (as_list (mget ANil payload ''additional_rate_limits''))))"
  have D: "find (\<lambda>w. default_key (ww_Key w)) ?D = (case ?D of [] \<Rightarrow> None | w # _ \<Rightarrow> Some w)"
    by (intro find_all default_key_default)
  have A: "find (\<lambda>w. default_key (ww_Key w)) ?A = None"
    by (intro find_none default_key_additional(1))
  have both: "find (\<lambda>w. default_key (ww_Key w)) (?D @ ?A) = (case ?D of [] \<Rightarrow> None | w # _ \<Rightarrow> Some w)"
    unfolding find_append D A by (simp split: list.split)
  have "defaultWeeklyWindow (Normalize account payload) =
      (case ?D of [] \<Rightarrow> None | w # _ \<Rightarrow> Some w)"
  proof (cases ?D)
    case Nil
    show ?thesis
    proof (cases ?A)
      case Nil
      with \<open>?D = []\<close> split show ?thesis by (simp add: defaultWeeklyWindow_def)
    next
      case (Cons w ws)
      then have "w \<in> set ?A" by simp
      with default_key_additional [OF this] Cons Nil split both show ?thesis
        by (simp add: defaultWeeklyWindow_def)
    qed
  next
    case (Cons w ws)
    then have "w \<in> set ?D" by simp
    then have "default_key (ww_Key w)" by (rule default_key_default)
    with Cons split show ?thesis by (simp add: defaultWeeklyWindow_def)
  qed
  then show ?thesis by blast
qed

section \<open>Built states\<close>

lemma foldl_mput_mem:
  "map_of (foldl (\<lambda>m x. mput (k x) (f x) m) m0 xs) a = Some s \<Longrightarrow>
     (\<exists>x \<in> set xs. k x = a \<and> s = f x) \<or> map_of m0 a = Some s"
proof (induction xs arbitrary: m0)
  case (Cons x xs)
  from Cons.IH [of "mput (k x) (f x) m0"] Cons.prems show ?case by (auto split: if_splits)
qed simp

lemma foldl_if: "foldl (\<lambda>m x. if P x then g m x else m) m0 xs = foldl g m0 (filter P xs)"
  by (induction xs arbitrary: m0) auto

lemma quota_map_mem:
  assumes "map_of (quota_map qs) a = Some q"
  shows "q \<in> set qs" "aq_Account q = a" "a \<noteq> []"
  using assms foldl_mput_mem [of aq_Account "\<lambda>q. q" "[]" "filter (\<lambda>q. aq_Account q \<noteq> []) qs" a q]
  by (auto simp: quota_map_def foldl_if)

definition built_from ::
  "account list \<Rightarrow> snapshot \<Rightarrow> bool gomap \<Rightarrow> int \<Rightarrow> int \<Rightarrow> f64 \<Rightarrow> string \<Rightarrow> account_state \<Rightarrow> account \<Rightarrow> bool" where
  "built_from accounts snap running now staleAfter reserve a s account \<longleftrightarrow>
     account \<in> set accounts \<and> ac_ID account = a \<and>
     s = capacity_of account (map_of (quota_map (sn_Accounts snap)) a) (mget False running a)
           (snapshot_fresh (sn_GeneratedAt snap) now (stale_after_or_default staleAfter))
           (reserve_or_default reserve) (sn_GeneratedAt snap)"

lemma BuildAccountStates_mem:
  assumes "map_of (BuildAccountStates accounts snap running now staleAfter reserve) a = Some s"
  shows "\<exists>account. built_from accounts snap running now staleAfter reserve a s account"
  using assms foldl_mput_mem [of ac_ID _ "[]" accounts a s]
  by (fastforce simp: BuildAccountStates_def Let_def built_from_def)

text \<open>
  C28: Capacity fails closed. An account that \<open>BuildAccountStates\<close> marks eligible is in the catalog,
  enabled and running; the snapshot is not older than the staleness limit nor more than 30 seconds
  ahead; it has an official quota entry with status \<open>ok\<close>, not disallowed and not exhausted; and the
  remaining percentage of its default weekly window exceeds the reserve.
\<close>

theorem eligible_capacity_is_real:
  assumes "map_of (BuildAccountStates accounts snap running now staleAfter reserve) a = Some s"
    "as_Eligible s"
  shows "\<exists>account \<in> set accounts. ac_ID account = a \<and> ac_GroupEnabled account \<and> mget False running a \<and>
    snapshot_fresh (sn_GeneratedAt snap) now (stale_after_or_default staleAfter) \<and>
    (\<exists>q \<in> set (sn_Accounts snap). \<exists>w. aq_Account q = a \<and> aq_Status q = ''ok'' \<and>
       aq_Allowed q \<noteq> Some False \<and> aq_LimitReached q \<noteq> Some True \<and>
       defaultWeeklyWindow q = Some w \<and> \<not> ww_LimitReached w \<and> \<not> f_le (Fin 100) (ww_UsedPercent w) \<and>
       f_lt (Fin 0) (f_max (Fin 0) (f_sub (ww_RemainingPercent w) (reserve_or_default reserve))))"
proof -
  obtain account where b: "built_from accounts snap running now staleAfter reserve a s account"
    using BuildAccountStates_mem [OF assms(1)] by blast
  obtain q where q: "map_of (quota_map (sn_Accounts snap)) a = Some q"
    using b assms(2) by (cases "map_of (quota_map (sn_Accounts snap)) a")
      (auto simp: built_from_def capacity_of_def Let_def)
  have mem: "q \<in> set (sn_Accounts snap)" "aq_Account q = a"
    using quota_map_mem [OF q] by auto
  obtain w where w: "defaultWeeklyWindow q = Some w"
    using b q assms(2) by (auto simp: built_from_def capacity_of_def Let_def)
  have account: "account \<in> set accounts" "ac_ID account = a" using b by (auto simp: built_from_def)
  have "ac_GroupEnabled account \<and> mget False running a \<and>
      snapshot_fresh (sn_GeneratedAt snap) now (stale_after_or_default staleAfter) \<and>
      aq_Status q = ''ok'' \<and> aq_Allowed q \<noteq> Some False \<and> aq_LimitReached q \<noteq> Some True \<and>
      \<not> ww_LimitReached w \<and> \<not> f_le (Fin 100) (ww_UsedPercent w) \<and>
      f_lt (Fin 0) (f_max (Fin 0) (f_sub (ww_RemainingPercent w) (reserve_or_default reserve)))"
    using b q w assms(2)
    by (auto simp: built_from_def capacity_of_def Let_def quota_exhausted_def headroom_of_def)
  with account mem w show ?thesis by blast
qed

section \<open>States built from normalized quotas\<close>

definition quota_ok :: "account_quota \<Rightarrow> bool" where
  "quota_ok q \<longleftrightarrow> (\<forall>w \<in> set (aq_WeeklyWindows q) \<union> set_option (aq_Weekly q). window_ok w)"

lemma quota_ok_Normalize [simp]: "quota_ok (Normalize account payload)"
  using payload_window_ok [of _ payload] by (cases "payload_windows payload") (auto simp: quota_ok_def)

lemma quota_ok_unavailable [simp]: "quota_ok (unavailableAccount account status)"
  by (simp add: quota_ok_def unavailableAccount_def)

lemma find_mem: "find P xs = Some w \<Longrightarrow> w \<in> set xs"
  by (auto simp: find_Some_iff)

lemma defaultWeeklyWindow_ok: "quota_ok q \<Longrightarrow> defaultWeeklyWindow q = Some w \<Longrightarrow> window_ok w"
  by (auto simp: quota_ok_def defaultWeeklyWindow_def split: option.splits if_splits dest: find_mem)

lemma reserve_range:
  obtains r where "reserve_or_default x = Fin r" "0 \<le> r" "r \<le> 50"
proof (cases x)
  case (Fin q)
  then show thesis
    using that [of "if q < 0 \<or> 50 < q then 5 else q"] by (auto simp: reserve_or_default_def)
qed (use that [of 5] in \<open>simp_all add: reserve_or_default_def\<close>)

lemma headroom_finite:
  assumes "percent_ok p"
  obtains h where "f_max (Fin 0) (f_sub p (reserve_or_default x)) = Fin h" "0 \<le> h"
proof -
  obtain q where q: "p = Fin q" "0 \<le> q" "q \<le> 100"
    using assms by (cases p) (auto simp: percent_ok_def)
  obtain r where r: "reserve_or_default x = Fin r" "0 \<le> r" "r \<le> 50" by (rule reserve_range)
  have "\<bar>q - r\<bar> \<le> 10001" using q(2,3) r(2,3) unfolding abs_le_iff by (intro conjI) linarith+
  then obtain s where "round64 (q - r) = Fin s" by (rule round64_percent)
  then have "f_sub p (reserve_or_default x) = Fin s" by (simp add: q r f_sub_def)
  then show thesis using that [of "if s < 0 then 0 else s"] by (auto simp: f_max_def)
qed

lemma capacity_reason_available:
  "capacity_reason e g r oa f av al h = ''available'' \<longleftrightarrow>
     \<not> e \<and> g \<and> r \<and> oa \<and> f \<and> av \<and> al \<and> \<not> f_le h (Fin 0)"
  by (simp add: capacity_reason_def)

lemma capacity_of_valid:
  assumes "\<And>q. accountQuota = Some q \<Longrightarrow> quota_ok q"
    and s_def: "s = capacity_of account accountQuota running fresh (reserve_or_default x) observedAt"
  shows "validateAccountState s = None" "as_Reason s = ''available'' \<longleftrightarrow> as_Eligible s"
    "as_Eligible s \<Longrightarrow> pct_ok (as_UsedPercent s) \<and> pct_ok (as_RemainingPercent s)"
proof -
  define q where "q = (case accountQuota of Some q \<Rightarrow> q | None \<Rightarrow> zero_quota)"
  have "quota_ok q" using assms(1) by (auto simp: q_def zero_quota_def split: option.split)
  note ok = window_ok_percents [OF defaultWeeklyWindow_ok [OF this]]
  define h where "h = headroom_of q (reserve_or_default x)"
  obtain v where v: "h = Fin v" "0 \<le> v"
  proof (cases "defaultWeeklyWindow q")
    case None
    then show thesis using that [of 0] by (simp add: h_def headroom_of_def)
  next
    case (Some w)
    obtain u where "f_max (Fin 0) (f_sub (ww_RemainingPercent w) (reserve_or_default x)) = Fin u" "0 \<le> u"
      using headroom_finite ok(2) [OF Some] by blast
    with Some show thesis using that [of u] by (simp add: h_def headroom_of_def)
  qed
  have pct: "\<not> pct_invalid (map_option ww_UsedPercent (defaultWeeklyWindow q))"
    "\<not> pct_invalid (map_option ww_RemainingPercent (defaultWeeklyWindow q))"
    using ok by (auto simp: pct_invalid_def percent_ok_def finite64_iff split: option.split)
  have fields: "as_Headroom s = h" "as_UsedPercent s = map_option ww_UsedPercent (defaultWeeklyWindow q)"
    "as_RemainingPercent s = map_option ww_RemainingPercent (defaultWeeklyWindow q)"
    by (simp_all add: s_def capacity_of_def Let_def q_def h_def)
  show "validateAccountState s = None"
    using pct v by (simp add: validateAccountState_def fields)
  show "as_Reason s = ''available'' \<longleftrightarrow> as_Eligible s"
  proof -
    have e: "as_Eligible s \<longleftrightarrow> ac_GroupEnabled account \<and> running \<and>
        (accountQuota \<noteq> None \<and> aq_Status q \<noteq> ''auth_missing'') \<and> fresh \<and> aq_Status q = ''ok'' \<and>
        defaultWeeklyWindow q \<noteq> None \<and> (aq_Allowed q = None \<or> aq_Allowed q = Some True) \<and>
        \<not> as_Exhausted s \<and> f_lt (Fin 0) h"
      and r: "as_Reason s = capacity_reason (as_Exhausted s) (ac_GroupEnabled account) running
        (accountQuota \<noteq> None \<and> aq_Status q \<noteq> ''auth_missing'') fresh
        (accountQuota \<noteq> None \<and> aq_Status q = ''ok'' \<and> defaultWeeklyWindow q \<noteq> None)
        (aq_Allowed q = None \<or> aq_Allowed q = Some True) h"
      by (simp_all add: s_def capacity_of_def Let_def q_def h_def)
    moreover have "\<not> f_le h (Fin 0) \<longleftrightarrow> f_lt (Fin 0) h" by (simp add: v(1) not_le)
    ultimately show ?thesis unfolding r e capacity_reason_available by blast
  qed
  assume "as_Eligible s"
  then have "defaultWeeklyWindow q \<noteq> None"
    by (simp add: s_def capacity_of_def Let_def q_def)
  with pct show "pct_ok (as_UsedPercent s) \<and> pct_ok (as_RemainingPercent s)"
    by (auto simp: fields pct_invalid_def pct_ok_def split: option.splits)
qed

text \<open>
  Capacity built from normalized quota entries is usable as it is: every state passes the
  validation the provider applies to persisted states, its reason is \<open>available\<close> exactly when it is
  eligible, and an eligible state of a trimmed account name passes every test of
  \<open>LeastUsedEligibleAccount\<close>.
\<close>

theorem built_states_are_valid:
  assumes "\<forall>q \<in> set (sn_Accounts snap). quota_ok q"
    "map_of (BuildAccountStates accounts snap running now staleAfter reserve) a = Some s"
  shows "validateAccountState s = None \<and> (as_Reason s = ''available'' \<longleftrightarrow> as_Eligible s) \<and>
    (as_Eligible s \<and> trim_space a = a \<longrightarrow>
       least_used_usable (BuildAccountStates accounts snap running now staleAfter reserve) a)"
proof -
  obtain account where b: "built_from accounts snap running now staleAfter reserve a s account"
    using BuildAccountStates_mem [OF assms(2)] by blast
  have quota: "quota_ok q" if "map_of (quota_map (sn_Accounts snap)) a = Some q" for q
    using that assms(1) quota_map_mem by blast
  have s: "s = capacity_of account (map_of (quota_map (sn_Accounts snap)) a) (mget False running a)
      (snapshot_fresh (sn_GeneratedAt snap) now (stale_after_or_default staleAfter))
      (reserve_or_default reserve) (sn_GeneratedAt snap)" and id: "ac_ID account = a"
    using b by (simp_all add: built_from_def)
  note valid = capacity_of_valid [OF quota s]
  have "f_lt (Fin 0) (as_Headroom s) \<and> \<not> as_Exhausted s \<and> as_Account s = a" if "as_Eligible s"
    using that by (auto simp: s capacity_of_def Let_def id)
  then have "least_used_usable (BuildAccountStates accounts snap running now staleAfter reserve) a"
    if "as_Eligible s" "trim_space a = a"
    using that valid assms(2) f_lt_trans [of "Fin 0" "as_Headroom s" "Fin 0"]
    by (auto simp: least_used_usable_def f_le_def f_eq_def)
  with valid show ?thesis by blast
qed

section \<open>Persistence\<close>

definition state_storable :: "account_state \<Rightarrow> bool" where
  "state_storable s \<longleftrightarrow> f64_value (as_Headroom s) \<and> pred_option f64_value (as_UsedPercent s) \<and>
     pred_option f64_value (as_RemainingPercent s) \<and> in64 (as_ResetAt s) \<and> in64 (as_ObservedAt s)"

definition plan_storable :: "plan_summary \<Rightarrow> bool" where
  "plan_storable p \<longleftrightarrow> list_all in64 (map snd (ps_Sources p)) \<and> list_all in64 (map snd (ps_Destinations p)) \<and>
     in64 (ps_AffectedUsers p) \<and> in64 (ps_PlannedUsers p) \<and> in64 (ps_SkippedUsers p) \<and>
     in64 (ps_UnassignedUsers p)"

definition action_storable :: "action_summary \<Rightarrow> bool" where
  "action_storable a \<longleftrightarrow> in64 (at_At a) \<and> list_all in64 (map snd (at_Sources a)) \<and>
     list_all in64 (map snd (at_Destinations a)) \<and> in64 (at_MovedUsers a)"

definition runtime_storable :: "runtime_state \<Rightarrow> bool" where
  "runtime_storable r \<longleftrightarrow> rt_Version r = RuntimeStateVersion \<and>
     (rt_Mode r = ModeOff \<or> rt_Mode r = ModeActive) \<and>
     pred_option in64 (rt_HeartbeatAt r) \<and> pred_option in64 (rt_LastCheckAt r) \<and>
     pred_option in64 (rt_LastSuccessAt r) \<and> pred_option in64 (rt_NextCheckAt r) \<and>
     list_all state_storable (map snd (rt_Accounts r)) \<and> pred_option plan_storable (rt_LastPlan r) \<and>
     pred_option action_storable (rt_LastAction r)"

lemma norm_float_ptr [simp]:
  "json_norm (enc_float_ptr p) = (case p of None \<Rightarrow> ANil | Some f \<Rightarrow> json_norm_float f)"
  by (simp add: enc_float_ptr_def split: option.split)

lemma norm_int_ptr [simp]: "json_norm (enc_int_ptr p) = enc_int_ptr p"
  by (simp add: enc_int_ptr_def split: option.split)

lemma dec_float_norm: "f64_value f \<Longrightarrow> dec_float_of (json_norm_float f) = Some f"
  using dec_float_roundtrip by simp

lemma state_roundtrip:
  assumes "state_storable s"
  shows "dec_struct_of z state_of_object (json_norm (state_json s)) = Some s"
  using assms
  by (simp add: state_json_def dec_struct_of_def state_of_object_def dec_string_def dec_bool_def
      dec_float_ptr_def dec_float_def dec_int_def mget_def state_storable_def dec_float_norm
      option.pred_set split: option.split)

lemma dec_entries_map:
  assumes "\<And>v. v \<in> snd ` set m \<Longrightarrow> f (g v) = Some v"
  shows "dec_entries f (map (\<lambda>(k, v). (k, g v)) m) = Some m"
  using assms by (induction m) auto

lemma norm_enc_map: "json_norm (enc_map g m) = AObject (map (\<lambda>(k, v). (k, json_norm (g v))) m)"
  by (simp add: enc_map_def case_prod_unfold)

lemma dec_all_map:
  assumes "\<And>v. v \<in> set vs \<Longrightarrow> f (g v) = Some v"
  shows "dec_all f (map g vs) = Some vs"
  using assms by (induction vs) auto

lemma dec_counts:
  "list_all in64 (map snd m) \<Longrightarrow> dec_entries dec_int_of (map (\<lambda>(k, v). (k, AInt64 v)) m) = Some m"
  by (rule dec_entries_map) (auto simp: dec_int_of_def list_all_iff)

lemma dec_names: "dec_all dec_string_of (map AString xs) = Some xs"
  by (rule dec_all_map) (simp add: dec_string_of_def)

lemma plan_roundtrip:
  assumes "plan_storable p" "json_norm (plan_json p) = AObject m"
  shows "plan_of_object m = Some p"
proof -
  have "m = [(''sources'', AObject (map (\<lambda>(k, v). (k, AInt64 v)) (ps_Sources p))),
     (''destinations'', AObject (map (\<lambda>(k, v). (k, AInt64 v)) (ps_Destinations p))),
     (''candidate_accounts'', AList (map AString (ps_CandidateAccounts p))),
     (''affected_users'', AInt64 (ps_AffectedUsers p)), (''planned_users'', AInt64 (ps_PlannedUsers p)),
     (''skipped_users'', AInt64 (ps_SkippedUsers p)), (''unassigned_users'', AInt64 (ps_UnassignedUsers p))]"
    using assms(2) by (simp add: plan_json_def norm_enc_map comp_def)
  with assms(1) show ?thesis
    by (simp add: plan_of_object_def dec_map_def dec_list_def dec_int_def mget_def plan_storable_def
        dec_counts dec_names)
qed

lemma action_roundtrip:
  assumes "action_storable a" "json_norm (action_json a) = AObject m"
  shows "action_of_object m = Some a"
proof -
  have "m = [(''at'', AInt64 (at_At a)), (''trigger'', AString (at_Trigger a)),
     (''sources'', AObject (map (\<lambda>(k, v). (k, AInt64 v)) (at_Sources a))),
     (''destinations'', AObject (map (\<lambda>(k, v). (k, AInt64 v)) (at_Destinations a))),
     (''moved_users'', AInt64 (at_MovedUsers a)),
     (''snapshot_generation'', AString (at_SnapshotGeneration a))]"
    using assms(2) by (simp add: action_json_def norm_enc_map)
  with assms(1) show ?thesis
    by (simp add: action_of_object_def dec_map_def dec_int_def dec_string_def mget_def
        action_storable_def dec_counts)
qed

lemma norm_enc_ptr: "json_norm (enc_ptr g p) = (case p of None \<Rightarrow> ANil | Some v \<Rightarrow> json_norm (g v))"
  by (simp add: enc_ptr_def split: option.split)

lemma norm_objects: "\<exists>m. json_norm (plan_json p) = AObject m" "\<exists>m. json_norm (action_json a) = AObject m"
  by (simp_all add: plan_json_def action_json_def)

lemma dec_ptr_plan:
  "pred_option plan_storable p \<Longrightarrow> mget ANil m k = json_norm (enc_ptr plan_json p) \<Longrightarrow>
     dec_ptr plan_of_object m k = Some p"
  using norm_objects(1) [of "the p"]
  by (cases p) (auto simp: dec_ptr_def norm_enc_ptr plan_roundtrip)

lemma dec_ptr_action:
  "pred_option action_storable p \<Longrightarrow> mget ANil m k = json_norm (enc_ptr action_json p) \<Longrightarrow>
     dec_ptr action_of_object m k = Some p"
  using norm_objects(2) [of "the p"]
  by (cases p) (auto simp: dec_ptr_def norm_enc_ptr action_roundtrip)

lemma dec_int_ptr_enc:
  "pred_option in64 p \<Longrightarrow> mget ANil m k = enc_int_ptr p \<Longrightarrow> dec_int_ptr m k = Some p"
  by (cases p) (simp_all add: dec_int_ptr_def enc_int_ptr_def)

lemma dec_accounts:
  assumes "list_all state_storable (map snd accounts)"
    "mget ANil m k = json_norm (enc_map state_json accounts)"
  shows "dec_map (dec_struct_of zero_account_state state_of_object) m k = Some accounts"
  using assms by (auto simp: dec_map_def norm_enc_map list_all_iff state_roundtrip intro!: dec_entries_map)

lemma runtime_of_norm:
  assumes "runtime_storable r" "json_norm (runtime_json r) = AObject m"
  shows "runtime_of_object m = Some r"
proof -
  have "m = map (\<lambda>(k, v). (k, json_norm v))
     [(''version'', AInt64 (rt_Version r)), (''mode'', AString (rt_Mode r)),
     (''heartbeat_at'', enc_int_ptr (rt_HeartbeatAt r)), (''last_check_at'', enc_int_ptr (rt_LastCheckAt r)),
     (''last_success_at'', enc_int_ptr (rt_LastSuccessAt r)), (''next_check_at'', enc_int_ptr (rt_NextCheckAt r)),
     (''quota_refreshing'', ABool (rt_QuotaRefreshing r)), (''last_error'', AString (rt_LastError r)),
     (''accounts'', enc_map state_json (rt_Accounts r)), (''last_plan'', enc_ptr plan_json (rt_LastPlan r)),
     (''last_action'', enc_ptr action_json (rt_LastAction r))]"
    using assms(2) by (simp add: runtime_json_def)
  then have get: "mget ANil m ''version'' = AInt64 (rt_Version r)" "mget ANil m ''mode'' = AString (rt_Mode r)"
    "mget ANil m ''heartbeat_at'' = enc_int_ptr (rt_HeartbeatAt r)"
    "mget ANil m ''last_check_at'' = enc_int_ptr (rt_LastCheckAt r)"
    "mget ANil m ''last_success_at'' = enc_int_ptr (rt_LastSuccessAt r)"
    "mget ANil m ''next_check_at'' = enc_int_ptr (rt_NextCheckAt r)"
    "mget ANil m ''quota_refreshing'' = ABool (rt_QuotaRefreshing r)"
    "mget ANil m ''last_error'' = AString (rt_LastError r)"
    "mget ANil m ''accounts'' = json_norm (enc_map state_json (rt_Accounts r))"
    "mget ANil m ''last_plan'' = json_norm (enc_ptr plan_json (rt_LastPlan r))"
    "mget ANil m ''last_action'' = json_norm (enc_ptr action_json (rt_LastAction r))"
    by (simp_all add: mget_def)
  show ?thesis
    using assms(1) get(1,2,7,8)
    by (simp add: runtime_of_object_def runtime_storable_def dec_int_def dec_string_def dec_bool_def
        RuntimeStateVersion_def in64_def dec_int_ptr_enc [OF _ get(3)] dec_int_ptr_enc [OF _ get(4)]
        dec_int_ptr_enc [OF _ get(5)] dec_int_ptr_enc [OF _ get(6)] dec_accounts [OF _ get(9)]
        dec_ptr_plan [OF _ get(10)] dec_ptr_action [OF _ get(11)] del: json_norm.simps)
qed

lemma state_json_finite: "state_storable s \<Longrightarrow> json_finite (state_json s)"
  by (auto simp: state_storable_def state_json_def enc_float_ptr_def f64_value_finite option.pred_set
      split: option.split)

lemma enc_map_finite: "(\<And>v. v \<in> snd ` set m \<Longrightarrow> json_finite (g v)) \<Longrightarrow> json_finite (enc_map g m)"
  by (force simp: enc_map_def list_all_iff)

lemma enc_ptr_finite: "(\<And>v. p = Some v \<Longrightarrow> json_finite (g v)) \<Longrightarrow> json_finite (enc_ptr g p)"
  by (cases p) (simp_all add: enc_ptr_def)

lemma runtime_json_finite:
  assumes "runtime_storable r"
  shows "json_finite (runtime_json r)"
proof -
  have ints: "json_finite (enc_int_ptr p)" for p by (cases p) (simp_all add: enc_int_ptr_def)
  have "json_finite (enc_map state_json (rt_Accounts r))"
    using assms by (intro enc_map_finite state_json_finite) (auto simp: runtime_storable_def list_all_iff)
  moreover have "json_finite (plan_json p)" "json_finite (action_json a)" for p a
    by (auto simp: plan_json_def action_json_def list_all_iff intro!: enc_map_finite)
  ultimately show ?thesis
    by (auto simp: runtime_json_def ints intro!: enc_ptr_finite)
qed

lemma runtime_persisted:
  assumes "runtime_storable r"
  shows "\<exists>raw. json_marshal (runtime_json r) = Inr raw \<and> ReadFailoverState (Inr (Some raw)) = Inr (r, True)"
proof -
  obtain m where m: "json_norm (runtime_json r) = AObject m" by (simp add: runtime_json_def)
  have "json_marshal (runtime_json r) = Inr (Some (AObject m))"
    using runtime_json_finite [OF assms] m by (simp add: json_marshal_def)
  moreover have "ReadFailoverState (Inr (Some (Some (AObject m)))) = Inr (r, True)"
    using assms by (auto simp: ReadFailoverState_def runtime_of_norm [OF assms m] normalize_runtime_def
        runtime_storable_def)
  ultimately show ?thesis by blast
qed

text \<open>
  The controller state survives persistence: encoding a state of version 1 with a valid mode,
  64-bit integers and machine floats succeeds, and \<open>ReadRuntimeState\<close> returns exactly that state from
  the stored document.
\<close>

theorem runtime_state_roundtrip:
  assumes "runtime_storable r"
  shows "\<exists>raw. json_marshal (runtime_json r) = Inr raw \<and> ReadFailoverState (Inr (Some raw)) = Inr (r, True)"
  using assms by (rule runtime_persisted)

section \<open>The provider\<close>

definition provided :: "runtime_state \<Rightarrow> bool \<Rightarrow> int \<Rightarrow> int \<Rightarrow> account \<Rightarrow> account_state \<Rightarrow> bool" where
  "provided persisted found now staleAfter account s \<longleftrightarrow>
     s = unavailableAccountState (ac_ID account) ''quota_unavailable'' \<or>
     (\<exists>p. found \<and> rt_LastError persisted = [] \<and> map_of (rt_Accounts persisted) (ac_ID account) = Some p \<and>
        validateAccountState (p\<lparr>as_Account := ac_ID account\<rparr>) = None \<and>
        s = age_guard account now staleAfter (p\<lparr>as_Account := ac_ID account\<rparr>))"

lemma provide_states_mem:
  assumes "provide_states accounts persisted found now staleAfter m0 = Inr m" "map_of m a = Some s"
  shows "(\<exists>account \<in> set accounts. ac_ID account = a \<and> provided persisted found now staleAfter account s) \<or>
     map_of m0 a = Some s"
  using assms
proof (induction accounts arbitrary: m0)
  case (Cons account accounts)
  from Cons.prems(1) obtain x where
    rest: "provide_states accounts persisted found now staleAfter (mput (ac_ID account) x m0) = Inr m"
    and x: "provided persisted found now staleAfter account x"
    by (auto simp: provided_def Let_def split: option.splits if_splits)
  from Cons.IH [OF rest Cons.prems(2)] x show ?case by (auto split: if_splits)
qed simp

text \<open>
  The provider adds no capacity. If \<open>AccountStates\<close> reports an account eligible, then the account
  is in the catalog and enabled, a readable controller state of the supported version without an
  error was stored, that state marks the account eligible with a finite non-negative headroom, and
  its observation is positive, at most 30 seconds ahead of the clock and not older than the
  configured limit. In every other case the account is reported ineligible.
\<close>

theorem provider_adds_no_capacity:
  assumes "AccountStates (Inr accounts) (Inr settings) stored now = Inr m"
    "map_of m a = Some s" "as_Eligible s"
  shows "\<exists>account \<in> set accounts. \<exists>persisted p. ac_ID account = a \<and> ac_GroupEnabled account \<and>
    ReadFailoverState stored = Inr (persisted, True) \<and> rt_LastError persisted = [] \<and>
    map_of (rt_Accounts persisted) a = Some p \<and> as_Eligible p \<and>
    finite64 (as_Headroom p) \<and> \<not> f_lt (as_Headroom p) (Fin 0) \<and>
    0 < as_ObservedAt p \<and> as_ObservedAt p \<le> add64 (unix_of now) 30 \<and>
    sub64 (unix_of now) (as_ObservedAt p) \<le>
      seconds_of (durationSetting (mget ANil settings ''account_failover.stale_after_seconds'')
        defaultAccountStateStaleAfter)"
proof -
  let ?stale = "durationSetting (mget ANil settings ''account_failover.stale_after_seconds'')
    defaultAccountStateStaleAfter"
  obtain persisted found where read: "ReadFailoverState stored = Inr (persisted, found)"
    and states: "provide_states accounts persisted found (unix_of now) ?stale [] = Inr m"
    using assms(1) by (auto simp: AccountStates_def split: sum.splits)
  obtain account where account: "account \<in> set accounts" "ac_ID account = a"
      "provided persisted found (unix_of now) ?stale account s"
    using provide_states_mem [OF states assms(2)] by auto
  then obtain p where p: "found" "rt_LastError persisted = []"
      "map_of (rt_Accounts persisted) a = Some p"
      "validateAccountState (p\<lparr>as_Account := a\<rparr>) = None"
      "s = age_guard account (unix_of now) ?stale (p\<lparr>as_Account := a\<rparr>)"
    using assms(3) by (auto simp: provided_def unavailableAccountState_def zero_account_state_def)
  have "ac_GroupEnabled account" "as_Eligible p" "0 < as_ObservedAt p"
    "as_ObservedAt p \<le> add64 (unix_of now) 30" "sub64 (unix_of now) (as_ObservedAt p) \<le> seconds_of ?stale"
    using p(5) assms(3) by (auto simp: age_guard_def split: if_splits)
  moreover have "finite64 (as_Headroom p)" "\<not> f_lt (as_Headroom p) (Fin 0)"
    using p(4) by (auto simp: validateAccountState_def split: if_splits)
  moreover have "ReadFailoverState stored = Inr (persisted, True)" using read p(1) by simp
  ultimately show ?thesis using account(1,2) p(2,3) by blast
qed

section \<open>Examples\<close>

definition ex_window :: weekly_window where
  "ex_window = \<lparr>ww_Key = ''default:secondary_window'', ww_Label = [], ww_MeteredFeature = None,
     ww_WindowSlot = ''secondary_window'', ww_UsedPercent = Fin 20, ww_RemainingPercent = Fin 80,
     ww_ReportedUsedPercent = Fin 20, ww_ResetAt = Some 9000, ww_ResetAfterSeconds = None,
     ww_WindowSeconds = 604800, ww_LimitReached = False, ww_Resettable = False\<rparr>"

definition ex_quota :: account_quota where
  "ex_quota = (unavailableAccount ''a1'' ''ok'')\<lparr>aq_Weekly := Some ex_window, aq_WeeklyWindows := [ex_window]\<rparr>"

definition ex_snapshot :: snapshot where
  "ex_snapshot = \<lparr>sn_GeneratedAt = 1000, sn_CacheTTLSeconds = 60, sn_Cached = False,
     sn_Refreshing = False, sn_Accounts = [ex_quota]\<rparr>"

definition ex_account :: account where
  "ex_account = \<lparr>ac_ID = ''a1'', ac_Email = [], ac_Port = 1, ac_ProxyMode = ''inherit'',
     ac_CreatedAt = 1, ac_GroupEnabled = True, ac_DefaultGroup = True\<rparr>"

definition ex_capacity :: account_state where
  "ex_capacity = \<lparr>as_Account = ''a1'', as_Eligible = True, as_Exhausted = False, as_Reason = ''available'',
     as_UsedPercent = Some (Fin 20), as_RemainingPercent = Some (Fin 80), as_Headroom = Fin 75,
     as_ResetAt = 9000, as_ObservedAt = 1000\<rparr>"

lemmas ex_capacity_defs = ex_window_def ex_quota_def ex_snapshot_def ex_account_def ex_capacity_def
  unavailableAccount_def

lemma ex_build:
  "map_of (BuildAccountStates [ex_account] ex_snapshot [(''a1'', True)] (1010 * second) (60 * second) (Fin 5))
     ''a1'' = Some ex_capacity"
  by (simp add: ex_capacity_defs BuildAccountStates_def Let_def quota_map_def capacity_of_def
      snapshot_fresh_def stale_after_or_default_def reserve_or_default_def defaultWeeklyWindow_def
      default_key_def has_prefix_def quota_exhausted_def headroom_of_def capacity_reason_def f_max_def
      f_sub_def round64_numeral unix_of_def second_def seconds_of_def go_div_def in64_def mget_def)

lemma ex_quota_ok: "quota_ok ex_quota"
proof -
  have "round64 20 = hundredth 2000" "round64 80 = hundredth 8000"
    by (simp_all add: hundredth_def)
  then have "Fin 20 = hundredth 2000" "Fin 80 = hundredth 8000"
    by (simp_all add: round64_numeral)
  then show ?thesis
    by (auto simp: quota_ok_def ex_capacity_defs window_ok_def WeeklyWindowSeconds_def
        intro!: bexI [of _ 2000])
qed

theorem eligible_capacity_is_real_witness:
  "\<exists>account \<in> set [ex_account]. ac_ID account = ''a1'' \<and> ac_GroupEnabled account \<and>
    mget False [(''a1'', True)] ''a1''"
  using eligible_capacity_is_real [OF ex_build] by (simp add: ex_capacity_def)

theorem built_states_are_valid_witness:
  "validateAccountState ex_capacity = None \<and>
    least_used_usable (BuildAccountStates [ex_account] ex_snapshot [(''a1'', True)] (1010 * second)
      (60 * second) (Fin 5)) ''a1''"
proof -
  have "trim_space ''a1'' = ''a1''" by code_simp
  then show ?thesis
    using built_states_are_valid [OF _ ex_build] ex_quota_ok
    by (simp add: ex_snapshot_def) (simp add: ex_capacity_def)
qed

definition ex_runtime :: runtime_state where
  "ex_runtime = DefaultRuntimeState\<lparr>rt_Mode := ModeActive, rt_HeartbeatAt := Some 1005,
     rt_Accounts := [(''a1'', ex_capacity)]\<rparr>"

lemma ex_runtime_storable: "runtime_storable ex_runtime"
  by (simp add: runtime_storable_def ex_runtime_def DefaultRuntimeState_def state_storable_def
      ex_capacity_def f64_value_def round64_numeral in64_def)

theorem runtime_state_roundtrip_witness:
  "\<exists>raw. json_marshal (runtime_json ex_runtime) = Inr raw \<and> ReadFailoverState (Inr (Some raw)) = Inr (ex_runtime, True)"
  by (rule runtime_state_roundtrip [OF ex_runtime_storable])

lemma ex_provider:
  assumes "ReadFailoverState stored = Inr (ex_runtime, True)"
  shows "\<exists>m. AccountStates (Inr [ex_account]) (Inr []) stored (1010 * second) = Inr m \<and>
    map_of m ''a1'' = Some ex_capacity"
  using assms
  by (simp add: AccountStates_def ex_runtime_def DefaultRuntimeState_def ex_account_def Let_def
      ex_capacity_def validateAccountState_def pct_invalid_def age_guard_def unix_of_def second_def
      durationSetting_def setting_number_def defaultAccountStateStaleAfter_def seconds_of_def
      go_div_def in64_def)

theorem provider_adds_no_capacity_witness:
  "\<exists>stored. \<exists>account \<in> set [ex_account]. \<exists>persisted p. ac_ID account = ''a1'' \<and>
     ReadFailoverState stored = Inr (persisted, True) \<and>
     map_of (rt_Accounts persisted) ''a1'' = Some p \<and> as_Eligible p"
proof -
  obtain raw where "ReadFailoverState (Inr (Some raw)) = Inr (ex_runtime, True)"
    using runtime_persisted [OF ex_runtime_storable] by blast
  then obtain m where m: "AccountStates (Inr [ex_account]) (Inr []) (Inr (Some raw)) (1010 * second) = Inr m"
    "map_of m ''a1'' = Some ex_capacity" using ex_provider by blast
  have "as_Eligible ex_capacity" by (simp add: ex_capacity_def)
  from provider_adds_no_capacity [OF m this] show ?thesis by blast
qed

end
