(* ===== verification/Controller_Proofs.thy ===== *)
theory Controller_Proofs
  imports Failover_Controller Failover_Proofs Account_Proofs
begin

text \<open>
  The failover controller on the control-plane store: which routes a run can change, and what the
  persisted state says after it.
\<close>

section \<open>The control plane as the controller's store\<close>

definition store_controller :: "fence \<Rightarrow> (nat \<Rightarrow> env) \<Rightarrow> world controller_store" where
  "store_controller fence envs =
     \<lparr>cs_Routes = store_routes fence envs,
      cs_ReadAccounts = on_store envs (\<lambda>env d. (ReadAccounts env d, d)),
      cs_ReadSettings = on_store envs (\<lambda>env d. (ReadSettings env d, d)),
      cs_ReadRuntimeState = (\<lambda>name. on_store envs (\<lambda>env d. (ReadRuntimeState env name d, d))),
      cs_WriteRuntimeState = (\<lambda>name payload. on_store envs (\<lambda>env. WriteRuntimeState fence env name payload))\<rparr>"

definition on_control_plane :: "fence \<Rightarrow> (nat \<Rightarrow> env) \<Rightarrow> world controller \<Rightarrow> world controller" where
  "on_control_plane fence envs ct = ct\<lparr>ct_Store := Some (store_controller fence envs)\<rparr>"

text \<open>The other dependencies: the probe does not touch the store, the rest leaves the routes alone.\<close>

definition harmless :: "world controller \<Rightarrow> bool" where
  "harmless ct \<longleftrightarrow>
     (\<forall>probe. ct_Probe ct = Some probe \<longrightarrow> (\<forall>accounts w. wd_db (snd (probe accounts w)) = wd_db w)) \<and>
     (\<forall>publish. ct_Snapshots ct = Some publish \<longrightarrow> quiet world_route publish) \<and>
     (\<forall>act. ct_Activity ct = Some act \<longrightarrow> quiet world_route (refresh_activity act)) \<and>
     (\<forall>set_window window. ct_SetActiveUserWindow ct = Some set_window \<longrightarrow>
        quiet world_route (refresh_activity (set_window window))) \<and>
     (\<forall>rec action target result. ct_Audit ct = Some rec \<longrightarrow> quiet world_route (rec action target result))"

lemma on_store_read:
  "on_store envs (\<lambda>env d. (f env d, d)) w = (r, w') \<Longrightarrow>
     r = f (envs (wd_tick w)) (wd_db w) \<and> wd_db w' = wd_db w"
  by (auto simp: on_store_def)

lemma WriteRuntimeState_routes:
  "WriteRuntimeState fence env name payload d = (r, d') \<Longrightarrow> db_user_routes d' = db_user_routes d"
proof (cases r)
  case (Inl e)
  assume "WriteRuntimeState fence env name payload d = (r, d')"
  with Inl show ?thesis by (auto simp: WriteRuntimeState_def split: sum.splits dest: writeTransaction_Inl)
next
  case (Inr u)
  assume "WriteRuntimeState fence env name payload d = (r, d')"
  with Inr show ?thesis
    by (auto simp: WriteRuntimeState_def attempt_Inr_iff split: sum.splits dest!: writeTransaction_Inr(2))
qed

lemma writeState_routes:
  assumes "writeState (store_controller fence envs) state w = (r, w')"
  shows "world_route w' = world_route w"
proof -
  obtain x w1 where x: "on_store envs (\<lambda>env. WriteRuntimeState fence env RuntimeStateName
      (runtime_json (written_state state))) w = (x, w1)" by fastforce
  from x have "world_route w1 = world_route w"
    by (auto simp: world_route_def fun_eq_iff elim!: on_store_eq dest!: WriteRuntimeState_routes)
  with x assms show ?thesis by (auto simp: writeState_def store_controller_def split: sum.splits)
qed

lemma record_error_routes:
  assumes "record_error (store_controller fence envs) state now poll e w = (r, w')"
  shows "world_route w' = world_route w"
  using assms by (auto simp: record_error_def split: prod.splits option.splits dest: writeState_routes)

lemma audit_routes:
  assumes "harmless ct" "audit_warning (on_control_plane fence envs ct) action target result w = (r, w')"
  shows "world_route w' = world_route w"
proof (cases "ct_Audit ct")
  case (Some rec)
  then have "quiet world_route (rec action target result)" using assms(1) by (auto simp: harmless_def)
  with Some assms(2) show ?thesis
    by (auto simp: audit_warning_def on_control_plane_def split: prod.splits sum.splits dest: quietD)
qed (use assms in \<open>simp add: audit_warning_def on_control_plane_def\<close>)

lemma conclude_routes:
  assumes "harmless ct"
    "conclude (on_control_plane fence envs ct) (store_controller fence envs) cf previous state result (evacuation, ee) w = (r, w')"
  shows "world_route w' = world_route w"
  using assms(2) unfolding conclude_def Let_def
  by (auto split: prod.splits if_splits dest!: writeState_routes record_error_routes audit_routes [OF assms(1)])

section \<open>What an evacuation moves\<close>

text \<open>A move from an exhausted account to one that is eligible with positive headroom.\<close>

definition safe_move :: "account_state gomap \<Rightarrow> string \<Rightarrow> string \<Rightarrow> bool" where
  "safe_move states a t \<longleftrightarrow>
     list_ex (\<lambda>(x, s). x = a \<and> as_Exhausted s) states \<and>
     list_ex (\<lambda>(x, s). x = t \<and> as_Eligible s \<and> f_lt (Fin 0) (as_Headroom s)) states \<and>
     \<not> list_ex (\<lambda>(x, s). x = t \<and> as_Exhausted s) states"

lemma exhausted_mem: "a \<in> set (exhausted_accounts states) \<longleftrightarrow> list_ex (\<lambda>(x, s). x = a \<and> as_Exhausted s) states"
  by (force simp: exhausted_accounts_def list_ex_iff)

lemma read_routes: "Inr routes = ReadRoutes env d \<Longrightarrow> routes = db_user_routes d"
  by (auto simp: ReadRoutes_def attempt_def split: option.splits)

lemma collect_on_store:
  assumes "collect_inputs (store_routes fence envs) (\<lambda>w. (Inr states, w)) w = (r, w')"
  shows "wd_db w' = wd_db w"
    "r = Inr (routes, records, states') \<Longrightarrow> routes = db_user_routes (wd_db w) \<and> states' = states"
  using assms unfolding collect_inputs_def store_routes_def
  by (auto split: prod.splits sum.splits dest!: on_store_read read_routes)

lemma evacuation_moves:
  assumes "leaves_routes act publish" "tidy_inputs (db_user_routes (wd_db w)) states"
    "EvacuateExhausted (store_service fence envs (\<lambda>w. (Inr states, w)) act publish) w = (r, w')"
    "world_route w' u \<noteq> world_route w u"
  shows "safe_move states (world_route w u) (world_route w' u)"
proof -
  obtain c w1 where c: "collect_inputs (store_routes fence envs) (\<lambda>w. (Inr states, w)) w = (c, w1)" by fastforce
  have same: "world_route w1 = world_route w"
    using collect_on_store(1) [OF c] by (simp add: world_route_def fun_eq_iff)
  show ?thesis
  proof (cases c)
    case (Inl e)
    with c same assms(3,4) show ?thesis by (auto simp: EvacuateExhausted_def evacuate_def store_service_def)
  next
    case (Inr v)
    then obtain records where v: "c = Inr (db_user_routes (wd_db w), records, states)"
      using collect_on_store(2) [OF c] by (cases v) auto
    define P where "P = PlanEvacuation (db_user_routes (wd_db w)) (activeUsersFromRecords records)
        (routableUsers records states) states None"
    have clean: "clean_plan (pl_Assignments P) (pl_ExpectedRoutes P)"
      unfolding P_def by (rule evacuation_clean [OF assms(2)])
    have "w' = w1 \<or> (\<exists>applied err. applyPlan (store_routes fence envs) act publish P w1 = ((applied, err), w'))"
      using c v assms(3)
      by (auto simp: EvacuateExhausted_def evacuate_def store_service_def Let_def P_def [symmetric]
          split: if_splits prod.splits)
    then have "world_route w' = (\<lambda>x. if x \<in> fst ` set (pl_Assignments P) then mget [] (pl_Assignments P) x
        else world_route w x)"
      using applied_routes(3) [OF assms(1) clean] assms(4) same by fastforce
    with assms(4) obtain t where t: "map_of (pl_Assignments P) u = Some t" "world_route w' u = t"
      by (auto simp: mget_def split: if_splits option.splits dest: map_of_eq_None_iff [THEN iffD1])
    have wf: "wf_map (db_user_routes (wd_db w))" using assms(2) by (simp add: tidy_inputs_def)
    from evacuation_sound_aux [OF wf t(1) [unfolded P_def]] obtain a s where
      "map_of (db_user_routes (wd_db w)) u = Some a" "a \<in> set (exhausted_accounts states)"
      "(t, s) \<in> set states" "as_Eligible s" "f_lt (Fin 0) (as_Headroom s)" "t \<notin> set (exhausted_accounts states)"
      by (auto simp: evac_sources_def)
    then show ?thesis
      unfolding safe_move_def exhausted_mem t(2)
      by (auto simp: world_route_def mget_def list_ex_iff)
  qed
qed
section \<open>One run\<close>

text \<open>A store whose identifiers have no surrounding spaces.\<close>

definition tidy_db :: "db \<Rightarrow> bool" where
  "tidy_db d \<longleftrightarrow> wf_map (db_user_routes d) \<and> (\<forall>(u, a) \<in> set (db_user_routes d). trim_space a = a) \<and>
     (\<forall>row \<in> set (db_accounts d). trim_space (ar_id row) = ar_id row \<and> ar_id row \<noteq> [])"

lemma wf_foldl_mput: "wf_map m0 \<Longrightarrow> wf_map (foldl (\<lambda>m x. mput (k x) (f x) m) m0 xs)"
  by (induction xs arbitrary: m0) auto

lemma BuildAccountStates_wf: "wf_map (BuildAccountStates accounts snap running now stale reserve)"
  by (simp add: BuildAccountStates_def Let_def wf_foldl_mput)

lemma built_tidy:
  assumes "tidy_db d" "ReadAccounts env d = Inr accounts"
  shows "tidy_inputs (db_user_routes d) (BuildAccountStates accounts snap running now stale reserve)"
proof -
  have "trim_space a = a \<and> a \<noteq> []" if "(a, s) \<in> set (BuildAccountStates accounts snap running now stale reserve)" for a s
  proof -
    have "map_of (BuildAccountStates accounts snap running now stale reserve) a = Some s"
      using that BuildAccountStates_wf by simp
    then obtain account where "account \<in> set accounts" "ac_ID account = a"
      using BuildAccountStates_mem by (fastforce simp: built_from_def)
    with assms show ?thesis
      by (auto simp: ReadAccounts_def attempt_Inr_iff tidy_db_def account_of_row_def)
  qed
  then show ?thesis using assms(1) BuildAccountStates_wf by (auto simp: tidy_inputs_def tidy_db_def)
qed

lemma check_accounts_moves:
  assumes "tidy_db (wd_db w)" "harmless ct"
    "check_accounts (on_control_plane fence envs ct) (store_controller fence envs) cf quotaRead state result w = (r, w')"
    "world_route w' u \<noteq> world_route w u"
  shows "\<exists>q accounts running env. quotaRead = Inr (q, True) \<and> QuotaHealthy q True (cf_now cf) (cf_stale cf) \<and>
    ReadAccounts env (wd_db w) = Inr accounts \<and>
    safe_move (BuildAccountStates accounts (qm_Snapshot q) running (cf_now cf) (cf_stale cf) (cf_reserve cf))
      (world_route w u) (world_route w' u)"
proof -
  let ?store = "store_controller fence envs" and ?ct = "on_control_plane fence envs ct"
  define states where "states q accounts running =
    BuildAccountStates accounts (qm_Snapshot q) running (cf_now cf) (cf_stale cf) (cf_reserve cf)" for q :: quota_runtime and accounts running
  have moved: "world_route w' \<noteq> world_route w0" if "wd_db w0 = wd_db w" for w0
    using assms(4) that by (auto simp: world_route_def fun_eq_iff)
  have stay: False if "record_error ?store st n poll e w0 = (x, w')" "wd_db w0 = wd_db w" for st n poll e w0 x
    using record_error_routes [OF that(1)] moved [OF that(2)] by simp
  note unfolded = assms(3) [unfolded check_accounts_def Let_def]
  obtain probe act publish where deps: "ct_Probe ct = Some probe" "ct_Activity ct = Some act" "ct_Snapshots ct = Some publish"
    using unfolded by (auto simp: on_control_plane_def split: option.splits prod.splits dest: stay)
  then have deps': "ct_Probe ?ct = Some probe" "ct_Activity ?ct = Some act" "ct_Snapshots ?ct = Some publish"
    by (simp_all add: on_control_plane_def)
  obtain q found where q: "quotaRead = Inr (q, found)"
    using unfolded deps' by (cases quotaRead) (auto split: prod.splits dest: stay)
  obtain x w1 where read: "cs_ReadAccounts ?store w = (x, w1)" by fastforce
  then have x: "x = ReadAccounts (envs (wd_tick w)) (wd_db w)" "wd_db w1 = wd_db w"
    by (auto simp: store_controller_def dest: on_store_read)
  obtain accounts where accounts: "x = Inr accounts"
    using unfolded deps' q read x(2) by (cases x) (auto split: prod.splits dest: stay)
  obtain y w2 where probed: "probe accounts w1 = (y, w2)" by fastforce
  then have w2: "wd_db w2 = wd_db w"
    using assms(2) deps(1) x(2) unfolding harmless_def by (metis snd_conv)
  obtain running where running: "y = Inr running"
    using unfolded deps' q read accounts probed w2 by (cases y) (auto split: prod.splits dest: stay)
  have healthy: "QuotaHealthy q found (cf_now cf) (cf_stale cf)"
    using unfolded deps' q read accounts probed running w2 by (auto split: prod.splits if_splits dest: stay)
  then have found: "found = True" by (simp add: QuotaHealthy_def split: if_splits)
  obtain act' w3 where window: "windowed_activity ?ct ?store act w2 = (act', w3)" by fastforce
  then have w3: "wd_db w3 = wd_db w" and quiet: "quiet world_route (refresh_activity act')"
    using assms(2) deps(2) w2
    by (auto simp: windowed_activity_def on_control_plane_def store_controller_def harmless_def
        split: option.splits prod.splits sum.splits dest!: on_store_read)
  then have leaves: "leaves_routes act' publish"
    using assms(2) deps(3) by (auto simp: leaves_routes_def harmless_def)
  obtain evacuated w4 where evac: "EvacuateExhausted (store_service fence envs
      (\<lambda>w. (Inr (states q accounts running), w)) act' publish) w3 = (evacuated, w4)" by fastforce
  have "world_route w' = world_route w4"
    using unfolded deps' q read accounts probed running healthy window evac
    by (cases evacuated)
      (auto simp: store_service_def store_controller_def states_def split: prod.splits
        dest!: conclude_routes [OF assms(2), unfolded store_controller_def])
  moreover have "world_route w3 = world_route w" using w3 by (simp add: world_route_def fun_eq_iff)
  moreover have "tidy_inputs (db_user_routes (wd_db w3)) (states q accounts running)"
    unfolding states_def w3 using built_tidy [OF assms(1)] x(1) accounts by metis
  ultimately have "safe_move (states q accounts running) (world_route w u) (world_route w' u)"
    using evacuation_moves [OF leaves _ evac, of u] assms(4) by simp
  then show ?thesis
    using q found healthy x(1) accounts unfolding states_def by metis
qed

lemma modeSetting_mode: "modeSetting v = ModeOff \<or> modeSetting v = ModeActive"
  by (auto simp: modeSetting_def ParseMode_def Let_def split: goany.splits sum.splits if_splits)

text \<open>
  C5: the controller moves users only when it may, and only to real capacity. For a run on the
  control-plane store, forced or not, whatever fails on the way (reads, probe, planning, applying,
  publishing, rolling back, auditing, writing the state): if the route of a user is different after the
  run, then the settings select the active mode, the persisted quota state is the current version,
  without error and within the staleness limit, and in the account states built from it for the
  accounts of the catalog the old route is an exhausted account and the new one an eligible account
  with positive headroom that is not exhausted.
\<close>

theorem controller_moves_are_safe:
  assumes "tidy_db (wd_db w)" "harmless ct"
    "controller_run (on_control_plane fence envs ct) force now w = ((res, err), w')"
    "world_route w' u \<noteq> world_route w u"
  shows "\<exists>settings q accounts running env env'. ReadSettings env (wd_db w) = Inr settings \<and>
    modeSetting (mget ANil settings ''account_failover.mode'') = ModeActive \<and>
    ReadQuotaState (Inr (map_of (db_runtime_state (wd_db w)) QuotaStateName)) = Inr (q, True) \<and>
    QuotaHealthy q True now (cf_stale (config_of settings now force)) \<and>
    ReadAccounts env' (wd_db w) = Inr accounts \<and>
    safe_move (BuildAccountStates accounts (qm_Snapshot q) running now
        (cf_stale (config_of settings now force)) (cf_reserve (config_of settings now force)))
      (world_route w u) (world_route w' u)"
proof -
  let ?store = "store_controller fence envs" and ?ct = "on_control_plane fence envs ct"
  have moved: "world_route w' \<noteq> world_route w0" if "wd_db w0 = wd_db w" for w0
    using assms(4) that by (auto simp: world_route_def fun_eq_iff)
  have wrote: False if "writeState ?store st w0 = (x, w')" "wd_db w0 = wd_db w" for st w0 x
    using writeState_routes [OF that(1)] moved [OF that(2)] by simp
  have ct: "ct_Store ?ct = Some ?store" by (simp add: on_control_plane_def)
  note run = assms(3) [unfolded controller_run_def Let_def]
  obtain x w1 where read: "cs_ReadSettings ?store w = (x, w1)" by fastforce
  then have x: "x = ReadSettings (envs (wd_tick w)) (wd_db w)" "wd_db w1 = wd_db w"
    by (auto simp: store_controller_def dest: on_store_read)
  obtain settings where settings: "x = Inr settings"
    using run ct read moved [OF x(2)] by (cases x) auto
  define cf where "cf = config_of settings now force"
  obtain stored w2 where stored: "cs_ReadRuntimeState ?store RuntimeStateName w1 = (stored, w2)" by fastforce
  then have w2: "wd_db w2 = wd_db w" using x(2) by (auto simp: store_controller_def dest: on_store_read)
  obtain previous found where previous: "ReadFailoverState stored = Inr (previous, found)"
    using run ct read settings stored moved [OF w2] by (cases "ReadFailoverState stored") auto
  have active: "cf_mode cf \<noteq> ModeOff"
    using run ct read settings stored previous moved [OF w2] w2
    by (auto simp: cf_def split: if_splits prod.splits dest: wrote)
  obtain qs w3 where qs: "cs_ReadRuntimeState ?store QuotaStateName w2 = (qs, w3)" by fastforce
  then have w3: "qs = ReadRuntimeState (envs (wd_tick w2)) QuotaStateName (wd_db w)" "wd_db w3 = wd_db w"
    using w2 by (auto simp: store_controller_def dest: on_store_read)
  obtain state result where "check_accounts ?ct ?store cf (ReadQuotaState qs) state result w3 = ((res, err), w')"
    using run ct read settings stored previous active qs moved [OF w3(2)] w3(2)
    by (auto simp: cf_def split: if_splits prod.splits dest: wrote)
  moreover have "world_route w3 u \<noteq> world_route w' u"
    using assms(4) w3(2) by (simp add: world_route_def)
  ultimately obtain q accounts running env where found: "ReadQuotaState qs = Inr (q, True)"
    "QuotaHealthy q True (cf_now cf) (cf_stale cf)" "ReadAccounts env (wd_db w) = Inr accounts"
    "safe_move (BuildAccountStates accounts (qm_Snapshot q) running (cf_now cf) (cf_stale cf) (cf_reserve cf))
       (world_route w3 u) (world_route w' u)"
    using check_accounts_moves [of w3 ct fence envs cf "ReadQuotaState qs" state result "(res, err)" w' u] assms(1,2) w3(2)
    by (metis (no_types, lifting))
  have "qs = Inr (map_of (db_runtime_state (wd_db w)) QuotaStateName)"
    using found(1) w3(1) by (cases qs) (auto simp: ReadQuotaState_def ReadRuntimeState_def attempt_def split: option.splits)
  moreover have "cf_mode cf = ModeActive" "cf_now cf = now"
    using active modeSetting_mode by (auto simp: cf_def config_of_def)
  moreover have "world_route w3 u = world_route w u" using w3(2) by (simp add: world_route_def)
  ultimately show ?thesis
    using x(1) settings found unfolding cf_def
    by (intro exI [of _ settings] exI [of _ q] exI [of _ accounts] exI [of _ running]
        exI [of _ "envs (wd_tick w)"] exI [of _ env]) (simp add: config_of_def)
qed

section \<open>What the persisted state says\<close>

definition write_failed :: "gerr \<Rightarrow> bool" where
  "write_failed e \<longleftrightarrow> (\<exists>c. e = wrapf ''write account failover runtime state: '' c \<or>
     (\<exists>r. e = ErrJoin [r, wrapf ''write account failover runtime state: '' c]))"

definition stored_state :: "world \<Rightarrow> runtime_state \<Rightarrow> bool" where
  "stored_state w s \<longleftrightarrow>
     map_of (db_runtime_state (wd_db w)) RuntimeStateName = Some (Some (json_norm (runtime_json s)))"

text \<open>The state says at \<open>now\<close> what the result of the run was.\<close>

definition tells :: "runtime_state \<Rightarrow> gerr option \<Rightarrow> int \<Rightarrow> bool" where
  "tells s err now \<longleftrightarrow> rt_Version s = RuntimeStateVersion \<and> rt_Mode s = ModeActive \<and> rt_HeartbeatAt s = Some now \<and>
     rt_LastError s = boundedControllerError err 500 \<and> (err = None \<longrightarrow> rt_LastSuccessAt s = Some now)"

definition recorded :: "gerr option \<Rightarrow> int \<Rightarrow> world \<Rightarrow> bool" where
  "recorded err now w \<longleftrightarrow> (case err of None \<Rightarrow> False | Some e \<Rightarrow> write_failed e) \<or> (\<exists>s. stored_state w s \<and> tells s err now)"

lemma writeState_row:
  assumes "writeState (store_controller fence envs) s w = (None, w')"
  shows "stored_state w' (written_state s)"
proof -
  from assms obtain u where "on_store envs (\<lambda>env. WriteRuntimeState fence env RuntimeStateName
      (runtime_json (written_state s))) w = (Inr u, w')"
    by (auto simp: writeState_def store_controller_def split: prod.splits sum.splits)
  then have "WriteRuntimeState fence (envs (wd_tick w)) RuntimeStateName (runtime_json (written_state s)) (wd_db w) =
      (Inr u, wd_db w')"
    by (auto elim!: on_store_eq)
  then show ?thesis
    by (auto simp: stored_state_def WriteRuntimeState_def json_marshal_def attempt_Inr_iff split: if_splits
        dest!: writeTransaction_Inr(2))
qed

lemma writeState_failed: "writeState store s w = (Some e, w') \<Longrightarrow> write_failed e"
  by (auto simp: writeState_def write_failed_def split: prod.splits sum.splits)

lemma written_active:
  "rt_Mode s = ModeActive \<Longrightarrow> written_state s = s\<lparr>rt_Version := RuntimeStateVersion\<rparr>"
  by (simp add: written_state_def normalize_runtime_def)

lemma writeState_recorded:
  assumes "writeState (store_controller fence envs) s w = (e, w')" "rt_Mode s = ModeActive" "rt_HeartbeatAt s = Some now"
    "rt_LastError s = []" "rt_LastSuccessAt s = Some now"
  shows "recorded e now w'"
proof (cases e)
  case None
  with assms writeState_row [of fence envs s w w'] show ?thesis
    by (auto simp: recorded_def tells_def written_active boundedControllerError_def)
qed (use assms(1) writeState_failed in \<open>auto simp: recorded_def\<close>)

lemma record_error_recorded:
  assumes "record_error (store_controller fence envs) s now poll e w = (err, w')" "rt_Mode s = ModeActive"
  shows "recorded err now w'"
proof (cases "writeState (store_controller fence envs) (error_state s now poll e) w")
  case (Pair f w1)
  show ?thesis
  proof (cases f)
    case None
    with Pair assms writeState_row [of fence envs "error_state s now poll e" w w'] show ?thesis
      by (auto simp: record_error_def recorded_def tells_def written_active error_state_def)
  next
    case (Some g)
    with Pair assms writeState_failed [of _ _ _ g] have "err = Some (ErrJoin [e, g])" "write_failed g"
      by (auto simp: record_error_def errors_join_def List.map_filter_def)
    moreover obtain c where "g = wrapf ''write account failover runtime state: '' c"
      using Pair Some by (auto simp: writeState_def split: prod.splits sum.splits)
    ultimately show ?thesis by (auto simp: recorded_def write_failed_def)
  qed
qed

lemma conclude_recorded:
  assumes "conclude ct (store_controller fence envs) cf previous state result evacuated w = ((res, err), w')"
    "rt_Mode state = ModeActive" "rt_HeartbeatAt state = Some (unix_of (cf_now cf))"
  shows "recorded err (unix_of (cf_now cf)) w'"
  using assms unfolding conclude_def Let_def
  by (auto split: prod.splits if_splits elim!: record_error_recorded writeState_recorded)

lemma check_accounts_recorded:
  assumes "check_accounts ct (store_controller fence envs) cf quotaRead state result w = ((res, err), w')"
    "rt_Mode state = ModeActive" "rt_HeartbeatAt state = Some (unix_of (cf_now cf))"
  shows "recorded err (unix_of (cf_now cf)) w'"
  using assms unfolding check_accounts_def Let_def
  by (auto split: prod.splits if_splits option.splits sum.splits elim!: record_error_recorded conclude_recorded)

lemma bounded_nonempty: "s \<noteq> [] \<Longrightarrow> 0 < n \<Longrightarrow> bounded_runes n s \<noteq> []"
  by (cases s; cases n) (auto simp: bounded_runes_def Let_def replacement_def)

lemma seconds_nonneg: "0 \<le> d \<Longrightarrow> 0 \<le> seconds_of d"
  by (simp add: seconds_of_nonneg second_def)

lemma told_health:
  assumes "tells s err (unix_of now)" "0 < unix_of now" "0 < maxAge"
  shows "err = None \<Longrightarrow> HealthyRuntimeState s True now maxAge"
    "err = Some e \<Longrightarrow> err_text e \<noteq> [] \<Longrightarrow> \<not> HealthyRuntimeState s True now maxAge"
  using assms bounded_nonempty [of "err_text e" 500] seconds_nonneg [of maxAge]
  by (auto simp: tells_def HealthyRuntimeState_def boundedControllerError_def Let_def sub64_def wrap64_def)

text \<open>
  C29: the persisted state tells the outcome of a run. When a run in the active mode has checked the
  accounts or returns an error, then either the error says that the state could not be written, or the
  stored row is a state of the current version in the active mode with a heartbeat at the time of the
  run whose \<open>last_error\<close> is the bounded text of the returned error; from that state the health check
  reports the worker healthy at that moment exactly when the run returned no error (with a text).
\<close>

theorem active_run_is_recorded:
  assumes "controller_run (on_control_plane fence envs ct) force now w = ((res, err), w')"
    "rc_Mode res = ModeActive" "rc_Checked res \<or> err \<noteq> None" "0 < unix_of now" "0 < maxAge"
  shows "(\<exists>e. err = Some e \<and> write_failed e) \<or>
    (\<exists>s. map_of (db_runtime_state (wd_db w')) RuntimeStateName = Some (Some (json_norm (runtime_json s))) \<and>
       rt_Version s = RuntimeStateVersion \<and> rt_Mode s = ModeActive \<and> rt_HeartbeatAt s = Some (unix_of now) \<and>
       rt_LastError s = boundedControllerError err 500 \<and>
       (err = None \<longrightarrow> HealthyRuntimeState s True now maxAge) \<and>
       (\<forall>e. err = Some e \<longrightarrow> err_text e \<noteq> [] \<longrightarrow> \<not> HealthyRuntimeState s True now maxAge))"
proof -
  let ?store = "store_controller fence envs" and ?ct = "on_control_plane fence envs ct"
  have ct: "ct_Store ?ct = Some ?store" by (simp add: on_control_plane_def)
  note run = assms(1) [unfolded controller_run_def Let_def]
  obtain x w1 where read: "cs_ReadSettings ?store w = (x, w1)" by fastforce
  obtain settings where settings: "x = Inr settings"
    using run ct read assms(2) by (cases x) (auto simp: zero_controller_result_def)
  define cf where "cf = config_of settings now force"
  obtain stored w2 where stored: "cs_ReadRuntimeState ?store RuntimeStateName w1 = (stored, w2)" by fastforce
  obtain previous found where previous: "ReadFailoverState stored = Inr (previous, found)"
    using run ct read settings stored assms(2)
    by (cases "ReadFailoverState stored") (auto simp: zero_controller_result_def)
  have active: "cf_mode cf = ModeActive"
    using run ct read settings stored previous assms(2) modeSetting_mode [of "mget ANil settings ''account_failover.mode''"]
    by (auto simp: cf_def zero_controller_result_def config_of_def split: if_splits prod.splits)
  obtain qs w3 where qs: "cs_ReadRuntimeState ?store QuotaStateName w2 = (qs, w3)" by fastforce
  have "recorded err (unix_of now) w'"
  proof -
    have now: "cf_now cf = now" by (simp add: cf_def config_of_def)
    have written: "recorded (Some y) (unix_of now) w'" if "writeState ?store st w3 = (Some y, w')" for st y
      using writeState_failed [OF that] by (simp add: recorded_def)
    show ?thesis
      using run ct read settings stored previous active qs assms(3) now
        check_accounts_recorded [of ?ct fence envs cf "ReadQuotaState qs" _ _ w3 res err w']
      by (auto simp: cf_def zero_controller_result_def split: if_splits prod.splits dest: written)
  qed
  then show ?thesis
    using told_health [OF _ assms(4,5), of _ err] unfolding recorded_def stored_state_def
    by (auto simp: tells_def split: option.splits)
qed

section \<open>Examples\<close>

text \<open>Account \<open>a1\<close> is exhausted, \<open>a2\<close> has 80 percent left, and \<open>amy\<close> is routed to \<open>a1\<close>.\<close>

definition ex_official :: snapshot where
  "ex_official = ex_snapshot\<lparr>sn_Accounts :=
     [(unavailableAccount ''a1'' ''ok'')\<lparr>aq_LimitReached := Some True\<rparr>, ex_quota\<lparr>aq_Account := ''a2''\<rparr>]\<rparr>"

definition ex_official_state :: quota_runtime where
  "ex_official_state = \<lparr>qm_Version = 1, qm_HeartbeatAt = 1000, qm_LastSuccessAt = 1000, qm_LastError = [],
     qm_Snapshot = ex_official\<rparr>"

definition ex_official_db :: db where
  "ex_official_db = ex_routes_db\<lparr>db_runtime_state :=
     [(QuotaStateName, Some (json_norm (quota_runtime_json ex_official_state)))]\<rparr>"

definition ex_start :: world where "ex_start = \<lparr>wd_db = ex_official_db, wd_tick = 0\<rparr>"

definition ex_probe :: "account list \<Rightarrow> (world, bool gomap) oper" where
  "ex_probe accounts w = (Inr (map (\<lambda>a. (ac_ID a, True)) accounts), w)"

definition ex_controller :: "world controller" where
  "ex_controller = \<lparr>ct_Store = None, ct_Probe = Some ex_probe, ct_Activity = Some ex_activity,
     ct_SetActiveUserWindow = None, ct_Snapshots = Some ex_publish, ct_Audit = None\<rparr>"

lemma ex_harmless: "harmless ex_controller"
  using ex_leaves(1) by (simp add: harmless_def ex_controller_def ex_probe_def leaves_routes_def)

lemma ex_tidy_db: "tidy_db ex_official_db"
  unfolding tidy_db_def ex_official_db_def by code_simp

lemma ex_official_read:
  "ReadQuotaState (Inr (Some (Some (json_norm (quota_runtime_json ex_official_state))))) = Inr (ex_official_state, True)"
  by (simp add: ReadQuotaState_def ex_official_state_def quota_runtime_json_def quota_runtime_of_object_def
      snapshot_json_def snapshot_of_object_def ex_official_def ex_capacity_defs account_quota_json_def
      account_quota_of_object_def window_json_def window_of_object_def quotaStateVersion_def mget_def
      dec_int_def dec_string_def dec_bool_def dec_string_ptr_def dec_bool_ptr_def dec_int_ptr_def dec_ptr_def
      dec_list_def dec_struct_of_def dec_float_def dec_float_of_def enc_string_ptr_def enc_bool_ptr_def
      enc_int_ptr_def enc_ptr_def json_norm_float_def in64_def float_eval)

definition ex_accounts :: "account list" where
  "ex_accounts = map account_of_row (db_accounts ex_routes_db)"

definition ex_built :: "account_state gomap" where
  "ex_built = [(''a1'', zero_account_state\<lparr>as_Account := ''a1'', as_Exhausted := True, as_Reason := ''quota_exhausted'',
       as_ObservedAt := 1000\<rparr>),
     (''a2'', ex_capacity\<lparr>as_Account := ''a2''\<rparr>)]"

lemma ex_built: "BuildAccountStates ex_accounts ex_official [(''a1'', True), (''a2'', True)] (1010 * second) (120 * second) (Fin 5) = ex_built"
  by (simp add: ex_accounts_def ex_official_def ex_built_def ex_capacity_defs BuildAccountStates_def Let_def quota_map_def capacity_of_def
      ex_routes_db_def ex_account_row_def account_of_row_def zero_account_state_def
      snapshot_fresh_def stale_after_or_default_def reserve_or_default_def defaultWeeklyWindow_def
      default_key_def has_prefix_def quota_exhausted_def headroom_of_def capacity_reason_def f_max_def
      f_sub_def round64_numeral unix_of_def second_def seconds_of_def go_div_def in64_def mget_def)

definition ex_plan_built :: plan where
  "ex_plan_built = \<lparr>pl_Assignments = [(''amy'', ''a2'')], pl_ExpectedRoutes = [(''amy'', ''a1'')],
     pl_Sources = [(''a1'', 1)], pl_Destinations = [(''a2'', 1)], pl_CandidateAccounts = [''a2''],
     pl_AffectedUsers = 1, pl_PlannedUsers = 1, pl_SkippedUsers = 0, pl_UnassignedUsers = 0,
     pl_TargetCounts = []\<rparr>"

lemma ex_built_plan:
  "PlanEvacuation [(''amy'', ''a1'')] [''amy'', ''bob''] [''amy''] ex_built None = ex_plan_built"
  by code_simp

lemma ex_built_users: "routableUsers (db_key_records ex_routes_db) ex_built = [''amy'']"
    "activeUsersFromRecords (db_key_records ex_routes_db) = [''amy'', ''bob'']"
    "db_user_routes ex_routes_db = [(''amy'', ''a1'')]"
  by code_simp+

lemma ex_plan_fields: "pl_AffectedUsers ex_plan_built = 1" "pl_CandidateAccounts ex_plan_built = [''a2'']"
    "pl_UnassignedUsers ex_plan_built = 0" "pl_SkippedUsers ex_plan_built = 0"
  by (simp_all add: ex_plan_built_def)

lemma ex_built_applied:
  "let r = applyPlan (store_routes [] ex_envs) ex_activity ex_publish ex_plan_built
        \<lparr>wd_db = ex_routes_db\<lparr>db_runtime_state := rs\<rparr>, wd_tick = 6\<rparr>
   in snd (fst r) = None \<and> world_route (snd r) ''amy'' = ''a2''"
  by code_simp

lemma ex_built_evacuated:
  "let r = EvacuateExhausted (store_service [] ex_envs (\<lambda>w. (Inr ex_built, w)) ex_activity ex_publish)
        \<lparr>wd_db = ex_routes_db\<lparr>db_runtime_state := rs\<rparr>, wd_tick = 4\<rparr>
   in snd (fst r) = None \<and> world_route (snd r) ''amy'' = ''a2''"
proof -
  let ?db = "ex_routes_db\<lparr>db_runtime_state := rs\<rparr>"
  have "collect_inputs (store_routes [] ex_envs) (\<lambda>w. (Inr ex_built, w)) \<lparr>wd_db = ?db, wd_tick = 4\<rparr> =
      (Inr (db_user_routes ex_routes_db, db_key_records ex_routes_db, ex_built), \<lparr>wd_db = ?db, wd_tick = 6\<rparr>)"
    by (simp add: collect_inputs_def store_routes_def on_store_def ReadRoutes_def ReadKeyRecords_def ex_envs_def)
  then show ?thesis
    using ex_built_applied [of rs]
    by (auto simp: EvacuateExhausted_def evacuate_def store_service_def ex_built_users ex_built_plan Let_def
        ex_plan_fields split: prod.splits)
qed

lemma ex_settings: "ReadSettings env ex_official_db = (case ev_fault env (SqlRead ''settings'' []) of
    Some e \<Rightarrow> Inl (wrapf ''read control-plane settings: '' e) | None \<Rightarrow> Inr [])"
  by (simp add: ReadSettings_def ex_official_db_def ex_routes_db_def empty_db_def attempt_def split: option.split)

lemma ex_config: "config_of [] (1010 * second) force = \<lparr>cf_mode = ModeActive, cf_poll = 60 * second,
    cf_stale = 120 * second, cf_reserve = Fin 5, cf_now = 1010 * second, cf_force = force\<rparr>"
  by (simp add: config_of_def modeSetting_def durationSetting_def percentageSetting_def setting_number_def
      defaultAccountStateStaleAfter_def mget_def)

lemma conclude_flags:
  "conclude ct store cf previous state result evacuated w = ((res, err), w') \<Longrightarrow>
     rc_Checked res = rc_Checked result \<and> rc_Mode res = rc_Mode result"
  unfolding conclude_def Let_def by (auto split: prod.splits if_splits)

lemma ex_run: "\<exists>state result evacuated w4. rc_Checked result \<and> rc_Mode result = ModeActive \<and>
    world_route w4 ''amy'' = ''a2'' \<and>
    controller_run (on_control_plane [] ex_envs ex_controller) False (1010 * second) ex_start =
    conclude (on_control_plane [] ex_envs ex_controller) (store_controller [] ex_envs)
      (config_of [] (1010 * second) False) None state result evacuated w4"
proof -
  let ?store = "store_controller [] ex_envs" and ?ct = "on_control_plane [] ex_envs ex_controller"
  let ?w = "\<lambda>n. \<lparr>wd_db = ex_official_db, wd_tick = n\<rparr>"
  have sorted: "sort_slice row_less (db_accounts ex_routes_db) = db_accounts ex_routes_db" by code_simp
  have "cs_ReadSettings ?store (?w 0) = (Inr [], ?w 1)"
    by (simp add: store_controller_def on_store_def ex_settings ex_envs_def env_at_def)
  moreover have "cs_ReadRuntimeState ?store RuntimeStateName (?w 1) = (Inr None, ?w 2)"
    "cs_ReadRuntimeState ?store QuotaStateName (?w 2) =
       (Inr (Some (Some (json_norm (quota_runtime_json ex_official_state)))), ?w 3)"
    "cs_ReadAccounts ?store (?w 3) = (Inr ex_accounts, ?w 4)"
    by (simp_all add: store_controller_def on_store_def ex_envs_def env_at_def ReadRuntimeState_def sorted
        ReadAccounts_def attempt_def ex_official_db_def RuntimeStateName_def QuotaStateName_def ex_accounts_def)
  note reads = calculation this
  have ids: "map (\<lambda>a. (ac_ID a, True)) ex_accounts = [(''a1'', True), (''a2'', True)]" by code_simp
  have healthy: "QuotaHealthy ex_official_state True (1010 * second) (120 * second)"
    "qm_Snapshot ex_official_state = ex_official"
    by (simp_all add: QuotaHealthy_def ex_official_state_def quotaStateVersion_def unix_of_def second_def
        go_div_def sub64_def wrap64_def seconds_of_def Let_def)
  obtain evacuated w4 where evac: "EvacuateExhausted (store_service [] ex_envs (\<lambda>w. (Inr ex_built, w)) ex_activity ex_publish)
      (?w 4) = (evacuated, w4)" by fastforce
  have official: "ex_official_db = ex_routes_db\<lparr>db_runtime_state := db_runtime_state ex_official_db\<rparr>"
    by (simp add: ex_official_db_def)
  have there: "world_route w4 ''amy'' = ''a2''"
    using ex_built_evacuated [of "db_runtime_state ex_official_db"] evac unfolding official [symmetric] by simp
  have service: "EvacuateExhausted \<lparr>sv_Routes = Some (cs_Routes ?store), sv_States = Some (\<lambda>w. (Inr ex_built, w)),
      sv_Activity = Some ex_activity, sv_Snapshots = Some ex_publish\<rparr> (?w 4) = (evacuated, w4)"
    using evac by (simp add: store_service_def store_controller_def)
  have "\<exists>state result. rc_Checked result \<and> rc_Mode result = ModeActive \<and>
    controller_run ?ct False (1010 * second) ex_start =
    conclude ?ct ?store (config_of [] (1010 * second) False) None state result evacuated w4"
    unfolding controller_run_def check_accounts_def Let_def
    using reads healthy service
    by (simp add: ex_config ex_start_def on_control_plane_def ReadFailoverState_def DefaultRuntimeState_def ex_official_read
        latestObservedAt_def ex_probe_def ids ex_built windowed_activity_def ex_controller_def zero_controller_result_def)
      (rule exI, rule exI, rule conjI [OF _ conjI [OF _ refl]], simp_all)
  with there show ?thesis by meson
qed

text \<open>The run of the example: it checked the accounts and moved \<open>amy\<close>.\<close>

lemma ex_controller_run:
  obtains res err w' where "controller_run (on_control_plane [] ex_envs ex_controller) False (1010 * second) ex_start = ((res, err), w')"
    "rc_Checked res" "rc_Mode res = ModeActive" "world_route w' ''amy'' = ''a2''"
proof -
  obtain state result evacuated w4 where run: "rc_Checked result" "rc_Mode result = ModeActive"
    "world_route w4 ''amy'' = ''a2''"
    "controller_run (on_control_plane [] ex_envs ex_controller) False (1010 * second) ex_start =
     conclude (on_control_plane [] ex_envs ex_controller) (store_controller [] ex_envs)
      (config_of [] (1010 * second) False) None state result evacuated w4" using ex_run by blast
  obtain res err w' where r: "controller_run (on_control_plane [] ex_envs ex_controller) False (1010 * second) ex_start =
      ((res, err), w')" by (metis surj_pair)
  note last = r [unfolded run(4)]
  have "world_route w' = world_route w4"
    using conclude_routes [OF ex_harmless] last by (cases evacuated) blast
  then show ?thesis using that [OF r] conclude_flags [OF last] run by simp
qed

lemma ex_start_route: "world_route ex_start ''amy'' = ''a1''"
  by (simp add: world_route_def ex_start_def ex_official_db_def ex_routes_db_def mget_def)

theorem controller_moves_are_safe_witness:
  "\<exists>w' states. world_route w' ''amy'' = ''a2'' \<and> world_route ex_start ''amy'' = ''a1'' \<and> safe_move states ''a1'' ''a2''"
proof -
  obtain res err w' where r: "controller_run (on_control_plane [] ex_envs ex_controller) False (1010 * second) ex_start =
      ((res, err), w')" "world_route w' ''amy'' = ''a2''" by (rule ex_controller_run)
  then have "world_route w' ''amy'' \<noteq> world_route ex_start ''amy''" by (simp add: ex_start_route)
  moreover have "tidy_db (wd_db ex_start)" using ex_tidy_db by (simp add: ex_start_def)
  ultimately show ?thesis
    using controller_moves_are_safe [OF _ ex_harmless r(1)] r(2) ex_start_route by fastforce
qed

theorem active_run_is_recorded_witness:
  "\<exists>err (w' :: world). (\<exists>e. err = Some e \<and> write_failed e) \<or>
    (\<exists>s. map_of (db_runtime_state (wd_db w')) RuntimeStateName = Some (Some (json_norm (runtime_json s))) \<and>
       rt_HeartbeatAt s = Some 1010 \<and> rt_LastError s = boundedControllerError err 500)"
proof -
  obtain res err w' where r: "controller_run (on_control_plane [] ex_envs ex_controller) False (1010 * second) ex_start =
      ((res, err), w')" "rc_Checked res" "rc_Mode res = ModeActive" by (rule ex_controller_run)
  have now: "unix_of (1010 * second) = 1010" by (simp add: unix_of_def second_def go_div_def)
  have "0 < 60 * second" by (simp add: second_def)
  from active_run_is_recorded [OF r(1,3) disjI1 [OF r(2)] _ this, unfolded now, OF zero_less_numeral]
  consider (failed) e where "err = Some e" "write_failed e"
    | (written) s where "map_of (db_runtime_state (wd_db w')) RuntimeStateName = Some (Some (json_norm (runtime_json s)))"
        "rt_HeartbeatAt s = Some 1010" "rt_LastError s = boundedControllerError err 500" by blast
  then show ?thesis by cases blast+
qed

end
