(* ===== verification/Control_Tx.thy ===== *)
theory Control_Tx
  imports Control_Store
begin

text \<open>
  The steps of the control-plane transactions in \<open>records.go\<close>, \<open>user_lifecycle.go\<close> and
  \<open>account_lifecycle.go\<close>: queries and statements that can fail, their sequencing, and the tables they
  work on. A transaction is a function of the transaction's view \<open>'s\<close> of its database; \<open>writeTransaction\<close>
  of \<open>Control_Store\<close> runs those on the control plane, and the usage database has its own.
\<close>

section \<open>Sequencing\<close>

type_synonym ('s, 'a) stx = "'s \<Rightarrow> gerr + 'a \<times> 's"
type_synonym 'a tx = "(db, 'a) stx"

definition ok_tx :: "'a \<Rightarrow> ('s, 'a) stx" where
  "ok_tx x d = Inr (x, d)"

definition fail_tx :: "gerr \<Rightarrow> ('s, 'a) stx" where
  "fail_tx e d = Inl e"

definition then_tx :: "('s, 'a) stx \<Rightarrow> ('a \<Rightarrow> ('s, 'b) stx) \<Rightarrow> ('s, 'b) stx" where
  "then_tx f g d = (case f d of Inl e \<Rightarrow> Inl e | Inr (x, d') \<Rightarrow> g x d')"

text \<open>\<open>if c { return e }\<close>.\<close>

definition guard_tx :: "bool \<Rightarrow> gerr \<Rightarrow> ('s, unit) stx" where
  "guard_tx c e = (if c then fail_tx e else ok_tx ())"

fun each_tx :: "('x \<Rightarrow> ('s, unit) stx) \<Rightarrow> 'x list \<Rightarrow> ('s, unit) stx" where
  "each_tx f [] = ok_tx ()"
| "each_tx f (x # xs) = then_tx (f x) (\<lambda>_. each_tx f xs)"

text \<open>
  A \<open>SELECT\<close>, and a statement: either fails with the error of the environment, wrapped in the text of
  the call, or reads or changes the view. \<open>exec_checked\<close> is a statement that can also violate a
  constraint.
\<close>

definition query :: "env \<Rightarrow> string \<Rightarrow> string \<Rightarrow> ('s \<Rightarrow> 'a) \<Rightarrow> ('s, 'a) stx" where
  "query env table text f d = (case ev_fault env (SqlRead table text) of Some e \<Rightarrow> Inl (wrapf text e) | None \<Rightarrow> Inr (f d, d))"

definition exec_checked :: "env \<Rightarrow> string \<Rightarrow> string \<Rightarrow> ('s \<Rightarrow> gerr + 's) \<Rightarrow> ('s, unit) stx" where
  "exec_checked env table text f d =
     (case ev_fault env (SqlWrite table text) of Some e \<Rightarrow> Inl (wrapf text e)
      | None \<Rightarrow> (case f d of Inl e \<Rightarrow> Inl (wrapf text e) | Inr d' \<Rightarrow> Inr ((), d')))"

definition exec :: "env \<Rightarrow> string \<Rightarrow> string \<Rightarrow> ('s \<Rightarrow> 's) \<Rightarrow> ('s, unit) stx" where
  "exec env table text f = exec_checked env table text (\<lambda>d. Inr (f d))"

text \<open>\<open>sql.ErrNoRows\<close> of a query for one row.\<close>

definition ErrNoRows :: gerr where "ErrNoRows = Sentinel ''sql: no rows in result set''"

definition query_row :: "env \<Rightarrow> string \<Rightarrow> string \<Rightarrow> ('s \<Rightarrow> 'a option) \<Rightarrow> ('s, 'a) stx" where
  "query_row env table text f =
     then_tx (query env table text f) (\<lambda>row. case row of None \<Rightarrow> fail_tx (wrapf text ErrNoRows) | Some x \<Rightarrow> ok_tx x)"

definition constraint_failed :: "string \<Rightarrow> gerr + 'a" where
  "constraint_failed column = Inl (ErrNew (''constraint failed: '' @ column))"

named_theorems tx

lemma ok_tx_iff [tx]: "ok_tx x d = Inr (y, d') \<longleftrightarrow> y = x \<and> d' = d"
  by (auto simp: ok_tx_def)

lemma fail_tx_iff [tx]: "fail_tx e d = Inr r \<longleftrightarrow> False"
  by (simp add: fail_tx_def)

lemma then_tx_iff [tx]: "then_tx f g d = Inr r \<longleftrightarrow> (\<exists>x d1. f d = Inr (x, d1) \<and> g x d1 = Inr r)"
  by (auto simp: then_tx_def split: sum.splits)

lemma guard_tx_iff [tx]: "guard_tx c e d = Inr (u, d') \<longleftrightarrow> \<not> c \<and> d' = d"
  by (auto simp: guard_tx_def tx)

lemma query_iff [tx]: "query env table text f d = Inr (x, d') \<longleftrightarrow> ev_fault env (SqlRead table text) = None \<and> x = f d \<and> d' = d"
  by (auto simp: query_def split: option.splits)

lemma exec_checked_iff [tx]: "exec_checked env table text f d = Inr (u, d') \<longleftrightarrow>
    ev_fault env (SqlWrite table text) = None \<and> f d = Inr d'"
  by (auto simp: exec_checked_def split: option.splits sum.splits)

lemma exec_iff [tx]: "exec env table text f d = Inr (u, d') \<longleftrightarrow> ev_fault env (SqlWrite table text) = None \<and> d' = f d"
  by (auto simp: exec_def tx)

lemma query_row_iff [tx]: "query_row env table text f d = Inr (x, d') \<longleftrightarrow>
    ev_fault env (SqlRead table text) = None \<and> f d = Some x \<and> d' = d"
  by (auto simp: query_row_def tx split: option.splits)

lemma each_tx_inv:
  assumes "each_tx f xs d = Inr (u, d')" "P d" "\<And>x d u d'. x \<in> set xs \<Longrightarrow> P d \<Longrightarrow> f x d = Inr (u, d') \<Longrightarrow> P d'"
  shows "P d'"
  using assms by (induction xs arbitrary: d) (auto simp: tx)

text \<open>A loop of checks changes nothing and has passed every check.\<close>

lemma each_tx_checks:
  assumes "\<And>x d' u. f x d = Inr (u, d') \<longleftrightarrow> P x \<and> d' = d"
  shows "each_tx f xs d = Inr (u, d') \<longleftrightarrow> list_all P xs \<and> d' = d"
  using assms by (induction xs) (auto simp: tx)

text \<open>In an environment without faults the steps compute.\<close>

lemma calm_steps [simp]:
  assumes "calm env"
  shows "query env table text f d = Inr (f d, d)" "exec env table text g d = Inr ((), g d)"
  using assms by (simp_all add: query_def exec_def exec_checked_def calm_def)

lemma each_exec_calm [simp]:
  "calm env \<Longrightarrow> each_tx (\<lambda>x. exec env table (text x) (f x)) xs d = Inr ((), fold f xs d)"
  by (induction xs arbitrary: d) (simp_all add: then_tx_def ok_tx_def)

lemma each_exec_fold:
  "each_tx (\<lambda>x. exec env table (text x) (f x)) xs d = Inr (u, d') \<Longrightarrow> d' = fold f xs d"
  by (induction xs arbitrary: d) (auto simp: tx)

lemma each_tx_pass:
  "(\<And>x. x \<in> set xs \<Longrightarrow> f x d = Inr ((), d)) \<Longrightarrow> each_tx f xs d = Inr ((), d)"
  by (induction xs) (simp_all add: then_tx_def ok_tx_def)

lemma then_tx_eq: "f d = Inr (x, d1) \<Longrightarrow> then_tx f g d = g x d1"
  by (simp add: then_tx_def)

lemma then_tx_simps [simp]: "then_tx (ok_tx x) g = g x"
  by (simp add: then_tx_def ok_tx_def fun_eq_iff)

section \<open>Text in SQL\<close>

text \<open>SQLite's \<open>lower(trim(x))\<close>: spaces only, ASCII letters only.\<close>

definition sql_trim :: "string \<Rightarrow> string" where
  "sql_trim s = rev (dropWhile (\<lambda>c. c = CHR 0x20) (rev (dropWhile (\<lambda>c. c = CHR 0x20) s)))"

definition sql_norm :: "string \<Rightarrow> string" where
  "sql_norm s = to_lower (sql_trim s)"

lemma space_head_first: "p a \<Longrightarrow> space_head p q r (a # s)"
  by (cases "(p, q, r, a # s)" rule: space_head.cases) auto

lemma no_first_space: "\<not> space_head space1 q r s \<Longrightarrow> dropWhile (\<lambda>c. c = CHR 0x20) s = s"
  using space_head_first [of space1] by (cases s) (auto simp: space1_def)

text \<open>A name normalised by the program is not changed by the normalisation in SQL.\<close>

lemma sql_trim_trimmed [simp]: "sql_trim (trim_space s) = trim_space s"
proof -
  let ?t = "trim_space s"
  obtain zs where "trim_left s = ?t @ zs" using trim_right_prefix unfolding trim_space_def by blast
  then have "trim_left ?t = ?t"
    using trim_with_fixed_prefix [of space1 space2 space3 ?t zs] by (metis trim_left_def trim_left_idem)
  then have "\<not> space_head space1 space2 space3 ?t" by (simp add: trim_left_def trim_with_fixed_iff)
  moreover have "trim_right ?t = ?t" by (simp add: trim_space_def)
  then have "\<not> space_head space1 (\<lambda>a b. space2 b a) (\<lambda>a b c. space3 c b a) (rev ?t)"
    by (metis trim_right_def rev_rev_ident trim_with_fixed_iff)
  ultimately show ?thesis by (simp add: sql_trim_def no_first_space)
qed

lemma sql_norm_normal [simp]: "sql_norm (norm_name s) = norm_name s"
  by (metis norm_name_def norm_name_idem sql_norm_def sql_trim_trimmed to_lower_idem trim_space_to_lower)

text \<open>\<open>strings.EqualFold\<close>, with the same restriction to ASCII letters as \<open>to_lower\<close>.\<close>

definition EqualFold :: "string \<Rightarrow> string \<Rightarrow> bool" where
  "EqualFold a b \<longleftrightarrow> to_lower a = to_lower b"

section \<open>The table of key rows\<close>

type_synonym key_row = "int \<times> key_record"

definition rows_ordered :: "key_row list \<Rightarrow> bool" where
  "rows_ordered rows \<longleftrightarrow> sorted_wrt (<) (map fst rows)"

text \<open>\<open>SELECT COALESCE(MAX(sequence), -1) + 1\<close>.\<close>

definition next_sequence :: "db \<Rightarrow> int" where
  "next_sequence d = foldl max (- 1) (map fst (db_key_rows d)) + 1"

fun insert_row :: "key_row \<Rightarrow> key_row list \<Rightarrow> key_row list" where
  "insert_row r [] = [r]"
| "insert_row r (x # xs) = (if fst r < fst x then r # x # xs else x # insert_row r xs)"

definition insert_key_row :: "key_row \<Rightarrow> db \<Rightarrow> gerr + db" where
  "insert_key_row r d =
     (if fst r \<in> fst ` set (db_key_rows d) then constraint_failed ''key_records.sequence''
      else Inr (d\<lparr>db_key_rows := insert_row r (db_key_rows d)\<rparr>))"

definition delete_key_rows :: "(key_row \<Rightarrow> bool) \<Rightarrow> db \<Rightarrow> db" where
  "delete_key_rows P d = d\<lparr>db_key_rows := filter (\<lambda>r. \<not> P r) (db_key_rows d)\<rparr>"

definition update_key_rows :: "(key_row \<Rightarrow> bool) \<Rightarrow> (key_record \<Rightarrow> key_record) \<Rightarrow> db \<Rightarrow> db" where
  "update_key_rows P f d = d\<lparr>db_key_rows := map (\<lambda>r. if P r then (fst r, f (snd r)) else r) (db_key_rows d)\<rparr>"

definition key_row_at :: "int \<Rightarrow> db \<Rightarrow> key_record option" where
  "key_row_at sequence d = map_of (db_key_rows d) sequence"

text \<open>\<open>WHERE lower(trim(user_email)) = ?\<close>.\<close>

definition user_key_rows :: "string \<Rightarrow> db \<Rightarrow> key_row list" where
  "user_key_rows user d = filter (\<lambda>r. sql_norm (kr_User (snd r)) = user) (db_key_rows d)"

definition is_active :: "key_row \<Rightarrow> bool" where
  "is_active r \<longleftrightarrow> kr_Status (snd r) = ''active''"

definition active_key_row :: "string \<Rightarrow> string \<Rightarrow> string \<Rightarrow> string \<Rightarrow> string \<Rightarrow> int \<Rightarrow> key_record" where
  "active_key_row label account email user secret now =
     \<lparr>kr_Label = label, kr_Account = account, kr_AccountEmail = email, kr_User = user, kr_Status = ''active'',
      kr_Key = secret, kr_CreatedAt = now, kr_UpdatedAt = now\<rparr>"

subsection \<open>Laws\<close>

lemma foldl_max_ge: "m \<le> foldl max m xs" "x \<in> set xs \<Longrightarrow> x \<le> foldl max (m :: int) xs"
  by (induction xs arbitrary: m) (auto intro: order_trans [OF max.cobounded1] order_trans [OF max.cobounded2])

lemma next_sequence_fresh: "r \<in> set (db_key_rows d) \<Longrightarrow> fst r < next_sequence d"
  using foldl_max_ge(2) [of "fst r" "map fst (db_key_rows d)" "- 1"] by (simp add: next_sequence_def)

lemma next_sequence_unused: "next_sequence d \<notin> fst ` set (db_key_rows d)"
  using next_sequence_fresh by fastforce

lemma rows_ordered_simps [simp]:
  "rows_ordered []" "rows_ordered (r # rs) \<longleftrightarrow> (\<forall>x \<in> set rs. fst r < fst x) \<and> rows_ordered rs"
  by (auto simp: rows_ordered_def)

lemma rows_ordered_distinct: "rows_ordered rows \<Longrightarrow> distinct (map fst rows)"
  by (induction rows) fastforce+

lemma set_insert_row [simp]: "set (insert_row r rows) = insert r (set rows)"
  by (induction rows) auto

lemma insert_row_ordered: "rows_ordered rows \<Longrightarrow> fst r \<notin> fst ` set rows \<Longrightarrow> rows_ordered (insert_row r rows)"
  by (induction rows) auto

lemma insert_row_last: "\<forall>x \<in> set rows. fst x < fst r \<Longrightarrow> insert_row r rows = rows @ [r]"
  by (induction rows) auto

lemma rows_ordered_filter [simp]: "rows_ordered rows \<Longrightarrow> rows_ordered (filter P rows)"
  by (induction rows) auto

lemma rows_ordered_map: "rows_ordered rows \<Longrightarrow> rows_ordered (map (\<lambda>r. if P r then (fst r, f (snd r)) else r) rows)"
  by (induction rows) auto

lemma rows_ordered_append: "rows_ordered (xs @ ys) \<longleftrightarrow> rows_ordered xs \<and> rows_ordered ys \<and> (\<forall>x \<in> set xs. \<forall>y \<in> set ys. fst x < fst y)"
  by (induction xs) auto

text \<open>The order of the sequence numbers makes the list of rows unique.\<close>

lemma rows_ordered_unique:
  "rows_ordered xs \<Longrightarrow> rows_ordered ys \<Longrightarrow> set xs = set ys \<Longrightarrow> xs = ys"
proof (induction xs arbitrary: ys)
  case (Cons x xs)
  then obtain y ys' where ys: "ys = y # ys'" by (cases ys) auto
  have "x = y"
  proof (rule ccontr)
    assume "x \<noteq> y"
    with Cons.prems ys have "fst x < fst y" "fst y < fst x" by auto
    then show False by simp
  qed
  moreover from this Cons.prems ys have "set xs = set ys'" by auto
  ultimately show ?case using Cons ys by auto
qed simp

lemma insert_key_row_Inr:
  "insert_key_row r d = Inr d' \<longleftrightarrow> fst r \<notin> fst ` set (db_key_rows d) \<and> d' = d\<lparr>db_key_rows := insert_row r (db_key_rows d)\<rparr>"
  by (auto simp: insert_key_row_def constraint_failed_def)

end
