(* ===== verification/Control_Keys.thy ===== *)
theory Control_Keys
  imports Control_Tx Control_Routes
begin

text \<open>
  \<open>internal/controlplane/records.go\<close>: the writers of accounts, routes and key records, the rotation of a
  user's key with its rollback, and the internal keys between the gateway and the accounts. The readers
  are in \<open>Control_Routes\<close>. A call that fails returns its error; what it returns beside an error is not
  used by its callers.
\<close>

section \<open>Normalised users\<close>

definition normalizedUsers :: "string list \<Rightarrow> string list" where
  "normalizedUsers vals = sort (remdups (filter (\<lambda>v. v \<noteq> []) (map norm_name vals)))"

definition boolInteger :: "bool \<Rightarrow> int" where
  "boolInteger b = (if b then 1 else 0)"

section \<open>Writing whole tables\<close>

text \<open>The constraints of \<open>accounts\<close>: primary key \<open>id\<close>, unique \<open>email\<close> and \<open>port\<close>.\<close>

definition insert_account_row :: "account_row \<Rightarrow> db \<Rightarrow> gerr + db" where
  "insert_account_row row d =
     (if list_ex (\<lambda>x. ar_id x = ar_id row) (db_accounts d) then constraint_failed ''accounts.id''
      else if list_ex (\<lambda>x. ar_email x = ar_email row) (db_accounts d) then constraint_failed ''accounts.email''
      else if list_ex (\<lambda>x. ar_port x = ar_port row) (db_accounts d) then constraint_failed ''accounts.port''
      else Inr (d\<lparr>db_accounts := db_accounts d @ [row]\<rparr>))"

definition account_row_of :: "account \<Rightarrow> int \<Rightarrow> account_row" where
  "account_row_of a position =
     \<lparr>ar_id = ac_ID a, ar_email = ac_Email a, ar_port = ac_Port a,
      ar_proxy_mode = (if trim_space (ac_ProxyMode a) = [] then ''inherit'' else trim_space (ac_ProxyMode a)),
      ar_created_at = ac_CreatedAt a, ar_group_enabled = boolInteger (ac_GroupEnabled a),
      ar_default_group = boolInteger (ac_DefaultGroup a), ar_position = position\<rparr>"

definition WriteAccounts :: "fence \<Rightarrow> env \<Rightarrow> account list \<Rightarrow> db \<Rightarrow> (gerr + unit) \<times> db" where
  "WriteAccounts fence env accounts = writeTransaction fence env
     (then_tx (exec env ''accounts'' ''clear control-plane accounts: '' (\<lambda>d. d\<lparr>db_accounts := []\<rparr>)) (\<lambda>_.
      each_tx (\<lambda>(position, a). exec_checked env ''accounts'' (''write control-plane account '' @ ac_ID a @ '': '')
        (insert_account_row (account_row_of a (int position)))) (enumerate 0 accounts)))"

definition insert_route :: "string \<Rightarrow> string \<Rightarrow> db \<Rightarrow> gerr + db" where
  "insert_route user account d =
     (if map_of (db_user_routes d) user \<noteq> None then constraint_failed ''user_routes.user_email''
      else Inr (d\<lparr>db_user_routes := mput user account (db_user_routes d)\<rparr>))"

definition WriteRoutes :: "fence \<Rightarrow> env \<Rightarrow> string gomap \<Rightarrow> db \<Rightarrow> (gerr + unit) \<times> db" where
  "WriteRoutes fence env routes = writeTransaction fence env
     (then_tx (exec env ''user_routes'' ''clear control-plane user routes: '' (\<lambda>d. d\<lparr>db_user_routes := []\<rparr>)) (\<lambda>_.
      each_tx (\<lambda>user. exec_checked env ''user_routes'' (''write control-plane route for '' @ user @ '': '')
        (insert_route user (mget [] routes user))) (sort (map fst routes))))"

definition WriteKeyRecords :: "fence \<Rightarrow> env \<Rightarrow> key_record list \<Rightarrow> db \<Rightarrow> (gerr + unit) \<times> db" where
  "WriteKeyRecords fence env records = writeTransaction fence env
     (then_tx (exec env ''key_records'' ''clear control-plane key records: '' (\<lambda>d. d\<lparr>db_key_rows := []\<rparr>)) (\<lambda>_.
      each_tx (\<lambda>(sequence, r). exec_checked env ''key_records'' (''write control-plane key record '' @ itoa (int sequence) @ '': '')
        (insert_key_row (int sequence, r))) (enumerate 0 records)))"

text \<open>The lookup by users runs in batches of 500; the batches are in the order of the users.\<close>

function read_batches :: "env \<Rightarrow> string list \<Rightarrow> db \<Rightarrow> gerr + key_record list" where
  "read_batches env users d =
     (if users = [] then Inr []
      else and_then (attempt env (SqlRead ''key_records'' []) ''read control-plane key records: ''
              (filter (\<lambda>r. kr_User r \<in> set (take 500 users)) (db_key_records d))) (\<lambda>batch.
           map_sum id (\<lambda>rest. batch @ rest) (read_batches env (drop 500 users) d)))"
  by pat_completeness auto
termination by (relation "measure (\<lambda>(_, users, _). length users)") auto

definition ReadKeyRecordsForUsers :: "env \<Rightarrow> string list \<Rightarrow> db \<Rightarrow> gerr + key_record list" where
  "ReadKeyRecordsForUsers env userEmails d = read_batches env (normalizedUsers userEmails) d"

section \<open>Rotating a user's key\<close>

definition ErrUserKeyRotationConflict :: gerr where
  "ErrUserKeyRotationConflict = Sentinel ''user key rotation conflict''"
definition ErrUserKeyRotationUnsafe :: gerr where
  "ErrUserKeyRotationUnsafe = Sentinel ''user key rotation is unsafe''"

record rotated_row =
  rw_Sequence :: int
  rw_UpdatedAt :: int

record key_rotation =
  kn_User :: string
  kn_OldKey :: string
  kn_NewKey :: string
  kn_RotatedRows :: "rotated_row list"
  kn_CreatedRows :: "int list"

text \<open>The loop over the active rows: one secret, and no account twice.\<close>

fun rotation_rows_error :: "string \<Rightarrow> strset \<Rightarrow> key_row list \<Rightarrow> gerr option" where
  "rotation_rows_error oldKey accounts [] = None"
| "rotation_rows_error oldKey accounts (r # rows) =
     (if kr_Key (snd r) \<noteq> oldKey then Some ErrUserKeyRotationConflict
      else if kr_Account (snd r) \<in> set accounts then Some ErrUserKeyRotationUnsafe
      else rotation_rows_error oldKey (set_add (kr_Account (snd r)) accounts) rows)"

definition read_account_ids :: "env \<Rightarrow> string \<Rightarrow> string list tx" where
  "read_account_ids env text = query env ''accounts'' text (\<lambda>d. map ar_id (sort_slice row_less (db_accounts d)))"

fun rotate_rows :: "env \<Rightarrow> string \<Rightarrow> string \<Rightarrow> int \<Rightarrow> int \<Rightarrow> key_row list \<Rightarrow> unit tx" where
  "rotate_rows env user newKey now sequence [] = ok_tx ()"
| "rotate_rows env user newKey now sequence (r # rows) =
     then_tx (exec env ''key_records'' (''mark user key row '' @ itoa (fst r) @ '' rotated: '')
       (update_key_rows (\<lambda>x. fst x = fst r \<and> is_active x) (\<lambda>k. k\<lparr>kr_Status := ''rotated'', kr_UpdatedAt := now\<rparr>))) (\<lambda>_.
     then_tx (exec_checked env ''key_records'' (''append replacement user key row '' @ itoa sequence @ '': '')
       (insert_key_row (sequence, active_key_row (kr_Label (snd r)) (kr_Account (snd r)) (kr_AccountEmail (snd r)) user newKey now))) (\<lambda>_.
     rotate_rows env user newKey now (sequence + 1) rows))"

definition rotate_in_tx :: "env \<Rightarrow> string \<Rightarrow> string \<Rightarrow> string \<Rightarrow> key_rotation tx" where
  "rotate_in_tx env user oldKey newKey =
     then_tx (query env ''key_records'' ''check new user key uniqueness: ''
       (\<lambda>d. filter (\<lambda>r. kr_Key (snd r) = newKey) (db_key_rows d))) (\<lambda>duplicate.
     then_tx (guard_tx (duplicate \<noteq> []) ErrUserKeyRotationConflict) (\<lambda>_.
     then_tx (query env ''key_records'' ''read active rows for user key rotation: ''
       (\<lambda>d. filter is_active (user_key_rows user d))) (\<lambda>rows.
     then_tx (guard_tx (rows = []) ErrUserKeyRotationUnsafe) (\<lambda>_.
     then_tx (case rotation_rows_error oldKey [] rows of None \<Rightarrow> ok_tx () | Some e \<Rightarrow> fail_tx e) (\<lambda>_.
     then_tx (read_account_ids env ''read account matrix for user key rotation: '') (\<lambda>currentAccounts.
     then_tx (guard_tx (currentAccounts = [] \<or> length rows \<noteq> length currentAccounts) ErrUserKeyRotationUnsafe) (\<lambda>_.
     then_tx (guard_tx (\<not> set currentAccounts \<subseteq> (\<lambda>r. kr_Account (snd r)) ` set rows) ErrUserKeyRotationUnsafe) (\<lambda>_.
     then_tx (query env ''key_records'' ''allocate user key rotation sequence: '' next_sequence) (\<lambda>nextSequence.
     then_tx (rotate_rows env user newKey (unix_of (ev_now env)) nextSequence rows) (\<lambda>_.
     ok_tx \<lparr>kn_User = user, kn_OldKey = oldKey, kn_NewKey = newKey,
            kn_RotatedRows = map (\<lambda>r. \<lparr>rw_Sequence = fst r, rw_UpdatedAt = kr_UpdatedAt (snd r)\<rparr>) rows,
            kn_CreatedRows = map (\<lambda>i. nextSequence + int i) [0..<length rows]\<rparr>))))))))))"

definition ApplyUserKeyRotationExpected ::
  "fence \<Rightarrow> env \<Rightarrow> string \<Rightarrow> string \<Rightarrow> string \<Rightarrow> db \<Rightarrow> (gerr + key_rotation) \<times> db" where
  "ApplyUserKeyRotationExpected fence env rawUser expectedKey rawNewKey d =
     (let user = norm_name rawUser; oldKey = trim_space expectedKey; newKey = trim_space rawNewKey
      in if user = [] \<or> oldKey = [] \<or> newKey = [] \<or> oldKey = newKey
         then (Inl (ErrWrap [] ErrInvalidCatalogInput '': user, expected key, and distinct new key are required''), d)
         else writeTransaction fence env (rotate_in_tx env user oldKey newKey) d)"

definition check_rotation_row :: "env \<Rightarrow> string \<Rightarrow> string \<Rightarrow> string \<Rightarrow> string \<Rightarrow> int \<Rightarrow> unit tx" where
  "check_rotation_row env text user status secret sequence =
     then_tx (query_row env ''key_records'' (text @ itoa sequence @ '' for rollback: '') (key_row_at sequence)) (\<lambda>row.
     guard_tx (\<not> EqualFold (kr_User row) user \<or> kr_Status row \<noteq> status \<or> kr_Key row \<noteq> secret) ErrUserKeyRotationConflict)"

definition restore_rotation_in_tx :: "env \<Rightarrow> key_rotation \<Rightarrow> unit tx" where
  "restore_rotation_in_tx env rotation =
     then_tx (each_tx (check_rotation_row env ''read replacement user key row '' (kn_User rotation) ''active'' (kn_NewKey rotation))
       (kn_CreatedRows rotation)) (\<lambda>_.
     then_tx (each_tx (\<lambda>row. check_rotation_row env ''read rotated user key row '' (kn_User rotation) ''rotated'' (kn_OldKey rotation)
         (rw_Sequence row)) (kn_RotatedRows rotation)) (\<lambda>_.
     then_tx (each_tx (\<lambda>sequence. exec env ''key_records'' (''delete replacement user key row '' @ itoa sequence @ '': '')
       (delete_key_rows (\<lambda>x. fst x = sequence))) (kn_CreatedRows rotation)) (\<lambda>_.
     each_tx (\<lambda>row. exec env ''key_records'' (''restore original user key row '' @ itoa (rw_Sequence row) @ '': '')
       (update_key_rows (\<lambda>x. fst x = rw_Sequence row) (\<lambda>k. k\<lparr>kr_Status := ''active'', kr_UpdatedAt := rw_UpdatedAt row\<rparr>)))
       (kn_RotatedRows rotation))))"

definition RestoreUserKeyRotation :: "fence \<Rightarrow> env \<Rightarrow> key_rotation \<Rightarrow> db \<Rightarrow> (gerr + unit) \<times> db" where
  "RestoreUserKeyRotation fence env rotation d =
     (if kn_User rotation = [] \<or> kn_OldKey rotation = [] \<or> kn_NewKey rotation = [] \<or> kn_RotatedRows rotation = [] \<or>
         length (kn_RotatedRows rotation) \<noteq> length (kn_CreatedRows rotation)
      then (Inl (ErrWrap [] ErrInvalidCatalogInput '': incomplete user key rotation rollback''), d)
      else writeTransaction fence env (restore_rotation_in_tx env rotation) d)"
section \<open>Internal keys\<close>

text \<open>\<open>ORDER BY user_email\<close>; the map of the result.\<close>

definition ReadInternalKeys :: "env \<Rightarrow> db \<Rightarrow> gerr + internal_key gomap" where
  "ReadInternalKeys env d = attempt env (SqlRead ''internal_keys'' []) ''read control-plane internal keys: ''
     (sort_key fst (db_internal_keys d))"

definition ReadInternalKey :: "env \<Rightarrow> string \<Rightarrow> db \<Rightarrow> gerr + internal_key option" where
  "ReadInternalKey env rawUser d =
     (let user = norm_name rawUser
      in if user = [] then Inl (ErrWrap [] ErrInvalidCatalogInput '': internal key user is required'')
         else attempt env (SqlRead ''internal_keys'' user) ''read control-plane internal key: ''
                (map_option snd (find (\<lambda>(u, _). sql_norm u = user) (db_internal_keys d))))"

text \<open>\<open>INSERT\<close> checks the primary key and the unique secret; the upsert replaces the row of the user.\<close>

definition secret_taken :: "string \<Rightarrow> string \<Rightarrow> db \<Rightarrow> bool" where
  "secret_taken user secret d \<longleftrightarrow> list_ex (\<lambda>(u, k). u \<noteq> user \<and> ik_Key k = secret) (db_internal_keys d)"

definition upsert_internal_key :: "string \<Rightarrow> internal_key \<Rightarrow> db \<Rightarrow> gerr + db" where
  "upsert_internal_key user k d =
     (if secret_taken user (ik_Key k) d then constraint_failed ''internal_keys.secret''
      else Inr (d\<lparr>db_internal_keys := mput user k (db_internal_keys d)\<rparr>))"

definition insert_internal_key :: "string \<Rightarrow> internal_key \<Rightarrow> db \<Rightarrow> gerr + db" where
  "insert_internal_key user k d =
     (if map_of (db_internal_keys d) user \<noteq> None then constraint_failed ''internal_keys.user_email''
      else upsert_internal_key user k d)"

definition RestoreInternalKey :: "fence \<Rightarrow> env \<Rightarrow> string \<Rightarrow> internal_key option \<Rightarrow> db \<Rightarrow> (gerr + unit) \<times> db" where
  "RestoreInternalKey fence env rawUser previous d =
     (let user = norm_name rawUser
      in if user = [] then (Inl (ErrWrap [] ErrInvalidCatalogInput '': internal key user is required''), d)
         else (case previous of
            None \<Rightarrow> writeTransaction fence env
              (exec env ''internal_keys'' (''remove restored internal key for '' @ user @ '': '')
                (\<lambda>d. d\<lparr>db_internal_keys := filter (\<lambda>(u, _). sql_norm u \<noteq> user) (db_internal_keys d)\<rparr>)) d
          | Some k \<Rightarrow>
              if trim_space (ik_Key k) = [] \<or> ik_CreatedAt k < 0 \<or> (ik_Status k \<noteq> ''active'' \<and> ik_Status k \<noteq> ''inactive'')
              then (Inl (ErrWrap [] ErrInvalidCatalogInput '': previous internal key is invalid''), d)
              else writeTransaction fence env
                (exec_checked env ''internal_keys'' (''restore internal key for '' @ user @ '': '') (upsert_internal_key user k)) d))"

definition WriteInternalKeys :: "fence \<Rightarrow> env \<Rightarrow> internal_key gomap \<Rightarrow> db \<Rightarrow> (gerr + unit) \<times> db" where
  "WriteInternalKeys fence env users = writeTransaction fence env
     (then_tx (exec env ''internal_keys'' ''clear control-plane internal keys: '' (\<lambda>d. d\<lparr>db_internal_keys := []\<rparr>)) (\<lambda>_.
      each_tx (\<lambda>(email, k). exec_checked env ''internal_keys'' (''write control-plane internal key for '' @ email @ '': '')
        (insert_internal_key email (k\<lparr>ik_Status := if ik_Status k = [] then ''active'' else ik_Status k\<rparr>))) (sort_key fst users)))"

definition internalKeyPrefix :: string where "internalKeyPrefix = ''cpa_internal_''"

definition newInternalKey :: "gerr + string \<Rightarrow> gerr + string" where
  "newInternalKey random = (case random of Inl e \<Rightarrow> Inl (wrapf ''generate internal key: '' e)
     | Inr raw \<Rightarrow> Inr (internalKeyPrefix @ hex_encode raw))"

text \<open>
  \<open>EnsureInternalKeys\<close>: the first loop creates or activates the key of every user, in order; \<open>draws\<close> are
  the results of the successive reads of random bytes. The second deactivates the keys of all others.
\<close>

fun ensure_users ::
  "env \<Rightarrow> (nat \<Rightarrow> gerr + string) \<Rightarrow> nat \<Rightarrow> internal_key gomap \<Rightarrow> internal_key gomap \<Rightarrow> string list \<Rightarrow> internal_key gomap tx" where
  "ensure_users env draws n existing result [] = ok_tx result"
| "ensure_users env draws n existing result (user # users) =
     (case map_of existing user of
        None \<Rightarrow>
          (case newInternalKey (draws n) of Inl e \<Rightarrow> fail_tx e
           | Inr key \<Rightarrow>
               (let k = \<lparr>ik_Key = key, ik_CreatedAt = unix_of (ev_now env), ik_Status = ''active''\<rparr>
                in then_tx (exec_checked env ''internal_keys'' (''create internal key for '' @ user @ '': '') (insert_internal_key user k))
                     (\<lambda>_. ensure_users env draws (n + 1) existing (mput user k result) users)))
      | Some k \<Rightarrow>
          if ik_Status k \<noteq> ''active''
          then then_tx (exec env ''internal_keys'' (''activate internal key for '' @ user @ '': '')
                  (\<lambda>d. d\<lparr>db_internal_keys := map (\<lambda>(u, x). (u, if u = user then x\<lparr>ik_Status := ''active''\<rparr> else x)) (db_internal_keys d)\<rparr>))
                 (\<lambda>_. ensure_users env draws n existing (mput user (k\<lparr>ik_Status := ''active''\<rparr>) result) users)
          else ensure_users env draws n existing (mput user k result) users)"

definition set_inactive :: "string \<Rightarrow> db \<Rightarrow> db" where
  "set_inactive user d =
     d\<lparr>db_internal_keys := map (\<lambda>(u, x). (u, if u = user then x\<lparr>ik_Status := ''inactive''\<rparr> else x)) (db_internal_keys d)\<rparr>"

definition deactivate_user :: "env \<Rightarrow> string \<Rightarrow> unit tx" where
  "deactivate_user env user =
     exec env ''internal_keys'' (''deactivate internal key for '' @ user @ '': '') (set_inactive user)"

definition ensure_in_tx :: "env \<Rightarrow> (nat \<Rightarrow> gerr + string) \<Rightarrow> string list \<Rightarrow> internal_key gomap tx" where
  "ensure_in_tx env draws users =
     then_tx (query env ''internal_keys'' ''read internal keys for synchronization: '' (\<lambda>d. sort_key fst (db_internal_keys d))) (\<lambda>rows.
     then_tx (ensure_users env draws 0 rows [] users) (\<lambda>result.
     then_tx (each_tx (deactivate_user env)
       (map fst (filter (\<lambda>(u, k). u \<notin> set users \<and> ik_Status k \<noteq> ''inactive'') rows))) (\<lambda>_.
     ok_tx result)))"

definition EnsureInternalKeys ::
  "fence \<Rightarrow> env \<Rightarrow> (nat \<Rightarrow> gerr + string) \<Rightarrow> string list \<Rightarrow> db \<Rightarrow> (gerr + internal_key gomap) \<times> db" where
  "EnsureInternalKeys fence env draws activeUsers = writeTransaction fence env (ensure_in_tx env draws (normalizedUsers activeUsers))"

end
