(* ===== verification/Row_Proofs.thy ===== *)
theory Row_Proofs
  imports Control_Keys Routes_Proofs
begin

text \<open>
  What the transactions on users do to the table of key rows, in the patterns they share: marking rows,
  appending numbered rows, checking the rows named by a receipt, and taking both back. Also the schema's
  constraints on a store, and when a transaction keeps an invariant of the store.
\<close>

section \<open>Keeping an invariant\<close>

definition keeps :: "('s \<Rightarrow> bool) \<Rightarrow> ('s, 'a) stx \<Rightarrow> bool" where
  "keeps I f \<longleftrightarrow> (\<forall>d x d'. I d \<longrightarrow> f d = Inr (x, d') \<longrightarrow> I d')"

named_theorems keeps

lemma keeps_ok [keeps]: "keeps I (ok_tx x)"
  by (simp add: keeps_def tx)

lemma keeps_fail [keeps]: "keeps I (fail_tx e)"
  by (simp add: keeps_def tx)

lemma keeps_guard [keeps]: "keeps I (guard_tx c e)"
  by (auto simp: keeps_def tx)

lemma keeps_query [keeps]: "keeps I (query env table text f)"
  by (auto simp: keeps_def tx)

lemma keeps_query_row [keeps]: "keeps I (query_row env table text f)"
  by (auto simp: keeps_def tx)

lemma keeps_then [keeps]: "keeps I f \<Longrightarrow> (\<And>x. keeps I (g x)) \<Longrightarrow> keeps I (then_tx f g)"
  unfolding keeps_def then_tx_iff by blast

lemma keeps_each [keeps]: "(\<And>x. keeps I (f x)) \<Longrightarrow> keeps I (each_tx f xs)"
  by (induction xs) (simp_all add: keeps)

lemma keeps_if [keeps]: "keeps I f \<Longrightarrow> keeps I g \<Longrightarrow> keeps I (if c then f else g)"
  by simp

lemma keeps_let [keeps]: "(\<And>x. keeps I (f x)) \<Longrightarrow> keeps I (let x = v in f x)"
  by simp

lemma keeps_option [keeps]: "keeps I f \<Longrightarrow> (\<And>x. keeps I (g x)) \<Longrightarrow> keeps I (case c of None \<Rightarrow> f | Some x \<Rightarrow> g x)"
  by (cases c) simp_all

lemma keeps_sum [keeps]: "(\<And>e. keeps I (f e)) \<Longrightarrow> (\<And>x. keeps I (g x)) \<Longrightarrow> keeps I (case c of Inl e \<Rightarrow> f e | Inr x \<Rightarrow> g x)"
  by (cases c) simp_all

lemma keeps_exec: "(\<And>d. I d \<Longrightarrow> I (f d)) \<Longrightarrow> keeps I (exec env table text f)"
  by (auto simp: keeps_def tx)

lemma keeps_exec_checked: "(\<And>d d'. I d \<Longrightarrow> f d = Inr d' \<Longrightarrow> I d') \<Longrightarrow> keeps I (exec_checked env table text f)"
  by (auto simp: keeps_def tx)

lemma keeps_writeTransaction:
  assumes "keeps I f" "I d" "writeTransaction fence env f d = (r, d')"
  shows "I d'"
  by (cases rule: writeTransaction_outcome [of fence env f d]) (use assms in \<open>auto simp: keeps_def\<close>)

section \<open>Marking rows\<close>

definition mark_as :: "string \<Rightarrow> int set \<Rightarrow> int \<Rightarrow> key_row \<Rightarrow> key_row" where
  "mark_as status S now r =
     (if fst r \<in> S \<and> is_active r then (fst r, (snd r)\<lparr>kr_Status := status, kr_UpdatedAt := now\<rparr>) else r)"

lemma fst_mark [simp]: "fst (mark_as status S now r) = fst r"
  by (simp add: mark_as_def)

lemma mark_union: "mark_as status S now (mark_as status {s} now r) = mark_as status (insert s S) now r"
  by (auto simp: mark_as_def is_active_def)

lemma mark_none [simp]: "map (mark_as status {} now) rows = rows"
  by (simp add: mark_as_def map_idI)

lemma update_is_mark:
  "update_key_rows (\<lambda>x. fst x = n \<and> is_active x) (\<lambda>k. k\<lparr>kr_Status := status, kr_UpdatedAt := now\<rparr>) d =
     d\<lparr>db_key_rows := map (mark_as status {n} now) (db_key_rows d)\<rparr>"
  by (simp add: update_key_rows_def mark_as_def cong: if_cong)

text \<open>With distinct sequence numbers the marked rows are the active rows of the user.\<close>

lemma mark_user_rows:
  assumes "distinct (map fst (db_key_rows d))" "r \<in> set (db_key_rows d)"
    "rows = filter is_active (user_key_rows user d)"
  shows "mark_as status (fst ` set rows) now r =
    (if sql_norm (kr_User (snd r)) = user \<and> is_active r then (fst r, (snd r)\<lparr>kr_Status := status, kr_UpdatedAt := now\<rparr>) else r)"
proof -
  have same: "x = r" if "x \<in> set (db_key_rows d)" "fst x = fst r" for x
    using that assms(1,2) by (metis eq_key_imp_eq_value prod.collapse)
  have "fst r \<in> fst ` set rows \<longleftrightarrow> r \<in> set rows"
    using same assms(3) by (auto simp: user_key_rows_def)
  then show ?thesis using assms(2,3) by (auto simp: mark_as_def user_key_rows_def)
qed

lemma user_rows_mem:
  "r \<in> set (user_key_rows user d) \<longleftrightarrow> r \<in> set (db_key_rows d) \<and> sql_norm (kr_User (snd r)) = user"
  by (auto simp: user_key_rows_def)

subsection \<open>Taking marks back\<close>

definition restore_row :: "int \<Rightarrow> int \<Rightarrow> db \<Rightarrow> db" where
  "restore_row n time = update_key_rows (\<lambda>x. fst x = n) (\<lambda>k. k\<lparr>kr_Status := ''active'', kr_UpdatedAt := time\<rparr>)"

lemma restore_one:
  assumes "distinct (map fst R)" "x \<in> set R" "is_active x" "fst x \<notin> S"
  shows "restore_row (fst x) (kr_UpdatedAt (snd x)) (d\<lparr>db_key_rows := map (mark_as status (insert (fst x) S) now) R\<rparr>) =
      d\<lparr>db_key_rows := map (mark_as status S now) R\<rparr>"
proof -
  have "r = x" if "r \<in> set R" "fst r = fst x" for r
    using that assms(1,2) by (metis eq_key_imp_eq_value prod.collapse)
  then have "(if fst r = fst x then (fst r, (snd (mark_as status (insert (fst x) S) now r))\<lparr>kr_Status := ''active'', kr_UpdatedAt := kr_UpdatedAt (snd x)\<rparr>)
      else mark_as status (insert (fst x) S) now r) = mark_as status S now r" if "r \<in> set R" for r
    using that assms(3,4) by (cases "fst r = fst x") (auto simp: mark_as_def is_active_def prod_eq_iff)
  then have "map (\<lambda>r. if fst r = fst x then (fst r, (snd (mark_as status (insert (fst x) S) now r))\<lparr>kr_Status := ''active'',
      kr_UpdatedAt := kr_UpdatedAt (snd x)\<rparr>) else mark_as status (insert (fst x) S) now r) R = map (mark_as status S now) R"
    by (rule map_cong [OF refl])
  then show ?thesis by (simp add: restore_row_def update_key_rows_def comp_def cong: if_cong)
qed

lemma restore_all:
  assumes "distinct (map fst R)" "set rows \<subseteq> set R" "\<forall>r \<in> set rows. is_active r" "distinct (map fst rows)"
  shows "fold (\<lambda>r. restore_row (fst r) (kr_UpdatedAt (snd r))) rows (d\<lparr>db_key_rows := map (mark_as status (fst ` set rows) now) R\<rparr>) =
    d\<lparr>db_key_rows := R\<rparr>"
  using assms(2-4)
proof (induction rows)
  case (Cons x rows)
  then show ?case using restore_one [OF assms(1), where x = x and S = "fst ` set rows" and d = d and status = status and now = now] by simp
qed simp

section \<open>Appending numbered rows\<close>

fun numbered :: "('x \<Rightarrow> key_record) \<Rightarrow> int \<Rightarrow> 'x list \<Rightarrow> key_row list" where
  "numbered mk n [] = []"
| "numbered mk n (x # xs) = (n, mk x) # numbered mk (n + 1) xs"

lemma fst_numbered: "map fst (numbered mk n xs) = map (\<lambda>i. n + int i) [0..<length xs]"
proof (induction xs arbitrary: n)
  case (Cons x xs)
  have "map (\<lambda>i. n + int i) [0..<Suc (length xs)] = n # map (\<lambda>i. n + 1 + int i) [0..<length xs]"
    by (simp only: upt_conv_Cons zero_less_Suc map_Suc_upt [symmetric] list.map map_map) (simp add: comp_def)
  with Cons show ?case by simp
qed simp

lemma snd_numbered [simp]: "map snd (numbered mk n xs) = map mk xs"
  by (induction xs arbitrary: n) simp_all

lemma numbered_mem: "r \<in> set (numbered mk n xs) \<Longrightarrow> n \<le> fst r \<and> snd r \<in> mk ` set xs"
  by (induction xs arbitrary: n) fastforce+

lemma distinct_numbers: "distinct (map (\<lambda>i. n + int i) [0..<k])"
  by (simp add: distinct_map inj_on_def)

text \<open>The rows of a store with numbered rows appended, found and deleted by their numbers.\<close>

lemma key_row_at_eq: "distinct (map fst (db_key_rows d)) \<Longrightarrow> (n, k) \<in> set (db_key_rows d) \<Longrightarrow> key_row_at n d = Some k"
  by (simp add: key_row_at_def)

lemma fold_delete_rows:
  "fold (\<lambda>n. delete_key_rows (\<lambda>x. fst x = n)) ns d = d\<lparr>db_key_rows := filter (\<lambda>x. fst x \<notin> set ns) (db_key_rows d)\<rparr>"
  by (induction ns arbitrary: d) (auto simp: delete_key_rows_def intro: arg_cong2 [where f = filter])

lemma below_next: "\<forall>r \<in> set R. fst r \<in> fst ` set (db_key_rows d) \<Longrightarrow> r \<in> set R \<Longrightarrow> fst r < next_sequence d"
  using next_sequence_fresh by fastforce

lemma appended_distinct:
  assumes "distinct (map fst R)" "\<forall>r \<in> set R. fst r < n"
  shows "distinct (map fst (R @ numbered mk n xs))"
  using assms distinct_numbers [of n "length xs"] by (fastforce simp: fst_numbered)

lemma appended_deleted:
  assumes "\<forall>r \<in> set R. fst r < n"
  shows "fold (\<lambda>n. delete_key_rows (\<lambda>x. fst x = n)) (map (\<lambda>i. n + int i) [0..<length xs]) (d\<lparr>db_key_rows := R @ numbered mk n xs\<rparr>) =
    d\<lparr>db_key_rows := R\<rparr>"
proof -
  let ?ns = "map (\<lambda>i. n + int i) [0..<length xs]"
  have "fst r \<notin> set ?ns" if "r \<in> set R" for r
    using that assms by fastforce
  then have "filter (\<lambda>x. fst x \<notin> set ?ns) R = R" by (simp add: filter_id_conv)
  moreover have "fst r \<in> set ?ns" if "r \<in> set (numbered mk n xs)" for r
    using that fst_numbered [of mk n xs] by (metis image_eqI set_map)
  then have "filter (\<lambda>x. fst x \<notin> set ?ns) (numbered mk n xs) = []" by (simp add: filter_empty_conv del: set_map)
  ultimately show ?thesis by (simp add: fold_delete_rows del: set_map)
qed

lemma appended_found:
  assumes "distinct (map fst (db_key_rows d))" "set (numbered mk n xs) \<subseteq> set (db_key_rows d)"
    "m \<in> set (map (\<lambda>i. n + int i) [0..<length xs])"
  shows "\<exists>x \<in> set xs. key_row_at m d = Some (mk x)"
proof -
  from assms(3) obtain r where r: "r \<in> set (numbered mk n xs)" "m = fst r"
    unfolding fst_numbered [of mk n xs, symmetric] by auto
  with assms(1,2) have "key_row_at m d = Some (snd r)" by (metis key_row_at_eq prod.collapse subsetD)
  then show ?thesis using numbered_mem [OF r(1)] by auto
qed


section \<open>Rows inserted one by one\<close>

lemma distinct_map_sort [simp]: "distinct (map f (sort_key g xs)) \<longleftrightarrow> distinct (map f xs)"
  by (simp add: distinct_map)

lemma insert_rows_calm:
  assumes "calm env" "distinct (map fst rows)" "fst ` set rows \<inter> fst ` set (db_key_rows d) = {}"
  shows "each_tx (\<lambda>r. exec_checked env table (text r) (insert_key_row r)) rows d =
    Inr ((), d\<lparr>db_key_rows := fold insert_row rows (db_key_rows d)\<rparr>)"
  using assms(2,3)
proof (induction rows arbitrary: d)
  case (Cons r rows)
  let ?d1 = "d\<lparr>db_key_rows := insert_row r (db_key_rows d)\<rparr>"
  have "exec_checked env table (text r) (insert_key_row r) d = Inr ((), ?d1)"
    using Cons.prems(2) assms(1) by (auto simp: exec_checked_iff insert_key_row_Inr calm_def)
  moreover have "fst ` set rows \<inter> fst ` set (db_key_rows ?d1) = {}" using Cons.prems by auto
  ultimately show ?case using Cons.IH [of ?d1] Cons.prems(1) by (simp add: then_tx_eq)
qed (simp add: ok_tx_def)

lemma fold_insert_row:
  assumes "rows_ordered R" "distinct (map fst rows)" "fst ` set rows \<inter> fst ` set R = {}"
  shows "set (fold insert_row rows R) = set rows \<union> set R \<and> rows_ordered (fold insert_row rows R)"
  using assms
proof (induction rows arbitrary: R)
  case (Cons r rows)
  have "rows_ordered (insert_row r R)" using Cons.prems(1,3) by (intro insert_row_ordered) auto
  moreover have "fst ` set rows \<inter> fst ` set (insert_row r R) = {}" using Cons.prems(2,3) by auto
  ultimately show ?case using Cons.IH [of "insert_row r R"] Cons.prems(2) by auto
qed simp

text \<open>Rows taken out of an ordered table and inserted again, in any order, give the table back.\<close>

lemma rows_taken_and_restored:
  assumes "rows_ordered R" "set taken = {r \<in> set R. P r}" "distinct (map fst taken)"
  shows "fold insert_row taken (filter (\<lambda>r. \<not> P r) R) = R" "fst ` set taken \<inter> fst ` set (filter (\<lambda>r. \<not> P r) R) = {}"
proof -
  have same: "x = y" if "x \<in> set R" "y \<in> set R" "fst x = fst y" for x y
    using that rows_ordered_distinct [OF assms(1)] by (metis eq_key_imp_eq_value prod.collapse)
  then show disjoint: "fst ` set taken \<inter> fst ` set (filter (\<lambda>r. \<not> P r) R) = {}"
    using assms(2) by (auto simp: image_iff)
  have "rows_ordered (filter (\<lambda>r. \<not> P r) R)" using assms(1) by simp
  from fold_insert_row [OF this assms(3) disjoint] show "fold insert_row taken (filter (\<lambda>r. \<not> P r) R) = R"
    using assms(1,2) by (intro rows_ordered_unique) auto
qed

section \<open>The constraints of the schema\<close>

definition team_exists :: "strset \<Rightarrow> membership \<Rightarrow> bool" where
  "team_exists teams m \<longleftrightarrow> (case ms_TeamID m of None \<Rightarrow> True | Some t \<Rightarrow> t \<in> set teams)"

definition schema_ok :: "db \<Rightarrow> bool" where
  "schema_ok d \<longleftrightarrow>
     distinct (map ar_id (db_accounts d)) \<and> distinct (map ar_email (db_accounts d)) \<and> distinct (map ar_port (db_accounts d)) \<and>
     rows_ordered (db_key_rows d) \<and> wf_map (db_user_routes d) \<and>
     wf_map (db_internal_keys d) \<and> distinct (map (\<lambda>(_, k). ik_Key k) (db_internal_keys d)) \<and>
     wf_map (db_memberships d) \<and>
     list_all (\<lambda>(_, m). team_exists (db_teams d) m) (db_memberships d) \<and>
     distinct (map fst (db_user_tags d)) \<and> list_all (\<lambda>((_, tag), _). tag \<in> set (db_tags d)) (db_user_tags d)"

lemma schema_key_rows: "schema_ok d \<Longrightarrow> rows_ordered (db_key_rows d) \<and> distinct (map fst (db_key_rows d))"
  using rows_ordered_distinct by (auto simp: schema_ok_def)

lemma schema_member:
  assumes "schema_ok d" "map_of (db_memberships d) u = Some m" "ms_TeamID m = Some t"
  shows "t \<in> set (db_teams d)"
  using assms(1,3) map_of_SomeD [OF assms(2)] by (force simp: schema_ok_def team_exists_def list_all_iff)

end
