(* ===== verification/Keys_Proofs.thy ===== *)
theory Keys_Proofs
  imports Row_Proofs
begin

text \<open>
  Rotating a user's key, undoing a rotation, and synchronising the internal keys: what the transactions
  of \<open>Control_Keys\<close> do to the tables.
\<close>

section \<open>What a rotation writes\<close>

abbreviation mark_rotated :: "int set \<Rightarrow> int \<Rightarrow> key_row \<Rightarrow> key_row" where
  "mark_rotated \<equiv> mark_as ''rotated''"

definition replacement :: "string \<Rightarrow> string \<Rightarrow> int \<Rightarrow> key_row \<Rightarrow> key_record" where
  "replacement user newKey now r =
     active_key_row (kr_Label (snd r)) (kr_Account (snd r)) (kr_AccountEmail (snd r)) user newKey now"

abbreviation replacement_rows :: "string \<Rightarrow> string \<Rightarrow> int \<Rightarrow> int \<Rightarrow> key_row list \<Rightarrow> key_row list" where
  "replacement_rows user newKey now \<equiv> numbered (replacement user newKey now)"

lemma rotate_rows_effect:
  assumes "rotate_rows env user newKey now n rows d = Inr (u, d')"
    "\<forall>x \<in> set (db_key_rows d). fst x < n" "\<forall>x \<in> set rows. fst x < n"
  shows "d' = d\<lparr>db_key_rows := map (mark_rotated (fst ` set rows) now) (db_key_rows d) @ replacement_rows user newKey now n rows\<rparr>"
  using assms
proof (induction rows arbitrary: n d)
  case Nil
  then show ?case by (simp add: tx)
next
  case (Cons r rows)
  define new where "new = (n, replacement user newKey now r)"
  define d1 where "d1 = d\<lparr>db_key_rows := map (mark_rotated {fst r} now) (db_key_rows d)\<rparr>"
  have marked: "update_key_rows (\<lambda>x. fst x = fst r \<and> is_active x) (\<lambda>k. k\<lparr>kr_Status := ''rotated'', kr_UpdatedAt := now\<rparr>) d = d1"
    by (simp add: update_is_mark d1_def)
  have "insert_row new (db_key_rows d1) = db_key_rows d1 @ [new]"
    using Cons.prems(2) by (intro insert_row_last) (auto simp: d1_def new_def)
  then have "rotate_rows env user newKey now (n + 1) rows (d1\<lparr>db_key_rows := db_key_rows d1 @ [new]\<rparr>) = Inr (u, d')"
    using Cons.prems(1) by (auto simp: tx marked insert_key_row_Inr new_def replacement_def)
  moreover have "\<forall>x \<in> set (db_key_rows d1 @ [new]). fst x < n + 1"
    using Cons.prems(2) by (auto simp: d1_def new_def zless_add1_eq)
  moreover have "\<forall>x \<in> set rows. fst x < n + 1" using Cons.prems(3) by (auto intro: less_imp_le)
  ultimately have "d' = d1\<lparr>db_key_rows := map (mark_rotated (fst ` set rows) now) (db_key_rows d1 @ [new]) @
      replacement_rows user newKey now (n + 1) rows\<rparr>"
    using Cons.IH [of "n + 1" "d1\<lparr>db_key_rows := db_key_rows d1 @ [new]\<rparr>"] by simp
  moreover have "mark_rotated (fst ` set rows) now new = new"
    using Cons.prems(3) by (auto simp: mark_as_def new_def)
  ultimately show ?case by (simp add: d1_def mark_union comp_def) (simp add: new_def)
qed

lemma rotation_rows_none:
  "rotation_rows_error oldKey seen rows = None \<longleftrightarrow> (\<forall>r \<in> set rows. kr_Key (snd r) = oldKey \<and> kr_Account (snd r) \<notin> set seen) \<and>
     distinct (map (\<lambda>r. kr_Account (snd r)) rows)"
  by (induction rows arbitrary: seen) (auto simp: image_iff)

lemma rotation_effect:
  assumes "ApplyUserKeyRotationExpected fence env rawUser expectedKey rawNewKey d = (Inr rotation, d')"
  defines "user \<equiv> norm_name rawUser" and "rows \<equiv> filter is_active (user_key_rows (norm_name rawUser) d)"
  defines "now \<equiv> unix_of (ev_now env)"
  shows "d' = d\<lparr>db_key_rows := map (mark_rotated (fst ` set rows) now) (db_key_rows d) @
      replacement_rows user (trim_space rawNewKey) now (next_sequence d) rows\<rparr>"
    "rotation = \<lparr>kn_User = user, kn_OldKey = trim_space expectedKey, kn_NewKey = trim_space rawNewKey,
       kn_RotatedRows = map (\<lambda>r. \<lparr>rw_Sequence = fst r, rw_UpdatedAt = kr_UpdatedAt (snd r)\<rparr>) rows,
       kn_CreatedRows = map (\<lambda>i. next_sequence d + int i) [0..<length rows]\<rparr>"
    "user \<noteq> []" "trim_space expectedKey \<noteq> []" "trim_space rawNewKey \<noteq> []" "trim_space expectedKey \<noteq> trim_space rawNewKey"
    "rows \<noteq> []" "\<forall>r \<in> set rows. kr_Key (snd r) = trim_space expectedKey"
    "distinct (map (\<lambda>r. kr_Account (snd r)) rows)"
    "length rows = length (db_accounts d)" "ar_id ` set (db_accounts d) \<subseteq> (\<lambda>r. kr_Account (snd r)) ` set rows"
    "\<forall>r \<in> set (db_key_rows d). kr_Key (snd r) \<noteq> trim_space rawNewKey"
proof -
  let ?new = "trim_space rawNewKey" and ?old = "trim_space expectedKey"
  from assms(1) have input: "user \<noteq> []" "?old \<noteq> []" "?new \<noteq> []" "?old \<noteq> ?new"
    and run: "writeTransaction fence env (rotate_in_tx env user ?old ?new) d = (Inr rotation, d')"
    by (auto simp: ApplyUserKeyRotationExpected_def Let_def user_def split: if_splits)
  have rows_mem: "r \<in> set (db_key_rows d)" if "r \<in> set rows" for r
    using that by (simp add: rows_def user_key_rows_def)
  obtain u where steps: "rotate_rows env user ?new now (next_sequence d) rows d = Inr (u, d')"
    "filter (\<lambda>r. kr_Key (snd r) = ?new) (db_key_rows d) = []" "rows \<noteq> []" "rotation_rows_error ?old [] rows = None"
    "length rows = length (db_accounts d)" "ar_id ` set (db_accounts d) \<subseteq> (\<lambda>r. kr_Account (snd r)) ` set rows"
    and result: "rotation = \<lparr>kn_User = user, kn_OldKey = ?old, kn_NewKey = ?new,
       kn_RotatedRows = map (\<lambda>r. \<lparr>rw_Sequence = fst r, rw_UpdatedAt = kr_UpdatedAt (snd r)\<rparr>) rows,
       kn_CreatedRows = map (\<lambda>i. next_sequence d + int i) [0..<length rows]\<rparr>"
    using writeTransaction_Inr(2) [OF run]
    by (auto simp: rotate_in_tx_def read_account_ids_def tx rows_def user_def now_def split: option.splits)
  show "d' = d\<lparr>db_key_rows := map (mark_rotated (fst ` set rows) now) (db_key_rows d) @
      replacement_rows user ?new now (next_sequence d) rows\<rparr>"
    by (rule rotate_rows_effect [OF steps(1)]) (use next_sequence_fresh rows_mem in blast)+
  show "rotation = \<lparr>kn_User = user, kn_OldKey = ?old, kn_NewKey = ?new,
       kn_RotatedRows = map (\<lambda>r. \<lparr>rw_Sequence = fst r, rw_UpdatedAt = kr_UpdatedAt (snd r)\<rparr>) rows,
       kn_CreatedRows = map (\<lambda>i. next_sequence d + int i) [0..<length rows]\<rparr>" by (rule result)
  show "user \<noteq> []" "?old \<noteq> []" "?new \<noteq> []" "?old \<noteq> ?new" by (rule input)+
  show "rows \<noteq> []" by (rule steps(3))
  show "\<forall>r \<in> set rows. kr_Key (snd r) = ?old" and accounts: "distinct (map (\<lambda>r. kr_Account (snd r)) rows)"
    using steps(4) by (auto simp: rotation_rows_none)
  show "\<forall>r \<in> set (db_key_rows d). kr_Key (snd r) \<noteq> ?new" using steps(2) by (auto simp: filter_empty_conv)
  show "length rows = length (db_accounts d)" "ar_id ` set (db_accounts d) \<subseteq> (\<lambda>r. kr_Account (snd r)) ` set rows"
    by (rule steps(5) steps(6))+
qed

lemma same_length_mset:
  assumes "distinct xs" "distinct ys" "length xs = length ys" "set ys \<subseteq> set xs"
  shows "mset xs = mset ys"
proof -
  have "set ys = set xs"
    using assms by (intro card_subset_eq) (simp_all add: distinct_card)
  then show ?thesis using assms(1,2) by (metis set_eq_iff_mset_eq_distinct)
qed

lemma replacement_rows_props:
  "map (\<lambda>r. kr_Account (snd r)) (replacement_rows user newKey now n rows) = map (\<lambda>r. kr_Account (snd r)) rows"
  "r \<in> set (replacement_rows user newKey now n rows) \<Longrightarrow> is_active r \<and> kr_User (snd r) = user \<and> kr_Key (snd r) = newKey"
  by (induction rows arbitrary: n) (auto simp: replacement_def active_key_row_def is_active_def)

lemma rotation_outcome:
  assumes "ApplyUserKeyRotationExpected fence env rawUser expectedKey rawNewKey d = (Inr rotation, d')"
    "distinct (map fst (db_key_rows d))" "distinct (map ar_id (db_accounts d))"
  shows "mset (map (\<lambda>r. kr_Account (snd r)) (filter is_active (user_key_rows (norm_name rawUser) d'))) =
      mset (map ar_id (db_accounts d))"
    and "list_all (\<lambda>r. kr_Key (snd r) = trim_space rawNewKey) (filter is_active (user_key_rows (norm_name rawUser) d'))"
    and "list_all (\<lambda>r. kr_Key (snd r) \<noteq> trim_space rawNewKey) (db_key_rows d)"
    and "u \<noteq> norm_name rawUser \<Longrightarrow> user_key_rows u d' = user_key_rows u d"
    and "list_all (\<lambda>r. is_active r \<longrightarrow> (fst r, (snd r)\<lparr>kr_Status := ''rotated'', kr_UpdatedAt := unix_of (ev_now env)\<rparr>) \<in> set (db_key_rows d'))
      (user_key_rows (norm_name rawUser) d)"
    and "d' = d\<lparr>db_key_rows := db_key_rows d'\<rparr>"
proof -
  let ?user = "norm_name rawUser" and ?new = "trim_space rawNewKey" and ?now = "unix_of (ev_now env)"
  define rows where "rows = filter is_active (user_key_rows ?user d)"
  note effect = rotation_effect [OF assms(1), folded rows_def]
  let ?fresh = "replacement_rows ?user ?new ?now (next_sequence d) rows"
  define marked where "marked = map (mark_rotated (fst ` set rows) ?now) (db_key_rows d)"
  have d': "db_key_rows d' = marked @ ?fresh" using effect(1) by (simp add: marked_def)
  have mark: "mark_rotated (fst ` set rows) ?now r = (if sql_norm (kr_User (snd r)) = ?user \<and> is_active r
      then (fst r, (snd r)\<lparr>kr_Status := ''rotated'', kr_UpdatedAt := ?now\<rparr>) else r)" if "r \<in> set (db_key_rows d)" for r
    by (rule mark_user_rows [OF assms(2) that rows_def])
  have "filter is_active (filter (\<lambda>r. sql_norm (kr_User (snd r)) = ?user) marked) = []"
    unfolding marked_def filter_empty_conv by (auto simp: mark is_active_def)
  moreover have "filter is_active (filter (\<lambda>r. sql_norm (kr_User (snd r)) = ?user) ?fresh) = ?fresh"
    using replacement_rows_props(2) by (simp add: filter_id_conv)
  ultimately have active: "filter is_active (user_key_rows ?user d') = ?fresh" by (simp add: user_key_rows_def d')
  show "mset (map (\<lambda>r. kr_Account (snd r)) (filter is_active (user_key_rows ?user d'))) = mset (map ar_id (db_accounts d))"
    unfolding active replacement_rows_props(1)
    by (rule same_length_mset) (use effect(9-11) assms(3) in simp_all)
  show "list_all (\<lambda>r. kr_Key (snd r) = ?new) (filter is_active (user_key_rows ?user d'))"
    unfolding active list_all_iff using replacement_rows_props(2) by blast
  show "list_all (\<lambda>r. kr_Key (snd r) \<noteq> ?new) (db_key_rows d)" using effect(12) by (simp add: list_all_iff)
  show "d' = d\<lparr>db_key_rows := db_key_rows d'\<rparr>" unfolding d' using effect(1) by (simp add: marked_def)
  show "user_key_rows u d' = user_key_rows u d" if "u \<noteq> ?user"
  proof -
    have "filter (\<lambda>r. sql_norm (kr_User (snd r)) = u) (map (mark_rotated (fst ` set rows) ?now) xs) =
        filter (\<lambda>r. sql_norm (kr_User (snd r)) = u) xs" if "set xs \<subseteq> set (db_key_rows d)" for xs
      using that \<open>u \<noteq> ?user\<close> by (induction xs) (auto simp: mark)
    moreover have "filter (\<lambda>r. sql_norm (kr_User (snd r)) = u) ?fresh = []"
      using replacement_rows_props(2) that by (auto simp: filter_empty_conv)
    ultimately show ?thesis by (simp add: user_key_rows_def d' marked_def)
  qed
  show "list_all (\<lambda>r. is_active r \<longrightarrow> (fst r, (snd r)\<lparr>kr_Status := ''rotated'', kr_UpdatedAt := ?now\<rparr>) \<in> set (db_key_rows d'))
      (user_key_rows ?user d)"
    unfolding list_all_iff
  proof (intro ballI impI)
    fix r assume "r \<in> set (user_key_rows ?user d)" "is_active r"
    then show "(fst r, (snd r)\<lparr>kr_Status := ''rotated'', kr_UpdatedAt := ?now\<rparr>) \<in> set (db_key_rows d')"
      using mark [of r] by (force simp: user_key_rows_def d' marked_def image_iff)
  qed
qed

text \<open>
  C30: a successful rotation replaces the key of one user everywhere and nothing else. On a store with
  distinct sequence numbers and account ids: afterwards the active rows of the user are exactly one per
  account of the catalog, all with the new key, which no row of the store had before; the rows of every
  other user are the same rows; every old row of the user that was active is now marked rotated with its
  key kept; and no other table changes.
\<close>

theorem rotation_replaces_key:
  assumes "ApplyUserKeyRotationExpected fence env rawUser expectedKey rawNewKey d = (Inr rotation, d')"
    "distinct (map fst (db_key_rows d))" "distinct (map ar_id (db_accounts d))"
  shows "mset (map (\<lambda>r. kr_Account (snd r)) (filter is_active (user_key_rows (norm_name rawUser) d'))) =
      mset (map ar_id (db_accounts d)) \<and>
    list_all (\<lambda>r. kr_Key (snd r) = trim_space rawNewKey) (filter is_active (user_key_rows (norm_name rawUser) d')) \<and>
    list_all (\<lambda>r. kr_Key (snd r) \<noteq> trim_space rawNewKey) (db_key_rows d) \<and>
    (\<forall>u. u \<noteq> norm_name rawUser \<longrightarrow> user_key_rows u d' = user_key_rows u d) \<and>
    list_all (\<lambda>r. is_active r \<longrightarrow> (fst r, (snd r)\<lparr>kr_Status := ''rotated'', kr_UpdatedAt := unix_of (ev_now env)\<rparr>) \<in> set (db_key_rows d'))
      (user_key_rows (norm_name rawUser) d) \<and>
    d' = d\<lparr>db_key_rows := db_key_rows d'\<rparr>"
  using rotation_outcome [OF assms] by blast

section \<open>Undoing a rotation\<close>

lemma check_rotation_row_iff [tx]:
  "check_rotation_row env text user status secret sequence d = Inr (u, d') \<longleftrightarrow>
     ev_fault env (SqlRead ''key_records'' (text @ itoa sequence @ '' for rollback: '')) = None \<and> d' = d \<and>
     (\<exists>row. key_row_at sequence d = Some row \<and> EqualFold (kr_User row) user \<and> kr_Status row = status \<and> kr_Key row = secret)"
  by (auto simp: check_rotation_row_def tx)

text \<open>
  A rotation can be undone. On a store whose rows are ordered by sequence and whose active rows of the
  user carry the user's name without surrounding spaces, restoring right after a successful rotation
  succeeds (when the write fence still holds and no call fails) and gives back exactly the store before it.
\<close>

theorem rotation_is_undone:
  assumes "ApplyUserKeyRotationExpected fence env rawUser expectedKey rawNewKey d = (Inr rotation, d')"
    "rows_ordered (db_key_rows d)"
    "list_all (\<lambda>r. is_active r \<longrightarrow> EqualFold (kr_User (snd r)) (norm_name rawUser)) (user_key_rows (norm_name rawUser) d)"
    "calm env'" "validateWriteFence fence' env' d' = None"
  shows "RestoreUserKeyRotation fence' env' rotation d' = (Inr (), d)"
proof -
  let ?user = "norm_name rawUser" and ?new = "trim_space rawNewKey" and ?old = "trim_space expectedKey"
  let ?now = "unix_of (ev_now env)"
  define rows where "rows = filter is_active (user_key_rows ?user d)"
  note effect = rotation_effect [OF assms(1), folded rows_def]
  let ?fresh = "replacement_rows ?user ?new ?now (next_sequence d) rows"
  define marked where "marked = map (mark_rotated (fst ` set rows) ?now) (db_key_rows d)"
  have d': "d' = d\<lparr>db_key_rows := marked @ ?fresh\<rparr>" using effect(1) by (simp add: marked_def)
  have created: "kn_CreatedRows rotation = map (\<lambda>i. next_sequence d + int i) [0..<length rows]" using effect(2) by simp
  have keys: "distinct (map fst (db_key_rows d))" using assms(2) by (rule rows_ordered_distinct)
  have mem: "r \<in> set (db_key_rows d)" "is_active r" if "r \<in> set rows" for r
    using that by (simp_all add: rows_def user_key_rows_def)
  have mine: "EqualFold (kr_User (snd r)) ?user" "kr_Key (snd r) = ?old" if r: "r \<in> set rows" for r
    using r assms(3) effect(8) [rule_format, OF r] unfolding rows_def list_all_iff by simp_all
  have below: "\<forall>r \<in> set marked. fst r < next_sequence d"
    using next_sequence_fresh by (auto simp: marked_def)
  have "distinct (map fst marked)" using keys by (simp add: marked_def comp_def)
  then have keys': "distinct (map fst (db_key_rows d'))" using appended_distinct [OF _ below] by (simp add: d')
  have created_ok: "\<exists>row. key_row_at n d' = Some row \<and> EqualFold (kr_User row) ?user \<and> kr_Status row = ''active'' \<and> kr_Key row = ?new"
    if "n \<in> set (kn_CreatedRows rotation)" for n
    using appended_found [OF keys', of "replacement ?user ?new ?now" "next_sequence d" rows n] that
    by (auto simp: created d' replacement_def active_key_row_def EqualFold_def)
  have rotated_ok: "\<exists>k. key_row_at (fst r) d' = Some k \<and> EqualFold (kr_User k) ?user \<and> kr_Status k = ''rotated'' \<and> kr_Key k = ?old"
    if "r \<in> set rows" for r
  proof -
    have "mark_rotated (fst ` set rows) ?now r = (fst r, (snd r)\<lparr>kr_Status := ''rotated'', kr_UpdatedAt := ?now\<rparr>)"
      using that mem(2) by (simp add: mark_as_def)
    then have "(fst r, (snd r)\<lparr>kr_Status := ''rotated'', kr_UpdatedAt := ?now\<rparr>) \<in> set (db_key_rows d')"
      using mem(1) [OF that] by (force simp: d' marked_def)
    then show ?thesis using key_row_at_eq [OF keys'] mine [OF that] by fastforce
  qed
  have deleted: "fold (\<lambda>n. delete_key_rows (\<lambda>x. fst x = n)) (kn_CreatedRows rotation) d' = d\<lparr>db_key_rows := marked\<rparr>"
    using appended_deleted [OF below] by (simp add: created d')
  have restored: "fold (\<lambda>row. restore_row (rw_Sequence row) (rw_UpdatedAt row)) (kn_RotatedRows rotation) (d\<lparr>db_key_rows := marked\<rparr>) = d"
  proof -
    have "set rows \<subseteq> set (db_key_rows d)" "\<forall>r \<in> set rows. is_active r" using mem by blast+
    moreover have "distinct (map fst rows)" by (simp add: rows_def user_key_rows_def distinct_map_filter keys)
    ultimately show ?thesis using restore_all [OF keys, where rows = rows and d = d and status = "''rotated''" and now = ?now] by (simp add: marked_def effect(2) fold_map comp_def)
  qed
  have "restore_rotation_in_tx env' rotation d' = Inr ((), d)"
  proof -
    have "each_tx (check_rotation_row env' ''read replacement user key row '' (kn_User rotation) ''active'' (kn_NewKey rotation))
        (kn_CreatedRows rotation) d' = Inr ((), d')"
      using assms(4) created_ok effect(2) by (intro each_tx_pass) (auto simp: check_rotation_row_iff calm_def)
    moreover have "each_tx (\<lambda>row. check_rotation_row env' ''read rotated user key row '' (kn_User rotation) ''rotated''
        (kn_OldKey rotation) (rw_Sequence row)) (kn_RotatedRows rotation) d' = Inr ((), d')"
      using assms(4) rotated_ok effect(2) by (intro each_tx_pass) (auto simp: check_rotation_row_iff calm_def)
    ultimately show ?thesis
      using assms(4) deleted restored
      by (simp add: restore_rotation_in_tx_def then_tx_eq restore_row_def [symmetric])
  qed
  moreover have "kn_User rotation \<noteq> []" "kn_OldKey rotation \<noteq> []" "kn_NewKey rotation \<noteq> []" "kn_RotatedRows rotation \<noteq> []"
    "length (kn_RotatedRows rotation) = length (kn_CreatedRows rotation)"
    using effect(2-5,7) by simp_all
  ultimately show ?thesis
    using assms(4,5) by (simp add: RestoreUserKeyRotation_def writeTransaction_calm)
qed

section \<open>Synchronising the internal keys\<close>

definition fresh_internal :: "int \<Rightarrow> internal_key \<Rightarrow> bool" where
  "fresh_internal now k \<longleftrightarrow> (\<exists>raw. k = \<lparr>ik_Key = internalKeyPrefix @ hex_encode raw, ik_CreatedAt = now, ik_Status = ''active''\<rparr>)"

abbreviation activated :: "internal_key \<Rightarrow> internal_key" where "activated k \<equiv> k\<lparr>ik_Status := ''active''\<rparr>"

abbreviation deactivated :: "internal_key \<Rightarrow> internal_key" where "deactivated k \<equiv> k\<lparr>ik_Status := ''inactive''\<rparr>"

lemma map_of_if: "map_of (map (\<lambda>(u, x). (u, if u = v then f x else x)) m) w =
    (if w = v then map_option f (map_of m w) else map_of m w)"
  by (induction m) auto

lemma keys_of_if [simp]: "map fst (map (\<lambda>(u, x). (u, if u = v then f x else x)) m) = map fst m"
  by (induction m) auto

lemma fst_comp_if [simp]: "fst \<circ> (\<lambda>(u, x). (u, if u = v then f x else x)) = fst"
  by (auto simp: fun_eq_iff)

lemma insert_internal_key_Inr: "insert_internal_key user k d = Inr d' \<longleftrightarrow> map_of (db_internal_keys d) user = None \<and>
    \<not> secret_taken user (ik_Key k) d \<and> d' = d\<lparr>db_internal_keys := mput user k (db_internal_keys d)\<rparr>"
  by (auto simp: insert_internal_key_def upsert_internal_key_def constraint_failed_def)

definition ensured :: "int \<Rightarrow> internal_key gomap \<Rightarrow> internal_key gomap \<Rightarrow> string list \<Rightarrow> db \<Rightarrow> internal_key gomap \<Rightarrow> db \<Rightarrow> bool" where
  "ensured now existing result users d result' d' \<longleftrightarrow>
     d' = d\<lparr>db_internal_keys := db_internal_keys d'\<rparr> \<and> wf_map (db_internal_keys d') \<and>
     (\<forall>u. u \<notin> set users \<longrightarrow> map_of (db_internal_keys d') u = map_of (db_internal_keys d) u \<and> map_of result' u = map_of result u) \<and>
     (\<forall>u \<in> set users. map_of result' u = map_of (db_internal_keys d') u \<and>
        (case map_of existing u of Some k \<Rightarrow> map_of result' u = Some (activated k)
         | None \<Rightarrow> \<exists>k. map_of result' u = Some k \<and> fresh_internal now k))"

lemma ensured_step:
  assumes "ensured now E (mput user k result) users d1 result' d'" "user \<notin> set users"
    "d1 = d\<lparr>db_internal_keys := K\<rparr>" "map_of K user = Some k"
    "\<And>u. u \<noteq> user \<Longrightarrow> map_of K u = map_of (db_internal_keys d) u"
    "case map_of E user of Some x \<Rightarrow> k = activated x | None \<Rightarrow> fresh_internal now k"
  shows "ensured now E result (user # users) d result' d'"
  using assms(1,2,4-6) unfolding ensured_def assms(3) by (auto split: option.splits)

lemma ensure_users_effect:
  assumes "ensure_users env draws n E result users d = Inr (result', d')" "distinct users" "wf_map (db_internal_keys d)"
    "\<forall>u \<in> set users. map_of (db_internal_keys d) u = map_of E u"
  shows "ensured (unix_of (ev_now env)) E result users d result' d'"
  using assms
proof (induction users arbitrary: n result d)
  case Nil
  then show ?case by (simp add: tx ensured_def)
next
  case (Cons user users)
  have rest: "ensured (unix_of (ev_now env)) E result (user # users) d result' d'"
    if run: "ensure_users env draws m E (mput user k result) users d1 = Inr (result', d')"
      and d1: "d1 = d\<lparr>db_internal_keys := K\<rparr>" "wf_map K" "map_of K user = Some k"
        "\<And>u. u \<noteq> user \<Longrightarrow> map_of K u = map_of (db_internal_keys d) u"
      and k: "case map_of E user of Some x \<Rightarrow> k = activated x | None \<Rightarrow> fresh_internal (unix_of (ev_now env)) k"
    for m k d1 K
  proof (rule ensured_step [where K = K, OF Cons.IH [OF run]])
    show "\<forall>u \<in> set users. map_of (db_internal_keys d1) u = map_of E u"
    proof
      fix u assume "u \<in> set users"
      moreover from this Cons.prems(2) have "u \<noteq> user" by auto
      ultimately show "map_of (db_internal_keys d1) u = map_of E u" using d1(1,4) Cons.prems(4) by simp
    qed
  qed (use Cons.prems(2) d1 k in simp_all)
  show ?case
  proof (cases "map_of E user")
    case None
    with Cons.prems(1) obtain raw where
      "ensure_users env draws (n + 1) E (mput user \<lparr>ik_Key = internalKeyPrefix @ hex_encode raw,
         ik_CreatedAt = unix_of (ev_now env), ik_Status = ''active''\<rparr> result) users
       (d\<lparr>db_internal_keys := mput user \<lparr>ik_Key = internalKeyPrefix @ hex_encode raw,
         ik_CreatedAt = unix_of (ev_now env), ik_Status = ''active''\<rparr> (db_internal_keys d)\<rparr>) = Inr (result', d')"
      by (auto simp: newInternalKey_def tx insert_internal_key_Inr Let_def split: sum.splits)
    then show ?thesis
      by (rule rest [OF _ refl]) (use None Cons.prems(3) in \<open>auto simp: fresh_internal_def\<close>)
  next
    case (Some k)
    show ?thesis
    proof (cases "ik_Status k = ''active''")
      case True
      with Some Cons.prems(1) have "ensure_users env draws n E (mput user k result) users d = Inr (result', d')" by simp
      then show ?thesis
        by (rule rest [where K = "db_internal_keys d"]) (use Some True Cons.prems in auto)
    next
      case False
      with Some Cons.prems(1) have "ensure_users env draws n E (mput user (activated k) result) users
          (d\<lparr>db_internal_keys := map (\<lambda>(u, x). (u, if u = user then activated x else x)) (db_internal_keys d)\<rparr>) = Inr (result', d')"
        by (auto simp: tx)
      then show ?thesis
        by (rule rest [OF _ refl]) (use Some Cons.prems in \<open>auto simp: map_of_if\<close>)
    qed
  qed
qed

lemma fold_set_inactive_keys: "map fst (db_internal_keys (fold set_inactive vs d)) = map fst (db_internal_keys d)"
  by (induction vs arbitrary: d) (auto simp: set_inactive_def)

lemma fold_set_inactive_only: "\<exists>K. fold set_inactive vs d = d\<lparr>db_internal_keys := K\<rparr>"
proof (induction vs arbitrary: d)
  case (Cons v vs)
  from Cons.IH [of "set_inactive v d"] show ?case by (auto simp: set_inactive_def)
qed (metis db.surjective db.update_convs(5) fold_Nil id_apply)

lemma fold_set_inactive:
  "map_of (db_internal_keys (fold set_inactive vs d)) u =
     (if u \<in> set vs then map_option deactivated (map_of (db_internal_keys d) u) else map_of (db_internal_keys d) u)"
  by (induction vs arbitrary: d) (auto simp: set_inactive_def map_of_if option.map_comp comp_def)

lemma distinct_normalizedUsers [simp]: "distinct (normalizedUsers us)"
  by (simp add: normalizedUsers_def)

text \<open>
  After a successful synchronisation the internal keys are exactly right: every requested user has an
  active key, which is the old one (same secret, same creation time) if the user had one and a fresh one
  otherwise; every other key of the store is kept with its secret but inactive; no other key appears; the
  returned map is that of the requested users; and no other table changes.
\<close>

theorem internal_keys_synchronised:
  assumes "EnsureInternalKeys fence env draws activeUsers d = (Inr result, d')" "wf_map (db_internal_keys d)"
  shows "d' = d\<lparr>db_internal_keys := db_internal_keys d'\<rparr> \<and> wf_map (db_internal_keys d') \<and>
    (\<forall>u. if u \<in> set (normalizedUsers activeUsers)
       then map_of (db_internal_keys d') u = map_of result u \<and>
            (case map_of (db_internal_keys d) u of Some k \<Rightarrow> map_of result u = Some (k\<lparr>ik_Status := ''active''\<rparr>)
             | None \<Rightarrow> \<exists>k. map_of result u = Some k \<and> fresh_internal (unix_of (ev_now env)) k)
       else map_of (db_internal_keys d') u = map_option (\<lambda>k. k\<lparr>ik_Status := ''inactive''\<rparr>) (map_of (db_internal_keys d) u) \<and>
            map_of result u = None)"
proof -
  define users where "users = normalizedUsers activeUsers"
  define rows where "rows = sort_key fst (db_internal_keys d)"
  have rows: "map_of rows u = map_of (db_internal_keys d) u" for u
    by (simp add: rows_def map_of_marshal assms(2))
  define off where "off = map fst (filter (\<lambda>(u, k). u \<notin> set users \<and> ik_Status k \<noteq> ''inactive'') rows)"
  from writeTransaction_Inr(2) [OF assms(1) [unfolded EnsureInternalKeys_def]] obtain d1 u where
    first: "ensure_users env draws 0 rows [] users d = Inr (result, d1)" and
    "each_tx (deactivate_user env) off d1 = Inr (u, d')"
    by (auto simp: ensure_in_tx_def tx users_def rows_def off_def)
  then have second: "d' = fold set_inactive off d1"
    unfolding deactivate_user_def using each_exec_fold by fastforce
  have ensured: "ensured (unix_of (ev_now env)) rows [] users d result d1"
    by (rule ensure_users_effect [OF first]) (simp_all add: users_def assms(2) rows)
  have off: "u \<in> set off \<longleftrightarrow> u \<notin> set users \<and> (\<exists>k. map_of (db_internal_keys d) u = Some k \<and> ik_Status k \<noteq> ''inactive'')" for u
    using assms(2) by (force simp: off_def rows_def)
  have kept: "map_of (db_internal_keys d') u = map_of (db_internal_keys d1) u" if "u \<in> set users" for u
    using that off [of u] by (simp add: second fold_set_inactive)
  have others: "map_of (db_internal_keys d') u = map_option deactivated (map_of (db_internal_keys d) u)" if "u \<notin> set users" for u
    using that off [of u] ensured unfolding ensured_def
    by (cases "map_of (db_internal_keys d) u") (auto simp: second fold_set_inactive)
  have "d' = d\<lparr>db_internal_keys := db_internal_keys d'\<rparr>"
    using fold_set_inactive_only [of off d1] ensured unfolding second ensured_def
    by (metis (no_types, lifting) db.surjective db.update_convs(5))
  moreover have "wf_map (db_internal_keys d')" using ensured by (simp add: second fold_set_inactive_keys ensured_def)
  moreover have "map_of result u = None" if "u \<notin> set users" for u using ensured that by (simp add: ensured_def)
  ultimately show ?thesis
    using kept others ensured unfolding ensured_def users_def [symmetric] rows by simp
qed

section \<open>Applied to a concrete store\<close>

definition ex_rotation :: key_rotation where
  "ex_rotation = \<lparr>kn_User = ''amy'', kn_OldKey = ''s'', kn_NewKey = ''s2'',
     kn_RotatedRows = [\<lparr>rw_Sequence = 0, rw_UpdatedAt = 1\<rparr>, \<lparr>rw_Sequence = 1, rw_UpdatedAt = 1\<rparr>], kn_CreatedRows = [3, 4]\<rparr>"

definition ex_rotated_db :: db where
  "ex_rotated_db = ex_routes_db\<lparr>db_key_rows :=
     [(0, (ex_key ''amy'' ''a1'' ''s'')\<lparr>kr_Status := ''rotated'', kr_UpdatedAt := 9\<rparr>),
      (1, (ex_key ''amy'' ''a2'' ''s'')\<lparr>kr_Status := ''rotated'', kr_UpdatedAt := 9\<rparr>),
      (2, ex_key ''bob'' ''a2'' ''t''),
      (3, active_key_row [] ''a1'' [] ''amy'' ''s2'' 9), (4, active_key_row [] ''a2'' [] ''amy'' ''s2'' 9)]\<rparr>"

lemma ex_rotated:
  "ApplyUserKeyRotationExpected [] (env_at 9 []) '' Amy '' ''s'' ''s2'' ex_routes_db = (Inr ex_rotation, ex_rotated_db)"
  by code_simp

theorem rotation_replaces_key_witness:
  "mset (map (\<lambda>r. kr_Account (snd r)) (filter is_active (user_key_rows (norm_name '' Amy '') ex_rotated_db))) =
     mset (map ar_id (db_accounts ex_routes_db)) \<and>
   user_key_rows ''bob'' ex_rotated_db = user_key_rows ''bob'' ex_routes_db"
proof -
  have "distinct (map fst (db_key_rows ex_routes_db))" "distinct (map ar_id (db_accounts ex_routes_db))"
    "''bob'' \<noteq> norm_name '' Amy ''" by code_simp+
  with rotation_replaces_key [OF ex_rotated] show ?thesis by blast
qed

theorem rotation_is_undone_witness:
  "RestoreUserKeyRotation [] (env_at 10 []) ex_rotation ex_rotated_db = (Inr (), ex_routes_db)"
  by (rule rotation_is_undone [OF ex_rotated]) (code_simp, code_simp, simp, code_simp)

definition ex_internal :: "string \<Rightarrow> string \<Rightarrow> internal_key" where
  "ex_internal secret status = \<lparr>ik_Key = secret, ik_CreatedAt = 1, ik_Status = status\<rparr>"

definition ex_internal_db :: db where
  "ex_internal_db = empty_db\<lparr>db_internal_keys :=
     [(''bob'', ex_internal ''kb'' ''active''), (''amy'', ex_internal ''ka'' ''inactive'')]\<rparr>"

lemma ex_ensured:
  "EnsureInternalKeys [] (env_at 9 []) (\<lambda>_. Inr ''x'') ['' Amy '', ''cid''] ex_internal_db =
     (Inr [(''amy'', ex_internal ''ka'' ''active''), (''cid'', \<lparr>ik_Key = ''cpa_internal_78'', ik_CreatedAt = 9, ik_Status = ''active''\<rparr>)],
      ex_internal_db\<lparr>db_internal_keys := [(''bob'', ex_internal ''kb'' ''inactive''), (''amy'', ex_internal ''ka'' ''active''),
        (''cid'', \<lparr>ik_Key = ''cpa_internal_78'', ik_CreatedAt = 9, ik_Status = ''active''\<rparr>)]\<rparr>)"
  by code_simp

theorem internal_keys_synchronised_witness:
  "''bob'' \<notin> set (normalizedUsers ['' Amy '', ''cid'']) \<and>
   map_of (db_internal_keys (snd (EnsureInternalKeys [] (env_at 9 []) (\<lambda>_. Inr ''x'') ['' Amy '', ''cid''] ex_internal_db))) ''bob'' =
     Some (ex_internal ''kb'' ''inactive'')"
proof -
  have "wf_map (db_internal_keys ex_internal_db)" "''bob'' \<notin> set (normalizedUsers ['' Amy '', ''cid''])"
    "map_of (db_internal_keys ex_internal_db) ''bob'' = Some (ex_internal ''kb'' ''active'')" by code_simp+
  with internal_keys_synchronised [OF ex_ensured] show ?thesis by (simp add: ex_ensured ex_internal_def)
qed

end
