(* ===== verification/User_Lifecycle.thy ===== *)
theory User_Lifecycle
  imports Control_Keys
begin

text \<open>
  \<open>internal/controlplane/user_lifecycle.go\<close>: creating, revoking and deleting a user, each in one write
  transaction that returns a receipt, and the rollback that takes the receipt back to the store before.
\<close>

definition ErrUserAlreadyActive :: gerr where
  "ErrUserAlreadyActive = Sentinel ''user already has an active API key''"
definition ErrUserLifecycleNotFound :: gerr where
  "ErrUserLifecycleNotFound = Sentinel ''user lifecycle not found''"
definition ErrUserLifecycleConflict :: gerr where
  "ErrUserLifecycleConflict = Sentinel ''user lifecycle conflict''"
definition ErrUserDeleteRequiresRevoke :: gerr where
  "ErrUserDeleteRequiresRevoke = Sentinel ''active user deletion requires key revocation''"
definition ErrTeamNotFound :: gerr where "ErrTeamNotFound = Sentinel ''team not found''"

section \<open>Receipts\<close>

record user_creation =
  cu_User :: string
  cu_APIKey :: string
  cu_CreatedRows :: "int list"
  cu_PreviousRoute :: "string option"
  cu_TeamChanged :: bool
  cu_PreviousMembership :: "membership option"

record status_row =
  us_Sequence :: int
  us_Secret :: string
  us_UpdatedAt :: int

record user_revocation =
  rv_User :: string
  rv_Rows :: "status_row list"

record user_tag =
  tg_TagID :: string
  tg_AssignedAt :: int

record user_deletion =
  dl_User :: string
  dl_Rows :: "key_row list"
  dl_Route :: "string option"
  dl_Membership :: "membership option"
  dl_Tags :: "user_tag list"
  dl_InternalKey :: "internal_key option"
  dl_RevokedActiveKeys :: int

section \<open>Rows of a user\<close>

text \<open>\<open>WHERE lower(trim(user_email)) = ?\<close> on the tables keyed by the user.\<close>

definition find_user :: "string \<Rightarrow> 'v gomap \<Rightarrow> 'v option" where
  "find_user user m = map_option snd (find (\<lambda>(u, _). sql_norm u = user) m)"

definition without_user :: "string \<Rightarrow> 'v gomap \<Rightarrow> 'v gomap" where
  "without_user user m = filter (\<lambda>(u, _). sql_norm u \<noteq> user) m"

definition readUserMembership :: "env \<Rightarrow> string \<Rightarrow> membership option tx" where
  "readUserMembership env user = query env ''user_team_memberships'' ''read user membership: ''
     (\<lambda>d. find_user user (db_memberships d))"

text \<open>The upsert checks the reference to the team.\<close>

definition upsert_membership :: "string \<Rightarrow> membership \<Rightarrow> db \<Rightarrow> gerr + db" where
  "upsert_membership user m d =
     (case ms_TeamID m of
        Some team \<Rightarrow> if team \<notin> set (db_teams d) then constraint_failed ''FOREIGN KEY''
                     else Inr (d\<lparr>db_memberships := mput user m (db_memberships d)\<rparr>)
      | None \<Rightarrow> Inr (d\<lparr>db_memberships := mput user m (db_memberships d)\<rparr>))"

definition restoreUserMembership :: "env \<Rightarrow> string \<Rightarrow> membership option \<Rightarrow> unit tx" where
  "restoreUserMembership env user previous =
     (case previous of
        None \<Rightarrow> exec env ''user_team_memberships'' ''clear user membership during rollback: ''
          (\<lambda>d. d\<lparr>db_memberships := filter (\<lambda>(u, _). u \<noteq> user) (db_memberships d)\<rparr>)
      | Some m \<Rightarrow> exec_checked env ''user_team_memberships'' ''restore user membership: '' (upsert_membership user m))"

definition normalizeOptionalCatalogID :: "string option \<Rightarrow> string option" where
  "normalizeOptionalCatalogID raw =
     (case raw of None \<Rightarrow> None | Some v \<Rightarrow> if trim_space v = [] then None else Some (trim_space v))"

section \<open>The active key of a user\<close>

definition ActiveUserKey :: "env \<Rightarrow> string \<Rightarrow> db \<Rightarrow> gerr + string" where
  "ActiveUserKey env rawUser d =
     (let user = norm_name rawUser
      in if user = [] then Inl (ErrWrap [] ErrInvalidCatalogInput '': user is required'')
         else and_then (attempt env (SqlRead ''key_records'' user) ''read active user key: ''
                (sort (remdups (map (\<lambda>r. kr_Key (snd r)) (filter is_active (user_key_rows user d)))))) (\<lambda>keys.
              case keys of [] \<Rightarrow> Inl ErrUserLifecycleNotFound | [k] \<Rightarrow> Inr k | _ \<Rightarrow> Inl ErrUserLifecycleConflict))"

section \<open>Creation\<close>

text \<open>\<open>membership_version + 1\<close> wraps at the width of the column's Go type.\<close>

definition assign_team :: "env \<Rightarrow> string \<Rightarrow> string \<Rightarrow> membership option tx" where
  "assign_team env user team =
     then_tx (query env ''teams'' ''validate user team: '' (\<lambda>d. team \<in> set (db_teams d))) (\<lambda>exists.
     then_tx (guard_tx (\<not> exists) ErrTeamNotFound) (\<lambda>_.
     then_tx (readUserMembership env user) (\<lambda>previous.
     then_tx (exec_checked env ''user_team_memberships'' ''assign new user team: ''
       (upsert_membership user \<lparr>ms_TeamID = Some team,
          ms_Version = (case previous of None \<Rightarrow> 1 | Some m \<Rightarrow> wrap64 (ms_Version m + 1)),
          ms_UpdatedAt = unix_of (ev_now env)\<rparr>)) (\<lambda>_.
     ok_tx previous))))"

fun create_rows :: "env \<Rightarrow> string \<Rightarrow> string \<Rightarrow> int \<Rightarrow> int \<Rightarrow> account_row list \<Rightarrow> unit tx" where
  "create_rows env user key now sequence [] = ok_tx ()"
| "create_rows env user key now sequence (a # accounts) =
     then_tx (exec_checked env ''key_records'' (''create user key row for '' @ ar_id a @ '': '')
       (insert_key_row (sequence, active_key_row (user @ '':'' @ ar_id a) (ar_id a) (ar_email a) user key now))) (\<lambda>_.
     create_rows env user key now (sequence + 1) accounts)"

definition create_in_tx :: "env \<Rightarrow> string \<Rightarrow> string \<Rightarrow> string option \<Rightarrow> user_creation tx" where
  "create_in_tx env user key team =
     then_tx (query env ''key_records'' ''check active user rows: '' (\<lambda>d. filter is_active (user_key_rows user d))) (\<lambda>active.
     then_tx (guard_tx (active \<noteq> []) ErrUserAlreadyActive) (\<lambda>_.
     then_tx (query env ''key_records'' ''check new user key uniqueness: ''
       (\<lambda>d. filter (\<lambda>r. kr_Key (snd r) = key) (db_key_rows d))) (\<lambda>duplicate.
     then_tx (guard_tx (duplicate \<noteq> []) ErrUserLifecycleConflict) (\<lambda>_.
     then_tx (query env ''accounts'' ''read accounts for user creation: '' (\<lambda>d. sort_slice row_less (db_accounts d))) (\<lambda>accounts.
     then_tx (guard_tx (accounts = []) (ErrWrap [] ErrInvalidCatalogInput '': at least one account is required'')) (\<lambda>_.
     then_tx (case team of None \<Rightarrow> ok_tx None | Some t \<Rightarrow> assign_team env user t) (\<lambda>previousMembership.
     then_tx (query env ''user_routes'' ''read stale user route: '' (\<lambda>d. find_user user (db_user_routes d))) (\<lambda>previousRoute.
     then_tx (exec env ''user_routes'' ''clear stale user route: ''
       (\<lambda>d. d\<lparr>db_user_routes := without_user user (db_user_routes d)\<rparr>)) (\<lambda>_.
     then_tx (query env ''key_records'' ''allocate user key sequence: '' next_sequence) (\<lambda>sequence.
     then_tx (create_rows env user key (unix_of (ev_now env)) sequence accounts) (\<lambda>_.
     ok_tx \<lparr>cu_User = user, cu_APIKey = key, cu_CreatedRows = map (\<lambda>i. sequence + int i) [0..<length accounts],
            cu_PreviousRoute = previousRoute, cu_TeamChanged = (team \<noteq> None),
            cu_PreviousMembership = previousMembership\<rparr>)))))))))))"

definition ApplyUserCreation ::
  "fence \<Rightarrow> env \<Rightarrow> string \<Rightarrow> string \<Rightarrow> string option \<Rightarrow> db \<Rightarrow> (gerr + user_creation) \<times> db" where
  "ApplyUserCreation fence env rawUser rawKey teamID d =
     (let user = norm_name rawUser; key = trim_space rawKey
      in if user = [] \<or> key = []
         then (Inl (ErrWrap [] ErrInvalidCatalogInput '': user and API key are required''), d)
         else writeTransaction fence env (create_in_tx env user key (normalizeOptionalCatalogID teamID)) d)"

text \<open>A row named by a receipt must still be what the receipt says.\<close>

definition check_user_row :: "env \<Rightarrow> string \<Rightarrow> string \<Rightarrow> string \<Rightarrow> string \<Rightarrow> int \<Rightarrow> unit tx" where
  "check_user_row env text user status secret sequence =
     then_tx (query_row env ''key_records'' (text @ itoa sequence @ '' for rollback: '') (key_row_at sequence)) (\<lambda>row.
     guard_tx (\<not> EqualFold (kr_User row) user \<or> kr_Status row \<noteq> status \<or> kr_Key row \<noteq> secret) ErrUserLifecycleConflict)"

definition restore_creation_in_tx :: "env \<Rightarrow> user_creation \<Rightarrow> unit tx" where
  "restore_creation_in_tx env c =
     then_tx (each_tx (check_user_row env ''read created user row '' (cu_User c) ''active'' (cu_APIKey c)) (cu_CreatedRows c)) (\<lambda>_.
     then_tx (each_tx (\<lambda>sequence. exec env ''key_records'' (''delete created user row '' @ itoa sequence @ '': '')
       (delete_key_rows (\<lambda>x. fst x = sequence))) (cu_CreatedRows c)) (\<lambda>_.
     then_tx (case cu_PreviousRoute c of
         None \<Rightarrow> exec env ''user_routes'' ''clear created user route: ''
           (\<lambda>d. d\<lparr>db_user_routes := filter (\<lambda>(u, _). u \<noteq> cu_User c) (db_user_routes d)\<rparr>)
       | Some route \<Rightarrow> exec env ''user_routes'' ''restore previous user route: ''
           (\<lambda>d. d\<lparr>db_user_routes := mput (cu_User c) route (db_user_routes d)\<rparr>)) (\<lambda>_.
     if cu_TeamChanged c then restoreUserMembership env (cu_User c) (cu_PreviousMembership c) else ok_tx ())))"

definition RestoreUserCreation :: "fence \<Rightarrow> env \<Rightarrow> user_creation \<Rightarrow> db \<Rightarrow> (gerr + unit) \<times> db" where
  "RestoreUserCreation fence env c d =
     (if cu_User c = [] \<or> cu_APIKey c = [] \<or> cu_CreatedRows c = []
      then (Inl (ErrWrap [] ErrInvalidCatalogInput '': incomplete user creation rollback''), d)
      else writeTransaction fence env (restore_creation_in_tx env c) d)"

section \<open>Revocation\<close>

text \<open>The statement reports how many rows it changed.\<close>

definition revoke_row :: "env \<Rightarrow> int \<Rightarrow> status_row \<Rightarrow> unit tx" where
  "revoke_row env now row =
     (let revocable = (\<lambda>x. fst x = us_Sequence row \<and> is_active x)
      in (\<lambda>d. then_tx (exec env ''key_records'' (''revoke user row '' @ itoa (us_Sequence row) @ '': '')
             (update_key_rows revocable (\<lambda>k. k\<lparr>kr_Status := ''revoked'', kr_UpdatedAt := now\<rparr>)))
           (\<lambda>_. guard_tx (length (filter revocable (db_key_rows d)) \<noteq> 1) ErrUserLifecycleConflict) d))"

definition revoke_in_tx :: "env \<Rightarrow> string \<Rightarrow> user_revocation tx" where
  "revoke_in_tx env user =
     then_tx (query env ''key_records'' ''read active user rows for revocation: ''
       (\<lambda>d. map (\<lambda>r. \<lparr>us_Sequence = fst r, us_Secret = kr_Key (snd r), us_UpdatedAt = kr_UpdatedAt (snd r)\<rparr>)
              (filter is_active (user_key_rows user d)))) (\<lambda>rows.
     then_tx (guard_tx (rows = []) ErrUserLifecycleNotFound) (\<lambda>_.
     then_tx (each_tx (revoke_row env (unix_of (ev_now env))) rows) (\<lambda>_.
     ok_tx \<lparr>rv_User = user, rv_Rows = rows\<rparr>)))"

definition ApplyUserRevocation :: "fence \<Rightarrow> env \<Rightarrow> string \<Rightarrow> db \<Rightarrow> (gerr + user_revocation) \<times> db" where
  "ApplyUserRevocation fence env rawUser d =
     (let user = norm_name rawUser
      in if user = [] then (Inl (ErrWrap [] ErrInvalidCatalogInput '': user is required''), d)
         else writeTransaction fence env (revoke_in_tx env user) d)"

definition restore_revocation_in_tx :: "env \<Rightarrow> user_revocation \<Rightarrow> unit tx" where
  "restore_revocation_in_tx env r =
     then_tx (each_tx (\<lambda>row. check_user_row env ''read revoked user row '' (rv_User r) ''revoked'' (us_Secret row) (us_Sequence row))
       (rv_Rows r)) (\<lambda>_.
     each_tx (\<lambda>row. exec env ''key_records'' (''restore revoked user row '' @ itoa (us_Sequence row) @ '': '')
       (update_key_rows (\<lambda>x. fst x = us_Sequence row) (\<lambda>k. k\<lparr>kr_Status := ''active'', kr_UpdatedAt := us_UpdatedAt row\<rparr>)))
       (rv_Rows r))"

definition RestoreUserRevocation :: "fence \<Rightarrow> env \<Rightarrow> user_revocation \<Rightarrow> db \<Rightarrow> (gerr + unit) \<times> db" where
  "RestoreUserRevocation fence env r d =
     (if rv_User r = [] \<or> rv_Rows r = []
      then (Inl (ErrWrap [] ErrInvalidCatalogInput '': incomplete user revocation rollback''), d)
      else writeTransaction fence env (restore_revocation_in_tx env r) d)"

section \<open>Deletion\<close>

definition user_tags :: "string \<Rightarrow> db \<Rightarrow> user_tag list" where
  "user_tags user d = sort_key tg_TagID
     (map (\<lambda>((_, tag), time). \<lparr>tg_TagID = tag, tg_AssignedAt = time\<rparr>) (filter (\<lambda>((u, _), _). sql_norm u = user) (db_user_tags d)))"

definition erase_user :: "env \<Rightarrow> string \<Rightarrow> unit tx" where
  "erase_user env user =
     (let text = ''delete user lifecycle state: ''
      in then_tx (exec env ''key_records'' text (delete_key_rows (\<lambda>r. sql_norm (kr_User (snd r)) = user))) (\<lambda>_.
         then_tx (exec env ''user_routes'' text (\<lambda>d. d\<lparr>db_user_routes := without_user user (db_user_routes d)\<rparr>)) (\<lambda>_.
         then_tx (exec env ''user_tags'' text
           (\<lambda>d. d\<lparr>db_user_tags := filter (\<lambda>((u, _), _). sql_norm u \<noteq> user) (db_user_tags d)\<rparr>)) (\<lambda>_.
         then_tx (exec env ''user_team_memberships'' text (\<lambda>d. d\<lparr>db_memberships := without_user user (db_memberships d)\<rparr>)) (\<lambda>_.
         exec env ''internal_keys'' text (\<lambda>d. d\<lparr>db_internal_keys := without_user user (db_internal_keys d)\<rparr>))))))"

definition delete_in_tx :: "env \<Rightarrow> string \<Rightarrow> bool \<Rightarrow> user_deletion tx" where
  "delete_in_tx env user revokeActive =
     then_tx (query env ''key_records'' ''read user rows for deletion: '' (user_key_rows user)) (\<lambda>rows.
     then_tx (guard_tx (rows = []) ErrUserLifecycleNotFound) (\<lambda>_.
     let activeKeys = remdups (map (\<lambda>r. kr_Key (snd r)) (filter is_active rows))
     in then_tx (guard_tx (activeKeys \<noteq> [] \<and> \<not> revokeActive) ErrUserDeleteRequiresRevoke) (\<lambda>_.
     then_tx (query env ''user_routes'' ''read user route for deletion: '' (\<lambda>d. find_user user (db_user_routes d))) (\<lambda>route.
     then_tx (readUserMembership env user) (\<lambda>membership.
     then_tx (query env ''user_tags'' ''read user tags for deletion: '' (user_tags user)) (\<lambda>tags.
     then_tx (query env ''internal_keys'' ''read internal user key for deletion: ''
       (\<lambda>d. find_user user (db_internal_keys d))) (\<lambda>internal.
     then_tx (erase_user env user) (\<lambda>_.
     ok_tx \<lparr>dl_User = user, dl_Rows = rows, dl_Route = route, dl_Membership = membership, dl_Tags = tags,
            dl_InternalKey = internal, dl_RevokedActiveKeys = int (length activeKeys)\<rparr>))))))))"

definition ApplyUserDeletion :: "fence \<Rightarrow> env \<Rightarrow> string \<Rightarrow> bool \<Rightarrow> db \<Rightarrow> (gerr + user_deletion) \<times> db" where
  "ApplyUserDeletion fence env rawUser revokeActive d =
     (let user = norm_name rawUser
      in if user = [] then (Inl (ErrWrap [] ErrInvalidCatalogInput '': user is required''), d)
         else writeTransaction fence env (delete_in_tx env user revokeActive) d)"

definition insert_user_tag :: "string \<Rightarrow> user_tag \<Rightarrow> db \<Rightarrow> gerr + db" where
  "insert_user_tag user t d =
     (if (user, tg_TagID t) \<in> fst ` set (db_user_tags d) then constraint_failed ''user_tags.user_email, user_tags.tag_id''
      else if tg_TagID t \<notin> set (db_tags d) then constraint_failed ''FOREIGN KEY''
      else Inr (d\<lparr>db_user_tags := db_user_tags d @ [((user, tg_TagID t), tg_AssignedAt t)]\<rparr>))"

definition restore_deletion_in_tx :: "env \<Rightarrow> user_deletion \<Rightarrow> unit tx" where
  "restore_deletion_in_tx env x =
     then_tx (query env ''key_records'' ''check deleted user rollback target: '' (user_key_rows (dl_User x))) (\<lambda>present.
     then_tx (guard_tx (present \<noteq> []) ErrUserLifecycleConflict) (\<lambda>_.
     then_tx (each_tx (\<lambda>r. exec_checked env ''key_records'' (''restore deleted user row '' @ itoa (fst r) @ '': '') (insert_key_row r))
       (sort_key fst (dl_Rows x))) (\<lambda>_.
     then_tx (case dl_Route x of None \<Rightarrow> ok_tx ()
       | Some route \<Rightarrow> exec_checked env ''user_routes'' ''restore deleted user route: '' (insert_route (dl_User x) route)) (\<lambda>_.
     then_tx (restoreUserMembership env (dl_User x) (dl_Membership x)) (\<lambda>_.
     then_tx (each_tx (\<lambda>t. exec_checked env ''user_tags'' ''restore deleted user tag: '' (insert_user_tag (dl_User x) t)) (dl_Tags x)) (\<lambda>_.
     (case dl_InternalKey x of None \<Rightarrow> ok_tx ()
      | Some k \<Rightarrow> exec_checked env ''internal_keys'' ''restore deleted internal user key: '' (insert_internal_key (dl_User x) k))))))))"

definition RestoreUserDeletion :: "fence \<Rightarrow> env \<Rightarrow> user_deletion \<Rightarrow> db \<Rightarrow> (gerr + unit) \<times> db" where
  "RestoreUserDeletion fence env x d =
     (if dl_User x = [] \<or> dl_Rows x = []
      then (Inl (ErrWrap [] ErrInvalidCatalogInput '': incomplete user deletion rollback''), d)
      else writeTransaction fence env (restore_deletion_in_tx env x) d)"

end
