(* ===== verification/Account_Lifecycle.thy ===== *)
theory Account_Lifecycle
  imports User_Lifecycle
begin

text \<open>
  \<open>internal/controlplane/account_lifecycle.go\<close>: creating, updating (with renaming, disabling and handing
  over the default) and deleting an account in one write transaction, and the rollbacks by their receipts.
  \<open>mail.ParseAddress\<close> is the parameter \<open>parse_address\<close>: the address it parses, if it accepts.
\<close>

definition ErrAccountAlreadyExists :: gerr where
  "ErrAccountAlreadyExists = Sentinel ''account already exists''"
definition ErrAccountEmailAlreadyExists :: gerr where
  "ErrAccountEmailAlreadyExists = Sentinel ''account email already exists''"
definition ErrAccountPortAlreadyExists :: gerr where
  "ErrAccountPortAlreadyExists = Sentinel ''account port already exists''"
definition ErrAccountLifecycleNotFound :: gerr where
  "ErrAccountLifecycleNotFound = Sentinel ''account lifecycle not found''"
definition ErrAccountLifecycleConflict :: gerr where
  "ErrAccountLifecycleConflict = Sentinel ''account lifecycle conflict''"
definition ErrAccountDeleteLast :: gerr where
  "ErrAccountDeleteLast = Sentinel ''cannot delete the last account''"
definition ErrAccountDeleteNeedsFallback :: gerr where
  "ErrAccountDeleteNeedsFallback = Sentinel ''account deletion requires an enabled fallback''"
definition ErrAccountDeleteRequiresRevoke :: gerr where
  "ErrAccountDeleteRequiresRevoke = Sentinel ''account has exclusive active keys that require revocation''"

section \<open>Receipts\<close>

record account_creation =
  an_Account :: account
  an_CreatedRows :: "key_row list"

record stored_account =
  sa_Position :: int
  sa_Account :: account

record route_change =
  rc_UserEmail :: string
  rc_Before :: string
  rc_After :: string

record default_state =
  ds_AccountID :: string
  ds_Default :: bool

record update_request =
  ur_AccountID :: string
  ur_NewAccountID :: string
  ur_Email :: string
  ur_ProxyMode :: string
  ur_GroupEnabled :: "bool option"
  ur_DefaultGroup :: "bool option"
  ur_FallbackAccount :: string

record account_update =
  au_Before :: stored_account
  au_After :: stored_account
  au_RowsBefore :: "key_row list"
  au_RowsAfter :: "key_row list"
  au_Routes :: "route_change list"
  au_DefaultsBefore :: "default_state list"
  au_DefaultsAfter :: "default_state list"

record account_deletion =
  ad_Account :: stored_account
  ad_Rows :: "key_row list"
  ad_Routes :: "route_change list"
  ad_Defaults :: "default_state list"
  ad_FallbackAccount :: string
  ad_RevokedExclusiveKeys :: int

section \<open>Normalisation\<close>

definition lower_letter :: "char \<Rightarrow> bool" where
  "lower_letter c \<longleftrightarrow> 97 \<le> (of_char c :: nat) \<and> (of_char c :: nat) \<le> 122"

definition id_char :: "char \<Rightarrow> bool" where
  "id_char c \<longleftrightarrow> lower_letter c \<or> (48 \<le> (of_char c :: nat) \<and> (of_char c :: nat) \<le> 57) \<or> c = CHR ''-''"

text \<open>\<open>^[a-z][a-z0-9-]{1,31}$\<close>.\<close>

definition accountIDPattern :: "string \<Rightarrow> bool" where
  "accountIDPattern s \<longleftrightarrow> (case s of [] \<Rightarrow> False
     | c # rest \<Rightarrow> lower_letter c \<and> list_all id_char rest \<and> 1 \<le> length rest \<and> length rest \<le> 31)"

definition reservedAccountIDs :: strset where
  "reservedAccountIDs = [''admin'', ''all'', ''gateway'', ''management'']"

definition NormalizeAccountID :: "string \<Rightarrow> gerr + string" where
  "NormalizeAccountID raw =
     (let accountID = norm_name raw
      in if \<not> accountIDPattern accountID
         then Inl (ErrWrap [] ErrInvalidCatalogInput
           '': account ID must be 2-32 lowercase letters, digits, or hyphens and start with a letter'')
         else if accountID \<in> set reservedAccountIDs
         then Inl (ErrWrap [] ErrInvalidCatalogInput ('': account ID '' @ accountID @ '' is reserved''))
         else Inr accountID)"

definition invalid_email :: gerr where
  "invalid_email = ErrWrap [] ErrInvalidCatalogInput '': invalid upstream account email''"

text \<open>\<open>strings.SplitN(email, "@", 2)\<close> of a text with one \<open>@\<close>.\<close>

definition NormalizeAccountEmail :: "(string \<Rightarrow> string option) \<Rightarrow> string \<Rightarrow> gerr + string" where
  "NormalizeAccountEmail parse_address raw =
     (let email = norm_name raw
      in if email = [] \<or> 254 < length email \<or> list_ex (\<lambda>c. c \<in> {CHR 0x0D, CHR 0x0A, CHR 0x09, CHR 0x20}) email
         then Inl invalid_email
         else case parse_address email of
                None \<Rightarrow> Inl invalid_email
              | Some address \<Rightarrow>
                  if \<not> EqualFold address email \<or> length (filter (\<lambda>c. c = CHR ''@'') email) \<noteq> 1 then Inl invalid_email
                  else let local_part = takeWhile (\<lambda>c. c \<noteq> CHR ''@'') email; domain = tl (dropWhile (\<lambda>c. c \<noteq> CHR ''@'') email)
                       in if local_part = [] \<or> CHR ''.'' \<notin> set domain then Inl invalid_email else Inr email)"

definition NormalizeProxyMode :: "string \<Rightarrow> gerr + string" where
  "NormalizeProxyMode raw =
     (let mode = (if norm_name raw = [] then ''inherit'' else norm_name raw)
      in if mode \<noteq> ''inherit'' \<and> mode \<noteq> ''direct'' \<and> mode \<noteq> ''custom''
         then Inl (ErrWrap [] ErrInvalidCatalogInput '': invalid account proxy mode'') else Inr mode)"

section \<open>Stored accounts and rows\<close>

definition stored_of_row :: "account_row \<Rightarrow> stored_account" where
  "stored_of_row r = \<lparr>sa_Position = ar_position r, sa_Account =
     \<lparr>ac_ID = ar_id r, ac_Email = ar_email r, ac_Port = ar_port r, ac_ProxyMode = ar_proxy_mode r,
      ac_CreatedAt = ar_created_at r, ac_GroupEnabled = (ar_group_enabled r \<noteq> 0), ac_DefaultGroup = (ar_default_group r \<noteq> 0)\<rparr>\<rparr>"

definition row_of_stored :: "stored_account \<Rightarrow> account_row" where
  "row_of_stored s = (let a = sa_Account s in
     \<lparr>ar_id = ac_ID a, ar_email = ac_Email a, ar_port = ac_Port a, ar_proxy_mode = ac_ProxyMode a,
      ar_created_at = ac_CreatedAt a, ar_group_enabled = boolInteger (ac_GroupEnabled a),
      ar_default_group = boolInteger (ac_DefaultGroup a), ar_position = sa_Position s\<rparr>)"

definition readStoredAccount :: "env \<Rightarrow> string \<Rightarrow> stored_account option tx" where
  "readStoredAccount env accountID = query env ''accounts'' ''read account lifecycle row: ''
     (\<lambda>d. map_option stored_of_row (find (\<lambda>r. ar_id r = accountID) (db_accounts d)))"

definition account_key_rows :: "string \<Rightarrow> db \<Rightarrow> key_row list" where
  "account_key_rows accountID d = filter (\<lambda>r. kr_Account (snd r) = accountID) (db_key_rows d)"

definition readAccountKeyRows :: "env \<Rightarrow> string \<Rightarrow> key_row list tx" where
  "readAccountKeyRows env accountID = query env ''key_records'' ''read account Key rows: '' (account_key_rows accountID)"

definition readStoredKeyRecord :: "env \<Rightarrow> int \<Rightarrow> key_record option tx" where
  "readStoredKeyRecord env sequence = query env ''key_records'' ''read stored Key record: '' (key_row_at sequence)"

definition sameAccount :: "account \<Rightarrow> account \<Rightarrow> bool" where
  "sameAccount l r \<longleftrightarrow> ac_ID l = ac_ID r \<and> ac_Email l = ac_Email r \<and> ac_Port l = ac_Port r \<and>
     ac_ProxyMode l = ac_ProxyMode r \<and> ac_CreatedAt l = ac_CreatedAt r \<and>
     ac_GroupEnabled l = ac_GroupEnabled r \<and> ac_DefaultGroup l = ac_DefaultGroup r"

definition sameStoredAccount :: "stored_account \<Rightarrow> stored_account \<Rightarrow> bool" where
  "sameStoredAccount l r \<longleftrightarrow> sa_Position l = sa_Position r \<and> sameAccount (sa_Account l) (sa_Account r)"

definition sameStoredKeyRecord :: "key_row \<Rightarrow> key_row \<Rightarrow> bool" where
  "sameStoredKeyRecord l r \<longleftrightarrow> fst l = fst r \<and> kr_Label (snd l) = kr_Label (snd r) \<and>
     kr_Account (snd l) = kr_Account (snd r) \<and> kr_AccountEmail (snd l) = kr_AccountEmail (snd r) \<and>
     EqualFold (kr_User (snd l)) (kr_User (snd r)) \<and> kr_Status (snd l) = kr_Status (snd r) \<and>
     kr_Key (snd l) = kr_Key (snd r) \<and> kr_CreatedAt (snd l) = kr_CreatedAt (snd r) \<and> kr_UpdatedAt (snd l) = kr_UpdatedAt (snd r)"

definition sameStoredKeyRecords :: "key_row list \<Rightarrow> key_row list \<Rightarrow> bool" where
  "sameStoredKeyRecords l r \<longleftrightarrow> list_all2 sameStoredKeyRecord l r"

definition ReadAccountLifecycle :: "env \<Rightarrow> string \<Rightarrow> db \<Rightarrow> gerr + stored_account \<times> key_row list" where
  "ReadAccountLifecycle env rawID d =
     and_then (NormalizeAccountID rawID) (\<lambda>accountID.
     and_then (attempt env TxBegin ''begin account lifecycle read: '' ()) (\<lambda>_.
     and_then (map_sum id fst (then_tx (readStoredAccount env accountID) (\<lambda>found.
       case found of None \<Rightarrow> fail_tx ErrAccountLifecycleNotFound
       | Some account \<Rightarrow> then_tx (readAccountKeyRows env accountID) (\<lambda>rows. ok_tx (account, rows))) d)) (\<lambda>result.
     attempt env TxCommit ''commit account lifecycle read: '' result)))"

text \<open>An \<open>UPDATE\<close> of account rows is checked against the unique columns.\<close>

definition update_accounts :: "(account_row \<Rightarrow> bool) \<Rightarrow> (account_row \<Rightarrow> account_row) \<Rightarrow> db \<Rightarrow> gerr + db" where
  "update_accounts P f d =
     (let rows = map (\<lambda>r. if P r then f r else r) (db_accounts d)
      in if \<not> distinct (map ar_id rows) then constraint_failed ''accounts.id''
         else if \<not> distinct (map ar_email rows) then constraint_failed ''accounts.email''
         else if \<not> distinct (map ar_port rows) then constraint_failed ''accounts.port''
         else Inr (d\<lparr>db_accounts := rows\<rparr>))"

definition set_default :: "string \<Rightarrow> db \<Rightarrow> db" where
  "set_default accountID d = d\<lparr>db_accounts :=
     map (\<lambda>r. r\<lparr>ar_default_group := boolInteger (ar_id r = accountID)\<rparr>) (db_accounts d)\<rparr>"

definition reroute :: "string \<Rightarrow> string \<Rightarrow> db \<Rightarrow> db" where
  "reroute old new d = d\<lparr>db_user_routes := map (\<lambda>(u, a). (u, if a = old then new else a)) (db_user_routes d)\<rparr>"

definition routed_users :: "string \<Rightarrow> db \<Rightarrow> string list" where
  "routed_users accountID d = sort (map fst (filter (\<lambda>(_, a). a = accountID) (db_user_routes d)))"

definition read_routed_users :: "env \<Rightarrow> string \<Rightarrow> string \<Rightarrow> string list tx" where
  "read_routed_users env text accountID = query env ''user_routes'' text (routed_users accountID)"

definition default_states :: "db \<Rightarrow> default_state list" where
  "default_states d = map (\<lambda>r. \<lparr>ds_AccountID = ar_id r, ds_Default = (ar_default_group r \<noteq> 0)\<rparr>) (sort_slice row_less (db_accounts d))"


section \<open>Creation\<close>

text \<open>
  The active rows grouped by the normalised user, in order: the least secret and the number of distinct
  secrets of each.
\<close>

record active_user =
  xu_User :: string
  xu_Secret :: string
  xu_KeyCount :: int

definition active_users :: "db \<Rightarrow> active_user list" where
  "active_users d =
     (let active = filter is_active (db_key_rows d)
      in map (\<lambda>user. let secrets = sort (remdups (map (\<lambda>r. kr_Key (snd r)) (filter (\<lambda>r. sql_norm (kr_User (snd r)) = user) active)))
                in \<lparr>xu_User = user, xu_Secret = hd secrets, xu_KeyCount = int (length secrets)\<rparr>)
           (sort (remdups (map (\<lambda>r. sql_norm (kr_User (snd r))) active))))"

definition next_position :: "db \<Rightarrow> int" where
  "next_position d = foldl max (- 1) (map ar_position (db_accounts d)) + 1"

definition account_user_row :: "string \<Rightarrow> string \<Rightarrow> int \<Rightarrow> active_user \<Rightarrow> key_record" where
  "account_user_row accountID email now x =
     active_key_row (xu_User x @ '':'' @ accountID) accountID email (xu_User x) (xu_Secret x) now"

fun create_account_rows :: "env \<Rightarrow> string \<Rightarrow> string \<Rightarrow> int \<Rightarrow> int \<Rightarrow> active_user list \<Rightarrow> key_row list tx" where
  "create_account_rows env accountID email now sequence [] = ok_tx []"
| "create_account_rows env accountID email now sequence (x # users) =
     then_tx (guard_tx (xu_User x = [] \<or> xu_KeyCount x \<noteq> 1 \<or> xu_Secret x = [])
       (ErrWrap [] ErrAccountLifecycleConflict ('': active user '' @ xu_User x @ '' does not have one unified API Key''))) (\<lambda>_.
     let row = (sequence, account_user_row accountID email now x)
     in then_tx (exec_checked env ''key_records'' (''create account Key row for '' @ xu_User x @ '': '') (insert_key_row row)) (\<lambda>_.
     then_tx (create_account_rows env accountID email now (sequence + 1) users) (\<lambda>rows.
     ok_tx (row # rows))))"

definition create_account_in_tx :: "env \<Rightarrow> account \<Rightarrow> account_creation tx" where
  "create_account_in_tx env candidate =
     then_tx (query env ''accounts'' ''check account ID uniqueness: ''
       (\<lambda>d. filter (\<lambda>r. ar_id r = ac_ID candidate) (db_accounts d))) (\<lambda>same.
     then_tx (guard_tx (same \<noteq> []) ErrAccountAlreadyExists) (\<lambda>_.
     then_tx (query env ''accounts'' ''check account email uniqueness: ''
       (\<lambda>d. filter (\<lambda>r. to_lower (ar_email r) = ac_Email candidate) (db_accounts d))) (\<lambda>same.
     then_tx (guard_tx (same \<noteq> []) ErrAccountEmailAlreadyExists) (\<lambda>_.
     then_tx (query env ''accounts'' ''check account port uniqueness: ''
       (\<lambda>d. filter (\<lambda>r. ar_port r = ac_Port candidate) (db_accounts d))) (\<lambda>same.
     then_tx (guard_tx (same \<noteq> []) ErrAccountPortAlreadyExists) (\<lambda>_.
     then_tx (query env ''accounts'' ''count accounts for creation: '' (\<lambda>d. length (db_accounts d))) (\<lambda>accountCount.
     then_tx (query env ''accounts'' ''allocate account position: '' next_position) (\<lambda>position.
     let account = candidate\<lparr>ac_DefaultGroup := (accountCount = 0)\<rparr>
     in then_tx (exec_checked env ''accounts'' ''create account: ''
       (insert_account_row (row_of_stored \<lparr>sa_Position = position, sa_Account = account\<lparr>ac_GroupEnabled := True\<rparr>\<rparr>))) (\<lambda>_.
     then_tx (query env ''key_records'' ''read active users for account creation: '' active_users) (\<lambda>users.
     then_tx (query env ''key_records'' ''allocate account Key sequence: '' next_sequence) (\<lambda>sequence.
     then_tx (create_account_rows env (ac_ID account) (ac_Email account) (unix_of (ev_now env)) sequence users) (\<lambda>rows.
     ok_tx \<lparr>an_Account = account, an_CreatedRows = rows\<rparr>))))))))))))"

definition normalize_candidate :: "(string \<Rightarrow> string option) \<Rightarrow> env \<Rightarrow> account \<Rightarrow> gerr + account" where
  "normalize_candidate parse_address env candidate =
     and_then (NormalizeAccountID (ac_ID candidate)) (\<lambda>accountID.
     and_then (NormalizeAccountEmail parse_address (ac_Email candidate)) (\<lambda>email.
     and_then (NormalizeProxyMode (ac_ProxyMode candidate)) (\<lambda>proxyMode.
     if ac_Port candidate < 1 \<or> 65535 < ac_Port candidate
     then Inl (ErrWrap [] ErrInvalidCatalogInput '': account port is invalid'')
     else Inr (candidate\<lparr>ac_ID := accountID, ac_Email := email, ac_ProxyMode := proxyMode,
       ac_CreatedAt := (if ac_CreatedAt candidate \<le> 0 then unix_of (ev_now env) else ac_CreatedAt candidate),
       ac_GroupEnabled := True\<rparr>))))"

definition ApplyAccountCreation ::
  "fence \<Rightarrow> env \<Rightarrow> (string \<Rightarrow> string option) \<Rightarrow> account \<Rightarrow> db \<Rightarrow> (gerr + account_creation) \<times> db" where
  "ApplyAccountCreation fence env parse_address candidate d =
     (case normalize_candidate parse_address env candidate of
        Inl e \<Rightarrow> (Inl e, d)
      | Inr account \<Rightarrow> writeTransaction fence env (create_account_in_tx env account) d)"

definition require_stored_row :: "env \<Rightarrow> key_row \<Rightarrow> unit tx" where
  "require_stored_row env expected =
     then_tx (readStoredKeyRecord env (fst expected)) (\<lambda>found.
     guard_tx (\<not> (case found of None \<Rightarrow> False | Some k \<Rightarrow> sameStoredKeyRecord (fst expected, k) expected)) ErrAccountLifecycleConflict)"

definition restore_account_creation_in_tx :: "env \<Rightarrow> account_creation \<Rightarrow> unit tx" where
  "restore_account_creation_in_tx env c =
     (let accountID = ac_ID (an_Account c)
      in then_tx (readStoredAccount env accountID) (\<lambda>found.
         then_tx (guard_tx (\<not> (case found of None \<Rightarrow> False | Some s \<Rightarrow> sameAccount (sa_Account s) (an_Account c)))
           ErrAccountLifecycleConflict) (\<lambda>_.
         then_tx (query env ''user_routes'' ''check created account routes: ''
           (\<lambda>d. filter (\<lambda>(_, a). a = accountID) (db_user_routes d))) (\<lambda>routes.
         then_tx (guard_tx (routes \<noteq> []) ErrAccountLifecycleConflict) (\<lambda>_.
         then_tx (each_tx (require_stored_row env) (an_CreatedRows c)) (\<lambda>_.
         then_tx (each_tx (\<lambda>row. exec env ''key_records'' (''delete created account Key row '' @ itoa (fst row) @ '': '')
           (delete_key_rows (\<lambda>x. fst x = fst row))) (an_CreatedRows c)) (\<lambda>_.
         exec env ''accounts'' ''delete created account: ''
           (\<lambda>d. d\<lparr>db_accounts := filter (\<lambda>r. ar_id r \<noteq> accountID) (db_accounts d)\<rparr>))))))))"

definition RestoreAccountCreation :: "fence \<Rightarrow> env \<Rightarrow> account_creation \<Rightarrow> db \<Rightarrow> (gerr + unit) \<times> db" where
  "RestoreAccountCreation fence env c d =
     (if ac_ID (an_Account c) = []
      then (Inl (ErrWrap [] ErrInvalidCatalogInput '': incomplete account creation rollback''), d)
      else writeTransaction fence env (restore_account_creation_in_tx env c) d)"

section \<open>The fallback account\<close>

definition is_enabled :: "account_row \<Rightarrow> bool" where "is_enabled r \<longleftrightarrow> ar_group_enabled r \<noteq> 0"

definition enabled_others :: "string \<Rightarrow> account_row list \<Rightarrow> string list" where
  "enabled_others accountID accounts = map ar_id (filter (\<lambda>r. ar_id r \<noteq> accountID \<and> is_enabled r) accounts)"

text \<open>The first enabled default among the others, or else the first enabled one, or else none.\<close>

definition automatic_fallback :: "string \<Rightarrow> account_row list \<Rightarrow> string" where
  "automatic_fallback accountID accounts =
     (case find (\<lambda>r. ar_id r \<noteq> accountID \<and> is_enabled r \<and> ar_default_group r \<noteq> 0) accounts of
        Some r \<Rightarrow> ar_id r
      | None \<Rightarrow> (case enabled_others accountID accounts of [] \<Rightarrow> [] | x # _ \<Rightarrow> x))"

definition optional_account_id :: "string \<Rightarrow> gerr + string" where
  "optional_account_id raw = (if trim_space raw = [] then Inr [] else NormalizeAccountID (trim_space raw))"


section \<open>Deletion\<close>

definition is_exclusive :: "string \<Rightarrow> db \<Rightarrow> key_row \<Rightarrow> bool" where
  "is_exclusive accountID d r \<longleftrightarrow>
     \<not> list_ex (\<lambda>x. sql_norm (kr_User (snd x)) = sql_norm (kr_User (snd r)) \<and> kr_Key (snd x) = kr_Key (snd r) \<and>
               is_active x \<and> kr_Account (snd x) \<noteq> accountID) (db_key_rows d)"

definition exclusive_keys :: "env \<Rightarrow> string \<Rightarrow> key_row list \<Rightarrow> strset tx" where
  "exclusive_keys env accountID rows = query env ''key_records'' ''check account Key exclusivity: ''
     (\<lambda>d. remdups (map (\<lambda>r. kr_Key (snd r)) (filter (\<lambda>r. is_active r \<and> is_exclusive accountID d r) rows)))"

definition choose_fallback :: "string \<Rightarrow> string \<Rightarrow> account_row list \<Rightarrow> gerr + string" where
  "choose_fallback accountID fallbackID accounts =
     (if fallbackID \<noteq> [] \<and> (fallbackID = accountID \<or> fallbackID \<notin> set (enabled_others accountID accounts))
      then Inl ErrAccountDeleteNeedsFallback
      else let fallback = (if fallbackID \<noteq> [] then fallbackID else automatic_fallback accountID accounts)
           in if fallback = [] then Inl ErrAccountDeleteNeedsFallback else Inr fallback)"

definition lift_tx :: "gerr + 'a \<Rightarrow> 'a tx" where
  "lift_tx r = (case r of Inl e \<Rightarrow> fail_tx e | Inr x \<Rightarrow> ok_tx x)"

definition delete_account_in_tx :: "env \<Rightarrow> string \<Rightarrow> string \<Rightarrow> bool \<Rightarrow> account_deletion tx" where
  "delete_account_in_tx env accountID fallbackID revokeExclusive =
     then_tx (readStoredAccount env accountID) (\<lambda>found.
     then_tx (lift_tx (case found of None \<Rightarrow> Inl ErrAccountLifecycleNotFound | Some s \<Rightarrow> Inr s)) (\<lambda>account.
     then_tx (query env ''accounts'' ''read accounts for deletion: '' (\<lambda>d. (sort_slice row_less (db_accounts d), default_states d)))
       (\<lambda>(accounts, defaults).
     then_tx (guard_tx (length accounts \<le> 1) ErrAccountDeleteLast) (\<lambda>_.
     then_tx (lift_tx (choose_fallback accountID fallbackID accounts)) (\<lambda>fallback.
     then_tx (readAccountKeyRows env accountID) (\<lambda>rows.
     then_tx (exclusive_keys env accountID rows) (\<lambda>exclusive.
     then_tx (guard_tx (exclusive \<noteq> [] \<and> \<not> revokeExclusive) ErrAccountDeleteRequiresRevoke) (\<lambda>_.
     then_tx (read_routed_users env ''read account routes for deletion: '' accountID) (\<lambda>users.
     then_tx (exec env ''user_routes'' ''reroute deleted account users: '' (reroute accountID fallback)) (\<lambda>_.
     then_tx (if ac_DefaultGroup (sa_Account account)
              then exec env ''accounts'' ''replace deleted default account: '' (set_default fallback) else ok_tx ()) (\<lambda>_.
     then_tx (exec env ''key_records'' ''delete account Key rows: '' (delete_key_rows (\<lambda>r. kr_Account (snd r) = accountID))) (\<lambda>_.
     then_tx (exec env ''accounts'' ''delete account row: ''
       (\<lambda>d. d\<lparr>db_accounts := filter (\<lambda>r. ar_id r \<noteq> accountID) (db_accounts d)\<rparr>)) (\<lambda>_.
     ok_tx \<lparr>ad_Account = account, ad_Rows = rows,
            ad_Routes = map (\<lambda>u. \<lparr>rc_UserEmail = u, rc_Before = accountID, rc_After = fallback\<rparr>) users,
            ad_Defaults = defaults, ad_FallbackAccount = fallback,
            ad_RevokedExclusiveKeys = int (length exclusive)\<rparr>)))))))))))))"

definition ApplyAccountDeletion ::
  "fence \<Rightarrow> env \<Rightarrow> string \<Rightarrow> string \<Rightarrow> bool \<Rightarrow> db \<Rightarrow> (gerr + account_deletion) \<times> db" where
  "ApplyAccountDeletion fence env rawAccountID rawFallback revokeExclusive d =
     (case and_then (NormalizeAccountID rawAccountID) (\<lambda>accountID.
           and_then (optional_account_id rawFallback) (\<lambda>fallbackID. Inr (accountID, fallbackID))) of
        Inl e \<Rightarrow> (Inl e, d)
      | Inr (accountID, fallbackID) \<Rightarrow>
          writeTransaction fence env (delete_account_in_tx env accountID fallbackID revokeExclusive) d)"

definition require_route :: "env \<Rightarrow> string \<Rightarrow> route_change \<Rightarrow> unit tx" where
  "require_route env text route =
     then_tx (query_row env ''user_routes'' text (\<lambda>d. map_of (db_user_routes d) (rc_UserEmail route))) (\<lambda>current.
     guard_tx (current \<noteq> rc_After route) ErrAccountLifecycleConflict)"

definition restore_route :: "route_change \<Rightarrow> db \<Rightarrow> db" where
  "restore_route route d = d\<lparr>db_user_routes :=
     map (\<lambda>(u, a). (u, if u = rc_UserEmail route \<and> a = rc_After route then rc_Before route else a)) (db_user_routes d)\<rparr>"

definition restore_default :: "default_state \<Rightarrow> db \<Rightarrow> db" where
  "restore_default state d = d\<lparr>db_accounts :=
     map (\<lambda>r. if ar_id r = ds_AccountID state then r\<lparr>ar_default_group := boolInteger (ds_Default state)\<rparr> else r) (db_accounts d)\<rparr>"

definition insert_rows :: "env \<Rightarrow> string \<Rightarrow> key_row list \<Rightarrow> unit tx" where
  "insert_rows env text rows =
     each_tx (\<lambda>r. exec_checked env ''key_records'' (text @ itoa (fst r) @ '': '') (insert_key_row r)) rows"

definition restore_account_deletion_in_tx :: "env \<Rightarrow> account_deletion \<Rightarrow> unit tx" where
  "restore_account_deletion_in_tx env x =
     then_tx (readStoredAccount env (ac_ID (sa_Account (ad_Account x)))) (\<lambda>found.
     then_tx (guard_tx (found \<noteq> None) ErrAccountLifecycleConflict) (\<lambda>_.
     then_tx (each_tx (require_route env ''read deleted account route rollback target: '') (ad_Routes x)) (\<lambda>_.
     then_tx (each_tx (\<lambda>row. then_tx (readStoredKeyRecord env (fst row)) (\<lambda>found.
       guard_tx (found \<noteq> None) ErrAccountLifecycleConflict)) (ad_Rows x)) (\<lambda>_.
     then_tx (exec_checked env ''accounts'' ''restore deleted account: '' (insert_account_row (row_of_stored (ad_Account x)))) (\<lambda>_.
     then_tx (insert_rows env ''restore deleted account Key row '' (sort_key fst (ad_Rows x))) (\<lambda>_.
     then_tx (each_tx (\<lambda>route. exec env ''user_routes'' ''restore deleted account route: '' (restore_route route)) (ad_Routes x)) (\<lambda>_.
     each_tx (\<lambda>state. exec env ''accounts'' ''restore account default state: '' (restore_default state)) (ad_Defaults x))))))))"

definition RestoreAccountDeletion :: "fence \<Rightarrow> env \<Rightarrow> account_deletion \<Rightarrow> db \<Rightarrow> (gerr + unit) \<times> db" where
  "RestoreAccountDeletion fence env x d =
     (if ac_ID (sa_Account (ad_Account x)) = [] \<or> ad_FallbackAccount x = []
      then (Inl (ErrWrap [] ErrInvalidCatalogInput '': incomplete account deletion rollback''), d)
      else writeTransaction fence env (restore_account_deletion_in_tx env x) d)"


section \<open>Update\<close>

text \<open>The account that takes over the routes or the default; an account without either has none.\<close>

definition update_fallback :: "string \<Rightarrow> bool \<Rightarrow> bool \<Rightarrow> bool \<Rightarrow> string \<Rightarrow> account_row list \<Rightarrow> gerr + string" where
  "update_fallback accountID desiredEnabled wasDefault desiredDefault fallbackID accounts =
     (let others = enabled_others accountID accounts
      in if \<not> desiredEnabled \<and> others = [] then Inl ErrAccountDeleteNeedsFallback
         else if fallbackID \<noteq> [] \<and> (fallbackID = accountID \<or> fallbackID \<notin> set others) then Inl ErrAccountDeleteNeedsFallback
         else if \<not> desiredEnabled \<and> desiredDefault
         then Inl (ErrWrap [] ErrInvalidCatalogInput '': a disabled account cannot be the default'')
         else Inr (if fallbackID = [] \<and> (\<not> desiredEnabled \<or> (wasDefault \<and> \<not> desiredDefault))
                   then automatic_fallback accountID accounts else fallbackID))"

text \<open>A route of a disabled account: the recorded change is redirected, or a new one is recorded.\<close>

fun redirect_change :: "string \<Rightarrow> string \<Rightarrow> string \<Rightarrow> route_change list \<Rightarrow> route_change list" where
  "redirect_change accountID fallback user [] = [\<lparr>rc_UserEmail = user, rc_Before = accountID, rc_After = fallback\<rparr>]"
| "redirect_change accountID fallback user (c # changes) =
     (if rc_UserEmail c = user then c\<lparr>rc_After := fallback\<rparr> # changes
      else c # redirect_change accountID fallback user changes)"

definition rename_routes :: "env \<Rightarrow> string \<Rightarrow> string \<Rightarrow> route_change list tx" where
  "rename_routes env accountID newAccountID =
     (if newAccountID = accountID then ok_tx []
      else then_tx (read_routed_users env ''read renamed account routes: '' accountID) (\<lambda>users.
           then_tx (exec env ''user_routes'' ''rename account routes: '' (reroute accountID newAccountID)) (\<lambda>_.
           ok_tx (map (\<lambda>u. \<lparr>rc_UserEmail = u, rc_Before = accountID, rc_After = newAccountID\<rparr>) users))))"

definition disable_routes :: "env \<Rightarrow> string \<Rightarrow> string \<Rightarrow> string \<Rightarrow> bool \<Rightarrow> route_change list \<Rightarrow> route_change list tx" where
  "disable_routes env accountID newAccountID fallback desiredEnabled changes =
     (if desiredEnabled then ok_tx changes
      else then_tx (read_routed_users env ''read disabled account routes: '' newAccountID) (\<lambda>users.
           then_tx (exec env ''user_routes'' ''reroute disabled account users: '' (reroute newAccountID fallback)) (\<lambda>_.
           ok_tx (fold (redirect_change accountID fallback) users changes))))"

definition hand_over_default :: "env \<Rightarrow> string \<Rightarrow> string \<Rightarrow> bool \<Rightarrow> bool \<Rightarrow> unit tx" where
  "hand_over_default env newAccountID fallback wasDefault desiredDefault =
     (if desiredDefault then exec env ''accounts'' ''set updated default account: '' (set_default newAccountID)
      else if wasDefault
      then then_tx (guard_tx (fallback = []) ErrAccountDeleteNeedsFallback) (\<lambda>_.
           exec env ''accounts'' ''replace updated default account: '' (set_default fallback))
      else ok_tx ())"

record normal_update =
  nu_AccountID :: string
  nu_NewAccountID :: string
  nu_Email :: string
  nu_ProxyMode :: string
  nu_Fallback :: string
  nu_GroupEnabled :: "bool option"
  nu_DefaultGroup :: "bool option"

definition normalize_update :: "(string \<Rightarrow> string option) \<Rightarrow> update_request \<Rightarrow> gerr + normal_update" where
  "normalize_update parse_address q =
     and_then (NormalizeAccountID (ur_AccountID q)) (\<lambda>accountID.
     and_then (NormalizeAccountID (if trim_space (ur_NewAccountID q) = [] then accountID else trim_space (ur_NewAccountID q))) (\<lambda>newID.
     and_then (NormalizeAccountEmail parse_address (ur_Email q)) (\<lambda>email.
     and_then (NormalizeProxyMode (ur_ProxyMode q)) (\<lambda>proxyMode.
     and_then (optional_account_id (ur_FallbackAccount q)) (\<lambda>fallback.
     Inr \<lparr>nu_AccountID = accountID, nu_NewAccountID = newID, nu_Email = email, nu_ProxyMode = proxyMode, nu_Fallback = fallback,
          nu_GroupEnabled = ur_GroupEnabled q, nu_DefaultGroup = ur_DefaultGroup q\<rparr>)))))"

definition update_account_in_tx :: "env \<Rightarrow> normal_update \<Rightarrow> account_update tx" where
  "update_account_in_tx env q =
     (let accountID = nu_AccountID q; newID = nu_NewAccountID q
      in then_tx (readStoredAccount env accountID) (\<lambda>found.
     then_tx (lift_tx (case found of None \<Rightarrow> Inl ErrAccountLifecycleNotFound | Some s \<Rightarrow> Inr s)) (\<lambda>before.
     then_tx (if newID \<noteq> accountID
              then query env ''accounts'' ''check renamed account ID: '' (\<lambda>d. filter (\<lambda>r. ar_id r = newID) (db_accounts d))
              else ok_tx []) (\<lambda>duplicate.
     then_tx (guard_tx (duplicate \<noteq> []) ErrAccountAlreadyExists) (\<lambda>_.
     then_tx (query env ''accounts'' ''check updated account email: ''
       (\<lambda>d. filter (\<lambda>r. to_lower (ar_email r) = nu_Email q \<and> ar_id r \<noteq> accountID) (db_accounts d))) (\<lambda>sameEmail.
     then_tx (guard_tx (sameEmail \<noteq> []) ErrAccountEmailAlreadyExists) (\<lambda>_.
     then_tx (query env ''accounts'' ''read accounts for update: '' (\<lambda>d. (sort_slice row_less (db_accounts d), default_states d)))
       (\<lambda>(accounts, defaultsBefore).
     let desiredEnabled = (case nu_GroupEnabled q of None \<Rightarrow> ac_GroupEnabled (sa_Account before) | Some b \<Rightarrow> b);
         desiredDefault = (case nu_DefaultGroup q of None \<Rightarrow> ac_DefaultGroup (sa_Account before) | Some b \<Rightarrow> b);
         wasDefault = ac_DefaultGroup (sa_Account before)
     in then_tx (lift_tx (update_fallback accountID desiredEnabled wasDefault desiredDefault (nu_Fallback q) accounts)) (\<lambda>fallback.
     then_tx (readAccountKeyRows env accountID) (\<lambda>rowsBefore.
     then_tx (exec_checked env ''accounts'' ''update account row: '' (update_accounts (\<lambda>r. ar_id r = accountID)
       (\<lambda>r. r\<lparr>ar_id := newID, ar_email := nu_Email q, ar_proxy_mode := nu_ProxyMode q,
              ar_group_enabled := boolInteger desiredEnabled, ar_default_group := boolInteger desiredDefault\<rparr>))) (\<lambda>_.
     then_tx (exec env ''key_records'' ''update account Key rows: '' (update_key_rows (\<lambda>r. kr_Account (snd r) = accountID)
       (\<lambda>k. k\<lparr>kr_Label := sql_norm (kr_User k) @ '':'' @ newID, kr_Account := newID, kr_AccountEmail := nu_Email q\<rparr>))) (\<lambda>_.
     then_tx (rename_routes env accountID newID) (\<lambda>renamed.
     then_tx (disable_routes env accountID newID fallback desiredEnabled renamed) (\<lambda>routes.
     then_tx (hand_over_default env newID fallback wasDefault desiredDefault) (\<lambda>_.
     then_tx (readStoredAccount env newID) (\<lambda>found.
     then_tx (lift_tx (case found of None \<Rightarrow> Inl ErrAccountLifecycleConflict | Some s \<Rightarrow> Inr s)) (\<lambda>after.
     then_tx (readAccountKeyRows env newID) (\<lambda>rowsAfter.
     then_tx (query env ''accounts'' ''read updated default accounts: '' default_states) (\<lambda>defaultsAfter.
     ok_tx \<lparr>au_Before = before, au_After = after, au_RowsBefore = rowsBefore, au_RowsAfter = rowsAfter,
            au_Routes = routes, au_DefaultsBefore = defaultsBefore, au_DefaultsAfter = defaultsAfter\<rparr>)))))))))))))))))))"

definition ApplyAccountUpdate ::
  "fence \<Rightarrow> env \<Rightarrow> (string \<Rightarrow> string option) \<Rightarrow> update_request \<Rightarrow> db \<Rightarrow> (gerr + account_update) \<times> db" where
  "ApplyAccountUpdate fence env parse_address q d =
     (case normalize_update parse_address q of Inl e \<Rightarrow> (Inl e, d)
      | Inr n \<Rightarrow> writeTransaction fence env (update_account_in_tx env n) d)"

definition require_default :: "env \<Rightarrow> default_state \<Rightarrow> unit tx" where
  "require_default env expected =
     then_tx (query_row env ''accounts'' ''read account update rollback default: ''
       (\<lambda>d. map_option ar_default_group (find (\<lambda>r. ar_id r = ds_AccountID expected) (db_accounts d)))) (\<lambda>current.
     guard_tx ((current \<noteq> 0) \<noteq> ds_Default expected) ErrAccountLifecycleConflict)"

definition restore_account_update_in_tx :: "env \<Rightarrow> account_update \<Rightarrow> unit tx" where
  "restore_account_update_in_tx env x =
     (let beforeID = ac_ID (sa_Account (au_Before x)); afterID = ac_ID (sa_Account (au_After x))
      in then_tx (readStoredAccount env afterID) (\<lambda>found.
     then_tx (guard_tx (\<not> (case found of None \<Rightarrow> False | Some s \<Rightarrow> sameStoredAccount s (au_After x))) ErrAccountLifecycleConflict) (\<lambda>_.
     then_tx (if beforeID \<noteq> afterID
              then then_tx (readStoredAccount env beforeID) (\<lambda>other. guard_tx (other \<noteq> None) ErrAccountLifecycleConflict)
              else ok_tx ()) (\<lambda>_.
     then_tx (readAccountKeyRows env afterID) (\<lambda>currentRows.
     then_tx (guard_tx (\<not> sameStoredKeyRecords currentRows (au_RowsAfter x)) ErrAccountLifecycleConflict) (\<lambda>_.
     then_tx (each_tx (require_route env ''read account update rollback route: '') (au_Routes x)) (\<lambda>_.
     then_tx (each_tx (require_default env) (au_DefaultsAfter x)) (\<lambda>_.
     then_tx (exec_checked env ''accounts'' ''restore updated account: ''
       (update_accounts (\<lambda>r. ar_id r = afterID) (\<lambda>_. row_of_stored (au_Before x)))) (\<lambda>_.
     then_tx (exec env ''key_records'' ''clear updated account Key rows: '' (delete_key_rows (\<lambda>r. kr_Account (snd r) = afterID))) (\<lambda>_.
     then_tx (insert_rows env ''restore updated account Key row '' (au_RowsBefore x)) (\<lambda>_.
     then_tx (each_tx (\<lambda>route. exec env ''user_routes'' ''restore updated account route: '' (restore_route route)) (au_Routes x)) (\<lambda>_.
     each_tx (\<lambda>state. exec env ''accounts'' ''restore updated account default state: '' (restore_default state)) (au_DefaultsBefore x)))))))))))))"

definition RestoreAccountUpdate :: "fence \<Rightarrow> env \<Rightarrow> account_update \<Rightarrow> db \<Rightarrow> (gerr + unit) \<times> db" where
  "RestoreAccountUpdate fence env x d =
     (if ac_ID (sa_Account (au_Before x)) = [] \<or> ac_ID (sa_Account (au_After x)) = []
      then (Inl (ErrWrap [] ErrInvalidCatalogInput '': incomplete account update rollback''), d)
      else writeTransaction fence env (restore_account_update_in_tx env x) d)"

end
