(* ===== verification/Lifecycle_Proofs.thy ===== *)
theory Lifecycle_Proofs
  imports User_Lifecycle Row_Proofs
begin

text \<open>
  What creating, revoking and deleting a user do to the store, and that each rollback gives the store
  before back: exactly, or up to the order of the rows of a table that a row was taken from.
\<close>

section \<open>Lookups by user\<close>

definition plain_user :: "string \<Rightarrow> string list \<Rightarrow> bool" where
  "plain_user user names \<longleftrightarrow> list_all (\<lambda>u. sql_norm u = user \<longrightarrow> u = user) names"

lemma find_plain: "plain_user user (map fst m) \<Longrightarrow> sql_norm user = user \<Longrightarrow> find_user user m = map_of m user"
  by (induction m) (auto simp: plain_user_def find_user_def)

lemma map_of_without [simp]: "map_of (without_user user m) u = (if sql_norm u = user then None else map_of m u)"
  by (induction m) (auto simp: without_user_def)

lemma map_of_except: "map_of (filter (\<lambda>(u, _). u \<noteq> user) m) u = (if u = user then None else map_of m u)"
  by (induction m) auto

lemma plain_none: "plain_user user (map fst m) \<Longrightarrow> sql_norm u = user \<Longrightarrow> u \<noteq> user \<Longrightarrow> map_of m u = None"
  by (auto simp: plain_user_def list_all_iff map_of_eq_None_iff)

text \<open>The same store: every table has the same rows.\<close>

definition same_store :: "db \<Rightarrow> db \<Rightarrow> bool" where
  "same_store d d' \<longleftrightarrow>
     map_of (db_user_routes d') = map_of (db_user_routes d) \<and>
     map_of (db_memberships d') = map_of (db_memberships d) \<and>
     map_of (db_internal_keys d') = map_of (db_internal_keys d) \<and>
     set (db_user_tags d') = set (db_user_tags d) \<and>
     d' = d\<lparr>db_user_routes := db_user_routes d', db_memberships := db_memberships d',
            db_internal_keys := db_internal_keys d', db_user_tags := db_user_tags d'\<rparr>"

lemma check_user_row_iff [tx]:
  "check_user_row env text user status secret sequence d = Inr (u, d') \<longleftrightarrow>
     ev_fault env (SqlRead ''key_records'' (text @ itoa sequence @ '' for rollback: '')) = None \<and> d' = d \<and>
     (\<exists>row. key_row_at sequence d = Some row \<and> EqualFold (kr_User row) user \<and> kr_Status row = status \<and> kr_Key row = secret)"
  by (auto simp: check_user_row_def tx)

section \<open>Creation\<close>

definition user_row :: "string \<Rightarrow> string \<Rightarrow> int \<Rightarrow> account_row \<Rightarrow> key_record" where
  "user_row user key now a = active_key_row (user @ '':'' @ ar_id a) (ar_id a) (ar_email a) user key now"

lemma create_rows_effect:
  assumes "create_rows env user key now n accounts d = Inr (u, d')" "\<forall>x \<in> set (db_key_rows d). fst x < n"
  shows "d' = d\<lparr>db_key_rows := db_key_rows d @ numbered (user_row user key now) n accounts\<rparr>"
  using assms
proof (induction accounts arbitrary: n d)
  case (Cons a accounts)
  let ?d1 = "d\<lparr>db_key_rows := db_key_rows d @ [(n, user_row user key now a)]\<rparr>"
  have "insert_row (n, user_row user key now a) (db_key_rows d) = db_key_rows d @ [(n, user_row user key now a)]"
    using Cons.prems(2) by (intro insert_row_last) simp
  with Cons.prems(1) have "create_rows env user key now (n + 1) accounts ?d1 = Inr (u, d')"
    by (auto simp: tx insert_key_row_Inr user_row_def)
  moreover have "\<forall>x \<in> set (db_key_rows ?d1). fst x < n + 1" using Cons.prems(2) by (auto simp: zless_add1_eq)
  ultimately show ?case using Cons.IH [of "n + 1" ?d1] by simp
qed (simp add: tx)

definition new_membership :: "env \<Rightarrow> string \<Rightarrow> membership option \<Rightarrow> membership" where
  "new_membership env team previous = \<lparr>ms_TeamID = Some team,
     ms_Version = (case previous of None \<Rightarrow> 1 | Some m \<Rightarrow> wrap64 (ms_Version m + 1)), ms_UpdatedAt = unix_of (ev_now env)\<rparr>"

lemma assign_team_iff: "assign_team env user team d = Inr (previous, d') \<Longrightarrow>
    team \<in> set (db_teams d) \<and> previous = find_user user (db_memberships d) \<and>
    d' = d\<lparr>db_memberships := mput user (new_membership env team (find_user user (db_memberships d))) (db_memberships d)\<rparr>"
  by (auto simp: assign_team_def readUserMembership_def upsert_membership_def new_membership_def constraint_failed_def tx)

definition created_memberships :: "env \<Rightarrow> string \<Rightarrow> string option \<Rightarrow> db \<Rightarrow> membership gomap" where
  "created_memberships env user team d =
     (case team of None \<Rightarrow> db_memberships d
      | Some t \<Rightarrow> mput user (new_membership env t (find_user user (db_memberships d))) (db_memberships d))"

lemma creation_effect:
  assumes "ApplyUserCreation fence env rawUser rawKey teamID d = (Inr c, d')"
  defines "user \<equiv> norm_name rawUser" and "key \<equiv> trim_space rawKey" and "team \<equiv> normalizeOptionalCatalogID teamID"
    and "accounts \<equiv> sort_slice row_less (db_accounts d)"
  shows "d' = d\<lparr>db_memberships := created_memberships env user team d,
      db_user_routes := without_user user (db_user_routes d),
      db_key_rows := db_key_rows d @ numbered (user_row user key (unix_of (ev_now env))) (next_sequence d) accounts\<rparr>"
    "cu_User c = user" "cu_APIKey c = key"
    "cu_CreatedRows c = map (\<lambda>i. next_sequence d + int i) [0..<length accounts]"
    "cu_PreviousRoute c = find_user user (db_user_routes d)" "cu_TeamChanged c = (team \<noteq> None)"
    "cu_PreviousMembership c = (if team = None then None else find_user user (db_memberships d))"
    "user \<noteq> []" "key \<noteq> []" "accounts \<noteq> []" "filter is_active (user_key_rows user d) = []"
    "\<forall>r \<in> set (db_key_rows d). kr_Key (snd r) \<noteq> key" "\<forall>t. team = Some t \<longrightarrow> t \<in> set (db_teams d)"
proof -
  from assms(1) have input: "user \<noteq> []" "key \<noteq> []"
    and run: "writeTransaction fence env (create_in_tx env user key team) d = (Inr c, d')"
    by (auto simp: ApplyUserCreation_def Let_def user_def key_def team_def split: if_splits)
  from writeTransaction_Inr(2) [OF run] obtain d1 previous u where
    steps: "filter is_active (user_key_rows user d) = []" "filter (\<lambda>r. kr_Key (snd r) = key) (db_key_rows d) = []"
      "accounts \<noteq> []" "(case team of None \<Rightarrow> ok_tx None | Some t \<Rightarrow> assign_team env user t) d = Inr (previous, d1)"
      "create_rows env user key (unix_of (ev_now env)) (next_sequence (d1\<lparr>db_user_routes := without_user user (db_user_routes d1)\<rparr>))
        accounts (d1\<lparr>db_user_routes := without_user user (db_user_routes d1)\<rparr>) = Inr (u, d')"
    and c: "c = \<lparr>cu_User = user, cu_APIKey = key,
       cu_CreatedRows = map (\<lambda>i. next_sequence (d1\<lparr>db_user_routes := without_user user (db_user_routes d1)\<rparr>) + int i) [0..<length accounts],
       cu_PreviousRoute = find_user user (db_user_routes d1), cu_TeamChanged = (team \<noteq> None), cu_PreviousMembership = previous\<rparr>"
    by (auto simp: create_in_tx_def tx accounts_def)
  have d1: "d1 = d\<lparr>db_memberships := created_memberships env user team d\<rparr>"
    "previous = (if team = None then None else find_user user (db_memberships d))" "\<forall>t. team = Some t \<longrightarrow> t \<in> set (db_teams d)"
    using steps(4) by (auto simp: created_memberships_def tx dest!: assign_team_iff split: option.splits)
  have sequence: "next_sequence (d1\<lparr>db_user_routes := without_user user (db_user_routes d1)\<rparr>) = next_sequence d"
    by (simp add: next_sequence_def d1)
  show "d' = d\<lparr>db_memberships := created_memberships env user team d,
      db_user_routes := without_user user (db_user_routes d),
      db_key_rows := db_key_rows d @ numbered (user_row user key (unix_of (ev_now env))) (next_sequence d) accounts\<rparr>"
    using create_rows_effect [OF steps(5) [unfolded sequence]] next_sequence_fresh by (simp add: d1)
  show "cu_User c = user" "cu_APIKey c = key" "cu_CreatedRows c = map (\<lambda>i. next_sequence d + int i) [0..<length accounts]"
    "cu_PreviousRoute c = find_user user (db_user_routes d)" "cu_TeamChanged c = (team \<noteq> None)"
    "cu_PreviousMembership c = (if team = None then None else find_user user (db_memberships d))"
    by (simp_all add: c sequence) (simp_all add: d1)
  show "user \<noteq> []" "key \<noteq> []" "accounts \<noteq> []" "filter is_active (user_key_rows user d) = []"
    "\<forall>r \<in> set (db_key_rows d). kr_Key (snd r) \<noteq> key" "\<forall>t. team = Some t \<longrightarrow> t \<in> set (db_teams d)"
    using input steps(1-3) d1(3) by (auto simp: filter_empty_conv)
qed


lemma created_row_props:
  "kr_User (user_row user key now a) = user" "kr_Key (user_row user key now a) = key"
  "kr_Status (user_row user key now a) = ''active''" "kr_Account (user_row user key now a) = ar_id a"
  by (simp_all add: user_row_def active_key_row_def)

lemma created_membership_other:
  "u \<noteq> user \<Longrightarrow> map_of (created_memberships env user team d) u = map_of (db_memberships d) u"
  by (simp add: created_memberships_def split: option.splits)

text \<open>
  A successful creation gives the user exactly one active row per account of the catalog, all with the
  requested key, which no row had before; before it the user had no active row. The user has no route left
  (so that the first login assigns one) and, if a team was requested, is a member of it, which exists. Rows,
  routes and memberships of all other users, and all other tables, are unchanged.
\<close>

theorem user_creation_complete:
  assumes "ApplyUserCreation fence env rawUser rawKey teamID d = (Inr c, d')"
  shows "filter is_active (user_key_rows (norm_name rawUser) d) = [] \<and>
    map (\<lambda>r. (kr_Account (snd r), kr_Key (snd r))) (filter is_active (user_key_rows (norm_name rawUser) d')) =
      map (\<lambda>a. (ar_id a, trim_space rawKey)) (sort_slice row_less (db_accounts d)) \<and>
    trim_space rawKey \<notin> kr_Key ` snd ` set (db_key_rows d) \<and>
    find_user (norm_name rawUser) (db_user_routes d') = None \<and>
    (case normalizeOptionalCatalogID teamID of None \<Rightarrow> db_memberships d' = db_memberships d
     | Some t \<Rightarrow> t \<in> set (db_teams d) \<and> map_option ms_TeamID (map_of (db_memberships d') (norm_name rawUser)) = Some (Some t)) \<and>
    (\<forall>u. u \<noteq> norm_name rawUser \<longrightarrow> user_key_rows u d' = user_key_rows u d \<and>
       map_of (db_memberships d') u = map_of (db_memberships d) u \<and>
       (sql_norm u \<noteq> norm_name rawUser \<longrightarrow> map_of (db_user_routes d') u = map_of (db_user_routes d) u)) \<and>
    d' = d\<lparr>db_memberships := db_memberships d', db_user_routes := db_user_routes d', db_key_rows := db_key_rows d'\<rparr>"
proof -
  let ?user = "norm_name rawUser" and ?key = "trim_space rawKey"
  note effect = creation_effect [OF assms]
  let ?accounts = "sort_slice row_less (db_accounts d)"
  let ?new = "numbered (user_row ?user ?key (unix_of (ev_now env))) (next_sequence d) ?accounts"
  have new: "kr_User (snd r) = ?user \<and> is_active r" if "r \<in> set ?new" for r
    using numbered_mem [OF that] by (auto simp: created_row_props is_active_def)
  have "filter is_active (filter (\<lambda>r. sql_norm (kr_User (snd r)) = ?user) ?new) = ?new"
    using new by (simp add: filter_id_conv)
  then have "filter is_active (user_key_rows ?user d') = ?new"
    using effect(11) by (simp add: effect(1) user_key_rows_def)
  moreover have "map (\<lambda>r. (kr_Account (snd r), kr_Key (snd r))) ?new = map (\<lambda>a. (ar_id a, ?key)) ?accounts"
  proof -
    have "map (\<lambda>r. (kr_Account (snd r), kr_Key (snd r))) ?new = map (\<lambda>k. (kr_Account k, kr_Key k)) (map snd ?new)"
      by (simp only: map_map comp_def)
    then show ?thesis by (simp add: created_row_props)
  qed
  moreover have "find_user ?user (db_user_routes d') = None"
    by (auto simp: effect(1) find_user_def without_user_def find_None_iff)
  moreover have "user_key_rows u d' = user_key_rows u d" if "u \<noteq> ?user" for u
    using new that by (auto simp: effect(1) user_key_rows_def filter_empty_conv)
  ultimately show ?thesis
    using effect(11-13) created_membership_other [of _ ?user env "normalizeOptionalCatalogID teamID" d]
    by (auto simp: effect(1) created_memberships_def new_membership_def split: option.splits)
qed


text \<open>
  A creation can be undone. On a store that satisfies the schema and whose route and membership of the
  user, if any, are stored under the normalised name, the rollback of a successful
  creation succeeds (when the write fence still holds and no call fails) and every table has the rows it
  had before: the new rows are gone, and the old route and the old membership are back.
\<close>

theorem user_creation_is_undone:
  assumes "ApplyUserCreation fence env rawUser rawKey teamID d = (Inr c, d')"
    "schema_ok d"
    "plain_user (norm_name rawUser) (map fst (db_user_routes d) @ map fst (db_memberships d))"
    "calm env'" "validateWriteFence fence' env' d' = None"
  shows "\<exists>d''. RestoreUserCreation fence' env' c d' = (Inr (), d'') \<and> same_store d d''"
proof -
  let ?user = "norm_name rawUser" and ?key = "trim_space rawKey" and ?accounts = "sort_slice row_less (db_accounts d)"
  note effect = creation_effect [OF assms(1)]
  let ?row = "user_row ?user ?key (unix_of (ev_now env))"
  have below: "\<forall>r \<in> set (db_key_rows d). fst r < next_sequence d" using next_sequence_fresh by blast
  have keys: "distinct (map fst (db_key_rows d'))"
    using appended_distinct [OF _ below] schema_key_rows [OF assms(2)] by (simp add: effect(1))
  have plain: "find_user ?user (db_user_routes d) = map_of (db_user_routes d) ?user"
    "find_user ?user (db_memberships d) = map_of (db_memberships d) ?user"
    and others: "sql_norm u = ?user \<Longrightarrow> u \<noteq> ?user \<Longrightarrow> map_of (db_user_routes d) u = None" for u
    using assms(3) by (auto simp: plain_user_def intro!: find_plain plain_none)
  have found: "\<exists>row. key_row_at n d' = Some row \<and> EqualFold (kr_User row) ?user \<and> kr_Status row = ''active'' \<and> kr_Key row = ?key"
    if "n \<in> set (cu_CreatedRows c)" for n
    using appended_found [OF keys, where mk = ?row and n = "next_sequence d" and xs = ?accounts and m = n] that
    by (auto simp: effect(1,4) created_row_props EqualFold_def)
  have checks: "each_tx (check_user_row env' ''read created user row '' ?user ''active'' ?key) (cu_CreatedRows c) d' = Inr ((), d')"
    using assms(4) found by (intro each_tx_pass) (auto simp: check_user_row_iff calm_def)
  let ?d1 = "d\<lparr>db_memberships := created_memberships env ?user (normalizeOptionalCatalogID teamID) d,
    db_user_routes := without_user ?user (db_user_routes d)\<rparr>"
  have deleted: "fold (\<lambda>n. delete_key_rows (\<lambda>x. fst x = n)) (cu_CreatedRows c) d' = ?d1"
    using appended_deleted [OF below, where xs = ?accounts and d = ?d1 and mk = ?row] by (simp add: effect(1,4))
  define R where "R = (case cu_PreviousRoute c of None \<Rightarrow> filter (\<lambda>(u, _). u \<noteq> ?user) (db_user_routes ?d1)
    | Some route \<Rightarrow> mput ?user route (db_user_routes ?d1))"
  define M where "M = (if cu_TeamChanged c then case cu_PreviousMembership c of
      None \<Rightarrow> filter (\<lambda>(u, _). u \<noteq> ?user) (db_memberships ?d1) | Some m \<Rightarrow> mput ?user m (db_memberships ?d1)
    else db_memberships ?d1)"
  have member: "\<forall>m t. map_of (db_memberships d) ?user = Some m \<longrightarrow> ms_TeamID m = Some t \<longrightarrow> t \<in> set (db_teams d)"
    using assms(2) by (blast intro: schema_member)
  have "restore_creation_in_tx env' c d' = Inr ((), d\<lparr>db_user_routes := R, db_memberships := M\<rparr>)"
    using assms(4) checks deleted member
    by (auto simp: restore_creation_in_tx_def then_tx_eq R_def M_def effect(2,3,5-7) plain restoreUserMembership_def upsert_membership_def
        exec_checked_def calm_def ok_tx_def split: option.splits)
  moreover have "map_of R u = map_of (db_user_routes d) u" for u
    using others [of u] by (auto simp: R_def effect(5) plain map_of_except split: option.splits)
  moreover have "map_of M u = map_of (db_memberships d) u" for u
    by (auto simp: M_def effect(6,7) plain map_of_except created_memberships_def split: option.splits)
  ultimately have "\<exists>d''. restore_creation_in_tx env' c d' = Inr ((), d'') \<and> same_store d d''"
    by (auto simp: same_store_def)
  moreover have "cu_User c \<noteq> []" "cu_APIKey c \<noteq> []" "cu_CreatedRows c \<noteq> []" using effect(2-4,8-10) by (auto simp: sort_slice_def)
  ultimately show ?thesis
    using assms(4,5) by (auto simp: RestoreUserCreation_def writeTransaction_calm)
qed


section \<open>Revocation\<close>

abbreviation status_row_of :: "key_row \<Rightarrow> status_row" where
  "status_row_of r \<equiv> \<lparr>us_Sequence = fst r, us_Secret = kr_Key (snd r), us_UpdatedAt = kr_UpdatedAt (snd r)\<rparr>"

lemma revoke_row_Inr: "revoke_row env now (status_row_of r) d = Inr (u, d') \<Longrightarrow>
    d' = d\<lparr>db_key_rows := map (mark_as ''revoked'' {fst r} now) (db_key_rows d)\<rparr>"
  by (simp add: revoke_row_def Let_def tx update_is_mark)

lemma revoke_rows_effect:
  "each_tx (revoke_row env now) (map status_row_of rows) d = Inr (u, d') \<Longrightarrow>
     d' = d\<lparr>db_key_rows := map (mark_as ''revoked'' (fst ` set rows) now) (db_key_rows d)\<rparr>"
proof (induction rows arbitrary: d)
  case (Cons r rows)
  let ?d1 = "d\<lparr>db_key_rows := map (mark_as ''revoked'' {fst r} now) (db_key_rows d)\<rparr>"
  from Cons.prems have "each_tx (revoke_row env now) (map status_row_of rows) ?d1 = Inr (u, d')"
    by (auto simp: tx dest!: revoke_row_Inr)
  from Cons.IH [OF this] show ?case by (simp add: mark_union comp_def)
qed (simp add: tx)

lemma revocation_effect:
  assumes "ApplyUserRevocation fence env rawUser d = (Inr r, d')"
  defines "user \<equiv> norm_name rawUser" and "rows \<equiv> filter is_active (user_key_rows (norm_name rawUser) d)"
  shows "d' = d\<lparr>db_key_rows := map (mark_as ''revoked'' (fst ` set rows) (unix_of (ev_now env))) (db_key_rows d)\<rparr>"
    "r = \<lparr>rv_User = user, rv_Rows = map status_row_of rows\<rparr>" "user \<noteq> []" "rows \<noteq> []"
proof -
  from assms(1) have "user \<noteq> []" and run: "writeTransaction fence env (revoke_in_tx env user) d = (Inr r, d')"
    by (auto simp: ApplyUserRevocation_def Let_def user_def split: if_splits)
  with writeTransaction_Inr(2) [OF run] show
    "d' = d\<lparr>db_key_rows := map (mark_as ''revoked'' (fst ` set rows) (unix_of (ev_now env))) (db_key_rows d)\<rparr>"
    "r = \<lparr>rv_User = user, rv_Rows = map status_row_of rows\<rparr>" "user \<noteq> []" "rows \<noteq> []"
    by (auto simp: revoke_in_tx_def tx rows_def user_def dest: revoke_rows_effect)
qed

text \<open>
  A revocation takes every key of the user out of use, and can be undone. On a store with distinct
  sequence numbers: after a successful revocation the user has no active key (\<open>ActiveUserKey\<close> answers that
  there is none), the rows of all other users and all other tables are unchanged; and if the user's active
  rows are stored under the name without surrounding spaces, the rollback (while the write fence holds and
  no call fails) gives back exactly the store before it.
\<close>

theorem revocation_is_reversible:
  assumes "ApplyUserRevocation fence env rawUser d = (Inr r, d')" "distinct (map fst (db_key_rows d))"
    "list_all (\<lambda>r. is_active r \<longrightarrow> EqualFold (kr_User (snd r)) (norm_name rawUser)) (user_key_rows (norm_name rawUser) d)"
    "calm env'" "validateWriteFence fence' env' d' = None"
  shows "ActiveUserKey env' rawUser d' = Inl ErrUserLifecycleNotFound \<and>
    (\<forall>u. u \<noteq> norm_name rawUser \<longrightarrow> user_key_rows u d' = user_key_rows u d) \<and>
    d' = d\<lparr>db_key_rows := db_key_rows d'\<rparr> \<and>
    RestoreUserRevocation fence' env' r d' = (Inr (), d)"
proof -
  let ?user = "norm_name rawUser" and ?now = "unix_of (ev_now env)"
  define rows where "rows = filter is_active (user_key_rows ?user d)"
  note effect = revocation_effect [OF assms(1), folded rows_def]
  have mark: "mark_as ''revoked'' (fst ` set rows) ?now x = (if sql_norm (kr_User (snd x)) = ?user \<and> is_active x
      then (fst x, (snd x)\<lparr>kr_Status := ''revoked'', kr_UpdatedAt := ?now\<rparr>) else x)" if "x \<in> set (db_key_rows d)" for x
    by (rule mark_user_rows [OF assms(2) that rows_def])
  have mem: "x \<in> set (db_key_rows d)" "is_active x" "EqualFold (kr_User (snd x)) ?user" if "x \<in> set rows" for x
    using that assms(3) unfolding rows_def list_all_iff by (simp_all add: user_rows_mem)
  have "filter is_active (user_key_rows ?user d') = []"
    by (auto simp: effect(1) user_key_rows_def filter_empty_conv mark is_active_def)
  then have gone: "ActiveUserKey env' rawUser d' = Inl ErrUserLifecycleNotFound"
    using effect(3) assms(4) by (simp add: ActiveUserKey_def)
  have other: "user_key_rows u d' = user_key_rows u d" if "u \<noteq> ?user" for u
  proof -
    have "filter (\<lambda>r. sql_norm (kr_User (snd r)) = u) (map (mark_as ''revoked'' (fst ` set rows) ?now) xs) =
        filter (\<lambda>r. sql_norm (kr_User (snd r)) = u) xs" if "set xs \<subseteq> set (db_key_rows d)" for xs
      using that \<open>u \<noteq> ?user\<close> by (induction xs) (auto simp: mark)
    then show ?thesis by (simp add: effect(1) user_key_rows_def)
  qed
  have keys': "distinct (map fst (db_key_rows d'))" using assms(2) by (simp add: effect(1) comp_def)
  have found: "\<exists>k. key_row_at (fst x) d' = Some k \<and> EqualFold (kr_User k) ?user \<and> kr_Status k = ''revoked'' \<and> kr_Key k = kr_Key (snd x)"
    if "x \<in> set rows" for x
  proof -
    have "mark_as ''revoked'' (fst ` set rows) ?now x = (fst x, (snd x)\<lparr>kr_Status := ''revoked'', kr_UpdatedAt := ?now\<rparr>)"
      using that mem(2) by (simp add: mark_as_def)
    then have "(fst x, (snd x)\<lparr>kr_Status := ''revoked'', kr_UpdatedAt := ?now\<rparr>) \<in> set (db_key_rows d')"
      using mem(1) [OF that] by (force simp: effect(1))
    then show ?thesis using key_row_at_eq [OF keys'] mem(3) [OF that] by fastforce
  qed
  have checks: "each_tx (\<lambda>row. check_user_row env' ''read revoked user row '' (rv_User r) ''revoked'' (us_Secret row) (us_Sequence row))
      (rv_Rows r) d' = Inr ((), d')"
    using assms(4) found by (intro each_tx_pass) (auto simp: check_user_row_iff calm_def effect(2))
  have "distinct (map fst rows)" by (simp add: rows_def user_key_rows_def distinct_map_filter assms(2))
  then have restored: "fold (\<lambda>row. restore_row (us_Sequence row) (us_UpdatedAt row)) (rv_Rows r) d' = d"
    using restore_all [OF assms(2), where rows = rows and d = d and status = "''revoked''" and now = ?now] mem
    by (simp add: effect(1,2) fold_map comp_def subset_iff)
  have "restore_revocation_in_tx env' r d' = Inr ((), d)"
    using assms(4) checks restored by (simp add: restore_revocation_in_tx_def then_tx_eq restore_row_def [symmetric])
  then have "RestoreUserRevocation fence' env' r d' = (Inr (), d)"
    using assms(4,5) effect(2-4) by (simp add: RestoreUserRevocation_def writeTransaction_calm)
  with gone other show ?thesis by (simp add: effect(1))
qed


section \<open>Deletion\<close>

definition without_user_rows :: "string \<Rightarrow> db \<Rightarrow> key_row list" where
  "without_user_rows user d = filter (\<lambda>r. \<not> sql_norm (kr_User (snd r)) = user) (db_key_rows d)"

definition without_user_tags :: "string \<Rightarrow> db \<Rightarrow> ((string \<times> string) \<times> int) list" where
  "without_user_tags user d = filter (\<lambda>((u, _), _). sql_norm u \<noteq> user) (db_user_tags d)"

definition erased :: "string \<Rightarrow> db \<Rightarrow> db" where
  "erased user d = d\<lparr>db_key_rows := without_user_rows user d, db_user_routes := without_user user (db_user_routes d),
     db_user_tags := without_user_tags user d, db_memberships := without_user user (db_memberships d),
     db_internal_keys := without_user user (db_internal_keys d)\<rparr>"

lemma erase_user_effect: "erase_user env user d = Inr (u, d') \<Longrightarrow> d' = erased user d"
  by (auto simp: erase_user_def Let_def tx erased_def delete_key_rows_def without_user_rows_def without_user_tags_def)

lemma deletion_effect:
  assumes "ApplyUserDeletion fence env rawUser revokeActive d = (Inr x, d')"
  defines "user \<equiv> norm_name rawUser"
  shows "d' = erased user d" "dl_User x = user" "dl_Rows x = user_key_rows user d"
    "dl_Route x = find_user user (db_user_routes d)" "dl_Membership x = find_user user (db_memberships d)"
    "dl_Tags x = user_tags user d" "dl_InternalKey x = find_user user (db_internal_keys d)"
    "user \<noteq> []" "user_key_rows user d \<noteq> []" "\<not> revokeActive \<longrightarrow> filter is_active (user_key_rows user d) = []"
    "dl_RevokedActiveKeys x = int (card (kr_Key ` snd ` set (filter is_active (user_key_rows user d))))"
proof -
  from assms(1) have user: "user \<noteq> []" and run: "writeTransaction fence env (delete_in_tx env user revokeActive) d = (Inr x, d')"
    by (auto simp: ApplyUserDeletion_def Let_def user_def split: if_splits)
  from writeTransaction_Inr(2) [OF run] have "d' = erased user d"
    and steps: "user_key_rows user d \<noteq> []"
      "\<not> (remdups (map (\<lambda>r. kr_Key (snd r)) (filter is_active (user_key_rows user d))) \<noteq> [] \<and> \<not> revokeActive)"
    and x: "x = \<lparr>dl_User = user, dl_Rows = user_key_rows user d, dl_Route = find_user user (db_user_routes d),
      dl_Membership = find_user user (db_memberships d), dl_Tags = user_tags user d,
      dl_InternalKey = find_user user (db_internal_keys d),
      dl_RevokedActiveKeys = int (length (remdups (map (\<lambda>r. kr_Key (snd r)) (filter is_active (user_key_rows user d)))))\<rparr>"
    by (auto simp: delete_in_tx_def Let_def tx readUserMembership_def dest: erase_user_effect)
  then show "d' = erased user d" "dl_User x = user" "dl_Rows x = user_key_rows user d"
    "dl_Route x = find_user user (db_user_routes d)" "dl_Membership x = find_user user (db_memberships d)"
    "dl_Tags x = user_tags user d" "dl_InternalKey x = find_user user (db_internal_keys d)"
    "user \<noteq> []" "user_key_rows user d \<noteq> []"
    using user by simp_all
  show "\<not> revokeActive \<longrightarrow> filter is_active (user_key_rows user d) = []" using steps(2) by auto
  show "dl_RevokedActiveKeys x = int (card (kr_Key ` snd ` set (filter is_active (user_key_rows user d))))"
    by (simp add: x length_remdups_card_conv image_image)
qed


text \<open>
  A successful deletion leaves nothing of the user in any of the five tables, in whatever spelling the
  name was stored, and everything of every other user. Without permission to revoke it succeeds only if the
  user has no active row; with it, the receipt counts the distinct active keys that were revoked. The
  accounts, settings, teams, tags and runtime states are unchanged.
\<close>

theorem deletion_erases_user:
  assumes "ApplyUserDeletion fence env rawUser revokeActive d = (Inr x, d')"
  shows "user_key_rows (norm_name rawUser) d' = [] \<and> user_tags (norm_name rawUser) d' = [] \<and>
    find_user (norm_name rawUser) (db_user_routes d') = None \<and>
    find_user (norm_name rawUser) (db_memberships d') = None \<and>
    find_user (norm_name rawUser) (db_internal_keys d') = None \<and>
    (\<forall>u. u \<noteq> norm_name rawUser \<longrightarrow> user_key_rows u d' = user_key_rows u d \<and> user_tags u d' = user_tags u d) \<and>
    (\<forall>u. sql_norm u \<noteq> norm_name rawUser \<longrightarrow> map_of (db_user_routes d') u = map_of (db_user_routes d) u \<and>
       map_of (db_memberships d') u = map_of (db_memberships d) u \<and>
       map_of (db_internal_keys d') u = map_of (db_internal_keys d) u) \<and>
    (\<not> revokeActive \<longrightarrow> filter is_active (user_key_rows (norm_name rawUser) d) = []) \<and>
    dl_RevokedActiveKeys x = int (card (kr_Key ` snd ` set (filter is_active (user_key_rows (norm_name rawUser) d)))) \<and>
    (db_accounts d', db_settings d', db_teams d', db_tags d', db_runtime_state d') =
      (db_accounts d, db_settings d, db_teams d, db_tags d, db_runtime_state d)"
proof -
  let ?user = "norm_name rawUser"
  note effect = deletion_effect [OF assms]
  have gone: "find_user ?user (without_user ?user m) = None" for m :: "'v gomap"
    by (auto simp: find_user_def without_user_def find_None_iff)
  have tags: "user_tags u (erased ?user d) = (if u = ?user then [] else user_tags u d)" for u
  proof -
    have "filter (\<lambda>((v, _), _). sql_norm v = u) (without_user_tags ?user d) =
        (if u = ?user then [] else filter (\<lambda>((v, _), _). sql_norm v = u) (db_user_tags d))"
      unfolding without_user_tags_def filter_filter by (auto intro: arg_cong2 [where f = filter] simp: filter_empty_conv)
    then show ?thesis by (simp add: user_tags_def erased_def)
  qed
  have rows: "user_key_rows u (erased ?user d) = (if u = ?user then [] else user_key_rows u d)" for u
    by (auto simp: user_key_rows_def erased_def without_user_rows_def filter_empty_conv intro: arg_cong2 [where f = filter])
  from effect(10,11) show ?thesis by (simp add: effect(1) tags rows) (simp add: erased_def gone)
qed

lemma insert_tags_calm:
  assumes "calm env" "distinct (map tg_TagID tags)" "\<forall>t \<in> set tags. (user, tg_TagID t) \<notin> fst ` set (db_user_tags d)"
    "\<forall>t \<in> set tags. tg_TagID t \<in> set (db_tags d)"
  shows "each_tx (\<lambda>t. exec_checked env table text (insert_user_tag user t)) tags d =
    Inr ((), d\<lparr>db_user_tags := db_user_tags d @ map (\<lambda>t. ((user, tg_TagID t), tg_AssignedAt t)) tags\<rparr>)"
  using assms(2-4)
proof (induction tags arbitrary: d)
  case (Cons t tags)
  let ?d1 = "d\<lparr>db_user_tags := db_user_tags d @ [((user, tg_TagID t), tg_AssignedAt t)]\<rparr>"
  have "exec_checked env table text (insert_user_tag user t) d = Inr ((), ?d1)"
    using Cons.prems(2,3) assms(1) by (simp add: exec_checked_iff insert_user_tag_def calm_def)
  moreover have "\<forall>t' \<in> set tags. (user, tg_TagID t') \<notin> fst ` set (db_user_tags ?d1)" using Cons.prems(1,2) by auto (metis image_eqI)
  ultimately show ?case using Cons.IH [of ?d1] Cons.prems(1,3) by (simp add: then_tx_eq)
qed (simp add: ok_tx_def)

definition plain_tags :: "string \<Rightarrow> db \<Rightarrow> bool" where
  "plain_tags user d \<longleftrightarrow> list_all (\<lambda>((u, _), _). sql_norm u = user \<longrightarrow> u = user) (db_user_tags d)"

lemma tags_taken_and_restored:
  assumes "schema_ok d" "plain_tags user d" "sql_norm user = user"
  shows "distinct (map tg_TagID (user_tags user d))"
    "\<forall>t \<in> set (user_tags user d). (user, tg_TagID t) \<notin> fst ` set (without_user_tags user d)"
    "\<forall>t \<in> set (user_tags user d). tg_TagID t \<in> set (db_tags d)"
    "set (without_user_tags user d @ map (\<lambda>t. ((user, tg_TagID t), tg_AssignedAt t)) (user_tags user d)) = set (db_user_tags d)"
proof -
  let ?mine = "filter (\<lambda>((u, _), _). sql_norm u = user) (db_user_tags d)"
  have plain: "u = user" if "((u, tag), time) \<in> set (db_user_tags d)" "sql_norm u = user" for u tag time
    using that assms(2) by (auto simp: plain_tags_def list_all_iff)
  have set_tags: "set (user_tags user d) = {\<lparr>tg_TagID = tag, tg_AssignedAt = time\<rparr> | tag time. ((user, tag), time) \<in> set (db_user_tags d)}"
    using plain assms(3) unfolding user_tags_def set_sort set_map set_filter by (fastforce simp: image_iff)
  have "distinct (map fst ?mine)" using assms(1) by (simp add: schema_ok_def distinct_map_filter)
  moreover have "map fst ?mine = map (\<lambda>x. (user, snd (fst x))) ?mine"
    using plain by (intro map_cong) auto
  moreover have "map (\<lambda>x. (user, snd (fst x))) ?mine = map (Pair user) (map (\<lambda>x. snd (fst x)) ?mine)"
    by (simp only: map_map comp_def)
  ultimately have "distinct (map (\<lambda>x. snd (fst x)) ?mine)" by (metis distinct_map)
  moreover have "map (\<lambda>x. snd (fst x)) ?mine =
      map tg_TagID (map (\<lambda>((_, tag), time). \<lparr>tg_TagID = tag, tg_AssignedAt = time\<rparr>) ?mine)"
    by (simp only: map_map) (rule map_cong, auto)
  ultimately have "distinct (map tg_TagID (map (\<lambda>((_, tag), time). \<lparr>tg_TagID = tag, tg_AssignedAt = time\<rparr>) ?mine))" by metis
  then show "distinct (map tg_TagID (user_tags user d))"
    unfolding user_tags_def by (simp only: distinct_map_sort)
  show "\<forall>t \<in> set (user_tags user d). (user, tg_TagID t) \<notin> fst ` set (without_user_tags user d)"
    using assms(3) by (auto simp: without_user_tags_def)
  show "\<forall>t \<in> set (user_tags user d). tg_TagID t \<in> set (db_tags d)"
    using assms(1) unfolding set_tags by (fastforce simp: schema_ok_def list_all_iff)
  show "set (without_user_tags user d @ map (\<lambda>t. ((user, tg_TagID t), tg_AssignedAt t)) (user_tags user d)) = set (db_user_tags d)"
    unfolding set_append set_map set_tags using plain assms(3) by (force simp: without_user_tags_def image_iff)
qed


text \<open>
  A deletion can be undone. On a store that satisfies the schema and has the user's route, membership,
  tags and internal key, if any, under the normalised name, the rollback of a successful deletion succeeds
  (when the write fence still holds and no call fails) and every table has the rows it had before, the key
  rows at their old sequence numbers.
\<close>

theorem deletion_is_undone:
  assumes "ApplyUserDeletion fence env rawUser revokeActive d = (Inr x, d')" "schema_ok d"
    "plain_user (norm_name rawUser) (map fst (db_user_routes d) @ map fst (db_memberships d) @ map fst (db_internal_keys d))"
    "plain_tags (norm_name rawUser) d"
    "calm env'" "validateWriteFence fence' env' d' = None"
  shows "\<exists>d''. RestoreUserDeletion fence' env' x d' = (Inr (), d'') \<and> same_store d d''"
proof -
  let ?user = "norm_name rawUser"
  note effect = deletion_effect [OF assms(1)]
  have plain: "find_user ?user (db_user_routes d) = map_of (db_user_routes d) ?user"
    "find_user ?user (db_memberships d) = map_of (db_memberships d) ?user"
    "find_user ?user (db_internal_keys d) = map_of (db_internal_keys d) ?user"
    using assms(3) by (auto simp: plain_user_def intro!: find_plain)
  have others: "map_of (db_user_routes d) u = None" "map_of (db_memberships d) u = None" "map_of (db_internal_keys d) u = None"
    if "sql_norm u = ?user" "u \<noteq> ?user" for u
    using that assms(3) by (auto simp: plain_user_def intro!: plain_none)
  let ?taken = "sort_key fst (user_key_rows ?user d)"
  have taken: "set ?taken = {r \<in> set (db_key_rows d). sql_norm (kr_User (snd r)) = ?user}"
    by (auto simp: user_rows_mem)
  have "distinct (map fst (user_key_rows ?user d))"
    using schema_key_rows [OF assms(2)] by (simp add: user_key_rows_def distinct_map_filter)
  then have keys: "distinct (map fst ?taken)" by (simp add: distinct_map)
  have ordered: "rows_ordered (db_key_rows d)" using assms(2) by (simp add: schema_ok_def)
  note rows = rows_taken_and_restored [OF ordered taken keys, folded without_user_rows_def]
  have empty: "user_key_rows ?user d' = []"
    by (auto simp: effect(1) erased_def user_key_rows_def without_user_rows_def filter_empty_conv)
  let ?d1 = "d'\<lparr>db_key_rows := db_key_rows d\<rparr>"
  have inserted: "each_tx (\<lambda>r. exec_checked env' ''key_records'' (''restore deleted user row '' @ itoa (fst r) @ '': '') (insert_key_row r))
      ?taken d' = Inr ((), ?d1)"
    using insert_rows_calm [OF assms(5) keys, where d = d'] rows by (simp add: effect(1) erased_def)
  define R where "R = (case map_of (db_user_routes d) ?user of None \<Rightarrow> without_user ?user (db_user_routes d)
    | Some r \<Rightarrow> mput ?user r (without_user ?user (db_user_routes d)))"
  let ?d2 = "?d1\<lparr>db_user_routes := R\<rparr>"
  have routed: "(case dl_Route x of None \<Rightarrow> ok_tx () | Some route \<Rightarrow>
      exec_checked env' ''user_routes'' ''restore deleted user route: '' (insert_route (dl_User x) route)) ?d1 = Inr ((), ?d2)"
    using assms(5) by (auto simp: effect(1,2,4) plain R_def erased_def exec_checked_iff insert_route_def calm_def ok_tx_def split: option.splits)
  define M where "M = (case map_of (db_memberships d) ?user of
      None \<Rightarrow> filter (\<lambda>(u, _). u \<noteq> ?user) (without_user ?user (db_memberships d))
    | Some m \<Rightarrow> mput ?user m (without_user ?user (db_memberships d)))"
  let ?d3 = "?d2\<lparr>db_memberships := M\<rparr>"
  have member: "\<forall>m t. map_of (db_memberships d) ?user = Some m \<longrightarrow> ms_TeamID m = Some t \<longrightarrow> t \<in> set (db_teams d)"
    using assms(2) by (blast intro: schema_member)
  have joined: "restoreUserMembership env' (dl_User x) (dl_Membership x) ?d2 = Inr ((), ?d3)"
    using assms(5) member by (auto simp: restoreUserMembership_def effect(1,2,5) plain M_def erased_def exec_checked_iff
        upsert_membership_def calm_def split: option.splits)
  note tags = tags_taken_and_restored [OF assms(2,4)]
  let ?T = "without_user_tags ?user d @ map (\<lambda>t. ((?user, tg_TagID t), tg_AssignedAt t)) (user_tags ?user d)"
  let ?d4 = "?d3\<lparr>db_user_tags := ?T\<rparr>"
  have tagged: "each_tx (\<lambda>t. exec_checked env' ''user_tags'' ''restore deleted user tag: '' (insert_user_tag (dl_User x) t)) (dl_Tags x) ?d3 =
      Inr ((), ?d4)"
    using insert_tags_calm [OF assms(5) tags(1), of ?user ?d3] tags(2,3) by (simp add: effect(1,2,6) erased_def)
  define K where "K = (case map_of (db_internal_keys d) ?user of None \<Rightarrow> without_user ?user (db_internal_keys d)
    | Some k \<Rightarrow> mput ?user k (without_user ?user (db_internal_keys d)))"
  have unique: "\<not> secret_taken ?user (ik_Key k) ?d4" if "map_of (db_internal_keys d) ?user = Some k" for k
  proof -
    have "(?user, k) \<in> set (db_internal_keys d)" using that by (rule map_of_SomeD)
    moreover have "inj_on (\<lambda>(_, k). ik_Key k) (set (db_internal_keys d))" using assms(2) by (simp add: schema_ok_def distinct_map)
    ultimately show ?thesis by (fastforce simp: secret_taken_def list_ex_iff effect(1) erased_def without_user_def inj_on_def)
  qed
  have keyed: "(case dl_InternalKey x of None \<Rightarrow> ok_tx () | Some k \<Rightarrow>
      exec_checked env' ''internal_keys'' ''restore deleted internal user key: '' (insert_internal_key (dl_User x) k)) ?d4 =
      Inr ((), ?d4\<lparr>db_internal_keys := K\<rparr>)"
    using assms(5) unique by (auto simp: effect(1,2,7) plain K_def erased_def exec_checked_iff insert_internal_key_def
        upsert_internal_key_def calm_def ok_tx_def split: option.splits)
  have "restore_deletion_in_tx env' x d' = Inr ((), ?d4\<lparr>db_internal_keys := K\<rparr>)"
    using assms(5) empty inserted routed joined tagged keyed by (simp add: restore_deletion_in_tx_def then_tx_eq effect(2,3) guard_tx_def)
  moreover have "map_of R u = map_of (db_user_routes d) u" for u
    using others [of u] by (cases "u = ?user"; auto simp: R_def split: option.splits)
  moreover have "map_of K u = map_of (db_internal_keys d) u" for u
    using others [of u] by (cases "u = ?user"; auto simp: K_def split: option.splits)
  moreover have "map_of M u = map_of (db_memberships d) u" for u
    using others [of u] by (cases "u = ?user"; auto simp: M_def map_of_except split: option.splits)
  moreover have "dl_User x \<noteq> []" "dl_Rows x \<noteq> []" using effect(2,3,8,9) by simp_all
  ultimately show ?thesis
    using assms(5,6) tags(4) by (auto simp: RestoreUserDeletion_def writeTransaction_calm same_store_def effect(1) erased_def)
qed


section \<open>Applied to a concrete store\<close>

definition ex_life_db :: db where
  "ex_life_db = ex_routes_db\<lparr>db_teams := [''t1''], db_tags := [''g1''],
     db_memberships := [(''amy'', \<lparr>ms_TeamID = Some ''t1'', ms_Version = 3, ms_UpdatedAt = 1\<rparr>)],
     db_user_tags := [((''amy'', ''g1''), 5)],
     db_internal_keys := [(''amy'', \<lparr>ik_Key = ''ka'', ik_CreatedAt = 1, ik_Status = ''active''\<rparr>)]\<rparr>"

lemma ex_schema: "schema_ok ex_life_db"
  unfolding schema_ok_def by code_simp

definition ex_created :: "(gerr + user_creation) \<times> db" where
  "ex_created = ApplyUserCreation [] (env_at 9 []) '' Cid '' ''k9'' (Some ''t1'') ex_life_db"

definition ex_revoked :: "(gerr + user_revocation) \<times> db" where
  "ex_revoked = ApplyUserRevocation [] (env_at 9 []) ''Amy'' ex_life_db"

definition ex_deleted :: "(gerr + user_deletion) \<times> db" where
  "ex_deleted = ApplyUserDeletion [] (env_at 9 []) ''Amy'' True ex_life_db"

lemma ex_created_ok:
  "ApplyUserCreation [] (env_at 9 []) '' Cid '' ''k9'' (Some ''t1'') ex_life_db = (Inr (projr (fst ex_created)), snd ex_created)"
  by code_simp

lemma ex_revoked_ok: "ApplyUserRevocation [] (env_at 9 []) ''Amy'' ex_life_db = (Inr (projr (fst ex_revoked)), snd ex_revoked)"
  by code_simp

lemma ex_deleted_ok: "ApplyUserDeletion [] (env_at 9 []) ''Amy'' True ex_life_db = (Inr (projr (fst ex_deleted)), snd ex_deleted)"
  by code_simp

theorem user_creation_complete_witness:
  "map (\<lambda>r. (kr_Account (snd r), kr_Key (snd r))) (filter is_active (user_key_rows (norm_name '' Cid '') (snd ex_created))) =
     map (\<lambda>a. (ar_id a, trim_space ''k9'')) (sort_slice row_less (db_accounts ex_life_db))"
  using user_creation_complete [OF ex_created_ok] by blast

theorem user_creation_is_undone_witness:
  "\<exists>d''. RestoreUserCreation [] (env_at 10 []) (projr (fst ex_created)) (snd ex_created) = (Inr (), d'') \<and> same_store ex_life_db d''"
  by (rule user_creation_is_undone [OF ex_created_ok ex_schema]) (code_simp, simp, code_simp)

theorem revocation_is_reversible_witness:
  "RestoreUserRevocation [] (env_at 10 []) (projr (fst ex_revoked)) (snd ex_revoked) = (Inr (), ex_life_db)"
proof -
  have "validateWriteFence [] (env_at 10 []) (snd ex_revoked) = None" by code_simp
  moreover have "list_all (\<lambda>r. is_active r \<longrightarrow> EqualFold (kr_User (snd r)) (norm_name ''Amy'')) (user_key_rows (norm_name ''Amy'') ex_life_db)"
    by code_simp
  ultimately show ?thesis
    using revocation_is_reversible [OF ex_revoked_ok conjunct2 [OF schema_key_rows [OF ex_schema]] _ calm_env_at] by blast
qed

theorem deletion_erases_user_witness:
  "user_key_rows (norm_name ''Amy'') (snd ex_deleted) = [] \<and> user_key_rows ''bob'' (snd ex_deleted) = user_key_rows ''bob'' ex_life_db"
proof -
  have "''bob'' \<noteq> norm_name ''Amy''" by code_simp
  with deletion_erases_user [OF ex_deleted_ok] show ?thesis by blast
qed

theorem deletion_is_undone_witness:
  "\<exists>d''. RestoreUserDeletion [] (env_at 10 []) (projr (fst ex_deleted)) (snd ex_deleted) = (Inr (), d'') \<and> same_store ex_life_db d''"
  by (rule deletion_is_undone [OF ex_deleted_ok ex_schema]) (code_simp, code_simp, simp, code_simp)

end
