(* ===== verification/Schema_Proofs.thy ===== *)
theory Schema_Proofs
  imports Account_Lifecycle Lifecycle_Proofs
begin

text \<open>
  The constraints of the schema hold after any sequence of the operations of \<open>records.go\<close>,
  \<open>user_lifecycle.go\<close> and \<open>account_lifecycle.go\<close>, whatever they are called with and however they end.
\<close>

section \<open>One table at a time\<close>

lemma schema_tables:
  "schema_ok d \<Longrightarrow> rows_ordered R \<Longrightarrow> schema_ok (d\<lparr>db_key_rows := R\<rparr>)"
  "schema_ok d \<Longrightarrow> wf_map r \<Longrightarrow> schema_ok (d\<lparr>db_user_routes := r\<rparr>)"
  "schema_ok d \<Longrightarrow> wf_map K \<Longrightarrow> distinct (map (\<lambda>(_, k). ik_Key k) K) \<Longrightarrow> schema_ok (d\<lparr>db_internal_keys := K\<rparr>)"
  "schema_ok d \<Longrightarrow> distinct (map ar_id A) \<Longrightarrow> distinct (map ar_email A) \<Longrightarrow> distinct (map ar_port A) \<Longrightarrow> schema_ok (d\<lparr>db_accounts := A\<rparr>)"
  by (simp_all add: schema_ok_def)

lemma schema_key_update: "schema_ok d \<Longrightarrow> schema_ok (update_key_rows P f d)"
  unfolding update_key_rows_def by (intro schema_tables(1)) (simp_all add: rows_ordered_map schema_key_rows)

lemma schema_key_delete: "schema_ok d \<Longrightarrow> schema_ok (delete_key_rows P d)"
  unfolding delete_key_rows_def by (intro schema_tables(1)) (simp_all add: schema_key_rows)

lemma schema_key_insert: "schema_ok d \<Longrightarrow> insert_key_row r d = Inr d' \<Longrightarrow> schema_ok d'"
  by (auto simp: insert_key_row_Inr schema_key_rows intro!: schema_tables(1) insert_row_ordered)

lemma schema_accounts_filter: "schema_ok d \<Longrightarrow> schema_ok (d\<lparr>db_accounts := filter P (db_accounts d)\<rparr>)"
  by (intro schema_tables(4)) (simp_all add: schema_ok_def distinct_map_filter)

lemma schema_accounts_defaults:
  assumes "schema_ok d" "\<And>r. ar_id (f r) = ar_id r" "\<And>r. ar_email (f r) = ar_email r" "\<And>r. ar_port (f r) = ar_port r"
  shows "schema_ok (d\<lparr>db_accounts := map f (db_accounts d)\<rparr>)"
  using assms by (simp add: schema_ok_def comp_def)

lemma list_ex_image: "list_ex (\<lambda>x. f x = a) xs \<longleftrightarrow> a \<in> f ` set xs"
  by (auto simp: list_ex_iff)

lemma insert_account_row_Inr: "insert_account_row r d = Inr d' \<longleftrightarrow>
    ar_id r \<notin> ar_id ` set (db_accounts d) \<and> ar_email r \<notin> ar_email ` set (db_accounts d) \<and>
    ar_port r \<notin> ar_port ` set (db_accounts d) \<and> d' = d\<lparr>db_accounts := db_accounts d @ [r]\<rparr>"
  by (auto simp: insert_account_row_def constraint_failed_def list_ex_image)

lemma schema_account_insert: "schema_ok d \<Longrightarrow> insert_account_row r d = Inr d' \<Longrightarrow> schema_ok d'"
  unfolding insert_account_row_Inr by (simp add: schema_ok_def)

lemma schema_account_update: "schema_ok d \<Longrightarrow> update_accounts P f d = Inr d' \<Longrightarrow> schema_ok d'"
  by (auto simp: update_accounts_def constraint_failed_def Let_def intro!: schema_tables(4) split: if_splits)

lemma schema_routes_filter: "schema_ok d \<Longrightarrow> schema_ok (d\<lparr>db_user_routes := filter P (db_user_routes d)\<rparr>)"
  by (intro schema_tables(2)) (simp_all add: schema_ok_def distinct_map_filter)

lemma schema_routes_mput: "schema_ok d \<Longrightarrow> schema_ok (d\<lparr>db_user_routes := mput u a (db_user_routes d)\<rparr>)"
  by (intro schema_tables(2)) (simp_all add: schema_ok_def)

lemma schema_routes_map: "schema_ok d \<Longrightarrow> schema_ok (d\<lparr>db_user_routes := map (\<lambda>(u, a). (u, f u a)) (db_user_routes d)\<rparr>)"
  by (intro schema_tables(2)) (simp_all add: schema_ok_def comp_def case_prod_beta')

lemma schema_route_insert: "schema_ok d \<Longrightarrow> insert_route u a d = Inr d' \<Longrightarrow> schema_ok d'"
  by (auto simp: insert_route_def constraint_failed_def schema_routes_mput split: if_splits)

lemma schema_internal_filter: "schema_ok d \<Longrightarrow> schema_ok (d\<lparr>db_internal_keys := filter P (db_internal_keys d)\<rparr>)"
  by (intro schema_tables(3)) (simp_all add: schema_ok_def distinct_map_filter)

lemma distinct_secrets_mput:
  "distinct (map (\<lambda>(_, k). ik_Key k) m) \<Longrightarrow> wf_map m \<Longrightarrow> \<forall>(u, x) \<in> set m. u \<noteq> user \<longrightarrow> ik_Key x \<noteq> ik_Key k \<Longrightarrow>
     distinct (map (\<lambda>(_, k). ik_Key k) (mput user k m))"
proof (induction m)
  case (Cons p m)
  obtain u x where p: "p = (u, x)" by (cases p)
  show ?case
  proof (cases "u = user")
    case True
    have "ik_Key y \<noteq> ik_Key k" if "(v, y) \<in> set m" for v y
    proof -
      have "v \<in> fst ` set m" using that by force
      then have "v \<noteq> user" using Cons.prems(2) True p by auto
      with that Cons.prems(3) show ?thesis by auto
    qed
    then have "ik_Key k \<notin> (\<lambda>(_, k). ik_Key k) ` set m" by fastforce
    with Cons.prems(1) show ?thesis by (simp add: p True)
  next
    case False
    have "set (mput user k m) \<subseteq> insert (user, k) (set m)" by (induction m) auto
    then have "ik_Key x \<notin> (\<lambda>(_, k). ik_Key k) ` set (mput user k m)" using Cons.prems(1,3) False by (auto simp: p image_iff)
    with Cons False show ?thesis by (simp add: p)
  qed
qed simp

lemma schema_internal_upsert: "schema_ok d \<Longrightarrow> upsert_internal_key u k d = Inr d' \<Longrightarrow> schema_ok d'"
  by (auto simp: upsert_internal_key_def secret_taken_def constraint_failed_def list_ex_iff schema_ok_def
      intro!: distinct_secrets_mput split: if_splits)

lemma schema_internal_insert: "schema_ok d \<Longrightarrow> insert_internal_key u k d = Inr d' \<Longrightarrow> schema_ok d'"
  by (auto simp: insert_internal_key_def constraint_failed_def intro: schema_internal_upsert split: if_splits)

lemma schema_internal_status:
  "schema_ok d \<Longrightarrow> schema_ok (d\<lparr>db_internal_keys := map (\<lambda>(u, x). (u, if u = v then x\<lparr>ik_Status := s\<rparr> else x)) (db_internal_keys d)\<rparr>)"
  by (intro schema_tables(3)) (simp_all add: schema_ok_def comp_def case_prod_beta' if_distrib [of ik_Key] cong: if_cong)

lemma schema_members_filter: "schema_ok d \<Longrightarrow> schema_ok (d\<lparr>db_memberships := filter P (db_memberships d)\<rparr>)"
  by (auto simp: schema_ok_def distinct_map_filter list_all_iff)

lemma schema_member_upsert: "schema_ok d \<Longrightarrow> upsert_membership u m d = Inr d' \<Longrightarrow> schema_ok d'"
proof -
  assume "schema_ok d" "upsert_membership u m d = Inr d'"
  moreover have "set (mput u m M) \<subseteq> insert (u, m) (set M)" for M by (induction M) auto
  ultimately show ?thesis
    by (fastforce simp: upsert_membership_def constraint_failed_def schema_ok_def team_exists_def list_all_iff split: option.splits if_splits)
qed

lemma schema_tags_filter: "schema_ok d \<Longrightarrow> schema_ok (d\<lparr>db_user_tags := filter P (db_user_tags d)\<rparr>)"
  by (auto simp: schema_ok_def distinct_map_filter list_all_iff)

lemma schema_tag_insert: "schema_ok d \<Longrightarrow> insert_user_tag u t d = Inr d' \<Longrightarrow> schema_ok d'"
  by (auto simp: insert_user_tag_def constraint_failed_def schema_ok_def split: if_splits)

lemma schema_empty:
  assumes "schema_ok d"
  shows "schema_ok (d\<lparr>db_accounts := []\<rparr>)" "schema_ok (d\<lparr>db_user_routes := []\<rparr>)" "schema_ok (d\<lparr>db_key_rows := []\<rparr>)"
    "schema_ok (d\<lparr>db_internal_keys := []\<rparr>)"
  using assms by (simp_all add: schema_ok_def)

lemmas schema_statements = schema_empty schema_key_update schema_key_delete schema_accounts_filter
  schema_routes_filter schema_routes_mput schema_routes_map schema_internal_filter schema_internal_status
  schema_members_filter schema_tags_filter

lemma schema_set_default: "schema_ok d \<Longrightarrow> schema_ok (set_default a d)" "schema_ok d \<Longrightarrow> schema_ok (restore_default s d)"
  unfolding set_default_def restore_default_def by (rule schema_accounts_defaults; simp)+

lemma schema_reroute: "schema_ok d \<Longrightarrow> schema_ok (reroute a b d)" "schema_ok d \<Longrightarrow> schema_ok (restore_route c d)"
  unfolding reroute_def restore_route_def by (rule schema_routes_map, assumption)+

lemma schema_checked [keeps]:
  "keeps schema_ok (exec_checked env table text (insert_key_row r))"
  "keeps schema_ok (exec_checked env table text (insert_account_row row))"
  "keeps schema_ok (exec_checked env table text (update_accounts P f))"
  "keeps schema_ok (exec_checked env table text (insert_route u a))"
  "keeps schema_ok (exec_checked env table text (upsert_internal_key u k))"
  "keeps schema_ok (exec_checked env table text (insert_internal_key u k))"
  "keeps schema_ok (exec_checked env table text (upsert_membership u m))"
  "keeps schema_ok (exec_checked env table text (insert_user_tag u t))"
  by (rule keeps_exec_checked; erule (1) schema_key_insert schema_account_insert schema_account_update schema_route_insert
      schema_internal_upsert schema_internal_insert schema_member_upsert schema_tag_insert)+

section \<open>The transactions\<close>

lemma keeps_prod [keeps]: "(\<And>a b. keeps I (f a b)) \<Longrightarrow> keeps I (case p of (a, b) \<Rightarrow> f a b)"
  by (cases p) simp

lemmas schema_table = keeps_exec schema_statements schema_set_default schema_reroute

lemma schema_rotate [keeps]: "keeps schema_ok (rotate_rows env user newKey now n rows)"
  by (induction rows arbitrary: n) (simp_all, (intro keeps schema_table; assumption?)+)

lemma schema_create [keeps]: "keeps schema_ok (create_rows env user key now n accounts)"
  by (induction accounts arbitrary: n) (simp_all, (intro keeps schema_table; assumption?)+)

lemma schema_create_account [keeps]: "keeps schema_ok (create_account_rows env accountID email now n actives)"
  by (induction actives arbitrary: n) (simp_all add: Let_def, (intro keeps schema_table; assumption?)+)

lemma schema_ensure [keeps]: "keeps schema_ok (ensure_users env draws m existing result users)"
  by (induction users arbitrary: m result) (simp_all add: Let_def split del: if_split, (intro keeps schema_table; assumption?)+)

lemma schema_revoke [keeps]: "keeps schema_ok (revoke_row env now status)"
  by (auto simp: keeps_def revoke_row_def Let_def tx schema_key_update)

lemma schema_users [keeps]:
  "keeps schema_ok (readUserMembership env user)"
  "keeps schema_ok (restoreUserMembership env user previous)"
  "keeps schema_ok (assign_team env user team)"
  "keeps schema_ok (erase_user env user)"
  "keeps schema_ok (check_rotation_row env text user st secret sequence)"
  "keeps schema_ok (check_user_row env text user st secret sequence)"
  unfolding readUserMembership_def restoreUserMembership_def assign_team_def erase_user_def Let_def without_user_def
    check_rotation_row_def check_user_row_def
  by (intro keeps schema_table; assumption?)+

lemma schema_account_helpers [keeps]:
  "keeps schema_ok (readStoredAccount env accountID)"
  "keeps schema_ok (readAccountKeyRows env accountID)"
  "keeps schema_ok (readStoredKeyRecord env sequence)"
  "keeps schema_ok (read_routed_users env text accountID)"
  "keeps schema_ok (exclusive_keys env accountID rows)"
  "keeps schema_ok (lift_tx r)"
  unfolding readStoredAccount_def readAccountKeyRows_def readStoredKeyRecord_def read_routed_users_def exclusive_keys_def lift_tx_def
  by (intro keeps schema_table; assumption?)+

lemma schema_account_steps [keeps]:
  "keeps schema_ok (require_stored_row env expected)"
  "keeps schema_ok (require_route env text route)"
  "keeps schema_ok (require_default env state)"
  "keeps schema_ok (insert_rows env text rows)"
  "keeps schema_ok (rename_routes env a b)"
  "keeps schema_ok (disable_routes env a b c e changes)"
  "keeps schema_ok (hand_over_default env a b was e)"
  unfolding require_stored_row_def require_route_def require_default_def insert_rows_def rename_routes_def disable_routes_def
    hand_over_default_def
  by (intro keeps schema_table; assumption?)+

lemma schema_transactions:
  "keeps schema_ok (rotate_in_tx env user oldKey newKey)"
  "keeps schema_ok (restore_rotation_in_tx env rotation)"
  "keeps schema_ok (ensure_in_tx env draws users)"
  "keeps schema_ok (create_in_tx env user key team)"
  "keeps schema_ok (restore_creation_in_tx env c)"
  "keeps schema_ok (revoke_in_tx env user)"
  "keeps schema_ok (restore_revocation_in_tx env r)"
  "keeps schema_ok (delete_in_tx env user revokeActive)"
  "keeps schema_ok (restore_deletion_in_tx env x)"
  unfolding rotate_in_tx_def read_account_ids_def restore_rotation_in_tx_def ensure_in_tx_def deactivate_user_def
      set_inactive_def create_in_tx_def without_user_def restore_creation_in_tx_def revoke_in_tx_def restore_revocation_in_tx_def
      delete_in_tx_def Let_def restore_deletion_in_tx_def
  by (intro keeps schema_table; assumption?)+

lemma schema_account_transactions:
  "keeps schema_ok (create_account_in_tx env candidate)"
  "keeps schema_ok (restore_account_creation_in_tx env ac)"
  "keeps schema_ok (delete_account_in_tx env accountID fallback revoke)"
  "keeps schema_ok (restore_account_deletion_in_tx env ad)"
  "keeps schema_ok (update_account_in_tx env q)"
  "keeps schema_ok (restore_account_update_in_tx env au)"
  unfolding create_account_in_tx_def Let_def restore_account_creation_in_tx_def
      delete_account_in_tx_def restore_account_deletion_in_tx_def update_account_in_tx_def restore_account_update_in_tx_def
  by (intro keeps schema_table; assumption?)+

section \<open>The operations\<close>

text \<open>One call of an operation on the store, with any arguments, fence and environment.\<close>

inductive catalog_step :: "db \<Rightarrow> db \<Rightarrow> bool" where
  write_accounts: "WriteAccounts fence env accounts d = (r, d') \<Longrightarrow> catalog_step d d'"
| write_routes: "WriteRoutes fence env routes d = (r, d') \<Longrightarrow> catalog_step d d'"
| write_key_records: "WriteKeyRecords fence env records d = (r, d') \<Longrightarrow> catalog_step d d'"
| rotate_key: "ApplyUserKeyRotationExpected fence env user oldKey newKey d = (rotation, d') \<Longrightarrow> catalog_step d d'"
| restore_rotation: "RestoreUserKeyRotation fence env old_rotation d = (r, d') \<Longrightarrow> catalog_step d d'"
| write_internal_keys: "WriteInternalKeys fence env keys d = (r, d') \<Longrightarrow> catalog_step d d'"
| restore_internal_key: "RestoreInternalKey fence env user previous d = (r, d') \<Longrightarrow> catalog_step d d'"
| ensure_internal_keys: "EnsureInternalKeys fence env draws users d = (ensured, d') \<Longrightarrow> catalog_step d d'"
| create_user: "ApplyUserCreation fence env user key team d = (created, d') \<Longrightarrow> catalog_step d d'"
| restore_user_creation: "RestoreUserCreation fence env creation d = (r, d') \<Longrightarrow> catalog_step d d'"
| revoke_user: "ApplyUserRevocation fence env user d = (revoked, d') \<Longrightarrow> catalog_step d d'"
| restore_revocation: "RestoreUserRevocation fence env revocation d = (r, d') \<Longrightarrow> catalog_step d d'"
| delete_user: "ApplyUserDeletion fence env user revoke d = (deleted, d') \<Longrightarrow> catalog_step d d'"
| restore_user_deletion: "RestoreUserDeletion fence env deletion d = (r, d') \<Longrightarrow> catalog_step d d'"
| create_account: "ApplyAccountCreation fence env parse_address candidate d = (account_created, d') \<Longrightarrow> catalog_step d d'"
| restore_account_creation: "RestoreAccountCreation fence env account_creation d = (r, d') \<Longrightarrow> catalog_step d d'"
| update_account: "ApplyAccountUpdate fence env parse_address request d = (account_updated, d') \<Longrightarrow> catalog_step d d'"
| restore_account_update: "RestoreAccountUpdate fence env account_update d = (r, d') \<Longrightarrow> catalog_step d d'"
| delete_account: "ApplyAccountDeletion fence env account fallback revoke d = (account_deleted, d') \<Longrightarrow> catalog_step d d'"
| restore_account_deletion: "RestoreAccountDeletion fence env account_deletion d = (r, d') \<Longrightarrow> catalog_step d d'"

lemma schema_write_tables:
  "keeps schema_ok (then_tx (exec env t1 x1 (\<lambda>d. d\<lparr>db_accounts := []\<rparr>)) (\<lambda>_. each_tx (\<lambda>(position, a). exec_checked env t2 (x2 a) (insert_account_row (f position a))) accounts))"
  "keeps schema_ok (then_tx (exec env t1 x1 (\<lambda>d. d\<lparr>db_user_routes := []\<rparr>)) (\<lambda>_. each_tx (\<lambda>u. exec_checked env t2 (x3 u) (insert_route u (g u))) users))"
  "keeps schema_ok (then_tx (exec env t1 x1 (\<lambda>d. d\<lparr>db_key_rows := []\<rparr>)) (\<lambda>_. each_tx (\<lambda>(n, r). exec_checked env t2 (x4 n) (insert_key_row (m n, r))) rows))"
  "keeps schema_ok (then_tx (exec env t1 x1 (\<lambda>d. d\<lparr>db_internal_keys := []\<rparr>)) (\<lambda>_. each_tx (\<lambda>(u, k). exec_checked env t2 (x5 u) (insert_internal_key u (h k))) keys))"
  by (intro keeps schema_table; assumption?)+

lemma schema_internal_tables:
  "keeps schema_ok (exec env t x (\<lambda>d. d\<lparr>db_internal_keys := filter P (db_internal_keys d)\<rparr>))"
  "keeps schema_ok (exec_checked env t x (upsert_internal_key u k))"
  by (intro keeps schema_table; assumption?)+

lemmas schema_kept = schema_write_tables schema_internal_tables schema_transactions schema_account_transactions

lemma schema_run: "writeTransaction fence env f d = (r, d') \<Longrightarrow> schema_ok d \<Longrightarrow> keeps schema_ok f \<Longrightarrow> schema_ok d'"
  by (rule keeps_writeTransaction)

lemma schema_step: "catalog_step d d' \<Longrightarrow> schema_ok d \<Longrightarrow> schema_ok d'"
  by (induction rule: catalog_step.induct;
     simp add: WriteAccounts_def WriteRoutes_def WriteKeyRecords_def WriteInternalKeys_def RestoreInternalKey_def
      ApplyUserKeyRotationExpected_def RestoreUserKeyRotation_def EnsureInternalKeys_def ApplyUserCreation_def RestoreUserCreation_def
      ApplyUserRevocation_def RestoreUserRevocation_def ApplyUserDeletion_def RestoreUserDeletion_def
      ApplyAccountCreation_def RestoreAccountCreation_def ApplyAccountUpdate_def RestoreAccountUpdate_def
      ApplyAccountDeletion_def RestoreAccountDeletion_def Let_def split: if_splits sum.splits prod.splits option.splits;
     (erule (1) schema_run; rule schema_kept)?)



end
