(* ===== verification/Catalog_Proofs.thy ===== *)
theory Catalog_Proofs
  imports Schema_Proofs
begin

text \<open>
  What creating, deleting and updating an account do to the catalog: the accounts, the key rows and the
  routes; and the rollbacks of creation and deletion.
\<close>

section \<open>Creation\<close>

lemma row_of_stored_simps [simp]:
  "ar_id (row_of_stored s) = ac_ID (sa_Account s)" "ar_email (row_of_stored s) = ac_Email (sa_Account s)"
  "ar_port (row_of_stored s) = ac_Port (sa_Account s)"
  by (simp_all add: row_of_stored_def Let_def)

lemma create_account_rows_effect:
  assumes "create_account_rows env accountID email now n users d = Inr (rows, d')" "\<forall>x \<in> set (db_key_rows d). fst x < n"
  shows "rows = numbered (account_user_row accountID email now) n users \<and>
    d' = d\<lparr>db_key_rows := db_key_rows d @ numbered (account_user_row accountID email now) n users\<rparr> \<and>
    (\<forall>x \<in> set users. xu_User x \<noteq> [] \<and> xu_KeyCount x = 1 \<and> xu_Secret x \<noteq> [])"
  using assms
proof (induction users arbitrary: n d rows)
  case (Cons x users)
  let ?row = "(n, account_user_row accountID email now x)"
  let ?d1 = "d\<lparr>db_key_rows := db_key_rows d @ [?row]\<rparr>"
  have "insert_row ?row (db_key_rows d) = db_key_rows d @ [?row]"
    using Cons.prems(2) by (intro insert_row_last) simp
  with Cons.prems(1) obtain rest where rest: "create_account_rows env accountID email now (n + 1) users ?d1 = Inr (rest, d')"
    and x: "rows = ?row # rest" "xu_User x \<noteq> []" "xu_KeyCount x = 1" "xu_Secret x \<noteq> []"
    by (auto simp: tx Let_def insert_key_row_Inr)
  have "\<forall>x \<in> set (db_key_rows ?d1). fst x < n + 1" using Cons.prems(2) by (auto simp: zless_add1_eq)
  with Cons.IH [OF rest] x show ?case by simp
qed (simp add: tx)

lemma active_users_names: "map xu_User (active_users d) = sort (remdups (map (\<lambda>r. sql_norm (kr_User (snd r))) (filter is_active (db_key_rows d))))"
  by (simp add: active_users_def Let_def comp_def)

lemma active_users_key:
  assumes "x \<in> set (active_users d)" "xu_KeyCount x = 1" "r \<in> set (db_key_rows d)" "is_active r" "sql_norm (kr_User (snd r)) = xu_User x"
  shows "kr_Key (snd r) = xu_Secret x"
proof -
  define secrets where "secrets = sort (remdups (map (\<lambda>r. kr_Key (snd r))
    (filter (\<lambda>r. sql_norm (kr_User (snd r)) = xu_User x) (filter is_active (db_key_rows d)))))"
  have "xu_Secret x = hd secrets" "xu_KeyCount x = int (length secrets)"
    using assms(1) by (auto simp: active_users_def Let_def secrets_def)
  with assms(2) have "secrets = [xu_Secret x]" by (cases secrets) auto
  moreover have "kr_Key (snd r) \<in> set secrets" using assms(3-5) by (simp add: secrets_def)
  ultimately show ?thesis by simp
qed

definition normal_candidate :: "(string \<Rightarrow> string option) \<Rightarrow> env \<Rightarrow> account \<Rightarrow> account \<Rightarrow> bool" where
  "normal_candidate parse_address env candidate a \<longleftrightarrow>
     NormalizeAccountID (ac_ID candidate) = Inr (ac_ID a) \<and> NormalizeAccountEmail parse_address (ac_Email candidate) = Inr (ac_Email a) \<and>
     NormalizeProxyMode (ac_ProxyMode candidate) = Inr (ac_ProxyMode a) \<and> ac_Port a = ac_Port candidate \<and>
     1 \<le> ac_Port a \<and> ac_Port a \<le> 65535 \<and> ac_GroupEnabled a"

lemma normalize_candidate_Inr: "normalize_candidate parse_address env candidate = Inr a \<Longrightarrow> normal_candidate parse_address env candidate a"
  by (auto simp: normalize_candidate_def normal_candidate_def and_then_def split: sum.splits if_split_asm)

lemma account_creation_effect:
  assumes "ApplyAccountCreation fence env parse_address candidate d = (Inr c, d')"
  defines "a \<equiv> an_Account c"
  shows "d' = d\<lparr>db_accounts := db_accounts d @ [row_of_stored \<lparr>sa_Position = next_position d, sa_Account = a\<rparr>],
      db_key_rows := db_key_rows d @ an_CreatedRows c\<rparr>"
    "an_CreatedRows c = numbered (account_user_row (ac_ID a) (ac_Email a) (unix_of (ev_now env))) (next_sequence d) (active_users d)"
    "normal_candidate parse_address env candidate a"
    "ac_DefaultGroup a = (db_accounts d = [])"
    "ac_ID a \<notin> ar_id ` set (db_accounts d)" "\<forall>r \<in> set (db_accounts d). to_lower (ar_email r) \<noteq> ac_Email a"
    "ac_Port a \<notin> ar_port ` set (db_accounts d)"
    "\<forall>x \<in> set (active_users d). xu_User x \<noteq> [] \<and> xu_KeyCount x = 1 \<and> xu_Secret x \<noteq> []"
proof -
  from assms(1) obtain q where q: "normal_candidate parse_address env candidate q"
    and run: "writeTransaction fence env (create_account_in_tx env q) d = (Inr c, d')"
    by (auto simp: ApplyAccountCreation_def split: sum.splits dest: normalize_candidate_Inr)
  let ?a = "q\<lparr>ac_DefaultGroup := (db_accounts d = [])\<rparr>"
  let ?stored = "row_of_stored \<lparr>sa_Position = next_position d, sa_Account = ?a\<lparr>ac_GroupEnabled := True\<rparr>\<rparr>"
  let ?d1 = "d\<lparr>db_accounts := db_accounts d @ [?stored]\<rparr>"
  from writeTransaction_Inr(2) [OF run] obtain rows where
    fresh: "ac_ID q \<notin> ar_id ` set (db_accounts d)" "\<forall>r \<in> set (db_accounts d). to_lower (ar_email r) \<noteq> ac_Email q"
      "ac_Port q \<notin> ar_port ` set (db_accounts d)"
    and rows: "create_account_rows env (ac_ID q) (ac_Email q) (unix_of (ev_now env)) (next_sequence ?d1) (active_users ?d1) ?d1 = Inr (rows, d')"
    and c: "c = \<lparr>an_Account = ?a, an_CreatedRows = rows\<rparr>"
    by (auto simp: create_account_in_tx_def Let_def tx insert_account_row_Inr filter_empty_conv)
  have same: "next_sequence ?d1 = next_sequence d" "active_users ?d1 = active_users d"
    by (simp_all add: next_sequence_def active_users_def)
  have effect: "rows = numbered (account_user_row (ac_ID q) (ac_Email q) (unix_of (ev_now env))) (next_sequence d) (active_users d)"
    "d' = ?d1\<lparr>db_key_rows := db_key_rows d @ rows\<rparr>"
    "\<forall>x \<in> set (active_users d). xu_User x \<noteq> [] \<and> xu_KeyCount x = 1 \<and> xu_Secret x \<noteq> []"
    using create_account_rows_effect [OF rows] next_sequence_fresh [of _ d] by (auto simp: same)
  have enabled: "ac_GroupEnabled q" using q by (simp add: normal_candidate_def)
  show "d' = d\<lparr>db_accounts := db_accounts d @ [row_of_stored \<lparr>sa_Position = next_position d, sa_Account = a\<rparr>],
      db_key_rows := db_key_rows d @ an_CreatedRows c\<rparr>"
    using effect(2) enabled by (simp add: a_def c row_of_stored_def)
  show "an_CreatedRows c = numbered (account_user_row (ac_ID a) (ac_Email a) (unix_of (ev_now env))) (next_sequence d) (active_users d)"
    using effect(1) by (simp add: a_def c)
  show "normal_candidate parse_address env candidate a" using q by (simp add: normal_candidate_def a_def c)
  show "ac_DefaultGroup a = (db_accounts d = [])" by (simp add: a_def c)
  show "ac_ID a \<notin> ar_id ` set (db_accounts d)" "\<forall>r \<in> set (db_accounts d). to_lower (ar_email r) \<noteq> ac_Email a"
    "ac_Port a \<notin> ar_port ` set (db_accounts d)" using fresh by (simp_all add: a_def c)
  show "\<forall>x \<in> set (active_users d). xu_User x \<noteq> [] \<and> xu_KeyCount x = 1 \<and> xu_Secret x \<noteq> []" by (rule effect(3))
qed

text \<open>
  C33: a new account joins the key matrix without touching a credential. After a successful creation the
  catalog has the account, normalised, with an id, an email and a port that no account had, enabled, and the
  default exactly if it is the first; every user with an active row has one more active row, for the new
  account, with the one key that all the user's active rows have; no other row is added, no row is changed,
  and nothing else in the store is.
\<close>

theorem account_creation_joins_users:
  assumes "ApplyAccountCreation fence env parse_address candidate d = (Inr c, d')"
  shows "normal_candidate parse_address env candidate (an_Account c) \<and> ac_DefaultGroup (an_Account c) = (db_accounts d = []) \<and>
    (\<forall>r \<in> set (db_accounts d). ar_id r \<noteq> ac_ID (an_Account c) \<and> to_lower (ar_email r) \<noteq> ac_Email (an_Account c) \<and>
       ar_port r \<noteq> ac_Port (an_Account c)) \<and>
    map (\<lambda>r. kr_User (snd r)) (an_CreatedRows c) = sort (remdups (map (\<lambda>r. sql_norm (kr_User (snd r))) (filter is_active (db_key_rows d)))) \<and>
    (\<forall>n \<in> set (an_CreatedRows c). is_active n \<and> kr_Account (snd n) = ac_ID (an_Account c) \<and>
       (\<forall>r \<in> set (db_key_rows d). is_active r \<and> sql_norm (kr_User (snd r)) = kr_User (snd n) \<longrightarrow> kr_Key (snd r) = kr_Key (snd n))) \<and>
    d' = d\<lparr>db_accounts := db_accounts d @ [row_of_stored \<lparr>sa_Position = next_position d, sa_Account = an_Account c\<rparr>],
      db_key_rows := db_key_rows d @ an_CreatedRows c\<rparr>"
proof -
  note effect = account_creation_effect [OF assms]
  let ?make = "account_user_row (ac_ID (an_Account c)) (ac_Email (an_Account c)) (unix_of (ev_now env))"
  have "map (\<lambda>r. kr_User (snd r)) (an_CreatedRows c) = map kr_User (map snd (an_CreatedRows c))" by (simp only: map_map comp_def)
  then have names: "map (\<lambda>r. kr_User (snd r)) (an_CreatedRows c) =
      sort (remdups (map (\<lambda>r. sql_norm (kr_User (snd r))) (filter is_active (db_key_rows d))))"
    unfolding active_users_names [symmetric] by (simp add: effect(2) account_user_row_def active_key_row_def)
  have rows: "is_active n \<and> kr_Account (snd n) = ac_ID (an_Account c) \<and>
       (\<forall>r \<in> set (db_key_rows d). is_active r \<and> sql_norm (kr_User (snd r)) = kr_User (snd n) \<longrightarrow> kr_Key (snd r) = kr_Key (snd n))"
    if n: "n \<in> set (an_CreatedRows c)" for n
  proof -
    obtain x where x: "x \<in> set (active_users d)" "snd n = ?make x" using numbered_mem n unfolding effect(2) by blast
    then show ?thesis using active_users_key [OF x(1)] effect(8)
      by (auto simp: account_user_row_def active_key_row_def is_active_def)
  qed
  show ?thesis
    unfolding names using effect(1,3-7) by (intro conjI ballI rows) (auto simp: image_iff)
qed


lemma stored_of_row_of_stored [simp]: "stored_of_row (row_of_stored s) = s"
  by (simp add: stored_of_row_def row_of_stored_def Let_def boolInteger_def)

lemma find_last: "x \<notin> f ` set xs \<Longrightarrow> f y = x \<Longrightarrow> find (\<lambda>r. f r = x) (xs @ [y]) = Some y"
  by (induction xs) auto

lemma sameStoredKeyRecord_refl [simp]: "sameStoredKeyRecord r r"
  by (simp add: sameStoredKeyRecord_def EqualFold_def)

text \<open>
  An account creation can be undone: on a store that satisfies the schema and has no stale route to the
  new id, the rollback of a successful creation succeeds (when the write fence still holds and no call
  fails) and gives back exactly the store before it.
\<close>

theorem account_creation_is_undone:
  assumes "ApplyAccountCreation fence env parse_address candidate d = (Inr c, d')" "schema_ok d"
    "list_all (\<lambda>(_, a). a \<noteq> ac_ID (an_Account c)) (db_user_routes d)"
    "calm env'" "validateWriteFence fence' env' d' = None"
  shows "RestoreAccountCreation fence' env' c d' = (Inr (), d)"
proof -
  note effect = account_creation_effect [OF assms(1)]
  let ?id = "ac_ID (an_Account c)"
  let ?make = "account_user_row ?id (ac_Email (an_Account c)) (unix_of (ev_now env))"
  have below: "\<forall>r \<in> set (db_key_rows d). fst r < next_sequence d" using next_sequence_fresh by blast
  have keys: "distinct (map fst (db_key_rows d'))"
    using appended_distinct [OF _ below] schema_key_rows [OF assms(2)] by (simp add: effect(1,2))
  have found: "find (\<lambda>r. ar_id r = ?id) (db_accounts d') = Some (row_of_stored \<lparr>sa_Position = next_position d, sa_Account = an_Account c\<rparr>)"
    using effect(5) by (simp add: effect(1) find_last)
  have routes: "filter (\<lambda>(_, a). a = ?id) (db_user_routes d') = []"
    using assms(3) by (auto simp: effect(1) filter_empty_conv list_all_iff)
  have "require_stored_row env' row d' = Inr ((), d')" if "row \<in> set (an_CreatedRows c)" for row
  proof -
    have "key_row_at (fst row) d' = Some (snd row)" using that key_row_at_eq [OF keys, of "fst row" "snd row"] by (simp add: effect(1))
    then show ?thesis using assms(4) by (simp add: require_stored_row_def readStoredKeyRecord_def then_tx_eq guard_tx_def ok_tx_def)
  qed
  then have checks: "each_tx (require_stored_row env') (an_CreatedRows c) d' = Inr ((), d')" by (rule each_tx_pass)
  let ?d1 = "d\<lparr>db_accounts := db_accounts d @ [row_of_stored \<lparr>sa_Position = next_position d, sa_Account = an_Account c\<rparr>]\<rparr>"
  have "fold (\<lambda>row. delete_key_rows (\<lambda>x. fst x = fst row)) (an_CreatedRows c) d' =
      fold (\<lambda>n. delete_key_rows (\<lambda>x. fst x = n)) (map fst (an_CreatedRows c)) d'" by (simp add: fold_map comp_def)
  also have "\<dots> = ?d1"
    using appended_deleted [OF below, where d = ?d1 and mk = ?make and xs = "active_users d"] by (simp add: effect(1,2) fst_numbered)
  finally have deleted: "fold (\<lambda>row. delete_key_rows (\<lambda>x. fst x = fst row)) (an_CreatedRows c) d' = ?d1" .
  have "filter (\<lambda>r. ar_id r \<noteq> ?id) (db_accounts d) = db_accounts d" using effect(5) by (force simp: filter_id_conv)
  then have "restore_account_creation_in_tx env' c d' = Inr ((), d)"
    using assms(4) found routes checks deleted
    by (simp add: restore_account_creation_in_tx_def Let_def readStoredAccount_def then_tx_eq guard_tx_def ok_tx_def sameAccount_def)
  moreover have "?id \<noteq> []"
    using effect(3) by (auto simp: normal_candidate_def NormalizeAccountID_def accountIDPattern_def Let_def split: if_splits list.splits)
  ultimately show ?thesis using assms(4,5) by (simp add: RestoreAccountCreation_def writeTransaction_calm)
qed

section \<open>Deletion\<close>

lemma find_row: "find P xs = Some x \<Longrightarrow> x \<in> set xs \<and> P x"
  by (induction xs) (auto split: if_splits)

lemma automatic_fallback_enabled:
  assumes "automatic_fallback accountID accounts \<noteq> []"
  shows "automatic_fallback accountID accounts \<in> set (enabled_others accountID accounts)"
proof (cases "find (\<lambda>r. ar_id r \<noteq> accountID \<and> is_enabled r \<and> ar_default_group r \<noteq> 0) accounts")
  case None
  with assms show ?thesis by (simp add: automatic_fallback_def split: list.splits)
next
  case (Some r)
  with find_row [OF Some] show ?thesis by (simp add: automatic_fallback_def enabled_others_def)
qed

lemma choose_fallback_Inr:
  "choose_fallback accountID raw accounts = Inr fallback \<Longrightarrow> fallback \<noteq> [] \<and> fallback \<in> set (enabled_others accountID accounts)"
  using automatic_fallback_enabled by (auto simp: choose_fallback_def Let_def split: if_splits)

lemma lift_tx_iff [tx]: "lift_tx r d = Inr (x, d') \<longleftrightarrow> r = Inr x \<and> d' = d"
  by (auto simp: lift_tx_def tx split: sum.splits)

definition lost_keys :: "string \<Rightarrow> db \<Rightarrow> string set" where
  "lost_keys accountID d = (\<lambda>r. kr_Key (snd r)) ` {r \<in> set (account_key_rows accountID d). is_active r \<and> is_exclusive accountID d r}"

definition without_account :: "string \<Rightarrow> string \<Rightarrow> bool \<Rightarrow> db \<Rightarrow> db" where
  "without_account accountID fallback wasDefault d = d\<lparr>
     db_user_routes := map (\<lambda>(u, a). (u, if a = accountID then fallback else a)) (db_user_routes d),
     db_key_rows := filter (\<lambda>r. \<not> kr_Account (snd r) = accountID) (db_key_rows d),
     db_accounts := filter (\<lambda>r. ar_id r \<noteq> accountID)
       (if wasDefault then map (\<lambda>r. r\<lparr>ar_default_group := boolInteger (ar_id r = fallback)\<rparr>) (db_accounts d) else db_accounts d)\<rparr>"

lemma account_deletion_effect:
  assumes "ApplyAccountDeletion fence env rawID rawFallback revoke d = (Inr x, d')"
  defines "acc \<equiv> ac_ID (sa_Account (ad_Account x))" and "fallback \<equiv> ad_FallbackAccount x"
  shows "d' = without_account acc fallback (ac_DefaultGroup (sa_Account (ad_Account x))) d"
    "NormalizeAccountID rawID = Inr acc"
    "\<exists>r. find (\<lambda>r. ar_id r = acc) (db_accounts d) = Some r \<and> ad_Account x = stored_of_row r"
    "ad_Rows x = account_key_rows acc d"
    "ad_Routes x = map (\<lambda>u. \<lparr>rc_UserEmail = u, rc_Before = acc, rc_After = fallback\<rparr>) (routed_users acc d)"
    "ad_Defaults x = default_states d"
    "fallback \<in> set (enabled_others acc (sort_slice row_less (db_accounts d)))" "fallback \<noteq> []"
    "ad_RevokedExclusiveKeys x = int (card (lost_keys acc d))" "\<not> revoke \<longrightarrow> lost_keys acc d = {}"
proof -
  from assms(1) obtain i f where i: "NormalizeAccountID rawID = Inr i"
    and run: "writeTransaction fence env (delete_account_in_tx env i f revoke) d = (Inr x, d')"
    by (auto simp: ApplyAccountDeletion_def and_then_def split: sum.splits)
  let ?keys = "remdups (map (\<lambda>r. kr_Key (snd r)) (filter (\<lambda>r. is_active r \<and> is_exclusive i d r) (account_key_rows i d)))"
  note step = writeTransaction_Inr(2) [OF run, unfolded delete_account_in_tx_def readStoredAccount_def readAccountKeyRows_def
    exclusive_keys_def read_routed_users_def]
  from step obtain r where r: "find (\<lambda>r. ar_id r = i) (db_accounts d) = Some r"
    by (cases "find (\<lambda>r. ar_id r = i) (db_accounts d)") (simp_all add: tx)
  from step obtain fb where fb: "choose_fallback i f (sort_slice row_less (db_accounts d)) = Inr fb"
    by (cases "choose_fallback i f (sort_slice row_less (db_accounts d))") (simp_all add: tx r)
  from step have keys: "?keys = [] \<or> revoke" by (simp add: tx r fb)
  from step have x: "x = \<lparr>ad_Account = stored_of_row r, ad_Rows = account_key_rows i d,
      ad_Routes = map (\<lambda>u. \<lparr>rc_UserEmail = u, rc_Before = i, rc_After = fb\<rparr>) (routed_users i d),
      ad_Defaults = default_states d, ad_FallbackAccount = fb, ad_RevokedExclusiveKeys = int (length ?keys)\<rparr>"
    by (clarsimp simp add: tx r fb)
  from step have d': "d' = without_account i fb (ac_DefaultGroup (sa_Account (stored_of_row r))) d"
    by (cases "ac_DefaultGroup (sa_Account (stored_of_row r))")
      (simp_all add: tx r fb without_account_def reroute_def set_default_def delete_key_rows_def)
  have acc: "acc = i" using find_row [OF r] by (simp add: acc_def x stored_of_row_def)
  have lost: "set ?keys = lost_keys i d" by (auto simp: lost_keys_def)
  show "d' = without_account acc fallback (ac_DefaultGroup (sa_Account (ad_Account x))) d" by (simp add: d' acc fallback_def x)
  show "NormalizeAccountID rawID = Inr acc" using i acc by simp
  show "\<exists>r. find (\<lambda>r. ar_id r = acc) (db_accounts d) = Some r \<and> ad_Account x = stored_of_row r" using r by (simp add: x acc)
  show "ad_Rows x = account_key_rows acc d" "ad_Defaults x = default_states d"
    "ad_Routes x = map (\<lambda>u. \<lparr>rc_UserEmail = u, rc_Before = acc, rc_After = fallback\<rparr>) (routed_users acc d)"
    by (simp_all add: x acc fallback_def)
  show "fallback \<in> set (enabled_others acc (sort_slice row_less (db_accounts d)))" "fallback \<noteq> []"
    using choose_fallback_Inr [OF fb] acc by (simp_all add: fallback_def x)
  show "ad_RevokedExclusiveKeys x = int (card (lost_keys acc d))"
    unfolding acc by (simp add: x lost_keys_def length_remdups_card_conv)
  show "\<not> revoke \<longrightarrow> lost_keys acc d = {}" using keys lost unfolding acc by (metis empty_set)
qed


text \<open>
  C32: deleting an account takes no shared key from any user and strands no route. After a successful deletion
  the account, its key rows and the routes to it are gone; every route to it leads to the fallback, another
  account of the catalog that is enabled, and all other routes are unchanged; if the account was the default,
  the fallback is now the only default. All rows of other accounts are unchanged. Every active key of a user
  that also exists on another account is still active for that user; the receipt counts the keys for which
  there was no other account, and without permission to revoke these there is none: then every user keeps
  every active key.
\<close>

theorem account_deletion_keeps_shared_keys:
  assumes "ApplyAccountDeletion fence env rawID rawFallback revoke d = (Inr x, d')"
  shows "let acc = ac_ID (sa_Account (ad_Account x)); fallback = ad_FallbackAccount x in
    NormalizeAccountID rawID = Inr acc \<and> acc \<in> ar_id ` set (db_accounts d) \<and> acc \<notin> ar_id ` set (db_accounts d') \<and>
    (\<exists>r \<in> set (db_accounts d'). ar_id r = fallback \<and> is_enabled r) \<and>
    (ac_DefaultGroup (sa_Account (ad_Account x)) \<longrightarrow> (\<forall>r \<in> set (db_accounts d'). ar_default_group r = boolInteger (ar_id r = fallback))) \<and>
    db_user_routes d' = map (\<lambda>(u, a). (u, if a = acc then fallback else a)) (db_user_routes d) \<and>
    db_key_rows d' = filter (\<lambda>r. kr_Account (snd r) \<noteq> acc) (db_key_rows d) \<and>
    (\<forall>r \<in> set (db_key_rows d). is_active r \<longrightarrow> kr_Key (snd r) \<notin> lost_keys acc d \<longrightarrow>
       (\<exists>n \<in> set (db_key_rows d'). is_active n \<and> sql_norm (kr_User (snd n)) = sql_norm (kr_User (snd r)) \<and>
         kr_Key (snd n) = kr_Key (snd r))) \<and>
    ad_RevokedExclusiveKeys x = int (card (lost_keys acc d)) \<and> (\<not> revoke \<longrightarrow> lost_keys acc d = {})"
proof -
  define acc where "acc = ac_ID (sa_Account (ad_Account x))"
  define fallback where "fallback = ad_FallbackAccount x"
  note effect = account_deletion_effect [OF assms, folded acc_def fallback_def]
  obtain a where a: "a \<in> set (db_accounts d)" "ar_id a = acc" using effect(3) find_row by fastforce
  obtain f where f: "f \<in> set (db_accounts d)" "ar_id f = fallback" "fallback \<noteq> acc" "is_enabled f"
    using effect(7) by (auto simp: enabled_others_def)
  have enabled: "\<exists>r \<in> set (db_accounts d'). ar_id r = fallback \<and> is_enabled r"
    using f by (cases "ac_DefaultGroup (sa_Account (ad_Account x))") (force simp: effect(1) without_account_def is_enabled_def)+
  have kept: "\<exists>n \<in> set (db_key_rows d'). is_active n \<and> sql_norm (kr_User (snd n)) = sql_norm (kr_User (snd r)) \<and>
      kr_Key (snd n) = kr_Key (snd r)"
    if r: "r \<in> set (db_key_rows d)" "is_active r" "kr_Key (snd r) \<notin> lost_keys acc d" for r
  proof (cases "kr_Account (snd r) = acc")
    case False
    with r show ?thesis by (intro bexI [of _ r]) (simp_all add: effect(1) without_account_def)
  next
    case True
    with r have "\<not> is_exclusive acc d r" by (auto simp: lost_keys_def account_key_rows_def)
    then obtain n where "n \<in> set (db_key_rows d)" "sql_norm (kr_User (snd n)) = sql_norm (kr_User (snd r))"
      "kr_Key (snd n) = kr_Key (snd r)" "is_active n" "kr_Account (snd n) \<noteq> acc"
      unfolding is_exclusive_def list_ex_iff by blast
    then show ?thesis by (intro bexI [of _ n]) (simp_all add: effect(1) without_account_def)
  qed
  show ?thesis
    unfolding Let_def acc_def [symmetric] fallback_def [symmetric]
    using effect(2,9,10) a enabled kept by (intro conjI) (auto simp: effect(1) without_account_def)
qed


subsection \<open>Undoing a deletion\<close>

lemma fold_restore_route:
  "fold restore_route cs d = d\<lparr>db_user_routes :=
     map (\<lambda>(u, a). (u, fold (\<lambda>c a. if u = rc_UserEmail c \<and> a = rc_After c then rc_Before c else a) cs a)) (db_user_routes d)\<rparr>"
  by (induction cs arbitrary: d) (simp_all add: restore_route_def comp_def case_prod_beta' cong: if_cong)

lemma fold_change_route: "acc \<noteq> fallback \<Longrightarrow>
    fold (\<lambda>c a. if u = rc_UserEmail c \<and> a = rc_After c then rc_Before c else a)
      (map (\<lambda>v. \<lparr>rc_UserEmail = v, rc_Before = acc, rc_After = fallback\<rparr>) us) a =
    (if u \<in> set us \<and> a = fallback then acc else a)"
  by (induction us arbitrary: a) auto

lemma routes_restored:
  assumes "acc \<noteq> fallback" "wf_map R"
  shows "map (\<lambda>(u, a). (u, fold (\<lambda>c a. if u = rc_UserEmail c \<and> a = rc_After c then rc_Before c else a)
      (map (\<lambda>v. \<lparr>rc_UserEmail = v, rc_Before = acc, rc_After = fallback\<rparr>) (sort (map fst (filter (\<lambda>(_, a). a = acc) R)))) a))
    (map (\<lambda>(u, a). (u, if a = acc then fallback else a)) R) = R"
proof -
  have "u \<in> fst ` {x \<in> set R. case x of (_, a) \<Rightarrow> a = acc} \<longleftrightarrow> a = acc" if "(u, a) \<in> set R" for u a
    using that assms(2) by (force dest: eq_key_imp_eq_value)
  then show ?thesis
    using assms(1) by (auto simp: fold_change_route comp_def case_prod_beta' intro!: map_idI)
qed

lemma fold_restore_default:
  "fold restore_default ss d = d\<lparr>db_accounts :=
     map (\<lambda>r. fold (\<lambda>s r. if ar_id r = ds_AccountID s then r\<lparr>ar_default_group := boolInteger (ds_Default s)\<rparr> else r) ss r) (db_accounts d)\<rparr>"
  by (induction ss arbitrary: d) (simp_all add: restore_default_def comp_def)

abbreviation default_state_of :: "account_row \<Rightarrow> default_state" where
  "default_state_of q \<equiv> \<lparr>ds_AccountID = ar_id q, ds_Default = (ar_default_group q \<noteq> 0)\<rparr>"

lemma fold_default_other:
  "ar_id r \<notin> ar_id ` set qs \<Longrightarrow> fold (\<lambda>s r. if ar_id r = ds_AccountID s then r\<lparr>ar_default_group := boolInteger (ds_Default s)\<rparr> else r)
     (map default_state_of qs) r = r"
  by (induction qs) auto

lemma fold_default_one:
  "distinct (map ar_id qs) \<Longrightarrow> q \<in> set qs \<Longrightarrow> ar_id r = ar_id q \<Longrightarrow>
     fold (\<lambda>s r. if ar_id r = ds_AccountID s then r\<lparr>ar_default_group := boolInteger (ds_Default s)\<rparr> else r) (map default_state_of qs) r =
     r\<lparr>ar_default_group := boolInteger (ar_default_group q \<noteq> 0)\<rparr>"
proof (induction qs)
  case (Cons p qs)
  show ?case
  proof (cases "ar_id p = ar_id q")
    case True
    with Cons.prems have "p = q" by (auto simp: rev_image_eqI)
    with Cons.prems show ?thesis by (simp add: fold_default_other)
  next
    case False
    with Cons show ?thesis by auto
  qed
qed simp

definition plain_flags :: "db \<Rightarrow> bool" where
  "plain_flags d \<longleftrightarrow> list_all (\<lambda>r. ar_group_enabled r \<in> {0, 1} \<and> ar_default_group r \<in> {0, 1}) (db_accounts d)"

lemma plain_row: "plain_flags d \<Longrightarrow> r \<in> set (db_accounts d) \<Longrightarrow> row_of_stored (stored_of_row r) = r"
  by (auto simp: plain_flags_def list_all_iff row_of_stored_def stored_of_row_def boolInteger_def Let_def)

lemma plain_default: "plain_flags d \<Longrightarrow> r \<in> set (db_accounts d) \<Longrightarrow> boolInteger (ar_default_group r \<noteq> 0) = ar_default_group r"
  by (auto simp: plain_flags_def list_all_iff boolInteger_def)

lemma unique_row: "distinct (map f xs) \<Longrightarrow> x \<in> set xs \<Longrightarrow> mset (filter (\<lambda>y. f y \<noteq> f x) xs @ [x]) = mset xs"
proof (induction xs)
  case (Cons y ys)
  show ?case
  proof (cases "x = y")
    case True
    have "f z \<noteq> f y" if "z \<in> set ys" for z using Cons.prems(1) imageI [OF that, of f] by auto
    then have "filter (\<lambda>z. f z \<noteq> f y) ys = ys" by (simp add: filter_id_conv)
    then show ?thesis unfolding True by (simp del: mset_filter)
  next
    case False
    with Cons show ?thesis by auto
  qed
qed simp

lemma defaults_restored:
  assumes "schema_ok d" "plain_flags d" "a \<in> set (db_accounts d)" "\<And>r. \<exists>v. f r = r\<lparr>ar_default_group := v\<rparr>"
  shows "map (\<lambda>r. fold (\<lambda>s r. if ar_id r = ds_AccountID s then r\<lparr>ar_default_group := boolInteger (ds_Default s)\<rparr> else r) (default_states d) r)
      (filter (\<lambda>r. ar_id r \<noteq> ar_id a) (map f (db_accounts d)) @ [a]) = filter (\<lambda>r. ar_id r \<noteq> ar_id a) (db_accounts d) @ [a]"
proof -
  let ?restore = "\<lambda>r. fold (\<lambda>s r. if ar_id r = ds_AccountID s then r\<lparr>ar_default_group := boolInteger (ds_Default s)\<rparr> else r) (default_states d) r"
  have ids: "distinct (map ar_id (sort_slice row_less (db_accounts d)))"
  proof -
    have "mset (map ar_id (sort_slice row_less (db_accounts d))) = mset (map ar_id (db_accounts d))" by simp
    with assms(1) show ?thesis unfolding schema_ok_def by (metis mset_eq_imp_distinct_iff)
  qed
  have undone: "?restore (f r) = r" if r: "r \<in> set (db_accounts d)" for r
  proof -
    obtain v where v: "f r = r\<lparr>ar_default_group := v\<rparr>" using assms(4) by blast
    have "?restore (f r) = (f r)\<lparr>ar_default_group := boolInteger (ar_default_group r \<noteq> 0)\<rparr>"
      unfolding default_states_def by (rule fold_default_one [OF ids]) (use r v in simp_all)
    then show ?thesis using plain_default [OF assms(2) r] by (simp add: v)
  qed
  have "?restore a = a\<lparr>ar_default_group := boolInteger (ar_default_group a \<noteq> 0)\<rparr>"
    unfolding default_states_def by (rule fold_default_one [OF ids]) (use assms(3) in simp_all)
  then have last: "?restore a = a" using plain_default [OF assms(2,3)] by simp
  have "ar_id (f r) = ar_id r" for r using assms(4) [of r] by auto
  then have "filter (\<lambda>r. ar_id r \<noteq> ar_id a) (map f (db_accounts d)) = map f (filter (\<lambda>r. ar_id r \<noteq> ar_id a) (db_accounts d))"
    by (simp add: filter_map comp_def)
  moreover have "map (\<lambda>r. ?restore (f r)) (filter (\<lambda>r. ar_id r \<noteq> ar_id a) (db_accounts d)) = filter (\<lambda>r. ar_id r \<noteq> ar_id a) (db_accounts d)"
    using undone by (intro map_idI) simp
  ultimately show ?thesis using last by (simp add: comp_def)
qed


text \<open>The deleted account's rows are put back, each check of the rollback passing.\<close>

lemma deletion_checks_pass:
  assumes "schema_ok d" "acc \<noteq> fallback" "calm env" "d' = without_account acc fallback was d"
  shows "find (\<lambda>r. ar_id r = acc) (db_accounts d') = None"
    "each_tx (require_route env text) (map (\<lambda>u. \<lparr>rc_UserEmail = u, rc_Before = acc, rc_After = fallback\<rparr>) (routed_users acc d)) d' = Inr ((), d')"
    "each_tx (\<lambda>row. then_tx (readStoredKeyRecord env (fst row)) (\<lambda>found. guard_tx (found \<noteq> None) e)) (account_key_rows acc d) d' = Inr ((), d')"
proof -
  show "find (\<lambda>r. ar_id r = acc) (db_accounts d') = None" by (auto simp: assms(4) without_account_def find_None_iff)
  have wf: "wf_map (db_user_routes d)" using assms(1) by (simp add: schema_ok_def)
  have routes: "map_of (db_user_routes d') u = map_option (\<lambda>a. if a = acc then fallback else a) (map_of (db_user_routes d) u)" for u
    by (simp add: assms(4) without_account_def map_of_map)
  have "require_route env text \<lparr>rc_UserEmail = u, rc_Before = acc, rc_After = fallback\<rparr> d' = Inr ((), d')" if "u \<in> set (routed_users acc d)" for u
  proof -
    have "(u, acc) \<in> set (db_user_routes d)" using that by (auto simp: routed_users_def)
    then have "map_of (db_user_routes d') u = Some fallback" using wf by (simp add: routes)
    then show ?thesis using assms(3) by (simp add: require_route_def query_row_def then_tx_eq guard_tx_def ok_tx_def)
  qed
  then show "each_tx (require_route env text) (map (\<lambda>u. \<lparr>rc_UserEmail = u, rc_Before = acc, rc_After = fallback\<rparr>) (routed_users acc d)) d' = Inr ((), d')"
    by (intro each_tx_pass) auto
  have "key_row_at (fst r) d' = None" if r: "r \<in> set (account_key_rows acc d)" for r
  proof -
    from r have "r \<in> set (db_key_rows d)" by (simp add: account_key_rows_def)
    then have "x = r" if "x \<in> set (db_key_rows d)" "fst x = fst r" for x
      using that schema_key_rows [OF assms(1)] by (metis eq_key_imp_eq_value prod.collapse)
    then show ?thesis using r
      by (force simp: key_row_at_def map_of_eq_None_iff assms(4) without_account_def account_key_rows_def)
  qed
  then show "each_tx (\<lambda>row. then_tx (readStoredKeyRecord env (fst row)) (\<lambda>found. guard_tx (found \<noteq> None) e)) (account_key_rows acc d) d' = Inr ((), d')"
    using assms(3) by (intro each_tx_pass) (simp add: readStoredKeyRecord_def then_tx_eq guard_tx_def ok_tx_def)
qed

definition same_but_order :: "db \<Rightarrow> db \<Rightarrow> bool" where
  "same_but_order d d' \<longleftrightarrow> mset (db_accounts d') = mset (db_accounts d) \<and> d' = d\<lparr>db_accounts := db_accounts d'\<rparr>"

text \<open>
  An account deletion can be undone: on a store that satisfies the schema and has only 0 and 1 as flags,
  the rollback of a successful deletion succeeds (when the write fence still holds and no call fails). The
  account is back at its position, every key row at its old sequence number, every route and every default
  flag as before; only the order in which the account rows are stored, which no reader depends on, may differ.
\<close>

theorem account_deletion_is_undone:
  assumes "ApplyAccountDeletion fence env rawID rawFallback revoke d = (Inr x, d')" "schema_ok d" "plain_flags d"
    "calm env'" "validateWriteFence fence' env' d' = None"
  shows "\<exists>d''. RestoreAccountDeletion fence' env' x d' = (Inr (), d'') \<and> same_but_order d d''"
proof -
  define acc where "acc = ac_ID (sa_Account (ad_Account x))"
  define fallback where "fallback = ad_FallbackAccount x"
  define was where "was = ac_DefaultGroup (sa_Account (ad_Account x))"
  note effect = account_deletion_effect [OF assms(1), folded acc_def fallback_def was_def]
  obtain a where found: "find (\<lambda>r. ar_id r = acc) (db_accounts d) = Some a" "ad_Account x = stored_of_row a"
    using effect(3) by blast
  have a: "a \<in> set (db_accounts d)" "ar_id a = acc" "ad_Account x = stored_of_row a"
    using find_row [OF found(1)] found(2) by simp_all
  have distinct: "acc \<noteq> fallback" using effect(7) by (auto simp: enabled_others_def)
  note checks = deletion_checks_pass [OF assms(2) distinct assms(4) effect(1)]
  define f :: "account_row \<Rightarrow> account_row" where "f = (if was then \<lambda>r. r\<lparr>ar_default_group := boolInteger (ar_id r = fallback)\<rparr> else id)"
  have f: "\<exists>v. f r = r\<lparr>ar_default_group := v\<rparr>" for r
    by (cases was) (auto simp: f_def intro: exI [of _ "ar_default_group r"])
  have accounts: "db_accounts d' = filter (\<lambda>r. ar_id r \<noteq> ar_id a) (map f (db_accounts d))"
    by (simp add: effect(1) without_account_def f_def a(2))
  have back_row: "row_of_stored (ad_Account x) = a" using plain_row [OF assms(3) a(1)] a(3) by simp
  have selectors: "ar_id (f r) = ar_id r" "ar_email (f r) = ar_email r" "ar_port (f r) = ar_port r" for r
    using f [of r] by auto
  have "r = a" if "r \<in> set (db_accounts d)" "ar_id r = ar_id a \<or> ar_email r = ar_email a \<or> ar_port r = ar_port a" for r
  proof -
    have "inj_on ar_id (set (db_accounts d))" "inj_on ar_email (set (db_accounts d))" "inj_on ar_port (set (db_accounts d))"
      using assms(2) by (simp_all add: schema_ok_def distinct_map)
    with that a(1) show ?thesis by (metis inj_onD)
  qed
  then have inserted: "insert_account_row a d' = Inr (d'\<lparr>db_accounts := db_accounts d' @ [a]\<rparr>)"
    unfolding insert_account_row_Inr accounts by (fastforce simp: selectors)
  let ?taken = "sort_key fst (account_key_rows acc d)"
  have taken: "set ?taken = {r \<in> set (db_key_rows d). kr_Account (snd r) = acc}" by (auto simp: account_key_rows_def)
  have keys: "distinct (map fst ?taken)" using schema_key_rows [OF assms(2)] by (simp add: account_key_rows_def distinct_map_filter)
  note rows = rows_taken_and_restored [OF conjunct1 [OF schema_key_rows [OF assms(2)]] taken keys]
  let ?d1 = "d'\<lparr>db_accounts := db_accounts d' @ [a]\<rparr>"
  let ?d2 = "?d1\<lparr>db_key_rows := db_key_rows d\<rparr>"
  have rows_back: "insert_rows env' ''restore deleted account Key row '' ?taken ?d1 = Inr ((), ?d2)"
    using insert_rows_calm [OF assms(4) keys, where d = ?d1] rows by (simp add: insert_rows_def effect(1) without_account_def)
  have routes_back: "fold restore_route (ad_Routes x) ?d2 = ?d2\<lparr>db_user_routes := db_user_routes d\<rparr>"
    using routes_restored [OF distinct, of "db_user_routes d"] assms(2)
    by (simp add: fold_restore_route effect(1,5) without_account_def routed_users_def schema_ok_def)
  let ?final = "d\<lparr>db_accounts := filter (\<lambda>r. ar_id r \<noteq> ar_id a) (db_accounts d) @ [a]\<rparr>"
  have defaults_back: "fold restore_default (ad_Defaults x) (?d2\<lparr>db_user_routes := db_user_routes d\<rparr>) = ?final"
    using defaults_restored [OF assms(2,3) a(1) f]
    by (simp add: fold_restore_default effect(6) accounts) (simp add: effect(1) without_account_def)
  have "restore_account_deletion_in_tx env' x d' = Inr ((), ?final)"
    using assms(4) checks inserted rows_back routes_back defaults_back
    by (simp add: restore_account_deletion_in_tx_def readStoredAccount_def then_tx_eq guard_tx_def ok_tx_def
        acc_def [symmetric] effect(4,5) back_row exec_checked_def calm_def)
  moreover have "same_but_order d ?final" using unique_row [of ar_id "db_accounts d" a] a(1) assms(2)
    by (simp add: same_but_order_def schema_ok_def)
  moreover have "acc \<noteq> []" using effect(2)
    by (auto simp: NormalizeAccountID_def accountIDPattern_def Let_def split: if_splits list.splits)
  ultimately show ?thesis
    using assms(4,5) effect(8) by (simp add: RestoreAccountDeletion_def writeTransaction_calm acc_def fallback_def)
qed


section \<open>Applied to a concrete store\<close>

definition ex_candidate :: account where
  "ex_candidate = \<lparr>ac_ID = '' B3'', ac_Email = ''b3@example.org'', ac_Port = 9003, ac_ProxyMode = [], ac_CreatedAt = 0,
     ac_GroupEnabled = False, ac_DefaultGroup = False\<rparr>"

definition ex_joined :: "(gerr + account_creation) \<times> db" where
  "ex_joined = ApplyAccountCreation [] (env_at 9 []) Some ex_candidate ex_life_db"

definition ex_left :: "(gerr + account_deletion) \<times> db" where
  "ex_left = ApplyAccountDeletion [] (env_at 9 []) ''A1'' [] False ex_life_db"

lemma ex_joined_ok: "ApplyAccountCreation [] (env_at 9 []) Some ex_candidate ex_life_db = (Inr (projr (fst ex_joined)), snd ex_joined)"
  by code_simp

lemma ex_left_ok: "ApplyAccountDeletion [] (env_at 9 []) ''A1'' [] False ex_life_db = (Inr (projr (fst ex_left)), snd ex_left)"
  by code_simp

theorem account_creation_joins_users_witness:
  "map (\<lambda>r. kr_User (snd r)) (an_CreatedRows (projr (fst ex_joined))) =
     sort (remdups (map (\<lambda>r. sql_norm (kr_User (snd r))) (filter is_active (db_key_rows ex_life_db))))"
  using account_creation_joins_users [OF ex_joined_ok] by blast

theorem account_creation_is_undone_witness:
  "RestoreAccountCreation [] (env_at 10 []) (projr (fst ex_joined)) (snd ex_joined) = (Inr (), ex_life_db)"
  by (rule account_creation_is_undone [OF ex_joined_ok ex_schema]) (code_simp, simp, code_simp)

theorem account_deletion_keeps_shared_keys_witness:
  "db_user_routes (snd ex_left) =
     map (\<lambda>(u, a). (u, if a = ac_ID (sa_Account (ad_Account (projr (fst ex_left)))) then ad_FallbackAccount (projr (fst ex_left)) else a))
       (db_user_routes ex_life_db)"
  using account_deletion_keeps_shared_keys [OF ex_left_ok] unfolding Let_def by blast

lemma ex_flags: "plain_flags ex_life_db"
  unfolding plain_flags_def by code_simp

theorem account_deletion_is_undone_witness:
  "\<exists>d''. RestoreAccountDeletion [] (env_at 10 []) (projr (fst ex_left)) (snd ex_left) = (Inr (), d'') \<and> same_but_order ex_life_db d''"
  by (rule account_deletion_is_undone [OF ex_left_ok ex_schema ex_flags]) (simp, code_simp)

end
