(* ===== verification/Auth_Publisher.thy ===== *)
theory Auth_Publisher
  imports Gateway_Engine Control_Keys Control_Settings
begin

text \<open>
  \<open>internal/failover/auth_snapshot.go\<close>: the authentication snapshot the gateway reads, built from the
  control plane under the write fence, replaced atomically (\<open>internal/snapshotfile\<close>), and the wait until a
  gateway has loaded it. The system calls, the length of the encoded JSON, \<open>url.Parse\<close>, the HTTP responses
  and the fresh UUID are arguments; the wait's timer is the round after which its context has ended.
\<close>

section \<open>Building the payload\<close>

text \<open>A later account of the same id replaces an earlier one in the catalog map.\<close>

definition account_catalog :: "account list \<Rightarrow> account gomap" where
  "account_catalog accounts = foldl (\<lambda>m a. mput (ac_ID a) a m) [] accounts"

definition active_record :: "key_record \<Rightarrow> bool" where
  "active_record r \<longleftrightarrow> kr_Status r = ''active''"

definition activeRecordUsers :: "key_record list \<Rightarrow> string list" where
  "activeRecordUsers records =
     sort (remdups (filter (\<lambda>u. u \<noteq> []) (map (\<lambda>r. norm_name (kr_User r)) (filter active_record records))))"

definition user_items :: "string \<Rightarrow> key_record list \<Rightarrow> key_record list" where
  "user_items user records = filter (\<lambda>r. norm_name (kr_User r) = user) (filter active_record records)"

definition any_hex :: "char \<Rightarrow> bool" where
  "any_hex c \<longleftrightarrow> lower_hex c \<or> (65 \<le> (of_char c :: nat) \<and> (of_char c :: nat) \<le> 70)"

definition validInternalKey :: "string \<Rightarrow> bool" where
  "validInternalKey key \<longleftrightarrow> has_prefix internalKeyPrefix key \<and> length key = length internalKeyPrefix + 64 \<and>
     list_all any_hex (drop (length internalKeyPrefix) key)"

text \<open>The keys of a user and the accounts they lead to: the routed account if there is one key.\<close>

definition user_pairs :: "account gomap \<Rightarrow> string gomap \<Rightarrow> string \<Rightarrow> key_record list \<Rightarrow> (string \<times> string) list" where
  "user_pairs catalog routes user items =
     (if length (remdups (map kr_Key items)) = 1
      then let account = trim_space (mget [] routes user)
           in case map_of catalog account of
                None \<Rightarrow> []
              | Some a \<Rightarrow>
                  if \<not> ac_GroupEnabled a then []
                  else (case find (\<lambda>r. kr_Account r = account) items of
                          None \<Rightarrow> [] | Some r \<Rightarrow> [(kr_Key r, account)])
      else map (\<lambda>r. (kr_Key r, kr_Account r)) (filter (\<lambda>r. map_of catalog (kr_Account r) \<noteq> None) items))"

definition published_record :: "string \<Rightarrow> string \<Rightarrow> string \<times> string \<Rightarrow> auth_record" where
  "published_record user internal p =
     \<lparr>gr_ExternalKeySHA256 = sha256_hex (fst p), gr_UserEmail = user, gr_Account = snd p,
      gr_Backend = ''cliproxy-'' @ snd p @ '':8317'', gr_InternalKey = internal, gr_Label = user @ '':'' @ snd p\<rparr>"

fun emit_pairs :: "string \<Rightarrow> string \<Rightarrow> (string \<times> string) list \<Rightarrow> auth_record list \<Rightarrow> auth_record list" where
  "emit_pairs user internal [] emitted = emitted"
| "emit_pairs user internal (p # pairs) emitted =
     emit_pairs user internal pairs
       (if sha256_hex (fst p) \<in> gr_ExternalKeySHA256 ` set emitted then emitted
        else emitted @ [published_record user internal p])"

fun build_records ::
  "account gomap \<Rightarrow> string gomap \<Rightarrow> key_record list \<Rightarrow> internal_key gomap \<Rightarrow> string list \<Rightarrow> auth_record list \<Rightarrow>
     gerr + auth_record list" where
  "build_records catalog routes records internalKeys [] emitted = Inr emitted"
| "build_records catalog routes records internalKeys (user # users) emitted =
     (case map_of internalKeys user of
        None \<Rightarrow> Inl (ErrNew (''active user '' @ user @ '' has no valid internal key''))
      | Some k \<Rightarrow>
          if ik_Status k \<noteq> ''active'' \<or> \<not> validInternalKey (ik_Key k)
          then Inl (ErrNew (''active user '' @ user @ '' has no valid internal key''))
          else build_records catalog routes records internalKeys users
                 (emit_pairs user (ik_Key k) (user_pairs catalog routes user (user_items user records)) emitted))"

text \<open>
  The encoded document with its final line feed. (\<open>json.Marshal\<close> cannot fail here, the float is finite; it
  keeps strings that are UTF-8, which those of the store are.)
\<close>

definition payload_of :: "(goany \<Rightarrow> nat) \<Rightarrow> auth_snapshot \<Rightarrow> content" where
  "payload_of encoded_length s =
     (let doc = json_norm (auth_snapshot_json s) in Content (encoded_length doc + 1) False (Some doc))"

definition buildPayload ::
  "(goany \<Rightarrow> nat) \<Rightarrow> string \<Rightarrow> int \<Rightarrow> account list \<Rightarrow> string gomap \<Rightarrow> key_record list \<Rightarrow> internal_key gomap \<Rightarrow> string \<Rightarrow>
     gerr + content \<times> string" where
  "buildPayload encoded_length uuid now accounts routes records internalKeys maxReasoningEffort =
     and_then (build_records (account_catalog accounts) routes records internalKeys (activeRecordUsers records) []) (\<lambda>authRecords.
     let generation = filter (\<lambda>c. c \<noteq> CHR ''-'') uuid;
         snapshot = \<lparr>gs_Version = 1, gs_Generation = generation, gs_GeneratedAt = round64 (of_int (unix_of now)),
           gs_Records = authRecords, gs_MaxReasoningEffort = maxReasoningEffort\<rparr>;
         payload = payload_of encoded_length snapshot
     in and_then (wrapping ''validate generated auth snapshot: '' (ParseAuthSnapshot payload)) (\<lambda>_.
     Inr (payload, generation)))"

section \<open>Replacing the file\<close>

datatype file_call = MkdirAll | ChmodDirectory | ChownDirectory | NewPending | StatPending | ChownPending | StatAgain
  | WritePending | ReplacePending | ChmodFile | ChownFile

text \<open>What the system answers; \<open>fe_written\<close> is the number of bytes a write accepts of so many.\<close>

record file_env =
  fe_fault :: "file_call \<Rightarrow> gerr option"
  fe_euid :: int
  fe_gid :: int
  fe_pendingGID :: int
  fe_chownedGID :: int
  fe_written :: "nat \<Rightarrow> nat"

record published_file =
  pf_content :: content
  pf_permission :: int
  pf_gid :: int

definition call :: "file_env \<Rightarrow> file_call \<Rightarrow> string \<Rightarrow> gerr + unit" where
  "call fe c text = (case fe_fault fe c of Some e \<Rightarrow> Inl (wrapf text e) | None \<Rightarrow> Inr ())"

text \<open>The group of the pending file in the end, or the error.\<close>

definition ensureGroup :: "file_env \<Rightarrow> int \<Rightarrow> gerr + int" where
  "ensureGroup fe gid =
     (if gid < 0 then Inr (fe_pendingGID fe)
      else and_then (call fe StatPending ''stat pending snapshot: '') (\<lambda>_.
           if fe_pendingGID fe = gid then Inr gid
           else if fe_euid fe \<noteq> 0
           then Inl (ErrNew (''pending snapshot gid is '' @ itoa (fe_pendingGID fe) @ '', want '' @ itoa gid))
           else and_then (call fe ChownPending ''assign pending snapshot group: '') (\<lambda>_.
                and_then (call fe StatAgain ''stat pending snapshot: '') (\<lambda>_.
                if fe_chownedGID fe \<noteq> gid
                then Inl (ErrNew (''pending snapshot gid is '' @ itoa (fe_chownedGID fe) @ '' after chown, want '' @ itoa gid))
                else Inr gid))))"

definition content_length :: "content \<Rightarrow> nat" where
  "content_length c = (case c of Content n _ _ \<Rightarrow> n | _ \<Rightarrow> 0)"

definition ErrShortWrite :: gerr where "ErrShortWrite = Sentinel ''short write''"

text \<open>\<open>snapshotfile.Write\<close>: the file is replaced last, once the pending file is complete.\<close>

definition Write :: "file_env \<Rightarrow> content \<Rightarrow> int \<Rightarrow> int \<Rightarrow> published_file option \<Rightarrow> gerr option \<times> published_file option" where
  "Write fe payload permission gid file =
     (case and_then (call fe NewPending ''create pending snapshot: '') (\<lambda>_.
           and_then (ensureGroup fe gid) (\<lambda>groupID.
           and_then (call fe WritePending ''write pending snapshot: '') (\<lambda>_.
           and_then (if fe_written fe (content_length payload) \<noteq> content_length payload
                     then Inl (wrapf ''write pending snapshot: '' ErrShortWrite) else Inr ()) (\<lambda>_.
           and_then (call fe ReplacePending ''replace snapshot atomically: '') (\<lambda>_.
           Inr groupID))))) of
        Inl e \<Rightarrow> (Some e, file)
      | Inr groupID \<Rightarrow> (None, Some \<lparr>pf_content = payload, pf_permission = permission, pf_gid = groupID\<rparr>))"

definition defaultSnapshotGID :: int where "defaultSnapshotGID = 65534"

definition snapshotGID :: "file_env \<Rightarrow> int \<Rightarrow> int" where
  "snapshotGID fe configured =
     (if 0 < configured then configured else if fe_euid fe \<noteq> 0 then fe_gid fe else defaultSnapshotGID)"

text \<open>0o640 is 416. The directory is prepared first; the file is secured again afterwards.\<close>

definition writeSnapshot :: "file_env \<Rightarrow> int \<Rightarrow> content \<Rightarrow> published_file option \<Rightarrow> gerr option \<times> published_file option" where
  "writeSnapshot fe configuredGID payload file =
     (let gid = snapshotGID fe configuredGID
      in case and_then (call fe MkdirAll ''create auth snapshot directory: '') (\<lambda>_.
              and_then (call fe ChmodDirectory ''secure auth snapshot directory: '') (\<lambda>_.
              if fe_euid fe = 0 then call fe ChownDirectory ''assign auth snapshot directory group: '' else Inr ())) of
           Inl e \<Rightarrow> (Some e, file)
         | Inr _ \<Rightarrow>
             (case Write fe payload 416 gid file of
                (Some e, file') \<Rightarrow> (Some (wrapf ''publish auth snapshot atomically: '' e), file')
              | (None, file') \<Rightarrow>
                  (case and_then (call fe ChmodFile ''secure auth snapshot: '') (\<lambda>_.
                        if fe_euid fe = 0 then call fe ChownFile ''assign auth snapshot group: '' else Inr ()) of
                     Inl e \<Rightarrow> (Some e, file')
                   | Inr _ \<Rightarrow> (None, file'))))"

section \<open>Waiting for a gateway\<close>

definition normalizedProbeURLs :: "(string \<Rightarrow> (string \<times> string) option) \<Rightarrow> string list \<Rightarrow> string list" where
  "normalizedProbeURLs parse_url vals =
     foldl (\<lambda>result raw.
       let value = rev (dropWhile (\<lambda>c. c = CHR ''/'') (rev (trim_space raw)))
       in case parse_url value of
            None \<Rightarrow> result
          | Some (scheme, host) \<Rightarrow>
              if (scheme \<noteq> ''http'' \<and> scheme \<noteq> ''https'') \<or> host = [] \<or> value \<in> set result then result
              else result @ [value]) [] vals"

datatype http_result = RequestFails gerr | Response int json

definition kind_fields_ok :: "goany gomap \<Rightarrow> bool" where
  "kind_fields_ok m \<longleftrightarrow> dec_string m ''previous_generation'' \<noteq> None \<and> dec_float m ''generated_at'' \<noteq> None \<and>
     dec_int m ''record_count'' \<noteq> None \<and> dec_int m ''snapshot_loader_success_at'' \<noteq> None"

definition auth_generation_of :: "goany gomap \<Rightarrow> string option" where
  "auth_generation_of m = (if kind_fields_ok m then dec_string m ''active_generation'' else None)"

definition quota_status_ok :: "goany gomap \<Rightarrow> unit option" where
  "quota_status_ok m =
     (if kind_fields_ok m \<and> dec_string m ''active_generation'' \<noteq> None \<and> dec_int m ''heartbeat_at'' \<noteq> None \<and>
         dec_bool m ''heartbeat_ok'' \<noteq> None \<and> dec_int m ''heartbeat_stale_after'' \<noteq> None \<and>
         dec_int m ''last_success_at'' \<noteq> None \<and> dec_int m ''fail_open_after'' \<noteq> None
      then Some () else None)"

definition status_generation_of :: "goany gomap \<Rightarrow> string option" where
  "status_generation_of m =
     (case (dec_struct_of [] auth_generation_of (mget ANil m ''auth''), dec_struct_of () quota_status_ok (mget ANil m ''quota'')) of
        (Some g, Some _) \<Rightarrow> Some g | _ \<Rightarrow> None)"

definition probeAuthGeneration :: "string \<Rightarrow> http_result \<Rightarrow> gerr + bool" where
  "probeAuthGeneration generation result =
     (case result of
        RequestFails e \<Rightarrow> Inl e
      | Response code body \<Rightarrow>
          if code \<noteq> 200 then Inl (ErrNew (''Gateway snapshot probe returned HTTP '' @ itoa code))
          else map_sum id (\<lambda>active. active = generation)
                 (wrapping ''decode Gateway snapshot status: '' (dec_document [] status_generation_of body)))"

text \<open>One pass over the gateways: the first active one ends it; otherwise the last error is kept.\<close>

fun probe_gateways :: "(string \<Rightarrow> http_result) \<Rightarrow> string \<Rightarrow> string list \<Rightarrow> gerr option \<Rightarrow> bool \<times> gerr option" where
  "probe_gateways get generation [] lastError = (False, lastError)"
| "probe_gateways get generation (url # urls) lastError =
     (case probeAuthGeneration generation (get (url @ ''/__internal/snapshots'')) of
        Inr True \<Rightarrow> (True, lastError)
      | Inr False \<Rightarrow> probe_gateways get generation urls lastError
      | Inl e \<Rightarrow> probe_gateways get generation urls (Some e))"

definition not_activated :: "string \<Rightarrow> gerr \<Rightarrow> gerr option \<Rightarrow> gerr" where
  "not_activated generation e lastError =
     wrapf (''Gateway did not activate auth snapshot '' @ generation @ '' before timeout: '')
       (case errors_join [Some e, lastError] of None \<Rightarrow> e | Some j \<Rightarrow> j)"

text \<open>
  The loop: \<open>get n\<close> answers in pass \<open>n\<close>; after a pass either the context has ended, with this error, or the
  timer starts the next pass.
\<close>

partial_function (option) wait_loop ::
  "(nat \<Rightarrow> string \<Rightarrow> http_result) \<Rightarrow> (nat \<Rightarrow> gerr option) \<Rightarrow> string \<Rightarrow> string list \<Rightarrow> nat \<Rightarrow> gerr option \<Rightarrow> (gerr + unit) option" where
  [code]: "wait_loop get ended generation urls n lastError =
     (let pass = probe_gateways (get n) generation urls lastError
      in if fst pass then Some (Inr ())
         else (case ended n of
             Some e \<Rightarrow> Some (Inl (not_activated generation e (snd pass)))
           | None \<Rightarrow> wait_loop get ended generation urls (n + 1) (snd pass)))"

definition waitForGeneration ::
  "(string \<Rightarrow> (string \<times> string) option) \<Rightarrow> string list \<Rightarrow> (nat \<Rightarrow> string \<Rightarrow> http_result) \<Rightarrow> (nat \<Rightarrow> gerr option) \<Rightarrow> string \<Rightarrow>
     (gerr + unit) option" where
  "waitForGeneration parse_url probeURLs get ended generation =
     (let urls = normalizedProbeURLs parse_url probeURLs
      in if urls = [] then Some (Inl (ErrNew ''auth snapshot activation wait requires at least one Gateway probe URL''))
         else wait_loop get ended generation urls 0 None)"

section \<open>Publishing\<close>

text \<open>
  \<open>pb_Attached\<close>: neither the publisher nor its store nor its fence is nil. \<open>filepath.Abs\<close> and \<open>filepath.Join\<close>
  are arguments.
\<close>

record publisher =
  pb_Attached :: bool
  pb_Root :: string
  pb_ProbeURLs :: "string list"
  pb_SnapshotGID :: int

definition authSnapshotRelativePath :: string where
  "authSnapshotRelativePath = ''state/gateway/auth-snapshot.json''"

definition snapshotPath :: "(string \<Rightarrow> gerr + string) \<Rightarrow> (string \<Rightarrow> string \<Rightarrow> string) \<Rightarrow> publisher \<Rightarrow> gerr + string" where
  "snapshotPath absolute join p =
     (if trim_space (pb_Root p) = [] then Inl (ErrNew ''auth snapshot root is required'')
      else and_then (wrapping ''resolve auth snapshot root: '' (absolute (pb_Root p))) (\<lambda>root.
           Inr (join root authSnapshotRelativePath)))"

text \<open>
  What a publication meets: the environment of each access to the store, the writes of other processes
  before its second and third step, the calls on the file, the fresh UUID and the clock, the answers of the
  gateways and the end of the waiting context.
\<close>

record publish_env =
  pe_store :: "nat \<Rightarrow> env"
  pe_others :: "nat \<Rightarrow> db \<Rightarrow> db"
  pe_draws :: "nat \<Rightarrow> gerr + string"
  pe_file :: file_env
  pe_uuid :: string
  pe_now :: int
  pe_length :: "goany \<Rightarrow> nat"
  pe_absolute :: "string \<Rightarrow> gerr + string"
  pe_join :: "string \<Rightarrow> string \<Rightarrow> string"
  pe_parseURL :: "string \<Rightarrow> (string \<times> string) option"
  pe_get :: "nat \<Rightarrow> string \<Rightarrow> http_result"
  pe_ended :: "nat \<Rightarrow> gerr option"

text \<open>The operation under the fence: the reads, the payload, the generation, and the file at its path.\<close>

definition build_from_store :: "publisher \<Rightarrow> publish_env \<Rightarrow> db \<Rightarrow> gerr + string \<times> content \<times> string" where
  "build_from_store p pe d =
     and_then (wrapping ''read auth snapshot accounts: '' (ReadAccounts (pe_store pe 3) d)) (\<lambda>accounts.
     and_then (wrapping ''read auth snapshot routes: '' (ReadRoutes (pe_store pe 4) d)) (\<lambda>routes.
     and_then (wrapping ''read auth snapshot Key records: '' (ReadKeyRecords (pe_store pe 5) d)) (\<lambda>records.
     and_then (wrapping ''read auth snapshot internal keys: '' (ReadInternalKeys (pe_store pe 6) d)) (\<lambda>internalKeys.
     and_then (wrapping ''read gateway request policy: '' (ReadSettings (pe_store pe 7) d)) (\<lambda>settings.
     and_then (FromSettings settings) (\<lambda>limit.
     and_then (buildPayload (pe_length pe) (pe_uuid pe) (pe_now pe) accounts routes records internalKeys limit) (\<lambda>built.
     and_then (snapshotPath (pe_absolute pe) (pe_join pe) p) (\<lambda>path.
     Inr (path, built)))))))))"

definition publish_in_fence ::
  "publisher \<Rightarrow> publish_env \<Rightarrow> db \<Rightarrow> (string \<rightharpoonup> published_file) \<times> string \<Rightarrow>
     gerr option \<times> (string \<rightharpoonup> published_file) \<times> string" where
  "publish_in_fence p pe d s =
     (case build_from_store p pe d of
        Inl e \<Rightarrow> (Some e, s)
      | Inr (path, payload, builtGeneration) \<Rightarrow>
          (case writeSnapshot (pe_file pe) (pb_SnapshotGID p) payload (fst s path) of
             (failed, file) \<Rightarrow> (failed, (fst s)(path := file), builtGeneration)))"

text \<open>The result is the generation, or an error; \<open>None\<close> would be a wait that never ends.\<close>

definition PublishAuthSnapshot ::
  "publisher \<Rightarrow> fence \<Rightarrow> publish_env \<Rightarrow> bool \<Rightarrow> db \<Rightarrow> (string \<rightharpoonup> published_file) \<Rightarrow>
     (gerr + string) option \<times> db \<times> (string \<rightharpoonup> published_file)" where
  "PublishAuthSnapshot p fence pe wait d files =
     (if \<not> pb_Attached p
      then (Some (Inl (ErrNew ''auth snapshot publisher requires a control-plane store and ownership fence'')), d, files)
      else case wrapping ''read auth snapshot users: '' (ReadKeyRecords (pe_store pe 0) d) of
        Inl e \<Rightarrow> (Some (Inl e), d, files)
      | Inr records \<Rightarrow>
     (case EnsureInternalKeys fence (pe_store pe 1) (pe_draws pe) (activeRecordUsers records) (pe_others pe 1 d) of
        (Inl e, d1) \<Rightarrow> (Some (Inl (wrapf ''synchronize auth snapshot internal keys: '' e)), d1, files)
      | (Inr _, d1) \<Rightarrow>
     (let d2 = pe_others pe 2 d1
      in case WithWriteFence fence (pe_store pe 2) (Some (publish_in_fence p pe d2)) d2 (files, []) of
           (Some e, files', _) \<Rightarrow> (Some (Inl e), d2, files')
         | (None, files', generation) \<Rightarrow>
             ((if \<not> wait then Some (Inr generation)
               else map_option (map_sum id (\<lambda>_. generation))
                      (waitForGeneration (pe_parseURL pe) (pb_ProbeURLs p) (pe_get pe) (pe_ended pe) generation)),
              d2, files'))))"

end
