(* ===== verification/Publisher_Proofs.thy ===== *)
theory Publisher_Proofs
  imports Auth_Publisher Gateway_Proofs Lease_Proofs Schema_Proofs
begin

text \<open>
  The authentication snapshot: the published file decodes to the records built from the store, every record
  comes from an active key row, the file is replaced by a complete payload or not at all, the gateway that
  loads it knows exactly the keys of the store, and the wait for a gateway ends with its context.
\<close>

section \<open>The payload\<close>

lemma auth_record_decoded: "auth_record_of [(''external_key_sha256'', AString d), (''user_email'', AString u),
     (''account'', AString a), (''backend'', AString b), (''internal_key'', AString k), (''label'', AString l)] =
   Some \<lparr>gr_ExternalKeySHA256 = d, gr_UserEmail = u, gr_Account = a, gr_Backend = b, gr_InternalKey = k, gr_Label = l\<rparr>"
  by (simp add: auth_record_of_def dec_string_def mget_def)

lemma auth_records_decoded:
  "dec_all (dec_struct_of zero_auth_record auth_record_of) (map (json_norm \<circ> auth_record_json) rs) = Some rs"
  by (induction rs) (simp_all add: auth_record_json_def dec_struct_of_def auth_record_decoded)

lemma auth_snapshot_roundtrip:
  assumes "ParseAuthSnapshot (payload_of encoded_length s) = Inr s'"
  shows "gs_Records s' = gs_Records s" "gs_Generation s' = gs_Generation s" "gs_MaxReasoningEffort s' = gs_MaxReasoningEffort s"
proof -
  obtain m where m: "json_norm (auth_snapshot_json s) = AObject m" by (simp add: auth_snapshot_json_def)
  then have get: "mget ANil m ''generation'' = AString (gs_Generation s)"
    "mget ANil m ''records'' = AList (map (json_norm \<circ> auth_record_json) (gs_Records s))"
    "mget ANil m ''max_reasoning_effort'' = (if gs_MaxReasoningEffort s = [] then ANil else AString (gs_MaxReasoningEffort s))"
    by (auto simp: auth_snapshot_json_def mget_def split: if_splits)
  obtain raw where raw: "raw_auth_of m = Some raw" "auth_of_raw raw = Inr s'"
    using assms m by (auto simp: ParseAuthSnapshot_def payload_of_def readSnapshot_def Let_def and_then_Inr_iff
      dec_document_def dec_struct_of_def split: option.splits if_splits)
  have slice: "dec_slice (dec_struct_of zero_auth_record auth_record_of) m ''records'' = Some (Some (gs_Records s))"
    by (simp add: dec_slice_def get auth_records_decoded)
  from raw(1) have "rg_Records raw = Some (gs_Records s)" "rg_Generation raw = gs_Generation s"
    "rg_MaxReasoningEffort raw = gs_MaxReasoningEffort s"
    by (auto simp: raw_auth_of_def slice dec_string_def get split: option.splits if_splits)
  with raw(2) show "gs_Records s' = gs_Records s" "gs_Generation s' = gs_Generation s"
    "gs_MaxReasoningEffort s' = gs_MaxReasoningEffort s"
    by (auto simp: auth_of_raw_def split: if_splits option.splits)
qed

text \<open>Conversely a well-formed snapshot is decoded as it was.\<close>

lemma auth_snapshot_parses:
  assumes "gs_Version s = 1" "validLowerHex (gs_Generation s) 32" "ValidLimit (gs_MaxReasoningEffort s)"
    "f64_value (gs_GeneratedAt s)" "check_auth_records 0 [] (gs_Records s) = None"
    "encoded_length (json_norm (auth_snapshot_json s)) < MaxSnapshotBytes"
  shows "ParseAuthSnapshot (payload_of encoded_length s) = Inr s"
proof -
  obtain m where m: "json_norm (auth_snapshot_json s) = AObject m" by (simp add: auth_snapshot_json_def)
  then have get: "mget ANil m ''version'' = AInt64 1" "mget ANil m ''generation'' = AString (gs_Generation s)"
    "mget ANil m ''generated_at'' = json_norm_float (gs_GeneratedAt s)"
    "mget ANil m ''records'' = AList (map (json_norm \<circ> auth_record_json) (gs_Records s))"
    "mget ANil m ''max_reasoning_effort'' = (if gs_MaxReasoningEffort s = [] then ANil else AString (gs_MaxReasoningEffort s))"
    by (auto simp: auth_snapshot_json_def mget_def assms(1) split: if_splits)
  have float: "dec_any m ''generated_at'' = Some (AFloat (gs_GeneratedAt s))"
    using assms(4) by (auto simp: dec_any_def get json_norm_float_def f64_value_def)
  have "raw_auth_of m = Some \<lparr>rg_Version = 1, rg_Generation = gs_Generation s, rg_GeneratedAt = AFloat (gs_GeneratedAt s),
      rg_Records = Some (gs_Records s), rg_MaxReasoningEffort = gs_MaxReasoningEffort s\<rparr>"
    by (simp add: raw_auth_of_def float dec_slice_def dec_int_def dec_string_def get auth_records_decoded in64_def)
  moreover have "auth_of_raw \<lparr>rg_Version = 1, rg_Generation = gs_Generation s, rg_GeneratedAt = AFloat (gs_GeneratedAt s),
      rg_Records = Some (gs_Records s), rg_MaxReasoningEffort = gs_MaxReasoningEffort s\<rparr> = Inr s"
    using assms(1-3,5) f64_value_finite [OF assms(4)] by (simp add: auth_of_raw_def snapshotNumberOrFallback_def snapshotNumber_def)
  ultimately show ?thesis
    using assms(6) m
    by (simp add: ParseAuthSnapshot_def payload_of_def readSnapshot_def Let_def and_then_def wrapping_def dec_document_def dec_struct_of_def)
qed

section \<open>The records\<close>

lemma catalog_entries: "map_of (foldl (\<lambda>m a. mput (ac_ID a) a m) m0 accounts) k = Some a \<Longrightarrow>
    map_of m0 k = Some a \<or> (a \<in> set accounts \<and> ac_ID a = k)"
  by (induction accounts arbitrary: m0) (fastforce split: if_splits)+

lemma catalog_in: "map_of (account_catalog accounts) k = Some a \<Longrightarrow> a \<in> set accounts \<and> ac_ID a = k"
  using catalog_entries [of "[]"] by (simp add: account_catalog_def)

lemma catalog_of: "a \<in> set accounts \<Longrightarrow> distinct (map ac_ID accounts) \<Longrightarrow> map_of (account_catalog accounts) (ac_ID a) = Some a"
proof -
  assume a: "a \<in> set accounts" "distinct (map ac_ID accounts)"
  then have "map_of (map (\<lambda>a. (ac_ID a, a)) accounts) (ac_ID a) = Some a"
    by (intro map_of_is_SomeI) (simp_all add: comp_def)
  then show ?thesis by (simp add: account_catalog_def map_of_foldl_mput [OF a(2), of "\<lambda>a. a"])
qed

lemma active_users: "u \<in> set (activeRecordUsers records) \<longleftrightarrow>
    u \<noteq> [] \<and> (\<exists>r \<in> set records. active_record r \<and> norm_name (kr_User r) = u)"
  by (auto simp: activeRecordUsers_def)

lemma distinct_active_users: "distinct (activeRecordUsers records)"
  by (simp add: activeRecordUsers_def)

lemma user_items_in: "r \<in> set (user_items u records) \<longleftrightarrow> r \<in> set records \<and> active_record r \<and> norm_name (kr_User r) = u"
  by (auto simp: user_items_def)

text \<open>The records of one user: those of new digests, in the order of the pairs.\<close>

lemma emit_pairs_in: "r \<in> set (emit_pairs u k pairs emitted) \<Longrightarrow>
    r \<in> set emitted \<or> r \<in> published_record u k ` set pairs"
proof (induction pairs arbitrary: emitted)
  case (Cons p pairs)
  from Cons.IH [OF Cons.prems [unfolded emit_pairs.simps]] show ?case by (auto split: if_splits)
qed simp

lemma emit_pairs_digests: "gr_ExternalKeySHA256 ` set (emit_pairs u k pairs emitted) =
    gr_ExternalKeySHA256 ` set emitted \<union> (\<lambda>p. sha256_hex (fst p)) ` set pairs"
  by (induction pairs arbitrary: emitted) (auto simp: published_record_def)

definition user_record ::
  "account gomap \<Rightarrow> string gomap \<Rightarrow> key_record list \<Rightarrow> internal_key gomap \<Rightarrow> string \<Rightarrow> auth_record \<Rightarrow> bool" where
  "user_record catalog routes records internalKeys u r \<longleftrightarrow>
     (\<exists>k p. map_of internalKeys u = Some k \<and> ik_Status k = ''active'' \<and> validInternalKey (ik_Key k) \<and>
        p \<in> set (user_pairs catalog routes u (user_items u records)) \<and> r = published_record u (ik_Key k) p)"

lemma build_records_sound:
  "build_records catalog routes records internalKeys users emitted = Inr rs \<Longrightarrow> r \<in> set rs \<Longrightarrow>
    r \<in> set emitted \<or> (\<exists>u \<in> set users. user_record catalog routes records internalKeys u r)"
proof (induction users arbitrary: emitted)
  case (Cons u users)
  then obtain k where k: "map_of internalKeys u = Some k" "ik_Status k = ''active''" "validInternalKey (ik_Key k)"
    by (auto split: option.splits if_splits)
  with Cons.prems(1) have "build_records catalog routes records internalKeys users
      (emit_pairs u (ik_Key k) (user_pairs catalog routes u (user_items u records)) emitted) = Inr rs" by simp
  from Cons.IH [OF this Cons.prems(2)]
  consider "r \<in> set (emit_pairs u (ik_Key k) (user_pairs catalog routes u (user_items u records)) emitted)"
    | v where "v \<in> set users" "user_record catalog routes records internalKeys v r" by blast
  then show ?case
  proof cases
    case 1
    from emit_pairs_in [OF this] k show ?thesis by (auto simp: user_record_def)
  qed auto
qed simp

lemma build_records_complete:
  "build_records catalog routes records internalKeys users emitted = Inr rs \<Longrightarrow>
    gr_ExternalKeySHA256 ` set rs = gr_ExternalKeySHA256 ` set emitted \<union>
      (\<Union>u \<in> set users. (\<lambda>p. sha256_hex (fst p)) ` set (user_pairs catalog routes u (user_items u records)))"
proof (induction users arbitrary: emitted)
  case (Cons u users)
  then obtain k where "build_records catalog routes records internalKeys users
      (emit_pairs u k (user_pairs catalog routes u (user_items u records)) emitted) = Inr rs"
    by (simp split: option.splits if_splits)
  from Cons.IH [OF this] show ?case by (auto simp: emit_pairs_digests)
qed simp

section \<open>What a record grants\<close>

definition active_row_of :: "db \<Rightarrow> string \<Rightarrow> key_record \<Rightarrow> bool" where
  "active_row_of d u row \<longleftrightarrow> row \<in> set (db_key_records d) \<and> kr_Status row = ''active'' \<and> norm_name (kr_User row) = u"

definition single_secret :: "db \<Rightarrow> string \<Rightarrow> bool" where
  "single_secret d u \<longleftrightarrow> (\<forall>r r'. active_row_of d u r \<longrightarrow> active_row_of d u r' \<longrightarrow> kr_Key r = kr_Key r')"

definition enabled_account :: "db \<Rightarrow> string \<Rightarrow> bool" where
  "enabled_account d a \<longleftrightarrow> (\<exists>row \<in> set (db_accounts d). ar_id row = a \<and> ar_group_enabled row \<noteq> 0)"

text \<open>
  A record is granted by a store: an active key row of the user for the account has the digest, the account
  exists, the internal key is the active one of the user; and the account of a user with one secret is the
  one of the user's route, which is enabled.
\<close>

definition granted :: "db \<Rightarrow> auth_record \<Rightarrow> bool" where
  "granted d r \<longleftrightarrow>
     (\<exists>row. active_row_of d (gr_UserEmail r) row \<and> kr_Account row = gr_Account r \<and>
        gr_ExternalKeySHA256 r = sha256_hex (kr_Key row)) \<and>
     gr_UserEmail r \<noteq> [] \<and> gr_Account r \<in> ar_id ` set (db_accounts d) \<and>
     gr_Backend r = ''cliproxy-'' @ gr_Account r @ '':8317'' \<and>
     (\<exists>k. (gr_UserEmail r, k) \<in> set (db_internal_keys d) \<and> ik_Status k = ''active'' \<and> ik_Key k = gr_InternalKey r) \<and>
     (single_secret d (gr_UserEmail r) \<longrightarrow>
        gr_Account r = trim_space (mget [] (db_user_routes d) (gr_UserEmail r)) \<and> enabled_account d (gr_Account r))"

abbreviation accounts_of :: "db \<Rightarrow> account list" where
  "accounts_of d \<equiv> map account_of_row (sort_slice row_less (db_accounts d))"

abbreviation pairs_of :: "db \<Rightarrow> string \<Rightarrow> (string \<times> string) list" where
  "pairs_of d u \<equiv> user_pairs (account_catalog (accounts_of d)) (db_user_routes d) u (user_items u (db_key_records d))"

lemma one_secret: "length (remdups xs) = 1 \<longleftrightarrow> xs \<noteq> [] \<and> (\<forall>x \<in> set xs. \<forall>y \<in> set xs. x = y)"
proof -
  have "card (set xs) = 1 \<longleftrightarrow> set xs \<noteq> {} \<and> (\<forall>x \<in> set xs. \<forall>y \<in> set xs. x = y)"
    using card_le_Suc0_iff_eq [of "set xs"] card_gt_0_iff [of "set xs"] by auto
  then show ?thesis by (simp add: length_remdups_card_conv)
qed

lemma one_secretI:
  assumes "row \<in> set items" "\<And>r. r \<in> set items \<Longrightarrow> kr_Key r = kr_Key row"
  shows "length (remdups (map kr_Key items)) = 1"
proof -
  have "kr_Key ` set items = {kr_Key row}" using assms by blast
  then show ?thesis by (simp add: length_remdups_card_conv)
qed

lemma items_rows: "set (user_items u (db_key_records d)) = {row. active_row_of d u row}"
  by (auto simp: user_items_in active_row_of_def active_record_def)

lemma pairs_sound:
  assumes "p \<in> set (pairs_of d u)"
  shows "\<exists>row. active_row_of d u row \<and> kr_Key row = fst p \<and> kr_Account row = snd p"
    "snd p \<in> ar_id ` set (db_accounts d)"
    "single_secret d u \<Longrightarrow> snd p = trim_space (mget [] (db_user_routes d) u) \<and> enabled_account d (snd p)"
proof -
  let ?items = "user_items u (db_key_records d)" and ?catalog = "account_catalog (accounts_of d)"
  have known: "k \<in> ar_id ` set (db_accounts d) \<and> (ac_GroupEnabled a \<longrightarrow> enabled_account d k)"
    if "map_of ?catalog k = Some a" for k a
    using catalog_in [OF that] by (auto simp: enabled_account_def account_of_row_def)
  have "(\<exists>row \<in> set ?items. kr_Key row = fst p \<and> kr_Account row = snd p) \<and> snd p \<in> ar_id ` set (db_accounts d) \<and>
    (single_secret d u \<longrightarrow> snd p = trim_space (mget [] (db_user_routes d) u) \<and> enabled_account d (snd p))"
  proof (cases "length (remdups (map kr_Key ?items)) = 1")
    case True
    define a where "a = trim_space (mget [] (db_user_routes d) u)"
    obtain c r where c: "map_of ?catalog a = Some c" "ac_GroupEnabled c" and
      r: "find (\<lambda>r. kr_Account r = a) ?items = Some r" "p = (kr_Key r, a)"
      using assms unfolding user_pairs_def Let_def if_P [OF True] a_def [symmetric]
      by (cases "map_of ?catalog a") (auto split: option.splits if_splits)
    have "r \<in> set ?items" "kr_Account r = a" using r(1) by (auto simp: find_Some_iff)
    with c r(2) known [OF c(1)] show ?thesis by (auto simp: a_def)
  next
    case False
    with assms obtain row where row: "row \<in> set ?items" "p = (kr_Key row, kr_Account row)" "map_of ?catalog (kr_Account row) \<noteq> None"
      by (auto simp: user_pairs_def)
    then have "\<exists>r \<in> set ?items. \<exists>r' \<in> set ?items. kr_Key r \<noteq> kr_Key r'"
      using False [unfolded one_secret] by (cases ?items) auto
    then have "\<not> single_secret d u" by (auto simp: single_secret_def items_rows)
    with row known show ?thesis by auto
  qed
  then show "\<exists>row. active_row_of d u row \<and> kr_Key row = fst p \<and> kr_Account row = snd p" "snd p \<in> ar_id ` set (db_accounts d)"
    "single_secret d u \<Longrightarrow> snd p = trim_space (mget [] (db_user_routes d) u) \<and> enabled_account d (snd p)"
    by (auto simp: items_rows)
qed

text \<open>The key of a routed user with one secret leads to the account of the route.\<close>

lemma pairs_complete:
  assumes "active_row_of d u row" "kr_Account row = a" "\<forall>r. active_row_of d u r \<longrightarrow> kr_Key r = kr_Key row"
    "a = trim_space (mget [] (db_user_routes d) u)" "enabled_account d a" "distinct (map ar_id (db_accounts d))"
  shows "(kr_Key row, a) \<in> set (pairs_of d u)"
proof -
  let ?items = "user_items u (db_key_records d)" and ?catalog = "account_catalog (accounts_of d)"
  have one: "length (remdups (map kr_Key ?items)) = 1"
    by (rule one_secretI [of row]) (use assms(1,3) items_rows [of u d] in blast)+
  obtain ar where ar: "ar \<in> set (db_accounts d)" "ar_id ar = a" "ar_group_enabled ar \<noteq> 0"
    using assms(5) by (auto simp: enabled_account_def)
  have "mset (map ar_id (sort_slice row_less (db_accounts d))) = mset (map ar_id (db_accounts d))" by simp
  from mset_eq_imp_distinct_iff [OF this] have "distinct (map ar_id (sort_slice row_less (db_accounts d)))"
    using assms(6) by blast
  moreover have "map ac_ID (accounts_of d) = map ar_id (sort_slice row_less (db_accounts d))"
    by (simp add: account_of_row_def)
  ultimately have "distinct (map ac_ID (accounts_of d))" by (simp only:)
  then have "map_of ?catalog (ac_ID (account_of_row ar)) = Some (account_of_row ar)"
    using ar(1) by (intro catalog_of) auto
  then have catalog: "map_of ?catalog a = Some (account_of_row ar)" using ar(2) by (simp add: account_of_row_def)
  obtain r where r: "find (\<lambda>r. kr_Account r = a) ?items = Some r"
    using assms(1,2) items_rows [of u d] by (cases "find (\<lambda>r. kr_Account r = a) ?items") (auto simp: find_None_iff)
  then have "r \<in> set ?items" by (auto simp: find_Some_iff)
  then have "kr_Key r = kr_Key row" using assms(3) by (simp add: items_rows)
  with one catalog r ar(3) show ?thesis
    unfolding user_pairs_def Let_def if_P [OF one] assms(4) [symmetric] by (simp add: account_of_row_def)
qed

section \<open>The published file\<close>

text \<open>A file that holds a complete snapshot of a store, readable by the gateways.\<close>

definition snapshot_of_store :: "publisher \<Rightarrow> publish_env \<Rightarrow> db \<Rightarrow> published_file \<Rightarrow> auth_snapshot \<Rightarrow> bool" where
  "snapshot_of_store p pe d f s \<longleftrightarrow>
     pf_permission f = 416 \<and> (0 \<le> fe_gid (pe_file pe) \<longrightarrow> pf_gid f = snapshotGID (pe_file pe) (pb_SnapshotGID p)) \<and>
     ParseAuthSnapshot (pf_content f) = Inr s \<and>
     (\<forall>r \<in> set (gs_Records s). granted d r) \<and>
     (\<exists>settings. ReadSettings (pe_store pe 7) d = Inr settings \<and> FromSettings settings = Inr (gs_MaxReasoningEffort s))"

abbreviation store_digests :: "db \<Rightarrow> string set" where
  "store_digests d \<equiv> (\<Union>u \<in> set (activeRecordUsers (db_key_records d)). (\<lambda>p. sha256_hex (fst p)) ` set (pairs_of d u))"

lemma user_record_granted:
  assumes "user_record (account_catalog (accounts_of d)) (db_user_routes d) (db_key_records d)
      (sort_key fst (db_internal_keys d)) u r" "u \<in> set (activeRecordUsers (db_key_records d))"
  shows "granted d r"
proof -
  obtain k pair where k: "map_of (sort_key fst (db_internal_keys d)) u = Some k" "ik_Status k = ''active''"
    and pair: "pair \<in> set (pairs_of d u)" and r: "r = published_record u (ik_Key k) pair"
    using assms(1) by (auto simp: user_record_def)
  note sound = pairs_sound [OF pair]
  have "(u, k) \<in> set (db_internal_keys d)" using map_of_SomeD [OF k(1)] by simp
  moreover have "u \<noteq> []" using assms(2) by (simp add: active_users)
  moreover obtain row where "active_row_of d u row" "kr_Key row = fst pair" "kr_Account row = snd pair"
    using sound(1) by blast
  ultimately show ?thesis
    using sound(2,3) k(2) unfolding granted_def r by (auto simp: published_record_def)
qed

lemma build_from_store_snapshot:
  assumes "build_from_store p pe d = Inr (path, payload, generation)"
  shows "\<exists>s. ParseAuthSnapshot payload = Inr s \<and> gs_Generation s = generation \<and>
    (\<forall>r \<in> set (gs_Records s). granted d r) \<and>
    (\<exists>settings. ReadSettings (pe_store pe 7) d = Inr settings \<and> FromSettings settings = Inr (gs_MaxReasoningEffort s)) \<and>
    gr_ExternalKeySHA256 ` set (gs_Records s) =
      (\<Union>u \<in> set (activeRecordUsers (db_key_records d)). (\<lambda>p. sha256_hex (fst p)) ` set (pairs_of d u))"
proof -
  obtain settings limit where settings: "ReadSettings (pe_store pe 7) d = Inr settings" "FromSettings settings = Inr limit" and
    built: "buildPayload (pe_length pe) (pe_uuid pe) (pe_now pe) (accounts_of d) (db_user_routes d) (db_key_records d)
      (sort_key fst (db_internal_keys d)) limit = Inr (payload, generation)"
    using assms by (auto simp: build_from_store_def and_then_Inr_iff ReadAccounts_def ReadRoutes_def ReadKeyRecords_def
      ReadInternalKeys_def attempt_Inr_iff)
  obtain rs s where rs: "build_records (account_catalog (accounts_of d)) (db_user_routes d) (db_key_records d)
      (sort_key fst (db_internal_keys d)) (activeRecordUsers (db_key_records d)) [] = Inr rs" and
    s: "ParseAuthSnapshot payload = Inr s" and
    payload: "payload = payload_of (pe_length pe) \<lparr>gs_Version = 1, gs_Generation = generation,
      gs_GeneratedAt = round64 (of_int (unix_of (pe_now pe))), gs_Records = rs, gs_MaxReasoningEffort = limit\<rparr>"
    using built by (auto simp: buildPayload_def Let_def and_then_Inr_iff)
  from auth_snapshot_roundtrip [OF s [unfolded payload]]
  have "gs_Records s = rs" "gs_Generation s = generation" "gs_MaxReasoningEffort s = limit" by simp_all
  moreover have "granted d r" if "r \<in> set rs" for r
    using build_records_sound [OF rs that] user_record_granted by auto
  ultimately show ?thesis using s settings build_records_complete [OF rs] by auto
qed

text \<open>The file is replaced by the payload, or stays; and it is replaced if there is no error.\<close>

lemma ensureGroup_gid: "ensureGroup fe gid = Inr g \<Longrightarrow> 0 \<le> gid \<Longrightarrow> g = gid"
  by (auto simp: ensureGroup_def and_then_Inr_iff split: if_splits)

lemma writeSnapshot_file:
  assumes "writeSnapshot fe configured payload file = (failed, file')"
  shows "(failed \<noteq> None \<and> file' = file) \<or>
    (\<exists>g. file' = Some \<lparr>pf_content = payload, pf_permission = 416, pf_gid = g\<rparr> \<and>
       ensureGroup fe (snapshotGID fe configured) = Inr g)"
  using assms
  by (auto simp: writeSnapshot_def Write_def Let_def and_then_Inr_iff split: sum.splits prod.splits option.splits if_splits)

lemma snapshotGID_nonneg: "0 \<le> fe_gid fe \<Longrightarrow> 0 \<le> snapshotGID fe configured"
  by (simp add: snapshotGID_def defaultSnapshotGID_def)

lemma WithWriteFence_cases: "WithWriteFence fence env (Some oper) d s = (e, s') \<Longrightarrow> (e \<noteq> None \<and> s' = s) \<or> oper s = (e, s')"
  by (auto simp: WithWriteFence_def split: if_splits sum.splits)

lemma publish_in_fence_file:
  assumes "publish_in_fence p pe d (files, g0) = (failed, files', generation)"
  shows "(failed \<noteq> None \<and> files' = files) \<or>
    (\<exists>path f s. files' = files(path \<mapsto> f) \<and> snapshot_of_store p pe d f s \<and> gs_Generation s = generation \<and>
       gr_ExternalKeySHA256 ` set (gs_Records s) =
         store_digests d)"
proof (cases "build_from_store p pe d")
  case (Inl e)
  with assms show ?thesis by (auto simp: publish_in_fence_def)
next
  case (Inr built)
  then obtain path payload g where built: "build_from_store p pe d = Inr (path, payload, g)" by (cases built) auto
  obtain e fl where written: "writeSnapshot (pe_file pe) (pb_SnapshotGID p) payload (files path) = (e, fl)" by fastforce
  with assms built have result: "failed = e" "files' = files(path := fl)" "generation = g"
    by (simp_all add: publish_in_fence_def)
  from writeSnapshot_file [OF written] show ?thesis
  proof
    assume "e \<noteq> None \<and> fl = files path"
    with result show ?thesis by (simp add: fun_upd_idem)
  next
    assume "\<exists>g. fl = Some \<lparr>pf_content = payload, pf_permission = 416, pf_gid = g\<rparr> \<and>
      ensureGroup (pe_file pe) (snapshotGID (pe_file pe) (pb_SnapshotGID p)) = Inr g"
    then obtain f gid where f: "fl = Some f" "f = \<lparr>pf_content = payload, pf_permission = 416, pf_gid = gid\<rparr>" and
      gid: "ensureGroup (pe_file pe) (snapshotGID (pe_file pe) (pb_SnapshotGID p)) = Inr gid" by blast
    have group: "0 \<le> fe_gid (pe_file pe) \<longrightarrow> pf_gid f = snapshotGID (pe_file pe) (pb_SnapshotGID p)"
      using ensureGroup_gid [OF gid snapshotGID_nonneg] f(2) by simp
    obtain s where s: "ParseAuthSnapshot payload = Inr s" "gs_Generation s = g" "\<forall>r \<in> set (gs_Records s). granted d r"
      "\<exists>settings. ReadSettings (pe_store pe 7) d = Inr settings \<and> FromSettings settings = Inr (gs_MaxReasoningEffort s)"
      "gr_ExternalKeySHA256 ` set (gs_Records s) =
        (\<Union>u \<in> set (activeRecordUsers (db_key_records d)). (\<lambda>p. sha256_hex (fst p)) ` set (pairs_of d u))"
      using build_from_store_snapshot [OF built] by blast
    then have "snapshot_of_store p pe d f s" using group f(2) by (simp add: snapshot_of_store_def)
    with s(2,5) f(1) show ?thesis unfolding result by blast
  qed
qed

section \<open>A publication\<close>

lemma map_sum_Inr: "map_sum f g z = Inr y \<longleftrightarrow> (\<exists>x. z = Inr x \<and> y = g x)"
  by (cases z) auto

lemma PublishAuthSnapshot_cases:
  assumes "PublishAuthSnapshot p fence pe wait d files = (result, d', files')"
  shows "(files' = files \<and> (\<exists>e. result = Some (Inl e))) \<or>
    (\<exists>path f s. files' = files(path \<mapsto> f) \<and> snapshot_of_store p pe d' f s \<and>
       (\<forall>g. result = Some (Inr g) \<longrightarrow> g = gs_Generation s) \<and>
       gr_ExternalKeySHA256 ` set (gs_Records s) =
         store_digests d')"
proof (cases "pb_Attached p \<and> (\<exists>records. ReadKeyRecords (pe_store pe 0) d = Inr records)")
  case False
  with assms show ?thesis
    by (cases "ReadKeyRecords (pe_store pe 0) d") (auto simp: PublishAuthSnapshot_def wrapping_def split: if_splits)
next
  case True
  then obtain records where attached: "pb_Attached p" and records: "ReadKeyRecords (pe_store pe 0) d = Inr records" by blast
  obtain r1 d1 where ensured: "EnsureInternalKeys fence (pe_store pe 1) (pe_draws pe) (activeRecordUsers records) (pe_others pe 1 d) = (r1, d1)"
    by fastforce
  define d2 where "d2 = pe_others pe 2 d1"
  obtain failed files2 generation where
    fenced: "WithWriteFence fence (pe_store pe 2) (Some (publish_in_fence p pe d2)) d2 (files, []) = (failed, files2, generation)"
    by (metis prod_cases3)
  show ?thesis
  proof (cases r1)
    case (Inl e)
    with assms attached records ensured show ?thesis
      by (auto simp: PublishAuthSnapshot_def wrapping_def simp del: One_nat_def)
  next
    case (Inr v)
    have outcome: "d' = d2" "files' = files2" "result = (case failed of Some e \<Rightarrow> Some (Inl e) | None \<Rightarrow>
        (if \<not> wait then Some (Inr generation) else map_option (map_sum id (\<lambda>_. generation))
           (waitForGeneration (pe_parseURL pe) (pb_ProbeURLs p) (pe_get pe) (pe_ended pe) generation)))"
      using assms attached records ensured Inr fenced
      by (auto simp: PublishAuthSnapshot_def wrapping_def Let_def d2_def [symmetric] simp del: One_nat_def split: option.splits)
    have "g = generation" if "result = Some (Inr g)" for g
      using that unfolding outcome(3) by (auto simp: map_sum_Inr split: option.splits if_splits)
    then have same: "\<forall>g. result = Some (Inr g) \<longrightarrow> g = generation" by blast
    from WithWriteFence_cases [OF fenced] show ?thesis
    proof
      assume "failed \<noteq> None \<and> (files2, generation) = (files, [])"
      then show ?thesis unfolding outcome by auto
    next
      assume "publish_in_fence p pe d2 (files, []) = (failed, files2, generation)"
      from publish_in_fence_file [OF this] show ?thesis
      proof
        assume "failed \<noteq> None \<and> files2 = files"
        then show ?thesis unfolding outcome by auto
      next
        assume "\<exists>path f s. files2 = files(path \<mapsto> f) \<and> snapshot_of_store p pe d2 f s \<and> gs_Generation s = generation \<and>
          gr_ExternalKeySHA256 ` set (gs_Records s) = store_digests d2"
        with same show ?thesis unfolding outcome(1,2) by blast
      qed
    qed
  qed
qed

text \<open>
  C8: publishing replaces the snapshot file whole or leaves it. Whatever the outcome, either no file changes and
  there is an error, or exactly one file changes, and it then holds a document that parses as a snapshot of the
  store at that moment: mode 0640, the configured group, the reasoning limit of the settings, and every record
  granted by the store: an active key row of its user for that account has the digest, the account exists, the
  internal key is the user's active one, and a user with a single secret is sent to the enabled account of the
  user's route. A successful publication returns the generation of that document.
\<close>

theorem publication_all_or_nothing:
  assumes "PublishAuthSnapshot p fence pe wait d files = (result, d', files')"
  shows "(files' = files \<and> (\<exists>e. result = Some (Inl e))) \<or>
    (\<exists>path f s. files' = files(path \<mapsto> f) \<and> snapshot_of_store p pe d' f s \<and>
       (\<forall>g. result = Some (Inr g) \<longrightarrow> g = gs_Generation s))"
  using PublishAuthSnapshot_cases [OF assms] by blast

section \<open>The gateway after a publication\<close>

definition holds_key :: "db \<Rightarrow> string \<Rightarrow> identity \<Rightarrow> bool" where
  "holds_key d key i \<longleftrightarrow> (\<exists>row. active_row_of d (id_UserEmail i) row \<and> kr_Account row = id_Account i \<and>
     sha256_hex (kr_Key row) = sha256_hex key)"

text \<open>The only secret of a user, for the enabled account of the user's route, and no other user's key.\<close>

definition routed_key :: "db \<Rightarrow> string \<Rightarrow> key_record \<Rightarrow> bool" where
  "routed_key d u row \<longleftrightarrow> u \<noteq> [] \<and> active_row_of d u row \<and> single_secret d u \<and>
     kr_Account row = trim_space (mget [] (db_user_routes d) u) \<and> enabled_account d (kr_Account row) \<and>
     (\<forall>v r. active_row_of d v r \<longrightarrow> v \<noteq> [] \<longrightarrow> sha256_hex (kr_Key r) = sha256_hex (kr_Key row) \<longrightarrow> v = u)"

lemma loaded_identity:
  assumes "ParseAuthSnapshot c = Inr s" "ExtractBearer hdr = (key, True)" "0 < unix_of t" "sub64 (unix_of now) (unix_of t) \<le> 5"
  shows "dc_Identity (Authorize (snd (LoadAuthSnapshot c t en)) now hdr enforce) = Some i \<longleftrightarrow>
    (\<exists>r \<in> set (gs_Records s). gr_ExternalKeySHA256 r = sha256_hex key \<and> i = identity_of r)"
proof -
  note sound = ParseAuthSnapshot_sound [OF assms(1)]
  have "map_of (by_digest (gs_Records s)) (sha256_hex key) = Some i \<longleftrightarrow>
      (\<exists>r \<in> set (gs_Records s). gr_ExternalKeySHA256 r = sha256_hex key \<and> i = identity_of r)"
    using map_of_filled_iff [OF sound(2), of identity_of] by (simp add: by_digest_def)
  moreover have "gs_Generation s \<noteq> []" using sound(3) by (auto simp: validLowerHex_def)
  ultimately show ?thesis
    using assms by (simp add: identity_aux LoadAuthSnapshot_def auth_usable_def)
qed

text \<open>
  C6: from the store to the gateway. After a successful publication the changed file is such that a gateway that
  loads it, whatever it had loaded before, decides as the store says, as long as the load is at most 5 seconds
  old: it identifies a bearer key only as a user and account of an active key row of the store whose key has the
  same digest; and it does identify the single secret of a user, held by no one else, as that user on the
  enabled account of the user's route.
\<close>

theorem gateway_follows_store:
  assumes "PublishAuthSnapshot p fence pe wait d files = (Some (Inr g), d', files')"
  shows "\<exists>path f. files' = files(path \<mapsto> f) \<and>
    (\<forall>en t now hdr enforce key. ExtractBearer hdr = (key, True) \<longrightarrow> 0 < unix_of t \<longrightarrow> sub64 (unix_of now) (unix_of t) \<le> 5 \<longrightarrow>
       (let identity = dc_Identity (Authorize (snd (LoadAuthSnapshot (pf_content f) t en)) now hdr enforce)
        in (\<forall>i. identity = Some i \<longrightarrow> holds_key d' key i) \<and>
           (distinct (map ar_id (db_accounts d')) \<longrightarrow> (\<forall>u row. routed_key d' u row \<longrightarrow> kr_Key row = key \<longrightarrow>
              (\<exists>i. identity = Some i \<and> id_UserEmail i = u \<and> id_Account i = kr_Account row)))))"
proof -
  obtain path f s where f: "files' = files(path \<mapsto> f)" "snapshot_of_store p pe d' f s"
    "gr_ExternalKeySHA256 ` set (gs_Records s) = store_digests d'"
    using PublishAuthSnapshot_cases [OF assms] by auto
  have parsed: "ParseAuthSnapshot (pf_content f) = Inr s" and granted: "\<And>r. r \<in> set (gs_Records s) \<Longrightarrow> granted d' r"
    using f(2) by (simp_all add: snapshot_of_store_def)
  have sound: "holds_key d' key (identity_of r)" if "r \<in> set (gs_Records s)" "gr_ExternalKeySHA256 r = sha256_hex key" for r key
    using granted [OF that(1)] that(2) by (auto simp: granted_def holds_key_def identity_of_def)
  have complete: "\<exists>r \<in> set (gs_Records s). gr_ExternalKeySHA256 r = sha256_hex (kr_Key row) \<and>
      gr_UserEmail r = u \<and> gr_Account r = kr_Account row"
    if row: "routed_key d' u row" and ids: "distinct (map ar_id (db_accounts d'))" for u row
  proof -
    have rows: "\<forall>r. active_row_of d' u r \<longrightarrow> kr_Key r = kr_Key row" "u \<noteq> []" "active_row_of d' u row"
      using row unfolding routed_key_def single_secret_def by blast+
    have "(kr_Key row, kr_Account row) \<in> set (pairs_of d' u)"
      by (rule pairs_complete [OF rows(3) refl rows(1) _ _ ids]) (use row [unfolded routed_key_def] in blast)+
    moreover have "u \<in> set (activeRecordUsers (db_key_records d'))"
      using rows(2,3) by (auto simp: active_users active_row_of_def active_record_def)
    ultimately have "sha256_hex (kr_Key row) \<in> store_digests d'" by force
    with f(3) obtain r where r: "r \<in> set (gs_Records s)" "gr_ExternalKeySHA256 r = sha256_hex (kr_Key row)"
      by (metis imageE)
    from granted [OF r(1)] obtain row' where "active_row_of d' (gr_UserEmail r) row'" "gr_UserEmail r \<noteq> []"
      "sha256_hex (kr_Key row') = sha256_hex (kr_Key row)"
      using r(2) by (auto simp: granted_def)
    then have u: "gr_UserEmail r = u" using row by (simp add: routed_key_def)
    then have "gr_Account r = kr_Account row" using granted [OF r(1)] row by (simp add: granted_def routed_key_def)
    with r u show ?thesis by blast
  qed
  show ?thesis
  proof (intro exI conjI allI impI, rule f(1), unfold Let_def)
    fix en t now hdr enforce key
    assume "ExtractBearer hdr = (key, True)" "0 < unix_of t" "sub64 (unix_of now) (unix_of t) \<le> 5"
    note known = loaded_identity [OF parsed this, of en enforce]
    show "(\<forall>i. dc_Identity (Authorize (snd (LoadAuthSnapshot (pf_content f) t en)) now hdr enforce) = Some i \<longrightarrow> holds_key d' key i) \<and>
        (distinct (map ar_id (db_accounts d')) \<longrightarrow> (\<forall>u row. routed_key d' u row \<longrightarrow> kr_Key row = key \<longrightarrow>
          (\<exists>i. dc_Identity (Authorize (snd (LoadAuthSnapshot (pf_content f) t en)) now hdr enforce) = Some i \<and>
             id_UserEmail i = u \<and> id_Account i = kr_Account row)))"
      unfolding known using sound complete by (fastforce simp: identity_of_def)
  qed
qed

section \<open>Revocation\<close>

text \<open>The synchronisation of internal keys leaves the key rows alone.\<close>

lemma rows_ensure_users: "keeps (\<lambda>d. db_key_rows d = R) (ensure_users env draws n existing result users)"
  by (induction users arbitrary: n result)
    (auto intro!: keeps keeps_exec keeps_exec_checked simp: Let_def insert_internal_key_def upsert_internal_key_def constraint_failed_def
      split: if_splits)

lemma rows_ensure: "EnsureInternalKeys fence env draws users d = (r, d') \<Longrightarrow> db_key_rows d' = db_key_rows d"
  unfolding EnsureInternalKeys_def
  by (rule keeps_writeTransaction [where I = "\<lambda>x. db_key_rows x = db_key_rows d"])
    (auto simp: ensure_in_tx_def deactivate_user_def set_inactive_def intro!: keeps keeps_exec rows_ensure_users)

lemma publication_keeps_rows:
  assumes "PublishAuthSnapshot p fence pe wait d files = (result, d', files')"
    "\<And>n e. db_key_rows (pe_others pe n e) = db_key_rows e"
  shows "db_key_rows d' = db_key_rows d"
  using assms(1)
  by (auto simp: PublishAuthSnapshot_def wrapping_def Let_def assms(2) dest!: rows_ensure split: if_splits sum.splits prod.splits option.splits)

lemma loaded_identity_in: 
  assumes "ParseAuthSnapshot c = Inr s" "dc_Identity (Authorize (snd (LoadAuthSnapshot c t en)) now hdr enforce) = Some i"
  shows "\<exists>r \<in> set (gs_Records s). i = identity_of r"
  using assms(2) map_of_filled_iff [OF ParseAuthSnapshot_sound(2) [OF assms(1)], of identity_of]
  by (auto simp: identity_aux LoadAuthSnapshot_def assms(1) by_digest_def)

text \<open>
  C7: a revoked user is locked out of the gateway. On a store whose rows have distinct sequence numbers and
  whose user names SQL and the program normalise alike: after a successful revocation and a successful
  publication, with no other write of key rows in between, a gateway that loads the published file gives the
  identity of the user to no request, at any time and with any key.
\<close>

theorem revoked_user_is_locked_out:
  assumes "ApplyUserRevocation fence env rawUser d = (Inr r, d1)" "distinct (map fst (db_key_rows d))"
    "list_all (\<lambda>r. sql_norm (kr_User (snd r)) = norm_name (kr_User (snd r))) (db_key_rows d)"
    "PublishAuthSnapshot p fence' pe wait d1 files = (Some (Inr g), d2, files')"
    "\<And>n e. db_key_rows (pe_others pe n e) = db_key_rows e"
  shows "\<exists>path f. files' = files(path \<mapsto> f) \<and>
    (\<forall>en t now hdr enforce i. dc_Identity (Authorize (snd (LoadAuthSnapshot (pf_content f) t en)) now hdr enforce) = Some i \<longrightarrow>
       id_UserEmail i \<noteq> norm_name rawUser)"
proof -
  let ?user = "norm_name rawUser"
  obtain path f s where f: "files' = files(path \<mapsto> f)" "snapshot_of_store p pe d2 f s"
    using PublishAuthSnapshot_cases [OF assms(4)] by auto
  have rows: "db_key_rows d2 = map (mark_as ''revoked'' (fst ` set (filter is_active (user_key_rows ?user d))) (unix_of (ev_now env))) (db_key_rows d)"
    using publication_keeps_rows [OF assms(4,5)] revocation_effect(1) [OF assms(1)] by simp
  have "\<not> active_row_of d2 ?user row" for row
  proof
    assume "active_row_of d2 ?user row"
    then obtain x where x: "x \<in> set (db_key_rows d)" and
      row: "row = snd (mark_as ''revoked'' (fst ` set (filter is_active (user_key_rows ?user d))) (unix_of (ev_now env)) x)"
      "kr_Status row = ''active''" "norm_name (kr_User row) = ?user"
      by (auto simp: active_row_of_def db_key_records_def rows)
    have "sql_norm (kr_User (snd x)) = norm_name (kr_User (snd x))" using assms(3) x by (simp add: list_all_iff)
    with row mark_user_rows [OF assms(2) x refl] show False
      by (auto simp: is_active_def split: if_splits)
  qed
  then have "gr_UserEmail x \<noteq> ?user" if "x \<in> set (gs_Records s)" for x
    using f(2) that by (auto simp: snapshot_of_store_def granted_def)
  moreover have "ParseAuthSnapshot (pf_content f) = Inr s" using f(2) by (simp add: snapshot_of_store_def)
  ultimately show ?thesis using f(1) loaded_identity_in by (fastforce simp: identity_of_def)
qed

section \<open>The wait\<close>

definition active_pass :: "(nat \<Rightarrow> string \<Rightarrow> http_result) \<Rightarrow> string \<Rightarrow> string list \<Rightarrow> nat \<Rightarrow> bool" where
  "active_pass get generation urls n \<longleftrightarrow>
     (\<exists>url \<in> set urls. probeAuthGeneration generation (get n (url @ ''/__internal/snapshots'')) = Inr True)"

lemma probe_gateways_active: "fst (probe_gateways (get n) generation urls e) \<longleftrightarrow> active_pass get generation urls n"
  by (induction urls arbitrary: e) (auto simp: active_pass_def split: sum.split bool.split)

text \<open>The pass that ends the loop, which then answers as that pass says.\<close>

definition ends_at :: "(nat \<Rightarrow> string \<Rightarrow> http_result) \<Rightarrow> (nat \<Rightarrow> gerr option) \<Rightarrow> string \<Rightarrow> string list \<Rightarrow> nat \<Rightarrow> nat \<Rightarrow> bool" where
  "ends_at get ended generation urls n m \<longleftrightarrow> n \<le> m \<and> (active_pass get generation urls m \<or> ended m \<noteq> None) \<and>
     (\<forall>k. n \<le> k \<and> k < m \<longrightarrow> \<not> active_pass get generation urls k \<and> ended k = None)"

lemma wait_loop_ends: "ends_at get ended generation urls n m \<Longrightarrow>
    \<exists>r. wait_loop get ended generation urls n e = Some r \<and> (r = Inr () \<longleftrightarrow> active_pass get generation urls m)"
proof (induction "m - n" arbitrary: n e)
  case 0
  then have "m = n" by (simp add: ends_at_def)
  with 0(2) show ?case
    by (subst wait_loop.simps) (auto simp: ends_at_def Let_def probe_gateways_active split: option.split)
next
  case (Suc k)
  then have "n < m" by linarith
  with Suc.prems have "ends_at get ended generation urls (n + 1) m" "\<not> active_pass get generation urls n" "ended n = None"
    by (auto simp: ends_at_def)
  with Suc.hyps(1) [of "n + 1"] Suc.hyps(2) show ?case
    by (subst wait_loop.simps) (simp add: Let_def probe_gateways_active)
qed

lemma wait_loop_returned:
  assumes "wait_loop get ended generation urls n e = Some r"
  shows "\<exists>m. active_pass get generation urls m \<or> ended m \<noteq> None"
proof (rule wait_loop.raw_induct [OF _ assms,
    where P = "\<lambda>get ended generation urls n e r. \<exists>m. active_pass get generation urls m \<or> ended m \<noteq> None"])
  fix loop get ended generation urls n e and r :: "gerr + unit"
  assume IH: "\<And>get ended generation urls n e r. loop get ended generation urls n e = Some r \<Longrightarrow>
      \<exists>m. active_pass get generation urls m \<or> ended m \<noteq> None" and
    step: "(let pass = probe_gateways (get n) generation urls e
      in if fst pass then Some (Inr ())
         else (case ended n of
             Some e \<Rightarrow> Some (Inl (not_activated generation e (snd pass)))
           | None \<Rightarrow> loop get ended generation urls (n + 1) (snd pass))) = Some r"
  show "\<exists>m. active_pass get generation urls m \<or> ended m \<noteq> None"
  proof (cases "active_pass get generation urls n \<or> ended n \<noteq> None")
    case False
    with step have "loop get ended generation urls (n + 1) (snd (probe_gateways (get n) generation urls e)) = Some r"
      by (simp add: Let_def probe_gateways_active split: if_splits)
    then show ?thesis by (rule IH)
  qed blast
qed

lemma first_end: "active_pass get generation urls m \<or> ended m \<noteq> None \<Longrightarrow> \<exists>m'. m' \<le> m \<and> ends_at get ended generation urls 0 m'"
proof -
  let ?P = "\<lambda>m. active_pass get generation urls m \<or> ended m \<noteq> None"
  assume "?P m"
  then have "?P (LEAST m. ?P m)" "(LEAST m. ?P m) \<le> m" by (rule LeastI, rule Least_le)
  moreover have "\<not> ?P k" if "k < (LEAST m. ?P m)" for k using that by (rule not_less_Least)
  ultimately show ?thesis unfolding ends_at_def by blast
qed

text \<open>
  The wait for a gateway returns exactly when there is no gateway to ask, or some pass finds one that has
  activated the generation, or its context ends after some pass (it always has a timeout, so it does). It
  returns success exactly when a gateway is found active in a pass before which the context had not ended.
\<close>

theorem wait_ends_with_its_context:
  "((\<exists>r. waitForGeneration parse_url probeURLs get ended generation = Some r) \<longleftrightarrow>
      normalizedProbeURLs parse_url probeURLs = [] \<or>
      (\<exists>k. active_pass get generation (normalizedProbeURLs parse_url probeURLs) k \<or> ended k \<noteq> None)) \<and>
   (waitForGeneration parse_url probeURLs get ended generation = Some (Inr ()) \<longleftrightarrow>
      (\<exists>k. active_pass get generation (normalizedProbeURLs parse_url probeURLs) k \<and> (\<forall>j < k. ended j = None)))"
proof (cases "normalizedProbeURLs parse_url probeURLs = []")
  case True
  then show ?thesis by (simp add: waitForGeneration_def active_pass_def)
next
  case False
  let ?urls = "normalizedProbeURLs parse_url probeURLs"
  have wait: "waitForGeneration parse_url probeURLs get ended generation = wait_loop get ended generation ?urls 0 None"
    using False by (simp add: waitForGeneration_def)
  show ?thesis
  proof (cases "\<exists>m. active_pass get generation ?urls m \<or> ended m \<noteq> None")
    case True
    then obtain m where m: "ends_at get ended generation ?urls 0 m" using first_end by blast
    with wait_loop_ends obtain r where "wait_loop get ended generation ?urls 0 None = Some r"
      "r = Inr () \<longleftrightarrow> active_pass get generation ?urls m" by blast
    moreover have "active_pass get generation ?urls m \<longleftrightarrow> (\<exists>k. active_pass get generation ?urls k \<and> (\<forall>j < k. ended j = None))"
      using m unfolding ends_at_def by (metis le0 linorder_neqE_nat)
    ultimately show ?thesis using True unfolding wait by auto
  next
    case none: False
    then have "wait_loop get ended generation ?urls 0 None = None"
      using wait_loop_returned by (metis option.exhaust)
    with none show ?thesis using \<open>?urls \<noteq> []\<close> unfolding wait by auto
  qed
qed

section \<open>Applied to a concrete store\<close>

text \<open>\<open>amy\<close> has one key on two accounts and is routed to \<open>a1\<close>; the lease of generation 1 is held.\<close>

definition ex_publish_db :: db where
  "ex_publish_db = (ex_db ex_first)\<lparr>db_accounts := db_accounts ex_routes_db, db_user_routes := db_user_routes ex_routes_db,
     db_key_rows := [(0, ex_key ''amy'' ''a1'' ''s''), (1, ex_key ''amy'' ''a2'' ''s'')]\<rparr>"

definition ex_file_env :: file_env where
  "ex_file_env = \<lparr>fe_fault = (\<lambda>_. None), fe_euid = 1000, fe_gid = 1000, fe_pendingGID = 1000, fe_chownedGID = 1000, fe_written = (\<lambda>n. n)\<rparr>"

definition ex_publisher :: publisher where
  "ex_publisher = \<lparr>pb_Attached = True, pb_Root = ''/r'', pb_ProbeURLs = [''http://g''], pb_SnapshotGID = 0\<rparr>"

definition ex_publish_env :: publish_env where
  "ex_publish_env = \<lparr>pe_store = (\<lambda>_. env_at 150 []), pe_others = (\<lambda>_ d. d), pe_draws = (\<lambda>n. Inr (replicate 32 (char_of n))),
     pe_file = ex_file_env, pe_uuid = replicate 32 CHR ''7'', pe_now = 150, pe_length = (\<lambda>_. 500), pe_absolute = Inr,
     pe_join = (\<lambda>a b. a @ ''/'' @ b), pe_parseURL = (\<lambda>_. Some (''http'', ''g'')), pe_get = (\<lambda>_ _. RequestFails (ErrNew ''refused'')),
     pe_ended = (\<lambda>_. Some (ErrNew ''deadline exceeded''))\<rparr>"

definition ex_internal_key :: internal_key where
  "ex_internal_key = \<lparr>ik_Key = internalKeyPrefix @ hex_encode (replicate 32 (char_of (0 :: nat))), ik_CreatedAt = 150, ik_Status = ''active''\<rparr>"

definition ex_keyed_db :: db where
  "ex_keyed_db = ex_publish_db\<lparr>db_internal_keys := [(''amy'', ex_internal_key)]\<rparr>"

lemma ex_ensure: "EnsureInternalKeys [ex_first] (env_at 150 []) (pe_draws ex_publish_env) [''amy''] ex_publish_db =
    (Inr [(''amy'', ex_internal_key)], ex_keyed_db)"
  by code_simp

lemma ex_users: "activeRecordUsers (db_key_records ex_publish_db) = [''amy'']" "activeRecordUsers (db_key_records ex_keyed_db) = [''amy'']"
  "pairs_of ex_keyed_db ''amy'' = [(''s'', ''a1'')]" "validInternalKey (ik_Key ex_internal_key)"
  by code_simp+

definition ex_checked :: "db \<Rightarrow> gerr + unit" where
  "ex_checked d = fst (exclusive (env_at 150 []) (\<lambda>d.
     (case attempt (env_at 150 []) TxBegin ''begin ownership write-fence transaction: '' () of
        Inl e \<Rightarrow> (Inl e, d)
      | Inr _ \<Rightarrow> (case validateWriteFence [ex_first] (env_at 150 []) d of Some e \<Rightarrow> (Inl e, d)
      | None \<Rightarrow> (attempt (env_at 150 []) TxRollback ''close ownership write-fence transaction: '' (), d)))) d)"

definition ex_snapshot :: "auth_record list \<Rightarrow> auth_snapshot" where
  "ex_snapshot records = \<lparr>gs_Version = 1, gs_Generation = replicate 32 CHR ''7'', gs_GeneratedAt = round64 (of_int (unix_of 150)),
     gs_Records = records, gs_MaxReasoningEffort = []\<rparr>"

definition ex_records :: "auth_record list" where
  "ex_records = [published_record ''amy'' (ik_Key ex_internal_key) (''s'', ''a1'')]"

definition ex_file :: "auth_record list \<Rightarrow> published_file" where
  "ex_file records = \<lparr>pf_content = payload_of (\<lambda>_. 500) (ex_snapshot records), pf_permission = 416, pf_gid = 1000\<rparr>"

lemma ex_record_valid: "accountNamePattern ''a1''" "backendPattern ''cliproxy-a1:8317''" "ValidLimit []"
  "validLowerHex (replicate 32 CHR ''7'') 32" "f64_value (round64 (of_int (unix_of 150)))" "internalKeyPrefix \<noteq> []"
  by (code_simp, code_simp, code_simp, code_simp, simp add: f64_value_def unix_of_def second_def, simp add: internalKeyPrefix_def)

lemma digest_valid: "validLowerHex (sha256_hex key) 64"
  by (simp add: validLowerHex_def)

lemma ex_records_valid: "check_auth_records 0 [] ex_records = None" "check_auth_records 0 [] [] = None"
  by (simp_all add: ex_records_def ex_record_valid published_record_def auth_record_valid_def digest_valid ex_internal_key_def)

lemma ex_parsed: "check_auth_records 0 [] records = None \<Longrightarrow>
    ParseAuthSnapshot (payload_of (\<lambda>_. 500) (ex_snapshot records)) = Inr (ex_snapshot records)"
  by (rule auth_snapshot_parses) (simp_all only: ex_snapshot_def ex_record_valid auth_snapshot.select_convs, simp add: MaxSnapshotBytes_def)

lemma ex_reads: "ReadSettings (env_at 150 []) d = Inr []" if "db_settings d = []" for d
  using that by (simp add: ReadSettings_def attempt_def env_at_def)

lemma ex_store_built:
  assumes "db_settings d = []" "build_records (account_catalog (accounts_of d)) (db_user_routes d) (db_key_records d)
      (sort_key fst (db_internal_keys d)) (activeRecordUsers (db_key_records d)) [] = Inr records" "check_auth_records 0 [] records = None"
  shows "build_from_store ex_publisher ex_publish_env d =
    Inr (''/r/state/gateway/auth-snapshot.json'', payload_of (\<lambda>_. 500) (ex_snapshot records), replicate 32 CHR ''7'')"
proof -
  have reads: "FromSettings [] = Inr []" "snapshotPath Inr (\<lambda>a b. a @ ''/'' @ b) ex_publisher = Inr ''/r/state/gateway/auth-snapshot.json''"
    "filter (\<lambda>c. c \<noteq> CHR ''-'') (replicate 32 CHR ''7'') = replicate 32 CHR ''7''"
    by code_simp+
  have calm: "calm (env_at 150 [])" by (simp add: calm_def env_at_def)
  have "buildPayload (\<lambda>_. 500) (replicate 32 CHR ''7'') 150 (accounts_of d) (db_user_routes d)
      (db_key_records d) (sort_key fst (db_internal_keys d)) [] = Inr (payload_of (\<lambda>_. 500) (ex_snapshot records), replicate 32 CHR ''7'')"
    using ex_parsed [OF assms(3)] assms(2) by (simp add: buildPayload_def reads(3) and_then_def wrapping_def Let_def ex_snapshot_def)
  then show ?thesis
    by (simp add: build_from_store_def ex_publish_env_def ReadAccounts_def ReadRoutes_def ReadKeyRecords_def ReadInternalKeys_def
        calm ex_reads [OF assms(1)] reads reads(2) [simplified] and_then_def wrapping_def)
qed

lemma ex_written: "writeSnapshot ex_file_env 0 (payload_of (\<lambda>_. 500) (ex_snapshot records)) None = (None, Some (ex_file records))"
  by (simp add: writeSnapshot_def Write_def ensureGroup_def snapshotGID_def ex_file_env_def call_def and_then_def Let_def ex_file_def)

abbreviation ex_files :: "auth_record list \<Rightarrow> string \<rightharpoonup> published_file" where
  "ex_files records \<equiv> [''/r/state/gateway/auth-snapshot.json'' \<mapsto> ex_file records]"

lemma ex_publishes:
  assumes "EnsureInternalKeys [ex_first] (env_at 150 []) (pe_draws ex_publish_env) (activeRecordUsers (db_key_records d)) d = (Inr ks, d')"
    "ex_checked d' = Inr ()" "db_settings d' = []"
    "build_records (account_catalog (accounts_of d')) (db_user_routes d') (db_key_records d')
      (sort_key fst (db_internal_keys d')) (activeRecordUsers (db_key_records d')) [] = Inr records" "check_auth_records 0 [] records = None"
  shows "PublishAuthSnapshot ex_publisher [ex_first] ex_publish_env False d Map.empty = (Some (Inr (replicate 32 CHR ''7'')), d', ex_files records)"
proof -
  have "WithWriteFence [ex_first] (env_at 150 []) (Some (publish_in_fence ex_publisher ex_publish_env d')) d' (Map.empty, []) =
      publish_in_fence ex_publisher ex_publish_env d' (Map.empty, [])"
    by (simp only: WithWriteFence_def option.case list.distinct if_False assms(2) [unfolded ex_checked_def] sum.case)
  also have "\<dots> = (None, ex_files records, replicate 32 CHR ''7'')"
    by (simp add: publish_in_fence_def ex_store_built [OF assms(3-5)]) (simp add: ex_publish_env_def ex_publisher_def ex_written)
  finally have "WithWriteFence [ex_first] (env_at 150 []) (Some (publish_in_fence ex_publisher ex_publish_env d')) d' (Map.empty, []) =
      (None, ex_files records, replicate 32 CHR ''7'')" .
  moreover have "ReadKeyRecords (env_at 150 []) d = Inr (db_key_records d)"
    by (simp add: ReadKeyRecords_def calm_def env_at_def attempt_def)
  moreover have "pe_store ex_publish_env n = env_at 150 []" "pe_others ex_publish_env n = (\<lambda>d. d)" "pb_Attached ex_publisher" for n
    by (simp_all add: ex_publish_env_def ex_publisher_def)
  ultimately show ?thesis
    using assms(1) by (simp add: PublishAuthSnapshot_def wrapping_def Let_def)
qed

lemma ex_published: "PublishAuthSnapshot ex_publisher [ex_first] ex_publish_env False ex_publish_db Map.empty =
    (Some (Inr (replicate 32 CHR ''7'')), ex_keyed_db, ex_files ex_records)"
proof (rule ex_publishes)
  show "EnsureInternalKeys [ex_first] (env_at 150 []) (pe_draws ex_publish_env) (activeRecordUsers (db_key_records ex_publish_db)) ex_publish_db =
      (Inr [(''amy'', ex_internal_key)], ex_keyed_db)"
    by (simp only: ex_users ex_ensure)
  have keys: "sort_key fst (db_internal_keys ex_keyed_db) = [(''amy'', ex_internal_key)]" "ik_Status ex_internal_key = ''active''" by code_simp+
  show "build_records (account_catalog (accounts_of ex_keyed_db)) (db_user_routes ex_keyed_db) (db_key_records ex_keyed_db)
      (sort_key fst (db_internal_keys ex_keyed_db)) (activeRecordUsers (db_key_records ex_keyed_db)) [] = Inr ex_records"
    by (simp add: ex_users keys ex_records_def)
qed (code_simp, code_simp, rule ex_records_valid)

theorem publication_all_or_nothing_witness:
  "\<exists>path f s. ex_files ex_records = Map.empty(path \<mapsto> f) \<and>
     snapshot_of_store ex_publisher ex_publish_env ex_keyed_db f s \<and> gs_Generation s = replicate 32 CHR ''7''"
  using publication_all_or_nothing [OF ex_published] by simp metis

text \<open>A gateway that loads the file and is asked 2 seconds later sends the key of \<open>amy\<close> to \<open>a1\<close>.\<close>

theorem gateway_follows_store_witness:
  "\<exists>path f i. ex_files ex_records = Map.empty(path \<mapsto> f) \<and>
     dc_Identity (Authorize (snd (LoadAuthSnapshot (pf_content f) (200 * second) NewEngine)) (202 * second) ''Bearer s'' True) = Some i \<and>
     id_UserEmail i = ''amy'' \<and> id_Account i = ''a1''"
proof -
  have rows: "active_row_of ex_keyed_db u row \<longleftrightarrow> u = ''amy'' \<and> row \<in> {ex_key ''amy'' ''a1'' ''s'', ex_key ''amy'' ''a2'' ''s''}" for u row
  proof -
    have "db_key_records ex_keyed_db = [ex_key ''amy'' ''a1'' ''s'', ex_key ''amy'' ''a2'' ''s'']"
      "norm_name (kr_User (ex_key ''amy'' ''a1'' ''s'')) = ''amy''" "norm_name (kr_User (ex_key ''amy'' ''a2'' ''s'')) = ''amy''"
      "kr_Status (ex_key ''amy'' ''a1'' ''s'') = ''active''" "kr_Status (ex_key ''amy'' ''a2'' ''s'') = ''active''" by code_simp+
    then show ?thesis by (auto simp: active_row_of_def)
  qed
  have "enabled_account ex_keyed_db ''a1''" "trim_space (mget [] (db_user_routes ex_keyed_db) ''amy'') = ''a1''"
    unfolding enabled_account_def by code_simp+
  then have routed: "routed_key ex_keyed_db ''amy'' (ex_key ''amy'' ''a1'' ''s'')"
    unfolding routed_key_def single_secret_def rows by (auto simp: ex_key_def)
  have ids: "distinct (map ar_id (db_accounts ex_keyed_db))" "ExtractBearer ''Bearer s'' = (''s'', True)" "0 < unix_of (200 * second)"
    "sub64 (unix_of (202 * second)) (unix_of (200 * second)) \<le> 5" "kr_Key (ex_key ''amy'' ''a1'' ''s'') = ''s''"
    "kr_Account (ex_key ''amy'' ''a1'' ''s'') = ''a1''"
    by code_simp+
  from gateway_follows_store [OF ex_published] ids routed show ?thesis unfolding Let_def by metis
qed

definition ex_revoked_amy :: "(gerr + user_revocation) \<times> db" where
  "ex_revoked_amy = ApplyUserRevocation [ex_first] (env_at 140 []) ''amy'' ex_publish_db"

theorem revoked_user_is_locked_out_witness:
  "\<exists>path f. ex_files [] = Map.empty(path \<mapsto> f) \<and>
    (\<forall>en t now hdr enforce i. dc_Identity (Authorize (snd (LoadAuthSnapshot (pf_content f) t en)) now hdr enforce) = Some i \<longrightarrow>
       id_UserEmail i \<noteq> norm_name ''amy'')"
proof -
  have revoked: "ApplyUserRevocation [ex_first] (env_at 140 []) ''amy'' ex_publish_db = (Inr (projr (fst ex_revoked_amy)), snd ex_revoked_amy)"
    by code_simp
  have "EnsureInternalKeys [ex_first] (env_at 150 []) (pe_draws ex_publish_env) (activeRecordUsers (db_key_records (snd ex_revoked_amy)))
      (snd ex_revoked_amy) = (Inr [], snd ex_revoked_amy)"
    "ex_checked (snd ex_revoked_amy) = Inr ()" "db_settings (snd ex_revoked_amy) = []"
    "activeRecordUsers (db_key_records (snd ex_revoked_amy)) = []"
    by code_simp+
  then have published: "PublishAuthSnapshot ex_publisher [ex_first] ex_publish_env False (snd ex_revoked_amy) Map.empty =
      (Some (Inr (replicate 32 CHR ''7'')), snd ex_revoked_amy, ex_files [])"
    by (intro ex_publishes) (simp_all add: ex_records_valid)
  have "distinct (map fst (db_key_rows ex_publish_db))"
    "list_all (\<lambda>r. sql_norm (kr_User (snd r)) = norm_name (kr_User (snd r))) (db_key_rows ex_publish_db)"
    by code_simp+
  from revoked_user_is_locked_out [OF revoked this published] show ?thesis by (simp add: ex_publish_env_def)
qed

text \<open>Two refused connections, then a gateway that has activated the generation; the context ends after the tenth pass.\<close>

definition ex_get :: "nat \<Rightarrow> string \<Rightarrow> http_result" where
  "ex_get n url = (if n < 2 then RequestFails (ErrNew ''refused'')
     else Response 200 (Some (AObject [(''auth'', AObject [(''active_generation'', AString ''g1'')])])))"

definition ex_ended :: "nat \<Rightarrow> gerr option" where
  "ex_ended n = (if n < 10 then None else Some (ErrNew ''deadline exceeded''))"

theorem wait_ends_with_its_context_witness:
  "waitForGeneration (\<lambda>_. Some (''http'', ''g'')) [''http://g''] ex_get ex_ended ''g1'' = Some (Inr ())"
proof -
  have "active_pass ex_get ''g1'' (normalizedProbeURLs (\<lambda>_. Some (''http'', ''g'')) [''http://g'']) 2" "\<forall>j < 2. ex_ended j = None"
    unfolding active_pass_def ex_ended_def by code_simp+
  with wait_ends_with_its_context [of "\<lambda>_. Some (''http'', ''g'')" "[''http://g'']" ex_get ex_ended "''g1''"] show ?thesis by blast
qed

end
