(* ===== verification/Usage_Event.thy ===== *)
theory Usage_Event
  imports Control_Tx Go_Sha256 Go_Json
begin

text \<open>
  How a request record becomes usage (\<open>internal/usage/writer.go\<close>, \<open>multiplier_policy.go\<close>): the multipliers of
  models and reasoning efforts, the natural week of an instant, and the normalisation of an event. The
  formatting of floats, maps and JSON text, the parsing of times and the time zone database are the functions
  of \<open>usage_lib\<close>.
\<close>

section \<open>The library functions\<close>

text \<open>
  A location is its name and its offset from UTC, in seconds, at every instant. \<open>ul_print\<close> is \<open>fmt.Sprint\<close> of
  a float, a list or a map; \<open>ul_encode\<close> the text of \<open>json.Encoder\<close>, \<open>null\<close> if it fails; \<open>ul_format\<close> is
  \<open>strconv.FormatFloat(x, 'f', -1, 64)\<close>; \<open>ul_time\<close> the Unix time of a text in one of the four layouts.
\<close>

type_synonym location = "string \<times> (int \<Rightarrow> int)"

record usage_lib =
  ul_print :: "goany \<Rightarrow> string"
  ul_encode :: "goany \<Rightarrow> string"
  ul_format :: "f64 \<Rightarrow> string"
  ul_time :: "string \<Rightarrow> int option"
  ul_location :: "string \<Rightarrow> gerr + location"

section \<open>Multipliers\<close>

definition reasoningEfforts :: "string list" where
  "reasoningEfforts = [''none'', ''minimal'', ''low'', ''medium'', ''high'', ''xhigh'', ''max'', ''ultra'', ''auto'', ''unknown'']"

definition reasoningMultiplierConfigBase :: string where
  "reasoningMultiplierConfigBase = ''user_quota.reasoning_multiplier.''"

definition ModelMultiplierConfigBase :: string where
  "ModelMultiplierConfigBase = ''user_quota.model_multiplier.''"

text \<open>The catalog shown to operators, and the models with their defaults.\<close>

definition ReasoningMultiplierDefinitions :: "(string \<times> rat) list" where
  "ReasoningMultiplierDefinitions = [(''none'', 1), (''minimal'', 1), (''low'', 1), (''medium'', 1), (''high'', 1), (''xhigh'', 1),
     (''max'', 2), (''ultra'', 3), (''auto'', 1), (''unknown'', 1)]"

definition ModelMultiplierDefinitions :: "(string \<times> rat) list" where
  "ModelMultiplierDefinitions = [(''codex-auto-review'', 1), (''gpt-5.3-codex-spark'', 1), (''gpt-5.4'', 1), (''gpt-5.4-mini'', 1),
     (''gpt-5.5'', 1), (''gpt-5.6-luna'', 1), (''gpt-5.6-sol'', 1), (''gpt-5.6-terra'', 1), (''gpt-6-astra'', 4), (''gpt-image-1.5'', 1),
     (''gpt-image-2'', 1), (''unknown'', 1)]"

definition ReasoningMultiplierSettingKey :: "string \<Rightarrow> string" where
  "ReasoningMultiplierSettingKey effort = reasoningMultiplierConfigBase @ effort"

definition ModelMultiplierSettingKey :: "string \<Rightarrow> string" where
  "ModelMultiplierSettingKey model = ModelMultiplierConfigBase @ model"

record weight_policy =
  wp_ModelMultipliers :: "f64 gomap"
  wp_ReasoningMultipliers :: "f64 gomap"

definition usable_multiplier :: "f64 \<Rightarrow> bool" where
  "usable_multiplier v \<longleftrightarrow> (case v of Fin q \<Rightarrow> 0 < q | _ \<Rightarrow> False)"

text \<open>The value under the setting key, else under the bare name, if it is usable; else the fallback.\<close>

definition configured_multiplier :: "f64 gomap \<Rightarrow> string \<Rightarrow> string \<Rightarrow> rat \<Rightarrow> f64" where
  "configured_multiplier configuration settingKey name fallback =
     (case (case map_of configuration settingKey of Some v \<Rightarrow> Some v | None \<Rightarrow> map_of configuration name) of
        Some v \<Rightarrow> if usable_multiplier v then v else Fin fallback
      | None \<Rightarrow> Fin fallback)"

definition normalizedReasoningMultipliers :: "f64 gomap \<Rightarrow> f64 gomap" where
  "normalizedReasoningMultipliers configuration =
     map (\<lambda>effort. (effort, configured_multiplier configuration (reasoningMultiplierConfigBase @ effort) effort
                              (if effort = ''max'' then 2 else 1))) reasoningEfforts"

definition normalizedModelMultipliers :: "f64 gomap \<Rightarrow> f64 gomap" where
  "normalizedModelMultipliers configuration =
     map (\<lambda>(model, default). (model, configured_multiplier configuration (ModelMultiplierSettingKey model) model default))
       ModelMultiplierDefinitions"

definition normalizeModelMultiplier :: "string \<Rightarrow> string \<Rightarrow> string" where
  "normalizeModelMultiplier model alias =
     (let value = (if norm_name model = [] then norm_name alias else norm_name model)
      in if value \<in> fst ` set ModelMultiplierDefinitions then value else ''unknown'')"

text \<open>The version of a policy: a digest of its canonical text. The names need no quoting beyond the marks.\<close>

definition quoted :: "string \<Rightarrow> string" where
  "quoted s = CHR 0x22 # s @ [CHR 0x22]"

definition multiplier_text :: "usage_lib \<Rightarrow> f64 \<Rightarrow> string" where
  "multiplier_text lib v = (let raw = ul_format lib v in if CHR ''.'' \<in> set raw then raw else raw @ ''.0'')"

definition writeMultiplierPolicyMap :: "usage_lib \<Rightarrow> string \<Rightarrow> f64 gomap \<Rightarrow> string" where
  "writeMultiplierPolicyMap lib name multipliers =
     quoted name @ '':{'' @
     join_with '','' (map (\<lambda>key. quoted key @ '':'' @ multiplier_text lib (mget (Fin 0) multipliers key)) (sort (map fst multipliers))) @ ''}''"

definition weightPolicyVersionPrefix :: string where "weightPolicyVersionPrefix = ''model-reasoning-''"

definition weightPolicyVersion :: "usage_lib \<Rightarrow> f64 gomap \<Rightarrow> f64 gomap \<Rightarrow> string" where
  "weightPolicyVersion lib modelMultipliers reasoningMultipliers =
     weightPolicyVersionPrefix @ take 12 (sha256_hex (''{'' @ writeMultiplierPolicyMap lib ''models'' modelMultipliers @ '','' @
       writeMultiplierPolicyMap lib ''reasoning'' reasoningMultipliers @ ''}''))"

section \<open>The natural week\<close>

text \<open>
  \<open>local_seconds\<close> is the local date and time as seconds of a calendar without offsets. \<open>time.Date\<close> looks up
  the offset at the local seconds taken as UTC and, unless that is zero, again at the instant it gives.
  \<open>AddDate(0, 0, n)\<close> shifts the local date and resolves it again. 1970-01-01 was a Thursday.
\<close>

definition local_seconds :: "location \<Rightarrow> int \<Rightarrow> int" where
  "local_seconds loc t = t + snd loc t"

definition date_unix :: "location \<Rightarrow> int \<Rightarrow> int" where
  "date_unix loc s = (let o1 = snd loc s in if o1 = 0 then s else s - snd loc (s - o1))"

definition add_days :: "location \<Rightarrow> int \<Rightarrow> int \<Rightarrow> int" where
  "add_days loc t n = date_unix loc (local_seconds loc t + n * 86400)"

definition midnight :: "location \<Rightarrow> int \<Rightarrow> int" where
  "midnight loc t = date_unix loc (local_seconds loc t div 86400 * 86400)"

definition days_since_monday :: "location \<Rightarrow> int \<Rightarrow> int" where
  "days_since_monday loc t = (local_seconds loc t div 86400 + 3) mod 7"

definition naturalWeekBounds :: "location \<Rightarrow> int \<Rightarrow> int \<times> int" where
  "naturalWeekBounds loc t =
     (let startDate = add_days loc t (- days_since_monday loc t);
          start = midnight loc startDate
      in (start, add_days loc start 7))"

definition week_start :: "location \<Rightarrow> int \<Rightarrow> int" where
  "week_start loc t = fst (naturalWeekBounds loc t)"

section \<open>The values of an event\<close>

text \<open>\<open>strconv.ParseInt(s, 10, 64)\<close>, also behind \<open>json.Number.Int64\<close>.\<close>

definition ParseInt64 :: "string \<Rightarrow> int option" where
  "ParseInt64 s =
     (case parse_sign s of (neg, ds) \<Rightarrow>
        if ds = [] \<or> \<not> list_all is_digit ds then None
        else let n = (if neg then - int (digits_value ds) else int (digits_value ds))
             in if in64 n then Some n else None)"

definition nonNegativeInt :: "goany \<Rightarrow> int" where
  "nonNegativeInt v =
     max 0 (case v of
       AInt i \<Rightarrow> i
     | AInt64 i \<Rightarrow> i
     | ABool b \<Rightarrow> (if b then 1 else 0)
     | AFloat f \<Rightarrow> (if \<not> finite64 f \<or> f_lt (Fin (2 ^ 63)) f \<or> f_lt f (Fin (- (2 ^ 63))) then 0 else f_to_int64 f)
     | ANumber s \<Rightarrow> (case ParseInt64 s of Some i \<Rightarrow> i
                     | None \<Rightarrow> (case ParseFloat s of Some f \<Rightarrow> f_to_int64 f | None \<Rightarrow> 0))
     | AString s \<Rightarrow> (case ParseInt64 (trim_space s) of Some i \<Rightarrow> i | None \<Rightarrow> 0)
     | _ \<Rightarrow> 0)"

definition stringValue :: "usage_lib \<Rightarrow> goany \<Rightarrow> string" where
  "stringValue lib v =
     (case v of ANil \<Rightarrow> [] | AString s \<Rightarrow> s | ANumber s \<Rightarrow> s | ABool b \<Rightarrow> (if b then ''true'' else ''false'')
      | AInt i \<Rightarrow> itoa i | AInt64 i \<Rightarrow> itoa i | _ \<Rightarrow> ul_print lib v)"

definition truthy :: "goany \<Rightarrow> bool" where
  "truthy v =
     (case v of ANil \<Rightarrow> False | ABool b \<Rightarrow> b | AString s \<Rightarrow> s \<noteq> [] | AInt i \<Rightarrow> i \<noteq> 0 | AInt64 i \<Rightarrow> i \<noteq> 0
      | AFloat f \<Rightarrow> f \<noteq> Fin 0 | ANumber s \<Rightarrow> s \<noteq> [] \<and> s \<noteq> ''0'' | AList xs \<Rightarrow> xs \<noteq> [] | AObject m \<Rightarrow> m \<noteq> [] | _ \<Rightarrow> True)"

definition boolInteger64 :: "bool \<Rightarrow> int" where
  "boolInteger64 b = (if b then 1 else 0)"

definition eventTimestamp :: "usage_lib \<Rightarrow> goany \<Rightarrow> int \<Rightarrow> int" where
  "eventTimestamp lib v fallback =
     (case v of
        AInt i \<Rightarrow> i
      | AInt64 i \<Rightarrow> i
      | AFloat f \<Rightarrow> f_to_int64 f
      | AFloat32 f \<Rightarrow> f_to_int64 f
      | ANumber s \<Rightarrow> (case ParseInt64 s of Some i \<Rightarrow> i
                      | None \<Rightarrow> (case ParseFloat s of Some f \<Rightarrow> f_to_int64 f | None \<Rightarrow> fallback))
      | AString s \<Rightarrow> (case ul_time lib (trim_space s) of Some t \<Rightarrow> t | None \<Rightarrow> fallback)
      | _ \<Rightarrow> fallback)"

definition normalizeReasoningEffort :: "usage_lib \<Rightarrow> goany \<Rightarrow> string" where
  "normalizeReasoningEffort lib v =
     (let effort = norm_name (stringValue lib v) in if effort \<in> set reasoningEfforts then effort else ''unknown'')"

definition keyHash :: "string \<Rightarrow> string" where
  "keyHash value =
     (let raw = trim_space value;
          raw = (if 7 \<le> length raw \<and> EqualFold (take 7 raw) ''bearer '' then trim_space (drop 7 raw) else raw)
      in if raw = [] then [] else sha256_hex raw)"

definition businessEvent :: "usage_lib \<Rightarrow> goany gomap \<Rightarrow> bool" where
  "businessEvent lib payload \<longleftrightarrow>
     \<not> has_suffix ''/v1/models'' (norm_name (stringValue lib (mget ANil payload ''endpoint'')))"

definition usageEventKey :: "usage_lib \<Rightarrow> string \<Rightarrow> string \<Rightarrow> string \<Rightarrow> goany gomap \<Rightarrow> string" where
  "usageEventKey lib account requestID keyDigest payload =
     (if requestID \<noteq> [] then account @ '':'' @ keyDigest @ '':'' @ requestID
      else account @ '':sha256:'' @ sha256_hex (ul_encode lib (AObject
             [(''account'', AString account), (''alias'', mget ANil payload ''alias''), (''endpoint'', mget ANil payload ''endpoint''),
              (''failed'', mget ANil payload ''failed''), (''key_hash'', AString keyDigest), (''model'', mget ANil payload ''model''),
              (''reasoning_effort'', mget ANil payload ''reasoning_effort''), (''timestamp'', mget ANil payload ''timestamp''),
              (''tokens'', mget ANil payload ''tokens'')])))"

section \<open>A normalised event\<close>

record identity_row =
  ir_KeyLabel :: string
  ir_UserEmail :: string
  ir_Account :: string
  ir_TeamID :: string
  ir_TeamMembershipVersion :: int
  ir_FirstSeenAt :: int
  ir_LastSeenAt :: int

record usage_event =
  ue_EventKey :: string
  ue_Account :: string
  ue_UserEmail :: string
  ue_KeyLabel :: string
  ue_OccurredAt :: int
  ue_RequestID :: string
  ue_Provider :: string
  ue_Model :: string
  ue_Alias :: string
  ue_ReasoningEffort :: string
  ue_Endpoint :: string
  ue_Failed :: int
  ue_LatencyMS :: int
  ue_InputTokens :: int
  ue_OutputTokens :: int
  ue_ReasoningTokens :: int
  ue_CachedTokens :: int
  ue_TotalTokens :: int
  ue_QuotaMultiplier :: f64
  ue_WeightedTokens :: int
  ue_WeightPolicyVersion :: string
  ue_TeamID :: string
  ue_TeamMembershipVersion :: int

fun f_floor :: "f64 \<Rightarrow> f64" where
  "f_floor (Fin q) = Fin (of_int \<lfloor>q\<rfloor>)"
| "f_floor x = x"

definition weighted_tokens :: "int \<Rightarrow> f64 \<Rightarrow> int" where
  "weighted_tokens totalTokens multiplier = f_to_int64 (f_floor (f_add (f_mul (f_of_int totalTokens) multiplier) (Fin (1 / 2))))"

definition event_total :: "goany gomap option \<Rightarrow> int" where
  "event_total tokens =
     (let inputTokens = nonNegativeInt (field_of tokens ''input_tokens'');
          outputTokens = nonNegativeInt (field_of tokens ''output_tokens'');
          totalTokens = nonNegativeInt (field_of tokens ''total_tokens'')
      in if totalTokens = 0 \<and> (inputTokens \<noteq> 0 \<or> outputTokens \<noteq> 0) then add64 inputTokens outputTokens else totalTokens)"

definition normalizeEvent ::
  "usage_lib \<Rightarrow> string \<Rightarrow> goany gomap \<times> string \<Rightarrow> identity_row \<Rightarrow> f64 gomap \<Rightarrow> f64 gomap \<Rightarrow> string \<Rightarrow> int \<Rightarrow> usage_event" where
  "normalizeEvent lib account item ident modelMultipliers reasoningMultipliers policyVersion now =
     (let payload = fst item;
          tokens = as_object (mget ANil payload ''tokens'');
          model = trim_space (stringValue lib (mget ANil payload ''model''));
          alias = trim_space (stringValue lib (mget ANil payload ''alias''));
          alias = (if alias = [] then model else alias);
          effort = normalizeReasoningEffort lib (mget ANil payload ''reasoning_effort'');
          multiplier = f_mul (mget (Fin 0) modelMultipliers (normalizeModelMultiplier model alias)) (mget (Fin 0) reasoningMultipliers effort);
          requestID = trim_space (stringValue lib (mget ANil payload ''request_id''))
      in \<lparr>ue_EventKey = usageEventKey lib account requestID (snd item) payload, ue_Account = account,
          ue_UserEmail = ir_UserEmail ident, ue_KeyLabel = ir_KeyLabel ident,
          ue_OccurredAt = eventTimestamp lib (mget ANil payload ''timestamp'') now, ue_RequestID = requestID,
          ue_Provider = stringValue lib (mget ANil payload ''provider''), ue_Model = model, ue_Alias = alias,
          ue_ReasoningEffort = effort, ue_Endpoint = stringValue lib (mget ANil payload ''endpoint''),
          ue_Failed = boolInteger64 (truthy (mget ANil payload ''failed'')), ue_LatencyMS = nonNegativeInt (mget ANil payload ''latency_ms''),
          ue_InputTokens = nonNegativeInt (field_of tokens ''input_tokens''), ue_OutputTokens = nonNegativeInt (field_of tokens ''output_tokens''),
          ue_ReasoningTokens = nonNegativeInt (field_of tokens ''reasoning_tokens''),
          ue_CachedTokens = nonNegativeInt (field_of tokens ''cached_tokens''), ue_TotalTokens = event_total tokens,
          ue_QuotaMultiplier = multiplier, ue_WeightedTokens = weighted_tokens (event_total tokens) multiplier,
          ue_WeightPolicyVersion = policyVersion, ue_TeamID = ir_TeamID ident,
          ue_TeamMembershipVersion = max (ir_TeamMembershipVersion ident) 0\<rparr>)"

end
