(* ===== verification/Usage_Writer.thy ===== *)
theory Usage_Writer
  imports Usage_Event Go_Utf8
begin

text \<open>
  The usage database and its writer (\<open>internal/usage/writer.go\<close>): identities, events, the weekly counters
  kept beside them, personal quota policies and adjustments. Events are never deleted. SQLite adds integers
  exactly up to 64 bits; a sum beyond them is kept as a REAL, which the program can no longer scan: here such
  a sum stays exact and the scan fails. The environment gives the failures of the calls and the clock.
\<close>

section \<open>The tables\<close>

record weekly_row =
  wk_TotalTokens :: int
  wk_WeightedTokens :: int
  wk_RequestCount :: int
  wk_UpdatedAt :: int

record quota_policy =
  qp_WeeklyTokens :: "int option"
  qp_CreatedAt :: int
  qp_UpdatedAt :: int
  qp_CreatedBy :: string
  qp_ResetAt :: "int option"

record adjustment =
  aj_UserEmail :: string
  aj_WeekStartAt :: int
  aj_Action :: string
  aj_TokenAmount :: int
  aj_Reason :: string
  aj_CreatedAt :: int
  aj_CreatedBy :: string

record portal_session =
  pt_UserEmail :: string
  pt_CreatedAt :: int
  pt_ExpiresAt :: int

record portal_credential =
  cr_PasswordHash :: string
  cr_MustChange :: bool
  cr_CreatedAt :: int
  cr_UpdatedAt :: int

type_synonym week_key = "string \<times> int"

record usage_db =
  ud_identities :: "identity_row gomap"
  ud_events :: "(int \<times> usage_event) list"
  ud_meta :: "string gomap"
  ud_sessions :: "portal_session gomap"
  ud_credentials :: "portal_credential gomap"
  ud_weekly :: "(week_key \<times> weekly_row) list"
  ud_policies :: "quota_policy gomap"
  ud_adjustments :: "(int \<times> adjustment) list"

definition empty_usage :: usage_db where
  "empty_usage = \<lparr>ud_identities = [], ud_events = [], ud_meta = [(''weekly_usage_timezone'', ''Asia/Shanghai'')], ud_sessions = [],
     ud_credentials = [], ud_weekly = [], ud_policies = [], ud_adjustments = []\<rparr>"

text \<open>A transaction: begun, run on its view, committed; or the database is as before.\<close>

definition run_usage ::
  "env \<Rightarrow> string \<Rightarrow> ('a \<Rightarrow> gerr \<Rightarrow> gerr) \<Rightarrow> (usage_db, 'a) stx \<Rightarrow> usage_db \<Rightarrow> (gerr + 'a) \<times> usage_db" where
  "run_usage env text commit_error f d =
     (case attempt env TxBegin text () of Inl e \<Rightarrow> (Inl e, d)
      | Inr _ \<Rightarrow> (case f d of Inl e \<Rightarrow> (Inl e, d)
      | Inr (x, d') \<Rightarrow> (case ev_fault env TxCommit of Some e \<Rightarrow> (Inl (commit_error x e), d) | None \<Rightarrow> (Inr x, d'))))"

definition usage_transaction :: "env \<Rightarrow> string \<Rightarrow> (usage_db, 'a) stx \<Rightarrow> usage_db \<Rightarrow> (gerr + 'a) \<times> usage_db" where
  "usage_transaction env name f = run_usage env (''begin '' @ name @ '': '') (\<lambda>_. wrapf (''commit '' @ name @ '': '')) f"

definition put_meta :: "string \<Rightarrow> string \<Rightarrow> usage_db \<Rightarrow> usage_db" where
  "put_meta key value d = d\<lparr>ud_meta := mput key value (ud_meta d)\<rparr>"

definition ErrScan :: gerr where
  "ErrScan = ErrNew ''sql: Scan error: converting driver.Value type float64 to a int64: invalid syntax''"

definition weeklyUsageBackfillKey :: string where "weeklyUsageBackfillKey = ''weekly_usage_backfill_version''"
definition weeklyUsageBackfillVersion :: string where "weeklyUsageBackfillVersion = ''2''"
definition weeklyUsageLastEventIDKey :: string where "weeklyUsageLastEventIDKey = ''weekly_usage_last_event_id''"
definition weeklyUsageTimezoneKey :: string where "weeklyUsageTimezoneKey = ''weekly_usage_timezone''"
definition defaultWeekTimezone :: string where "defaultWeekTimezone = ''Asia/Shanghai''"
definition breakdownStartedAtKey :: string where "breakdownStartedAtKey = ''usage_breakdown_started_at''"

section \<open>Identities\<close>

record usage_identity =
  ui_Key :: string
  ui_Label :: string
  ui_UserEmail :: string
  ui_Account :: string

definition upsert_identity :: "int \<Rightarrow> usage_identity \<Rightarrow> usage_db \<Rightarrow> usage_db" where
  "upsert_identity now i d =
     (let user = norm_name (ui_UserEmail i); account = trim_space (ui_Account i);
          row = (case map_of (ud_identities d) (keyHash (ui_Key i)) of
            Some r \<Rightarrow> r\<lparr>ir_KeyLabel := ui_Label i, ir_UserEmail := user, ir_Account := account, ir_LastSeenAt := now\<rparr>
          | None \<Rightarrow> \<lparr>ir_KeyLabel = ui_Label i, ir_UserEmail = user, ir_Account = account, ir_TeamID = [],
                     ir_TeamMembershipVersion = 0, ir_FirstSeenAt = now, ir_LastSeenAt = now\<rparr>)
      in d\<lparr>ud_identities := mput (keyHash (ui_Key i)) row (ud_identities d)\<rparr>)"

definition SyncIdentities :: "env \<Rightarrow> usage_identity list \<Rightarrow> usage_db \<Rightarrow> (gerr + int) \<times> usage_db" where
  "SyncIdentities env identities d =
     (let rows = filter (\<lambda>i. keyHash (ui_Key i) \<noteq> []) identities
      in if rows = [] then (Inr 0, d)
         else usage_transaction env ''identity synchronization''
           (then_tx (each_tx (\<lambda>i. exec env ''key_identities'' ''synchronize usage identity: '' (upsert_identity (unix_of (ev_now env)) i)) rows)
              (\<lambda>_. ok_tx (int (length rows)))) d)"

record team_identity =
  ti_TeamID :: string
  ti_MembershipVersion :: int

definition set_team :: "string \<Rightarrow> team_identity \<Rightarrow> usage_db \<Rightarrow> usage_db" where
  "set_team user t d = d\<lparr>ud_identities := map (\<lambda>(h, r). (h, if ir_UserEmail r = norm_name user
       then r\<lparr>ir_TeamID := trim_space (ti_TeamID t), ir_TeamMembershipVersion := max (ti_MembershipVersion t) 0\<rparr> else r)) (ud_identities d)\<rparr>"

definition SyncUserTeams :: "env \<Rightarrow> team_identity gomap \<Rightarrow> usage_db \<Rightarrow> (gerr + int) \<times> usage_db" where
  "SyncUserTeams env classifications d =
     (if classifications = [] then (Inr 0, d)
      else usage_transaction env ''team identity synchronization''
        (then_tx (each_tx (\<lambda>(user, t). exec env ''key_identities'' ''synchronize usage team identity: '' (set_team user t))
            (sort_key fst classifications))
           (\<lambda>_. ok_tx (int (length classifications)))) d)"

text \<open>\<open>value, _ := strconv.ParseInt(raw, 10, 64)\<close>: the nearest value when out of range, 0 for other text.\<close>

definition parse_clamped :: "string \<Rightarrow> int" where
  "parse_clamped s =
     (case parse_sign s of (neg, ds) \<Rightarrow>
        if ds = [] \<or> \<not> list_all is_digit ds then 0
        else if neg then max (- (2 ^ 63)) (- int (digits_value ds)) else min (2 ^ 63 - 1) (int (digits_value ds)))"

definition EnsureUsageBreakdownStarted :: "env \<Rightarrow> usage_db \<Rightarrow> (gerr + int) \<times> usage_db" where
  "EnsureUsageBreakdownStarted env = usage_transaction env ''usage breakdown marker''
     (then_tx (exec env ''usage_meta'' ''create usage breakdown marker: ''
         (\<lambda>d. if map_of (ud_meta d) breakdownStartedAtKey = None then put_meta breakdownStartedAtKey (itoa (unix_of (ev_now env))) d else d)) (\<lambda>_.
      then_tx (query_row env ''usage_meta'' ''read usage breakdown marker: '' (\<lambda>d. map_of (ud_meta d) breakdownStartedAtKey)) (\<lambda>raw.
      ok_tx (max (parse_clamped raw) 0))))"

section \<open>Ingesting events\<close>

record ingest_counters =
  ic_Received :: int
  ic_Inserted :: int
  ic_Duplicate :: int
  ic_Unmapped :: int
  ic_MissingAPIKey :: int
  ic_UnknownAPIKey :: int
  ic_Ignored :: int

definition zero_counters :: ingest_counters where
  "zero_counters = \<lparr>ic_Received = 0, ic_Inserted = 0, ic_Duplicate = 0, ic_Unmapped = 0, ic_MissingAPIKey = 0, ic_UnknownAPIKey = 0,
     ic_Ignored = 0\<rparr>"

type_synonym prepared = "goany gomap \<times> string"

fun prepare_events :: "usage_lib \<Rightarrow> goany gomap list \<Rightarrow> ingest_counters \<times> prepared list \<Rightarrow> ingest_counters \<times> prepared list" where
  "prepare_events lib [] acc = acc"
| "prepare_events lib (event # events) (c, items) =
     prepare_events lib events
       (let c = c\<lparr>ic_Received := ic_Received c + 1\<rparr>; digest = keyHash (trim_space (stringValue lib (mget ANil event ''api_key'')))
        in if \<not> businessEvent lib event then (c\<lparr>ic_Ignored := ic_Ignored c + 1\<rparr>, items)
           else if digest = [] then (c\<lparr>ic_Unmapped := ic_Unmapped c + 1, ic_MissingAPIKey := ic_MissingAPIKey c + 1\<rparr>, items)
           else (c, items @ [(event, digest)]))"

definition loadWeekTimezone :: "usage_lib \<Rightarrow> env \<Rightarrow> (usage_db, location) stx" where
  "loadWeekTimezone lib env =
     then_tx (query env ''usage_meta'' ''read weekly usage timezone: '' (\<lambda>d. map_of (ud_meta d) weeklyUsageTimezoneKey)) (\<lambda>stored.
     (let name = (case stored of Some s \<Rightarrow> if trim_space s = [] then defaultWeekTimezone else trim_space s | None \<Rightarrow> defaultWeekTimezone)
      in case ul_location lib name of
           Inl e \<Rightarrow> fail_tx (wrapf (''load weekly usage timezone '' @ quoted name @ '': '') e)
         | Inr loc \<Rightarrow> ok_tx loc))"

definition loadIdentities :: "env \<Rightarrow> prepared list \<Rightarrow> (usage_db, identity_row gomap) stx" where
  "loadIdentities env items =
     query env ''key_identities'' ''load usage identities: '' (\<lambda>d. filter (\<lambda>(h, _). h \<in> snd ` set items) (ud_identities d))"

definition last_event_id :: "usage_db \<Rightarrow> int" where
  "last_event_id d = fold max (map fst (ud_events d)) 0"

text \<open>\<open>INSERT OR IGNORE\<close> ignores a row with the key of an event; the upsert of the weekly counters.\<close>

definition known_event :: "string \<Rightarrow> usage_db \<Rightarrow> bool" where
  "known_event key d \<longleftrightarrow> list_ex (\<lambda>(_, e). ue_EventKey e = key) (ud_events d)"

definition insert_event :: "usage_event \<Rightarrow> usage_db \<Rightarrow> usage_db" where
  "insert_event e d = d\<lparr>ud_events := ud_events d @ [(last_event_id d + 1, e)]\<rparr>"

definition add_weekly :: "int \<Rightarrow> week_key \<Rightarrow> usage_event \<Rightarrow> usage_db \<Rightarrow> usage_db" where
  "add_weekly now key e d =
     d\<lparr>ud_weekly := AList.update key
        (case map_of (ud_weekly d) key of
           Some r \<Rightarrow> \<lparr>wk_TotalTokens = wk_TotalTokens r + ue_TotalTokens e, wk_WeightedTokens = wk_WeightedTokens r + ue_WeightedTokens e,
                      wk_RequestCount = wk_RequestCount r + 1, wk_UpdatedAt = now\<rparr>
         | None \<Rightarrow> \<lparr>wk_TotalTokens = ue_TotalTokens e, wk_WeightedTokens = ue_WeightedTokens e, wk_RequestCount = 1, wk_UpdatedAt = now\<rparr>)
        (ud_weekly d)\<rparr>"

definition store_event :: "env \<Rightarrow> location \<Rightarrow> usage_event \<Rightarrow> (usage_db, bool) stx" where
  "store_event env loc e d =
     (let known = known_event (ue_EventKey e) d
      in then_tx (exec env ''usage_events'' ''insert usage event: '' (if known then (\<lambda>d. d) else insert_event e)) (\<lambda>_.
         then_tx (query env ''usage_events'' ''read usage event insert result: '' (\<lambda>_. known)) (\<lambda>duplicate.
         if duplicate then ok_tx False
         else then_tx (exec env ''user_weekly_usage'' ''update materialized weekly usage: ''
                (add_weekly (unix_of (ev_now env)) (ue_UserEmail e, week_start loc (ue_OccurredAt e)) e)) (\<lambda>_. ok_tx True))) d)"

fun ingest_items ::
  "usage_lib \<Rightarrow> env \<Rightarrow> string \<Rightarrow> location \<Rightarrow> f64 gomap \<Rightarrow> f64 gomap \<Rightarrow> string \<Rightarrow> identity_row gomap \<Rightarrow> prepared list \<Rightarrow>
     ingest_counters \<Rightarrow> (usage_db, ingest_counters) stx" where
  "ingest_items lib env account loc mm rm pv ids [] c = ok_tx c"
| "ingest_items lib env account loc mm rm pv ids (item # items) c =
     (case map_of ids (snd item) of
        None \<Rightarrow> ingest_items lib env account loc mm rm pv ids items
                  (c\<lparr>ic_Unmapped := ic_Unmapped c + 1, ic_UnknownAPIKey := ic_UnknownAPIKey c + 1\<rparr>)
      | Some ident \<Rightarrow>
          then_tx (store_event env loc (normalizeEvent lib account item ident mm rm pv (unix_of (ev_now env)))) (\<lambda>inserted.
          ingest_items lib env account loc mm rm pv ids items
            (if inserted then c\<lparr>ic_Inserted := ic_Inserted c + 1\<rparr> else c\<lparr>ic_Duplicate := ic_Duplicate c + 1\<rparr>)))"

definition ingest_markers :: "env \<Rightarrow> string \<Rightarrow> int \<Rightarrow> (usage_db, unit) stx" where
  "ingest_markers env text lastEventID =
     then_tx (exec env ''usage_meta'' text (put_meta weeklyUsageBackfillKey weeklyUsageBackfillVersion)) (\<lambda>_.
     exec env ''usage_meta'' text (put_meta weeklyUsageLastEventIDKey (itoa lastEventID)))"

text \<open>The counters returned beside an error are not used by the caller and not modelled.\<close>

definition IngestEvents ::
  "usage_lib \<Rightarrow> env \<Rightarrow> string \<Rightarrow> goany gomap list \<Rightarrow> weight_policy \<Rightarrow> usage_db \<Rightarrow> (gerr + ingest_counters) \<times> usage_db" where
  "IngestEvents lib env rawAccount events policy d =
     (let account = trim_space rawAccount
      in if account = [] then (Inl (ErrNew ''usage event account is required''), d)
         else (case prepare_events lib events (zero_counters, []) of (counters, items) \<Rightarrow>
           if items = [] then (Inr counters, d)
           else let mm = normalizedModelMultipliers (wp_ModelMultipliers policy);
                    rm = normalizedReasoningMultipliers (wp_ReasoningMultipliers policy)
                in usage_transaction env ''usage event ingest''
                  (then_tx (loadIdentities env items) (\<lambda>ids.
                   then_tx (loadWeekTimezone lib env) (\<lambda>loc.
                   then_tx (ingest_items lib env account loc mm rm (weightPolicyVersion lib mm rm) ids items counters) (\<lambda>counters.
                   if 0 < ic_Inserted counters
                   then then_tx (query env ''usage_events'' ''read last usage event id: '' last_event_id) (\<lambda>lastEventID.
                        then_tx (ingest_markers env ''update usage ingest marker: '' lastEventID) (\<lambda>_. ok_tx counters))
                   else ok_tx counters)))) d))"

section \<open>Rebuilding the weekly counters\<close>

definition legacy_weighted :: "usage_event \<Rightarrow> int" where
  "legacy_weighted e =
     (if ue_WeightPolicyVersion e = ''legacy-v1'' \<and> 0 < ue_TotalTokens e \<and> ue_WeightedTokens e = 0 then ue_TotalTokens e
      else ue_WeightedTokens e)"

type_synonym counter_value = "int \<times> int \<times> int"

definition count_event :: "location \<Rightarrow> usage_event \<Rightarrow> (week_key \<times> counter_value) list \<Rightarrow> (week_key \<times> counter_value) list" where
  "count_event loc e counters =
     (let key = (ue_UserEmail e, week_start loc (ue_OccurredAt e));
          value = (case map_of counters key of Some v \<Rightarrow> v | None \<Rightarrow> (0, 0, 0))
      in AList.update key (case value of (raw, weighted, requests) \<Rightarrow>
           (add64 raw (ue_TotalTokens e), add64 weighted (legacy_weighted e), add64 requests 1)) counters)"

definition week_key_less :: "week_key \<times> counter_value \<Rightarrow> week_key \<times> counter_value \<Rightarrow> bool" where
  "week_key_less l r \<longleftrightarrow> (if fst (fst l) = fst (fst r) then snd (fst l) < snd (fst r) else fst (fst l) < fst (fst r))"

definition rebuilt_row :: "int \<Rightarrow> week_key \<times> counter_value \<Rightarrow> week_key \<times> weekly_row" where
  "rebuilt_row now c = (case c of (key, raw, weighted, requests) \<Rightarrow>
     (key, \<lparr>wk_TotalTokens = raw, wk_WeightedTokens = weighted, wk_RequestCount = requests, wk_UpdatedAt = now\<rparr>))"

definition insert_weekly :: "week_key \<times> weekly_row \<Rightarrow> usage_db \<Rightarrow> gerr + usage_db" where
  "insert_weekly row d =
     (if map_of (ud_weekly d) (fst row) \<noteq> None then constraint_failed ''user_weekly_usage.user_email''
      else Inr (d\<lparr>ud_weekly := ud_weekly d @ [row]\<rparr>))"

record rebuild_result =
  rb_Backfilled :: bool
  rb_Events :: int
  rb_Counters :: int

definition rebuildWeeklyUsage :: "env \<Rightarrow> location \<Rightarrow> (usage_db, rebuild_result) stx" where
  "rebuildWeeklyUsage env loc =
     then_tx (query env ''usage_events'' ''read events for weekly usage rebuild: '' (\<lambda>d. sort_key fst (ud_events d))) (\<lambda>rows.
     let counters = fold (count_event loc \<circ> snd) rows []
     in then_tx (exec env ''user_weekly_usage'' ''clear materialized weekly usage: '' (\<lambda>d. d\<lparr>ud_weekly := []\<rparr>)) (\<lambda>_.
        then_tx (each_tx (\<lambda>c. exec_checked env ''user_weekly_usage'' ''write rebuilt weekly usage: ''
            (insert_weekly (rebuilt_row (unix_of (ev_now env)) c))) (sort_slice week_key_less counters)) (\<lambda>_.
        then_tx (ingest_markers env ''write weekly usage rebuild marker: '' (if rows = [] then 0 else fst (last rows))) (\<lambda>_.
        ok_tx \<lparr>rb_Backfilled = False, rb_Events = int (length rows), rb_Counters = int (length counters)\<rparr>))))"

definition RebuildWeeklyUsage :: "usage_lib \<Rightarrow> env \<Rightarrow> usage_db \<Rightarrow> (gerr + rebuild_result) \<times> usage_db" where
  "RebuildWeeklyUsage lib env = usage_transaction env ''weekly usage rebuild''
     (then_tx (loadWeekTimezone lib env) (\<lambda>loc.
      then_tx (rebuildWeeklyUsage env loc) (\<lambda>result. ok_tx (result\<lparr>rb_Backfilled := True\<rparr>))))"

definition rebucket :: "int \<Rightarrow> int \<Rightarrow> usage_db \<Rightarrow> usage_db" where
  "rebucket n weekStart d =
     d\<lparr>ud_adjustments := map (\<lambda>(i, a). (i, if i = n then a\<lparr>aj_WeekStartAt := weekStart\<rparr> else a)) (ud_adjustments d)\<rparr>"

text \<open>The unchanged name is committed too, and the error of that commit is returned as it is.\<close>

definition EnsureWeekTimezone :: "usage_lib \<Rightarrow> env \<Rightarrow> string \<Rightarrow> usage_db \<Rightarrow> (gerr + bool) \<times> usage_db" where
  "EnsureWeekTimezone lib env rawTimezone d =
     (let timezone = (if trim_space rawTimezone = [] then defaultWeekTimezone else trim_space rawTimezone)
      in case ul_location lib timezone of
           Inl e \<Rightarrow> (Inl (wrapf (''load weekly usage timezone '' @ quoted timezone @ '': '') e), d)
         | Inr loc \<Rightarrow>
             run_usage env ''begin weekly timezone update: '' (\<lambda>changed e. if changed then wrapf ''commit weekly timezone update: '' e else e)
               (then_tx (query env ''usage_meta'' ''read previous weekly usage timezone: '' (\<lambda>d. mget [] (ud_meta d) weeklyUsageTimezoneKey)) (\<lambda>previous.
                if previous = timezone then ok_tx False
                else then_tx (rebuildWeeklyUsage env loc) (\<lambda>_.
                     then_tx (query env ''user_quota_adjustments'' ''read quota adjustments for timezone update: ''
                        (\<lambda>d. map (\<lambda>(i, a). (i, aj_CreatedAt a)) (ud_adjustments d))) (\<lambda>adjustments.
                     then_tx (each_tx (\<lambda>(i, createdAt). exec env ''user_quota_adjustments'' ''re-bucket quota adjustment: ''
                        (rebucket i (week_start loc createdAt))) adjustments) (\<lambda>_.
                     then_tx (exec env ''usage_meta'' ''write weekly usage timezone: '' (put_meta weeklyUsageTimezoneKey timezone)) (\<lambda>_.
                     ok_tx True)))))) d)"

end
