(* ===== verification/Usage_Quota.thy ===== *)
theory Usage_Quota
  imports Usage_Writer
begin

text \<open>
  Weekly quotas (\<open>internal/usage/writer.go\<close>, \<open>quota_actions.go\<close>): the quota of every user from the counters of the
  week, the personal policy and the adjustments; the scheduled reset of policies; the bulk actions of the
  operator; and the status of the collector.
\<close>

section \<open>The quota of a user\<close>

record user_weekly_quota =
  uq_Period :: string
  uq_Timezone :: string
  uq_WeekStartAt :: int
  uq_WeekEndAt :: int
  uq_LimitTokens :: "int option"
  uq_BaseLimitTokens :: "int option"
  uq_BonusTokens :: int
  uq_UsedTokens :: int
  uq_WeightedUsedTokens :: int
  uq_RawUsedTokens :: int
  uq_UnweightedUsedTokens :: int
  uq_WeightedRawUsedTokens :: int
  uq_UsageResetTokens :: int
  uq_RemainingTokens :: "int option"
  uq_UsedPercent :: "f64 option"
  uq_LimitReached :: bool
  uq_Source :: string
  uq_PolicyMode :: string
  uq_PolicyTokens :: "int option"
  uq_PolicyUpdatedAt :: "int option"
  uq_PolicyUpdatedBy :: "string option"
  uq_PolicyResetAt :: "int option"
  uq_DefaultLimitTokens :: "int option"
  uq_Unlimited :: bool
  uq_SoftLimit :: bool
  uq_QuotaUnit :: string
  uq_AdjustmentCount :: int

definition normalizedEmailSet :: "string list \<Rightarrow> string list" where
  "normalizedEmailSet vals = sort (remdups (filter (\<lambda>e. e \<noteq> []) (map norm_name vals)))"

text \<open>What a batch of users has: its usage rows of the week, its policies in force, its summed adjustments.\<close>

record quota_rows =
  qw_usage :: "(string \<times> int \<times> int) list"
  qw_policies :: "quota_policy gomap"
  qw_adjustments :: "(string \<times> int \<times> int \<times> int) list"

definition policy_active :: "int \<Rightarrow> quota_policy \<Rightarrow> bool" where
  "policy_active now p \<longleftrightarrow> (case qp_ResetAt p of None \<Rightarrow> True | Some t \<Rightarrow> now < t)"

definition user_adjustments :: "int \<Rightarrow> string \<Rightarrow> usage_db \<Rightarrow> adjustment list" where
  "user_adjustments weekStart user d =
     filter (\<lambda>a. aj_WeekStartAt a = weekStart \<and> aj_UserEmail a = user) (map snd (ud_adjustments d))"

definition adjusted :: "string \<Rightarrow> adjustment list \<Rightarrow> int" where
  "adjusted action as = sum_list (map (\<lambda>a. if aj_Action a = action then aj_TokenAmount a else 0) as)"

definition adjustment_row :: "int \<Rightarrow> usage_db \<Rightarrow> string \<Rightarrow> (string \<times> int \<times> int \<times> int) option" where
  "adjustment_row weekStart d user =
     (let as = user_adjustments weekStart user d
      in if as = [] then None else Some (user, adjusted ''bonus'' as, adjusted ''usage_reset'' as, int (length as)))"

definition usage_rows_of :: "int \<Rightarrow> string list \<Rightarrow> usage_db \<Rightarrow> (string \<times> int \<times> int) list" where
  "usage_rows_of weekStart batch d =
     map (\<lambda>(key, r). (fst key, wk_TotalTokens r, wk_WeightedTokens r))
       (filter (\<lambda>(key, _). snd key = weekStart \<and> fst key \<in> set batch) (ud_weekly d))"

text \<open>A query whose rows are scanned into \<open>int64\<close>; \<open>SUM\<close> reports its own overflow.\<close>

definition query_scan :: "env \<Rightarrow> string \<Rightarrow> string \<Rightarrow> gerr \<Rightarrow> ('a \<Rightarrow> bool) \<Rightarrow> (usage_db \<Rightarrow> 'a list) \<Rightarrow> (usage_db, 'a list) stx" where
  "query_scan env table text failure ok f =
     then_tx (query env table text f) (\<lambda>rows. if list_all ok rows then ok_tx rows else fail_tx (wrapf text failure))"

definition ErrSumOverflow :: gerr where "ErrSumOverflow = ErrNew ''SQL logic error: integer overflow''"

function read_quota_rows :: "env \<Rightarrow> int \<Rightarrow> int \<Rightarrow> string list \<Rightarrow> (usage_db, quota_rows) stx" where
  "read_quota_rows env now weekStart users d =
     (if users = [] then Inr (\<lparr>qw_usage = [], qw_policies = [], qw_adjustments = []\<rparr>, d)
      else let batch = take 500 users
           in then_tx (query_scan env ''user_weekly_usage'' ''read weekly usage: '' ErrScan (\<lambda>(_, t, w). in64 t \<and> in64 w)
                (usage_rows_of weekStart batch)) (\<lambda>usage.
              then_tx (query env ''user_quota_policies'' ''read weekly quota policies: ''
                (\<lambda>d. filter (\<lambda>(u, p). u \<in> set batch \<and> policy_active now p) (ud_policies d))) (\<lambda>policies.
              then_tx (query_scan env ''user_quota_adjustments'' ''read weekly quota adjustments: '' ErrSumOverflow (\<lambda>(_, b, r, _). in64 b \<and> in64 r)
                (\<lambda>d. List.map_filter (adjustment_row weekStart d) batch)) (\<lambda>adjustments.
              then_tx (read_quota_rows env now weekStart (drop 500 users)) (\<lambda>rest.
              ok_tx \<lparr>qw_usage = usage @ qw_usage rest, qw_policies = policies @ qw_policies rest,
                     qw_adjustments = adjustments @ qw_adjustments rest\<rparr>)))) d)"
  by pat_completeness auto
termination by (relation "measure (\<lambda>(_, _, _, users, _). length users)") auto

declare read_quota_rows.simps [simp del]

definition used_percent :: "int \<Rightarrow> int \<Rightarrow> f64" where
  "used_percent used limit = f_div (f_round (f_div (f_mul (f_of_int used) (Fin 10000)) (f_of_int limit))) (Fin 100)"

definition user_quota :: "location \<Rightarrow> int \<times> int \<Rightarrow> int option \<Rightarrow> quota_rows \<Rightarrow> string \<Rightarrow> user_weekly_quota" where
  "user_quota loc week dflt rows user =
     (let usage = (case map_of (qw_usage rows) user of Some v \<Rightarrow> v | None \<Rightarrow> (0, 0));
          policy = map_of (qw_policies rows) user;
          adj = (case map_of (qw_adjustments rows) user of Some v \<Rightarrow> v | None \<Rightarrow> (0, 0, 0));
          bonus = fst adj; resets = fst (snd adj);
          baseLimit = (case policy of None \<Rightarrow> dflt | Some p \<Rightarrow> qp_WeeklyTokens p);
          limit = map_option (\<lambda>b. add64 b bonus) baseLimit;
          used = max (sub64 (snd usage) resets) 0
      in \<lparr>uq_Period = ''natural_week'', uq_Timezone = fst loc, uq_WeekStartAt = fst week, uq_WeekEndAt = snd week,
          uq_LimitTokens = limit, uq_BaseLimitTokens = baseLimit, uq_BonusTokens = bonus, uq_UsedTokens = used,
          uq_WeightedUsedTokens = used, uq_RawUsedTokens = fst usage, uq_UnweightedUsedTokens = fst usage,
          uq_WeightedRawUsedTokens = snd usage, uq_UsageResetTokens = resets,
          uq_RemainingTokens = map_option (\<lambda>l. max (sub64 l used) 0) limit,
          uq_UsedPercent = map_option (used_percent used) limit,
          uq_LimitReached = (case limit of None \<Rightarrow> False | Some l \<Rightarrow> l \<le> used),
          uq_Source = (case policy of None \<Rightarrow> ''default''
             | Some p \<Rightarrow> if qp_WeeklyTokens p = None then ''user_unlimited'' else ''user_custom''),
          uq_PolicyMode = (case policy of None \<Rightarrow> ''inherit'' | Some p \<Rightarrow> if qp_WeeklyTokens p = None then ''unlimited'' else ''custom''),
          uq_PolicyTokens = (case policy of None \<Rightarrow> None | Some p \<Rightarrow> qp_WeeklyTokens p),
          uq_PolicyUpdatedAt = map_option qp_UpdatedAt policy, uq_PolicyUpdatedBy = map_option qp_CreatedBy policy,
          uq_PolicyResetAt = (case policy of None \<Rightarrow> None | Some p \<Rightarrow> qp_ResetAt p), uq_DefaultLimitTokens = dflt,
          uq_Unlimited = (limit = None), uq_SoftLimit = True, uq_QuotaUnit = ''weighted_tokens'', uq_AdjustmentCount = snd (snd adj)\<rparr>)"

definition WeeklyQuotas ::
  "usage_lib \<Rightarrow> env \<Rightarrow> string list \<Rightarrow> int option \<Rightarrow> usage_db \<Rightarrow> gerr + user_weekly_quota gomap" where
  "WeeklyQuotas lib env userEmails dflt d =
     (let users = normalizedEmailSet userEmails; now = unix_of (ev_now env)
      in if users = [] then Inr []
         else fst (usage_transaction env ''weekly quota snapshot''
           (then_tx (loadWeekTimezone lib env) (\<lambda>loc.
            let week = naturalWeekBounds loc now
            in then_tx (read_quota_rows env now (fst week) users) (\<lambda>rows.
               ok_tx (map (\<lambda>u. (u, user_quota loc week dflt rows u)) users)))) d))"

section \<open>The reset of personal policies\<close>

record quota_reset_configuration =
  rz_Enabled :: bool
  rz_WeekStartAt :: int
  rz_WeekEndAt :: int
  rz_ExpiredPolicies :: int
  rz_ScheduledPolicies :: int
  rz_CancelledSchedules :: int

definition expired_policy :: "int \<Rightarrow> string \<times> quota_policy \<Rightarrow> bool" where
  "expired_policy now p \<longleftrightarrow> (case qp_ResetAt (snd p) of None \<Rightarrow> False | Some t \<Rightarrow> t \<le> now)"

definition set_reset :: "int option \<Rightarrow> (quota_policy \<Rightarrow> bool) \<Rightarrow> usage_db \<Rightarrow> usage_db" where
  "set_reset time P d = d\<lparr>ud_policies := map (\<lambda>(u, p). (u, if P p then p\<lparr>qp_ResetAt := time\<rparr> else p)) (ud_policies d)\<rparr>"

text \<open>A statement and the number of rows it affects.\<close>

definition exec_counted :: "env \<Rightarrow> string \<Rightarrow> string \<Rightarrow> string \<Rightarrow> (usage_db \<Rightarrow> int) \<Rightarrow> (usage_db \<Rightarrow> usage_db) \<Rightarrow> (usage_db, int) stx" where
  "exec_counted env table text count_text affected f d =
     (let n = affected d in then_tx (exec env table text f) (\<lambda>_. query env table count_text (\<lambda>_. n)) d)"

definition policies_where :: "(quota_policy \<Rightarrow> bool) \<Rightarrow> usage_db \<Rightarrow> int" where
  "policies_where P d = int (length (filter (\<lambda>(_, p). P p) (ud_policies d)))"

definition ConfigurePersonalQuotaReset ::
  "usage_lib \<Rightarrow> env \<Rightarrow> bool \<Rightarrow> bool \<Rightarrow> usage_db \<Rightarrow> (gerr + quota_reset_configuration) \<times> usage_db" where
  "ConfigurePersonalQuotaReset lib env enabled reschedule = usage_transaction env ''quota reset configuration''
     (then_tx (loadWeekTimezone lib env) (\<lambda>loc.
      let now = unix_of (ev_now env); week = naturalWeekBounds loc now;
          result = \<lparr>rz_Enabled = enabled, rz_WeekStartAt = fst week, rz_WeekEndAt = snd week, rz_ExpiredPolicies = 0,
                    rz_ScheduledPolicies = 0, rz_CancelledSchedules = 0\<rparr>
      in then_tx (exec_counted env ''user_quota_policies'' ''delete expired personal quota policies: '' ''read expired personal quota policy count: ''
            (\<lambda>d. int (length (filter (expired_policy now) (ud_policies d))))
            (\<lambda>d. d\<lparr>ud_policies := filter (\<lambda>p. \<not> expired_policy now p) (ud_policies d)\<rparr>)) (\<lambda>expired.
         let result = result\<lparr>rz_ExpiredPolicies := expired\<rparr>
         in if enabled
            then let unscheduled = (\<lambda>p. reschedule \<or> qp_ResetAt p = None)
                 in then_tx (exec_counted env ''user_quota_policies'' ''schedule personal quota policy reset: ''
                      ''read scheduled personal quota policy count: '' (policies_where unscheduled) (set_reset (Some (snd week)) unscheduled)) (\<lambda>n.
                    ok_tx (result\<lparr>rz_ScheduledPolicies := n\<rparr>))
            else let scheduled = (\<lambda>p. qp_ResetAt p \<noteq> None)
                 in then_tx (exec_counted env ''user_quota_policies'' ''cancel personal quota policy reset: ''
                      ''read cancelled personal quota policy count: '' (policies_where scheduled) (set_reset None scheduled)) (\<lambda>n.
                    ok_tx (result\<lparr>rz_CancelledSchedules := n\<rparr>)))))"

section \<open>Bulk actions\<close>

definition maxWeeklyQuotaTokens :: int where "maxWeeklyQuotaTokens = 1000000000000"

definition ErrInvalidQuotaAction :: gerr where "ErrInvalidQuotaAction = Sentinel ''invalid quota action''"
definition ErrQuotaActionUnlimited :: gerr where "ErrQuotaActionUnlimited = Sentinel ''quota action targets an unlimited user''"
definition ErrQuotaActionLimitExceeded :: gerr where
  "ErrQuotaActionLimitExceeded = Sentinel ''quota action exceeds the weekly quota limit''"

record quota_action =
  qa_Action :: string
  qa_Users :: "string list"
  qa_TokenAmount :: int
  qa_Reason :: string
  qa_CreatedBy :: string
  qa_DefaultLimit :: "int option"

record quota_action_result =
  qx_Action :: string
  qx_Applied :: "(string \<times> int) list option"
  qx_AppliedUsers :: "string list"
  qx_SkippedUsers :: "string list"
  qx_TokenAmount :: "int option"
  qx_ActionWeekStartAt :: int
  qx_Reason :: string
  qx_CreatedAt :: int
  qx_ChangedPolicies :: "int option"

text \<open>
  The column \<open>id INTEGER PRIMARY KEY\<close> takes text only if it reads as an integer; SQLite answers any other text
  with a datatype mismatch. The statements give a fresh UUID.
\<close>

definition insert_adjustment :: "string \<Rightarrow> adjustment \<Rightarrow> usage_db \<Rightarrow> gerr + usage_db" where
  "insert_adjustment key a d =
     (case ParseInt64 (sql_trim key) of
        None \<Rightarrow> Inl (ErrNew ''datatype mismatch'')
      | Some n \<Rightarrow>
          if n \<in> fst ` set (ud_adjustments d) then constraint_failed ''user_quota_adjustments.id''
          else if aj_TokenAmount a \<le> 0 then constraint_failed ''token_amount > 0''
          else Inr (d\<lparr>ud_adjustments := ud_adjustments d @ [(n, a)]\<rparr>))"

fun insert_adjustments :: "env \<Rightarrow> string \<Rightarrow> (nat \<Rightarrow> string) \<Rightarrow> nat \<Rightarrow> adjustment list \<Rightarrow> (usage_db, unit) stx" where
  "insert_adjustments env text uuids n [] = ok_tx ()"
| "insert_adjustments env text uuids n (a # as) =
     then_tx (exec_checked env ''user_quota_adjustments'' text (insert_adjustment (uuids n) a)) (\<lambda>_.
     insert_adjustments env text uuids (n + 1) as)"

definition adjustment_of :: "string \<Rightarrow> int \<Rightarrow> int \<Rightarrow> quota_action \<Rightarrow> string \<Rightarrow> int \<Rightarrow> adjustment" where
  "adjustment_of action weekStart now request user amount =
     \<lparr>aj_UserEmail = user, aj_WeekStartAt = weekStart, aj_Action = action, aj_TokenAmount = amount, aj_Reason = qa_Reason request,
      aj_CreatedAt = now, aj_CreatedBy = qa_CreatedBy request\<rparr>"

definition clearQuotaPolicies :: "env \<Rightarrow> string list \<Rightarrow> (usage_db, int) stx" where
  "clearQuotaPolicies env users = exec_counted env ''user_quota_policies'' ''clear quota policies: '' ''count cleared quota policies: ''
     (\<lambda>d. int (length (filter (\<lambda>(u, _). u \<in> set users) (ud_policies d))))
     (\<lambda>d. d\<lparr>ud_policies := filter (\<lambda>(u, _). u \<notin> set users) (ud_policies d)\<rparr>)"

definition summed :: "string \<Rightarrow> int \<Rightarrow> string list \<Rightarrow> usage_db \<Rightarrow> (string \<times> int) list" where
  "summed action weekStart users d =
     map (\<lambda>u. (u, adjusted action (user_adjustments weekStart u d)))
       (filter (\<lambda>u. \<exists>a \<in> set (user_adjustments weekStart u d). aj_Action a = action) users)"

definition check_bonus :: "quota_action \<Rightarrow> quota_policy gomap \<Rightarrow> (string \<times> int) list \<Rightarrow> string \<Rightarrow> gerr option" where
  "check_bonus request policies bonuses user =
     (let baseLimit = (case map_of policies user of Some p \<Rightarrow> qp_WeeklyTokens p | None \<Rightarrow> qa_DefaultLimit request);
          existing = mget 0 bonuses user
      in case baseLimit of
           None \<Rightarrow> Some (ErrWrap [] ErrQuotaActionUnlimited ('': '' @ user))
         | Some b \<Rightarrow>
             if existing < 0 \<or> maxWeeklyQuotaTokens < existing \<or> maxWeeklyQuotaTokens - existing < qa_TokenAmount request \<or>
                maxWeeklyQuotaTokens - existing - qa_TokenAmount request < b
             then Some (ErrWrap [] ErrQuotaActionLimitExceeded ('': '' @ user)) else None)"

fun first_error :: "('x \<Rightarrow> gerr option) \<Rightarrow> 'x list \<Rightarrow> gerr option" where
  "first_error f [] = None"
| "first_error f (x # xs) = (case f x of Some e \<Rightarrow> Some e | None \<Rightarrow> first_error f xs)"

definition addQuotaBonus :: "usage_lib \<Rightarrow> env \<Rightarrow> (nat \<Rightarrow> string) \<Rightarrow> quota_action \<Rightarrow> int \<Rightarrow> (usage_db, quota_action_result) stx" where
  "addQuotaBonus lib env uuids request now =
     then_tx (loadWeekTimezone lib env) (\<lambda>loc.
     let weekStart = week_start loc now; users = qa_Users request
     in then_tx (query env ''user_quota_policies'' ''read quota action policies: ''
          (\<lambda>d. filter (\<lambda>(u, p). u \<in> set users \<and> policy_active now p) (ud_policies d))) (\<lambda>policies.
        then_tx (query_scan env ''user_quota_adjustments'' ''read quota bonuses: '' ErrSumOverflow (\<lambda>(_, t). in64 t)
          (summed ''bonus'' weekStart users)) (\<lambda>bonuses.
        then_tx (case first_error (check_bonus request policies bonuses) users of Some e \<Rightarrow> fail_tx e | None \<Rightarrow> ok_tx ()) (\<lambda>_.
        then_tx (insert_adjustments env ''insert quota bonus: '' uuids 0
          (map (\<lambda>u. adjustment_of ''bonus'' weekStart now request u (qa_TokenAmount request)) users)) (\<lambda>_.
        ok_tx \<lparr>qx_Action = ''bonus'', qx_Applied = None, qx_AppliedUsers = users, qx_SkippedUsers = [],
               qx_TokenAmount = Some (qa_TokenAmount request), qx_ActionWeekStartAt = weekStart, qx_Reason = qa_Reason request,
               qx_CreatedAt = now, qx_ChangedPolicies = None\<rparr>)))))"

definition resetQuotaUsage :: "usage_lib \<Rightarrow> env \<Rightarrow> (nat \<Rightarrow> string) \<Rightarrow> quota_action \<Rightarrow> int \<Rightarrow> (usage_db, quota_action_result) stx" where
  "resetQuotaUsage lib env uuids request now =
     then_tx (loadWeekTimezone lib env) (\<lambda>loc.
     let weekStart = week_start loc now; users = qa_Users request
     in then_tx (query_scan env ''user_weekly_usage'' ''read weekly usage for reset: '' ErrScan (\<lambda>(_, t). in64 t)
          (\<lambda>d. map (\<lambda>(u, _, w). (u, w)) (usage_rows_of weekStart users d))) (\<lambda>usage.
        then_tx (query_scan env ''user_quota_adjustments'' ''read previous usage resets: '' ErrSumOverflow (\<lambda>(_, t). in64 t)
          (summed ''usage_reset'' weekStart users)) (\<lambda>resets.
        let effective = (\<lambda>u. max (sub64 (mget 0 usage u) (mget 0 resets u)) 0);
            applied = map (\<lambda>u. (u, effective u)) (filter (\<lambda>u. effective u \<noteq> 0) users)
        in then_tx (insert_adjustments env ''insert weekly usage reset: '' uuids 0
             (map (\<lambda>(u, n). adjustment_of ''usage_reset'' weekStart now request u n) applied)) (\<lambda>_.
           ok_tx \<lparr>qx_Action = ''usage_reset'', qx_Applied = Some applied, qx_AppliedUsers = map fst applied,
                  qx_SkippedUsers = filter (\<lambda>u. effective u = 0) users,
                  qx_TokenAmount = Some (foldl add64 0 (map snd applied)), qx_ActionWeekStartAt = weekStart,
                  qx_Reason = qa_Reason request, qx_CreatedAt = now, qx_ChangedPolicies = None\<rparr>))))"

lemma trim_with_less: "trim_with p q r s \<noteq> s \<Longrightarrow> length (trim_with p q r s) < length s"
proof (induction p q r s rule: trim_with.induct)
  case (4 p q r a b c s)
  have "length (trim_with p q r (b # c # s)) \<le> length (b # c # s)" "length (trim_with p q r (c # s)) \<le> length (c # s)"
    "length (trim_with p q r s) \<le> length s" by (rule length_trim_with)+
  with 4(4) show ?case by (auto split: if_splits)
qed (auto split: if_splits)

text \<open>\<open>strings.Fields\<close>: the maximal runs without spaces.\<close>

function fields_from :: "string \<Rightarrow> string \<Rightarrow> string list" where
  "fields_from acc [] = (if acc = [] then [] else [acc])"
| "fields_from acc (c # s) =
     (if trim_left (c # s) \<noteq> c # s then (if acc = [] then [] else [acc]) @ fields_from [] (trim_left (c # s))
      else fields_from (acc @ [c]) s)"
  by pat_completeness auto

termination by (relation "measure (\<lambda>(_, s). length s)") (auto simp: trim_left_def dest: trim_with_less)

definition Fields :: "string \<Rightarrow> string list" where "Fields s = fields_from [] s"

definition normalized_action :: "quota_action \<Rightarrow> quota_action" where
  "normalized_action request =
     (let action = norm_name (qa_Action request)
      in request\<lparr>qa_Action := action, qa_CreatedBy := trim_space (qa_CreatedBy request), qa_Users := normalizedEmailSet (qa_Users request),
           qa_Reason := if action = ''restore_default'' then qa_Reason request else join_with '' '' (Fields (qa_Reason request))\<rparr>)"

definition action_invalid :: "quota_action \<Rightarrow> bool" where
  "action_invalid request \<longleftrightarrow>
     qa_Users request = [] \<or> qa_CreatedBy request = [] \<or>
     (case qa_DefaultLimit request of None \<Rightarrow> False | Some l \<Rightarrow> l \<le> 0 \<or> maxWeeklyQuotaTokens < l) \<or>
     qa_Action request \<notin> set [''restore_default'', ''add_bonus'', ''reset_usage''] \<or>
     (qa_Action request = ''add_bonus'' \<and> (qa_TokenAmount request \<le> 0 \<or> maxWeeklyQuotaTokens < qa_TokenAmount request)) \<or>
     (qa_Action request \<noteq> ''restore_default'' \<and> (qa_Reason request = [] \<or> 200 < length (runes (qa_Reason request))))"

definition restored_default :: "quota_action \<Rightarrow> int \<Rightarrow> quota_action_result" where
  "restored_default request changed =
     \<lparr>qx_Action = ''restore_default'', qx_Applied = None, qx_AppliedUsers = qa_Users request, qx_SkippedUsers = [], qx_TokenAmount = None,
      qx_ActionWeekStartAt = 0, qx_Reason = [], qx_CreatedAt = 0, qx_ChangedPolicies = Some changed\<rparr>"

definition ApplyQuotaAction ::
  "usage_lib \<Rightarrow> env \<Rightarrow> (nat \<Rightarrow> string) \<Rightarrow> quota_action \<Rightarrow> usage_db \<Rightarrow> (gerr + quota_action_result) \<times> usage_db" where
  "ApplyQuotaAction lib env uuids rawRequest d =
     (let request = normalized_action rawRequest; now = unix_of (ev_now env)
      in if action_invalid request then (Inl ErrInvalidQuotaAction, d)
         else usage_transaction env ''quota action''
           (if qa_Action request = ''restore_default''
            then then_tx (clearQuotaPolicies env (qa_Users request)) (\<lambda>changed. ok_tx (restored_default request changed))
            else if qa_Action request = ''add_bonus'' then addQuotaBonus lib env uuids request now
            else resetQuotaUsage lib env uuids request now) d)"

section \<open>The collector's status\<close>

record collector_status =
  cst_Status :: string
  cst_HeartbeatAt :: int
  cst_LastError :: string
  cst_EventCount :: int
  cst_CollectionStartedAt :: int
  cst_UsageBreakdownStartedAt :: int
  cst_LastEventAt :: int

definition truncateRunes :: "string \<Rightarrow> nat \<Rightarrow> string" where
  "truncateRunes value limit =
     (if limit = 0 then [] else if length (runes value) \<le> limit then value else bounded_runes limit value)"

definition UpdateCollectorStatus :: "env \<Rightarrow> string \<Rightarrow> usage_db \<Rightarrow> (gerr + unit) \<times> usage_db" where
  "UpdateCollectorStatus env lastError = usage_transaction env ''collector status update''
     (then_tx (exec env ''usage_meta'' ''write collector status: '' (put_meta ''collector_heartbeat_at'' (itoa (unix_of (ev_now env))))) (\<lambda>_.
      exec env ''usage_meta'' ''write collector status: '' (put_meta ''collector_last_error'' (truncateRunes lastError 500))))"

definition parseNonNegativeInt :: "string \<Rightarrow> int" where
  "parseNonNegativeInt value = (case ParseInt64 (trim_space value) of None \<Rightarrow> 0 | Some n \<Rightarrow> max n 0)"

definition loadCollectorStatus :: "env \<Rightarrow> usage_db \<Rightarrow> gerr + collector_status" where
  "loadCollectorStatus env d =
     and_then (attempt env (SqlRead ''usage_meta'' []) ''read collector metadata: '' (ud_meta d)) (\<lambda>meta.
     and_then (attempt env (SqlRead ''usage_events'' []) ''read collector event status: '' (map (ue_OccurredAt \<circ> snd) (ud_events d))) (\<lambda>times.
     let heartbeat = parseNonNegativeInt (mget [] meta ''collector_heartbeat_at''); lastError = mget [] meta ''collector_last_error''
     in Inr \<lparr>cst_Status = if 0 < heartbeat
               then if sub64 (unix_of (ev_now env)) heartbeat \<le> 15 \<and> lastError = [] then ''healthy'' else ''degraded'' else ''starting'',
             cst_HeartbeatAt = heartbeat, cst_LastError = lastError, cst_EventCount = int (length times),
             cst_CollectionStartedAt = (case times of [] \<Rightarrow> 0 | t # ts \<Rightarrow> fold min ts t),
             cst_UsageBreakdownStartedAt = parseNonNegativeInt (mget [] meta breakdownStartedAtKey),
             cst_LastEventAt = (case times of [] \<Rightarrow> 0 | t # ts \<Rightarrow> fold max ts t)\<rparr>))"

end
