(* ===== verification/Usage_Portal.thy ===== *)
theory Usage_Portal
  imports Usage_Quota
begin

text \<open>
  What the self-service portal keeps in the usage database (\<open>internal/usage/portal_store.go\<close>): its sessions,
  its credentials and the personal quota policies; and the wrappers that let these writes, and those of the
  collector, happen only under the ownership fence of the control plane (\<open>fenced_portal.go\<close>,
  \<open>internal/collector/fenced_writer.go\<close>). Opening and validating the database are files and DDL.
\<close>

section \<open>Tokens\<close>

text \<open>\<open>base64.RawURLEncoding\<close>, and the token made of the 32 bytes that \<open>crypto/rand\<close> gives.\<close>

definition base64_url_char :: "nat \<Rightarrow> char" where
  "base64_url_char n = ''ABCDEFGHIJKLMNOPQRSTUVWXYZabcdefghijklmnopqrstuvwxyz0123456789-_'' ! (n mod 64)"

fun base64_url :: "nat list \<Rightarrow> string" where
  "base64_url (a # b # c # bs) =
     map base64_url_char [a div 4, a mod 4 * 16 + b div 16, b mod 16 * 4 + c div 64, c mod 64] @ base64_url bs"
| "base64_url [a, b] = map base64_url_char [a div 4, a mod 4 * 16 + b div 16, b mod 16 * 4]"
| "base64_url [a] = map base64_url_char [a div 4, a mod 4 * 16]"
| "base64_url [] = []"

definition randomPortalToken :: "gerr + string \<Rightarrow> gerr + string" where
  "randomPortalToken draw =
     (case draw of Inl e \<Rightarrow> Inl (wrapf ''generate portal session token: '' e)
      | Inr raw \<Rightarrow> Inr (base64_url (map of_char raw)))"

definition portalTokenHash :: "string \<Rightarrow> string" where
  "portalTokenHash token = (if trim_space token = [] then [] else sha256_hex (trim_space token))"

section \<open>Sessions\<close>

definition ErrPortalSessionNotFound :: gerr where "ErrPortalSessionNotFound = Sentinel ''portal session not found''"
definition ErrPortalCredentialNotFound :: gerr where "ErrPortalCredentialNotFound = Sentinel ''portal credential not found''"

definition clean_sessions :: "int \<Rightarrow> usage_db \<Rightarrow> usage_db" where
  "clean_sessions now d = d\<lparr>ud_sessions := filter (\<lambda>(_, s). \<not> pt_ExpiresAt s \<le> now) (ud_sessions d)\<rparr>"

definition insert_session :: "string \<Rightarrow> portal_session \<Rightarrow> usage_db \<Rightarrow> gerr + usage_db" where
  "insert_session digest s d =
     (if map_of (ud_sessions d) digest \<noteq> None then constraint_failed ''portal_sessions.session_hash''
      else Inr (d\<lparr>ud_sessions := ud_sessions d @ [(digest, s)]\<rparr>))"

text \<open>The result is the token, the user and the expiry. A duration is in nanoseconds.\<close>

definition CreateSession ::
  "env \<Rightarrow> gerr + string \<Rightarrow> string \<Rightarrow> int \<Rightarrow> usage_db \<Rightarrow> (gerr + string \<times> string \<times> int) \<times> usage_db" where
  "CreateSession env draw rawUser ttl d =
     (let user = norm_name rawUser
      in if user = [] then (Inl (ErrNew ''portal session user is required''), d)
         else if ttl \<le> 0 \<or> 30 * 24 * 3600 * second < ttl then (Inl (ErrNew ''portal session TTL is invalid''), d)
         else (case randomPortalToken draw of Inl e \<Rightarrow> (Inl e, d)
         | Inr token \<Rightarrow>
           let now = unix_of (ev_now env); expiresAt = add64 now (ttl div second)
           in usage_transaction env ''portal session creation''
             (then_tx (exec env ''portal_sessions'' ''clean expired portal sessions: '' (clean_sessions now)) (\<lambda>_.
              then_tx (exec_checked env ''portal_sessions'' ''create portal session: '' (insert_session (portalTokenHash token)
                \<lparr>pt_UserEmail = user, pt_CreatedAt = now, pt_ExpiresAt = expiresAt\<rparr>)) (\<lambda>_.
              ok_tx (token, user, expiresAt)))) d))"

definition ResolveSession :: "env \<Rightarrow> string \<Rightarrow> usage_db \<Rightarrow> gerr + string \<times> int" where
  "ResolveSession env token d =
     (let digest = portalTokenHash token
      in if digest = [] then Inl ErrPortalSessionNotFound
         else and_then (attempt env (SqlRead ''portal_sessions'' []) ''resolve portal session: ''
             (case map_of (ud_sessions d) digest of
                Some s \<Rightarrow> if unix_of (ev_now env) < pt_ExpiresAt s then Some (sql_norm (pt_UserEmail s), pt_ExpiresAt s) else None
              | None \<Rightarrow> None)) (\<lambda>row.
           case row of None \<Rightarrow> Inl ErrPortalSessionNotFound | Some s \<Rightarrow> Inr s))"

text \<open>One statement outside a transaction: it fails or takes effect.\<close>

definition run_statement :: "(usage_db, unit) stx \<Rightarrow> usage_db \<Rightarrow> (gerr + unit) \<times> usage_db" where
  "run_statement f d = (case f d of Inl e \<Rightarrow> (Inl e, d) | Inr (x, d') \<Rightarrow> (Inr x, d'))"

definition drop_sessions :: "(string \<times> portal_session \<Rightarrow> bool) \<Rightarrow> usage_db \<Rightarrow> usage_db" where
  "drop_sessions P d = d\<lparr>ud_sessions := filter (\<lambda>s. \<not> P s) (ud_sessions d)\<rparr>"

definition RevokeSession :: "env \<Rightarrow> string \<Rightarrow> usage_db \<Rightarrow> (gerr + unit) \<times> usage_db" where
  "RevokeSession env token d =
     (let digest = portalTokenHash token
      in if digest = [] then (Inr (), d)
         else run_statement (exec env ''portal_sessions'' ''revoke portal session: '' (drop_sessions (\<lambda>(h, _). h = digest))) d)"

section \<open>Credentials\<close>

definition Credential :: "env \<Rightarrow> string \<Rightarrow> usage_db \<Rightarrow> gerr + portal_credential" where
  "Credential env user d =
     and_then (attempt env (SqlRead ''portal_credentials'' []) ''read portal credential: ''
         (find (\<lambda>(u, _). sql_norm u = norm_name user) (ud_credentials d))) (\<lambda>row.
     case row of None \<Rightarrow> Inl ErrPortalCredentialNotFound | Some (_, c) \<Rightarrow> Inr c)"

definition put_credential :: "int \<Rightarrow> string \<Rightarrow> string \<Rightarrow> bool \<Rightarrow> usage_db \<Rightarrow> usage_db" where
  "put_credential now user passwordHash mustChange d =
     d\<lparr>ud_credentials := mput user
        (case map_of (ud_credentials d) user of
           Some c \<Rightarrow> c\<lparr>cr_PasswordHash := passwordHash, cr_MustChange := mustChange, cr_UpdatedAt := now\<rparr>
         | None \<Rightarrow> \<lparr>cr_PasswordHash = passwordHash, cr_MustChange = mustChange, cr_CreatedAt = now, cr_UpdatedAt = now\<rparr>)
        (ud_credentials d)\<rparr>"

text \<open>The credential is read back after the commit; a failure of that read is an error of the whole call.\<close>

definition SetCredential ::
  "env \<Rightarrow> string \<Rightarrow> string \<Rightarrow> bool \<Rightarrow> string \<Rightarrow> usage_db \<Rightarrow> (gerr + portal_credential) \<times> usage_db" where
  "SetCredential env rawUser rawHash mustChange keepSessionToken d =
     (let user = norm_name rawUser; passwordHash = trim_space rawHash; keepDigest = portalTokenHash keepSessionToken
      in if user = [] \<or> passwordHash = [] then (Inl (ErrNew ''portal credential user and password hash are required''), d)
         else (case usage_transaction env ''portal credential update''
             (then_tx (exec env ''portal_credentials'' ''update portal credential: ''
                 (put_credential (unix_of (ev_now env)) user passwordHash mustChange)) (\<lambda>_.
              exec env ''portal_sessions'' ''revoke replaced portal sessions: ''
                 (drop_sessions (\<lambda>(h, s). pt_UserEmail s = user \<and> (keepDigest = [] \<or> h \<noteq> keepDigest))))) d of
           (Inl e, d') \<Rightarrow> (Inl e, d')
         | (Inr _, d') \<Rightarrow> (Credential env user d', d')))"

definition drop_credentials :: "string \<Rightarrow> usage_db \<Rightarrow> usage_db" where
  "drop_credentials user d = d\<lparr>ud_credentials := filter (\<lambda>(u, _). sql_norm u \<noteq> user) (ud_credentials d)\<rparr>"

definition drop_policies :: "string \<Rightarrow> usage_db \<Rightarrow> usage_db" where
  "drop_policies user d = d\<lparr>ud_policies := filter (\<lambda>(u, _). sql_norm u \<noteq> user) (ud_policies d)\<rparr>"

definition deleteUserState :: "env \<Rightarrow> string \<Rightarrow> bool \<Rightarrow> usage_db \<Rightarrow> (gerr + unit) \<times> usage_db" where
  "deleteUserState env rawUser includeQuotaPolicy d =
     (let user = norm_name rawUser
      in if user = [] then (Inl (ErrNew ''portal identity user is required''), d)
         else usage_transaction env ''portal identity deletion''
           (then_tx (exec env ''portal_sessions'' ''delete portal user sessions: '' (drop_sessions (\<lambda>(_, s). sql_norm (pt_UserEmail s) = user))) (\<lambda>_.
            then_tx (exec env ''portal_credentials'' ''delete portal user credential: '' (drop_credentials user)) (\<lambda>_.
            if includeQuotaPolicy then exec env ''user_quota_policies'' ''delete portal user quota policy: '' (drop_policies user)
            else ok_tx ()))) d)"

definition DeleteIdentity :: "env \<Rightarrow> string \<Rightarrow> usage_db \<Rightarrow> (gerr + unit) \<times> usage_db" where
  "DeleteIdentity env user = deleteUserState env user False"

definition DeleteUserState :: "env \<Rightarrow> string \<Rightarrow> usage_db \<Rightarrow> (gerr + unit) \<times> usage_db" where
  "DeleteUserState env user = deleteUserState env user True"

section \<open>Personal quotas\<close>

definition ClearQuotaPolicy :: "env \<Rightarrow> string \<Rightarrow> usage_db \<Rightarrow> (gerr + unit) \<times> usage_db" where
  "ClearQuotaPolicy env rawUser d =
     (let user = norm_name rawUser
      in if user = [] then (Inl (ErrNew ''quota policy user is required''), d)
         else run_statement (exec env ''user_quota_policies'' ''clear user quota policy: ''
           (\<lambda>d. d\<lparr>ud_policies := filter (\<lambda>(u, _). u \<noteq> user) (ud_policies d)\<rparr>)) d)"

definition put_policy :: "int \<Rightarrow> string \<Rightarrow> int option \<Rightarrow> string \<Rightarrow> int option \<Rightarrow> usage_db \<Rightarrow> usage_db" where
  "put_policy now user tokens createdBy resetAt d =
     d\<lparr>ud_policies := mput user
        (case map_of (ud_policies d) user of
           Some p \<Rightarrow> p\<lparr>qp_WeeklyTokens := tokens, qp_UpdatedAt := now, qp_CreatedBy := createdBy, qp_ResetAt := resetAt\<rparr>
         | None \<Rightarrow> \<lparr>qp_WeeklyTokens = tokens, qp_CreatedAt = now, qp_UpdatedAt = now, qp_CreatedBy = createdBy, qp_ResetAt = resetAt\<rparr>)
        (ud_policies d)\<rparr>"

definition SetQuotaPolicy ::
  "usage_lib \<Rightarrow> env \<Rightarrow> string \<Rightarrow> string \<Rightarrow> int option \<Rightarrow> bool \<Rightarrow> string \<Rightarrow> usage_db \<Rightarrow> (gerr + unit) \<times> usage_db" where
  "SetQuotaPolicy lib env rawUser rawMode weeklyTokens resetOnNewWeek rawCreatedBy d =
     (let user = norm_name rawUser; mode = norm_name rawMode; createdBy = trim_space rawCreatedBy; now = unix_of (ev_now env)
      in if user = [] \<or> createdBy = [] then (Inl (ErrNew ''quota policy user and actor are required''), d)
         else if mode = ''inherit'' then ClearQuotaPolicy env user d
         else if mode \<noteq> ''unlimited'' \<and> mode \<noteq> ''custom''
         then (Inl (ErrNew ''quota policy mode must be inherit, unlimited, or custom''), d)
         else if mode = ''custom'' \<and> (case weeklyTokens of None \<Rightarrow> True | Some n \<Rightarrow> n \<le> 0 \<or> maxWeeklyQuotaTokens < n)
         then (Inl (ErrNew ''custom weekly quota must be between 1 and 1000000000000''), d)
         else usage_transaction env ''quota policy update''
           (then_tx (if resetOnNewWeek
                     then then_tx (loadWeekTimezone lib env) (\<lambda>loc. ok_tx (Some (snd (naturalWeekBounds loc now)))) else ok_tx None) (\<lambda>resetAt.
            exec env ''user_quota_policies'' ''update user quota policy: ''
              (put_policy now user (if mode = ''unlimited'' then None else weeklyTokens) createdBy resetAt))) d)"

definition WeeklyQuota :: "usage_lib \<Rightarrow> env \<Rightarrow> string \<Rightarrow> int option \<Rightarrow> usage_db \<Rightarrow> gerr + user_weekly_quota" where
  "WeeklyQuota lib env rawUser default_limit d =
     (let user = norm_name rawUser
      in if user = [] then Inl (ErrNew ''weekly quota user is required'')
         else and_then (WeeklyQuotas lib env [user] default_limit d) (\<lambda>quotas.
           case map_of quotas user of None \<Rightarrow> Inl (ErrNew ''weekly quota result is missing'') | Some q \<Rightarrow> Inr q))"

text \<open>The newest first.\<close>

definition newer_adjustment :: "int \<times> adjustment \<Rightarrow> int \<times> adjustment \<Rightarrow> bool" where
  "newer_adjustment l r \<longleftrightarrow> aj_CreatedAt (snd r) < aj_CreatedAt (snd l) \<or>
     (aj_CreatedAt (snd l) = aj_CreatedAt (snd r) \<and> fst r < fst l)"

definition QuotaAdjustmentHistory :: "usage_lib \<Rightarrow> env \<Rightarrow> string \<Rightarrow> int \<Rightarrow> usage_db \<Rightarrow> gerr + adjustment list" where
  "QuotaAdjustmentHistory lib env rawUser rawLimit d =
     (let user = norm_name rawUser; limit = min (if rawLimit \<le> 0 then 20 else rawLimit) 100
      in if user = [] then Inl (ErrNew ''quota adjustment user is required'')
         else fst (usage_transaction env ''quota adjustment history''
           (then_tx (loadWeekTimezone lib env) (\<lambda>loc.
            query env ''user_quota_adjustments'' ''read quota adjustment history: '' (\<lambda>d.
              map snd (take (nat limit) (sort_slice newer_adjustment
                (filter (\<lambda>(_, a). aj_UserEmail a = user \<and> aj_WeekStartAt a = week_start loc (unix_of (ev_now env))) (ud_adjustments d))))))) d))"

section \<open>Writes under the fence\<close>

text \<open>
  Every write of the portal and of the collector, to the database or to a published file, goes through \<open>withFencedResult\<close> (\<open>withPortalFence\<close> is the same
  function), the fence being the control plane's: its environment \<open>fenv\<close>, its leases \<open>fence\<close> and its state \<open>c\<close>.
  A write without a result is the case of the unit type.
\<close>

definition withFencedResult ::
  "fence \<Rightarrow> env \<Rightarrow> db \<Rightarrow> ('s \<Rightarrow> (gerr + 'a) \<times> 's) \<Rightarrow> 's \<Rightarrow> (gerr + 'a) \<times> 's" where
  "withFencedResult fence fenv c operation d =
     (case WithWriteFence fence fenv (Some (\<lambda>(_, d).
          (case operation d of (Inl e, d') \<Rightarrow> (Some e, None, d') | (Inr x, d') \<Rightarrow> (None, Some x, d')))) c (None, d) of
        (Some e, _, d') \<Rightarrow> (Inl e, d')
      | (None, Some x, d') \<Rightarrow> (Inr x, d')
      | (None, None, d') \<Rightarrow> (Inl (ErrNew []), d'))"

end
