(* ===== verification/Usage_Proofs.thy ===== *)
theory Usage_Proofs
  imports Usage_Portal Row_Proofs
begin

text \<open>
  What the usage database promises: the weekly counters beside the events are the sums of the events, in every
  state the writer's operations reach; a rebuild computes what the ingestion has counted; a delivery repeated
  counts once; and weeks partition time.
\<close>

section \<open>Steps on the usage database\<close>

lemma run_usage_outcome:
  obtains r where "run_usage env text ce f d = (r, d)"
  | x d' where "f d = Inr (x, d')" "run_usage env text ce f d = (Inr x, d')"
  by (cases "attempt env TxBegin text ()"; cases "f d"; cases "ev_fault env TxCommit") (auto simp: run_usage_def)

lemma run_usage_calm: "calm env \<Longrightarrow> run_usage env msg ce f d = (case f d of Inl e \<Rightarrow> (Inl e, d) | Inr (x, d') \<Rightarrow> (Inr x, d'))"
  by (auto simp: run_usage_def calm_def split: sum.splits)

lemma run_usage_success: "run_usage env text ce f d = (Inr x, d') \<Longrightarrow> f d = Inr (x, d')"
  by (auto simp: run_usage_def split: sum.splits option.splits)

lemma run_usage_failure: "run_usage env text ce f d = (Inl e, d') \<Longrightarrow> d' = d"
  by (auto simp: run_usage_def split: sum.splits option.splits)

lemma keeps_run_usage: "keeps I f \<Longrightarrow> I d \<Longrightarrow> I (snd (run_usage env msg ce f d))"
  by (cases rule: run_usage_outcome [of env msg ce f d]) (auto simp: keeps_def)

lemma keeps_usage_transaction: "keeps I f \<Longrightarrow> I d \<Longrightarrow> I (snd (usage_transaction env text f d))"
  unfolding usage_transaction_def by (rule keeps_run_usage)

lemma keeps_query_scan [keeps]: "keeps I (query_scan env table text e ok f)"
  unfolding query_scan_def by (intro keeps)

section \<open>The time zone of the weeks\<close>

definition week_zone :: "usage_db \<Rightarrow> string" where
  "week_zone d = (case map_of (ud_meta d) weeklyUsageTimezoneKey of
     Some s \<Rightarrow> if trim_space s = [] then defaultWeekTimezone else trim_space s | None \<Rightarrow> defaultWeekTimezone)"

abbreviation week_location :: "usage_lib \<Rightarrow> usage_db \<Rightarrow> gerr + location" where
  "week_location lib d \<equiv> ul_location lib (week_zone d)"

lemma loadWeekTimezone_iff [tx]: "loadWeekTimezone lib env d = Inr (loc, d') \<longleftrightarrow>
    ev_fault env (SqlRead ''usage_meta'' ''read weekly usage timezone: '') = None \<and> week_location lib d = Inr loc \<and> d' = d"
proof -
  have "loadWeekTimezone lib env = then_tx (query env ''usage_meta'' ''read weekly usage timezone: '' week_zone)
      (\<lambda>name. case ul_location lib name of
           Inl e \<Rightarrow> fail_tx (wrapf (''load weekly usage timezone '' @ quoted name @ '': '') e)
         | Inr loc \<Rightarrow> ok_tx loc)"
    by (auto simp: loadWeekTimezone_def then_tx_def query_def fun_eq_iff week_zone_def Let_def split: option.splits)
  then show ?thesis by (auto simp: tx split: sum.splits)
qed

lemma keeps_loadWeekTimezone [keeps]: "keeps I (loadWeekTimezone lib env)"
  by (auto simp: keeps_def tx)

section \<open>The books\<close>

text \<open>The events of a user in a week, what they add up to, and the counters that are to agree with them.\<close>

definition week_of :: "location \<Rightarrow> usage_event \<Rightarrow> week_key" where
  "week_of loc e = (ue_UserEmail e, week_start loc (ue_OccurredAt e))"

definition events_in :: "location \<Rightarrow> usage_db \<Rightarrow> week_key \<Rightarrow> usage_event list" where
  "events_in loc d key = filter (\<lambda>e. week_of loc e = key) (map snd (ud_events d))"

definition summed_up :: "usage_event list \<Rightarrow> counter_value" where
  "summed_up es = (sum_list (map ue_TotalTokens es), sum_list (map legacy_weighted es), int (length es))"

definition counter_of :: "usage_db \<Rightarrow> week_key \<Rightarrow> counter_value option" where
  "counter_of d key = map_option (\<lambda>r. (wk_TotalTokens r, wk_WeightedTokens r, wk_RequestCount r)) (map_of (ud_weekly d) key)"

definition expected_counter :: "location \<Rightarrow> usage_db \<Rightarrow> week_key \<Rightarrow> counter_value option" where
  "expected_counter loc d key = (let es = events_in loc d key in if es = [] then None else Some (summed_up es))"

definition counters_match :: "location \<Rightarrow> usage_db \<Rightarrow> bool" where
  "counters_match loc d \<longleftrightarrow> (\<forall>key. counter_of d key = expected_counter loc d key)"

definition event_log_ok :: "usage_db \<Rightarrow> bool" where
  "event_log_ok d \<longleftrightarrow> sorted_wrt (<) (map fst (ud_events d)) \<and> distinct (map (ue_EventKey \<circ> snd) (ud_events d))"

definition ledger :: "usage_lib \<Rightarrow> usage_db \<Rightarrow> bool" where
  "ledger lib d \<longleftrightarrow> event_log_ok d \<and> distinct (map fst (ud_weekly d)) \<and>
     (\<forall>loc. week_location lib d = Inr loc \<longrightarrow> counters_match loc d)"

text \<open>The events are few and small enough for sums of 64 bits.\<close>

definition small_log :: "usage_event list \<Rightarrow> bool" where
  "small_log es \<longleftrightarrow> sum_list (map (abs \<circ> ue_TotalTokens) es) < 2 ^ 63 \<and> sum_list (map (abs \<circ> legacy_weighted) es) < 2 ^ 63 \<and>
     int (length es) < 2 ^ 63"

definition within_int64 :: "usage_db \<Rightarrow> bool" where
  "within_int64 d \<longleftrightarrow> small_log (map snd (ud_events d))"

lemma sum_abs_nonneg: "0 \<le> sum_list (map (abs \<circ> f) es)" for f :: "'a \<Rightarrow> int"
  by (induction es) auto

lemma sum_filter_bound: "\<bar>sum_list (map f (filter P es))\<bar> \<le> sum_list (map (abs \<circ> f) es)" for f :: "'a \<Rightarrow> int"
  by (induction es) auto

lemma small_log_append: "small_log (es @ fs) \<Longrightarrow> small_log es"
  using sum_abs_nonneg [of ue_TotalTokens fs] sum_abs_nonneg [of legacy_weighted fs] by (auto simp: small_log_def)

lemma small_in64:
  assumes "small_log es"
  shows "in64 (sum_list (map ue_TotalTokens (filter P es)))" "in64 (sum_list (map legacy_weighted (filter P es)))"
    "in64 (int (length (filter P es)))"
  using assms sum_filter_bound [of ue_TotalTokens P es] sum_filter_bound [of legacy_weighted P es] length_filter_le [of P es]
  unfolding small_log_def in64_def by linarith+

section \<open>Rebuilding\<close>

lemma count_event_map_of:
  "map_of (count_event loc e cs) key =
     (if key = week_of loc e
      then Some (case map_of cs key of
         Some (raw, weighted, n) \<Rightarrow> (add64 raw (ue_TotalTokens e), add64 weighted (legacy_weighted e), add64 n 1)
       | None \<Rightarrow> (add64 0 (ue_TotalTokens e), add64 0 (legacy_weighted e), add64 0 1))
      else map_of cs key)"
  by (auto simp: count_event_def week_of_def Let_def update_conv' split: option.splits prod.splits)

lemma count_event_distinct: "distinct (map fst cs) \<Longrightarrow> distinct (map fst (count_event loc e cs))"
  by (simp add: count_event_def Let_def distinct_update)

lemma counted_distinct: "distinct (map fst cs) \<Longrightarrow> distinct (map fst (fold (count_event loc) es cs))"
  by (induction es arbitrary: cs) (simp_all add: count_event_distinct)

lemma counted:
  assumes "small_log es"
  shows "map_of (fold (count_event loc) es []) key =
    (let fs = filter (\<lambda>e. week_of loc e = key) es in if fs = [] then None else Some (summed_up fs))"
  using assms
proof (induction es rule: rev_induct)
  case (snoc e es)
  let ?P = "\<lambda>e. week_of loc e = key"
  note IH = snoc.IH [OF small_log_append [OF snoc.prems]]
  note range = small_in64 [OF snoc.prems, of ?P]
  show ?case
  proof (cases "?P e")
    case True
    show ?thesis
      using range True by (cases "filter ?P es = []") (simp_all add: count_event_map_of IH Let_def summed_up_def add.commute)
  next
    case False
    then show ?thesis by (auto simp: count_event_map_of IH Let_def)
  qed
qed simp

lemma insert_weekly_iff: "insert_weekly row d = Inr d' \<longleftrightarrow>
    map_of (ud_weekly d) (fst row) = None \<and> d' = d\<lparr>ud_weekly := ud_weekly d @ [row]\<rparr>"
  by (auto simp: insert_weekly_def constraint_failed_def)

lemma insert_weekly_rows:
  assumes "each_tx (\<lambda>c. exec_checked env table text (insert_weekly (f c))) cs d = Inr (u, d')" "distinct (map fst (ud_weekly d))"
  shows "d' = d\<lparr>ud_weekly := ud_weekly d @ map f cs\<rparr> \<and> distinct (map fst (ud_weekly d @ map f cs))"
  using assms
proof (induction cs arbitrary: d)
  case (Cons c cs)
  then obtain d1 where d1: "map_of (ud_weekly d) (fst (f c)) = None" "d1 = d\<lparr>ud_weekly := ud_weekly d @ [f c]\<rparr>"
    "each_tx (\<lambda>c. exec_checked env table text (insert_weekly (f c))) cs d1 = Inr (u, d')"
    by (auto simp: tx insert_weekly_iff)
  then have "distinct (map fst (ud_weekly d1))" using Cons.prems(2) by (auto simp: map_of_eq_None_iff)
  from Cons.IH [OF d1(3) this] show ?case by (simp add: d1(2))
qed (simp add: tx)

lemma put_meta_fields [simp]:
  "ud_identities (put_meta k v d) = ud_identities d" "ud_events (put_meta k v d) = ud_events d"
  "ud_weekly (put_meta k v d) = ud_weekly d" "ud_policies (put_meta k v d) = ud_policies d"
  "ud_adjustments (put_meta k v d) = ud_adjustments d" "ud_meta (put_meta k v d) = mput k v (ud_meta d)"
  by (simp_all add: put_meta_def)

lemma week_zone_put_meta [simp]: "k \<noteq> weeklyUsageTimezoneKey \<Longrightarrow> week_zone (put_meta k v d) = week_zone d"
  by (simp add: week_zone_def)

lemma marker_keys [simp]: "weeklyUsageBackfillKey \<noteq> weeklyUsageTimezoneKey" "weeklyUsageLastEventIDKey \<noteq> weeklyUsageTimezoneKey"
  "breakdownStartedAtKey \<noteq> weeklyUsageTimezoneKey" "''collector_heartbeat_at'' \<noteq> weeklyUsageTimezoneKey"
  "''collector_last_error'' \<noteq> weeklyUsageTimezoneKey"
  by (simp_all add: weeklyUsageBackfillKey_def weeklyUsageLastEventIDKey_def weeklyUsageTimezoneKey_def breakdownStartedAtKey_def)

lemma ingest_markers_iff: "ingest_markers env text n d = Inr (u, d') \<longleftrightarrow>
    ev_fault env (SqlWrite ''usage_meta'' text) = None \<and>
    d' = put_meta weeklyUsageLastEventIDKey (itoa n) (put_meta weeklyUsageBackfillKey weeklyUsageBackfillVersion d)"
  by (auto simp: ingest_markers_def tx)

lemma map_of_map_snd: "map_of (map (\<lambda>(k, v). (k, f k v)) xs) key = map_option (f key) (map_of xs key)"
  by (induction xs) auto

lemma map_of_mset_eq: "mset xs = mset ys \<Longrightarrow> distinct (map fst xs) \<Longrightarrow> map_of xs = map_of ys"
  by (metis map_of_inject_set mset_eq_imp_distinct_iff mset_map set_mset_mset)

lemma map_fst_rebuilt [simp]: "fst (rebuilt_row now c) = fst c"
  by (simp add: rebuilt_row_def split: prod.split)

lemma map_of_rebuilt: "map_option (\<lambda>r. (wk_TotalTokens r, wk_WeightedTokens r, wk_RequestCount r)) (map_of (map (rebuilt_row now) cs) key) = map_of cs key"
  by (induction cs) (auto simp: rebuilt_row_def)

text \<open>
  A rebuild does not look at the old counters; it leaves every other table as it is, but for the two markers.
\<close>

lemma rebuildWeeklyUsage_effect:
  assumes "rebuildWeeklyUsage env loc d = Inr (r, d')" "event_log_ok d" "small_log (map snd (ud_events d))"
  shows "counters_match loc d'" "distinct (map fst (ud_weekly d'))" "ud_events d' = ud_events d"
    "week_zone d' = week_zone d" "ud_identities d' = ud_identities d" "ud_policies d' = ud_policies d"
    "ud_adjustments d' = ud_adjustments d" "rb_Events r = int (length (ud_events d))"
proof -
  let ?cs = "fold (count_event loc) (map snd (ud_events d)) []"
  let ?rows = "map (rebuilt_row (unix_of (ev_now env))) (sort_slice week_key_less ?cs)"
  have sorted: "sort_key fst (ud_events d) = ud_events d"
    using assms(2) by (auto simp: event_log_ok_def strict_sorted_iff intro: sort_key_id_if_sorted)
  have distinct: "distinct (map fst ?cs)" by (simp add: counted_distinct)
  obtain d2 u1 u2 t1 t2 n where steps:
    "each_tx (\<lambda>c. exec_checked env ''user_weekly_usage'' t1 (insert_weekly (rebuilt_row (unix_of (ev_now env)) c)))
        (sort_slice week_key_less ?cs) (d\<lparr>ud_weekly := []\<rparr>) = Inr (u1, d2)"
    "ingest_markers env t2 n d2 = Inr (u2, d')" "rb_Events r = int (length (ud_events d))"
    using assms(1) unfolding rebuildWeeklyUsage_def
    by (fastforce simp: tx Let_def sorted fold_map comp_def)
  from insert_weekly_rows [OF steps(1)] have d2: "d2 = d\<lparr>ud_weekly := ?rows\<rparr>" "distinct (map fst ?rows)" by simp_all
  from steps(2) have d': "d' = put_meta weeklyUsageLastEventIDKey (itoa n) (put_meta weeklyUsageBackfillKey weeklyUsageBackfillVersion d2)"
    by (simp add: ingest_markers_iff)
  have "mset (sort_slice week_key_less ?cs) = mset ?cs" by simp
  from map_of_mset_eq [OF this [symmetric] distinct]
  have "counter_of d' key = map_of ?cs key" for key
    unfolding counter_of_def d' d2(1) by (simp add: map_of_rebuilt)
  moreover have "expected_counter loc d' key = map_of ?cs key" for key
    unfolding counted [OF assms(3)] expected_counter_def events_in_def d' d2(1) by simp
  ultimately show "counters_match loc d'" by (simp add: counters_match_def)
  show "distinct (map fst (ud_weekly d'))" using d2(2) by (simp add: d' d2(1))
  show "ud_events d' = ud_events d" "week_zone d' = week_zone d" "ud_identities d' = ud_identities d" "ud_policies d' = ud_policies d"
    "ud_adjustments d' = ud_adjustments d" "rb_Events r = int (length (ud_events d))"
    by (simp_all add: d' d2(1) steps(3)) (simp add: week_zone_def)
qed

section \<open>Ingesting\<close>

lemma last_event_id_above: "i \<in> fst ` set (ud_events d) \<Longrightarrow> i \<le> last_event_id d"
proof -
  have "x \<in> set xs \<Longrightarrow> x \<le> fold max xs m" "m \<le> fold max xs m" for xs :: "int list" and x m
    by (induction xs arbitrary: m) (auto, (meson max.bounded_iff order_refl | fastforce)+)
  then show "i \<in> fst ` set (ud_events d) \<Longrightarrow> i \<le> last_event_id d" by (simp add: last_event_id_def)
qed

lemma insert_event_fields [simp]:
  "ud_identities (insert_event e d) = ud_identities d" "ud_meta (insert_event e d) = ud_meta d"
  "ud_weekly (insert_event e d) = ud_weekly d" "ud_policies (insert_event e d) = ud_policies d"
  "ud_adjustments (insert_event e d) = ud_adjustments d" "ud_events (insert_event e d) = ud_events d @ [(last_event_id d + 1, e)]"
  by (simp_all add: insert_event_def)

lemma add_weekly_fields [simp]:
  "ud_identities (add_weekly now k e d) = ud_identities d" "ud_meta (add_weekly now k e d) = ud_meta d"
  "ud_events (add_weekly now k e d) = ud_events d" "ud_policies (add_weekly now k e d) = ud_policies d"
  "ud_adjustments (add_weekly now k e d) = ud_adjustments d"
  by (simp_all add: add_weekly_def)

lemma store_event_iff: "store_event env loc e d = Inr (inserted, d') \<longleftrightarrow>
    ev_fault env (SqlWrite ''usage_events'' ''insert usage event: '') = None \<and>
    ev_fault env (SqlRead ''usage_events'' ''read usage event insert result: '') = None \<and>
    (if known_event (ue_EventKey e) d then \<not> inserted \<and> d' = d
     else inserted \<and> ev_fault env (SqlWrite ''user_weekly_usage'' ''update materialized weekly usage: '') = None \<and>
       d' = add_weekly (unix_of (ev_now env)) (week_of loc e) e (insert_event e d))"
  unfolding store_event_def week_of_def by (auto simp: tx Let_def split: if_splits)

text \<open>An event counted as it is stored keeps the books.\<close>

lemma counter_of_add_weekly:
  assumes "legacy_weighted e = ue_WeightedTokens e"
  shows "counter_of (add_weekly now (week_of loc e) e d) key =
    (if key = week_of loc e
     then Some (case counter_of d key of Some (t, w, n) \<Rightarrow> (t + ue_TotalTokens e, w + legacy_weighted e, n + 1)
       | None \<Rightarrow> (ue_TotalTokens e, legacy_weighted e, 1))
     else counter_of d key)"
  using assms by (auto simp: counter_of_def add_weekly_def update_conv' split: option.splits)

lemma ledger_insert:
  assumes "ledger lib d" "\<not> known_event (ue_EventKey e) d" "week_location lib d = Inr loc" "legacy_weighted e = ue_WeightedTokens e"
  shows "ledger lib (add_weekly now (week_of loc e) e (insert_event e d))"
proof -
  let ?d = "add_weekly now (week_of loc e) e (insert_event e d)"
  have log: "event_log_ok d" and match: "counters_match loc d" and distinct: "distinct (map fst (ud_weekly d))"
    using assms by (auto simp: ledger_def)
  have "event_log_ok ?d"
    using log assms(2) last_event_id_above [of _ d]
    by (fastforce simp: event_log_ok_def sorted_wrt_append known_event_def list_ex_iff)
  moreover have "distinct (map fst (ud_weekly ?d))"
    using distinct by (simp add: add_weekly_def distinct_update)
  moreover have "counter_of ?d key = expected_counter loc ?d key" for key
  proof -
    have before: "counter_of (insert_event e d) k = expected_counter loc d k" for k
    proof -
      have "counter_of (insert_event e d) k = counter_of d k" by (simp add: counter_of_def)
      also have "\<dots> = expected_counter loc d k" using match unfolding counters_match_def by blast
      finally show ?thesis .
    qed
    have events: "events_in loc ?d key = events_in loc d key @ (if week_of loc e = key then [e] else [])"
      by (simp add: events_in_def)
    show ?thesis
      by (cases "events_in loc d key = []")
        (auto simp: counter_of_add_weekly [OF assms(4)] before expected_counter_def events Let_def summed_up_def)
  qed
  moreover have "week_zone ?d = week_zone d" by (simp add: week_zone_def)
  ultimately show ?thesis using assms(3) by (simp add: ledger_def counters_match_def)
qed

lemma weightPolicyVersion_not_legacy: "weightPolicyVersion lib mm rm \<noteq> ''legacy-v1''"
  by (simp add: weightPolicyVersion_def weightPolicyVersionPrefix_def)

lemma normalizeEvent_weighted: "pv \<noteq> ''legacy-v1'' \<Longrightarrow>
    legacy_weighted (normalizeEvent lib account item ident mm rm pv now) = ue_WeightedTokens (normalizeEvent lib account item ident mm rm pv now)"
  by (simp add: legacy_weighted_def normalizeEvent_def Let_def)

lemma keeps_store_event:
  assumes "legacy_weighted e = ue_WeightedTokens e"
  shows "keeps (\<lambda>d. ledger lib d \<and> week_location lib d = Inr loc) (store_event env loc e)"
  using ledger_insert [OF _ _ _ assms, of lib] unfolding keeps_def store_event_iff
  by (auto simp: week_zone_def split: if_splits)

lemma keeps_ingest_items:
  assumes "pv \<noteq> ''legacy-v1''"
  shows "keeps (\<lambda>d. ledger lib d \<and> week_location lib d = Inr loc) (ingest_items lib env account loc mm rm pv ids items c)"
proof (induction items arbitrary: c)
  case (Cons item items)
  show ?case
    by (simp only: ingest_items.simps)
      (intro keeps Cons.IH keeps_store_event normalizeEvent_weighted [OF assms])
qed (simp add: keeps)

lemma ledger_put_meta: "k \<noteq> weeklyUsageTimezoneKey \<Longrightarrow> ledger lib d \<Longrightarrow> ledger lib (put_meta k v d)"
  by (simp add: ledger_def event_log_ok_def counters_match_def counter_of_def expected_counter_def events_in_def)

lemma keeps_ingest_markers: "keeps (\<lambda>d. ledger lib d) (ingest_markers env msg n)"
  by (auto simp: keeps_def ingest_markers_iff ledger_put_meta)

lemma IngestEvents_ledger:
  assumes "ledger lib d"
  shows "ledger lib (snd (IngestEvents lib env account events policy d))"
proof -
  let ?mm = "normalizedModelMultipliers (wp_ModelMultipliers policy)"
  let ?rm = "normalizedReasoningMultipliers (wp_ReasoningMultipliers policy)"
  obtain counters items where p: "prepare_events lib events (zero_counters, []) = (counters, items)" by fastforce
  let ?tx = "then_tx (loadIdentities env items) (\<lambda>ids.
                   then_tx (loadWeekTimezone lib env) (\<lambda>loc.
                   then_tx (ingest_items lib env (trim_space account) loc ?mm ?rm (weightPolicyVersion lib ?mm ?rm) ids items counters) (\<lambda>counters.
                   if 0 < ic_Inserted counters
                   then then_tx (query env ''usage_events'' ''read last usage event id: '' last_event_id) (\<lambda>lastEventID.
                        then_tx (ingest_markers env ''update usage ingest marker: '' lastEventID) (\<lambda>_. ok_tx counters))
                   else ok_tx counters)))"
  have "keeps (ledger lib) ?tx"
    unfolding keeps_def
  proof (intro allI impI)
    fix d x d' assume d: "ledger lib d" "?tx d = Inr (x, d')"
    then obtain ids loc c1 d1 where s: "week_location lib d = Inr loc"
      "ingest_items lib env (trim_space account) loc ?mm ?rm (weightPolicyVersion lib ?mm ?rm) ids items counters d = Inr (c1, d1)"
      "(if 0 < ic_Inserted c1
        then then_tx (query env ''usage_events'' ''read last usage event id: '' last_event_id) (\<lambda>lastEventID.
             then_tx (ingest_markers env ''update usage ingest marker: '' lastEventID) (\<lambda>_. ok_tx c1))
        else ok_tx c1) d1 = Inr (x, d')"
      by (auto simp: tx loadIdentities_def)
    have "ledger lib d1"
      using keeps_ingest_items [OF weightPolicyVersion_not_legacy] d(1) s(1,2) unfolding keeps_def by blast
    moreover have "keeps (ledger lib) (if 0 < ic_Inserted c1
        then then_tx (query env ''usage_events'' ''read last usage event id: '' last_event_id) (\<lambda>lastEventID.
             then_tx (ingest_markers env ''update usage ingest marker: '' lastEventID) (\<lambda>_. ok_tx c1))
        else ok_tx c1)"
      by (intro keeps keeps_ingest_markers)
    ultimately show "ledger lib d'" using s(3) unfolding keeps_def by blast
  qed
  from keeps_usage_transaction [OF this assms] show ?thesis
    using assms by (simp add: IngestEvents_def Let_def p)
qed

section \<open>Repeated deliveries\<close>

definition item_key :: "usage_lib \<Rightarrow> string \<Rightarrow> prepared \<Rightarrow> string" where
  "item_key lib account item =
     usageEventKey lib account (trim_space (stringValue lib (mget ANil (fst item) ''request_id''))) (snd item) (fst item)"

lemma normalizeEvent_key [simp]: "ue_EventKey (normalizeEvent lib account item ident mm rm pv now) = item_key lib account item"
  by (simp add: normalizeEvent_def item_key_def Let_def)

definition known_items :: "usage_lib \<Rightarrow> string \<Rightarrow> identity_row gomap \<Rightarrow> prepared list \<Rightarrow> usage_db \<Rightarrow> bool" where
  "known_items lib account ids items d \<longleftrightarrow> list_all (\<lambda>i. map_of ids (snd i) \<noteq> None \<longrightarrow> known_event (item_key lib account i) d) items"

lemma known_add_weekly [simp]: "known_event k (add_weekly now key e d) = known_event k d"
  by (simp add: known_event_def)

lemma known_insert [simp]: "known_event k (insert_event e d) \<longleftrightarrow> known_event k d \<or> ue_EventKey e = k"
  by (simp add: known_event_def)

lemma store_event_known:
  "store_event env loc e d = Inr (b, d') \<Longrightarrow> known_event (ue_EventKey e) d' \<and> (known_event k d \<longrightarrow> known_event k d')"
  by (auto simp: store_event_iff split: if_splits)

lemma ingest_items_known:
  assumes "ingest_items lib env account loc mm rm pv ids items c d = Inr (c', d')"
  shows "known_items lib account ids items d' \<and> (\<forall>k. known_event k d \<longrightarrow> known_event k d') \<and>
    ic_Inserted c' + ic_Duplicate c' = ic_Inserted c + ic_Duplicate c + int (length (filter (\<lambda>i. map_of ids (snd i) \<noteq> None) items))"
  using assms
proof (induction items arbitrary: c d)
  case (Cons item items)
  show ?case
  proof (cases "map_of ids (snd item)")
    case None
    with Cons.IH [of _ d] Cons.prems show ?thesis by (fastforce simp: known_items_def)
  next
    case (Some ident)
    let ?e = "normalizeEvent lib account item ident mm rm pv (unix_of (ev_now env))"
    let ?c = "\<lambda>b. if b then c\<lparr>ic_Inserted := ic_Inserted c + 1\<rparr> else c\<lparr>ic_Duplicate := ic_Duplicate c + 1\<rparr>"
    from Cons.prems Some obtain b d1 where s: "store_event env loc ?e d = Inr (b, d1)"
      "ingest_items lib env account loc mm rm pv ids items (?c b) d1 = Inr (c', d')"
      by (auto simp: tx)
    have "ic_Inserted (?c b) + ic_Duplicate (?c b) = ic_Inserted c + ic_Duplicate c + 1" by simp
    with Cons.IH [OF s(2)] store_event_known [OF s(1)] Some show ?thesis
      by (auto simp: known_items_def)
  qed
qed (simp add: tx known_items_def)

lemma ingest_known_items:
  assumes "ingest_items lib env account loc mm rm pv ids items c d = Inr (c', d')" "known_items lib account ids items d"
  shows "d' = d \<and> ic_Inserted c' = ic_Inserted c"
  using assms
proof (induction items arbitrary: c d)
  case (Cons item items)
  then show ?case
    by (cases "map_of ids (snd item)") (fastforce simp: known_items_def tx store_event_iff)+
qed (simp add: tx)

lemma prepare_events_counts: "prepare_events lib events (c, items) = (c', items') \<Longrightarrow>
    ic_Inserted c' = ic_Inserted c \<and> ic_Duplicate c' = ic_Duplicate c"
  by (induction lib events "(c, items)" arbitrary: c items rule: prepare_events.induct) (auto simp: Let_def split: if_splits)

lemma store_event_identities: "store_event env loc e d = Inr (b, d') \<Longrightarrow> ud_identities d' = ud_identities d"
  by (auto simp: store_event_iff split: if_splits)

lemma ingest_items_identities:
  "ingest_items lib env account loc mm rm pv ids items c d = Inr (c', d') \<Longrightarrow> ud_identities d' = ud_identities d"
proof (induction items arbitrary: c d)
  case (Cons item items)
  then show ?case
    by (cases "map_of ids (snd item)") (auto simp: tx store_event_identities)
qed (simp add: tx)

lemma known_put_meta [simp]: "known_event k (put_meta key v d) = known_event k d"
  by (simp add: known_event_def)

definition mapped_items :: "usage_db \<Rightarrow> prepared list \<Rightarrow> identity_row gomap" where
  "mapped_items d items = filter (\<lambda>(h, _). h \<in> snd ` set items) (ud_identities d)"

lemma IngestEvents_success:
  assumes "IngestEvents lib env account events policy d = (Inr c, d')"
    "prepare_events lib events (zero_counters, []) = (counters, items)"
  shows "(items = [] \<and> c = counters \<and> d' = d) \<or>
    (items \<noteq> [] \<and> (\<exists>loc mm rm pv d1. ingest_items lib env (trim_space account) loc mm rm pv (mapped_items d items) items counters d = Inr (c, d1) \<and>
       d' = (if 0 < ic_Inserted c then put_meta weeklyUsageLastEventIDKey (itoa (last_event_id d1))
               (put_meta weeklyUsageBackfillKey weeklyUsageBackfillVersion d1) else d1)))"
proof (cases "items = []")
  case False
  let ?mm = "normalizedModelMultipliers (wp_ModelMultipliers policy)"
  let ?rm = "normalizedReasoningMultipliers (wp_ReasoningMultipliers policy)"
  have "trim_space account \<noteq> []" using assms(1) by (auto simp: IngestEvents_def)
  with assms False obtain loc d1 where
    "ingest_items lib env (trim_space account) loc ?mm ?rm (weightPolicyVersion lib ?mm ?rm) (mapped_items d items) items counters d = Inr (c, d1)"
    "d' = (if 0 < ic_Inserted c then put_meta weeklyUsageLastEventIDKey (itoa (last_event_id d1))
               (put_meta weeklyUsageBackfillKey weeklyUsageBackfillVersion d1) else d1)"
    unfolding IngestEvents_def Let_def usage_transaction_def
    by (simp add: loadIdentities_def mapped_items_def, drule_tac run_usage_success)
      (auto simp: ingest_markers_iff tx split: if_splits)
  with False show ?thesis by blast
qed (use assms in \<open>auto simp: IngestEvents_def Let_def split: if_splits\<close>)

text \<open>
  C19: A delivery repeated counts once. When a batch of events has been ingested, ingesting the same batch again,
  at a later time and under another weight policy, changes nothing in the database, and reports as duplicates
  all the events that the first delivery inserted or knew.
\<close>

theorem repeated_delivery_counts_once:
  assumes first: "IngestEvents lib env account events policy d = (Inr c, d1)"
    and again: "IngestEvents lib env' account events policy' d1 = (Inr c', d2)"
  shows "d2 = d1 \<and> ic_Inserted c' = 0 \<and> ic_Duplicate c' = ic_Inserted c + ic_Duplicate c"
proof -
  obtain counters items where p: "prepare_events lib events (zero_counters, []) = (counters, items)" by fastforce
  have zero: "ic_Inserted counters = 0" "ic_Duplicate counters = 0"
    using prepare_events_counts [OF p] by (simp_all add: zero_counters_def)
  show ?thesis
  proof (cases "items = []")
    case True
    with IngestEvents_success [OF first p] IngestEvents_success [OF again p] zero show ?thesis by auto
  next
    case False
    from IngestEvents_success [OF first p] False obtain loc mm rm pv e1 where
      s1: "ingest_items lib env (trim_space account) loc mm rm pv (mapped_items d items) items counters d = Inr (c, e1)"
      and d1: "d1 = (if 0 < ic_Inserted c then put_meta weeklyUsageLastEventIDKey (itoa (last_event_id e1))
               (put_meta weeklyUsageBackfillKey weeklyUsageBackfillVersion e1) else e1)" by blast
    have ids: "mapped_items d1 items = mapped_items d items"
      using ingest_items_identities [OF s1] by (simp add: mapped_items_def d1)
    note counted1 = ingest_items_known [OF s1]
    from IngestEvents_success [OF again p] False obtain loc' mm' rm' pv' e2 where
      s2: "ingest_items lib env' (trim_space account) loc' mm' rm' pv' (mapped_items d items) items counters d1 = Inr (c', e2)"
      and d2: "d2 = (if 0 < ic_Inserted c' then put_meta weeklyUsageLastEventIDKey (itoa (last_event_id e2))
               (put_meta weeklyUsageBackfillKey weeklyUsageBackfillVersion e2) else e2)" unfolding ids by blast
    have "known_items lib (trim_space account) (mapped_items d items) items d1"
      using counted1 by (auto simp: known_items_def d1 elim: list.pred_mono_strong)
    from ingest_known_items [OF s2 this] ingest_items_known [OF s2] counted1 zero d2 show ?thesis by auto
  qed
qed

section \<open>The operations of the writer\<close>

text \<open>The tables the books are kept in, and the operations that do not touch them.\<close>

definition same_books :: "usage_db \<Rightarrow> usage_db \<Rightarrow> bool" where
  "same_books d0 d \<longleftrightarrow> ud_events d = ud_events d0 \<and> ud_weekly d = ud_weekly d0 \<and> week_zone d = week_zone d0"

lemma same_books_refl [simp]: "same_books d d"
  by (simp add: same_books_def)

lemma same_books_ledger: "same_books d0 d \<Longrightarrow> ledger lib d = ledger lib d0"
  by (simp add: same_books_def ledger_def event_log_ok_def counters_match_def counter_of_def expected_counter_def events_in_def)

lemma same_books_within: "same_books d0 d \<Longrightarrow> within_int64 d = within_int64 d0"
  by (simp add: same_books_def within_int64_def)

lemma keeps_exec_counted:
  assumes "\<And>d. I d \<Longrightarrow> I (f d)"
  shows "keeps I (exec_counted env table t1 t2 n f)"
  using assms by (auto simp: keeps_def exec_counted_def Let_def tx)

lemma same_books_updates [simp]:
  "same_books d0 (d\<lparr>ud_identities := i\<rparr>) = same_books d0 d" "same_books d0 (d\<lparr>ud_policies := p\<rparr>) = same_books d0 d"
  "same_books d0 (d\<lparr>ud_adjustments := a\<rparr>) = same_books d0 d" "same_books d0 (d\<lparr>ud_sessions := ss\<rparr>) = same_books d0 d"
  "same_books d0 (d\<lparr>ud_credentials := cs\<rparr>) = same_books d0 d"
  "k \<noteq> weeklyUsageTimezoneKey \<Longrightarrow> same_books d0 (put_meta k v d) = same_books d0 d"
  by (simp_all add: same_books_def week_zone_def)

lemma same_books_sync: "same_books d0 d \<Longrightarrow> same_books d0 (snd (SyncIdentities env ids d))"
proof -
  have "keeps (same_books d0) (then_tx (each_tx (\<lambda>i. exec env ''key_identities'' ''synchronize usage identity: ''
      (upsert_identity (unix_of (ev_now env)) i)) rows) (\<lambda>_. ok_tx n))" for rows and n :: int
    by (intro keeps keeps_exec) (simp add: upsert_identity_def Let_def)
  from keeps_usage_transaction [OF this] show "same_books d0 d \<Longrightarrow> ?thesis"
    by (simp add: SyncIdentities_def Let_def)
qed

lemma same_books_teams: "same_books d0 d \<Longrightarrow> same_books d0 (snd (SyncUserTeams env teams d))"
proof -
  have "keeps (same_books d0) (then_tx (each_tx (\<lambda>(user, t). exec env ''key_identities'' ''synchronize usage team identity: ''
      (set_team user t)) rows) (\<lambda>_. ok_tx n))" for rows and n :: int
    by (intro keeps) (auto split: prod.split intro!: keeps_exec simp: set_team_def)
  from keeps_usage_transaction [OF this] show "same_books d0 d \<Longrightarrow> ?thesis"
    by (simp add: SyncUserTeams_def)
qed

lemma same_books_breakdown: "same_books d0 d \<Longrightarrow> same_books d0 (snd (EnsureUsageBreakdownStarted env d))"
  unfolding EnsureUsageBreakdownStarted_def by (erule keeps_usage_transaction [rotated]) (intro keeps keeps_exec, simp)

lemma same_books_status: "same_books d0 d \<Longrightarrow> same_books d0 (snd (UpdateCollectorStatus env msg d))"
  unfolding UpdateCollectorStatus_def by (erule keeps_usage_transaction [rotated]) (intro keeps keeps_exec; simp)

lemma same_books_reset: "same_books d0 d \<Longrightarrow> same_books d0 (snd (ConfigurePersonalQuotaReset lib env enabled reschedule d))"
  unfolding ConfigurePersonalQuotaReset_def
  by (erule keeps_usage_transaction [rotated]) (intro keeps keeps_exec_counted; simp add: set_reset_def)

lemma keeps_insert_adjustments: "keeps (same_books d0) (insert_adjustments env msg uuids n as)"
proof (induction as arbitrary: n)
  case (Cons a as)
  show ?case
    by (simp only: insert_adjustments.simps)
      (intro keeps Cons.IH keeps_exec_checked, auto simp: insert_adjustment_def constraint_failed_def split: option.splits if_splits)
qed (simp add: keeps)

lemma keeps_quota_action_steps:
  "keeps (same_books d0) (clearQuotaPolicies env users)" "keeps (same_books d0) (addQuotaBonus lib env uuids request now)"
  "keeps (same_books d0) (resetQuotaUsage lib env uuids request now)"
  unfolding clearQuotaPolicies_def addQuotaBonus_def resetQuotaUsage_def
  by (intro keeps keeps_exec_counted keeps_insert_adjustments; simp)+

lemma same_books_action: "same_books d0 d \<Longrightarrow> same_books d0 (snd (ApplyQuotaAction lib env uuids request d))"
  unfolding ApplyQuotaAction_def Let_def
  by (simp, intro impI conjI; erule keeps_usage_transaction [rotated]; intro keeps keeps_quota_action_steps)

lemma same_books_portal [simp]:
  "same_books d0 (clean_sessions now d) = same_books d0 d" "same_books d0 (drop_sessions P d) = same_books d0 d"
  "same_books d0 (put_credential now u h m d) = same_books d0 d" "same_books d0 (drop_credentials u d) = same_books d0 d"
  "same_books d0 (drop_policies u d) = same_books d0 d" "same_books d0 (put_policy now u t c r d) = same_books d0 d"
  by (simp_all add: clean_sessions_def drop_sessions_def put_credential_def drop_credentials_def drop_policies_def put_policy_def)

lemma keeps_run_statement: "keeps I f \<Longrightarrow> I d \<Longrightarrow> I (snd (run_statement f d))"
  by (auto simp: keeps_def run_statement_def split: sum.split)

lemma same_books_create: "same_books d0 d \<Longrightarrow> same_books d0 (snd (CreateSession env draw user ttl d))"
proof -
  have "keeps (same_books d0) (then_tx (exec env ''portal_sessions'' ''clean expired portal sessions: '' (clean_sessions now)) (\<lambda>_.
      then_tx (exec_checked env ''portal_sessions'' ''create portal session: '' (insert_session h s)) (\<lambda>_. ok_tx r)))"
    for now h s and r :: "string \<times> string \<times> int"
    by (intro keeps keeps_exec keeps_exec_checked) (auto simp: insert_session_def constraint_failed_def split: if_splits)
  from keeps_usage_transaction [OF this] show "same_books d0 d \<Longrightarrow> ?thesis"
    by (simp add: CreateSession_def Let_def split: sum.split)
qed

lemma same_books_revoke: "same_books d0 d \<Longrightarrow> same_books d0 (snd (RevokeSession env token d))"
  unfolding RevokeSession_def Let_def
  by (simp, intro impI, erule keeps_run_statement [rotated], intro keeps_exec, simp)

lemma same_books_credential: "same_books d0 d \<Longrightarrow> same_books d0 (snd (SetCredential env user h m keep d))"
proof -
  have "keeps (same_books d0) (then_tx (exec env ''portal_credentials'' ''update portal credential: '' (put_credential now u h m)) (\<lambda>_.
      exec env ''portal_sessions'' ''revoke replaced portal sessions: '' (drop_sessions P)))" for now u h P
    by (intro keeps keeps_exec) simp_all
  from keeps_usage_transaction [OF this] show "same_books d0 d \<Longrightarrow> ?thesis"
    by (auto simp: SetCredential_def Let_def split: prod.split sum.split) (metis snd_conv)+
qed

lemma same_books_delete: "same_books d0 d \<Longrightarrow> same_books d0 (snd (deleteUserState env user policy d))"
proof -
  have "keeps (same_books d0) (then_tx (exec env ''portal_sessions'' ''delete portal user sessions: '' (drop_sessions P)) (\<lambda>_.
      then_tx (exec env ''portal_credentials'' ''delete portal user credential: '' (drop_credentials u)) (\<lambda>_.
      if policy then exec env ''user_quota_policies'' ''delete portal user quota policy: '' (drop_policies u) else ok_tx ())))" for P u
    by (intro keeps keeps_exec) simp_all
  from keeps_usage_transaction [OF this] show "same_books d0 d \<Longrightarrow> ?thesis"
    by (simp add: deleteUserState_def Let_def)
qed

lemma same_books_clear: "same_books d0 d \<Longrightarrow> same_books d0 (snd (ClearQuotaPolicy env user d))"
  unfolding ClearQuotaPolicy_def Let_def
  by (simp, intro impI, erule keeps_run_statement [rotated], intro keeps_exec, simp)

lemma same_books_policy: "same_books d0 d \<Longrightarrow> same_books d0 (snd (SetQuotaPolicy lib env user mode tokens renew creator d))"
proof -
  have "keeps (same_books d0) (then_tx (if renew then then_tx (loadWeekTimezone lib env) (\<lambda>loc. ok_tx (f loc)) else ok_tx g)
      (\<lambda>resetAt. exec env ''user_quota_policies'' ''update user quota policy: '' (put_policy now u t c resetAt)))" for f g now u t c
    by (intro keeps keeps_exec) simp
  from keeps_usage_transaction [OF this] show "same_books d0 d \<Longrightarrow> ?thesis"
    by (simp add: SetQuotaPolicy_def Let_def same_books_clear del: if_split_asm)
qed

text \<open>The rebuild and the change of the time zone.\<close>

lemma RebuildWeeklyUsage_success:
  assumes "RebuildWeeklyUsage lib env d = (Inr r, d')" "event_log_ok d" "within_int64 d"
  obtains loc where "week_location lib d = Inr loc" "counters_match loc d'" "distinct (map fst (ud_weekly d'))"
    "ud_events d' = ud_events d" "week_zone d' = week_zone d" "rb_Events r = int (length (ud_events d))"
proof -
  from assms(1) obtain loc r0 where s: "week_location lib d = Inr loc" "rebuildWeeklyUsage env loc d = Inr (r0, d')"
    "r = r0\<lparr>rb_Backfilled := True\<rparr>"
    unfolding RebuildWeeklyUsage_def usage_transaction_def by (auto simp: tx dest!: run_usage_success)
  note effect = rebuildWeeklyUsage_effect [OF s(2) assms(2) assms(3) [unfolded within_int64_def]]
  show thesis by (rule that [OF s(1)]) (use effect s(3) in auto)
qed

lemma RebuildWeeklyUsage_ledger:
  assumes "event_log_ok d" "within_int64 d" "ledger lib d"
  shows "ledger lib (snd (RebuildWeeklyUsage lib env d)) \<and> ud_events (snd (RebuildWeeklyUsage lib env d)) = ud_events d"
proof (cases "RebuildWeeklyUsage lib env d")
  case (Pair r d')
  show ?thesis
  proof (cases r)
    case (Inl e)
    with Pair assms show ?thesis by (auto simp: RebuildWeeklyUsage_def usage_transaction_def dest: run_usage_failure)
  next
    case (Inr x)
    obtain loc where "week_location lib d = Inr loc" "counters_match loc d'" "distinct (map fst (ud_weekly d'))"
      "ud_events d' = ud_events d" "week_zone d' = week_zone d"
      using RebuildWeeklyUsage_success [OF Pair [unfolded Inr] assms(1,2)] by blast
    then show ?thesis using assms(1) by (simp add: Pair ledger_def event_log_ok_def)
  qed
qed

lemma keeps_each_pair: "(\<And>x y. keeps I (f x y)) \<Longrightarrow> keeps I (each_tx (\<lambda>(x, y). f x y) xs)"
  by (intro keeps) (simp split: prod.split)

lemma EnsureWeekTimezone_success:
  assumes "EnsureWeekTimezone lib env name d = (Inr changed, d')" "event_log_ok d" "within_int64 d"
  obtains "\<not> changed" "d' = d"
  | loc where "changed" "week_location lib d' = Inr loc" "counters_match loc d'" "distinct (map fst (ud_weekly d'))"
    "ud_events d' = ud_events d" "week_zone d' = (if trim_space name = [] then defaultWeekTimezone else trim_space name)"
proof -
  let ?zone = "if trim_space name = [] then defaultWeekTimezone else trim_space name"
  obtain loc where loc: "ul_location lib ?zone = Inr loc"
    using assms(1) by (cases "ul_location lib ?zone") (auto simp: EnsureWeekTimezone_def Let_def)
  show thesis
  proof (cases changed)
    case False
    with assms(1) loc have "d' = d"
      by (auto simp: EnsureWeekTimezone_def Let_def tx dest!: run_usage_success split: if_splits)
    with False show thesis by (rule that(1))
  next
    case True
    with assms(1) loc obtain r d1 d2 as u t where s: "rebuildWeeklyUsage env loc d = Inr (r, d1)"
      "each_tx (\<lambda>(i, createdAt). exec env ''user_quota_adjustments'' t (rebucket i (week_start loc createdAt))) as d1 = Inr (u, d2)"
      "d' = put_meta weeklyUsageTimezoneKey ?zone d2"
      by (fastforce simp: EnsureWeekTimezone_def Let_def tx dest!: run_usage_success split: if_splits)
    note effect = rebuildWeeklyUsage_effect [OF s(1) assms(2) assms(3) [unfolded within_int64_def]]
    have "keeps (same_books d1) (each_tx (\<lambda>(i, createdAt). exec env ''user_quota_adjustments'' t
        (rebucket i (week_start loc createdAt))) as)"
      by (intro keeps_each_pair keeps_exec) (simp add: rebucket_def)
    then have d2: "ud_events d2 = ud_events d1" "ud_weekly d2 = ud_weekly d1"
      using s(2) unfolding keeps_def same_books_def by blast+
    have "trim_space ?zone = ?zone" "?zone \<noteq> []"
      by (simp_all add: defaultWeekTimezone_def) (simp add: trim_space_def trim_left_def trim_right_def space1_def space2_def space3_def)
    then have zone: "week_zone d' = ?zone" by (simp add: s(3) week_zone_def)
    show thesis
      by (rule that(2) [OF True])
        (use effect loc zone in \<open>auto simp: s(3) d2 counters_match_def counter_of_def expected_counter_def events_in_def\<close>)
  qed
qed

lemma EnsureWeekTimezone_ledger:
  assumes "event_log_ok d" "within_int64 d" "ledger lib d"
  shows "ledger lib (snd (EnsureWeekTimezone lib env name d)) \<and> ud_events (snd (EnsureWeekTimezone lib env name d)) = ud_events d"
proof (cases "EnsureWeekTimezone lib env name d")
  case (Pair r d')
  show ?thesis
  proof (cases r)
    case (Inl e)
    with Pair have "d' = d" by (auto simp: EnsureWeekTimezone_def Let_def dest: run_usage_failure split: sum.splits)
    with Pair assms show ?thesis by simp
  next
    case (Inr x)
    show ?thesis
      by (rule EnsureWeekTimezone_success [OF Pair [unfolded Inr] assms(1,2)])
        (use assms in \<open>auto simp: Pair ledger_def event_log_ok_def\<close>)
  qed
qed

text \<open>The events only grow, whatever the operation.\<close>

definition grows :: "usage_db \<Rightarrow> usage_db \<Rightarrow> bool" where
  "grows d0 d \<longleftrightarrow> (\<exists>more. ud_events d = ud_events d0 @ more)"

lemma grows_within: "grows d0 d \<Longrightarrow> within_int64 d \<Longrightarrow> within_int64 d0"
  by (auto simp: grows_def within_int64_def dest: small_log_append)

lemma grows_same: "ud_events d = ud_events d0 \<Longrightarrow> grows d0 d"
  by (simp add: grows_def)

lemma keeps_ingest_grows: "keeps (grows d0) (ingest_items lib env account loc mm rm pv ids items c)"
proof (induction items arbitrary: c)
  case (Cons item items)
  have "keeps (grows d0) (store_event env loc e)" for e
    by (auto simp: keeps_def store_event_iff grows_def split: if_splits)
  then show ?case by (simp only: ingest_items.simps) (intro keeps Cons.IH)
qed (simp add: keeps)

lemma keeps_markers_grows: "keeps (grows d0) (ingest_markers env msg n)"
  by (auto simp: keeps_def ingest_markers_iff grows_def)

lemma IngestEvents_grows: "grows d (snd (IngestEvents lib env account events policy d))"
proof -
  obtain counters items where p: "prepare_events lib events (zero_counters, []) = (counters, items)" by fastforce
  have "keeps (grows d) (then_tx (loadIdentities env items) (\<lambda>ids.
                   then_tx (loadWeekTimezone lib env) (\<lambda>loc.
                   then_tx (ingest_items lib env account loc mm rm pv ids items counters) (\<lambda>counters.
                   if 0 < ic_Inserted counters
                   then then_tx (query env ''usage_events'' ''read last usage event id: '' last_event_id) (\<lambda>lastEventID.
                        then_tx (ingest_markers env ''update usage ingest marker: '' lastEventID) (\<lambda>_. ok_tx counters))
                   else ok_tx counters))))" for account mm rm pv
    unfolding loadIdentities_def by (intro keeps keeps_ingest_grows keeps_markers_grows)
  from keeps_usage_transaction [OF this] show ?thesis
    by (simp add: IngestEvents_def Let_def p grows_same)
qed

lemma keeps_rebuild_events: "keeps (\<lambda>d. ud_events d = es) (rebuildWeeklyUsage env loc)"
proof -
  have "keeps (\<lambda>d. ud_events d = es) (ingest_markers env msg n)" for msg n by (auto simp: keeps_def ingest_markers_iff)
  then show ?thesis
    unfolding rebuildWeeklyUsage_def Let_def by (intro keeps keeps_exec keeps_exec_checked; auto simp: insert_weekly_iff)
qed

lemma RebuildWeeklyUsage_events: "ud_events (snd (RebuildWeeklyUsage lib env d)) = ud_events d"
  unfolding RebuildWeeklyUsage_def
  by (rule keeps_usage_transaction [where I = "\<lambda>d'. ud_events d' = ud_events d"]) (intro keeps keeps_rebuild_events, simp)

lemma EnsureWeekTimezone_events: "ud_events (snd (EnsureWeekTimezone lib env name d)) = ud_events d"
proof (cases "ul_location lib (if trim_space name = [] then defaultWeekTimezone else trim_space name)")
  case (Inr loc)
  then show ?thesis
    unfolding EnsureWeekTimezone_def Let_def Inr sum.case
    by (intro keeps_run_usage [where I = "\<lambda>d'. ud_events d' = ud_events d"] keeps keeps_rebuild_events keeps_each_pair keeps_exec)
      (auto simp: rebucket_def)
qed (simp add: EnsureWeekTimezone_def Let_def)

text \<open>A step of the collector or the portal on the usage database, in any environment, successful or not; and the states it reaches.\<close>

inductive usage_step :: "usage_lib \<Rightarrow> usage_db \<Rightarrow> usage_db \<Rightarrow> bool" for lib where
  sync: "usage_step lib d (snd (SyncIdentities env identities d))"
| teams: "usage_step lib d (snd (SyncUserTeams env classifications d))"
| breakdown: "usage_step lib d (snd (EnsureUsageBreakdownStarted env d))"
| ingest: "usage_step lib d (snd (IngestEvents lib env account events policy d))"
| rebuild: "usage_step lib d (snd (RebuildWeeklyUsage lib env d))"
| timezone: "usage_step lib d (snd (EnsureWeekTimezone lib env name d))"
| reset: "usage_step lib d (snd (ConfigurePersonalQuotaReset lib env enabled reschedule d))"
| action: "usage_step lib d (snd (ApplyQuotaAction lib env uuids request d))"
| status: "usage_step lib d (snd (UpdateCollectorStatus env lastError d))"
| create_session: "usage_step lib d (snd (CreateSession env draw user ttl d))"
| revoke_session: "usage_step lib d (snd (RevokeSession env token d))"
| set_credential: "usage_step lib d (snd (SetCredential env user passwordHash mustChange keep d))"
| delete_identity: "usage_step lib d (snd (DeleteIdentity env user d))"
| delete_user: "usage_step lib d (snd (DeleteUserState env user d))"
| set_policy: "usage_step lib d (snd (SetQuotaPolicy lib env user mode tokens renew createdBy d))"
| clear_policy: "usage_step lib d (snd (ClearQuotaPolicy env user d))"

inductive usage_reachable :: "usage_lib \<Rightarrow> usage_db \<Rightarrow> bool" for lib where
  start: "usage_reachable lib empty_usage"
| step: "usage_reachable lib d \<Longrightarrow> usage_step lib d d' \<Longrightarrow> usage_reachable lib d'"

lemmas same_books_steps = same_books_sync same_books_teams same_books_breakdown same_books_reset same_books_action same_books_status
  same_books_create same_books_revoke same_books_credential same_books_delete same_books_policy same_books_clear

lemma usage_step_ledger:
  assumes "usage_step lib d d'" "within_int64 d \<Longrightarrow> ledger lib d" "within_int64 d'"
  shows "ledger lib d'"
proof -
  have same: "same_books d d' \<Longrightarrow> ledger lib d'"
    using assms(2,3) same_books_ledger same_books_within by blast
  have log: "ledger lib d \<Longrightarrow> event_log_ok d" by (simp add: ledger_def)
  have within: "ud_events d' = ud_events d \<Longrightarrow> within_int64 d" using assms(3) by (simp add: within_int64_def)
  from assms(1) show ?thesis
  proof cases
    case (ingest env account events policy)
    have "within_int64 d" by (rule grows_within [OF IngestEvents_grows]) (use assms(3) in \<open>simp add: ingest\<close>)
    then show ?thesis unfolding ingest by (rule IngestEvents_ledger [OF assms(2)])
  next
    case (rebuild env)
    have "within_int64 d" using within RebuildWeeklyUsage_events by (simp add: rebuild)
    then show ?thesis using assms(2) log RebuildWeeklyUsage_ledger unfolding rebuild by blast
  next
    case (timezone env name)
    have "within_int64 d" using within EnsureWeekTimezone_events by (simp add: timezone)
    then show ?thesis using assms(2) log EnsureWeekTimezone_ledger unfolding timezone by blast
  qed (rule same, simp add: same_books_steps DeleteIdentity_def DeleteUserState_def)+
qed

lemma empty_ledger: "ledger lib empty_usage"
  by (simp add: ledger_def event_log_ok_def counters_match_def counter_of_def expected_counter_def events_in_def empty_usage_def)

lemma reachable_ledger: "usage_reachable lib d \<Longrightarrow> within_int64 d \<longrightarrow> ledger lib d"
proof (induction rule: usage_reachable.induct)
  case (step d d')
  then show ?case using usage_step_ledger by blast
qed (simp add: empty_ledger)

text \<open>
  C17: The weekly counters are never wrong. In every state that the operations of the writer reach from an empty
  database, in any order, with any failures and clocks, successful or not, the materialised counter of every
  user and week is the sum of the stored events of that user in that week of the current time zone (their raw
  tokens, their weighted tokens and their number), there is no counter without events, and no event is stored
  twice; as long as the sums of all events fit 64 bits.
\<close>

theorem weekly_counters_match_events:
  assumes "usage_reachable lib d" "within_int64 d" "week_location lib d = Inr loc"
  shows "counter_of d key = expected_counter loc d key \<and> distinct (map (ue_EventKey \<circ> snd) (ud_events d))"
proof -
  have "within_int64 d \<longrightarrow> ledger lib d" using assms(1) by (rule reachable_ledger)
  with assms(2,3) show ?thesis by (cases key) (auto simp: ledger_def counters_match_def event_log_ok_def)
qed

text \<open>
  C20: A rebuild agrees with the ingestion. When the counters agree with the events, throwing all of them away and
  counting the events again gives every user and week the counter it had, in the current time zone, and leaves
  the events alone; so the counters kept event by event are those of the batch computation.
\<close>

theorem rebuild_agrees_with_ingestion:
  assumes "ledger lib d" "within_int64 d" "RebuildWeeklyUsage lib env d = (Inr r, d')"
  shows "counter_of d' = counter_of d \<and> ud_events d' = ud_events d \<and> ledger lib d'"
proof -
  have log: "event_log_ok d" using assms(1) by (simp add: ledger_def)
  obtain loc where s: "week_location lib d = Inr loc" "counters_match loc d'" "ud_events d' = ud_events d"
    by (rule RebuildWeeklyUsage_success [OF assms(3) log assms(2)]) blast
  have "expected_counter loc d' = expected_counter loc d" by (simp add: fun_eq_iff expected_counter_def events_in_def s(3))
  moreover have "counters_match loc d" using assms(1) s(1) by (simp add: ledger_def)
  ultimately have "counter_of d' key = counter_of d key" for key using s(2) unfolding counters_match_def by metis
  then show ?thesis using s(3) RebuildWeeklyUsage_ledger [OF log assms(2,1), of env] assms(3) by (simp add: fun_eq_iff)
qed

section \<open>The week of an instant\<close>

text \<open>A zone whose offset does not change.\<close>

definition fixed_offset :: "int \<Rightarrow> location \<Rightarrow> bool" where
  "fixed_offset h loc \<longleftrightarrow> snd loc = (\<lambda>_. h)"

text \<open>
  The natural weeks cut time into pieces. In a zone of constant offset, an instant lies in its week, from its
  start to before its end; the week is seven days; it starts on a Monday at midnight, local time; and two instants
  have the same week exactly if one lies in the week of the other.
\<close>

theorem natural_weeks_partition_time:
  assumes "fixed_offset h loc"
  shows "fst (naturalWeekBounds loc t) \<le> t \<and> t < snd (naturalWeekBounds loc t) \<and>
    snd (naturalWeekBounds loc t) = fst (naturalWeekBounds loc t) + 7 * 86400 \<and>
    (fst (naturalWeekBounds loc t) + h) mod 86400 = 0 \<and> ((fst (naturalWeekBounds loc t) + h) div 86400 + 3) mod 7 = 0 \<and>
    (week_start loc t' = week_start loc t \<longleftrightarrow> week_start loc t \<le> t' \<and> t' < snd (naturalWeekBounds loc t))"
proof -
  have zone: "snd loc x = h" for x using assms by (simp add: fixed_offset_def)
  have shift: "(x - k * 86400) div 86400 = x div 86400 - k" "(x - k * 86400 + h) div 86400 = (x + h) div 86400 - k" for x k :: int
    using div_mult_self1 [of 86400 x "- k"] div_mult_self1 [of 86400 "x + h" "- k"] by (simp_all add: algebra_simps)
  have start: "week_start loc x = ((x + h) div 86400 - ((x + h) div 86400 + 3) mod 7) * 86400 - h" for x
    by (simp add: week_start_def naturalWeekBounds_def Let_def midnight_def add_days_def date_unix_def local_seconds_def
        days_since_monday_def zone shift left_diff_distrib)
  define w where "w x = ((x + h) div 86400 + 3) div 7" for x
  have weeks: "week_start loc x = 604800 * w x - 259200 - h" for x
  proof -
    have "p - (p + 3) mod 7 = 7 * ((p + 3) div 7) - 3" for p :: int by presburger
    then show ?thesis by (simp add: start w_def)
  qed
  have bounds: "604800 * w x \<le> x + h + 259200" "x + h + 259200 < 604800 * w x + 604800" for x
  proof -
    have "w x = ((x + h) + 3 * 86400) div 86400 div 7" by (simp add: w_def del: div_mult_self3)
    also have "\<dots> = (x + h + 259200) div 604800" using zdiv_zmult2_eq [of 7 "x + h + 3 * 86400" 86400] by simp
    finally show "604800 * w x \<le> x + h + 259200" "x + h + 259200 < 604800 * w x + 604800"
      using mult_div_mod_eq [of 604800 "x + h + 259200"] pos_mod_bound [of 604800 "x + h + 259200"]
        pos_mod_sign [of 604800 "x + h + 259200"] by linarith+
  qed
  have end_of_week: "snd (naturalWeekBounds loc t) = week_start loc t + 7 * 86400"
    by (simp add: week_start_def naturalWeekBounds_def Let_def midnight_def add_days_def date_unix_def local_seconds_def zone)
  have "week_start loc t + h = 86400 * (7 * w t - 3)" by (simp add: weeks)
  then have "(week_start loc t + h) mod 86400 = 0" "(week_start loc t + h) div 86400 = 7 * w t - 3" by simp_all
  moreover have "week_start loc t' = week_start loc t \<longleftrightarrow> week_start loc t \<le> t' \<and> t' < week_start loc t + 604800"
  proof
    assume "week_start loc t' = week_start loc t"
    with bounds [of t'] show "week_start loc t \<le> t' \<and> t' < week_start loc t + 604800" unfolding weeks by (intro conjI; linarith)
  next
    assume "week_start loc t \<le> t' \<and> t' < week_start loc t + 604800"
    with bounds [of t'] have "\<not> w t' < w t" "\<not> w t < w t'" unfolding weeks by linarith+
    then show "week_start loc t' = week_start loc t" by (simp add: weeks)
  qed
  ultimately show ?thesis
    using bounds [of t] unfolding week_start_def [symmetric] end_of_week by (simp add: weeks)
qed

section \<open>An example\<close>

definition sample_lib :: usage_lib where
  "sample_lib = \<lparr>ul_print = (\<lambda>_. []), ul_encode = (\<lambda>_. []), ul_format = (\<lambda>_. ''1''), ul_time = (\<lambda>_. None),
     ul_location = (\<lambda>name. Inr (name, \<lambda>_. 28800))\<rparr>"

definition sample_events :: "goany gomap list" where
  "sample_events = [[(''api_key'', AString ''k''), (''model'', AString ''gpt-6-astra''), (''request_id'', AString ''r''),
     (''timestamp'', AInt 1700000000), (''tokens'', AObject [(''total_tokens'', AInt 100)])]]"

definition sample_synced :: usage_db where
  "sample_synced = snd (SyncIdentities (env_at 1700000000 []) [\<lparr>ui_Key = ''k'', ui_Label = [], ui_UserEmail = ''u@x'', ui_Account = ''a''\<rparr>] empty_usage)"

definition sample_used :: usage_db where
  "sample_used = snd (IngestEvents sample_lib (env_at 1700000000 []) ''a'' sample_events \<lparr>wp_ModelMultipliers = [], wp_ReasoningMultipliers = []\<rparr> sample_synced)"

lemma sha256_hex_nonempty [simp]: "sha256_hex m \<noteq> []"
  by (metis length_sha256_hex list.size(3) zero_neq_numeral)

lemma sample_key [simp]: "keyHash ''k'' = sha256_hex ''k''"
proof -
  have "trim_space ''k'' = ''k''" by code_simp
  then show ?thesis by (simp add: keyHash_def)
qed

definition sample_identity :: identity_row where
  "sample_identity = \<lparr>ir_KeyLabel = [], ir_UserEmail = ''u@x'', ir_Account = ''a'', ir_TeamID = [], ir_TeamMembershipVersion = 0,
     ir_FirstSeenAt = 1700000000, ir_LastSeenAt = 1700000000\<rparr>"

lemma sample_synced_eq: "sample_synced = empty_usage\<lparr>ud_identities := [(sha256_hex ''k'', sample_identity)]\<rparr>"
proof -
  have "norm_name ''u@x'' = ''u@x''" "trim_space ''a'' = ''a''" "unix_of (ev_now (env_at 1700000000 [])) = 1700000000" by code_simp+
  then show ?thesis
    by (simp add: sample_synced_def SyncIdentities_def usage_transaction_def run_usage_calm upsert_identity_def Let_def then_tx_def ok_tx_def
        sample_identity_def empty_usage_def)
qed

definition sample_event :: "string \<Rightarrow> usage_event" where
  "sample_event pv = normalizeEvent sample_lib ''a'' (hd sample_events, sha256_hex ''k'') sample_identity (normalizedModelMultipliers [])
     (normalizedReasoningMultipliers []) pv 1700000000"

abbreviation sample_version :: string where
  "sample_version \<equiv> weightPolicyVersion sample_lib (normalizedModelMultipliers []) (normalizedReasoningMultipliers [])"

text \<open>Halves of integers are floats; so the weight of a request under an integer multiplier is a product.\<close>

lemma round64_half:
  assumes "\<bar>i\<bar> < 2 ^ 53"
  shows "round64 (of_int i / 2) = Fin (of_int i / 2)"
proof (cases "i = 0")
  case False
  let ?q = "of_int i / 2 :: rat"
  have nonzero: "?q \<noteq> 0" using False by simp
  have "\<bar>of_int i :: rat\<bar> < of_int (2 ^ 53)" using assms by (metis of_int_abs of_int_less_iff)
  then have bound: "\<bar>?q\<bar> < 2 ^ 52" by simp
  have "pow2r (exponent_of ?q) < pow2r 52" using exponent_of_lower [OF nonzero] bound by (simp add: pow2r_def)
  then have "exponent_of ?q < 52" using pow2r_mono by (metis not_le)
  define e where "e = max (exponent_of ?q - 52) (- 1074)"
  have "e < 0" using \<open>exponent_of ?q < 52\<close> by (simp add: e_def)
  then obtain k where k: "nat (- e) = Suc k" by (metis neg_0_less_iff_less not0_implies_Suc zero_less_nat_eq less_irrefl)
  have "?q / pow2r e = of_int (i * 2 ^ k)" using \<open>e < 0\<close> by (simp add: pow2r_def k)
  then have "round_half_even (?q / pow2r e) = i * 2 ^ k" by (metis round_half_even_int)
  then have "round53 ?q = ?q"
    using nonzero \<open>e < 0\<close> by (simp add: round53_def Let_def e_def [symmetric] pow2r_def k)
  moreover have "\<bar>?q\<bar> < 2 ^ 1024" by (rule less_trans [OF bound]) simp
  ultimately show ?thesis by (simp only: round64_def Let_def abs_less_iff) auto
qed simp

lemma weighted_tokens_exact:
  assumes "0 \<le> t" "0 \<le> m" "t < 2 ^ 53" "t * m < 2 ^ 51"
  shows "weighted_tokens t (Fin (of_int m)) = t * m"
proof -
  have product: "f_mul (f_of_int t) (Fin (of_int m)) = Fin (of_int (t * m))"
    using assms by (simp add: f_of_int_small flip: of_int_mult) (rule round64_of_int, simp add: zero_le_mult_iff)
  have "round64 (of_int (2 * (t * m) + 1) / 2) = Fin (of_int (2 * (t * m) + 1) / 2)"
    by (rule round64_half) (use assms in \<open>simp add: zero_le_mult_iff\<close>)
  then have half: "f_add (Fin (of_int (t * m))) (Fin (1 / 2)) = Fin (of_int (2 * (t * m) + 1) / 2)"
    by (simp add: add_divide_distrib)
  have "\<lfloor>of_int (2 * p + 1) / 2 :: rat\<rfloor> = p" for p :: int by (rule floor_unique) (simp_all add: add_divide_distrib)
  moreover have "0 \<le> t * m" using assms by simp
  ultimately show ?thesis
    using assms(4) unfolding weighted_tokens_def product half by (simp add: f_to_int64_def in64_def del: of_int_mult of_int_add)
qed

lemma sample_event_fields: "ue_TotalTokens (sample_event pv) = 100" "ue_WeightedTokens (sample_event pv) = 400"
  "ue_OccurredAt (sample_event pv) = 1700000000" "ue_UserEmail (sample_event pv) = ''u@x''"
  "ue_WeightPolicyVersion (sample_event pv) = pv"
proof -
  have "trim_space (stringValue sample_lib (mget ANil (hd sample_events) ''model'')) = ''gpt-6-astra''"
    "normalizeModelMultiplier ''gpt-6-astra'' a = ''gpt-6-astra''"
    "mget (Fin 0) (normalizedModelMultipliers []) ''gpt-6-astra'' = Fin 4"
    "normalizeReasoningEffort sample_lib (mget ANil (hd sample_events) ''reasoning_effort'') = ''unknown''"
    "mget (Fin 0) (normalizedReasoningMultipliers []) ''unknown'' = Fin 1"
    "event_total (as_object (mget ANil (hd sample_events) ''tokens'')) = 100"
    "eventTimestamp sample_lib (mget ANil (hd sample_events) ''timestamp'') 1700000000 = 1700000000" for a
    by code_simp+
  moreover have "f_mul (Fin 4) (Fin 1) = Fin (of_int 4)" using round64_of_int [of 4] by simp
  ultimately show "ue_TotalTokens (sample_event pv) = 100" "ue_WeightedTokens (sample_event pv) = 400"
    "ue_OccurredAt (sample_event pv) = 1700000000" "ue_UserEmail (sample_event pv) = ''u@x''" "ue_WeightPolicyVersion (sample_event pv) = pv"
    by (simp_all add: sample_event_def normalizeEvent_def Let_def sample_identity_def weighted_tokens_exact del: f_mul.simps of_int_numeral)
qed

lemma loadWeekTimezone_calm: "calm env \<Longrightarrow> week_location lib d = Inr loc \<Longrightarrow> loadWeekTimezone lib env d = Inr (loc, d)"
  by (simp add: loadWeekTimezone_iff calm_def)

lemma store_event_calm: "calm env \<Longrightarrow> \<not> known_event (ue_EventKey e) d \<Longrightarrow>
    store_event env loc e d = Inr (True, add_weekly (unix_of (ev_now env)) (week_of loc e) e (insert_event e d))"
  by (simp add: store_event_iff calm_def)

lemma ingest_markers_calm: "calm env \<Longrightarrow> ingest_markers env msg n d =
    Inr ((), put_meta weeklyUsageLastEventIDKey (itoa n) (put_meta weeklyUsageBackfillKey weeklyUsageBackfillVersion d))"
  by (simp add: ingest_markers_iff calm_def)

abbreviation sample_zone :: location where "sample_zone \<equiv> (''Asia/Shanghai'', \<lambda>_. 28800)"

abbreviation sample_policy :: weight_policy where
  "sample_policy \<equiv> \<lparr>wp_ModelMultipliers = [], wp_ReasoningMultipliers = []\<rparr>"

abbreviation sample_counters :: ingest_counters where
  "sample_counters \<equiv> zero_counters\<lparr>ic_Received := 1, ic_Inserted := 1\<rparr>"

lemma sample_ingested:
  "IngestEvents sample_lib (env_at 1700000000 []) ''a'' sample_events sample_policy sample_synced =
     (Inr sample_counters, put_meta weeklyUsageLastEventIDKey (itoa 1) (put_meta weeklyUsageBackfillKey weeklyUsageBackfillVersion
       (add_weekly 1700000000 (week_of sample_zone (sample_event sample_version)) (sample_event sample_version)
         (insert_event (sample_event sample_version) sample_synced))))"
proof -
  have eval: "businessEvent sample_lib (hd sample_events)" "trim_space ''a'' = ''a''"
    "trim_space (stringValue sample_lib (mget ANil (hd sample_events) ''api_key'')) = ''k''"
    "week_zone empty_usage = ''Asia/Shanghai''" "unix_of (ev_now (env_at 1700000000 [])) = 1700000000" by code_simp+
  have "prepare_events sample_lib [hd sample_events] (zero_counters, []) =
      (zero_counters\<lparr>ic_Received := 1\<rparr>, [(hd sample_events, sha256_hex ''k'')])"
    by (simp add: eval Let_def zero_counters_def)
  then have prepared: "prepare_events sample_lib sample_events (zero_counters, []) =
      (zero_counters\<lparr>ic_Received := 1\<rparr>, [(hd sample_events, sha256_hex ''k'')])"
    by (simp add: sample_events_def)
  have "week_zone sample_synced = week_zone empty_usage" by (simp add: sample_synced_eq week_zone_def)
  then have zone: "week_location sample_lib sample_synced = Inr sample_zone" by (simp add: eval sample_lib_def)
  have fresh: "\<not> known_event k sample_synced" "ud_events sample_synced = []"
    "ud_identities sample_synced = [(sha256_hex ''k'', sample_identity)]" for k
    by (simp_all add: sample_synced_eq empty_usage_def known_event_def)
  have zero: "ic_Inserted zero_counters = 0" by (simp add: zero_counters_def)
  show ?thesis
    using zone
    by (simp add: IngestEvents_def Let_def eval prepared usage_transaction_def run_usage_calm loadIdentities_def then_tx_def fresh
        loadWeekTimezone_calm [where loc = sample_zone] store_event_calm sample_event_def [symmetric] zero ok_tx_def
        ingest_markers_calm last_event_id_def)
qed

lemma sample_used_eq: "sample_used = put_meta weeklyUsageLastEventIDKey (itoa 1) (put_meta weeklyUsageBackfillKey weeklyUsageBackfillVersion
       (add_weekly 1700000000 (week_of sample_zone (sample_event sample_version)) (sample_event sample_version)
         (insert_event (sample_event sample_version) sample_synced)))"
  by (simp add: sample_used_def sample_ingested)

lemma sample_week [simp]: "week_start sample_zone 1700000000 = 1699804800"
  by code_simp

lemma sample_tables: "ud_events sample_used = [(1, sample_event sample_version)]" "ud_policies sample_used = []"
  "ud_adjustments sample_used = []" "week_location sample_lib sample_used = Inr sample_zone"
  "ud_identities sample_used = [(sha256_hex ''k'', sample_identity)]"
  "ud_weekly sample_used = [((''u@x'', 1699804800), \<lparr>wk_TotalTokens = 100, wk_WeightedTokens = 400, wk_RequestCount = 1,
     wk_UpdatedAt = 1700000000\<rparr>)]"
proof -
  have "week_zone sample_used = week_zone empty_usage"
    by (simp add: sample_used_eq) (simp add: week_zone_def sample_synced_eq)
  moreover have "week_zone empty_usage = ''Asia/Shanghai''" by code_simp
  ultimately show "week_location sample_lib sample_used = Inr sample_zone" by (simp add: sample_lib_def)
  show "ud_events sample_used = [(1, sample_event sample_version)]" "ud_policies sample_used = []"
    "ud_adjustments sample_used = []" "ud_identities sample_used = [(sha256_hex ''k'', sample_identity)]"
    "ud_weekly sample_used = [((''u@x'', 1699804800), \<lparr>wk_TotalTokens = 100, wk_WeightedTokens = 400, wk_RequestCount = 1,
     wk_UpdatedAt = 1700000000\<rparr>)]"
    by (simp_all add: sample_used_eq sample_synced_eq empty_usage_def last_event_id_def add_weekly_def week_of_def sample_event_fields)
qed

lemma sample_legacy: "legacy_weighted (sample_event sample_version) = 400"
  using weightPolicyVersion_not_legacy by (simp add: legacy_weighted_def sample_event_fields)

lemma sample_within: "within_int64 sample_used"
  by (simp add: within_int64_def small_log_def sample_tables sample_event_fields sample_legacy)

lemma sample_reachable: "usage_reachable sample_lib sample_used"
  unfolding sample_used_def sample_synced_def 
  by (rule usage_reachable.step [OF usage_reachable.step [OF usage_reachable.start usage_step.sync] usage_step.ingest])

lemma sample_ledger: "ledger sample_lib sample_used"
  using reachable_ledger [OF sample_reachable] sample_within by blast

lemma sample_events_in: "events_in sample_zone sample_used (''u@x'', 1699804800) = [sample_event sample_version]"
  by (simp add: events_in_def sample_tables week_of_def sample_event_fields)

theorem weekly_counters_match_events_witness:
  "within_int64 sample_used \<and> counter_of sample_used (''u@x'', 1699804800) = Some (100, 400, 1)"
  using weekly_counters_match_events [OF sample_reachable sample_within sample_tables(4), of "(''u@x'', 1699804800)"] sample_within
  by (simp add: expected_counter_def sample_events_in Let_def summed_up_def sample_event_fields sample_legacy)

lemma store_event_known_calm: "calm env \<Longrightarrow> known_event (ue_EventKey e) d \<Longrightarrow> store_event env loc e d = Inr (False, d)"
  by (simp add: store_event_iff calm_def)

lemma sample_again:
  "IngestEvents sample_lib (env_at 1700000500 []) ''a'' sample_events \<lparr>wp_ModelMultipliers = [], wp_ReasoningMultipliers = [(''unknown'', Fin 2)]\<rparr>
     sample_used = (Inr (zero_counters\<lparr>ic_Received := 1, ic_Duplicate := 1\<rparr>), sample_used)"
proof -
  have eval: "businessEvent sample_lib (hd sample_events)" "trim_space ''a'' = ''a''"
    "trim_space (stringValue sample_lib (mget ANil (hd sample_events) ''api_key'')) = ''k''" by code_simp+
  have "prepare_events sample_lib [hd sample_events] (zero_counters, []) =
      (zero_counters\<lparr>ic_Received := 1\<rparr>, [(hd sample_events, sha256_hex ''k'')])"
    by (simp add: eval Let_def zero_counters_def)
  then have prepared: "prepare_events sample_lib sample_events (zero_counters, []) =
      (zero_counters\<lparr>ic_Received := 1\<rparr>, [(hd sample_events, sha256_hex ''k'')])"
    by (simp add: sample_events_def)
  have known: "known_event (item_key sample_lib ''a'' (hd sample_events, sha256_hex ''k'')) sample_used"
    by (simp add: known_event_def sample_tables sample_event_def)
  have zero: "ic_Inserted zero_counters = 0" "ic_Duplicate zero_counters = 0" by (simp_all add: zero_counters_def)
  show ?thesis
    by (simp add: IngestEvents_def Let_def eval prepared usage_transaction_def run_usage_calm loadIdentities_def then_tx_def sample_tables
        loadWeekTimezone_calm [where loc = sample_zone] store_event_known_calm known zero ok_tx_def)
qed

theorem repeated_delivery_counts_once_witness:
  "IngestEvents sample_lib (env_at 1700000500 []) ''a'' sample_events \<lparr>wp_ModelMultipliers = [], wp_ReasoningMultipliers = [(''unknown'', Fin 2)]\<rparr>
     (snd (IngestEvents sample_lib (env_at 1700000000 []) ''a'' sample_events sample_policy sample_synced)) =
   (Inr (zero_counters\<lparr>ic_Received := 1, ic_Duplicate := 1\<rparr>), sample_used) \<and> ud_events sample_used = [(1, sample_event sample_version)]"
  using repeated_delivery_counts_once [OF sample_ingested [folded sample_used_eq] sample_again] sample_again sample_tables(1)
  by (simp add: sample_used_def)

lemma no_fault: "ev_fault (env_at t r) c = None"
  by (simp add: env_at_def)

lemma sample_rebuild: "\<exists>r d'. RebuildWeeklyUsage sample_lib (env_at 1700000500 []) sample_used = (Inr r, d')"
  by (simp add: RebuildWeeklyUsage_def usage_transaction_def run_usage_calm then_tx_def loadWeekTimezone_calm [where loc = sample_zone]
      sample_tables rebuildWeeklyUsage_def Let_def count_event_def exec_checked_def insert_weekly_def ok_tx_def ingest_markers_calm
      sample_event_fields sort_slice_def no_fault)

theorem rebuild_agrees_with_ingestion_witness:
  "counter_of (snd (RebuildWeeklyUsage sample_lib (env_at 1700000500 []) sample_used)) (''u@x'', 1699804800) = Some (100, 400, 1)"
proof -
  obtain r d' where rebuilt: "RebuildWeeklyUsage sample_lib (env_at 1700000500 []) sample_used = (Inr r, d')"
    using sample_rebuild by blast
  have "counter_of sample_used (''u@x'', 1699804800) = Some (100, 400, 1)" by (simp add: counter_of_def sample_tables)
  with rebuild_agrees_with_ingestion [OF sample_ledger sample_within rebuilt] show ?thesis by (simp add: rebuilt)
qed

theorem natural_weeks_partition_time_witness:
  "naturalWeekBounds sample_zone 1700000000 = (1699804800, 1700409600) \<and> week_start sample_zone 1700409599 = 1699804800"
proof -
  have "fixed_offset 28800 sample_zone" by (simp add: fixed_offset_def)
  from natural_weeks_partition_time [OF this, of 1700000000 1700409599]
  show ?thesis by (simp add: week_start_def [symmetric] prod_eq_iff) 
qed

end
