(* ===== verification/Usage_Quota_Proofs.thy ===== *)
theory Usage_Quota_Proofs
  imports Usage_Proofs
begin

text \<open>
  The quotas computed from the usage database: the quota of a user is what his stored events of the week and his
  adjustments say, and what the bulk actions of the operator can store.
\<close>

section \<open>The quota of a user\<close>

lemma query_scan_iff [tx]: "query_scan env table msg e ok f d = Inr (x, d') \<longleftrightarrow>
    ev_fault env (SqlRead table msg) = None \<and> x = f d \<and> d' = d \<and> list_all ok (f d)"
  by (auto simp: query_scan_def tx)

definition policy_in_force :: "int \<Rightarrow> usage_db \<Rightarrow> string \<Rightarrow> quota_policy option" where
  "policy_in_force now d u = (case map_of (ud_policies d) u of Some p \<Rightarrow> if policy_active now p then Some p else None | None \<Rightarrow> None)"

lemma map_of_usage_rows: "map_of (usage_rows_of week batch d) u =
    (if u \<in> set batch then map_option (\<lambda>r. (wk_TotalTokens r, wk_WeightedTokens r)) (map_of (ud_weekly d) (u, week)) else None)"
proof -
  have "map_of (map (\<lambda>(key, r). (fst key, wk_TotalTokens r, wk_WeightedTokens r))
       (filter (\<lambda>(key, _). snd key = week \<and> fst key \<in> set batch) rows)) u =
    (if u \<in> set batch then map_option (\<lambda>r. (wk_TotalTokens r, wk_WeightedTokens r)) (map_of rows (u, week)) else None)" for rows
    by (induction rows) auto
  then show ?thesis unfolding usage_rows_of_def .
qed

lemma map_of_policies:
  assumes "distinct (map fst (ud_policies d))"
  shows "map_of (filter (\<lambda>(u, p). u \<in> set batch \<and> policy_active now p) (ud_policies d)) u =
    (if u \<in> set batch then policy_in_force now d u else None)"
proof -
  have "distinct (map fst ps) \<Longrightarrow> map_of (filter (\<lambda>(u, p). u \<in> set batch \<and> policy_active now p) ps) u =
    (if u \<in> set batch then (case map_of ps u of Some p \<Rightarrow> if policy_active now p then Some p else None | None \<Rightarrow> None) else None)" for ps
  proof (induction ps)
    case (Cons p ps)
    then have "map_of ps (fst p) = None" by (simp add: map_of_eq_None_iff)
    with Cons show ?case by (cases p) (auto split: option.split)
  qed simp
  with assms show ?thesis by (simp add: policy_in_force_def)
qed

definition adjustment_sums :: "int \<Rightarrow> usage_db \<Rightarrow> string \<Rightarrow> (int \<times> int \<times> int) option" where
  "adjustment_sums week d u = map_option snd (adjustment_row week d u)"

lemma map_of_adjustments: "map_of (List.map_filter (adjustment_row week d) batch) u =
    (if u \<in> set batch then adjustment_sums week d u else None)"
proof (induction batch)
  case (Cons v vs)
  then show ?case by (auto simp: adjustment_sums_def adjustment_row_def Let_def)
qed simp

lemma read_quota_rows_exact:
  assumes "read_quota_rows env now week users d = Inr (rows, d')" "distinct (map fst (ud_policies d))"
  shows "d' = d \<and>
    (\<forall>u. map_of (qw_usage rows) u =
       (if u \<in> set users then map_option (\<lambda>r. (wk_TotalTokens r, wk_WeightedTokens r)) (map_of (ud_weekly d) (u, week)) else None) \<and>
     map_of (qw_policies rows) u = (if u \<in> set users then policy_in_force now d u else None) \<and>
     map_of (qw_adjustments rows) u = (if u \<in> set users then adjustment_sums week d u else None))"
  using assms
proof (induction users arbitrary: rows rule: length_induct)
  case (1 users)
  show ?case
  proof (cases "users = []")
    case True
    with "1.prems" show ?thesis by (auto simp: read_quota_rows.simps)
  next
    case False
    from "1.prems"(1) False obtain rest where rest: "read_quota_rows env now week (drop 500 users) d = Inr (rest, d')"
      and rows: "rows = \<lparr>qw_usage = usage_rows_of week (take 500 users) d @ qw_usage rest,
        qw_policies = filter (\<lambda>(u, p). u \<in> set (take 500 users) \<and> policy_active now p) (ud_policies d) @ qw_policies rest,
        qw_adjustments = List.map_filter (adjustment_row week d) (take 500 users) @ qw_adjustments rest\<rparr>"
      by (subst (asm) read_quota_rows.simps) (auto simp: tx Let_def)
    have "length (drop 500 users) < length users" using False by simp
    note IH = "1.IH" [rule_format, OF this rest "1.prems"(2)]
    have users: "u \<in> set users \<longleftrightarrow> u \<in> set (take 500 users) \<or> u \<in> set (drop 500 users)" for u
      by (metis Un_iff append_take_drop_id set_append)
    have lookups: "d' = d"
      "map_of (qw_usage rest) u = (if u \<in> set (drop 500 users) then map_option (\<lambda>r. (wk_TotalTokens r, wk_WeightedTokens r)) (map_of (ud_weekly d) (u, week)) else None)"
      "map_of (qw_policies rest) u = (if u \<in> set (drop 500 users) then policy_in_force now d u else None)"
      "map_of (qw_adjustments rest) u = (if u \<in> set (drop 500 users) then adjustment_sums week d u else None)" for u
      using IH by blast+
    show ?thesis
      by (intro conjI allI lookups(1))
        (simp_all add: rows users map_of_append map_add_def map_of_usage_rows map_of_policies [OF "1.prems"(2)] map_of_adjustments
          lookups(2-4) split: option.split)
  qed
qed

lemma WeeklyQuotas_success:
  assumes "WeeklyQuotas lib env users limit d = Inr quotas" "(u, q) \<in> set quotas" "distinct (map fst (ud_policies d))"
  obtains loc rows where "week_location lib d = Inr loc" "u \<in> set (normalizedEmailSet users)"
    "q = user_quota loc (naturalWeekBounds loc (unix_of (ev_now env))) limit rows u"
    "map_of (qw_usage rows) u = map_option (\<lambda>r. (wk_TotalTokens r, wk_WeightedTokens r)) (map_of (ud_weekly d) (u, week_start loc (unix_of (ev_now env))))"
    "map_of (qw_policies rows) u = policy_in_force (unix_of (ev_now env)) d u"
    "map_of (qw_adjustments rows) u = adjustment_sums (week_start loc (unix_of (ev_now env))) d u"
proof -
  let ?now = "unix_of (ev_now env)"
  let ?tx = "then_tx (loadWeekTimezone lib env) (\<lambda>loc.
            let week = naturalWeekBounds loc ?now
            in then_tx (read_quota_rows env ?now (fst week) (normalizedEmailSet users)) (\<lambda>rows.
               ok_tx (map (\<lambda>u. (u, user_quota loc week limit rows u)) (normalizedEmailSet users))))"
  have "normalizedEmailSet users \<noteq> []" using assms(1,2) by (auto simp: WeeklyQuotas_def Let_def)
  with assms(1) obtain d' where "usage_transaction env ''weekly quota snapshot'' ?tx d = (Inr quotas, d')"
    by (cases "usage_transaction env ''weekly quota snapshot'' ?tx d") (simp add: WeeklyQuotas_def Let_def)
  then obtain loc rows d1 where s: "week_location lib d = Inr loc"
    "read_quota_rows env ?now (fst (naturalWeekBounds loc ?now)) (normalizedEmailSet users) d = Inr (rows, d1)"
    "quotas = map (\<lambda>u. (u, user_quota loc (naturalWeekBounds loc ?now) limit rows u)) (normalizedEmailSet users)"
    unfolding usage_transaction_def by (auto simp: tx Let_def dest!: run_usage_success)
  show thesis
    by (rule that [OF s(1), of rows])
      (use assms(2) s(3) read_quota_rows_exact [OF s(2) assms(3)] in \<open>auto simp: week_start_def\<close>)
qed

definition bonus_of :: "usage_db \<Rightarrow> string \<Rightarrow> int \<Rightarrow> int" where
  "bonus_of d u week = adjusted ''bonus'' (user_adjustments week u d)"

definition resets_of :: "usage_db \<Rightarrow> string \<Rightarrow> int \<Rightarrow> int" where
  "resets_of d u week = adjusted ''usage_reset'' (user_adjustments week u d)"

definition base_limit :: "int option \<Rightarrow> int \<Rightarrow> usage_db \<Rightarrow> string \<Rightarrow> int option" where
  "base_limit default_limit now d u = (case policy_in_force now d u of Some p \<Rightarrow> qp_WeeklyTokens p | None \<Rightarrow> default_limit)"

lemma adjustment_sums_eq: "(case adjustment_sums week d u of Some v \<Rightarrow> v | None \<Rightarrow> (0, 0, 0)) =
    (bonus_of d u week, resets_of d u week, int (length (user_adjustments week u d)))"
  by (simp add: adjustment_sums_def adjustment_row_def Let_def bonus_of_def resets_of_def adjusted_def)

lemma counter_of_weekly: "counter_of d key = Some (t, w, n) \<Longrightarrow>
    map_option (\<lambda>r. (wk_TotalTokens r, wk_WeightedTokens r)) (map_of (ud_weekly d) key) = Some (t, w)"
  "counter_of d key = None \<Longrightarrow> map_of (ud_weekly d) key = None"
  by (auto simp: counter_of_def)

lemma quota_exact:
  fixes now :: int
  assumes "ledger lib d" "distinct (map fst (ud_policies d))" "week_location lib d = Inr loc"
    and "WeeklyQuotas lib env users default_limit d = Inr quotas" "(u, q) \<in> set quotas"
    and "now = unix_of (ev_now env)" "week = week_start loc now" "es = events_in loc d (u, week)"
    and "weighted = sum_list (map legacy_weighted es)" "in64 (weighted - resets_of d u week)"
    and "limit = map_option (\<lambda>b. b + bonus_of d u week) (base_limit default_limit now d u)"
    and "in64 (case limit of Some l \<Rightarrow> l | None \<Rightarrow> 0)"
  shows "uq_RawUsedTokens q = sum_list (map ue_TotalTokens es) \<and> uq_WeightedRawUsedTokens q = weighted \<and>
    uq_UsedTokens q = max (weighted - resets_of d u week) 0 \<and> uq_LimitTokens q = limit \<and>
    uq_LimitReached q = (case limit of Some l \<Rightarrow> l \<le> uq_UsedTokens q | None \<Rightarrow> False) \<and>
    uq_WeekStartAt q = week"
proof -
  obtain loc' rows where s: "week_location lib d = Inr loc'" "q = user_quota loc' (naturalWeekBounds loc' now) default_limit rows u"
    "map_of (qw_usage rows) u = map_option (\<lambda>r. (wk_TotalTokens r, wk_WeightedTokens r)) (map_of (ud_weekly d) (u, week_start loc' now))"
    "map_of (qw_policies rows) u = policy_in_force now d u" "map_of (qw_adjustments rows) u = adjustment_sums (week_start loc' now) d u"
    by (rule WeeklyQuotas_success [OF assms(4,5,2)]) (simp add: assms(6) [symmetric])
  have "loc' = loc" using s(1) assms(3) by simp
  note q = s(2-) [unfolded this assms(7) [symmetric]]
  have "counter_of d (u, week) = expected_counter loc d (u, week)"
    using assms(1,3) by (simp add: ledger_def counters_match_def)
  then have usage: "(case map_of (qw_usage rows) u of Some v \<Rightarrow> v | None \<Rightarrow> (0, 0)) = (sum_list (map ue_TotalTokens es), weighted)"
    unfolding q(2) assms(8,9) expected_counter_def Let_def summed_up_def
    by (auto dest: counter_of_weekly split: if_splits)
  have limit: "uq_LimitTokens q = limit"
    using assms(12) unfolding q(1) assms(11) base_limit_def
    by (auto simp: user_quota_def Let_def q(3,4) adjustment_sums_eq split: option.splits)
  have used: "uq_UsedTokens q = max (weighted - resets_of d u week) 0"
    using assms(10) by (simp add: q(1) user_quota_def Let_def usage q(4) adjustment_sums_eq sub64_def)
  have "uq_LimitReached q = (case uq_LimitTokens q of Some l \<Rightarrow> l \<le> uq_UsedTokens q | None \<Rightarrow> False)"
    unfolding q(1) by (auto simp: user_quota_def Let_def split: option.splits)
  with limit used show ?thesis
    by (simp add: q(1) user_quota_def Let_def usage assms(7) week_start_def)
qed

text \<open>
  C18: The quota of a user is what the stored events say. When the counters agree with the events, the quota
  reported for a user and the current instant has as raw and weighted usage the sums over the stored events of
  that user in the current week of the time zone; the used tokens are the weighted sum less the resets of the
  week, never below zero; the limit is that of the personal policy in force, or else the default, with the
  bonuses of the week; and the limit is reached exactly if there is one and the used tokens are not below it.
  The sums are taken within 64 bits.
\<close>

theorem weekly_quota_is_exact:
  fixes now :: int
  assumes "ledger lib d" "distinct (map fst (ud_policies d))" "week_location lib d = Inr loc"
    and "WeeklyQuotas lib env users default_limit d = Inr quotas" "(u, q) \<in> set quotas"
    and "now = unix_of (ev_now env)" "week = week_start loc now" "es = events_in loc d (u, week)"
    and "weighted = sum_list (map legacy_weighted es)" "in64 (weighted - resets_of d u week)"
    and "limit = map_option (\<lambda>b. b + bonus_of d u week) (base_limit default_limit now d u)"
    and "in64 (case limit of Some l \<Rightarrow> l | None \<Rightarrow> 0)"
  shows "uq_RawUsedTokens q = sum_list (map ue_TotalTokens es) \<and> uq_WeightedRawUsedTokens q = weighted \<and>
    uq_UsedTokens q = max (weighted - resets_of d u week) 0 \<and> uq_LimitTokens q = limit \<and>
    uq_LimitReached q = (case limit of Some l \<Rightarrow> l \<le> uq_UsedTokens q | None \<Rightarrow> False) \<and>
    uq_WeekStartAt q = week"
  by (rule quota_exact [OF assms])

definition sample_rows :: quota_rows where
  "sample_rows = \<lparr>qw_usage = [(''u@x'', 100, 400)], qw_policies = [], qw_adjustments = []\<rparr>"

lemma sample_quotas: "WeeklyQuotas sample_lib (env_at 1700000000 []) [''u@x''] (Some 300) sample_used =
    Inr [(''u@x'', user_quota sample_zone (naturalWeekBounds sample_zone 1700000000) (Some 300) sample_rows ''u@x'')]"
proof -
  have "normalizedEmailSet [''u@x''] = [''u@x'']" "unix_of (ev_now (env_at 1700000000 [])) = 1700000000"
    "fst (naturalWeekBounds sample_zone 1700000000) = 1699804800" by code_simp+
  then show ?thesis
    by (simp add: WeeklyQuotas_def Let_def usage_transaction_def run_usage_calm then_tx_def loadWeekTimezone_calm [where loc = sample_zone]
        read_quota_rows.simps query_scan_def sample_tables usage_rows_of_def adjustment_row_def user_adjustments_def ok_tx_def
        in64_def List.map_filter_def sample_rows_def)
qed

theorem weekly_quota_is_exact_witness:
  "\<exists>q. WeeklyQuotas sample_lib (env_at 1700000000 []) [''u@x''] (Some 300) sample_used = Inr [(''u@x'', q)] \<and>
     uq_RawUsedTokens q = 100 \<and> uq_UsedTokens q = 400 \<and> uq_LimitTokens q = Some 300 \<and> uq_LimitReached q"
proof -
  have now: "unix_of (ev_now (env_at 1700000000 [])) = 1700000000" by code_simp
  have none: "resets_of sample_used u w = 0" "bonus_of sample_used u w = 0" "base_limit l n sample_used u = l" for u w l n
    by (simp_all add: resets_of_def bonus_of_def adjusted_def user_adjustments_def base_limit_def policy_in_force_def sample_tables)
  show ?thesis
    using weekly_quota_is_exact [OF sample_ledger _ sample_tables(4) sample_quotas _ refl refl refl refl _ refl, of "''u@x''"]
    by (simp add: sample_quotas now none sample_events_in sample_tables(2) sample_event_fields sample_legacy in64_def)
qed
section \<open>The keys of adjustments\<close>

lemma insert_adjustments_mismatch:
  assumes "\<And>n. ParseInt64 (sql_trim (uuids n)) = None"
  shows "insert_adjustments env msg uuids n as d = Inr (u, d') \<longleftrightarrow> as = [] \<and> d' = d"
  by (cases as) (auto simp: tx insert_adjustment_def assms)

text \<open>
  C23: Bonuses cannot be granted and usage cannot be reset. The key that a bulk action gives an adjustment is a
  random UUID, which does not read as an integer, and the column of the key takes only integers. So granting a
  bonus fails, whatever the users, the amount and the state; and a reset of usage either fails or resets nobody;
  the database stays as it was.
\<close>

theorem adjustments_are_never_stored:
  assumes "\<forall>n. ParseInt64 (sql_trim (uuids n)) = None" "norm_name (qa_Action request) \<noteq> ''restore_default''"
    and "ApplyQuotaAction lib env uuids request d = (r, d')"
  shows "d' = d \<and> (case r of Inl e \<Rightarrow> True
    | Inr result \<Rightarrow> norm_name (qa_Action request) = ''reset_usage'' \<and> qx_AppliedUsers result = [])"
proof (cases r)
  case (Inl e)
  with assms(3) show ?thesis
    by (auto simp: ApplyQuotaAction_def Let_def usage_transaction_def dest: run_usage_failure split: if_splits)
next
  case (Inr result)
  let ?request = "normalized_action request" and ?now = "unix_of (ev_now env)"
  have action: "qa_Action ?request = norm_name (qa_Action request)" by (simp add: normalized_action_def Let_def)
  have valid: "\<not> action_invalid ?request" using assms(3) Inr by (auto simp: ApplyQuotaAction_def Let_def split: if_splits)
  have "usage_transaction env ''quota action'' (if qa_Action ?request = ''add_bonus'' then addQuotaBonus lib env uuids ?request ?now
      else resetQuotaUsage lib env uuids ?request ?now) d = (Inr result, d')"
    using assms(2,3) valid by (simp add: ApplyQuotaAction_def Let_def action Inr)
  then have step: "(if qa_Action ?request = ''add_bonus'' then addQuotaBonus lib env uuids ?request ?now
      else resetQuotaUsage lib env uuids ?request ?now) d = Inr (result, d')"
    unfolding usage_transaction_def by (rule run_usage_success)
  note mismatch = insert_adjustments_mismatch [of uuids, OF assms(1) [rule_format]]
  have "qa_Action ?request \<noteq> ''add_bonus''"
  proof
    assume "qa_Action ?request = ''add_bonus''"
    with step have "qa_Users ?request = []" by (auto simp: addQuotaBonus_def tx Let_def mismatch split: option.splits)
    with valid show False by (simp add: action_invalid_def)
  qed
  moreover from this have "norm_name (qa_Action request) = ''reset_usage''"
    using valid assms(2) by (auto simp: action_invalid_def action)
  moreover have "d' = d \<and> qx_AppliedUsers result = []"
    using step \<open>qa_Action ?request \<noteq> ''add_bonus''\<close> by (auto simp: resetQuotaUsage_def tx Let_def mismatch)
  ultimately show ?thesis by (simp add: Inr)
qed

definition sample_action :: quota_action where
  "sample_action = \<lparr>qa_Action = ''add_bonus'', qa_Users = [''u@x''], qa_TokenAmount = 5, qa_Reason = ''gift'', qa_CreatedBy = ''ops'',
     qa_DefaultLimit = Some 100\<rparr>"

theorem adjustments_are_never_stored_witness:
  "\<exists>e. ApplyQuotaAction sample_lib (env_at 1700000000 []) (\<lambda>_. ''6ba7b810-9dad-41d1-80b4-00c04fd430c8'') sample_action empty_usage = (Inl e, empty_usage)"
proof -
  let ?uuids = "\<lambda>_ :: nat. ''6ba7b810-9dad-41d1-80b4-00c04fd430c8''"
  have uuid: "ParseInt64 (sql_trim (''6ba7b810-9dad-41d1-80b4-00c04fd430c8'')) = None" by code_simp
  have action: "norm_name (qa_Action sample_action) = ''add_bonus''" by code_simp
  obtain r d' where run: "ApplyQuotaAction sample_lib (env_at 1700000000 []) ?uuids sample_action empty_usage = (r, d')" by fastforce
  show ?thesis
    using adjustments_are_never_stored [OF _ _ run] uuid action by (cases r) (auto simp: run)
qed

lemma charged_multiplier_of_ultra:
  "(''ultra'', 3) \<in> set ReasoningMultiplierDefinitions \<and> mget (Fin 0) (normalizedReasoningMultipliers []) ''ultra'' = Fin 1"
  by code_simp

end
