(* ===== verification/Portal_Proofs.thy ===== *)
theory Portal_Proofs
  imports Usage_Quota_Proofs Lease_Proofs
begin

text \<open>
  What the portal promises about its sessions: a session opened is the session resolved until it expires; a new
  password ends every other session of the user; a deleted user has none; and a process that has lost its lease
  writes nothing to the usage database.
\<close>

section \<open>Tokens\<close>

definition plain_char :: "char \<Rightarrow> bool" where
  "plain_char c \<longleftrightarrow> 32 < (of_char c :: nat) \<and> (of_char c :: nat) < 128"

lemma plain_no_space: "plain_char a \<Longrightarrow> \<not> space1 a" "plain_char a \<Longrightarrow> \<not> space2 a b" "plain_char a \<Longrightarrow> \<not> space3 a b c"
  by (auto simp: plain_char_def space1_def space2_def space3_def)

lemma space_head_plain:
  assumes "\<And>a. plain_char a \<Longrightarrow> \<not> p a" "\<And>a b. plain_char a \<Longrightarrow> plain_char b \<Longrightarrow> \<not> q a b"
    "\<And>a b c. plain_char a \<Longrightarrow> plain_char b \<Longrightarrow> plain_char c \<Longrightarrow> \<not> r a b c"
  shows "list_all plain_char s \<Longrightarrow> \<not> space_head p q r s"
  using assms by (induction p q r s rule: space_head.induct) simp_all

lemma trim_space_plain:
  assumes "list_all plain_char s"
  shows "trim_space s = s"
proof -
  have "\<not> space_head space1 space2 space3 s" by (rule space_head_plain [OF plain_no_space assms])
  moreover have "\<not> space_head space1 (\<lambda>a b. space2 b a) (\<lambda>a b c. space3 c b a) (rev s)"
    by (rule space_head_plain) (use assms plain_no_space in auto)
  ultimately show ?thesis
    using trim_with_fixed_iff [of space1 space2 space3 s]
      trim_with_fixed_iff [of space1 "\<lambda>a b. space2 b a" "\<lambda>a b c. space3 c b a" "rev s"]
    unfolding trim_space_def trim_left_def trim_right_def by (metis rev_rev_ident)
qed

lemma base64_plain: "plain_char (base64_url_char n)"
proof -
  have "\<forall>i \<in> set [0..<64]. plain_char (''ABCDEFGHIJKLMNOPQRSTUVWXYZabcdefghijklmnopqrstuvwxyz0123456789-_'' ! i)" by code_simp
  moreover have "n mod 64 \<in> set [0..<64]" by simp
  ultimately show ?thesis unfolding base64_url_char_def by blast
qed

lemma base64_token: "list_all plain_char (base64_url bs)" "base64_url bs = [] \<longleftrightarrow> bs = []"
  by (induction bs rule: base64_url.induct) (simp_all add: base64_plain)

lemma token_hash: "base64_url bs \<noteq> [] \<Longrightarrow> portalTokenHash (base64_url bs) = sha256_hex (base64_url bs)"
  by (simp add: portalTokenHash_def trim_space_plain base64_token)

section \<open>Sessions\<close>

lemma map_of_filter_expired:
  "distinct (map fst ss) \<Longrightarrow> map_of (filter (\<lambda>(_, s). P s) ss) h = (case map_of ss h of Some s \<Rightarrow> if P s then Some s else None | None \<Rightarrow> None)"
proof (induction ss)
  case (Cons x ss)
  then have "map_of ss (fst x) = None" by (simp add: map_of_eq_None_iff)
  with Cons show ?case by (cases x) (auto split: option.split)
qed simp

lemma CreateSession_success:
  assumes "CreateSession env (Inr raw) user ttl d = (Inr (token, u, expiry), d')"
  shows "token = base64_url (map of_char raw)" "u = norm_name user"
    "expiry = add64 (unix_of (ev_now env)) (ttl div second)"
    "insert_session (portalTokenHash token) \<lparr>pt_UserEmail = u, pt_CreatedAt = unix_of (ev_now env), pt_ExpiresAt = expiry\<rparr>
       (clean_sessions (unix_of (ev_now env)) d) = Inr d'"
  using assms
  by (auto simp: CreateSession_def Let_def randomPortalToken_def usage_transaction_def tx dest!: run_usage_success split: if_splits)

text \<open>
  C22: A session lasts as long as it says. The token returned with a session resolves, at any later time and with
  any spaces trimmed, to the normalised user and the expiry of that session, until it expires, and to no
  session from then on; and every other token resolves as it did before.
\<close>

theorem session_lasts_until_expiry:
  assumes created: "CreateSession env (Inr raw) user ttl d = (Inr (token, u, expiry), d')"
    and "raw \<noteq> []" "distinct (map fst (ud_sessions d))" "calm env'" "unix_of (ev_now env) \<le> unix_of (ev_now env')"
    and "portalTokenHash other \<noteq> portalTokenHash token"
  shows "ResolveSession env' token d' = (if unix_of (ev_now env') < expiry then Inr (norm_name user, expiry) else Inl ErrPortalSessionNotFound) \<and>
    ResolveSession env' other d' = ResolveSession env' other d"
proof -
  note s = CreateSession_success [OF created]
  let ?now = "unix_of (ev_now env)" and ?h = "portalTokenHash token"
  let ?s = "\<lparr>pt_UserEmail = u, pt_CreatedAt = ?now, pt_ExpiresAt = expiry\<rparr>"
  have hash: "?h \<noteq> []" using assms(2) by (simp add: s(1) base64_token(2) token_hash)
  from s(4) have fresh: "map_of (ud_sessions (clean_sessions ?now d)) ?h = None"
    and d': "ud_sessions d' = ud_sessions (clean_sessions ?now d) @ [(?h, ?s)]"
    by (auto simp: insert_session_def constraint_failed_def split: if_splits)
  have lookup: "map_of (ud_sessions d') h = (if h = ?h then Some ?s else
      (case map_of (ud_sessions d) h of Some s \<Rightarrow> if \<not> pt_ExpiresAt s \<le> ?now then Some s else None | None \<Rightarrow> None))" for h
    using fresh unfolding d' by (auto simp: map_add_def clean_sessions_def map_of_filter_expired [OF assms(3)] split: option.splits)
  have token: "ResolveSession env' token d' =
      (if unix_of (ev_now env') < expiry then Inr (norm_name user, expiry) else Inl ErrPortalSessionNotFound)"
    using hash assms(4) by (simp add: ResolveSession_def Let_def lookup s(2))
  have "ResolveSession env' other d' = ResolveSession env' other d"
    using assms(4,5,6) by (auto simp: ResolveSession_def Let_def lookup split: option.split)
  with token show ?thesis by simp
qed

lemma ResolveSession_found:
  assumes "ResolveSession env token d = Inr (u, expiry)"
  obtains s where "portalTokenHash token \<noteq> []" "(portalTokenHash token, s) \<in> set (ud_sessions d)"
    "unix_of (ev_now env) < expiry" "u = sql_norm (pt_UserEmail s)"
  using assms by (auto simp: ResolveSession_def Let_def attempt_def dest: map_of_SomeD split: if_splits option.splits sum.splits)

definition normal_sessions :: "usage_db \<Rightarrow> bool" where
  "normal_sessions d \<longleftrightarrow> list_all (\<lambda>(_, s). sql_norm (pt_UserEmail s) = pt_UserEmail s) (ud_sessions d)"

lemma CreateSession_normal:
  assumes "normal_sessions d" "CreateSession env (Inr raw) user ttl d = (Inr (token, u, expiry), d')"
  shows "normal_sessions d'"
  using assms(1) CreateSession_success(2,4) [OF assms(2)]
  by (auto simp: normal_sessions_def insert_session_def constraint_failed_def clean_sessions_def list_all_iff split: if_splits)

lemma SetCredential_success:
  assumes "SetCredential env user passwordHash mustChange keep d = (Inr c, d')"
  shows "Credential env (norm_name user) d' = Inr c" "trim_space passwordHash \<noteq> []"
    "d' = drop_sessions (\<lambda>(h, s). pt_UserEmail s = norm_name user \<and> (portalTokenHash keep = [] \<or> h \<noteq> portalTokenHash keep))
      (put_credential (unix_of (ev_now env)) (norm_name user) (trim_space passwordHash) mustChange d)"
  using assms
  by (auto simp: SetCredential_def Let_def usage_transaction_def tx dest!: run_usage_success split: if_splits prod.splits sum.splits)

text \<open>
  C21: A new password ends the other sessions. After a credential has been set for a user, the only token that can
  resolve to that user is that of the session to be kept; without one, no token does. The sessions are stored
  under normalised names, as opening them does.
\<close>

theorem new_password_ends_sessions:
  assumes "SetCredential env user passwordHash mustChange keep d = (Inr c, d')" "normal_sessions d"
    and "ResolveSession env' token d' = Inr (norm_name user, expiry)"
  shows "trim_space keep \<noteq> [] \<and> portalTokenHash token = portalTokenHash keep"
proof -
  from ResolveSession_found [OF assms(3)] obtain s where s: "portalTokenHash token \<noteq> []"
    "(portalTokenHash token, s) \<in> set (ud_sessions d')" "norm_name user = sql_norm (pt_UserEmail s)" by blast
  then have stored: "(portalTokenHash token, s) \<in> set (ud_sessions d)"
    and kept: "\<not> (pt_UserEmail s = norm_name user \<and> (portalTokenHash keep = [] \<or> portalTokenHash token \<noteq> portalTokenHash keep))"
    by (auto simp: SetCredential_success(3) [OF assms(1)] drop_sessions_def put_credential_def)
  have "pt_UserEmail s = norm_name user" using assms(2) stored s(3) by (auto simp: normal_sessions_def list_all_iff)
  with kept have "portalTokenHash keep \<noteq> []" "portalTokenHash token = portalTokenHash keep" by simp_all
  then show ?thesis by (auto simp: portalTokenHash_def split: if_splits)
qed

text \<open>
  A deleted user is gone from the portal. After his state has been deleted, no token resolves to him, he has
  no credential, and he has no personal quota; the stored events and the weekly counters stay.
\<close>

theorem deleted_user_has_no_session:
  assumes "DeleteUserState env user d = (Inr (), d')"
  shows "ResolveSession env' token d' \<noteq> Inr (norm_name user, expiry) \<and> Credential env' user d' \<noteq> Inr c \<and>
    policy_in_force now d' (norm_name user) = None \<and> ud_events d' = ud_events d \<and> ud_weekly d' = ud_weekly d"
proof -
  have d': "d' = drop_policies (norm_name user) (drop_credentials (norm_name user)
      (drop_sessions (\<lambda>(_, s). sql_norm (pt_UserEmail s) = norm_name user) d))"
    using assms by (auto simp: DeleteUserState_def deleteUserState_def Let_def usage_transaction_def tx dest!: run_usage_success split: if_splits)
  have "ResolveSession env' token d' \<noteq> Inr (norm_name user, expiry)"
  proof
    assume "ResolveSession env' token d' = Inr (norm_name user, expiry)"
    then show False
      by (rule ResolveSession_found) (auto simp: d' drop_policies_def drop_credentials_def drop_sessions_def)
  qed
  moreover have "find (\<lambda>(u, _). sql_norm u = norm_name user) (ud_credentials d') = None"
    by (auto simp: d' find_None_iff drop_policies_def drop_credentials_def drop_sessions_def)
  then have "Credential env' user d' \<noteq> Inr c" by (auto simp: Credential_def attempt_def split: option.split)
  moreover have "map_of (ud_policies d') (norm_name user) = None"
    by (auto simp: d' drop_policies_def map_of_eq_None_iff)
  then have "policy_in_force now d' (norm_name user) = None" by (simp add: policy_in_force_def)
  moreover have "ud_events d' = ud_events d" "ud_weekly d' = ud_weekly d"
    by (simp_all add: d' drop_policies_def drop_credentials_def drop_sessions_def)
  ultimately show ?thesis by blast
qed

section \<open>The fence\<close>

lemma withFencedResult_outcome:
  "withFencedResult fence fenv c operation d = operation d \<or> (\<exists>e. withFencedResult fence fenv c operation d = (Inl e, d))"
  by (auto simp: withFencedResult_def WithWriteFence_def split: sum.splits prod.splits option.splits if_splits)

text \<open>A process whose lease has been taken over writes nothing to the usage database.\<close>

lemma stale_lease_writes_no_usage:
  assumes "obtains_lease c0 l1 c1" "store_step\<^sup>*\<^sup>* c1 c2"
    "TakeLease fence2 env2 scope owner ttl c2 = (Inr l2, c3)" "le_Scope l2 = le_Scope l1"
    "store_step\<^sup>*\<^sup>* c3 c4" "l1 \<in> set fence"
  shows "\<exists>e. withFencedResult fence fenv c4 operation d = (Inl e, d)"
  using taken_over_fence [OF assms, of fenv] assms(6)
  by (auto simp: withFencedResult_def WithWriteFence_def exclusive_def split: sum.split)

section \<open>An example\<close>

definition sample_session :: "portal_session" where
  "sample_session = \<lparr>pt_UserEmail = ''u@x'', pt_CreatedAt = 1000, pt_ExpiresAt = 1060\<rparr>"

definition sample_portal :: usage_db where
  "sample_portal = empty_usage\<lparr>ud_sessions := [(sha256_hex ''YWJj'', sample_session)]\<rparr>"

lemma sample_created: "CreateSession (env_at 1000 []) (Inr ''abc'') ''U@x '' (60 * second) empty_usage =
    (Inr (''YWJj'', ''u@x'', 1060), sample_portal)"
proof -
  have eval: "norm_name ''U@x '' = ''u@x''" "randomPortalToken (Inr ''abc'') = Inr ''YWJj''" "unix_of (ev_now (env_at 1000 [])) = 1000"
    "trim_space ''YWJj'' = ''YWJj''" "add64 1000 60 = 1060" by code_simp+
  show ?thesis
    by (simp add: CreateSession_def second_def Let_def eval usage_transaction_def run_usage_calm then_tx_def exec_checked_def no_fault insert_session_def
        portalTokenHash_def clean_sessions_def ok_tx_def sample_portal_def sample_session_def empty_usage_def)
qed

lemma sample_portal_hash: "portalTokenHash ''YWJj'' = sha256_hex ''YWJj''" "portalTokenHash [] = []"
proof -
  have "trim_space ''YWJj'' = ''YWJj''" by code_simp
  then show "portalTokenHash ''YWJj'' = sha256_hex ''YWJj''" "portalTokenHash [] = []" by (simp_all add: portalTokenHash_def)
qed

theorem session_lasts_until_expiry_witness:
  "ResolveSession (env_at 1059 []) ''YWJj'' sample_portal = Inr (norm_name ''U@x '', 1060) \<and>
   ResolveSession (env_at 1060 []) ''YWJj'' sample_portal = Inl ErrPortalSessionNotFound"
proof -
  have times: "unix_of (ev_now (env_at 1000 [])) = 1000" "unix_of (ev_now (env_at 1059 [])) = 1059" "unix_of (ev_now (env_at 1060 [])) = 1060"
    by code_simp+
  have start: "distinct (map fst (ud_sessions empty_usage))" "portalTokenHash [] \<noteq> portalTokenHash ''YWJj''"
    by (simp_all add: sample_portal_hash empty_usage_def sha256_hex_nonempty [symmetric])
  show ?thesis
    using session_lasts_until_expiry [OF sample_created _ start(1) _ _ start(2), of "env_at 1059 []"]
      session_lasts_until_expiry [OF sample_created _ start(1) _ _ start(2), of "env_at 1060 []"]
    by (simp add: times)
qed

lemma sample_password: "SetCredential (env_at 1010 []) ''u@x'' ''pw'' False ''YWJj'' sample_portal =
    (Inr \<lparr>cr_PasswordHash = ''pw'', cr_MustChange = False, cr_CreatedAt = 1010, cr_UpdatedAt = 1010\<rparr>,
     sample_portal\<lparr>ud_credentials := [(''u@x'', \<lparr>cr_PasswordHash = ''pw'', cr_MustChange = False, cr_CreatedAt = 1010, cr_UpdatedAt = 1010\<rparr>)]\<rparr>)"
proof -
  have eval: "norm_name ''u@x'' = ''u@x''" "trim_space ''pw'' = ''pw''" "unix_of (ev_now (env_at 1010 [])) = 1010" "sql_norm ''u@x'' = ''u@x''"
    by code_simp+
  show ?thesis
    by (simp add: SetCredential_def Let_def eval usage_transaction_def run_usage_calm then_tx_def no_fault sample_portal_hash drop_sessions_def
        put_credential_def Credential_def sample_portal_def empty_usage_def sample_session_def)
qed

theorem new_password_ends_sessions_witness:
  "ResolveSession (env_at 1020 []) ''YWJj'' (snd (SetCredential (env_at 1010 []) ''u@x'' ''pw'' False ''YWJj'' sample_portal)) =
     Inr (norm_name ''u@x'', 1060) \<and> trim_space ''YWJj'' \<noteq> []"
proof -
  have eval: "norm_name ''u@x'' = ''u@x''" "sql_norm ''u@x'' = ''u@x''" "unix_of (ev_now (env_at 1020 [])) = 1020" by code_simp+
  have resolved: "ResolveSession (env_at 1020 []) ''YWJj'' (snd (SetCredential (env_at 1010 []) ''u@x'' ''pw'' False ''YWJj'' sample_portal)) =
      Inr (norm_name ''u@x'', 1060)"
    unfolding sample_password snd_conv by (simp add: ResolveSession_def Let_def sample_portal_hash sample_portal_def sample_session_def eval)
  have "normal_sessions sample_portal" by (simp add: normal_sessions_def sample_portal_def sample_session_def eval)
  from new_password_ends_sessions [OF sample_password this] resolved show ?thesis by (simp add: sample_password)
qed

theorem deleted_user_has_no_session_witness:
  "ResolveSession (env_at 1020 []) ''YWJj'' (snd (DeleteUserState (env_at 1010 []) ''u@x'' sample_portal)) \<noteq> Inr (norm_name ''u@x'', 1060)"
proof -
  have "norm_name ''u@x'' = ''u@x''" by code_simp
  then have "DeleteUserState (env_at 1010 []) ''u@x'' sample_portal = (Inr (), snd (DeleteUserState (env_at 1010 []) ''u@x'' sample_portal))"
    by (simp add: DeleteUserState_def deleteUserState_def Let_def usage_transaction_def run_usage_calm then_tx_def)
  from deleted_user_has_no_session [OF this] show ?thesis by blast
qed

end
