(* ===== verification/Collector_Queue.thy ===== *)
theory Collector_Queue
  imports Usage_Writer Failover_Service
begin

text \<open>
  The queue of usage records of an account and what drains it (\<open>internal/collector/queue.go\<close>,
  \<open>service.go\<close>). The Redis connection is a record of operations on an abstract world \<open>'w\<close>. The loop of
  \<open>Drain\<close> has no bound of its own: \<open>None\<close> is a drain that does not return.
\<close>

section \<open>Configuration\<close>

definition defaultQueueName :: string where "defaultQueueName = ''usage''"
definition maxBatchSize :: int where "maxBatchSize = 500"

record queue_config =
  qc_Address :: string
  qc_Password :: string
  qc_Name :: string
  qc_BatchSize :: int
  qc_DialTimeout :: int
  qc_ReadTimeout :: int
  qc_WriteTimeout :: int

record queue =
  qu_address :: string
  qu_password :: string
  qu_name :: string
  qu_batchSize :: int
  qu_dialTimeout :: int
  qu_readTimeout :: int
  qu_writeTimeout :: int

definition default_timeout :: "int \<Rightarrow> int" where
  "default_timeout t = (if t \<le> 0 then 5 * second else t)"

definition NewQueue :: "queue_config \<Rightarrow> gerr + queue" where
  "NewQueue config =
     (let address = trim_space (qc_Address config); name = trim_space (qc_Name config)
      in if address = [] then Inl (ErrNew ''usage queue address is required'')
         else if trim_space (qc_Password config) = [] then Inl (ErrNew ''usage queue password is required'')
         else if qc_BatchSize config < 1 \<or> maxBatchSize < qc_BatchSize config
         then Inl (ErrNew (''usage queue batch size must be between 1 and '' @ itoa maxBatchSize))
         else Inr \<lparr>qu_address = address, qu_password = qc_Password config,
                qu_name = (if name = [] then defaultQueueName else name), qu_batchSize = qc_BatchSize config,
                qu_dialTimeout = default_timeout (qc_DialTimeout config), qu_readTimeout = default_timeout (qc_ReadTimeout config),
                qu_writeTimeout = default_timeout (qc_WriteTimeout config)\<rparr>)"

section \<open>The connection\<close>

text \<open>
  A reply of the server; \<open>ROther\<close> is a value of another type, given by the type's name. \<open>ln_Auth\<close> is the
  command with \<open>redis.String\<close> applied to its reply; \<open>ln_ended\<close> the error of the context.
\<close>

datatype reply = RNil | RBytes string | RString string | RList "reply list" | ROther string

record 'w link =
  ln_Dial :: "queue \<Rightarrow> ('w, unit) oper"
  ln_WithContext :: bool
  ln_Auth :: "string \<Rightarrow> ('w, string) oper"
  ln_Pop :: "string \<Rightarrow> int \<Rightarrow> ('w, reply) oper"
  ln_ended :: "'w \<Rightarrow> gerr option"

text \<open>\<open>strings.ReplaceAll\<close> of a text that is not empty.\<close>

function replace_all :: "string \<Rightarrow> string \<Rightarrow> string \<Rightarrow> string" where
  "replace_all old new s =
     (if s = [] \<or> old = [] then s
      else if has_prefix old s then new @ replace_all old new (drop (length old) s)
      else hd s # replace_all old new (tl s))"
  by pat_completeness auto

termination by (relation "measure (\<lambda>(_, _, s). length s)") auto

declare replace_all.simps [simp del]

definition redacted :: "string \<Rightarrow> string \<Rightarrow> string" where
  "redacted secret message = (if secret \<noteq> [] then replace_all secret ''[REDACTED]'' message else message)"

definition safeQueueError :: "gerr option \<Rightarrow> gerr \<Rightarrow> string \<Rightarrow> gerr" where
  "safeQueueError ended e secret = (case ended of Some c \<Rightarrow> c | None \<Rightarrow> ErrNew (redacted secret (err_text e)))"

definition type_name :: "reply \<Rightarrow> string" where
  "type_name r = (case r of RList _ \<Rightarrow> ''[]interface {}'' | ROther t \<Rightarrow> t | _ \<Rightarrow> [])"

fun reply_items :: "reply list \<Rightarrow> gerr + string list" where
  "reply_items [] = Inr []"
| "reply_items (r # rs) =
     (case r of RBytes b \<Rightarrow> map_sum id ((#) b) (reply_items rs) | RString s \<Rightarrow> map_sum id ((#) s) (reply_items rs)
      | RNil \<Rightarrow> reply_items rs
      | _ \<Rightarrow> Inl (ErrNew (''usage queue returned unsupported item type '' @ type_name r)))"

definition usageQueueItems :: "reply \<Rightarrow> gerr + string list" where
  "usageQueueItems reply =
     (case reply of RNil \<Rightarrow> Inr [] | RBytes b \<Rightarrow> Inr [b] | RString s \<Rightarrow> Inr [s] | RList rs \<Rightarrow> reply_items rs
      | ROther t \<Rightarrow> Inl (ErrNew (''usage queue returned unsupported reply type '' @ t)))"

section \<open>Draining\<close>

text \<open>The consumer keeps a state \<open>'a\<close> of its own, the variables its closure captures.\<close>

type_synonym ('w, 'a) consumer = "string list \<Rightarrow> 'a \<Rightarrow> 'w \<Rightarrow> gerr option \<times> 'a \<times> 'w"

partial_function (option) drain_loop ::
  "'w link \<Rightarrow> queue \<Rightarrow> ('w, 'a) consumer \<Rightarrow> 'a \<Rightarrow> 'w \<Rightarrow> (gerr option \<times> 'a \<times> 'w) option" where
  "drain_loop conn q consume acc w =
     (case ln_Pop conn (qu_name q) (qu_batchSize q) w of
        (Inl e, w1) \<Rightarrow> Some (Some (wrapf ''drain usage queue: '' (safeQueueError (ln_ended conn w1) e (qu_password q))), acc, w1)
      | (Inr reply, w1) \<Rightarrow>
          (case usageQueueItems reply of
             Inl e \<Rightarrow> Some (Some e, acc, w1)
           | Inr items \<Rightarrow>
               if items = [] then Some (None, acc, w1)
               else (case consume items acc w1 of
                       (Some e, acc', w2) \<Rightarrow> Some (Some (wrapf ''consume usage queue batch: '' e), acc', w2)
                     | (None, acc', w2) \<Rightarrow>
                         if int (length items) < qu_batchSize q then Some (None, acc', w2)
                         else drain_loop conn q consume acc' w2)))"

definition Drain ::
  "'w link \<Rightarrow> queue option \<Rightarrow> ('w, 'a) consumer option \<Rightarrow> 'a \<Rightarrow> 'w \<Rightarrow> (gerr option \<times> 'a \<times> 'w) option" where
  "Drain conn queue consumer acc w =
     (case queue of None \<Rightarrow> Some (Some (ErrNew ''usage queue is not initialized''), acc, w) | Some q \<Rightarrow>
     (case consumer of None \<Rightarrow> Some (Some (ErrNew ''usage queue consumer is required''), acc, w) | Some consume \<Rightarrow>
     (case ln_Dial conn q w of
        (Inl e, w) \<Rightarrow> Some (Some (wrapf ''connect to usage queue: '' e), acc, w)
      | (Inr _, w) \<Rightarrow>
          if \<not> ln_WithContext conn
          then Some (Some (ErrNew ''usage queue connection does not support context cancellation''), acc, w)
          else (case ln_Auth conn (qu_password q) w of
                  (Inl e, w) \<Rightarrow>
                    Some (Some (wrapf ''authenticate usage queue: '' (safeQueueError (ln_ended conn w) e (qu_password q))), acc, w)
                | (Inr response, w) \<Rightarrow>
                    if response \<noteq> ''OK'' then Some (Some (ErrNew ''usage queue authentication failed''), acc, w)
                    else drain_loop conn q consume acc w))))"

section \<open>Collecting the records of an account\<close>

text \<open>
  What \<open>json.Decoder\<close> (with \<open>UseNumber\<close>) makes of an item: the first JSON value of the text, if there is one, and
  whether nothing follows it.
\<close>

type_synonym item_decoder = "string \<Rightarrow> json \<times> bool"

definition decode_item :: "item_decoder \<Rightarrow> string \<Rightarrow> goany gomap option" where
  "decode_item decode item = (case decode item of (Some (AObject m), True) \<Rightarrow> Some m | _ \<Rightarrow> None)"

type_synonym 'w event_writer = "string \<Rightarrow> goany gomap list \<Rightarrow> weight_policy \<Rightarrow> ('w, ingest_counters) oper"

record 'w collect_service =
  se_Writer :: "'w event_writer option"
  se_Policy :: weight_policy

type_synonym 'w batch_drainer = "('w, ingest_counters) consumer \<Rightarrow> ingest_counters \<Rightarrow> 'w \<Rightarrow> (gerr option \<times> ingest_counters \<times> 'w) option"

definition addCounters :: "ingest_counters \<Rightarrow> ingest_counters \<Rightarrow> ingest_counters" where
  "addCounters target value =
     \<lparr>ic_Received = add64 (ic_Received target) (ic_Received value), ic_Inserted = add64 (ic_Inserted target) (ic_Inserted value),
      ic_Duplicate = add64 (ic_Duplicate target) (ic_Duplicate value), ic_Unmapped = add64 (ic_Unmapped target) (ic_Unmapped value),
      ic_MissingAPIKey = add64 (ic_MissingAPIKey target) (ic_MissingAPIKey value),
      ic_UnknownAPIKey = add64 (ic_UnknownAPIKey target) (ic_UnknownAPIKey value), ic_Ignored = add64 (ic_Ignored target) (ic_Ignored value)\<rparr>"

definition collect_batch :: "item_decoder \<Rightarrow> 'w event_writer \<Rightarrow> weight_policy \<Rightarrow> string \<Rightarrow> ('w, ingest_counters) consumer" where
  "collect_batch decode writer policy account items totals w =
     (let events = List.map_filter (decode_item decode) items
      in if events = [] then (None, totals, w)
         else (case writer account events policy w of
                 (Inl e, w) \<Rightarrow> (Some e, totals, w)
               | (Inr counters, w) \<Rightarrow> (None, addCounters totals counters, w)))"

text \<open>A nil service is the one without a writer: its error is the same.\<close>

definition DrainAccount ::
  "item_decoder \<Rightarrow> 'w collect_service \<Rightarrow> string \<Rightarrow> 'w batch_drainer option \<Rightarrow> 'w \<Rightarrow> ((ingest_counters \<times> gerr option) \<times> 'w) option" where
  "DrainAccount decode service account queue w =
     (case se_Writer service of None \<Rightarrow> Some ((zero_counters, Some (ErrNew ''usage collector writer is required'')), w)
      | Some writer \<Rightarrow>
     (case queue of None \<Rightarrow> Some ((zero_counters, Some (ErrNew ''usage collector queue is required'')), w)
      | Some drain \<Rightarrow>
          map_option (\<lambda>(e, totals, w). ((totals, map_option (wrapf (''collect usage for account '' @ account @ '': '')) e), w))
            (drain (collect_batch decode writer (se_Policy service) account) zero_counters w)))"

end
