(* ===== verification/Quota_Publisher.thy ===== *)
theory Quota_Publisher
  imports Usage_Portal Auth_Publisher
begin

text \<open>
  The quota snapshot and the heartbeat that the collector publishes for the gateway
  (\<open>internal/collector/snapshot.go\<close>). The system calls, the paths, the fresh UUID, the text of encoded JSON (for
  the digest) and its length are arguments, as for the authentication snapshot.
\<close>

section \<open>Encoding\<close>

definition quota_record_json :: "quota_record \<Rightarrow> goany" where
  "quota_record_json r = AObject
     [(''user_email'', AString (qr_UserEmail r)), (''week_start_at'', AInt64 (qr_WeekStartAt r)),
      (''week_end_at'', AInt64 (qr_WeekEndAt r)), (''limit_tokens'', AInt64 (qr_LimitTokens r)),
      (''used_tokens'', AInt64 (qr_UsedTokens r)), (''raw_used_tokens'', AInt64 (qr_RawUsedTokens r)),
      (''weighted_raw_used_tokens'', AInt64 (qr_WeightedRawUsedTokens r)), (''quota_unit'', AString (qr_QuotaUnit r))]"

definition quota_snapshot_json :: "string \<Rightarrow> int \<Rightarrow> string \<Rightarrow> quota_record list \<Rightarrow> goany" where
  "quota_snapshot_json generation generatedAt digest records = AObject
     [(''version'', AInt64 1), (''generation'', AString generation), (''generated_at'', AInt64 generatedAt),
      (''content_sha256'', AString digest), (''records'', AList (map quota_record_json records))]"

text \<open>The keys of the maps that are digested are encoded in order.\<close>

definition semantic_record_json :: "quota_record \<Rightarrow> goany" where
  "semantic_record_json r = AObject
     [(''limit_tokens'', AInt64 (qr_LimitTokens r)), (''quota_unit'', AString (qr_QuotaUnit r)),
      (''raw_used_tokens'', AInt64 (qr_RawUsedTokens r)), (''used_tokens'', AInt64 (qr_UsedTokens r)),
      (''user_email'', AString (qr_UserEmail r)), (''week_end_at'', AInt64 (qr_WeekEndAt r)),
      (''week_start_at'', AInt64 (qr_WeekStartAt r)), (''weighted_raw_used_tokens'', AInt64 (qr_WeightedRawUsedTokens r))]"

definition heartbeat_json :: "quota_heartbeat \<Rightarrow> goany" where
  "heartbeat_json h = AObject
     [(''version'', AInt64 (hb_Version h)), (''updated_at'', AInt64 (hb_UpdatedAt h)), (''ok'', ABool (hb_OK h)),
      (''error'', AString (hb_Error h)), (''stale_after_seconds'', AInt64 (hb_StaleAfterSeconds h)),
      (''last_success_at'', AInt64 (hb_LastSuccessAt h)), (''fail_open_after_seconds'', AInt64 (hb_FailOpenAfterSeconds h))]"

definition document :: "(goany \<Rightarrow> nat) \<Rightarrow> goany \<Rightarrow> content" where
  "document encoded_length doc = Content (encoded_length doc + 1) False (Some doc)"

definition published_quota :: "string \<times> user_weekly_quota \<Rightarrow> quota_record" where
  "published_quota p = (case p of (user, q) \<Rightarrow>
     \<lparr>qr_UserEmail = user, qr_WeekStartAt = uq_WeekStartAt q, qr_WeekEndAt = uq_WeekEndAt q,
      qr_LimitTokens = (case uq_LimitTokens q of None \<Rightarrow> - 1 | Some l \<Rightarrow> l), qr_UsedTokens = uq_UsedTokens q,
      qr_RawUsedTokens = uq_RawUsedTokens q, qr_WeightedRawUsedTokens = uq_WeightedRawUsedTokens q,
      qr_QuotaUnit = ''weighted_tokens''\<rparr>)"

section \<open>The files\<close>

text \<open>\<open>sp_Attached\<close>: the publisher is not nil.\<close>

record snapshot_publisher =
  sp_Attached :: bool
  sp_Root :: string
  sp_SnapshotGID :: int

text \<open>
  What a publication meets: an ended context, a failure to read the published file, the calls on the file, the
  paths, the fresh UUID, the clock, and the encoder.
\<close>

record quota_env =
  qe_ended :: "gerr option"
  qe_readFault :: "gerr option"
  qe_file :: file_env
  qe_absolute :: "string \<Rightarrow> gerr + string"
  qe_join :: "string \<Rightarrow> string \<Rightarrow> string"
  qe_uuid :: string
  qe_now :: int
  qe_length :: "goany \<Rightarrow> nat"
  qe_text :: "goany \<Rightarrow> string"

type_synonym files = "string \<rightharpoonup> published_file"

definition quotaSnapshotRelativePath :: string where "quotaSnapshotRelativePath = ''state/gateway/quota-snapshot.json''"
definition quotaHeartbeatRelativePath :: string where "quotaHeartbeatRelativePath = ''state/gateway/quota-heartbeat.json''"
definition defaultQuotaSnapshotGID :: int where "defaultQuotaSnapshotGID = 65534"

definition quota_path :: "snapshot_publisher \<Rightarrow> quota_env \<Rightarrow> string \<Rightarrow> gerr + string" where
  "quota_path p qe relative =
     (if \<not> sp_Attached p \<or> trim_space (sp_Root p) = [] then Inl (ErrNew ''quota snapshot root is required'')
      else and_then (wrapping ''resolve quota snapshot root: '' (qe_absolute qe (sp_Root p))) (\<lambda>root.
           Inr (qe_join qe root relative)))"

definition quota_gid :: "snapshot_publisher \<Rightarrow> quota_env \<Rightarrow> int" where
  "quota_gid p qe =
     (if sp_SnapshotGID p \<le> 0
      then if fe_euid (qe_file qe) \<noteq> 0 then fe_gid (qe_file qe) else defaultQuotaSnapshotGID
      else sp_SnapshotGID p)"

definition chown_quota :: "quota_env \<Rightarrow> file_call \<Rightarrow> gerr + unit" where
  "chown_quota qe c =
     (if fe_euid (qe_file qe) \<noteq> 0 then Inr () else call (qe_file qe) c ''assign quota snapshot group: '')"

text \<open>0o640 is 416.\<close>

definition secureExisting :: "snapshot_publisher \<Rightarrow> quota_env \<Rightarrow> published_file option \<Rightarrow> gerr option \<times> published_file option" where
  "secureExisting p qe f =
     (case call (qe_file qe) ChmodFile ''secure quota snapshot: '' of
        Inl e \<Rightarrow> (Some e, f)
      | Inr _ \<Rightarrow>
          let f' = map_option (pf_permission_update (\<lambda>_. 416)) f
          in (case chown_quota qe ChownFile of
                Inl e \<Rightarrow> (Some e, f')
              | Inr _ \<Rightarrow> (None, if fe_euid (qe_file qe) \<noteq> 0 then f' else map_option (pf_gid_update (\<lambda>_. quota_gid p qe)) f')))"

definition write_quota :: "snapshot_publisher \<Rightarrow> quota_env \<Rightarrow> content \<Rightarrow> published_file option \<Rightarrow> gerr option \<times> published_file option" where
  "write_quota p qe payload f =
     (case and_then (call (qe_file qe) MkdirAll ''create quota snapshot directory: '') (\<lambda>_.
           and_then (call (qe_file qe) ChmodDirectory ''secure quota snapshot directory: '') (\<lambda>_.
           chown_quota qe ChownDirectory)) of
        Inl e \<Rightarrow> (Some e, f)
      | Inr _ \<Rightarrow>
          (case Write (qe_file qe) payload 416 (quota_gid p qe) f of
             (Some e, f') \<Rightarrow> (Some (wrapf ''publish quota snapshot atomically: '' e), f')
           | (None, f') \<Rightarrow> secureExisting p qe f'))"

text \<open>\<open>os.ReadFile\<close>.\<close>

definition read_file :: "quota_env \<Rightarrow> string \<Rightarrow> files \<Rightarrow> json option" where
  "read_file qe path files =
     (if qe_readFault qe \<noteq> None then None
      else (case files path of Some f \<Rightarrow> (case pf_content f of Content _ _ doc \<Rightarrow> Some doc | _ \<Rightarrow> None) | None \<Rightarrow> None))"

text \<open>
  \<open>json.Unmarshal\<close> into the two strings of the published snapshot, its error ignored: a field of another type
  is left empty.
\<close>

definition string_field :: "goany gomap \<Rightarrow> string \<Rightarrow> string" where
  "string_field m k = (case mget ANil m k of AString s \<Rightarrow> s | _ \<Rightarrow> [])"

definition previous_publication :: "json option \<Rightarrow> string \<times> string" where
  "previous_publication raw =
     (case raw of Some (Some (AObject m)) \<Rightarrow> (string_field m ''generation'', string_field m ''content_sha256'') | _ \<Rightarrow> ([], []))"

record snapshot_result =
  sr_Generation :: string
  sr_Records :: int
  sr_Changed :: bool

definition quota_digest :: "quota_env \<Rightarrow> quota_record list \<Rightarrow> string" where
  "quota_digest qe records = sha256_hex (qe_text qe (AList (map semantic_record_json records)))"

definition PublishQuotaSnapshot ::
  "snapshot_publisher \<Rightarrow> quota_env \<Rightarrow> user_weekly_quota gomap \<Rightarrow> files \<Rightarrow> (gerr + snapshot_result) \<times> files" where
  "PublishQuotaSnapshot p qe quotas files =
     (case qe_ended qe of Some e \<Rightarrow> (Inl e, files) | None \<Rightarrow>
     (case quota_path p qe quotaSnapshotRelativePath of Inl e \<Rightarrow> (Inl e, files) | Inr path \<Rightarrow>
     (let records = map published_quota (sort_key fst quotas);
          digest = quota_digest qe records;
          previous = previous_publication (read_file qe path files)
      in if snd previous = digest \<and> fst previous \<noteq> []
         then (case secureExisting p qe (files path) of
                 (Some e, f) \<Rightarrow> (Inl e, files(path := f))
               | (None, f) \<Rightarrow>
                   (Inr \<lparr>sr_Generation = fst previous, sr_Records = int (length records), sr_Changed = False\<rparr>, files(path := f)))
         else
           let generation = filter (\<lambda>c. c \<noteq> CHR ''-'') (qe_uuid qe);
               raw = document (qe_length qe) (quota_snapshot_json generation (unix_of (qe_now qe)) digest records)
           in (case wrapping ''validate quota snapshot: '' (ParseQuotaSnapshot raw) of
                 Inl e \<Rightarrow> (Inl e, files)
               | Inr _ \<Rightarrow>
                   (case write_quota p qe raw (files path) of
                      (Some e, f) \<Rightarrow> (Inl e, files(path := f))
                    | (None, f) \<Rightarrow>
                        (Inr \<lparr>sr_Generation = generation, sr_Records = int (length records), sr_Changed = True\<rparr>, files(path := f)))))))"

text \<open>
  \<open>json.Unmarshal\<close> into the heartbeat, which must succeed for the last success to be taken over. Its fields are
  integers.
\<close>

definition heartbeat_of :: "goany gomap \<Rightarrow> int option" where
  "heartbeat_of m =
     (case (dec_int m ''version'', dec_int m ''updated_at'', dec_bool m ''ok'', dec_string m ''error'',
            dec_int m ''stale_after_seconds'', dec_int m ''last_success_at'', dec_int m ''fail_open_after_seconds'') of
        (Some _, Some _, Some _, Some _, Some _, Some l, Some _) \<Rightarrow> Some l | _ \<Rightarrow> None)"

definition previous_success :: "json option \<Rightarrow> int" where
  "previous_success raw =
     (case raw of None \<Rightarrow> 0
      | Some doc \<Rightarrow> (case dec_document 0 heartbeat_of doc of Inl _ \<Rightarrow> 0 | Inr l \<Rightarrow> max l 0))"

definition PublishQuotaHeartbeat ::
  "snapshot_publisher \<Rightarrow> quota_env \<Rightarrow> bool \<Rightarrow> string \<Rightarrow> int \<Rightarrow> int \<Rightarrow> files \<Rightarrow> (gerr + quota_heartbeat) \<times> files" where
  "PublishQuotaHeartbeat p qe ok errorText staleAfterSeconds failOpenAfterSeconds files =
     (case qe_ended qe of Some e \<Rightarrow> (Inl e, files) | None \<Rightarrow>
     (case quota_path p qe quotaHeartbeatRelativePath of Inl e \<Rightarrow> (Inl e, files) | Inr path \<Rightarrow>
     (let updatedAt = unix_of (qe_now qe);
          payload = \<lparr>hb_Version = 1, hb_UpdatedAt = updatedAt, hb_OK = ok, hb_Error = truncateRunes errorText 500,
            hb_StaleAfterSeconds = max staleAfterSeconds 5,
            hb_LastSuccessAt = (if ok then updatedAt else previous_success (read_file qe path files)),
            hb_FailOpenAfterSeconds = max failOpenAfterSeconds 30\<rparr>;
          raw = document (qe_length qe) (heartbeat_json payload)
      in (case wrapping ''validate quota heartbeat: '' (ParseQuotaHeartbeat raw) of
            Inl e \<Rightarrow> (Inl e, files)
          | Inr _ \<Rightarrow>
              (case write_quota p qe raw (files path) of
                 (Some e, f) \<Rightarrow> (Inl e, files(path := f))
               | (None, f) \<Rightarrow> (Inr payload, files(path := f)))))))"

end
