(* ===== verification/Collector_Runtime.thy ===== *)
theory Collector_Runtime
  imports Collector_Queue Quota_Publisher
begin

text \<open>
  One round of the usage collector and the rebuild of its counters (\<open>internal/collector/runtime.go\<close>). The control
  plane, the usage database and the publisher are records of operations on an abstract world \<open>'w\<close>; an absent
  dependency is \<open>None\<close>, and a nil runtime, whose error is the same, the one without dependencies. A round whose
  queue does not end is \<open>None\<close>.
\<close>

section \<open>Interfaces\<close>

record team_classification =
  tc_TeamID :: "string option"
  tc_TeamMembershipVersion :: int

record 'w control_catalog =
  cc_ReadAccounts :: "('w, account list) oper"
  cc_ReadKeyRecords :: "('w, key_record list) oper"
  cc_EnsureInternalKeys :: "string list \<Rightarrow> ('w, internal_key gomap) oper"
  cc_ReadUserTeams :: "string list \<Rightarrow> ('w, team_classification gomap) oper"

record 'w runtime_writer =
  rw_IngestEvents :: "'w event_writer"
  rw_SyncIdentities :: "usage_identity list \<Rightarrow> ('w, int) oper"
  rw_SyncUserTeams :: "team_identity gomap \<Rightarrow> ('w, int) oper"
  rw_EnsureUsageBreakdownStarted :: "('w, int) oper"
  rw_EnsureWeekTimezone :: "string \<Rightarrow> ('w, bool) oper"
  rw_ConfigurePersonalQuotaReset :: "bool \<Rightarrow> bool \<Rightarrow> ('w, quota_reset_configuration) oper"
  rw_WeeklyQuotas :: "string list \<Rightarrow> int option \<Rightarrow> ('w, user_weekly_quota gomap) oper"
  rw_UpdateCollectorStatus :: "string \<Rightarrow> ('w, unit) oper"
  rw_RebuildWeeklyUsage :: "('w, rebuild_result) oper"

record 'w quota_publisher =
  qp_PublishQuotaSnapshot :: "user_weekly_quota gomap \<Rightarrow> ('w, snapshot_result) oper"
  qp_PublishQuotaHeartbeat :: "bool \<Rightarrow> string \<Rightarrow> int \<Rightarrow> int \<Rightarrow> ('w, quota_heartbeat) oper"

record runtime_config =
  rg_ManagementKey :: string
  rg_BatchSize :: int
  rg_WeekTimezone :: string
  rg_ResetPersonalWeeklyOnNewWeek :: bool
  rg_DefaultWeeklyTokens :: "int option"
  rg_ModelMultipliers :: "f64 gomap"
  rg_ReasoningMultipliers :: "f64 gomap"
  rg_HeartbeatStaleAfterSeconds :: int
  rg_QuotaFailOpenAfterSeconds :: int

text \<open>A factory makes the queue of an account from its address, the password and the batch size.\<close>

type_synonym 'w queue_factory = "string \<Rightarrow> string \<Rightarrow> string \<Rightarrow> int \<Rightarrow> gerr + 'w batch_drainer option"

record 'w collector_runtime =
  co_Control :: "'w control_catalog option"
  co_Writer :: "'w runtime_writer option"
  co_Publisher :: "'w quota_publisher option"
  co_QueueFactory :: "'w queue_factory option"
  co_Config :: runtime_config

record run_result =
  rn_Counters :: ingest_counters
  rn_Errors :: "string list"
  rn_Snapshot :: snapshot_result

record rebuild_runtime_result =
  rv_Rebuild :: rebuild_result
  rv_Snapshot :: snapshot_result

definition zero_snapshot :: snapshot_result where
  "zero_snapshot = \<lparr>sr_Generation = [], sr_Records = 0, sr_Changed = False\<rparr>"

definition zero_run :: run_result where
  "zero_run = \<lparr>rn_Counters = zero_counters, rn_Errors = [], rn_Snapshot = zero_snapshot\<rparr>"

definition zero_rebuild_run :: rebuild_runtime_result where
  "zero_rebuild_run = \<lparr>rv_Rebuild = \<lparr>rb_Backfilled = False, rb_Events = 0, rb_Counters = 0\<rparr>, rv_Snapshot = zero_snapshot\<rparr>"

section \<open>The dependencies and the users\<close>

definition validate_runtime ::
  "'w collector_runtime \<Rightarrow> gerr + 'w control_catalog \<times> 'w runtime_writer \<times> 'w quota_publisher" where
  "validate_runtime rt =
     (case (co_Control rt, co_Writer rt, co_Publisher rt) of
        (Some control, Some writer, Some publisher) \<Rightarrow>
          if trim_space (rg_ManagementKey (co_Config rt)) = [] then Inl (ErrNew ''usage collector management key is required'')
          else if rg_BatchSize (co_Config rt) < 1 \<or> maxBatchSize < rg_BatchSize (co_Config rt)
          then Inl (ErrNew (''usage collector batch size must be between 1 and '' @ itoa maxBatchSize))
          else if trim_space (rg_WeekTimezone (co_Config rt)) = [] then Inl (ErrNew ''usage collector week timezone is required'')
          else Inr (control, writer, publisher)
      | _ \<Rightarrow> Inl (ErrNew ''usage collector runtime dependencies are required''))"

text \<open>\<open>defaultQueueFactory\<close>, given the connection an address leads to.\<close>

definition defaultQueueFactory :: "(string \<Rightarrow> 'w link) \<Rightarrow> 'w queue_factory" where
  "defaultQueueFactory links account address password batchSize =
     map_sum id (\<lambda>q. Some (\<lambda>consume. Drain (links address) (Some q) (Some consume)))
       (NewQueue \<lparr>qc_Address = address, qc_Password = password, qc_Name = [], qc_BatchSize = batchSize, qc_DialTimeout = 0,
          qc_ReadTimeout = 0, qc_WriteTimeout = 0\<rparr>)"

definition sorted_users :: "string list \<Rightarrow> string list" where
  "sorted_users users = sort (remdups (filter (\<lambda>u. u \<noteq> []) users))"

definition activeUsers :: "key_record list \<Rightarrow> string list" where
  "activeUsers records = sorted_users (map (\<lambda>r. norm_name (kr_User r)) (filter (\<lambda>r. kr_Status r = ''active'') records))"

definition collectorIdentities :: "key_record list \<Rightarrow> internal_key gomap \<Rightarrow> usage_identity list \<times> string list" where
  "collectorIdentities records internal =
     (let active = filter (\<lambda>(user, k). ik_Status k = ''active'') (sort_key fst internal);
          identities =
            map (\<lambda>r. \<lparr>ui_Key = kr_Key r, ui_Label = kr_Label r, ui_UserEmail = norm_name (kr_User r), ui_Account = kr_Account r\<rparr>) records @
            map (\<lambda>(user, k). \<lparr>ui_Key = ik_Key k, ui_Label = norm_name user, ui_UserEmail = norm_name user, ui_Account = []\<rparr>) active
      in (identities, sorted_users (map ui_UserEmail identities)))"

definition safeRuntimeError :: "string \<Rightarrow> gerr \<Rightarrow> string \<Rightarrow> string" where
  "safeRuntimeError scope e secret = scope @ '': '' @ redacted secret (err_text e)"

definition team_identities :: "team_classification gomap \<Rightarrow> team_identity gomap" where
  "team_identities classifications =
     map (\<lambda>(user, c). (user, \<lparr>ti_TeamID = (case tc_TeamID c of None \<Rightarrow> [] | Some t \<Rightarrow> t),
            ti_MembershipVersion = tc_TeamMembershipVersion c\<rparr>)) classifications"

text \<open>\<open>net.JoinHostPort\<close>: a host with a colon is put in brackets.\<close>

definition JoinHostPort :: "string \<Rightarrow> string \<Rightarrow> string" where
  "JoinHostPort host port = (if CHR '':'' \<in> set host then ''['' @ host @ '']:'' @ port else host @ '':'' @ port)"

section \<open>A round\<close>

text \<open>The first part: the identities and teams, the marks and the time zone; its result are the active users and the accounts.\<close>

definition synchronise ::
  "'w control_catalog \<Rightarrow> 'w runtime_writer \<Rightarrow> runtime_config \<Rightarrow> ('w, string list \<times> account list) oper" where
  "synchronise control writer config =
     and_do (wrap_do ''read collector key identities: '' (cc_ReadKeyRecords control)) (\<lambda>records.
     let users = activeUsers records
     in and_do (wrap_do ''synchronize collector internal identities: '' (cc_EnsureInternalKeys control users)) (\<lambda>internalKeys.
        let (identities, identityUsers) = collectorIdentities records internalKeys
        in and_do (rw_SyncIdentities writer identities) (\<lambda>_.
           and_do (wrap_do ''read collector team identities: '' (cc_ReadUserTeams control identityUsers)) (\<lambda>classifications.
           and_do (rw_SyncUserTeams writer (team_identities classifications)) (\<lambda>_.
           and_do (rw_EnsureUsageBreakdownStarted writer) (\<lambda>_.
           and_do (rw_EnsureWeekTimezone writer (rg_WeekTimezone config)) (\<lambda>timezoneChanged.
           and_do (rw_ConfigurePersonalQuotaReset writer (rg_ResetPersonalWeeklyOnNewWeek config) timezoneChanged) (\<lambda>_.
           and_do (wrap_do ''read collector accounts: '' (cc_ReadAccounts control)) (\<lambda>accounts.
           ok_do (users, accounts))))))))))"

definition add_error :: "string \<Rightarrow> gerr \<Rightarrow> runtime_config \<Rightarrow> run_result \<Rightarrow> run_result" where
  "add_error scope e config result =
     result\<lparr>rn_Errors := rn_Errors result @ [safeRuntimeError scope e (rg_ManagementKey config)]\<rparr>"

definition collect_account ::
  "item_decoder \<Rightarrow> 'w queue_factory \<Rightarrow> 'w collect_service \<Rightarrow> runtime_config \<Rightarrow> account \<Rightarrow> run_result \<Rightarrow> 'w \<Rightarrow> (run_result \<times> 'w) option" where
  "collect_account decode factory service config a result w =
     (if \<not> ac_GroupEnabled a then Some (result, w)
      else case factory (ac_ID a) (JoinHostPort (''cliproxy-'' @ ac_ID a) ''8317'') (rg_ManagementKey config) (rg_BatchSize config) of
        Inl e \<Rightarrow> Some (add_error (ac_ID a) e config result, w)
      | Inr queue \<Rightarrow>
          map_option (\<lambda>((counters, e), w).
              let result = result\<lparr>rn_Counters := addCounters (rn_Counters result) counters\<rparr>
              in (case e of None \<Rightarrow> result | Some e \<Rightarrow> add_error (ac_ID a) e config result, w))
            (DrainAccount decode service (ac_ID a) queue w))"

fun collect_accounts ::
  "item_decoder \<Rightarrow> 'w queue_factory \<Rightarrow> 'w collect_service \<Rightarrow> runtime_config \<Rightarrow> account list \<Rightarrow> run_result \<Rightarrow> 'w \<Rightarrow> (run_result \<times> 'w) option" where
  "collect_accounts decode factory service config [] result w = Some (result, w)"
| "collect_accounts decode factory service config (a # accounts) result w =
     Option.bind (collect_account decode factory service config a result w)
       (\<lambda>(result, w). collect_accounts decode factory service config accounts result w)"

definition publish_quotas ::
  "'w runtime_writer \<Rightarrow> 'w quota_publisher \<Rightarrow> runtime_config \<Rightarrow> string list \<Rightarrow> run_result \<Rightarrow> 'w \<Rightarrow> run_result \<times> 'w" where
  "publish_quotas writer publisher config users result w =
     (case rw_WeeklyQuotas writer users (rg_DefaultWeeklyTokens config) w of
        (Inl e, w) \<Rightarrow> (add_error ''quota snapshot'' e config result, w)
      | (Inr quotas, w) \<Rightarrow>
          (case qp_PublishQuotaSnapshot publisher quotas w of
             (Inl e, w) \<Rightarrow> (add_error ''quota snapshot'' e config (result\<lparr>rn_Snapshot := zero_snapshot\<rparr>), w)
           | (Inr snapshot, w) \<Rightarrow> (result\<lparr>rn_Snapshot := snapshot\<rparr>, w)))"

definition error_text :: "run_result \<Rightarrow> string" where
  "error_text result = join_with ''; '' (rn_Errors result)"

text \<open>The last part: the outcome of the round is stored and published.\<close>

definition conclude_round ::
  "'w runtime_writer \<Rightarrow> 'w quota_publisher \<Rightarrow> runtime_config \<Rightarrow> run_result \<Rightarrow> 'w \<Rightarrow> (run_result \<times> gerr option) \<times> 'w" where
  "conclude_round writer publisher config result w =
     (case rw_UpdateCollectorStatus writer (error_text result) w of
        (Inl e, w) \<Rightarrow> ((result, Some e), w)
      | (Inr _, w) \<Rightarrow>
          (case qp_PublishQuotaHeartbeat publisher (rn_Errors result = []) (error_text result)
                  (rg_HeartbeatStaleAfterSeconds config) (rg_QuotaFailOpenAfterSeconds config) w of
             (Inr _, w) \<Rightarrow> ((result, None), w)
           | (Inl e, w) \<Rightarrow>
               let result = add_error ''quota heartbeat'' e config result
               in (case rw_UpdateCollectorStatus writer (error_text result) w of
                     (Inl e, w) \<Rightarrow> ((result, Some e), w) | (Inr _, w) \<Rightarrow> ((result, None), w))))"

definition weight_policy_of :: "runtime_config \<Rightarrow> weight_policy" where
  "weight_policy_of config = \<lparr>wp_ModelMultipliers = rg_ModelMultipliers config, wp_ReasoningMultipliers = rg_ReasoningMultipliers config\<rparr>"

definition CollectorRunOnce ::
  "item_decoder \<Rightarrow> (string \<Rightarrow> 'w link) \<Rightarrow> 'w collector_runtime \<Rightarrow> 'w \<Rightarrow> ((run_result \<times> gerr option) \<times> 'w) option" where
  "CollectorRunOnce decode links rt w =
     (case validate_runtime rt of
        Inl e \<Rightarrow> Some ((zero_run, Some e), w)
      | Inr (control, writer, publisher) \<Rightarrow>
     (case synchronise control writer (co_Config rt) w of
        (Inl e, w) \<Rightarrow> Some ((zero_run, Some e), w)
      | (Inr (users, accounts), w) \<Rightarrow>
          (let service = \<lparr>se_Writer = Some (rw_IngestEvents writer), se_Policy = weight_policy_of (co_Config rt)\<rparr>;
               factory = (case co_QueueFactory rt of None \<Rightarrow> defaultQueueFactory links | Some f \<Rightarrow> f)
           in map_option (\<lambda>(result, w).
                case publish_quotas writer publisher (co_Config rt) users result w of (result, w) \<Rightarrow>
                  conclude_round writer publisher (co_Config rt) result w)
                (collect_accounts decode factory service (co_Config rt) accounts zero_run w))))"

section \<open>Rebuilding\<close>

text \<open>The result is filled as the operations succeed; \<open>stop_with\<close> is the return with the result so far.\<close>

definition stop_with :: "'r \<Rightarrow> (gerr + 'a) \<times> 'w \<Rightarrow> ('a \<Rightarrow> 'w \<Rightarrow> ('r \<times> gerr option) \<times> 'w) \<Rightarrow> ('r \<times> gerr option) \<times> 'w" where
  "stop_with result r k = (case r of (Inl e, w) \<Rightarrow> ((result, Some e), w) | (Inr x, w) \<Rightarrow> k x w)"

definition Rebuild :: "'w collector_runtime \<Rightarrow> 'w \<Rightarrow> (rebuild_runtime_result \<times> gerr option) \<times> 'w" where
  "Rebuild rt w =
     (case validate_runtime rt of
        Inl e \<Rightarrow> ((zero_rebuild_run, Some e), w)
      | Inr (control, writer, publisher) \<Rightarrow>
     (let config = co_Config rt; result = zero_rebuild_run
      in stop_with result (cc_ReadKeyRecords control w) (\<lambda>records w.
         stop_with result (rw_EnsureWeekTimezone writer (rg_WeekTimezone config) w) (\<lambda>changed w.
         stop_with result (rw_RebuildWeeklyUsage writer w) (\<lambda>rebuilt w.
         let result = result\<lparr>rv_Rebuild := rebuilt\<rparr>
         in stop_with result (rw_ConfigurePersonalQuotaReset writer (rg_ResetPersonalWeeklyOnNewWeek config) changed w) (\<lambda>_ w.
            stop_with result (rw_WeeklyQuotas writer (activeUsers records) (rg_DefaultWeeklyTokens config) w) (\<lambda>quotas w.
            stop_with result (qp_PublishQuotaSnapshot publisher quotas w) (\<lambda>snapshot w.
            let result = result\<lparr>rv_Snapshot := snapshot\<rparr>
            in stop_with result (qp_PublishQuotaHeartbeat publisher True [] (rg_HeartbeatStaleAfterSeconds config)
                   (rg_QuotaFailOpenAfterSeconds config) w) (\<lambda>_ w.
               stop_with result (rw_UpdateCollectorStatus writer [] w) (\<lambda>_ w.
               ((result, None), w)))))))))))"

end
