(* ===== verification/Collector_Config.thy ===== *)
theory Collector_Config
  imports Collector_Runtime
begin

text \<open>
  The configuration of the collector, read from the settings (\<open>internal/collector/runtime.go\<close>), and the time
  zone of the site (\<open>internal/sitetime\<close>). The time zone database is \<open>ul_location\<close>.
\<close>

section \<open>The time zone of the site\<close>

definition TimezoneSettingKey :: string where "TimezoneSettingKey = ''system.timezone''"
definition DefaultName :: string where "DefaultName = ''Asia/Shanghai''"

definition Validate :: "usage_lib \<Rightarrow> string \<Rightarrow> gerr + location" where
  "Validate lib name =
     (if name = [] \<or> name = ''Local'' then Inl (ErrNew ''sitetime.select_a_valid_iana_timezone'')
      else wrapping ''sitetime.select_a_valid_iana_timezone_2'' (ul_location lib name))"

definition timezone_keys :: "string list" where
  "timezone_keys = [TimezoneSettingKey, ''user_quota.timezone'', ''notification.timezone'']"

definition timezone_value :: "usage_lib \<Rightarrow> string \<Rightarrow> goany \<Rightarrow> gerr + string" where
  "timezone_value lib key raw =
     (case raw of
        AString s \<Rightarrow>
          and_then (wrapping (key @ '': '') (Validate lib (trim_space s))) (\<lambda>_. Inr (trim_space s))
      | _ \<Rightarrow> Inl (ErrNew (key @ '' must be an IANA timezone'')))"

definition Name :: "usage_lib \<Rightarrow> goany gomap \<Rightarrow> gerr + string" where
  "Name lib settings =
     (case find (\<lambda>key. map_of settings key \<noteq> None) timezone_keys of
        None \<Rightarrow> Inr DefaultName
      | Some key \<Rightarrow> timezone_value lib key (mget ANil settings key))"

text \<open>The settings are changed in place.\<close>

definition Migrate :: "usage_lib \<Rightarrow> goany gomap \<Rightarrow> gerr option \<times> goany gomap" where
  "Migrate lib settings =
     (if map_of settings ''user_quota.timezone'' = None \<and> map_of settings ''notification.timezone'' = None
      then (None, settings)
      else (case Name lib settings of
              Inl e \<Rightarrow> (Some e, settings)
            | Inr name \<Rightarrow>
                (None, AList.delete ''notification.timezone'' (AList.delete ''user_quota.timezone''
                   (mput TimezoneSettingKey (AString name) settings)))))"

section \<open>Settings of one type\<close>

definition numericSetting :: "goany gomap \<Rightarrow> string \<Rightarrow> gerr + f64 option" where
  "numericSetting settings key =
     (case map_of settings key of
        None \<Rightarrow> Inr None
      | Some raw \<Rightarrow>
          (case (case raw of AFloat f \<Rightarrow> Some f | AInt i \<Rightarrow> Some (f_of_int i) | AInt64 i \<Rightarrow> Some (f_of_int i)
                 | ANumber s \<Rightarrow> ParseFloat s | AString s \<Rightarrow> ParseFloat (trim_space s) | _ \<Rightarrow> None) of
             None \<Rightarrow> Inl (ErrNew (key @ '' must be numeric''))
           | Some f \<Rightarrow> if finite64 f then Inr (Some f) else Inl (ErrNew (key @ '' must be finite''))))"

text \<open>A float must survive the conversion to \<open>int64\<close> and back.\<close>

definition integerValue :: "goany \<Rightarrow> int option" where
  "integerValue raw =
     (case raw of
        AInt i \<Rightarrow> Some i
      | AInt64 i \<Rightarrow> Some i
      | AFloat f \<Rightarrow>
          if \<not> finite64 f \<or> f_lt (Fin (2 ^ 63)) f \<or> f_lt f (Fin (- (2 ^ 63))) \<or> f \<noteq> f_of_int (f_to_int64 f)
          then None else Some (f_to_int64 f)
      | ANumber s \<Rightarrow> ParseInt64 s
      | AString s \<Rightarrow> ParseInt64 (trim_space s)
      | _ \<Rightarrow> None)"

definition integerSetting :: "goany gomap \<Rightarrow> string \<Rightarrow> gerr + int option" where
  "integerSetting settings key =
     (case map_of settings key of
        None \<Rightarrow> Inr None
      | Some raw \<Rightarrow> (case integerValue raw of None \<Rightarrow> Inl (ErrNew (key @ '' must be an integer'')) | Some i \<Rightarrow> Inr (Some i)))"

definition booleanSetting :: "goany gomap \<Rightarrow> string \<Rightarrow> gerr + bool option" where
  "booleanSetting settings key =
     (case map_of settings key of
        None \<Rightarrow> Inr None
      | Some raw \<Rightarrow> (case raw of ABool b \<Rightarrow> Inr (Some b) | _ \<Rightarrow> Inl (ErrNew (key @ '' must be a boolean''))))"

section \<open>The configuration\<close>

definition DefaultRuntimeConfig :: runtime_config where
  "DefaultRuntimeConfig =
     \<lparr>rg_ManagementKey = [], rg_BatchSize = 100, rg_WeekTimezone = DefaultName, rg_ResetPersonalWeeklyOnNewWeek = True,
      rg_DefaultWeeklyTokens = None, rg_ModelMultipliers = [], rg_ReasoningMultipliers = [],
      rg_HeartbeatStaleAfterSeconds = 15, rg_QuotaFailOpenAfterSeconds = 300\<rparr>"

definition default_tokens :: "goany gomap \<Rightarrow> gerr + int option" where
  "default_tokens settings =
     (case mget ANil settings ''user_quota.default_weekly_tokens'' of
        ANil \<Rightarrow> Inr None
      | raw \<Rightarrow>
          (case integerValue raw of
             Some value \<Rightarrow> if value \<le> 0 then Inl (ErrNew ''user_quota.default_weekly_tokens must be a positive integer or null'')
               else Inr (Some value)
           | None \<Rightarrow> Inl (ErrNew ''user_quota.default_weekly_tokens must be a positive integer or null'')))"

text \<open>Both multiplier loops: the keys in order, a value between 0.1 and 10 (the floats next to those numbers).\<close>

fun multipliers_of :: "goany gomap \<Rightarrow> string list \<Rightarrow> f64 gomap \<Rightarrow> gerr + f64 gomap" where
  "multipliers_of settings [] m = Inr m"
| "multipliers_of settings (key # keys) m =
     (case numericSetting settings key of
        Inl e \<Rightarrow> Inl e
      | Inr None \<Rightarrow> multipliers_of settings keys m
      | Inr (Some value) \<Rightarrow>
          if f_lt value (round64 (1 / 10)) \<or> f_lt (Fin 10) value
          then Inl (ErrNew (key @ '' must be between 0.1 and 10''))
          else multipliers_of settings keys (mput key value m))"

definition millisecond :: int where "millisecond = 1000000"

definition setting_or :: "'a \<Rightarrow> 'a option \<Rightarrow> 'a" where
  "setting_or d v = (case v of None \<Rightarrow> d | Some x \<Rightarrow> x)"

definition RuntimeConfigFromSettings :: "usage_lib \<Rightarrow> goany gomap \<Rightarrow> gerr + runtime_config \<times> int" where
  "RuntimeConfigFromSettings lib settings =
     and_then (numericSetting settings ''collector.interval_seconds'') (\<lambda>seconds.
     and_then (integerSetting settings ''collector.batch_size'') (\<lambda>batchSize.
     and_then (Name lib settings) (\<lambda>timezone.
     and_then (booleanSetting settings ''user_quota.reset_personal_weekly_on_new_week'') (\<lambda>reset.
     and_then (default_tokens settings) (\<lambda>tokens.
     and_then (integerSetting settings ''user_quota.fail_open_after_seconds'') (\<lambda>failOpen.
     and_then (multipliers_of settings (map (\<lambda>(model, _). ModelMultiplierSettingKey model) ModelMultiplierDefinitions) []) (\<lambda>models.
     and_then (multipliers_of settings (map (\<lambda>effort. reasoningMultiplierConfigBase @ effort) reasoningEfforts) []) (\<lambda>reasoning.
     let interval = (case seconds of None \<Rightarrow> 2 * second | Some value \<Rightarrow> f_to_int64 (f_mul value (f_of_int second)));
         config = DefaultRuntimeConfig
           \<lparr>rg_BatchSize := setting_or (rg_BatchSize DefaultRuntimeConfig) batchSize, rg_WeekTimezone := timezone,
            rg_ResetPersonalWeeklyOnNewWeek := setting_or True reset, rg_DefaultWeeklyTokens := tokens,
            rg_QuotaFailOpenAfterSeconds := setting_or (rg_QuotaFailOpenAfterSeconds DefaultRuntimeConfig) failOpen,
            rg_ModelMultipliers := models, rg_ReasoningMultipliers := reasoning\<rparr>
     in if interval < 500 * millisecond \<or> 60 * second < interval
        then Inl (ErrNew ''collector.interval_seconds must be between 0.5 and 60'')
        else if rg_BatchSize config < 1 \<or> maxBatchSize < rg_BatchSize config
        then Inl (ErrNew (''collector.batch_size must be between 1 and '' @ itoa maxBatchSize))
        else and_then (wrapping (''invalid user quota timezone '' @ quoted timezone @ '': '') (ul_location lib timezone)) (\<lambda>_.
             Inr (config, interval))))))))))"

section \<open>Starting the collector\<close>

text \<open>
  \<open>runOwnedCollector\<close> (\<open>cmd/collector/main.go\<close>) completes the configuration: options of the command line replace
  the interval and the batch size, and a heartbeat is stale after three intervals, at least 15 seconds.
\<close>

definition is_control :: "string \<Rightarrow> bool" where
  "is_control rune \<longleftrightarrow> (case rune of [c] \<Rightarrow> (of_char c :: nat) < 32 \<or> (of_char c :: nat) = 127
     | [a, b] \<Rightarrow> a = CHR 0xC2 \<and> (of_char b :: nat) < 160 | _ \<Rightarrow> False)"

definition validManagementKey :: "string \<Rightarrow> bool" where
  "validManagementKey value \<longleftrightarrow> 12 \<le> length value \<and> length value \<le> 128 \<and>
     list_all (\<lambda>rune. trim_space rune \<noteq> [] \<and> \<not> is_control rune) (runes value)"

text \<open>\<open>int64(interval.Seconds()*3+1)\<close>: the seconds are a float, the whole ones plus the rest over a billion.\<close>

definition interval_seconds :: "int \<Rightarrow> f64" where
  "interval_seconds d = f_add (f_of_int (go_div d second)) (f_div (f_of_int (d - go_div d second * second)) (f_of_int second))"

definition stale_after :: "int \<Rightarrow> int" where
  "stale_after interval = max 15 (f_to_int64 (f_add (f_mul (interval_seconds interval) (Fin 3)) (Fin 1)))"

definition owned_config ::
  "int option \<Rightarrow> int option \<Rightarrow> string option \<Rightarrow> runtime_config \<times> int \<Rightarrow> gerr + runtime_config \<times> int" where
  "owned_config intervalFlag batchFlag managementKey configured =
     (let interval = setting_or (snd configured) intervalFlag
      in case managementKey of
           Some key \<Rightarrow>
             if validManagementKey key
             then Inr ((fst configured)\<lparr>rg_BatchSize := setting_or (rg_BatchSize (fst configured)) batchFlag, rg_ManagementKey := key,
                    rg_HeartbeatStaleAfterSeconds := stale_after interval\<rparr>, interval)
             else Inl (ErrNew ''valid CPA management key is required'')
         | None \<Rightarrow> Inl (ErrNew ''valid CPA management key is required''))"

end
