(* ===== verification/Collector_World.thy ===== *)
theory Collector_World
  imports Collector_Config
begin

text \<open>
  The collector as it is started (\<open>cmd/collector/main.go\<close>): its operations are those of the control plane, of the
  usage database and of the quota publisher, the writes under the ownership fence
  (\<open>internal/collector/fenced_writer.go\<close>, \<open>fenced_publisher.go\<close>). The world holds the control plane, the usage
  database, the published files and the network, whose state is a parameter; \<open>w_step\<close> counts the operations, and
  each meets the environment that \<open>around\<close> gives for its number: its faults, its clock, its random text.
\<close>

record 'q world =
  w_step :: nat
  w_control :: db
  w_usage :: usage_db
  w_files :: files
  w_net :: 'q

record around =
  aw_lib :: usage_lib
  aw_fence :: fence
  aw_fenv :: "nat \<Rightarrow> env"
  aw_env :: "nat \<Rightarrow> env"
  aw_quota :: "nat \<Rightarrow> quota_env"
  aw_draws :: "nat \<Rightarrow> nat \<Rightarrow> gerr + string"
  aw_publisher :: snapshot_publisher

definition tick :: "'q world \<Rightarrow> 'q world" where "tick w = w\<lparr>w_step := Suc (w_step w)\<rparr>"

definition read_control :: "around \<Rightarrow> (env \<Rightarrow> db \<Rightarrow> gerr + 'a) \<Rightarrow> ('q world, 'a) oper" where
  "read_control a f w = (f (aw_env a (w_step w)) (w_control w), tick w)"

definition on_usage :: "around \<Rightarrow> (env \<Rightarrow> usage_db \<Rightarrow> (gerr + 'a) \<times> usage_db) \<Rightarrow> ('q world, 'a) oper" where
  "on_usage a f w =
     (case withFencedResult (aw_fence a) (aw_fenv a (w_step w)) (w_control w) (f (aw_env a (w_step w))) (w_usage w) of
        (r, d) \<Rightarrow> (r, (tick w)\<lparr>w_usage := d\<rparr>))"

definition on_files :: "around \<Rightarrow> (quota_env \<Rightarrow> files \<Rightarrow> (gerr + 'a) \<times> files) \<Rightarrow> ('q world, 'a) oper" where
  "on_files a f w =
     (case withFencedResult (aw_fence a) (aw_fenv a (w_step w)) (w_control w) (f (aw_quota a (w_step w))) (w_files w) of
        (r, fs) \<Rightarrow> (r, (tick w)\<lparr>w_files := fs\<rparr>))"

section \<open>The control plane\<close>

text \<open>\<open>ReadUserTeams\<close>, without the names of the teams, which the collector does not use and the model's tables do not have.\<close>

function read_teams :: "env \<Rightarrow> string list \<Rightarrow> db \<Rightarrow> team_classification gomap \<Rightarrow> gerr + team_classification gomap" where
  "read_teams env users d result =
     (if users = [] then Inr result
      else and_then (attempt env (SqlRead ''user_team_memberships'' []) ''read control-plane team memberships: ''
             (filter (\<lambda>(user, m). user \<in> set (take 500 users)) (db_memberships d))) (\<lambda>rows.
           read_teams env (drop 500 users) d
             (fold (\<lambda>(user, m). mput user \<lparr>tc_TeamID = ms_TeamID m, tc_TeamMembershipVersion = ms_Version m\<rparr>) rows result)))"
  by pat_completeness auto

termination by (relation "measure (\<lambda>(_, users, _). length users)") auto

declare read_teams.simps [simp del]

definition ReadUserTeams :: "env \<Rightarrow> string list \<Rightarrow> db \<Rightarrow> gerr + team_classification gomap" where
  "ReadUserTeams env userEmails d =
     (let users = normalizedUsers userEmails
      in read_teams env users d (map (\<lambda>u. (u, \<lparr>tc_TeamID = None, tc_TeamMembershipVersion = 0\<rparr>)) users))"

definition store_catalog :: "around \<Rightarrow> 'q world control_catalog" where
  "store_catalog a =
     \<lparr>cc_ReadAccounts = read_control a ReadAccounts, cc_ReadKeyRecords = read_control a ReadKeyRecords,
      cc_EnsureInternalKeys = (\<lambda>users w.
        case EnsureInternalKeys (aw_fence a) (aw_env a (w_step w)) (aw_draws a (w_step w)) users (w_control w) of
          (r, c) \<Rightarrow> (r, (tick w)\<lparr>w_control := c\<rparr>)),
      cc_ReadUserTeams = (\<lambda>users. read_control a (\<lambda>env. ReadUserTeams env users))\<rparr>"

section \<open>The fenced writer and the fenced publisher\<close>

definition FencedRuntimeWriter :: "around \<Rightarrow> 'q world runtime_writer" where
  "FencedRuntimeWriter a =
     \<lparr>rw_IngestEvents = (\<lambda>account events policy. on_usage a (\<lambda>env. IngestEvents (aw_lib a) env account events policy)),
      rw_SyncIdentities = (\<lambda>identities. on_usage a (\<lambda>env. SyncIdentities env identities)),
      rw_SyncUserTeams = (\<lambda>teams. on_usage a (\<lambda>env. SyncUserTeams env teams)),
      rw_EnsureUsageBreakdownStarted = on_usage a EnsureUsageBreakdownStarted,
      rw_EnsureWeekTimezone = (\<lambda>timezone. on_usage a (\<lambda>env. EnsureWeekTimezone (aw_lib a) env timezone)),
      rw_ConfigurePersonalQuotaReset = (\<lambda>enabled reschedule. on_usage a (\<lambda>env. ConfigurePersonalQuotaReset (aw_lib a) env enabled reschedule)),
      rw_WeeklyQuotas = (\<lambda>users limit w. (WeeklyQuotas (aw_lib a) (aw_env a (w_step w)) users limit (w_usage w), tick w)),
      rw_UpdateCollectorStatus = (\<lambda>text. on_usage a (\<lambda>env. UpdateCollectorStatus env text)),
      rw_RebuildWeeklyUsage = on_usage a (RebuildWeeklyUsage (aw_lib a))\<rparr>"

definition FencedQuotaPublisher :: "around \<Rightarrow> 'q world quota_publisher" where
  "FencedQuotaPublisher a =
     \<lparr>qp_PublishQuotaSnapshot = (\<lambda>quotas. on_files a (\<lambda>qe. PublishQuotaSnapshot (aw_publisher a) qe quotas)),
      qp_PublishQuotaHeartbeat = (\<lambda>ok text stale failOpen.
        on_files a (\<lambda>qe. PublishQuotaHeartbeat (aw_publisher a) qe ok text stale failOpen))\<rparr>"

section \<open>The network\<close>

definition on_net :: "('q, 'a) oper \<Rightarrow> ('q world, 'a) oper" where
  "on_net m w = (case m (w_net w) of (r, q) \<Rightarrow> (r, (tick w)\<lparr>w_net := q\<rparr>))"

definition net_link :: "'q link \<Rightarrow> 'q world link" where
  "net_link l = \<lparr>ln_Dial = (\<lambda>q. on_net (ln_Dial l q)), ln_WithContext = ln_WithContext l, ln_Auth = (\<lambda>p. on_net (ln_Auth l p)),
     ln_Pop = (\<lambda>name n. on_net (ln_Pop l name n)), ln_ended = (\<lambda>w. ln_ended l (w_net w))\<rparr>"

section \<open>The collector\<close>

definition owned_collector :: "around \<Rightarrow> runtime_config \<Rightarrow> 'q world collector_runtime" where
  "owned_collector a config = \<lparr>co_Control = Some (store_catalog a), co_Writer = Some (FencedRuntimeWriter a),
     co_Publisher = Some (FencedQuotaPublisher a), co_QueueFactory = None, co_Config = config\<rparr>"

definition collect_round ::
  "around \<Rightarrow> item_decoder \<Rightarrow> (string \<Rightarrow> 'q link) \<Rightarrow> runtime_config \<Rightarrow> 'q world \<Rightarrow> ((run_result \<times> gerr option) \<times> 'q world) option" where
  "collect_round a decode net config = CollectorRunOnce decode (\<lambda>address. net_link (net address)) (owned_collector a config)"

definition rebuild_usage :: "around \<Rightarrow> runtime_config \<Rightarrow> 'q world \<Rightarrow> (rebuild_runtime_result \<times> gerr option) \<times> 'q world" where
  "rebuild_usage a config = Rebuild (owned_collector a config)"

end
