(* ===== verification/Quota_Publisher_Proofs.thy ===== *)
theory Quota_Publisher_Proofs
  imports Quota_Publisher Usage_Quota_Proofs Gateway_Proofs
begin

text \<open>
  From the usage database to the gateway's decision: a published quota reads back as it was computed, so the
  gateway refuses exactly the users whose stored events reach their limit.
\<close>

section \<open>A published quota reads back\<close>

definition small53 :: "int \<Rightarrow> bool" where
  "small53 i \<longleftrightarrow> \<bar>i\<bar> < 2 ^ 53"

definition small_quota :: "user_weekly_quota \<Rightarrow> bool" where
  "small_quota q \<longleftrightarrow> small53 (uq_WeekStartAt q) \<and> small53 (uq_WeekEndAt q) \<and> small53 (case uq_LimitTokens q of None \<Rightarrow> - 1 | Some l \<Rightarrow> l) \<and>
     small53 (uq_UsedTokens q) \<and> small53 (uq_RawUsedTokens q) \<and> small53 (uq_WeightedRawUsedTokens q)"

lemma small_round: "small53 i \<Longrightarrow> round64 (of_int i) = Fin (of_int i)"
  by (simp add: small53_def round64_of_int)

lemma floor_small: "small53 i \<Longrightarrow> floorInt64 (Fin (of_int i)) = Inr i"
proof -
  assume "small53 i"
  then have "- (2 ^ 63) \<le> i" "i < 2 ^ 63" by (auto simp: small53_def)
  then have "- (2 ^ 63) \<le> (of_int i :: rat)" "(of_int i :: rat) < 2 ^ 63"
    using of_int_le_iff [where 'a = rat, of "- (2 ^ 63)" i] of_int_less_iff [where 'a = rat, of i "2 ^ 63"] by simp_all
  then show ?thesis by (simp add: floorInt64_def not_less not_le)
qed

lemma dec_float_of_small: "small53 i \<Longrightarrow> dec_float_of (AInt64 i) = Some (Fin (of_int i))"
  by (simp add: dec_float_of_def small_round)

lemma optional_small: "small53 i \<Longrightarrow> optionalSnapshotFloor (json_any (AInt64 i)) d = Inr i"
  by (simp add: optionalSnapshotFloor_def snapshotNumber_def small_round floor_small)

definition published_raw :: "quota_record \<Rightarrow> raw_quota_record" where
  "published_raw r = \<lparr>rq_UserEmail = qr_UserEmail r, rq_WeekStartAt = Some (round64 (of_int (qr_WeekStartAt r))),
     rq_WeekEndAt = Some (round64 (of_int (qr_WeekEndAt r))), rq_LimitTokens = Some (round64 (of_int (qr_LimitTokens r))),
     rq_UsedTokens = Some (round64 (of_int (qr_UsedTokens r))), rq_RawUsedTokens = json_any (AInt64 (qr_RawUsedTokens r)),
     rq_WeightedRawUsedTokens = json_any (AInt64 (qr_WeightedRawUsedTokens r))\<rparr>"

lemma dec_float_of_int: "dec_float_of (AInt64 i) = Some f \<Longrightarrow> f = round64 (of_int i)"
  by (auto simp: dec_float_of_def split: f64.splits)

lemma decoded_record: "dec_struct_of z raw_quota_record_of (quota_record_json r) = Some raw \<Longrightarrow> raw = published_raw r"
  by (auto simp: dec_struct_of_def quota_record_json_def raw_quota_record_of_def dec_string_def dec_float_ptr_def dec_any_def
      published_raw_def mget_def dest!: dec_float_of_int split: option.splits if_splits)

lemma decoded_all: "dec_all f (map g xs) = Some ys \<Longrightarrow> (\<And>x y. f (g x) = Some y \<Longrightarrow> y = h x) \<Longrightarrow> ys = map h xs"
  by (induction xs arbitrary: ys) (auto split: option.splits)

lemma quota_record_of_raw_user: "quota_record_of_raw i seen raw = Inr r \<Longrightarrow> qr_UserEmail r = rq_UserEmail raw"
  by (auto simp: quota_record_of_raw_def invalid_quota_record_def and_then_Inr_iff split: option.splits if_splits)

lemma quota_records_of_raw_iff: "quota_records_of_raw i seen raws = Inr rs \<Longrightarrow>
    list_all2 (\<lambda>raw r. \<exists>i seen. quota_record_of_raw i seen raw = Inr r) raws rs"
  by (induction raws arbitrary: i seen rs) (auto simp: and_then_Inr_iff)

lemma small_record: "small_quota q \<Longrightarrow> quota_record_of_raw i seen (published_raw (published_quota (u, q))) = Inr r \<Longrightarrow>
    r = published_quota (u, q)"
  by (auto simp: quota_record_of_raw_def published_raw_def published_quota_def small_quota_def small_round floor_small optional_small
      floor_field_def invalid_quota_record_def and_then_Inr_iff simp del: json_any.simps split: if_splits)

lemma read_document: "readSnapshot (document len doc) = Inr raw \<Longrightarrow> raw = Some doc"
  by (auto simp: readSnapshot_def document_def split: if_splits)

lemma dec_document_object: "dec_document z f (Some (AObject m)) = Inr x \<longleftrightarrow> f m = Some x"
  by (auto simp: dec_document_def dec_struct_of_def split: option.splits)

lemma parsed_quotas:
  assumes "ParseQuotaSnapshot (document len (quota_snapshot_json g t digest (map published_quota qs))) = Inr s"
  obtains "qs_Generation s = g" "length g = 32"
    "list_all2 (\<lambda>p r. qr_UserEmail r = fst p \<and> (small_quota (snd p) \<longrightarrow> r = published_quota p)) qs (qs_Records s)"
proof -
  from assms obtain raw where raw: "raw_quota_of (the (as_object (quota_snapshot_json g t digest (map published_quota qs)))) = Some raw"
    and s: "quota_of_raw raw = Inr s"
    by (auto simp: ParseQuotaSnapshot_def and_then_Inr_iff dec_document_object quota_snapshot_json_def as_object_def dest!: read_document)
  from raw obtain raws where raws: "dec_all (dec_struct_of zero_raw_quota_record raw_quota_record_of)
      (map quota_record_json (map published_quota qs)) = Some raws" and fields: "rs_Records raw = Some raws" "rs_Generation raw = g"
    by (auto simp: raw_quota_of_def quota_snapshot_json_def as_object_def dec_slice_def dec_string_def mget_def split: option.splits)
  from s have records: "quota_records_of_raw 0 [] raws = Inr (qs_Records s)" and g: "qs_Generation s = g" "validLowerHex g 32"
    by (auto simp: quota_of_raw_def fields and_then_Inr_iff split: if_splits)
  have "raws = map published_raw (map published_quota qs)"
    by (rule decoded_all [OF raws]) (rule decoded_record)
  with quota_records_of_raw_iff [OF records]
  have "list_all2 (\<lambda>p r. \<exists>i seen. quota_record_of_raw i seen (published_raw (published_quota p)) = Inr r) qs (qs_Records s)"
    by (simp add: list.rel_map(1) comp_def)
  then have "list_all2 (\<lambda>p r. qr_UserEmail r = fst p \<and> (small_quota (snd p) \<longrightarrow> r = published_quota p)) qs (qs_Records s)"
  proof (rule list.rel_mono_strong)
    fix p r assume "\<exists>i seen. quota_record_of_raw i seen (published_raw (published_quota p)) = Inr r"
    then obtain i seen where r: "quota_record_of_raw i seen (published_raw (published_quota p)) = Inr r" by blast
    show "qr_UserEmail r = fst p \<and> (small_quota (snd p) \<longrightarrow> r = published_quota p)"
      using quota_record_of_raw_user [OF r] small_record [of "snd p" i seen "fst p" r] r
      by (auto simp: published_raw_def published_quota_def split: prod.split)
  qed
  with g show thesis by (intro that) (simp_all add: validLowerHex_def)
qed

lemma parsed_by_user:
  assumes "ParseQuotaSnapshot (document len (quota_snapshot_json g t digest (map published_quota qs))) = Inr s"
    and "(u, q) \<in> set qs" "small_quota q"
  shows "map_of (by_user (qs_Records s)) u = Some (published_quota (u, q))" "qs_Generation s = g" "g \<noteq> []"
proof -
  obtain s: "qs_Generation s = g" "length g = 32"
    "list_all2 (\<lambda>p r. qr_UserEmail r = fst p \<and> (small_quota (snd p) \<longrightarrow> r = published_quota p)) qs (qs_Records s)"
    by (rule parsed_quotas [OF assms(1)])
  have "distinct (map qr_UserEmail (qs_Records s))" by (rule ParseQuotaSnapshot_aux(2) [OF assms(1)])
  moreover have "published_quota (u, q) \<in> set (qs_Records s)"
    using s(3) assms(2,3) by (induction rule: list_all2_induct) auto
  ultimately show "map_of (by_user (qs_Records s)) u = Some (published_quota (u, q))"
    unfolding by_user_def by (subst map_of_filled_iff) (auto simp: published_quota_def)
  show "qs_Generation s = g" by (rule s(1))
  show "g \<noteq> []" using s(2) by auto
qed

section \<open>From the stored events to the decision\<close>

lemma write_quota_success: "write_quota p qe payload f = (None, f') \<Longrightarrow> map_option pf_content f' = Some payload"
  by (auto simp: write_quota_def secureExisting_def Write_def Let_def split: sum.splits prod.splits if_splits)

lemma publish_changed:
  assumes "PublishQuotaSnapshot p qe quotas fs = (Inr result, fs')" "sr_Changed result"
    and "quota_path p qe quotaSnapshotRelativePath = Inr path"
  obtains digest s where "map_option pf_content (fs' path) = Some (document (qe_length qe)
      (quota_snapshot_json (sr_Generation result) (unix_of (qe_now qe)) digest (map published_quota (sort_key fst quotas))))"
    "ParseQuotaSnapshot (document (qe_length qe)
      (quota_snapshot_json (sr_Generation result) (unix_of (qe_now qe)) digest (map published_quota (sort_key fst quotas)))) = Inr s"
proof -
  let ?records = "map published_quota (sort_key fst quotas)" and ?g = "filter (\<lambda>c. c \<noteq> CHR ''-'') (qe_uuid qe)"
  let ?digest = "quota_digest qe ?records"
  let ?doc = "document (qe_length qe) (quota_snapshot_json ?g (unix_of (qe_now qe)) ?digest ?records)"
  from assms obtain s f where "sr_Generation result = ?g" "ParseQuotaSnapshot ?doc = Inr s" "write_quota p qe ?doc (fs path) = (None, f)"
    "fs' = fs(path := f)"
    by (auto simp: PublishQuotaSnapshot_def Let_def split: option.splits if_splits prod.splits sum.splits)
  then show thesis by (intro that [of ?digest s]) (simp_all add: write_quota_success)
qed

definition quota_in_force :: "engine \<Rightarrow> int \<Rightarrow> bool" where
  "quota_in_force en n \<longleftrightarrow> (case (en_heartbeat en, en_quota en) of
     (Some h, Some quota) \<Rightarrow> 0 < hb_LastSuccessAt h \<and> sub64 n (hb_LastSuccessAt h) \<le> hb_FailOpenAfterSeconds h \<and>
       0 < qt_loadedAt quota \<and> sub64 n (qt_loadedAt quota) \<le> hb_FailOpenAfterSeconds h
   | _ \<Rightarrow> False)"

lemma quota_decision:
  assumes "dc_Identity (Authorize en now hdr True) = Some i" "quota_in_force en (unix_of now)"
    and "en_quota en = Some quota" "qt_generation quota \<noteq> []" "map_of (qt_byUser quota) (id_UserEmail i) = Some r"
    and "unix_of now < qr_WeekEndAt r"
  shows "dc_Allowed (Authorize en now hdr True) \<longleftrightarrow> qr_LimitTokens r < 0 \<or> qr_UsedTokens r < qr_LimitTokens r"
    and "\<not> dc_Allowed (Authorize en now hdr True) \<Longrightarrow> dc_Status (Authorize en now hdr True) = 429"
proof -
  obtain auth where d: "Authorize en now hdr True = apply_quota (unix_of now) en i (allow auth i)"
    by (rule Authorize_cases [of en now hdr True]) (use assms(1) in auto)
  have "apply_quota (unix_of now) en i (allow auth i) = apply_user_quota (unix_of now) quota i (allow auth i)"
    using assms(2-4) by (auto simp: quota_in_force_def apply_quota_def split: option.splits)
  with d assms(5,6) show "dc_Allowed (Authorize en now hdr True) \<longleftrightarrow> qr_LimitTokens r < 0 \<or> qr_UsedTokens r < qr_LimitTokens r"
    and "\<not> dc_Allowed (Authorize en now hdr True) \<Longrightarrow> dc_Status (Authorize en now hdr True) = 429"
    by (auto simp: apply_user_quota_def quota_exceeded_def split: if_splits)
qed

text \<open>
  C12: The gateway refuses by the stored events. Let the counters of the usage database agree with its events,
  the quotas be computed from it, a changed snapshot of them be published, and a gateway load that file. Then a
  request that authenticates as a user of the snapshot, while the snapshot and the heartbeat are in force and the
  week lasts, is let through exactly if the user has no limit or the weighted sum of his stored events of the
  week, less his resets, is below it; otherwise it is answered 429. Numbers are below 2^53, as floats hold them,
  and the limit is not negative.
\<close>

theorem gateway_refuses_by_usage:
  fixes week :: int
  assumes "ledger lib d" "distinct (map fst (ud_policies d))" "week_location lib d = Inr loc"
    and "WeeklyQuotas lib env users default_limit d = Inr quotas" "(u, q) \<in> set quotas" "small_quota q"
    and "week = week_start loc (unix_of (ev_now env))"
    and "weighted = sum_list (map legacy_weighted (events_in loc d (u, week)))" "in64 (weighted - resets_of d u week)"
    and "limit = map_option (\<lambda>b. b + bonus_of d u week) (base_limit default_limit (unix_of (ev_now env)) d u)"
    and "case limit of Some l \<Rightarrow> 0 \<le> l \<and> in64 l | None \<Rightarrow> True"
    and "PublishQuotaSnapshot p qe quotas fs = (Inr result, fs')" "sr_Changed result"
    and "quota_path p qe quotaSnapshotRelativePath = Inr path" "fs' path = Some f"
    and "LoadQuotaSnapshot (pf_content f) loadedAt en = (None, en')"
    and "dc_Identity (Authorize en' now hdr True) = Some i" "id_UserEmail i = u"
    and "quota_in_force en' (unix_of now)" "unix_of now < uq_WeekEndAt q"
  shows "(dc_Allowed (Authorize en' now hdr True) \<longleftrightarrow>
      (case limit of None \<Rightarrow> True | Some l \<Rightarrow> max (weighted - resets_of d u week) 0 < l)) \<and>
    (dc_Allowed (Authorize en' now hdr True) \<or> dc_Status (Authorize en' now hdr True) = 429)"
proof -
  have "in64 (case limit of Some l \<Rightarrow> l | None \<Rightarrow> 0)" using assms(11) by (auto simp: in64_def split: option.splits)
  note quota = quota_exact [OF assms(1-5) refl assms(7) refl assms(8-10) this]
  obtain digest s where written: "map_option pf_content (fs' path) = Some (document (qe_length qe)
      (quota_snapshot_json (sr_Generation result) (unix_of (qe_now qe)) digest (map published_quota (sort_key fst quotas))))"
    "ParseQuotaSnapshot (document (qe_length qe)
      (quota_snapshot_json (sr_Generation result) (unix_of (qe_now qe)) digest (map published_quota (sort_key fst quotas)))) = Inr s"
    by (rule publish_changed [OF assms(12-14)])
  note parsed = parsed_by_user [OF written(2), of u q]
  have "en_quota en' = Some quota \<Longrightarrow> qt_byUser quota = by_user (qs_Records s) \<and> qt_generation quota = qs_Generation s" for quota
    using assms(16) written assms(15) by (auto simp: LoadQuotaSnapshot_def)
  moreover obtain quota where engine: "en_quota en' = Some quota"
    using assms(19) by (auto simp: quota_in_force_def split: option.splits)
  ultimately have "map_of (qt_byUser quota) (id_UserEmail i) = Some (published_quota (u, q))" "qt_generation quota \<noteq> []"
    using parsed assms(5,6,18) by simp_all
  note decision = quota_decision [OF assms(17,19) engine this(2,1)]
  have "qr_LimitTokens (published_quota (u, q)) < 0 \<or> qr_UsedTokens (published_quota (u, q)) < qr_LimitTokens (published_quota (u, q)) \<longleftrightarrow>
      (case limit of None \<Rightarrow> True | Some l \<Rightarrow> max (weighted - resets_of d u week) 0 < l)"
    using quota assms(11) by (auto simp: published_quota_def split: option.splits)
  with decision assms(20) show ?thesis by (auto simp: published_quota_def)
qed

lemma plain_quota_fields:
  assumes "map_of (qw_usage rows) u = Some (raw, w)" "map_of (qw_policies rows) u = None" "map_of (qw_adjustments rows) u = None"
  shows "uq_WeekStartAt (user_quota loc week limit rows u) = fst week" "uq_WeekEndAt (user_quota loc week limit rows u) = snd week"
    "uq_RawUsedTokens (user_quota loc week limit rows u) = raw" "uq_WeightedRawUsedTokens (user_quota loc week limit rows u) = w"
    "uq_UsedTokens (user_quota loc week limit rows u) = max (sub64 w 0) 0"
    "uq_LimitTokens (user_quota loc week limit rows u) = map_option (\<lambda>l. add64 l 0) limit"
  by (auto simp: user_quota_def Let_def assms split: option.splits)

definition sample_quota :: user_weekly_quota where
  "sample_quota = user_quota sample_zone (naturalWeekBounds sample_zone 1700000000) (Some 300) sample_rows ''u@x''"

lemma sample_quota_fields: "uq_WeekStartAt sample_quota = 1699804800" "uq_WeekEndAt sample_quota = 1700409600"
  "uq_LimitTokens sample_quota = Some 300" "uq_UsedTokens sample_quota = 400" "uq_RawUsedTokens sample_quota = 100"
  "uq_WeightedRawUsedTokens sample_quota = 400"
proof -
  have "naturalWeekBounds sample_zone 1700000000 = (1699804800, 1700409600)" by code_simp
  moreover have "qw_usage sample_rows = [(''u@x'', 100, 400)]" "qw_policies sample_rows = []" "qw_adjustments sample_rows = []"
    by (simp_all add: sample_rows_def)
  ultimately show "uq_WeekStartAt sample_quota = 1699804800" "uq_WeekEndAt sample_quota = 1700409600"
    "uq_LimitTokens sample_quota = Some 300" "uq_UsedTokens sample_quota = 400" "uq_RawUsedTokens sample_quota = 100"
    "uq_WeightedRawUsedTokens sample_quota = 400"
    by (simp_all add: sample_quota_def plain_quota_fields sub64_def add64_def wrap64_def)
qed

definition sample_files :: file_env where
  "sample_files = \<lparr>fe_fault = \<lambda>_. None, fe_euid = 0, fe_gid = 0, fe_pendingGID = 65534, fe_chownedGID = 65534, fe_written = \<lambda>n. n\<rparr>"

definition sample_env :: quota_env where
  "sample_env = \<lparr>qe_ended = None, qe_readFault = None, qe_file = sample_files, qe_absolute = Inr, qe_join = (\<lambda>a b. a @ ''/'' @ b),
     qe_uuid = ''6ba7b810-9dad-41d1-80b4-00c04fd430c8'', qe_now = 0, qe_length = \<lambda>_. 400, qe_text = \<lambda>_. ''text''\<rparr>"

lemma sample_env_fields: "qe_ended sample_env = None" "qe_readFault sample_env = None" "qe_file sample_env = sample_files"
  "qe_absolute sample_env = Inr" "qe_join sample_env = (\<lambda>a b. a @ ''/'' @ b)" "qe_now sample_env = 0" "qe_length sample_env = (\<lambda>_. 400)"
  by (simp_all add: sample_env_def)

definition sample_publisher :: snapshot_publisher where
  "sample_publisher = \<lparr>sp_Attached = True, sp_Root = ''/srv'', sp_SnapshotGID = 0\<rparr>"

definition sample_generation :: string where "sample_generation = ''6ba7b8109dad41d180b400c04fd430c8''"

definition sample_document :: content where
  "sample_document = document (\<lambda>_. 400) (quota_snapshot_json sample_generation 0 (quota_digest sample_env [published_quota (''u@x'', sample_quota)])
     [published_quota (''u@x'', sample_quota)])"

definition sample_parsed :: quota_snapshot where
  "sample_parsed = \<lparr>qs_Version = 1, qs_Generation = sample_generation, qs_GeneratedAt = Fin 0,
     qs_ContentSHA256 = quota_digest sample_env [published_quota (''u@x'', sample_quota)], qs_Records = [published_quota (''u@x'', sample_quota)]\<rparr>"

lemma sample_parse: "ParseQuotaSnapshot sample_document = Inr sample_parsed"
proof -
  have "validLowerHex sample_generation 32" by code_simp
  then show ?thesis
    by (simp add: ParseQuotaSnapshot_def readSnapshot_def MaxSnapshotBytes_def sample_document_def document_def quota_snapshot_json_def
        dec_document_def dec_struct_of_def raw_quota_of_def raw_quota_record_of_def quota_record_json_def dec_int_def dec_string_def
        dec_any_def dec_slice_def dec_float_ptr_def dec_float_of_def mget_def in64_def float_eval published_quota_def sample_quota_fields
        quota_of_raw_def quota_record_of_raw_def quota_floats_ok_def floorInt64_def floor_field_def optionalSnapshotFloor_def
        snapshotNumber_def snapshotNumberOrFallback_def wrapping_def sample_parsed_def)
qed

definition sample_engine :: engine where
  "sample_engine = \<lparr>en_auth = Some \<lparr>au_maxReasoningEffort = [], au_generation = ''g'', au_previousGeneration = [], au_generatedAt = Fin 0,
       au_loadedAt = 1700000010, au_recordCount = 1, au_byDigest = [(sha256_hex ''key'',
         \<lparr>id_UserEmail = ''u@x'', id_Account = ''a1'', id_Backend = [], id_InternalKey = [], id_Label = []\<rparr>)]\<rparr>,
     en_quota = None, en_heartbeat = Some \<lparr>hb_Version = 1, hb_UpdatedAt = 1700000000, hb_OK = True, hb_Error = [],
       hb_StaleAfterSeconds = 15, hb_LastSuccessAt = 1700000000, hb_FailOpenAfterSeconds = 300\<rparr>\<rparr>"

definition sample_now :: int where "sample_now = 1700000010 * second"

lemma sample_path: "quota_path sample_publisher sample_env quotaSnapshotRelativePath = Inr ''/srv/state/gateway/quota-snapshot.json''"
proof -
  have "trim_space ''/srv'' = ''/srv''" by code_simp
  then show ?thesis
    by (simp add: quota_path_def sample_publisher_def quotaSnapshotRelativePath_def and_then_def wrapping_def sample_env_fields)
qed

lemma sample_publication: "\<exists>f. PublishQuotaSnapshot sample_publisher sample_env [(''u@x'', sample_quota)] Map.empty =
    (Inr \<lparr>sr_Generation = sample_generation, sr_Records = 1, sr_Changed = True\<rparr>, Map.empty(''/srv/state/gateway/quota-snapshot.json'' := Some f)) \<and>
    pf_content f = sample_document"
proof -
  have g: "filter (\<lambda>c. c \<noteq> CHR ''-'') (qe_uuid sample_env) = sample_generation" by code_simp
  have t: "unix_of 0 = 0" "trim_space ''/srv'' \<noteq> []" by code_simp+
  have gid: "quota_gid sample_publisher sample_env = 65534"
    by (simp add: quota_gid_def sample_publisher_def sample_env_fields sample_files_def defaultQuotaSnapshotGID_def)
  show ?thesis
    by (rule exI [of _ "\<lparr>pf_content = sample_document, pf_permission = 416, pf_gid = 65534\<rparr>"]) (simp add: PublishQuotaSnapshot_def Let_def sample_path previous_publication_def read_file_def g sample_parse [unfolded sample_document_def] wrapping_def write_quota_def
        call_def chown_quota_def Write_def secureExisting_def ensureGroup_def sample_env_fields sample_files_def gid
        sample_document_def t and_then_def)
qed

theorem gateway_refuses_by_usage_witness:
  "dc_Status (Authorize (snd (LoadQuotaSnapshot sample_document sample_now sample_engine)) sample_now ''Bearer key'' True) = 429"
proof -
  obtain f where publication: "PublishQuotaSnapshot sample_publisher sample_env [(''u@x'', sample_quota)] Map.empty =
    (Inr \<lparr>sr_Generation = sample_generation, sr_Records = 1, sr_Changed = True\<rparr>, Map.empty(''/srv/state/gateway/quota-snapshot.json'' := Some f))"
    "pf_content f = sample_document" using sample_publication by blast
  define en' where "en' = snd (LoadQuotaSnapshot sample_document sample_now sample_engine)"
  have load: "LoadQuotaSnapshot (pf_content f) sample_now sample_engine = (None, en')"
    by (simp add: en'_def publication(2) LoadQuotaSnapshot_def sample_parse)
  have now: "unix_of sample_now = 1700000010" "ExtractBearer ''Bearer key'' = (''key'', True)" by code_simp+
  have engine: "en_auth en' = en_auth sample_engine" "en_heartbeat en' = en_heartbeat sample_engine"
    "en_quota en' = Some \<lparr>qt_generation = sample_generation, qt_previousGeneration = [], qt_generatedAt = Fin 0,
       qt_loadedAt = 1700000010, qt_recordCount = 1, qt_byUser = by_user (qs_Records sample_parsed)\<rparr>"
    by (simp_all add: en'_def LoadQuotaSnapshot_def sample_parse now sample_parsed_def sample_engine_def previous_generation_def)
  have identity: "dc_Identity (Authorize en' sample_now ''Bearer key'' True) =
      Some \<lparr>id_UserEmail = ''u@x'', id_Account = ''a1'', id_Backend = [], id_InternalKey = [], id_Label = []\<rparr>"
    by (simp add: identity_aux engine auth_usable_def now) (simp add: sample_engine_def sub64_def wrap64_def)
  have force: "quota_in_force en' (unix_of sample_now)"
    by (simp add: quota_in_force_def engine now) (simp add: sample_engine_def sub64_def wrap64_def)
  have small: "small_quota sample_quota" by (simp add: small_quota_def sample_quota_fields small53_def)
  have calm: "unix_of (ev_now (env_at 1700000000 [])) = 1700000000" "fst (naturalWeekBounds sample_zone 1700000000) = 1699804800" by code_simp+
  have none: "resets_of sample_used u w = 0" "bonus_of sample_used u w = 0" "base_limit l n sample_used u = l" for u w l n
    by (simp_all add: resets_of_def bonus_of_def adjusted_def user_adjustments_def base_limit_def policy_in_force_def sample_tables)
  have weighted: "sum_list (map legacy_weighted (events_in sample_zone sample_used (''u@x'', 1699804800))) = 400"
    by (simp add: sample_events_in sample_legacy)
  have week: "week_start sample_zone (unix_of (ev_now (env_at 1700000000 []))) = 1699804800"
    by (simp add: week_start_def calm)
  note refused = gateway_refuses_by_usage [OF sample_ledger _ sample_tables(4) sample_quotas [folded sample_quota_def] _ small week [symmetric]
      weighted [symmetric] _ refl _ publication(1) _ sample_path _ load identity _ force]
  have "\<not> dc_Allowed (Authorize en' sample_now ''Bearer key'' True) \<and> dc_Status (Authorize en' sample_now ''Bearer key'' True) = 429"
    using refused by (simp add: sample_tables(2) none sample_quota_fields now in64_def) blast
  then show ?thesis by (simp add: en'_def)
qed

end
