(* ===== verification/Collector_Proofs.thy ===== *)
theory Collector_Proofs
  imports Collector_World Portal_Proofs Quota_Publisher_Proofs
begin

text \<open>
  The collector drains a queue completely and in order; its rounds keep every invariant that its operations
  keep, so the counters of the usage database stay right and a collector that lost its lease changes nothing;
  and a round that failed never counts as a success for the gateway.
\<close>

section \<open>Draining\<close>

function batches :: "nat \<Rightarrow> 'a list \<Rightarrow> 'a list list" where
  "batches n xs = (if xs = [] \<or> n = 0 then [] else take n xs # batches n (drop n xs))"
  by pat_completeness auto

termination by (relation "measure (\<lambda>(_, xs). length xs)") auto

declare batches.simps [simp del]

lemma batches_Nil [simp]: "batches n [] = []"
  by (simp add: batches.simps)

lemma concat_batches: "0 < n \<Longrightarrow> concat (batches n xs) = xs"
proof (induction n xs rule: batches.induct)
  case (1 n xs)
  then show ?case by (subst batches.simps) auto
qed

lemma batch_size: "b \<in> set (batches n xs) \<Longrightarrow> b \<noteq> [] \<and> length b \<le> n"
proof (induction n xs rule: batches.induct)
  case (1 n xs)
  then show ?case by (subst (asm) (2) batches.simps) (auto split: if_splits)
qed

text \<open>The batches given to a consumer one after the other, up to the first that fails; the batches left over.\<close>

fun feed :: "(string list \<Rightarrow> 'a \<Rightarrow> 's \<Rightarrow> gerr option \<times> 'a \<times> 's) \<Rightarrow> string list list \<Rightarrow> 'a \<Rightarrow> 's \<Rightarrow>
    gerr option \<times> 'a \<times> string list list \<times> 's" where
  "feed consume [] acc s = (None, acc, [], s)"
| "feed consume (b # bs) acc s =
     (case consume b acc s of (Some e, acc', s') \<Rightarrow> (Some e, acc', bs, s') | (None, acc', s') \<Rightarrow> feed consume bs acc' s')"

text \<open>A Redis list and what the consumer works on.\<close>

definition list_link :: "(string list \<times> 's) link" where
  "list_link = \<lparr>ln_Dial = (\<lambda>q w. (Inr (), w)), ln_WithContext = True, ln_Auth = (\<lambda>p w. (Inr ''OK'', w)),
     ln_Pop = (\<lambda>name n (items, s). (Inr (if items = [] then RNil else RList (map RBytes (take (nat n) items))), (drop (nat n) items, s))),
     ln_ended = (\<lambda>w. None)\<rparr>"

definition on_rest :: "(string list \<Rightarrow> 'a \<Rightarrow> 's \<Rightarrow> gerr option \<times> 'a \<times> 's) \<Rightarrow> (string list \<times> 's, 'a) consumer" where
  "on_rest consume items acc w = (case w of (left, s) \<Rightarrow> (case consume items acc s of (e, acc', s') \<Rightarrow> (e, acc', (left, s'))))"

lemma on_rest_step: "on_rest consume items acc (left, s) = (case consume items acc s of (e, acc', s') \<Rightarrow> (e, acc', (left, s')))"
  by (simp add: on_rest_def)

lemma reply_items_bytes [simp]: "reply_items (map RBytes items) = Inr items"
  by (induction items) auto

lemma list_link_ready: "ln_Dial list_link q w = (Inr (), w)" "ln_WithContext list_link" "ln_Auth list_link p w = (Inr ''OK'', w)"
  by (simp_all add: list_link_def)

lemma popped: "ln_Pop list_link name n (items, s) = (Inr (if items = [] then RNil else RList (map RBytes (take (nat n) items))), (drop (nat n) items, s))"
  by (simp add: list_link_def)

lemma drain_loop_list:
  assumes "qu_batchSize q = int n" "0 < n"
  shows "drain_loop list_link q (on_rest consume) acc (items, s) =
    Some (case feed consume (batches n items) acc s of
      (e, acc', left, s') \<Rightarrow> (map_option (wrapf ''consume usage queue batch: '') e, acc', (concat left, s')))"
proof (induction items arbitrary: acc s rule: length_induct)
  case (1 items)
  show ?case
  proof (cases "items = []")
    case True
    then show ?thesis by (subst drain_loop.simps) (simp add: popped usageQueueItems_def)
  next
    case False
    obtain e acc' s' where c: "consume (take n items) acc s = (e, acc', s')" by (metis prod_cases3)
    have batch: "batches n items = take n items # batches n (drop n items)"
      using False assms(2) by (subst batches.simps) simp
    have "length (drop n items) < length items" using False assms(2) by simp
    note IH = 1 [rule_format, OF this]
    have short: "length items < n \<Longrightarrow> drop n items = []" "take n items \<noteq> []" using False assms(2) by simp_all
    show ?thesis
      using concat_batches [OF assms(2), of "drop n items"] short assms(2)
      by (subst drain_loop.simps) (auto simp: popped usageQueueItems_def assms(1) on_rest_step batch c False IH split: option.split)
  qed
qed

text \<open>
  C16: A drain empties the queue. From a queue that holds a finite list of records, an accepted queue returns: it
  hands the records to the consumer in order and each exactly once, in batches of the configured size but for the
  last, until the queue is empty or the consumer fails; the failing batch has left the queue, the records after it
  are still there.
\<close>

theorem drain_delivers_in_order:
  assumes "NewQueue config = Inr q" "n = nat (qc_BatchSize config)"
  shows "Drain list_link (Some q) (Some (on_rest consume)) acc (items, s) =
      Some (case feed consume (batches n items) acc s of
        (e, acc', left, s') \<Rightarrow> (map_option (wrapf ''consume usage queue batch: '') e, acc', (concat left, s'))) \<and>
    concat (batches n items) = items \<and> (\<forall>b \<in> set (batches n items). b \<noteq> [] \<and> length b \<le> n)"
proof -
  have "qu_batchSize q = int n" "0 < n" using assms by (auto simp: NewQueue_def Let_def split: if_splits)
  moreover have "\<forall>b \<in> set (batches n items). b \<noteq> [] \<and> length b \<le> n" using batch_size by blast
  ultimately show ?thesis
    using drain_loop_list [of q n consume acc items s] by (simp add: Drain_def list_link_ready concat_batches)
qed

definition sample_queue_config :: queue_config where
  "sample_queue_config = \<lparr>qc_Address = ''cliproxy-a:8317'', qc_Password = ''pw'', qc_Name = [], qc_BatchSize = 2, qc_DialTimeout = 0,
     qc_ReadTimeout = 0, qc_WriteTimeout = 0\<rparr>"

theorem drain_delivers_in_order_witness:
  "\<exists>q. NewQueue sample_queue_config = Inr q \<and>
    Drain list_link (Some q) (Some (on_rest (\<lambda>items n seen. (if seen = [] then None else Some (ErrNew ''full''), Suc n, seen @ items)))) 0
      ([''a'', ''b'', ''c'', ''d'', ''e''], []) =
    Some (Some (wrapf ''consume usage queue batch: '' (ErrNew ''full'')), 2, ([''e''], [''a'', ''b'', ''c'', ''d'']))"
proof -
  have "\<not> isl (NewQueue sample_queue_config)" by code_simp
  then obtain q where q: "NewQueue sample_queue_config = Inr q" by (cases "NewQueue sample_queue_config") auto
  have "batches 2 [''a'', ''b'', ''c'', ''d'', ''e''] = [[''a'', ''b''], [''c'', ''d''], [''e'']]"
    by (simp add: batches.simps)
  with q show ?thesis
    using drain_delivers_in_order [OF q refl, of "\<lambda>items n seen. (if seen = [] then None else Some (ErrNew ''full''), Suc n, seen @ items)" 0]
    by (simp add: sample_queue_config_def)
qed

section \<open>Invariants of a round\<close>

definition preserves :: "('w \<Rightarrow> bool) \<Rightarrow> ('w, 'a) oper \<Rightarrow> bool" where
  "preserves I m \<longleftrightarrow> (\<forall>w. I w \<longrightarrow> I (snd (m w)))"

definition consumer_preserves :: "('w \<Rightarrow> bool) \<Rightarrow> ('w, 'a) consumer \<Rightarrow> bool" where
  "consumer_preserves I consume \<longleftrightarrow> (\<forall>items acc w. I w \<longrightarrow> I (snd (snd (consume items acc w))))"

definition drainer_preserves :: "('w \<Rightarrow> bool) \<Rightarrow> 'w batch_drainer \<Rightarrow> bool" where
  "drainer_preserves I drain \<longleftrightarrow> (\<forall>consume acc w r.
     consumer_preserves I consume \<longrightarrow> I w \<longrightarrow> drain consume acc w = Some r \<longrightarrow> I (snd (snd r)))"

definition link_preserves :: "('w \<Rightarrow> bool) \<Rightarrow> 'w link \<Rightarrow> bool" where
  "link_preserves I l \<longleftrightarrow> (\<forall>q. preserves I (ln_Dial l q)) \<and> (\<forall>p. preserves I (ln_Auth l p)) \<and> (\<forall>name n. preserves I (ln_Pop l name n))"

lemma preserves_at: "preserves I m \<Longrightarrow> I w \<Longrightarrow> I (snd (m w))"
  by (simp add: preserves_def)

lemma preserves_and_do [intro]: "preserves I m \<Longrightarrow> (\<And>x. preserves I (k x)) \<Longrightarrow> preserves I (and_do m k)"
  by (auto simp: preserves_def and_do_def split: prod.split sum.split)

lemma preserves_wrap_do [intro]: "preserves I m \<Longrightarrow> preserves I (wrap_do text m)"
  by (auto simp: preserves_def wrap_do_def split: prod.split)

lemma preserves_ok_do [intro]: "preserves I (ok_do x)"
  by (simp add: preserves_def ok_do_def)

lemma drain_loop_preserves:
  assumes "drain_loop l q consume acc w = Some r" "link_preserves I l" "consumer_preserves I consume" "I w"
  shows "I (snd (snd r))"
  using assms
proof (induction l q consume acc w r rule: drain_loop.raw_induct [rotated, consumes 1])
  case (1 loop l q consume acc w r)
  obtain reply w1 where pop: "ln_Pop l (qu_name q) (qu_batchSize q) w = (reply, w1)" by force
  have "preserves I (ln_Pop l (qu_name q) (qu_batchSize q))" using 1(3) by (simp add: link_preserves_def)
  from preserves_at [OF this 1(5)] pop have w1: "I w1" by simp
  have fed: "I (snd (snd (consume items acc w1)))" for items using 1(4) w1 by (simp add: consumer_preserves_def)
  then have step: "consume items acc w1 = (e, acc', w2) \<Longrightarrow> I w2" for items e acc' w2 by (metis snd_conv)
  show ?case
    using 1(2) w1 fed by (auto simp: pop split: sum.splits prod.splits option.splits if_splits dest: step 1(1) [OF _ 1(3,4)])
qed

lemma Drain_preserves:
  assumes "link_preserves I l" "consumer_preserves I consume" "I w" "Drain l (Some q) (Some consume) acc w = Some r"
  shows "I (snd (snd r))"
proof -
  obtain dialled w1 where dial: "ln_Dial l q w = (dialled, w1)" by force
  obtain answer w2 where auth: "ln_Auth l (qu_password q) w1 = (answer, w2)" by force
  have "preserves I (ln_Dial l q)" "preserves I (ln_Auth l (qu_password q))" using assms(1) by (simp_all add: link_preserves_def)
  note kept = this
  from preserves_at [OF kept(1) assms(3)] dial have "I w1" by simp
  moreover from preserves_at [OF kept(2) this] auth have "I w2" by simp
  ultimately have I: "I w1" "I w2" .
  with assms(4) drain_loop_preserves [OF _ assms(1,2) I(2)] show ?thesis
    by (auto simp: Drain_def dial auth split: sum.splits if_splits)
qed

lemma mapped_Inr_iff: "map_sum f g r = Inr y \<longleftrightarrow> (\<exists>x. r = Inr x \<and> y = g x)"
  by (cases r) auto

lemma default_queue_preserves:
  assumes "\<And>address. link_preserves I (links address)" "defaultQueueFactory links account address password batch = Inr (Some drain)"
  shows "drainer_preserves I drain"
proof -
  from assms(2) obtain q where "drain = (\<lambda>consume. Drain (links address) (Some q) (Some consume))"
    by (auto simp: defaultQueueFactory_def mapped_Inr_iff)
  then show ?thesis using Drain_preserves [OF assms(1)] by (auto simp: drainer_preserves_def)
qed

text \<open>
  What a round needs of its operations for an invariant of the world to last: each keeps it. \<open>round_ops\<close> leaves
  out the heartbeat, which a round publishes last, and the rebuild.
\<close>

locale round_ops =
  fixes I :: "'w \<Rightarrow> bool" and control :: "'w control_catalog" and writer :: "'w runtime_writer"
    and publisher :: "'w quota_publisher" and factory :: "'w queue_factory"
  assumes accounts: "preserves I (cc_ReadAccounts control)"
    and records: "preserves I (cc_ReadKeyRecords control)"
    and internal_keys: "preserves I (cc_EnsureInternalKeys control users)"
    and user_teams: "preserves I (cc_ReadUserTeams control users)"
    and ingest: "preserves I (rw_IngestEvents writer account events policy)"
    and identities: "preserves I (rw_SyncIdentities writer ids)"
    and teams: "preserves I (rw_SyncUserTeams writer classes)"
    and breakdown: "preserves I (rw_EnsureUsageBreakdownStarted writer)"
    and timezone: "preserves I (rw_EnsureWeekTimezone writer zone)"
    and reset: "preserves I (rw_ConfigurePersonalQuotaReset writer enabled reschedule)"
    and quotas: "preserves I (rw_WeeklyQuotas writer users limit)"
    and status: "preserves I (rw_UpdateCollectorStatus writer message)"
    and snapshot: "preserves I (qp_PublishQuotaSnapshot publisher published)"
    and queues: "factory account address password batch = Inr (Some drain) \<Longrightarrow> drainer_preserves I drain"
begin

lemma synchronise_keeps: "preserves I (synchronise control writer config)"
  unfolding synchronise_def Let_def case_prod_beta
  by (intro preserves_and_do preserves_wrap_do preserves_ok_do accounts records internal_keys user_teams identities teams breakdown
      timezone reset)

lemma collect_batch_keeps: "consumer_preserves I (collect_batch decode (rw_IngestEvents writer) policy account)"
  using ingest by (auto simp: consumer_preserves_def preserves_def collect_batch_def Let_def split: prod.split sum.split) (metis snd_conv)+

lemma collect_account_keeps:
  assumes "collect_account decode factory \<lparr>se_Writer = Some (rw_IngestEvents writer), se_Policy = policy\<rparr> config a result w = Some (result', w')"
    and "I w"
  shows "I w'"
proof -
  have drained: "drain (collect_batch decode (rw_IngestEvents writer) policy (ac_ID a)) zero_counters w = Some (e, totals, w1) \<Longrightarrow>
      factory account address password batch = Inr (Some drain) \<Longrightarrow> I w1" for drain e totals w1 account address password batch
    using queues collect_batch_keeps assms(2) unfolding drainer_preserves_def by (metis snd_conv)
  from assms show ?thesis
    by (auto simp: collect_account_def DrainAccount_def Let_def split: if_splits sum.splits option.splits dest: drained)
qed

lemma collect_accounts_keeps:
  "collect_accounts decode factory \<lparr>se_Writer = Some (rw_IngestEvents writer), se_Policy = policy\<rparr> config as result w = Some (result', w') \<Longrightarrow>
    I w \<Longrightarrow> I w'"
proof (induction as arbitrary: result w)
  case (Cons a as)
  then obtain result1 w1 where "collect_account decode factory \<lparr>se_Writer = Some (rw_IngestEvents writer), se_Policy = policy\<rparr> config a result w = Some (result1, w1)"
    "collect_accounts decode factory \<lparr>se_Writer = Some (rw_IngestEvents writer), se_Policy = policy\<rparr> config as result1 w1 = Some (result', w')"
    by (auto simp: bind_eq_Some_conv)
  with Cons show ?case using collect_account_keeps by blast
qed simp

lemma publish_quotas_keeps: "I w \<Longrightarrow> I (snd (publish_quotas writer publisher config users result w))"
proof -
  assume w: "I w"
  obtain r1 w1 where computed: "rw_WeeklyQuotas writer users (rg_DefaultWeeklyTokens config) w = (r1, w1)" by force
  from preserves_at [OF quotas w] computed have w1: "I w1" by (metis snd_conv)
  have "I (snd (qp_PublishQuotaSnapshot publisher q w1))" for q by (rule preserves_at [OF snapshot w1])
  with w1 show ?thesis by (auto simp: publish_quotas_def computed split: sum.split prod.split) (metis snd_conv)+
qed

text \<open>A round either stops before its last part or ends with it, started in a state with the invariant.\<close>

lemma round_parts:
  assumes "co_Control rt = Some control" "co_Writer rt = Some writer" "co_Publisher rt = Some publisher"
    and "(case co_QueueFactory rt of None \<Rightarrow> defaultQueueFactory links | Some f \<Rightarrow> f) = factory"
    and "CollectorRunOnce decode links rt w = Some ((result, stop), w')" "I w"
  obtains (stopped) e where "stop = Some e" "result = zero_run" "I w'"
    | (concluded) result1 w1 where "I w1" "conclude_round writer publisher (co_Config rt) result1 w1 = ((result, stop), w')"
proof (cases "validate_runtime rt")
  case (Inl e)
  with assms(5,6) show thesis by (auto simp: CollectorRunOnce_def intro: stopped)
next
  case (Inr deps)
  then have deps: "validate_runtime rt = Inr (control, writer, publisher)"
    using assms(1-3) by (auto simp: validate_runtime_def split: if_splits)
  obtain r1 w1 where sync: "synchronise control writer (co_Config rt) w = (r1, w1)" by force
  from preserves_at [OF synchronise_keeps assms(6)] sync have w1: "I w1" by (metis snd_conv)
  show thesis
  proof (cases r1)
    case (Inl e)
    with assms(5) w1 show thesis by (auto simp: CollectorRunOnce_def deps sync intro: stopped)
  next
    case Inr: (Inr found)
    obtain users accounts where found: "found = (users, accounts)" by force
    from assms(5) obtain result2 w2 where collected: "collect_accounts decode factory
        \<lparr>se_Writer = Some (rw_IngestEvents writer), se_Policy = weight_policy_of (co_Config rt)\<rparr> (co_Config rt) accounts zero_run w1 = Some (result2, w2)"
      and ended: "(case publish_quotas writer publisher (co_Config rt) users result2 w2 of (result, w) \<Rightarrow>
          conclude_round writer publisher (co_Config rt) result w) = ((result, stop), w')"
      by (auto simp: CollectorRunOnce_def deps sync Inr found Let_def assms(4))
    have "I w2" by (rule collect_accounts_keeps [OF collected w1])
    from publish_quotas_keeps [OF this] ended show thesis by (auto split: prod.splits intro: concluded) (metis concluded snd_conv)
  qed
qed

end

text \<open>The rest of a round, and the rebuild.\<close>

locale round_all = round_ops +
  assumes heartbeat: "preserves I (qp_PublishQuotaHeartbeat publisher ok message stale failOpen)"
    and rebuild: "preserves I (rw_RebuildWeeklyUsage writer)"
begin

lemma conclude_keeps:
  assumes "conclude_round writer publisher config result w = (r, w')" "I w"
  shows "I w'"
proof -
  obtain e1 w1 where one: "rw_UpdateCollectorStatus writer (error_text result) w = (e1, w1)" by force
  from preserves_at [OF status assms(2)] one have w1: "I w1" by (metis snd_conv)
  obtain h w2 where two: "qp_PublishQuotaHeartbeat publisher (rn_Errors result = []) (error_text result)
      (rg_HeartbeatStaleAfterSeconds config) (rg_QuotaFailOpenAfterSeconds config) w1 = (h, w2)" by force
  from preserves_at [OF heartbeat w1] two have w2: "I w2" by (metis snd_conv)
  have "I (snd (rw_UpdateCollectorStatus writer message w2))" for message by (rule preserves_at [OF status w2])
  with w1 w2 assms(1) show ?thesis
    by (auto simp: conclude_round_def one two Let_def split: sum.splits prod.splits) (metis snd_conv)+
qed

lemma CollectorRunOnce_keeps:
  assumes "co_Control rt = Some control" "co_Writer rt = Some writer" "co_Publisher rt = Some publisher"
    and "(case co_QueueFactory rt of None \<Rightarrow> defaultQueueFactory links | Some f \<Rightarrow> f) = factory"
    and "CollectorRunOnce decode links rt w = Some ((result, stop), w')" "I w"
  shows "I w'"
  by (rule round_parts [OF assms]) (blast intro: conclude_keeps)+

lemma stop_with_keeps:
  assumes "preserves I m" "I w" "\<And>x w. I w \<Longrightarrow> I (snd (k x w))"
  shows "I (snd (stop_with result (m w) k))"
proof -
  obtain r w1 where "m w = (r, w1)" by force
  with preserves_at [OF assms(1,2)] assms(3) show ?thesis by (cases r) (simp_all add: stop_with_def)
qed

lemma Rebuild_keeps:
  assumes "co_Control rt = Some control" "co_Writer rt = Some writer" "co_Publisher rt = Some publisher" "I w"
  shows "I (snd (Rebuild rt w))"
proof (cases "validate_runtime rt")
  case (Inl e)
  with assms(4) show ?thesis by (simp add: Rebuild_def)
next
  case (Inr deps)
  then have deps: "validate_runtime rt = Inr (control, writer, publisher)"
    using assms(1-3) by (auto simp: validate_runtime_def split: if_splits)
  show ?thesis
    unfolding Rebuild_def deps Let_def sum.case prod.case
    by (intro stop_with_keeps records timezone rebuild reset quotas snapshot heartbeat status assms(4)) simp_all
qed

end

section \<open>The collector as it is started\<close>

text \<open>Invariants of the stores; the step counter and the network do not matter.\<close>

definition on_stores :: "(db \<Rightarrow> usage_db \<Rightarrow> files \<Rightarrow> bool) \<Rightarrow> 'q world \<Rightarrow> bool" where
  "on_stores P w \<longleftrightarrow> P (w_control w) (w_usage w) (w_files w)"

lemma tick_stores [simp]: "w_control (tick w) = w_control w" "w_usage (tick w) = w_usage w" "w_files (tick w) = w_files w"
  "w_step (tick w) = Suc (w_step w)"
  by (simp_all add: tick_def)

definition fence_open :: "fence \<Rightarrow> db \<Rightarrow> bool" where
  "fence_open fence c \<longleftrightarrow> (\<exists>env. validateWriteFence fence env c = None)"

lemma withFencedResult_state: "withFencedResult fence fenv c operation d = (r, d') \<Longrightarrow> d' = d \<or> (fence_open fence c \<and> d' = snd (operation d))"
  by (auto simp: withFencedResult_def WithWriteFence_def exclusive_def fence_open_def split: sum.splits prod.splits option.splits if_splits)

lemma on_usage_preserves:
  assumes "\<And>c d fs env. P c d fs \<Longrightarrow> fence_open (aw_fence a) c \<Longrightarrow> P c (snd (f env d)) fs"
  shows "preserves (on_stores P) (on_usage a f)"
  using assms by (auto simp: preserves_def on_stores_def on_usage_def split: prod.split dest!: withFencedResult_state)

lemma on_files_preserves:
  assumes "\<And>c d fs n. P c d fs \<Longrightarrow> fence_open (aw_fence a) c \<Longrightarrow> P c d (snd (f (aw_quota a n) fs))"
  shows "preserves (on_stores P) (on_files a f)"
  using assms by (auto simp: preserves_def on_stores_def on_files_def split: prod.split dest!: withFencedResult_state)

lemma read_preserves [simp]: "preserves (on_stores P) (read_control a f)"
  by (simp add: preserves_def on_stores_def read_control_def)

lemma quotas_preserves [simp]: "preserves (on_stores P) (rw_WeeklyQuotas (FencedRuntimeWriter a) users limit)"
  by (simp add: preserves_def on_stores_def FencedRuntimeWriter_def)

lemma net_preserves: "link_preserves (on_stores P) (net_link l)"
  by (auto simp: link_preserves_def preserves_def on_stores_def net_link_def on_net_def split: prod.split)

lemma net_queues: "defaultQueueFactory (\<lambda>address. net_link (net address)) account address password batch = Inr (Some drain) \<Longrightarrow>
    drainer_preserves (on_stores P) drain"
  by (rule default_queue_preserves [OF net_preserves])

text \<open>The operations keep an invariant if those of the stores do, each under the fence.\<close>

lemma stores_round:
  assumes ensure: "\<And>c d fs env draws users. P c d fs \<Longrightarrow> P (snd (EnsureInternalKeys (aw_fence a) env draws users c)) d fs"
    and usage: "\<And>c d fs d'. P c d fs \<Longrightarrow> usage_step (aw_lib a) d d' \<Longrightarrow> fence_open (aw_fence a) c \<Longrightarrow> P c d' fs"
    and files: "\<And>c d fs n quotas. P c d fs \<Longrightarrow> fence_open (aw_fence a) c \<Longrightarrow>
      P c d (snd (PublishQuotaSnapshot (aw_publisher a) (aw_quota a n) quotas fs))"
  shows "round_ops (on_stores P) (store_catalog a) (FencedRuntimeWriter a) (FencedQuotaPublisher a)
    (defaultQueueFactory (\<lambda>address. net_link (net address)))"
proof -
  have ensured: "preserves (on_stores P) (cc_EnsureInternalKeys (store_catalog a) users)" for users
    using ensure by (auto simp: preserves_def on_stores_def store_catalog_def split: prod.split) (metis snd_conv)
  show ?thesis
    by unfold_locales
      (auto simp: ensured [unfolded store_catalog_def, simplified] quotas_preserves [unfolded FencedRuntimeWriter_def, simplified]
        net_queues store_catalog_def FencedRuntimeWriter_def FencedQuotaPublisher_def
        intro!: on_usage_preserves on_files_preserves files intro: usage usage_step.intros)
qed

lemma stores_round_all:
  assumes "\<And>c d fs env draws users. P c d fs \<Longrightarrow> P (snd (EnsureInternalKeys (aw_fence a) env draws users c)) d fs"
    and usage: "\<And>c d fs d'. P c d fs \<Longrightarrow> usage_step (aw_lib a) d d' \<Longrightarrow> fence_open (aw_fence a) c \<Longrightarrow> P c d' fs"
    and files: "\<And>c d fs fs'. P c d fs \<Longrightarrow> fence_open (aw_fence a) c \<Longrightarrow> P c d fs'"
  shows "round_all (on_stores P) (store_catalog a) (FencedRuntimeWriter a) (FencedQuotaPublisher a)
    (defaultQueueFactory (\<lambda>address. net_link (net address)))"
proof -
  have "round_ops (on_stores P) (store_catalog a) (FencedRuntimeWriter a) (FencedQuotaPublisher a)
    (defaultQueueFactory (\<lambda>address. net_link (net address)))" by (rule stores_round) (rule assms, assumption+)+
  moreover have "preserves (on_stores P) (qp_PublishQuotaHeartbeat (FencedQuotaPublisher a) ok message stale failOpen)"
    for ok message stale failOpen
    unfolding FencedQuotaPublisher_def quota_publisher.simps by (rule on_files_preserves) (rule files)
  moreover have "preserves (on_stores P) (rw_RebuildWeeklyUsage (FencedRuntimeWriter a))"
    unfolding FencedRuntimeWriter_def runtime_writer.simps by (rule on_usage_preserves) (blast intro: usage usage_step.intros)
  ultimately show ?thesis by (intro round_all.intro round_all_axioms.intro)
qed

lemma collector_fields: "co_Control (owned_collector a config) = Some (store_catalog a)"
  "co_Writer (owned_collector a config) = Some (FencedRuntimeWriter a)" "co_Publisher (owned_collector a config) = Some (FencedQuotaPublisher a)"
  "co_QueueFactory (owned_collector a config) = None" "co_Config (owned_collector a config) = config"
  by (simp_all add: owned_collector_def)

lemma factory: "(case co_QueueFactory (owned_collector a config) of None \<Rightarrow> defaultQueueFactory links | Some f \<Rightarrow> f) = defaultQueueFactory links"
  by (simp add: collector_fields)

text \<open>The books: every state of the usage database stays one that the writer reaches.\<close>

interpretation books: round_all "on_stores (\<lambda>c d fs. usage_reachable (aw_lib a) d)" "store_catalog a" "FencedRuntimeWriter a"
  "FencedQuotaPublisher a" "defaultQueueFactory (\<lambda>address. net_link (net address))" for a net
  by (rule stores_round_all) (auto intro: usage_reachable.step)


text \<open>
  C13: A collector that lost its lease changes nothing. Once another process took over a lease in its fence, a whole
  round and a rebuild leave the control plane, the usage database and the published files as they are.
\<close>

theorem stale_collector_changes_nothing:
  assumes "obtains_lease c0 l1 c1" "store_step\<^sup>*\<^sup>* c1 c2"
    "TakeLease fence2 env2 scope owner ttl c2 = (Inr l2, c3)" "le_Scope l2 = le_Scope l1"
    "store_step\<^sup>*\<^sup>* c3 (w_control w)" "l1 \<in> set (aw_fence a)"
    and "collect_round a decode net config w = Some (outcome, w1) \<or> rebuild_usage a config w = (outcome', w1)"
  shows "w_control w1 = w_control w \<and> w_usage w1 = w_usage w \<and> w_files w1 = w_files w"
proof -
  let ?P = "\<lambda>c d fs. c = w_control w \<and> d = w_usage w \<and> fs = w_files w"
  have closed: "validateWriteFence (aw_fence a) env (w_control w) \<noteq> None" for env
    by (rule taken_over_fence [OF assms(1-6)])
  have ensure: "snd (EnsureInternalKeys (aw_fence a) env draws users (w_control w)) = w_control w" for env draws users
    unfolding EnsureInternalKeys_def using writeTransaction_unfenced [OF closed] by (metis snd_conv)
  have all: "round_all (on_stores ?P) (store_catalog a) (FencedRuntimeWriter a) (FencedQuotaPublisher a)
    (defaultQueueFactory (\<lambda>address. net_link (net address)))"
    by (rule stores_round_all) (use closed in \<open>auto simp: ensure fence_open_def\<close>)
  have start: "on_stores ?P w" by (simp add: on_stores_def)
  have "on_stores ?P w1"
    using assms(7)
  proof
    assume "collect_round a decode net config w = Some (outcome, w1)"
    with round_all.CollectorRunOnce_keeps [OF all collector_fields(1-3) factory _ start] show ?thesis
      unfolding collect_round_def by (cases outcome) blast
  next
    assume "rebuild_usage a config w = (outcome', w1)"
    then show ?thesis
      using round_all.Rebuild_keeps [OF all collector_fields(1-3) start, of config] by (simp add: rebuild_usage_def)
  qed
  then show ?thesis by (simp add: on_stores_def)
qed

section \<open>The heartbeat of a round\<close>

text \<open>The last success that the published heartbeat reports to the next run of the collector.\<close>

definition success_of :: "content option \<Rightarrow> int" where
  "success_of c = (case c of Some (Content _ _ doc) \<Rightarrow> previous_success (Some doc) | _ \<Rightarrow> 0)"

lemma previous_success_nonneg: "0 \<le> previous_success raw"
  by (simp add: previous_success_def split: option.split sum.split)

lemma success_nonneg: "0 \<le> success_of c"
  by (simp add: success_of_def previous_success_nonneg split: option.split content.split)

lemma read_success: "previous_success (read_file qe path fs) \<le> success_of (map_option pf_content (fs path))"
proof -
  have "previous_success (read_file qe path fs) \<in> {0, success_of (map_option pf_content (fs path))}"
    by (simp add: read_file_def success_of_def previous_success_def split: option.split content.split)
  then show ?thesis using success_nonneg by auto
qed

lemma written_success: "success_of (Some (document len (heartbeat_json h))) \<le> max 0 (hb_LastSuccessAt h)"
proof -
  have "heartbeat_of (the (as_object (heartbeat_json h))) = Some l \<Longrightarrow> l = hb_LastSuccessAt h" for l
    by (auto simp: heartbeat_of_def heartbeat_json_def as_object_def dec_int_def mget_def split: option.splits if_splits)
  then show ?thesis
    by (auto simp: success_of_def document_def previous_success_def dec_document_def dec_struct_of_def heartbeat_json_def as_object_def
        split: option.split)
qed

lemma write_quota_content:
  assumes "write_quota p qe payload f = (e, f')"
  shows "map_option pf_content f' = Some payload \<or> (e \<noteq> None \<and> map_option pf_content f' = map_option pf_content f)"
proof -
  have secure: "secureExisting p qe g = (e, f') \<Longrightarrow> map_option pf_content f' = map_option pf_content g" for g
    by (auto simp: secureExisting_def Let_def option.map_comp comp_def split: sum.splits if_splits)
  from assms show ?thesis
    by (auto simp: write_quota_def Write_def Let_def split: sum.splits prod.splits if_splits dest!: secure)
qed

lemma heartbeat_written:
  assumes "PublishQuotaHeartbeat p qe ok message stale failOpen fs = (r, fs')" "quota_path p qe quotaHeartbeatRelativePath = Inr path"
  shows "(isl r \<and> map_option pf_content (fs' path) = map_option pf_content (fs path)) \<or>
    (\<exists>h. map_option pf_content (fs' path) = Some (document (qe_length qe) (heartbeat_json h)) \<and> hb_OK h = ok \<and>
      hb_LastSuccessAt h = (if ok then unix_of (qe_now qe) else previous_success (read_file qe path fs)))"
proof -
  define h where "h = \<lparr>hb_Version = 1, hb_UpdatedAt = unix_of (qe_now qe), hb_OK = ok, hb_Error = truncateRunes message 500,
            hb_StaleAfterSeconds = max stale 5,
            hb_LastSuccessAt = (if ok then unix_of (qe_now qe) else previous_success (read_file qe path fs)),
            hb_FailOpenAfterSeconds = max failOpen 30\<rparr>"
  obtain e f where w: "write_quota p qe (document (qe_length qe) (heartbeat_json h)) (fs path) = (e, f)" by force
  have "(isl r \<and> fs' = fs) \<or> (fs' = fs(path := f) \<and> (e = None \<or> isl r))"
  proof (cases "qe_ended qe = None \<and> \<not> isl (ParseQuotaHeartbeat (document (qe_length qe) (heartbeat_json h)))")
    case False
    with assms show ?thesis
      by (cases "ParseQuotaHeartbeat (document (qe_length qe) (heartbeat_json h))")
        (auto simp: PublishQuotaHeartbeat_def Let_def h_def [symmetric] wrapping_def split: option.splits)
  next
    case True
    then obtain x where "ParseQuotaHeartbeat (document (qe_length qe) (heartbeat_json h)) = Inr x"
      by (cases "ParseQuotaHeartbeat (document (qe_length qe) (heartbeat_json h))") auto
    with True assms show ?thesis
      by (cases e) (auto simp: PublishQuotaHeartbeat_def Let_def h_def [symmetric] wrapping_def w)
  qed
  moreover have "hb_OK h = ok" "hb_LastSuccessAt h = (if ok then unix_of (qe_now qe) else previous_success (read_file qe path fs))"
    by (simp_all add: h_def)
  ultimately show ?thesis using write_quota_content [OF w] by auto
qed

lemma snapshot_other_file: "quota_path p qe quotaSnapshotRelativePath \<noteq> Inr path \<Longrightarrow> snd (PublishQuotaSnapshot p qe quotas fs) path = fs path"
  by (auto simp: PublishQuotaSnapshot_def Let_def split: option.split sum.split prod.split)

lemma on_usage_files: "on_usage a f w = (r, w1) \<Longrightarrow> w_files w1 = w_files w"
  by (auto simp: on_usage_def split: prod.splits)

lemma status_files: "rw_UpdateCollectorStatus (FencedRuntimeWriter a) message w = (r, w1) \<Longrightarrow> w_files w1 = w_files w"
  by (auto simp: FencedRuntimeWriter_def dest: on_usage_files)

lemma heartbeat_published:
  assumes "qp_PublishQuotaHeartbeat (FencedQuotaPublisher a) ok message stale failOpen w = (r, w1)"
    and "quota_path (aw_publisher a) (aw_quota a (w_step w)) quotaHeartbeatRelativePath = Inr path"
  shows "w_step w1 = Suc (w_step w) \<and>
    ((isl r \<and> map_option pf_content (w_files w1 path) = map_option pf_content (w_files w path)) \<or>
     (\<exists>h. map_option pf_content (w_files w1 path) = Some (document (qe_length (aw_quota a (w_step w))) (heartbeat_json h)) \<and> hb_OK h = ok \<and>
      hb_LastSuccessAt h = (if ok then unix_of (qe_now (aw_quota a (w_step w)))
        else previous_success (read_file (aw_quota a (w_step w)) path (w_files w)))))"
proof -
  let ?qe = "aw_quota a (w_step w)"
  let ?op = "PublishQuotaHeartbeat (aw_publisher a) ?qe ok message stale failOpen"
  obtain r1 fs1 where op: "?op (w_files w) = (r1, fs1)" by force
  have w1: "w_step w1 = Suc (w_step w)"
    and fenced: "withFencedResult (aw_fence a) (aw_fenv a (w_step w)) (w_control w) ?op (w_files w) = (r, w_files w1)"
    using assms(1) by (auto simp: FencedQuotaPublisher_def on_files_def split: prod.splits)
  from withFencedResult_outcome [of "aw_fence a" "aw_fenv a (w_step w)" "w_control w" ?op "w_files w"]
  have "(r, w_files w1) = (r1, fs1) \<or> (isl r \<and> w_files w1 = w_files w)" unfolding fenced op by auto
  then show ?thesis
  proof
    assume "(r, w_files w1) = (r1, fs1)"
    then have "r = r1" "w_files w1 = fs1" by simp_all
    with heartbeat_written [OF op assms(2)] w1 show ?thesis by simp
  qed (use w1 in simp)
qed

lemma conclude_round_heartbeat:
  assumes "conclude_round (FencedRuntimeWriter a) (FencedQuotaPublisher a) config result w = ((result1, stop), w1)"
    and "\<forall>n. quota_path (aw_publisher a) (aw_quota a n) quotaHeartbeatRelativePath = Inr path"
  shows "if stop = None \<and> rn_Errors result1 = []
    then \<exists>h. map_option pf_content (w_files w1 path) = Some (document (qe_length (aw_quota a (w_step w1 - 1))) (heartbeat_json h)) \<and> hb_OK h \<and>
      hb_LastSuccessAt h = unix_of (qe_now (aw_quota a (w_step w1 - 1)))
    else success_of (map_option pf_content (w_files w1 path)) \<le> success_of (map_option pf_content (w_files w path)) \<or>
      (\<exists>e. rn_Errors result1 = [safeRuntimeError ''quota heartbeat'' e (rg_ManagementKey config)])"
proof -
  obtain e1 w2 where one: "rw_UpdateCollectorStatus (FencedRuntimeWriter a) (error_text result) w = (e1, w2)" by force
  obtain h w3 where two: "qp_PublishQuotaHeartbeat (FencedQuotaPublisher a) (rn_Errors result = []) (error_text result)
      (rg_HeartbeatStaleAfterSeconds config) (rg_QuotaFailOpenAfterSeconds config) w2 = (h, w3)" by force
  have files2: "w_files w2 = w_files w" by (rule status_files [OF one])
  note published = heartbeat_published [OF two assms(2) [rule_format], unfolded files2]
  have failed: "rn_Errors result \<noteq> [] \<Longrightarrow>
      success_of (map_option pf_content (w_files w3 path)) \<le> success_of (map_option pf_content (w_files w path))"
  proof -
    assume "rn_Errors result \<noteq> []"
    with published consider "map_option pf_content (w_files w3 path) = map_option pf_content (w_files w path)"
      | h where "map_option pf_content (w_files w3 path) = Some (document (qe_length (aw_quota a (w_step w2))) (heartbeat_json h))"
        "hb_LastSuccessAt h = previous_success (read_file (aw_quota a (w_step w2)) path (w_files w))" by auto
    then show ?thesis
    proof cases
      case 2
      then show ?thesis
        using written_success [of "qe_length (aw_quota a (w_step w2))" h] read_success [of "aw_quota a (w_step w2)" path "w_files w"]
          success_nonneg [of "map_option pf_content (w_files w path)"]
        by (simp del: map_option_eq_Some)
    qed simp
  qed
  show ?thesis
  proof (cases e1)
    case (Inl e)
    with assms(1) one files2 show ?thesis by (auto simp: conclude_round_def)
  next
    case ok: (Inr u)
    show ?thesis
    proof (cases h)
      case (Inr x)
      with assms(1) one two ok have "result1 = result" "stop = None" "w1 = w3" by (auto simp: conclude_round_def)
      with published failed Inr show ?thesis by auto
    next
      case (Inl e)
      let ?r = "add_error ''quota heartbeat'' e config result"
      obtain e4 w4 where four: "rw_UpdateCollectorStatus (FencedRuntimeWriter a) (error_text ?r) w3 = (e4, w4)" by force
      with assms(1) one two ok Inl have "result1 = ?r" "w1 = w4"
        by (auto simp: conclude_round_def Let_def split: sum.splits)
      with status_files [OF four] have "result1 = ?r" "w_files w1 = w_files w3" by simp_all
      then show ?thesis using failed by (auto simp: add_error_def)
    qed
  qed
qed

text \<open>
  C14: A failed round never counts as a success. If a round completes without errors, the heartbeat it leaves says
  so and has the clock of its publication as last success. Otherwise, whatever failed, also if the round was cut
  off, the last success that the published heartbeat reports is not later than before, so that the gateway stops
  enforcing quotas that are no longer computed; except when the publication of the heartbeat of an otherwise clean
  round was the only failure, which may have replaced the file.
\<close>

theorem failed_round_is_no_success:
  assumes "collect_round a decode net config w = Some ((result, stop), w1)"
    and "\<forall>n. quota_path (aw_publisher a) (aw_quota a n) quotaHeartbeatRelativePath = Inr path"
    and "\<forall>n. quota_path (aw_publisher a) (aw_quota a n) quotaSnapshotRelativePath \<noteq> Inr path"
  shows "if stop = None \<and> rn_Errors result = []
    then \<exists>h. map_option pf_content (w_files w1 path) = Some (document (qe_length (aw_quota a (w_step w1 - 1))) (heartbeat_json h)) \<and> hb_OK h \<and>
      hb_LastSuccessAt h = unix_of (qe_now (aw_quota a (w_step w1 - 1)))
    else success_of (map_option pf_content (w_files w1 path)) \<le> success_of (map_option pf_content (w_files w path)) \<or>
      (\<exists>e. rn_Errors result = [safeRuntimeError ''quota heartbeat'' e (rg_ManagementKey config)])"
proof -
  let ?P = "\<lambda>(c :: db) (d :: usage_db) fs. map_option pf_content (fs path) = map_option pf_content (w_files w path)"
  have ops: "round_ops (on_stores ?P) (store_catalog a) (FencedRuntimeWriter a) (FencedQuotaPublisher a)
    (defaultQueueFactory (\<lambda>address. net_link (net address)))"
    by (rule stores_round) (simp_all add: snapshot_other_file [OF assms(3) [rule_format]])
  have start: "on_stores ?P w" by (simp add: on_stores_def)
  show ?thesis
  proof (rule round_ops.round_parts [OF ops collector_fields(1-3) factory assms(1) [unfolded collect_round_def] start])
    fix e assume "stop = Some e" "on_stores ?P w1"
    then show ?thesis by (simp add: on_stores_def)
  next
    fix result1 w2
    assume "on_stores ?P w2" "conclude_round (FencedRuntimeWriter a) (FencedQuotaPublisher a) (co_Config (owned_collector a config)) result1 w2 = ((result, stop), w1)"
    with conclude_round_heartbeat [OF _ assms(2)] show ?thesis by (fastforce simp: on_stores_def collector_fields)
  qed
qed

section \<open>Examples\<close>

definition sample_config :: runtime_config where
  "sample_config = DefaultRuntimeConfig\<lparr>rg_ManagementKey := ''management-key''\<rparr>"

definition sample_around :: "fence \<Rightarrow> around" where
  "sample_around fence = \<lparr>aw_lib = sample_lib, aw_fence = fence, aw_fenv = (\<lambda>n. env_at 150 []), aw_env = (\<lambda>n. env_at 150 []),
     aw_quota = (\<lambda>n. sample_env), aw_draws = (\<lambda>n m. Inr ''draw''), aw_publisher = sample_publisher\<rparr>"

definition sample_world :: "db \<Rightarrow> unit world" where
  "sample_world c = \<lparr>w_step = 0, w_control = c, w_usage = sample_used, w_files = Map.empty, w_net = ()\<rparr>"

text \<open>A rebuild without a lease stops at its first write.\<close>

lemma sample_rebuild_unowned:
  "\<exists>e. rebuild_usage (sample_around []) sample_config (sample_world empty_db) =
     ((zero_rebuild_run, Some e), (tick (tick (sample_world empty_db)))\<lparr>w_usage := sample_used\<rparr>)"
proof -
  have key: "trim_space (rg_ManagementKey sample_config) \<noteq> []" "trim_space (rg_WeekTimezone sample_config) \<noteq> []"
    "rg_BatchSize sample_config = 100" by code_simp+
  have valid: "validate_runtime (owned_collector (sample_around []) sample_config :: unit world collector_runtime) =
      Inr (store_catalog (sample_around []), FencedRuntimeWriter (sample_around []), FencedQuotaPublisher (sample_around []))"
    using key by (simp add: validate_runtime_def collector_fields maxBatchSize_def)
  have read: "cc_ReadKeyRecords (store_catalog (sample_around [])) (sample_world empty_db) = (Inr [], tick (sample_world empty_db))"
    by (simp add: store_catalog_def read_control_def ReadKeyRecords_def attempt_def sample_around_def sample_world_def empty_db_def db_key_records_def no_fault)
  have unfenced: "on_usage (sample_around []) f (tick (sample_world empty_db)) =
      (Inl (ErrNew ''ownership write fence is not installed''), (tick (tick (sample_world empty_db)))\<lparr>w_usage := sample_used\<rparr>)"
    for f :: "env \<Rightarrow> usage_db \<Rightarrow> (gerr + bool) \<times> usage_db"
    by (simp add: on_usage_def withFencedResult_def WithWriteFence_def sample_around_def sample_world_def)
  show ?thesis
    unfolding rebuild_usage_def Rebuild_def valid Let_def sum.case prod.case read
    by (simp add: stop_with_def FencedRuntimeWriter_def unfenced)
qed


theorem stale_collector_changes_nothing_witness:
  "\<exists>outcome w1. rebuild_usage (sample_around [ex_first]) sample_config (sample_world (ex_db ex_second)) = (outcome, w1) \<and>
     w_usage w1 = sample_used \<and> w_files w1 = Map.empty \<and> w_control w1 = ex_db ex_second"
proof -
  obtain outcome w1 where run: "rebuild_usage (sample_around [ex_first]) sample_config (sample_world (ex_db ex_second)) = (outcome, w1)"
    by (rule prod.exhaust)
  have "store_step\<^sup>*\<^sup>* (ex_db ex_second) (w_control (sample_world (ex_db ex_second)))" by (simp add: sample_world_def)
  from stale_collector_changes_nothing [OF obtains_lease.intros(1) [OF ex_take_first] rtranclp.rtrancl_refl ex_take_second _ this _ disjI2 [OF run]]
  show ?thesis using run by (simp add: sample_around_def sample_world_def)
qed

definition broken_env :: env where
  "broken_env = \<lparr>ev_fault = (\<lambda>_. Some (ErrNew ''disk I/O error'')), ev_fenceNow = 0, ev_now = 0, ev_random = Inl (ErrNew [])\<rparr>"

definition sample_heartbeat :: quota_heartbeat where
  "sample_heartbeat = \<lparr>hb_Version = 1, hb_UpdatedAt = 1000, hb_OK = True, hb_Error = [], hb_StaleAfterSeconds = 15, hb_LastSuccessAt = 1000,
     hb_FailOpenAfterSeconds = 300\<rparr>"

definition beating_world :: "unit world" where
  "beating_world = (sample_world empty_db)\<lparr>w_files := Map.empty(''/srv/state/gateway/quota-heartbeat.json'' :=
     Some \<lparr>pf_content = document (\<lambda>_. 100) (heartbeat_json sample_heartbeat), pf_permission = 416, pf_gid = 0\<rparr>)\<rparr>"

lemma sample_paths: "quota_path sample_publisher sample_env quotaHeartbeatRelativePath = Inr ''/srv/state/gateway/quota-heartbeat.json''"
  "quota_path sample_publisher sample_env quotaSnapshotRelativePath \<noteq> Inr ''/srv/state/gateway/quota-heartbeat.json''"
proof -
  have "trim_space ''/srv'' = ''/srv''" by code_simp
  then show "quota_path sample_publisher sample_env quotaHeartbeatRelativePath = Inr ''/srv/state/gateway/quota-heartbeat.json''"
    by (simp add: quota_path_def sample_publisher_def quotaHeartbeatRelativePath_def and_then_def wrapping_def sample_env_fields)
  show "quota_path sample_publisher sample_env quotaSnapshotRelativePath \<noteq> Inr ''/srv/state/gateway/quota-heartbeat.json''"
    by (simp add: sample_path)
qed

lemma sample_broken_round: "\<exists>e w1. collect_round ((sample_around [])\<lparr>aw_env := (\<lambda>n. broken_env)\<rparr>) decode net sample_config beating_world =
    Some ((zero_run, Some e), w1)"
proof -
  let ?a = "(sample_around [])\<lparr>aw_env := (\<lambda>n. broken_env)\<rparr>"
  have key: "trim_space (rg_ManagementKey sample_config) \<noteq> []" "trim_space (rg_WeekTimezone sample_config) \<noteq> []"
    "rg_BatchSize sample_config = 100" by code_simp+
  have valid: "validate_runtime (owned_collector ?a sample_config :: unit world collector_runtime) =
      Inr (store_catalog ?a, FencedRuntimeWriter ?a, FencedQuotaPublisher ?a)"
    using key by (simp add: validate_runtime_def collector_fields maxBatchSize_def)
  have broken: "ev_fault broken_env call = Some (ErrNew ''disk I/O error'')" for call by (simp add: broken_env_def)
  show ?thesis
    by (simp add: collect_round_def CollectorRunOnce_def valid synchronise_def and_do_def wrap_do_def store_catalog_def read_control_def
        ReadKeyRecords_def attempt_def broken wrapping_def)
qed

definition unreachable_link :: "unit link" where
  "unreachable_link = \<lparr>ln_Dial = (\<lambda>q w. (Inl (ErrNew ''no route''), w)), ln_WithContext = True, ln_Auth = (\<lambda>p w. (Inr ''OK'', w)),
     ln_Pop = (\<lambda>name n w. (Inr RNil, w)), ln_ended = (\<lambda>w. None)\<rparr>"

theorem failed_round_is_no_success_witness:
  "\<exists>e w1. collect_round ((sample_around [])\<lparr>aw_env := (\<lambda>n. broken_env)\<rparr>) (\<lambda>item. (None, True)) (\<lambda>address. unreachable_link) sample_config
      beating_world = Some ((zero_run, Some e), w1) \<and>
    success_of (map_option pf_content (w_files w1 ''/srv/state/gateway/quota-heartbeat.json'')) \<le> 1000"
proof -
  let ?a = "(sample_around [])\<lparr>aw_env := (\<lambda>n. broken_env)\<rparr>" and ?path = "''/srv/state/gateway/quota-heartbeat.json''"
  obtain e w1 where run: "collect_round ?a (\<lambda>item. (None, True)) (\<lambda>address. unreachable_link) sample_config beating_world = Some ((zero_run, Some e), w1)"
    using sample_broken_round by blast
  have paths: "\<forall>n. quota_path (aw_publisher ?a) (aw_quota ?a n) quotaHeartbeatRelativePath = Inr ?path"
    "\<forall>n. quota_path (aw_publisher ?a) (aw_quota ?a n) quotaSnapshotRelativePath \<noteq> Inr ?path"
    using sample_paths by (simp_all add: sample_around_def)
  have "success_of (map_option pf_content (w_files beating_world ?path)) \<le> 1000"
    using written_success [of "\<lambda>_. 100" sample_heartbeat] by (simp add: beating_world_def sample_heartbeat_def)
  then show ?thesis
    using failed_round_is_no_success [OF run paths] run by (simp add: zero_run_def)
qed

end
