(* ===== verification/Collector_Config_Proofs.thy ===== *)
theory Collector_Config_Proofs
  imports Collector_Proofs
begin

text \<open>
  What a configuration that was accepted guarantees, and that moving the obsolete time zone settings changes no
  boundary.
\<close>

lemma numeric_finite: "numericSetting settings key = Inr (Some f) \<Longrightarrow> finite64 f"
  by (auto simp: numericSetting_def split: option.splits if_splits)

definition multipliers_ok :: "f64 gomap \<Rightarrow> bool" where
  "multipliers_ok m \<longleftrightarrow> list_all (\<lambda>(key, f). finite64 f \<and> f_le (round64 (1 / 10)) f \<and> f_le f (Fin 10)) m"

lemma update_all: "list_all P m \<Longrightarrow> P (k, v) \<Longrightarrow> list_all P (mput k v m)"
  by (induction m) auto

lemma not_less_finite: "\<not> f_lt f (round64 q) \<Longrightarrow> finite64 f \<Longrightarrow> f_le (round64 q) f"
  by (cases f) (auto simp: f_le_def f_eq_def round64_def Let_def)

lemma multipliers_of_ok: "multipliers_of settings keys m = Inr m' \<Longrightarrow> multipliers_ok m \<Longrightarrow> multipliers_ok m'"
proof (induction settings keys m rule: multipliers_of.induct)
  case (2 settings key keys m)
  have "numericSetting settings key = Inr (Some f) \<Longrightarrow> \<not> f_lt f (round64 (1 / 10)) \<Longrightarrow> \<not> f_lt (Fin 10) f \<Longrightarrow>
      multipliers_ok (mput key f m)" for f
    using 2(4) numeric_finite [of settings key f] not_less_finite [of f]
    by (cases f) (auto simp: multipliers_ok_def f_le_def f_eq_def intro!: update_all)
  with 2 show ?case by (auto split: sum.splits option.splits if_splits)
qed simp

lemma Name_valid: "Name lib settings = Inr name \<Longrightarrow> name = DefaultName \<or> (name \<noteq> [] \<and> trim_space name = name \<and> (\<exists>loc. ul_location lib name = Inr loc))"
  by (auto simp: Name_def timezone_value_def Validate_def and_then_Inr_iff split: option.splits goany.splits if_splits)

text \<open>
  C40: An accepted configuration is usable. What is read from the settings has an interval from half a second to a
  minute, a batch size the queue accepts, a time zone that loads, no default limit or a positive one, and
  multipliers that are finite and from 0.1 to 10; with a management key the round and the rebuild accept it.
\<close>

theorem accepted_configuration_is_usable:
  assumes "RuntimeConfigFromSettings lib settings = Inr (config, interval)" "trim_space key \<noteq> []"
  shows "500 * millisecond \<le> interval \<and> interval \<le> 60 * second \<and> 1 \<le> rg_BatchSize config \<and> rg_BatchSize config \<le> maxBatchSize \<and>
    (\<exists>loc. ul_location lib (rg_WeekTimezone config) = Inr loc) \<and>
    (case rg_DefaultWeeklyTokens config of None \<Rightarrow> True | Some n \<Rightarrow> 0 < n) \<and>
    multipliers_ok (rg_ModelMultipliers config) \<and> multipliers_ok (rg_ReasoningMultipliers config) \<and>
    validate_runtime \<lparr>co_Control = Some c, co_Writer = Some w, co_Publisher = Some p, co_QueueFactory = f,
      co_Config = config\<lparr>rg_ManagementKey := key\<rparr>\<rparr> = Inr (c, w, p)"
proof -
  from assms(1) obtain models reasoning where
    name: "Name lib settings = Inr (rg_WeekTimezone config)"
    and tokens: "default_tokens settings = Inr (rg_DefaultWeeklyTokens config)"
    and models: "multipliers_of settings models [] = Inr (rg_ModelMultipliers config)"
    and reasoning: "multipliers_of settings reasoning [] = Inr (rg_ReasoningMultipliers config)"
    and bounds: "500 * millisecond \<le> interval" "interval \<le> 60 * second" "1 \<le> rg_BatchSize config" "rg_BatchSize config \<le> maxBatchSize"
    and zone: "\<exists>loc. ul_location lib (rg_WeekTimezone config) = Inr loc"
    by (auto simp: RuntimeConfigFromSettings_def and_then_Inr_iff Let_def split: if_splits)
  have "trim_space DefaultName \<noteq> []" by code_simp
  with Name_valid [OF name] have "trim_space (rg_WeekTimezone config) \<noteq> []" by auto
  moreover have "case rg_DefaultWeeklyTokens config of None \<Rightarrow> True | Some n \<Rightarrow> 0 < n"
    using tokens by (auto simp: default_tokens_def split: goany.splits option.splits if_splits)
  moreover have "multipliers_ok []" by (simp add: multipliers_ok_def)
  ultimately show ?thesis
    using bounds zone multipliers_of_ok [OF models] multipliers_of_ok [OF reasoning] assms(2) by (simp add: validate_runtime_def)
qed

section \<open>The time zone settings\<close>

lemma timezone_settled: "timezone_value lib key raw = Inr name \<Longrightarrow> timezone_value lib other (AString name) = Inr name"
  by (auto simp: timezone_value_def and_then_Inr_iff split: goany.splits)

text \<open>
  Moving the time zone settings changes no boundary. If the migration succeeds, the zone of the site is the same
  before and after it, the obsolete keys are gone, every other key is as it was, and migrating again changes
  nothing; if it fails the settings are untouched.
\<close>

theorem migration_keeps_timezone:
  assumes "Migrate lib settings = (e, settings')"
  shows "case e of
      Some _ \<Rightarrow> settings' = settings
    | None \<Rightarrow> Name lib settings' = Name lib settings \<and> Migrate lib settings' = (None, settings') \<and>
        map_of settings' ''user_quota.timezone'' = None \<and> map_of settings' ''notification.timezone'' = None \<and>
        (\<forall>key. key \<notin> set timezone_keys \<longrightarrow> map_of settings' key = map_of settings key)"
proof (cases "map_of settings ''user_quota.timezone'' = None \<and> map_of settings ''notification.timezone'' = None")
  case True
  with assms show ?thesis by (auto simp: Migrate_def)
next
  case legacy: False
  show ?thesis
  proof (cases "Name lib settings")
    case (Inl x)
    with assms legacy show ?thesis by (auto simp: Migrate_def)
  next
    case (Inr name)
    with legacy obtain key where key: "timezone_value lib key (mget ANil settings key) = Inr name"
      by (auto simp: Name_def timezone_keys_def split: option.splits if_splits)
    let ?s = "AList.delete ''notification.timezone'' (AList.delete ''user_quota.timezone'' (mput TimezoneSettingKey (AString name) settings))"
    have s: "e = None" "settings' = ?s" using assms legacy Inr by (auto simp: Migrate_def)
    have at: "map_of ?s k = (if k \<in> {''notification.timezone'', ''user_quota.timezone''} then None
        else if k = TimezoneSettingKey then Some (AString name) else map_of settings k)" for k
      by (simp add: delete_conv' update_conv' TimezoneSettingKey_def)
    have "Name lib ?s = Inr name"
      unfolding Name_def timezone_keys_def using timezone_settled [OF key]
      by (simp add: at TimezoneSettingKey_def mget_def)
    then show ?thesis using s Inr at by (simp add: Migrate_def timezone_keys_def)
  qed
qed

section \<open>Examples\<close>

lemma sample_name: "ul_location sample_lib DefaultName = Inr sample_zone"
  by (simp add: sample_lib_def DefaultName_def)

lemma sample_settings_config: "RuntimeConfigFromSettings sample_lib [(''collector.batch_size'', AInt 50)] =
    Inr (DefaultRuntimeConfig\<lparr>rg_BatchSize := 50\<rparr>, 2 * second)"
proof -
  have "numericSetting [(''collector.batch_size'', AInt 50)] key = Inr None" if "key \<noteq> ''collector.batch_size''" for key
    using that by (simp add: numericSetting_def)
  then have none: "(\<forall>key \<in> set keys. key \<noteq> ''collector.batch_size'') \<Longrightarrow> multipliers_of [(''collector.batch_size'', AInt 50)] keys m = Inr m" for keys m
    by (induction keys) auto
  have keys: "\<forall>key \<in> set (map (\<lambda>(model, _). ModelMultiplierSettingKey model) ModelMultiplierDefinitions). key \<noteq> ''collector.batch_size''"
    "\<forall>key \<in> set (map (\<lambda>effort. reasoningMultiplierConfigBase @ effort) reasoningEfforts). key \<noteq> ''collector.batch_size''" by code_simp+
  show ?thesis
    unfolding RuntimeConfigFromSettings_def none [OF keys(1)] none [OF keys(2)]
    by (simp add: numericSetting_def integerSetting_def integerValue_def booleanSetting_def default_tokens_def mget_def Name_def timezone_keys_def
        TimezoneSettingKey_def sample_name setting_or_def DefaultRuntimeConfig_def maxBatchSize_def second_def millisecond_def wrapping_def Let_def)
qed

theorem accepted_configuration_is_usable_witness:
  "\<exists>config. RuntimeConfigFromSettings sample_lib [(''collector.batch_size'', AInt 50)] = Inr (config, 2 * second) \<and> rg_BatchSize config = 50 \<and>
     multipliers_ok (rg_ModelMultipliers config)"
proof -
  have "trim_space ''management-key'' \<noteq> []" by code_simp
  from accepted_configuration_is_usable [OF sample_settings_config this, where c = "store_catalog (sample_around []) :: unit world control_catalog"
      and w = "FencedRuntimeWriter (sample_around [])" and p = "FencedQuotaPublisher (sample_around [])" and f = None] sample_settings_config
  show ?thesis by simp
qed

theorem migration_keeps_timezone_witness:
  "\<exists>settings'. Migrate sample_lib [(''notification.timezone'', AString ''Asia/Shanghai'')] = (None, settings') \<and>
     Name sample_lib settings' = Inr ''Asia/Shanghai'' \<and> map_of settings' ''notification.timezone'' = None"
proof -
  have trim: "trim_space ''Asia/Shanghai'' = ''Asia/Shanghai''" by code_simp
  have name: "Name sample_lib [(''notification.timezone'', AString ''Asia/Shanghai'')] = Inr ''Asia/Shanghai''"
    using sample_name by (simp add: Name_def timezone_keys_def TimezoneSettingKey_def timezone_value_def Validate_def trim mget_def DefaultName_def wrapping_def)
  then obtain settings' where run: "Migrate sample_lib [(''notification.timezone'', AString ''Asia/Shanghai'')] = (None, settings')"
    by (simp add: Migrate_def)
  from migration_keeps_timezone [OF run] run show ?thesis by (simp add: name)
qed

end
