(* ===== verification/Control_Secrets.thy ===== *)
theory Control_Secrets
  imports Control_Settings Control_Tx Go_Sha256
begin

text \<open>
  The encrypted secrets of the control plane (\<open>internal/controlplane/store.go\<close>). A \<open>vault\<close> is the key file, the
  key a store handle has read, and the table \<open>encrypted_secrets\<close>. AES-GCM is the parameter \<open>cipher\<close>; the calls on
  the key file that can fail, the bytes drawn and the file another process may create at the same time are the
  environment \<open>key_env\<close>. A key file the code creates has the mode 0600.
\<close>

section \<open>The vault\<close>

record secret_row =
  se_Nonce :: string
  se_Ciphertext :: string
  se_Digest :: string
  se_UpdatedAt :: int

record key_file =
  kf_Bytes :: string
  kf_Private :: bool

record vault =
  vt_key :: string
  vt_file :: "key_file option"
  vt_rows :: "secret_row gomap"

record cipher =
  cf_Seal :: "string \<Rightarrow> string \<Rightarrow> string \<Rightarrow> string \<Rightarrow> string"
  cf_Open :: "string \<Rightarrow> string \<Rightarrow> string \<Rightarrow> string \<Rightarrow> gerr + string"

datatype key_call = ReadKey | MakeKeyDir | SecureKeyDir | DrawKey | CreateKey | RereadKey | WriteKey | SyncKey | CloseKey | StatKey

record key_env =
  ke_fault :: "key_call \<Rightarrow> gerr option"
  ke_path :: string
  ke_drawn :: string
  ke_partial :: string
  ke_raced :: "key_file option"
  ke_nonce :: "string \<Rightarrow> gerr + string"

definition key_step :: "key_env \<Rightarrow> key_call \<Rightarrow> string \<Rightarrow> gerr + unit" where
  "key_step ke call text = (case ke_fault ke call of Some e \<Rightarrow> Inl (wrapf text e) | None \<Rightarrow> Inr ())"

section \<open>The encryption key\<close>

text \<open>The writes of a new key file; each returns the file it leaves.\<close>

definition write_key_file :: "key_env \<Rightarrow> (gerr + string) \<times> key_file" where
  "write_key_file ke =
     (let whole = \<lparr>kf_Bytes = ke_drawn ke, kf_Private = True\<rparr>
      in case key_step ke WriteKey ''write control-plane encryption key: '' of
           Inl e \<Rightarrow> (Inl e, whole\<lparr>kf_Bytes := ke_partial ke\<rparr>)
         | Inr _ \<Rightarrow> (and_then (key_step ke SyncKey ''sync control-plane encryption key: '') (\<lambda>_.
                    and_then (key_step ke CloseKey ''close control-plane encryption key: '') (\<lambda>_. Inr (ke_drawn ke))), whole))"

definition create_key :: "env \<Rightarrow> key_env \<Rightarrow> vault \<Rightarrow> (gerr + string) \<times> vault" where
  "create_key env ke v =
     (case and_then (attempt env (SqlRead ''encrypted_secrets'' ''count'') ''count encrypted control-plane secrets: '' (length (vt_rows v))) (\<lambda>encryptedCount.
           if 0 < encryptedCount
           then Inl (ErrNew (''control-plane encryption key is missing while '' @ itoa (int encryptedCount) @ '' encrypted secrets exist: '' @ ke_path ke))
           else and_then (key_step ke MakeKeyDir ''create control-plane key directory: '') (\<lambda>_.
                and_then (key_step ke SecureKeyDir ''secure control-plane key directory: '') (\<lambda>_.
                key_step ke DrawKey ''generate control-plane encryption key: ''))) of
        Inl e \<Rightarrow> (Inl e, v)
      | Inr _ \<Rightarrow>
          (case ke_raced ke of
             Some f \<Rightarrow> (map_sum id (\<lambda>_. kf_Bytes f) (key_step ke RereadKey ''read concurrently-created control-plane key: ''), v\<lparr>vt_file := Some f\<rparr>)
           | None \<Rightarrow>
               (case key_step ke CreateKey ''create control-plane encryption key: '' of
                  Inl e \<Rightarrow> (Inl e, v)
                | Inr _ \<Rightarrow> (case write_key_file ke of (r, f) \<Rightarrow> (r, v\<lparr>vt_file := Some f\<rparr>)))))"

text \<open>The checks before a key is kept in memory.\<close>

definition accept_key :: "key_env \<Rightarrow> string \<Rightarrow> vault \<Rightarrow> (gerr + string) \<times> vault" where
  "accept_key ke key v =
     (if length key \<noteq> 32 then (Inl (ErrNew (''control-plane encryption key must be exactly 32 bytes: '' @ ke_path ke)), v)
      else case key_step ke StatKey ''inspect control-plane encryption key: '' of
             Inl e \<Rightarrow> (Inl e, v)
           | Inr _ \<Rightarrow>
               if \<not> (case vt_file v of None \<Rightarrow> False | Some f \<Rightarrow> kf_Private f)
               then (Inl (ErrNew (''control-plane encryption key permissions must be 0600: '' @ ke_path ke)), v)
               else (Inr key, v\<lparr>vt_key := key\<rparr>))"

definition encryptionKey :: "env \<Rightarrow> key_env \<Rightarrow> vault \<Rightarrow> (gerr + string) \<times> vault" where
  "encryptionKey env ke v =
     (if vt_key v \<noteq> [] then (Inr (vt_key v), v)
      else case (case vt_file v of
                   None \<Rightarrow> create_key env ke v
                 | Some f \<Rightarrow> (map_sum id (\<lambda>_. kf_Bytes f) (key_step ke ReadKey ''read control-plane encryption key: ''), v)) of
             (Inl e, v) \<Rightarrow> (Inl e, v)
           | (Inr key, v) \<Rightarrow> accept_key ke key v)"

section \<open>Sealing\<close>

definition secretDigest :: "string \<Rightarrow> string" where
  "secretDigest value = sha256_hex value"

text \<open>A key of 32 bytes always makes a cipher, and AES always makes a GCM.\<close>

definition encryptSecret ::
  "cipher \<Rightarrow> env \<Rightarrow> key_env \<Rightarrow> string \<Rightarrow> string \<Rightarrow> vault \<Rightarrow> (gerr + string \<times> string \<times> string) \<times> vault" where
  "encryptSecret c env ke name value v =
     (case encryptionKey env ke v of
        (Inl e, v) \<Rightarrow> (Inl e, v)
      | (Inr key, v) \<Rightarrow>
          (map_sum (wrapf ''generate control-plane secret nonce: '')
             (\<lambda>nonce. (nonce, cf_Seal c key nonce name value, secretDigest value)) (ke_nonce ke name), v))"

definition decryptSecret ::
  "cipher \<Rightarrow> env \<Rightarrow> key_env \<Rightarrow> string \<Rightarrow> secret_row \<Rightarrow> vault \<Rightarrow> (gerr + string) \<times> vault" where
  "decryptSecret c env ke name row v =
     (case encryptionKey env ke v of
        (Inl e, v) \<Rightarrow> (Inl e, v)
      | (Inr key, v) \<Rightarrow>
          (case cf_Open c key (se_Nonce row) name (se_Ciphertext row) of
             Inl e \<Rightarrow> (Inl (wrapf (''control-plane secret '' @ name @ '' cannot be decrypted: '') e), v)
           | Inr value \<Rightarrow>
               if secretDigest value \<noteq> se_Digest row
               then (Inl (ErrNew (''control-plane secret '' @ name @ '' integrity digest mismatch'')), v)
               else (Inr value, v)))"

section \<open>The operations\<close>

definition ReadSecret :: "cipher \<Rightarrow> env \<Rightarrow> key_env \<Rightarrow> string \<Rightarrow> vault \<Rightarrow> (gerr + string option) \<times> vault" where
  "ReadSecret c env ke rawName v =
     (let name = trim_space rawName
      in if name = [] then (Inl (ErrNew ''control-plane secret name is required''), v)
         else case attempt env (SqlRead ''encrypted_secrets'' name) (''read control-plane secret '' @ name @ '': '') (map_of (vt_rows v) name) of
                Inl e \<Rightarrow> (Inl e, v)
              | Inr None \<Rightarrow> (Inr None, v)
              | Inr (Some row) \<Rightarrow> (case decryptSecret c env ke name row v of (r, v) \<Rightarrow> (map_sum id Some r, v)))"

text \<open>A transaction on the control plane and the table of secrets.\<close>

definition vault_transaction ::
  "fence \<Rightarrow> env \<Rightarrow> (db \<times> secret_row gomap, unit) stx \<Rightarrow> db \<Rightarrow> vault \<Rightarrow> (gerr + unit) \<times> db \<times> vault" where
  "vault_transaction fence env m d v =
     (case writeTransaction fence env (\<lambda>d. map_sum id (\<lambda>(_, d, rows). (rows, d)) (m (d, vt_rows v))) d of
        (Inl e, d) \<Rightarrow> (Inl e, d, v)
      | (Inr rows, d) \<Rightarrow> (Inr (), d, v\<lparr>vt_rows := rows\<rparr>))"

definition secret_row_of :: "env \<Rightarrow> string \<times> string \<times> string \<Rightarrow> secret_row" where
  "secret_row_of env sealed = (case sealed of (nonce, ciphertext, digest) \<Rightarrow>
     \<lparr>se_Nonce = nonce, se_Ciphertext = ciphertext, se_Digest = digest, se_UpdatedAt = unix_of (ev_now env)\<rparr>)"

definition upsert_secret :: "env \<Rightarrow> string \<Rightarrow> string \<times> string \<times> string \<Rightarrow> (db \<times> secret_row gomap, unit) stx" where
  "upsert_secret env name sealed = exec env ''encrypted_secrets'' (''write control-plane secret '' @ name @ '': '')
     (\<lambda>(d, rows). (d, mput name (secret_row_of env sealed) rows))"

definition delete_secret :: "env \<Rightarrow> string \<Rightarrow> string \<Rightarrow> (db \<times> secret_row gomap, unit) stx" where
  "delete_secret env text name = exec env ''encrypted_secrets'' text (\<lambda>(d, rows). (d, AList.delete name rows))"

definition WriteSecret ::
  "cipher \<Rightarrow> fence \<Rightarrow> env \<Rightarrow> key_env \<Rightarrow> string \<Rightarrow> string \<Rightarrow> db \<Rightarrow> vault \<Rightarrow> (gerr + unit) \<times> db \<times> vault" where
  "WriteSecret c fence env ke rawName value d v =
     (let name = trim_space rawName
      in if name = [] then (Inl (ErrNew ''control-plane secret name is required''), d, v)
         else if value = [] then (Inl (ErrNew (''control-plane secret '' @ name @ '' cannot be empty'')), d, v)
         else case encryptSecret c env ke name value v of
                (Inl e, v) \<Rightarrow> (Inl e, d, v)
              | (Inr sealed, v) \<Rightarrow> vault_transaction fence env (upsert_secret env name sealed) d v)"

definition DeleteSecret :: "fence \<Rightarrow> env \<Rightarrow> string \<Rightarrow> db \<Rightarrow> vault \<Rightarrow> (gerr + unit) \<times> db \<times> vault" where
  "DeleteSecret fence env rawName = vault_transaction fence env (delete_secret env ''delete control-plane secret: '' (trim_space rawName))"

definition SecretStatuses :: "env \<Rightarrow> vault \<Rightarrow> gerr + (string \<times> int) gomap" where
  "SecretStatuses env v =
     attempt env (SqlRead ''encrypted_secrets'' []) ''list control-plane secret statuses: ''
       (map (\<lambda>(name, row). (name, (se_Digest row, se_UpdatedAt row))) (sort_key fst (vt_rows v)))"

section \<open>Settings and secrets in one transaction\<close>

fun encode_normal_settings :: "(string \<times> goany) list \<Rightarrow> string list \<times> json gomap \<Rightarrow> gerr + string list \<times> json gomap" where
  "encode_normal_settings [] acc = Inr acc"
| "encode_normal_settings ((rawKey, value) # vals) (keys, encoded) =
     (let key = trim_space rawKey
      in if key = [] \<or> key \<noteq> rawKey then Inl (ErrNew ''control-plane setting key is required and must be normalized'')
         else case json_marshal value of
             Inl e \<Rightarrow> Inl (wrapf (''encode control-plane setting '' @ key @ '': '') e)
           | Inr raw \<Rightarrow> encode_normal_settings vals (keys @ [key], mput key raw encoded))"

fun encrypt_values ::
  "cipher \<Rightarrow> env \<Rightarrow> key_env \<Rightarrow> (string \<times> string option) list \<Rightarrow> (string \<times> string \<times> string) gomap \<Rightarrow> vault \<Rightarrow>
     (gerr + (string \<times> string \<times> string) gomap) \<times> vault" where
  "encrypt_values c env ke [] encrypted v = (Inr encrypted, v)"
| "encrypt_values c env ke ((name, None) # secrets) encrypted v = encrypt_values c env ke secrets encrypted v"
| "encrypt_values c env ke ((name, Some value) # secrets) encrypted v =
     (if value = [] then (Inl (ErrNew (''control-plane secret '' @ name @ '' cannot be empty'')), v)
      else case encryptSecret c env ke name value v of
             (Inl e, v) \<Rightarrow> (Inl e, v)
           | (Inr sealed, v) \<Rightarrow> encrypt_values c env ke secrets (mput name sealed encrypted) v)"

definition replace_secret ::
  "env \<Rightarrow> (string \<times> string \<times> string) gomap \<Rightarrow> string \<times> string option \<Rightarrow> (db \<times> secret_row gomap, unit) stx" where
  "replace_secret env encrypted change = (case change of
     (name, None) \<Rightarrow> delete_secret env (''delete control-plane secret '' @ name @ '': '') name
   | (name, Some _) \<Rightarrow> upsert_secret env name (mget ([], [], []) encrypted name))"

definition ReplaceSettingsAndSecrets ::
  "cipher \<Rightarrow> fence \<Rightarrow> env \<Rightarrow> key_env \<Rightarrow> goany gomap \<Rightarrow> string option gomap \<Rightarrow> db \<Rightarrow> vault \<Rightarrow> (gerr + unit) \<times> db \<times> vault" where
  "ReplaceSettingsAndSecrets c fence env ke vals secrets d v =
     (if list_ex (\<lambda>(name, _). name = [] \<or> name \<noteq> trim_space name) secrets
      then (Inl (ErrNew ''control-plane secret name is required and must be normalized''), d, v)
      else case encode_normal_settings vals ([], []) of
             Inl e \<Rightarrow> (Inl e, d, v)
           | Inr (keys, encoded) \<Rightarrow>
               (case encrypt_values c env ke secrets [] v of
                  (Inl e, v) \<Rightarrow> (Inl e, d, v)
                | (Inr encrypted, v) \<Rightarrow> vault_transaction fence env (\<lambda>view.
                    then_tx (exec env ''settings'' ''clear control-plane settings: '' (\<lambda>(d, rows). (d\<lparr>db_settings := []\<rparr>, rows))) (\<lambda>_.
                    then_tx (\<lambda>(d, rows). map_sum id (\<lambda>d. ((), d, rows)) (insert_settings env (sort keys) encoded d)) (\<lambda>_.
                    each_tx (replace_secret env encrypted) secrets)) view) d v))"

definition ReplaceSettingsAndSecret ::
  "cipher \<Rightarrow> fence \<Rightarrow> env \<Rightarrow> key_env \<Rightarrow> goany gomap \<Rightarrow> string \<Rightarrow> string option \<Rightarrow> db \<Rightarrow> vault \<Rightarrow> (gerr + unit) \<times> db \<times> vault" where
  "ReplaceSettingsAndSecret c fence env ke vals secretName secretValue =
     ReplaceSettingsAndSecrets c fence env ke vals [(trim_space secretName, secretValue)]"

section \<open>Legacy secrets\<close>

definition legacySecretFiles :: "string gomap" where
  "legacySecretFiles = [(''cpa_management_key'', ''cpa-management.key''), (''wecom_webhook'', ''wecom-webhook.url'')]"

text \<open>\<open>legacy\<close> reads a file of the directory of secrets: an error, none, or its text.\<close>

fun import_secrets ::
  "cipher \<Rightarrow> fence \<Rightarrow> env \<Rightarrow> key_env \<Rightarrow> (string \<Rightarrow> gerr + string option) \<Rightarrow> string list \<Rightarrow> db \<Rightarrow> vault \<Rightarrow> (gerr + unit) \<times> db \<times> vault" where
  "import_secrets c fence env ke legacy [] d v = (Inr (), d, v)"
| "import_secrets c fence env ke legacy (name # names) d v =
     (case and_then (attempt env (SqlRead ''encrypted_secrets'' name) (''check legacy control-plane secret '' @ name @ '': '') (map_of (vt_rows v) name)) (\<lambda>row.
           if row \<noteq> None then Inr None
           else map_sum (wrapf (''read legacy control-plane secret '' @ name @ '': '')) (map_option trim_space) (legacy (mget [] legacySecretFiles name))) of
        Inl e \<Rightarrow> (Inl e, d, v)
      | Inr found \<Rightarrow>
          if found = None \<or> found = Some [] then import_secrets c fence env ke legacy names d v
          else case WriteSecret c fence env ke name (the found) d v of
                 (Inl e, d, v) \<Rightarrow> (Inl (wrapf (''import legacy control-plane secret '' @ name @ '': '') e), d, v)
               | (Inr _, d, v) \<Rightarrow> import_secrets c fence env ke legacy names d v)"

definition importLegacySecrets ::
  "cipher \<Rightarrow> fence \<Rightarrow> env \<Rightarrow> key_env \<Rightarrow> (string \<Rightarrow> gerr + string option) \<Rightarrow> db \<Rightarrow> vault \<Rightarrow> (gerr + unit) \<times> db \<times> vault" where
  "importLegacySecrets c fence env ke legacy = import_secrets c fence env ke legacy (sort (map fst legacySecretFiles))"

end
