(* ===== verification/Secrets_Proofs.thy ===== *)
theory Secrets_Proofs
  imports Control_Secrets Lease_Proofs
begin

text \<open>
  The secrets of the control plane: every stored secret can be decrypted with the key file, whatever the operations
  do and whichever call fails, and what was written is read back.
\<close>

section \<open>The invariant\<close>

text \<open>What the code relies on of AES-GCM: opening with the same key, nonce and name gives the sealed text.\<close>

definition opens_sealed :: "cipher \<Rightarrow> bool" where
  "opens_sealed c \<longleftrightarrow> (\<forall>key nonce name value. cf_Open c key nonce name (cf_Seal c key nonce name value) = Inr value)"

definition usable_file :: "key_file option \<Rightarrow> bool" where
  "usable_file f \<longleftrightarrow> (case f of None \<Rightarrow> False | Some f \<Rightarrow> length (kf_Bytes f) = 32 \<and> kf_Private f)"

definition file_key :: "vault \<Rightarrow> string" where
  "file_key v = (case vt_file v of None \<Rightarrow> [] | Some f \<Rightarrow> kf_Bytes f)"

definition opens_row :: "cipher \<Rightarrow> string \<Rightarrow> string \<Rightarrow> secret_row \<Rightarrow> string \<Rightarrow> bool" where
  "opens_row c key name row value \<longleftrightarrow>
     cf_Open c key (se_Nonce row) name (se_Ciphertext row) = Inr value \<and> se_Digest row = secretDigest value"

definition vault_ok :: "cipher \<Rightarrow> vault \<Rightarrow> bool" where
  "vault_ok c v \<longleftrightarrow> (vt_key v \<noteq> [] \<or> vt_rows v \<noteq> [] \<longrightarrow> usable_file (vt_file v)) \<and>
     (vt_key v \<noteq> [] \<longrightarrow> vt_key v = file_key v) \<and>
     (\<forall>name row. map_of (vt_rows v) name = Some row \<longrightarrow> (\<exists>value. opens_row c (file_key v) name row value))"

text \<open>The part of a vault the other processes see is kept, and its file too where it has a use.\<close>

definition same_store :: "vault \<Rightarrow> vault \<Rightarrow> bool" where
  "same_store v v' \<longleftrightarrow> vt_rows v' = vt_rows v \<and> (usable_file (vt_file v) \<longrightarrow> vt_file v' = vt_file v)"

lemma accept_key_cases:
  assumes "accept_key ke key u = (r, v')"
  shows "(\<exists>e. r = Inl e) \<and> v' = u \<or> r = Inr key \<and> v' = u\<lparr>vt_key := key\<rparr> \<and> length key = 32 \<and> (\<exists>f. vt_file u = Some f \<and> kf_Private f)"
  using assms by (auto simp: accept_key_def split: if_splits sum.splits option.splits)

lemma write_key_file_key: "write_key_file ke = (Inr key, f) \<Longrightarrow> kf_Bytes f = key"
  by (auto simp: write_key_file_def Let_def and_then_Inr_iff split: sum.splits)

lemma create_key_cases:
  assumes "create_key env ke v = (r, u)"
  shows "u = v \<and> (\<exists>e. r = Inl e) \<or> vt_rows v = [] \<and> (\<exists>f. u = v\<lparr>vt_file := Some f\<rparr> \<and> (\<forall>key. r = Inr key \<longrightarrow> kf_Bytes f = key))"
proof -
  define start where "start = and_then (attempt env (SqlRead ''encrypted_secrets'' ''count'') ''count encrypted control-plane secrets: '' (length (vt_rows v))) (\<lambda>encryptedCount.
           if 0 < encryptedCount
           then Inl (ErrNew (''control-plane encryption key is missing while '' @ itoa (int encryptedCount) @ '' encrypted secrets exist: '' @ ke_path ke))
           else and_then (key_step ke MakeKeyDir ''create control-plane key directory: '') (\<lambda>_.
                and_then (key_step ke SecureKeyDir ''secure control-plane key directory: '') (\<lambda>_.
                key_step ke DrawKey ''generate control-plane encryption key: '')))"
  note def = create_key_def [of env ke v, folded start_def]
  show ?thesis
  proof (cases start)
    case (Inl e)
    then show ?thesis using assms def by auto
  next
    case (Inr y)
    then have empty: "vt_rows v = []"
      by (auto simp: start_def and_then_Inr_iff attempt_Inr_iff split: if_splits)
    show ?thesis
    proof (cases "ke_raced ke")
      case None
      obtain s f where w: "write_key_file ke = (s, f)" by fastforce
      then show ?thesis using assms def Inr None empty write_key_file_key [of ke]
        by (cases "key_step ke CreateKey ''create control-plane encryption key: ''") auto
    next
      case (Some f)
      then have "u = v\<lparr>vt_file := Some f\<rparr>" "r = map_sum id (\<lambda>_. kf_Bytes f) (key_step ke RereadKey ''read concurrently-created control-plane key: '')"
        using assms def Inr by auto
      then show ?thesis using empty by (cases "key_step ke RereadKey ''read concurrently-created control-plane key: ''") auto
    qed
  qed
qed

lemma encryptionKey_keeps:
  assumes "vault_ok c v" and "encryptionKey env ke v = (r, v')"
  shows "vault_ok c v' \<and> same_store v v' \<and> (\<forall>key. r = Inr key \<longrightarrow> key = file_key v' \<and> usable_file (vt_file v'))"
proof -
  have accepted: "vault_ok c v' \<and> same_store u v' \<and> (\<forall>key. r = Inr key \<longrightarrow> key = file_key v' \<and> usable_file (vt_file v'))"
    if "accept_key ke key u = (r, v')" "vault_ok c u" "file_key u = key" for key u
    using accept_key_cases [OF that(1)] that(2,3)
    by (elim disjE) (auto simp: vault_ok_def same_store_def usable_file_def file_key_def)
  show ?thesis
  proof (cases "vt_key v = []")
    case False
    then show ?thesis using assms by (auto simp: encryptionKey_def same_store_def vault_ok_def)
  next
    case True
    show ?thesis
    proof (cases "vt_file v")
      case (Some f)
      then show ?thesis
        using assms True accepted [of "kf_Bytes f" v]
        by (cases "key_step ke ReadKey ''read control-plane encryption key: ''") (auto simp: encryptionKey_def file_key_def same_store_def)
    next
      case None
      obtain s u where s: "create_key env ke v = (s, u)" by fastforce
      have u: "vault_ok c u" "vt_rows u = vt_rows v" "\<And>key. s = Inr key \<Longrightarrow> file_key u = key"
        using create_key_cases [OF s] assms(1) True
        by (auto simp: vault_ok_def file_key_def)
      have "same_store u v' \<Longrightarrow> same_store v v'" using u(2) None by (simp add: same_store_def usable_file_def)
      then show ?thesis
        using assms(2) True None s u accepted [of _ u]
        by (cases s) (auto simp: encryptionKey_def same_store_def usable_file_def)
    qed
  qed
qed

lemma encryptSecret_keeps:
  assumes "vault_ok c v" and "encryptSecret c env ke name value v = (r, v')"
  shows "vault_ok c v' \<and> same_store v v' \<and>
    (\<forall>nonce text digest. r = Inr (nonce, text, digest) \<longrightarrow> usable_file (vt_file v') \<and>
       text = cf_Seal c (file_key v') nonce name value \<and> digest = secretDigest value)"
proof -
  obtain s u where s: "encryptionKey env ke v = (s, u)" by fastforce
  show ?thesis
    using assms(2) encryptionKey_keeps [OF assms(1) s]
    by (cases s; cases "ke_nonce ke name") (auto simp: encryptSecret_def s)
qed

lemma sealed_row_opens:
  assumes "opens_sealed c" and "text = cf_Seal c key nonce name value" and "digest = secretDigest value"
  shows "opens_row c key name (secret_row_of env (nonce, text, digest)) value"
  using assms by (simp add: opens_row_def secret_row_of_def opens_sealed_def)

section \<open>Transactions on the table\<close>

lemma vault_transaction_Inl: "vault_transaction fence env m d v = (Inl e, d', v') \<Longrightarrow> d' = d \<and> v' = v"
  using writeTransaction_Inl by (fastforce simp: vault_transaction_def split: sum.splits prod.splits)

lemma vault_transaction_Inr:
  assumes "vault_transaction fence env m d v = (Inr u, d', v')"
  obtains rows where "m (d, vt_rows v) = Inr ((), d', rows)" "v' = v\<lparr>vt_rows := rows\<rparr>"
proof -
  from assms obtain rows where tx: "writeTransaction fence env (\<lambda>d. map_sum id (\<lambda>(_, d, rows). (rows, d)) (m (d, vt_rows v))) d = (Inr rows, d')"
    and v': "v' = v\<lparr>vt_rows := rows\<rparr>"
    by (auto simp: vault_transaction_def split: sum.splits prod.splits)
  from writeTransaction_Inr(2) [OF tx] have "m (d, vt_rows v) = Inr ((), d', rows)"
    by (cases "m (d, vt_rows v)") auto
  with v' that show thesis by blast
qed

lemma vault_ok_rows:
  assumes "vault_ok c v" "usable_file (vt_file v)"
    and "\<And>name row. map_of rows name = Some row \<Longrightarrow> \<exists>value. opens_row c (file_key v) name row value"
  shows "vault_ok c (v\<lparr>vt_rows := rows\<rparr>)"
  using assms by (auto simp: vault_ok_def file_key_def)

lemma WriteSecret_keeps:
  assumes "opens_sealed c" and "vault_ok c v" and "WriteSecret c fence env ke name value d v = (r, d', v')"
  shows "vault_ok c v'" and "usable_file (vt_file v) \<Longrightarrow> vt_file v' = vt_file v"
    and "r = Inr () \<Longrightarrow> \<exists>row. vt_rows v' = mput (trim_space name) row (vt_rows v) \<and> opens_row c (file_key v') (trim_space name) row value"
    and "r = Inl e \<Longrightarrow> d' = d \<and> vt_rows v' = vt_rows v"
proof -
  let ?n = "trim_space name"
  have "vault_ok c v' \<and> (usable_file (vt_file v) \<longrightarrow> vt_file v' = vt_file v) \<and>
    (r = Inr () \<longrightarrow> (\<exists>row. vt_rows v' = mput ?n row (vt_rows v) \<and> opens_row c (file_key v') ?n row value)) \<and>
    ((\<exists>e. r = Inl e) \<longrightarrow> d' = d \<and> vt_rows v' = vt_rows v)"
  proof (cases "?n = [] \<or> value = []")
    case True
    then show ?thesis using assms by (auto simp: WriteSecret_def Let_def split: if_splits)
  next
    case False
    obtain s u where e: "encryptSecret c env ke ?n value v = (s, u)" by fastforce
    note k = encryptSecret_keeps [OF assms(2) e]
    show ?thesis
    proof (cases s)
      case (Inl x)
      then show ?thesis using False e k assms(3) by (auto simp: WriteSecret_def same_store_def Let_def)
    next
      case (Inr sealed)
      obtain nonce ct digest where sealed: "sealed = (nonce, ct, digest)" by (metis surj_pair)
      have step: "vault_transaction fence env (upsert_secret env ?n sealed) d u = (r, d', v')"
        using False e Inr assms(3) by (simp add: WriteSecret_def Let_def)
      have row: "opens_row c (file_key u) ?n (secret_row_of env sealed) value"
        using k Inr sealed sealed_row_opens [OF assms(1)] by auto
      show ?thesis
      proof (cases r)
        case (Inl x)
        then have "d' = d \<and> v' = u" using vault_transaction_Inl step by blast
          then show ?thesis using Inl k by (auto simp: same_store_def)
      next
        case (Inr x)
        from vault_transaction_Inr [OF step [unfolded Inr]]
        have v': "v' = u\<lparr>vt_rows := mput ?n (secret_row_of env sealed) (vt_rows u)\<rparr>"
          by (auto simp: upsert_secret_def tx)
        have "vault_ok c v'"
          unfolding v' using k Inr sealed \<open>s = Inr sealed\<close> row
          by (intro vault_ok_rows) (auto simp: vault_ok_def split: if_splits)
        then show ?thesis using Inr k v' row by (auto simp: same_store_def file_key_def)
      qed
    qed
  qed
  then show "vault_ok c v'" and "usable_file (vt_file v) \<Longrightarrow> vt_file v' = vt_file v"
    and "r = Inr () \<Longrightarrow> \<exists>row. vt_rows v' = mput (trim_space name) row (vt_rows v) \<and> opens_row c (file_key v') (trim_space name) row value"
    and "r = Inl e \<Longrightarrow> d' = d \<and> vt_rows v' = vt_rows v" by auto
qed

lemma vault_ok_delete:
  assumes "vault_ok c v"
  shows "vault_ok c (v\<lparr>vt_rows := AList.delete name (vt_rows v)\<rparr>)"
  using assms by (auto simp: vault_ok_def file_key_def delete_conv' split: if_splits)

lemma DeleteSecret_keeps:
  assumes "vault_ok c v" and "DeleteSecret fence env name d v = (r, d', v')"
  shows "vault_ok c v'" and "vt_file v' = vt_file v"
    and "r = Inr () \<Longrightarrow> vt_rows v' = AList.delete (trim_space name) (vt_rows v)" and "r = Inl e \<Longrightarrow> d' = d \<and> v' = v"
proof -
  have step: "vault_transaction fence env (delete_secret env ''delete control-plane secret: '' (trim_space name)) d v = (r, d', v')"
    using assms(2) by (simp add: DeleteSecret_def)
  have "vault_ok c v' \<and> vt_file v' = vt_file v \<and> (r = Inr () \<longrightarrow> vt_rows v' = AList.delete (trim_space name) (vt_rows v)) \<and>
    ((\<exists>e. r = Inl e) \<longrightarrow> d' = d \<and> v' = v)"
  proof (cases r)
    case (Inl x)
    then show ?thesis using vault_transaction_Inl step assms(1) by fastforce
  next
    case (Inr x)
    from vault_transaction_Inr [OF step [unfolded Inr]]
    have "v' = v\<lparr>vt_rows := AList.delete (trim_space name) (vt_rows v)\<rparr>" by (auto simp: delete_secret_def tx)
    then show ?thesis using Inr vault_ok_delete [OF assms(1)] by auto
  qed
  then show "vault_ok c v'" and "vt_file v' = vt_file v"
    and "r = Inr () \<Longrightarrow> vt_rows v' = AList.delete (trim_space name) (vt_rows v)" and "r = Inl e \<Longrightarrow> d' = d \<and> v' = v" by auto
qed

section \<open>Reading\<close>

text \<open>A process that can read the key file, of which the key may be in memory already.\<close>

definition readable :: "env \<Rightarrow> key_env \<Rightarrow> bool" where
  "readable env ke \<longleftrightarrow> calm env \<and> ke_fault ke ReadKey = None \<and> ke_fault ke StatKey = None"

lemma encryptionKey_readable:
  assumes "vault_ok c v" "usable_file (vt_file v)" "readable env ke"
  shows "encryptionKey env ke v = (Inr (file_key v), v\<lparr>vt_key := file_key v\<rparr>)"
  using assms
  by (auto simp: encryptionKey_def accept_key_def key_step_def readable_def vault_ok_def usable_file_def file_key_def
      split: option.splits)

lemma ReadSecret_none:
  "readable env ke \<Longrightarrow> trim_space name \<noteq> [] \<Longrightarrow> map_of (vt_rows v) (trim_space name) = None \<Longrightarrow> ReadSecret c env ke name v = (Inr None, v)"
  by (simp add: ReadSecret_def Let_def readable_def)

lemma ReadSecret_row:
  assumes "vault_ok c v" "readable env ke" "trim_space name \<noteq> []"
    and "map_of (vt_rows v) (trim_space name) = Some row" "opens_row c (file_key v) (trim_space name) row value"
  shows "fst (ReadSecret c env ke name v) = Inr (Some value)"
proof -
  have "usable_file (vt_file v)" using assms(1,4) by (auto simp: vault_ok_def)
  note key = encryptionKey_readable [OF assms(1) this assms(2)]
  show ?thesis using assms(2-5) key by (simp add: ReadSecret_def Let_def readable_def decryptSecret_def opens_row_def)
qed

section \<open>Settings and secrets together\<close>

definition sealed_ok :: "cipher \<Rightarrow> string \<Rightarrow> string \<Rightarrow> string \<times> string \<times> string \<Rightarrow> bool" where
  "sealed_ok c key name sealed \<longleftrightarrow> (\<forall>env. \<exists>value. opens_row c key name (secret_row_of env sealed) value)"

lemma encrypt_values_keeps:
  assumes "opens_sealed c" "vault_ok c v" "encrypt_values c env ke secrets encrypted v = (r, v')"
    and "\<forall>name s. map_of encrypted name = Some s \<longrightarrow> usable_file (vt_file v) \<and> sealed_ok c (file_key v) name s"
  shows "vault_ok c v' \<and> same_store v v' \<and>
    (\<forall>all. r = Inr all \<longrightarrow> (\<forall>name s. map_of all name = Some s \<longrightarrow> usable_file (vt_file v') \<and> sealed_ok c (file_key v') name s) \<and>
       (\<forall>name. map_of encrypted name \<noteq> None \<or> (\<exists>value. (name, Some value) \<in> set secrets) \<longrightarrow> map_of all name \<noteq> None))"
  using assms(2-)
proof (induction secrets arbitrary: encrypted v)
  case Nil
  then show ?case by (auto simp: same_store_def)
next
  case (Cons x secrets)
  obtain name change where x: "x = (name, change)" by (cases x)
  show ?case
  proof (cases change)
    case None
    then have "(n, Some z) \<in> set (x # secrets) \<longleftrightarrow> (n, Some z) \<in> set secrets" for n z using x by simp
    moreover have "encrypt_values c env ke secrets encrypted v = (r, v')" using Cons.prems(2) x None by simp
    ultimately show ?thesis using Cons.IH [OF Cons.prems(1) _ Cons.prems(3)] by blast
  next
    case (Some z)
    show ?thesis
    proof (cases "z = []")
      case True
      then show ?thesis using Cons.prems x Some by (auto simp: same_store_def)
    next
      case False
      obtain s u where e: "encryptSecret c env ke name z v = (s, u)" by fastforce
      note k = encryptSecret_keeps [OF Cons.prems(1) e]
      show ?thesis
      proof (cases s)
        case (Inl y)
        then show ?thesis using Cons.prems x Some False e k by auto
      next
        case (Inr sealed)
        obtain nonce ct digest where sealed: "sealed = (nonce, ct, digest)" by (metis surj_pair)
        have same: "file_key u = file_key v" if "usable_file (vt_file v)" using k that by (simp add: same_store_def file_key_def)
        have ok: "sealed_ok c (file_key u) name sealed"
          using k Inr sealed sealed_row_opens [OF assms(1)] by (auto simp: sealed_ok_def intro!: exI [of _ z])
        have "\<forall>n s. map_of (mput name sealed encrypted) n = Some s \<longrightarrow> usable_file (vt_file u) \<and> sealed_ok c (file_key u) n s"
          using Cons.prems(3) ok same k Inr sealed by (auto split: if_splits)
        moreover have "encrypt_values c env ke secrets (mput name sealed encrypted) u = (r, v')"
          using Cons.prems(2) x Some False e Inr by simp
        ultimately have IH: "vault_ok c v' \<and> same_store u v' \<and>
            (\<forall>all. r = Inr all \<longrightarrow> (\<forall>name s. map_of all name = Some s \<longrightarrow> usable_file (vt_file v') \<and> sealed_ok c (file_key v') name s) \<and>
              (\<forall>n. map_of (mput name sealed encrypted) n \<noteq> None \<or> (\<exists>value. (n, Some value) \<in> set secrets) \<longrightarrow> map_of all n \<noteq> None))"
          using Cons.IH k by blast
        moreover have "map_of (mput name sealed encrypted) n \<noteq> None \<longleftrightarrow> n = name \<or> map_of encrypted n \<noteq> None" for n by (cases sealed) simp
        moreover have "same_store v v'" using IH k by (auto simp: same_store_def)
        ultimately show ?thesis using x by (metis prod.inject set_ConsD)
      qed
    qed
  qed
qed

lemma mapped_sum_Inr: "map_sum id f r = Inr y \<longleftrightarrow> (\<exists>x. r = Inr x \<and> y = f x)"
  by (cases r) auto

lemma ReplaceSettingsAndSecrets_keeps:
  assumes "opens_sealed c" "vault_ok c v" "ReplaceSettingsAndSecrets c fence env ke vals secrets d v = (r, d', v')"
  shows "vault_ok c v'" and "usable_file (vt_file v) \<Longrightarrow> vt_file v' = vt_file v" and "r = Inl e \<Longrightarrow> d' = d \<and> vt_rows v' = vt_rows v"
proof -
  have "vault_ok c v' \<and> (usable_file (vt_file v) \<longrightarrow> vt_file v' = vt_file v) \<and> ((\<exists>e. r = Inl e) \<longrightarrow> d' = d \<and> vt_rows v' = vt_rows v)"
  proof (cases "encode_normal_settings vals ([], [])")
    case (Inl y)
    then show ?thesis using assms(2,3) by (auto simp: ReplaceSettingsAndSecrets_def split: if_splits)
  next
    case (Inr enc)
    obtain keys encoded where enc: "enc = (keys, encoded)" by (cases enc)
    obtain s u where e: "encrypt_values c env ke secrets [] v = (s, u)" by fastforce
    have k: "vault_ok c u \<and> same_store v u \<and>
      (\<forall>all. s = Inr all \<longrightarrow> (\<forall>name s. map_of all name = Some s \<longrightarrow> usable_file (vt_file u) \<and> sealed_ok c (file_key u) name s) \<and>
        (\<forall>name. (\<exists>value. (name, Some value) \<in> set secrets) \<longrightarrow> map_of all name \<noteq> None))"
      using encrypt_values_keeps [OF assms(1,2) e] by simp
    show ?thesis
    proof (cases "(\<exists>e. s = Inl e) \<or> list_ex (\<lambda>(name, _). name = [] \<or> name \<noteq> trim_space name) secrets")
      case True
      then show ?thesis using assms(2,3) Inr enc e k by (auto simp: ReplaceSettingsAndSecrets_def same_store_def split: if_splits)
    next
      case False
      then obtain encrypted where s: "s = Inr encrypted" by (cases s) auto
      let ?m = "\<lambda>view. then_tx (exec env ''settings'' ''clear control-plane settings: '' (\<lambda>(d, rows). (d\<lparr>db_settings := []\<rparr>, rows))) (\<lambda>_.
                    then_tx (\<lambda>(d, rows). map_sum id (\<lambda>d. ((), d, rows)) (insert_settings env (sort keys) encoded d)) (\<lambda>_.
                    each_tx (replace_secret env encrypted) secrets)) view"
      have step: "vault_transaction fence env ?m d u = (r, d', v')"
        using assms(3) Inr enc e s False by (simp add: ReplaceSettingsAndSecrets_def)
      show ?thesis
      proof (cases r)
        case (Inl y)
        then have "d' = d \<and> v' = u" using vault_transaction_Inl step by blast
        then show ?thesis using Inl k by (auto simp: same_store_def)
      next
        case (Inr y)
        from vault_transaction_Inr [OF step [unfolded Inr]] obtain rows
          where run: "?m (d, vt_rows u) = Inr ((), d', rows)" and v': "v' = u\<lparr>vt_rows := rows\<rparr>" by blast
        from run obtain d1 where each: "each_tx (replace_secret env encrypted) secrets (d1, vt_rows u) = Inr ((), d', rows)"
          by (auto simp: tx mapped_sum_Inr split: prod.splits)
        let ?P = "\<lambda>view. (usable_file (vt_file u) \<or> snd view = []) \<and>
          (\<forall>name row. map_of (snd view) name = Some row \<longrightarrow> (\<exists>value. opens_row c (file_key u) name row value))"
        have "?P (d', rows)"
        proof (rule each_tx_inv [OF each, of ?P])
          show "?P (d1, vt_rows u)" using k by (auto simp: vault_ok_def)
        next
          fix x view w view'
          assume x: "x \<in> set secrets" and P: "?P view" and r: "replace_secret env encrypted x view = Inr (w, view')"
          obtain name change where x2: "x = (name, change)" by (cases x)
          show "?P view'"
          proof (cases change)
            case None
            then have "view' = (fst view, AList.delete name (snd view))"
              using r x2 by (auto simp: replace_secret_def delete_secret_def tx split: prod.splits)
            then show ?thesis using P by (auto simp: delete_conv' split: if_splits)
          next
            case (Some z)
            then obtain sealed where sealed: "map_of encrypted name = Some sealed" using k s x x2 by blast
            then have "view' = (fst view, mput name (secret_row_of env sealed) (snd view))"
              using r x2 Some by (auto simp: replace_secret_def upsert_secret_def tx mget_def split: prod.splits)
            moreover have "usable_file (vt_file u)" "sealed_ok c (file_key u) name sealed" using k s sealed by blast+
            ultimately show ?thesis using P by (auto simp: sealed_ok_def split: if_splits)
          qed
        qed
        then have "vault_ok c v'" using k unfolding v' by (auto simp: vault_ok_def file_key_def)
        then show ?thesis using Inr v' k by (auto simp: same_store_def)
      qed
    qed
  qed
  then show "vault_ok c v'" and "usable_file (vt_file v) \<Longrightarrow> vt_file v' = vt_file v" and "r = Inl e \<Longrightarrow> d' = d \<and> vt_rows v' = vt_rows v"
    by auto
qed


section \<open>The life of the secrets\<close>

lemma import_secrets_keeps:
  assumes "opens_sealed c" "vault_ok c v" "import_secrets c fence env ke legacy names d v = (r, d', v')"
  shows "vault_ok c v' \<and> (usable_file (vt_file v) \<longrightarrow> vt_file v' = vt_file v)"
  using assms(2,3)
proof (induction names arbitrary: d v)
  case (Cons name names)
  define found where "found = and_then (attempt env (SqlRead ''encrypted_secrets'' name) (''check legacy control-plane secret '' @ name @ '': '') (map_of (vt_rows v) name)) (\<lambda>row.
           if row \<noteq> None then Inr None
           else map_sum (wrapf (''read legacy control-plane secret '' @ name @ '': '')) (map_option trim_space) (legacy (mget [] legacySecretFiles name)))"
  note step = Cons.prems(2) [unfolded import_secrets.simps found_def [symmetric]]
  show ?case
  proof (cases found)
    case (Inl e)
    then show ?thesis using step Cons.prems(1) by simp
  next
    case (Inr f)
    show ?thesis
    proof (cases "f = None \<or> f = Some []")
      case True
      then show ?thesis using step Inr Cons.IH [OF Cons.prems(1)] by simp
    next
      case False
      obtain s e u where w: "WriteSecret c fence env ke name (the f) d v = (s, e, u)" by (metis prod_cases3)
      note k = WriteSecret_keeps(1,2) [OF assms(1) Cons.prems(1) w]
      show ?thesis
        using step Inr False w k Cons.IH [of u] by (cases s) auto
    qed
  qed
qed simp

text \<open>
  A step of any process: an operation in any environment, or the start of a process, which has not read the key yet.
\<close>

inductive vault_step :: "cipher \<Rightarrow> vault \<Rightarrow> vault \<Rightarrow> bool" for c where
  Reading: "ReadSecret c env ke name v = (r, v') \<Longrightarrow> vault_step c v v'"
| Writing: "WriteSecret c fence env ke name value d v = (r, d', v') \<Longrightarrow> vault_step c v v'"
| Deleting: "DeleteSecret fence env name d v = (r, d', v') \<Longrightarrow> vault_step c v v'"
| Replacing: "ReplaceSettingsAndSecrets c fence env ke vals secrets d v = (r, d', v') \<Longrightarrow> vault_step c v v'"
| Importing: "importLegacySecrets c fence env ke legacy d v = (r, d', v') \<Longrightarrow> vault_step c v v'"
| Starting: "vault_step c v (v\<lparr>vt_key := []\<rparr>)"

lemma ReadSecret_keeps:
  assumes "vault_ok c v" "ReadSecret c env ke name v = (r, v')"
  shows "vault_ok c v' \<and> same_store v v'"
proof -
  have "v' = v \<or> (\<exists>s. encryptionKey env ke v = (s, v'))"
    using assms(2)
    by (auto simp: ReadSecret_def Let_def decryptSecret_def split: if_splits sum.splits option.splits prod.splits)
  then show ?thesis using assms(1) encryptionKey_keeps by (fastforce simp: same_store_def)
qed

lemma vault_step_keeps:
  assumes "vault_step c v v'" "opens_sealed c" "vault_ok c v"
  shows "vault_ok c v' \<and> (usable_file (vt_file v) \<longrightarrow> vt_file v' = vt_file v)"
  using assms
proof (cases rule: vault_step.cases)
  case (Reading env ke name r)
  then show ?thesis using ReadSecret_keeps [OF assms(3)] by (auto simp: same_store_def)
next
  case (Writing fence env ke name z d r d')
  then show ?thesis using WriteSecret_keeps(1,2) [OF assms(2,3)] by blast
next
  case (Deleting fence env name d r d')
  then show ?thesis using DeleteSecret_keeps(1,2) [OF assms(3)] by blast
next
  case (Replacing fence env ke vals secrets d r d')
  then show ?thesis using ReplaceSettingsAndSecrets_keeps(1,2) [OF assms(2,3)] by blast
next
  case (Importing fence env ke legacy d r d')
  then show ?thesis using import_secrets_keeps [OF assms(2,3)] by (auto simp: importLegacySecrets_def)
next
  case Starting
  then show ?thesis using assms(3) by (auto simp: vault_ok_def file_key_def)
qed

lemma vault_run_keeps:
  assumes "(vault_step c)\<^sup>*\<^sup>* v v'" "opens_sealed c" "vault_ok c v"
  shows "vault_ok c v' \<and> (usable_file (vt_file v) \<longrightarrow> vt_file v' = vt_file v)"
  using assms by (induction rule: rtranclp_induct) (use vault_step_keeps in fastforce)+

definition empty_vault :: vault where
  "empty_vault = \<lparr>vt_key = [], vt_file = None, vt_rows = []\<rparr>"

lemma vault_ok_empty [simp]: "vault_ok c empty_vault"
  by (simp add: vault_ok_def empty_vault_def)

text \<open>
  C24: No secret is ever lost to a change of the key. Take any run of the vault from the empty one: processes start,
  read, write, delete, replace and import secrets, and any call on the key file or the database may fail, the creation
  of the key half-way included. Every secret in the table can then be read by a fresh process that can read the key
  file, and once a usable key file exists no later operation replaces it.
\<close>

theorem stored_secrets_stay_readable:
  assumes "opens_sealed c" and "(vault_step c)\<^sup>*\<^sup>* empty_vault v"
  shows "(\<forall>name env ke. trim_space name \<noteq> [] \<longrightarrow> map_of (vt_rows v) (trim_space name) \<noteq> None \<longrightarrow> readable env ke \<longrightarrow>
      (\<exists>secret. fst (ReadSecret c env ke name (v\<lparr>vt_key := []\<rparr>)) = Inr (Some secret))) \<and>
    (\<forall>v'. usable_file (vt_file v) \<longrightarrow> (vault_step c)\<^sup>*\<^sup>* v v' \<longrightarrow> vt_file v' = vt_file v)"
proof (intro conjI allI impI)
  have ok: "vault_ok c v" using vault_run_keeps [OF assms(2,1)] by simp
  show "vt_file v' = vt_file v" if "usable_file (vt_file v)" "(vault_step c)\<^sup>*\<^sup>* v v'" for v'
    using vault_run_keeps [OF that(2) assms(1) ok] that(1) by blast
  fix name env ke
  assume n: "trim_space name \<noteq> []" and row: "map_of (vt_rows v) (trim_space name) \<noteq> None" and e: "readable env ke"
  have "vault_ok c (v\<lparr>vt_key := []\<rparr>)" using vault_step_keeps [OF Starting assms(1) ok] by blast
  moreover obtain r z where "map_of (vt_rows v) (trim_space name) = Some r" "opens_row c (file_key v) (trim_space name) r z"
    using row ok unfolding vault_ok_def by blast
  ultimately show "\<exists>secret. fst (ReadSecret c env ke name (v\<lparr>vt_key := []\<rparr>)) = Inr (Some secret)"
    using ReadSecret_row [OF _ e n] by (auto simp: file_key_def)
qed

text \<open>
  C25: A written secret is what is read back. After a successful \<open>WriteSecret\<close> in any vault that a run from the empty
  one can reach, a fresh process reads exactly that text under the name, with or without surrounding space, and reads
  every other name as before; the control plane's other tables are as they were.
\<close>

theorem written_secret_is_read_back:
  assumes "opens_sealed c" and "(vault_step c)\<^sup>*\<^sup>* empty_vault v"
    and "WriteSecret c fence env ke name secret d v = (Inr (), d', v')" and "readable env2 ke2"
  shows "fst (ReadSecret c env2 ke2 name (v'\<lparr>vt_key := []\<rparr>)) = Inr (Some secret) \<and> d' = d \<and>
    (\<forall>other. trim_space other \<noteq> trim_space name \<longrightarrow>
       fst (ReadSecret c env2 ke2 other (v'\<lparr>vt_key := []\<rparr>)) = fst (ReadSecret c env2 ke2 other (v\<lparr>vt_key := []\<rparr>)))"
proof -
  let ?n = "trim_space name"
  have ok: "vault_ok c v" using vault_run_keeps [OF assms(2,1)] by simp
  note kept = WriteSecret_keeps [OF assms(1) ok assms(3)]
  from kept(3) obtain row where rows: "vt_rows v' = mput ?n row (vt_rows v)" and row: "opens_row c (file_key v') ?n row secret" by blast
  have n: "?n \<noteq> []" using assms(3) by (auto simp: WriteSecret_def Let_def)
  have fresh: "vault_ok c (v\<lparr>vt_key := []\<rparr>)" "vault_ok c (v'\<lparr>vt_key := []\<rparr>)"
    using vault_step_keeps [OF Starting assms(1)] ok kept(1) by blast+
  have "fst (ReadSecret c env2 ke2 name (v'\<lparr>vt_key := []\<rparr>)) = Inr (Some secret)"
    using ReadSecret_row [OF fresh(2) assms(4) n, of row secret] rows row by (simp add: file_key_def)
  moreover have "d' = d" using assms(3)
    by (auto simp: WriteSecret_def Let_def upsert_secret_def tx elim!: vault_transaction_Inr split: if_splits sum.splits prod.splits)
  moreover have "fst (ReadSecret c env2 ke2 other (v'\<lparr>vt_key := []\<rparr>)) = fst (ReadSecret c env2 ke2 other (v\<lparr>vt_key := []\<rparr>))"
    if "trim_space other \<noteq> ?n" for other
  proof (cases "trim_space other = [] \<or> map_of (vt_rows v) (trim_space other) = None")
    case True
    show ?thesis
    proof (cases "trim_space other = []")
      case True
      then show ?thesis by (simp add: ReadSecret_def)
    next
      case False
      then show ?thesis using True that rows assms(4) by (simp add: ReadSecret_none)
    qed
  next
    case False
    then obtain r z where r: "map_of (vt_rows v) (trim_space other) = Some r" "opens_row c (file_key v) (trim_space other) r z"
      using ok unfolding vault_ok_def by blast
    then have "vt_file v' = vt_file v" using ok kept(2) by (auto simp: vault_ok_def)
    then show ?thesis
      using ReadSecret_row [OF fresh(1) assms(4), of other r z] ReadSecret_row [OF fresh(2) assms(4), of other r z] False r rows that
      by (simp add: file_key_def)
  qed
  ultimately show ?thesis by blast
qed


section \<open>An example\<close>

text \<open>A cipher that keeps the text; a process without faults; a first secret.\<close>

definition ex_cipher :: cipher where
  "ex_cipher = \<lparr>cf_Seal = (\<lambda>key nonce name value. value), cf_Open = (\<lambda>key nonce name text. Inr text)\<rparr>"

definition ex_key_env :: key_env where
  "ex_key_env = \<lparr>ke_fault = (\<lambda>_. None), ke_path = ''key'', ke_drawn = replicate 32 (CHR ''k''), ke_partial = [], ke_raced = None,
     ke_nonce = (\<lambda>_. Inr (replicate 12 (CHR ''n'')))\<rparr>"

definition ex_vault :: vault where
  "ex_vault = \<lparr>vt_key = replicate 32 (CHR ''k''), vt_file = Some \<lparr>kf_Bytes = replicate 32 (CHR ''k''), kf_Private = True\<rparr>,
     vt_rows = [(''proxy'', \<lparr>se_Nonce = replicate 12 (CHR ''n''), se_Ciphertext = ''url'', se_Digest = secretDigest ''url'', se_UpdatedAt = 9\<rparr>)]\<rparr>"

lemma ex_calm [simp]: "calm (env_at 9 [])" "readable (env_at 9 []) ex_key_env"
  by (simp_all add: calm_def env_at_def readable_def ex_key_env_def)

lemma ex_write: "WriteSecret ex_cipher [] (env_at 9 []) ex_key_env ''proxy'' ''url'' empty_db empty_vault = (Inr (), empty_db, ex_vault)"
  apply (simp add: WriteSecret_def encryptSecret_def encryptionKey_def create_key_def empty_vault_def key_step_def ex_key_env_def
      write_key_file_def accept_key_def Let_def)
  apply (simp add: vault_transaction_def upsert_secret_def writeTransaction_def exclusive_def run_transaction_def secret_row_of_def)
  apply (simp add: env_at_def ex_cipher_def ex_vault_def unix_of_def trim_space_def trim_left_def trim_right_def space1_def space2_def space3_def second_def)
  done

lemma ex_opens: "opens_sealed ex_cipher"
  by (simp add: opens_sealed_def ex_cipher_def)

lemma ex_stored_run: "(vault_step ex_cipher)\<^sup>*\<^sup>* empty_vault ex_vault"
  using Writing [OF ex_write] by (rule r_into_rtranclp)

lemma ex_name: "trim_space ''proxy'' = ''proxy''"
  by (simp add: trim_space_def trim_left_def trim_right_def space1_def space2_def space3_def)

theorem stored_secrets_stay_readable_witness:
  "\<exists>secret. fst (ReadSecret ex_cipher (env_at 9 []) ex_key_env ''proxy'' (ex_vault\<lparr>vt_key := []\<rparr>)) = Inr (Some secret)"
  using stored_secrets_stay_readable [OF ex_opens ex_stored_run] by (simp add: ex_name ex_vault_def)

theorem written_secret_is_read_back_witness:
  "fst (ReadSecret ex_cipher (env_at 9 []) ex_key_env ''proxy'' (ex_vault\<lparr>vt_key := []\<rparr>)) = Inr (Some ''url'')"
  using written_secret_is_read_back [OF ex_opens rtranclp.rtrancl_refl ex_write ex_calm(2)] by blast

end
