(* ===== verification/Lifecycle_Journal.thy ===== *)
theory Lifecycle_Journal
  imports Account_Lifecycle Account_States Control_Settings Failover_Service
begin

text \<open>
  The account lifecycle manager (\<open>internal/accountlifecycle\<close>): its interfaces, as records of operations on an
  abstract world \<open>'w\<close>, and the journal of the operation under way (\<open>journal.go\<close>). Third-party and library functions
  are fields of the manager: the parsers of UUIDs, mail addresses and URLs, and the source of fresh UUIDs. The lock of
  the manager serialises its operations; the time limits of the contexts are part of the operations' failures.
\<close>

section \<open>Interfaces\<close>

text \<open>\<open>Store\<close>; the document of a runtime state is its JSON.\<close>

record 'w lifecycle_store =
  ls_ReadAccounts :: "('w, account list) oper"
  ls_ReadSettings :: "('w, goany gomap) oper"
  ls_ReadSecret :: "string \<Rightarrow> ('w, string option) oper"
  ls_WriteSecret :: "string \<Rightarrow> string \<Rightarrow> ('w, unit) oper"
  ls_DeleteSecret :: "string \<Rightarrow> ('w, unit) oper"
  ls_ReadAccountLifecycle :: "string \<Rightarrow> ('w, stored_account \<times> key_row list) oper"
  ls_ApplyAccountCreation :: "account \<Rightarrow> ('w, account_creation) oper"
  ls_RestoreAccountCreation :: "account_creation \<Rightarrow> ('w, unit) oper"
  ls_ApplyAccountUpdate :: "update_request \<Rightarrow> ('w, account_update) oper"
  ls_RestoreAccountUpdate :: "account_update \<Rightarrow> ('w, unit) oper"
  ls_ApplyAccountDeletion :: "string \<Rightarrow> string \<Rightarrow> bool \<Rightarrow> ('w, account_deletion) oper"
  ls_RestoreAccountDeletion :: "account_deletion \<Rightarrow> ('w, unit) oper"
  ls_ReadRuntimeState :: "string \<Rightarrow> ('w, json option) oper"
  ls_WriteRuntimeState :: "string \<Rightarrow> goany \<Rightarrow> ('w, unit) oper"
  ls_DeleteRuntimeState :: "string \<Rightarrow> ('w, unit) oper"
  ls_ReadRoutes :: "('w, string gomap) oper"
  ls_ApplyRoutesExpected :: "string gomap \<Rightarrow> string gomap \<Rightarrow> ('w, route_update) oper"

text \<open>\<open>FileTransition\<close> and \<open>RuntimeTransition\<close>: prepared changes that can be committed or rolled back.\<close>

record 'w file_transition =
  ft_BackupPath :: string
  ft_Commit :: "('w, unit) oper"
  ft_Rollback :: "('w, unit) oper"

record 'w runtime_transition =
  tn_Commit :: "('w, unit) oper"
  tn_Rollback :: "('w, unit) oper"

record backup_data =
  bd_Account :: account
  bd_Keys :: "key_row list"

record operation =
  op_ID :: string
  op_Kind :: string
  op_Phase :: string
  op_AccountID :: string
  op_NewAccountID :: string
  op_Backup :: string
  op_EvacuatedRoutes :: "string gomap"
  op_StartedAt :: int
  op_UpdatedAt :: int

record 'w account_files =
  fl_PrepareCreate :: "string \<Rightarrow> string \<Rightarrow> ('w, 'w file_transition) oper"
  fl_PrepareUpdate :: "string \<Rightarrow> string \<Rightarrow> string \<Rightarrow> backup_data \<Rightarrow> ('w, 'w file_transition) oper"
  fl_PrepareDelete :: "string \<Rightarrow> string \<Rightarrow> backup_data \<Rightarrow> ('w, 'w file_transition) oper"
  fl_PrepareAuthClear :: "string \<Rightarrow> string \<Rightarrow> backup_data \<Rightarrow> ('w, 'w file_transition) oper"
  fl_Recover :: "operation \<Rightarrow> account option \<Rightarrow> ('w, unit) oper"

text \<open>A failed preparation of an update may still return a transition, for the rollback.\<close>

record 'w account_runtime =
  cr_ReservedHostPorts :: "('w, int list) oper"
  cr_PrepareCreate :: "account \<Rightarrow> ('w, 'w runtime_transition) oper"
  cr_PrepareUpdate :: "account \<Rightarrow> account \<Rightarrow> 'w \<Rightarrow> (gerr \<times> 'w runtime_transition option + 'w runtime_transition) \<times> 'w"
  cr_PrepareDelete :: "account \<Rightarrow> ('w, 'w runtime_transition) oper"
  cr_RestartAccount :: "string \<Rightarrow> ('w, unit) oper"
  cr_ReconcileAccount :: "string \<Rightarrow> account option \<Rightarrow> ('w, unit) oper"

record proxy_url =
  pu_Scheme :: string
  pu_Hostname :: string
  pu_Port :: string
  pu_Path :: string
  pu_RawQuery :: string
  pu_Fragment :: string

record 'w manager =
  mg_Store :: "'w lifecycle_store"
  mg_Files :: "'w account_files"
  mg_Projection :: "('w, unit) oper"
  mg_Snapshots :: "('w, string) oper"
  mg_Runtime :: "'w account_runtime"
  mg_Now :: "'w \<Rightarrow> int \<times> 'w"
  mg_Drainer :: "(string \<Rightarrow> ('w, unit) oper) option"
  mg_States :: "('w, account_state gomap) oper option"
  mg_NewUUID :: "'w \<Rightarrow> string \<times> 'w"
  mg_ParseUUID :: "string \<Rightarrow> gerr option"
  mg_ParseAddress :: "string \<Rightarrow> string option"
  mg_ParseURL :: "string \<Rightarrow> proxy_url option"

section \<open>Errors\<close>

definition ErrLifecycleRecoveryRequired :: gerr where
  "ErrLifecycleRecoveryRequired = Sentinel ''account lifecycle recovery is required''"

text \<open>
  The error of an operation: an ordinary one, one after compensation (its cause and what failed while compensating), or
  one joined with the failure to remove the journal.
\<close>

datatype failure = Plain gerr | Compensated gerr "gerr option" | Unfinished "failure option" gerr

definition newCompensatedError :: "gerr \<Rightarrow> gerr option list \<Rightarrow> failure" where
  "newCompensatedError cause recoveryErrors = Compensated cause (errors_join recoveryErrors)"

section \<open>The journal\<close>

abbreviation lifecycleJournalStateName :: string where "lifecycleJournalStateName \<equiv> ''account_lifecycle_operation''"

abbreviation operationCreate :: string where "operationCreate \<equiv> ''create''"
abbreviation operationUpdate :: string where "operationUpdate \<equiv> ''update''"
abbreviation operationDelete :: string where "operationDelete \<equiv> ''delete''"
abbreviation operationClearAuth :: string where "operationClearAuth \<equiv> ''clear_auth''"
abbreviation operationPolicy :: string where "operationPolicy \<equiv> ''policy''"

abbreviation phaseAccepted :: string where "phaseAccepted \<equiv> ''accepted''"
abbreviation phaseRoutesPrepared :: string where "phaseRoutesPrepared \<equiv> ''routes_prepared''"
abbreviation phaseRoutesEvacuated :: string where "phaseRoutesEvacuated \<equiv> ''routes_evacuated''"
abbreviation phaseFilesPrepared :: string where "phaseFilesPrepared \<equiv> ''files_prepared''"
abbreviation phaseControlApplied :: string where "phaseControlApplied \<equiv> ''control_applied''"
abbreviation phaseProjectionRendered :: string where "phaseProjectionRendered \<equiv> ''projection_rendered''"
abbreviation phaseRuntimePrepared :: string where "phaseRuntimePrepared \<equiv> ''runtime_prepared''"
abbreviation phaseSnapshotActivated :: string where "phaseSnapshotActivated \<equiv> ''snapshot_activated''"

definition lifecycle_phases :: "string list" where
  "lifecycle_phases = [phaseAccepted, phaseRoutesPrepared, phaseRoutesEvacuated, phaseFilesPrepared, phaseControlApplied,
     phaseProjectionRendered, phaseRuntimePrepared, phaseSnapshotActivated]"

definition zero_operation :: operation where
  "zero_operation = \<lparr>op_ID = [], op_Kind = [], op_Phase = [], op_AccountID = [], op_NewAccountID = [], op_Backup = [],
     op_EvacuatedRoutes = [], op_StartedAt = 0, op_UpdatedAt = 0\<rparr>"

text \<open>The JSON form by the struct tags; a map is written in the order of its keys.\<close>

definition operation_json :: "operation \<Rightarrow> goany" where
  "operation_json o' = AObject (
     [(''id'', AString (op_ID o')), (''kind'', AString (op_Kind o')), (''phase'', AString (op_Phase o')),
      (''account_id'', AString (op_AccountID o'))] @
     (if op_NewAccountID o' = [] then [] else [(''new_account_id'', AString (op_NewAccountID o'))]) @
     (if op_Backup o' = [] then [] else [(''backup'', AString (op_Backup o'))]) @
     (if op_EvacuatedRoutes o' = [] then [] else [(''evacuated_routes'', enc_map AString (sort_key fst (op_EvacuatedRoutes o')))]) @
     [(''started_at'', AInt64 (op_StartedAt o')), (''updated_at'', AInt64 (op_UpdatedAt o'))])"

definition operation_of_object :: "goany gomap \<Rightarrow> operation option" where
  "operation_of_object m =
     (case (dec_string m ''id'', dec_string m ''kind'', dec_string m ''phase'', dec_string m ''account_id'',
            dec_string m ''new_account_id'', dec_string m ''backup'', dec_map dec_string_of m ''evacuated_routes'',
            dec_int m ''started_at'', dec_int m ''updated_at'') of
        (Some i, Some k, Some p, Some a, Some n, Some b, Some r, Some s, Some u) \<Rightarrow>
          Some \<lparr>op_ID = i, op_Kind = k, op_Phase = p, op_AccountID = a, op_NewAccountID = n, op_Backup = b,
                op_EvacuatedRoutes = r, op_StartedAt = s, op_UpdatedAt = u\<rparr>
      | _ \<Rightarrow> None)"

definition read_journal :: "'w manager \<Rightarrow> ('w, operation option) oper" where
  "read_journal m = and_do (ls_ReadRuntimeState (mg_Store m) lifecycleJournalStateName) (\<lambda>found w.
     ((case found of None \<Rightarrow> Inr None
       | Some doc \<Rightarrow> map_sum (wrapf (''decode control-plane runtime state '' @ lifecycleJournalStateName @ '': '')) Some
                      (dec_document zero_operation operation_of_object doc)), w))"

subsection \<open>Validity\<close>

definition kind_error :: "operation \<Rightarrow> gerr option" where
  "kind_error o' =
     (if op_Kind o' \<in> {operationCreate, operationDelete, operationClearAuth, operationPolicy}
      then if op_NewAccountID o' \<noteq> [] then Some (ErrNew ''unexpected new account ID in lifecycle operation'') else None
      else if op_Kind o' = operationUpdate
      then (case NormalizeAccountID (op_NewAccountID o') of Inl e \<Rightarrow> Some e | Inr _ \<Rightarrow> None)
      else Some (ErrNew (''unknown account lifecycle operation kind '' @ go_quote (op_Kind o'))))"

fun evacuated_error :: "string gomap \<Rightarrow> gerr option" where
  "evacuated_error [] = None"
| "evacuated_error ((user, target) # routes) =
     (if norm_name user \<noteq> user \<or> CHR ''@'' \<notin> set user then Some (ErrNew (''invalid evacuated route user '' @ go_quote user))
      else case NormalizeAccountID target of Inl e \<Rightarrow> Some e | Inr _ \<Rightarrow> evacuated_error routes)"

definition validateOperation :: "(string \<Rightarrow> gerr option) \<Rightarrow> operation \<Rightarrow> gerr option" where
  "validateOperation parse_uuid o' =
     (case parse_uuid (op_ID o') of Some e \<Rightarrow> Some (wrapf ''invalid account lifecycle operation ID: '' e) | None \<Rightarrow>
     (case NormalizeAccountID (op_AccountID o') of Inl e \<Rightarrow> Some e | Inr _ \<Rightarrow>
     (case kind_error o' of Some e \<Rightarrow> Some e | None \<Rightarrow>
      if op_Phase o' \<notin> set lifecycle_phases then Some (ErrNew (''unknown account lifecycle operation phase '' @ go_quote (op_Phase o')))
      else if op_StartedAt o' \<le> 0 \<or> op_UpdatedAt o' < op_StartedAt o'
      then Some (ErrNew ''invalid account lifecycle operation timestamps'')
      else if 10000 < length (op_EvacuatedRoutes o') then Some (ErrNew ''account lifecycle evacuation journal is too large'')
      else evacuated_error (op_EvacuatedRoutes o'))))"

subsection \<open>Its steps\<close>

text \<open>\<open>Unix()\<close> is an \<open>int64\<close>.\<close>

definition write_journal :: "'w manager \<Rightarrow> string \<Rightarrow> operation \<Rightarrow> ('w, operation) oper" where
  "write_journal m text o' w =
     (case validateOperation (mg_ParseUUID m) o' of
        Some e \<Rightarrow> (Inl e, w)
      | None \<Rightarrow> and_do (wrap_do text (ls_WriteRuntimeState (mg_Store m) lifecycleJournalStateName (operation_json o')))
                 (\<lambda>_. ok_do o') w)"

definition beginOperation :: "'w manager \<Rightarrow> string \<Rightarrow> string \<Rightarrow> string \<Rightarrow> ('w, operation) oper" where
  "beginOperation m kind accountID newAccountID =
     and_do (wrap_do ''read account lifecycle journal: '' (read_journal m)) (\<lambda>existing w.
       case existing of
         Some o' \<Rightarrow> (Inl (ErrWrap [] ErrLifecycleRecoveryRequired
                       ('': operation '' @ op_ID o' @ '' is still at phase '' @ op_Phase o')), w)
       | None \<Rightarrow>
           (case mg_Now m w of (now, w) \<Rightarrow>
           (case mg_NewUUID m w of (uuid, w) \<Rightarrow>
              write_journal m ''start account lifecycle journal: ''
                \<lparr>op_ID = uuid, op_Kind = kind, op_Phase = phaseAccepted, op_AccountID = accountID,
                 op_NewAccountID = newAccountID, op_Backup = [], op_EvacuatedRoutes = [],
                 op_StartedAt = wrap64 (unix_of now), op_UpdatedAt = wrap64 (unix_of now)\<rparr> w)))"

definition advanceOperation :: "'w manager \<Rightarrow> operation \<Rightarrow> string \<Rightarrow> string \<Rightarrow> ('w, operation) oper" where
  "advanceOperation m o' phase backup w =
     (case mg_Now m w of (now, w) \<Rightarrow>
        write_journal m (''advance account lifecycle journal to '' @ phase @ '': '')
          (o'\<lparr>op_Phase := phase, op_Backup := (if trim_space backup = [] then op_Backup o' else trim_space backup),
             op_UpdatedAt := wrap64 (unix_of now)\<rparr>) w)"

definition finishOperation :: "'w manager \<Rightarrow> operation \<Rightarrow> ('w, unit) oper" where
  "finishOperation m o' =
     wrap_do (''finish account lifecycle journal '' @ op_ID o' @ '': '')
       (ls_DeleteRuntimeState (mg_Store m) lifecycleJournalStateName)"

text \<open>
  The result of an operation, if it has one, and its error, if it has one. The journal is kept when the error is not a
  complete compensation.
\<close>

type_synonym 'a outcome = "'a option \<times> failure option"

definition keeps_journal :: "failure \<Rightarrow> bool" where
  "keeps_journal f \<longleftrightarrow> (case f of Compensated _ None \<Rightarrow> False | _ \<Rightarrow> True)"

definition finalizeOperation :: "'w manager \<Rightarrow> operation \<Rightarrow> (failure + 'a) \<times> 'w \<Rightarrow> 'a outcome \<times> 'w" where
  "finalizeOperation m o' returned =
     (case returned of
        (Inl f, w) \<Rightarrow>
          if keeps_journal f then ((None, Some f), w)
          else (case finishOperation m o' w of
                  (Inl e, w) \<Rightarrow> ((None, Some (Unfinished (Some f) e)), w)
                | (Inr _, w) \<Rightarrow> ((None, Some f), w))
      | (Inr x, w) \<Rightarrow>
          (case finishOperation m o' w of
             (Inl e, w) \<Rightarrow> ((Some x, Some (Unfinished None e)), w)
           | (Inr _, w) \<Rightarrow> ((Some x, None), w)))"

end
