(* ===== verification/Lifecycle_Routes.thy ===== *)
theory Lifecycle_Routes
  imports Lifecycle_Journal
begin

text \<open>
  The temporary evacuation of an account's users during maintenance (\<open>internal/accountlifecycle/routes.go\<close>): the choice
  of a fallback account, the move of the routes with the wait until the requests under way have ended, and the way back.
\<close>

definition ErrRouteEvacuationUnavailable :: gerr where
  "ErrRouteEvacuationUnavailable = Sentinel ''account route evacuation is unavailable''"
definition ErrAccountDrainTimeout :: gerr where
  "ErrAccountDrainTimeout = Sentinel ''account in-flight requests did not drain''"

section \<open>The fallback account\<close>

text \<open>A missing account state is the zero state, which is not eligible.\<close>

definition fallback_candidate :: "string \<Rightarrow> account_state gomap \<Rightarrow> account \<Rightarrow> bool" where
  "fallback_candidate accountID states a \<longleftrightarrow>
     ac_ID a \<noteq> accountID \<and> ac_GroupEnabled a \<and>
     (let state = mget zero_account_state states (ac_ID a) in as_Eligible state \<and> f_lt (Fin 0) (as_Headroom state))"

definition default_first :: "account \<Rightarrow> account \<Rightarrow> bool" where
  "default_first l r = (if ac_DefaultGroup l \<noteq> ac_DefaultGroup r then ac_DefaultGroup l else ac_ID l < ac_ID r)"

definition fallback_of :: "string \<Rightarrow> string \<Rightarrow> account list \<Rightarrow> account_state gomap \<Rightarrow> string option" where
  "fallback_of accountID requested accounts states =
     map_option ac_ID (find (\<lambda>c. requested = [] \<or> requested = ac_ID c)
       (sort_slice default_first (filter (fallback_candidate accountID states) accounts)))"

definition selectEligibleFallback :: "'w manager \<Rightarrow> string \<Rightarrow> string \<Rightarrow> ('w, string) oper" where
  "selectEligibleFallback m accountID requestedFallback w =
     (case mg_States m of None \<Rightarrow> (Inl ErrRouteEvacuationUnavailable, w)
      | Some read_states \<Rightarrow>
          and_do (wrap_do ''read fallback accounts for maintenance evacuation: '' (ls_ReadAccounts (mg_Store m))) (\<lambda>accounts.
          and_do (wrap_do ''read fallback account state for maintenance evacuation: '' read_states) (\<lambda>states w.
            case fallback_of accountID (trim_space requestedFallback) accounts states of
              Some fallback \<Rightarrow> (Inr fallback, w)
            | None \<Rightarrow> (Inl (ErrWrap [] ErrAccountDeleteNeedsFallback
                        ('': no enabled and eligible fallback exists for '' @ accountID)), w))) w)"

section \<open>The evacuation\<close>

record route_transition =
  tr_source :: string
  tr_fallback :: string
  tr_assignments :: "string gomap"
  tr_expected :: "string gomap"

definition no_evacuation :: "string \<Rightarrow> route_transition" where
  "no_evacuation accountID = \<lparr>tr_source = accountID, tr_fallback = [], tr_assignments = [], tr_expected = []\<rparr>"

definition planRouteEvacuation :: "'w manager \<Rightarrow> string \<Rightarrow> string \<Rightarrow> ('w, route_transition) oper" where
  "planRouteEvacuation m accountID requestedFallback =
     and_do (wrap_do ''read account routes for maintenance evacuation: '' (ls_ReadRoutes (mg_Store m))) (\<lambda>routes.
     let users = sort (map fst (filter (\<lambda>(user, account). account = accountID) routes))
     in if users = [] then ok_do (no_evacuation accountID)
        else and_do (selectEligibleFallback m accountID requestedFallback) (\<lambda>fallback.
             ok_do \<lparr>tr_source = accountID, tr_fallback = fallback, tr_assignments = map (\<lambda>u. (u, fallback)) users,
                    tr_expected = map (\<lambda>u. (u, accountID)) users\<rparr>))"

abbreviation transition_empty :: "route_transition \<Rightarrow> bool" where
  "transition_empty t \<equiv> tr_assignments t = []"

text \<open>The routes to write back: \<open>expected\<close> is where each user is now, which the maintenance must know.\<close>

fun routes_back ::
  "(string \<Rightarrow> gerr) \<Rightarrow> string set \<Rightarrow> string gomap \<Rightarrow> string \<Rightarrow> string gomap \<Rightarrow> string gomap \<times> string gomap \<Rightarrow> gerr + string gomap \<times> string gomap" where
  "routes_back conflict known routes target [] acc = Inr acc"
| "routes_back conflict known routes target ((user, fallback) # moved) (assignments, expected) =
     (let current = mget [] routes user
      in if current = target then routes_back conflict known routes target moved (assignments, expected)
         else if current \<noteq> fallback \<and> current \<notin> known then Inl (conflict user)
         else routes_back conflict known routes target moved (assignments @ [(user, target)], expected @ [(user, current)]))"

definition restoreTo :: "'w manager \<Rightarrow> route_transition \<Rightarrow> string \<Rightarrow> ('w, unit) oper" where
  "restoreTo m t rawTarget w =
     (let target = trim_space rawTarget
      in if transition_empty t then (Inr (), w)
         else if target = [] then (Inl (ErrNew ''route restoration target is required''), w)
         else and_do (ls_ReadRoutes (mg_Store m)) (\<lambda>routes w.
                case routes_back (\<lambda>user. ErrWrap [] ErrRouteConflict ('': route for '' @ user @ '' changed to '' @
                       mget [] routes user @ '' during account maintenance'')) {tr_source t} routes target (tr_assignments t) ([], []) of
                  Inl e \<Rightarrow> (Inl e, w)
                | Inr (assignments, expected) \<Rightarrow>
                    if assignments = [] then (Inr (), w)
                    else and_do (wrap_do (''restore evacuated account routes to '' @ target @ '': '')
                           (ls_ApplyRoutesExpected (mg_Store m) assignments expected)) (\<lambda>_. ok_do ()) w) w)"

text \<open>A step whose error is recorded and does not stop the compensation.\<close>

definition undo_step :: "('w, 'a) oper \<Rightarrow> 'w \<Rightarrow> gerr option \<times> 'w" where
  "undo_step step w = (case step w of (Inl e, w) \<Rightarrow> (Some e, w) | (Inr _, w) \<Rightarrow> (None, w))"

definition undo_if :: "bool \<Rightarrow> ('w, 'a) oper \<Rightarrow> 'w \<Rightarrow> gerr option \<times> 'w" where
  "undo_if c step w = (if c then undo_step step w else (None, w))"

definition undo_evacuation :: "'w manager \<Rightarrow> route_transition \<Rightarrow> gerr \<Rightarrow> 'w \<Rightarrow> failure \<times> 'w" where
  "undo_evacuation m t cause w =
     (case undo_step (restoreTo m t (tr_source t)) w of (rollbackError, w) \<Rightarrow>
     (case undo_if (rollbackError = None) (mg_Snapshots m) w of (snapshotError, w) \<Rightarrow>
        (newCompensatedError cause [rollbackError, snapshotError], w)))"

text \<open>A step of an operation under way: its error is compensated, or its value goes to the next step.\<close>

definition or_undo ::
  "('w, 'a) oper \<Rightarrow> (gerr \<Rightarrow> 'w \<Rightarrow> failure \<times> 'w) \<Rightarrow> ('a \<Rightarrow> 'w \<Rightarrow> (failure + 'b) \<times> 'w) \<Rightarrow> 'w \<Rightarrow> (failure + 'b) \<times> 'w" where
  "or_undo step undo k w =
     (case step w of (Inl e, w) \<Rightarrow> (case undo e w of (f, w) \<Rightarrow> (Inl f, w)) | (Inr x, w) \<Rightarrow> k x w)"

definition nothing_done :: "gerr \<Rightarrow> 'w \<Rightarrow> failure \<times> 'w" where
  "nothing_done cause w = (newCompensatedError cause [], w)"

definition done_with :: "'a \<Rightarrow> 'w \<Rightarrow> (failure + 'a) \<times> 'w" where
  "done_with x w = (Inr x, w)"

definition ApplyEvacuation :: "'w manager \<Rightarrow> route_transition \<Rightarrow> 'w \<Rightarrow> (failure + unit) \<times> 'w" where
  "ApplyEvacuation m t =
     (if transition_empty t then done_with ()
      else case mg_Drainer m of None \<Rightarrow> (\<lambda>w. (Inl (newCompensatedError ErrRouteEvacuationUnavailable []), w))
      | Some wait \<Rightarrow>
          or_undo (wrap_do ''evacuate account routes: '' (ls_ApplyRoutesExpected (mg_Store m) (tr_assignments t) (tr_expected t))) nothing_done (\<lambda>_.
          or_undo (mg_Snapshots m) (\<lambda>e. undo_evacuation m t (wrapf ''activate maintenance evacuation snapshot: '' e)) (\<lambda>_.
          or_undo (wait (tr_source t)) (\<lambda>e. undo_evacuation m t (ErrWrap [] ErrAccountDrainTimeout ('': '' @ err_text e))) (\<lambda>_.
          done_with ()))))"

definition journalRoutes :: "route_transition \<Rightarrow> string gomap" where
  "journalRoutes t = tr_assignments t"

end
