(* ===== verification/Lifecycle_Manager.thy ===== *)
theory Lifecycle_Manager
  imports Lifecycle_Routes
begin

text \<open>
  The operations of the account lifecycle manager (\<open>internal/accountlifecycle/manager.go\<close>, \<open>policy.go\<close>): creating,
  updating and deleting an account and clearing its OAuth files, each as a sequence of journalled steps over the control
  plane, the secrets, the files, the containers and the gateways, with the compensation of what was done when a step
  fails. The lock is taken at the start of each operation and released at its end.
\<close>

abbreviation defaultAccountPortStart :: int where "defaultAccountPortStart \<equiv> 18319"
abbreviation defaultAccountPortEnd :: int where "defaultAccountPortEnd \<equiv> 18999"
abbreviation accountProxySecretPrefix :: string where "accountProxySecretPrefix \<equiv> ''cpa_account_proxy_url:''"

definition ErrNoAccountPort :: gerr where
  "ErrNoAccountPort = Sentinel ''no safe business CPA port is available''"
definition ErrRuntimeTransition :: gerr where
  "ErrRuntimeTransition = Sentinel ''account runtime transition failed''"
definition ErrUnavailableProxyRepairRejected :: gerr where
  "ErrUnavailableProxyRepairRejected = Sentinel ''unavailable account proxy repair is not allowed''"

section \<open>Requests and results\<close>

record create_request =
  cq_ID :: string
  cq_Email :: string
  cq_ProxyMode :: string
  cq_ProxyURL :: string

record create_result =
  cs_Account :: account
  cs_CreatedKeyRows :: int
  cs_SnapshotGeneration :: string

record change_request =
  uq_AccountID :: string
  uq_NewAccountID :: string
  uq_Email :: string
  uq_ProxyMode :: string
  uq_ProxyURL :: "string option"
  uq_Enabled :: "bool option"
  uq_Default :: "bool option"
  uq_FallbackAccount :: string
  uq_PolicyOnly :: bool
  uq_AllowUnavailableProxyRepair :: bool

record change_result =
  cg_Account :: account
  cg_RenamedFrom :: string
  cg_ReroutedUsers :: int
  cg_Backup :: string
  cg_SnapshotGeneration :: string

record delete_request =
  dq_AccountID :: string
  dq_FallbackAccount :: string
  dq_RevokeExclusive :: bool

record delete_result =
  dr_AccountID :: string
  dr_RemovedKeyRows :: int
  dr_RevokedExclusive :: int
  dr_ReroutedUsers :: int
  dr_ReplacementAccount :: string
  dr_Backup :: string
  dr_SnapshotGeneration :: string

record auth_clear_result =
  ax_AccountID :: string
  ax_Backup :: string

section \<open>Normalisation\<close>

definition Atoi :: "string \<Rightarrow> int option" where
  "Atoi s = (case parse_sign s of (negative, ds) \<Rightarrow>
     if ds = [] \<or> \<not> list_all is_digit ds then None
     else let n = (if negative then - int (digits_value ds) else int (digits_value ds)) in if in64 n then Some n else None)"

text \<open>\<open>NormalizeProxyURL\<close> of \<open>internal/accountprojection/renderer.go\<close>.\<close>

definition NormalizeProxyURL :: "(string \<Rightarrow> proxy_url option) \<Rightarrow> string \<Rightarrow> gerr + string" where
  "NormalizeProxyURL parse_url raw =
     (let url = rev (dropWhile (\<lambda>c. c = CHR ''/'') (rev (trim_space raw)))
      in if url = [] \<or> list_ex (\<lambda>c. c \<in> {CHR 0x0D, CHR 0x0A, CHR 0x09, CHR 0x20}) url
         then Inl (ErrNew ''proxy URL is empty or contains whitespace'')
         else case parse_url url of
                None \<Rightarrow> Inl (ErrNew ''proxy URL is invalid'')
              | Some p \<Rightarrow>
                  if pu_Hostname p = [] then Inl (ErrNew ''proxy URL is invalid'')
                  else if to_lower (pu_Scheme p) \<noteq> ''http'' \<and> to_lower (pu_Scheme p) \<noteq> ''https'' \<and> to_lower (pu_Scheme p) \<noteq> ''socks5''
                  then Inl (ErrNew ''proxy URL scheme must be HTTP, HTTPS, or SOCKS5'')
                  else if pu_Path p \<noteq> [] \<and> pu_Path p \<noteq> ''/'' \<or> pu_RawQuery p \<noteq> [] \<or> pu_Fragment p \<noteq> []
                  then Inl (ErrNew ''proxy URL must not contain a path, query, or fragment'')
                  else if pu_Port p \<noteq> [] \<and> (case Atoi (pu_Port p) of None \<Rightarrow> True | Some port \<Rightarrow> port < 1 \<or> 65535 < port)
                  then Inl (ErrNew ''proxy URL contains an invalid port'')
                  else Inr url)"

definition optionalProxyURL :: "(string \<Rightarrow> proxy_url option) \<Rightarrow> string \<Rightarrow> gerr + string" where
  "optionalProxyURL parse_url raw =
     (if trim_space raw = [] then Inr []
      else case NormalizeProxyURL parse_url raw of
             Inl e \<Rightarrow> Inl (ErrWrap [] ErrInvalidCatalogInput ('': invalid account proxy URL: '' @ err_text e))
           | Inr url \<Rightarrow> Inr url)"

text \<open>\<open>int64(f)\<close> and the comparison with the float show whether a number is an integer.\<close>

definition optionalIntegerSetting :: "goany gomap \<Rightarrow> string \<Rightarrow> gerr + int" where
  "optionalIntegerSetting settings key =
     (let no_integer = Inl (ErrWrap [] ErrInvalidCatalogInput ('': setting '' @ key @ '' must be an integer''));
          in_range = (\<lambda>n. if n < 1 \<or> 65535 < n
            then Inl (ErrWrap [] ErrInvalidCatalogInput ('': setting '' @ key @ '' is outside the port range'')) else Inr n)
      in case mget ANil settings key of
           ANil \<Rightarrow> Inr 0
         | AInt n \<Rightarrow> in_range n
         | AInt64 n \<Rightarrow> in_range n
         | AFloat f \<Rightarrow> if f_eq (f_of_int (f_to_int64 f)) f then in_range (f_to_int64 f) else no_integer
         | _ \<Rightarrow> no_integer)"

definition portSetting :: "goany gomap \<Rightarrow> string \<Rightarrow> int \<Rightarrow> gerr + int" where
  "portSetting settings key fallback = and_then (optionalIntegerSetting settings key) (\<lambda>n. Inr (if n = 0 then fallback else n))"

text \<open>The loop over the ports of the range.\<close>

definition free_port :: "int \<Rightarrow> int \<Rightarrow> int set \<Rightarrow> int option" where
  "free_port start end used = find (\<lambda>port. port \<notin> used) [start..end]"

definition lift_do :: "gerr + 'a \<Rightarrow> ('w, 'a) oper" where "lift_do r w = (r, w)"

definition allocatePort :: "'w manager \<Rightarrow> ('w, int) oper" where
  "allocatePort m =
     and_do (wrap_do ''read account port settings: '' (ls_ReadSettings (mg_Store m))) (\<lambda>settings.
     and_do (lift_do (portSetting settings ''accounts.port_start'' defaultAccountPortStart)) (\<lambda>start.
     and_do (lift_do (portSetting settings ''accounts.port_end'' defaultAccountPortEnd)) (\<lambda>end.
     if start < 1024 \<or> 65535 < end \<or> end < start
     then lift_do (Inl (ErrWrap [] ErrInvalidCatalogInput '': invalid account port range''))
     else and_do (wrap_do ''read account ports: '' (ls_ReadAccounts (mg_Store m))) (\<lambda>accounts.
          and_do (wrap_do ''inspect Docker host ports: '' (cr_ReservedHostPorts (mg_Runtime m))) (\<lambda>ports.
          lift_do (case free_port start end ({8317, 8318} \<union> ac_Port ` set accounts \<union> set ports) of
                     Some port \<Rightarrow> Inr port | None \<Rightarrow> Inl ErrNoAccountPort))))))"

section \<open>Changes of secrets\<close>

text \<open>\<open>secretValue\<close>: a value, or absent; a plan that was not captured is not ready.\<close>

record secret_plan =
  sp_desired :: "string option gomap"
  sp_before :: "string option gomap"
  sp_ready :: bool

definition newSecretPlan :: "string option gomap \<Rightarrow> secret_plan" where
  "newSecretPlan desired = \<lparr>sp_desired = desired, sp_before = [], sp_ready = False\<rparr>"

definition sortedSecretNames :: "'v gomap \<Rightarrow> string list" where
  "sortedSecretNames vals = sort (map fst vals)"

fun capture_secrets :: "'w manager \<Rightarrow> string list \<Rightarrow> string option gomap \<Rightarrow> ('w, string option gomap) oper" where
  "capture_secrets m [] before = ok_do before"
| "capture_secrets m (name # names) before =
     and_do (wrap_do (''capture account secret '' @ name @ '': '') (ls_ReadSecret (mg_Store m) name)) (\<lambda>found.
     capture_secrets m names (mput name found before))"

text \<open>A plan whose capture failed stays as it was: it is not ready, so that what it had captured has no use.\<close>

definition CapturePlan :: "'w manager \<Rightarrow> secret_plan \<Rightarrow> ('w, secret_plan) oper" where
  "CapturePlan m p = and_do (capture_secrets m (sortedSecretNames (sp_desired p)) (sp_before p)) (\<lambda>before.
     ok_do (p\<lparr>sp_before := before, sp_ready := True\<rparr>))"

definition writeSecretValue :: "'w manager \<Rightarrow> string \<Rightarrow> string option \<Rightarrow> ('w, unit) oper" where
  "writeSecretValue m name value' =
     (case value' of None \<Rightarrow> ls_DeleteSecret (mg_Store m) name | Some v \<Rightarrow> ls_WriteSecret (mg_Store m) name v)"

fun apply_secrets :: "'w manager \<Rightarrow> string option gomap \<Rightarrow> string list \<Rightarrow> ('w, unit) oper" where
  "apply_secrets m vals [] = ok_do ()"
| "apply_secrets m vals (name # names) =
     and_do (wrap_do (''apply account secret '' @ name @ '': '') (writeSecretValue m name (mget None vals name)))
       (\<lambda>_. apply_secrets m vals names)"

definition ApplyPlan :: "'w manager \<Rightarrow> secret_plan \<Rightarrow> ('w, unit) oper" where
  "ApplyPlan m p = (if \<not> sp_ready p then lift_do (Inl (ErrNew ''account secret plan was not captured''))
     else apply_secrets m (sp_desired p) (sortedSecretNames (sp_desired p)))"

fun restore_secrets :: "'w manager \<Rightarrow> string option gomap \<Rightarrow> string list \<Rightarrow> gerr option list \<Rightarrow> 'w \<Rightarrow> gerr option list \<times> 'w" where
  "restore_secrets m vals [] errors w = (errors, w)"
| "restore_secrets m vals (name # names) errors w =
     (case undo_step (wrap_do (''restore account secret '' @ name @ '': '') (writeSecretValue m name (mget None vals name))) w of
        (e, w) \<Rightarrow> restore_secrets m vals names (errors @ [e]) w)"

definition RollbackPlan :: "'w manager \<Rightarrow> secret_plan \<Rightarrow> ('w, unit) oper" where
  "RollbackPlan m p w =
     (if \<not> sp_ready p then (Inr (), w)
      else case restore_secrets m (sp_before p) (sortedSecretNames (sp_before p)) [] w of
             (errors, w) \<Rightarrow> (case errors_join errors of None \<Rightarrow> (Inr (), w) | Some e \<Rightarrow> (Inl e, w)))"

definition updateProxyPlan :: "'w manager \<Rightarrow> string \<Rightarrow> string \<Rightarrow> string option \<Rightarrow> ('w, secret_plan \<times> string) oper" where
  "updateProxyPlan m oldAccountID newAccountID requested =
     (let oldName = accountProxySecretPrefix @ oldAccountID; newName = accountProxySecretPrefix @ newAccountID
      in and_do (wrap_do ''read account proxy secret: '' (ls_ReadSecret (mg_Store m) oldName)) (\<lambda>old.
         and_do (lift_do (case old of None \<Rightarrow> Inr None
           | Some v \<Rightarrow> wrapping ''stored account proxy URL is invalid: '' (map_sum id Some (NormalizeProxyURL (mg_ParseURL m) v)))) (\<lambda>old.
         and_do (lift_do (case requested of None \<Rightarrow> Inr old
           | Some url \<Rightarrow> map_sum id (\<lambda>url. if url = [] then None else Some url) (optionalProxyURL (mg_ParseURL m) url))) (\<lambda>desired.
         and_do (if newAccountID = oldAccountID then ok_do [(newName, desired)]
                 else and_do (wrap_do ''inspect renamed account proxy target: '' (ls_ReadSecret (mg_Store m) newName)) (\<lambda>target.
                      if target \<noteq> None
                      then lift_do (Inl (ErrWrap [] ErrAccountLifecycleConflict '': renamed account proxy target already exists''))
                      else ok_do [(newName, desired), (oldName, None)])) (\<lambda>vals.
         and_do (CapturePlan m (newSecretPlan vals)) (\<lambda>plan.
         ok_do (plan, case desired of None \<Rightarrow> [] | Some url \<Rightarrow> url)))))))"

section \<open>Compensation\<close>

definition rollbackFiles :: "'w file_transition option \<Rightarrow> 'w \<Rightarrow> gerr option \<times> 'w" where
  "rollbackFiles t w = (case t of None \<Rightarrow> (None, w) | Some f \<Rightarrow> undo_step (wrap_do ''rollback account files: '' (ft_Rollback f)) w)"

definition rollbackRuntime :: "'w runtime_transition option \<Rightarrow> 'w \<Rightarrow> gerr option \<times> 'w" where
  "rollbackRuntime t w = (case t of None \<Rightarrow> (None, w) | Some r \<Rightarrow> undo_step (wrap_do ''rollback account runtime: '' (tn_Rollback r)) w)"

definition rollbackSecrets :: "'w manager \<Rightarrow> secret_plan \<Rightarrow> 'w \<Rightarrow> gerr option \<times> 'w" where
  "rollbackSecrets m p = undo_step (wrap_do ''rollback account proxy secrets: '' (RollbackPlan m p))"

text \<open>\<open>restorePublishedState\<close>: the projection, and if it could be rendered the snapshot.\<close>

definition restorePublishedState :: "'w manager \<Rightarrow> gerr option \<Rightarrow> 'w \<Rightarrow> (gerr option \<times> gerr option) \<times> 'w" where
  "restorePublishedState m controlError w =
     (if controlError \<noteq> None then ((None, None), w)
      else case undo_step (wrap_do ''restore account projections: '' (mg_Projection m)) w of
             (Some e, w) \<Rightarrow> ((Some e, None), w)
           | (None, w) \<Rightarrow>
               (case undo_step (wrap_do ''restore account auth snapshot: '' (mg_Snapshots m)) w of (e, w) \<Rightarrow> ((None, e), w)))"

text \<open>The part \<open>rollbackCreation\<close> and \<open>rollbackDeletion\<close> share; \<open>restore\<close> takes the control plane back.\<close>

definition rollback_all ::
  "'w manager \<Rightarrow> ('w, unit) oper \<Rightarrow> 'w file_transition \<Rightarrow> 'w runtime_transition option \<Rightarrow> secret_plan \<Rightarrow> gerr \<Rightarrow> 'w \<Rightarrow> failure \<times> 'w" where
  "rollback_all m restore files runtime secrets cause w =
     (case rollbackFiles (Some files) w of (fileError, w) \<Rightarrow>
     (case rollbackRuntime runtime w of (runtimeError, w) \<Rightarrow>
     (case rollbackSecrets m secrets w of (secretError, w) \<Rightarrow>
     (case undo_step restore w of (controlError, w) \<Rightarrow>
     (case restorePublishedState m controlError w of ((projectionError, snapshotError), w) \<Rightarrow>
        (newCompensatedError cause [runtimeError, fileError, secretError, controlError, projectionError, snapshotError], w))))))"

definition rollbackCreation ::
  "'w manager \<Rightarrow> account_creation \<Rightarrow> 'w file_transition \<Rightarrow> 'w runtime_transition option \<Rightarrow> secret_plan \<Rightarrow> gerr \<Rightarrow> 'w \<Rightarrow> failure \<times> 'w" where
  "rollbackCreation m creation = rollback_all m (ls_RestoreAccountCreation (mg_Store m) creation)"

definition rollbackDeletion ::
  "'w manager \<Rightarrow> account_deletion \<Rightarrow> 'w file_transition \<Rightarrow> 'w runtime_transition option \<Rightarrow> secret_plan \<Rightarrow> gerr \<Rightarrow> 'w \<Rightarrow> failure \<times> 'w" where
  "rollbackDeletion m deletion = rollback_all m (ls_RestoreAccountDeletion (mg_Store m) deletion)"

text \<open>An update that has not been applied is \<open>None\<close>; it is the zero value in the code.\<close>

definition rollbackUpdate ::
  "'w manager \<Rightarrow> account_update option \<Rightarrow> 'w file_transition option \<Rightarrow> 'w runtime_transition option \<Rightarrow> secret_plan \<Rightarrow>
     route_transition \<Rightarrow> gerr \<Rightarrow> 'w \<Rightarrow> failure \<times> 'w" where
  "rollbackUpdate m update files runtime secrets routes cause w =
     (case rollbackFiles files w of (fileError, w) \<Rightarrow>
     (case rollbackRuntime runtime w of (runtimeError, w) \<Rightarrow>
     (case rollbackSecrets m secrets w of (secretError, w) \<Rightarrow>
     (case (case update of None \<Rightarrow> (None, w)
            | Some u \<Rightarrow> undo_if (ac_ID (sa_Account (au_Before u)) \<noteq> []) (ls_RestoreAccountUpdate (mg_Store m) u) w) of (controlError, w) \<Rightarrow>
     (case undo_if (controlError = None) (restoreTo m routes (tr_source routes)) w of (routeError, w) \<Rightarrow>
     (case restorePublishedState m (errors_join [controlError, routeError]) w of ((projectionError, snapshotError), w) \<Rightarrow>
        (newCompensatedError cause [runtimeError, fileError, secretError, controlError, routeError, projectionError, snapshotError], w)))))))"

definition rollbackAuthClear ::
  "'w manager \<Rightarrow> 'w file_transition option \<Rightarrow> route_transition \<Rightarrow> string \<Rightarrow> gerr \<Rightarrow> 'w \<Rightarrow> failure \<times> 'w" where
  "rollbackAuthClear m files routes accountID cause w =
     (case rollbackFiles files w of (fileError, w) \<Rightarrow>
     (case undo_if (files \<noteq> None \<and> fileError = None) (cr_RestartAccount (mg_Runtime m) accountID) w of (restartError, w) \<Rightarrow>
     (case undo_step (restoreTo m routes (if files \<noteq> None \<and> (fileError \<noteq> None \<or> restartError \<noteq> None) then tr_fallback routes else accountID)) w of
        (routeError, w) \<Rightarrow>
     (case undo_if (routeError = None \<and> \<not> transition_empty routes) (mg_Snapshots m) w of (snapshotError, w) \<Rightarrow>
        (newCompensatedError cause [fileError, restartError, routeError, snapshotError], w)))))"

text \<open>An operation after its checks: the journal is opened, the steps are made, the journal is closed or kept.\<close>

definition journalled ::
  "'w manager \<Rightarrow> ('w, 'p \<times> string \<times> string \<times> string) oper \<Rightarrow> ('p \<Rightarrow> operation \<Rightarrow> 'w \<Rightarrow> (failure + 'a) \<times> 'w) \<Rightarrow> 'w \<Rightarrow> 'a outcome \<times> 'w" where
  "journalled m checks steps w =
     (case and_do checks (\<lambda>(p, kind, accountID, newAccountID).
            and_do (beginOperation m kind accountID newAccountID) (\<lambda>o'. ok_do (p, o'))) w of
        (Inl e, w) \<Rightarrow> ((None, Some (Plain e)), w)
      | (Inr (p, o'), w) \<Rightarrow> finalizeOperation m o' (steps p o' w))"


section \<open>Creation\<close>

definition create_checks :: "'w manager \<Rightarrow> create_request \<Rightarrow> ('w, (account \<times> string) \<times> string \<times> string \<times> string) oper" where
  "create_checks m q =
     and_do (lift_do (NormalizeAccountID (cq_ID q))) (\<lambda>accountID.
     and_do (lift_do (NormalizeAccountEmail (mg_ParseAddress m) (cq_Email q))) (\<lambda>email.
     and_do (lift_do (NormalizeProxyMode (cq_ProxyMode q))) (\<lambda>proxyMode.
     and_do (lift_do (optionalProxyURL (mg_ParseURL m) (cq_ProxyURL q))) (\<lambda>proxyURL.
     if proxyMode = ''custom'' \<and> proxyURL = []
     then lift_do (Inl (ErrWrap [] ErrInvalidCatalogInput '': custom proxy mode requires a proxy URL''))
     else and_do (wrap_do ''inspect stale account proxy secret: '' (ls_ReadSecret (mg_Store m) (accountProxySecretPrefix @ accountID))) (\<lambda>stale.
          if stale \<noteq> None
          then lift_do (Inl (ErrWrap [] ErrAccountLifecycleConflict ('': stale proxy secret exists for account '' @ accountID)))
          else and_do (allocatePort m) (\<lambda>port.
               ok_do ((\<lparr>ac_ID = accountID, ac_Email = email, ac_Port = port, ac_ProxyMode = proxyMode, ac_CreatedAt = 0,
                        ac_GroupEnabled = False, ac_DefaultGroup = False\<rparr>, proxyURL), operationCreate, accountID, [])))))))"

text \<open>From the rendered projection on, every failure is compensated by \<open>rollbackCreation\<close>.\<close>

definition activate_creation ::
  "'w manager \<Rightarrow> account_creation \<Rightarrow> 'w file_transition \<Rightarrow> secret_plan \<Rightarrow> operation \<Rightarrow> 'w \<Rightarrow> (failure + create_result) \<times> 'w" where
  "activate_creation m creation files secrets o' =
     (let back = (\<lambda>runtime text e. rollbackCreation m creation files runtime secrets (if text = [] then e else wrapf text e))
      in or_undo (mg_Projection m) (back None ''render created account: '') (\<lambda>_.
         or_undo (advanceOperation m o' phaseProjectionRendered (ft_BackupPath files)) (back None []) (\<lambda>o'.
         or_undo (cr_PrepareCreate (mg_Runtime m) (an_Account creation))
           (\<lambda>e. back None [] (ErrWrap [] ErrRuntimeTransition ('': '' @ err_text e))) (\<lambda>runtime.
         or_undo (advanceOperation m o' phaseRuntimePrepared (ft_BackupPath files)) (back (Some runtime) []) (\<lambda>o'.
         or_undo (mg_Snapshots m) (back (Some runtime) ''activate created account snapshot: '') (\<lambda>generation.
         or_undo (advanceOperation m o' phaseSnapshotActivated (ft_BackupPath files)) (back (Some runtime) []) (\<lambda>o'.
         or_undo (tn_Commit runtime) (back (Some runtime) ''commit created account runtime: '') (\<lambda>_.
         or_undo (ft_Commit files) (back (Some runtime) ''commit created account files: '') (\<lambda>_.
         done_with \<lparr>cs_Account = an_Account creation, cs_CreatedKeyRows = int (length (an_CreatedRows creation)),
                    cs_SnapshotGeneration = generation\<rparr>)))))))))"

definition create_steps :: "'w manager \<Rightarrow> account \<times> string \<Rightarrow> operation \<Rightarrow> 'w \<Rightarrow> (failure + create_result) \<times> 'w" where
  "create_steps m = (\<lambda>(account, proxyURL) o'.
     or_undo (fl_PrepareCreate (mg_Files m) (op_ID o') (ac_ID account)) nothing_done (\<lambda>files.
     let files_back = (\<lambda>e w. case rollbackFiles (Some files) w of (fileError, w) \<Rightarrow> (newCompensatedError e [fileError], w))
     in or_undo (advanceOperation m o' phaseFilesPrepared (ft_BackupPath files)) files_back (\<lambda>o'.
        or_undo (ls_ApplyAccountCreation (mg_Store m) account) files_back (\<lambda>creation.
        let plan = newSecretPlan [(accountProxySecretPrefix @ ac_ID account, if proxyURL = [] then None else Some proxyURL)]
        in or_undo (CapturePlan m plan) (rollbackCreation m creation files None plan) (\<lambda>plan.
           or_undo (ApplyPlan m plan) (rollbackCreation m creation files None plan) (\<lambda>_.
           or_undo (advanceOperation m o' phaseControlApplied (ft_BackupPath files)) (rollbackCreation m creation files None plan) (\<lambda>o'.
           activate_creation m creation files plan o')))))))"

definition CreateAccount :: "'w manager \<Rightarrow> create_request \<Rightarrow> 'w \<Rightarrow> create_result outcome \<times> 'w" where
  "CreateAccount m q = journalled m (create_checks m q) (create_steps m)"

section \<open>Selection policy\<close>

definition rollbackPolicy :: "'w manager \<Rightarrow> account_update \<Rightarrow> gerr \<Rightarrow> 'w \<Rightarrow> failure \<times> 'w" where
  "rollbackPolicy m update cause w =
     (case undo_step (ls_RestoreAccountUpdate (mg_Store m) update) w of (controlError, w) \<Rightarrow>
     (case restorePublishedState m controlError w of ((projectionError, snapshotError), w) \<Rightarrow>
        (newCompensatedError cause [controlError, projectionError, snapshotError], w)))"

definition is_false :: "bool option \<Rightarrow> bool" where "is_false b \<longleftrightarrow> b = Some False"

definition policy_checks :: "'w manager \<Rightarrow> change_request \<Rightarrow> ('w, update_request \<times> string \<times> string \<times> string) oper" where
  "policy_checks m q =
     (if uq_NewAccountID q \<noteq> [] \<or> uq_Email q \<noteq> [] \<or> uq_ProxyMode q \<noteq> [] \<or> uq_ProxyURL q \<noteq> None \<or>
         uq_AllowUnavailableProxyRepair q \<or> (uq_Enabled q = None \<and> uq_Default q = None)
      then lift_do (Inl (ErrWrap [] ErrInvalidCatalogInput '': selection policy cannot change account identity or proxy''))
      else and_do (lift_do (NormalizeAccountID (uq_AccountID q))) (\<lambda>accountID.
           and_do (ls_ReadAccountLifecycle (mg_Store m) accountID) (\<lambda>(stored, _).
           let enabled = (case uq_Enabled q of None \<Rightarrow> ac_GroupEnabled (sa_Account stored) | Some b \<Rightarrow> b);
               defaultState = (if \<not> enabled \<and> uq_Default q = None then Some False else uq_Default q)
           in and_do (if \<not> enabled \<or> (ac_DefaultGroup (sa_Account stored) \<and> is_false defaultState)
                      then selectEligibleFallback m accountID (uq_FallbackAccount q) else ok_do []) (\<lambda>fallback.
              ok_do (\<lparr>ur_AccountID = accountID, ur_NewAccountID = [], ur_Email = ac_Email (sa_Account stored),
                      ur_ProxyMode = ac_ProxyMode (sa_Account stored), ur_GroupEnabled = uq_Enabled q,
                      ur_DefaultGroup = defaultState, ur_FallbackAccount = fallback\<rparr>, operationPolicy, accountID, [])))))"

definition policy_steps :: "'w manager \<Rightarrow> update_request \<Rightarrow> operation \<Rightarrow> 'w \<Rightarrow> (failure + change_result) \<times> 'w" where
  "policy_steps m q o' =
     or_undo (ls_ApplyAccountUpdate (mg_Store m) q) nothing_done (\<lambda>update.
     or_undo (advanceOperation m o' phaseControlApplied []) (rollbackPolicy m update) (\<lambda>_.
     or_undo (mg_Projection m) (rollbackPolicy m update) (\<lambda>_.
     or_undo (mg_Snapshots m) (rollbackPolicy m update) (\<lambda>generation.
     done_with \<lparr>cg_Account = sa_Account (au_After update), cg_RenamedFrom = [], cg_ReroutedUsers = int (length (au_Routes update)),
                cg_Backup = [], cg_SnapshotGeneration = generation\<rparr>))))"

definition updatePolicy :: "'w manager \<Rightarrow> change_request \<Rightarrow> 'w \<Rightarrow> change_result outcome \<times> 'w" where
  "updatePolicy m q = journalled m (policy_checks m q) (policy_steps m)"

section \<open>Update\<close>

text \<open>
  The only path that rebuilds a routed account without moving its users first: a single ineligible account gets a new
  custom proxy while no other account is eligible.
\<close>

definition validateUnavailableProxyRepair ::
  "'w manager \<Rightarrow> change_request \<Rightarrow> account \<Rightarrow> string \<Rightarrow> string \<Rightarrow> string \<Rightarrow> string \<Rightarrow> ('w, unit) oper" where
  "validateUnavailableProxyRepair m q stored newAccountID email proxyMode desiredProxy =
     (let reject = (\<lambda>reason. lift_do (Inl (ErrWrap [] ErrUnavailableProxyRepairRejected ('': '' @ reason))))
      in if uq_ProxyURL q = None \<or> proxyMode \<noteq> ''custom'' \<or> desiredProxy = [] then reject ''a new custom proxy URL is required''
         else if newAccountID \<noteq> ac_ID stored \<or> email \<noteq> ac_Email stored \<or> uq_Enabled q \<noteq> None \<or> uq_Default q \<noteq> None \<or>
                 trim_space (uq_FallbackAccount q) \<noteq> []
         then reject ''only the proxy projection may change''
         else case mg_States m of None \<Rightarrow> reject ''account state provider is unavailable''
         | Some read_states \<Rightarrow>
             and_do (wrap_do ''inspect unavailable proxy repair routes: '' (ls_ReadRoutes (mg_Store m))) (\<lambda>routes.
             if ac_ID stored \<notin> snd ` set routes then reject ''the account has no routed users and can use ordinary maintenance''
             else and_do (wrap_do ''inspect unavailable proxy repair states: '' read_states) (\<lambda>states.
                  if (case map_of states (ac_ID stored) of None \<Rightarrow> True | Some source \<Rightarrow> as_Eligible source)
                  then reject ''the source account is not proven ineligible''
                  else if list_ex (\<lambda>(accountID, state). accountID \<noteq> ac_ID stored \<and> as_Eligible state \<and> f_lt (Fin 0) (as_Headroom state)) states
                  then reject ''an eligible fallback is available''
                  else ok_do ())))"

record update_plan =
  up_Stored :: stored_account
  up_Rows :: "key_row list"
  up_AccountID :: string
  up_NewAccountID :: string
  up_Email :: string
  up_ProxyMode :: string
  up_Secrets :: secret_plan
  up_Enabled :: "bool option"
  up_Default :: "bool option"
  up_Fallback :: string
  up_Repair :: bool

definition update_checks :: "'w manager \<Rightarrow> change_request \<Rightarrow> ('w, update_plan \<times> string \<times> string \<times> string) oper" where
  "update_checks m q =
     and_do (lift_do (NormalizeAccountID (uq_AccountID q))) (\<lambda>accountID.
     and_do (ls_ReadAccountLifecycle (mg_Store m) accountID) (\<lambda>(stored, rows).
     let account = sa_Account stored; given = (\<lambda>raw otherwise'. if trim_space raw = [] then otherwise' else trim_space raw)
     in and_do (lift_do (NormalizeAccountID (given (uq_NewAccountID q) accountID))) (\<lambda>newAccountID.
        and_do (lift_do (NormalizeAccountEmail (mg_ParseAddress m) (given (uq_Email q) (ac_Email account)))) (\<lambda>email.
        and_do (lift_do (NormalizeProxyMode (given (uq_ProxyMode q) (ac_ProxyMode account)))) (\<lambda>proxyMode.
        and_do (updateProxyPlan m accountID newAccountID (uq_ProxyURL q)) (\<lambda>(secrets, desiredProxy).
        if proxyMode = ''custom'' \<and> desiredProxy = []
        then lift_do (Inl (ErrWrap [] ErrInvalidCatalogInput '': custom proxy mode requires a proxy URL''))
        else and_do (if uq_AllowUnavailableProxyRepair q
                     then validateUnavailableProxyRepair m q account newAccountID email proxyMode desiredProxy else ok_do ()) (\<lambda>_.
             ok_do (\<lparr>up_Stored = stored, up_Rows = rows, up_AccountID = accountID, up_NewAccountID = newAccountID, up_Email = email,
                     up_ProxyMode = proxyMode, up_Secrets = secrets, up_Enabled = uq_Enabled q,
                     up_Default = (if is_false (uq_Enabled q) \<and> ac_DefaultGroup account \<and> uq_Default q = None then Some False
                                   else uq_Default q),
                     up_Fallback = uq_FallbackAccount q, up_Repair = uq_AllowUnavailableProxyRepair q\<rparr>,
                    operationUpdate, accountID, newAccountID))))))))"

text \<open>The users are moved off the account and its requests have ended; \<open>fallback\<close> takes them over.\<close>

definition evacuate_for ::
  "'w manager \<Rightarrow> operation \<Rightarrow> route_transition \<Rightarrow> (gerr \<Rightarrow> 'w \<Rightarrow> failure \<times> 'w) \<Rightarrow> (operation \<Rightarrow> 'w \<Rightarrow> (failure + 'a) \<times> 'w) \<Rightarrow> 'w \<Rightarrow> (failure + 'a) \<times> 'w" where
  "evacuate_for m o' routes back k =
     or_undo (advanceOperation m (o'\<lparr>op_EvacuatedRoutes := journalRoutes routes\<rparr>) phaseRoutesPrepared []) nothing_done (\<lambda>o' w.
     case ApplyEvacuation m routes w of
       (Inl f, w) \<Rightarrow> (Inl f, w)
     | (Inr _, w) \<Rightarrow> or_undo (advanceOperation m o' phaseRoutesEvacuated []) back k w)"

definition plan_update_routes :: "'w manager \<Rightarrow> update_plan \<Rightarrow> ('w, route_transition \<times> string) oper" where
  "plan_update_routes m p =
     and_do (if up_Repair p then ok_do (no_evacuation (up_AccountID p)) else planRouteEvacuation m (up_AccountID p) (up_Fallback p)) (\<lambda>routes.
     let needsFallback = (is_false (up_Enabled p) \<or> (ac_DefaultGroup (sa_Account (up_Stored p)) \<and> is_false (up_Default p)))
     in if tr_fallback routes = [] \<and> (trim_space (up_Fallback p) \<noteq> [] \<or> needsFallback)
        then and_do (selectEligibleFallback m (up_AccountID p) (up_Fallback p)) (\<lambda>fallback. ok_do (routes, fallback))
        else ok_do (routes, tr_fallback routes))"

definition activate_update ::
  "'w manager \<Rightarrow> update_plan \<Rightarrow> account_update \<Rightarrow> 'w file_transition \<Rightarrow> 'w runtime_transition \<Rightarrow> route_transition \<Rightarrow> operation \<Rightarrow>
     'w \<Rightarrow> (failure + change_result) \<times> 'w" where
  "activate_update m p update files runtime routes o' =
     (let back = (\<lambda>text e. rollbackUpdate m (Some update) (Some files) (Some runtime) (up_Secrets p) routes (if text = [] then e else wrapf text e))
      in or_undo (advanceOperation m o' phaseRuntimePrepared (ft_BackupPath files)) (back []) (\<lambda>o'.
         or_undo (tn_Commit runtime) (back ''commit updated account runtime: '') (\<lambda>_.
         or_undo (ft_Commit files) (back ''commit updated account files: '') (\<lambda>_.
         or_undo (if ac_GroupEnabled (sa_Account (au_After update)) then restoreTo m routes (up_NewAccountID p) else ok_do ()) (back []) (\<lambda>_.
         or_undo (mg_Snapshots m) (back ''activate updated account snapshot: '') (\<lambda>generation.
         or_undo (advanceOperation m o' phaseSnapshotActivated (ft_BackupPath files)) (back []) (\<lambda>_.
         done_with \<lparr>cg_Account = sa_Account (au_After update),
                    cg_RenamedFrom = (if up_AccountID p \<noteq> up_NewAccountID p then up_AccountID p else []),
                    cg_ReroutedUsers = int (length (tr_assignments routes)) + int (length (au_Routes update)),
                    cg_Backup = ft_BackupPath files, cg_SnapshotGeneration = generation\<rparr>)))))))"

definition change_account ::
  "'w manager \<Rightarrow> update_plan \<Rightarrow> string \<Rightarrow> route_transition \<Rightarrow> 'w file_transition \<Rightarrow> operation \<Rightarrow> 'w \<Rightarrow> (failure + change_result) \<times> 'w" where
  "change_account m p fallback routes files o' =
     (let back = (\<lambda>update runtime e. rollbackUpdate m update (Some files) runtime (up_Secrets p) routes e)
      in or_undo (advanceOperation m o' phaseFilesPrepared (ft_BackupPath files)) (back None None) (\<lambda>o'.
         or_undo (ls_ApplyAccountUpdate (mg_Store m) \<lparr>ur_AccountID = up_AccountID p, ur_NewAccountID = up_NewAccountID p,
             ur_Email = up_Email p, ur_ProxyMode = up_ProxyMode p, ur_GroupEnabled = up_Enabled p, ur_DefaultGroup = up_Default p,
             ur_FallbackAccount = fallback\<rparr>) (back None None) (\<lambda>update.
         or_undo (ApplyPlan m (up_Secrets p)) (back (Some update) None) (\<lambda>_.
         or_undo (advanceOperation m o' phaseControlApplied (ft_BackupPath files)) (back (Some update) None) (\<lambda>o'.
         or_undo (mg_Projection m) (\<lambda>e. back (Some update) None (wrapf ''render updated account: '' e)) (\<lambda>_.
         or_undo (advanceOperation m o' phaseProjectionRendered (ft_BackupPath files)) (back (Some update) None) (\<lambda>o' w.
         case cr_PrepareUpdate (mg_Runtime m) (sa_Account (au_Before update)) (sa_Account (au_After update)) w of
           (Inl (e, runtime), w) \<Rightarrow>
             (case back (Some update) runtime (ErrWrap [] ErrRuntimeTransition ('': '' @ err_text e)) w of (f, w) \<Rightarrow> (Inl f, w))
         | (Inr runtime, w) \<Rightarrow> activate_update m p update files runtime routes o' w)))))))"

definition update_steps :: "'w manager \<Rightarrow> update_plan \<Rightarrow> operation \<Rightarrow> 'w \<Rightarrow> (failure + change_result) \<times> 'w" where
  "update_steps m p o' =
     or_undo (plan_update_routes m p) nothing_done (\<lambda>(routes, fallback).
     evacuate_for m o' routes
       (\<lambda>cause w. case undo_step (restoreTo m routes (up_AccountID p)) w of (routeError, w) \<Rightarrow>
                  (case undo_if (routeError = None) (mg_Snapshots m) w of (snapshotError, w) \<Rightarrow>
                     (newCompensatedError cause [routeError, snapshotError], w))) (\<lambda>o'.
     or_undo (fl_PrepareUpdate (mg_Files m) (op_ID o') (up_AccountID p) (up_NewAccountID p)
         \<lparr>bd_Account = sa_Account (up_Stored p), bd_Keys = up_Rows p\<rparr>)
       (rollbackUpdate m None None None (up_Secrets p) routes) (\<lambda>files.
     change_account m p fallback routes files o')))"

definition UpdateAccount :: "'w manager \<Rightarrow> change_request \<Rightarrow> 'w \<Rightarrow> change_result outcome \<times> 'w" where
  "UpdateAccount m q =
     (if uq_PolicyOnly q then updatePolicy m q else journalled m (update_checks m q) (update_steps m))"

section \<open>Deletion\<close>

definition delete_checks :: "'w manager \<Rightarrow> delete_request \<Rightarrow> ('w, (stored_account \<times> key_row list \<times> string) \<times> string \<times> string \<times> string) oper" where
  "delete_checks m q =
     and_do (lift_do (NormalizeAccountID (dq_AccountID q))) (\<lambda>accountID.
     and_do (ls_ReadAccountLifecycle (mg_Store m) accountID) (\<lambda>(stored, rows).
     and_do (ls_ReadAccounts (mg_Store m)) (\<lambda>accounts.
     if length accounts \<le> 1 then lift_do (Inl ErrAccountDeleteLast)
     else and_do (selectEligibleFallback m accountID (dq_FallbackAccount q)) (\<lambda>fallback.
          ok_do ((stored, rows, fallback), operationDelete, accountID, [])))))"

text \<open>The container and the files of the account go last, after the requests admitted before have ended.\<close>

definition wait_drained :: "'w manager \<Rightarrow> string \<Rightarrow> ('w, unit) oper" where
  "wait_drained m accountID =
     (case mg_Drainer m of None \<Rightarrow> lift_do (Inl ErrRouteEvacuationUnavailable)
      | Some wait \<Rightarrow> (\<lambda>w. case wait accountID w of
            (Inl e, w) \<Rightarrow> (Inl (ErrWrap [] ErrAccountDrainTimeout ('': '' @ err_text e)), w) | (Inr _, w) \<Rightarrow> (Inr (), w)))"

definition activate_deletion ::
  "'w manager \<Rightarrow> string \<Rightarrow> account_deletion \<Rightarrow> 'w file_transition \<Rightarrow> secret_plan \<Rightarrow> operation \<Rightarrow> 'w \<Rightarrow> (failure + delete_result) \<times> 'w" where
  "activate_deletion m accountID deletion files secrets o' =
     (let back = (\<lambda>runtime text e. rollbackDeletion m deletion files runtime secrets (if text = [] then e else wrapf text e))
      in or_undo (mg_Projection m) (back None ''render deleted account: '') (\<lambda>_.
         or_undo (advanceOperation m o' phaseProjectionRendered (ft_BackupPath files)) (back None []) (\<lambda>o'.
         or_undo (cr_PrepareDelete (mg_Runtime m) (sa_Account (ad_Account deletion)))
           (\<lambda>e. back None [] (ErrWrap [] ErrRuntimeTransition ('': '' @ err_text e))) (\<lambda>runtime.
         or_undo (advanceOperation m o' phaseRuntimePrepared (ft_BackupPath files)) (back (Some runtime) []) (\<lambda>o'.
         or_undo (mg_Snapshots m) (back (Some runtime) ''activate account deletion snapshot: '') (\<lambda>generation.
         or_undo (advanceOperation m o' phaseSnapshotActivated (ft_BackupPath files)) (back (Some runtime) []) (\<lambda>_.
         or_undo (if ad_Routes deletion \<noteq> [] then wait_drained m accountID else ok_do ()) (back (Some runtime) []) (\<lambda>_.
         or_undo (tn_Commit runtime) (back (Some runtime) ''commit deleted account runtime: '') (\<lambda>_.
         or_undo (ft_Commit files) (back (Some runtime) ''commit deleted account files: '') (\<lambda>_.
         done_with \<lparr>dr_AccountID = accountID, dr_RemovedKeyRows = int (length (ad_Rows deletion)),
                    dr_RevokedExclusive = ad_RevokedExclusiveKeys deletion, dr_ReroutedUsers = int (length (ad_Routes deletion)),
                    dr_ReplacementAccount = ad_FallbackAccount deletion, dr_Backup = ft_BackupPath files,
                    dr_SnapshotGeneration = generation\<rparr>))))))))))"

definition delete_steps ::
  "'w manager \<Rightarrow> bool \<Rightarrow> stored_account \<times> key_row list \<times> string \<Rightarrow> operation \<Rightarrow> 'w \<Rightarrow> (failure + delete_result) \<times> 'w" where
  "delete_steps m revokeExclusive = (\<lambda>(stored, rows, fallback) o'.
     let accountID = op_AccountID o'
     in or_undo (fl_PrepareDelete (mg_Files m) (op_ID o') accountID \<lparr>bd_Account = sa_Account stored, bd_Keys = rows\<rparr>) nothing_done (\<lambda>files.
        let files_back = (\<lambda>e w. case rollbackFiles (Some files) w of (fileError, w) \<Rightarrow> (newCompensatedError e [fileError], w))
        in or_undo (advanceOperation m o' phaseFilesPrepared (ft_BackupPath files)) files_back (\<lambda>o'.
           or_undo (ls_ApplyAccountDeletion (mg_Store m) accountID fallback revokeExclusive) files_back (\<lambda>deletion.
           let plan = newSecretPlan [(accountProxySecretPrefix @ accountID, None)]
           in or_undo (CapturePlan m plan) (rollbackDeletion m deletion files None plan) (\<lambda>plan.
              or_undo (ApplyPlan m plan) (rollbackDeletion m deletion files None plan) (\<lambda>_.
              or_undo (advanceOperation m o' phaseControlApplied (ft_BackupPath files)) (rollbackDeletion m deletion files None plan) (\<lambda>o'.
              activate_deletion m accountID deletion files plan o')))))))"

definition DeleteAccount :: "'w manager \<Rightarrow> delete_request \<Rightarrow> 'w \<Rightarrow> delete_result outcome \<times> 'w" where
  "DeleteAccount m q = journalled m (delete_checks m q) (delete_steps m (dq_RevokeExclusive q))"

section \<open>Clearing the OAuth files\<close>

definition clear_checks :: "'w manager \<Rightarrow> string \<Rightarrow> ('w, stored_account \<times> string \<times> string \<times> string) oper" where
  "clear_checks m rawAccountID =
     and_do (lift_do (NormalizeAccountID rawAccountID)) (\<lambda>accountID.
     and_do (ls_ReadAccountLifecycle (mg_Store m) accountID) (\<lambda>(stored, _).
     ok_do (stored, operationClearAuth, accountID, [])))"

definition clear_steps :: "'w manager \<Rightarrow> stored_account \<Rightarrow> operation \<Rightarrow> 'w \<Rightarrow> (failure + auth_clear_result) \<times> 'w" where
  "clear_steps m stored o' =
     (let accountID = op_AccountID o'
      in or_undo (planRouteEvacuation m accountID []) nothing_done (\<lambda>routes.
         evacuate_for m o' routes
           (\<lambda>cause w. case undo_step (restoreTo m routes accountID) w of (routeError, w) \<Rightarrow>
                      (case undo_if (routeError = None \<and> \<not> transition_empty routes) (mg_Snapshots m) w of (snapshotError, w) \<Rightarrow>
                         (newCompensatedError cause [routeError, snapshotError], w))) (\<lambda>o'.
         or_undo (fl_PrepareAuthClear (mg_Files m) (op_ID o') accountID \<lparr>bd_Account = sa_Account stored, bd_Keys = []\<rparr>)
           (rollbackAuthClear m None routes accountID) (\<lambda>files.
         let back = rollbackAuthClear m (Some files) routes accountID
         in or_undo (advanceOperation m o' phaseFilesPrepared (ft_BackupPath files)) back (\<lambda>o'.
            or_undo (cr_RestartAccount (mg_Runtime m) accountID) (\<lambda>e. back (wrapf ''restart account after OAuth clear: '' e)) (\<lambda>_.
            or_undo (advanceOperation m o' phaseRuntimePrepared (ft_BackupPath files)) back (\<lambda>_.
            or_undo (restoreTo m routes accountID) back (\<lambda>_.
            or_undo (if transition_empty routes then ok_do [] else mg_Snapshots m)
              (\<lambda>e. back (wrapf ''activate OAuth clear route restoration: '' e)) (\<lambda>_.
            or_undo (ft_Commit files) back (\<lambda>_.
            done_with \<lparr>ax_AccountID = accountID, ax_Backup = ft_BackupPath files\<rparr>))))))))))"

definition ClearAuth :: "'w manager \<Rightarrow> string \<Rightarrow> 'w \<Rightarrow> auth_clear_result outcome \<times> 'w" where
  "ClearAuth m rawAccountID = journalled m (clear_checks m rawAccountID) (clear_steps m)"

end
