(* ===== verification/Lifecycle_Recovery.thy ===== *)
theory Lifecycle_Recovery
  imports Lifecycle_Manager
begin

text \<open>
  The recovery of an interrupted operation when a process starts (\<open>Recover\<close> in
  \<open>internal/accountlifecycle/journal.go\<close>): the journal says how far the operation had come, the account row of the
  control plane whether it was committed, and secrets, files, containers and routes are reconciled with that row.
\<close>

section \<open>The canonical account\<close>

definition readRecoveryAccount :: "'w manager \<Rightarrow> string \<Rightarrow> ('w, account option) oper" where
  "readRecoveryAccount m accountID w =
     (case ls_ReadAccountLifecycle (mg_Store m) accountID w of
        (Inl e, w) \<Rightarrow> if errors_is e ErrAccountLifecycleNotFound then (Inr None, w)
                       else (Inl (wrapf (''read recovery account '' @ accountID @ '': '') e), w)
      | (Inr (stored, _), w) \<Rightarrow> (Inr (Some (sa_Account stored)), w))"

definition recoveryAccount :: "'w manager \<Rightarrow> operation \<Rightarrow> ('w, account option) oper" where
  "recoveryAccount m o' =
     (if op_Kind o' \<in> {operationCreate, operationDelete, operationClearAuth}
      then and_do (readRecoveryAccount m (op_AccountID o')) (\<lambda>found.
           if found = None \<and> op_Kind o' = operationClearAuth
           then lift_do (Inl (ErrWrap [] ErrLifecycleRecoveryRequired '': OAuth recovery account no longer exists''))
           else ok_do found)
      else if op_Kind o' = operationUpdate
      then and_do (readRecoveryAccount m (op_NewAccountID o')) (\<lambda>found.
           if found \<noteq> None then ok_do found
           else and_do (readRecoveryAccount m (op_AccountID o')) (\<lambda>found.
                if found \<noteq> None then ok_do found
                else lift_do (Inl (ErrWrap [] ErrLifecycleRecoveryRequired '': neither side of interrupted account update exists''))))
      else lift_do (Inl (ErrWrap [] ErrLifecycleRecoveryRequired '': unknown operation kind'')))"

definition updateStateIsUnchanged :: "operation \<Rightarrow> account option \<Rightarrow> bool" where
  "updateStateIsUnchanged o' desired \<longleftrightarrow> (case desired of None \<Rightarrow> False | Some a \<Rightarrow> ac_ID a = op_AccountID o')"

definition acceptedStateIsUnchanged :: "operation \<Rightarrow> account option \<Rightarrow> bool" where
  "acceptedStateIsUnchanged o' desired \<longleftrightarrow>
     (if op_Kind o' = operationCreate then desired = None
      else if op_Kind o' = operationDelete \<or> op_Kind o' = operationClearAuth
      then (case desired of None \<Rightarrow> False | Some a \<Rightarrow> ac_ID a = op_AccountID o')
      else if op_Kind o' = operationUpdate then updateStateIsUnchanged o' desired
      else False)"

section \<open>Routes and secrets\<close>

definition recoverEvacuatedRoutes :: "'w manager \<Rightarrow> operation \<Rightarrow> account option \<Rightarrow> ('w, unit) oper" where
  "recoverEvacuatedRoutes m o' desired =
     (case desired of None \<Rightarrow> ok_do ()
      | Some a \<Rightarrow>
          if \<not> ac_GroupEnabled a \<or> op_EvacuatedRoutes o' = [] then ok_do ()
          else and_do (wrap_do ''read interrupted evacuation routes: '' (ls_ReadRoutes (mg_Store m))) (\<lambda>routes.
               and_do (lift_do (routes_back (\<lambda>user. ErrWrap [] ErrRouteConflict ('': interrupted evacuation route for '' @ user @
                   '' changed to '' @ mget [] routes user)) {op_AccountID o', op_NewAccountID o'} routes (ac_ID a) (op_EvacuatedRoutes o') ([], [])))
                 (\<lambda>(assignments, expected).
               if assignments = [] then ok_do ()
               else and_do (wrap_do ''restore interrupted evacuation routes: ''
                      (ls_ApplyRoutesExpected (mg_Store m) assignments expected)) (\<lambda>_. ok_do ()))))"

definition requireCustomProxy :: "'w manager \<Rightarrow> account \<Rightarrow> string \<Rightarrow> ('w, unit) oper" where
  "requireCustomProxy m a name =
     (if ac_ProxyMode a \<noteq> ''custom'' then ok_do ()
      else and_do (ls_ReadSecret (mg_Store m) name) (\<lambda>found.
           lift_do (case found of
             None \<Rightarrow> Inl (ErrWrap [] ErrLifecycleRecoveryRequired ('': custom proxy secret is unavailable for '' @ ac_ID a))
           | Some v \<Rightarrow> (case NormalizeProxyURL (mg_ParseURL m) v of
               Inl _ \<Rightarrow> Inl (ErrWrap [] ErrLifecycleRecoveryRequired ('': custom proxy secret is invalid for '' @ ac_ID a))
             | Inr _ \<Rightarrow> Inr ()))))"

definition valid_proxy :: "'w manager \<Rightarrow> string \<Rightarrow> string \<Rightarrow> ('w, unit) oper" where
  "valid_proxy m reason v = lift_do (case NormalizeProxyURL (mg_ParseURL m) v of
     Inl _ \<Rightarrow> Inl (ErrWrap [] ErrLifecycleRecoveryRequired reason) | Inr _ \<Rightarrow> Inr ())"

text \<open>The secret of a renamed account is under the new name, or is moved there.\<close>

definition recover_renamed_proxy :: "'w manager \<Rightarrow> account \<Rightarrow> string \<Rightarrow> string \<Rightarrow> ('w, unit) oper" where
  "recover_renamed_proxy m a oldName newName =
     and_do (ls_ReadSecret (mg_Store m) newName) (\<lambda>found.
     case found of
       Some v \<Rightarrow> and_do (valid_proxy m '': invalid recovered account proxy'' v) (\<lambda>_. ls_DeleteSecret (mg_Store m) oldName)
     | None \<Rightarrow>
         and_do (ls_ReadSecret (mg_Store m) oldName) (\<lambda>found.
         case found of
           None \<Rightarrow> requireCustomProxy m a newName
         | Some v \<Rightarrow>
             and_do (valid_proxy m '': invalid previous account proxy'' v) (\<lambda>_.
             and_do (ls_WriteSecret (mg_Store m) newName v) (\<lambda>_.
             ls_DeleteSecret (mg_Store m) oldName))))"

definition recoverProxySecrets :: "'w manager \<Rightarrow> operation \<Rightarrow> account option \<Rightarrow> ('w, unit) oper" where
  "recoverProxySecrets m o' desired =
     (let oldName = accountProxySecretPrefix @ op_AccountID o'; newName = accountProxySecretPrefix @ op_NewAccountID o'
      in if op_Kind o' = operationDelete
         then (if desired = None then ls_DeleteSecret (mg_Store m) oldName else ok_do ())
         else if op_Kind o' = operationUpdate
         then (case desired of None \<Rightarrow> ok_do ()
               | Some a \<Rightarrow>
                   if ac_ID a = op_AccountID o'
                   then if op_NewAccountID o' \<noteq> op_AccountID o' then ls_DeleteSecret (mg_Store m) newName
                        else requireCustomProxy m a oldName
                   else if ac_ID a \<noteq> op_NewAccountID o'
                   then lift_do (Inl (ErrWrap [] ErrLifecycleRecoveryRequired '': unexpected proxy recovery target''))
                   else recover_renamed_proxy m a oldName newName)
         else if op_Kind o' = operationCreate
         then (case desired of Some a \<Rightarrow> requireCustomProxy m a oldName | None \<Rightarrow> ls_DeleteSecret (mg_Store m) oldName)
         else if op_Kind o' = operationClearAuth then ok_do ()
         else lift_do (Inl (ErrWrap [] ErrLifecycleRecoveryRequired '': unknown proxy recovery operation'')))"

section \<open>Recovery\<close>

text \<open>An account that is gone, or was never made: the gateways first, then the container, then the files.\<close>

definition recover_removed :: "'w manager \<Rightarrow> operation \<Rightarrow> ('w, unit) oper" where
  "recover_removed m o' =
     and_do (wrap_do ''render account recovery projection: '' (mg_Projection m)) (\<lambda>_.
     and_do (wrap_do ''activate account recovery snapshot: '' (mg_Snapshots m)) (\<lambda>_.
     and_do (if op_Kind o' = operationDelete then wait_drained m (op_AccountID o') else ok_do ()) (\<lambda>_.
     and_do (wrap_do ''remove interrupted account runtime: '' (cr_ReconcileAccount (mg_Runtime m) (op_AccountID o') None)) (\<lambda>_.
     and_do (wrap_do ''remove interrupted account files: '' (fl_Recover (mg_Files m) o' None)) (\<lambda>_.
     finishOperation m o')))))"

definition recover_kept :: "'w manager \<Rightarrow> operation \<Rightarrow> account option \<Rightarrow> ('w, unit) oper" where
  "recover_kept m o' desired =
     and_do (wrap_do ''recover account files: '' (fl_Recover (mg_Files m) o' desired)) (\<lambda>_.
     and_do (wrap_do ''render recovered account projection: '' (mg_Projection m)) (\<lambda>_.
     and_do (wrap_do ''recover account runtime: '' (cr_ReconcileAccount (mg_Runtime m)
        (case desired of None \<Rightarrow> op_AccountID o' | Some a \<Rightarrow> if ac_ID a = op_AccountID o' then op_NewAccountID o' else op_AccountID o') desired)) (\<lambda>_.
     and_do (recoverEvacuatedRoutes m o' desired) (\<lambda>_.
     and_do (wrap_do ''activate recovered account snapshot: '' (mg_Snapshots m)) (\<lambda>_.
     finishOperation m o')))))"

definition recover_policy :: "'w manager \<Rightarrow> operation \<Rightarrow> ('w, unit) oper" where
  "recover_policy m o' =
     and_do (wrap_do ''render recovered account policy: '' (mg_Projection m)) (\<lambda>_.
     and_do (wrap_do ''activate recovered account policy: '' (mg_Snapshots m)) (\<lambda>_.
     finishOperation m o'))"

definition recover_operation :: "'w manager \<Rightarrow> operation \<Rightarrow> ('w, unit) oper" where
  "recover_operation m o' =
     and_do (recoveryAccount m o') (\<lambda>desired.
     if op_Phase o' = phaseAccepted \<and> acceptedStateIsUnchanged o' desired
     then and_do (if op_Kind o' = operationCreate
                  then wrap_do ''clean accepted account creation files: '' (fl_Recover (mg_Files m) o' None) else ok_do ()) (\<lambda>_.
          finishOperation m o')
     else if op_Phase o' = phaseRoutesPrepared \<and>
             (op_Kind o' = operationClearAuth \<or> op_Kind o' = operationUpdate \<and> updateStateIsUnchanged o' desired)
     then and_do (recoverEvacuatedRoutes m o' desired) (\<lambda>_.
          and_do (wrap_do ''activate early account recovery snapshot: '' (mg_Snapshots m)) (\<lambda>_.
          finishOperation m o'))
     else and_do (recoverProxySecrets m o' desired) (\<lambda>_.
          if desired = None \<and> (op_Kind o' = operationCreate \<or> op_Kind o' = operationDelete)
          then recover_removed m o' else recover_kept m o' desired))"

definition Recover :: "'w manager \<Rightarrow> ('w, unit) oper" where
  "Recover m =
     and_do (wrap_do ''read account lifecycle recovery journal: '' (read_journal m)) (\<lambda>found.
     case found of None \<Rightarrow> ok_do ()
     | Some o' \<Rightarrow>
         (case validateOperation (mg_ParseUUID m) o' of
            Some e \<Rightarrow> lift_do (Inl (ErrWrap [] ErrLifecycleRecoveryRequired ('': '' @ err_text e)))
          | None \<Rightarrow> if op_Kind o' = operationPolicy then recover_policy m o' else recover_operation m o'))"

end
