(* ===== verification/Lifecycle_World.thy ===== *)
theory Lifecycle_World
  imports Lifecycle_Recovery Control_Secrets
begin

text \<open>
  The lifecycle manager as the administration process starts it (\<open>cmd/admin/main.go\<close>): its store is the control plane
  with its secrets, its account states come from the state provider (\<open>internal/failover/providers.go\<close>). The world holds
  the control plane, the vault and everything outside, of a type \<open>'x\<close> that is a parameter: files, containers, gateways.
  \<open>pw_step\<close> counts the operations; each meets the environment that \<open>lifecycle_around\<close> gives for its number.
  What the files, the containers and the gateways do is a parameter, too, that can read the store. Rendering and
  publishing synchronise the internal keys and change nothing else in the control plane; the others do not change it.
\<close>

record 'x pool_world =
  pw_step :: nat
  pw_control :: db
  pw_vault :: vault
  pw_outside :: 'x

type_synonym 'x site = "db \<times> vault \<times> 'x"

record 'x outside =
  ou_Files :: "'x site account_files"
  ou_Render :: "('x site, unit) oper"
  ou_Publish :: "('x site, string) oper"
  ou_Runtime :: "'x site account_runtime"
  ou_WaitAccountDrained :: "(string \<Rightarrow> ('x site, unit) oper) option"
  ou_NewUUID :: "nat \<Rightarrow> string"

record lifecycle_around =
  la_fence :: fence
  la_env :: "nat \<Rightarrow> env"
  la_key :: "nat \<Rightarrow> key_env"
  la_cipher :: cipher
  la_ParseUUID :: "string \<Rightarrow> gerr option"
  la_ParseAddress :: "string \<Rightarrow> string option"
  la_ParseURL :: "string \<Rightarrow> proxy_url option"

definition pass_step :: "'x pool_world \<Rightarrow> 'x pool_world" where "pass_step w = w\<lparr>pw_step := Suc (pw_step w)\<rparr>"

section \<open>The store\<close>

definition pool_read :: "lifecycle_around \<Rightarrow> (env \<Rightarrow> db \<Rightarrow> gerr + 'a) \<Rightarrow> ('x pool_world, 'a) oper" where
  "pool_read a f w = (f (la_env a (pw_step w)) (pw_control w), pass_step w)"

definition pool_write :: "lifecycle_around \<Rightarrow> (fence \<Rightarrow> env \<Rightarrow> db \<Rightarrow> (gerr + 'a) \<times> db) \<Rightarrow> ('x pool_world, 'a) oper" where
  "pool_write a f w =
     (case f (la_fence a) (la_env a (pw_step w)) (pw_control w) of (r, d) \<Rightarrow> (r, (pass_step w)\<lparr>pw_control := d\<rparr>))"

definition vault_read :: "lifecycle_around \<Rightarrow> string \<Rightarrow> ('x pool_world, string option) oper" where
  "vault_read a name w =
     (case ReadSecret (la_cipher a) (la_env a (pw_step w)) (la_key a (pw_step w)) name (pw_vault w) of
        (r, v) \<Rightarrow> (r, (pass_step w)\<lparr>pw_vault := v\<rparr>))"

definition vault_write ::
  "lifecycle_around \<Rightarrow> (fence \<Rightarrow> env \<Rightarrow> key_env \<Rightarrow> db \<Rightarrow> vault \<Rightarrow> (gerr + unit) \<times> db \<times> vault) \<Rightarrow> ('x pool_world, unit) oper" where
  "vault_write a f w =
     (case f (la_fence a) (la_env a (pw_step w)) (la_key a (pw_step w)) (pw_control w) (pw_vault w) of
        (r, d, v) \<Rightarrow> (r, (pass_step w)\<lparr>pw_control := d, pw_vault := v\<rparr>))"

definition pool_store :: "lifecycle_around \<Rightarrow> 'x pool_world lifecycle_store" where
  "pool_store a =
     \<lparr>ls_ReadAccounts = pool_read a ReadAccounts, ls_ReadSettings = pool_read a ReadSettings,
      ls_ReadSecret = vault_read a,
      ls_WriteSecret = (\<lambda>name secret. vault_write a (\<lambda>fence env ke. WriteSecret (la_cipher a) fence env ke name secret)),
      ls_DeleteSecret = (\<lambda>name. vault_write a (\<lambda>fence env ke. DeleteSecret fence env name)),
      ls_ReadAccountLifecycle = (\<lambda>accountID. pool_read a (\<lambda>env. ReadAccountLifecycle env accountID)),
      ls_ApplyAccountCreation = (\<lambda>account. pool_write a (\<lambda>fence env. ApplyAccountCreation fence env (la_ParseAddress a) account)),
      ls_RestoreAccountCreation = (\<lambda>creation. pool_write a (\<lambda>fence env. RestoreAccountCreation fence env creation)),
      ls_ApplyAccountUpdate = (\<lambda>q. pool_write a (\<lambda>fence env. ApplyAccountUpdate fence env (la_ParseAddress a) q)),
      ls_RestoreAccountUpdate = (\<lambda>update. pool_write a (\<lambda>fence env. RestoreAccountUpdate fence env update)),
      ls_ApplyAccountDeletion = (\<lambda>accountID fallback revoke.
        pool_write a (\<lambda>fence env. ApplyAccountDeletion fence env accountID fallback revoke)),
      ls_RestoreAccountDeletion = (\<lambda>deletion. pool_write a (\<lambda>fence env. RestoreAccountDeletion fence env deletion)),
      ls_ReadRuntimeState = (\<lambda>name. pool_read a (\<lambda>env. ReadRuntimeState env name)),
      ls_WriteRuntimeState = (\<lambda>name payload. pool_write a (\<lambda>fence env. WriteRuntimeState fence env name payload)),
      ls_DeleteRuntimeState = (\<lambda>name. pool_write a (\<lambda>fence env. DeleteRuntimeState fence env name)),
      ls_ReadRoutes = pool_read a ReadRoutes,
      ls_ApplyRoutesExpected = (\<lambda>assignments expected. pool_write a (\<lambda>fence env. ApplyRoutesExpected fence env assignments expected))\<rparr>"

section \<open>The outside\<close>

definition beside :: "'x pool_world \<Rightarrow> 'x site" where
  "beside w = (pw_control w, pw_vault w, pw_outside w)"

text \<open>An operation outside may read the store; what it would change there is dropped.\<close>

definition on_outside :: "('x site \<Rightarrow> 'r \<times> 'x site) \<Rightarrow> 'x pool_world \<Rightarrow> 'r \<times> 'x pool_world" where
  "on_outside f w = (case f (beside w) of (r, _, _, x) \<Rightarrow> (r, (pass_step w)\<lparr>pw_outside := x\<rparr>))"

definition on_published :: "('x site \<Rightarrow> 'r \<times> 'x site) \<Rightarrow> 'x pool_world \<Rightarrow> 'r \<times> 'x pool_world" where
  "on_published f w =
     (case f (beside w) of (r, d, _, x) \<Rightarrow>
        (r, (pass_step w)\<lparr>pw_control := (pw_control w)\<lparr>db_internal_keys := db_internal_keys d\<rparr>, pw_outside := x\<rparr>))"

definition outside_files_transition :: "'x site file_transition \<Rightarrow> 'x pool_world file_transition" where
  "outside_files_transition t = \<lparr>ft_BackupPath = ft_BackupPath t, ft_Commit = on_outside (ft_Commit t), ft_Rollback = on_outside (ft_Rollback t)\<rparr>"

definition outside_runtime_transition :: "'x site runtime_transition \<Rightarrow> 'x pool_world runtime_transition" where
  "outside_runtime_transition t = \<lparr>tn_Commit = on_outside (tn_Commit t), tn_Rollback = on_outside (tn_Rollback t)\<rparr>"

definition map_result :: "('r \<Rightarrow> 's) \<Rightarrow> ('w \<Rightarrow> 'r \<times> 'w) \<Rightarrow> 'w \<Rightarrow> 's \<times> 'w" where
  "map_result g f w = (case f w of (r, w) \<Rightarrow> (g r, w))"

definition outside_files :: "'x site account_files \<Rightarrow> 'x pool_world account_files" where
  "outside_files f =
     (let prepared = (\<lambda>prepare. map_result (map_sum id outside_files_transition) (on_outside prepare))
      in \<lparr>fl_PrepareCreate = (\<lambda>operationID accountID. prepared (fl_PrepareCreate f operationID accountID)),
          fl_PrepareUpdate = (\<lambda>operationID old new backup. prepared (fl_PrepareUpdate f operationID old new backup)),
          fl_PrepareDelete = (\<lambda>operationID accountID backup. prepared (fl_PrepareDelete f operationID accountID backup)),
          fl_PrepareAuthClear = (\<lambda>operationID accountID backup. prepared (fl_PrepareAuthClear f operationID accountID backup)),
          fl_Recover = (\<lambda>o' desired. on_outside (fl_Recover f o' desired))\<rparr>)"

definition outside_runtime :: "'x site account_runtime \<Rightarrow> 'x pool_world account_runtime" where
  "outside_runtime r =
     \<lparr>cr_ReservedHostPorts = on_outside (cr_ReservedHostPorts r),
      cr_PrepareCreate = (\<lambda>account. map_result (map_sum id outside_runtime_transition) (on_outside (cr_PrepareCreate r account))),
      cr_PrepareUpdate = (\<lambda>before after. map_result
        (map_sum (\<lambda>(e, t). (e, map_option outside_runtime_transition t)) outside_runtime_transition) (on_outside (cr_PrepareUpdate r before after))),
      cr_PrepareDelete = (\<lambda>account. map_result (map_sum id outside_runtime_transition) (on_outside (cr_PrepareDelete r account))),
      cr_RestartAccount = (\<lambda>accountID. on_outside (cr_RestartAccount r accountID)),
      cr_ReconcileAccount = (\<lambda>previous desired. on_outside (cr_ReconcileAccount r previous desired))\<rparr>"

section \<open>The manager\<close>

definition pool_manager :: "lifecycle_around \<Rightarrow> 'x outside \<Rightarrow> 'x pool_world manager" where
  "pool_manager a o' =
     \<lparr>mg_Store = pool_store a, mg_Files = outside_files (ou_Files o'), mg_Projection = on_published (ou_Render o'),
      mg_Snapshots = on_published (ou_Publish o'), mg_Runtime = outside_runtime (ou_Runtime o'),
      mg_Now = (\<lambda>w. (ev_now (la_env a (pw_step w)), pass_step w)),
      mg_Drainer = map_option (\<lambda>wait accountID. on_outside (wait accountID)) (ou_WaitAccountDrained o'),
      mg_States = Some (pool_read a (\<lambda>env d. AccountStates (ReadAccounts env d) (ReadSettings env d)
        (ReadRuntimeState env RuntimeStateName d) (ev_now env))),
      mg_NewUUID = (\<lambda>w. (ou_NewUUID o' (pw_step w), pass_step w)),
      mg_ParseUUID = la_ParseUUID a, mg_ParseAddress = la_ParseAddress a, mg_ParseURL = la_ParseURL a\<rparr>"

end
