(* ===== verification/Manager_Proofs.thy ===== *)
theory Manager_Proofs
  imports Lifecycle_World Secrets_Proofs Schema_Proofs
begin

text \<open>
  The steps of the lifecycle manager: an invariant that every operation it uses keeps is kept by each of its operations,
  and every failure of a step is an error with the outcome of the compensation.
\<close>

section \<open>What steps keep\<close>

definition stays :: "('w \<Rightarrow> bool) \<Rightarrow> ('w \<Rightarrow> 'r \<times> 'w) \<Rightarrow> bool" where
  "stays P f \<longleftrightarrow> (\<forall>w. P w \<longrightarrow> P (snd (f w)))"

named_theorems stays

lemma stays_return [stays]: "stays P (\<lambda>w. (r, w))" by (simp add: stays_def)

lemma stays_steps [stays]:
  "stays P (ok_do x)" "stays P (lift_do r)" "stays P (done_with y)" "stays P (nothing_done e)"
  by (simp_all add: stays_def ok_do_def lift_do_def done_with_def nothing_done_def)

lemma stays_prod [stays]: "stays P f \<Longrightarrow> (\<And>r. stays P (\<lambda>w. g r w)) \<Longrightarrow> stays P (\<lambda>w. case f w of (r, w') \<Rightarrow> g r w')"
  by (auto simp: stays_def split: prod.split)

lemma stays_branches [stays]:
  "(\<And>e. stays P (\<lambda>w. f e w)) \<Longrightarrow> (\<And>x. stays P (\<lambda>w. g x w)) \<Longrightarrow> stays P (\<lambda>w. case c of Inl e \<Rightarrow> f e w | Inr x \<Rightarrow> g x w)"
  "stays P (\<lambda>w. f2 w) \<Longrightarrow> (\<And>x. c2 = Some x \<Longrightarrow> stays P (\<lambda>w. g2 x w)) \<Longrightarrow> stays P (\<lambda>w. case c2 of None \<Rightarrow> f2 w | Some x \<Rightarrow> g2 x w)"
  "stays P (\<lambda>w. f3 w) \<Longrightarrow> stays P (\<lambda>w. g3 w) \<Longrightarrow> stays P (\<lambda>w. if c3 then f3 w else g3 w)"
  "(\<And>a b. stays P (\<lambda>w. f4 a b w)) \<Longrightarrow> stays P (\<lambda>w. case p of (a, b) \<Rightarrow> f4 a b w)"
  by (auto simp: stays_def split: sum.split option.split prod.split)

lemma stays_cases [stays]:
  "stays P f3 \<Longrightarrow> stays P g3 \<Longrightarrow> stays P (if c3 then f3 else g3)"
  "(\<And>a b. stays P (f4 a b)) \<Longrightarrow> stays P (case p of (a, b) \<Rightarrow> f4 a b)"
  "stays P f2 \<Longrightarrow> (\<And>x. c2 = Some x \<Longrightarrow> stays P (g2 x)) \<Longrightarrow> stays P (case c2 of None \<Rightarrow> f2 | Some x \<Rightarrow> g2 x)"
  by (simp_all split: option.split prod.split)

lemma stays_do [stays]: "stays P m \<Longrightarrow> (\<And>x. stays P (k x)) \<Longrightarrow> stays P (and_do m k)"
  unfolding and_do_def [abs_def] by (intro stays)

lemma stays_wrap [stays]: "stays P m \<Longrightarrow> stays P (wrap_do text m)"
  unfolding wrap_do_def [abs_def] by (intro stays)

lemma stays_or_undo [stays]: "stays P m \<Longrightarrow> (\<And>e. stays P (u e)) \<Longrightarrow> (\<And>x. stays P (k x)) \<Longrightarrow> stays P (or_undo m u k)"
  unfolding or_undo_def [abs_def] by (intro stays)

lemma stays_undo [stays]: "stays P m \<Longrightarrow> stays P (undo_step m)" "stays P m \<Longrightarrow> stays P (undo_if c m)"
proof -
  show step: "stays P m \<Longrightarrow> stays P (undo_step m)" unfolding undo_step_def [abs_def] by (intro stays)
  show "stays P m \<Longrightarrow> stays P (undo_if c m)" unfolding undo_if_def [abs_def] by (intro stays step)
qed

text \<open>A step whose value is known to have a property.\<close>

definition yields :: "('a \<Rightarrow> bool) \<Rightarrow> ('w, 'a) oper \<Rightarrow> bool" where
  "yields R m \<longleftrightarrow> (\<forall>w x w'. m w = (Inr x, w') \<longrightarrow> R x)"

lemma stays_or_undo_yields:
  "stays P m \<Longrightarrow> yields R m \<Longrightarrow> (\<And>e. stays P (u e)) \<Longrightarrow> (\<And>x. R x \<Longrightarrow> stays P (k x)) \<Longrightarrow> stays P (or_undo m u k)"
  by (auto simp: stays_def yields_def or_undo_def split: prod.split sum.split) (metis snd_conv)+

section \<open>Managers whose operations keep an invariant\<close>

definition quiet_files :: "('w \<Rightarrow> bool) \<Rightarrow> 'w file_transition \<Rightarrow> bool" where
  "quiet_files P t \<longleftrightarrow> stays P (ft_Commit t) \<and> stays P (ft_Rollback t)"

definition quiet_runtime :: "('w \<Rightarrow> bool) \<Rightarrow> 'w runtime_transition \<Rightarrow> bool" where
  "quiet_runtime P t \<longleftrightarrow> stays P (tn_Commit t) \<and> stays P (tn_Rollback t)"

text \<open>What an operation reads before its journal is opened, and what it uses afterwards, the journal apart.\<close>

definition quiet_reads :: "('w \<Rightarrow> bool) \<Rightarrow> 'w manager \<Rightarrow> bool" where
  "quiet_reads P m \<longleftrightarrow> (let s = mg_Store m in
     stays P (ls_ReadAccounts s) \<and> stays P (ls_ReadSettings s) \<and> (\<forall>name. stays P (ls_ReadSecret s name)) \<and>
     (\<forall>i. stays P (ls_ReadAccountLifecycle s i)) \<and> stays P (ls_ReadRoutes s) \<and> (\<forall>name. stays P (ls_ReadRuntimeState s name)) \<and>
     stays P (cr_ReservedHostPorts (mg_Runtime m)) \<and> stays P (mg_Now m) \<and> stays P (mg_NewUUID m) \<and>
     (\<forall>states. mg_States m = Some states \<longrightarrow> stays P states))"

definition quiet_store :: "('w \<Rightarrow> bool) \<Rightarrow> 'w lifecycle_store \<Rightarrow> bool" where
  "quiet_store P s \<longleftrightarrow> (\<forall>n x. stays P (ls_WriteSecret s n x)) \<and> (\<forall>n. stays P (ls_DeleteSecret s n)) \<and>
     (\<forall>x. stays P (ls_ApplyAccountCreation s x)) \<and> (\<forall>x. stays P (ls_RestoreAccountCreation s x)) \<and>
     (\<forall>x. stays P (ls_ApplyAccountUpdate s x)) \<and> (\<forall>x. stays P (ls_RestoreAccountUpdate s x)) \<and>
     (\<forall>x y z. stays P (ls_ApplyAccountDeletion s x y z)) \<and> (\<forall>x. stays P (ls_RestoreAccountDeletion s x)) \<and>
     (\<forall>x y. stays P (ls_ApplyRoutesExpected s x y))"

definition quiet_outside :: "('w \<Rightarrow> bool) \<Rightarrow> 'w manager \<Rightarrow> bool" where
  "quiet_outside P m \<longleftrightarrow> stays P (mg_Projection m) \<and> stays P (mg_Snapshots m) \<and>
     (\<forall>wait x. mg_Drainer m = Some wait \<longrightarrow> stays P (wait x)) \<and> (\<forall>x. stays P (cr_RestartAccount (mg_Runtime m) x)) \<and>
     (\<forall>x y. stays P (cr_ReconcileAccount (mg_Runtime m) x y)) \<and> (\<forall>x y. stays P (fl_Recover (mg_Files m) x y))"

definition quiet_prepared :: "('w \<Rightarrow> bool) \<Rightarrow> 'w manager \<Rightarrow> bool" where
  "quiet_prepared P m \<longleftrightarrow> (let f = mg_Files m; r = mg_Runtime m in
     (\<forall>i a. stays P (fl_PrepareCreate f i a) \<and> yields (quiet_files P) (fl_PrepareCreate f i a)) \<and>
     (\<forall>i a b d. stays P (fl_PrepareUpdate f i a b d) \<and> yields (quiet_files P) (fl_PrepareUpdate f i a b d)) \<and>
     (\<forall>i a d. stays P (fl_PrepareDelete f i a d) \<and> yields (quiet_files P) (fl_PrepareDelete f i a d)) \<and>
     (\<forall>i a d. stays P (fl_PrepareAuthClear f i a d) \<and> yields (quiet_files P) (fl_PrepareAuthClear f i a d)) \<and>
     (\<forall>a. stays P (cr_PrepareCreate r a) \<and> yields (quiet_runtime P) (cr_PrepareCreate r a)) \<and>
     (\<forall>a. stays P (cr_PrepareDelete r a) \<and> yields (quiet_runtime P) (cr_PrepareDelete r a)) \<and>
     (\<forall>a b. stays P (cr_PrepareUpdate r a b) \<and>
        (\<forall>w e t w'. cr_PrepareUpdate r a b w = (Inl (e, Some t), w') \<longrightarrow> quiet_runtime P t) \<and>
        (\<forall>w t w'. cr_PrepareUpdate r a b w = (Inr t, w') \<longrightarrow> quiet_runtime P t)))"

lemma quiet_reads_stays:
  assumes "quiet_reads P m"
  shows "stays P (ls_ReadAccounts (mg_Store m))" "stays P (ls_ReadSettings (mg_Store m))" "stays P (ls_ReadSecret (mg_Store m) name)"
    "stays P (ls_ReadAccountLifecycle (mg_Store m) i)" "stays P (ls_ReadRoutes (mg_Store m))"
    "stays P (ls_ReadRuntimeState (mg_Store m) name)" "stays P (cr_ReservedHostPorts (mg_Runtime m))" "stays P (mg_Now m)"
    "stays P (mg_NewUUID m)" "mg_States m = Some states \<Longrightarrow> stays P states"
  using assms by (simp_all add: quiet_reads_def Let_def)

lemma quiet_store_stays:
  assumes "quiet_store P s"
  shows "stays P (ls_WriteSecret s n v)" "stays P (ls_DeleteSecret s n)" "stays P (ls_ApplyAccountCreation s x1)"
    "stays P (ls_RestoreAccountCreation s x2)" "stays P (ls_ApplyAccountUpdate s x3)" "stays P (ls_RestoreAccountUpdate s x4)"
    "stays P (ls_ApplyAccountDeletion s x5 y5 z5)" "stays P (ls_RestoreAccountDeletion s x6)" "stays P (ls_ApplyRoutesExpected s x7 y7)"
  using assms by (simp_all add: quiet_store_def)

lemma quiet_outside_stays:
  assumes "quiet_outside P m"
  shows "stays P (mg_Projection m)" "stays P (mg_Snapshots m)" "mg_Drainer m = Some wait \<Longrightarrow> stays P (wait x)"
    "stays P (cr_RestartAccount (mg_Runtime m) x)" "stays P (cr_ReconcileAccount (mg_Runtime m) x y)" "stays P (fl_Recover (mg_Files m) o' y)"
  using assms by (simp_all add: quiet_outside_def)

lemma quiet_transitions:
  "quiet_files P t \<Longrightarrow> stays P (ft_Commit t)" "quiet_files P t \<Longrightarrow> stays P (ft_Rollback t)"
  "quiet_runtime P r \<Longrightarrow> stays P (tn_Commit r)" "quiet_runtime P r \<Longrightarrow> stays P (tn_Rollback r)"
  by (simp_all add: quiet_files_def quiet_runtime_def)


section \<open>The checks only read\<close>

lemma stays_fallback [stays]: "quiet_reads P m \<Longrightarrow> stays P (selectEligibleFallback m i f)"
  unfolding selectEligibleFallback_def [abs_def] by (auto intro!: stays quiet_reads_stays)

lemma stays_port [stays]: "quiet_reads P m \<Longrightarrow> stays P (allocatePort m)"
  unfolding allocatePort_def by (intro stays quiet_reads_stays; assumption)

lemma stays_capture [stays]: "quiet_reads P m \<Longrightarrow> stays P (capture_secrets m names before)"
  by (induction names arbitrary: before) (auto intro!: stays quiet_reads_stays)

lemma stays_capture_plan [stays]: "quiet_reads P m \<Longrightarrow> stays P (CapturePlan m plan)"
  unfolding CapturePlan_def by (intro stays; assumption)

lemma stays_proxy_plan [stays]: "quiet_reads P m \<Longrightarrow> stays P (updateProxyPlan m a b u)"
  unfolding updateProxyPlan_def Let_def by (intro stays quiet_reads_stays; assumption)

lemma stays_repair [stays]: "quiet_reads P m \<Longrightarrow> stays P (validateUnavailableProxyRepair m q s a e p d)"
  unfolding validateUnavailableProxyRepair_def Let_def by (auto intro!: stays quiet_reads_stays split: option.split)

lemma stays_plan_routes [stays]: "quiet_reads P m \<Longrightarrow> stays P (planRouteEvacuation m i f)"
  unfolding planRouteEvacuation_def Let_def by (intro stays quiet_reads_stays; assumption)

lemma stays_checks:
  assumes "quiet_reads P m"
  shows "stays P (create_checks m cq)" "stays P (policy_checks m uq)" "stays P (update_checks m uq)" "stays P (delete_checks m dq)"
    "stays P (clear_checks m i)"
  unfolding create_checks_def policy_checks_def update_checks_def delete_checks_def clear_checks_def Let_def
  by (intro stays quiet_reads_stays assms)+

lemma stays_read_journal: "quiet_reads P m \<Longrightarrow> stays P (read_journal m)"
  unfolding read_journal_def by (intro stays quiet_reads_stays; assumption)


section \<open>The steps of the operations\<close>

text \<open>An invariant that every operation the manager uses keeps, the steps of the journal included.\<close>

locale lifecycle_steps =
  fixes P :: "'w \<Rightarrow> bool" and m :: "'w manager"
  assumes reads: "quiet_reads P m" and store: "quiet_store P (mg_Store m)" and around: "quiet_outside P m"
    and prepared: "quiet_prepared P m" and advance: "stays P (advanceOperation m o' phase backup)"
begin

lemmas quiet_steps = quiet_reads_stays [OF reads] quiet_store_stays [OF store] quiet_outside_stays [OF around]

lemma reading: "stays P (selectEligibleFallback m i f)" "stays P (planRouteEvacuation m i f)" "stays P (CapturePlan m plan)"
  using reads by (rule stays)+

lemma write_value: "stays P (writeSecretValue m name v)"
  unfolding writeSecretValue_def by (intro stays quiet_steps)

lemma apply_plan: "stays P (ApplyPlan m plan)"
proof -
  have "stays P (apply_secrets m vals names)" for vals names
    by (induction names) (auto intro!: stays write_value)
  then show ?thesis unfolding ApplyPlan_def by (intro stays)
qed

lemma rollback_plan: "stays P (RollbackPlan m plan)"
proof -
  have "stays P (restore_secrets m vals names errors)" for vals names errors
  proof (induction names arbitrary: errors)
    case Nil
    then show ?case by (simp add: stays_def)
  next
    case (Cons name names)
    then show ?case
      using stays_undo(1) [OF stays_wrap [OF write_value [of name "mget None vals name"]]]
      by (auto simp: stays_def split: prod.split) (metis snd_conv)
  qed
  then show ?thesis unfolding RollbackPlan_def [abs_def] by (intro stays)
qed

lemma restore_to: "stays P (restoreTo m t target)"
  unfolding restoreTo_def [abs_def] Let_def by (intro stays quiet_steps)

lemma undo_evacuation: "stays P (undo_evacuation m t cause)"
  unfolding undo_evacuation_def [abs_def] by (intro stays restore_to quiet_steps)

lemma apply_evacuation: "stays P (ApplyEvacuation m t)"
  unfolding ApplyEvacuation_def by (intro stays undo_evacuation quiet_steps; assumption)

lemma evacuate: "(\<And>e. stays P (back e)) \<Longrightarrow> (\<And>o'. stays P (k o')) \<Longrightarrow> stays P (evacuate_for m o' routes back k)"
  unfolding evacuate_for_def by (intro stays advance apply_evacuation)

lemma published: "stays P (restorePublishedState m e)"
  unfolding restorePublishedState_def [abs_def] by (intro stays quiet_steps)

lemma files_back: "quiet_files P t \<Longrightarrow> stays P (rollbackFiles (Some t))" "stays P (rollbackFiles None)"
  unfolding rollbackFiles_def [abs_def] option.case by (intro stays quiet_transitions; assumption)+

lemma runtime_back: "(\<And>r. t = Some r \<Longrightarrow> quiet_runtime P r) \<Longrightarrow> stays P (rollbackRuntime t)"
  unfolding rollbackRuntime_def [abs_def] by (auto intro!: stays quiet_transitions)

lemma secrets_back: "stays P (rollbackSecrets m plan)"
  unfolding rollbackSecrets_def by (intro stays rollback_plan)

lemma all_back:
  assumes "stays P restore" "quiet_files P files" "\<And>r. runtime = Some r \<Longrightarrow> quiet_runtime P r"
  shows "stays P (rollback_all m restore files runtime plan cause)"
  unfolding rollback_all_def [abs_def] by (intro stays files_back runtime_back secrets_back published assms)

lemma creation_back:
  assumes "quiet_files P files" "\<And>r. runtime = Some r \<Longrightarrow> quiet_runtime P r"
  shows "stays P (rollbackCreation m creation files runtime plan cause)"
  unfolding rollbackCreation_def by (intro all_back quiet_steps assms)

lemma deletion_back:
  assumes "quiet_files P files" "\<And>r. runtime = Some r \<Longrightarrow> quiet_runtime P r"
  shows "stays P (rollbackDeletion m deletion files runtime plan cause)"
  unfolding rollbackDeletion_def by (intro all_back quiet_steps assms)

lemma update_back:
  assumes "\<And>t. files = Some t \<Longrightarrow> quiet_files P t" "\<And>r. runtime = Some r \<Longrightarrow> quiet_runtime P r"
  shows "stays P (rollbackUpdate m update files runtime plan routes cause)"
proof -
  have "stays P (rollbackFiles files)" using assms(1) files_back by (cases files) auto
  then show ?thesis
    unfolding rollbackUpdate_def [abs_def] by (intro stays runtime_back secrets_back restore_to published quiet_steps assms)
qed

lemma clear_back:
  assumes "\<And>t. files = Some t \<Longrightarrow> quiet_files P t"
  shows "stays P (rollbackAuthClear m files routes i cause)"
proof -
  have "stays P (rollbackFiles files)" using assms files_back by (cases files) auto
  then show ?thesis unfolding rollbackAuthClear_def [abs_def] by (intro stays restore_to quiet_steps)
qed

text \<open>The steps that prepare a transition, which later steps commit or roll back.\<close>

lemma prepare_files:
  assumes "\<And>e. stays P (u e)" "\<And>t. quiet_files P t \<Longrightarrow> stays P (k t)"
  shows "stays P (or_undo (fl_PrepareCreate (mg_Files m) i a) u k)" "stays P (or_undo (fl_PrepareUpdate (mg_Files m) i a b d) u k)"
    "stays P (or_undo (fl_PrepareDelete (mg_Files m) i a d) u k)" "stays P (or_undo (fl_PrepareAuthClear (mg_Files m) i a d) u k)"
  by (rule stays_or_undo_yields [where R = "quiet_files P"]; use prepared assms in \<open>simp add: quiet_prepared_def Let_def\<close>)+

lemma prepare_runtime:
  assumes "\<And>e. stays P (u e)" "\<And>t. quiet_runtime P t \<Longrightarrow> stays P (k t)"
  shows "stays P (or_undo (cr_PrepareCreate (mg_Runtime m) a) u k)" "stays P (or_undo (cr_PrepareDelete (mg_Runtime m) a) u k)"
  by (rule stays_or_undo_yields [where R = "quiet_runtime P"]; use prepared assms in \<open>simp add: quiet_prepared_def Let_def\<close>)+

lemma prepare_update:
  assumes "\<And>e t. (\<And>r. t = Some r \<Longrightarrow> quiet_runtime P r) \<Longrightarrow> stays P (u e t)" "\<And>t. quiet_runtime P t \<Longrightarrow> stays P (k t)"
  shows "stays P (\<lambda>w. case cr_PrepareUpdate (mg_Runtime m) a b w of (Inl (e, t), w) \<Rightarrow> u e t w | (Inr t, w) \<Rightarrow> k t w)"
  unfolding stays_def
proof (intro allI impI)
  have pu: "stays P (cr_PrepareUpdate (mg_Runtime m) a b) \<and>
      (\<forall>w e t w'. cr_PrepareUpdate (mg_Runtime m) a b w = (Inl (e, Some t), w') \<longrightarrow> quiet_runtime P t) \<and>
      (\<forall>w t w'. cr_PrepareUpdate (mg_Runtime m) a b w = (Inr t, w') \<longrightarrow> quiet_runtime P t)"
    using prepared unfolding quiet_prepared_def Let_def by blast
  fix w assume w: "P w"
  obtain r w' where r: "cr_PrepareUpdate (mg_Runtime m) a b w = (r, w')" by fastforce
  have w': "P w'" using pu w r unfolding stays_def by (metis snd_conv)
  show "P (snd (case cr_PrepareUpdate (mg_Runtime m) a b w of (Inl (e, t), w) \<Rightarrow> u e t w | (Inr t, w) \<Rightarrow> k t w))"
  proof (cases r)
    case (Inl x)
    obtain e t where x: "x = (e, t)" by (cases x)
    have "\<And>s. t = Some s \<Longrightarrow> quiet_runtime P s" using pu r Inl x by blast
    then show ?thesis using assms(1) [of t e] w' r Inl x by (simp add: stays_def)
  next
    case (Inr t)
    have "quiet_runtime P t" using pu r Inr by blast
    then show ?thesis using assms(2) w' r Inr by (simp add: stays_def)
  qed
qed

lemmas step_rules = prepare_files prepare_runtime advance quiet_steps creation_back deletion_back reading apply_plan files_back restore_to evacuate

lemma create_steps_stay: "stays P (create_steps m p o')"
proof -
  have activate: "stays P (activate_creation m creation files plan o')" if "quiet_files P files" for creation files plan o'
    unfolding activate_creation_def Let_def
    by (intro step_rules stays that quiet_transitions; simp)
  obtain account url where p: "p = (account, url)" by (cases p)
  show ?thesis
    unfolding create_steps_def Let_def p prod.case
    by (intro activate step_rules stays; simp)
qed

lemma policy_steps_stay: "stays P (policy_steps m q o')"
proof -
  have "stays P (rollbackPolicy m update e)" for update e
    unfolding rollbackPolicy_def [abs_def] by (intro stays published quiet_steps)
  then show ?thesis unfolding policy_steps_def by (intro step_rules stays; simp)
qed

lemma update_steps_stay: "stays P (update_steps m p o')"
proof -
  have routes: "stays P (plan_update_routes m p)"
    unfolding plan_update_routes_def Let_def by (intro reading stays)
  have activate: "stays P (activate_update m p update files runtime routes o')"
    if "quiet_files P files" "quiet_runtime P runtime" for update files runtime routes o'
    unfolding activate_update_def Let_def
    by (intro step_rules stays update_back that quiet_transitions; use that in simp)
  have change: "stays P (change_account m p fallback routes files o')" if "quiet_files P files" for fallback routes files o'
    unfolding change_account_def Let_def
    by (intro prepare_update activate step_rules stays update_back that; use that in simp)
  show ?thesis
    unfolding update_steps_def
    by (intro routes change step_rules stays update_back; simp)
qed

lemma delete_steps_stay: "stays P (delete_steps m revoke p o')"
proof -
  have wait: "stays P (wait_drained m i)" for i
    unfolding wait_drained_def by (intro stays quiet_steps; assumption)
  have activate: "stays P (activate_deletion m i deletion files plan o')" if "quiet_files P files" for i deletion files plan o'
    unfolding activate_deletion_def Let_def
    by (intro step_rules stays wait that quiet_transitions; simp)
  obtain stored rows fallback where p: "p = (stored, rows, fallback)" by (metis prod_cases3)
  show ?thesis
    unfolding delete_steps_def Let_def p prod.case
    by (intro activate step_rules stays; simp)
qed

lemma clear_steps_stay: "stays P (clear_steps m stored o')"
  unfolding clear_steps_def Let_def
  by (intro step_rules stays clear_back quiet_transitions; simp)

end


section \<open>Every failure of the steps is compensated\<close>

definition compensates :: "('w \<Rightarrow> (failure + 'a) \<times> 'w) \<Rightarrow> bool" where
  "compensates k \<longleftrightarrow> (\<forall>w f w'. k w = (Inl f, w') \<longrightarrow> (\<exists>c r. f = Compensated c r))"

definition compensation :: "('w \<Rightarrow> failure \<times> 'w) \<Rightarrow> bool" where
  "compensation u \<longleftrightarrow> (\<forall>w. \<exists>c r. fst (u w) = Compensated c r)"

named_theorems compensating

lemma compensates_done [compensating]: "compensates (done_with x)"
  by (simp add: compensates_def done_with_def)

lemma compensates_or_undo [compensating]:
  "(\<And>e. compensation (u e)) \<Longrightarrow> (\<And>x. compensates (k x)) \<Longrightarrow> compensates (or_undo m u k)"
  by (auto simp: compensates_def compensation_def or_undo_def split: prod.splits sum.splits) (metis fst_conv)

lemma compensates_cases [compensating]:
  "compensates f3 \<Longrightarrow> compensates g3 \<Longrightarrow> compensates (if c3 then f3 else g3)"
  "(\<And>a b. compensates (f4 a b)) \<Longrightarrow> compensates (case p of (a, b) \<Rightarrow> f4 a b)"
  "compensates f2 \<Longrightarrow> (\<And>x. compensates (g2 x)) \<Longrightarrow> compensates (case c2 of None \<Rightarrow> f2 | Some x \<Rightarrow> g2 x)"
  by (simp_all split: option.split prod.split)

lemma compensation_new [compensating]: "compensation (\<lambda>w. (newCompensatedError e es, f w))"
  by (simp add: compensation_def newCompensatedError_def)

lemma compensation_prod [compensating]: "(\<And>r. compensation (\<lambda>w. g r w)) \<Longrightarrow> compensation (\<lambda>w. case f w of (r, w') \<Rightarrow> g r w')"
  by (auto simp: compensation_def split: prod.split)

lemma compensations [compensating]:
  "compensation (nothing_done e)" "compensation (undo_evacuation m t e)" "compensation (rollbackCreation m c f r s e)"
  "compensation (rollbackDeletion m d f r s e)" "compensation (rollbackUpdate m u f2 r s t e)"
  "compensation (rollbackAuthClear m f2 t i e)" "compensation (rollbackPolicy m p e)"
  by (auto simp: compensation_def nothing_done_def undo_evacuation_def rollbackCreation_def rollbackDeletion_def rollback_all_def
      rollbackUpdate_def rollbackAuthClear_def rollbackPolicy_def newCompensatedError_def split: prod.split)

lemma compensates_evacuation [compensating]:
  "(\<And>e. compensation (back e)) \<Longrightarrow> (\<And>o'. compensates (k o')) \<Longrightarrow> compensates (evacuate_for m o' routes back k)"
proof -
  have unavailable: "compensates (Pair (Inl (newCompensatedError e [])))" for e
    by (simp add: compensates_def newCompensatedError_def)
  have apply': "compensates (ApplyEvacuation m t)" for t
    unfolding ApplyEvacuation_def by (intro compensating unavailable)
  assume u: "\<And>e. compensation (back e)" and k: "\<And>o'. compensates (k o')"
  have "compensates (\<lambda>w. case ApplyEvacuation m routes w of (Inl f, w) \<Rightarrow> (Inl f, w)
      | (Inr _, w) \<Rightarrow> or_undo (advanceOperation m o2 phaseRoutesEvacuated []) back k w)" for o2
    unfolding compensates_def
  proof (intro allI impI)
    have rest: "compensates (or_undo (advanceOperation m o2 phaseRoutesEvacuated []) back k)" by (intro compensating u k)
    fix w f w'
    assume run: "(case ApplyEvacuation m routes w of (Inl f, w) \<Rightarrow> (Inl f, w)
      | (Inr _, w) \<Rightarrow> or_undo (advanceOperation m o2 phaseRoutesEvacuated []) back k w) = (Inl f, w')"
    obtain r w1 where r: "ApplyEvacuation m routes w = (r, w1)" by fastforce
    show "\<exists>c r. f = Compensated c r"
    proof (cases r)
      case (Inl g)
      then have "f = g" using run r by simp
      moreover have "\<exists>c r. g = Compensated c r" using apply' [of routes, unfolded compensates_def, rule_format, of w g w1] r Inl by simp
      ultimately show ?thesis by simp
    next
      case (Inr x)
      then have "or_undo (advanceOperation m o2 phaseRoutesEvacuated []) back k w1 = (Inl f, w')" using run r by simp
      then show ?thesis using rest unfolding compensates_def by blast
    qed
  qed
  then show "compensates (evacuate_for m o' routes back k)"
    unfolding evacuate_for_def by (intro compensating)
qed

lemma compensates_prepare_update [compensating]:
  "(\<And>e t. compensation (u e t)) \<Longrightarrow> (\<And>t. compensates (k t)) \<Longrightarrow>
   compensates (\<lambda>w. case f w of (Inl (e, t), w) \<Rightarrow> (case u e t w of (x, w) \<Rightarrow> (Inl x, w)) | (Inr t, w) \<Rightarrow> k t w)"
  by (auto simp: compensates_def compensation_def split: prod.splits sum.splits) (metis fst_conv)

lemma steps_compensate:
  "compensates (create_steps m cp o')" "compensates (policy_steps m pq o')" "compensates (update_steps m up o')"
  "compensates (delete_steps m rv dp o')" "compensates (clear_steps m st o')"
proof -
  have 1: "compensates (activate_creation m creation files plan o')" for creation files plan o'
    unfolding activate_creation_def Let_def by (intro compensating)
  have 2: "compensates (activate_update m p update files runtime routes o')" for p update files runtime routes o'
    unfolding activate_update_def Let_def by (intro compensating)
  have 3: "compensates (change_account m p fallback routes files o')" for p fallback routes files o'
    unfolding change_account_def Let_def by (intro compensating 2)
  have 4: "compensates (activate_deletion m i deletion files plan o')" for i deletion files plan o'
    unfolding activate_deletion_def Let_def by (intro compensating)
  obtain a b where cp: "cp = (a, b)" by (cases cp)
  obtain c d e where dp: "dp = (c, d, e)" by (metis prod_cases3)
  show "compensates (create_steps m cp o')" unfolding create_steps_def Let_def cp prod.case by (intro compensating 1)
  show "compensates (policy_steps m pq o')" unfolding policy_steps_def by (intro compensating)
  show "compensates (update_steps m up o')" unfolding update_steps_def by (intro compensating 3)
  show "compensates (delete_steps m rv dp o')" unfolding delete_steps_def Let_def dp prod.case by (intro compensating 4)
  show "compensates (clear_steps m st o')" unfolding clear_steps_def Let_def by (intro compensating)
qed

end
