(* ===== verification/Journal_Proofs.thy ===== *)
theory Journal_Proofs
  imports Manager_Proofs
begin

text \<open>
  The journal of the lifecycle manager, over the interface it is kept behind and then on the control plane: it is there
  exactly while there is something to recover, no operation starts over it, and recovery always accepts it.
\<close>

lemma sum_mapped_Inr: "map_sum f g x = Inr y \<longleftrightarrow> (\<exists>z. x = Inr z \<and> y = g z)"
  by (cases x) auto

section \<open>The stored document\<close>

lemma dec_entries_strings: "dec_entries dec_string_of (map (\<lambda>(k, v). (k, AString v)) xs) = Some xs"
  by (induction xs) (auto simp: dec_string_of_def)

lemma norm_entries: "json_norm (enc_map AString xs) = enc_map AString xs"
  by (induction xs) (auto simp: enc_map_def)

lemma sort_key_Nil_iff [simp]: "sort_key f xs = [] \<longleftrightarrow> xs = []"
  by (metis length_0_conv length_sort)

definition operation_fields :: "operation \<Rightarrow> goany gomap" where
  "operation_fields p = (case operation_json p of AObject fs \<Rightarrow> fs | _ \<Rightarrow> [])"

lemma operation_fields_alt: "operation_fields p =
     [(''id'', AString (op_ID p)), (''kind'', AString (op_Kind p)), (''phase'', AString (op_Phase p)),
      (''account_id'', AString (op_AccountID p))] @
     (if op_NewAccountID p = [] then [] else [(''new_account_id'', AString (op_NewAccountID p))]) @
     (if op_Backup p = [] then [] else [(''backup'', AString (op_Backup p))]) @
     (if op_EvacuatedRoutes p = [] then [] else [(''evacuated_routes'', enc_map AString (sort_key fst (op_EvacuatedRoutes p)))]) @
     [(''started_at'', AInt64 (op_StartedAt p)), (''updated_at'', AInt64 (op_UpdatedAt p))]"
  by (simp add: operation_fields_def operation_json_def)

lemma operation_fields:
  "mget ANil (operation_fields p) ''id'' = AString (op_ID p)"
  "mget ANil (operation_fields p) ''kind'' = AString (op_Kind p)"
  "mget ANil (operation_fields p) ''phase'' = AString (op_Phase p)"
  "mget ANil (operation_fields p) ''account_id'' = AString (op_AccountID p)"
  "mget ANil (operation_fields p) ''new_account_id'' = (if op_NewAccountID p = [] then ANil else AString (op_NewAccountID p))"
  "mget ANil (operation_fields p) ''backup'' = (if op_Backup p = [] then ANil else AString (op_Backup p))"
  "mget ANil (operation_fields p) ''evacuated_routes'' =
     (if op_EvacuatedRoutes p = [] then ANil else enc_map AString (sort_key fst (op_EvacuatedRoutes p)))"
  "mget ANil (operation_fields p) ''started_at'' = AInt64 (op_StartedAt p)"
  "mget ANil (operation_fields p) ''updated_at'' = AInt64 (op_UpdatedAt p)"
  by (simp_all add: operation_fields_alt mget_def map_add_def)

lemma operation_roundtrip:
  assumes "in64 (op_StartedAt p)" "in64 (op_UpdatedAt p)"
  shows "dec_document zero_operation operation_of_object (Some (json_norm (operation_json p))) =
    Inr (p\<lparr>op_EvacuatedRoutes := sort_key fst (op_EvacuatedRoutes p)\<rparr>)"
proof -
  have norm: "json_norm (operation_json p) = AObject (operation_fields p)"
    using norm_entries [of "sort_key fst (op_EvacuatedRoutes p)"] by (simp add: operation_json_def operation_fields_alt)
  show ?thesis
    using assms dec_entries_strings [of "sort_key fst (op_EvacuatedRoutes p)"]
    by (simp add: norm dec_document_def dec_struct_of_def operation_of_object_def dec_string_def dec_int_def dec_map_def enc_map_def
      operation_fields)
qed

lemma evacuated_error_None: "evacuated_error routes = None \<longleftrightarrow>
    (\<forall>(user, target) \<in> set routes. norm_name user = user \<and> CHR ''@'' \<in> set user \<and> (\<exists>i. NormalizeAccountID target = Inr i))"
  by (induction routes rule: evacuated_error.induct) (auto split: sum.splits)

lemma validateOperation_sorted [simp]:
  "validateOperation u (p\<lparr>op_EvacuatedRoutes := sort_key fst (op_EvacuatedRoutes p)\<rparr>) = None \<longleftrightarrow> validateOperation u p = None"
proof -
  have "kind_error (p\<lparr>op_EvacuatedRoutes := r\<rparr>) = kind_error p" for r by (simp add: kind_error_def)
  moreover have "evacuated_error (sort_key fst (op_EvacuatedRoutes p)) = None \<longleftrightarrow> evacuated_error (op_EvacuatedRoutes p) = None"
    by (simp add: evacuated_error_None)
  ultimately show ?thesis unfolding validateOperation_def by (simp split: option.split sum.split)
qed

section \<open>The interface of the journal\<close>

text \<open>
  \<open>jn\<close> is the stored document, if any. Reading returns it; a successful write replaces it by the document written, a
  successful deletion removes it, and everything else, the failed calls included, leaves it as it is.
\<close>

locale operation_journal =
  fixes m :: "'w manager" and jn :: "'w \<Rightarrow> json option"
  assumes quiet: "quiet_reads (\<lambda>w. R (jn w)) m" "quiet_store (\<lambda>w. R (jn w)) (mg_Store m)" "quiet_outside (\<lambda>w. R (jn w)) m"
      "quiet_prepared (\<lambda>w. R (jn w)) m"
    and found: "ls_ReadRuntimeState (mg_Store m) lifecycleJournalStateName w = (Inr d, w') \<Longrightarrow> d = jn w"
    and written: "ls_WriteRuntimeState (mg_Store m) lifecycleJournalStateName doc w = (Inr u, w') \<Longrightarrow> jn w' = Some (Some (json_norm doc))"
    and not_written: "ls_WriteRuntimeState (mg_Store m) lifecycleJournalStateName doc w = (Inl e, w') \<Longrightarrow> jn w' = jn w"
    and deleted: "ls_DeleteRuntimeState (mg_Store m) lifecycleJournalStateName w = (Inr u, w') \<Longrightarrow> jn w' = None"
    and not_deleted: "ls_DeleteRuntimeState (mg_Store m) lifecycleJournalStateName w = (Inl e, w') \<Longrightarrow> jn w' = jn w"
begin

text \<open>A record of the journal that was written: valid, its last timestamp an \<open>int64\<close>.\<close>

definition proper :: "operation \<Rightarrow> bool" where
  "proper p \<longleftrightarrow> validateOperation (mg_ParseUUID m) p = None \<and> in64 (op_UpdatedAt p)"

lemma write_cases:
  assumes "write_journal m text o' w = (r, w')"
  shows "(\<exists>e. r = Inl e) \<and> jn w' = jn w \<or>
    r = Inr o' \<and> jn w' = Some (Some (json_norm (operation_json o'))) \<and> validateOperation (mg_ParseUUID m) o' = None"
proof (cases "validateOperation (mg_ParseUUID m) o'")
  case (Some e)
  then show ?thesis using assms by (auto simp: write_journal_def)
next
  case None
  obtain s w1 where s: "ls_WriteRuntimeState (mg_Store m) lifecycleJournalStateName (operation_json o') w = (s, w1)" by fastforce
  show ?thesis
  proof (cases s)
    case (Inl e)
    then show ?thesis using assms None s not_written [OF s [unfolded Inl]]
      by (auto simp: write_journal_def and_do_def wrap_do_def wrapping_def)
  next
    case (Inr u)
    then show ?thesis using assms None s written [OF s [unfolded Inr]]
      by (auto simp: write_journal_def and_do_def wrap_do_def wrapping_def ok_do_def)
  qed
qed

lemma now_keeps: "jn (snd (mg_Now m w)) = jn w" "jn (snd (mg_NewUUID m w)) = jn w"
  using quiet_reads_stays(8,9) [OF quiet(1) [where R = "\<lambda>j. j = jn w"]] by (simp_all add: stays_def)

lemma advance_cases:
  assumes "advanceOperation m o' phase backup w = (r, w')"
  shows "(\<exists>e. r = Inl e) \<and> jn w' = jn w \<or> (\<exists>p. r = Inr p \<and> jn w' = Some (Some (json_norm (operation_json p))) \<and> proper p)"
  using assms now_keeps(1) [of w]
  by (cases "mg_Now m w") (auto simp: advanceOperation_def proper_def dest!: write_cases)

lemma read_journal_cases:
  assumes "read_journal m w = (r, w')"
  shows "jn w' = jn w \<and> (case r of Inl e \<Rightarrow> True | Inr None \<Rightarrow> jn w = None
    | Inr (Some o') \<Rightarrow> (\<exists>doc. jn w = Some doc \<and> dec_document zero_operation operation_of_object doc = Inr o'))"
proof -
  obtain s w1 where s: "ls_ReadRuntimeState (mg_Store m) lifecycleJournalStateName w = (s, w1)" by fastforce
  have "jn w1 = jn w" using quiet_reads_stays(6) [OF quiet(1) [where R = "\<lambda>j. j = jn w"], of lifecycleJournalStateName] s
    by (auto simp: stays_def)
  then show ?thesis
    using assms s found [of w _ w1]
    by (cases s) (auto simp: read_journal_def and_do_def sum_mapped_Inr split: option.splits sum.splits)
qed

lemma begin_cases:
  assumes "beginOperation m kind a b w = (r, w')"
  shows "(\<exists>e. r = Inl e) \<and> jn w' = jn w \<or>
    (\<exists>p. r = Inr p \<and> jn w = None \<and> jn w' = Some (Some (json_norm (operation_json p))) \<and> proper p)"
proof -
  obtain s w1 where s: "read_journal m w = (s, w1)" by fastforce
  note read = read_journal_cases [OF s]
  show ?thesis
  proof (cases s)
    case (Inl e)
    then show ?thesis using assms s read by (auto simp: beginOperation_def and_do_def wrap_do_def wrapping_def)
  next
    case (Inr existing)
    show ?thesis
    proof (cases existing)
      case (Some o')
      then show ?thesis using assms s Inr read by (auto simp: beginOperation_def and_do_def wrap_do_def wrapping_def)
    next
      case None
      then show ?thesis
        using assms s Inr read now_keeps(1) [of w1] now_keeps(2) [of "snd (mg_Now m w1)"]
        by (auto simp: beginOperation_def and_do_def wrap_do_def wrapping_def proper_def split: prod.splits dest!: write_cases)
    qed
  qed
qed

lemma finish_cases:
  assumes "finishOperation m o' w = (r, w')"
  shows "case r of Inl e \<Rightarrow> jn w' = jn w | Inr u \<Rightarrow> jn w' = None"
proof -
  obtain s w1 where s: "ls_DeleteRuntimeState (mg_Store m) lifecycleJournalStateName w = (s, w1)" by fastforce
  then show ?thesis using assms deleted not_deleted
    by (cases s) (auto simp: finishOperation_def wrap_do_def wrapping_def)
qed

definition valid_journal :: "'w \<Rightarrow> bool" where
  "valid_journal w \<longleftrightarrow> jn w = None \<or> (\<exists>p. jn w = Some (Some (json_norm (operation_json p))) \<and> proper p)"

end

sublocale operation_journal \<subseteq> open_journal: lifecycle_steps "\<lambda>w. jn w \<noteq> None" m
proof (rule lifecycle_steps.intro)
  show "stays (\<lambda>w. jn w \<noteq> None) (advanceOperation m o' phase backup)" for o' phase backup
    using advance_cases unfolding stays_def by (metis option.distinct(1) surjective_pairing)
qed (rule quiet)+

sublocale operation_journal \<subseteq> good_journal: lifecycle_steps valid_journal m
proof (rule lifecycle_steps.intro)
  show "stays valid_journal (advanceOperation m o' phase backup)" for o' phase backup
    unfolding stays_def valid_journal_def using advance_cases by (metis surjective_pairing)
qed (unfold valid_journal_def, (rule quiet [where R = "\<lambda>j. j = None \<or>
       (\<exists>p. j = Some (Some (json_norm (operation_json p))) \<and> proper p)"])+)

context operation_journal
begin

text \<open>How an operation that found no journal ends.\<close>

definition settled :: "'w \<Rightarrow> 'a outcome \<Rightarrow> bool" where
  "settled w out \<longleftrightarrow>
     (if jn w = None then (\<exists>x. out = (Some x, None)) \<or> (\<exists>e. out = (None, Some (Plain e))) \<or> (\<exists>c. out = (None, Some (Compensated c None)))
      else (\<exists>c r. out = (None, Some (Compensated c (Some r)))) \<or> (\<exists>f e. snd out = Some (Unfinished f e)))"

lemma finalize_settled:
  assumes "finalizeOperation m o' (r, w) = (out, w')" "jn w \<noteq> None" "\<And>f. r = Inl f \<Longrightarrow> \<exists>c e. f = Compensated c e"
  shows "settled w' out"
proof (cases "\<exists>c e. r = Inl (Compensated c (Some e))")
  case True
  then show ?thesis using assms by (auto simp: finalizeOperation_def settled_def keeps_journal_def)
next
  case False
  obtain s w1 where s: "finishOperation m o' w = (s, w1)" by fastforce
  show ?thesis
    using assms False s finish_cases [OF s]
    by (cases r; cases s) (auto simp: finalizeOperation_def settled_def keeps_journal_def split: option.splits)
qed

lemma journalled_settled:
  assumes "journalled m checks steps w = (out, w')" "jn w = None" "stays (\<lambda>w. jn w = None) checks"
    and "\<And>p o'. stays (\<lambda>w. jn w \<noteq> None) (steps p o')" "\<And>p o'. compensates (steps p o')"
  shows "settled w' out"
proof -
  obtain r w1 where r: "checks w = (r, w1)" by fastforce
  have w1: "jn w1 = None" using assms(2,3) r unfolding stays_def by (metis snd_conv)
  show ?thesis
  proof (cases r)
    case (Inl e)
    then show ?thesis using assms(1) r w1 by (auto simp: journalled_def and_do_def settled_def)
  next
    case (Inr c)
    obtain p kind a b where c: "c = (p, kind, a, b)" by (metis prod_cases4)
    obtain s w2 where s: "beginOperation m kind a b w1 = (s, w2)" by fastforce
    show ?thesis
    proof (cases s)
      case (Inl e)
      then show ?thesis using assms(1) r \<open>r = Inr c\<close> c s begin_cases [OF s] w1 by (auto simp: journalled_def and_do_def settled_def)
    next
      case (Inr o')
      obtain t w3 where t: "steps p o' w2 = (t, w3)" by fastforce
      have "jn w2 \<noteq> None" using begin_cases [OF s] Inr by auto
      then have "jn w3 \<noteq> None" using assms(4) t unfolding stays_def by (metis snd_conv)
      moreover have "finalizeOperation m o' (t, w3) = (out, w')"
        using assms(1) r \<open>r = Inr c\<close> c s Inr t by (simp add: journalled_def and_do_def ok_do_def)
      moreover have "\<exists>c e. f = Compensated c e" if "t = Inl f" for f using assms(5) t that unfolding compensates_def by blast
      ultimately show ?thesis by (intro finalize_settled)
    qed
  qed
qed

lemma operations_settled:
  assumes "jn w = None"
  shows "CreateAccount m cq w = (out1, w') \<Longrightarrow> settled w' out1" "UpdateAccount m uq w = (out2, w') \<Longrightarrow> settled w' out2"
    "DeleteAccount m dq w = (out3, w') \<Longrightarrow> settled w' out3" "ClearAuth m i w = (out4, w') \<Longrightarrow> settled w' out4"
proof -
  show "CreateAccount m cq w = (out1, w') \<Longrightarrow> settled w' out1"
    unfolding CreateAccount_def
    by (erule journalled_settled [OF _ assms stays_checks(1) [OF quiet(1)] open_journal.create_steps_stay steps_compensate(1)])
  show "UpdateAccount m uq w = (out2, w') \<Longrightarrow> settled w' out2"
    unfolding UpdateAccount_def updatePolicy_def
    using journalled_settled [OF _ assms stays_checks(2) [OF quiet(1)] open_journal.policy_steps_stay steps_compensate(2)]
      journalled_settled [OF _ assms stays_checks(3) [OF quiet(1)] open_journal.update_steps_stay steps_compensate(3)]
    by (simp split: if_splits)
  show "DeleteAccount m dq w = (out3, w') \<Longrightarrow> settled w' out3"
    unfolding DeleteAccount_def
    by (erule journalled_settled [OF _ assms stays_checks(4) [OF quiet(1)] open_journal.delete_steps_stay steps_compensate(4)])
  show "ClearAuth m i w = (out4, w') \<Longrightarrow> settled w' out4"
    unfolding ClearAuth_def
    by (erule journalled_settled [OF _ assms stays_checks(5) [OF quiet(1)] open_journal.clear_steps_stay steps_compensate(5)])
qed

text \<open>No operation passes its checks while there is a journal.\<close>

lemma journalled_blocked:
  assumes "journalled m checks steps w = (out, w')" "jn w \<noteq> None" "stays (\<lambda>w. jn w \<noteq> None) checks"
    and "stays Q checks" "quiet_reads Q m" "Q w"
  shows "(\<exists>e. out = (None, Some (Plain e))) \<and> Q w'"
proof -
  obtain r w1 where r: "checks w = (r, w1)" by fastforce
  have w1: "jn w1 \<noteq> None" "Q w1" using assms(2-4,6) r unfolding stays_def by (metis snd_conv)+
  show ?thesis
  proof (cases r)
    case (Inl e)
    then show ?thesis using assms(1) r w1 by (auto simp: journalled_def and_do_def)
  next
    case (Inr c)
    obtain p kind a b where c: "c = (p, kind, a, b)" by (metis prod_cases4)
    obtain s w2 where s: "read_journal m w1 = (s, w2)" by fastforce
    have "Q w2" using stays_read_journal [OF assms(5)] s w1(2) unfolding stays_def by (metis snd_conv)
    moreover have "s \<noteq> Inr None" using read_journal_cases [OF s] w1(1) by auto
    ultimately show ?thesis
      using assms(1) r \<open>r = Inr c\<close> c s
      by (auto simp: journalled_def and_do_def beginOperation_def wrap_do_def wrapping_def split: sum.splits option.splits)
  qed
qed

lemma operations_blocked:
  assumes "jn w \<noteq> None" "quiet_reads Q m" "Q w"
  shows "CreateAccount m cq w = (out1, w') \<Longrightarrow> (\<exists>e. out1 = (None, Some (Plain e))) \<and> Q w'"
    "UpdateAccount m uq w = (out2, w') \<Longrightarrow> (\<exists>e. out2 = (None, Some (Plain e))) \<and> Q w'"
    "DeleteAccount m dq w = (out3, w') \<Longrightarrow> (\<exists>e. out3 = (None, Some (Plain e))) \<and> Q w'"
    "ClearAuth m i w = (out4, w') \<Longrightarrow> (\<exists>e. out4 = (None, Some (Plain e))) \<and> Q w'"
proof -
  note checks = stays_checks [OF quiet(1) [where R = "\<lambda>j. j \<noteq> None"]] and others = stays_checks [OF assms(2)]
  show "CreateAccount m cq w = (out1, w') \<Longrightarrow> (\<exists>e. out1 = (None, Some (Plain e))) \<and> Q w'"
    unfolding CreateAccount_def by (erule journalled_blocked [OF _ assms(1) checks(1) others(1) assms(2,3)])
  show "UpdateAccount m uq w = (out2, w') \<Longrightarrow> (\<exists>e. out2 = (None, Some (Plain e))) \<and> Q w'"
    unfolding UpdateAccount_def updatePolicy_def
    using journalled_blocked [OF _ assms(1) checks(2) others(2) assms(2,3)] journalled_blocked [OF _ assms(1) checks(3) others(3) assms(2,3)]
    by (simp split: if_splits)
  show "DeleteAccount m dq w = (out3, w') \<Longrightarrow> (\<exists>e. out3 = (None, Some (Plain e))) \<and> Q w'"
    unfolding DeleteAccount_def by (erule journalled_blocked [OF _ assms(1) checks(4) others(4) assms(2,3)])
  show "ClearAuth m i w = (out4, w') \<Longrightarrow> (\<exists>e. out4 = (None, Some (Plain e))) \<and> Q w'"
    unfolding ClearAuth_def by (erule journalled_blocked [OF _ assms(1) checks(5) others(5) assms(2,3)])
qed

subsection \<open>Recovery\<close>

text \<open>A step that ends with the journal removed, or fails and leaves it.\<close>

definition ends :: "('w, unit) oper \<Rightarrow> bool" where
  "ends f \<longleftrightarrow> (\<forall>w r w'. f w = (r, w') \<longrightarrow> (case r of Inl e \<Rightarrow> jn w' = jn w | Inr u \<Rightarrow> jn w' = None))"

lemma ends_do: "(\<And>j. stays (\<lambda>w. jn w = j) f) \<Longrightarrow> (\<And>x. ends (k x)) \<Longrightarrow> ends (and_do f k)"
  unfolding ends_def
proof (intro allI impI)
  assume f: "\<And>j. stays (\<lambda>w. jn w = j) f" and k: "\<And>x. \<forall>w r w'. k x w = (r, w') \<longrightarrow> (case r of Inl e \<Rightarrow> jn w' = jn w | Inr u \<Rightarrow> jn w' = None)"
  fix w r w' assume run: "and_do f k w = (r, w')"
  obtain s w1 where s: "f w = (s, w1)" by fastforce
  have "jn w1 = jn w" using f [of "jn w"] s unfolding stays_def by (metis snd_conv)
  then show "case r of Inl e \<Rightarrow> jn w' = jn w | Inr u \<Rightarrow> jn w' = None"
    using run s k [of _, rule_format, of _ w1 r w'] by (cases s; cases r) (auto simp: and_do_def)
qed

lemma ends_cases:
  "ends f \<Longrightarrow> ends g \<Longrightarrow> ends (if c then f else g)" "ends (finishOperation m o')" "ends (lift_do (Inl e))"
  using finish_cases by (simp_all add: ends_def lift_do_def)

lemmas quiet_here = quiet_reads_stays [OF quiet(1)] quiet_store_stays [OF quiet(2)] quiet_outside_stays [OF quiet(3)]

lemma recovery_ends: "ends (if op_Kind o' = operationPolicy then recover_policy m o' else recover_operation m o')"
proof -
  note rules = ends_do ends_cases stays quiet_here
  have account: "stays (\<lambda>w. jn w = j) (recoveryAccount m o')" for j
  proof -
    have "stays (\<lambda>w. jn w = j) (readRecoveryAccount m i)" for i
      unfolding readRecoveryAccount_def [abs_def] by (intro rules; simp)
    then show ?thesis unfolding recoveryAccount_def by (intro rules; simp)
  qed
  have require: "stays (\<lambda>w. jn w = j) (requireCustomProxy m a n)" for j a n
    unfolding requireCustomProxy_def by (intro stays quiet_here)
  have secrets: "stays (\<lambda>w. jn w = j) (recoverProxySecrets m o' desired)" for j desired
  proof -
    have renamed: "stays (\<lambda>w. jn w = j) (recover_renamed_proxy m a old new)" for a old new
      unfolding recover_renamed_proxy_def valid_proxy_def by (intro stays quiet_here require)
    show ?thesis unfolding recoverProxySecrets_def Let_def
      by (cases desired; simp only: option.case) (intro stays_cases(1) require quiet_here(11,12) stays_steps(1,2) renamed conjI impI)+
  qed
  have routes: "stays (\<lambda>w. jn w = j) (recoverEvacuatedRoutes m o' desired)" for j desired
    unfolding recoverEvacuatedRoutes_def by (intro stays quiet_here(1-9,11-21))
  have wait: "stays (\<lambda>w. jn w = j) (wait_drained m i)" for j i
    unfolding wait_drained_def by (intro stays quiet_here(22); assumption)
  show ?thesis
    unfolding recover_policy_def recover_operation_def recover_removed_def recover_kept_def
    by (intro ends_do ends_cases stays quiet_here(1-9,11-21,23-25) account secrets routes wait)
qed

lemma Recover_cases:
  assumes "Recover m w = (r, w')"
  shows "case r of Inl e \<Rightarrow> jn w' = jn w | Inr u \<Rightarrow> jn w' = None"
proof -
  obtain s w1 where s: "read_journal m w = (s, w1)" by fastforce
  note read = read_journal_cases [OF s]
  show ?thesis
  proof (cases "\<exists>o'. s = Inr (Some o') \<and> validateOperation (mg_ParseUUID m) o' = None")
    case True
    then obtain o' where o': "s = Inr (Some o')" "validateOperation (mg_ParseUUID m) o' = None" by blast
    with assms s have "(if op_Kind o' = operationPolicy then recover_policy m o' else recover_operation m o') w1 = (r, w')"
      by (simp add: Recover_def and_do_def wrap_do_def wrapping_def)
    then have "case r of Inl e \<Rightarrow> jn w' = jn w1 | Inr u \<Rightarrow> jn w' = None"
      using recovery_ends unfolding ends_def by blast
    then show ?thesis using read by (cases r) simp_all
  next
    case False
    then show ?thesis
      using assms s read
      by (cases s) (auto simp: Recover_def and_do_def wrap_do_def wrapping_def ok_do_def lift_do_def split: option.splits)
  qed
qed

text \<open>What is stored in a valid journal is read back; recovery starts from it.\<close>

lemma operation_json_sorted: "operation_json (p\<lparr>op_EvacuatedRoutes := sort_key fst (op_EvacuatedRoutes p)\<rparr>) = operation_json p"
proof -
  have "sort_key fst (sort_key fst xs) = sort_key fst xs" for xs :: "string gomap" by (rule sort_key_id_if_sorted) simp
  then show ?thesis by (simp add: operation_json_def)
qed

lemma stored_operation:
  assumes "valid_journal w" "jn w \<noteq> None" "read_journal m w = (Inr found, w')"
  shows "\<exists>p. found = Some p \<and> jn w = Some (Some (json_norm (operation_json p))) \<and> proper p"
proof -
  from assms(1,2) obtain p where p: "jn w = Some (Some (json_norm (operation_json p)))" "proper p" unfolding valid_journal_def by blast
  from read_journal_cases [OF assms(3)] p(1)
  obtain o' where o': "found = Some o'" "dec_document zero_operation operation_of_object (Some (json_norm (operation_json p))) = Inr o'"
    by (auto split: option.splits)
  have "in64 (op_UpdatedAt p)" "validateOperation (mg_ParseUUID m) p = None" using p(2) by (simp_all add: proper_def)
  moreover from this have "in64 (op_StartedAt p)"
    by (auto simp: validateOperation_def in64_def split: option.splits sum.splits if_splits)
  ultimately have "o' = p\<lparr>op_EvacuatedRoutes := sort_key fst (op_EvacuatedRoutes p)\<rparr>" using o'(2) operation_roundtrip by simp
  then show ?thesis using o'(1) p \<open>validateOperation (mg_ParseUUID m) p = None\<close> by (auto simp: operation_json_sorted proper_def)
qed

lemma steps_valid:
  assumes "valid_journal w"
  shows "valid_journal (snd (beginOperation m kind i j w))" "valid_journal (snd (advanceOperation m o' phase backup w))"
    "valid_journal (snd (finishOperation m o' w))"
proof -
  have begin_valid: "stays valid_journal (beginOperation m kind a b)" for kind a b
    unfolding stays_def valid_journal_def using begin_cases by (metis surjective_pairing)
  then show "valid_journal (snd (beginOperation m kind i j w))" using assms by (simp add: stays_def)
  show "valid_journal (snd (advanceOperation m o' phase backup w))" using good_journal.advance assms by (simp add: stays_def)
  obtain r w' where r: "finishOperation m o' w = (r, w')" by fastforce
  show "valid_journal (snd (finishOperation m o' w))"
    using finish_cases [OF r] assms r by (cases r) (simp_all add: valid_journal_def)
qed

lemma journalled_valid:
  assumes "valid_journal w" "stays valid_journal checks" "\<And>p o'. stays valid_journal (steps p o')"
  shows "valid_journal (snd (journalled m checks steps w))"
proof -
  have begin_valid: "stays valid_journal (beginOperation m kind a b)" for kind a b using steps_valid(1) by (simp add: stays_def)
  have finish: "stays valid_journal (finishOperation m o')" for o' using steps_valid(3) by (simp add: stays_def)
  have finalize: "stays valid_journal (\<lambda>w. finalizeOperation m o' (steps p o' w))" for p o'
  proof -
    have "stays valid_journal (\<lambda>w. finalizeOperation m o' (r, w))" for r
      unfolding finalizeOperation_def prod.case by (cases r) (auto intro!: stays finish)
    then show ?thesis using assms(3) [of p o'] unfolding stays_def by (metis prod.collapse)
  qed
  have "stays valid_journal (journalled m checks steps)"
    unfolding journalled_def [abs_def] by (intro stays begin_valid assms(2) finalize)
  with assms(1) show ?thesis by (simp add: stays_def)
qed

lemma operations_valid:
  assumes "valid_journal w"
  shows "valid_journal (snd (CreateAccount m cq w))" "valid_journal (snd (UpdateAccount m uq w))"
    "valid_journal (snd (DeleteAccount m dq w))" "valid_journal (snd (ClearAuth m i w))" "valid_journal (snd (Recover m w))"
proof -
  note checks = stays_checks [OF good_journal.reads]
  show "valid_journal (snd (CreateAccount m cq w))" "valid_journal (snd (UpdateAccount m uq w))"
    "valid_journal (snd (DeleteAccount m dq w))" "valid_journal (snd (ClearAuth m i w))"
    unfolding CreateAccount_def UpdateAccount_def updatePolicy_def DeleteAccount_def ClearAuth_def
    using journalled_valid [OF assms checks(1) good_journal.create_steps_stay]
      journalled_valid [OF assms checks(2) good_journal.policy_steps_stay] journalled_valid [OF assms checks(3) good_journal.update_steps_stay]
      journalled_valid [OF assms checks(4) good_journal.delete_steps_stay] journalled_valid [OF assms checks(5) good_journal.clear_steps_stay]
    by simp_all
  show "valid_journal (snd (Recover m w))"
    using Recover_cases [of w "fst (Recover m w)" "snd (Recover m w)"] assms
    by (cases "Recover m w"; cases "fst (Recover m w)") (simp_all add: valid_journal_def)
qed

end

end
