(* ===== verification/Pool_Proofs.thy ===== *)
theory Pool_Proofs
  imports Journal_Proofs
begin

text \<open>
  The lifecycle manager over the control plane: the transactions on accounts, routes and secrets leave the runtime states
  alone, so that the interface of the journal holds there, and the properties of the manager.
\<close>

section \<open>Transactions that leave the runtime states alone\<close>

lemma state_tables [simp]:
  "db_runtime_state (update_key_rows P f d) = db_runtime_state d" "db_runtime_state (delete_key_rows P d) = db_runtime_state d"
  "db_runtime_state (set_default a d) = db_runtime_state d" "db_runtime_state (restore_default s d) = db_runtime_state d"
  "db_runtime_state (reroute a b d) = db_runtime_state d" "db_runtime_state (restore_route c d) = db_runtime_state d"
  by (simp_all add: update_key_rows_def delete_key_rows_def set_default_def restore_default_def reroute_def restore_route_def split: option.split)

lemma state_inserts:
  "insert_key_row r d = Inr d' \<Longrightarrow> db_runtime_state d' = db_runtime_state d"
  "insert_account_row a d = Inr d' \<Longrightarrow> db_runtime_state d' = db_runtime_state d"
  "update_accounts P f d = Inr d' \<Longrightarrow> db_runtime_state d' = db_runtime_state d"
  "insert_route u t d = Inr d' \<Longrightarrow> db_runtime_state d' = db_runtime_state d"
  by (auto simp: insert_key_row_def insert_account_row_def update_accounts_def insert_route_def constraint_failed_def Let_def split: if_splits)

abbreviation states_are :: "json gomap \<Rightarrow> db \<Rightarrow> bool" where "states_are S \<equiv> \<lambda>d. db_runtime_state d = S"

lemma states_exec [keeps]: "(\<And>d. db_runtime_state (f d) = db_runtime_state d) \<Longrightarrow> keeps (states_are S) (exec env table text f)"
  by (rule keeps_exec) simp

lemma states_checked [keeps]:
  "keeps (states_are S) (exec_checked env table text (insert_key_row r))"
  "keeps (states_are S) (exec_checked env table text (insert_account_row a))"
  "keeps (states_are S) (exec_checked env table text (update_accounts P f))"
  "keeps (states_are S) (exec_checked env table text (insert_route u t))"
  by (rule keeps_exec_checked; simp add: state_inserts)+

lemma states_helpers [keeps]:
  "keeps (states_are S) (readStoredAccount env accountID)"
  "keeps (states_are S) (readAccountKeyRows env accountID)"
  "keeps (states_are S) (readStoredKeyRecord env sequence)"
  "keeps (states_are S) (read_routed_users env text accountID)"
  "keeps (states_are S) (exclusive_keys env accountID rows)"
  "keeps (states_are S) (lift_tx r)"
  unfolding readStoredAccount_def readAccountKeyRows_def readStoredKeyRecord_def read_routed_users_def exclusive_keys_def lift_tx_def
  by (intro keeps; simp)+

lemma states_revoke [keeps]: "keeps (states_are S) (revoke_row env now status)"
  by (auto simp: keeps_def revoke_row_def Let_def tx)

lemma states_create_rows [keeps]: "keeps (states_are S) (create_account_rows env accountID email now n actives)"
  by (induction actives arbitrary: n) (simp_all add: Let_def, (intro keeps; simp?)+)

lemma states_steps [keeps]:
  "keeps (states_are S) (require_stored_row env expected)"
  "keeps (states_are S) (require_route env text route)"
  "keeps (states_are S) (require_default env state)"
  "keeps (states_are S) (insert_rows env text rows)"
  "keeps (states_are S) (rename_routes env a b)"
  "keeps (states_are S) (disable_routes env a b c e changes)"
  "keeps (states_are S) (hand_over_default env a b was e)"
  unfolding require_stored_row_def require_route_def require_default_def insert_rows_def rename_routes_def disable_routes_def
    hand_over_default_def
  by (intro keeps; simp)+

lemma states_transactions:
  "keeps (states_are S) (create_account_in_tx env account)"
  "keeps (states_are S) (restore_account_creation_in_tx env ac)"
  "keeps (states_are S) (delete_account_in_tx env accountID fallback revoke)"
  "keeps (states_are S) (restore_account_deletion_in_tx env ad)"
  "keeps (states_are S) (update_account_in_tx env q)"
  "keeps (states_are S) (restore_account_update_in_tx env au)"
  unfolding create_account_in_tx_def Let_def restore_account_creation_in_tx_def
      delete_account_in_tx_def restore_account_deletion_in_tx_def update_account_in_tx_def restore_account_update_in_tx_def
  by (intro keeps; simp)+

lemma states_run: "writeTransaction fence env f d = (r, d') \<Longrightarrow> keeps (states_are (db_runtime_state d)) f \<Longrightarrow> db_runtime_state d' = db_runtime_state d"
  using keeps_writeTransaction [where I = "states_are (db_runtime_state d)"] by blast

lemma states_accounts:
  "ApplyAccountCreation fence env parse new d = (r1, d') \<Longrightarrow> db_runtime_state d' = db_runtime_state d"
  "RestoreAccountCreation fence env creation d = (r2, d') \<Longrightarrow> db_runtime_state d' = db_runtime_state d"
  "ApplyAccountUpdate fence env parse request d = (r3, d') \<Longrightarrow> db_runtime_state d' = db_runtime_state d"
  "RestoreAccountUpdate fence env update d = (r4, d') \<Longrightarrow> db_runtime_state d' = db_runtime_state d"
  "ApplyAccountDeletion fence env account fallback revoke d = (r5, d') \<Longrightarrow> db_runtime_state d' = db_runtime_state d"
  "RestoreAccountDeletion fence env deletion d = (r6, d') \<Longrightarrow> db_runtime_state d' = db_runtime_state d"
  by (simp add: ApplyAccountCreation_def RestoreAccountCreation_def ApplyAccountUpdate_def RestoreAccountUpdate_def
      ApplyAccountDeletion_def RestoreAccountDeletion_def Let_def split: if_splits sum.splits prod.splits option.splits;
     (erule states_run; rule states_transactions)?)+

lemma states_routes:
  assumes "ApplyRoutesExpected fence env assignments expected d = (r, d')"
  shows "db_runtime_state d' = db_runtime_state d"
proof -
  have rows: "db_runtime_state d2 = db_runtime_state d1" if "write_routes env i current users d1 x = Inr (y, d2)" for i current users d1 x y d2
    using that
    by (induction env i current users d1 x arbitrary: y d2 rule: write_routes.induct)
      (auto simp: Let_def upsert_route_def attempt_Inr_iff split: if_splits sum.splits)
  show ?thesis
  proof (cases r)
    case (Inl e)
    then show ?thesis using assms by (auto dest!: apply_error_keeps)
  next
    case (Inr u)
    then show ?thesis
      using assms
      by (auto simp: ApplyRoutesExpected_def apply_in_tx_def split: sum.splits if_splits option.splits
          dest!: writeTransaction_Inr(2)) (erule rows)
  qed
qed

lemma states_vault:
  assumes "vault_transaction fence env m d v = (r, d', v')"
    and "\<And>d rows x. m (d, rows) = Inr ((), x) \<Longrightarrow> fst x = d"
  shows "db_runtime_state d' = db_runtime_state d"
proof (cases r)
  case (Inl e)
  then show ?thesis using assms(1) vault_transaction_Inl by blast
next
  case (Inr u)
  then show ?thesis using assms(1,2) by (metis fst_conv vault_transaction_Inr)
qed

lemma states_secrets:
  "WriteSecret c fence env ke name secret d v = (r1, d', v') \<Longrightarrow> db_runtime_state d' = db_runtime_state d"
  "DeleteSecret fence env name d v = (r2, d', v') \<Longrightarrow> db_runtime_state d' = db_runtime_state d"
proof -
  show "WriteSecret c fence env ke name secret d v = (r1, d', v') \<Longrightarrow> db_runtime_state d' = db_runtime_state d"
    by (auto simp: WriteSecret_def Let_def upsert_secret_def tx split: if_splits sum.splits prod.splits elim!: states_vault)
  show "DeleteSecret fence env name d v = (r2, d', v') \<Longrightarrow> db_runtime_state d' = db_runtime_state d"
    unfolding DeleteSecret_def by (erule states_vault) (auto simp: delete_secret_def tx split: if_splits)
qed

section \<open>The journal of the control plane\<close>

definition pool_journal :: "'x pool_world \<Rightarrow> json option" where
  "pool_journal w = map_of (db_runtime_state (pw_control w)) lifecycleJournalStateName"

lemma journal_pass [simp]: "pool_journal (pass_step w) = pool_journal w"
  by (simp add: pool_journal_def pass_step_def)

lemma stays_pool_read: "stays (\<lambda>w. R (pool_journal w)) (pool_read a f)"
  by (simp add: stays_def pool_read_def)

lemma stays_pool_write:
  "(\<And>fence env d r d'. f fence env d = (r, d') \<Longrightarrow> db_runtime_state d' = db_runtime_state d) \<Longrightarrow> stays (\<lambda>w. R (pool_journal w)) (pool_write a f)"
  by (auto simp: stays_def pool_write_def pool_journal_def split: prod.split)

lemma stays_vault_read: "stays (\<lambda>w. R (pool_journal w)) (vault_read a name)"
  by (simp add: stays_def vault_read_def pool_journal_def pass_step_def split: prod.split)

lemma stays_vault_write:
  "(\<And>fence env ke d v r d' v'. f fence env ke d v = (r, d', v') \<Longrightarrow> db_runtime_state d' = db_runtime_state d) \<Longrightarrow>
   stays (\<lambda>w. R (pool_journal w)) (vault_write a f)"
  by (auto simp: stays_def vault_write_def pool_journal_def split: prod.split)

lemma stays_on_outside: "stays (\<lambda>w. R (pool_journal w)) (on_outside f)" "stays (\<lambda>w. R (pool_journal w)) (on_published f)"
  by (simp_all add: stays_def on_outside_def on_published_def pool_journal_def pass_step_def split: prod.split)

lemma stays_map_result: "stays P f \<Longrightarrow> stays P (map_result g f)"
  by (auto simp: stays_def map_result_def split: prod.split)

lemmas pool_fields = pool_manager_def pool_store_def outside_files_def outside_runtime_def Let_def

lemma quiet_pool_reads: "quiet_reads (\<lambda>w. R (pool_journal w)) (pool_manager a o')"
  by (simp add: quiet_reads_def pool_fields stays_pool_read stays_vault_read stays_on_outside)
    (simp add: stays_def)

lemma quiet_pool_store: "quiet_store (\<lambda>w. R (pool_journal w)) (mg_Store (pool_manager a o'))"
  unfolding quiet_store_def
  by (simp add: pool_fields, intro conjI allI stays_pool_write stays_vault_write) (fact states_accounts states_routes states_secrets)+

lemma quiet_pool_outside: "quiet_outside (\<lambda>w. R (pool_journal w)) (pool_manager a o')"
  by (auto simp: quiet_outside_def pool_fields stays_on_outside)

lemma sum_mapped_Inl: "map_sum f g x = Inl y \<longleftrightarrow> (\<exists>z. x = Inl z \<and> y = f z)"
  by (cases x) auto

lemma mapped_option_Some: "Some y = map_option f x \<longleftrightarrow> (\<exists>z. x = Some z \<and> y = f z)"
  by (cases x) auto

lemma quiet_pool_prepared: "quiet_prepared (\<lambda>w. R (pool_journal w)) (pool_manager a o')"
  by (auto simp: quiet_prepared_def pool_fields yields_def map_result_def quiet_files_def quiet_runtime_def
      outside_files_transition_def outside_runtime_transition_def sum_mapped_Inr sum_mapped_Inl mapped_option_Some
      intro!: stays_map_result stays_on_outside split: prod.splits)

interpretation pool: operation_journal "pool_manager a o'" pool_journal
  for a :: lifecycle_around and o' :: "'x outside"
proof (rule operation_journal.intro)
  show "d = pool_journal w" if "ls_ReadRuntimeState (mg_Store (pool_manager a o')) lifecycleJournalStateName w = (Inr d, w')" for d w w'
    using that by (auto simp: pool_fields pool_read_def ReadRuntimeState_def attempt_Inr_iff pool_journal_def)
next
  show "pool_journal w' = Some (Some (json_norm doc))"
    if "ls_WriteRuntimeState (mg_Store (pool_manager a o')) lifecycleJournalStateName doc w = (Inr u, w')" for doc w w' u
    using that
    by (auto simp: pool_fields pool_write_def WriteRuntimeState_def attempt_Inr_iff pool_journal_def json_marshal_def pass_step_def
        split: prod.splits sum.splits if_splits dest!: writeTransaction_Inr(2))
next
  show "pool_journal w' = pool_journal w"
    if "ls_WriteRuntimeState (mg_Store (pool_manager a o')) lifecycleJournalStateName doc w = (Inl e, w')" for doc w w' e
    using that
    by (auto simp: pool_fields pool_write_def WriteRuntimeState_def pool_journal_def pass_step_def
        split: prod.splits sum.splits dest!: writeTransaction_Inl)
next
  show "pool_journal w' = None"
    if "ls_DeleteRuntimeState (mg_Store (pool_manager a o')) lifecycleJournalStateName w = (Inr u, w')" for w w' u
    using that
    by (auto simp: pool_fields pool_write_def DeleteRuntimeState_def attempt_Inr_iff pool_journal_def pass_step_def delete_conv'
        split: prod.splits sum.splits dest!: writeTransaction_Inr(2))
next
  show "pool_journal w' = pool_journal w"
    if "ls_DeleteRuntimeState (mg_Store (pool_manager a o')) lifecycleJournalStateName w = (Inl e, w')" for w w' e
    using that
    by (auto simp: pool_fields pool_write_def DeleteRuntimeState_def pool_journal_def pass_step_def
        split: prod.splits sum.splits dest!: writeTransaction_Inl)
qed (rule quiet_pool_reads quiet_pool_store quiet_pool_outside quiet_pool_prepared)+

section \<open>What a refused operation changes\<close>

text \<open>The inspection of the ports in use changes no file and no container.\<close>

definition ports_only_inspected :: "'x outside \<Rightarrow> bool" where
  "ports_only_inspected o' \<longleftrightarrow> (\<forall>d v x. snd (snd (snd (cr_ReservedHostPorts (ou_Runtime o') (d, v, x)))) = x)"

definition refused :: "'x pool_world \<Rightarrow> 'a outcome \<times> 'x pool_world \<Rightarrow> bool" where
  "refused w returned \<longleftrightarrow> (case returned of (out, w') \<Rightarrow> (\<exists>e. out = (None, Some (Plain e))) \<and>
     pw_control w' = pw_control w \<and> vt_rows (pw_vault w') = vt_rows (pw_vault w) \<and> pw_outside w' = pw_outside w)"

lemma create_key_rows: "create_key env ke v = (r, u) \<Longrightarrow> vt_rows u = vt_rows v"
  using create_key_cases by fastforce

lemma accept_key_rows: "accept_key ke key u = (r, v') \<Longrightarrow> vt_rows v' = vt_rows u"
  using accept_key_cases by fastforce

lemma encryptionKey_rows: "encryptionKey env ke v = (r, v') \<Longrightarrow> vt_rows v' = vt_rows v"
  by (auto simp: encryptionKey_def split: if_splits option.splits sum.splits prod.splits dest!: create_key_rows accept_key_rows)

lemma ReadSecret_rows: "ReadSecret c env ke name v = (r, v') \<Longrightarrow> vt_rows v' = vt_rows v"
  by (auto simp: ReadSecret_def decryptSecret_def Let_def split: if_splits sum.splits option.splits prod.splits dest!: encryptionKey_rows)

definition unchanged_since :: "'x pool_world \<Rightarrow> 'x pool_world \<Rightarrow> bool" where
  "unchanged_since w w' \<longleftrightarrow> pw_control w' = pw_control w \<and> vt_rows (pw_vault w') = vt_rows (pw_vault w) \<and> pw_outside w' = pw_outside w"

lemma unchanged_reads:
  "stays (unchanged_since w) (pool_read a f)" "stays (unchanged_since w) (vault_read a name)"
  "stays (unchanged_since w) (\<lambda>u. (g u, pass_step u))"
  by (auto simp: stays_def pool_read_def vault_read_def unchanged_since_def pass_step_def split: prod.splits dest!: ReadSecret_rows)

lemma unchanged_ports:
  assumes "ports_only_inspected o'"
  shows "stays (unchanged_since w) (on_outside (cr_ReservedHostPorts (ou_Runtime o')))"
  unfolding stays_def
proof (intro allI impI)
  fix u assume "unchanged_since w u"
  moreover obtain r d v x where r: "cr_ReservedHostPorts (ou_Runtime o') (beside u) = (r, d, v, x)" by (metis prod_cases4)
  moreover have "x = pw_outside u" using assms r unfolding ports_only_inspected_def beside_def by (metis snd_conv)
  ultimately show "unchanged_since w (snd (on_outside (cr_ReservedHostPorts (ou_Runtime o')) u))"
    by (simp add: on_outside_def unchanged_since_def pass_step_def)
qed

lemma quiet_unchanged: "ports_only_inspected o' \<Longrightarrow> quiet_reads (unchanged_since w) (pool_manager a o')"
  by (simp add: quiet_reads_def pool_fields unchanged_reads unchanged_ports)

lemma refusedI: "(\<exists>e. fst r = (None, Some (Plain e))) \<and> unchanged_since w (snd r) \<Longrightarrow> refused w r"
  by (auto simp: refused_def unchanged_since_def split: prod.split)

text \<open>
  C11: as long as the journal of an interrupted operation is there, no account is changed. Creating, updating (its policy
  or its data), deleting an account and clearing its OAuth files all fail before their first step: with an ordinary error,
  the control plane, the secrets, the files and the containers as they were. (That inspecting the ports in use changes
  nothing is assumed of the runtime.)
\<close>

theorem unfinished_operation_blocks_changes:
  assumes "pool_journal w \<noteq> None" and "ports_only_inspected o'"
  shows "refused w (CreateAccount (pool_manager a o') creation w) \<and> refused w (UpdateAccount (pool_manager a o') change w) \<and>
    refused w (DeleteAccount (pool_manager a o') deletion w) \<and> refused w (ClearAuth (pool_manager a o') accountID w)"
proof -
  note blocked = pool.operations_blocked [OF assms(1) quiet_unchanged [OF assms(2)], of w]
  have refl: "unchanged_since w w" by (simp add: unchanged_since_def)
  show ?thesis by (intro conjI) (rule refusedI, rule blocked [OF refl prod.collapse [symmetric]])+
qed

section \<open>What the journal tells\<close>

text \<open>The error says that something is left to recover: a compensation that failed, or a journal that could not be removed.\<close>

definition unfinished :: "'a outcome \<Rightarrow> bool" where
  "unfinished out \<longleftrightarrow> (case snd out of Some (Compensated c (Some r)) \<Rightarrow> True | Some (Unfinished f e) \<Rightarrow> True | _ \<Rightarrow> False)"

definition journal_tells :: "'a outcome \<times> 'x pool_world \<Rightarrow> bool" where
  "journal_tells returned \<longleftrightarrow> (pool_journal (snd returned) \<noteq> None \<longleftrightarrow> unfinished (fst returned))"

lemma journal_tellsI: "pool.settled (snd r) (fst r) \<Longrightarrow> journal_tells r"
  by (auto simp: journal_tells_def unfinished_def pool.settled_def split: if_splits)

text \<open>
  C10: the journal tells what an operation left behind. An operation on an account that starts without a journal ends
  without one exactly if it succeeded, failed before its first step, or failed and took back everything it had done; if
  taking back failed, or the journal could not be removed, the journal is there and the error says so. The recovery
  removes the journal if it succeeds and leaves it as it was if it fails.
\<close>

theorem journal_tells_unfinished_work:
  assumes "pool_journal w = None"
  shows "journal_tells (CreateAccount (pool_manager a o') creation w) \<and> journal_tells (UpdateAccount (pool_manager a o') change w) \<and>
    journal_tells (DeleteAccount (pool_manager a o') deletion w) \<and> journal_tells (ClearAuth (pool_manager a o') accountID w) \<and>
    (case Recover (pool_manager a o') u of (Inl e, u') \<Rightarrow> pool_journal u' = pool_journal u | (Inr _, u') \<Rightarrow> pool_journal u' = None)"
proof -
  note settled = pool.operations_settled [OF assms prod.collapse [symmetric]]
  have "case Recover (pool_manager a o') u of (Inl e, u') \<Rightarrow> pool_journal u' = pool_journal u | (Inr _, u') \<Rightarrow> pool_journal u' = None"
    using pool.Recover_cases [of a o' u] by (auto split: prod.split sum.split)
  then show ?thesis by (intro conjI) (rule journal_tellsI, rule settled)+
qed

section \<open>Interrupted operations\<close>

text \<open>
  What the manager and the rest of the program do over time. A process that stops has done some of the steps of an
  operation: the journal is written by \<open>beginOperation\<close> and \<open>advanceOperation\<close> and removed by \<open>finishOperation\<close>; every
  other step, and everything the other processes do, leaves it alone.
\<close>

inductive manager_step :: "lifecycle_around \<Rightarrow> 'x outside \<Rightarrow> 'x pool_world \<Rightarrow> 'x pool_world \<Rightarrow> bool"
  for a :: lifecycle_around and o' :: "'x outside" where
  creates: "manager_step a o' w (snd (CreateAccount (pool_manager a o') creation w))"
| updates: "manager_step a o' w (snd (UpdateAccount (pool_manager a o') change w))"
| deletes: "manager_step a o' w (snd (DeleteAccount (pool_manager a o') deletion w))"
| clears: "manager_step a o' w (snd (ClearAuth (pool_manager a o') accountID w))"
| recovers: "manager_step a o' w (snd (Recover (pool_manager a o') w))"
| begins: "manager_step a o' w (snd (beginOperation (pool_manager a o') kind accountID newAccountID w))"
| advances: "manager_step a o' w (snd (advanceOperation (pool_manager a o') p phase backup w))"
| finishes: "manager_step a o' w (snd (finishOperation (pool_manager a o') p w))"
| elsewhere: "pool_journal w' = pool_journal w \<Longrightarrow> manager_step a o' w w'"

lemma parse_field: "mg_ParseUUID (pool_manager a o') = la_ParseUUID a"
  by (simp add: pool_manager_def)

lemma manager_step_valid: "manager_step a o' w w' \<Longrightarrow> pool.valid_journal a o' w \<Longrightarrow> pool.valid_journal a o' w'"
proof (induction rule: manager_step.induct)
  case (elsewhere w' w)
  then show ?case by (simp add: pool.valid_journal_def)
qed (auto intro: pool.operations_valid pool.steps_valid)

text \<open>
  C9: every interrupted operation can be recovered. Start without a journal, let the manager run any operations, complete
  or stopped after any of their steps, and let the rest of the program do anything else. If a journal is there, then
  the next process can read it (unless the store cannot be read), it is the record of an operation, and it is valid:
  recovery is never refused because of the journal and continues with that very operation.
\<close>

theorem interrupted_operation_can_be_recovered:
  assumes "(manager_step a o')\<^sup>*\<^sup>* w0 w" and "pool_journal w0 = None" and "pool_journal w \<noteq> None"
    and "read_journal (pool_manager a o') w = (Inr found, w')"
  shows "\<exists>p. found = Some p \<and> pool_journal w = Some (Some (json_norm (operation_json p))) \<and>
    validateOperation (la_ParseUUID a) p = None \<and>
    Recover (pool_manager a o') w =
      (if op_Kind p = operationPolicy then recover_policy (pool_manager a o') p w'
       else recover_operation (pool_manager a o') p w')"
proof -
  have "pool.valid_journal a o' w"
    using assms(1) by (induction rule: rtranclp_induct) (simp add: pool.valid_journal_def assms(2), erule (1) manager_step_valid)
  from pool.stored_operation [OF this assms(3,4)] obtain p where
    p: "found = Some p" "pool_journal w = Some (Some (json_norm (operation_json p)))" "validateOperation (la_ParseUUID a) p = None"
    by (auto simp: pool.proper_def parse_field)
  then have "Recover (pool_manager a o') w =
      (if op_Kind p = operationPolicy then recover_policy (pool_manager a o') p w' else recover_operation (pool_manager a o') p w')"
    using assms(4) by (simp add: Recover_def and_do_def wrap_do_def wrapping_def parse_field)
  with p show ?thesis by blast
qed

section \<open>The port of a new account\<close>

lemma and_do_Inr: "and_do f k w = (Inr y, w') \<longleftrightarrow> (\<exists>x w1. f w = (Inr x, w1) \<and> k x w1 = (Inr y, w'))"
  by (auto simp: and_do_def split: prod.split sum.split)

lemma wrap_do_Inr: "wrap_do text f w = (Inr y, w') \<longleftrightarrow> f w = (Inr y, w')"
  by (auto simp: wrap_do_def wrapping_def split: prod.split sum.split)

lemma lift_do_Inr: "lift_do r w = (Inr y, w') \<longleftrightarrow> r = Inr y \<and> w' = w"
  by (auto simp: lift_do_def)

text \<open>
  C26: a new account gets a free port. The port lies in the configured range and between 1024 and 65535, it is neither of
  the two ports of the program itself, no account of the control plane has it and Docker reserves it for no container;
  and it is the first such port of the range.
\<close>

theorem allocated_port_is_free:
  assumes "allocatePort (pool_manager a o') w = (Inr port, w')"
    and "ReadSettings (la_env a (pw_step w)) (pw_control w) = Inr settings"
    and "portSetting settings ''accounts.port_start'' defaultAccountPortStart = Inr start"
    and "portSetting settings ''accounts.port_end'' defaultAccountPortEnd = Inr stop"
    and "cr_ReservedHostPorts (ou_Runtime o') (beside w) = (Inr reserved, s)"
  shows "start \<le> port \<and> port \<le> stop \<and> 1024 \<le> port \<and> port \<le> 65535 \<and>
    port \<notin> {8317, 8318} \<union> ar_port ` set (db_accounts (pw_control w)) \<union> set reserved \<and>
    {start..<port} \<subseteq> {8317, 8318} \<union> ar_port ` set (db_accounts (pw_control w)) \<union> set reserved"
proof -
  let ?used = "{8317, 8318} \<union> ar_port ` set (db_accounts (pw_control w)) \<union> set reserved"
  have accounts: "ac_Port ` account_of_row ` set rows = ar_port ` set rows" for rows
    by (simp add: image_image account_of_row_def)
  have "beside (pass_step (pass_step w)) = beside w" by (simp add: beside_def pass_step_def)
  then have range: "1024 \<le> start" "stop \<le> 65535" and free: "free_port start stop ?used = Some port"
    using assms
    by (auto simp: allocatePort_def and_do_Inr wrap_do_Inr lift_do_Inr pool_fields pool_read_def on_outside_def ReadAccounts_def
        attempt_Inr_iff accounts pass_step_def Un_commute Un_left_commute split: if_splits option.splits prod.splits)
  then obtain i where i: "i < length [start..stop]" "[start..stop] ! i = port" "port \<notin> ?used" "\<forall>j < i. [start..stop] ! j \<in> ?used"
    unfolding free_port_def find_Some_iff by blast
  then have port: "port = start + int i" "port \<le> stop" by (simp_all add: nth_upto)
  moreover have "{start..<port} \<subseteq> ?used"
  proof
    fix p assume "p \<in> {start..<port}"
    then have "nat (p - start) < i" "[start..stop] ! nat (p - start) = p" using port by (auto simp: nth_upto)
    then show "p \<in> ?used" using i(4) by metis
  qed
  ultimately show ?thesis using range i(3) by auto
qed

section \<open>An example\<close>

text \<open>An outside without files, containers and gateways, where every step succeeds; Docker reserves one port.\<close>

definition ex_outside :: "unit outside" where
  "ex_outside =
     (let fine = (\<lambda>w. (Inr (), w)); files = \<lparr>ft_BackupPath = [], ft_Commit = fine, ft_Rollback = fine\<rparr>;
          runtime = \<lparr>tn_Commit = fine, tn_Rollback = fine\<rparr>
      in \<lparr>ou_Files = \<lparr>fl_PrepareCreate = (\<lambda>_ _ w. (Inr files, w)), fl_PrepareUpdate = (\<lambda>_ _ _ _ w. (Inr files, w)),
            fl_PrepareDelete = (\<lambda>_ _ _ w. (Inr files, w)), fl_PrepareAuthClear = (\<lambda>_ _ _ w. (Inr files, w)),
            fl_Recover = (\<lambda>_ _. fine)\<rparr>,
          ou_Render = fine, ou_Publish = (\<lambda>w. (Inr ''gen'', w)),
          ou_Runtime = \<lparr>cr_ReservedHostPorts = (\<lambda>w. (Inr [18319], w)), cr_PrepareCreate = (\<lambda>_ w. (Inr runtime, w)),
            cr_PrepareUpdate = (\<lambda>_ _ w. (Inr runtime, w)), cr_PrepareDelete = (\<lambda>_ w. (Inr runtime, w)),
            cr_RestartAccount = (\<lambda>_. fine), cr_ReconcileAccount = (\<lambda>_ _. fine)\<rparr>,
          ou_WaitAccountDrained = Some (\<lambda>_. fine), ou_NewUUID = (\<lambda>_. ''uuid'')\<rparr>)"

definition ex_around :: lifecycle_around where
  "ex_around = \<lparr>la_fence = [], la_env = (\<lambda>_. env_at 9 []), la_key = (\<lambda>_. ex_key_env), la_cipher = ex_cipher,
     la_ParseUUID = (\<lambda>_. None), la_ParseAddress = Some, la_ParseURL = (\<lambda>_. None)\<rparr>"

definition ex_pool :: "unit pool_world" where
  "ex_pool = \<lparr>pw_step = 0, pw_control = empty_db, pw_vault = empty_vault, pw_outside = ()\<rparr>"

definition ex_begun :: "(gerr + operation) \<times> unit pool_world" where
  "ex_begun = beginOperation (pool_manager ex_around ex_outside) operationCreate ''a1'' [] ex_pool"

lemma ex_none: "pool_journal ex_pool = None" by (simp add: pool_journal_def ex_pool_def empty_db_def)

lemma ex_begin: "pool_journal (snd ex_begun) = None \<longleftrightarrow> False"
  by code_simp

lemma ex_read: "projr (fst (read_journal (pool_manager ex_around ex_outside) (snd ex_begun))) = None \<longleftrightarrow> False"
  "isl (fst (read_journal (pool_manager ex_around ex_outside) (snd ex_begun))) \<longleftrightarrow> False"
  by code_simp+

lemma ex_port: "fst (allocatePort (pool_manager ex_around ex_outside) ex_pool) = Inr 18320"
  by code_simp

lemma ex_inspected: "ports_only_inspected ex_outside"
  by (simp add: ports_only_inspected_def ex_outside_def Let_def)

theorem unfinished_operation_blocks_changes_witness:
  "refused (snd ex_begun) (ClearAuth (pool_manager ex_around ex_outside) ''a2'' (snd ex_begun))"
proof -
  from ex_begin have "pool_journal (snd ex_begun) \<noteq> None" by simp
  from unfinished_operation_blocks_changes [OF this ex_inspected] show ?thesis by blast
qed

definition ex_request :: create_request where
  "ex_request = \<lparr>cq_ID = ''a1'', cq_Email = ''a1@x.io'', cq_ProxyMode = ''direct'', cq_ProxyURL = []\<rparr>"

text \<open>The files cannot be prepared; nothing has been done, the journal is closed.\<close>

definition ex_broken :: "unit outside" where
  "ex_broken = ex_outside\<lparr>ou_Files := (ou_Files ex_outside)\<lparr>fl_PrepareCreate := (\<lambda>_ _ w. (Inl (ErrNew ''disk''), w))\<rparr>\<rparr>"

lemma ex_failed: "snd (fst (CreateAccount (pool_manager ex_around ex_broken) ex_request ex_pool)) = Some (Compensated (ErrNew ''disk'') None)"
  by code_simp

theorem journal_tells_unfinished_work_witness:
  "pool_journal (snd (CreateAccount (pool_manager ex_around ex_broken) ex_request ex_pool)) = None"
  using journal_tells_unfinished_work [OF ex_none, where a = ex_around and o' = ex_broken and creation = ex_request] ex_failed
  by (simp add: journal_tells_def unfinished_def)

theorem interrupted_operation_can_be_recovered_witness:
  "\<exists>p w'. read_journal (pool_manager ex_around ex_outside) (snd ex_begun) = (Inr (Some p), w') \<and>
     validateOperation (la_ParseUUID ex_around) p = None"
proof -
  have run: "(manager_step ex_around ex_outside)\<^sup>*\<^sup>* ex_pool (snd ex_begun)"
    unfolding ex_begun_def by (rule r_into_rtranclp) (rule manager_step.begins)
  have journal: "pool_journal (snd ex_begun) \<noteq> None" using ex_begin by simp
  obtain r w' where r: "read_journal (pool_manager ex_around ex_outside) (snd ex_begun) = (r, w')" by fastforce
  then obtain found where "r = Inr found" using ex_read(2) by (cases r) simp_all
  with r interrupted_operation_can_be_recovered [OF run ex_none journal] show ?thesis by blast
qed

theorem allocated_port_is_free_witness:
  "fst (allocatePort (pool_manager ex_around ex_outside) ex_pool) = Inr 18320 \<and> (18320::int) \<notin> {8317, 8318} \<union> {18319}"
proof -
  obtain w' where run: "allocatePort (pool_manager ex_around ex_outside) ex_pool = (Inr 18320, w')"
    using ex_port by (metis prod.collapse)
  have settings: "ReadSettings (la_env ex_around (pw_step ex_pool)) (pw_control ex_pool) = Inr []"
    by (simp add: ReadSettings_def attempt_def ex_around_def env_at_def ex_pool_def empty_db_def)
  have ports: "portSetting [] ''accounts.port_start'' defaultAccountPortStart = Inr defaultAccountPortStart"
    "portSetting [] ''accounts.port_end'' defaultAccountPortEnd = Inr defaultAccountPortEnd"
    by (simp_all add: portSetting_def optionalIntegerSetting_def Let_def and_then_def)
  have "cr_ReservedHostPorts (ou_Runtime ex_outside) (beside ex_pool) = (Inr [18319], beside ex_pool)"
    by (simp add: ex_outside_def Let_def)
  from allocated_port_is_free [OF run settings ports this] run show ?thesis by simp
qed

end
