(* ===== verification/Spec2Isabelle.thy ===== *)
theory Spec2Isabelle
  imports Gateway_Proofs Control_Settings Controller_Proofs Keys_Proofs Catalog_Proofs Publisher_Proofs Portal_Proofs Collector_Config_Proofs Secrets_Proofs Pool_Proofs
begin

text \<open>
  A model of the Go program codex-cpa-pool and what makes it correct. The program pools several upstream
  accounts behind one gateway: operators give users external keys, the control plane (an SQLite store) records
  accounts, keys and routes, a worker publishes snapshot files, the gateway authenticates requests against the
  snapshots and forwards them to the account of the user, and a failover controller moves users away from
  accounts whose weekly quota is used up. Paths below are relative to \<open>src/internal/\<close>.

  \<^bold>\<open>The language and the library.\<close> \<open>Go_Prelude\<close> holds the Go vocabulary: strings as byte lists, trimming and
  lower case (ASCII and the Unicode spaces and letters the code can meet), insertion-ordered maps (\<open>gomap\<close>), sets,
  stable sorting by a less function (the locale \<open>go_less\<close>, interpreted by the less functions of the planner),
  64-bit integers with their wrap-around, error values (\<open>gerr\<close>) and their chaining. \<open>Go_Float\<close> is IEEE double
  arithmetic over exact rationals with one rounding, \<open>Go_Json\<close> decoded JSON and the decoding into structs,
  \<open>Go_Utf8\<close> UTF-8, \<open>Go_Sha256\<close> the hash of the standard library. A JSON text the program both writes and reads is
  its value tree; text from elsewhere comes as such a tree, or as text that is not JSON.

  \<^bold>\<open>The control plane\<close> (\<open>controlplane/\<close>). \<open>Control_Store\<close>: the tables as the record \<open>db\<close>, the lock, write
  transactions with rollback, leases (\<open>lease.go\<close>) and write fences, runtime states. Every call of the system
  can fail, as the environment \<open>env\<close> of an operation says; the operations return the error and the store they
  leave. \<open>Lease_Proofs\<close>: over any run of the inductive relation \<open>store_step\<close> (the operations of any number of
  processes, interleaved) an older lease never passes the fence again, a held lease is exclusive and its
  holder is admitted. \<open>Control_Routes\<close> and \<open>Routes_Proofs\<close> (\<open>routes.go\<close>): expected-value route updates move
  everything or nothing and are undone by their restoration. \<open>Control_Settings\<close>: the settings table.
  \<open>Control_Tx\<close> is the transaction monad (\<open>then_tx\<close>, \<open>exec\<close>, \<open>query\<close>) of the larger transactions and the tables'
  constraints; \<open>Control_Keys\<close> (\<open>records.go\<close>) the rotation of keys and the internal keys; \<open>User_Lifecycle\<close>
  (\<open>user_lifecycle.go\<close>) and \<open>Account_Lifecycle\<close> (\<open>account_lifecycle.go\<close>) the creation, change, revocation and
  deletion of users and accounts with their rollbacks. \<open>Row_Proofs\<close> has the calculus \<open>keeps\<close> (a transaction
  keeps an invariant) and the algebra of marked and numbered rows the proofs share; \<open>Keys_Proofs\<close>,
  \<open>Lifecycle_Proofs\<close> and \<open>Catalog_Proofs\<close> give the effect of each operation and show that each rollback restores
  the store; \<open>Schema_Proofs\<close> shows that the constraints of the tables are an invariant of all of them.

  \<^bold>\<open>Quota and failover\<close> (\<open>quota/\<close>, \<open>failover/\<close>). \<open>Quota_Normalize\<close>: the upstream payload becomes bounded weekly
  windows. \<open>Quota_State\<close>: the refresh run, its persisted state and the refresh requests. \<open>Account_States\<close> and
  \<open>Account_Proofs\<close>: quota becomes capacity, failing closed. \<open>Failover_Planner\<close>: evacuation and rebalance plans;
  they are sound, complete, independent of the order of the input, and the rebalance meets its weighted targets exactly.
  \<open>Failover_Service\<close> and \<open>Failover_Proofs\<close>: applying a plan, publishing it and rolling it back; the locale
  \<open>route_contract\<close> is what the service needs of the store, interpreted by the control plane's operations.
  \<open>Failover_Controller\<close> and \<open>Controller_Proofs\<close>: a run of the controller over its interfaces, wired to the
  control plane: every moved user left an exhausted account for one with headroom, and every run is recorded.
  \<open>Auth_Publisher\<close> and \<open>Publisher_Proofs\<close> (\<open>failover/auth_snapshot.go\<close>, \<open>snapshotfile/\<close>): the authentication snapshot is
  built under the fence, replaces its file whole, and the gateway that loads it decides as the store says; the
  wait for a gateway is a \<open>partial_function\<close>, and it is shown exactly when it returns.

  \<^bold>\<open>The gateway\<close> (\<open>gateway/\<close>, \<open>reasoningpolicy/\<close>). \<open>Gateway_Snapshot\<close>: public paths, bearer keys, the parsers of the
  three snapshot files. \<open>Gateway_Engine\<close>: loading, authorization, quota refusal, status, the refresh of the files.
  \<open>Gateway_Proofs\<close>: for any history of loads, authentication and refusal are characterised exactly, the
  status follows the generations, and the refresh implements the loads. \<open>Reasoning_Policy\<close>: the rewriting of the
  requested reasoning effort enforces the operator's limit.

  \<^bold>\<open>Usage and its collector\<close> (\<open>usage/\<close>, \<open>collector/\<close>, \<open>sitetime/\<close>). \<open>Usage_Event\<close>: a request record becomes an event, with
  its multipliers and its key. \<open>Usage_Writer\<close>: the usage database as the record \<open>usage_db\<close>, ingestion, the weekly counters
  and their rebuild, identities, time zones. \<open>Usage_Quota\<close>: the weekly quota of every user and the bulk actions of the
  operator. \<open>Usage_Portal\<close>: sessions, credentials and policies of the portal, and the writes under the ownership fence.
  \<open>Usage_Proofs\<close>: over any run of \<open>usage_step\<close> the counters are the sums of the stored events, a rebuild agrees with
  ingestion, a repeated delivery counts once, weeks partition time; \<open>Usage_Quota_Proofs\<close>: quotas are what the events
  say; \<open>Portal_Proofs\<close>: sessions end when they say and when the password changes. \<open>Quota_Publisher\<close> and
  \<open>Quota_Publisher_Proofs\<close>: the quota snapshot and the heartbeat, and that the gateway which reads them refuses by the
  stored events. \<open>Collector_Queue\<close>: the queue of records over a Redis connection and its draining; \<open>Collector_Runtime\<close>:
  a round and the rebuild over interfaces; \<open>Collector_Config\<close>: the configuration read from the settings;
  \<open>Collector_World\<close>: the collector as the process starts it. \<open>Collector_Proofs\<close>: draining delivers everything in order, a
  round keeps what its operations keep (the locales \<open>round_ops\<close> and \<open>round_all\<close>, interpreted by the
  started collector), a stale collector changes nothing, a failed round never counts as a success;
  \<open>Collector_Config_Proofs\<close>: an accepted configuration is usable.

  \<^bold>\<open>Secrets\<close> (\<open>controlplane/store.go\<close>). \<open>Control_Secrets\<close>: the key file, the key a handle holds and the table of encrypted
  secrets, as the record \<open>vault\<close>. \<open>Secrets_Proofs\<close>: over any run of \<open>vault_step\<close>, whichever call fails, every stored
  secret can still be decrypted with the key file, and what was written is read back.

  \<^bold>\<open>The account lifecycle manager\<close> (\<open>accountlifecycle/\<close>). \<open>Lifecycle_Journal\<close>: its interfaces as records of operations on an
  abstract world, and the journal of the operation under way (\<open>journal.go\<close>); \<open>Lifecycle_Routes\<close>: moving the users off
  an account and back (\<open>routes.go\<close>); \<open>Lifecycle_Manager\<close>: creating, changing, deleting an account and clearing its OAuth
  files, each a chain of steps with the compensation of the steps before (\<open>manager.go\<close>, \<open>policy.go\<close>; \<open>or_undo\<close> is a step
  with its compensation); \<open>Lifecycle_Recovery\<close>: what the next process does with an interrupted operation;
  \<open>Lifecycle_World\<close>: the manager over the control plane and its secrets. \<open>Manager_Proofs\<close> has the calculus \<open>stays\<close> (a step
  keeps an invariant) and the locale \<open>lifecycle_steps\<close>; \<open>Journal_Proofs\<close> the locale \<open>operation_journal\<close> of what the journal's
  store promises, a sublocale of the first for two invariants; \<open>Pool_Proofs\<close> interprets it by the control plane:
  nothing starts over an unfinished operation, the journal tells what an operation left behind, it can always be read
  and recovered, and a new account gets a free port.

  \<^bold>\<open>Loops and fuel.\<close> Recursion is structural or has a measure (batches of 500 rows, the plans' loops over lists); the
  recursions over bounded counters carry their bound (64 rounds of SHA-256). The loops without a bound are \<open>partial_function\<close>s:
  the wait for a gateway (\<open>wait_loop\<close>), which is shown exactly when it returns, and the draining of a queue (\<open>drain_loop\<close>),
  which is shown to end when the queue does. Time is an integer of nanoseconds or seconds, as the code has it.

  \<^bold>\<open>Parameters.\<close> The upstream HTTP calls, OAuth files and proxies, the answers of gateways, \<open>mail.ParseAddress\<close>,
  \<open>url.Parse\<close>, path functions, random bytes and UUIDs, the length of an encoded document, the failures of
  system calls, the Redis server and the decoder of queue items, time zones and \<open>fmt.Sprint\<close> of floats (\<open>usage_lib\<close>), AES-GCM
  (\<open>cipher\<close>) and the calls on the key file (\<open>key_env\<close>), and, for the lifecycle manager, the files, containers and the
  rendering and publishing around it (\<open>outside\<close>) are arguments of the definitions. A run that spans operations takes the
  environment of each by its number. SQLite adds integers within 64 bits or fails; the models of the usage database say
  where a sum would leave them.

  \<^bold>\<open>Not modelled.\<close> The HTTP servers and proxies (\<open>gateway/server.go\<close>, \<open>edge/\<close>, \<open>portal/\<close>, \<open>admin/\<close>), which are handlers over
  net/http and gin; the container engine (\<open>runtimeops/\<close>) and the files of the accounts (\<open>accountlifecycle/files.go\<close>,
  \<open>accountprojection/\<close>, \<open>accountstatus/\<close>), which are system calls; the SQL aggregations of reports (\<open>usage/store.go\<close>, trends);
  notifications, reports, translations and static files; the generated API (\<open>contract/\<close>); the process wiring (\<open>cmd/\<close>),
  except how the collector and the manager are put together. Of the control plane: opening and migrating the
  databases, team catalogs and paged listings.
\<close>

end
